(* ===== verification/RonorPrelude.thy ===== *)
theory RonorPrelude imports Complex_Main "HOL-Library.Sublist" begin

text \<open>
  Shared vocabulary of the development: the numbers of the source language, the rows of an
  embedded SQL table, optional values, and the lemma collections the component theories use.

  A JavaScript \<open>number\<close> is modelled by \<open>jsnum\<close>: a finite value, one of the two infinities or
  \<open>NaN\<close>.  Comparisons follow the language (every comparison with \<open>NaN\<close> is false), because the
  guards of the program are comparisons and their behaviour on \<open>NaN\<close> is part of what they decide.
  Finite values are rationals; a finite double is one, so comparisons are exact.
\<close>

section \<open>Collections of facts\<close>

named_theorems js_simps \<open>evaluation of the number operations\<close>
named_theorems table_simps \<open>insertion, lookup and update of table rows\<close>

section \<open>Numbers\<close>

datatype jsnum = Num rat | PosInf | NegInf | NaN

fun js_less :: "jsnum \<Rightarrow> jsnum \<Rightarrow> bool" where
  "js_less (Num a) (Num b) = (a < b)"
| "js_less NegInf (Num b) = True"
| "js_less NegInf PosInf = True"
| "js_less (Num a) PosInf = True"
| "js_less _ _ = False"

definition js_eq :: "jsnum \<Rightarrow> jsnum \<Rightarrow> bool" where
  "js_eq x y \<longleftrightarrow> x \<noteq> NaN \<and> x = y"

definition js_le :: "jsnum \<Rightarrow> jsnum \<Rightarrow> bool" where
  "js_le x y \<longleftrightarrow> js_less x y \<or> js_eq x y"

fun js_abs :: "jsnum \<Rightarrow> jsnum" where
  "js_abs (Num a) = Num \<bar>a\<bar>"
| "js_abs NegInf = PosInf"
| "js_abs x = x"

fun js_minus :: "jsnum \<Rightarrow> jsnum \<Rightarrow> jsnum" where
  "js_minus (Num a) (Num b) = Num (a - b)"
| "js_minus (Num a) PosInf = NegInf"
| "js_minus (Num a) NegInf = PosInf"
| "js_minus PosInf (Num b) = PosInf"
| "js_minus PosInf NegInf = PosInf"
| "js_minus NegInf (Num b) = NegInf"
| "js_minus NegInf PosInf = NegInf"
| "js_minus _ _ = NaN"

fun js_add :: "jsnum \<Rightarrow> jsnum \<Rightarrow> jsnum" where
  "js_add (Num a) (Num b) = Num (a + b)"
| "js_add (Num a) y = y"
| "js_add x (Num b) = x"
| "js_add PosInf PosInf = PosInf"
| "js_add NegInf NegInf = NegInf"
| "js_add _ _ = NaN"

fun js_min :: "jsnum \<Rightarrow> jsnum \<Rightarrow> jsnum" where
  "js_min x y = (if x = NaN \<or> y = NaN then NaN else if js_less y x then y else x)"

fun js_finite :: "jsnum \<Rightarrow> bool" where
  "js_finite (Num a) = True"
| "js_finite _ = False"

definition js_int :: "int \<Rightarrow> jsnum" where
  "js_int i = Num (of_int i)"

lemma js_le_Num [simp, js_simps]: "js_le (Num a) (Num b) \<longleftrightarrow> a \<le> b"
  by (auto simp: js_le_def js_eq_def)

lemma js_le_NaN [simp, js_simps]: "\<not> js_le NaN x" "\<not> js_le x NaN"
  by (cases x; simp add: js_le_def js_eq_def)+

lemma js_less_NaN [simp, js_simps]: "\<not> js_less NaN x" "\<not> js_less x NaN"
  by (cases x; simp)+

lemma js_le_trans: "js_le x y \<Longrightarrow> js_le y z \<Longrightarrow> js_le x z"
  by (cases x; cases y; cases z) (auto simp: js_le_def js_eq_def)

lemma js_le_less_trans: "js_le x y \<Longrightarrow> js_less y z \<Longrightarrow> js_less x z"
  by (cases x; cases y; cases z) (auto simp: js_le_def js_eq_def)

lemma js_int_le [simp, js_simps]: "js_le (js_int a) (js_int b) \<longleftrightarrow> a \<le> b"
  by (simp add: js_int_def)

lemma js_int_less [simp, js_simps]: "js_less (js_int a) (js_int b) \<longleftrightarrow> a < b"
  by (simp add: js_int_def)

lemma js_int_minus [simp, js_simps]: "js_minus (js_int a) (js_int b) = js_int (a - b)"
  by (simp add: js_int_def)

text \<open>
  \<open>toFixed(d)\<close> followed by the unary plus, on an exact argument: the nearest multiple of
  \<open>10^-d\<close>, a tie going away from zero.
\<close>

definition to_fixed :: "nat \<Rightarrow> rat \<Rightarrow> rat" where
  "to_fixed d x =
     (let s = 10 ^ d; m = of_int \<lfloor>\<bar>x\<bar> * s + 1 / 2\<rfloor> / s in if x < 0 then - m else m)"

text \<open>\<open>Math.round\<close>: the nearest integer, a tie going up.\<close>

definition math_round :: "rat \<Rightarrow> int" where
  "math_round x = \<lfloor>x + 1 / 2\<rfloor>"

lemma math_round_of_int [simp]: "math_round (of_int i) = i"
  unfolding math_round_def by (rule floor_unique) auto

definition math_ceil :: "rat \<Rightarrow> int" where
  "math_ceil x = \<lceil>x\<rceil>"

lemma to_fixed_mono_nonneg:
  assumes "0 \<le> x" "x \<le> y"
  shows "to_fixed d x \<le> to_fixed d y"
proof -
  have "\<lfloor>x * 10 ^ d + 1 / 2\<rfloor> \<le> \<lfloor>y * 10 ^ d + 1 / 2\<rfloor>"
    using assms by (intro floor_mono) simp
  then show ?thesis
    using assms by (simp add: to_fixed_def Let_def divide_right_mono)
qed

lemma to_fixed_nonneg: "0 \<le> x \<Longrightarrow> 0 \<le> to_fixed d x"
  by (simp add: to_fixed_def Let_def add_increasing)

lemma floor_half [simp]: "\<lfloor>1 / 2 :: rat\<rfloor> = 0"
  by (rule floor_unique) auto

lemma to_fixed_0 [simp]: "to_fixed d 0 = 0"
  by (simp add: to_fixed_def Let_def)

lemma to_fixed_minus: "to_fixed d (- x) = - to_fixed d x"
  by (cases "x = 0") (auto simp: to_fixed_def Let_def)

lemma to_fixed_mono: "x \<le> y \<Longrightarrow> to_fixed d x \<le> to_fixed d y"
proof -
  assume le: "x \<le> y"
  consider "0 \<le> x" | "x < 0" "0 \<le> y" | "y < 0" by linarith
  then show ?thesis
  proof cases
    case 1
    then show ?thesis using le by (rule to_fixed_mono_nonneg)
  next
    case 2
    have "0 \<le> to_fixed d (- x)" "0 \<le> to_fixed d y"
      using 2 by (auto intro: to_fixed_nonneg)
    then show ?thesis by (simp add: to_fixed_minus)
  next
    case 3
    then have "to_fixed d (- y) \<le> to_fixed d (- x)"
      using le by (intro to_fixed_mono_nonneg) auto
    then show ?thesis by (simp add: to_fixed_minus)
  qed
qed

section \<open>Optional values\<close>

text \<open>The nullish-coalescing operator \<open>a ?? b\<close>.\<close>

definition nullish :: "'a option \<Rightarrow> 'a \<Rightarrow> 'a" where
  "nullish a b = (case a of None \<Rightarrow> b | Some x \<Rightarrow> x)"

lemma nullish_simps [simp]: "nullish None b = b" "nullish (Some x) b = x"
  by (simp_all add: nullish_def)

text \<open>The truthy strings: an optional string that is present and not empty.\<close>

definition truthy_str :: "string option \<Rightarrow> bool" where
  "truthy_str s \<longleftrightarrow> s \<noteq> None \<and> s \<noteq> Some ''''"

section \<open>Characters\<close>

definition is_digit :: "char \<Rightarrow> bool" where
  "is_digit c \<longleftrightarrow> c \<in> set ''0123456789''"

definition is_lower :: "char \<Rightarrow> bool" where
  "is_lower c \<longleftrightarrow> c \<in> set ''abcdefghijklmnopqrstuvwxyz''"

definition is_upper :: "char \<Rightarrow> bool" where
  "is_upper c \<longleftrightarrow> c \<in> set ''ABCDEFGHIJKLMNOPQRSTUVWXYZ''"

definition is_alnum :: "char \<Rightarrow> bool" where
  "is_alnum c \<longleftrightarrow> is_digit c \<or> is_lower c \<or> is_upper c"

text \<open>White space among the single-byte characters, and \<open>trim\<close>.\<close>

definition is_space :: "char \<Rightarrow> bool" where
  "is_space c \<longleftrightarrow> c \<in> {CHR 0x09, CHR 0x0A, CHR 0x0B, CHR 0x0C, CHR 0x0D, CHR 0x20, CHR 0xA0}"

definition js_trim :: "string \<Rightarrow> string" where
  "js_trim s = rev (dropWhile is_space (rev (dropWhile is_space s)))"

text \<open>Splitting at runs of white space, without empty pieces, and at every occurrence of a character.\<close>

fun split_space :: "string \<Rightarrow> string \<Rightarrow> string list" where
  "split_space acc [] = (if acc = [] then [] else [rev acc])"
| "split_space acc (c # cs) =
     (if is_space c then (if acc = [] then split_space [] cs else rev acc # split_space [] cs)
      else split_space (c # acc) cs)"

fun split_on :: "char \<Rightarrow> string \<Rightarrow> string list" where
  "split_on d [] = [[]]"
| "split_on d (c # cs) =
     (if c = d then [] # split_on d cs
      else case split_on d cs of [] \<Rightarrow> [[c]] | p # ps \<Rightarrow> (c # p) # ps)"

section \<open>Table rows\<close>

text \<open>
  A table with a key column is a list of rows in insertion order.  \<open>row_find\<close> is
  \<open>SELECT * WHERE key = ?\<close> with \<open>get()\<close>; \<open>row_update\<close> is \<open>UPDATE ... WHERE key = ? AND p\<close>.
\<close>

definition row_find :: "('r \<Rightarrow> 'k) \<Rightarrow> 'k \<Rightarrow> 'r list \<Rightarrow> 'r option" where
  "row_find key k rs = find (\<lambda>r. key r = k) rs"

definition row_update :: "('r \<Rightarrow> bool) \<Rightarrow> ('r \<Rightarrow> 'r) \<Rightarrow> 'r list \<Rightarrow> 'r list" where
  "row_update p f rs = map (\<lambda>r. if p r then f r else r) rs"

definition row_changes :: "('r \<Rightarrow> bool) \<Rightarrow> 'r list \<Rightarrow> nat" where
  "row_changes p rs = length (filter p rs)"

lemma row_find_Nil [simp, table_simps]: "row_find key k [] = None"
  by (simp add: row_find_def)

lemma row_find_Cons [simp, table_simps]:
  "row_find key k (r # rs) = (if key r = k then Some r else row_find key k rs)"
  by (simp add: row_find_def)

lemma row_find_append [table_simps]:
  "row_find key k (rs @ ss) = (case row_find key k rs of None \<Rightarrow> row_find key k ss | Some r \<Rightarrow> Some r)"
  by (induction rs) auto

lemma row_find_None_iff: "row_find key k rs = None \<longleftrightarrow> k \<notin> key ` set rs"
  by (induction rs) auto

lemma row_find_SomeD: "row_find key k rs = Some r \<Longrightarrow> r \<in> set rs \<and> key r = k"
  by (induction rs) (auto split: if_splits)

lemma row_find_distinct:
  "distinct (map key rs) \<Longrightarrow> r \<in> set rs \<Longrightarrow> row_find key (key r) rs = Some r"
  by (induction rs) (auto simp: rev_image_eqI)

lemma row_update_keys [table_simps]:
  "(\<And>r. key (f r) = key r) \<Longrightarrow> map key (row_update p f rs) = map key rs"
  by (induction rs) (auto simp: row_update_def)

lemma row_find_update [table_simps]:
  assumes "\<And>r. key (f r) = key r"
  shows "row_find key k (row_update p f rs) = map_option (\<lambda>r. if p r then f r else r) (row_find key k rs)"
  by (induction rs) (auto simp: row_update_def assms)

lemma set_row_update: "r \<in> set (row_update p f rs) \<longleftrightarrow> (\<exists>q\<in>set rs. r = (if p q then f q else q))"
  by (auto simp: row_update_def)

lemma row_update_hit: "r \<in> set rs \<Longrightarrow> p r \<Longrightarrow> f r \<in> set (row_update p f rs)"
  by (auto simp: set_row_update intro!: bexI[of _ r])

lemma row_update_miss: "r \<in> set rs \<Longrightarrow> \<not> p r \<Longrightarrow> r \<in> set (row_update p f rs)"
  by (auto simp: set_row_update intro!: bexI[of _ r])

lemma row_update_none:
  "(\<And>q. q \<in> set rs \<Longrightarrow> \<not> p q) \<Longrightarrow> row_update p f rs = rs \<and> row_changes p rs = 0"
  by (auto simp: row_update_def row_changes_def filter_empty_conv intro!: map_idI)

lemma length_row_update [simp, table_simps]: "length (row_update p f rs) = length rs"
  by (simp add: row_update_def)

lemma row_changes_key:
  assumes "distinct (map key rs)" "r \<in> set rs"
  shows "row_changes (\<lambda>q. key q = key r \<and> p q) rs = (if p r then 1 else 0)"
  using assms
proof (induction rs)
  case Nil
  then show ?case by simp
next
  case (Cons q rs)
  show ?case
  proof (cases "key q = key r")
    case True
    with Cons.prems have "q = r"
      by (metis (no_types, lifting) distinct.simps(2) image_eqI list.set_map list.simps(9) set_ConsD)
    moreover have "filter (\<lambda>x. key x = key r \<and> p x) rs = []"
      using Cons.prems(1) True by (auto simp: filter_empty_conv rev_image_eqI)
    ultimately show ?thesis by (simp add: row_changes_def)
  next
    case False
    with Cons show ?thesis by (auto simp: row_changes_def)
  qed
qed

lemma row_changes_absent:
  "k \<notin> key ` set rs \<Longrightarrow> row_changes (\<lambda>q. key q = k \<and> p q) rs = 0"
  by (auto simp: row_changes_def filter_empty_conv)

text \<open>The next key of an \<open>AUTOINCREMENT\<close> column is one above a maximum taken by \<open>fold max\<close>.\<close>

lemma fold_max_ge: "(m :: int) \<le> fold max xs m"
proof (induction xs arbitrary: m)
  case (Cons x xs)
  then show ?case by (metis fold_simps(2) max.bounded_iff)
qed simp

lemma fold_max_upper: "x \<in> set xs \<Longrightarrow> x \<le> fold max xs (m :: int)"
proof (induction xs arbitrary: m)
  case (Cons y xs)
  then show ?case using fold_max_ge[of "max y m" xs] by auto
qed simp

section \<open>Scales of severity\<close>

text \<open>
  Several parts of the program combine findings by keeping the most severe one.  The interface:
  a rank that tells severities apart and a binary choice that keeps the operand of the higher
  rank.  Folding the choice over the findings from the mildest severity gives their maximum.
\<close>

locale severity_scale =
  fixes sev :: "'v \<Rightarrow> nat"
    and pick :: "'v \<Rightarrow> 'v \<Rightarrow> 'v"
    and mildest :: "'v"
  assumes sev_inj: "sev a = sev b \<Longrightarrow> a = b"
    and pick_eq: "pick a b = (if sev b \<le> sev a then a else b)"
    and mildest_least: "sev mildest \<le> sev a"
begin

lemma sev_pick: "sev (pick a b) = max (sev a) (sev b)"
  by (simp add: pick_eq max_def)

lemma pick_commute: "pick a b = pick b a"
  by (rule sev_inj) (simp add: sev_pick max.commute)

lemma pick_assoc: "pick (pick a b) c = pick a (pick b c)"
  by (rule sev_inj) (simp add: sev_pick max.assoc)

lemma pick_idem: "pick a a = a"
  by (simp add: pick_eq)

lemma sev_fold: "sev (fold (\<lambda>x acc. pick acc x) xs a) = fold max (map sev xs) (sev a)"
  by (induction xs arbitrary: a) (auto simp: sev_pick max.commute)

lemma fold_upper: "x \<in> set xs \<Longrightarrow> sev x \<le> sev (fold (\<lambda>x acc. pick acc x) xs a)"
proof (induction xs arbitrary: a)
  case (Cons y ys)
  have mono: "sev b \<le> sev (fold (\<lambda>x acc. pick acc x) zs b)" for b zs
  proof (induction zs arbitrary: b)
    case (Cons z zs)
    have "sev b \<le> sev (pick b z)" by (simp add: sev_pick)
    also have "\<dots> \<le> sev (fold (\<lambda>x acc. pick acc x) zs (pick b z))" by (rule Cons.IH)
    finally show ?case by simp
  qed simp
  show ?case
  proof (cases "x = y")
    case True
    have "sev y \<le> sev (pick a y)" by (simp add: sev_pick)
    also have "\<dots> \<le> sev (fold (\<lambda>x acc. pick acc x) ys (pick a y))" by (rule mono)
    finally show ?thesis using True by simp
  next
    case False
    with Cons show ?thesis by simp
  qed
qed simp

lemma fold_attained: "fold (\<lambda>x acc. pick acc x) xs a \<in> insert a (set xs)"
proof (induction xs arbitrary: a)
  case (Cons y ys)
  have "pick a y \<in> {a, y}" by (simp add: pick_eq)
  with Cons.IH[of "pick a y"] show ?case by auto
qed simp

lemma fold_mildest_iff:
  "fold (\<lambda>x acc. pick acc x) xs mildest = mildest \<longleftrightarrow> (\<forall>x\<in>set xs. x = mildest)"
proof
  assume eq: "fold (\<lambda>x acc. pick acc x) xs mildest = mildest"
  show "\<forall>x\<in>set xs. x = mildest"
  proof
    fix x assume "x \<in> set xs"
    then have "sev x \<le> sev mildest" using fold_upper[of x xs mildest] eq by simp
    then show "x = mildest" using mildest_least[of x] by (intro sev_inj) simp
  qed
next
  assume "\<forall>x\<in>set xs. x = mildest"
  then show "fold (\<lambda>x acc. pick acc x) xs mildest = mildest"
    using fold_attained[of xs mildest] by auto
qed

lemma fold_worst_iff:
  assumes worst: "\<And>a. sev a \<le> sev w"
  shows "fold (\<lambda>x acc. pick acc x) xs a = w \<longleftrightarrow> a = w \<or> w \<in> set xs"
proof
  assume "fold (\<lambda>x acc. pick acc x) xs a = w"
  then show "a = w \<or> w \<in> set xs" using fold_attained[of xs a] by auto
next
  have start: "sev a \<le> sev (fold (\<lambda>x acc. pick acc x) xs a)"
    using fold_upper[of a "a # xs" a] by (simp add: pick_idem)
  assume "a = w \<or> w \<in> set xs"
  then have "sev w \<le> sev (fold (\<lambda>x acc. pick acc x) xs a)"
    using start fold_upper[of w xs a] by auto
  then show "fold (\<lambda>x acc. pick acc x) xs a = w"
    using worst by (intro sev_inj antisym)
qed

end

end
