(* ===== verification/Mi9Gate.thy ===== *)
theory Mi9Gate imports RonorPrelude begin

text \<open>
  The MI9 gate, \<open>src/src/governance/mi9-gate.ts\<close>: nine gates over a decision context and a
  policy, the aggregation of their verdicts, and the sliding window of executed decisions that
  gate 8 reads.  The module's variables (the cached policy, its version, the window) are the
  record \<open>mi9_state\<close>; the clock is an argument, read once per call.  The file system and the YAML
  parser behind \<open>loadPolicy\<close> are the parameter \<open>files\<close>: the policy of a path, or the exception.
  A finding's reason is a constructor carrying the values its text interpolates, those of the
  finding's \<open>detail\<close> included.
\<close>

section \<open>Types\<close>

datatype verdict = Allow | AllowWithCosign | Escalate | Block

fun verdict_order :: "verdict \<Rightarrow> nat" where
  "verdict_order Allow = 0"
| "verdict_order AllowWithCosign = 1"
| "verdict_order Escalate = 2"
| "verdict_order Block = 3"

definition strictest :: "verdict \<Rightarrow> verdict \<Rightarrow> verdict" where
  "strictest a b = (if verdict_order b \<le> verdict_order a then a else b)"

instantiation verdict :: linorder
begin

definition less_eq_verdict :: "verdict \<Rightarrow> verdict \<Rightarrow> bool" where
  "less_eq_verdict a b \<longleftrightarrow> verdict_order a \<le> verdict_order b"

definition less_verdict :: "verdict \<Rightarrow> verdict \<Rightarrow> bool" where
  "less_verdict a b \<longleftrightarrow> verdict_order a < verdict_order b"

instance
proof
  fix a b :: verdict
  show "a \<le> b \<Longrightarrow> b \<le> a \<Longrightarrow> a = b"
    by (cases a; cases b) (auto simp: less_eq_verdict_def)
qed (auto simp: less_eq_verdict_def less_verdict_def)

end

lemma verdict_order_inj [simp]: "verdict_order a = verdict_order b \<longleftrightarrow> a = b"
  by (cases a; cases b) auto

interpretation verdict_scale: severity_scale verdict_order strictest Allow
  by unfold_locales (auto simp: strictest_def)

lemma verdict_le_simps [simp]:
  "Allow \<le> v" "v \<le> Block" "v \<le> Allow \<longleftrightarrow> v = Allow" "Block \<le> v \<longleftrightarrow> v = Block"
  "AllowWithCosign \<le> Escalate" "\<not> Escalate \<le> AllowWithCosign"
  by (cases v; simp add: less_eq_verdict_def)+

datatype task_class = Operational | Analytical | Conversational

record impact_magnitude =
  im_unit :: string
  im_value :: jsnum

record sovereignty_ctx =
  sv_dataResidency :: string
  sv_subjectJurisdiction :: string

record evidence_ctx =
  ev_sourceCount :: jsnum
  ev_lastRefreshMs :: jsnum
  ev_consensusReached :: bool

record operator_ctx =
  op_userId :: "string option"
  op_role :: string

record prior_approval =
  pa_decisionId :: string
  pa_approvedBy :: string
  pa_approvedAtMs :: jsnum

text \<open>
  Of the free-form \<open>metadata\<close> the gates read one key; \<open>dc_fallbackAvailable\<close> is the truthiness of
  \<open>ctx.metadata?.fallbackAvailable\<close>.
\<close>

record decision_context =
  dc_decisionId :: string
  dc_domain :: string
  dc_action :: string
  dc_proposedBy :: string
  dc_confidence :: jsnum
  dc_reversible :: bool
  dc_impactMagnitude :: impact_magnitude
  dc_sovereignty :: sovereignty_ctx
  dc_evidence :: evidence_ctx
  dc_operator :: operator_ctx
  dc_taskClass :: "task_class option"
  dc_priorApproval :: "prior_approval option"
  dc_fallbackAvailable :: bool

datatype risk_tier = Minimal | Limited | High | Unacceptable

datatype gate_reason =
    ResidencyNotAllowed "string list" string
  | JurisdictionRequires "string list" string string
  | ResidencyAcceptable string string
  | TierUnacceptable string risk_tier bool "string option"
  | TierEscalates string risk_tier bool "string option"
  | TierCosigns string risk_tier bool "string option"
  | TierAutonomous string risk_tier bool "string option"
  | Irreversible
  | Reversible
  | ImpactBlocks jsnum string jsnum
  | ImpactEscalates jsnum string jsnum
  | ImpactCosigns jsnum string jsnum
  | ImpactBelow jsnum string
  | ConfidenceBelowMinimum jsnum jsnum
  | ConfidenceBelowAutonomous jsnum jsnum
  | ConfidenceSufficient jsnum
  | TooFewSources jsnum jsnum
  | DataTooOld jsnum jsnum
  | ConsensusMissing string
  | EvidenceSufficient jsnum jsnum
  | DomainRules "string list"
  | AlreadyCosigned string jsnum
  | ClassExempt task_class
  | AutonomousLimitReached nat jsnum
  | CosignLimitReached nat jsnum
  | WithinRateLimits nat jsnum nat jsnum
  | FallbackMissing string
  | FallbackDeclared
  | FallbackNotRequired

record gate_finding =
  gf_gateNumber :: nat
  gf_gateName :: string
  gf_verdict :: verdict
  gf_reason :: gate_reason

record mi9_result =
  mr_decisionId :: string
  mr_verdict :: verdict
  mr_findings :: "gate_finding list"
  mr_policyVersion :: string
  mr_evaluatedAt :: int
  mr_humanCoSignRequired :: bool
  mr_escalationTarget :: "string option"
  mr_blockReason :: "gate_reason option"

section \<open>Policy\<close>

record threshold =
  th_unit :: string
  th_value :: jsnum

text \<open>The policy file: one field per entry of \<open>gates\<close>; a mapping is an association list.\<close>

record policy =
  po_version :: string
  po_allowed_residencies :: "string list"
  po_required_for_jurisdictions :: "(string \<times> string list) list"
  po_domain_tiers :: "(string \<times> risk_tier) list"
  po_cosign_required_at_tier :: "risk_tier list"
  po_escalation_required_at_tier :: "risk_tier list"
  po_unknown_domain_tier :: "risk_tier option"
  po_irreversible_action_verdict :: verdict
  po_cosign_thresholds :: "threshold list"
  po_escalation_thresholds :: "threshold list"
  po_block_thresholds :: "threshold list"
  po_minimum_autonomous :: jsnum
  po_minimum_cosign :: jsnum
  po_min_source_count :: jsnum
  po_max_data_age_ms :: jsnum
  po_consensus_required_for_domains :: "string list"
  po_domain_specific_rules :: "(string \<times> string list) list"
  po_autonomous_per_hour :: jsnum
  po_cosign_per_hour :: jsnum
  po_fallback_required_for_domains :: "string list"

type_synonym rate_window = "(int \<times> verdict) list"

record mi9_state =
  ms_cachedPolicy :: "policy option"
  ms_cachedPolicyVersion :: string
  ms_decisionsThisHour :: rate_window

definition mi9_init :: mi9_state where
  "mi9_init = \<lparr>ms_cachedPolicy = None, ms_cachedPolicyVersion = ''unloaded'', ms_decisionsThisHour = []\<rparr>"

text \<open>Where \<open>loadPolicy\<close> reads from, and what reading and parsing a path gives.\<close>

record policy_env =
  pe_MI9_POLICY_PATH :: "string option"
  pe_defaultPath :: string
  pe_files :: "string \<Rightarrow> string + policy"

definition policy_path :: "policy_env \<Rightarrow> string option \<Rightarrow> string" where
  "policy_path env p =
     (if truthy_str p then the p
      else if truthy_str (pe_MI9_POLICY_PATH env) then the (pe_MI9_POLICY_PATH env)
      else pe_defaultPath env)"

definition loadPolicy :: "policy_env \<Rightarrow> string option \<Rightarrow> mi9_state \<Rightarrow> string + (policy \<times> mi9_state)" where
  "loadPolicy env p s =
     (case pe_files env (policy_path env p) of
        Inl e \<Rightarrow> Inl e
      | Inr pol \<Rightarrow> Inr (pol, s\<lparr>ms_cachedPolicy := Some pol, ms_cachedPolicyVersion := po_version pol\<rparr>))"

definition policy_of :: "policy_env \<Rightarrow> mi9_state \<Rightarrow> string + (policy \<times> mi9_state)" where
  "policy_of env s =
     (case ms_cachedPolicy s of None \<Rightarrow> loadPolicy env None s | Some pol \<Rightarrow> Inr (pol, s))"

section \<open>Rate limiting\<close>

definition hour_ms :: int where
  "hour_ms = 60 * 60 * 1000"

definition pruneOldDecisions :: "int \<Rightarrow> rate_window \<Rightarrow> rate_window" where
  "pruneOldDecisions now w = dropWhile (\<lambda>d. fst d < now - hour_ms) w"

definition count_verdict :: "verdict \<Rightarrow> rate_window \<Rightarrow> nat" where
  "count_verdict v w = length (filter (\<lambda>d. snd d = v) w)"

definition autonomousCount :: "int \<Rightarrow> rate_window \<Rightarrow> nat \<times> rate_window" where
  "autonomousCount now w = (let w' = pruneOldDecisions now w in (count_verdict Allow w', w'))"

definition cosignCount :: "int \<Rightarrow> rate_window \<Rightarrow> nat \<times> rate_window" where
  "cosignCount now w = (let w' = pruneOldDecisions now w in (count_verdict AllowWithCosign w', w'))"

definition APPROVAL_VALIDITY_MS :: int where
  "APPROVAL_VALIDITY_MS = 15 * 60 * 1000"

definition hasValidPriorApproval :: "int \<Rightarrow> decision_context \<Rightarrow> bool" where
  "hasValidPriorApproval now ctx =
     (case dc_priorApproval ctx of
        None \<Rightarrow> False
      | Some a \<Rightarrow>
          if pa_decisionId a \<noteq> dc_decisionId ctx then False
          else let age = js_minus (js_int now) (pa_approvedAtMs a)
               in if js_less age (js_int 0) then False else js_le age (js_int APPROVAL_VALIDITY_MS))"

definition recordExecution :: "int \<Rightarrow> verdict \<Rightarrow> task_class option \<Rightarrow> mi9_state \<Rightarrow> mi9_state" where
  "recordExecution now v cls s =
     (if nullish cls Operational = Operational \<and> (v = Allow \<or> v = AllowWithCosign)
      then s\<lparr>ms_decisionsThisHour := ms_decisionsThisHour s @ [(now, v)]\<rparr> else s)"

definition resetRateLimits :: "mi9_state \<Rightarrow> mi9_state" where
  "resetRateLimits s = s\<lparr>ms_decisionsThisHour := []\<rparr>"

definition rate_limit_exempt :: "task_class \<Rightarrow> bool" where
  "rate_limit_exempt c \<longleftrightarrow> c = Conversational \<or> c = Analytical"

section \<open>The nine gates\<close>

definition finding :: "nat \<Rightarrow> string \<Rightarrow> verdict \<Rightarrow> gate_reason \<Rightarrow> gate_finding" where
  "finding n nm v r = \<lparr>gf_gateNumber = n, gf_gateName = nm, gf_verdict = v, gf_reason = r\<rparr>"

definition gateSovereignty :: "decision_context \<Rightarrow> policy \<Rightarrow> gate_finding" where
  "gateSovereignty ctx p =
     (let allowed = po_allowed_residencies p;
          res = sv_dataResidency (dc_sovereignty ctx);
          jur = sv_subjectJurisdiction (dc_sovereignty ctx);
          required = nullish (map_of (po_required_for_jurisdictions p) jur) []
      in if res \<notin> set allowed then finding 1 ''sovereignty'' Block (ResidencyNotAllowed allowed res)
         else if required \<noteq> [] \<and> res \<notin> set required
           then finding 1 ''sovereignty'' Block (JurisdictionRequires required res jur)
         else finding 1 ''sovereignty'' Allow (ResidencyAcceptable res jur))"

text \<open>\<open>String.split\<close> on one character and \<open>Array.join\<close> with it.\<close>

fun split_on :: "char \<Rightarrow> string \<Rightarrow> string list" where
  "split_on c [] = [[]]"
| "split_on c (x # xs) =
     (if x = c then [] # split_on c xs
      else case split_on c xs of [] \<Rightarrow> [[x]] | p # ps \<Rightarrow> (x # p) # ps)"

fun join_with :: "char \<Rightarrow> string list \<Rightarrow> string" where
  "join_with c [] = []"
| "join_with c [p] = p"
| "join_with c (p # q # ps) = p @ c # join_with c (q # ps)"

text \<open>The loop of \<open>resolveDomainTier\<close>, counting the length of the candidate prefix down.\<close>

fun resolve_tier_from ::
  "string list \<Rightarrow> (string \<times> risk_tier) list \<Rightarrow> nat \<Rightarrow> (risk_tier \<times> string) option" where
  "resolve_tier_from parts tiers 0 = None"
| "resolve_tier_from parts tiers (Suc n) =
     (let candidate = join_with CHR ''.'' (take (Suc n) parts)
      in case map_of tiers candidate of
           Some t \<Rightarrow> Some (t, candidate)
         | None \<Rightarrow> resolve_tier_from parts tiers n)"

definition resolveDomainTier ::
  "string \<Rightarrow> (string \<times> risk_tier) list \<Rightarrow> (risk_tier \<times> string) option" where
  "resolveDomainTier domain tiers =
     (let parts = split_on CHR ''.'' domain in resolve_tier_from parts tiers (length parts))"

definition gateRiskTier :: "decision_context \<Rightarrow> policy \<Rightarrow> gate_finding" where
  "gateRiskTier ctx p =
     (let resolved = resolveDomainTier (dc_domain ctx) (po_domain_tiers p);
          classified = resolved \<noteq> None;
          matched = map_option snd resolved;
          tier = nullish (map_option fst resolved) (nullish (po_unknown_domain_tier p) Unacceptable);
          dom = dc_domain ctx
      in if tier = Unacceptable
           then finding 2 ''risk-tier'' Block (TierUnacceptable dom tier classified matched)
         else if tier \<in> set (po_escalation_required_at_tier p)
           then finding 2 ''risk-tier'' Escalate (TierEscalates dom tier classified matched)
         else if tier \<in> set (po_cosign_required_at_tier p)
           then finding 2 ''risk-tier'' AllowWithCosign (TierCosigns dom tier classified matched)
         else finding 2 ''risk-tier'' Allow (TierAutonomous dom tier classified matched))"

definition gateReversibility :: "decision_context \<Rightarrow> policy \<Rightarrow> gate_finding" where
  "gateReversibility ctx p =
     (if \<not> dc_reversible ctx
      then finding 3 ''reversibility'' (po_irreversible_action_verdict p) Irreversible
      else finding 3 ''reversibility'' Allow Reversible)"

text \<open>The first threshold of a list the impact reaches.\<close>

definition reached :: "impact_magnitude \<Rightarrow> threshold list \<Rightarrow> threshold option" where
  "reached im ts = find (\<lambda>t. th_unit t = im_unit im \<and> js_le (th_value t) (js_abs (im_value im))) ts"

definition gateImpact :: "decision_context \<Rightarrow> policy \<Rightarrow> gate_finding" where
  "gateImpact ctx p =
     (let im = dc_impactMagnitude ctx; a = js_abs (im_value im); u = im_unit im
      in case reached im (po_block_thresholds p) of
           Some t \<Rightarrow> finding 4 ''impact-magnitude'' Block (ImpactBlocks a u (th_value t))
         | None \<Rightarrow>
      (case reached im (po_escalation_thresholds p) of
           Some t \<Rightarrow> finding 4 ''impact-magnitude'' Escalate (ImpactEscalates a u (th_value t))
         | None \<Rightarrow>
      (case reached im (po_cosign_thresholds p) of
           Some t \<Rightarrow> finding 4 ''impact-magnitude'' AllowWithCosign (ImpactCosigns a u (th_value t))
         | None \<Rightarrow> finding 4 ''impact-magnitude'' Allow (ImpactBelow a u))))"

definition gateConfidence :: "decision_context \<Rightarrow> policy \<Rightarrow> gate_finding" where
  "gateConfidence ctx p =
     (if js_less (dc_confidence ctx) (po_minimum_cosign p)
        then finding 5 ''confidence'' Escalate (ConfidenceBelowMinimum (dc_confidence ctx) (po_minimum_cosign p))
      else if js_less (dc_confidence ctx) (po_minimum_autonomous p)
        then finding 5 ''confidence'' AllowWithCosign
               (ConfidenceBelowAutonomous (dc_confidence ctx) (po_minimum_autonomous p))
      else finding 5 ''confidence'' Allow (ConfidenceSufficient (dc_confidence ctx)))"

definition gateEvidence :: "decision_context \<Rightarrow> policy \<Rightarrow> gate_finding" where
  "gateEvidence ctx p =
     (let e = dc_evidence ctx
      in if js_less (ev_sourceCount e) (po_min_source_count p)
           then finding 6 ''evidence'' Escalate (TooFewSources (ev_sourceCount e) (po_min_source_count p))
         else if js_less (po_max_data_age_ms p) (ev_lastRefreshMs e)
           then finding 6 ''evidence'' AllowWithCosign (DataTooOld (ev_lastRefreshMs e) (po_max_data_age_ms p))
         else if dc_domain ctx \<in> set (po_consensus_required_for_domains p) \<and> \<not> ev_consensusReached e
           then finding 6 ''evidence'' Escalate (ConsensusMissing (dc_domain ctx))
         else finding 6 ''evidence'' Allow (EvidenceSufficient (ev_sourceCount e) (ev_lastRefreshMs e)))"

definition gatePolicyCompliance :: "decision_context \<Rightarrow> policy \<Rightarrow> gate_finding" where
  "gatePolicyCompliance ctx p =
     finding 7 ''policy-compliance'' Allow
       (DomainRules (nullish (map_of (po_domain_specific_rules p) (dc_domain ctx)) []))"

definition gateRateLimits ::
  "int \<Rightarrow> decision_context \<Rightarrow> policy \<Rightarrow> rate_window \<Rightarrow> gate_finding \<times> rate_window" where
  "gateRateLimits now ctx p w =
     (if hasValidPriorApproval now ctx then
        (let a = the (dc_priorApproval ctx)
         in (finding 8 ''rate-limits'' Allow (AlreadyCosigned (pa_approvedBy a) (pa_approvedAtMs a)), w))
      else
        let taskClass = nullish (dc_taskClass ctx) Operational
        in if rate_limit_exempt taskClass
             then (finding 8 ''rate-limits'' Allow (ClassExempt taskClass), w)
           else
             let (auto, w1) = autonomousCount now w;
                 (cosign, w2) = cosignCount now w1
             in if js_le (po_autonomous_per_hour p) (js_int (int auto))
                  then (finding 8 ''rate-limits'' AllowWithCosign
                          (AutonomousLimitReached auto (po_autonomous_per_hour p)), w2)
                else if js_le (po_cosign_per_hour p) (js_int (int cosign))
                  then (finding 8 ''rate-limits'' Escalate
                          (CosignLimitReached cosign (po_cosign_per_hour p)), w2)
                else (finding 8 ''rate-limits'' Allow
                        (WithinRateLimits auto (po_autonomous_per_hour p) cosign (po_cosign_per_hour p)), w2))"

definition gateFallback :: "decision_context \<Rightarrow> policy \<Rightarrow> gate_finding" where
  "gateFallback ctx p =
     (let needs = dc_domain ctx \<in> set (po_fallback_required_for_domains p)
      in if needs \<and> \<not> dc_fallbackAvailable ctx
           then finding 9 ''fallback'' Block (FallbackMissing (dc_domain ctx))
         else finding 9 ''fallback'' Allow (if needs then FallbackDeclared else FallbackNotRequired))"

section \<open>Evaluation\<close>

definition gate_findings ::
  "int \<Rightarrow> decision_context \<Rightarrow> policy \<Rightarrow> rate_window \<Rightarrow> gate_finding list \<times> rate_window" where
  "gate_findings now ctx p w =
     (let (g8, w') = gateRateLimits now ctx p w
      in ([gateSovereignty ctx p, gateRiskTier ctx p, gateReversibility ctx p, gateImpact ctx p,
           gateConfidence ctx p, gateEvidence ctx p, gatePolicyCompliance ctx p, g8,
           gateFallback ctx p], w'))"

definition aggregate :: "gate_finding list \<Rightarrow> verdict" where
  "aggregate fs = fold (\<lambda>f v. strictest v (gf_verdict f)) fs Allow"

definition mi9_result_of ::
  "int \<Rightarrow> decision_context \<Rightarrow> string \<Rightarrow> gate_finding list \<Rightarrow> mi9_result" where
  "mi9_result_of now ctx version findings =
     (let v = aggregate findings
      in \<lparr>mr_decisionId = dc_decisionId ctx, mr_verdict = v, mr_findings = findings,
          mr_policyVersion = version, mr_evaluatedAt = now,
          mr_humanCoSignRequired = (v = AllowWithCosign \<or> v = Escalate),
          mr_escalationTarget = (if v = Escalate then Some ''human-dispatcher'' else None),
          mr_blockReason =
            (if v = Block then map_option gf_reason (find (\<lambda>f. gf_verdict f = Block) findings)
             else None)\<rparr>)"

definition mi9_evaluate ::
  "policy_env \<Rightarrow> int \<Rightarrow> decision_context \<Rightarrow> mi9_state \<Rightarrow> string + (mi9_result \<times> mi9_state)" where
  "mi9_evaluate env now ctx s =
     (case policy_of env s of
        Inl e \<Rightarrow> Inl e
      | Inr (p, s1) \<Rightarrow>
          let (findings, w) = gate_findings now ctx p (ms_decisionsThisHour s1)
          in Inr (mi9_result_of now ctx (ms_cachedPolicyVersion s1) findings,
                  s1\<lparr>ms_decisionsThisHour := w\<rparr>))"

end
