(* ===== verification/Mi9Shipped.thy ===== *)
theory Mi9Shipped imports Mi9Gate begin

text \<open>
  The policy the repository ships, \<open>src/src/governance/policies.yaml\<close>, as a value of the model's
  policy type, and the environment in which the gate reads it.  Strings are UTF-8 bytes.
\<close>

definition shipped_tiers :: "(string \<times> risk_tier) list" where
  "shipped_tiers =
    [(''runtime.query'', Limited), (''runtime.agent'', Limited), (''runtime.tool'', Limited),
     (''runtime.ingest'', Limited), (''runtime.worker'', High),
     (''development.repo.read'', Minimal), (''development.worktree.edit'', Limited),
     (''development.tests.run'', Limited), (''development.commit.local'', Limited),
     (''development.branch.create'', Limited), (''development.pr.prepare'', Limited),
     (''development.push.working_branch'', High), (''development.merge.main'', Unacceptable),
     (''development.release.publish'', Unacceptable), (''development.deploy.production'', Unacceptable),
     (''development.secrets.read'', Unacceptable), (''development.egress.external'', Unacceptable),
     (''development.canon.amend'', High), (''development.host.configure'', High),
     (''energy.bess.dispatch'', High), (''energy.bess.bid'', High), (''energy.vpp.dispatch'', High),
     (''energy.vpp.aggregate'', High), (''energy.ancillary.fcr_bid'', High),
     (''energy.ancillary.afrr_bid'', High), (''energy.ancillary.balancing_bid'', High),
     (''energy.forecast.load'', Limited), (''energy.forecast.price'', Limited),
     (''energy.observability.query'', Minimal), (''energy.reporting.generate'', Minimal)]"

definition th :: "string \<Rightarrow> rat \<Rightarrow> threshold" where
  "th u v = \<lparr>th_unit = u, th_value = Num v\<rparr>"

definition shipped_policy :: policy where
  "shipped_policy =
    \<lparr>po_version = ''2026.09.18'',
     po_allowed_residencies = [''eu'', ''uk''],
     po_required_for_jurisdictions =
       [(''RO'', [''eu'']), (''EU'', [''eu'']), (''UK'', [''uk'', ''eu'']),
        (''US'', [''eu'', ''uk'', ''us'']), (''OTHER'', [''eu'', ''uk'', ''us''])],
     po_domain_tiers = shipped_tiers,
     po_cosign_required_at_tier = [High],
     po_escalation_required_at_tier = [],
     po_unknown_domain_tier = Some Unacceptable,
     po_irreversible_action_verdict = AllowWithCosign,
     po_cosign_thresholds = [th ''EUR'' 1000, th ''MWh'' 5, th ''MW'' 10],
     po_escalation_thresholds = [th ''EUR'' 10000, th ''MWh'' 15, th ''MW'' 30],
     po_block_thresholds = [th ''EUR'' 100000, th ''MWh'' 40, th ''MW'' 100],
     po_minimum_autonomous = Num (85 / 100),
     po_minimum_cosign = Num (55 / 100),
     po_min_source_count = Num 2,
     po_max_data_age_ms = Num 900000,
     po_consensus_required_for_domains =
       [''energy.bess.dispatch'', ''energy.vpp.dispatch'', ''energy.ancillary.fcr_bid'',
        ''energy.ancillary.afrr_bid''],
     po_domain_specific_rules =
       [(''energy.bess.dispatch'',
         [''ANRE Order 46/2024: state-of-charge visible to TSO'',
          ''EU AI Act high-risk logging retention: 6 months minimum'',
          ''OPCOM balancing rules: bid volumes rounded to 0.1 MW'',
          ''Degradation-aware: no more than 1.5 equivalent full cycles per day without cosign'']),
        (''energy.bess.bid'',
         [''ANRE Order 46/2024 '' @ [CHR 0xC2, CHR 0xA7] @ ''12: bid transparency'',
          ''OPCOM DAM gate close: 12:00 CET day D-1'']),
        (''energy.vpp.dispatch'',
         [''ANRE VPP framework 2026: aggregator liability chain declared'',
          ''Reliability-adjusted bidding: probability of delivery attached'']),
        (''energy.ancillary.fcr_bid'',
         [''ENTSO-E FCR technical requirements (SO GL Article 154)'',
          ''Symmetric '' @ [CHR 0xC2, CHR 0xB1] @ '': bid must be simultaneously up and down'']),
        (''energy.ancillary.afrr_bid'',
         [''ENTSO-E aFRR technical requirements (SO GL Article 158)'',
          ''aFRR activation lead time: <=30 seconds''])],
     po_autonomous_per_hour = Num 12,
     po_cosign_per_hour = Num 24,
     po_fallback_required_for_domains =
       [''energy.bess.dispatch'', ''energy.vpp.dispatch'', ''energy.ancillary.fcr_bid'',
        ''energy.ancillary.afrr_bid'', ''energy.ancillary.balancing_bid'']\<rparr>"

text \<open>The default environment: no \<open>MI9_POLICY_PATH\<close>, the shipped file next to the module.\<close>

definition shipped_env :: policy_env where
  "shipped_env =
    \<lparr>pe_MI9_POLICY_PATH = None, pe_defaultPath = ''policies.yaml'',
     pe_files = (\<lambda>path. if path = ''policies.yaml'' then Inr shipped_policy else Inl ''ENOENT'')\<rparr>"

lemma policy_of_shipped [simp]:
  "policy_of shipped_env mi9_init =
     Inr (shipped_policy, \<lparr>ms_cachedPolicy = Some shipped_policy,
        ms_cachedPolicyVersion = po_version shipped_policy, ms_decisionsThisHour = []\<rparr>)"
  by (simp add: policy_of_def loadPolicy_def shipped_env_def mi9_init_def policy_path_def truthy_str_def)

text \<open>A context for worked examples: reading a report, fully evidenced.\<close>

definition sample_ctx :: decision_context where
  "sample_ctx =
    \<lparr>dc_decisionId = ''d1'', dc_domain = ''energy.reporting.generate'', dc_action = ''report'',
     dc_proposedBy = ''model'', dc_confidence = Num (9 / 10), dc_reversible = True,
     dc_impactMagnitude = \<lparr>im_unit = ''EUR'', im_value = Num 10\<rparr>,
     dc_sovereignty = \<lparr>sv_dataResidency = ''eu'', sv_subjectJurisdiction = ''RO''\<rparr>,
     dc_evidence = \<lparr>ev_sourceCount = Num 3, ev_lastRefreshMs = Num 1000, ev_consensusReached = True\<rparr>,
     dc_operator = \<lparr>op_userId = None, op_role = ''operator''\<rparr>,
     dc_taskClass = None, dc_priorApproval = None, dc_fallbackAvailable = False\<rparr>"

lemmas shipped_defs =
  shipped_policy_def shipped_tiers_def th_def sample_ctx_def

lemmas mi9_eval_defs =
  mi9_evaluate_def mi9_result_of_def gate_findings_def gateSovereignty_def gateRiskTier_def gateReversibility_def
  gateImpact_def gateConfidence_def gateEvidence_def gatePolicyCompliance_def gateRateLimits_def
  gateFallback_def finding_def aggregate_def strictest_def resolveDomainTier_def reached_def
  hasValidPriorApproval_def rate_limit_exempt_def autonomousCount_def cosignCount_def
  pruneOldDecisions_def count_verdict_def

end
