(* ===== verification/Mi9Facts.thy ===== *)
theory Mi9Facts imports Mi9Shipped begin

text \<open>
  What the MI9 gate guarantees: the verdict is the strictest finding, a block is explained by the
  first blocking gate, domain tiers resolve to the longest classified ancestor and default to
  refusal, stricter inputs never weaken the verdict, evaluation spends no budget, and a valid
  co-signature makes the rate-limit gate idempotent.
\<close>

section \<open>Findings and their aggregation\<close>

lemma find_first_split: "P x \<Longrightarrow> \<forall>y\<in>set as. \<not> P y \<Longrightarrow> find P (as @ x # bs) = Some x"
  by (induction as) auto

lemma finding_sel [simp]:
  "gf_gateNumber (finding n nm v r) = n" "gf_gateName (finding n nm v r) = nm"
  "gf_verdict (finding n nm v r) = v" "gf_reason (finding n nm v r) = r"
  by (simp_all add: finding_def)

lemma aggregate_fold: "aggregate fs = fold (\<lambda>x acc. strictest acc x) (map gf_verdict fs) Allow"
proof -
  have "fold (\<lambda>f v. strictest v (gf_verdict f)) fs a = fold (\<lambda>x acc. strictest acc x) (map gf_verdict fs) a" for a
    by (induction fs arbitrary: a) auto
  then show ?thesis by (simp add: aggregate_def)
qed

lemma aggregate_upper: "f \<in> set fs \<Longrightarrow> gf_verdict f \<le> aggregate fs"
  using verdict_scale.fold_upper[of "gf_verdict f" "map gf_verdict fs" Allow]
  by (simp add: aggregate_fold less_eq_verdict_def)

lemma aggregate_attained: "aggregate fs = Allow \<or> (\<exists>f\<in>set fs. gf_verdict f = aggregate fs)"
  using verdict_scale.fold_attained[of "map gf_verdict fs" Allow] by (auto simp: aggregate_fold)

lemma aggregate_Block_iff: "aggregate fs = Block \<longleftrightarrow> (\<exists>f\<in>set fs. gf_verdict f = Block)"
proof -
  have "verdict_order a \<le> verdict_order Block" for a by (cases a) auto
  from verdict_scale.fold_worst_iff[OF this, of "map gf_verdict fs" Allow]
  show ?thesis by (simp add: aggregate_fold image_iff) (metis (full_types))
qed

lemma aggregate_le_iff: "aggregate fs \<le> v \<longleftrightarrow> (\<forall>f\<in>set fs. gf_verdict f \<le> v)"
  using aggregate_upper aggregate_attained[of fs] by (metis order_trans verdict_le_simps(1))

lemma aggregate_mono:
  "list_all2 (\<lambda>f g. gf_verdict f \<le> gf_verdict g) fs gs \<Longrightarrow> aggregate fs \<le> aggregate gs"
  by (auto simp: aggregate_le_iff list_all2_conv_all_nth in_set_conv_nth)
     (metis aggregate_upper nth_mem order_trans)

lemma gate_number_simps [simp]:
  "gf_gateNumber (gateSovereignty ctx p) = 1"
  "gf_gateNumber (gateRiskTier ctx p) = 2"
  "gf_gateNumber (gateReversibility ctx p) = 3"
  "gf_gateNumber (gateImpact ctx p) = 4"
  "gf_gateNumber (gateConfidence ctx p) = 5"
  "gf_gateNumber (gateEvidence ctx p) = 6"
  "gf_gateNumber (gatePolicyCompliance ctx p) = 7"
  "gf_gateNumber (fst (gateRateLimits now ctx p w)) = 8"
  "gf_gateNumber (gateFallback ctx p) = 9"
  by (simp_all add: gateSovereignty_def gateRiskTier_def gateReversibility_def gateImpact_def
      gateConfidence_def gateEvidence_def gatePolicyCompliance_def gateRateLimits_def
      gateFallback_def Let_def split: option.split prod.split)

lemma gate_findings_eq:
  "gate_findings now ctx p w =
     ([gateSovereignty ctx p, gateRiskTier ctx p, gateReversibility ctx p, gateImpact ctx p,
       gateConfidence ctx p, gateEvidence ctx p, gatePolicyCompliance ctx p,
       fst (gateRateLimits now ctx p w), gateFallback ctx p], snd (gateRateLimits now ctx p w))"
  by (simp add: gate_findings_def split: prod.split)

lemma gate_findings_numbers:
  "map gf_gateNumber (fst (gate_findings now ctx p w)) = [1,2,3,4,5,6,7,8,9]"
  by (simp add: gate_findings_eq)

lemma gate_findings_window: "snd (gate_findings now ctx p w) = snd (gateRateLimits now ctx p w)"
  by (simp add: gate_findings_eq)

lemma mi9_evaluate_InrE:
  assumes "mi9_evaluate env now ctx s = Inr (r, s')"
  obtains p s1 where "policy_of env s = Inr (p, s1)"
    and "mr_findings r = fst (gate_findings now ctx p (ms_decisionsThisHour s1))"
    and "mr_verdict r = aggregate (mr_findings r)"
    and "s' = s1\<lparr>ms_decisionsThisHour := snd (gate_findings now ctx p (ms_decisionsThisHour s1))\<rparr>"
    and "mr_decisionId r = dc_decisionId ctx"
    and "mr_policyVersion r = ms_cachedPolicyVersion s1"
    and "mr_humanCoSignRequired r \<longleftrightarrow> mr_verdict r = AllowWithCosign \<or> mr_verdict r = Escalate"
    and "mr_escalationTarget r = (if mr_verdict r = Escalate then Some ''human-dispatcher'' else None)"
    and "mr_blockReason r = (if mr_verdict r = Block
           then map_option gf_reason (find (\<lambda>f. gf_verdict f = Block) (mr_findings r)) else None)"
  using assms
  by (auto simp: mi9_evaluate_def mi9_result_of_def Let_def split: sum.splits prod.splits)

lemma mi9_evaluate_total:
  assumes "policy_of env s = Inr (p, s1)"
  obtains r s' where "mi9_evaluate env now ctx s = Inr (r, s')"
  using assms by (cases "gate_findings now ctx p (ms_decisionsThisHour s1)") (simp add: mi9_evaluate_def Let_def)

text \<open>C35. The verdict of an evaluation is the strictest verdict of the nine gates, each of which
  reports exactly once and in order: no finding is stricter than the verdict, and some finding has
  it.\<close>

theorem mi9_verdict_is_strictest:
  assumes "mi9_evaluate env now ctx s = Inr (r, s')"
  shows "map gf_gateNumber (mr_findings r) = [1,2,3,4,5,6,7,8,9]
    \<and> (\<forall>f\<in>set (mr_findings r). gf_verdict f \<le> mr_verdict r)
    \<and> (\<exists>f\<in>set (mr_findings r). gf_verdict f = mr_verdict r)"
proof -
  from assms obtain p w where fs: "mr_findings r = fst (gate_findings now ctx p w)"
    and v: "mr_verdict r = aggregate (mr_findings r)"
    by (elim mi9_evaluate_InrE)
  have nums: "map gf_gateNumber (mr_findings r) = [1,2,3,4,5,6,7,8,9]"
    by (simp add: fs gate_findings_numbers)
  then obtain f where f: "f \<in> set (mr_findings r)" by (cases "mr_findings r") auto
  have "\<exists>f\<in>set (mr_findings r). gf_verdict f = mr_verdict r"
    using aggregate_attained[of "mr_findings r"] aggregate_upper[OF f] f v by auto
  with nums show ?thesis by (auto simp: v intro: aggregate_upper)
qed

text \<open>An evaluation blocks exactly when some gate blocks; then the block reason is that of the
  first blocking gate, no human is asked, and otherwise there is no block reason.  A human is asked
  exactly for the two intermediate verdicts.\<close>

theorem mi9_block_explained:
  assumes "mi9_evaluate env now ctx s = Inr (r, s')"
  shows "(mr_verdict r = Block \<longleftrightarrow> (\<exists>f\<in>set (mr_findings r). gf_verdict f = Block))
    \<and> (mr_verdict r = Block \<longrightarrow>
         (\<exists>as f bs. mr_findings r = as @ f # bs \<and> gf_verdict f = Block
            \<and> (\<forall>g\<in>set as. gf_verdict g \<noteq> Block) \<and> mr_blockReason r = Some (gf_reason f))
         \<and> \<not> mr_humanCoSignRequired r \<and> mr_escalationTarget r = None)
    \<and> (mr_verdict r \<noteq> Block \<longrightarrow> mr_blockReason r = None
         \<and> (mr_humanCoSignRequired r \<longleftrightarrow> mr_verdict r \<noteq> Allow))"
proof -
  from assms have facts: "mr_verdict r = aggregate (mr_findings r)"
    "mr_humanCoSignRequired r \<longleftrightarrow> mr_verdict r = AllowWithCosign \<or> mr_verdict r = Escalate"
    "mr_escalationTarget r = (if mr_verdict r = Escalate then Some ''human-dispatcher'' else None)"
    "mr_blockReason r = (if mr_verdict r = Block
       then map_option gf_reason (find (\<lambda>f. gf_verdict f = Block) (mr_findings r)) else None)"
    by (auto elim: mi9_evaluate_InrE)
  have iff: "mr_verdict r = Block \<longleftrightarrow> (\<exists>f\<in>set (mr_findings r). gf_verdict f = Block)"
    by (simp add: facts(1) aggregate_Block_iff)
  have first: "\<exists>as f bs. mr_findings r = as @ f # bs \<and> gf_verdict f = Block
       \<and> (\<forall>g\<in>set as. gf_verdict g \<noteq> Block) \<and> mr_blockReason r = Some (gf_reason f)"
    if b: "mr_verdict r = Block"
  proof -
    from b iff obtain as f bs where split: "mr_findings r = as @ f # bs" "gf_verdict f = Block"
      "\<forall>g\<in>set as. gf_verdict g \<noteq> Block"
      using split_list_first_prop[of "mr_findings r" "\<lambda>f. gf_verdict f = Block"] by blast
    then have "find (\<lambda>f. gf_verdict f = Block) (mr_findings r) = Some f"
      by (simp add: find_first_split)
    with split b facts(4) show ?thesis by auto
  qed
  show ?thesis
    using iff first facts by (cases "mr_verdict r") auto
qed

section \<open>Risk tiers\<close>

text \<open>\<open>a\<close> is \<open>d\<close> itself or a dotted ancestor of it.\<close>

definition dotted_ancestor :: "string \<Rightarrow> string \<Rightarrow> bool" where
  "dotted_ancestor a d \<longleftrightarrow> a = d \<or> (\<exists>r. d = a @ CHR ''.'' # r)"

lemma split_on_nonempty [simp]: "split_on c xs \<noteq> []"
  by (induction xs) (auto split: list.splits)

lemma join_with_Cons: "ps \<noteq> [] \<Longrightarrow> join_with c (p # ps) = p @ c # join_with c ps"
  by (cases ps) auto

lemma join_split [simp]: "join_with c (split_on c xs) = xs"
proof (induction xs)
  case (Cons x xs)
  show ?case
  proof (cases "x = c")
    case True
    with Cons show ?thesis by (simp add: join_with_Cons)
  next
    case False
    obtain p ps where "split_on c xs = p # ps" by (cases "split_on c xs") auto
    with False Cons show ?thesis by (cases ps) auto
  qed
qed simp

lemma split_on_append: "split_on c (xs @ c # ys) = split_on c xs @ split_on c ys"
proof (induction xs)
  case (Cons x xs)
  then show ?case by (auto split: list.splits)
qed simp

lemma join_with_append:
  "ps \<noteq> [] \<Longrightarrow> qs \<noteq> [] \<Longrightarrow> join_with c (ps @ qs) = join_with c ps @ c # join_with c qs"
proof (induction ps)
  case (Cons p ps)
  then show ?case by (cases "ps = []") (auto simp: join_with_Cons)
qed simp

text \<open>The candidates of the loop are exactly the dotted ancestors, longest first.\<close>

lemma dotted_ancestor_iff_prefix:
  "dotted_ancestor a d \<longleftrightarrow>
     (\<exists>n. 0 < n \<and> n \<le> length (split_on CHR ''.'' d) \<and> a = join_with CHR ''.'' (take n (split_on CHR ''.'' d)))"
  (is "?L \<longleftrightarrow> ?R")
proof
  assume ?L
  then consider "a = d" | r where "d = a @ CHR ''.'' # r" by (auto simp: dotted_ancestor_def)
  then show ?R
  proof cases
    case 1
    then show ?thesis by (intro exI[of _ "length (split_on CHR ''.'' d)"]) simp
  next
    case 2
    then show ?thesis
      by (intro exI[of _ "length (split_on CHR ''.'' a)"]) (simp add: split_on_append)
  qed
next
  let ?parts = "split_on CHR ''.'' d"
  assume ?R
  then obtain n where n: "0 < n" "n \<le> length ?parts" "a = join_with CHR ''.'' (take n ?parts)" by blast
  show ?L
  proof (cases "n = length ?parts")
    case True
    with n show ?thesis by (simp add: dotted_ancestor_def)
  next
    case False
    with n have "take n ?parts \<noteq> []" "drop n ?parts \<noteq> []" by auto
    then have "join_with CHR ''.'' (take n ?parts @ drop n ?parts)
        = a @ CHR ''.'' # join_with CHR ''.'' (drop n ?parts)"
      unfolding n(3) by (rule join_with_append)
    then have "d = a @ CHR ''.'' # join_with CHR ''.'' (drop n ?parts)" by simp
    then show ?thesis by (auto simp: dotted_ancestor_def)
  qed
qed

lemma length_join_take:
  assumes "0 < k" "k < n" "n \<le> length ps"
  shows "length (join_with c (take k ps)) < length (join_with c (take n ps))"
proof -
  have "take n ps = take k ps @ take (n - k) (drop k ps)"
    using assms by (metis add_diff_inverse_nat not_less_iff_gr_or_eq take_add)
  moreover have "take (n - k) (drop k ps) \<noteq> []" "take k ps \<noteq> []" using assms by auto
  ultimately show ?thesis by (simp add: join_with_append)
qed

lemma resolve_tier_from_None:
  "resolve_tier_from parts tiers n = None \<longleftrightarrow>
     (\<forall>k. 0 < k \<and> k \<le> n \<longrightarrow> map_of tiers (join_with CHR ''.'' (take k parts)) = None)"
  by (induction n) (auto simp: Let_def le_Suc_eq split: option.splits)

lemma resolve_tier_from_Some:
  "resolve_tier_from parts tiers n = Some (t, m) \<Longrightarrow>
     \<exists>k. 0 < k \<and> k \<le> n \<and> m = join_with CHR ''.'' (take k parts) \<and> map_of tiers m = Some t
       \<and> (\<forall>j. k < j \<and> j \<le> n \<longrightarrow> map_of tiers (join_with CHR ''.'' (take j parts)) = None)"
proof (induction n)
  case (Suc n)
  show ?case
  proof (cases "map_of tiers (join_with CHR ''.'' (take (Suc n) parts))")
    case None
    with Suc.prems have "resolve_tier_from parts tiers n = Some (t, m)" by (simp add: Let_def)
    from Suc.IH[OF this] None show ?thesis by (metis le_Suc_eq)
  next
    case (Some t')
    with Suc.prems show ?thesis by (intro exI[of _ "Suc n"]) (auto simp: Let_def)
  qed
qed simp

lemma resolveDomainTier_iff:
  "(resolveDomainTier d tiers = Some (t, m) \<longleftrightarrow>
      dotted_ancestor m d \<and> map_of tiers m = Some t
      \<and> (\<forall>a. dotted_ancestor a d \<and> length m < length a \<longrightarrow> map_of tiers a = None))
   \<and> (resolveDomainTier d tiers = None \<longleftrightarrow> (\<forall>a. dotted_ancestor a d \<longrightarrow> map_of tiers a = None))"
proof
  let ?parts = "split_on CHR ''.'' d"
  let ?j = "\<lambda>k. join_with CHR ''.'' (take k ?parts)"
  have none: "resolveDomainTier d tiers = None \<longleftrightarrow> (\<forall>a. dotted_ancestor a d \<longrightarrow> map_of tiers a = None)"
    by (auto simp: resolveDomainTier_def Let_def resolve_tier_from_None dotted_ancestor_iff_prefix)
  then show "resolveDomainTier d tiers = None \<longleftrightarrow> (\<forall>a. dotted_ancestor a d \<longrightarrow> map_of tiers a = None)" .
  have longer: "j < i" if "0 < i" "i \<le> length ?parts" "0 < j" "j \<le> length ?parts"
    "length (?j j) < length (?j i)" for i j
    using length_join_take[of i j ?parts "CHR ''.''"] that by (cases i j rule: linorder_cases) auto
  have fwd: "dotted_ancestor m d \<and> map_of tiers m = Some t
      \<and> (\<forall>a. dotted_ancestor a d \<and> length m < length a \<longrightarrow> map_of tiers a = None)"
    if some: "resolveDomainTier d tiers = Some (t, m)" for t m
  proof -
    obtain k where k: "0 < k" "k \<le> length ?parts" "m = ?j k" "map_of tiers m = Some t"
      "\<forall>j. k < j \<and> j \<le> length ?parts \<longrightarrow> map_of tiers (?j j) = None"
      using resolve_tier_from_Some[OF some[unfolded resolveDomainTier_def Let_def]] by blast
    have "dotted_ancestor m d" using k(1-3) by (auto simp: dotted_ancestor_iff_prefix)
    moreover have "map_of tiers a = None" if a: "dotted_ancestor a d" "length m < length a" for a
    proof -
      obtain i where "0 < i" "i \<le> length ?parts" "a = ?j i"
        using a(1) by (auto simp: dotted_ancestor_iff_prefix)
      with k longer[of i k] a(2) show ?thesis by auto
    qed
    ultimately show ?thesis using k(4) by blast
  qed
  have unique: "(t, m) = (t', m')"
    if "dotted_ancestor m d" "map_of tiers m = Some t"
      "\<forall>a. dotted_ancestor a d \<and> length m < length a \<longrightarrow> map_of tiers a = None"
      "dotted_ancestor m' d" "map_of tiers m' = Some t'"
      "\<forall>a. dotted_ancestor a d \<and> length m' < length a \<longrightarrow> map_of tiers a = None" for m t m' t'
  proof -
    from that have "length m = length m'" by (metis linorder_neqE_nat option.distinct(1))
    with that(1,4) have "m = m'" by (auto simp: dotted_ancestor_def)
    with that show ?thesis by simp
  qed
  show "resolveDomainTier d tiers = Some (t, m) \<longleftrightarrow>
      dotted_ancestor m d \<and> map_of tiers m = Some t
      \<and> (\<forall>a. dotted_ancestor a d \<and> length m < length a \<longrightarrow> map_of tiers a = None)" (is "_ \<longleftrightarrow> ?spec t m")
  proof
    assume "resolveDomainTier d tiers = Some (t, m)"
    then show "?spec t m" by (rule fwd)
  next
    assume spec: "?spec t m"
    then have "resolveDomainTier d tiers \<noteq> None" using none by fastforce
    then obtain t' m' where some: "resolveDomainTier d tiers = Some (t', m')" by auto
    have "(t', m') = (t, m)" using fwd[OF some] spec by (intro unique) blast+
    with some show "resolveDomainTier d tiers = Some (t, m)" by simp
  qed
qed

text \<open>A domain resolves to the tier of its longest classified dotted ancestor (itself included),
  and to nothing exactly when no ancestor is classified.\<close>

theorem resolveDomainTier_longest_ancestor:
  "(resolveDomainTier d tiers = Some (t, m) \<longleftrightarrow>
      dotted_ancestor m d \<and> map_of tiers m = Some t
      \<and> (\<forall>a. dotted_ancestor a d \<and> length m < length a \<longrightarrow> map_of tiers a = None))
   \<and> (resolveDomainTier d tiers = None \<longleftrightarrow> (\<forall>a. dotted_ancestor a d \<longrightarrow> map_of tiers a = None))"
  by (rule resolveDomainTier_iff)

theorem resolveDomainTier_longest_ancestor_witness:
  "resolveDomainTier ''runtime.query.analysis'' shipped_tiers = Some (Limited, ''runtime.query'')
   \<and> dotted_ancestor ''runtime.query'' ''runtime.query.analysis''"
proof -
  have r: "resolveDomainTier ''runtime.query.analysis'' shipped_tiers = Some (Limited, ''runtime.query'')"
    by (simp add: resolveDomainTier_def shipped_tiers_def)
  show ?thesis
    using r resolveDomainTier_longest_ancestor
      [of "''runtime.query.analysis''" shipped_tiers Limited "''runtime.query''"] by blast
qed

lemma shipped_eval_sample:
  "\<exists>r s. mi9_evaluate shipped_env 1000 sample_ctx mi9_init = Inr (r, s) \<and> mr_verdict r = Allow"
  by (simp add: mi9_eval_defs shipped_defs Let_def js_int_def)

lemma unclassified_unacceptable:
  assumes "\<forall>a. dotted_ancestor a (dc_domain ctx) \<longrightarrow> map_of (po_domain_tiers p) a = None"
    and "po_unknown_domain_tier p \<in> {None, Some Unacceptable}"
  shows "gf_verdict (gateRiskTier ctx p) = Block"
proof -
  have "resolveDomainTier (dc_domain ctx) (po_domain_tiers p) = None"
    using assms(1) resolveDomainTier_iff by blast
  then show ?thesis using assms(2) by (auto simp: gateRiskTier_def Let_def)
qed

lemma unclassified_blocks:
  assumes "mi9_evaluate env now ctx s = Inr (r, s')"
    and "policy_of env s = Inr (p, s1)"
    and "\<forall>a. dotted_ancestor a (dc_domain ctx) \<longrightarrow> map_of (po_domain_tiers p) a = None"
    and "po_unknown_domain_tier p \<in> {None, Some Unacceptable}"
  shows "mr_verdict r = Block"
proof -
  from assms(1,2) obtain w where "mr_findings r = fst (gate_findings now ctx p w)"
    "mr_verdict r = aggregate (mr_findings r)"
    by (elim mi9_evaluate_InrE) auto
  with unclassified_unacceptable[OF assms(3,4)] show ?thesis
    by (simp add: aggregate_Block_iff gate_findings_eq)
qed

text \<open>Deny by default: when no dotted ancestor of the domain is classified and the policy does not
  set another tier for unknown domains, the evaluation blocks, whatever the rest of the context.\<close>

theorem mi9_unclassified_domain_blocked:
  assumes "mi9_evaluate env now ctx s = Inr (r, s')"
    and "policy_of env s = Inr (p, s1)"
    and "\<forall>a. dotted_ancestor a (dc_domain ctx) \<longrightarrow> map_of (po_domain_tiers p) a = None"
    and "po_unknown_domain_tier p \<in> {None, Some Unacceptable}"
  shows "mr_verdict r = Block"
  using assms by (rule unclassified_blocks)

theorem mi9_unclassified_domain_blocked_witness:
  "\<exists>r s. mi9_evaluate shipped_env 1000 (sample_ctx\<lparr>dc_domain := ''general''\<rparr>) mi9_init = Inr (r, s)
     \<and> mr_verdict r = Block"
proof -
  let ?c = "sample_ctx\<lparr>dc_domain := ''general''\<rparr>"
  obtain r s where e: "mi9_evaluate shipped_env 1000 ?c mi9_init = Inr (r, s)"
    by (rule mi9_evaluate_total[OF policy_of_shipped])
  have "resolveDomainTier ''general'' (po_domain_tiers shipped_policy) = None"
    by (simp add: resolveDomainTier_def shipped_defs)
  then have no: "\<forall>a. dotted_ancestor a (dc_domain ?c) \<longrightarrow> map_of (po_domain_tiers shipped_policy) a = None"
    using resolveDomainTier_iff[of "''general''" "po_domain_tiers shipped_policy"] by simp
  have "mr_verdict r = Block"
    by (rule mi9_unclassified_domain_blocked[OF e policy_of_shipped no]) (simp add: shipped_policy_def)
  with e show ?thesis by blast
qed

section \<open>Monotonicity\<close>

lemma reached_None_mono:
  assumes "js_le (js_abs (im_value a)) (js_abs (im_value b))" "im_unit a = im_unit b"
    and "reached b ts = None"
  shows "reached a ts = None"
  using assms by (auto simp: reached_def find_None_iff dest: js_le_trans)

lemma gateImpact_mono:
  assumes "js_le (js_abs (im_value (dc_impactMagnitude a))) (js_abs (im_value (dc_impactMagnitude b)))"
    and "im_unit (dc_impactMagnitude a) = im_unit (dc_impactMagnitude b)"
  shows "gf_verdict (gateImpact a p) \<le> gf_verdict (gateImpact b p)"
  using reached_None_mono[OF assms, of "po_block_thresholds p"]
    reached_None_mono[OF assms, of "po_escalation_thresholds p"]
    reached_None_mono[OF assms, of "po_cosign_thresholds p"]
  by (auto simp: gateImpact_def Let_def less_eq_verdict_def split: option.splits)

lemma gateConfidence_mono:
  assumes "js_le (dc_confidence b) (dc_confidence a)"
  shows "gf_verdict (gateConfidence a p) \<le> gf_verdict (gateConfidence b p)"
  using js_le_less_trans[OF assms] by (auto simp: gateConfidence_def less_eq_verdict_def)

text \<open>\<open>b\<close> asks for at least as much caution as \<open>a\<close>: the same decision with an impact at least as
  large, a confidence at most as high, and not more reversible.\<close>

definition riskier :: "decision_context \<Rightarrow> decision_context \<Rightarrow> bool" where
  "riskier b a \<longleftrightarrow>
     (\<exists>c v rev. b = a\<lparr>dc_confidence := c, dc_reversible := rev,
                      dc_impactMagnitude := (dc_impactMagnitude a)\<lparr>im_value := v\<rparr>\<rparr>
        \<and> js_le c (dc_confidence a) \<and> (rev \<longrightarrow> dc_reversible a)
        \<and> js_le (js_abs (im_value (dc_impactMagnitude a))) (js_abs v))"

text \<open>More impact, less confidence or less reversibility never weakens the verdict, on any policy
  and any window.\<close>

theorem mi9_verdict_monotone:
  assumes "riskier b a"
    and "mi9_evaluate env now a s = Inr (ra, sa)"
    and "mi9_evaluate env now b s = Inr (rb, sb)"
  shows "mr_verdict ra \<le> mr_verdict rb"
proof -
  from assms(1) obtain c v rev where b: "b = a\<lparr>dc_confidence := c, dc_reversible := rev,
      dc_impactMagnitude := (dc_impactMagnitude a)\<lparr>im_value := v\<rparr>\<rparr>"
    and le: "js_le c (dc_confidence a)" "rev \<longrightarrow> dc_reversible a"
      "js_le (js_abs (im_value (dc_impactMagnitude a))) (js_abs v)"
    by (auto simp: riskier_def)
  from assms(2,3) obtain p w where
    a': "mr_verdict ra = aggregate (fst (gate_findings now a p w))" and
    b': "mr_verdict rb = aggregate (fst (gate_findings now b p w))"
    by (elim mi9_evaluate_InrE) simp
  have prior: "hasValidPriorApproval now b = hasValidPriorApproval now a"
    by (simp add: b hasValidPriorApproval_def split: option.split)
  have same: "gateSovereignty b p = gateSovereignty a p" "gateRiskTier b p = gateRiskTier a p"
    "gateEvidence b p = gateEvidence a p" "gatePolicyCompliance b p = gatePolicyCompliance a p"
    "gateRateLimits now b p w = gateRateLimits now a p w" "gateFallback b p = gateFallback a p"
    by (simp_all add: prior gateRateLimits_def)
      (simp_all add: b gateSovereignty_def gateRiskTier_def gateEvidence_def gatePolicyCompliance_def
        gateFallback_def Let_def)
  have "gf_verdict (gateReversibility a p) \<le> gf_verdict (gateReversibility b p)"
    using le(2) by (auto simp: gateReversibility_def b)
  moreover have "gf_verdict (gateImpact a p) \<le> gf_verdict (gateImpact b p)"
    using le(3) by (intro gateImpact_mono) (auto simp: b)
  moreover have "gf_verdict (gateConfidence a p) \<le> gf_verdict (gateConfidence b p)"
    using le(1) by (intro gateConfidence_mono) (auto simp: b)
  ultimately show ?thesis
    unfolding a' b' by (intro aggregate_mono) (simp add: gate_findings_eq same)
qed

theorem mi9_verdict_monotone_witness:
  "\<exists>ra sa rb sb. mi9_evaluate shipped_env 1000 sample_ctx mi9_init = Inr (ra, sa)
     \<and> mi9_evaluate shipped_env 1000
         (sample_ctx\<lparr>dc_confidence := Num (1 / 2), dc_reversible := False,
            dc_impactMagnitude := \<lparr>im_unit = ''EUR'', im_value = Num (-20000)\<rparr>\<rparr>) mi9_init = Inr (rb, sb)
     \<and> mr_verdict ra \<le> mr_verdict rb"
proof -
  let ?b = "sample_ctx\<lparr>dc_confidence := Num (1 / 2), dc_reversible := False,
      dc_impactMagnitude := \<lparr>im_unit = ''EUR'', im_value = Num (-20000)\<rparr>\<rparr>"
  have r: "riskier ?b sample_ctx" by (auto simp: riskier_def sample_ctx_def)
  obtain ra sa where a: "mi9_evaluate shipped_env 1000 sample_ctx mi9_init = Inr (ra, sa)"
    using shipped_eval_sample by blast
  obtain rb sb where b: "mi9_evaluate shipped_env 1000 ?b mi9_init = Inr (rb, sb)"
    by (rule mi9_evaluate_total[OF policy_of_shipped])
  show ?thesis using a b mi9_verdict_monotone[OF r a b] by blast
qed

text \<open>Witnesses of C1 and C2: an evaluation under the shipped policy that a human must co-sign, and
  one that is blocked.\<close>

theorem mi9_verdict_is_strictest_witness:
  "\<exists>r s. mi9_evaluate shipped_env 1000 sample_ctx mi9_init = Inr (r, s)
     \<and> (\<exists>f\<in>set (mr_findings r). gf_verdict f = mr_verdict r)"
proof -
  obtain r s where e: "mi9_evaluate shipped_env 1000 sample_ctx mi9_init = Inr (r, s)"
    using shipped_eval_sample by blast
  with mi9_verdict_is_strictest[OF e] show ?thesis by blast
qed

theorem mi9_block_explained_witness:
  "\<exists>r s. mi9_evaluate shipped_env 1000 (sample_ctx\<lparr>dc_domain := ''development.merge.main''\<rparr>) mi9_init
       = Inr (r, s) \<and> mr_verdict r = Block \<and> mr_blockReason r \<noteq> None"
proof -
  let ?c = "sample_ctx\<lparr>dc_domain := ''development.merge.main''\<rparr>"
  have "\<exists>r s. mi9_evaluate shipped_env 1000 ?c mi9_init = Inr (r, s) \<and> mr_verdict r = Block"
    by (simp add: mi9_eval_defs shipped_defs Let_def js_int_def)
  then obtain r s where e: "mi9_evaluate shipped_env 1000 ?c mi9_init = Inr (r, s)" "mr_verdict r = Block"
    by blast
  with mi9_block_explained[OF e(1)] show ?thesis by fastforce
qed

section \<open>Evaluation spends no budget\<close>

lemma prune_prune:
  "now \<le> later \<Longrightarrow> pruneOldDecisions later (pruneOldDecisions now w) = pruneOldDecisions later w"
  unfolding pruneOldDecisions_def by (induction w) auto

lemma gateRateLimits_window:
  "snd (gateRateLimits now ctx p w) = w \<or> snd (gateRateLimits now ctx p w) = pruneOldDecisions now w"
  using prune_prune[of now now w]
  by (auto simp: gateRateLimits_def Let_def autonomousCount_def cosignCount_def)

lemma gateRateLimits_pruned:
  assumes "now \<le> later"
  shows "fst (gateRateLimits later ctx p (pruneOldDecisions now w)) = fst (gateRateLimits later ctx p w)"
    and "pruneOldDecisions later (snd (gateRateLimits later ctx p (pruneOldDecisions now w)))
       = pruneOldDecisions later (snd (gateRateLimits later ctx p w))"
  using prune_prune[OF assms, of w] prune_prune[of later later w]
  by (simp_all add: gateRateLimits_def Let_def autonomousCount_def cosignCount_def)

lemma policy_of_cached:
  "policy_of env s = Inr (p, s1) \<Longrightarrow>
     ms_cachedPolicy s1 = Some p \<and> ms_decisionsThisHour s1 = ms_decisionsThisHour s
     \<and> policy_of env (s1\<lparr>ms_decisionsThisHour := w\<rparr>) = Inr (p, s1\<lparr>ms_decisionsThisHour := w\<rparr>)"
  by (auto simp: policy_of_def loadPolicy_def split: option.splits sum.splits)

text \<open>Evaluation is free of effects on later decisions: after evaluating any context, every later
  evaluation (the clock not running back) gives the very result it would have given without it.\<close>

theorem mi9_evaluate_is_idempotent:
  assumes "mi9_evaluate env now ctx s = Inr (r, s')" and "now \<le> later"
  shows "map_sum id fst (mi9_evaluate env later ctx' s') = map_sum id fst (mi9_evaluate env later ctx' s)"
proof -
  from assms(1) obtain p s1 where p: "policy_of env s = Inr (p, s1)"
    and s': "s' = s1\<lparr>ms_decisionsThisHour := snd (gateRateLimits now ctx p (ms_decisionsThisHour s1))\<rparr>"
    by (elim mi9_evaluate_InrE) (auto simp: gate_findings_eq)
  from policy_of_cached[OF p] have p': "policy_of env s' = Inr (p, s')" by (simp add: s')
  have "fst (gateRateLimits later ctx' p (ms_decisionsThisHour s'))
      = fst (gateRateLimits later ctx' p (ms_decisionsThisHour s1))"
    using gateRateLimits_window[of now ctx p "ms_decisionsThisHour s1"]
      gateRateLimits_pruned(1)[OF assms(2)] by (auto simp: s')
  then show ?thesis using p p' by (simp add: mi9_evaluate_def gate_findings_eq s')
qed

theorem mi9_evaluate_is_idempotent_witness:
  "\<exists>r s. mi9_evaluate shipped_env 1000 sample_ctx mi9_init = Inr (r, s)
     \<and> map_sum id fst (mi9_evaluate shipped_env 2000 sample_ctx s)
       = map_sum id fst (mi9_evaluate shipped_env 2000 sample_ctx mi9_init)"
proof -
  obtain r s where e: "mi9_evaluate shipped_env 1000 sample_ctx mi9_init = Inr (r, s)"
    using shipped_eval_sample by blast
  with mi9_evaluate_is_idempotent[OF e, of 2000 sample_ctx] show ?thesis by auto
qed

section \<open>Co-signed decisions\<close>

lemma hasValidPriorApproval_iff:
  "hasValidPriorApproval now ctx \<longleftrightarrow>
     (\<exists>a. dc_priorApproval ctx = Some a \<and> pa_decisionId a = dc_decisionId ctx
        \<and> \<not> js_less (js_minus (js_int now) (pa_approvedAtMs a)) (js_int 0)
        \<and> js_le (js_minus (js_int now) (pa_approvedAtMs a)) (js_int APPROVAL_VALIDITY_MS))"
  by (auto simp: hasValidPriorApproval_def Let_def split: option.split)

text \<open>The co-sign loop of defect D-1 cannot recur: once a decision carries an approval for its own
  id granted at \<open>t\<close>, every evaluation from \<open>t\<close> to fifteen minutes later has a verdict that does not
  depend on the rate window at all; an approval for another decision, a stale one or one from the
  future changes nothing.\<close>

theorem mi9_prior_approval_ignores_window:
  assumes "dc_priorApproval ctx = Some \<lparr>pa_decisionId = d, pa_approvedBy = who, pa_approvedAtMs = js_int t\<rparr>"
  shows "(d = dc_decisionId ctx \<and> t \<le> now \<and> now - t \<le> 15 * 60 * 1000 \<longrightarrow>
            aggregate (fst (gate_findings now ctx p w)) = aggregate (fst (gate_findings now ctx p w'))
            \<and> snd (gate_findings now ctx p w) = w)
       \<and> (\<not> (d = dc_decisionId ctx \<and> t \<le> now \<and> now - t \<le> 15 * 60 * 1000) \<longrightarrow>
            gate_findings now ctx p w = gate_findings now (ctx\<lparr>dc_priorApproval := None\<rparr>) p w)"
proof -
  let ?ok = "d = dc_decisionId ctx \<and> t \<le> now \<and> now - t \<le> 15 * 60 * 1000"
  have valid: "hasValidPriorApproval now ctx \<longleftrightarrow> ?ok"
    by (auto simp: hasValidPriorApproval_iff assms APPROVAL_VALIDITY_MS_def)
  have none: "\<not> hasValidPriorApproval now (ctx\<lparr>dc_priorApproval := None\<rparr>)"
    by (simp add: hasValidPriorApproval_iff)
  have rest: "gateSovereignty (ctx\<lparr>dc_priorApproval := None\<rparr>) p = gateSovereignty ctx p"
    "gateRiskTier (ctx\<lparr>dc_priorApproval := None\<rparr>) p = gateRiskTier ctx p"
    "gateReversibility (ctx\<lparr>dc_priorApproval := None\<rparr>) p = gateReversibility ctx p"
    "gateImpact (ctx\<lparr>dc_priorApproval := None\<rparr>) p = gateImpact ctx p"
    "gateConfidence (ctx\<lparr>dc_priorApproval := None\<rparr>) p = gateConfidence ctx p"
    "gateEvidence (ctx\<lparr>dc_priorApproval := None\<rparr>) p = gateEvidence ctx p"
    "gatePolicyCompliance (ctx\<lparr>dc_priorApproval := None\<rparr>) p = gatePolicyCompliance ctx p"
    "gateFallback (ctx\<lparr>dc_priorApproval := None\<rparr>) p = gateFallback ctx p"
    by (simp_all add: gateSovereignty_def gateRiskTier_def gateReversibility_def gateImpact_def
        gateConfidence_def gateEvidence_def gatePolicyCompliance_def gateFallback_def Let_def
        split: option.split)
  show ?thesis
  proof (cases ?ok)
    case True
    then have "hasValidPriorApproval now ctx" by (simp add: valid)
    with True show ?thesis by (simp add: gate_findings_eq gateRateLimits_def Let_def)
  next
    case False
    then have "\<not> hasValidPriorApproval now ctx" using valid by blast
    then have "gateRateLimits now ctx p w = gateRateLimits now (ctx\<lparr>dc_priorApproval := None\<rparr>) p w"
      using none by (simp add: gateRateLimits_def)
    then have "gate_findings now ctx p w = gate_findings now (ctx\<lparr>dc_priorApproval := None\<rparr>) p w"
      by (simp add: gate_findings_eq rest)
    with False show ?thesis by blast
  qed
qed

text \<open>At the twelfth autonomous execution of the hour, a fresh decision is held for co-signature; the
  same decision, co-signed, is allowed on the same window.\<close>

theorem mi9_prior_approval_ignores_window_witness:
  "let full = replicate 12 (1000 :: int, Allow);
       c = sample_ctx\<lparr>dc_priorApproval :=
             Some \<lparr>pa_decisionId = ''d1'', pa_approvedBy = ''merlin'', pa_approvedAtMs = js_int 2000\<rparr>\<rparr>
   in aggregate (fst (gate_findings 3000 sample_ctx shipped_policy full)) = AllowWithCosign
      \<and> aggregate (fst (gate_findings 3000 c shipped_policy full))
        = aggregate (fst (gate_findings 3000 c shipped_policy []))"
proof -
  let ?full = "replicate 12 (1000 :: int, Allow)"
  let ?c = "sample_ctx\<lparr>dc_priorApproval :=
      Some \<lparr>pa_decisionId = ''d1'', pa_approvedBy = ''merlin'', pa_approvedAtMs = js_int 2000\<rparr>\<rparr>"
  have full: "?full = [(1000, Allow), (1000, Allow), (1000, Allow), (1000, Allow), (1000, Allow), (1000, Allow),
      (1000, Allow), (1000, Allow), (1000, Allow), (1000, Allow), (1000, Allow), (1000, Allow)]"
    by (simp add: numeral_eq_Suc)
  have "aggregate (fst (gate_findings 3000 sample_ctx shipped_policy ?full)) = AllowWithCosign"
    unfolding full by (simp add: mi9_eval_defs shipped_defs hour_ms_def Let_def js_int_def)
  moreover have "dc_priorApproval ?c =
      Some \<lparr>pa_decisionId = ''d1'', pa_approvedBy = ''merlin'', pa_approvedAtMs = js_int 2000\<rparr>" by simp
  from mi9_prior_approval_ignores_window[OF this, of 3000 shipped_policy ?full "[]"]
  have "aggregate (fst (gate_findings 3000 ?c shipped_policy ?full))
      = aggregate (fst (gate_findings 3000 ?c shipped_policy []))"
    by (simp add: sample_ctx_def)
  ultimately show ?thesis by (simp add: Let_def)
qed

section \<open>Inputs that are not numbers\<close>

text \<open>The numeric gates are comparisons, so a \<open>NaN\<close> passes them: a context whose confidence, impact,
  source count and data age are all \<open>NaN\<close> is allowed by gates 4, 5 and 6 under every policy that
  does not require consensus for its domain.\<close>

theorem mi9_nan_passes_numeric_gates:
  assumes "dc_confidence ctx = NaN" "im_value (dc_impactMagnitude ctx) = NaN"
    and "ev_sourceCount (dc_evidence ctx) = NaN" "ev_lastRefreshMs (dc_evidence ctx) = NaN"
    and "dc_domain ctx \<notin> set (po_consensus_required_for_domains p)"
  shows "gf_verdict (gateImpact ctx p) = Allow \<and> gf_verdict (gateConfidence ctx p) = Allow
    \<and> gf_verdict (gateEvidence ctx p) = Allow"
proof -
  have "reached (dc_impactMagnitude ctx) ts = None" for ts
    using assms(2) by (simp add: reached_def find_None_iff)
  then show ?thesis using assms by (simp add: gateImpact_def gateConfidence_def gateEvidence_def Let_def)
qed

theorem mi9_nan_passes_numeric_gates_witness:
  "let c = sample_ctx\<lparr>dc_confidence := NaN, dc_impactMagnitude := \<lparr>im_unit = ''EUR'', im_value = NaN\<rparr>,
             dc_evidence := \<lparr>ev_sourceCount = NaN, ev_lastRefreshMs = NaN, ev_consensusReached = False\<rparr>\<rparr>
   in gf_verdict (gateConfidence c shipped_policy) = Allow"
proof -
  let ?c = "sample_ctx\<lparr>dc_confidence := NaN, dc_impactMagnitude := \<lparr>im_unit = ''EUR'', im_value = NaN\<rparr>,
      dc_evidence := \<lparr>ev_sourceCount = NaN, ev_lastRefreshMs = NaN, ev_consensusReached = False\<rparr>\<rparr>"
  have "dc_domain ?c \<notin> set (po_consensus_required_for_domains shipped_policy)"
    by (simp add: shipped_defs)
  from mi9_nan_passes_numeric_gates[OF _ _ _ _ this] show ?thesis by (simp add: Let_def)
qed

end
