(* ===== verification/Json.thy ===== *)
theory Json imports RonorPrelude "HOL-Library.Char_ord" "HOL-Library.List_Lexorder"
  "HOL-Library.Multiset" begin

text \<open>
  JSON values and their text.  A finite number is represented by its shortest decimal text, which
  is how \<open>JSON.stringify\<close> prints it; \<open>JNonFinite\<close> and \<open>JUndefined\<close> stand for the values JSON has
  no text for.  A character of the model is one UTF-16 code unit below 256.  An object is its list of entries in enumeration order,
  with distinct keys (\<open>json_wf\<close>).  The main result is that the text of a well-formed value
  determines it, whatever follows the text.
\<close>

section \<open>Values\<close>

datatype json =
    JNull
  | JBool bool
  | JNum string
  | JNonFinite
  | JUndefined
  | JStr string
  | JArr "json list"
  | JObj "(string \<times> json) list"

definition num_chars :: "char set" where
  "num_chars = set ''0123456789+-.e''"

definition num_token :: "string \<Rightarrow> bool" where
  "num_token t \<longleftrightarrow> t \<noteq> [] \<and> hd t \<in> set ''0123456789-'' \<and> set t \<subseteq> num_chars"

text \<open>Values that have a JSON text: numbers are finite, keys distinct, nothing undefined.\<close>

fun json_wf :: "json \<Rightarrow> bool" and json_wf_list :: "json list \<Rightarrow> bool"
  and json_wf_pairs :: "(string \<times> json) list \<Rightarrow> bool" where
  "json_wf JNull = True"
| "json_wf (JBool b) = True"
| "json_wf (JNum t) = num_token t"
| "json_wf JNonFinite = False"
| "json_wf JUndefined = False"
| "json_wf (JStr s) = True"
| "json_wf (JArr vs) = json_wf_list vs"
| "json_wf (JObj es) = (distinct (map fst es) \<and> json_wf_pairs es)"
| "json_wf_list [] = True"
| "json_wf_list (v # vs) = (json_wf v \<and> json_wf_list vs)"
| "json_wf_pairs [] = True"
| "json_wf_pairs ((k, v) # es) = (json_wf v \<and> json_wf_pairs es)"

section \<open>Text\<close>

definition hex_digit :: "nat \<Rightarrow> char" where
  "hex_digit n = (if n < 10 then char_of (48 + n) else char_of (87 + n))"

text \<open>The escapes of \<open>JSON.stringify\<close>: short forms, \<open>\u00XX\<close> for other controls, the byte itself.\<close>

definition esc_char :: "char \<Rightarrow> string" where
  "esc_char c =
     (if c = CHR 0x22 then [CHR 0x5C, CHR 0x22]
      else if c = CHR 0x5C then [CHR 0x5C, CHR 0x5C]
      else if c = CHR 0x08 then [CHR 0x5C, CHR ''b'']
      else if c = CHR 0x09 then [CHR 0x5C, CHR ''t'']
      else if c = CHR 0x0A then [CHR 0x5C, CHR ''n'']
      else if c = CHR 0x0C then [CHR 0x5C, CHR ''f'']
      else if c = CHR 0x0D then [CHR 0x5C, CHR ''r'']
      else if (of_char c :: nat) < 32
        then [CHR 0x5C, CHR ''u'', CHR ''0'', CHR ''0'',
              hex_digit (of_char c div 16), hex_digit (of_char c mod 16)]
      else [c])"

fun esc_string :: "string \<Rightarrow> string" where
  "esc_string [] = []"
| "esc_string (c # cs) = esc_char c @ esc_string cs"

definition quote :: "string \<Rightarrow> string" where
  "quote s = CHR 0x22 # esc_string s @ [CHR 0x22]"

fun commas :: "string list \<Rightarrow> string" where
  "commas [] = []"
| "commas [t] = t"
| "commas (t # u # ts) = t @ CHR '','' # commas (u # ts)"

fun render :: "json \<Rightarrow> string" and render_list :: "json list \<Rightarrow> string list"
  and render_pairs :: "(string \<times> json) list \<Rightarrow> string list" where
  "render JNull = ''null''"
| "render (JBool b) = (if b then ''true'' else ''false'')"
| "render (JNum t) = t"
| "render JNonFinite = ''null''"
| "render JUndefined = ''null''"
| "render (JStr s) = quote s"
| "render (JArr vs) = ''['' @ commas (render_list vs) @ '']''"
| "render (JObj es) = ''{'' @ commas (render_pairs es) @ ''}''"
| "render_list [] = []"
| "render_list (v # vs) = render v # render_list vs"
| "render_pairs [] = []"
| "render_pairs ((k, v) # es) = (quote k @ '':'' @ render v) # render_pairs es"

text \<open>Sorting the keys of every object, as the canonical forms do.\<close>

fun json_norm :: "json \<Rightarrow> json" and norm_list :: "json list \<Rightarrow> json list"
  and norm_pairs :: "(string \<times> json) list \<Rightarrow> (string \<times> json) list" where
  "json_norm (JArr vs) = JArr (norm_list vs)"
| "json_norm (JObj es) = JObj (sort_key fst (norm_pairs es))"
| "json_norm v = v"
| "norm_list [] = []"
| "norm_list (v # vs) = json_norm v # norm_list vs"
| "norm_pairs [] = []"
| "norm_pairs ((k, v) # es) = (k, json_norm v) # norm_pairs es"

section \<open>The text determines the value\<close>

lemma hex_digit_inj: "m < 16 \<Longrightarrow> n < 16 \<Longrightarrow> hex_digit m = hex_digit n \<Longrightarrow> m = n"
proof -
  assume a: "m < 16" "n < 16" "hex_digit m = hex_digit n"
  have of: "of_char (hex_digit k) = (if k < 10 then 48 + k else 87 + k)" if "k < 16" for k :: nat
    using that by (auto simp: hex_digit_def take_bit_eq_mod)
  have "(if m < 10 then 48 + m else 87 + m) = (if n < 10 then 48 + n else 87 + n)"
    using a of[of m] of[of n] by metis
  then show "m = n" by (auto split: if_splits)
qed

lemma of_char_inj: "(of_char c :: nat) = of_char d \<Longrightarrow> c = d"
  by (metis char_of_char)

text \<open>The character a short escape stands for.\<close>

definition unshort :: "char \<Rightarrow> char option" where
  "unshort k = map_of [(CHR 0x22, CHR 0x22), (CHR 0x5C, CHR 0x5C), (CHR ''b'', CHR 0x08),
     (CHR ''t'', CHR 0x09), (CHR ''n'', CHR 0x0A), (CHR ''f'', CHR 0x0C), (CHR ''r'', CHR 0x0D)] k"

lemma esc_char_cases:
  obtains (short) k where "esc_char c = [CHR 0x5C, k]" "unshort k = Some c"
  | (control) "(of_char c :: nat) < 32" "esc_char c = [CHR 0x5C, CHR ''u'', CHR ''0'', CHR ''0'',
      hex_digit (of_char c div 16), hex_digit (of_char c mod 16)]"
  | (raw) "esc_char c = [c]" "c \<noteq> CHR 0x5C"
proof (cases "c \<in> {CHR 0x22, CHR 0x5C, CHR 0x08, CHR 0x09, CHR 0x0A, CHR 0x0C, CHR 0x0D}")
  case True
  then have "\<exists>k. esc_char c = [CHR 0x5C, k] \<and> unshort k = Some c"
    by (auto simp: esc_char_def unshort_def)
  then show ?thesis using short by blast
next
  case False
  then show ?thesis
    by (cases "(of_char c :: nat) < 32") (auto simp: esc_char_def intro: control raw)
qed

lemma unshort_u [simp]: "unshort CHR ''u'' = None"
  by (simp add: unshort_def)

lemma control_inj:
  assumes "(of_char c :: nat) < 32" "(of_char d :: nat) < 32"
    and "hex_digit (of_char c div 16) = hex_digit (of_char d div 16)"
    and "hex_digit (of_char c mod 16) = hex_digit (of_char d mod 16)"
  shows "c = d"
proof -
  have "(of_char c :: nat) div 16 = of_char d div 16" "(of_char c :: nat) mod 16 = of_char d mod 16"
    using assms by (auto intro!: hex_digit_inj)
  then have "(of_char c :: nat) = of_char d" by (metis div_mult_mod_eq)
  then show ?thesis by (rule of_char_inj)
qed

lemma esc_char_prefix: "esc_char c @ x = esc_char d @ y \<Longrightarrow> c = d \<and> x = y"
  by (cases c rule: esc_char_cases; cases d rule: esc_char_cases) (auto intro: control_inj)

lemma esc_char_not_quote: "esc_char c \<noteq> [] \<and> hd (esc_char c) \<noteq> CHR 0x22"
  by (auto simp: esc_char_def)

lemma esc_string_prefix:
  "esc_string s @ CHR 0x22 # x = esc_string t @ CHR 0x22 # y \<Longrightarrow> s = t \<and> x = y"
proof (induction s arbitrary: t)
  case Nil
  show ?case
  proof (cases t)
    case (Cons d ts)
    with Nil esc_char_not_quote[of d] show ?thesis by (cases "esc_char d") auto
  qed (use Nil in simp)
next
  case (Cons c cs)
  show ?case
  proof (cases t)
    case Nil
    with Cons.prems esc_char_not_quote[of c] show ?thesis by (cases "esc_char c") auto
  next
    case t: (Cons d ts)
    from Cons.prems have "esc_char c @ (esc_string cs @ CHR 0x22 # x) = esc_char d @ (esc_string ts @ CHR 0x22 # y)"
      by (simp add: t)
    from esc_char_prefix[OF this] Cons.IH[of ts] show ?thesis by (simp add: t)
  qed
qed

lemma quote_prefix: "quote s @ x = quote t @ y \<Longrightarrow> s = t \<and> x = y"
  using esc_string_prefix[of s x t y] by (simp add: quote_def)

text \<open>What may follow a value inside a text: nothing, or a separator or closing bracket.\<close>

definition delimited :: "string \<Rightarrow> bool" where
  "delimited r \<longleftrightarrow> r = [] \<or> hd r \<in> set '',]}''"

lemma delimited_simps [simp]:
  "delimited []" "delimited (CHR '','' # r)" "delimited (CHR '']'' # r)" "delimited (CHR ''}'' # r)"
  by (simp_all add: delimited_def)

lemma num_token_prefix:
  assumes "num_token t" "num_token u" "delimited r" "delimited s" "t @ r = u @ s"
  shows "t = u \<and> r = s"
proof -
  have take: "takeWhile (\<lambda>c. c \<in> num_chars) (t @ r) = t" if "num_token t" "delimited r" for t r
    using that by (cases r) (auto simp: num_token_def delimited_def num_chars_def subset_iff takeWhile_eq_all_conv)
  have "t = u" using take[OF assms(1,3)] take[OF assms(2,4)] assms(5) by simp
  then show ?thesis using assms(5) by simp
qed

text \<open>The first byte of a text tells the kind of value.\<close>

definition byte_kind :: "char \<Rightarrow> nat" where
  "byte_kind c =
     (if c = CHR ''n'' then 0 else if c = CHR ''t'' then 1 else if c = CHR ''f'' then 2
      else if c = CHR 0x22 then 3 else if c = CHR ''['' then 4 else if c = CHR ''{'' then 5
      else if c \<in> set '',]}'' then 7 else 6)"

fun json_kind :: "json \<Rightarrow> nat" where
  "json_kind (JBool b) = (if b then 1 else 2)"
| "json_kind (JStr s) = 3"
| "json_kind (JArr vs) = 4"
| "json_kind (JObj es) = 5"
| "json_kind (JNum t) = 6"
| "json_kind _ = 0"

lemma num_first: "num_token t \<Longrightarrow> \<exists>c cs. t = c # cs \<and> byte_kind c = 6"
  by (cases t) (auto simp: num_token_def byte_kind_def)

lemma render_first:
  assumes "json_wf v"
  obtains c cs where "render v = c # cs" "byte_kind c = json_kind v"
proof (cases v)
  case (JNum t)
  with assms num_first[of t] that show ?thesis by auto
next
  case (JBool b)
  with that show ?thesis by (cases b) (auto simp: byte_kind_def)
qed (use that in \<open>auto simp: byte_kind_def quote_def\<close>)

lemma json_kind_le: "json_kind v \<le> 6"
  by (cases v) auto

lemma render_not_closing:
  assumes "json_wf v"
  obtains c cs where "render v = c # cs" "c \<noteq> CHR '',''" "c \<noteq> CHR '']''" "c \<noteq> CHR ''}''"
proof -
  obtain c cs where r: "render v = c # cs" "byte_kind c = json_kind v" by (rule render_first[OF assms])
  then have "byte_kind c \<noteq> 7" using json_kind_le[of v] by simp
  then have "c \<noteq> CHR '',''" "c \<noteq> CHR '']''" "c \<noteq> CHR ''}''" by (auto simp: byte_kind_def)
  with r that show ?thesis by blast
qed

lemma render_kind_eq:
  assumes "json_wf v" "json_wf w" "render v @ r = render w @ s"
  shows "json_kind w = json_kind v"
proof -
  obtain c cs where v: "render v = c # cs" "byte_kind c = json_kind v" by (rule render_first[OF assms(1)])
  obtain d ds where w: "render w = d # ds" "byte_kind d = json_kind w" by (rule render_first[OF assms(2)])
  from assms(3) v(1) w(1) have "c = d" by simp
  with v(2) w(2) show ?thesis by simp
qed

lemma json_kind_dests:
  "json_kind w = 0 \<Longrightarrow> json_wf w \<Longrightarrow> w = JNull"
  "json_kind w = (if b then 1 else 2) \<Longrightarrow> w = JBool b"
  "json_kind w = 3 \<Longrightarrow> \<exists>s. w = JStr s"
  "json_kind w = 4 \<Longrightarrow> \<exists>vs. w = JArr vs"
  "json_kind w = 5 \<Longrightarrow> \<exists>es. w = JObj es"
  "json_kind w = 6 \<Longrightarrow> \<exists>t. w = JNum t"
  by (cases w; simp split: if_splits)+

lemma commas_Cons: "commas (t # ts) = t @ (if ts = [] then [] else CHR '','' # commas ts)"
  by (cases ts) auto

lemma render_list_Nil [simp]: "render_list vs = [] \<longleftrightarrow> vs = []" "render_pairs es = [] \<longleftrightarrow> es = []"
  by (cases vs; simp) (cases es; auto)

lemma render_prefix_mutual:
  "json_wf v \<Longrightarrow> json_wf w \<Longrightarrow> delimited r \<Longrightarrow> delimited s \<Longrightarrow>
     render v @ r = render w @ s \<Longrightarrow> v = w \<and> r = s"
  "json_wf_list vs \<Longrightarrow> json_wf_list ws \<Longrightarrow>
     commas (render_list vs) @ CHR '']'' # r = commas (render_list ws) @ CHR '']'' # s \<Longrightarrow> vs = ws \<and> r = s"
  "json_wf_pairs es \<Longrightarrow> json_wf_pairs fs \<Longrightarrow>
     commas (render_pairs es) @ CHR ''}'' # r = commas (render_pairs fs) @ CHR ''}'' # s \<Longrightarrow> es = fs \<and> r = s"
proof (induction v and vs and es arbitrary: w r s and ws r s and fs r s
    rule: render_render_list_render_pairs.induct)
  case (7 vs)
  from render_kind_eq[OF 7(2,3,6)] obtain ws where w: "w = JArr ws" using json_kind_dests(4) by auto
  from 7(6) have "commas (render_list vs) @ CHR '']'' # r = commas (render_list ws) @ CHR '']'' # s"
    by (simp add: w)
  from 7(1)[OF _ _ this] 7(2,3) show ?case by (simp add: w)
next
  case (8 es)
  from render_kind_eq[OF 8(2,3,6)] obtain fs where w: "w = JObj fs" using json_kind_dests(5) by auto
  from 8(6) have "commas (render_pairs es) @ CHR ''}'' # r = commas (render_pairs fs) @ CHR ''}'' # s"
    by (simp add: w)
  from 8(1)[OF _ _ this] 8(2,3) show ?case by (simp add: w)
next
  case (3 t)
  from render_kind_eq[OF 3(1,2,5)] obtain u where "w = JNum u" using json_kind_dests(6) by auto
  with 3 num_token_prefix[of t u r s] show ?case by simp
next
  case (6 t)
  from render_kind_eq[OF 6(1,2,5)] obtain u where "w = JStr u" using json_kind_dests(3) by auto
  with 6 quote_prefix[of t r u s] show ?case by simp
next
  case 1
  from render_kind_eq[OF 1(1,2,5)] have "w = JNull" using json_kind_dests(1) 1(2) by simp
  with 1 show ?case by simp
next
  case (2 b)
  from render_kind_eq[OF 2(1,2,5)] have "w = JBool b" by (intro json_kind_dests(2)) simp
  with 2 show ?case by simp
next
  case 9
  show ?case
  proof (cases ws)
    case (Cons w' ws')
    with 9(2) obtain c cs where "render w' = c # cs" "c \<noteq> CHR '']''"
      by (auto elim: render_not_closing)
    with 9(3) Cons show ?thesis by (simp add: commas_Cons)
  qed (use 9 in simp)
next
  case (10 v vs)
  show ?case
  proof (cases ws)
    case Nil
    from 10(3) obtain c cs where "render v = c # cs" "c \<noteq> CHR '']''"
      by (auto elim: render_not_closing)
    with 10(5) Nil show ?thesis by (simp add: commas_Cons)
  next
    case (Cons w' ws')
    let ?tl = "\<lambda>xs z. (if xs = [] then [] else CHR '','' # commas (render_list xs)) @ CHR '']'' # z"
    have "render v @ ?tl vs r = render w' @ ?tl ws' s"
      using 10(5) by (simp add: Cons commas_Cons)
    from 10(1)[OF _ _ _ _ this] 10(3,4) have "v = w'" "?tl vs r = ?tl ws' s"
      by (auto simp: Cons)
    with 10(2)[of ws' r s] 10(3,4) show ?thesis by (auto simp: Cons split: if_splits)
  qed
next
  case 11
  show ?case
  proof (cases fs)
    case (Cons f fs')
    with 11 show ?thesis by (cases f) (auto simp: commas_Cons quote_def)
  qed (use 11 in simp)
next
  case (12 k v es)
  show ?case
  proof (cases fs)
    case Nil
    with 12 show ?thesis by (auto simp: commas_Cons quote_def)
  next
    case (Cons f fs')
    obtain k' v' where f: "f = (k', v')" by (cases f)
    let ?tl = "\<lambda>xs z. (if xs = [] then [] else CHR '','' # commas (render_pairs xs)) @ CHR ''}'' # z"
    have "quote k @ CHR '':'' # render v @ ?tl es r = quote k' @ CHR '':'' # render v' @ ?tl fs' s"
      using 12(5) by (simp add: Cons f commas_Cons)
    from quote_prefix[OF this] have kv: "k = k'" "render v @ ?tl es r = render v' @ ?tl fs' s" by simp_all
    from 12(1)[OF _ _ _ _ kv(2)] 12(3,4) have "v = v'" "?tl es r = ?tl fs' s"
      by (auto simp: Cons f)
    with kv(1) 12(2)[of fs' r s] 12(3,4) show ?thesis by (auto simp: Cons f split: if_splits)
  qed
qed auto

lemma render_inject:
  "json_wf v \<Longrightarrow> json_wf w \<Longrightarrow> render v = render w \<Longrightarrow> v = w"
  using render_prefix_mutual(1)[of v w "[]" "[]"] by simp

section \<open>Sorting keys\<close>

lemma norm_pairs_keys [simp]: "map fst (norm_pairs es) = map fst es"
  by (induction es) auto

lemma json_wf_pairs_iff: "json_wf_pairs es \<longleftrightarrow> (\<forall>(k, v)\<in>set es. json_wf v)"
  by (induction es) auto

lemma json_wf_norm:
  "json_wf v \<Longrightarrow> json_wf (json_norm v)"
  "json_wf_list vs \<Longrightarrow> json_wf_list (norm_list vs)"
  "json_wf_pairs es \<Longrightarrow> json_wf_pairs (norm_pairs es)"
proof (induction v and vs and es rule: json_norm_norm_list_norm_pairs.induct)
  case (2 es)
  have "mset (map fst (sort_key fst (norm_pairs es))) = mset (map fst es)"
    by (metis mset_map mset_sort norm_pairs_keys)
  then have "distinct (map fst (sort_key fst (norm_pairs es)))"
    using 2(2) by (metis json_wf.simps(8) mset_eq_imp_distinct_iff)
  with 2 show ?case by (simp add: json_wf_pairs_iff)
qed auto

end
