(* ===== verification/Canonical.thy ===== *)
theory Canonical imports Json begin

text \<open>
  The canonical texts the program hashes and signs.

  \<open>canonicalJson\<close> (\<open>src/src/runtime/executor/canonical.ts\<close>) sorts keys, refuses what has no stable
  text, and bounds the depth; an exception is \<open>Inl\<close>.  \<open>canonicalStringify\<close>
  (\<open>src/src/audit/hash-chain.ts\<close>) sorts keys into a fresh object and prints that with
  \<open>JSON.stringify\<close>; it also remembers every object it has met and replaces later occurrences by
  \<open>null\<close>, so its input carries the identity of its objects.
\<close>

section \<open>The executor's canonical form\<close>

fun sequence :: "('e + 'a) list \<Rightarrow> 'e + 'a list" where
  "sequence [] = Inr []"
| "sequence (Inl e # rs) = Inl e"
| "sequence (Inr x # rs) = (case sequence rs of Inl e \<Rightarrow> Inl e | Inr xs \<Rightarrow> Inr (x # xs))"

definition bracket :: "string \<Rightarrow> string \<Rightarrow> string + string list \<Rightarrow> string + string" where
  "bracket l r ts = (case ts of Inl e \<Rightarrow> Inl e | Inr xs \<Rightarrow> Inr (l @ commas xs @ r))"

definition entry_text :: "string \<times> (string + string) \<Rightarrow> string + string" where
  "entry_text kt = (case snd kt of Inl e \<Rightarrow> Inl e | Inr t \<Rightarrow> Inr (quote (fst kt) @ '':'' @ t))"

fun canonicalJson :: "nat \<Rightarrow> json \<Rightarrow> string + string"
  and canonical_items :: "nat \<Rightarrow> json list \<Rightarrow> (string + string) list"
  and canonical_entries :: "nat \<Rightarrow> (string \<times> json) list \<Rightarrow> (string \<times> (string + string)) list" where
  "canonicalJson d v =
     (if d > 16 then Inl ''canonical_depth_exceeded''
      else case v of
        JNull \<Rightarrow> Inr ''null''
      | JStr s \<Rightarrow> Inr (quote s)
      | JBool b \<Rightarrow> Inr (if b then ''true'' else ''false'')
      | JNum t \<Rightarrow> Inr t
      | JNonFinite \<Rightarrow> Inl ''canonical_non_finite_number''
      | JArr vs \<Rightarrow> bracket ''['' '']'' (sequence (canonical_items (d + 1) vs))
      | JObj es \<Rightarrow> bracket ''{'' ''}''
                     (sequence (map entry_text (sort_key fst (canonical_entries (d + 1) es))))
      | JUndefined \<Rightarrow> Inl ''canonical_unsupported_type:undefined'')"
| "canonical_items d [] = []"
| "canonical_items d (v # vs) = canonicalJson d v # canonical_items d vs"
| "canonical_entries d [] = []"
| "canonical_entries d ((k, v) # es) = (k, canonicalJson d v) # canonical_entries d es"

declare canonicalJson.simps [simp del]

text \<open>What holds of every JavaScript value: keys of an object are distinct, numbers print as numbers.\<close>

fun js_value :: "json \<Rightarrow> bool" and js_values :: "json list \<Rightarrow> bool"
  and js_entries :: "(string \<times> json) list \<Rightarrow> bool" where
  "js_value (JNum t) = num_token t"
| "js_value (JArr vs) = js_values vs"
| "js_value (JObj es) = (distinct (map fst es) \<and> js_entries es)"
| "js_value _ = True"
| "js_values [] = True"
| "js_values (v # vs) = (js_value v \<and> js_values vs)"
| "js_entries [] = True"
| "js_entries ((k, v) # es) = (js_value v \<and> js_entries es)"

lemma sequence_Inr_iff: "sequence rs = Inr xs \<longleftrightarrow> rs = map Inr xs"
proof (induction rs arbitrary: xs)
  case (Cons r rs)
  show ?case
  proof (cases r)
    case (Inr y)
    then show ?thesis using Cons.IH by (cases xs; cases "sequence rs") auto
  qed auto
qed auto

lemma bracket_Inr_iff: "bracket l r ts = Inr s \<longleftrightarrow> (\<exists>xs. ts = Inr xs \<and> s = l @ commas xs @ r)"
  by (auto simp: bracket_def split: sum.splits)

lemma canonical_entries_map: "canonical_entries d es = map (\<lambda>(k, v). (k, canonicalJson d v)) es"
  by (induction es) auto

lemma canonical_items_map: "canonical_items d vs = map (canonicalJson d) vs"
  by (induction vs) auto

lemma norm_pairs_map: "norm_pairs es = map (\<lambda>(k, v). (k, json_norm v)) es"
  by (induction es) auto

lemma norm_list_map: "norm_list vs = map json_norm vs"
  by (induction vs) auto

lemma render_pairs_map: "render_pairs es = map (\<lambda>(k, v). quote k @ '':'' @ render v) es"
  by (induction es) auto

lemma render_list_map: "render_list vs = map render vs"
  by (induction vs) auto

lemma js_entries_iff: "js_entries es \<longleftrightarrow> (\<forall>(k, v)\<in>set es. js_value v)"
  by (induction es) auto

lemma js_values_iff: "js_values vs \<longleftrightarrow> (\<forall>v\<in>set vs. js_value v)"
  by (induction vs) auto

lemma json_wf_list_iff: "json_wf_list vs \<longleftrightarrow> (\<forall>v\<in>set vs. json_wf v)"
  by (induction vs) auto

lemma sort_key_map: "sort_key k (map f xs) = map f (sort_key (k \<circ> f) xs)"
proof (induction xs)
  case (Cons x xs)
  have "insort_key k (f x) (map f ys) = map f (insort_key (k \<circ> f) x ys)" for ys
    by (induction ys) auto
  with Cons show ?case by (simp add: o_def)
qed simp

lemma sort_key_map_snd: "sort_key fst (map (\<lambda>(k, v). (k, g v)) es) = map (\<lambda>(k, v). (k, g v)) (sort_key fst es)"
proof -
  have fst_eq: "fst \<circ> (\<lambda>(k, v). (k, g v)) = fst" by auto
  show ?thesis by (simp only: sort_key_map fst_eq)
qed

text \<open>A successful canonical form is the text of the value with its keys sorted.\<close>

lemma canonicalJson_render:
  "js_value v \<Longrightarrow> canonicalJson d v = Inr s \<Longrightarrow> json_wf v \<and> s = render (json_norm v)"
proof (induction v arbitrary: d s)
  case (JArr vs)
  from JArr.prems(2) obtain xs where xs: "map (canonicalJson (d + 1)) vs = map Inr xs" "s = ''['' @ commas xs @ '']''"
    by (auto simp: canonicalJson.simps[of d "JArr vs"] bracket_Inr_iff sequence_Inr_iff
        canonical_items_map split: if_splits)
  have each: "json_wf v \<and> canonicalJson (d + 1) v = Inr (render (json_norm v))" if "v \<in> set vs" for v
  proof -
    from that have "canonicalJson (d + 1) v \<in> set (map Inr xs)" by (metis image_eqI list.set_map xs(1))
    then obtain t where "canonicalJson (d + 1) v = Inr t" by auto
    with JArr.IH[OF that, of "d + 1" t] JArr.prems(1) that show ?thesis by (auto simp: js_values_iff)
  qed
  then have "map (canonicalJson (d + 1)) vs = map (Inr \<circ> (\<lambda>v. render (json_norm v))) vs" by auto
  with xs(1) have "map (Inr :: string \<Rightarrow> string + string) xs = map Inr (map (\<lambda>v. render (json_norm v)) vs)" by simp
  then have "xs = map (\<lambda>v. render (json_norm v)) vs" by (metis Inr_inject inj_map_eq_map inj_def)
  with each xs(2) show ?case by (simp add: json_wf_list_iff norm_list_map render_list_map o_def)
next
  case (JObj es)
  let ?es = "sort_key fst es"
  have sorted: "map entry_text (sort_key fst (canonical_entries (d + 1) es))
      = map (\<lambda>(k, v). entry_text (k, canonicalJson (d + 1) v)) ?es"
    unfolding canonical_entries_map sort_key_map_snd by (simp add: o_def case_prod_unfold)
  from JObj.prems(2) obtain xs where xs:
    "map (\<lambda>(k, v). entry_text (k, canonicalJson (d + 1) v)) ?es = map Inr xs" "s = ''{'' @ commas xs @ ''}''"
    by (auto simp: canonicalJson.simps[of d "JObj es"] bracket_Inr_iff sequence_Inr_iff
        sorted[simplified] split: if_splits)
  have each: "json_wf v \<and> entry_text (k, canonicalJson (d + 1) v) = Inr (quote k @ '':'' @ render (json_norm v))"
    if "(k, v) \<in> set es" for k v
  proof -
    from that have "entry_text (k, canonicalJson (d + 1) v)
        \<in> set (map (\<lambda>(k, v). entry_text (k, canonicalJson (d + 1) v)) ?es)" by force
    then obtain t where "canonicalJson (d + 1) v = Inr t"
      unfolding xs(1) by (auto simp: entry_text_def split: sum.splits)
    with JObj.IH[of "(k, v)" v "d + 1" t] JObj.prems(1) that show ?thesis
      by (auto simp: js_entries_iff entry_text_def)
  qed
  then have "map (\<lambda>(k, v). entry_text (k, canonicalJson (d + 1) v)) ?es
      = map (Inr \<circ> (\<lambda>(k, v). quote k @ '':'' @ render (json_norm v))) ?es"
    by (intro map_cong) auto
  with xs(1) have "map (Inr :: string \<Rightarrow> string + string) xs
      = map Inr (map (\<lambda>(k, v). quote k @ '':'' @ render (json_norm v)) ?es)" by simp
  then have "xs = map (\<lambda>(k, v). quote k @ '':'' @ render (json_norm v)) ?es"
    by (metis Inr_inject inj_map_eq_map inj_def)
  moreover have "render_pairs (sort_key fst (norm_pairs es)) = map (\<lambda>(k, v). quote k @ '':'' @ render (json_norm v)) ?es"
    unfolding norm_pairs_map sort_key_map_snd render_pairs_map by (simp add: o_def case_prod_unfold)
  ultimately show ?case using each xs(2) JObj.prems(1) by (auto simp: json_wf_pairs_iff)
qed (auto simp: canonicalJson.simps split: if_splits)

lemma canonicalJson_inj:
  assumes "js_value v" "js_value w"
    and "canonicalJson d v = Inr s" "canonicalJson e w = Inr s"
  shows "json_norm v = json_norm w"
proof -
  have "json_wf (json_norm v)" "json_wf (json_norm w)" "render (json_norm v) = render (json_norm w)"
    using canonicalJson_render[OF assms(1,3)] canonicalJson_render[OF assms(2,4)] json_wf_norm(1) by auto
  then show ?thesis by (rule render_inject)
qed

text \<open>The canonical text determines the value: two JavaScript values with the same canonical
  text are equal up to the order of object keys, at every depth budget.  So no two different
  actions, approvals or mandates are hashed or signed as the same text.\<close>

theorem canonicalJson_injective:
  assumes "js_value v" "js_value w"
    and "canonicalJson d v = Inr s" "canonicalJson e w = Inr s"
  shows "json_norm v = json_norm w"
  using assms by (rule canonicalJson_inj)

theorem canonicalJson_injective_witness:
  "let v = JObj [(''b'', JArr [JNum ''1'', JNull]), (''a'', JStr ''x'')];
       w = JObj [(''a'', JStr ''x''), (''b'', JArr [JNum ''1'', JNull])]
   in canonicalJson 0 v = canonicalJson 0 w \<and> json_norm v = json_norm w \<and> v \<noteq> w"
proof -
  let ?v = "JObj [(''b'', JArr [JNum ''1'', JNull]), (''a'', JStr ''x'')]"
  let ?w = "JObj [(''a'', JStr ''x''), (''b'', JArr [JNum ''1'', JNull])]"
  have js: "js_value ?v" "js_value ?w" by (simp_all add: num_token_def num_chars_def)
  have less: "(''a'' :: string) \<le> ''b''" "\<not> (''b'' :: string) \<le> ''a''"
    by (simp_all add: Cons_le_Cons less_char_def less_eq_char_def)
  have canon: "canonicalJson 0 ?v = Inr (CHR ''{'' # quote ''a'' @ '':'' @ quote ''x'' @ '','' @ quote ''b'' @ '':[1,null]}'')"
    "canonicalJson 0 ?w = Inr (CHR ''{'' # quote ''a'' @ '':'' @ quote ''x'' @ '','' @ quote ''b'' @ '':[1,null]}'')"
    by (simp_all add: canonicalJson.simps bracket_def entry_text_def less)
  show ?thesis using canonicalJson_injective[OF js canon] canon by (simp add: Let_def)
qed

section \<open>The audit chain's canonical form\<close>

text \<open>
  A value with the identity of its arrays and objects: \<open>RPrim\<close> is a primitive, the number in the
  other two is the object's address.
\<close>

datatype jref =
    RPrim json
  | RArr nat "jref list"
  | RObj nat "(string \<times> jref) list"

text \<open>
  Enumeration order of an object filled with the given entries: array indices first, ascending,
  then the other keys in insertion order.
\<close>

fun digits_value :: "nat \<Rightarrow> string \<Rightarrow> nat" where
  "digits_value acc [] = acc"
| "digits_value acc (c # cs) = digits_value (10 * acc + (of_char c - 48)) cs"

definition array_index :: "string \<Rightarrow> bool" where
  "array_index k \<longleftrightarrow>
     k = ''0'' \<or>
     (k \<noteq> [] \<and> list_all (\<lambda>c. 48 \<le> (of_char c :: nat) \<and> (of_char c :: nat) \<le> 57) k
        \<and> hd k \<noteq> CHR ''0'' \<and> digits_value 0 k < 2 ^ 32 - 1)"

definition enum_order :: "(string \<times> 'a) list \<Rightarrow> (string \<times> 'a) list" where
  "enum_order es =
     sort_key (digits_value 0 \<circ> fst) (filter (array_index \<circ> fst) es) @ filter (Not \<circ> array_index \<circ> fst) es"

lemma size_list_sort [simp]: "size_list f (sort_key k xs) = size_list f xs"
proof -
  have "size_list f ys = sum_mset (image_mset f (mset ys)) + length ys" for ys
    by (induction ys) auto
  then show ?thesis by simp
qed

function (sequential) canon_walk :: "nat list \<Rightarrow> jref \<Rightarrow> json \<times> nat list"
  and canon_walk_list :: "nat list \<Rightarrow> jref list \<Rightarrow> json list \<times> nat list"
  and canon_walk_entries :: "nat list \<Rightarrow> (string \<times> jref) list \<Rightarrow> (string \<times> json) list \<times> nat list" where
  "canon_walk seen (RPrim j) = (j, seen)"
| "canon_walk seen (RArr a vs) =
     (if a \<in> set seen then (JNull, seen)
      else let (js, seen') = canon_walk_list (a # seen) vs in (JArr js, seen'))"
| "canon_walk seen (RObj a es) =
     (if a \<in> set seen then (JNull, seen)
      else let (js, seen') = canon_walk_entries (a # seen) (sort_key fst es)
           in (JObj (enum_order js), seen'))"
| "canon_walk_list seen [] = ([], seen)"
| "canon_walk_list seen (v # vs) =
     (let (j, seen') = canon_walk seen v; (js, seen'') = canon_walk_list seen' vs in (j # js, seen''))"
| "canon_walk_entries seen [] = ([], seen)"
| "canon_walk_entries seen ((k, v) # es) =
     (let (j, seen') = canon_walk seen v; (js, seen'') = canon_walk_entries seen' es
      in ((k, j) # js, seen''))"
  by pat_completeness auto
termination
  by (relation "measure (\<lambda>x. case x of Inl (_, v) \<Rightarrow> size v
        | Inr (Inl (_, vs)) \<Rightarrow> size_list size vs
        | Inr (Inr (_, es)) \<Rightarrow> size_list (size_prod (\<lambda>_. 0) size) es)") auto

text \<open>\<open>JSON.stringify\<close> leaves out the entries of an object that have no text.\<close>

fun json_strip :: "json \<Rightarrow> json" and json_strip_list :: "json list \<Rightarrow> json list"
  and json_strip_pairs :: "(string \<times> json) list \<Rightarrow> (string \<times> json) list" where
  "json_strip (JArr vs) = JArr (json_strip_list vs)"
| "json_strip (JObj es) = JObj (json_strip_pairs es)"
| "json_strip v = v"
| "json_strip_list [] = []"
| "json_strip_list (v # vs) = json_strip v # json_strip_list vs"
| "json_strip_pairs [] = []"
| "json_strip_pairs ((k, v) # es) =
     (if v = JUndefined then json_strip_pairs es else (k, json_strip v) # json_strip_pairs es)"

definition canonicalStringify :: "jref \<Rightarrow> string" where
  "canonicalStringify v = render (json_strip (fst (canon_walk [] v)))"

text \<open>The value without identities, and the addresses in it.\<close>

fun deref :: "jref \<Rightarrow> json" and deref_list :: "jref list \<Rightarrow> json list"
  and deref_entries :: "(string \<times> jref) list \<Rightarrow> (string \<times> json) list" where
  "deref (RPrim j) = j"
| "deref (RArr a vs) = JArr (deref_list vs)"
| "deref (RObj a es) = JObj (deref_entries es)"
| "deref_list [] = []"
| "deref_list (v # vs) = deref v # deref_list vs"
| "deref_entries [] = []"
| "deref_entries ((k, v) # es) = (k, deref v) # deref_entries es"

fun addrs :: "jref \<Rightarrow> nat list" and addrs_list :: "jref list \<Rightarrow> nat list"
  and addrs_entries :: "(string \<times> jref) list \<Rightarrow> nat list" where
  "addrs (RPrim j) = []"
| "addrs (RArr a vs) = a # addrs_list vs"
| "addrs (RObj a es) = a # addrs_entries es"
| "addrs_list [] = []"
| "addrs_list (v # vs) = addrs v @ addrs_list vs"
| "addrs_entries [] = []"
| "addrs_entries ((k, v) # es) = addrs v @ addrs_entries es"

text \<open>The enumeration order applied throughout a value whose keys are sorted.\<close>

fun json_enum :: "json \<Rightarrow> json" and json_enum_list :: "json list \<Rightarrow> json list"
  and json_enum_pairs :: "(string \<times> json) list \<Rightarrow> (string \<times> json) list" where
  "json_enum (JArr vs) = JArr (json_enum_list vs)"
| "json_enum (JObj es) = JObj (enum_order (json_enum_pairs es))"
| "json_enum v = v"
| "json_enum_list [] = []"
| "json_enum_list (v # vs) = json_enum v # json_enum_list vs"
| "json_enum_pairs [] = []"
| "json_enum_pairs ((k, v) # es) = (k, json_enum v) # json_enum_pairs es"

text \<open>Primitives inside a value are not containers.\<close>

fun prims_ok :: "jref \<Rightarrow> bool" and prims_ok_list :: "jref list \<Rightarrow> bool"
  and prims_ok_entries :: "(string \<times> jref) list \<Rightarrow> bool" where
  "prims_ok (RPrim j) = (case j of JArr _ \<Rightarrow> False | JObj _ \<Rightarrow> False | _ \<Rightarrow> True)"
| "prims_ok (RArr a vs) = prims_ok_list vs"
| "prims_ok (RObj a es) = prims_ok_entries es"
| "prims_ok_list [] = True"
| "prims_ok_list (v # vs) = (prims_ok v \<and> prims_ok_list vs)"
| "prims_ok_entries [] = True"
| "prims_ok_entries ((k, v) # es) = (prims_ok v \<and> prims_ok_entries es)"

lemma deref_entries_map: "deref_entries es = map (\<lambda>(k, v). (k, deref v)) es"
  by (induction es) auto

lemma json_enum_pairs_map: "json_enum_pairs es = map (\<lambda>(k, v). (k, json_enum v)) es"
  by (induction es) auto

lemma mset_addrs_entries: "mset (addrs_entries es) = sum_mset (image_mset (\<lambda>(k, v). mset (addrs v)) (mset es))"
  by (induction es) auto

lemma mset_addrs_sort: "mset (addrs_entries (sort_key fst es)) = mset (addrs_entries es)"
  by (simp add: mset_addrs_entries)

lemma prims_ok_entries_iff: "prims_ok_entries es \<longleftrightarrow> (\<forall>(k, v)\<in>set es. prims_ok v)"
  by (induction es) auto

lemma walk_entries_sorted:
  "json_enum_pairs (norm_pairs (deref_entries (sort_key fst es)))
     = json_enum_pairs (sort_key fst (norm_pairs (deref_entries es)))"
  unfolding deref_entries_map norm_pairs_map json_enum_pairs_map
  by (simp only: sort_key_map_snd flip: sort_key_map_snd)

text \<open>On a value without shared objects the walk is the identity up to the order of keys.\<close>

lemma canon_walk_tree:
  "prims_ok v \<Longrightarrow> distinct (addrs v) \<Longrightarrow> set (addrs v) \<inter> set seen = {} \<Longrightarrow>
     fst (canon_walk seen v) = json_enum (json_norm (deref v))
     \<and> set (snd (canon_walk seen v)) = set (addrs v) \<union> set seen"
  "prims_ok_list vs \<Longrightarrow> distinct (addrs_list vs) \<Longrightarrow> set (addrs_list vs) \<inter> set seen = {} \<Longrightarrow>
     fst (canon_walk_list seen vs) = json_enum_list (norm_list (deref_list vs))
     \<and> set (snd (canon_walk_list seen vs)) = set (addrs_list vs) \<union> set seen"
  "prims_ok_entries es \<Longrightarrow> distinct (addrs_entries es) \<Longrightarrow> set (addrs_entries es) \<inter> set seen = {} \<Longrightarrow>
     fst (canon_walk_entries seen es) = json_enum_pairs (norm_pairs (deref_entries es))
     \<and> set (snd (canon_walk_entries seen es)) = set (addrs_entries es) \<union> set seen"
proof (induction seen v and seen vs and seen es rule: canon_walk_canon_walk_list_canon_walk_entries.induct)
  case (1 seen j)
  then show ?case by (cases j) auto
next
  case (2 seen a vs)
  then show ?case by (auto simp: case_prod_unfold Let_def)
next
  case (3 seen a es)
  have sort_addrs: "distinct (addrs_entries (sort_key fst es))"
    "set (addrs_entries (sort_key fst es)) = set (addrs_entries es)"
    using 3(3) mset_addrs_sort[of es] by (auto dest: mset_eq_imp_distinct_iff mset_eq_setD)
  have "prims_ok_entries (sort_key fst es)" using 3(2) by (simp add: prims_ok_entries_iff)
  with 3 sort_addrs have "fst (canon_walk_entries (a # seen) (sort_key fst es))
      = json_enum_pairs (norm_pairs (deref_entries (sort_key fst es)))"
    "set (snd (canon_walk_entries (a # seen) (sort_key fst es))) = set (addrs_entries es) \<union> set (a # seen)"
    by auto
  with 3(4) show ?case by (auto simp: case_prod_unfold Let_def walk_entries_sorted)
next
  case (5 seen v vs)
  have "set (addrs v) \<inter> set seen = {}" using 5(5) by auto
  with 5(1,3,4) have v: "fst (canon_walk seen v) = json_enum (json_norm (deref v))"
    "set (snd (canon_walk seen v)) = set (addrs v) \<union> set seen" by auto
  have "set (addrs_list vs) \<inter> set (snd (canon_walk seen v)) = {}" using 5(4,5) v(2) by auto
  with 5(2)[OF refl prod.collapse] 5(3,4) v show ?case by (auto simp: case_prod_unfold Let_def)
next
  case (7 seen k v es)
  have "set (addrs v) \<inter> set seen = {}" using 7(5) by auto
  with 7(1,3,4) have v: "fst (canon_walk seen v) = json_enum (json_norm (deref v))"
    "set (snd (canon_walk seen v)) = set (addrs v) \<union> set seen" by auto
  have "set (addrs_entries es) \<inter> set (snd (canon_walk seen v)) = {}" using 7(4,5) v(2) by auto
  with 7(2)[OF refl prod.collapse] 7(3,4) v show ?case by (auto simp: case_prod_unfold Let_def)
qed auto

lemma canonicalStringify_tree:
  assumes "prims_ok v" "distinct (addrs v)"
  shows "canonicalStringify v = render (json_strip (json_enum (json_norm (deref v))))"
  using canon_walk_tree(1)[OF assms, of "[]"] by (simp add: canonicalStringify_def)

lemma mset_enum_order [simp]: "mset (enum_order es) = mset es"
proof -
  have "filter (Not \<circ> array_index \<circ> fst) es = filter (\<lambda>x. \<not> (array_index \<circ> fst) x) es" by (simp add: o_def)
  then show ?thesis unfolding enum_order_def by (simp add: union_filter_mset_complement)
qed

lemma set_enum_order [simp]: "set (enum_order es) = set es"
  by (metis mset_enum_order set_mset_mset)

lemma distinct_keys_perm: "mset xs = mset ys \<Longrightarrow> distinct (map fst xs) \<longleftrightarrow> distinct (map fst ys)"
  by (metis mset_eq_imp_distinct_iff mset_map)

lemma sort_fst_perm:
  assumes "mset xs = mset ys" "distinct (map fst xs)"
  shows "sort_key fst xs = sort_key fst ys"
proof (rule sort_key_inj_key_eq)
  show "mset xs = mset (sort_key fst ys)" using assms(1) by simp
  show "inj_on fst (set xs)" using assms(2) by (simp add: distinct_map)
qed simp

lemma json_enum_wf:
  "json_wf v \<Longrightarrow> json_wf (json_enum v) \<and> json_norm (json_enum v) = json_norm v"
  "json_wf_list vs \<Longrightarrow> json_wf_list (json_enum_list vs) \<and> norm_list (json_enum_list vs) = norm_list vs"
  "json_wf_pairs es \<Longrightarrow> json_wf_pairs (json_enum_pairs es) \<and> norm_pairs (json_enum_pairs es) = norm_pairs es"
proof (induction v and vs and es rule: json_enum_json_enum_list_json_enum_pairs.induct)
  case (2 es)
  have keys: "map fst (json_enum_pairs es) = map fst es" by (simp add: json_enum_pairs_map o_def case_prod_unfold)
  have d: "distinct (map fst (enum_order (json_enum_pairs es)))"
    using 2(2) keys distinct_keys_perm[OF mset_enum_order, of "json_enum_pairs es"] by simp
  have "mset (norm_pairs (enum_order (json_enum_pairs es))) = mset (norm_pairs (json_enum_pairs es))"
    by (simp add: norm_pairs_map)
  moreover have "distinct (map fst (norm_pairs (enum_order (json_enum_pairs es))))" using d by simp
  ultimately have "sort_key fst (norm_pairs (enum_order (json_enum_pairs es)))
      = sort_key fst (norm_pairs (json_enum_pairs es))" by (rule sort_fst_perm)
  with 2 d show ?case by (simp add: json_wf_pairs_iff)
qed auto

lemma json_strip_wf:
  "json_wf v \<Longrightarrow> json_strip v = v"
  "json_wf_list vs \<Longrightarrow> json_strip_list vs = vs"
  "json_wf_pairs es \<Longrightarrow> json_strip_pairs es = es"
  by (induction v and vs and es rule: json_strip_json_strip_list_json_strip_pairs.induct) auto

lemma sort_key_fst_idem: "sort_key fst (sort_key fst xs) = sort_key fst xs"
  by (simp add: sort_key_id_if_sorted)

lemma json_norm_idem:
  "json_norm (json_norm v) = json_norm v"
  "norm_list (norm_list vs) = norm_list vs"
  "norm_pairs (norm_pairs es) = norm_pairs es"
proof (induction v and vs and es rule: json_norm_norm_list_norm_pairs.induct)
  case (2 es)
  have "norm_pairs (sort_key fst (norm_pairs es)) = sort_key fst (norm_pairs (norm_pairs es))"
    unfolding norm_pairs_map sort_key_map_snd ..
  with 2 show ?case by (simp add: sort_key_fst_idem)
qed auto

lemma canonicalStringify_eq_iff:
  assumes "prims_ok v" "distinct (addrs v)" "json_wf (deref v)"
    and "prims_ok w" "distinct (addrs w)" "json_wf (deref w)"
  shows "canonicalStringify v = canonicalStringify w \<longleftrightarrow> json_norm (deref v) = json_norm (deref w)"
proof
  let ?t = "\<lambda>x. json_enum (json_norm (deref x))"
  have wf: "json_wf (?t v)" "json_wf (?t w)"
    using assms(3,6) json_wf_norm(1) json_enum_wf(1) by blast+
  assume "canonicalStringify v = canonicalStringify w"
  then have "render (?t v) = render (?t w)"
    using canonicalStringify_tree assms wf json_strip_wf(1) by metis
  then have "?t v = ?t w" using wf by (rule render_inject[rotated 2])
  then have "json_norm (json_norm (deref v)) = json_norm (json_norm (deref w))"
    using json_enum_wf(1)[OF json_wf_norm(1)] assms(3,6) by metis
  then show "json_norm (deref v) = json_norm (deref w)" by (simp only: json_norm_idem)
next
  assume "json_norm (deref v) = json_norm (deref w)"
  then show "canonicalStringify v = canonicalStringify w"
    using canonicalStringify_tree assms by metis
qed

text \<open>The walk only adds to the objects it has met.\<close>

lemma canon_walk_grows:
  "set seen \<subseteq> set (snd (canon_walk seen v))"
  "set seen \<subseteq> set (snd (canon_walk_list seen vs))"
  "set seen \<subseteq> set (snd (canon_walk_entries seen es))"
proof (induction seen v and seen vs and seen es rule: canon_walk_canon_walk_list_canon_walk_entries.induct)
  case (5 seen v vs)
  then show ?case using 5(2)[OF refl prod.collapse] by (fastforce simp: case_prod_unfold Let_def)
next
  case (7 seen k v es)
  then show ?case using 7(2)[OF refl prod.collapse] by (fastforce simp: case_prod_unfold Let_def)
qed (auto simp: case_prod_unfold Let_def)

lemma canonicalStringify_shared_null:
  assumes "a \<noteq> b"
  shows "canonicalStringify (RArr a [RObj b es, RObj b es]) = canonicalStringify (RArr a [RObj b es, RPrim JNull])"
proof -
  have "b \<in> set (snd (canon_walk_entries [b, a] (sort_key fst es)))"
    using canon_walk_grows(3)[of "[b, a]"] by auto
  with assms show ?thesis by (simp add: canonicalStringify_def Let_def case_prod_unfold)
qed

text \<open>For payloads without shared objects the audit chain's canonical text is canonical: two
  well-formed values have the same text exactly when they are equal up to the order of object keys
  (and the identity of their objects).\<close>

theorem canonicalStringify_canonical:
  assumes "prims_ok v" "distinct (addrs v)" "json_wf (deref v)"
    and "prims_ok w" "distinct (addrs w)" "json_wf (deref w)"
  shows "canonicalStringify v = canonicalStringify w \<longleftrightarrow> json_norm (deref v) = json_norm (deref w)"
  by (rule canonicalStringify_eq_iff[OF assms])

theorem canonicalStringify_canonical_witness:
  "canonicalStringify (RObj 0 [(''b'', RPrim JNull), (''a'', RPrim (JBool True))])
     = canonicalStringify (RObj 7 [(''a'', RPrim (JBool True)), (''b'', RPrim JNull)])"
proof -
  let ?v = "RObj 0 [(''b'', RPrim JNull), (''a'', RPrim (JBool True))]"
  let ?w = "RObj 7 [(''a'', RPrim (JBool True)), (''b'', RPrim JNull)]"
  have less: "(''a'' :: string) \<le> ''b''" "\<not> (''b'' :: string) \<le> ''a''"
    by (simp_all add: Cons_le_Cons less_char_def less_eq_char_def)
  have "json_norm (deref ?v) = json_norm (deref ?w)" by (simp add: less)
  then show ?thesis by (subst canonicalStringify_canonical) simp_all
qed

text \<open>A shared object breaks this: the walk never forgets an object, so the second occurrence of
  the same object is printed as \<open>null\<close>, and a payload that mentions one object twice gets another
  text (hence another hash) than the equal payload with two copies of it.\<close>

theorem canonicalStringify_drops_shared_objects:
  assumes "prims_ok (RArr a [RObj b es, RObj c es'])" "distinct (addrs (RArr a [RObj b es, RObj c es']))"
    and "json_wf (deref (RObj b es))" "deref_entries es' = deref_entries es"
  shows "canonicalStringify (RArr a [RObj b es, RObj b es]) \<noteq> canonicalStringify (RArr a [RObj b es, RObj c es'])"
proof -
  have "canonicalStringify (RArr a [RObj b es, RPrim JNull]) \<noteq> canonicalStringify (RArr a [RObj b es, RObj c es'])"
    using assms by (subst canonicalStringify_eq_iff) auto
  with assms(2) show ?thesis by (simp add: canonicalStringify_shared_null)
qed

theorem canonicalStringify_drops_shared_objects_witness:
  "canonicalStringify (RArr 0 [RObj 1 [(''k'', RPrim JNull)], RObj 1 [(''k'', RPrim JNull)]])
     \<noteq> canonicalStringify (RArr 0 [RObj 1 [(''k'', RPrim JNull)], RObj 2 [(''k'', RPrim JNull)]])"
  by (rule canonicalStringify_drops_shared_objects) simp_all

end
