(* ===== verification/HashLink.thy ===== *)
theory HashLink imports RonorPrelude begin

text \<open>
  Hash-linked logs.  The audit chain and the mission fabric both store entries that repeat the
  previous entry's digest and carry a digest of their own content and that link.  \<open>linked\<close> walks
  such a log; the locale states what one entry's check gives and proves what the walk gives: links
  compose, an accepted log is determined by its head, and a log cannot be changed without either
  changing the head or colliding digests.
\<close>

text \<open>The walk: position, expected digest, entries.\<close>

fun linked :: "(nat \<Rightarrow> 'd \<Rightarrow> 'e \<Rightarrow> bool) \<Rightarrow> ('e \<Rightarrow> 'd) \<Rightarrow> nat \<Rightarrow> 'd \<Rightarrow> 'e list \<Rightarrow> bool" where
  "linked ok st i p [] = True"
| "linked ok st i p (e # es) = (ok i p e \<and> linked ok st (Suc i) (st e) es)"

definition head_of :: "('e \<Rightarrow> 'd) \<Rightarrow> 'd \<Rightarrow> 'e list \<Rightarrow> 'd" where
  "head_of st p es = (if es = [] then p else st (last es))"

lemma head_of_simps [simp]:
  "head_of st p [] = p" "head_of st p (e # es) = head_of st (st e) es" "head_of st p (es @ [e]) = st e"
  by (simp_all add: head_of_def)

lemma linked_append [simp]:
  "linked ok st i p (es @ fs) \<longleftrightarrow> linked ok st i p es \<and> linked ok st (i + length es) (head_of st p es) fs"
  by (induction es arbitrary: i p) auto

lemma linked_nth:
  "linked ok st i p es \<Longrightarrow> k < length es \<Longrightarrow> ok (i + k) (head_of st p (take k es)) (es ! k)"
proof (induction es arbitrary: i p k)
  case (Cons e es)
  show ?case
  proof (cases k)
    case (Suc m)
    with Cons.IH[of "Suc i" "st e" m] Cons.prems show ?thesis by simp
  qed (use Cons.prems in simp)
qed simp

locale hash_linked =
  fixes link_ok :: "nat \<Rightarrow> 'd \<Rightarrow> 'e \<Rightarrow> bool"
    and stored :: "'e \<Rightarrow> 'd"
    and prev :: "'e \<Rightarrow> 'd"
    and body :: "'e \<Rightarrow> 'b"
    and seal :: "'b \<Rightarrow> 'd \<Rightarrow> 'd"
  assumes link_prev: "link_ok i p e \<Longrightarrow> prev e = p"
    and link_sealed: "link_ok i p e \<Longrightarrow> stored e = seal (body e) p"
begin

lemma linked_prev: "linked link_ok stored i p es \<Longrightarrow> k < length es \<Longrightarrow>
    prev (es ! k) = head_of stored p (take k es)"
  by (rule link_prev) (rule linked_nth)

lemma linked_sealed: "linked link_ok stored i p es \<Longrightarrow> e \<in> set es \<Longrightarrow> stored e = seal (body e) (prev e)"
proof (induction es arbitrary: i p)
  case (Cons f es)
  then show ?case by (auto dest: link_prev link_sealed)
qed simp

text \<open>
  Two accepted logs with the same head are the same from their ends: unless two of the pairs
  sealed in them collide, the shorter one is a suffix of the longer one.
\<close>

lemma same_head_same_suffix:
  assumes "linked link_ok stored i p es" "linked link_ok stored j q fs"
    and "head_of stored p es = head_of stored q fs" "length es \<le> length fs"
    and "inj_on (\<lambda>(b, d). seal b d) ((\<lambda>e. (body e, prev e)) ` (set es \<union> set fs))"
  shows "map body es = map body (drop (length fs - length es) fs)
    \<and> map prev es = map prev (drop (length fs - length es) fs)
    \<and> map stored es = map stored (drop (length fs - length es) fs)
    \<and> head_of stored q (take (length fs - length es) fs) = p"
  using assms
proof (induction es arbitrary: fs rule: rev_induct)
  case (snoc e es)
  from snoc.prems(4) obtain gs f where fs: "fs = gs @ [f]" by (cases fs rule: rev_exhaust) auto
  have e: "stored e = seal (body e) (prev e)" and f: "stored f = seal (body f) (prev f)"
    using linked_sealed[OF snoc.prems(1)] linked_sealed[OF snoc.prems(2)] fs by auto
  have "stored e = stored f" using snoc.prems(3) fs by simp
  with e f have eq: "body e = body f" "prev e = prev f"
    using inj_onD[OF snoc.prems(5), of "(body e, prev e)" "(body f, prev f)"] fs by auto
  have "prev e = head_of stored p es" "prev f = head_of stored q gs"
    using snoc.prems(1,2) fs by (auto dest: link_prev)
  with eq have head: "head_of stored p es = head_of stored q gs" by simp
  have inj: "inj_on (\<lambda>(b, d). seal b d) ((\<lambda>e. (body e, prev e)) ` (set es \<union> set gs))"
    using fs by (intro inj_on_subset[OF snoc.prems(5)]) auto
  have "length gs - length es \<le> length gs" by simp
  with snoc.IH[of gs] snoc.prems head inj fs eq \<open>stored e = stored f\<close> show ?case by auto
qed simp

text \<open>When moreover no entry is sealed to the start of the log, nothing can be cut from its front.\<close>

lemma same_head_same_log:
  assumes "linked link_ok stored i p es" "linked link_ok stored j p fs"
    and "head_of stored p es = head_of stored p fs"
    and "inj_on (\<lambda>(b, d). seal b d) ((\<lambda>e. (body e, prev e)) ` (set es \<union> set fs))"
    and "\<forall>e\<in>set es \<union> set fs. stored e \<noteq> p"
  shows "map body es = map body fs \<and> map prev es = map prev fs \<and> map stored es = map stored fs"
proof -
  have "length es = length fs \<and> map body es = map body fs \<and> map prev es = map prev fs
      \<and> map stored es = map stored fs"
    if "linked link_ok stored i p es" "linked link_ok stored j p fs" "length es \<le> length fs"
      "head_of stored p es = head_of stored p fs"
      "inj_on (\<lambda>(b, d). seal b d) ((\<lambda>e. (body e, prev e)) ` (set es \<union> set fs))"
      "\<forall>e\<in>set fs. stored e \<noteq> p" for i j es fs
  proof -
    note suffix = same_head_same_suffix[OF that(1,2,4,3,5)]
    have "take (length fs - length es) fs = []"
    proof (rule ccontr)
      assume ne: "take (length fs - length es) fs \<noteq> []"
      then have "stored (last (take (length fs - length es) fs)) = p"
        using suffix by (simp add: head_of_def)
      moreover have "last (take (length fs - length es) fs) \<in> set fs"
        using ne by (meson in_set_takeD last_in_set)
      ultimately show False using that(6) by blast
    qed
    then have "length fs - length es = 0" by auto
    with suffix that(3) show ?thesis by simp
  qed
  from this[OF assms(1,2)] this[OF assms(2,1)] assms(3-5) show ?thesis
    by (cases "length es \<le> length fs") (auto simp: Un_commute)
qed

end

end
