(* ===== verification/AuditChain.thy ===== *)
theory AuditChain imports Canonical HashLink begin

text \<open>
  The hash-chained audit log, \<open>src/src/audit/hash-chain.ts\<close>.  The SQLite table \<open>audit_chain\<close> is a
  list of rows with the high-water mark of its \<open>AUTOINCREMENT\<close> key; \<open>ORDER BY seq\<close> is a stable
  sort.  SHA-256 (the \<open>crypto\<close> module) is the parameter \<open>H\<close>, in hexadecimal; \<open>JSON.parse\<close> of the
  payload column is the parameter \<open>parse\<close>.  A payload is the three columns \<open>append\<close> copies and the
  object it serialises.  Not modelled: opening the database file, logging, and the mirror that
  \<open>append\<close> schedules after its insert and whose faults it absorbs.
\<close>

section \<open>State\<close>

record audit_payload =
  ap_decisionId :: string
  ap_decisionType :: string
  ap_timestamp :: string
  ap_object :: jref

record audit_row =
  ar_seq :: int
  ar_record_id :: string
  ar_timestamp :: string
  ar_decision_id :: string
  ar_decision_type :: string
  ar_payload_json :: string
  ar_payload_hash :: string
  ar_prev_hash :: string
  ar_chain_hash :: string

record audit_db =
  ad_rows :: "audit_row list"
  ad_sqlite_sequence :: int

record 'p audit_record =
  rec_seq :: int
  rec_recordId :: string
  rec_timestamp :: string
  rec_payload :: 'p
  rec_payloadHash :: string
  rec_prevHash :: string
  rec_chainHash :: string

definition audit_empty :: audit_db where
  "audit_empty = \<lparr>ad_rows = [], ad_sqlite_sequence = 0\<rparr>"

definition GENESIS_HASH :: string where
  "GENESIS_HASH = replicate 64 CHR ''0''"

section \<open>Operations\<close>

definition rows_asc :: "audit_db \<Rightarrow> audit_row list" where
  "rows_asc db = sort_key ar_seq (ad_rows db)"

definition getHeadHash :: "audit_db \<Rightarrow> string" where
  "getHeadHash db = (case rev (rows_asc db) of [] \<Rightarrow> GENESIS_HASH | r # _ \<Rightarrow> ar_chain_hash r)"

text \<open>The key SQLite gives the next row of an \<open>AUTOINCREMENT\<close> table.\<close>

definition next_seq :: "audit_db \<Rightarrow> int" where
  "next_seq db = fold max (map ar_seq (ad_rows db)) (ad_sqlite_sequence db) + 1"

text \<open>
  \<open>append\<close>: \<open>uuid\<close> is the value of \<open>crypto.randomUUID()\<close>, \<open>now\<close> the text of the current date.  The
  insert throws when the record id is taken.
\<close>

definition audit_append ::
  "(string \<Rightarrow> string) \<Rightarrow> string \<Rightarrow> string \<Rightarrow> audit_payload \<Rightarrow> audit_db
     \<Rightarrow> string + (audit_payload audit_record \<times> audit_db)" where
  "audit_append H uuid now payload db =
     (let canonical = canonicalStringify (ap_object payload);
          payloadHash = H canonical;
          prevHash = getHeadHash db;
          chainHash = H (payloadHash @ prevHash);
          timestamp = (if ap_timestamp payload \<noteq> '''' then ap_timestamp payload else now);
          seq = next_seq db;
          row = \<lparr>ar_seq = seq, ar_record_id = uuid, ar_timestamp = timestamp,
                 ar_decision_id = ap_decisionId payload, ar_decision_type = ap_decisionType payload,
                 ar_payload_json = canonical, ar_payload_hash = payloadHash,
                 ar_prev_hash = prevHash, ar_chain_hash = chainHash\<rparr>
      in if uuid \<in> ar_record_id ` set (ad_rows db)
           then Inl ''UNIQUE constraint failed: audit_chain.record_id''
         else Inr (\<lparr>rec_seq = seq, rec_recordId = uuid, rec_timestamp = timestamp,
                    rec_payload = payload, rec_payloadHash = payloadHash,
                    rec_prevHash = prevHash, rec_chainHash = chainHash\<rparr>,
                   \<lparr>ad_rows = ad_rows db @ [row], ad_sqlite_sequence = seq\<rparr>))"

definition rowToRecord :: "(string \<Rightarrow> string + 'p) \<Rightarrow> audit_row \<Rightarrow> string + 'p audit_record" where
  "rowToRecord parse r =
     (case parse (ar_payload_json r) of
        Inl e \<Rightarrow> Inl e
      | Inr p \<Rightarrow> Inr \<lparr>rec_seq = ar_seq r, rec_recordId = ar_record_id r, rec_timestamp = ar_timestamp r,
                      rec_payload = p, rec_payloadHash = ar_payload_hash r,
                      rec_prevHash = ar_prev_hash r, rec_chainHash = ar_chain_hash r\<rparr>)"

definition getRecord ::
  "(string \<Rightarrow> string + 'p) \<Rightarrow> string \<Rightarrow> audit_db \<Rightarrow> string + 'p audit_record option" where
  "getRecord parse recordId db =
     (case row_find ar_record_id recordId (ad_rows db) of
        None \<Rightarrow> Inr None
      | Some r \<Rightarrow> map_sum id Some (rowToRecord parse r))"

definition getRecordsForDecision ::
  "(string \<Rightarrow> string + 'p) \<Rightarrow> string \<Rightarrow> audit_db \<Rightarrow> string + 'p audit_record list" where
  "getRecordsForDecision parse decisionId db =
     sequence (map (rowToRecord parse) (filter (\<lambda>r. ar_decision_id r = decisionId) (rows_asc db)))"

text \<open>A negative \<open>LIMIT\<close> is no limit, a negative \<open>OFFSET\<close> is none.\<close>

definition sql_window :: "int \<Rightarrow> int \<Rightarrow> 'a list \<Rightarrow> 'a list" where
  "sql_window cnt off xs =
     (let ys = drop (nat off) xs in if cnt < 0 then ys else take (nat cnt) ys)"

definition listRecords ::
  "(string \<Rightarrow> string + 'p) \<Rightarrow> int \<Rightarrow> int \<Rightarrow> audit_db \<Rightarrow> string + 'p audit_record list" where
  "listRecords parse cnt off db =
     sequence (map (rowToRecord parse) (sql_window cnt off (rev (rows_asc db))))"

definition countRecords :: "audit_db \<Rightarrow> nat" where
  "countRecords db = length (ad_rows db)"

definition exportChain :: "(string \<Rightarrow> string + 'p) \<Rightarrow> audit_db \<Rightarrow> string + 'p audit_record list" where
  "exportChain parse db = sequence (map (rowToRecord parse) (rows_asc db))"

section \<open>Verification of the chain\<close>

text \<open>The reason of a break, with the values its text interpolates.\<close>

datatype broken_reason =
    PayloadHashMismatch string string
  | PrevHashMismatch string string
  | ChainHashMismatch int

record chain_verification =
  cv_ok :: bool
  cv_totalRecords :: nat
  cv_broken :: "(int \<times> broken_reason) option"
  cv_headHash :: string
  cv_verifiedAt :: string

definition broken_result ::
  "string \<Rightarrow> nat \<Rightarrow> string \<Rightarrow> int \<Rightarrow> broken_reason \<Rightarrow> chain_verification" where
  "broken_result now n prev seq why =
     \<lparr>cv_ok = False, cv_totalRecords = n, cv_broken = Some (seq, why),
      cv_headHash = prev, cv_verifiedAt = now\<rparr>"

fun verify_rows ::
  "(string \<Rightarrow> string) \<Rightarrow> string \<Rightarrow> nat \<Rightarrow> string \<Rightarrow> audit_row list \<Rightarrow> chain_verification" where
  "verify_rows H now n prev [] =
     \<lparr>cv_ok = True, cv_totalRecords = n, cv_broken = None, cv_headHash = prev, cv_verifiedAt = now\<rparr>"
| "verify_rows H now n prev (r # rs) =
     (let rehashPayload = H (ar_payload_json r);
          rehashChain = H (ar_payload_hash r @ ar_prev_hash r)
      in if rehashPayload \<noteq> ar_payload_hash r
           then broken_result now n prev (ar_seq r)
                  (PayloadHashMismatch (take 12 (ar_payload_hash r)) (take 12 rehashPayload))
         else if ar_prev_hash r \<noteq> prev
           then broken_result now n prev (ar_seq r)
                  (PrevHashMismatch (take 12 prev) (take 12 (ar_prev_hash r)))
         else if rehashChain \<noteq> ar_chain_hash r
           then broken_result now n prev (ar_seq r) (ChainHashMismatch (ar_seq r))
         else verify_rows H now n (ar_chain_hash r) rs)"

definition verifyChain :: "(string \<Rightarrow> string) \<Rightarrow> string \<Rightarrow> audit_db \<Rightarrow> chain_verification" where
  "verifyChain H now db = verify_rows H now (length (rows_asc db)) GENESIS_HASH (rows_asc db)"

section \<open>The chain as a hash-linked log\<close>

definition row_ok :: "(string \<Rightarrow> string) \<Rightarrow> nat \<Rightarrow> string \<Rightarrow> audit_row \<Rightarrow> bool" where
  "row_ok H i prev r \<longleftrightarrow>
     H (ar_payload_json r) = ar_payload_hash r \<and> ar_prev_hash r = prev
     \<and> H (ar_payload_hash r @ ar_prev_hash r) = ar_chain_hash r"

definition audit_seal :: "(string \<Rightarrow> string) \<Rightarrow> string \<Rightarrow> string \<Rightarrow> string" where
  "audit_seal H payload prev = H (H payload @ prev)"

interpretation audit_log: hash_linked "row_ok H" ar_chain_hash ar_prev_hash ar_payload_json "audit_seal H"
  for H
  by unfold_locales (auto simp: row_ok_def audit_seal_def)

abbreviation audit_linked :: "(string \<Rightarrow> string) \<Rightarrow> audit_row list \<Rightarrow> bool" where
  "audit_linked H rs \<equiv> linked (row_ok H) ar_chain_hash 0 GENESIS_HASH rs"

lemma verify_rows_ok:
  "cv_ok (verify_rows H now n p rs) \<longleftrightarrow> linked (row_ok H) ar_chain_hash i p rs"
  by (induction rs arbitrary: p i) (auto simp: Let_def broken_result_def row_ok_def)

lemma verify_rows_head:
  "cv_ok (verify_rows H now n p rs) \<Longrightarrow> cv_headHash (verify_rows H now n p rs) = head_of ar_chain_hash p rs"
  by (induction rs arbitrary: p) (auto simp: Let_def broken_result_def split: if_splits)

lemma getHeadHash_head_of: "getHeadHash db = head_of ar_chain_hash GENESIS_HASH (rows_asc db)"
  by (cases "rows_asc db" rule: rev_exhaust) (auto simp: getHeadHash_def)

lemma verifyChain_ok_iff: "cv_ok (verifyChain H now db) \<longleftrightarrow> audit_linked H (rows_asc db)"
  by (simp add: verifyChain_def verify_rows_ok)

lemma set_rows_asc [simp]: "set (rows_asc db) = set (ad_rows db)"
  by (simp add: rows_asc_def)

text \<open>Well-formed tables: the keys are distinct and below the high-water mark.\<close>

definition audit_wf :: "audit_db \<Rightarrow> bool" where
  "audit_wf db \<longleftrightarrow> distinct (map ar_seq (ad_rows db)) \<and> distinct (map ar_record_id (ad_rows db))
     \<and> (\<forall>r\<in>set (ad_rows db). ar_seq r \<le> ad_sqlite_sequence db)"

lemma next_seq_greater: "r \<in> set (ad_rows db) \<Longrightarrow> ar_seq r < next_seq db"
  using fold_max_upper[of "ar_seq r" "map ar_seq (ad_rows db)"] by (simp add: next_seq_def zless_add1_eq)

lemma sort_key_snoc_max:
  "(\<And>y. y \<in> set xs \<Longrightarrow> k y < k x) \<Longrightarrow> sort_key k (xs @ [x]) = sort_key k xs @ [x]"
proof (induction xs)
  case (Cons y xs)
  have "insort_key k y (zs @ [x]) = insort_key k y zs @ [x]" for zs
    using Cons.prems[of y] by (induction zs) auto
  with Cons show ?case by simp
qed simp

lemma audit_append_InrD:
  assumes "audit_append H uuid now p db = Inr (r, db')"
  shows "\<exists>row. rows_asc db' = rows_asc db @ [row] \<and> ad_rows db' = ad_rows db @ [row]
    \<and> ad_sqlite_sequence db' = next_seq db \<and> ar_seq row = next_seq db
    \<and> uuid \<notin> ar_record_id ` set (ad_rows db) \<and> ar_record_id row = uuid
    \<and> ar_decision_id row = ap_decisionId p \<and> ar_chain_hash row = rec_chainHash r
    \<and> ar_payload_json row = canonicalStringify (ap_object p)
    \<and> row_ok H (length (rows_asc db)) (getHeadHash db) row"
proof -
  let ?row = "\<lparr>ar_seq = next_seq db, ar_record_id = uuid,
      ar_timestamp = (if ap_timestamp p \<noteq> '''' then ap_timestamp p else now),
      ar_decision_id = ap_decisionId p, ar_decision_type = ap_decisionType p,
      ar_payload_json = canonicalStringify (ap_object p),
      ar_payload_hash = H (canonicalStringify (ap_object p)), ar_prev_hash = getHeadHash db,
      ar_chain_hash = H (H (canonicalStringify (ap_object p)) @ getHeadHash db)\<rparr>"
  have "ad_rows db' = ad_rows db @ [?row]" "ad_sqlite_sequence db' = next_seq db"
    "uuid \<notin> ar_record_id ` set (ad_rows db)" "rec_chainHash r = ar_chain_hash ?row"
    using assms by (auto simp: audit_append_def Let_def split: if_splits)
  moreover from this have "rows_asc db' = rows_asc db @ [?row]"
    unfolding rows_asc_def by (simp add: sort_key_snoc_max next_seq_greater del: sort_key_simps)
  ultimately show ?thesis by (intro exI[of _ ?row]) (simp add: row_ok_def)
qed

end
