(* ===== verification/AuditFacts.thy ===== *)
theory AuditFacts imports AuditChain begin

text \<open>
  What the audit chain guarantees: appending keeps it verifiable and keeps its past; verification
  names the first broken row; two verified tables with the same head agree in everything that is
  hashed unless SHA-256 collides; and what verification does not look at.
\<close>

section \<open>Appending\<close>

lemma audit_append_wf:
  assumes "audit_wf db" "audit_append H uuid now p db = Inr (r, db')"
  shows "audit_wf db'"
proof -
  obtain row where row: "ad_rows db' = ad_rows db @ [row]" "ad_sqlite_sequence db' = next_seq db"
    "ar_seq row = next_seq db" "uuid \<notin> ar_record_id ` set (ad_rows db)" "ar_record_id row = uuid"
    using audit_append_InrD[OF assms(2)] by blast
  have "ar_seq row \<notin> ar_seq ` set (ad_rows db)" using next_seq_greater row(3) by fastforce
  with row assms(1) show ?thesis
    by (auto simp: audit_wf_def dest: next_seq_greater less_imp_le)
qed

lemma audit_append_linked:
  assumes "audit_linked H (rows_asc db)" "audit_append H uuid now p db = Inr (r, db')"
  shows "audit_linked H (rows_asc db') \<and> getHeadHash db' = rec_chainHash r"
  using audit_append_InrD[OF assms(2)] assms(1) by (auto simp: getHeadHash_head_of)

text \<open>A history of appends, each with its id and clock; a refused one stops it.\<close>

fun audit_run ::
  "(string \<Rightarrow> string) \<Rightarrow> (string \<times> string \<times> audit_payload) list \<Rightarrow> audit_db \<Rightarrow> string + audit_db" where
  "audit_run H [] db = Inr db"
| "audit_run H ((uuid, now, p) # es) db =
     (case audit_append H uuid now p db of Inl e \<Rightarrow> Inl e | Inr (r, db') \<Rightarrow> audit_run H es db')"

lemma audit_run_facts:
  "audit_run H es db = Inr db' \<Longrightarrow> audit_linked H (rows_asc db) \<Longrightarrow> audit_wf db \<Longrightarrow>
     audit_linked H (rows_asc db') \<and> audit_wf db'
     \<and> map ar_payload_json (rows_asc db') =
         map ar_payload_json (rows_asc db) @ map (\<lambda>(_, _, p). canonicalStringify (ap_object p)) es
     \<and> map ar_record_id (rows_asc db') = map ar_record_id (rows_asc db) @ map fst es"
proof (induction es arbitrary: db)
  case (Cons e es)
  obtain uuid now p where e: "e = (uuid, now, p)" by (cases e) auto
  with Cons.prems(1) obtain r db1 where step: "audit_append H uuid now p db = Inr (r, db1)"
    and rest: "audit_run H es db1 = Inr db'" by (auto split: sum.splits)
  have ok: "audit_linked H (rows_asc db1)" "audit_wf db1"
    using audit_append_linked[OF Cons.prems(2) step] audit_append_wf[OF Cons.prems(3) step] by auto
  obtain row where "rows_asc db1 = rows_asc db @ [row]" "ar_record_id row = uuid"
    "ar_payload_json row = canonicalStringify (ap_object p)"
    using audit_append_InrD[OF step] by blast
  with Cons.IH[OF rest ok] e show ?case by simp
qed simp

text \<open>C8. Every history of appends from the empty table that no refused insert stopped leaves a
  table that verifies, holds the canonical texts of exactly the appended payloads in order, has
  distinct keys and ids, and the head that verification reports is the head the next append links
  to.\<close>

theorem audit_history_verifies:
  assumes "audit_run H es audit_empty = Inr db"
  shows "cv_ok (verifyChain H now db) \<and> cv_headHash (verifyChain H now db) = getHeadHash db
    \<and> map ar_payload_json (rows_asc db) = map (\<lambda>(_, _, p). canonicalStringify (ap_object p)) es
    \<and> map ar_record_id (rows_asc db) = map fst es \<and> audit_wf db"
proof -
  have "audit_linked H (rows_asc audit_empty)" "audit_wf audit_empty" "rows_asc audit_empty = []"
    by (simp_all add: audit_empty_def rows_asc_def audit_wf_def)
  with audit_run_facts[OF assms] have run: "audit_linked H (rows_asc db)" "audit_wf db"
    "map ar_payload_json (rows_asc db) = map (\<lambda>(_, _, p). canonicalStringify (ap_object p)) es"
    "map ar_record_id (rows_asc db) = map fst es" by auto
  then have ok: "cv_ok (verifyChain H now db)" by (simp add: verifyChain_ok_iff)
  then have "cv_headHash (verifyChain H now db) = getHeadHash db"
    unfolding verifyChain_def getHeadHash_head_of by (rule verify_rows_head)
  with ok run show ?thesis by simp
qed

definition sample_payload :: audit_payload where
  "sample_payload = \<lparr>ap_decisionId = ''d'', ap_decisionType = ''t'', ap_timestamp = ''2026'',
     ap_object = RObj 0 [(''decisionId'', RPrim (JStr ''d''))]\<rparr>"

theorem audit_history_verifies_witness:
  "\<exists>db. audit_run (\<lambda>s. s) [(''u1'', ''now'', sample_payload), (''u2'', ''now'', sample_payload)] audit_empty = Inr db
     \<and> cv_ok (verifyChain (\<lambda>s. s) ''now'' db)
     \<and> map ar_record_id (rows_asc db) = [''u1'', ''u2'']"
proof -
  obtain db where run: "audit_run (\<lambda>s. s)
      [(''u1'', ''now'', sample_payload), (''u2'', ''now'', sample_payload)] audit_empty = Inr db"
    by (simp add: audit_append_def audit_empty_def Let_def)
  then show ?thesis using audit_history_verifies[OF run] by auto
qed

section \<open>Verification\<close>

lemma verify_rows_break:
  "\<not> cv_ok (verify_rows H now n p rs) \<Longrightarrow>
     \<exists>k < length rs. linked (row_ok H) ar_chain_hash i p (take k rs)
       \<and> \<not> row_ok H (i + k) (head_of ar_chain_hash p (take k rs)) (rs ! k)
       \<and> cv_headHash (verify_rows H now n p rs) = head_of ar_chain_hash p (take k rs)
       \<and> (\<exists>why. cv_broken (verify_rows H now n p rs) = Some (ar_seq (rs ! k), why))"
proof (induction rs arbitrary: p i)
  case (Cons r rs)
  show ?case
  proof (cases "row_ok H i p r")
    case True
    then have step: "verify_rows H now n p (r # rs) = verify_rows H now n (ar_chain_hash r) rs"
      by (auto simp: row_ok_def Let_def)
    with Cons.IH[of "ar_chain_hash r" "Suc i"] Cons.prems obtain k where "k < length rs"
      "linked (row_ok H) ar_chain_hash (Suc i) (ar_chain_hash r) (take k rs)"
      "\<not> row_ok H (Suc i + k) (head_of ar_chain_hash (ar_chain_hash r) (take k rs)) (rs ! k)"
      "cv_headHash (verify_rows H now n p (r # rs)) = head_of ar_chain_hash (ar_chain_hash r) (take k rs)"
      "\<exists>why. cv_broken (verify_rows H now n p (r # rs)) = Some (ar_seq (rs ! k), why)" by auto
    with True show ?thesis by (intro exI[of _ "Suc k"]) (simp del: verify_rows.simps)
  next
    case False
    then have "cv_headHash (verify_rows H now n p (r # rs)) = p"
      "\<exists>why. cv_broken (verify_rows H now n p (r # rs)) = Some (ar_seq r, why)"
      by (auto simp: row_ok_def Let_def broken_result_def)
    with False show ?thesis by (intro exI[of _ 0]) simp
  qed
qed simp

text \<open>When verification fails it names the first broken row: the rows before it form a verified
  chain whose head is the reported one, and the named row does not continue it.\<close>

theorem verifyChain_reports_first_break:
  assumes "\<not> cv_ok (verifyChain H now db)"
  shows "\<exists>k < length (rows_asc db).
    audit_linked H (take k (rows_asc db))
    \<and> cv_headHash (verifyChain H now db) = head_of ar_chain_hash GENESIS_HASH (take k (rows_asc db))
    \<and> \<not> row_ok H k (cv_headHash (verifyChain H now db)) (rows_asc db ! k)
    \<and> (\<exists>why. cv_broken (verifyChain H now db) = Some (ar_seq (rows_asc db ! k), why))"
  using verify_rows_break[OF assms[unfolded verifyChain_def], of 0] by (auto simp: verifyChain_def)

definition hash_a :: string where
  "hash_a = replicate 64 CHR ''a''"

definition hash_b :: string where
  "hash_b = replicate 64 CHR ''b''"

lemma sample_hashes [simp]:
  "length hash_a = 64" "length hash_b = 64" "hash_a \<noteq> hash_b" "hash_b \<noteq> hash_a" "hash_b \<noteq> GENESIS_HASH"
  "hash_a @ GENESIS_HASH \<noteq> ''{}''" "''{}'' \<noteq> hash_a @ GENESIS_HASH"
proof -
  have "length (hash_a @ GENESIS_HASH) \<noteq> length ''{}''" by (simp add: hash_a_def GENESIS_HASH_def)
  then show "hash_a @ GENESIS_HASH \<noteq> ''{}''" "''{}'' \<noteq> hash_a @ GENESIS_HASH" by metis+
qed (simp_all add: hash_a_def hash_b_def GENESIS_HASH_def)

definition sample_row :: audit_row where
  "sample_row = \<lparr>ar_seq = 1, ar_record_id = ''u'', ar_timestamp = ''t'', ar_decision_id = ''d'',
     ar_decision_type = ''y'', ar_payload_json = ''{}'', ar_payload_hash = hash_a,
     ar_prev_hash = GENESIS_HASH, ar_chain_hash = hash_b\<rparr>"

definition sample_hash :: "string \<Rightarrow> string" where
  "sample_hash s = (if s = ''{}'' then hash_a else hash_b)"

definition sample_db :: "audit_row \<Rightarrow> audit_db" where
  "sample_db r = \<lparr>ad_rows = [r], ad_sqlite_sequence = 1\<rparr>"

lemmas sample_defs = sample_row_def sample_hash_def sample_db_def

theorem verifyChain_reports_first_break_witness:
  "cv_broken (verifyChain sample_hash ''now'' (sample_db (sample_row\<lparr>ar_prev_hash := ''x''\<rparr>)))
     = Some (1, PrevHashMismatch (take 12 GENESIS_HASH) ''x'')
   \<and> cv_headHash (verifyChain sample_hash ''now'' (sample_db (sample_row\<lparr>ar_prev_hash := ''x''\<rparr>))) = GENESIS_HASH"
proof -
  let ?db = "sample_db (sample_row\<lparr>ar_prev_hash := ''x''\<rparr>)"
  have g: "GENESIS_HASH \<noteq> ''x''" by (simp add: GENESIS_HASH_def numeral_eq_Suc)
  then have v: "verifyChain sample_hash ''now'' ?db
      = broken_result ''now'' 1 GENESIS_HASH 1 (PrevHashMismatch (take 12 GENESIS_HASH) ''x'')"
    by (auto simp: verifyChain_def rows_asc_def sample_defs Let_def)
  then have "\<not> cv_ok (verifyChain sample_hash ''now'' ?db)" by (simp add: broken_result_def)
  from verifyChain_reports_first_break[OF this] v show ?thesis
    by (auto simp: broken_result_def rows_asc_def sample_db_def)
qed

text \<open>The strings SHA-256 is applied to while a table is verified.\<close>

definition hashed_texts :: "audit_row list \<Rightarrow> string set" where
  "hashed_texts rs = ar_payload_json ` set rs \<union> (\<lambda>r. ar_payload_hash r @ ar_prev_hash r) ` set rs"

lemma audit_seal_inj:
  assumes "inj_on H (hashed_texts rs)" "\<forall>s. length (H s) = 64" "\<forall>r\<in>set rs. ar_payload_hash r = H (ar_payload_json r)"
  shows "inj_on (\<lambda>(b, d). audit_seal H b d) ((\<lambda>r. (ar_payload_json r, ar_prev_hash r)) ` set rs)"
proof (rule inj_onI, clarsimp simp: audit_seal_def)
  fix r q assume r: "r \<in> set rs" and q: "q \<in> set rs"
    and "H (H (ar_payload_json r) @ ar_prev_hash r) = H (H (ar_payload_json q) @ ar_prev_hash q)"
  then have "H (ar_payload_hash r @ ar_prev_hash r) = H (ar_payload_hash q @ ar_prev_hash q)"
    using bspec[OF assms(3) r] bspec[OF assms(3) q] by simp
  then have "ar_payload_hash r @ ar_prev_hash r = ar_payload_hash q @ ar_prev_hash q"
    by (rule inj_onD[OF assms(1)]) (use r q in \<open>auto simp: hashed_texts_def\<close>)
  moreover have "length (ar_payload_hash r) = length (ar_payload_hash q)" using assms(2,3) r q by simp
  ultimately have "ar_payload_hash r = ar_payload_hash q" "ar_prev_hash r = ar_prev_hash q" by auto
  moreover from this(1) have "H (ar_payload_json r) = H (ar_payload_json q)"
    using bspec[OF assms(3) r] bspec[OF assms(3) q] by simp
  then have "ar_payload_json r = ar_payload_json q"
    by (rule inj_onD[OF assms(1)]) (use r q in \<open>auto simp: hashed_texts_def\<close>)
  ultimately show "ar_payload_json r = ar_payload_json q \<and> ar_prev_hash r = ar_prev_hash q" by simp
qed

text \<open>C5. Tamper evidence: two tables that verify and have the same head hold the same payload texts
  with the same hashes in the same order, unless SHA-256 collides on the texts hashed in them or one
  of their links hashes to the genesis value.  So no row of a verified chain can be changed, dropped,
  inserted or moved without changing the head.\<close>

theorem audit_tamper_evident:
  assumes "cv_ok (verifyChain H t db)" "cv_ok (verifyChain H t' db')"
    and "getHeadHash db = getHeadHash db'"
    and "\<forall>s. length (H s) = 64"
    and "inj_on H (hashed_texts (ad_rows db @ ad_rows db'))"
    and "\<forall>r\<in>set (ad_rows db @ ad_rows db'). ar_chain_hash r \<noteq> GENESIS_HASH"
  shows "map ar_payload_json (rows_asc db) = map ar_payload_json (rows_asc db')
    \<and> map ar_prev_hash (rows_asc db) = map ar_prev_hash (rows_asc db')
    \<and> map ar_chain_hash (rows_asc db) = map ar_chain_hash (rows_asc db')"
proof -
  have ok: "audit_linked H (rows_asc db)" "audit_linked H (rows_asc db')"
    using assms(1,2) by (simp_all add: verifyChain_ok_iff)
  have hash: "ar_payload_hash r = H (ar_payload_json r)"
    if "linked (row_ok H) ar_chain_hash i p rs" "r \<in> set rs" for i p rs r
    using that by (induction rs arbitrary: i p) (auto simp: row_ok_def)
  have "inj_on (\<lambda>(b, d). audit_seal H b d)
      ((\<lambda>r. (ar_payload_json r, ar_prev_hash r)) ` set (ad_rows db @ ad_rows db'))"
    using hash[OF ok(1)] hash[OF ok(2)] by (intro audit_seal_inj[OF assms(5,4)]) auto
  with assms(3,6) show ?thesis
    by (intro audit_log.same_head_same_log[OF ok]) (auto simp: getHeadHash_head_of)
qed

theorem audit_tamper_evident_witness:
  "map ar_payload_json (rows_asc (sample_db sample_row))
     = map ar_payload_json (rows_asc (sample_db (sample_row\<lparr>ar_record_id := ''other''\<rparr>)))"
proof -
  let ?db = "sample_db sample_row" and ?db' = "sample_db (sample_row\<lparr>ar_record_id := ''other''\<rparr>)"
  have ok: "cv_ok (verifyChain sample_hash ''now'' ?db)" "cv_ok (verifyChain sample_hash ''now'' ?db')"
    by (simp_all add: verifyChain_def rows_asc_def sample_defs Let_def)
  have head: "getHeadHash ?db = getHeadHash ?db'" by (simp add: getHeadHash_def rows_asc_def sample_defs)
  have "map ar_payload_json (rows_asc ?db) = map ar_payload_json (rows_asc ?db')
    \<and> map ar_prev_hash (rows_asc ?db) = map ar_prev_hash (rows_asc ?db')
    \<and> map ar_chain_hash (rows_asc ?db) = map ar_chain_hash (rows_asc ?db')"
    by (intro audit_tamper_evident[OF ok head])
      (auto simp: sample_defs hashed_texts_def inj_on_def)
  then show ?thesis by blast
qed

definition unhashed_edit ::
  "(audit_row \<Rightarrow> string \<times> string \<times> string \<times> string) \<Rightarrow> audit_row \<Rightarrow> audit_row" where
  "unhashed_edit g r =
     (case g r of (i, t, d, y) \<Rightarrow>
        r\<lparr>ar_record_id := i, ar_timestamp := t, ar_decision_id := d, ar_decision_type := y\<rparr>)"

lemma unhashed_edit_sels [simp]:
  "ar_seq (unhashed_edit g r) = ar_seq r" "ar_payload_json (unhashed_edit g r) = ar_payload_json r"
  "ar_payload_hash (unhashed_edit g r) = ar_payload_hash r"
  "ar_prev_hash (unhashed_edit g r) = ar_prev_hash r" "ar_chain_hash (unhashed_edit g r) = ar_chain_hash r"
  by (simp_all add: unhashed_edit_def split: prod.split)

lemma verify_rows_edit: "verify_rows H now n p (map (unhashed_edit g) rs) = verify_rows H now n p rs"
  by (induction rs arbitrary: p) (simp_all add: Let_def)

lemma rows_asc_edit: "rows_asc (db\<lparr>ad_rows := map (unhashed_edit g) (ad_rows db)\<rparr>) = map (unhashed_edit g) (rows_asc db)"
proof -
  have "ar_seq \<circ> unhashed_edit g = ar_seq" by (simp add: fun_eq_iff)
  then show ?thesis by (simp add: rows_asc_def sort_key_map)
qed

text \<open>What verification cannot see: the columns that are not hashed (record id, timestamp,
  decision id, decision type) may be rewritten in any row, and any number of the newest rows may be
  dropped, and the table still verifies.\<close>

theorem verifyChain_blind_spots:
  assumes "cv_ok (verifyChain H now db)"
  shows "verifyChain H now (db\<lparr>ad_rows := map (unhashed_edit g) (ad_rows db)\<rparr>) = verifyChain H now db
    \<and> cv_ok (verifyChain H now (db\<lparr>ad_rows := take k (rows_asc db)\<rparr>))"
proof (rule conjI)
  show "verifyChain H now (db\<lparr>ad_rows := map (unhashed_edit g) (ad_rows db)\<rparr>) = verifyChain H now db"
    by (simp add: verifyChain_def rows_asc_edit verify_rows_edit)
  have "sorted (map ar_seq (take k (rows_asc db)))"
    unfolding rows_asc_def by (simp add: sorted_wrt_take flip: take_map)
  then have "rows_asc (db\<lparr>ad_rows := take k (rows_asc db)\<rparr>) = take k (rows_asc db)"
    by (simp add: rows_asc_def sort_key_id_if_sorted)
  moreover have "audit_linked H (take k (rows_asc db) @ drop k (rows_asc db))"
    using assms by (simp add: verifyChain_ok_iff)
  then have "audit_linked H (take k (rows_asc db))" unfolding linked_append by simp
  ultimately show "cv_ok (verifyChain H now (db\<lparr>ad_rows := take k (rows_asc db)\<rparr>))"
    by (simp add: verifyChain_ok_iff)
qed

theorem verifyChain_blind_spots_witness:
  "cv_ok (verifyChain sample_hash ''now'' (sample_db (sample_row\<lparr>ar_decision_id := ''forged''\<rparr>)))
   \<and> cv_ok (verifyChain sample_hash ''now'' (sample_db sample_row\<lparr>ad_rows := []\<rparr>))"
proof -
  have ok: "cv_ok (verifyChain sample_hash ''now'' (sample_db sample_row))"
    by (simp add: verifyChain_def rows_asc_def sample_defs Let_def)
  from verifyChain_blind_spots[OF ok, of "\<lambda>_. (''u'', ''t'', ''forged'', ''y'')" 0] ok show ?thesis
    by (simp add: sample_db_def unhashed_edit_def sample_row_def)
qed

end
