(* ===== verification/CosignStore.thy ===== *)
theory CosignStore imports AuditChain Mi9Gate begin

text \<open>
  The store of decisions held for a human co-signature, \<open>src/src/governance/cosign-store.ts\<close>, and the
  start-up guard \<open>src/src/governance/mi9-enforcement.ts\<close>.  The table \<open>cosign_pending\<close> is a list of rows
  with distinct record ids.  The two JSON columns hold the decision's context and the gate's result,
  kept here as the values they print.
\<close>

section \<open>The start-up guard\<close>

text \<open>\<open>Inl\<close> is the thrown error's code.\<close>

definition assertMi9EnforcementAllowed :: "string option \<Rightarrow> string option \<Rightarrow> string + unit" where
  "assertMi9EnforcementAllowed node_env mi9_enforce =
     (if node_env \<noteq> Some ''production'' \<or> mi9_enforce \<noteq> Some ''off'' then Inr ()
      else Inl ''mi9_enforce_off_refused_in_production'')"

section \<open>The table\<close>

record hold_input =
  hi_recordId :: string
  hi_requestId :: string
  hi_sessionId :: string
  hi_verdict :: verdict
  hi_content :: string
  hi_modelUsed :: string
  hi_context :: decision_context
  hi_mi9 :: mi9_result

record held_decision = hold_input +
  hd_createdAt :: string
  hd_releasedAt :: "string option"
  hd_releasedBy :: "string option"

type_synonym cosign_table = "held_decision list"

text \<open>\<open>INSERT OR REPLACE\<close>: a row of the same id is deleted first.\<close>

definition cosign_hold :: "string \<Rightarrow> hold_input \<Rightarrow> cosign_table \<Rightarrow> cosign_table" where
  "cosign_hold now inp t =
     filter (\<lambda>h. hi_recordId h \<noteq> hi_recordId inp) t
       @ [hold_input.extend inp (held_decision.fields now None None)]"

definition cosign_get :: "string \<Rightarrow> cosign_table \<Rightarrow> held_decision option" where
  "cosign_get recordId t = row_find hi_recordId recordId t"

definition listOpen :: "int \<Rightarrow> cosign_table \<Rightarrow> held_decision list" where
  "listOpen cnt t =
     sql_window cnt 0 (rev (sort_key hd_createdAt (filter (\<lambda>h. hd_releasedAt h = None) t)))"

definition countOpen :: "cosign_table \<Rightarrow> nat" where
  "countOpen t = row_changes (\<lambda>h. hd_releasedAt h = None) t"

definition release_row :: "string \<Rightarrow> string \<Rightarrow> held_decision \<Rightarrow> held_decision" where
  "release_row now operator h = h\<lparr>hd_releasedAt := Some now, hd_releasedBy := Some operator\<rparr>"

definition markReleased :: "string \<Rightarrow> string \<Rightarrow> string \<Rightarrow> cosign_table \<Rightarrow> bool \<times> cosign_table" where
  "markReleased now recordId operator t =
     (let open_row = (\<lambda>h. hi_recordId h = recordId \<and> hd_releasedAt h = None)
      in (row_changes open_row t = 1, row_update open_row (release_row now operator) t))"

section \<open>Lemmas\<close>

definition cosign_wf :: "cosign_table \<Rightarrow> bool" where
  "cosign_wf t \<longleftrightarrow> distinct (map hi_recordId t)"

definition is_released :: "string \<Rightarrow> cosign_table \<Rightarrow> bool" where
  "is_released recordId t \<longleftrightarrow> (\<exists>h\<in>set t. hi_recordId h = recordId \<and> hd_releasedAt h \<noteq> None)"

lemma release_row_sels [simp]:
  "hi_recordId (release_row now op h) = hi_recordId h"
  "hi_requestId (release_row now op h) = hi_requestId h"
  "hi_content (release_row now op h) = hi_content h"
  "hd_releasedAt (release_row now op h) = Some now" "hd_releasedBy (release_row now op h) = Some op"
  by (simp_all add: release_row_def)

lemma extend_sels [simp]:
  "hi_recordId (hold_input.extend inp (held_decision.fields now a b)) = hi_recordId inp"
  "hi_requestId (hold_input.extend inp (held_decision.fields now a b)) = hi_requestId inp"
  "hi_content (hold_input.extend inp (held_decision.fields now a b)) = hi_content inp"
  "hi_verdict (hold_input.extend inp (held_decision.fields now a b)) = hi_verdict inp"
  "hd_releasedAt (hold_input.extend inp (held_decision.fields now a b)) = a"
  by (simp_all add: hold_input.defs held_decision.defs)

lemma cosign_hold_wf: "cosign_wf t \<Longrightarrow> cosign_wf (cosign_hold now inp t)"
  by (auto simp: cosign_wf_def cosign_hold_def distinct_map_filter)

lemma cosign_get_hold: "cosign_get k (cosign_hold now inp t) =
    (if k = hi_recordId inp then Some (hold_input.extend inp (held_decision.fields now None None))
     else cosign_get k t)"
  by (induction t) (auto simp: cosign_get_def cosign_hold_def)

lemma markReleased_wf: "cosign_wf t \<Longrightarrow> cosign_wf (snd (markReleased now k op t))"
  by (simp add: cosign_wf_def markReleased_def Let_def row_update_keys)

lemma cosign_get_released:
  "cosign_get j (snd (markReleased now k op t)) =
     map_option (\<lambda>h. if hi_recordId h = k \<and> hd_releasedAt h = None then release_row now op h else h) (cosign_get j t)"
  unfolding cosign_get_def markReleased_def Let_def snd_conv by (rule row_find_update) simp

lemma markReleased_iff:
  assumes "cosign_wf t"
  shows "fst (markReleased now k op t) \<longleftrightarrow> (\<exists>h. cosign_get k t = Some h \<and> hd_releasedAt h = None)"
proof (cases "cosign_get k t")
  case None
  then have "k \<notin> hi_recordId ` set t" by (simp add: cosign_get_def row_find_None_iff)
  with None show ?thesis by (simp add: markReleased_def Let_def row_changes_absent)
next
  case (Some h)
  then have h: "h \<in> set t" "hi_recordId h = k" by (auto simp: cosign_get_def dest: row_find_SomeD)
  with assms have "row_changes (\<lambda>q. hi_recordId q = k \<and> hd_releasedAt q = None) t
      = (if hd_releasedAt h = None then 1 else 0)"
    using row_changes_key[of hi_recordId t h "\<lambda>q. hd_releasedAt q = None"] by (simp add: cosign_wf_def)
  with Some show ?thesis by (simp add: markReleased_def Let_def)
qed

lemma is_released_get: "cosign_wf t \<Longrightarrow> is_released k t \<longleftrightarrow> (\<exists>h. cosign_get k t = Some h \<and> hd_releasedAt h \<noteq> None)"
  unfolding is_released_def cosign_get_def cosign_wf_def
  by (auto dest: row_find_SomeD row_find_distinct)

end
