(* ===== verification/PlanesRuntime.thy ===== *)
theory PlanesRuntime imports CosignStore begin

text \<open>
  One inference request through the seven planes and the governance that follows,
  \<open>src/src/orchestrator.ts\<close>, with the two routes of \<open>src/src/api/router.ts\<close> that lead into it and out
  of the co-sign store.

  The planes are parameters: each turns the previous result into the next one or throws
  (\<open>Inl\<close>).  The process state is the gate's state, the audit table and the co-sign table.  The
  nondeterministic inputs of a call (record id, clock readings) are the record \<open>call_env\<close>.  How the
  typed audit payload lies in memory is the parameter \<open>lay\<close>.
\<close>

section \<open>Types\<close>

record inference_request =
  rq_id :: string
  rq_sessionId :: string
  rq_prompt :: string
  rq_domain :: "string option"

datatype evidence_type = SourceEv | ComputationEv | ToolCallEv | ModelOutputEv | HumanVerifiedEv

text \<open>\<open>ei_independent\<close> is \<open>metadata.independent\<close> where it is a boolean.\<close>

record evidence_item =
  ei_type :: evidence_type
  ei_timestamp :: jsnum
  ei_independent :: "bool option"

record token_usage =
  tu_totalTokens :: nat
  tu_estimatedCostUsd :: jsnum

record assurance_result =
  as_evidenceChain :: "evidence_item list"
  as_qualityScore :: "jsnum option"
  as_sovereigntyVerified :: bool

record economics_result =
  ec_content :: string
  ec_modelUsed :: string
  ec_ems :: rat
  ec_tokensUsed :: "token_usage option"

datatype plane_status = Pass | Error string

record plane_trace =
  pt_planeId :: string
  pt_enteredAt :: int
  pt_exitedAt :: int
  pt_status :: plane_status

record ('g, 'c, 'm, 'a, 'x) planes =
  pl_gateway :: "inference_request \<Rightarrow> string + 'g"
  pl_context :: "'g \<Rightarrow> string + 'c"
  pl_modelFabric :: "'c \<Rightarrow> string + 'm"
  pl_agentRuntime :: "'m \<Rightarrow> string + 'a"
  pl_execution :: "'a \<Rightarrow> string + 'x"
  pl_assurance :: "'x \<Rightarrow> string + assurance_result"
  pl_economics :: "assurance_result \<Rightarrow> string + economics_result"

datatype outcome_action = Executed | HeldForCosign | Escalated | Blocked

text \<open>The payload of an audit record, as the callers of \<open>append\<close> fill it in.\<close>

record audit_entry =
  ae_decisionId :: string
  ae_decisionType :: string
  ae_timestamp :: string
  ae_context :: decision_context
  ae_cosign :: "(string \<times> string option \<times> string) option"
  ae_mi9Result :: mi9_result
  ae_model :: string
  ae_rationale :: string
  ae_tokensUsed :: "nat option"
  ae_latencyMs :: "int option"
  ae_outcome :: outcome_action
  ae_signature :: "(string \<times> string \<times> string) option"

definition entry_payload :: "(audit_entry \<Rightarrow> jref) \<Rightarrow> audit_entry \<Rightarrow> audit_payload" where
  "entry_payload lay e =
     \<lparr>ap_decisionId = ae_decisionId e, ap_decisionType = ae_decisionType e,
      ap_timestamp = ae_timestamp e, ap_object = lay e\<rparr>"

datatype enforcement = EnfAllowed | EnfBlocked | EnfHeld | EnfRecordedOnly

record response_governance =
  rg_verdict :: verdict
  rg_policyVersion :: string
  rg_humanCoSignRequired :: bool
  rg_gatesEvaluated :: nat
  rg_blockingGates :: "(nat \<times> string \<times> verdict) list"
  rg_sovereigntyGate :: "(verdict \<times> gate_reason) option"
  rg_assuranceClaimed :: bool
  rg_enforcement :: "enforcement option"
  rg_cosign :: "(string \<times> string option) option"

text \<open>The content of a response: a text, or the refusal that names the gate's reason.\<close>

datatype response_content = Answer string | Refusal "gate_reason option"

record inference_response =
  rp_requestId :: string
  rp_content :: response_content
  rp_modelUsed :: string
  rp_planeTrace :: "plane_trace list"
  rp_ems :: rat
  rp_evidenceCount :: nat
  rp_independentEvidenceCount :: nat
  rp_tokensUsed :: "token_usage option"
  rp_latencyMs :: int
  rp_sovereigntyVerified :: bool
  rp_governance :: "response_governance option"
  rp_audit :: "(string \<times> int \<times> string) option"
  rp_auditError :: "string option"

record runtime_state =
  rs_mi9 :: mi9_state
  rs_audit :: audit_db
  rs_cosign :: cosign_table

text \<open>
  \<open>ce_clock k\<close> is the k-th reading of the clock during the call.  \<open>ce_auditFault\<close> and \<open>ce_holdFault\<close> are
  the exceptions that the insert into the audit table and the one into the co-sign table throw, if they do.
\<close>

record call_env =
  ce_policy :: policy_env
  ce_hash :: "string \<Rightarrow> string"
  ce_enforce :: "string option"
  ce_uuid :: string
  ce_clock :: "nat \<Rightarrow> int"
  ce_nowIso :: string
  ce_auditFault :: "string option"
  ce_holdFault :: "string option"

section \<open>The decision context of a response\<close>

definition independent_evidence :: "evidence_item list \<Rightarrow> evidence_item list" where
  "independent_evidence es =
     filter (\<lambda>e. ei_independent e \<noteq> Some False \<and> ei_type e \<noteq> ModelOutputEv \<and> ei_type e \<noteq> ComputationEv) es"

text \<open>\<open>Math.max\<close> of numbers: \<open>NaN\<close> when one of them is.\<close>

definition js_max :: "jsnum \<Rightarrow> jsnum \<Rightarrow> jsnum" where
  "js_max a b = (if a = NaN \<or> b = NaN then NaN else if js_less a b then b else a)"

definition MAX_SAFE_INTEGER :: int where
  "MAX_SAFE_INTEGER = 2 ^ 53 - 1"

definition evidenceAgeMs :: "int \<Rightarrow> evidence_item list \<Rightarrow> jsnum" where
  "evidenceAgeMs now ind =
     (if ind = [] then js_int MAX_SAFE_INTEGER
      else js_max (js_int 0) (js_minus (js_int now) (fold (\<lambda>e m. js_max m (ei_timestamp e)) ind NegInf)))"

definition inference_context ::
  "int \<Rightarrow> inference_request \<Rightarrow> assurance_result \<Rightarrow> economics_result \<Rightarrow> decision_context" where
  "inference_context now rq asr ecr =
     (let ind = independent_evidence (as_evidenceChain asr)
      in \<lparr>dc_decisionId = rq_id rq, dc_domain = nullish (rq_domain rq) ''general'',
          dc_action = ''inference.respond'', dc_proposedBy = ec_modelUsed ecr,
          dc_confidence = nullish (as_qualityScore asr) (js_int 0), dc_reversible = True,
          dc_impactMagnitude = \<lparr>im_unit = ''EUR'',
            im_value = nullish (map_option tu_estimatedCostUsd (ec_tokensUsed ecr)) (js_int 0)\<rparr>,
          dc_sovereignty = \<lparr>sv_dataResidency = ''eu'', sv_subjectJurisdiction = ''RO''\<rparr>,
          dc_evidence = \<lparr>ev_sourceCount = js_int (int (length ind)), ev_lastRefreshMs = evidenceAgeMs now ind,
            ev_consensusReached = 2 \<le> length ind\<rparr>,
          dc_operator = \<lparr>op_userId = Some (rq_sessionId rq), op_role = ''operator''\<rparr>,
          dc_taskClass = None, dc_priorApproval = None, dc_fallbackAvailable = False\<rparr>)"

definition outcome_of :: "verdict \<Rightarrow> outcome_action" where
  "outcome_of v = (case v of Allow \<Rightarrow> Executed | AllowWithCosign \<Rightarrow> HeldForCosign
     | Escalate \<Rightarrow> Escalated | Block \<Rightarrow> Blocked)"

section \<open>The planes\<close>

text \<open>\<open>runPlane\<close>: the result and the trace entry it pushes.\<close>

definition runPlane ::
  "string \<Rightarrow> int \<Rightarrow> int \<Rightarrow> string + 'b \<Rightarrow> plane_trace list \<Rightarrow> (string + 'b) \<times> plane_trace list" where
  "runPlane pid entered exited result traces =
     (result, traces @ [\<lparr>pt_planeId = pid, pt_enteredAt = entered, pt_exitedAt = exited,
        pt_status = (case result of Inl e \<Rightarrow> Error e | Inr _ \<Rightarrow> Pass)\<rparr>])"

definition bind_plane ::
  "(string + 'a) \<times> plane_trace list \<Rightarrow> ('a \<Rightarrow> plane_trace list \<Rightarrow> (string + 'b) \<times> plane_trace list)
     \<Rightarrow> (string + 'b) \<times> plane_trace list" where
  "bind_plane rt k = (case fst rt of Inl e \<Rightarrow> (Inl e, snd rt) | Inr x \<Rightarrow> k x (snd rt))"

definition run_planes ::
  "('g, 'c, 'm, 'a, 'x) planes \<Rightarrow> (nat \<Rightarrow> int) \<Rightarrow> inference_request
     \<Rightarrow> (string + assurance_result \<times> economics_result) \<times> plane_trace list" where
  "run_planes ps clk rq =
     bind_plane (runPlane ''r-gateway'' (clk 1) (clk 2) (pl_gateway ps rq) []) (\<lambda>g ts.
     bind_plane (runPlane ''r-context'' (clk 3) (clk 4) (pl_context ps g) ts) (\<lambda>c ts.
     bind_plane (runPlane ''r-model-fabric'' (clk 5) (clk 6) (pl_modelFabric ps c) ts) (\<lambda>m ts.
     bind_plane (runPlane ''r-agent-runtime'' (clk 7) (clk 8) (pl_agentRuntime ps m) ts) (\<lambda>a ts.
     bind_plane (runPlane ''r-execution'' (clk 9) (clk 10) (pl_execution ps a) ts) (\<lambda>x ts.
     bind_plane (runPlane ''r-assurance'' (clk 11) (clk 12) (pl_assurance ps x) ts) (\<lambda>s ts.
     bind_plane (runPlane ''r-economics'' (clk 13) (clk 14) (pl_economics ps s) ts) (\<lambda>e ts.
       (Inr (s, e), ts))))))))"

section \<open>Governance of the response\<close>

definition base_response ::
  "inference_request \<Rightarrow> assurance_result \<Rightarrow> economics_result \<Rightarrow> plane_trace list \<Rightarrow> int \<Rightarrow> inference_response" where
  "base_response rq asr ecr ts latency =
     \<lparr>rp_requestId = rq_id rq, rp_content = Answer (ec_content ecr), rp_modelUsed = ec_modelUsed ecr,
      rp_planeTrace = ts, rp_ems = ec_ems ecr, rp_evidenceCount = length (as_evidenceChain asr),
      rp_independentEvidenceCount = length (independent_evidence (as_evidenceChain asr)),
      rp_tokensUsed = ec_tokensUsed ecr, rp_latencyMs = latency,
      rp_sovereigntyVerified = as_sovereigntyVerified asr, rp_governance = None, rp_audit = None,
      rp_auditError = None\<rparr>"

definition inference_entry ::
  "call_env \<Rightarrow> inference_request \<Rightarrow> economics_result \<Rightarrow> int \<Rightarrow> decision_context \<Rightarrow> mi9_result \<Rightarrow> audit_entry" where
  "inference_entry env rq ecr latency ctx r =
     \<lparr>ae_decisionId = rq_id rq, ae_decisionType = ''planes.inference'', ae_timestamp = ce_nowIso env,
      ae_context = ctx, ae_cosign = None, ae_mi9Result = r, ae_model = ec_modelUsed ecr,
      ae_rationale = ''raspuns generat prin coloana de planuri'',
      ae_tokensUsed = Some (nullish (map_option tu_totalTokens (ec_tokensUsed ecr)) 0),
      ae_latencyMs = Some latency, ae_outcome = outcome_of (mr_verdict r), ae_signature = None\<rparr>"

definition governance_of :: "assurance_result \<Rightarrow> mi9_result \<Rightarrow> response_governance" where
  "governance_of asr r =
     \<lparr>rg_verdict = mr_verdict r, rg_policyVersion = mr_policyVersion r,
      rg_humanCoSignRequired = mr_humanCoSignRequired r, rg_gatesEvaluated = length (mr_findings r),
      rg_blockingGates = map (\<lambda>f. (gf_gateNumber f, gf_gateName f, gf_verdict f))
                           (filter (\<lambda>f. gf_verdict f \<noteq> Allow) (mr_findings r)),
      rg_sovereigntyGate = map_option (\<lambda>g. (gf_verdict g, gf_reason g))
                             (find (\<lambda>f. gf_gateNumber f = 1) (mr_findings r)),
      rg_assuranceClaimed = as_sovereigntyVerified asr, rg_enforcement = None, rg_cosign = None\<rparr>"

definition hold_of ::
  "inference_request \<Rightarrow> economics_result \<Rightarrow> decision_context \<Rightarrow> mi9_result \<Rightarrow> string \<Rightarrow> hold_input" where
  "hold_of rq ecr ctx r recordId =
     \<lparr>hi_recordId = recordId, hi_requestId = rq_id rq, hi_sessionId = rq_sessionId rq,
      hi_verdict = mr_verdict r, hi_content = ec_content ecr, hi_modelUsed = ec_modelUsed ecr,
      hi_context = ctx, hi_mi9 = r\<rparr>"

text \<open>
  The enforcement of a recorded verdict: the response and the co-sign table.  When the hold throws, the
  enclosing \<open>catch\<close> notes the error and the response stays as it was, its answer included.
\<close>

definition enforce ::
  "call_env \<Rightarrow> inference_request \<Rightarrow> economics_result \<Rightarrow> decision_context \<Rightarrow> mi9_result \<Rightarrow> string
     \<Rightarrow> response_governance \<Rightarrow> inference_response \<Rightarrow> cosign_table \<Rightarrow> inference_response \<times> cosign_table" where
  "enforce env rq ecr ctx r recordId gov rp t =
     (if ce_enforce env = Some ''off''
        then (rp\<lparr>rp_governance := Some (gov\<lparr>rg_enforcement := Some EnfRecordedOnly\<rparr>)\<rparr>, t)
      else if mr_verdict r = Block
        then (rp\<lparr>rp_governance := Some (gov\<lparr>rg_enforcement := Some EnfBlocked\<rparr>),
                 rp_content := Refusal (mr_blockReason r)\<rparr>, t)
      else if mr_verdict r = Escalate \<or> mr_verdict r = AllowWithCosign
        then (case ce_holdFault env of
                Some e \<Rightarrow> (rp\<lparr>rp_governance := Some gov, rp_auditError := Some e\<rparr>, t)
              | None \<Rightarrow>
                  (rp\<lparr>rp_governance := Some (gov\<lparr>rg_enforcement := Some EnfHeld,
                         rg_cosign := Some (recordId, mr_escalationTarget r)\<rparr>),
                       rp_content := Answer ''''\<rparr>,
                   cosign_hold (ce_nowIso env) (hold_of rq ecr ctx r recordId) t))
      else (rp\<lparr>rp_governance := Some (gov\<lparr>rg_enforcement := Some EnfAllowed\<rparr>)\<rparr>, t))"

text \<open>Sovereignty is taken from gate 1, and the audit record is attached.\<close>

definition recorded_response ::
  "mi9_result \<Rightarrow> audit_payload audit_record \<Rightarrow> inference_response \<Rightarrow> inference_response" where
  "recorded_response r rec rp =
     rp\<lparr>rp_sovereigntyVerified :=
          (map_option gf_verdict (find (\<lambda>f. gf_gateNumber f = 1) (mr_findings r)) = Some Allow),
        rp_audit := Some (rec_recordId rec, rec_seq rec, rec_chainHash rec)\<rparr>"

text \<open>
  The block between \<open>try\<close> and \<open>catch\<close>: an exception of the gate, of the audit insert or of the hold
  leaves the response as it is at that point and notes the error.
\<close>

definition record_inference ::
  "(audit_entry \<Rightarrow> jref) \<Rightarrow> call_env \<Rightarrow> audit_entry \<Rightarrow> audit_db \<Rightarrow> string + (audit_payload audit_record \<times> audit_db)" where
  "record_inference lay env e db =
     (case ce_auditFault env of
        Some x \<Rightarrow> Inl x
      | None \<Rightarrow> audit_append (ce_hash env) (ce_uuid env) (ce_nowIso env) (entry_payload lay e) db)"

definition govern ::
  "(audit_entry \<Rightarrow> jref) \<Rightarrow> call_env \<Rightarrow> inference_request \<Rightarrow> assurance_result \<Rightarrow> economics_result
     \<Rightarrow> inference_response \<Rightarrow> runtime_state \<Rightarrow> inference_response \<times> runtime_state" where
  "govern lay env rq asr ecr rp s =
     (let ctx = inference_context (ce_clock env 16) rq asr ecr
      in case mi9_evaluate (ce_policy env) (ce_clock env 17) ctx (rs_mi9 s) of
           Inl e \<Rightarrow> (rp\<lparr>rp_auditError := Some e\<rparr>, s)
         | Inr (r, m) \<Rightarrow>
      (case record_inference lay env (inference_entry env rq ecr (rp_latencyMs rp) ctx r) (rs_audit s) of
           Inl e \<Rightarrow> (rp\<lparr>rp_auditError := Some e\<rparr>, s\<lparr>rs_mi9 := m\<rparr>)
         | Inr (rec, db) \<Rightarrow>
             let (rp', t) = enforce env rq ecr ctx r (rec_recordId rec) (governance_of asr r)
                              (recorded_response r rec rp) (rs_cosign s)
             in (rp', \<lparr>rs_mi9 = m, rs_audit = db, rs_cosign = t\<rparr>)))"

text \<open>\<open>process\<close>: an exception of a plane is thrown on to the caller.\<close>

definition process ::
  "(audit_entry \<Rightarrow> jref) \<Rightarrow> ('g, 'c, 'm, 'a, 'x) planes \<Rightarrow> call_env \<Rightarrow> inference_request
     \<Rightarrow> runtime_state \<Rightarrow> (string + inference_response) \<times> runtime_state" where
  "process lay ps env rq s =
     (case run_planes ps (ce_clock env) rq of
        (Inl e, _) \<Rightarrow> (Inl e, s)
      | (Inr (asr, ecr), ts) \<Rightarrow>
          let (rp, s') = govern lay env rq asr ecr
                           (base_response rq asr ecr ts (ce_clock env 15 - ce_clock env 0)) s
          in (Inr rp, s'))"

section \<open>The routes\<close>

text \<open>\<open>POST /api/v1/inference\<close>: the request it builds has no metadata.  The status follows the
  enforcement; an exception reaches the router's error handler.\<close>

record inference_body =
  ib_prompt :: "string option"
  ib_sessionId :: "string option"

definition inference_status :: "inference_response \<Rightarrow> nat" where
  "inference_status rp =
     (case Option.bind (rp_governance rp) rg_enforcement of
        Some EnfBlocked \<Rightarrow> 403 | Some EnfHeld \<Rightarrow> 202 | _ \<Rightarrow> 200)"

definition post_inference ::
  "(audit_entry \<Rightarrow> jref) \<Rightarrow> ('g, 'c, 'm, 'a, 'x) planes \<Rightarrow> call_env \<Rightarrow> string \<Rightarrow> string \<Rightarrow> inference_body
     \<Rightarrow> runtime_state \<Rightarrow> nat \<times> inference_response option \<times> runtime_state" where
  "post_inference lay ps env id1 id2 b s =
     (if \<not> truthy_str (ib_prompt b) then (400, None, s)
      else
        let rq = \<lparr>rq_id = id1, rq_sessionId = (if truthy_str (ib_sessionId b) then the (ib_sessionId b) else id2),
                  rq_prompt = the (ib_prompt b), rq_domain = None\<rparr>
        in case process lay ps env rq s of
             (Inl e, s') \<Rightarrow> (500, None, s')
           | (Inr rp, s') \<Rightarrow> (inference_status rp, Some rp, s'))"

text \<open>\<open>POST /api/v1/cosign\<close>.  The operator comes from the authenticated key: its trimmed label,
  else its id.\<close>

record cosign_body =
  cb_recordId :: "string option"
  cb_note :: "string option"

record released_answer =
  ra_recordId :: string
  ra_requestId :: string
  ra_content :: string
  ra_cosignedBy :: string
  ra_audit :: "string \<times> int \<times> string"

datatype cosign_reply = CosignError nat string | CosignReleased released_answer

definition release_entry ::
  "string \<Rightarrow> held_decision \<Rightarrow> string \<Rightarrow> string option \<Rightarrow> string \<Rightarrow> audit_entry" where
  "release_entry now h operator note key_id =
     \<lparr>ae_decisionId = hi_requestId h, ae_decisionType = ''cosign.release'', ae_timestamp = now,
      ae_context = hi_context h, ae_cosign = Some (operator, note, key_id), ae_mi9Result = hi_mi9 h,
      ae_model = hi_modelUsed h,
      ae_rationale = ''eliberare prin cosemnare umana a unei decizii retinute'',
      ae_tokensUsed = None, ae_latencyMs = None, ae_outcome = Executed,
      ae_signature = Some (operator, now, ''human-cosigner'')\<rparr>"

definition post_cosign ::
  "(audit_entry \<Rightarrow> jref) \<Rightarrow> call_env \<Rightarrow> string \<Rightarrow> string \<Rightarrow> cosign_body \<Rightarrow> runtime_state
     \<Rightarrow> cosign_reply \<times> runtime_state" where
  "post_cosign lay env trimmed_label key_id b s =
     (let operator = (if trimmed_label \<noteq> '''' then trimmed_label else key_id)
      in if \<not> truthy_str (cb_recordId b) \<or> operator = '''' then (CosignError 400 ''recordId'', s)
         else case cosign_get (the (cb_recordId b)) (rs_cosign s) of
           None \<Rightarrow> (CosignError 404 ''nicio decizie retinuta cu acest identificator'', s)
         | Some h \<Rightarrow>
             if hd_releasedAt h \<noteq> None \<and> hd_releasedAt h \<noteq> Some '''' then (CosignError 409 ''deja cosemnata'', s)
             else case audit_append (ce_hash env) (ce_uuid env) (ce_nowIso env)
                      (entry_payload lay (release_entry (ce_nowIso env) h operator (cb_note b) key_id)) (rs_audit s) of
                 Inl e \<Rightarrow> (CosignError 500 e, s)
               | Inr (rec, db) \<Rightarrow>
                   let (ok, t) = markReleased (ce_nowIso env) (hi_recordId h) operator (rs_cosign s);
                       s' = s\<lparr>rs_audit := db, rs_cosign := t\<rparr>
                   in if \<not> ok then (CosignError 409 ''cosemnare concurenta; decizia era deja eliberata'', s')
                      else (CosignReleased \<lparr>ra_recordId = hi_recordId h, ra_requestId = hi_requestId h,
                              ra_content = hi_content h, ra_cosignedBy = operator,
                              ra_audit = (rec_recordId rec, rec_seq rec, rec_chainHash rec)\<rparr>, s'))"

end
