(* ===== verification/PlanesFacts.thy ===== *)
theory PlanesFacts imports PlanesRuntime AuditFacts Mi9Facts begin

text \<open>
  What the inference path guarantees: an answer leaves only on an \<open>allow\<close> (or with enforcement
  switched off, or when a step of governance threw), a held answer leaves at most once and after its
  release was recorded, and the audit log stays verifiable throughout.
\<close>

section \<open>One request\<close>

lemma process_InrE:
  assumes "process lay ps env rq s = (Inr rp, s')"
  obtains asr ecr ts where "run_planes ps (ce_clock env) rq = (Inr (asr, ecr), ts)"
    and "govern lay env rq asr ecr (base_response rq asr ecr ts (ce_clock env 15 - ce_clock env 0)) s = (rp, s')"
  using assms by (auto simp: process_def split: prod.splits sum.splits)

lemma base_response_sels [simp]:
  "rp_content (base_response rq asr ecr ts l) = Answer (ec_content ecr)"
  "rp_governance (base_response rq asr ecr ts l) = None"
  "rp_auditError (base_response rq asr ecr ts l) = None"
  "rp_audit (base_response rq asr ecr ts l) = None" "rp_latencyMs (base_response rq asr ecr ts l) = l"
  by (simp_all add: base_response_def)

lemma recorded_response_sels [simp]:
  "rp_content (recorded_response r rec rp) = rp_content rp"
  "rp_auditError (recorded_response r rec rp) = rp_auditError rp"
  "rp_audit (recorded_response r rec rp) = Some (rec_recordId rec, rec_seq rec, rec_chainHash rec)"
  by (simp_all add: recorded_response_def)

lemma governance_of_sels [simp]: "rg_verdict (governance_of asr r) = mr_verdict r"
  by (simp add: governance_of_def)

lemma hold_of_sels [simp]:
  "hi_recordId (hold_of rq ecr ctx r k) = k" "hi_content (hold_of rq ecr ctx r k) = ec_content ecr"
  "hi_requestId (hold_of rq ecr ctx r k) = rq_id rq" "hi_verdict (hold_of rq ecr ctx r k) = mr_verdict r"
  by (simp_all add: hold_of_def)

lemma audit_append_id:
  "audit_append H uuid now p db = Inr (rec, db') \<Longrightarrow> rec_recordId rec = uuid"
  "audit_append H uuid now p db = Inr (rec, db') \<Longrightarrow> rec_seq rec = next_seq db"
  by (auto simp: audit_append_def Let_def split: if_splits)

lemma record_inference_Inr:
  "record_inference lay env e db = Inr rd \<longleftrightarrow>
     ce_auditFault env = None \<and> audit_append (ce_hash env) (ce_uuid env) (ce_nowIso env) (entry_payload lay e) db = Inr rd"
  by (auto simp: record_inference_def split: option.split)

lemma record_inference_refused:
  "(\<exists>x. record_inference lay env e db = Inl x) \<longleftrightarrow> ce_auditFault env \<noteq> None \<or> ce_uuid env \<in> ar_record_id ` set (ad_rows db)"
  by (auto simp: record_inference_def audit_append_def Let_def split: option.split)

text \<open>The two ways governance ends: it failed before anything was written and the response is untouched, or
  the verdict is recorded and enforced.\<close>

lemma govern_cases:
  assumes "govern lay env rq asr ecr rp s = (rp', s')"
  obtains (failed) e where "rp' = rp\<lparr>rp_auditError := Some e\<rparr>" "rs_audit s' = rs_audit s" "rs_cosign s' = rs_cosign s"
      "(\<exists>x. mi9_evaluate (ce_policy env) (ce_clock env 17) (inference_context (ce_clock env 16) rq asr ecr) (rs_mi9 s) = Inl x)
       \<or> ce_auditFault env \<noteq> None \<or> ce_uuid env \<in> ar_record_id ` set (ad_rows (rs_audit s))"
  | (recorded) r m rec db t where
      "mi9_evaluate (ce_policy env) (ce_clock env 17) (inference_context (ce_clock env 16) rq asr ecr) (rs_mi9 s) = Inr (r, m)"
      "audit_append (ce_hash env) (ce_uuid env) (ce_nowIso env)
         (entry_payload lay (inference_entry env rq ecr (rp_latencyMs rp)
            (inference_context (ce_clock env 16) rq asr ecr) r)) (rs_audit s) = Inr (rec, db)"
      "enforce env rq ecr (inference_context (ce_clock env 16) rq asr ecr) r (ce_uuid env) (governance_of asr r)
         (recorded_response r rec rp) (rs_cosign s) = (rp', t)"
      "s' = \<lparr>rs_mi9 = m, rs_audit = db, rs_cosign = t\<rparr>" "ce_auditFault env = None"
proof -
  let ?ctx = "inference_context (ce_clock env 16) rq asr ecr"
  show thesis
  proof (cases "mi9_evaluate (ce_policy env) (ce_clock env 17) ?ctx (rs_mi9 s)")
    case (Inl e)
    with assms show ?thesis by (intro failed) (auto simp: govern_def Let_def)
  next
    case eval: (Inr rm)
    obtain r m where rm: "rm = (r, m)" by (cases rm)
    let ?e = "inference_entry env rq ecr (rp_latencyMs rp) ?ctx r"
    show ?thesis
    proof (cases "record_inference lay env ?e (rs_audit s)")
      case (Inl e)
      then have "\<exists>x. record_inference lay env ?e (rs_audit s) = Inl x" by blast
      then have "ce_auditFault env \<noteq> None \<or> ce_uuid env \<in> ar_record_id ` set (ad_rows (rs_audit s))"
        unfolding record_inference_refused .
      with assms eval rm Inl show ?thesis by (intro failed) (auto simp: govern_def Let_def)
    next
      case rec: (Inr rd)
      obtain rec db where rd: "rd = (rec, db)" by (cases rd)
      note app = rec[unfolded rd record_inference_Inr]
      have "rec_recordId rec = ce_uuid env" by (rule audit_append_id(1)[OF conjunct2[OF app]])
      moreover obtain rp2 t where "enforce env rq ecr ?ctx r (ce_uuid env) (governance_of asr r)
          (recorded_response r rec rp) (rs_cosign s) = (rp2, t)" by fastforce
      ultimately show ?thesis using assms eval rm rec rd
        by (intro recorded[OF eval[unfolded rm] conjunct2[OF app], of t] conjunct1[OF app]) (auto simp: govern_def Let_def)
    qed
  qed
qed

lemma enforce_audit:
  "enforce env rq ecr ctx r k g rp t = (rp', t') \<Longrightarrow>
     rp_audit rp' = rp_audit rp \<and> (ce_holdFault env = None \<longrightarrow> rp_auditError rp' = rp_auditError rp)
     \<and> (t' = t \<or> t' = cosign_hold (ce_nowIso env) (hold_of rq ecr ctx r k) t)"
  by (auto simp: enforce_def split: if_splits option.splits)

text \<open>When a step of governance throws: the gate, the audit insert, or the hold of a verdict that asks for a
  human while enforcement is on.\<close>

definition governance_throws ::
  "call_env \<Rightarrow> inference_request \<Rightarrow> assurance_result \<Rightarrow> economics_result \<Rightarrow> runtime_state \<Rightarrow> bool" where
  "governance_throws env rq asr ecr s \<longleftrightarrow>
     (case mi9_evaluate (ce_policy env) (ce_clock env 17) (inference_context (ce_clock env 16) rq asr ecr) (rs_mi9 s) of
        Inl _ \<Rightarrow> True
      | Inr (r, _) \<Rightarrow> ce_auditFault env \<noteq> None \<or> ce_uuid env \<in> ar_record_id ` set (ad_rows (rs_audit s))
          \<or> ce_holdFault env \<noteq> None \<and> ce_enforce env \<noteq> Some ''off'' \<and> mr_verdict r \<in> {Escalate, AllowWithCosign})"

text \<open>C1. What leaves the inference path is decided by the verdict that is on record.  Exactly when no step of
  governance throws does the response come without an audit error.  Then the gate's verdict is on the audit
  log, in the one row this request appends, under its identifier, with the canonical text of the entry that
  carries that very result; and, unless \<open>MI9_ENFORCE\<close> is \<open>off\<close>, the verdict decides: the answer leaves on
  \<open>allow\<close>, the refusal on \<open>block\<close>, and nothing on the two verdicts that ask for a human, where the answer is
  in the co-sign store, open, under the id of the audit record.  With enforcement off every verdict is only
  recorded and the answer leaves.  When a step throws, the answer leaves in full with the error noted, and
  nothing is held.\<close>

theorem process_enforces_verdict:
  assumes "process lay ps env rq s = (Inr rp, s')"
  shows "\<exists>asr ecr ts. run_planes ps (ce_clock env) rq = (Inr (asr, ecr), ts)
    \<and> (rp_auditError rp = None) = (\<not> governance_throws env rq asr ecr s)
    \<and> (if governance_throws env rq asr ecr s
       then rp_content rp = Answer (ec_content ecr) \<and> rs_cosign s' = rs_cosign s
       else \<exists>r m g row.
         mi9_evaluate (ce_policy env) (ce_clock env 17) (inference_context (ce_clock env 16) rq asr ecr) (rs_mi9 s) = Inr (r, m)
         \<and> rows_asc (rs_audit s') = rows_asc (rs_audit s) @ [row]
         \<and> ar_record_id row = ce_uuid env \<and> ar_decision_id row = rq_id rq
         \<and> ar_payload_json row = canonicalStringify (lay (inference_entry env rq ecr (ce_clock env 15 - ce_clock env 0)
              (inference_context (ce_clock env 16) rq asr ecr) r))
         \<and> rp_governance rp = Some g \<and> rg_verdict g = mr_verdict r
         \<and> rp_audit rp = Some (ce_uuid env, ar_seq row, ar_chain_hash row)
         \<and> (if ce_enforce env = Some ''off''
            then rg_enforcement g = Some EnfRecordedOnly \<and> rp_content rp = Answer (ec_content ecr) \<and> rs_cosign s' = rs_cosign s
            else case mr_verdict r of
                Allow \<Rightarrow> rp_content rp = Answer (ec_content ecr) \<and> rs_cosign s' = rs_cosign s
              | Block \<Rightarrow> rp_content rp = Refusal (mr_blockReason r) \<and> rs_cosign s' = rs_cosign s
              | _ \<Rightarrow> rp_content rp = Answer '''' \<and>
                     (\<exists>h. cosign_get (ce_uuid env) (rs_cosign s') = Some h \<and> hd_releasedAt h = None
                        \<and> hi_content h = ec_content ecr \<and> hi_verdict h = mr_verdict r)))"
proof -
  from assms obtain asr ecr ts where planes: "run_planes ps (ce_clock env) rq = (Inr (asr, ecr), ts)"
    and gov: "govern lay env rq asr ecr (base_response rq asr ecr ts (ce_clock env 15 - ce_clock env 0)) s = (rp, s')"
    by (rule process_InrE)
  from gov show ?thesis
  proof (cases rule: govern_cases)
    case (failed e)
    then have "governance_throws env rq asr ecr s" by (auto simp: governance_throws_def split: sum.split)
    with failed planes show ?thesis by auto
  next
    case (recorded r m rec db t)
    obtain row where row: "rows_asc db = rows_asc (rs_audit s) @ [row]" "ar_decision_id row = rq_id rq"
      "ar_record_id row = ce_uuid env" "ce_uuid env \<notin> ar_record_id ` set (ad_rows (rs_audit s))"
      "rec_recordId rec = ce_uuid env" "ar_seq row = rec_seq rec" "ar_chain_hash row = rec_chainHash rec"
      "ar_payload_json row = canonicalStringify (lay (inference_entry env rq ecr (ce_clock env 15 - ce_clock env 0)
              (inference_context (ce_clock env 16) rq asr ecr) r))"
      using audit_append_InrD[OF recorded(2)] audit_append_id[OF recorded(2)]
      by (auto simp: entry_payload_def inference_entry_def)
    have throws: "governance_throws env rq asr ecr s = (ce_holdFault env \<noteq> None \<and> ce_enforce env \<noteq> Some ''off''
        \<and> mr_verdict r \<in> {Escalate, AllowWithCosign})"
      using recorded(1,5) row(4) by (simp add: governance_throws_def)
    show ?thesis
      using recorded(3) planes
      by (cases "mr_verdict r")
        (auto simp: enforce_def cosign_get_hold throws recorded(1,4) row split: option.splits if_splits)
  qed
qed

text \<open>A tiny set of planes for the worked examples.\<close>

definition echo_planes :: "evidence_item list \<Rightarrow> (inference_request, inference_request, inference_request,
    inference_request, inference_request) planes" where
  "echo_planes es =
     \<lparr>pl_gateway = Inr, pl_context = Inr, pl_modelFabric = Inr, pl_agentRuntime = Inr, pl_execution = Inr,
      pl_assurance = (\<lambda>_. Inr \<lparr>as_evidenceChain = es, as_qualityScore = Some (Num 1), as_sovereigntyVerified = True\<rparr>),
      pl_economics = (\<lambda>_. Inr \<lparr>ec_content = ''answer'', ec_modelUsed = ''m'', ec_ems = 0, ec_tokensUsed = None\<rparr>)\<rparr>"

lemma run_echo_planes:
  "\<exists>ts. run_planes (echo_planes es) clk rq =
     (Inr (\<lparr>as_evidenceChain = es, as_qualityScore = Some (Num 1), as_sovereigntyVerified = True\<rparr>,
           \<lparr>ec_content = ''answer'', ec_modelUsed = ''m'', ec_ems = 0, ec_tokensUsed = None\<rparr>), ts)"
  by (simp add: run_planes_def echo_planes_def bind_plane_def runPlane_def)

definition sample_env :: "(string \<Rightarrow> string) \<Rightarrow> string \<Rightarrow> call_env" where
  "sample_env H uuid = \<lparr>ce_policy = shipped_env, ce_hash = H, ce_enforce = None, ce_uuid = uuid,
     ce_clock = (\<lambda>_. 1000), ce_nowIso = ''2026'', ce_auditFault = None, ce_holdFault = None\<rparr>"

definition sample_request :: inference_request where
  "sample_request = \<lparr>rq_id = ''r'', rq_sessionId = ''s'', rq_prompt = ''p'', rq_domain = Some ''energy.reporting.generate''\<rparr>"

definition runtime_init :: runtime_state where
  "runtime_init = \<lparr>rs_mi9 = mi9_init, rs_audit = audit_empty, rs_cosign = []\<rparr>"

lemma process_echo_ok:
  assumes "ce_uuid env \<notin> ar_record_id ` set (ad_rows (rs_audit s))" "ce_policy env = shipped_env" "rs_mi9 s = mi9_init"
    and "ce_auditFault env = None" "ce_holdFault env = None"
  shows "\<exists>rp s'. process lay (echo_planes es) env rq s = (Inr rp, s') \<and> rp_auditError rp = None"
proof -
  obtain ts where planes: "run_planes (echo_planes es) (ce_clock env) rq =
     (Inr (\<lparr>as_evidenceChain = es, as_qualityScore = Some (Num 1), as_sovereigntyVerified = True\<rparr>,
           \<lparr>ec_content = ''answer'', ec_modelUsed = ''m'', ec_ems = 0, ec_tokensUsed = None\<rparr>), ts)"
    (is "_ = (Inr (?a, ?e), ts)") using run_echo_planes by blast
  let ?ctx = "inference_context (ce_clock env 16) rq ?a ?e"
  obtain r m where eval: "mi9_evaluate (ce_policy env) (ce_clock env 17) ?ctx (rs_mi9 s) = Inr (r, m)"
    unfolding assms(2,3) by (rule mi9_evaluate_total[OF policy_of_shipped])
  let ?rp = "base_response rq ?a ?e ts (ce_clock env 15 - ce_clock env 0)"
  let ?p = "entry_payload lay (inference_entry env rq ?e (rp_latencyMs ?rp) ?ctx r)"
  obtain rec db where app: "audit_append (ce_hash env) (ce_uuid env) (ce_nowIso env) ?p (rs_audit s) = Inr (rec, db)"
    using assms(1) by (auto simp: audit_append_def Let_def)
  then have rec: "record_inference lay env (inference_entry env rq ?e (rp_latencyMs ?rp) ?ctx r) (rs_audit s) = Inr (rec, db)"
    using assms(4) by (simp add: record_inference_Inr)
  obtain rp2 t where enf: "enforce env rq ?e ?ctx r (rec_recordId rec) (governance_of ?a r)
      (recorded_response r rec ?rp) (rs_cosign s) = (rp2, t)" by fastforce
  then have "rp_auditError rp2 = None" using assms(5) by (auto dest: enforce_audit)
  with planes eval rec enf show ?thesis by (simp add: process_def govern_def Let_def)
qed

lemma sample_verdict:
  "\<exists>r m. mi9_evaluate shipped_env 1000 (inference_context 1000 sample_request
       \<lparr>as_evidenceChain = [], as_qualityScore = Some (Num 1), as_sovereigntyVerified = True\<rparr>
       \<lparr>ec_content = ''answer'', ec_modelUsed = ''m'', ec_ems = 0, ec_tokensUsed = None\<rparr>) mi9_init = Inr (r, m)
     \<and> mr_verdict r = Escalate"
  by (simp add: inference_context_def sample_request_def mi9_eval_defs shipped_defs Let_def js_int_def
      independent_evidence_def evidenceAgeMs_def MAX_SAFE_INTEGER_def)

theorem process_enforces_verdict_witness:
  "\<exists>rp s'. process (\<lambda>_. RArr 0 []) (echo_planes []) (sample_env id ''u'') sample_request runtime_init = (Inr rp, s')
     \<and> rp_content rp = Answer ''''
     \<and> (\<exists>h. cosign_get ''u'' (rs_cosign s') = Some h \<and> hi_content h = ''answer'')
     \<and> (\<exists>row. rows_asc (rs_audit s') = [row] \<and> ar_record_id row = ''u'')"
proof -
  let ?env = "sample_env id ''u''"
  obtain rp s' where run: "process (\<lambda>_. RArr 0 []) (echo_planes []) ?env sample_request runtime_init = (Inr rp, s')"
    and ok: "rp_auditError rp = None"
    using process_echo_ok[of ?env runtime_init "\<lambda>_. RArr 0 []" "[]" sample_request]
    by (auto simp: sample_env_def runtime_init_def audit_empty_def)
  obtain asr ecr ts where planes: "run_planes (echo_planes []) (ce_clock ?env) sample_request = (Inr (asr, ecr), ts)"
    and out: "\<exists>r m g row.
         mi9_evaluate (ce_policy ?env) (ce_clock ?env 17) (inference_context (ce_clock ?env 16) sample_request asr ecr) (rs_mi9 runtime_init) = Inr (r, m)
         \<and> rows_asc (rs_audit s') = rows_asc (rs_audit runtime_init) @ [row] \<and> ar_record_id row = ce_uuid ?env
         \<and> (ce_enforce ?env \<noteq> Some ''off'' \<and> mr_verdict r = Escalate \<longrightarrow> rp_content rp = Answer '''' \<and>
              (\<exists>h. cosign_get (ce_uuid ?env) (rs_cosign s') = Some h \<and> hi_content h = ec_content ecr))"
    using process_enforces_verdict[OF run] ok by (fastforce split: if_splits)
  have "asr = \<lparr>as_evidenceChain = [], as_qualityScore = Some (Num 1), as_sovereigntyVerified = True\<rparr>"
    "ecr = \<lparr>ec_content = ''answer'', ec_modelUsed = ''m'', ec_ems = 0, ec_tokensUsed = None\<rparr>"
    using planes run_echo_planes[of "[]" "ce_clock ?env" sample_request] by auto
  with out sample_verdict run show ?thesis
    by (auto simp: sample_env_def runtime_init_def audit_empty_def rows_asc_def)
qed

text \<open>Governance fails open: when the policy cannot be read, or the audit insert throws or is refused, the
  caller gets the answer in full with status 200, whatever the verdict would have been; the failure
  shows only in the error field, and nothing is recorded or held.\<close>

theorem inference_fails_open:
  assumes "run_planes ps (ce_clock env) rq = (Inr (asr, ecr), ts)"
    and "(\<exists>e. policy_of (ce_policy env) (rs_mi9 s) = Inl e) \<or> ce_auditFault env \<noteq> None \<or> ce_uuid env \<in> ar_record_id ` set (ad_rows (rs_audit s))"
  shows "\<exists>rp s' e. process lay ps env rq s = (Inr rp, s') \<and> rp_content rp = Answer (ec_content ecr)
    \<and> rp_governance rp = None \<and> rp_auditError rp = Some e \<and> inference_status rp = 200
    \<and> rs_audit s' = rs_audit s \<and> rs_cosign s' = rs_cosign s"
proof -
  let ?rp = "base_response rq asr ecr ts (ce_clock env 15 - ce_clock env 0)"
  obtain e s' where "govern lay env rq asr ecr ?rp s = (?rp\<lparr>rp_auditError := Some e\<rparr>, s')"
    "rs_audit s' = rs_audit s" "rs_cosign s' = rs_cosign s"
  proof (cases "mi9_evaluate (ce_policy env) (ce_clock env 17) (inference_context (ce_clock env 16) rq asr ecr) (rs_mi9 s)")
    case (Inl e)
    then show ?thesis by (intro that[of e s]) (auto simp: govern_def Let_def)
  next
    case (Inr rm)
    with assms(2) have "ce_auditFault env \<noteq> None \<or> ce_uuid env \<in> ar_record_id ` set (ad_rows (rs_audit s))"
      by (auto simp: mi9_evaluate_def)
    then have "\<exists>x. record_inference lay env (inference_entry env rq ecr (rp_latencyMs ?rp)
        (inference_context (ce_clock env 16) rq asr ecr) (fst rm)) (rs_audit s) = Inl x"
      unfolding record_inference_refused .
    then obtain x where "record_inference lay env (inference_entry env rq ecr (rp_latencyMs ?rp)
        (inference_context (ce_clock env 16) rq asr ecr) (fst rm)) (rs_audit s) = Inl x" by blast
    with Inr show ?thesis
      by (intro that[of x "s\<lparr>rs_mi9 := snd rm\<rparr>"]) (auto simp: govern_def Let_def split: prod.splits)
  qed
  with assms(1) show ?thesis
    by (auto simp: process_def base_response_def inference_status_def)
qed

theorem inference_fails_open_witness:
  "\<exists>rp s'. process (\<lambda>_. RArr 0 []) (echo_planes [])
      (sample_env id ''u''\<lparr>ce_policy := shipped_env\<lparr>pe_defaultPath := ''missing''\<rparr>\<rparr>) sample_request runtime_init = (Inr rp, s')
    \<and> rp_content rp = Answer ''answer'' \<and> inference_status rp = 200"
proof -
  let ?env = "sample_env id ''u''\<lparr>ce_policy := shipped_env\<lparr>pe_defaultPath := ''missing''\<rparr>\<rparr>"
  obtain ts where planes: "run_planes (echo_planes []) (ce_clock ?env) sample_request =
     (Inr (\<lparr>as_evidenceChain = [], as_qualityScore = Some (Num 1), as_sovereigntyVerified = True\<rparr>,
           \<lparr>ec_content = ''answer'', ec_modelUsed = ''m'', ec_ems = 0, ec_tokensUsed = None\<rparr>), ts)"
    using run_echo_planes by blast
  have "\<exists>e. policy_of (ce_policy ?env) (rs_mi9 runtime_init) = Inl e"
    by (simp add: sample_env_def runtime_init_def mi9_init_def shipped_env_def policy_of_def loadPolicy_def
        policy_path_def truthy_str_def)
  from inference_fails_open[OF planes disjI1[OF this], of "\<lambda>_. RArr 0 []"] show ?thesis by auto
qed

text \<open>So it does when the answer should be held and the co-sign store throws: the verdict asks for a human and
  is on the audit log, and the caller has the answer.\<close>

lemma hold_fault_releases_answer:
  assumes "run_planes ps (ce_clock env) rq = (Inr (asr, ecr), ts)"
    and "mi9_evaluate (ce_policy env) (ce_clock env 17) (inference_context (ce_clock env 16) rq asr ecr) (rs_mi9 s) = Inr (r, m)"
    and "mr_verdict r \<in> {Escalate, AllowWithCosign}" "ce_enforce env \<noteq> Some ''off''"
    and "ce_auditFault env = None" "ce_uuid env \<notin> ar_record_id ` set (ad_rows (rs_audit s))" "ce_holdFault env = Some e"
  shows "\<exists>rp s'. process lay ps env rq s = (Inr rp, s') \<and> rp_content rp = Answer (ec_content ecr)
    \<and> rp_auditError rp = Some e \<and> inference_status rp = 200 \<and> rs_cosign s' = rs_cosign s \<and> ad_rows (rs_audit s') \<noteq> ad_rows (rs_audit s)"
  using assms
  by (auto simp: process_def govern_def record_inference_def audit_append_def Let_def enforce_def inference_status_def
      governance_of_def split: prod.splits)

text \<open>The shipped policy classifies no domain above \<open>general\<close>.\<close>

lemma general_unclassified: "dotted_ancestor a ''general'' \<longrightarrow> map_of (po_domain_tiers shipped_policy) a = None"
proof -
  have "resolveDomainTier ''general'' (po_domain_tiers shipped_policy) = None"
    by (simp add: resolveDomainTier_def shipped_defs)
  then show ?thesis using resolveDomainTier_iff[of "''general''" "po_domain_tiers shipped_policy"] by simp
qed

text \<open>Under the shipped policy and with enforcement on, \<open>POST /inference\<close> never answers: the request it
  builds carries no domain, so the decision is in the unclassified domain \<open>general\<close>, and every call
  that governance completes ends in 403 with the answer withheld.\<close>

theorem shipped_policy_blocks_inference_route:
  assumes "post_inference lay ps env id1 id2 b s = (status, Some rp, s')"
    and "policy_of (ce_policy env) (rs_mi9 s) = Inr (shipped_policy, m)"
    and "ce_enforce env \<noteq> Some ''off''" and "rp_auditError rp = None"
  shows "status = 403 \<and> (\<exists>why. rp_content rp = Refusal why)"
proof -
  let ?sid = "if truthy_str (ib_sessionId b) then the (ib_sessionId b) else id2"
  let ?rq = "\<lparr>rq_id = id1, rq_sessionId = ?sid, rq_prompt = the (ib_prompt b), rq_domain = None\<rparr>"
  have run: "process lay ps env ?rq s = (Inr rp, s')" and status: "status = inference_status rp"
    using assms(1) by (auto simp: post_inference_def Let_def split: if_splits prod.splits sum.splits)
  from run obtain asr ecr ts where
    gov: "govern lay env ?rq asr ecr (base_response ?rq asr ecr ts (ce_clock env 15 - ce_clock env 0)) s = (rp, s')"
    by (rule process_InrE)
  from gov show ?thesis
  proof (cases rule: govern_cases)
    case failed
    with assms(4) show ?thesis by simp
  next
    case (recorded r m' rec db t)
    have "dc_domain (inference_context (ce_clock env 16) ?rq asr ecr) = ''general''"
      by (simp add: inference_context_def Let_def)
    then have "mr_verdict r = Block"
      using general_unclassified by (intro unclassified_blocks[OF recorded(1) assms(2)]) (auto simp: shipped_policy_def)
    with recorded(3) assms(3) status show ?thesis by (auto simp: enforce_def inference_status_def)
  qed
qed

theorem shipped_policy_blocks_inference_route_witness:
  "\<exists>rp s' why. post_inference (\<lambda>_. RArr 0 []) (echo_planes []) (sample_env id ''u'') ''r'' ''s''
      \<lparr>ib_prompt = Some ''p'', ib_sessionId = None\<rparr> runtime_init = (403, Some rp, s') \<and> rp_content rp = Refusal why"
proof -
  let ?env = "sample_env id ''u''"
  let ?rq = "\<lparr>rq_id = ''r'', rq_sessionId = ''s'', rq_prompt = ''p'', rq_domain = None\<rparr>"
  obtain rp s' where run: "process (\<lambda>_. RArr 0 []) (echo_planes []) ?env ?rq runtime_init = (Inr rp, s')"
    and ok: "rp_auditError rp = None"
    using process_echo_ok[of ?env runtime_init "\<lambda>_. RArr 0 []" "[]" ?rq]
    by (auto simp: sample_env_def runtime_init_def audit_empty_def)
  then have post: "post_inference (\<lambda>_. RArr 0 []) (echo_planes []) ?env ''r'' ''s''
      \<lparr>ib_prompt = Some ''p'', ib_sessionId = None\<rparr> runtime_init = (inference_status rp, Some rp, s')"
    by (simp add: post_inference_def truthy_str_def)
  have "policy_of (ce_policy ?env) (rs_mi9 runtime_init) = Inr (shipped_policy,
      \<lparr>ms_cachedPolicy = Some shipped_policy, ms_cachedPolicyVersion = po_version shipped_policy, ms_decisionsThisHour = []\<rparr>)"
    by (simp add: sample_env_def runtime_init_def)
  from shipped_policy_blocks_inference_route[OF post this _ ok] post show ?thesis by (auto simp: sample_env_def)
qed

section \<open>Histories of requests and releases\<close>

text \<open>
  The states a process can reach from start-up by calls of the two routes, with the answers the
  co-sign route has released so far, oldest first.  Every call sees the same hash function; ids,
  clocks and bodies are arbitrary.
\<close>

inductive served ::
  "(audit_entry \<Rightarrow> jref) \<Rightarrow> ('g, 'c, 'm, 'a, 'x) planes \<Rightarrow> (string \<Rightarrow> string)
     \<Rightarrow> released_answer list \<Rightarrow> runtime_state \<Rightarrow> bool"
  for lay ps H where
  served_start: "served lay ps H [] runtime_init"
| served_inference: "served lay ps H L s \<Longrightarrow> ce_hash env = H \<Longrightarrow>
    post_inference lay ps env id1 id2 b s = (status, out, s') \<Longrightarrow> served lay ps H L s'"
| served_release: "served lay ps H L s \<Longrightarrow> ce_hash env = H \<Longrightarrow>
    post_cosign lay env lbl key b s = (CosignReleased a, s') \<Longrightarrow> served lay ps H (L @ [a]) s'"
| served_refused: "served lay ps H L s \<Longrightarrow> ce_hash env = H \<Longrightarrow>
    post_cosign lay env lbl key b s = (CosignError code msg, s') \<Longrightarrow> served lay ps H L s'"

definition audit_ids :: "runtime_state \<Rightarrow> string set" where
  "audit_ids s = ar_record_id ` set (ad_rows (rs_audit s))"

definition runtime_inv :: "(string \<Rightarrow> string) \<Rightarrow> runtime_state \<Rightarrow> bool" where
  "runtime_inv H s \<longleftrightarrow> audit_linked H (rows_asc (rs_audit s)) \<and> audit_wf (rs_audit s)
     \<and> cosign_wf (rs_cosign s) \<and> hi_recordId ` set (rs_cosign s) \<subseteq> audit_ids s"

definition released_inv :: "released_answer list \<Rightarrow> runtime_state \<Rightarrow> bool" where
  "released_inv L s \<longleftrightarrow> distinct (map ra_recordId L)
     \<and> (\<forall>a\<in>set L. \<exists>h. cosign_get (ra_recordId a) (rs_cosign s) = Some h \<and> hd_releasedAt h \<noteq> None
          \<and> hi_content h = ra_content a \<and> hi_requestId h = ra_requestId a)"

lemma audit_append_ids:
  assumes "audit_append H uuid now p db = Inr (rec, db')"
  shows "ar_record_id ` set (ad_rows db') = insert uuid (ar_record_id ` set (ad_rows db))"
    and "uuid \<notin> ar_record_id ` set (ad_rows db)"
  using audit_append_InrD[OF assms] by auto

lemma cosign_get_in: "cosign_get k t = Some h \<Longrightarrow> h \<in> set t \<and> hi_recordId h = k"
  by (auto simp: cosign_get_def dest: row_find_SomeD)

lemma runtime_inv_govern:
  assumes "runtime_inv (ce_hash env) s" "released_inv L s"
    and "govern lay env rq asr ecr (base_response rq asr ecr ts l) s = (rp, s')"
  shows "runtime_inv (ce_hash env) s' \<and> released_inv L s'"
  using assms(3)
proof (cases rule: govern_cases)
  case failed
  with assms(1,2) show ?thesis by (simp add: runtime_inv_def released_inv_def audit_ids_def)
next
  case (recorded r m rec db t)
  let ?k = "ce_uuid env"
  have audit: "audit_linked (ce_hash env) (rows_asc db)" "audit_wf db"
    using assms(1) audit_append_linked[OF _ recorded(2)] audit_append_wf[OF _ recorded(2)]
    by (auto simp: runtime_inv_def)
  note ids = audit_append_ids[OF recorded(2)]
  let ?h = "hold_of rq ecr (inference_context (ce_clock env 16) rq asr ecr) r ?k"
  consider "t = rs_cosign s" | "t = cosign_hold (ce_nowIso env) ?h (rs_cosign s)"
    using enforce_audit[OF recorded(3)] by blast
  then show ?thesis
  proof cases
    case 1
    with assms(1,2) audit ids recorded(4) show ?thesis
      by (auto simp: runtime_inv_def released_inv_def audit_ids_def)
  next
    case 2
    have fresh: "ra_recordId a \<noteq> ?k" if a: "a \<in> set L" for a
    proof -
      obtain h where "cosign_get (ra_recordId a) (rs_cosign s) = Some h"
        using assms(2) a by (auto simp: released_inv_def)
      then have "h \<in> set (rs_cosign s)" "hi_recordId h = ra_recordId a" by (simp_all add: cosign_get_in)
      then have "ra_recordId a \<in> audit_ids s" using assms(1) by (auto simp: runtime_inv_def)
      with ids(2) show ?thesis by (auto simp: audit_ids_def)
    qed
    have "cosign_wf t" unfolding 2 using assms(1) by (intro cosign_hold_wf) (simp add: runtime_inv_def)
    moreover have "hi_recordId ` set t \<subseteq> ar_record_id ` set (ad_rows db)"
      using assms(1) ids(1) by (auto simp: 2 cosign_hold_def runtime_inv_def audit_ids_def)
    moreover have "cosign_get (ra_recordId a) t = cosign_get (ra_recordId a) (rs_cosign s)" if "a \<in> set L" for a
      using fresh[OF that] by (simp add: 2 cosign_get_hold)
    ultimately show ?thesis
      using assms(2) audit recorded(4) by (simp add: runtime_inv_def released_inv_def audit_ids_def)
  qed
qed

lemma runtime_inv_inference:
  assumes "runtime_inv (ce_hash env) s" "released_inv L s"
    and "post_inference lay ps env id1 id2 b s = (status, out, s')"
  shows "runtime_inv (ce_hash env) s' \<and> released_inv L s'"
proof -
  have err: "x = s" if "process lay ps env rq s = (Inl e, x)" for rq e x
    using that by (auto simp: process_def split: prod.splits sum.splits)
  consider "s' = s" | rq rp where "process lay ps env rq s = (Inr rp, s')"
    using assms(3) err by (auto simp: post_inference_def Let_def split: if_splits prod.splits sum.splits)
  then show ?thesis
  proof cases
    case (2 rq rp)
    then show ?thesis using runtime_inv_govern[OF assms(1,2)] by (elim process_InrE)
  qed (use assms in simp)
qed

text \<open>A call of the co-sign route either leaves the store alone and at most adds an audit record, or
  releases one open decision.\<close>

lemma post_cosign_cases:
  assumes "post_cosign lay env lbl key b s = (out, s')"
  obtains (same) code msg where "out = CosignError code msg" "s' = s"
  | (lost) code msg h p rec op where "out = CosignError code msg"
      "cosign_get (the (cb_recordId b)) (rs_cosign s) = Some h"
      "audit_append (ce_hash env) (ce_uuid env) (ce_nowIso env) p (rs_audit s) = Inr (rec, rs_audit s')"
      "rs_cosign s' = snd (markReleased (ce_nowIso env) (hi_recordId h) op (rs_cosign s))"
      "\<not> fst (markReleased (ce_nowIso env) (hi_recordId h) op (rs_cosign s))"
  | (released) h p rec op where
      "cosign_get (the (cb_recordId b)) (rs_cosign s) = Some h"
      "audit_append (ce_hash env) (ce_uuid env) (ce_nowIso env) p (rs_audit s) = Inr (rec, rs_audit s')"
      "rs_cosign s' = snd (markReleased (ce_nowIso env) (hi_recordId h) op (rs_cosign s))"
      "fst (markReleased (ce_nowIso env) (hi_recordId h) op (rs_cosign s))"
      "out = CosignReleased \<lparr>ra_recordId = hi_recordId h, ra_requestId = hi_requestId h,
                ra_content = hi_content h, ra_cosignedBy = op,
                ra_audit = (rec_recordId rec, rec_seq rec, rec_chainHash rec)\<rparr>"
proof (cases "cosign_get (the (cb_recordId b)) (rs_cosign s)")
  case None
  with assms have "(\<exists>c m. out = CosignError c m) \<and> s' = s" by (auto simp: post_cosign_def Let_def split: if_splits)
  then show ?thesis using same by blast
next
  case (Some h)
  let ?op = "if lbl \<noteq> '''' then lbl else key"
  let ?p = "entry_payload lay (release_entry (ce_nowIso env) h ?op (cb_note b) key)"
  show ?thesis
  proof (cases "audit_append (ce_hash env) (ce_uuid env) (ce_nowIso env) ?p (rs_audit s)")
    case (Inl e)
    with assms Some have "(\<exists>c m. out = CosignError c m) \<and> s' = s" by (auto simp: post_cosign_def Let_def split: if_splits)
    then show ?thesis using same by blast
  next
    case (Inr rd)
    obtain rec db where rd: "rd = (rec, db)" by (cases rd)
    obtain ok t where mark: "markReleased (ce_nowIso env) (hi_recordId h) ?op (rs_cosign s) = (ok, t)" by fastforce
    from assms Some Inr rd mark consider "s' = s" "\<exists>c m. out = CosignError c m"
      | "s' = s\<lparr>rs_audit := db, rs_cosign := t\<rparr>" "\<not> ok" "\<exists>c m. out = CosignError c m"
      | "s' = s\<lparr>rs_audit := db, rs_cosign := t\<rparr>" ok "out = CosignReleased
          \<lparr>ra_recordId = hi_recordId h, ra_requestId = hi_requestId h, ra_content = hi_content h,
           ra_cosignedBy = ?op, ra_audit = (rec_recordId rec, rec_seq rec, rec_chainHash rec)\<rparr>"
      by (auto simp: post_cosign_def Let_def split: if_splits)
    then show ?thesis
    proof cases
      case 1
      then show ?thesis using same by blast
    next
      case 2
      then show ?thesis using lost[of _ _ h ?p rec ?op] Some Inr rd mark by auto
    next
      case 3
      then show ?thesis using released[of h ?p rec ?op] Some Inr rd mark by auto
    qed
  qed
qed

lemma runtime_inv_release:
  assumes "runtime_inv H s" "audit_append H uuid now p (rs_audit s) = Inr (rec, rs_audit s')"
    and "rs_cosign s' = snd (markReleased now' k op (rs_cosign s))"
  shows "runtime_inv H s'"
proof -
  have "hi_recordId ` set (rs_cosign s') = hi_recordId ` set (rs_cosign s)"
    unfolding assms(3) markReleased_def Let_def snd_conv
    by (metis (no_types, lifting) list.set_map release_row_sels(1) row_update_keys)
  with assms audit_append_ids[OF assms(2)] audit_append_linked[OF _ assms(2)] audit_append_wf[OF _ assms(2)]
  show ?thesis by (auto simp: runtime_inv_def audit_ids_def markReleased_wf)
qed

lemma released_inv_mark:
  assumes "released_inv L s" "rs_cosign s' = snd (markReleased now k op (rs_cosign s))"
  shows "released_inv L s'"
  using assms unfolding released_inv_def
  by (fastforce simp: cosign_get_released)

lemma served_inv: "served lay ps H L s \<Longrightarrow> runtime_inv H s \<and> released_inv L s"
proof (induction rule: served.induct)
  case served_start
  show ?case by (simp add: runtime_inv_def released_inv_def runtime_init_def audit_empty_def rows_asc_def
        audit_wf_def cosign_wf_def)
next
  case (served_inference L s env id1 id2 b status out s')
  then show ?case using runtime_inv_inference by blast
next
  case (served_release L s env lbl key b a s')
  from served_release.hyps(3) show ?case
  proof (cases rule: post_cosign_cases)
    case (released h p rec op)
    have wf: "cosign_wf (rs_cosign s)" using served_release.IH by (simp add: runtime_inv_def)
    have h: "cosign_get (hi_recordId h) (rs_cosign s) = Some h"
      using released(1) cosign_get_in by metis
    then have "hd_releasedAt h = None" using released(4) markReleased_iff[OF wf] by auto
    then have new: "ra_recordId a \<notin> ra_recordId ` set L"
      using served_release.IH h released(5) by (auto simp: released_inv_def)
    have "cosign_get (hi_recordId h) (rs_cosign s') = Some (release_row (ce_nowIso env) op h)"
      unfolding released(3) cosign_get_released using h \<open>hd_releasedAt h = None\<close> by simp
    moreover have "runtime_inv H s'"
      using runtime_inv_release served_release.IH served_release.hyps(2) released(2,3) by blast
    ultimately show ?thesis
      using new released_inv_mark[OF conjunct2[OF served_release.IH] released(3)] released(5)
      by (auto simp: released_inv_def)
  qed auto
next
  case (served_refused L s env lbl key b code msg s')
  from served_refused.hyps(3) show ?case
  proof (cases rule: post_cosign_cases)
    case (lost c m h p rec op)
    then show ?thesis using runtime_inv_release released_inv_mark served_refused.IH served_refused.hyps(2) by blast
  qed (use served_refused.IH in auto)
qed

text \<open>C4. In every reachable history of the two routes a held answer is released at most once, with the
  content and for the request it was held for, and is marked released; and the audit log verifies.\<close>

theorem held_answers_released_once:
  assumes "served lay ps H L s"
  shows "distinct (map ra_recordId L)
    \<and> (\<forall>a\<in>set L. \<exists>h. cosign_get (ra_recordId a) (rs_cosign s) = Some h \<and> hd_releasedAt h \<noteq> None
         \<and> hi_content h = ra_content a \<and> hi_requestId h = ra_requestId a)
    \<and> cv_ok (verifyChain H now (rs_audit s))"
  using served_inv[OF assms] by (simp add: runtime_inv_def released_inv_def verifyChain_ok_iff)

definition open_policy_env :: policy_env where
  "open_policy_env = shipped_env\<lparr>pe_files := (\<lambda>_. Inr (shipped_policy
     \<lparr>po_domain_tiers := (''general'', Limited) # po_domain_tiers shipped_policy\<rparr>))\<rparr>"

lemma open_policy_verdict:
  "\<exists>r m. mi9_evaluate open_policy_env 1000 (inference_context 1000
       \<lparr>rq_id = ''r'', rq_sessionId = ''s'', rq_prompt = ''p'', rq_domain = None\<rparr>
       \<lparr>as_evidenceChain = [], as_qualityScore = Some (Num 1), as_sovereigntyVerified = True\<rparr>
       \<lparr>ec_content = ''answer'', ec_modelUsed = ''m'', ec_ems = 0, ec_tokensUsed = None\<rparr>) mi9_init = Inr (r, m)
     \<and> mr_verdict r = Escalate"
  by (simp add: inference_context_def open_policy_env_def mi9_eval_defs shipped_defs Let_def js_int_def
      independent_evidence_def evidenceAgeMs_def MAX_SAFE_INTEGER_def policy_of_def loadPolicy_def mi9_init_def
      shipped_env_def)

theorem held_answers_released_once_witness:
  "\<exists>a s. served (\<lambda>_. RArr 0 []) (echo_planes []) id [a] s \<and> ra_content a = ''answer''
     \<and> (\<exists>h. cosign_get (ra_recordId a) (rs_cosign s) = Some h \<and> hd_releasedAt h \<noteq> None)"
proof -
  let ?lay = "\<lambda>_. RArr 0 []" and ?ps = "echo_planes []"
  let ?env = "sample_env id ''u1''\<lparr>ce_policy := open_policy_env\<rparr>"
  let ?b = "\<lparr>ib_prompt = Some ''p'', ib_sessionId = None\<rparr>"
  obtain r m where eval: "mi9_evaluate open_policy_env 1000 (inference_context 1000
       \<lparr>rq_id = ''r'', rq_sessionId = ''s'', rq_prompt = ''p'', rq_domain = None\<rparr>
       \<lparr>as_evidenceChain = [], as_qualityScore = Some (Num 1), as_sovereigntyVerified = True\<rparr>
       \<lparr>ec_content = ''answer'', ec_modelUsed = ''m'', ec_ems = 0, ec_tokensUsed = None\<rparr>) mi9_init = Inr (r, m)"
    "mr_verdict r = Escalate" using open_policy_verdict by blast
  obtain status out s1 where infer: "post_inference ?lay ?ps ?env ''r'' ''s'' ?b runtime_init = (status, out, s1)"
    by (metis prod_cases3)
  have s1: "ar_record_id ` set (ad_rows (rs_audit s1)) = {''u1''}"
    "map (\<lambda>h. (hi_recordId h, hi_content h, hd_releasedAt h)) (rs_cosign s1) = [(''u1'', ''answer'', None)]"
    using infer eval
    by (auto simp: post_inference_def truthy_str_def process_def run_planes_def echo_planes_def bind_plane_def
        runPlane_def govern_def record_inference_def sample_env_def runtime_init_def audit_append_def audit_empty_def enforce_def
        Let_def cosign_hold_def)
  then obtain h where h: "rs_cosign s1 = [h]" "hi_recordId h = ''u1''" "hi_content h = ''answer''" "hd_releasedAt h = None"
    by auto
  let ?env2 = "sample_env id ''u2''" and ?cb = "\<lparr>cb_recordId = Some ''u1'', cb_note = None\<rparr>"
  obtain a s2 where rel: "post_cosign ?lay ?env2 ''op'' ''k'' ?cb s1 = (CosignReleased a, s2)" "ra_content a = ''answer''"
    using h s1(1) by (auto simp: post_cosign_def Let_def truthy_str_def cosign_get_def sample_env_def
        audit_append_def markReleased_def row_changes_def)
  have "served ?lay ?ps id ([] @ [a]) s2"
    by (rule served_release[OF served_inference[OF served_start _ infer] _ rel(1)]) (simp_all add: sample_env_def)
  from held_answers_released_once[OF this] this rel(2) show ?thesis by fastforce
qed

end
