(* ===== verification/Mandate.thy ===== *)
theory Mandate imports Canonical begin

text \<open>
  Mandates, approvals and typed actions: \<open>runtime/automation/contracts.ts\<close> and \<open>policy.ts\<close>,
  \<open>runtime/executor/keys.ts\<close> and \<open>approval.ts\<close>, the mandate half of \<open>runtime/executor/executor.ts\<close>, and
  \<open>runtime/operator/actions.ts\<close> (all under \<open>src/src\<close>).

  What the code takes from the platform is the record \<open>lib\<close>: SHA-256, Ed25519 signing and
  verification over \<open>domain\<close> and text, the fingerprint and kind of a key, \<open>Date.parse\<close>,
  \<open>toISOString\<close> and the printing of numbers; and the regular expressions that screen free text, as
  the reason of the first one that matches.  Untyped values are \<open>json\<close>.
\<close>

section \<open>Platform\<close>

record 'k lib =
  lib_sha256 :: "string \<Rightarrow> string"
  lib_verify :: "string \<Rightarrow> string \<Rightarrow> string \<Rightarrow> 'k \<Rightarrow> bool"
  lib_sign :: "string \<Rightarrow> string \<Rightarrow> 'k \<Rightarrow> string"
  lib_keyId :: "'k \<Rightarrow> string"
  lib_isPrivate :: "'k \<Rightarrow> bool"
  lib_dateParse :: "string \<Rightarrow> jsnum"
  lib_iso :: "int \<Rightarrow> string"
  lib_numText :: "jsnum \<Rightarrow> string"
  lib_forbidden :: "string \<Rightarrow> string option"

type_synonym 'k keyring = "(string \<times> 'k) list"

section \<open>Character classes of the regular expressions\<close>

definition is_hex :: "char \<Rightarrow> bool" where
  "is_hex c \<longleftrightarrow> c \<in> set ''0123456789abcdef''"

definition hex_text :: "nat \<Rightarrow> string \<Rightarrow> bool" where
  "hex_text n s \<longleftrightarrow> length s = n \<and> list_all is_hex s"

definition tagged_hex :: "string \<Rightarrow> nat \<Rightarrow> string \<Rightarrow> bool" where
  "tagged_hex tag n s \<longleftrightarrow> take (length tag) s = tag \<and> hex_text n (drop (length tag) s)"

text \<open>One character of the first class, then at most \<open>n\<close> of the second.\<close>

definition id_text :: "(char \<Rightarrow> bool) \<Rightarrow> (char \<Rightarrow> bool) \<Rightarrow> nat \<Rightarrow> string \<Rightarrow> bool" where
  "id_text p q n s \<longleftrightarrow> (case s of [] \<Rightarrow> False | c # cs \<Rightarrow> p c \<and> list_all q cs \<and> length cs \<le> n)"

section \<open>Signatures\<close>

definition signature_text :: "string \<Rightarrow> bool" where
  "signature_text s \<longleftrightarrow> length s = 86 \<and> list_all (\<lambda>c. is_alnum c \<or> c = CHR ''_'' \<or> c = CHR ''-'') s"

definition signDomain :: "'k lib \<Rightarrow> string \<Rightarrow> string \<Rightarrow> 'k \<Rightarrow> string + string" where
  "signDomain L d payload key =
     (if \<not> lib_isPrivate L key then Inl (d @ '':signing_requires_private_key'')
      else Inr (lib_sign L d payload key))"

definition verifyDomain :: "'k lib \<Rightarrow> string \<Rightarrow> string \<Rightarrow> string option \<Rightarrow> 'k \<Rightarrow> bool" where
  "verifyDomain L d payload signature key =
     (case signature of None \<Rightarrow> False
      | Some s \<Rightarrow> if \<not> signature_text s then False else lib_verify L d payload s key)"

section \<open>Mandates\<close>

datatype automation_action =
    ReadRepo | CreateBranch | EditWorktree | RunTests | CommitLocal | PrepareDraftPr
  | ExternalSend | SecretsRead | MainWrite | Push | Merge | Release | Deploy
  | FinancialAction | DestructiveAction | ActOpsObserve | ActOpsActuate

fun action_name :: "automation_action \<Rightarrow> string" where
  "action_name ReadRepo = ''read_repo''" | "action_name CreateBranch = ''create_branch''"
| "action_name EditWorktree = ''edit_worktree''" | "action_name RunTests = ''run_tests''"
| "action_name CommitLocal = ''commit_local''" | "action_name PrepareDraftPr = ''prepare_draft_pr''"
| "action_name ExternalSend = ''external_send''" | "action_name SecretsRead = ''secrets_read''"
| "action_name MainWrite = ''main_write''" | "action_name Push = ''push''" | "action_name Merge = ''merge''"
| "action_name Release = ''release''" | "action_name Deploy = ''deploy''"
| "action_name FinancialAction = ''financial_action''"
| "action_name DestructiveAction = ''destructive_action''"
| "action_name ActOpsObserve = ''ops_observe''" | "action_name ActOpsActuate = ''ops_actuate''"

definition DEFAULT_ALLOWED_ACTIONS :: "automation_action list" where
  "DEFAULT_ALLOWED_ACTIONS = [ReadRepo, CreateBranch, EditWorktree, RunTests, CommitLocal, PrepareDraftPr]"

definition ALWAYS_DENIED_ACTIONS :: "automation_action list" where
  "ALWAYS_DENIED_ACTIONS = [ExternalSend, SecretsRead, MainWrite, Push, Merge, Release, Deploy,
     FinancialAction, DestructiveAction]"

record execution_mandate =
  md_authority_version :: "string option"
  md_authority_signature :: "string option"
  md_mandate_id :: string
  md_mission_id :: string
  md_issued_by :: string
  md_issued_by_key_id :: string
  md_objective_hash :: string
  md_workspace_root :: string
  md_branch_prefix :: string
  md_allowed_actions :: "automation_action list"
  md_denied_actions :: "automation_action list"
  md_max_cost_usd :: jsnum
  md_max_runtime_minutes :: jsnum
  md_max_fix_cycles :: jsnum
  md_issued_at :: string
  md_expires_at :: string
  md_recovery :: "json option"

record mandate_context =
  mc_objective :: string
  mc_workspaceRoot :: string
  mc_branch :: string

definition objectiveHash :: "'k lib \<Rightarrow> string \<Rightarrow> string" where
  "objectiveHash L objective = lib_sha256 L (js_trim objective)"

definition branchMatchesPolicy :: "string \<Rightarrow> string \<Rightarrow> bool" where
  "branchMatchesPolicy branch pol \<longleftrightarrow>
     branch = pol \<or> (pol \<noteq> [] \<and> last pol = CHR ''/'' \<and> prefix pol branch)"

text \<open>The reason of the refusal, \<open>None\<close> for a valid mandate.\<close>

definition validateMandate ::
  "'k lib \<Rightarrow> execution_mandate \<Rightarrow> mandate_context \<Rightarrow> int \<Rightarrow> string option" where
  "validateMandate L m ctx now =
     (if md_issued_by m \<noteq> ''merlin'' then Some ''issuer_not_architect''
      else if \<not> tagged_hex ''key_'' 12 (md_issued_by_key_id m) then Some ''issuer_identity_invalid''
      else if objectiveHash L (mc_objective ctx) \<noteq> md_objective_hash m then Some ''objective_mismatch''
      else if mc_workspaceRoot ctx \<noteq> md_workspace_root m then Some ''workspace_mismatch''
      else if \<not> branchMatchesPolicy (mc_branch ctx) (md_branch_prefix m) then Some ''branch_outside_mandate''
      else if js_less (js_int now) (lib_dateParse L (md_issued_at m))
           \<or> js_le (lib_dateParse L (md_expires_at m)) (js_int now) then Some ''mandate_expired_or_not_yet_valid''
      else if js_less (md_max_cost_usd m) (js_int 0) \<or> js_le (md_max_runtime_minutes m) (js_int 0)
           \<or> js_less (md_max_fix_cycles m) (js_int 0) then Some ''invalid_limits''
      else if list_ex (\<lambda>a. a \<in> set ALWAYS_DENIED_ACTIONS) (md_allowed_actions m)
        then Some ''consequential_action_cannot_be_delegated''
      else None)"

definition actionPermitted :: "execution_mandate \<Rightarrow> automation_action \<Rightarrow> bool" where
  "actionPermitted m a \<longleftrightarrow>
     (if a \<in> set ALWAYS_DENIED_ACTIONS then False
      else a \<in> set (md_allowed_actions m) \<and> a \<notin> set (md_denied_actions m))"

section \<open>Operations mandates\<close>

definition OPS_MANDATE_VERSION :: string where
  "OPS_MANDATE_VERSION = ''ronor-ops-mandate/v2''"

definition num_json :: "'k lib \<Rightarrow> jsnum \<Rightarrow> json" where
  "num_json L x = (if js_finite x then JNum (lib_numText L x) else JNonFinite)"

definition opt_entry :: "string \<Rightarrow> json option \<Rightarrow> (string \<times> json) list" where
  "opt_entry k v = (case v of None \<Rightarrow> [] | Some j \<Rightarrow> [(k, j)])"

text \<open>The members of a mandate, all but the signature.\<close>

abbreviation mandate_entries :: "'k lib \<Rightarrow> execution_mandate \<Rightarrow> (string \<times> json) list" where
  "mandate_entries L m \<equiv>
     opt_entry ''authority_version'' (map_option JStr (md_authority_version m)) @
     [(''mandate_id'', JStr (md_mandate_id m)), (''mission_id'', JStr (md_mission_id m)),
      (''issued_by'', JStr (md_issued_by m)), (''issued_by_key_id'', JStr (md_issued_by_key_id m)),
      (''objective_hash'', JStr (md_objective_hash m)), (''workspace_root'', JStr (md_workspace_root m)),
      (''branch_prefix'', JStr (md_branch_prefix m)),
      (''allowed_actions'', JArr (map (\<lambda>a. JStr (action_name a)) (md_allowed_actions m))),
      (''denied_actions'', JArr (map (\<lambda>a. JStr (action_name a)) (md_denied_actions m))),
      (''max_cost_usd'', num_json L (md_max_cost_usd m)),
      (''max_runtime_minutes'', num_json L (md_max_runtime_minutes m)),
      (''max_fix_cycles'', num_json L (md_max_fix_cycles m)),
      (''issued_at'', JStr (md_issued_at m)), (''expires_at'', JStr (md_expires_at m))] @
     opt_entry ''recovery'' (md_recovery m)"

text \<open>They in canonical form; an exception when a number is not finite.\<close>

definition opsMandatePayload :: "'k lib \<Rightarrow> execution_mandate \<Rightarrow> string + string" where
  "opsMandatePayload L m = canonicalJson 0 (JObj (mandate_entries L m))"

definition verifyOperationsMandate :: "'k lib \<Rightarrow> execution_mandate \<Rightarrow> 'k keyring \<Rightarrow> bool" where
  "verifyOperationsMandate L m keys =
     (if md_authority_version m \<noteq> Some OPS_MANDATE_VERSION then False
      else case map_of keys (md_issued_by_key_id m) of
        None \<Rightarrow> False
      | Some key \<Rightarrow> (case opsMandatePayload L m of
          Inl _ \<Rightarrow> False
        | Inr t \<Rightarrow> verifyDomain L OPS_MANDATE_VERSION t (md_authority_signature m) key))"

definition opsMandateContext :: "string \<Rightarrow> string \<Rightarrow> mandate_context" where
  "opsMandateContext hostId objective =
     \<lparr>mc_objective = objective, mc_workspaceRoot = ''ops://'' @ hostId, mc_branch = ''ops/'' @ hostId\<rparr>"

record issue_request =
  ir_missionId :: string
  ir_objective :: string
  ir_hostId :: string
  ir_allowActuate :: bool
  ir_ttlMinutes :: jsnum

fun js_integer :: "jsnum \<Rightarrow> bool" where
  "js_integer (Num r) = (of_int \<lfloor>r\<rfloor> = r)"
| "js_integer _ = False"

fun js_floor :: "jsnum \<Rightarrow> int" where
  "js_floor (Num r) = \<lfloor>r\<rfloor>"
| "js_floor _ = 0"

text \<open>\<open>rnd\<close> is the random part of the mandate's id.\<close>

definition unsigned_mandate ::
  "'k lib \<Rightarrow> string \<Rightarrow> int \<Rightarrow> issue_request \<Rightarrow> 'k \<Rightarrow> execution_mandate" where
  "unsigned_mandate L rnd now rq key =
     (let ctx = opsMandateContext (ir_hostId rq) (ir_objective rq)
      in \<lparr>md_authority_version = Some OPS_MANDATE_VERSION, md_authority_signature = None,
          md_mandate_id = ''mandate_'' @ rnd, md_mission_id = ir_missionId rq, md_issued_by = ''merlin'',
          md_issued_by_key_id = lib_keyId L key, md_objective_hash = objectiveHash L (ir_objective rq),
          md_workspace_root = mc_workspaceRoot ctx, md_branch_prefix = mc_branch ctx,
          md_allowed_actions = (if ir_allowActuate rq then [ActOpsObserve, ActOpsActuate] else [ActOpsObserve]),
          md_denied_actions = ALWAYS_DENIED_ACTIONS @ DEFAULT_ALLOWED_ACTIONS
            @ (if ir_allowActuate rq then [] else [ActOpsActuate]),
          md_max_cost_usd = js_int 0, md_max_runtime_minutes = ir_ttlMinutes rq, md_max_fix_cycles = js_int 0,
          md_issued_at = lib_iso L now,
          md_expires_at = lib_iso L (now + js_floor (ir_ttlMinutes rq) * 60000), md_recovery = None\<rparr>)"

definition issueOperationsMandate ::
  "'k lib \<Rightarrow> string \<Rightarrow> int \<Rightarrow> issue_request \<Rightarrow> 'k \<Rightarrow> string + execution_mandate" where
  "issueOperationsMandate L rnd now rq key =
     (if \<not> lib_isPrivate L key then Inl ''mandate_signing_requires_private_key''
      else if ir_missionId rq = '''' \<or> js_trim (ir_objective rq) = '''' then Inl ''mandate_subject_invalid''
      else if \<not> js_integer (ir_ttlMinutes rq) \<or> js_less (ir_ttlMinutes rq) (js_int 1)
           \<or> js_less (js_int 240) (ir_ttlMinutes rq) then Inl ''mandate_limit_outside_policy''
      else
        let unsigned = unsigned_mandate L rnd now rq key
        in case opsMandatePayload L unsigned of
             Inl e \<Rightarrow> Inl e
           | Inr t \<Rightarrow> map_sum id (\<lambda>s. unsigned\<lparr>md_authority_signature := Some s\<rparr>)
                        (signDomain L OPS_MANDATE_VERSION t key))"

section \<open>Typed actions\<close>

datatype operator_type =
    OpsObserve | RepoRead | RepoEdit | TestsRun | VcsCommitLocal | OpsActuate | NotifySend

definition OPERATOR_ACTION_TYPES :: "operator_type list" where
  "OPERATOR_ACTION_TYPES = [OpsObserve, RepoRead, RepoEdit, TestsRun, VcsCommitLocal, OpsActuate, NotifySend]"

fun type_name :: "operator_type \<Rightarrow> string" where
  "type_name OpsObserve = ''ops.observe''" | "type_name RepoRead = ''repo.read''"
| "type_name RepoEdit = ''repo.edit''" | "type_name TestsRun = ''tests.run''"
| "type_name VcsCommitLocal = ''vcs.commit_local''" | "type_name OpsActuate = ''ops.actuate''"
| "type_name NotifySend = ''notify.send''"

fun operator_mandate_action :: "operator_type \<Rightarrow> automation_action option" where
  "operator_mandate_action OpsObserve = Some ActOpsObserve"
| "operator_mandate_action RepoRead = Some ReadRepo"
| "operator_mandate_action RepoEdit = Some EditWorktree"
| "operator_mandate_action TestsRun = Some RunTests"
| "operator_mandate_action VcsCommitLocal = Some CommitLocal"
| "operator_mandate_action OpsActuate = Some ActOpsActuate"
| "operator_mandate_action NotifySend = Some ExternalSend"

definition operatorTypesFromMandate :: "execution_mandate \<Rightarrow> operator_type list" where
  "operatorTypesFromMandate m =
     filter (\<lambda>t. case operator_mandate_action t of None \<Rightarrow> False
                 | Some a \<Rightarrow> a \<in> set (md_allowed_actions m) \<and> a \<notin> set (md_denied_actions m))
       OPERATOR_ACTION_TYPES"

fun allowed_arg_keys :: "operator_type \<Rightarrow> string list" where
  "allowed_arg_keys OpsObserve = [''target'']"
| "allowed_arg_keys RepoRead = [''path'']"
| "allowed_arg_keys RepoEdit = [''path'', ''diffHash'']"
| "allowed_arg_keys TestsRun = [''suiteId'']"
| "allowed_arg_keys VcsCommitLocal = [''message'']"
| "allowed_arg_keys OpsActuate = [''device'', ''command'']"
| "allowed_arg_keys NotifySend = [''channel'', ''text'']"

text \<open>The value of a property, \<open>undefined\<close> when absent.\<close>

definition prop_of :: "(string \<times> json) list \<Rightarrow> string \<Rightarrow> json" where
  "prop_of es k = nullish (map_of es k) JUndefined"

definition str_prop :: "(string \<times> json) list \<Rightarrow> string \<Rightarrow> string option" where
  "str_prop es k = (case prop_of es k of JStr s \<Rightarrow> Some s | _ \<Rightarrow> None)"

definition safe_action_id :: "string \<Rightarrow> bool" where
  "safe_action_id = id_text is_alnum (\<lambda>c. is_alnum c \<or> c \<in> set ''._-'') 119"

definition bounded_str :: "nat \<Rightarrow> nat \<Rightarrow> string \<Rightarrow> bool" where
  "bounded_str lo hi s \<longleftrightarrow> lo \<le> length s \<and> length s \<le> hi"

definition isRelativeSafePath :: "string option \<Rightarrow> bool" where
  "isRelativeSafePath path =
     (case path of None \<Rightarrow> False
      | Some p \<Rightarrow>
          if \<not> bounded_str 1 500 p then False
          else if CHR 0x00 \<in> set p \<or> prefix ''/'' p
               \<or> (is_lower (p ! 0) \<or> is_upper (p ! 0)) \<and> take 2 (tl p) = [CHR '':'', CHR 0x5C] then False
          else if p = ''..'' \<or> prefix ''../'' p \<or> sublist ''/../'' p \<or> sublist [CHR ''.'', CHR ''.'', CHR 0x5C] p
            then False
          else True)"

definition sat_str :: "(string \<Rightarrow> bool) \<Rightarrow> string option \<Rightarrow> bool" where
  "sat_str p s = (case s of None \<Rightarrow> False | Some x \<Rightarrow> p x)"

definition args_shape_ok :: "operator_type \<Rightarrow> (string \<times> json) list \<Rightarrow> bool" where
  "args_shape_ok t args =
     (case t of
        OpsObserve \<Rightarrow> sat_str safe_action_id (str_prop args ''target'')
      | RepoRead \<Rightarrow> isRelativeSafePath (str_prop args ''path'')
      | RepoEdit \<Rightarrow> isRelativeSafePath (str_prop args ''path'')
          \<and> (prop_of args ''diffHash'' = JUndefined \<or> sat_str (bounded_str 0 128) (str_prop args ''diffHash''))
      | TestsRun \<Rightarrow> sat_str safe_action_id (str_prop args ''suiteId'')
      | VcsCommitLocal \<Rightarrow> sat_str (bounded_str 1 500) (str_prop args ''message'')
      | OpsActuate \<Rightarrow> sat_str safe_action_id (str_prop args ''device'')
          \<and> sat_str safe_action_id (str_prop args ''command'')
      | NotifySend \<Rightarrow> sat_str (bounded_str 1 120) (str_prop args ''channel'')
          \<and> sat_str (bounded_str 1 2000) (str_prop args ''text''))"

definition validateArgs :: "operator_type \<Rightarrow> (string \<times> json) list \<Rightarrow> string option" where
  "validateArgs t args =
     (case find (\<lambda>(k, _). k \<notin> set (allowed_arg_keys t)) args of
        Some (k, _) \<Rightarrow> Some (''unknown_arg:'' @ take 60 k)
      | None \<Rightarrow> if args_shape_ok t args then None else Some ''invalid_args'')"

fun stringsOf :: "nat \<Rightarrow> string list \<Rightarrow> json \<Rightarrow> string list"
  and strings_of_list :: "nat \<Rightarrow> string list \<Rightarrow> json list \<Rightarrow> string list"
  and strings_of_pairs :: "nat \<Rightarrow> string list \<Rightarrow> (string \<times> json) list \<Rightarrow> string list" where
  "stringsOf d out v =
     (if 8 < d \<or> 200 < length out then out
      else case v of
        JStr s \<Rightarrow> out @ [s]
      | JArr vs \<Rightarrow> strings_of_list (Suc d) out vs
      | JObj es \<Rightarrow> strings_of_pairs (Suc d) out es
      | _ \<Rightarrow> out)"
| "strings_of_list d out [] = out"
| "strings_of_list d out (v # vs) = strings_of_list d (stringsOf d out v) vs"
| "strings_of_pairs d out [] = out"
| "strings_of_pairs d out ((k, v) # es) = strings_of_pairs d (stringsOf d out v) es"

declare stringsOf.simps [simp del]

definition utf8_length :: "string \<Rightarrow> nat" where
  "utf8_length s = sum_list (map (\<lambda>c. if (of_char c :: nat) < 128 then 1 else 2) s)"

fun join_lines :: "string list \<Rightarrow> string" where
  "join_lines [] = []"
| "join_lines [t] = t"
| "join_lines (t # u # ts) = t @ CHR 0x0A # join_lines (u # ts)"

definition checkForbidden :: "'k lib \<Rightarrow> (string \<times> json) list \<Rightarrow> string option" where
  "checkForbidden L args =
     (let texts = stringsOf 0 [] (JObj args); joined = join_lines texts
      in if 8000 < utf8_length joined then Some ''args_oversized''
         else if CHR 0x00 \<in> set joined then Some ''args_nul_byte_forbidden''
         else case find (\<lambda>t. lib_forbidden L t \<noteq> None) texts of
             None \<Rightarrow> None | Some t \<Rightarrow> lib_forbidden L t)"

text \<open>\<open>Inl\<close> is the refusal's reason; the result of success names the type and the arguments.\<close>

definition evaluateTypedOperatorAction ::
  "'k lib \<Rightarrow> json \<Rightarrow> operator_type list \<Rightarrow> string + operator_type \<times> (string \<times> json) list" where
  "evaluateTypedOperatorAction L action allowed =
     (case action of
        JObj es \<Rightarrow>
          (case find (\<lambda>t. prop_of es ''type'' = JStr (type_name t)) OPERATOR_ACTION_TYPES of
             None \<Rightarrow> Inl ''unknown_action_type''
           | Some t \<Rightarrow>
          (case prop_of es ''args'' of
             JObj args \<Rightarrow>
               if t \<notin> set allowed then Inl (''action_not_allowed:'' @ type_name t)
               else (case validateArgs t args of
                   Some why \<Rightarrow> Inl why
                 | None \<Rightarrow> (case checkForbidden L args of Some why \<Rightarrow> Inl why | None \<Rightarrow> Inr (t, args)))
           | _ \<Rightarrow> Inl ''invalid_args''))
      | _ \<Rightarrow> Inl ''action_malformed'')"

section \<open>Approvals\<close>

definition APPROVAL_VERSION :: string where
  "APPROVAL_VERSION = ''ronor-actuation-approval/v2''"

definition MAX_APPROVAL_TTL_MS :: int where
  "MAX_APPROVAL_TTL_MS = 15 * 60000"

datatype request_origin = OperatorOrigin | MemoryOrigin | ModelOrigin | ExternalOrigin

fun origin_name :: "request_origin \<Rightarrow> string" where
  "origin_name OperatorOrigin = ''operator''" | "origin_name MemoryOrigin = ''memory''"
| "origin_name ModelOrigin = ''model''" | "origin_name ExternalOrigin = ''external''"

definition REQUEST_ORIGINS :: "request_origin list" where
  "REQUEST_ORIGINS = [OperatorOrigin, MemoryOrigin, ModelOrigin, ExternalOrigin]"

record action_identity =
  ai_host_id :: string
  ai_mandate_id :: string
  ai_type :: string
  ai_args :: "(string \<times> json) list"
  ai_resource :: string

record actuation_approval =
  aa_approval_id :: string
  aa_mandate_id :: string
  aa_action_hash :: string
  aa_approver_key_id :: string
  aa_channel :: string
  aa_origin :: request_origin
  aa_issued_at :: string
  aa_expires_at :: string
  aa_signature :: string

definition action_json :: "action_identity \<Rightarrow> json" where
  "action_json i = JObj [(''v'', JStr ''ronor-action/v1''), (''host_id'', JStr (ai_host_id i)),
     (''mandate_id'', JStr (ai_mandate_id i)), (''type'', JStr (ai_type i)), (''args'', JObj (ai_args i)),
     (''resource'', JStr (ai_resource i))]"

definition actionHash :: "'k lib \<Rightarrow> action_identity \<Rightarrow> string + string" where
  "actionHash L i = map_sum id (lib_sha256 L) (canonicalJson 0 (action_json i))"

definition approval_json :: "actuation_approval \<Rightarrow> json" where
  "approval_json a = JObj [(''version'', JStr APPROVAL_VERSION), (''approval_id'', JStr (aa_approval_id a)),
     (''mandate_id'', JStr (aa_mandate_id a)), (''action_hash'', JStr (aa_action_hash a)),
     (''approver_key_id'', JStr (aa_approver_key_id a)), (''channel'', JStr (aa_channel a)),
     (''origin'', JStr (origin_name (aa_origin a))), (''issued_at'', JStr (aa_issued_at a)),
     (''expires_at'', JStr (aa_expires_at a))]"

text \<open>\<open>payload\<close>: canonical, and never an exception (\<open>approval_payload_ok\<close>).\<close>

definition approval_payload :: "actuation_approval \<Rightarrow> string" where
  "approval_payload a = projr (canonicalJson 0 (approval_json a))"

record sign_fields =
  sf_mandateId :: string
  sf_actionHash :: string
  sf_channel :: "string option"
  sf_origin :: "request_origin option"
  sf_ttlMs :: jsnum
  sf_approvalId :: "string option"

definition signActuationApproval ::
  "'k lib \<Rightarrow> string \<Rightarrow> int \<Rightarrow> sign_fields \<Rightarrow> 'k \<Rightarrow> string + actuation_approval" where
  "signActuationApproval L rnd now f key =
     (if \<not> hex_text 64 (sf_actionHash f) then Inl ''approval_action_hash_invalid''
      else if \<not> js_finite (sf_ttlMs f) \<or> js_less (sf_ttlMs f) (js_int 1000)
           \<or> js_less (js_int MAX_APPROVAL_TTL_MS) (sf_ttlMs f) then Inl ''approval_ttl_outside_policy''
      else if \<not> lib_isPrivate L key then Inl ''approval_signing_requires_private_key''
      else
        let unsigned = \<lparr>aa_approval_id = nullish (sf_approvalId f) (''appr_'' @ rnd),
              aa_mandate_id = sf_mandateId f, aa_action_hash = sf_actionHash f,
              aa_approver_key_id = lib_keyId L key, aa_channel = nullish (sf_channel f) ''console'',
              aa_origin = nullish (sf_origin f) OperatorOrigin, aa_issued_at = lib_iso L now,
              aa_expires_at = lib_iso L (now + js_floor (sf_ttlMs f)), aa_signature = ''''\<rparr>
        in map_sum id (\<lambda>s. unsigned\<lparr>aa_signature := s\<rparr>)
             (signDomain L APPROVAL_VERSION (approval_payload unsigned) key))"

definition approval_keys :: "string list" where
  "approval_keys = [''action_hash'', ''approval_id'', ''approver_key_id'', ''channel'', ''expires_at'',
     ''issued_at'', ''mandate_id'', ''origin'', ''signature'', ''version'']"

text \<open>\<open>isApprovalShape\<close>: the typed view of a value that has the shape.\<close>

definition isApprovalShape :: "json \<Rightarrow> actuation_approval option" where
  "isApprovalShape v =
     (case v of
        JObj es \<Rightarrow>
          if sort (map fst es) \<noteq> approval_keys then None
          else (case (str_prop es ''version'', str_prop es ''approval_id'', str_prop es ''mandate_id'',
                      str_prop es ''action_hash'', str_prop es ''approver_key_id'', str_prop es ''channel'',
                      str_prop es ''origin'', str_prop es ''issued_at'', str_prop es ''expires_at'',
                      str_prop es ''signature'') of
             (Some ver, Some ident, Some mid, Some h, Some kid, Some ch, Some orig, Some iss, Some ex, Some sig) \<Rightarrow>
               (case find (\<lambda>x. origin_name x = orig) REQUEST_ORIGINS of
                  None \<Rightarrow> None
                | Some org \<Rightarrow>
                    if ver = APPROVAL_VERSION \<and> tagged_hex ''appr_'' 32 ident \<and> bounded_str 1 120 mid
                       \<and> hex_text 64 h \<and> tagged_hex ''key_'' 12 kid \<and> (ch = ''console'' \<or> ch = ''telegram'')
                    then Some \<lparr>aa_approval_id = ident, aa_mandate_id = mid, aa_action_hash = h,
                           aa_approver_key_id = kid, aa_channel = ch, aa_origin = org, aa_issued_at = iss,
                           aa_expires_at = ex, aa_signature = sig\<rparr>
                    else None)
           | _ \<Rightarrow> None)
      | _ \<Rightarrow> None)"

text \<open>\<open>Inr\<close> is the approval that passed.\<close>

definition verifyActuationApproval ::
  "'k lib \<Rightarrow> json \<Rightarrow> string \<Rightarrow> string \<Rightarrow> int \<Rightarrow> 'k keyring \<Rightarrow> string + actuation_approval" where
  "verifyActuationApproval L approval mandateId hash now keys =
     (case isApprovalShape approval of
        None \<Rightarrow> Inl ''approval_malformed''
      | Some a \<Rightarrow>
     (case map_of keys (aa_approver_key_id a) of
        None \<Rightarrow> Inl ''approval_approver_unknown''
      | Some key \<Rightarrow>
        if \<not> verifyDomain L APPROVAL_VERSION (approval_payload a) (Some (aa_signature a)) key
          then Inl ''approval_signature_invalid''
        else if aa_origin a \<noteq> OperatorOrigin then Inl (''origin_not_authoritative:'' @ origin_name (aa_origin a))
        else if aa_mandate_id a \<noteq> mandateId then Inl ''approval_mandate_mismatch''
        else if aa_action_hash a \<noteq> hash then Inl ''approval_action_mismatch''
        else
          let issued = lib_dateParse L (aa_issued_at a); expires = lib_dateParse L (aa_expires_at a)
          in if \<not> js_finite issued \<or> \<not> js_finite expires \<or> js_le expires issued then Inl ''approval_malformed''
             else if js_less (js_int MAX_APPROVAL_TTL_MS) (js_minus expires issued) then Inl ''approval_ttl_exceeds_policy''
             else if js_less (js_int now) issued then Inl ''approval_not_yet_valid''
             else if js_le expires (js_int now) then Inl ''approval_expired''
             else Inr a))"

end
