(* ===== verification/Leases.thy ===== *)
theory Leases imports Mandate begin

text \<open>
  Leases on a resource.  The interface both implementations promise, and what any client may rely
  on: while a lease lasts nobody else can obtain the resource or give it back.  The first provider
  is the in-memory manager \<open>src/src/runtime/operator/resource-lease.ts\<close>; the second is the
  executor's journal.
\<close>

section \<open>The interface\<close>

datatype ('r, 'o) lease_call = LeaseClaim 'r 'o int int | LeaseRelease 'r 'o

fun call_owner :: "('r, 'o) lease_call \<Rightarrow> 'o" where
  "call_owner (LeaseClaim r w now d) = w"
| "call_owner (LeaseRelease r w) = w"

fun call_by :: "int \<Rightarrow> ('r, 'o) lease_call \<Rightarrow> bool" where
  "call_by t (LeaseClaim r w now d) = (now \<le> t)"
| "call_by t (LeaseRelease r w) = True"

text \<open>A run of calls: which claims were granted, and the state after them.\<close>

fun lease_run ::
  "('r \<Rightarrow> 'o \<Rightarrow> int \<Rightarrow> int \<Rightarrow> 's \<Rightarrow> bool \<times> 's) \<Rightarrow> ('r \<Rightarrow> 'o \<Rightarrow> 's \<Rightarrow> 's)
     \<Rightarrow> ('r, 'o) lease_call list \<Rightarrow> 's \<Rightarrow> ('r \<times> 'o \<times> bool) list \<times> 's" where
  "lease_run claim release [] s = ([], s)"
| "lease_run claim release (LeaseClaim r w now d # cs) s =
     (let (ok, s1) = claim r w now d s; (gs, s2) = lease_run claim release cs s1 in ((r, w, ok) # gs, s2))"
| "lease_run claim release (LeaseRelease r w # cs) s = lease_run claim release cs (release r w s)"

locale exclusive_lease =
  fixes claim :: "'r \<Rightarrow> 'o \<Rightarrow> int \<Rightarrow> int \<Rightarrow> 's \<Rightarrow> bool \<times> 's"
    and release :: "'r \<Rightarrow> 'o \<Rightarrow> 's \<Rightarrow> 's"
    and holder :: "'r \<Rightarrow> int \<Rightarrow> 's \<Rightarrow> 'o option"
  assumes claim_excludes: "holder r now s = Some p \<Longrightarrow> w \<noteq> p \<Longrightarrow> \<not> fst (claim r w now d s)"
    and claim_grants: "fst (claim r w now d s) \<Longrightarrow> now \<le> t \<Longrightarrow> t < now + d \<Longrightarrow> holder r t (snd (claim r w now d s)) = Some w"
    and claim_keeps: "holder r t s = Some p \<Longrightarrow> w \<noteq> p \<Longrightarrow> now \<le> t \<Longrightarrow> holder r t (snd (claim q w now d s)) = Some p"
    and release_keeps: "holder r t s = Some p \<Longrightarrow> w \<noteq> p \<Longrightarrow> holder r t (release q w s) = Some p"
    and holder_before: "holder r t s = Some p \<Longrightarrow> now \<le> t \<Longrightarrow> holder r now s = Some p"
begin

lemma run_keeps:
  assumes "holder r t s = Some p" "\<forall>c\<in>set cs. call_owner c \<noteq> p \<and> call_by t c"
  shows "holder r t (snd (lease_run claim release cs s)) = Some p
    \<and> (\<forall>(q, w, ok)\<in>set (fst (lease_run claim release cs s)). q = r \<longrightarrow> \<not> ok)"
  using assms
proof (induction cs arbitrary: s)
  case (Cons c cs)
  show ?case
  proof (cases c)
    case (LeaseClaim q w now d)
    let ?s = "snd (claim q w now d s)"
    have "holder r t ?s = Some p" using Cons.prems LeaseClaim by (intro claim_keeps) auto
    note ih = Cons.IH[OF this]
    have "q = r \<longrightarrow> \<not> fst (claim q w now d s)"
      using Cons.prems LeaseClaim claim_excludes[OF holder_before[OF Cons.prems(1)]] by auto
    with ih Cons.prems(2) LeaseClaim show ?thesis by (auto simp: Let_def case_prod_unfold)
  next
    case (LeaseRelease q w)
    have "holder r t (release q w s) = Some p" using Cons.prems LeaseRelease by (intro release_keeps) auto
    with Cons.IH[OF this] Cons.prems(2) LeaseRelease show ?thesis by simp
  qed
qed simp

text \<open>A granted lease is exclusive until it ends or its owner acts on it.\<close>

lemma lease_exclusive:
  assumes "fst (claim r p now d s)" "now \<le> t" "t < now + d"
    and "\<forall>c\<in>set cs. call_owner c \<noteq> p \<and> call_by t c"
  shows "holder r t (snd (lease_run claim release cs (snd (claim r p now d s)))) = Some p
    \<and> (\<forall>(q, w, ok)\<in>set (fst (lease_run claim release cs (snd (claim r p now d s)))). q = r \<longrightarrow> \<not> ok)"
  by (rule run_keeps[OF claim_grants[OF assms(1-3)] assms(4)])

end

section \<open>The operator's lease manager\<close>

record resource_lease =
  rl_owner :: string
  rl_expiresAtMs :: int

type_synonym lease_manager = "string \<rightharpoonup> resource_lease"

datatype claim_outcome = Acquired | Busy string

definition canonicalResource :: "string \<Rightarrow> string + string" where
  "canonicalResource resource =
     (let trimmed = js_trim resource
      in if trimmed = '''' then Inl ''operator_resource_invalid''
         else
           let slashed = map (\<lambda>c. if c = CHR 0x5C then CHR ''/'' else c) trimmed;
               stripped = rev (dropWhile (\<lambda>c. c = CHR ''/'') (rev slashed))
           in Inr (if stripped = '''' then ''/'' else stripped))"

definition rlm_claim ::
  "string \<Rightarrow> string \<Rightarrow> jsnum \<Rightarrow> int \<Rightarrow> lease_manager \<Rightarrow> string + claim_outcome \<times> lease_manager" where
  "rlm_claim resource owner leaseMs now held =
     (if owner = '''' \<or> 200 < length owner then Inl ''operator_lease_owner_invalid''
      else if \<not> js_finite leaseMs \<or> js_less leaseMs (js_int 1000) \<or> js_less (js_int (24 * 3600000)) leaseMs
        then Inl ''operator_lease_duration_invalid''
      else case canonicalResource resource of
        Inl e \<Rightarrow> Inl e
      | Inr r \<Rightarrow>
          let fresh = Inr (Acquired, held(r \<mapsto> \<lparr>rl_owner = owner, rl_expiresAtMs = now + js_floor leaseMs\<rparr>))
          in case held r of
               None \<Rightarrow> fresh
             | Some l \<Rightarrow> if now < rl_expiresAtMs l then Inr (Busy (rl_owner l), held) else fresh)"

definition rlm_release :: "string \<Rightarrow> string \<Rightarrow> lease_manager \<Rightarrow> string + bool \<times> lease_manager" where
  "rlm_release resource owner held =
     (case canonicalResource resource of
        Inl e \<Rightarrow> Inl e
      | Inr r \<Rightarrow> (case held r of
            None \<Rightarrow> Inr (False, held)
          | Some l \<Rightarrow> if rl_owner l \<noteq> owner then Inr (False, held) else Inr (True, held(r := None))))"

definition rlm_holder :: "string \<Rightarrow> int \<Rightarrow> lease_manager \<Rightarrow> string + string option" where
  "rlm_holder resource now held =
     (case canonicalResource resource of
        Inl e \<Rightarrow> Inl e
      | Inr r \<Rightarrow> (case held r of
            None \<Rightarrow> Inr None
          | Some l \<Rightarrow> Inr (if rl_expiresAtMs l \<le> now then None else Some (rl_owner l))))"

text \<open>The manager seen through the interface: an exception grants nothing and changes nothing.\<close>

definition rlm_claimed :: "string \<Rightarrow> string \<Rightarrow> int \<Rightarrow> int \<Rightarrow> lease_manager \<Rightarrow> bool \<times> lease_manager" where
  "rlm_claimed r w now d s =
     (case rlm_claim r w (js_int d) now s of Inr (Acquired, s') \<Rightarrow> (True, s') | _ \<Rightarrow> (False, s))"

definition rlm_released :: "string \<Rightarrow> string \<Rightarrow> lease_manager \<Rightarrow> lease_manager" where
  "rlm_released r w s = (case rlm_release r w s of Inr (_, s') \<Rightarrow> s' | Inl _ \<Rightarrow> s)"

definition rlm_held_by :: "string \<Rightarrow> int \<Rightarrow> lease_manager \<Rightarrow> string option" where
  "rlm_held_by r t s = (case rlm_holder r t s of Inr h \<Rightarrow> h | Inl _ \<Rightarrow> None)"

lemma js_floor_int [simp]: "js_floor (js_int d) = d"
  by (simp add: js_int_def)

lemmas rlm_defs = rlm_claimed_def rlm_released_def rlm_held_by_def rlm_claim_def rlm_release_def rlm_holder_def Let_def

interpretation rlm: exclusive_lease rlm_claimed rlm_released rlm_held_by
proof
  show "rlm_held_by r now s = Some p \<Longrightarrow> w \<noteq> p \<Longrightarrow> \<not> fst (rlm_claimed r w now d s)" for r now s p w d
    by (auto simp: rlm_defs split: sum.splits option.splits if_splits)
  show "fst (rlm_claimed r w now d s) \<Longrightarrow> now \<le> t \<Longrightarrow> t < now + d \<Longrightarrow>
      rlm_held_by r t (snd (rlm_claimed r w now d s)) = Some w" for r w now d s t
    by (auto simp: rlm_defs split: sum.splits option.splits if_splits)
  show "rlm_held_by r t s = Some p \<Longrightarrow> w \<noteq> p \<Longrightarrow> now \<le> t \<Longrightarrow>
      rlm_held_by r t (snd (rlm_claimed q w now d s)) = Some p" for r t s p w now q d
    by (auto simp: rlm_defs split: sum.splits option.splits if_splits)
  show "rlm_held_by r t s = Some p \<Longrightarrow> w \<noteq> p \<Longrightarrow> rlm_held_by r t (rlm_released q w s) = Some p" for r t s p w q
    by (auto simp: rlm_defs split: sum.splits option.splits if_splits)
  show "rlm_held_by r t s = Some p \<Longrightarrow> now \<le> t \<Longrightarrow> rlm_held_by r now s = Some p" for r t s p now
    by (auto simp: rlm_defs split: sum.splits option.splits if_splits)
qed

end
