(* ===== verification/ExecJournal.thy ===== *)
theory ExecJournal imports Leases begin

text \<open>
  The executor's journal, \<open>src/src/runtime/executor/journal.ts\<close>: four SQLite tables.  Dates are
  milliseconds (their ISO texts order alike).  A violated constraint or a refused transition is
  \<open>Inl\<close>.  Not modelled: the migration of journals written before \<open>interrupt_unconfirmed\<close> existed.
\<close>

section \<open>State\<close>

datatype execution_state = Admitted | Started | Done | Failed | Interrupted | InterruptUnconfirmed

text \<open>
  Why an execution ended as it did: a fixed text, a unit whose state could not be read, STOP (with the
  operator's reason, or through the stop file), the state of the unit after a stop, or the runner's
  outcome and exit code.
\<close>

datatype run_outcome = Completed | RunAborted | TimedOut | SpawnFailed

datatype unit_error = UnitStateTimeout | UnitStateUnavailable "int option" | UnitStateUnparsable | UnitStateNotRead

datatype exec_reason =
    RText string
  | RUnitUnknown unit_error
  | RStop "string option"
  | RStopFile
  | RUnit exec_reason "string option" "string option"
  | ROutcome run_outcome "int option"

record execution_record =
  ex_execution_id :: string
  ex_idempotency_key :: string
  ex_mandate_id :: string
  ex_action_type :: operator_type
  ex_target :: string
  ex_command :: "string option"
  ex_action_hash :: string
  ex_approval_id :: "string option"
  ex_owner :: string
  ex_pid :: int
  ex_state :: execution_state
  ex_reason :: "exec_reason option"
  ex_created_at :: int
  ex_started_at :: "int option"
  ex_finished_at :: "int option"
  ex_exit_code :: "int option"
  ex_output_sha256 :: "string option"
  ex_receipt :: "string option"

datatype revocation_kind = MandateRevocation | ApprovalRevocation

record lease_row =
  lr_owner :: string
  lr_depth :: int
  lr_expires_at_ms :: int

record journal =
  jl_executions :: "execution_record list"
  jl_stop :: "(bool \<times> string option) option"
  jl_revocations :: "(revocation_kind \<times> string) list"
  jl_leases :: "string \<rightharpoonup> lease_row"

definition is_final :: "execution_state \<Rightarrow> bool" where
  "is_final st \<longleftrightarrow> st \<in> {Done, Failed, Interrupted, InterruptUnconfirmed}"

lemma is_final_iff: "is_final st \<longleftrightarrow> st \<noteq> Admitted \<and> st \<noteq> Started"
  by (cases st) (auto simp: is_final_def)

fun state_name :: "execution_state \<Rightarrow> string" where
  "state_name Admitted = ''admitted''" | "state_name Started = ''started''" | "state_name Done = ''done''"
| "state_name Failed = ''failed''" | "state_name Interrupted = ''interrupted''"
| "state_name InterruptUnconfirmed = ''interrupt_unconfirmed''"

definition journal_empty :: journal where
  "journal_empty = \<lparr>jl_executions = [], jl_stop = None, jl_revocations = [], jl_leases = Map.empty\<rparr>"

section \<open>Opening: executions of dead processes are closed\<close>

definition close_orphan :: "int \<Rightarrow> execution_record \<Rightarrow> execution_record" where
  "close_orphan now r =
     r\<lparr>ex_state := (if ex_action_type r = OpsActuate then InterruptUnconfirmed else Interrupted),
       ex_reason := Some (RText ''process_restart_outcome_unknown''), ex_finished_at := Some now\<rparr>"

text \<open>\<open>processAlive\<close>: the signal 0 is delivered, or refused for want of permission.\<close>

datatype kill_result = KillSent | KillRefused string

definition processAlive :: "(int \<Rightarrow> kill_result) \<Rightarrow> int \<Rightarrow> bool" where
  "processAlive kill pid =
     (if pid \<le> 0 then False else case kill pid of KillSent \<Rightarrow> True | KillRefused code \<Rightarrow> code = ''EPERM'')"

definition journal_open :: "(int \<Rightarrow> bool) \<Rightarrow> int \<Rightarrow> journal \<Rightarrow> journal" where
  "journal_open alive now j =
     j\<lparr>jl_executions := row_update (\<lambda>r. \<not> is_final (ex_state r) \<and> \<not> alive (ex_pid r)) (close_orphan now) (jl_executions j)\<rparr>"

section \<open>STOP and revocations\<close>

definition setStop :: "bool \<Rightarrow> string option \<Rightarrow> journal \<Rightarrow> journal" where
  "setStop active reason j = j\<lparr>jl_stop := Some (active, reason)\<rparr>"

definition stopState :: "journal \<Rightarrow> bool \<times> string option" where
  "stopState j = (case jl_stop j of None \<Rightarrow> (False, None) | Some x \<Rightarrow> x)"

definition journal_revoke :: "revocation_kind \<Rightarrow> string \<Rightarrow> journal \<Rightarrow> journal" where
  "journal_revoke k v j =
     (if (k, v) \<in> set (jl_revocations j) then j else j\<lparr>jl_revocations := jl_revocations j @ [(k, v)]\<rparr>)"

definition isRevoked :: "revocation_kind \<Rightarrow> string option \<Rightarrow> journal \<Rightarrow> bool" where
  "isRevoked k v j \<longleftrightarrow> truthy_str v \<and> (k, the v) \<in> set (jl_revocations j)"

section \<open>Executions\<close>

definition findByIdempotencyKey :: "string \<Rightarrow> journal \<Rightarrow> execution_record option" where
  "findByIdempotencyKey key j = row_find ex_idempotency_key key (jl_executions j)"

definition findByApproval :: "string \<Rightarrow> journal \<Rightarrow> execution_record option" where
  "findByApproval a j = row_find ex_approval_id (Some a) (jl_executions j)"

definition journal_get :: "string \<Rightarrow> journal \<Rightarrow> execution_record option" where
  "journal_get i j = row_find ex_execution_id i (jl_executions j)"

text \<open>\<open>admit\<close>: the row is inserted in state \<open>admitted\<close> with this process's id.\<close>

definition admit :: "int \<Rightarrow> execution_record \<Rightarrow> journal \<Rightarrow> string + journal" where
  "admit pid r j =
     (if ex_execution_id r \<in> ex_execution_id ` set (jl_executions j)
        then Inl ''UNIQUE constraint failed: executions.execution_id''
      else if ex_idempotency_key r \<in> ex_idempotency_key ` set (jl_executions j)
        then Inl ''UNIQUE constraint failed: executions.idempotency_key''
      else if ex_approval_id r \<noteq> None \<and> ex_approval_id r \<in> ex_approval_id ` set (jl_executions j)
        then Inl ''UNIQUE constraint failed: executions.approval_id''
      else Inr (j\<lparr>jl_executions := jl_executions j @
             [r\<lparr>ex_pid := pid, ex_state := Admitted, ex_reason := None, ex_started_at := None,
                ex_finished_at := None, ex_exit_code := None, ex_output_sha256 := None, ex_receipt := None\<rparr>]\<rparr>))"

definition markStarted :: "string \<Rightarrow> int \<Rightarrow> journal \<Rightarrow> string + journal" where
  "markStarted i now j =
     (let p = (\<lambda>r. ex_execution_id r = i \<and> ex_state r = Admitted)
      in if row_changes p (jl_executions j) \<noteq> 1 then Inl ''executor_journal_transition_refused:started''
         else Inr (j\<lparr>jl_executions :=
                row_update p (\<lambda>r. r\<lparr>ex_state := Started, ex_started_at := Some now\<rparr>) (jl_executions j)\<rparr>))"

record finish_fields =
  ff_state :: execution_state
  ff_reason :: "exec_reason option"
  ff_exitCode :: "int option"
  ff_outputSha256 :: "string option"
  ff_receipt :: "string option"
  ff_at :: int

definition close_row :: "finish_fields \<Rightarrow> execution_record \<Rightarrow> execution_record" where
  "close_row f r =
     r\<lparr>ex_state := ff_state f, ex_reason := ff_reason f, ex_exit_code := ff_exitCode f,
       ex_output_sha256 := ff_outputSha256 f, ex_receipt := ff_receipt f, ex_finished_at := Some (ff_at f)\<rparr>"

definition journal_finish :: "string \<Rightarrow> finish_fields \<Rightarrow> journal \<Rightarrow> string + journal" where
  "journal_finish i f j =
     (let p = (\<lambda>r. ex_execution_id r = i \<and> \<not> is_final (ex_state r))
      in if row_changes p (jl_executions j) \<noteq> 1
         then Inl (''executor_journal_transition_refused:'' @ state_name (ff_state f))
         else Inr (j\<lparr>jl_executions := row_update p (close_row f) (jl_executions j)\<rparr>))"

definition inFlightOn :: "string \<Rightarrow> journal \<Rightarrow> execution_record option" where
  "inFlightOn target j =
     find (\<lambda>r. ex_target r = target \<and> ex_action_type r = OpsActuate \<and> \<not> is_final (ex_state r)) (jl_executions j)"

definition lastOf :: "operator_type \<Rightarrow> journal \<Rightarrow> execution_record option" where
  "lastOf t j =
     (case rev (sort_key ex_created_at (filter (\<lambda>r. ex_action_type r = t) (jl_executions j))) of
        [] \<Rightarrow> None | r # _ \<Rightarrow> Some r)"

section \<open>Leases\<close>

text \<open>\<open>claimLease\<close>: the depth when acquired, the holder when busy.\<close>

definition claimLease :: "string \<Rightarrow> string \<Rightarrow> int \<Rightarrow> int \<Rightarrow> journal \<Rightarrow> (string + int) \<times> journal" where
  "claimLease resource owner leaseMs now j =
     (let upsert = (\<lambda>depth old. j\<lparr>jl_leases := (jl_leases j)(resource \<mapsto>
                \<lparr>lr_owner = owner, lr_depth = depth, lr_expires_at_ms = max (now + leaseMs) old\<rparr>)\<rparr>)
      in case jl_leases j resource of
           None \<Rightarrow> (Inr 1, upsert 1 (now + leaseMs))
         | Some l \<Rightarrow>
             if now < lr_expires_at_ms l \<and> lr_owner l \<noteq> owner then (Inl (lr_owner l), j)
             else let depth = (if now < lr_expires_at_ms l then lr_depth l + 1 else 1)
                  in (Inr depth, upsert depth (lr_expires_at_ms l)))"

definition releaseLease :: "string \<Rightarrow> string \<Rightarrow> journal \<Rightarrow> bool \<times> journal" where
  "releaseLease resource owner j =
     (case jl_leases j resource of
        None \<Rightarrow> (False, j)
      | Some l \<Rightarrow>
          if lr_owner l \<noteq> owner then (False, j)
          else if 1 < lr_depth l
            then (True, j\<lparr>jl_leases := (jl_leases j)(resource \<mapsto> l\<lparr>lr_depth := lr_depth l - 1\<rparr>)\<rparr>)
          else (True, j\<lparr>jl_leases := (jl_leases j)(resource := None)\<rparr>))"

definition leaseHolder :: "string \<Rightarrow> int \<Rightarrow> journal \<Rightarrow> (string \<times> int) option" where
  "leaseHolder resource now j =
     (case jl_leases j resource of
        None \<Rightarrow> None
      | Some l \<Rightarrow> if lr_expires_at_ms l \<le> now then None else Some (lr_owner l, lr_depth l))"

definition jl_claimed :: "string \<Rightarrow> string \<Rightarrow> int \<Rightarrow> int \<Rightarrow> journal \<Rightarrow> bool \<times> journal" where
  "jl_claimed r w now d j = (case claimLease r w d now j of (Inr _, j') \<Rightarrow> (True, j') | (Inl _, j') \<Rightarrow> (False, j'))"

definition jl_held_by :: "string \<Rightarrow> int \<Rightarrow> journal \<Rightarrow> string option" where
  "jl_held_by r t j = map_option fst (leaseHolder r t j)"

lemmas journal_lease_defs = jl_claimed_def jl_held_by_def claimLease_def releaseLease_def leaseHolder_def Let_def

interpretation jlease: exclusive_lease jl_claimed "\<lambda>r w j. snd (releaseLease r w j)" jl_held_by
proof
  show "jl_held_by r now s = Some p \<Longrightarrow> w \<noteq> p \<Longrightarrow> \<not> fst (jl_claimed r w now d s)" for r now s p w d
    by (auto simp: journal_lease_defs split: option.splits if_splits)
  show "fst (jl_claimed r w now d s) \<Longrightarrow> now \<le> t \<Longrightarrow> t < now + d \<Longrightarrow>
      jl_held_by r t (snd (jl_claimed r w now d s)) = Some w" for r w now d s t
    by (auto simp: journal_lease_defs split: option.splits if_splits)
  show "jl_held_by r t s = Some p \<Longrightarrow> w \<noteq> p \<Longrightarrow> now \<le> t \<Longrightarrow>
      jl_held_by r t (snd (jl_claimed q w now d s)) = Some p" for r t s p w now q d
    by (auto simp: journal_lease_defs split: option.splits if_splits)
  show "jl_held_by r t s = Some p \<Longrightarrow> w \<noteq> p \<Longrightarrow> jl_held_by r t (snd (releaseLease q w s)) = Some p" for r t s p w q
    by (auto simp: journal_lease_defs split: option.splits if_splits)
  show "jl_held_by r t s = Some p \<Longrightarrow> now \<le> t \<Longrightarrow> jl_held_by r now s = Some p" for r t s p now
    by (auto simp: journal_lease_defs split: option.splits if_splits)
qed

text \<open>A granted lease of the journal is exclusive: until its deadline no sequence of claims and releases
  by other owners, on any resources, takes it away or grants the resource to another owner.\<close>

theorem journal_lease_exclusive:
  assumes "fst (jl_claimed r p now d j)" "now \<le> t" "t < now + d"
    and "\<forall>c\<in>set cs. call_owner c \<noteq> p \<and> call_by t c"
  shows "jl_held_by r t (snd (lease_run jl_claimed (\<lambda>r w j. snd (releaseLease r w j)) cs (snd (jl_claimed r p now d j)))) = Some p
    \<and> (\<forall>(q, w, ok)\<in>set (fst (lease_run jl_claimed (\<lambda>r w j. snd (releaseLease r w j)) cs (snd (jl_claimed r p now d j)))).
         q = r \<longrightarrow> \<not> ok)"
  by (rule jlease.lease_exclusive[OF assms])

theorem journal_lease_exclusive_witness:
  "jl_held_by ''unit:a'' 50 (snd (lease_run jl_claimed (\<lambda>r w j. snd (releaseLease r w j))
      [LeaseRelease ''unit:a'' ''bob'', LeaseClaim ''unit:a'' ''bob'' 20 1000]
      (snd (jl_claimed ''unit:a'' ''ana'' 0 100 journal_empty)))) = Some ''ana''"
proof -
  have ok: "fst (jl_claimed ''unit:a'' ''ana'' 0 100 journal_empty)"
    by (simp add: journal_lease_defs journal_empty_def)
  show ?thesis
    by (rule conjunct1[OF journal_lease_exclusive[OF ok]]) simp_all
qed

end
