(* ===== verification/ExecCatalog.thy ===== *)
theory ExecCatalog imports Mandate begin

text \<open>
  The executor's allowlist, \<open>src/src/runtime/executor/catalog.ts\<close>: validation of the host's
  configuration and the plan of a typed action.  The configuration is untyped JSON; the URL parser of
  the platform and the value of a JSON number are the record \<open>parse_env\<close>.  An error is the index of
  the entry it is about and the text after it.  A field of the wrong type is an error here as in the
  code, whose message then shows the field's \<open>String\<close> conversion.
\<close>

section \<open>Types\<close>

record parsed_url =
  pu_protocol :: string
  pu_hostname :: string
  pu_username :: string
  pu_password :: string
  pu_href :: string

record parse_env =
  pv_url :: "string \<Rightarrow> parsed_url option"
  pv_number :: "string \<Rightarrow> jsnum"

datatype catalog_entry =
    HttpObserve (ce_id: string) string int
  | SystemdObserve (ce_id: string) string int
  | SystemdActuate (ce_id: string) string "string list" int

fun ce_type :: "catalog_entry \<Rightarrow> operator_type" where
  "ce_type (HttpObserve _ _ _) = OpsObserve"
| "ce_type (SystemdObserve _ _ _) = OpsObserve"
| "ce_type (SystemdActuate _ _ _ _) = OpsActuate"

record executor_catalog =
  ec_host_id :: string
  ec_systemctl :: "string list"
  ec_entries :: "catalog_entry list"

record systemd_control =
  sc_unit :: string
  sc_stateArgv :: "string list"
  sc_haltArgv :: "string list list"

datatype execution_plan =
    SpawnPlan (sp_argv: "string list") (plan_timeout: int) (plan_resource: string) (sp_systemd: "systemd_control option")
  | HttpPlan (hp_url: string) (plan_timeout: int) (plan_resource: string)

datatype catalog_error = CatalogError "nat option" string

type_synonym 'a checked = "catalog_error + 'a"

definition bind_sum :: "'e + 'a \<Rightarrow> ('a \<Rightarrow> 'e + 'b) \<Rightarrow> 'e + 'b" where
  "bind_sum r k = (case r of Inl e \<Rightarrow> Inl e | Inr x \<Rightarrow> k x)"

lemma bind_sum_simps [simp]: "bind_sum (Inl e) k = Inl e" "bind_sum (Inr x) k = k x"
  by (simp_all add: bind_sum_def)

lemma bind_sum_Inr_iff: "bind_sum r k = Inr y \<longleftrightarrow> (\<exists>x. r = Inr x \<and> k x = Inr y)"
  by (simp add: bind_sum_def split: sum.split)

section \<open>Fields\<close>

definition ACTUATE_COMMANDS :: "string list" where
  "ACTUATE_COMMANDS = [''restart'', ''start'', ''stop'']"

definition safe_id :: "string \<Rightarrow> bool" where
  "safe_id = id_text (\<lambda>c. is_lower c \<or> is_digit c) (\<lambda>c. is_lower c \<or> is_digit c \<or> c \<in> set ''._-'') 63"

text \<open>The expression \<open>UNIT\<close>: an identifier that may contain \<open>@\<close>, then \<open>.service\<close>.\<close>

definition unit_name :: "string \<Rightarrow> bool" where
  "unit_name s \<longleftrightarrow> suffix ''.service'' s
     \<and> id_text (\<lambda>c. is_lower c \<or> is_digit c) (\<lambda>c. is_lower c \<or> is_digit c \<or> c \<in> set ''@._-'') 80
         (take (length s - 8) s)"

definition FORBIDDEN_UNIT :: "string list" where
  "FORBIDDEN_UNIT = [''docker'', ''containerd'', ''podman'', ''ssh'', ''sshd'', ''tailscaled'', ''ufw'', ''nftables'',
     ''iptables'', ''firewalld'', ''systemd-'', ''dbus'', ''polkit'', ''sudo'', ''cron'', ''getty'', ''user@'']"

definition forbidden_unit :: "string \<Rightarrow> bool" where
  "forbidden_unit s \<longleftrightarrow> list_ex (\<lambda>p. prefix p s) FORBIDDEN_UNIT"

definition timeout_field :: "parse_env \<Rightarrow> nat \<Rightarrow> json \<Rightarrow> int checked" where
  "timeout_field E i v =
     (case v of
        JNum t \<Rightarrow>
          (let x = pv_number E t
           in if \<not> js_integer x \<or> js_less x (js_int 100) \<or> js_less (js_int 600000) x
                then Inl (CatalogError (Some i) ''.timeout_ms'') else Inr (js_floor x))
      | _ \<Rightarrow> Inl (CatalogError (Some i) ''.timeout_ms''))"

definition unit_field :: "nat \<Rightarrow> json \<Rightarrow> string checked" where
  "unit_field i v =
     (case v of
        JStr s \<Rightarrow>
          if \<not> unit_name s then Inl (CatalogError (Some i) ''.unit'')
          else if forbidden_unit s then Inl (CatalogError (Some i) (''.unit_forbidden:'' @ s))
          else Inr s
      | _ \<Rightarrow> Inl (CatalogError (Some i) ''.unit''))"

definition loopbackUrl :: "parse_env \<Rightarrow> nat \<Rightarrow> json \<Rightarrow> string checked" where
  "loopbackUrl E i v =
     (case v of
        JStr s \<Rightarrow>
          (case pv_url E s of
             None \<Rightarrow> Inl (CatalogError (Some i) ''.url'')
           | Some u \<Rightarrow>
               if pu_protocol u \<noteq> ''http:'' \<and> pu_protocol u \<noteq> ''https:''
                 then Inl (CatalogError (Some i) ''.url_protocol'')
               else if pu_hostname u \<noteq> ''127.0.0.1'' \<and> pu_hostname u \<noteq> ''[::1]'' \<and> pu_hostname u \<noteq> ''localhost''
                 then Inl (CatalogError (Some i) ''.url_not_loopback'')
               else if pu_username u \<noteq> '''' \<or> pu_password u \<noteq> ''''
                 then Inl (CatalogError (Some i) ''.url_credentials'')
               else Inr (pu_href u))
      | _ \<Rightarrow> Inl (CatalogError (Some i) ''.url''))"

definition is_absolute :: "string \<Rightarrow> bool" where
  "is_absolute p \<longleftrightarrow> prefix ''/'' p"

definition basename :: "string \<Rightarrow> string" where
  "basename p = rev (takeWhile (\<lambda>c. c \<noteq> CHR ''/'') (dropWhile (\<lambda>c. c = CHR ''/'') (rev p)))"

fun argv_items :: "json list \<Rightarrow> string list checked" where
  "argv_items [] = Inr []"
| "argv_items (JStr s # vs) =
     (if s = '''' \<or> 200 < length s then Inl (CatalogError None ''systemctl'')
      else bind_sum (argv_items vs) (\<lambda>ss. Inr (s # ss)))"
| "argv_items (v # vs) = Inl (CatalogError None ''systemctl'')"

definition systemctlPrefix :: "json \<Rightarrow> string list checked" where
  "systemctlPrefix v =
     (case v of
        JArr vs \<Rightarrow>
          if length vs < 1 \<or> 3 < length vs then Inl (CatalogError None ''systemctl'')
          else bind_sum (argv_items vs) (\<lambda>argv.
            if \<not> is_absolute (hd argv) then Inl (CatalogError None ''systemctl.not_absolute'')
            else if \<not> is_absolute (last argv) \<or> basename (last argv) \<noteq> ''systemctl''
              then Inl (CatalogError None ''systemctl.not_systemctl'')
            else if 1 < length argv then
              (if basename (hd argv) \<noteq> ''sudo'' then Inl (CatalogError None ''systemctl.wrapper_not_sudo'')
               else if length argv \<noteq> 3 \<or> argv ! 1 \<noteq> ''-n''
                 then Inl (CatalogError None ''systemctl.sudo_must_be_non_interactive'')
               else Inr argv)
            else Inr argv)
      | _ \<Rightarrow> Inl (CatalogError None ''systemctl''))"

section \<open>The configuration\<close>

definition unknown_key :: "string list \<Rightarrow> (string \<times> json) list \<Rightarrow> string option" where
  "unknown_key allowed es = map_option fst (find (\<lambda>(k, _). k \<notin> set allowed) es)"

fun command_items :: "nat \<Rightarrow> json list \<Rightarrow> string list checked" where
  "command_items i [] = Inr []"
| "command_items i (v # vs) =
     (case v of
        JStr c \<Rightarrow> if c \<in> set ACTUATE_COMMANDS then bind_sum (command_items i vs) (\<lambda>cs. Inr (c # cs))
                  else Inl (CatalogError (Some i) (''.command:'' @ c))
      | _ \<Rightarrow> Inl (CatalogError (Some i) ''.command:''))"

definition uniq :: "'a list \<Rightarrow> 'a list" where
  "uniq xs = rev (remdups (rev xs))"

text \<open>One entry after its identity has been checked.\<close>

definition parse_entry :: "parse_env \<Rightarrow> nat \<Rightarrow> string \<Rightarrow> (string \<times> json) list \<Rightarrow> catalog_entry checked" where
  "parse_entry E i ident e =
     (case prop_of e ''kind'' of
        JStr kind \<Rightarrow>
          (let keys = (if kind = ''http_get'' then Some [''id'', ''type'', ''kind'', ''url'', ''timeout_ms'']
                       else if kind = ''systemd_status'' then Some [''id'', ''type'', ''kind'', ''unit'', ''timeout_ms'']
                       else if kind = ''systemd'' then Some [''id'', ''type'', ''kind'', ''unit'', ''commands'', ''timeout_ms'']
                       else None)
           in case keys of
             None \<Rightarrow> Inl (CatalogError (Some i) ''.kind'')
           | Some ks \<Rightarrow>
          (case unknown_key ks e of
             Some k \<Rightarrow> Inl (CatalogError (Some i) (''.unknown_key:'' @ k))
           | None \<Rightarrow>
             if kind = ''http_get'' then
               (if prop_of e ''type'' \<noteq> JStr ''ops.observe'' then Inl (CatalogError (Some i) ''.type'')
                else bind_sum (loopbackUrl E i (prop_of e ''url'')) (\<lambda>u.
                     bind_sum (timeout_field E i (prop_of e ''timeout_ms'')) (\<lambda>t. Inr (HttpObserve ident u t))))
             else if kind = ''systemd_status'' then
               (if prop_of e ''type'' \<noteq> JStr ''ops.observe'' then Inl (CatalogError (Some i) ''.type'')
                else bind_sum (unit_field i (prop_of e ''unit'')) (\<lambda>u.
                     bind_sum (timeout_field E i (prop_of e ''timeout_ms'')) (\<lambda>t. Inr (SystemdObserve ident u t))))
             else if prop_of e ''type'' \<noteq> JStr ''ops.actuate'' then Inl (CatalogError (Some i) ''.type'')
             else (case prop_of e ''commands'' of
                JArr cs \<Rightarrow>
                  if cs = [] then Inl (CatalogError (Some i) ''.commands'')
                  else bind_sum (command_items i cs) (\<lambda>commands.
                       bind_sum (unit_field i (prop_of e ''unit'')) (\<lambda>u.
                       bind_sum (timeout_field E i (prop_of e ''timeout_ms'')) (\<lambda>t.
                         Inr (SystemdActuate ident u (uniq commands) t))))
              | _ \<Rightarrow> Inl (CatalogError (Some i) ''.commands''))))
      | _ \<Rightarrow> Inl (CatalogError (Some i) ''.kind''))"

fun parse_entries ::
  "parse_env \<Rightarrow> nat \<Rightarrow> (json \<times> string) list \<Rightarrow> json list \<Rightarrow> catalog_entry list checked" where
  "parse_entries E i seen [] = Inr []"
| "parse_entries E i seen (JObj e # items) =
     (case prop_of e ''id'' of
        JStr ident \<Rightarrow>
          if \<not> safe_id ident then Inl (CatalogError (Some i) ''.id'')
          else
            let identity = (prop_of e ''type'', ident)
            in if identity \<in> set seen then Inl (CatalogError (Some i) ''.id_duplicate'')
               else bind_sum (parse_entry E i ident e) (\<lambda>entry.
                    bind_sum (parse_entries E (Suc i) (identity # seen) items) (\<lambda>es. Inr (entry # es)))
      | _ \<Rightarrow> Inl (CatalogError (Some i) ''.id''))"
| "parse_entries E i seen (_ # items) = Inl (CatalogError (Some i) '''')"

definition parseExecutorCatalog :: "parse_env \<Rightarrow> json \<Rightarrow> executor_catalog checked" where
  "parseExecutorCatalog E raw =
     (case raw of
        JObj cfg \<Rightarrow>
          (case unknown_key [''host_id'', ''systemctl'', ''entries''] cfg of
             Some k \<Rightarrow> Inl (CatalogError None (''unknown_key:'' @ k))
           | None \<Rightarrow>
          (case prop_of cfg ''host_id'' of
             JStr host \<Rightarrow>
               if \<not> safe_id host then Inl (CatalogError None ''host_id'')
               else bind_sum (systemctlPrefix (prop_of cfg ''systemctl'')) (\<lambda>argv.
                 case prop_of cfg ''entries'' of
                   JArr items \<Rightarrow>
                     if 64 < length items then Inl (CatalogError None ''entries'')
                     else bind_sum (parse_entries E 0 [] items) (\<lambda>es.
                       Inr \<lparr>ec_host_id = host, ec_systemctl = argv, ec_entries = es\<rparr>)
                 | _ \<Rightarrow> Inl (CatalogError None ''entries''))
           | _ \<Rightarrow> Inl (CatalogError None ''host_id'')))
      | _ \<Rightarrow> Inl (CatalogError None ''root''))"

section \<open>Plans\<close>

definition systemdControl :: "executor_catalog \<Rightarrow> string \<Rightarrow> systemd_control" where
  "systemdControl c u =
     \<lparr>sc_unit = u,
      sc_stateArgv = ec_systemctl c @ [''show'', ''--property=ActiveState,SubState'', ''--'', u],
      sc_haltArgv = [ec_systemctl c @ [''stop'', ''--'', u],
                     ec_systemctl c @ [''kill'', ''--signal=SIGKILL'', ''--'', u]]\<rparr>"

definition planAction ::
  "executor_catalog \<Rightarrow> operator_type \<Rightarrow> (string \<times> json) list \<Rightarrow> string + execution_plan" where
  "planAction c t args =
     (if t = OpsObserve then
        (case find (\<lambda>e. ce_type e = OpsObserve \<and> JStr (ce_id e) = prop_of args ''target'') (ec_entries c) of
           None \<Rightarrow> Inl ''target_not_in_allowlist''
         | Some e \<Rightarrow>
             if length args \<noteq> 1 then Inl ''unexpected_args''
             else (case e of
                 HttpObserve ident url tmo \<Rightarrow> Inr (HttpPlan url tmo (''observe:'' @ ident))
               | SystemdObserve ident u tmo \<Rightarrow>
                   Inr (SpawnPlan (ec_systemctl c @ [''show'', ''--property=ActiveState,SubState,MainPID,NRestarts'', ''--'', u])
                          tmo (''unit:'' @ u) None)
               | _ \<Rightarrow> Inl ''target_not_in_allowlist''))
      else if t = OpsActuate then
        (case find (\<lambda>e. ce_type e = OpsActuate \<and> JStr (ce_id e) = prop_of args ''device'') (ec_entries c) of
           Some (SystemdActuate ident u commands tmo) \<Rightarrow>
             if length args \<noteq> 2 then Inl ''unexpected_args''
             else (case prop_of args ''command'' of
                 JStr cmd \<Rightarrow>
                   if cmd \<notin> set commands then Inl ''command_not_in_allowlist''
                   else Inr (SpawnPlan (ec_systemctl c @ [cmd, ''--'', u]) tmo (''unit:'' @ u) (Some (systemdControl c u)))
               | _ \<Rightarrow> Inl ''command_not_in_allowlist'')
         | _ \<Rightarrow> Inl ''device_not_in_allowlist'')
      else Inl ''type_not_executable'')"

section \<open>What a validated catalog holds\<close>

definition loopback_text :: "parse_env \<Rightarrow> string \<Rightarrow> bool" where
  "loopback_text E url \<longleftrightarrow>
     (\<exists>s u. pv_url E s = Some u \<and> pu_href u = url \<and> pu_hostname u \<in> {''127.0.0.1'', ''[::1]'', ''localhost''}
        \<and> pu_protocol u \<in> {''http:'', ''https:''} \<and> pu_username u = '''' \<and> pu_password u = '''')"

fun entry_ok :: "parse_env \<Rightarrow> catalog_entry \<Rightarrow> bool" where
  "entry_ok E (HttpObserve ident url t) =
     (safe_id ident \<and> 100 \<le> t \<and> t \<le> 600000 \<and> loopback_text E url)"
| "entry_ok E (SystemdObserve ident u t) =
     (safe_id ident \<and> 100 \<le> t \<and> t \<le> 600000 \<and> unit_name u \<and> \<not> forbidden_unit u)"
| "entry_ok E (SystemdActuate ident u cs t) =
     (safe_id ident \<and> 100 \<le> t \<and> t \<le> 600000 \<and> unit_name u \<and> \<not> forbidden_unit u
      \<and> cs \<noteq> [] \<and> set cs \<subseteq> set ACTUATE_COMMANDS)"

lemma js_integer_int: "js_integer x \<Longrightarrow> js_int (js_floor x) = x"
  by (cases x) (auto simp: js_int_def)

lemma timeout_field_InrD: "timeout_field E i v = Inr t \<Longrightarrow> 100 \<le> t \<and> t \<le> 600000"
proof -
  assume "timeout_field E i v = Inr t"
  then obtain x where x: "js_integer x" "\<not> js_less x (js_int 100)" "\<not> js_less (js_int 600000) x" "t = js_floor x"
    by (auto simp: timeout_field_def Let_def split: json.splits if_splits)
  then show ?thesis using js_integer_int[OF x(1)] by (metis js_int_less linorder_not_less)
qed

lemma unit_field_InrD: "unit_field i v = Inr u \<Longrightarrow> unit_name u \<and> \<not> forbidden_unit u"
  by (auto simp: unit_field_def split: json.splits if_splits)

lemma command_items_InrD: "command_items i vs = Inr cs \<Longrightarrow> set cs \<subseteq> set ACTUATE_COMMANDS \<and> length cs = length vs"
  by (induction vs arbitrary: cs) (auto simp: bind_sum_Inr_iff split: json.splits if_splits)

lemma set_uniq [simp]: "set (uniq xs) = set xs"
  by (simp add: uniq_def)

lemma uniq_Nil_iff [simp]: "uniq xs = [] \<longleftrightarrow> xs = []"
  by (simp add: uniq_def)

lemma loopbackUrl_InrD:
  "loopbackUrl E i v = Inr url \<Longrightarrow> loopback_text E url"
  unfolding loopback_text_def by (auto simp: loopbackUrl_def split: json.splits if_splits option.splits)

lemma parse_entry_ok: "parse_entry E i ident e = Inr entry \<Longrightarrow> safe_id ident \<Longrightarrow> entry_ok E entry"
  by (auto simp: parse_entry_def Let_def bind_sum_Inr_iff simp del: not_None_eq
      split: json.splits if_splits option.splits dest!: timeout_field_InrD unit_field_InrD command_items_InrD loopbackUrl_InrD)

lemma parse_entries_ok: "parse_entries E i seen items = Inr es \<Longrightarrow> e \<in> set es \<Longrightarrow> entry_ok E e"
proof (induction E i seen items arbitrary: es rule: parse_entries.induct)
  case (2 E i seen o items)
  then show ?case
    by (auto simp: bind_sum_Inr_iff Let_def split: json.splits if_splits dest: parse_entry_ok)
qed auto

lemma systemctlPrefix_InrD:
  "systemctlPrefix v = Inr argv \<Longrightarrow>
     argv \<noteq> [] \<and> is_absolute (hd argv) \<and> is_absolute (last argv) \<and> basename (last argv) = ''systemctl''
     \<and> (length argv = 1 \<or> length argv = 3 \<and> basename (hd argv) = ''sudo'' \<and> argv ! 1 = ''-n'')"
proof -
  have len: "argv_items vs = Inr ss \<Longrightarrow> length ss = length vs" for vs ss
    by (induction vs arbitrary: ss rule: argv_items.induct) (auto simp: bind_sum_Inr_iff split: if_splits)
  show "systemctlPrefix v = Inr argv \<Longrightarrow> ?thesis"
    by (auto simp: systemctlPrefix_def bind_sum_Inr_iff split: json.splits if_splits dest!: len)
      (metis Suc_lessI length_greater_0_conv)
qed

text \<open>Only the vocabulary of systemctl that the host's configuration allows.\<close>

definition spawn_confined :: "executor_catalog \<Rightarrow> operator_type \<Rightarrow> string list \<Rightarrow> string \<Rightarrow> bool" where
  "spawn_confined c t argv u \<longleftrightarrow>
     unit_name u \<and> \<not> forbidden_unit u \<and> ec_systemctl c \<noteq> [] \<and> is_absolute (hd (ec_systemctl c))
     \<and> basename (last (ec_systemctl c)) = ''systemctl''
     \<and> (if t = OpsActuate
        then \<exists>cmd\<in>set ACTUATE_COMMANDS. argv = ec_systemctl c @ [cmd, ''--'', u]
        else argv = ec_systemctl c @ [''show'', ''--property=ActiveState,SubState,MainPID,NRestarts'', ''--'', u])"

lemma parse_catalog_InrD:
  assumes "parseExecutorCatalog E raw = Inr c"
  shows "\<exists>v. systemctlPrefix v = Inr (ec_systemctl c)" "\<forall>e\<in>set (ec_entries c). entry_ok E e"
proof -
  obtain cfg host argv where cfg: "systemctlPrefix (prop_of cfg ''systemctl'') = Inr argv"
    "(case prop_of cfg ''entries'' of
        JArr items \<Rightarrow>
          if 64 < length items then Inl (CatalogError None ''entries'')
          else bind_sum (parse_entries E 0 [] items) (\<lambda>es.
            Inr \<lparr>ec_host_id = host, ec_systemctl = argv, ec_entries = es\<rparr>)
      | _ \<Rightarrow> Inl (CatalogError None ''entries'')) = Inr c"
  proof (cases raw)
    case (JObj cfg)
    with assms show ?thesis
      by (cases "prop_of cfg ''host_id''")
        (auto simp: parseExecutorCatalog_def bind_sum_Inr_iff intro: that split: option.splits if_splits)
  qed (use assms in \<open>auto simp: parseExecutorCatalog_def\<close>)
  obtain items where "parse_entries E 0 [] items = Inr (ec_entries c)" "ec_systemctl c = argv"
    using cfg(2) by (cases "prop_of cfg ''entries''") (auto simp: bind_sum_Inr_iff split: if_splits)
  with cfg(1) show "\<exists>v. systemctlPrefix v = Inr (ec_systemctl c)" "\<forall>e\<in>set (ec_entries c). entry_ok E e"
    by (auto dest: parse_entries_ok)
qed

lemma plan_confined:
  assumes "parseExecutorCatalog E raw = Inr c" "planAction c t args = Inr plan"
  shows "(t = OpsObserve \<or> t = OpsActuate) \<and> 100 \<le> plan_timeout plan \<and> plan_timeout plan \<le> 600000
    \<and> (case plan of
         HttpPlan url _ _ \<Rightarrow> t = OpsObserve \<and> loopback_text E url
       | SpawnPlan argv _ res ctl \<Rightarrow>
           (\<exists>u. spawn_confined c t argv u \<and> res = ''unit:'' @ u
              \<and> ctl = (if t = OpsActuate then Some (systemdControl c u) else None)))"
proof -
  obtain v where "systemctlPrefix v = Inr (ec_systemctl c)" using parse_catalog_InrD(1)[OF assms(1)] by blast
  note prefix = systemctlPrefix_InrD[OF this]
  have ok: "entry_ok E e" if "find P (ec_entries c) = Some e" for P e
    using parse_catalog_InrD(2)[OF assms(1)] that by (auto simp: find_Some_iff)
  consider (observe) "t = OpsObserve" | (actuate) "t = OpsActuate"
    using assms(2) by (auto simp: planAction_def split: if_splits)
  then show ?thesis
  proof cases
    case observe
    then obtain e where e: "find (\<lambda>e. ce_type e = OpsObserve \<and> JStr (ce_id e) = prop_of args ''target'') (ec_entries c) = Some e"
      using assms(2) by (auto simp: planAction_def split: option.splits)
    with assms(2) observe ok[OF e] prefix show ?thesis
      by (cases e) (auto simp: planAction_def spawn_confined_def split: if_splits)
  next
    case actuate
    then obtain e where e: "find (\<lambda>e. ce_type e = OpsActuate \<and> JStr (ce_id e) = prop_of args ''device'') (ec_entries c) = Some e"
      using assms(2) by (auto simp: planAction_def split: option.splits)
    with assms(2) actuate obtain ident u commands tmo where sys: "e = SystemdActuate ident u commands tmo"
      by (cases e) (auto simp: planAction_def)
    with assms(2) actuate e obtain cmd where "cmd \<in> set commands"
      "plan = SpawnPlan (ec_systemctl c @ [cmd, ''--'', u]) tmo (''unit:'' @ u) (Some (systemdControl c u))"
      by (cases "prop_of args ''command''") (auto simp: planAction_def split: if_splits)
    with ok[OF e] sys actuate prefix show ?thesis by (auto simp: spawn_confined_def)
  qed
qed

text \<open>Whatever the configuration file says, if it is accepted then every plan made from it is confined:
  a process is the configured absolute \<open>systemctl\<close> (alone or behind \<open>sudo -n\<close>) with one verb of the
  closed vocabulary, \<open>--\<close>, and a unit that is well-formed and not on the forbidden list; a request
  goes to the loopback; and the timeout is between 100 ms and 10 minutes.\<close>

theorem planned_effects_confined:
  assumes "parseExecutorCatalog E raw = Inr c" "planAction c t args = Inr plan"
  shows "(t = OpsObserve \<or> t = OpsActuate) \<and> 100 \<le> plan_timeout plan \<and> plan_timeout plan \<le> 600000
    \<and> (case plan of
         HttpPlan url _ _ \<Rightarrow> t = OpsObserve \<and> loopback_text E url
       | SpawnPlan argv _ res ctl \<Rightarrow>
           (\<exists>u. spawn_confined c t argv u \<and> res = ''unit:'' @ u
              \<and> ctl = (if t = OpsActuate then Some (systemdControl c u) else None)))"
  by (rule plan_confined[OF assms])

definition sample_catalog_json :: json where
  "sample_catalog_json = JObj [(''host_id'', JStr ''h1''), (''systemctl'', JArr [JStr ''/usr/bin/systemctl'']),
     (''entries'', JArr [JObj [(''id'', JStr ''api''), (''type'', JStr ''ops.actuate''), (''kind'', JStr ''systemd''),
        (''unit'', JStr ''api.service''), (''commands'', JArr [JStr ''restart'']), (''timeout_ms'', JNum ''5000'')]])]"

definition sample_parse_env :: parse_env where
  "sample_parse_env = \<lparr>pv_url = (\<lambda>_. None), pv_number = (\<lambda>_. Num 5000)\<rparr>"

definition sample_catalog :: executor_catalog where
  "sample_catalog = \<lparr>ec_host_id = ''h1'', ec_systemctl = [''/usr/bin/systemctl''],
     ec_entries = [SystemdActuate ''api'' ''api.service'' [''restart''] 5000]\<rparr>"

lemma parse_sample_catalog: "parseExecutorCatalog sample_parse_env sample_catalog_json = Inr sample_catalog"
  by (simp add: parseExecutorCatalog_def sample_catalog_json_def sample_parse_env_def sample_catalog_def unknown_key_def
      prop_of_def safe_id_def id_text_def is_lower_def is_digit_def systemctlPrefix_def is_absolute_def basename_def
      parse_entry_def Let_def ACTUATE_COMMANDS_def unit_field_def unit_name_def suffix_to_prefix forbidden_unit_def
      FORBIDDEN_UNIT_def timeout_field_def js_int_def uniq_def)

theorem planned_effects_confined_witness:
  "\<exists>plan. planAction sample_catalog OpsActuate [(''device'', JStr ''api''), (''command'', JStr ''restart'')] = Inr plan
     \<and> spawn_confined sample_catalog OpsActuate (sp_argv plan) ''api.service''"
proof -
  let ?args = "[(''device'', JStr ''api''), (''command'', JStr ''restart'')]"
  have plan: "planAction sample_catalog OpsActuate ?args = Inr (SpawnPlan [''/usr/bin/systemctl'', ''restart'', ''--'', ''api.service'']
      5000 ''unit:api.service'' (Some (systemdControl sample_catalog ''api.service'')))"
    by (simp add: planAction_def sample_catalog_def prop_of_def)
  from planned_effects_confined[OF parse_sample_catalog plan] plan show ?thesis by auto
qed

end
