(* ===== verification/Runner.thy ===== *)
theory Runner imports ExecJournal ExecCatalog begin

text \<open>
  Running a plan, \<open>src/src/runtime/executor/runner.ts\<close>: reading a unit's state, halting a unit, and
  the life of a spawned client as a machine over the events the platform delivers.  The events and
  the answers of \<open>systemctl\<close> are inputs.  Not modelled: the child
  processes themselves.
\<close>

section \<open>Results\<close>

datatype unit_state = UnitState string string | UnitUnknown unit_error

datatype halt_verb = HaltStop | HaltKill

record halt_report =
  hr_confirmed :: bool
  hr_activeState :: "string option"
  hr_subState :: "string option"
  hr_steps :: "(halt_verb \<times> int option) list"

record run_result =
  rr_outcome :: run_outcome
  rr_exitCode :: "int option"
  rr_output :: string
  rr_halt :: "halt_report option"

definition TRANSITIONAL_STATES :: "string list" where
  "TRANSITIONAL_STATES = [''activating'', ''deactivating'', ''reloading'']"

definition HALTED_STATES :: "string list" where
  "HALTED_STATES = [''inactive'', ''failed'']"

section \<open>Short commands\<close>

definition OUTPUT_CAP :: nat where
  "OUTPUT_CAP = 64 * 1024"

definition collect_output :: "string \<Rightarrow> string \<Rightarrow> string" where
  "collect_output out chunk =
     (if length out < OUTPUT_CAP then out @ take (OUTPUT_CAP - length out) chunk else out)"

record argv_result =
  av_exitCode :: "int option"
  av_output :: string
  av_timedOut :: bool

text \<open>\<open>runArgv\<close> over the events of the child: what was collected, whether the timer fired, the result.\<close>

datatype argv_event = AvOutput string | AvTimer | AvError string | AvClose "int option"

fun argv_step :: "argv_event \<Rightarrow> string \<times> bool \<times> argv_result option \<Rightarrow> string \<times> bool \<times> argv_result option" where
  "argv_step (AvOutput s) (out, late, res) = (collect_output out s, late, res)"
| "argv_step AvTimer (out, late, res) = (out, late \<or> res = None, res)"
| "argv_step (AvError msg) (out, late, res) =
     (take 500 msg, late,
      case res of None \<Rightarrow> Some \<lparr>av_exitCode = None, av_output = take 500 msg, av_timedOut = late\<rparr> | Some r \<Rightarrow> Some r)"
| "argv_step (AvClose code) (out, late, res) =
     (out, late, case res of None \<Rightarrow> Some \<lparr>av_exitCode = code, av_output = out, av_timedOut = late\<rparr> | Some r \<Rightarrow> Some r)"

definition runArgv :: "argv_event list \<Rightarrow> argv_result option" where
  "runArgv evs = snd (snd (fold argv_step evs ('''', False, None)))"

section \<open>Reading a unit's state\<close>

definition state_token :: "string \<Rightarrow> bool" where
  "state_token = id_text is_lower (\<lambda>c. is_lower c \<or> c = CHR ''-'') 31"

fun split_lines :: "string \<Rightarrow> string list" where
  "split_lines [] = [[]]"
| "split_lines (c # cs) =
     (if c = CHR 0x0A then [] # split_lines cs
      else case split_lines cs of [] \<Rightarrow> [[c]] | l # ls \<Rightarrow> (c # l) # ls)"

text \<open>The value of the last line \<open>key=value\<close>; the value is on one line.\<close>

definition line_value :: "string \<Rightarrow> string \<Rightarrow> string option" where
  "line_value key line =
     (let l = js_trim line
      in if take (length key + 1) l = key @ ''='' \<and> CHR 0x0D \<notin> set (drop (length key + 1) l)
         then Some (drop (length key + 1) l) else None)"

definition last_value :: "string \<Rightarrow> string \<Rightarrow> string option" where
  "last_value key out = fold (\<lambda>l acc. case line_value key l of None \<Rightarrow> acc | Some v \<Rightarrow> Some v) (split_lines out) None"

definition queryUnitState :: "argv_result \<Rightarrow> unit_state" where
  "queryUnitState r =
     (if av_timedOut r then UnitUnknown UnitStateTimeout
      else if av_exitCode r \<noteq> Some 0 then UnitUnknown (UnitStateUnavailable (av_exitCode r))
      else case (last_value ''ActiveState'' (av_output r), last_value ''SubState'' (av_output r)) of
        (Some a, Some b) \<Rightarrow> if state_token a \<and> state_token b then UnitState a b else UnitUnknown UnitStateUnparsable
      | _ \<Rightarrow> UnitUnknown UnitStateUnparsable)"

section \<open>Halting a unit\<close>

text \<open>
  Per halting command: its exit code, then the states read after it, each with whether the
  confirmation window had passed when it was read.
\<close>

type_synonym halt_input = "int option \<times> (unit_state \<times> bool) list"

fun halted :: "unit_state \<Rightarrow> bool" where
  "halted (UnitState a b) = (a \<in> set HALTED_STATES)"
| "halted (UnitUnknown e) = False"

text \<open>The inner loop: the state that confirms, or the last one read.\<close>

fun confirm_loop :: "unit_state \<Rightarrow> (unit_state \<times> bool) list \<Rightarrow> bool \<times> unit_state" where
  "confirm_loop prev [] = (False, prev)"
| "confirm_loop prev ((st, expired) # rest) =
     (if halted st then (True, st) else if expired then (False, st) else confirm_loop st rest)"

fun state_parts :: "unit_state \<Rightarrow> string option \<times> string option" where
  "state_parts (UnitState a b) = (Some a, Some b)"
| "state_parts (UnitUnknown e) = (None, None)"

fun halt_loop :: "halt_verb list \<Rightarrow> halt_input list \<Rightarrow> unit_state \<Rightarrow> (halt_verb \<times> int option) list \<Rightarrow> halt_report" where
  "halt_loop (v # vs) ((code, reads) # ins) prev steps =
     (let (ok, st) = confirm_loop prev reads; steps' = steps @ [(v, code)]
      in if ok then \<lparr>hr_confirmed = True, hr_activeState = fst (state_parts st), hr_subState = snd (state_parts st), hr_steps = steps'\<rparr>
         else halt_loop vs ins st steps')"
| "halt_loop _ _ prev steps =
     \<lparr>hr_confirmed = False, hr_activeState = fst (state_parts prev), hr_subState = snd (state_parts prev), hr_steps = steps\<rparr>"

text \<open>\<open>haltUnit\<close>: \<open>stop\<close>, then \<open>kill\<close>, one input for each.\<close>

definition haltUnit :: "halt_input list \<Rightarrow> halt_report" where
  "haltUnit ins = halt_loop [HaltStop, HaltKill] ins (UnitUnknown UnitStateNotRead) []"

lemma confirm_loop_halted: "confirm_loop p rs = (True, st) \<Longrightarrow> halted st"
  by (induction p rs rule: confirm_loop.induct) (auto split: if_splits)

lemma halt_loop_confirmed:
  "hr_confirmed (halt_loop vs ins prev steps) \<Longrightarrow>
     \<exists>a. hr_activeState (halt_loop vs ins prev steps) = Some a \<and> a \<in> set HALTED_STATES"
proof (induction vs ins prev steps rule: halt_loop.induct)
  case (1 v vs code reads ins prev steps)
  obtain ok st where c: "confirm_loop prev reads = (ok, st)" by fastforce
  show ?case
  proof (cases ok)
    case True
    with c have "halted st" using confirm_loop_halted[of prev reads st] by simp
    then show ?thesis using c True by (cases st) auto
  next
    case False
    with 1 c show ?thesis by simp
  qed
qed auto

section \<open>The life of a spawned client\<close>

datatype client_event = EvAbort | EvTimer | EvError string | EvClose "int option" | EvHalted halt_report | EvOutput string

record client =
  cl_output :: string
  cl_reason :: "run_outcome option"
  cl_closed :: "int option option"
  cl_result :: "run_result option"

definition client_init :: client where
  "client_init = \<lparr>cl_output = '''', cl_reason = None, cl_closed = None, cl_result = None\<rparr>"

text \<open>Only the first result counts.\<close>

definition settle :: "run_result \<Rightarrow> client \<Rightarrow> client" where
  "settle r c = (if cl_result c = None then c\<lparr>cl_result := Some r\<rparr> else c)"

definition terminate_client :: "run_outcome \<Rightarrow> client \<Rightarrow> client" where
  "terminate_client why c =
     (if cl_reason c \<noteq> None \<or> cl_result c \<noteq> None \<or> cl_closed c \<noteq> None then c else c\<lparr>cl_reason := Some why\<rparr>)"

text \<open>
  \<open>sys\<close>: the plan has a unit to halt.  Then a terminated client settles only once it is closed and
  the halt has reported; the report may arrive before or after the close.
\<close>

fun client_step :: "bool \<Rightarrow> client_event \<Rightarrow> client \<times> halt_report option \<Rightarrow> client \<times> halt_report option" where
  "client_step sys EvAbort (c, h) = (terminate_client RunAborted c, h)"
| "client_step sys EvTimer (c, h) = (terminate_client TimedOut c, h)"
| "client_step sys (EvOutput s) (c, h) =
     (c\<lparr>cl_output := collect_output (cl_output c) s\<rparr>, h)"
| "client_step sys (EvError msg) (c, h) =
     (settle \<lparr>rr_outcome = SpawnFailed, rr_exitCode = None, rr_output = take 500 msg, rr_halt = None\<rparr> c, h)"
| "client_step sys (EvClose code) (c, h) =
     (let c' = c\<lparr>cl_closed := Some code\<rparr>
      in case cl_reason c of
           None \<Rightarrow> (settle \<lparr>rr_outcome = Completed, rr_exitCode = code, rr_output = cl_output c, rr_halt = None\<rparr> c', h)
         | Some why \<Rightarrow>
             if \<not> sys then (settle \<lparr>rr_outcome = why, rr_exitCode = code, rr_output = cl_output c, rr_halt = None\<rparr> c', h)
             else (case h of
                 None \<Rightarrow> (c', h)
               | Some r \<Rightarrow> (settle \<lparr>rr_outcome = why, rr_exitCode = code, rr_output = cl_output c, rr_halt = Some r\<rparr> c', h)))"
| "client_step sys (EvHalted r) (c, h) =
     (case (cl_reason c, cl_closed c) of
        (Some why, Some code) \<Rightarrow>
          (settle \<lparr>rr_outcome = why, rr_exitCode = code, rr_output = cl_output c, rr_halt = Some r\<rparr> c, Some r)
      | (Some why, None) \<Rightarrow> (c, Some r)
      | _ \<Rightarrow> (c, h))"

definition run_client :: "bool \<Rightarrow> client_event list \<Rightarrow> client \<times> halt_report option" where
  "run_client sys evs = fold (client_step sys) evs (client_init, None)"

text \<open>\<open>runHttp\<close>: the response, or the exception with the state of the abort signal and of the timer.\<close>

datatype http_answer = HttpResponse int string | HttpThrew string

definition runHttp :: "http_answer \<Rightarrow> bool \<Rightarrow> bool \<Rightarrow> run_result" where
  "runHttp a aborted timedOut =
     (case a of
        HttpResponse status body \<Rightarrow>
          \<lparr>rr_outcome = Completed, rr_exitCode = Some status, rr_output = take OUTPUT_CAP body, rr_halt = None\<rparr>
      | HttpThrew msg \<Rightarrow>
          if aborted then \<lparr>rr_outcome = RunAborted, rr_exitCode = None, rr_output = '''', rr_halt = None\<rparr>
          else if timedOut then \<lparr>rr_outcome = TimedOut, rr_exitCode = None, rr_output = '''', rr_halt = None\<rparr>
          else \<lparr>rr_outcome = SpawnFailed, rr_exitCode = None, rr_output = take 500 msg, rr_halt = None\<rparr>)"

text \<open>\<open>createPlanRunner\<close>: \<open>pre\<close> is whether the signal was aborted before the call.\<close>

definition createPlanRunner :: "execution_plan \<Rightarrow> bool \<Rightarrow> client_event list \<Rightarrow> http_answer \<times> bool \<times> bool \<Rightarrow> run_result option" where
  "createPlanRunner plan pre evs http =
     (if pre then Some \<lparr>rr_outcome = RunAborted, rr_exitCode = None, rr_output = '''', rr_halt = None\<rparr>
      else case plan of
        HttpPlan url t res \<Rightarrow> Some (runHttp (fst http) (fst (snd http)) (snd (snd http)))
      | SpawnPlan argv t res ctl \<Rightarrow> cl_result (fst (run_client (ctl \<noteq> None) evs)))"

definition client_ok :: "bool \<Rightarrow> client \<Rightarrow> bool" where
  "client_ok sys c \<longleftrightarrow>
     (case cl_result c of None \<Rightarrow> True
      | Some r \<Rightarrow> (rr_outcome r \<in> {RunAborted, TimedOut} \<longrightarrow> (sys \<longrightarrow> rr_halt r \<noteq> None))
          \<and> (rr_outcome r = Completed \<longrightarrow> cl_closed c \<noteq> None) \<and> (rr_exitCode r \<noteq> None \<longrightarrow> cl_closed c \<noteq> None))
     \<and> (case cl_reason c of None \<Rightarrow> True | Some why \<Rightarrow> why \<in> {RunAborted, TimedOut})"

lemma client_step_ok: "client_ok sys (fst ch) \<Longrightarrow> client_ok sys (fst (client_step sys ev ch))"
  by (cases ch; cases ev)
    (auto simp: client_ok_def settle_def terminate_client_def Let_def split: option.splits)

lemma client_step_result:
  "cl_result (fst ch) = Some r \<Longrightarrow> cl_result (fst (client_step sys ev ch)) = Some r"
  by (cases ch; cases ev) (auto simp: settle_def terminate_client_def Let_def split: option.splits)

lemma run_client_ok: "client_ok sys (fst ch) \<Longrightarrow> client_ok sys (fst (fold (client_step sys) evs ch))"
  by (induction evs arbitrary: ch) (auto simp: client_step_ok)

text \<open>The runner never reports an interrupted actuation without the unit's own report: whatever the
  order of abort, timeout, close and halt events, a client of a systemd plan that was aborted or
  timed out settles with a halt report; and a halt is reported as confirmed only on a state read
  as \<open>inactive\<close> or \<open>failed\<close>.\<close>

theorem interrupted_units_report:
  "(\<forall>r. cl_result (fst (run_client True evs)) = Some r \<longrightarrow> rr_outcome r \<in> {RunAborted, TimedOut} \<longrightarrow> rr_halt r \<noteq> None)
   \<and> (hr_confirmed (haltUnit ins) \<longrightarrow> (\<exists>a. hr_activeState (haltUnit ins) = Some a \<and> a \<in> {''inactive'', ''failed''}))"
proof -
  have "client_ok True (fst (run_client True evs))"
    unfolding run_client_def by (rule run_client_ok) (simp add: client_ok_def client_init_def)
  then show ?thesis
    using halt_loop_confirmed unfolding haltUnit_def
    by (auto simp: client_ok_def HALTED_STATES_def split: option.splits)
qed

theorem interrupted_units_report_witness:
  "rr_halt (the (cl_result (fst (run_client True [EvAbort, EvClose (Some 0), EvHalted (haltUnit [(Some 0, [(UnitState ''inactive'' ''dead'', False)])])]))))
     \<noteq> None
   \<and> hr_confirmed (haltUnit [(Some 0, [(UnitState ''inactive'' ''dead'', False)])])"
proof -
  let ?ins = "[(Some 0, [(UnitState ''inactive'' ''dead'', False)])]"
  let ?evs = "[EvAbort, EvClose (Some 0), EvHalted (haltUnit ?ins)]"
  have "\<exists>r. cl_result (fst (run_client True ?evs)) = Some r \<and> rr_outcome r = RunAborted"
    by (simp add: run_client_def client_init_def terminate_client_def settle_def)
  moreover have "hr_confirmed (haltUnit ?ins)" by (simp add: haltUnit_def HALTED_STATES_def)
  ultimately show ?thesis using interrupted_units_report[of ?evs ?ins] by auto
qed

end
