(* ===== verification/JournalFacts.thy ===== *)
theory JournalFacts imports ExecJournal begin

text \<open>
  The executor's journal as a state machine: every operation that writes is a step; executions only
  move forward, a closed one never changes, an approval or an idempotency key is spent once, and a
  revocation is permanent.
\<close>

fun state_rank :: "execution_state \<Rightarrow> nat" where
  "state_rank Admitted = 0"
| "state_rank Started = 1"
| "state_rank _ = 2"

lemma is_final_rank: "is_final st \<longleftrightarrow> state_rank st = 2"
  by (cases st) (auto simp: is_final_def)

lemma state_rank_le [simp]: "state_rank st \<le> 2"
  by (cases st) auto

lemma list_all2_witness: "list_all2 P xs ys \<Longrightarrow> x \<in> set xs \<Longrightarrow> \<exists>y\<in>set ys. P x y"
  by (induction rule: list_all2_induct) auto

text \<open>What never changes in a row.\<close>

definition row_identity :: "execution_record \<Rightarrow> _" where
  "row_identity r = (ex_execution_id r, ex_idempotency_key r, ex_mandate_id r, ex_action_type r, ex_target r,
     ex_command r, ex_action_hash r, ex_approval_id r, ex_owner r, ex_pid r, ex_created_at r)"

definition row_forward :: "execution_record \<Rightarrow> execution_record \<Rightarrow> bool" where
  "row_forward r r' \<longleftrightarrow> row_identity r' = row_identity r \<and> state_rank (ex_state r) \<le> state_rank (ex_state r')
     \<and> (is_final (ex_state r) \<longrightarrow> r' = r)"

definition approval_ids :: "execution_record list \<Rightarrow> string list" where
  "approval_ids rs = concat (map (\<lambda>a. case a of None \<Rightarrow> [] | Some x \<Rightarrow> [x]) (map ex_approval_id rs))"

definition journal_wf :: "journal \<Rightarrow> bool" where
  "journal_wf j \<longleftrightarrow> distinct (map ex_execution_id (jl_executions j))
     \<and> distinct (map ex_idempotency_key (jl_executions j)) \<and> distinct (approval_ids (jl_executions j))"

inductive journal_step :: "journal \<Rightarrow> journal \<Rightarrow> bool" where
  step_open: "journal_step j (journal_open alive now j)"
| step_stop: "journal_step j (setStop active reason j)"
| step_revoke: "journal_step j (journal_revoke k v j)"
| step_admit: "admit pid r j = Inr j' \<Longrightarrow> journal_step j j'"
| step_start: "markStarted i now j = Inr j' \<Longrightarrow> journal_step j j'"
| step_finish: "journal_finish i f j = Inr j' \<Longrightarrow> is_final (ff_state f) \<Longrightarrow> journal_step j j'"
| step_claim: "journal_step j (snd (claimLease r w d now j))"
| step_release: "journal_step j (snd (releaseLease r w j))"

text \<open>The rows after a step: the old ones moved forward, in place, then new ones.\<close>

definition journal_extends :: "journal \<Rightarrow> journal \<Rightarrow> bool" where
  "journal_extends j j' \<longleftrightarrow>
     (\<exists>rs ss. jl_executions j' = rs @ ss \<and> list_all2 row_forward (jl_executions j) rs)
     \<and> (\<forall>k v. isRevoked k v j \<longrightarrow> isRevoked k v j')"

lemma row_forward_refl [simp]: "row_forward r r"
  by (simp add: row_forward_def)

lemma row_forward_trans: "row_forward q r \<Longrightarrow> row_forward r s \<Longrightarrow> row_forward q s"
  by (auto simp: row_forward_def is_final_rank)

lemma forward_update:
  assumes "\<And>r. p r \<Longrightarrow> row_forward r (f r)"
  shows "list_all2 row_forward rs (row_update p f rs)"
  using assms by (induction rs) (auto simp: row_update_def)

text \<open>Every step but an admission rewrites rows in place.\<close>

lemma journal_step_rows:
  "journal_step j j' \<Longrightarrow>
     (\<exists>pid r. admit pid r j = Inr j') \<or> list_all2 row_forward (jl_executions j) (jl_executions j')"
proof (induction rule: journal_step.induct)
  case (step_open j alive now)
  have "list_all2 row_forward (jl_executions j)
      (row_update (\<lambda>r. \<not> is_final (ex_state r) \<and> \<not> alive (ex_pid r)) (close_orphan now) (jl_executions j))"
    by (rule forward_update) (auto simp: row_forward_def close_orphan_def row_identity_def)
  then show ?case by (simp add: journal_open_def)
next
  case (step_start i now j j')
  have "list_all2 row_forward (jl_executions j)
      (row_update (\<lambda>r. ex_execution_id r = i \<and> ex_state r = Admitted)
         (\<lambda>r. r\<lparr>ex_state := Started, ex_started_at := Some now\<rparr>) (jl_executions j))"
    by (rule forward_update) (auto simp: row_forward_def row_identity_def is_final_def)
  with step_start show ?case by (auto simp: markStarted_def Let_def split: if_splits)
next
  case (step_finish i f j j')
  have "state_rank (ex_state r) \<le> state_rank (ff_state f)" for r
    using step_finish(2) by (cases "ex_state r"; cases "ff_state f") (auto simp: is_final_def)
  then have "list_all2 row_forward (jl_executions j)
      (row_update (\<lambda>r. ex_execution_id r = i \<and> \<not> is_final (ex_state r)) (close_row f) (jl_executions j))"
    by (intro forward_update) (auto simp: row_forward_def row_identity_def close_row_def)
  with step_finish(1) show ?case by (auto simp: journal_finish_def Let_def split: if_splits)
qed (auto simp: setStop_def journal_revoke_def claimLease_def releaseLease_def Let_def list_all2_refl split: option.splits)

lemma journal_step_revoked: "journal_step j j' \<Longrightarrow> isRevoked k v j \<Longrightarrow> isRevoked k v j'"
  by (induction rule: journal_step.induct)
    (auto simp: isRevoked_def journal_open_def setStop_def journal_revoke_def admit_def markStarted_def journal_finish_def
      claimLease_def releaseLease_def Let_def split: option.splits if_splits)

lemma extendsI:
  "jl_executions j' = rs @ ss \<Longrightarrow> list_all2 row_forward (jl_executions j) rs \<Longrightarrow>
     (\<And>k v. isRevoked k v j \<Longrightarrow> isRevoked k v j') \<Longrightarrow> journal_extends j j'"
  unfolding journal_extends_def by blast

lemma admit_rows: "admit pid r j = Inr j' \<Longrightarrow> \<exists>q. jl_executions j' = jl_executions j @ [q]
    \<and> ex_execution_id q = ex_execution_id r \<and> ex_idempotency_key q = ex_idempotency_key r
    \<and> ex_approval_id q = ex_approval_id r \<and> ex_state q = Admitted
    \<and> ex_execution_id r \<notin> ex_execution_id ` set (jl_executions j)
    \<and> ex_idempotency_key r \<notin> ex_idempotency_key ` set (jl_executions j)
    \<and> (ex_approval_id r \<noteq> None \<longrightarrow> ex_approval_id r \<notin> ex_approval_id ` set (jl_executions j))"
  by (auto simp: admit_def split: if_splits)

lemma journal_step_extends:
  assumes "journal_step j j'"
  shows "journal_extends j j'"
  using journal_step_rows[OF assms]
proof
  assume "\<exists>pid r. admit pid r j = Inr j'"
  then obtain q where "jl_executions j' = jl_executions j @ [q]" by (auto dest: admit_rows)
  then show ?thesis by (rule extendsI) (auto intro: list_all2_refl journal_step_revoked[OF assms])
next
  assume "list_all2 row_forward (jl_executions j) (jl_executions j')"
  then show ?thesis by (intro extendsI[of j' _ "[]"]) (auto intro: journal_step_revoked[OF assms])
qed

lemma forward_ids:
  assumes "list_all2 row_forward rs ss"
  shows "map ex_execution_id ss = map ex_execution_id rs \<and> map ex_idempotency_key ss = map ex_idempotency_key rs
    \<and> map ex_approval_id ss = map ex_approval_id rs"
  using assms by (induction rule: list_all2_induct) (auto simp: row_forward_def row_identity_def)

lemma set_approval_ids: "x \<in> set (approval_ids rs) \<longleftrightarrow> Some x \<in> ex_approval_id ` set rs"
  by (force simp: approval_ids_def split: option.splits)

lemma approval_ids_snoc: "approval_ids (rs @ [q]) =
    approval_ids rs @ (case ex_approval_id q of None \<Rightarrow> [] | Some x \<Rightarrow> [x])"
  by (simp add: approval_ids_def)

lemma journal_step_wf:
  assumes "journal_step j j'" "journal_wf j"
  shows "journal_wf j'"
  using journal_step_rows[OF assms(1)]
proof
  assume "\<exists>pid r. admit pid r j = Inr j'"
  then obtain pid r where "admit pid r j = Inr j'" by blast
  from admit_rows[OF this] assms(2) show ?thesis
    by (cases "ex_approval_id r") (auto simp: journal_wf_def approval_ids_snoc set_approval_ids)
next
  assume "list_all2 row_forward (jl_executions j) (jl_executions j')"
  from forward_ids[OF this] assms(2) show ?thesis by (simp add: journal_wf_def approval_ids_def)
qed

lemma journal_extends_trans:
  assumes "journal_extends i j" "journal_extends j k"
  shows "journal_extends i k"
proof -
  obtain rs ss where j: "jl_executions j = rs @ ss" "list_all2 row_forward (jl_executions i) rs"
    using assms(1) by (auto simp: journal_extends_def)
  obtain ts us where k: "jl_executions k = ts @ us" "list_all2 row_forward (rs @ ss) ts"
    using assms(2) j(1) by (auto simp: journal_extends_def)
  then obtain ts1 ts2 where ts: "ts = ts1 @ ts2" "list_all2 row_forward rs ts1" by (auto simp: list_all2_append1)
  have "list_all2 row_forward (jl_executions i) ts1"
    by (rule list_all2_trans[OF _ j(2) ts(2)]) (rule row_forward_trans)
  then show ?thesis using k(1) ts(1) assms by (intro extendsI[of k ts1 "ts2 @ us"]) (auto simp: journal_extends_def)
qed

lemma journal_steps:
  "journal_step\<^sup>*\<^sup>* j j' \<Longrightarrow> journal_wf j \<Longrightarrow> journal_wf j' \<and> journal_extends j j'"
proof (induction rule: rtranclp_induct)
  case base
  then show ?case by (auto intro!: extendsI[of j "jl_executions j" "[]"] list_all2_refl)
next
  case (step y z)
  then show ?case using journal_step_wf journal_step_extends journal_extends_trans by blast
qed

text \<open>Along every sequence of journal operations an execution only moves forward (admitted, started,
  closed) with its identity unchanged, a closed execution never changes again, no two executions
  share an id, an idempotency key or an approval, and a revocation is permanent.\<close>

theorem journal_is_monotone:
  assumes "journal_step\<^sup>*\<^sup>* j j'" "journal_wf j"
  shows "journal_wf j'
    \<and> (\<forall>r\<in>set (jl_executions j). \<exists>r'\<in>set (jl_executions j'). row_forward r r')
    \<and> (\<forall>r\<in>set (jl_executions j). is_final (ex_state r) \<longrightarrow> r \<in> set (jl_executions j'))
    \<and> (\<forall>k v. isRevoked k v j \<longrightarrow> isRevoked k v j')"
proof -
  have wf: "journal_wf j'" and ext: "journal_extends j j'" using journal_steps[OF assms] by auto
  obtain rs ss where rows: "jl_executions j' = rs @ ss" "list_all2 row_forward (jl_executions j) rs"
    using ext by (auto simp: journal_extends_def)
  have each: "\<exists>r'\<in>set (jl_executions j'). row_forward r r'" if "r \<in> set (jl_executions j)" for r
    using list_all2_witness[OF rows(2) that] rows(1) by auto
  then have "\<forall>r\<in>set (jl_executions j). is_final (ex_state r) \<longrightarrow> r \<in> set (jl_executions j')"
    by (metis row_forward_def)
  with wf each ext show ?thesis by (simp add: journal_extends_def)
qed

text \<open>A row for the worked examples.\<close>

definition sample_execution :: execution_record where
  "sample_execution = \<lparr>ex_execution_id = ''e'', ex_idempotency_key = ''k'', ex_mandate_id = ''m'',
     ex_action_type = OpsActuate, ex_target = ''unit:a'', ex_command = Some ''restart'', ex_action_hash = ''h'',
     ex_approval_id = Some ''a'', ex_owner = ''o'', ex_pid = 1, ex_state = Admitted, ex_reason = None,
     ex_created_at = 0, ex_started_at = None, ex_finished_at = None, ex_exit_code = None,
     ex_output_sha256 = None, ex_receipt = None\<rparr>"

definition sample_journal :: journal where
  "sample_journal = journal_empty\<lparr>jl_executions := [sample_execution\<lparr>ex_state := Done\<rparr>]\<rparr>"

theorem journal_is_monotone_witness:
  "sample_execution\<lparr>ex_state := Done\<rparr> \<in> set (jl_executions (journal_open (\<lambda>_. False) 5 sample_journal))
   \<and> journal_wf (journal_open (\<lambda>_. False) 5 sample_journal)"
proof -
  have wf: "journal_wf sample_journal"
    by (simp add: journal_wf_def sample_journal_def journal_empty_def approval_ids_def sample_execution_def)
  have "journal_step\<^sup>*\<^sup>* sample_journal (journal_open (\<lambda>_. False) 5 sample_journal)"
    by (rule r_into_rtranclp) (rule step_open)
  from journal_is_monotone[OF this wf] show ?thesis
    by (simp add: sample_journal_def journal_empty_def is_final_def)
qed

end
