(* ===== verification/Executor.thy ===== *)
theory Executor imports Runner JournalFacts begin

text \<open>
  The mandated executor, \<open>src/src/runtime/executor/executor.ts\<close>.  \<open>execute\<close> is split where it awaits:
  \<open>exec_begin\<close> runs up to the reading of the unit's state, \<open>exec_admit\<close> up to the admission in the
  journal, \<open>exec_start\<close> up to the call of the runner, \<open>exec_finish\<close> is what follows the runner's
  result.  A call that threw is \<open>Threw\<close>.  The step relation interleaves these parts of any number of
  calls, of any number of processes sharing one journal, with STOP, revocations, crashes and
  restarts.
\<close>

section \<open>Configuration, requests, outcomes\<close>

record 'k executor_config =
  xc_lib :: "'k lib"
  xc_catalog :: executor_catalog
  xc_mandateKeys :: "'k keyring"
  xc_approvalKeys :: "'k keyring"
  xc_receiptKey :: 'k

text \<open>The checks of \<open>create\<close>: \<open>ed\<close> tells the Ed25519 keys; \<open>sockets\<close> are the paths the process can open.\<close>

definition validateKeys :: "('k \<Rightarrow> bool) \<Rightarrow> 'k executor_config \<Rightarrow> string + unit" where
  "validateKeys ed c =
     (let L = xc_lib c; bad = (\<lambda>ring. list_ex (\<lambda>(_, k). lib_isPrivate L k \<or> \<not> ed k) ring);
          receiptId = lib_keyId L (xc_receiptKey c); mids = map fst (xc_mandateKeys c); aids = map fst (xc_approvalKeys c)
      in if xc_mandateKeys c = [] then Inl ''executor_mandate_keys_missing''
         else if bad (xc_mandateKeys c) then Inl ''executor_mandate_keys_must_be_public_ed25519''
         else if xc_approvalKeys c = [] then Inl ''executor_approval_keys_missing''
         else if bad (xc_approvalKeys c) then Inl ''executor_approval_keys_must_be_public_ed25519''
         else if \<not> lib_isPrivate L (xc_receiptKey c) \<or> \<not> ed (xc_receiptKey c)
           then Inl ''executor_receipt_key_must_be_private_ed25519''
         else if receiptId \<in> set mids \<or> receiptId \<in> set aids then Inl ''executor_keys_must_be_distinct''
         else if list_ex (\<lambda>i. i \<in> set aids) mids then Inl ''executor_keys_must_be_distinct''
         else Inr ())"

definition assertNoDockerAccess :: "string option \<Rightarrow> (string \<Rightarrow> bool) \<Rightarrow> string list \<Rightarrow> string + unit" where
  "assertNoDockerAccess dockerHost accessible sockets =
     (if truthy_str dockerHost then Inl ''executor_docker_access_forbidden:DOCKER_HOST''
      else case find accessible sockets of
        Some s \<Rightarrow> Inl (''executor_docker_access_forbidden:'' @ s)
      | None \<Rightarrow> Inr ())"

definition executor_create ::
  "('k \<Rightarrow> bool) \<Rightarrow> string option \<Rightarrow> (string \<Rightarrow> bool) \<Rightarrow> string list \<Rightarrow> 'k executor_config \<Rightarrow> string + 'k executor_config" where
  "executor_create ed dockerHost accessible sockets c =
     (case validateKeys ed c of Inl e \<Rightarrow> Inl e
      | Inr _ \<Rightarrow> (case assertNoDockerAccess dockerHost accessible sockets of Inl e \<Rightarrow> Inl e | Inr _ \<Rightarrow> Inr c))"

record execution_request =
  er_mandate :: execution_mandate
  er_objective :: string
  er_action :: json
  er_owner :: string
  er_approval :: json
  er_idempotencyKey :: "string option"
  er_hasOrigin :: bool

record outcome_fields =
  of_state :: execution_state
  of_reason :: "exec_reason option"
  of_executionId :: string
  of_exitCode :: "int option"
  of_output :: string
  of_receipt :: "string option"
  of_replayed :: bool

datatype execution_outcome = Refused exec_reason | Outcome outcome_fields | Threw string

text \<open>What a call knows once the gates have passed.\<close>

record exec_call =
  ca_mandate :: execution_mandate
  ca_objective :: string
  ca_action :: json
  ca_approvalJson :: json
  ca_type :: operator_type
  ca_args :: "(string \<times> json) list"
  ca_plan :: execution_plan
  ca_hash :: string
  ca_approvalId :: "string option"
  ca_idempotencyKey :: string
  ca_owner :: string
  ca_now :: int

datatype begin_result = Return execution_outcome | Proceed exec_call

definition stopReason :: "bool \<Rightarrow> journal \<Rightarrow> exec_reason option" where
  "stopReason stopFile j =
     (if fst (stopState j) then Some (RStop (snd (stopState j)))
      else if stopFile then Some RStopFile else None)"

definition replay :: "execution_record \<Rightarrow> execution_outcome" where
  "replay r =
     (if ex_state r = Admitted \<or> ex_state r = Started then Refused (RText ''execution_in_progress'')
      else Outcome \<lparr>of_state = ex_state r, of_reason = ex_reason r, of_executionId = ex_execution_id r,
             of_exitCode = ex_exit_code r, of_output = '''', of_receipt = ex_receipt r, of_replayed = True\<rparr>)"

definition owner_ok :: "string \<Rightarrow> bool" where
  "owner_ok = id_text is_alnum (\<lambda>c. is_alnum c \<or> c \<in> set ''._@-'') 119"

definition idempotency_key_ok :: "string \<Rightarrow> bool" where
  "idempotency_key_ok s \<longleftrightarrow> bounded_str 8 120 s \<and> list_all (\<lambda>c. is_alnum c \<or> c \<in> set ''._:-'') s"

section \<open>From the request to the reading of the unit's state\<close>

text \<open>The approval, for an actuation: refused, replayed, or the id it is spent under.\<close>

definition approval_gate ::
  "'k executor_config \<Rightarrow> execution_request \<Rightarrow> string \<Rightarrow> string \<Rightarrow> int \<Rightarrow> journal
     \<Rightarrow> (execution_outcome + string) \<times> journal" where
  "approval_gate c rq hash resource now j =
     (let L = xc_lib c; mid = md_mandate_id (er_mandate rq);
          candidate = (case er_approval rq of JObj es \<Rightarrow> str_prop es ''approval_id'' | _ \<Rightarrow> None)
      in case Option.bind candidate (\<lambda>a. findByApproval a j) of
           Some previous \<Rightarrow>
             (if ex_action_hash previous \<noteq> hash then (Inl (Refused (RText ''approval_already_used_for_other_action'')), j)
              else (Inl (replay previous), j))
         | None \<Rightarrow>
      (case verifyActuationApproval L (er_approval rq) mid hash now (xc_approvalKeys c) of
         Inl why \<Rightarrow>
           (Inl (Refused (RText why)),
            (if prefix ''origin_not_authoritative:'' why
             then (case isApprovalShape (er_approval rq) of
                 Some a \<Rightarrow> journal_revoke ApprovalRevocation (aa_approval_id a) j | None \<Rightarrow> j)
             else j))
       | Inr a \<Rightarrow>
           if isRevoked ApprovalRevocation (Some (aa_approval_id a)) j then (Inl (Refused (RText ''approval_revoked'')), j)
           else if inFlightOn resource j \<noteq> None then (Inl (Refused (RText ''actuation_in_flight_on_resource'')), j)
           else (Inr (aa_approval_id a), j)))"

text \<open>The idempotency key of an observation; \<open>rnd\<close> is the random one.\<close>

definition observe_gate ::
  "'k executor_config \<Rightarrow> execution_request \<Rightarrow> string \<Rightarrow> string \<Rightarrow> journal \<Rightarrow> execution_outcome + string" where
  "observe_gate c rq hash rnd j =
     (case er_idempotencyKey rq of
        Some k \<Rightarrow>
          if \<not> idempotency_key_ok k then Inl (Refused (RText ''idempotency_key_invalid''))
          else
            let key = ''observe:'' @ lib_sha256 (xc_lib c)
                        (md_mandate_id (er_mandate rq) @ [CHR 0x00] @ hash @ [CHR 0x00] @ k)
            in (case findByIdempotencyKey key j of Some p \<Rightarrow> Inl (replay p) | None \<Rightarrow> Inr key)
      | None \<Rightarrow>
          let key = ''observe:'' @ rnd
          in (case findByIdempotencyKey key j of Some p \<Rightarrow> Inl (replay p) | None \<Rightarrow> Inr key))"

text \<open>The gates before the approval: the type, the arguments, the plan and the hash of the action.\<close>

definition action_gate ::
  "'k executor_config \<Rightarrow> execution_request \<Rightarrow> int \<Rightarrow> bool \<Rightarrow> journal
     \<Rightarrow> execution_outcome + operator_type \<times> (string \<times> json) list \<times> execution_plan \<times> string" where
  "action_gate c rq now stopFile j =
     (let L = xc_lib c; m = er_mandate rq; host = ec_host_id (xc_catalog c)
      in case stopReason stopFile j of
           Some why \<Rightarrow> Inl (Refused why)
         | None \<Rightarrow>
      if er_hasOrigin rq then Inl (Refused (RText ''request_origin_field_forbidden''))
      else if \<not> owner_ok (er_owner rq) then Inl (Refused (RText ''owner_invalid''))
      else if \<not> verifyOperationsMandate L m (xc_mandateKeys c) then Inl (Refused (RText ''mandate_authority_invalid''))
      else case validateMandate L m (opsMandateContext host (er_objective rq)) now of
        Some why \<Rightarrow> Inl (Refused (RText (''mandate_invalid:'' @ why)))
      | None \<Rightarrow>
      if isRevoked MandateRevocation (Some (md_mandate_id m)) j then Inl (Refused (RText ''mandate_revoked''))
      else case evaluateTypedOperatorAction L (er_action rq) (operatorTypesFromMandate m) of
        Inl why \<Rightarrow> Inl (Refused (RText why))
      | Inr (t, args) \<Rightarrow>
      if t \<noteq> OpsObserve \<and> t \<noteq> OpsActuate then Inl (Refused (RText ''type_not_executable''))
      else case planAction (xc_catalog c) t args of
        Inl why \<Rightarrow> Inl (Refused (RText why))
      | Inr plan \<Rightarrow>
      (case actionHash L \<lparr>ai_host_id = host, ai_mandate_id = md_mandate_id m, ai_type = type_name t,
                          ai_args = args, ai_resource = plan_resource plan\<rparr> of
         Inl e \<Rightarrow> Inl (Threw e)
       | Inr hash \<Rightarrow> Inr (t, args, plan, hash)))"

definition exec_begin ::
  "'k executor_config \<Rightarrow> execution_request \<Rightarrow> int \<Rightarrow> string \<Rightarrow> bool \<Rightarrow> journal \<Rightarrow> begin_result \<times> journal" where
  "exec_begin c rq now rnd stopFile j =
     (case action_gate c rq now stopFile j of
        Inl out \<Rightarrow> (Return out, j)
      | Inr (t, args, plan, hash) \<Rightarrow>
          let (gate, j1) =
                (if t = OpsActuate
                 then (case approval_gate c rq hash (plan_resource plan) now j of
                     (Inl out, j1) \<Rightarrow> (Inl out, j1)
                   | (Inr a, j1) \<Rightarrow> (Inr (Some a, ''approval:'' @ a), j1))
                 else (case observe_gate c rq hash rnd j of
                     Inl out \<Rightarrow> (Inl out, j) | Inr k \<Rightarrow> (Inr (None, k), j)))
          in case gate of
               Inl out \<Rightarrow> (Return out, j1)
             | Inr (approvalId, key) \<Rightarrow>
                 (case claimLease (plan_resource plan) (er_owner rq) (plan_timeout plan + 30000) now j1 of
                    (Inl holder, j2) \<Rightarrow> (Return (Refused (RText (''resource_busy:'' @ holder))), j2)
                  | (Inr _, j2) \<Rightarrow>
                      (Proceed \<lparr>ca_mandate = er_mandate rq, ca_objective = er_objective rq, ca_action = er_action rq,
                         ca_approvalJson = er_approval rq, ca_type = t, ca_args = args, ca_plan = plan, ca_hash = hash,
                         ca_approvalId = approvalId, ca_idempotencyKey = key, ca_owner = er_owner rq, ca_now = now\<rparr>, j2)))"

section \<open>Admission\<close>

definition has_unit :: "exec_call \<Rightarrow> bool" where
  "has_unit ca \<longleftrightarrow> (case ca_plan ca of SpawnPlan _ _ _ (Some _) \<Rightarrow> True | _ \<Rightarrow> False)"

definition free_lease :: "exec_call \<Rightarrow> journal \<Rightarrow> journal" where
  "free_lease ca j = snd (releaseLease (plan_resource (ca_plan ca)) (ca_owner ca) j)"

text \<open>After the unit's state was read: the refusal, \<open>None\<close> to go on.\<close>

definition unit_gate :: "exec_call \<Rightarrow> unit_state \<Rightarrow> bool \<Rightarrow> journal \<Rightarrow> exec_reason option" where
  "unit_gate ca st stopFile j =
     (if ca_type ca = OpsActuate \<and> has_unit ca then
        (case st of
           UnitUnknown why \<Rightarrow> Some (RUnitUnknown why)
         | UnitState a _ \<Rightarrow>
             if a \<in> set TRANSITIONAL_STATES then Some (RText (''unit_in_transition:'' @ a))
             else stopReason stopFile j)
      else None)"

definition admission_row :: "string \<Rightarrow> exec_call \<Rightarrow> execution_record" where
  "admission_row i ca =
     \<lparr>ex_execution_id = i, ex_idempotency_key = ca_idempotencyKey ca, ex_mandate_id = md_mandate_id (ca_mandate ca),
      ex_action_type = ca_type ca, ex_target = plan_resource (ca_plan ca),
      ex_command = (if ca_type ca = OpsActuate then str_prop (ca_args ca) ''command'' else None),
      ex_action_hash = ca_hash ca, ex_approval_id = ca_approvalId ca, ex_owner = ca_owner ca, ex_pid = 0,
      ex_state = Admitted, ex_reason = None, ex_created_at = ca_now ca, ex_started_at = None, ex_finished_at = None,
      ex_exit_code = None, ex_output_sha256 = None, ex_receipt = None\<rparr>"

text \<open>\<open>Inl\<close>: the call returns; \<open>Inr\<close>: the execution is admitted under its id.\<close>

definition exec_admit ::
  "int \<Rightarrow> exec_call \<Rightarrow> unit_state \<Rightarrow> bool \<Rightarrow> string \<Rightarrow> journal \<Rightarrow> (execution_outcome + string) \<times> journal" where
  "exec_admit pid ca st stopFile i j =
     (case unit_gate ca st stopFile j of
        Some why \<Rightarrow> (Inl (Refused why), free_lease ca j)
      | None \<Rightarrow>
      (case admit pid (admission_row i ca) j of
         Inr j' \<Rightarrow> (Inr i, j')
       | Inl e \<Rightarrow>
           let j' = free_lease ca j;
               previous = (case ca_approvalId ca of
                   Some a \<Rightarrow> findByApproval a j' | None \<Rightarrow> findByIdempotencyKey (ca_idempotencyKey ca) j')
           in (case previous of
                 Some p \<Rightarrow> (Inl (replay p), j')
               | None \<Rightarrow> (Inl (Refused (RText (''journal_write_failed:'' @ e))), j'))))"

section \<open>Start and end\<close>

definition closed_outcome :: "string \<Rightarrow> finish_fields \<Rightarrow> string \<Rightarrow> execution_outcome" where
  "closed_outcome i f out =
     Outcome \<lparr>of_state = ff_state f, of_reason = ff_reason f, of_executionId = i, of_exitCode = ff_exitCode f,
       of_output = out, of_receipt = ff_receipt f, of_replayed = False\<rparr>"

text \<open>Closing the execution in the journal, then the \<open>finally\<close> block.\<close>

definition close_with :: "exec_call \<Rightarrow> string \<Rightarrow> finish_fields \<Rightarrow> string \<Rightarrow> journal \<Rightarrow> execution_outcome \<times> journal" where
  "close_with ca i f out j =
     (case journal_finish i f j of
        Inl e \<Rightarrow> (Threw e, free_lease ca j)
      | Inr j' \<Rightarrow> (closed_outcome i f out, free_lease ca j'))"

definition exec_start ::
  "exec_call \<Rightarrow> string \<Rightarrow> bool \<Rightarrow> bool \<Rightarrow> int \<Rightarrow> journal \<Rightarrow> execution_outcome option \<times> journal" where
  "exec_start ca i aborted stopFile now j =
     (let lateStop = stopReason stopFile j
      in if lateStop \<noteq> None \<or> aborted then
           (let (out, j') = close_with ca i \<lparr>ff_state = Interrupted,
                  ff_reason = Some (nullish lateStop (RText ''stopped_before_start'')), ff_exitCode = None,
                  ff_outputSha256 = None, ff_receipt = None, ff_at = now\<rparr> '''' j
            in (Some out, j'))
         else (case markStarted i now j of
             Inl e \<Rightarrow> (Some (Threw e), free_lease ca j)
           | Inr j' \<Rightarrow> (None, j')))"

record receipt_body =
  rb_execution_id :: string
  rb_host_id :: string
  rb_mandate_id :: string
  rb_action_hash :: string
  rb_state :: execution_state
  rb_exit_code :: "int option"
  rb_output_sha256 :: string
  rb_finished_at :: int

definition RECEIPT_VERSION :: string where
  "RECEIPT_VERSION = ''ronor-execution-receipt/v2''"

definition receipt_json :: "'k lib \<Rightarrow> receipt_body \<Rightarrow> json" where
  "receipt_json L b = JObj [(''execution_id'', JStr (rb_execution_id b)), (''host_id'', JStr (rb_host_id b)),
     (''mandate_id'', JStr (rb_mandate_id b)), (''action_hash'', JStr (rb_action_hash b)),
     (''state'', JStr (if rb_state b = Done then ''done'' else ''failed'')),
     (''exit_code'', (case rb_exit_code b of None \<Rightarrow> JNull | Some x \<Rightarrow> JNum (lib_numText L (js_int x)))),
     (''output_sha256'', JStr (rb_output_sha256 b)), (''finished_at'', JStr (lib_iso L (rb_finished_at b)))]"

definition receipt_text :: "'k lib \<Rightarrow> receipt_body \<Rightarrow> string" where
  "receipt_text L b = projr (canonicalJson 0 (receipt_json L b))"

definition verifyExecutionReceipt :: "'k lib \<Rightarrow> receipt_body \<Rightarrow> string option \<Rightarrow> 'k \<Rightarrow> bool" where
  "verifyExecutionReceipt L b receipt pub = verifyDomain L RECEIPT_VERSION (receipt_text L b) receipt pub"

definition run_succeeded :: "execution_plan \<Rightarrow> run_result \<Rightarrow> bool" where
  "run_succeeded plan r \<longleftrightarrow> rr_outcome r = Completed \<and>
     (case plan of HttpPlan _ _ _ \<Rightarrow> (case rr_exitCode r of None \<Rightarrow> False | Some x \<Rightarrow> 200 \<le> x \<and> x < 300)
      | SpawnPlan _ _ _ _ \<Rightarrow> rr_exitCode r = Some 0)"

definition receipt_of :: "'k executor_config \<Rightarrow> exec_call \<Rightarrow> string \<Rightarrow> run_result \<Rightarrow> int \<Rightarrow> receipt_body" where
  "receipt_of c ca i r now =
     \<lparr>rb_execution_id = i, rb_host_id = ec_host_id (xc_catalog c), rb_mandate_id = md_mandate_id (ca_mandate ca),
      rb_action_hash = ca_hash ca, rb_state = (if run_succeeded (ca_plan ca) r then Done else Failed),
      rb_exit_code = rr_exitCode r, rb_output_sha256 = lib_sha256 (xc_lib c) (rr_output r), rb_finished_at = now\<rparr>"

text \<open>How an execution is closed, from the runner's result.\<close>

definition finish_of ::
  "'k executor_config \<Rightarrow> exec_call \<Rightarrow> string \<Rightarrow> run_result \<Rightarrow> bool \<Rightarrow> bool \<Rightarrow> int \<Rightarrow> journal \<Rightarrow> finish_fields" where
  "finish_of c ca i r aborted stopFile now j =
     (let L = xc_lib c; sha = lib_sha256 L (rr_output r);
          note = (\<lambda>why. case rr_halt r of None \<Rightarrow> why | Some h \<Rightarrow> RUnit why (hr_activeState h) (hr_subState h))
      in if rr_outcome r = RunAborted \<or> aborted then
           (let why = nullish (stopReason stopFile j)
                  (RText (if isRevoked MandateRevocation (Some (md_mandate_id (ca_mandate ca))) j
                          then ''mandate_revoked_during_execution'' else ''approval_revoked_during_execution''));
                unconfirmed = has_unit ca \<and> \<not> (case rr_halt r of None \<Rightarrow> False | Some h \<Rightarrow> hr_confirmed h)
            in \<lparr>ff_state = (if unconfirmed then InterruptUnconfirmed else Interrupted), ff_reason = Some (note why),
                ff_exitCode = rr_exitCode r, ff_outputSha256 = Some sha, ff_receipt = None, ff_at = now\<rparr>)
         else if rr_outcome r = TimedOut \<and> (case rr_halt r of None \<Rightarrow> False | Some h \<Rightarrow> \<not> hr_confirmed h) then
           \<lparr>ff_state = InterruptUnconfirmed, ff_reason = Some (note (RText ''timed_out'')),
            ff_exitCode = rr_exitCode r, ff_outputSha256 = Some sha, ff_receipt = None, ff_at = now\<rparr>
         else
           \<lparr>ff_state = (if run_succeeded (ca_plan ca) r then Done else Failed),
            ff_reason = (if run_succeeded (ca_plan ca) r then None else Some (ROutcome (rr_outcome r) (rr_exitCode r))),
            ff_exitCode = rr_exitCode r, ff_outputSha256 = Some sha,
            ff_receipt = Some (lib_sign L RECEIPT_VERSION (receipt_text L (receipt_of c ca i r now)) (xc_receiptKey c)),
            ff_at = now\<rparr>)"

definition exec_finish ::
  "'k executor_config \<Rightarrow> exec_call \<Rightarrow> string \<Rightarrow> run_result \<Rightarrow> bool \<Rightarrow> bool \<Rightarrow> int \<Rightarrow> journal
     \<Rightarrow> execution_outcome \<times> journal" where
  "exec_finish c ca i r aborted stopFile now j =
     close_with ca i (finish_of c ca i r aborted stopFile now j) (rr_output r) j"

section \<open>The system\<close>

text \<open>A thread is one call of \<open>execute\<close> in one process; the flag is its abort signal.\<close>

datatype exec_thread =
    AwaitUnit int exec_call
  | AdmittedThread int exec_call string bool
  | Running int exec_call string bool
  | Returned int execution_outcome

text \<open>\<open>xs_effects\<close> records the calls of the runner: the execution's id and the call.\<close>

record exec_system =
  xs_journal :: journal
  xs_stopFile :: bool
  xs_threads :: "nat \<rightharpoonup> exec_thread"
  xs_effects :: "(string \<times> exec_call) list"

definition exec_init :: exec_system where
  "exec_init = \<lparr>xs_journal = journal_empty, xs_stopFile = False, xs_threads = Map.empty, xs_effects = []\<rparr>"

fun abort_thread :: "(int \<Rightarrow> exec_call \<Rightarrow> bool) \<Rightarrow> exec_thread \<Rightarrow> exec_thread" where
  "abort_thread p (AdmittedThread pid ca i ab) = AdmittedThread pid ca i (ab \<or> p pid ca)"
| "abort_thread p (Running pid ca i ab) = Running pid ca i (ab \<or> p pid ca)"
| "abort_thread p t = t"

definition abort_threads :: "(int \<Rightarrow> exec_call \<Rightarrow> bool) \<Rightarrow> exec_system \<Rightarrow> exec_system" where
  "abort_threads p s = s\<lparr>xs_threads := (\<lambda>k. map_option (abort_thread p) (xs_threads s k))\<rparr>"

definition executor_stop :: "int \<Rightarrow> string \<Rightarrow> exec_system \<Rightarrow> exec_system" where
  "executor_stop pid reason s =
     abort_threads (\<lambda>q _. q = pid) (s\<lparr>xs_journal := setStop True (Some reason) (xs_journal s)\<rparr>)"

definition executor_clearStop :: "string \<Rightarrow> exec_system \<Rightarrow> exec_system" where
  "executor_clearStop by_whom s = s\<lparr>xs_journal := setStop False (Some (''ridicat de '' @ by_whom)) (xs_journal s)\<rparr>"

definition revokeMandate :: "int \<Rightarrow> string \<Rightarrow> exec_system \<Rightarrow> exec_system" where
  "revokeMandate pid mid s =
     abort_threads (\<lambda>q ca. q = pid \<and> md_mandate_id (ca_mandate ca) = mid)
       (s\<lparr>xs_journal := journal_revoke MandateRevocation mid (xs_journal s)\<rparr>)"

definition revokeApproval :: "int \<Rightarrow> string \<Rightarrow> exec_system \<Rightarrow> exec_system" where
  "revokeApproval pid a s =
     abort_threads (\<lambda>q ca. q = pid \<and> ca_approvalId ca = Some a)
       (s\<lparr>xs_journal := journal_revoke ApprovalRevocation a (xs_journal s)\<rparr>)"

text \<open>The periodic check of a call in flight.\<close>

definition poll_aborts :: "exec_system \<Rightarrow> exec_call \<Rightarrow> bool" where
  "poll_aborts s ca \<longleftrightarrow> stopReason (xs_stopFile s) (xs_journal s) \<noteq> None
     \<or> isRevoked MandateRevocation (Some (md_mandate_id (ca_mandate ca))) (xs_journal s)
     \<or> isRevoked ApprovalRevocation (ca_approvalId ca) (xs_journal s)"

definition executor_poll :: "int \<Rightarrow> exec_system \<Rightarrow> exec_system" where
  "executor_poll pid s = abort_threads (\<lambda>q ca. q = pid \<and> poll_aborts s ca) s"

fun thread_pid :: "exec_thread \<Rightarrow> int" where
  "thread_pid (AwaitUnit pid ca) = pid"
| "thread_pid (AdmittedThread pid ca i ab) = pid"
| "thread_pid (Running pid ca i ab) = pid"
| "thread_pid (Returned pid out) = pid"

definition set_thread :: "nat \<Rightarrow> exec_thread \<Rightarrow> journal \<Rightarrow> exec_system \<Rightarrow> exec_system" where
  "set_thread k t j s = s\<lparr>xs_threads := (xs_threads s)(k \<mapsto> t), xs_journal := j\<rparr>"

inductive exec_step :: "'k executor_config \<Rightarrow> exec_system \<Rightarrow> exec_system \<Rightarrow> bool" for c where
  x_begin_return: "xs_threads s k = None \<Longrightarrow>
    exec_begin c rq now rnd (xs_stopFile s) (xs_journal s) = (Return out, j) \<Longrightarrow>
    exec_step c s (set_thread k (Returned pid out) j s)"
| x_begin_proceed: "xs_threads s k = None \<Longrightarrow>
    exec_begin c rq now rnd (xs_stopFile s) (xs_journal s) = (Proceed ca, j) \<Longrightarrow>
    exec_step c s (set_thread k (AwaitUnit pid ca) j s)"
| x_admit_return: "xs_threads s k = Some (AwaitUnit pid ca) \<Longrightarrow>
    exec_admit pid ca st (xs_stopFile s) i (xs_journal s) = (Inl out, j) \<Longrightarrow>
    exec_step c s (set_thread k (Returned pid out) j s)"
| x_admit: "xs_threads s k = Some (AwaitUnit pid ca) \<Longrightarrow>
    exec_admit pid ca st (xs_stopFile s) i (xs_journal s) = (Inr i', j) \<Longrightarrow>
    exec_step c s (set_thread k (AdmittedThread pid ca i' False) j s)"
| x_start_return: "xs_threads s k = Some (AdmittedThread pid ca i ab) \<Longrightarrow>
    exec_start ca i ab (xs_stopFile s) now (xs_journal s) = (Some out, j) \<Longrightarrow>
    exec_step c s (set_thread k (Returned pid out) j s)"
| x_start: "xs_threads s k = Some (AdmittedThread pid ca i ab) \<Longrightarrow>
    exec_start ca i ab (xs_stopFile s) now (xs_journal s) = (None, j) \<Longrightarrow>
    exec_step c s (set_thread k (Running pid ca i ab) j (s\<lparr>xs_effects := xs_effects s @ [(i, ca)]\<rparr>))"
| x_finish: "xs_threads s k = Some (Running pid ca i ab) \<Longrightarrow>
    exec_finish c ca i r ab (xs_stopFile s) now (xs_journal s) = (out, j) \<Longrightarrow>
    exec_step c s (set_thread k (Returned pid out) j s)"
| x_stop: "exec_step c s (executor_stop pid reason s)"
| x_clear: "exec_step c s (executor_clearStop who s)"
| x_stopFile: "exec_step c s (s\<lparr>xs_stopFile := b\<rparr>)"
| x_revoke_mandate: "exec_step c s (revokeMandate pid mid s)"
| x_revoke_approval: "exec_step c s (revokeApproval pid a s)"
| x_poll: "exec_step c s (executor_poll pid s)"
| x_crash: "exec_step c s (s\<lparr>xs_threads := (\<lambda>k. case xs_threads s k of
      Some t \<Rightarrow> if thread_pid t = pid then None else Some t | None \<Rightarrow> None)\<rparr>)"
| x_open: "exec_step c s (s\<lparr>xs_journal := journal_open alive now (xs_journal s)\<rparr>)"

abbreviation exec_reachable :: "'k executor_config \<Rightarrow> exec_system \<Rightarrow> bool" where
  "exec_reachable c s \<equiv> (exec_step c)\<^sup>*\<^sup>* exec_init s"

end
