(* ===== verification/MandateFacts.thy ===== *)
theory MandateFacts imports Mandate begin

text \<open>
  What mandates, approvals and typed actions guarantee: a verified approval is a human operator's,
  fresh, and for one exact action; a mandate issued by the code verifies and validates in its
  window; a typed action carries only the arguments of its type.
\<close>

section \<open>Canonical objects\<close>

lemma json_norm_objD:
  assumes "json_norm (JObj es) = json_norm (JObj fs)" "distinct (map fst es)" "distinct (map fst fs)"
  shows "map_option json_norm (map_of es k) = map_option json_norm (map_of fs k)"
proof -
  have "set (norm_pairs es) = set (norm_pairs fs)"
    using assms(1) by simp (metis set_sort)
  moreover have "distinct (map fst (norm_pairs es))" "distinct (map fst (norm_pairs fs))"
    using assms(2,3) by (simp_all add: norm_pairs_map o_def case_prod_unfold)
  ultimately have "map_of (norm_pairs es) = map_of (norm_pairs fs)" by (simp add: map_of_inject_set)
  moreover have "map_of (norm_pairs xs) k = map_option json_norm (map_of xs k)" for xs
    by (simp add: norm_pairs_map map_of_map)
  ultimately show ?thesis by metis
qed

lemma canonicalJson_strings:
  assumes "\<forall>(k, v)\<in>set es. \<exists>s. v = JStr s" "d < 16"
  shows "canonicalJson d (JObj es) = Inr (render (json_norm (JObj es)))"
proof -
  have item: "canonicalJson (d + 1) v = Inr (render (json_norm v))" if "(k, v) \<in> set es" for k v
    using assms that by (auto simp: canonicalJson.simps)
  let ?es = "sort_key fst es"
  have "map entry_text (sort_key fst (canonical_entries (d + 1) es))
      = map (\<lambda>(k, v). entry_text (k, canonicalJson (d + 1) v)) ?es"
    unfolding canonical_entries_map sort_key_map_snd by (simp add: o_def case_prod_unfold)
  also have "\<dots> = map Inr (map (\<lambda>(k, v). quote k @ '':'' @ render (json_norm v)) ?es)"
    using item by (auto simp: entry_text_def)
  finally have "sequence (map entry_text (sort_key fst (canonical_entries (d + 1) es)))
      = Inr (map (\<lambda>(k, v). quote k @ '':'' @ render (json_norm v)) ?es)"
    by (simp add: sequence_Inr_iff)
  moreover have "render_pairs (sort_key fst (norm_pairs es)) = map (\<lambda>(k, v). quote k @ '':'' @ render (json_norm v)) ?es"
    unfolding norm_pairs_map sort_key_map_snd render_pairs_map by (simp add: o_def case_prod_unfold)
  ultimately show ?thesis using assms(2) by (simp add: canonicalJson.simps[of d "JObj es"] bracket_def)
qed

lemma approval_payload_ok: "canonicalJson 0 (approval_json a) = Inr (approval_payload a)"
  unfolding approval_payload_def approval_json_def by (subst (1 2) canonicalJson_strings) auto

lemma js_value_approval: "js_value (approval_json a)"
  by (simp add: approval_json_def)

lemma approval_payload_inj:
  assumes "approval_payload a = approval_payload b"
  shows "a\<lparr>aa_signature := ''''\<rparr> = b\<lparr>aa_signature := ''''\<rparr>"
proof -
  have "json_norm (approval_json a) = json_norm (approval_json b)"
    using canonicalJson_inj[OF js_value_approval js_value_approval approval_payload_ok approval_payload_ok[of b, folded assms]] .
  then have field: "map_option json_norm (map_of es k) = map_option json_norm (map_of fs k)"
    if "approval_json a = JObj es" "approval_json b = JObj fs" for es fs k
    using that js_value_approval[of a] js_value_approval[of b] by (intro json_norm_objD) auto
  note f = field[OF approval_json_def approval_json_def]
  have "aa_approval_id a = aa_approval_id b" using f[of "''approval_id''"] by simp
  moreover have "aa_mandate_id a = aa_mandate_id b" using f[of "''mandate_id''"] by simp
  moreover have "aa_action_hash a = aa_action_hash b" using f[of "''action_hash''"] by simp
  moreover have "aa_approver_key_id a = aa_approver_key_id b" using f[of "''approver_key_id''"] by simp
  moreover have "aa_channel a = aa_channel b" using f[of "''channel''"] by simp
  moreover have "aa_origin a = aa_origin b"
    using f[of "''origin''"] by (cases "aa_origin a"; cases "aa_origin b") auto
  moreover have "aa_issued_at a = aa_issued_at b" using f[of "''issued_at''"] by simp
  moreover have "aa_expires_at a = aa_expires_at b" using f[of "''expires_at''"] by simp
  ultimately show ?thesis by simp
qed

section \<open>Approvals\<close>

lemma verify_approval_InrD:
  assumes "verifyActuationApproval L v mid h now keys = Inr a"
  shows "isApprovalShape v = Some a
    \<and> (\<exists>key. map_of keys (aa_approver_key_id a) = Some key
         \<and> lib_verify L APPROVAL_VERSION (approval_payload a) (aa_signature a) key)
    \<and> aa_origin a = OperatorOrigin \<and> aa_mandate_id a = mid \<and> aa_action_hash a = h
    \<and> js_le (lib_dateParse L (aa_issued_at a)) (js_int now)
    \<and> js_less (js_int now) (lib_dateParse L (aa_expires_at a))
    \<and> js_le (js_minus (lib_dateParse L (aa_expires_at a)) (lib_dateParse L (aa_issued_at a))) (js_int MAX_APPROVAL_TTL_MS)"
proof -
  obtain key where shape: "isApprovalShape v = Some a" and key: "map_of keys (aa_approver_key_id a) = Some key"
    and sig: "verifyDomain L APPROVAL_VERSION (approval_payload a) (Some (aa_signature a)) key"
    and bind: "aa_origin a = OperatorOrigin" "aa_mandate_id a = mid" "aa_action_hash a = h"
    and fin: "js_finite (lib_dateParse L (aa_issued_at a))" "js_finite (lib_dateParse L (aa_expires_at a))"
    and win: "\<not> js_less (js_int MAX_APPROVAL_TTL_MS) (js_minus (lib_dateParse L (aa_expires_at a)) (lib_dateParse L (aa_issued_at a)))"
      "\<not> js_less (js_int now) (lib_dateParse L (aa_issued_at a))"
      "\<not> js_le (lib_dateParse L (aa_expires_at a)) (js_int now)"
    using assms by (auto simp: verifyActuationApproval_def Let_def split: option.splits if_splits)
  obtain i e where "lib_dateParse L (aa_issued_at a) = Num i" "lib_dateParse L (aa_expires_at a) = Num e"
    using fin by (cases "lib_dateParse L (aa_issued_at a)"; cases "lib_dateParse L (aa_expires_at a)") auto
  with win shape key sig bind show ?thesis
    by (auto simp: verifyDomain_def js_int_def split: if_splits)
qed

lemma js_value_action: "distinct (map fst (ai_args i)) \<Longrightarrow> js_entries (ai_args i) \<Longrightarrow> js_value (action_json i)"
  by (simp add: action_json_def)

lemma actionHash_inj:
  assumes "actionHash L i = Inr h" "actionHash L j = Inr h" "js_value (action_json i)" "js_value (action_json j)"
    and "\<forall>s t. canonicalJson 0 (action_json i) = Inr s \<longrightarrow> canonicalJson 0 (action_json j) = Inr t \<longrightarrow>
           lib_sha256 L s = lib_sha256 L t \<longrightarrow> s = t"
  shows "ai_host_id i = ai_host_id j \<and> ai_mandate_id i = ai_mandate_id j \<and> ai_type i = ai_type j
    \<and> ai_resource i = ai_resource j \<and> json_norm (JObj (ai_args i)) = json_norm (JObj (ai_args j))"
proof -
  obtain s t where st: "canonicalJson 0 (action_json i) = Inr s" "canonicalJson 0 (action_json j) = Inr t"
    "lib_sha256 L s = lib_sha256 L t"
    using assms(1,2) by (cases "canonicalJson 0 (action_json i)"; cases "canonicalJson 0 (action_json j)")
      (auto simp: actionHash_def)
  with assms(5) have "s = t" by blast
  with st canonicalJson_inj[OF assms(3,4)] have "json_norm (action_json i) = json_norm (action_json j)" by blast
  then have f: "map_option json_norm (map_of es k) = map_option json_norm (map_of fs k)"
    if "action_json i = JObj es" "action_json j = JObj fs" for es fs k
    using that assms(3,4) by (intro json_norm_objD) auto
  note f = f[OF action_json_def action_json_def]
  show ?thesis
    using f[of "''host_id''"] f[of "''mandate_id''"] f[of "''type''"] f[of "''resource''"] f[of "''args''"]
    by (simp del: json_norm.simps(2))
qed

text \<open>An approval that verifies for an action is a statement about that action alone: it was signed
  under a known approver's key, with the operator as its origin, is inside a window of at most 15
  minutes, and if it also verifies for a second action then the two actions agree in host, mandate,
  type, resource and arguments, unless SHA-256 collides on their canonical texts.\<close>

theorem approval_authorizes_one_action:
  assumes "verifyActuationApproval L v mid h now keys = Inr a"
    and "verifyActuationApproval L v mid' h' now' keys = Inr a'"
    and "actionHash L i = Inr h" "actionHash L j = Inr h'"
    and "js_value (action_json i)" "js_value (action_json j)"
    and "\<forall>s t. canonicalJson 0 (action_json i) = Inr s \<longrightarrow> canonicalJson 0 (action_json j) = Inr t \<longrightarrow>
           lib_sha256 L s = lib_sha256 L t \<longrightarrow> s = t"
  shows "aa_origin a = OperatorOrigin
    \<and> (\<exists>key. map_of keys (aa_approver_key_id a) = Some key
         \<and> lib_verify L APPROVAL_VERSION (approval_payload a) (aa_signature a) key)
    \<and> js_le (lib_dateParse L (aa_issued_at a)) (js_int now)
    \<and> js_less (js_int now) (lib_dateParse L (aa_expires_at a))
    \<and> js_le (js_minus (lib_dateParse L (aa_expires_at a)) (lib_dateParse L (aa_issued_at a))) (js_int 900000)
    \<and> ai_host_id i = ai_host_id j \<and> ai_mandate_id i = ai_mandate_id j \<and> ai_type i = ai_type j
    \<and> ai_resource i = ai_resource j \<and> json_norm (JObj (ai_args i)) = json_norm (JObj (ai_args j))"
proof -
  note a = verify_approval_InrD[OF assms(1)] and a' = verify_approval_InrD[OF assms(2)]
  from a a' have "h = h'" by auto
  with assms(4) have "actionHash L j = Inr h" by simp
  from actionHash_inj[OF assms(3) this assms(5-7)] a show ?thesis by (simp add: MAX_APPROVAL_TTL_MS_def)
qed

text \<open>A platform for the worked examples: everything verifies, dates are their lengths.\<close>

definition toy_lib :: "unit lib" where
  "toy_lib = \<lparr>lib_sha256 = (\<lambda>_. replicate 64 CHR ''a''), lib_verify = (\<lambda>_ _ _ _. True),
     lib_sign = (\<lambda>_ _ _. replicate 86 CHR ''s''), lib_keyId = (\<lambda>_. ''key_000000000000''),
     lib_isPrivate = (\<lambda>_. True), lib_dateParse = (\<lambda>s. js_int (int (length s))),
     lib_iso = (\<lambda>t. replicate (nat t) CHR ''i''), lib_numText = (\<lambda>_. ''0''), lib_forbidden = (\<lambda>_. None)\<rparr>"

definition toy_approval :: json where
  "toy_approval = JObj [(''action_hash'', JStr (replicate 64 CHR ''a'')), (''approval_id'', JStr (''appr_'' @ replicate 32 CHR ''0'')),
     (''approver_key_id'', JStr ''key_000000000000''), (''channel'', JStr ''console''), (''expires_at'', JStr ''xxxxx''),
     (''issued_at'', JStr ''x''), (''mandate_id'', JStr ''m''), (''origin'', JStr ''operator''),
     (''signature'', JStr (replicate 86 CHR ''s'')), (''version'', JStr APPROVAL_VERSION)]"

lemma toy_approval_verifies:
  "verifyActuationApproval toy_lib toy_approval ''m'' (replicate 64 CHR ''a'') 2 [(''key_000000000000'', ())] =
     Inr \<lparr>aa_approval_id = ''appr_'' @ replicate 32 CHR ''0'', aa_mandate_id = ''m'',
       aa_action_hash = replicate 64 CHR ''a'', aa_approver_key_id = ''key_000000000000'',
       aa_channel = ''console'', aa_origin = OperatorOrigin, aa_issued_at = ''x'', aa_expires_at = ''xxxxx'',
       aa_signature = replicate 86 CHR ''s''\<rparr>"
proof -
  have keys: "[''action_hash'', ''approval_id'', ''approver_key_id'', ''channel'', ''expires_at'',
     ''issued_at'', ''mandate_id'', ''origin'', ''signature'', ''version''] = approval_keys"
    by (simp add: approval_keys_def)
  have sorted: "sort approval_keys = approval_keys"
    by (simp add: approval_keys_def Cons_le_Cons less_char_def less_eq_char_def)
  have hex: "list_all is_hex (replicate n CHR ''0'')" "list_all is_hex (replicate n CHR ''a'')"
    "list_all is_alnum (replicate n CHR ''s'')" for n
    by (auto simp: list_all_iff is_hex_def is_alnum_def is_lower_def)
  have shape: "isApprovalShape toy_approval = Some \<lparr>aa_approval_id = ''appr_'' @ replicate 32 CHR ''0'', aa_mandate_id = ''m'',
       aa_action_hash = replicate 64 CHR ''a'', aa_approver_key_id = ''key_000000000000'',
       aa_channel = ''console'', aa_origin = OperatorOrigin, aa_issued_at = ''x'', aa_expires_at = ''xxxxx'',
       aa_signature = replicate 86 CHR ''s''\<rparr>"
    by (simp add: keys sorted isApprovalShape_def toy_approval_def str_prop_def prop_of_def REQUEST_ORIGINS_def
        tagged_hex_def hex_text_def hex bounded_str_def is_hex_def)
  have sig: "verifyDomain toy_lib d p (Some (replicate 86 CHR ''s'')) k" for d p k
    by (simp add: verifyDomain_def signature_text_def toy_lib_def list_all_iff is_alnum_def is_lower_def)
  have dates: "lib_dateParse toy_lib s = js_int (int (length s))" for s by (simp add: toy_lib_def)
  show ?thesis by (simp add: verifyActuationApproval_def shape sig dates Let_def js_int_def MAX_APPROVAL_TTL_MS_def)
qed

theorem approval_authorizes_one_action_witness:
  "let i = \<lparr>ai_host_id = ''h'', ai_mandate_id = ''m'', ai_type = ''ops.actuate'',
             ai_args = [(''device'', JStr ''d''), (''command'', JStr ''restart'')], ai_resource = ''unit:u''\<rparr>
   in actionHash toy_lib i = Inr (replicate 64 CHR ''a'')
      \<and> (\<exists>a. verifyActuationApproval toy_lib toy_approval ''m'' (replicate 64 CHR ''a'') 2 [(''key_000000000000'', ())] = Inr a
           \<and> aa_origin a = OperatorOrigin)"
proof -
  let ?i = "\<lparr>ai_host_id = ''h'', ai_mandate_id = ''m'', ai_type = ''ops.actuate'',
             ai_args = [(''device'', JStr ''d''), (''command'', JStr ''restart'')], ai_resource = ''unit:u''\<rparr>"
  have "\<exists>s. canonicalJson 0 (action_json ?i) = Inr s"
    by (simp add: action_json_def canonicalJson.simps bracket_def sequence.simps entry_text_def split: sum.splits)
  then have h: "actionHash toy_lib ?i = Inr (replicate 64 CHR ''a'')"
    by (auto simp: actionHash_def toy_lib_def)
  have js: "js_value (action_json ?i)" by (rule js_value_action) simp_all
  show ?thesis
    using approval_authorizes_one_action[OF toy_approval_verifies toy_approval_verifies h h js js] h
      toy_approval_verifies by (simp add: Let_def)
qed

section \<open>Mandates\<close>

lemma opsMandatePayload_unsigned [simp]:
  "opsMandatePayload L (m\<lparr>md_authority_signature := s\<rparr>) = opsMandatePayload L m"
  by (simp add: opsMandatePayload_def)

text \<open>What signing and verification promise each other, and \<open>toISOString\<close> and \<open>Date.parse\<close>.\<close>

definition signs_for :: "'k lib \<Rightarrow> 'k \<Rightarrow> 'k keyring \<Rightarrow> bool" where
  "signs_for L key keys \<longleftrightarrow>
     (\<exists>pub. map_of keys (lib_keyId L key) = Some pub
        \<and> (\<forall>d t. signature_text (lib_sign L d t key) \<and> lib_verify L d t (lib_sign L d t key) pub))
     \<and> tagged_hex ''key_'' 12 (lib_keyId L key)"

definition dates_parse :: "'k lib \<Rightarrow> bool" where
  "dates_parse L \<longleftrightarrow> (\<forall>t\<ge>0. lib_dateParse L (lib_iso L t) = js_int t)"

lemma js_integer_floor: "js_integer x \<Longrightarrow> x = js_int (js_floor x)"
  by (cases x) (auto simp: js_int_def)

lemma js_integer_bounds:
  assumes "js_integer x" "\<not> js_less x (js_int a)" "\<not> js_less (js_int b) x"
  shows "a \<le> js_floor x \<and> js_floor x \<le> b"
proof -
  have "x = js_int (js_floor x)" by (rule js_integer_floor[OF assms(1)])
  with assms(2,3) show ?thesis by (metis js_int_less linorder_not_less)
qed

text \<open>Issuing and checking a mandate are inverse to each other: a mandate that is issued verifies
  against the issuer's public key; it validates for its own host and objective exactly in its
  window of \<open>ttlMinutes\<close> minutes; and it delegates observation, and actuation only when asked for.\<close>

theorem issued_mandate_accepted:
  assumes "issueOperationsMandate L rnd now rq key = Inr m"
    and "signs_for L key keys" "dates_parse L" "0 \<le> now"
  shows "verifyOperationsMandate L m keys
    \<and> (\<forall>t. validateMandate L m (opsMandateContext (ir_hostId rq) (ir_objective rq)) t = None \<longleftrightarrow>
          now \<le> t \<and> t < now + js_floor (ir_ttlMinutes rq) * 60000)
    \<and> operatorTypesFromMandate m = (if ir_allowActuate rq then [OpsObserve, OpsActuate] else [OpsObserve])"
proof -
  let ?u = "unsigned_mandate L rnd now rq key"
  from assms(1) obtain t s where ttl: "js_integer (ir_ttlMinutes rq)" "\<not> js_less (ir_ttlMinutes rq) (js_int 1)"
      "\<not> js_less (js_int 240) (ir_ttlMinutes rq)"
    and t: "opsMandatePayload L ?u = Inr t" and s: "s = lib_sign L OPS_MANDATE_VERSION t key"
    and m: "m = ?u\<lparr>md_authority_signature := Some s\<rparr>"
    by (auto simp: issueOperationsMandate_def Let_def signDomain_def split: if_splits sum.splits)
  note u = unsigned_mandate_def[of L rnd now rq key] opsMandateContext_def
  have bounds: "1 \<le> js_floor (ir_ttlMinutes rq)" "ir_ttlMinutes rq = js_int (js_floor (ir_ttlMinutes rq))"
    using js_integer_bounds[OF ttl] js_integer_floor[OF ttl(1)] by auto
  have verify: "verifyOperationsMandate L m keys"
  proof -
    have "md_authority_version m = Some OPS_MANDATE_VERSION" "md_issued_by_key_id m = lib_keyId L key"
      "md_authority_signature m = Some s" "opsMandatePayload L m = Inr t" by (simp_all add: m t) (simp_all add: u Let_def)
    with assms(2) show ?thesis by (auto simp: verifyOperationsMandate_def s signs_for_def verifyDomain_def)
  qed
  have denied: "\<not> list_ex (\<lambda>a. a \<in> set ALWAYS_DENIED_ACTIONS) (md_allowed_actions m)"
    by (simp add: m u Let_def ALWAYS_DENIED_ACTIONS_def)
  have dates: "lib_dateParse L (md_issued_at m) = js_int now"
    "lib_dateParse L (md_expires_at m) = js_int (now + js_floor (ir_ttlMinutes rq) * 60000)"
    using assms(3,4) bounds(1) by (auto simp: dates_parse_def m u Let_def)
  have "js_le (ir_ttlMinutes rq) (js_int 0) \<longleftrightarrow> js_floor (ir_ttlMinutes rq) \<le> 0" by (metis bounds(2) js_int_le)
  with bounds(1) have runtime: "\<not> js_le (md_max_runtime_minutes m) (js_int 0)" by (simp add: m u Let_def)
  have "validateMandate L m (opsMandateContext (ir_hostId rq) (ir_objective rq)) x = None \<longleftrightarrow>
      now \<le> x \<and> x < now + js_floor (ir_ttlMinutes rq) * 60000" for x
  proof -
    have f: "md_issued_by m = ''merlin''" "md_issued_by_key_id m = lib_keyId L key"
      "md_objective_hash m = objectiveHash L (ir_objective rq)" "md_workspace_root m = ''ops://'' @ ir_hostId rq"
      "md_branch_prefix m = ''ops/'' @ ir_hostId rq" "md_max_cost_usd m = js_int 0" "md_max_fix_cycles m = js_int 0"
      by (simp_all add: m) (simp_all add: unsigned_mandate_def Let_def opsMandateContext_def)
    have k: "tagged_hex ''key_'' 12 (lib_keyId L key)" using assms(2) by (simp add: signs_for_def)
    show ?thesis
      unfolding validateMandate_def dates f using k denied runtime
      by (simp add: opsMandateContext_def branchMatchesPolicy_def)
  qed
  moreover have "operatorTypesFromMandate m = (if ir_allowActuate rq then [OpsObserve, OpsActuate] else [OpsObserve])"
    by (simp add: operatorTypesFromMandate_def OPERATOR_ACTION_TYPES_def m u Let_def ALWAYS_DENIED_ACTIONS_def DEFAULT_ALLOWED_ACTIONS_def)
  ultimately show ?thesis using verify by blast
qed

definition toy_request :: issue_request where
  "toy_request = \<lparr>ir_missionId = ''mission'', ir_objective = ''objective'', ir_hostId = ''h'', ir_allowActuate = True,
     ir_ttlMinutes = Num 10\<rparr>"

lemma toy_signs_for: "signs_for toy_lib () [(''key_000000000000'', ())]"
  by (simp add: signs_for_def toy_lib_def signature_text_def tagged_hex_def hex_text_def is_hex_def
      list_all_iff is_alnum_def is_lower_def)

lemma toy_issue: "\<exists>m. issueOperationsMandate toy_lib ''r'' 60000 toy_request () = Inr m"
proof -
  have "\<exists>t. opsMandatePayload toy_lib (unsigned_mandate toy_lib ''r'' 60000 toy_request ()) = Inr t"
    by (simp add: opsMandatePayload_def unsigned_mandate_def Let_def toy_request_def canonicalJson.simps bracket_def
        opt_entry_def num_json_def js_int_def entry_text_def ALWAYS_DENIED_ACTIONS_def DEFAULT_ALLOWED_ACTIONS_def
        split: sum.splits)
  then show ?thesis
    by (auto simp: issueOperationsMandate_def Let_def signDomain_def toy_request_def js_int_def js_trim_def is_space_def)
      (simp_all add: toy_lib_def)
qed

theorem issued_mandate_accepted_witness:
  "\<exists>m. issueOperationsMandate toy_lib ''r'' 60000 toy_request () = Inr m
     \<and> verifyOperationsMandate toy_lib m [(''key_000000000000'', ())]
     \<and> validateMandate toy_lib m (opsMandateContext ''h'' ''objective'') 61000 = None
     \<and> validateMandate toy_lib m (opsMandateContext ''h'' ''objective'') 660000 \<noteq> None"
proof -
  obtain m where m: "issueOperationsMandate toy_lib ''r'' 60000 toy_request () = Inr m" using toy_issue by blast
  have "dates_parse toy_lib" by (simp add: dates_parse_def toy_lib_def)
  from issued_mandate_accepted[OF m toy_signs_for this] m show ?thesis by (simp add: toy_request_def del: not_None_eq)
qed

text \<open>A mandate whose dates are not dates never expires: with an unparsable issue and expiry date both
  comparisons are false, so a mandate that is valid at one time is valid at every time.\<close>

theorem unparsable_dates_never_expire:
  assumes "lib_dateParse L (md_issued_at m) = NaN" "lib_dateParse L (md_expires_at m) = NaN"
  shows "validateMandate L m ctx t = validateMandate L m ctx t' \<and>
    validateMandate L m ctx t \<noteq> Some ''mandate_expired_or_not_yet_valid''"
  by (simp add: validateMandate_def assms)

theorem unparsable_dates_never_expire_witness:
  "\<exists>m. validateMandate (toy_lib\<lparr>lib_dateParse := (\<lambda>_. NaN)\<rparr>) m (opsMandateContext ''h'' ''objective'') 0 = None
     \<and> validateMandate (toy_lib\<lparr>lib_dateParse := (\<lambda>_. NaN)\<rparr>) m (opsMandateContext ''h'' ''objective'') (10 ^ 15) = None"
proof -
  let ?L = "toy_lib\<lparr>lib_dateParse := (\<lambda>_. NaN)\<rparr>"
  let ?m = "unsigned_mandate ?L ''r'' 0 toy_request ()"
  have "validateMandate ?L ?m (opsMandateContext ''h'' ''objective'') 0 = None"
    by (simp add: validateMandate_def unsigned_mandate_def Let_def toy_request_def opsMandateContext_def
        branchMatchesPolicy_def toy_lib_def tagged_hex_def hex_text_def is_hex_def objectiveHash_def
        ALWAYS_DENIED_ACTIONS_def js_int_def)
  moreover from unparsable_dates_never_expire[of ?L ?m]
  have "validateMandate ?L ?m (opsMandateContext ''h'' ''objective'') 0
      = validateMandate ?L ?m (opsMandateContext ''h'' ''objective'') (10 ^ 15)" by simp
  ultimately show ?thesis by metis
qed

section \<open>Typed actions\<close>

lemma strings_of_pairs_flat:
  assumes "\<forall>(k, v)\<in>set es. v = JUndefined \<or> (\<exists>s. v = JStr s)" "d \<le> 8" "length out + length es \<le> 200"
  shows "\<exists>ss. strings_of_pairs d out es = out @ ss \<and> set ss = {s. \<exists>k. (k, JStr s) \<in> set es}"
  using assms
proof (induction es arbitrary: out)
  case (Cons e es)
  obtain k v where e: "e = (k, v)" by (cases e)
  from Cons.prems(1) e consider "v = JUndefined" | s where "v = JStr s" by auto
  then show ?case
  proof cases
    case 1
    then have "stringsOf d out v = out" by (simp add: stringsOf.simps)
    with Cons.IH[of out] Cons.prems e 1 show ?thesis by simp
  next
    case (2 s)
    then have "stringsOf d out v = out @ [s]" using Cons.prems(2,3) by (simp add: stringsOf.simps)
    moreover obtain ss where "strings_of_pairs d (out @ [s]) es = (out @ [s]) @ ss"
      "set ss = {s. \<exists>k. (k, JStr s) \<in> set es}"
      using Cons.IH[of "out @ [s]"] Cons.prems by auto
    ultimately show ?thesis using e 2 by (intro exI[of _ "s # ss"]) auto
  qed
qed simp

lemma validateArgs_NoneD:
  assumes "validateArgs t args = None" "distinct (map fst args)"
  shows "fst ` set args \<subseteq> set (allowed_arg_keys t) \<and> args_shape_ok t args
    \<and> (\<forall>(k, v)\<in>set args. v = JUndefined \<or> (\<exists>s. v = JStr s)) \<and> length args \<le> 2"
proof -
  have keys: "fst ` set args \<subseteq> set (allowed_arg_keys t)" and ok: "args_shape_ok t args"
    using assms(1) by (auto simp: validateArgs_def find_None_iff split: option.splits prod.splits if_splits)
  have "length args = card (fst ` set args)" using assms(2) by (metis distinct_card length_map list.set_map)
  also have "\<dots> \<le> card (set (allowed_arg_keys t))" using keys by (intro card_mono) auto
  also have "\<dots> \<le> length (allowed_arg_keys t)" by (rule card_length)
  also have "\<dots> \<le> 2" by (cases t) auto
  finally have len: "length args \<le> 2" .
  have "v = JUndefined \<or> (\<exists>s. v = JStr s)" if kv: "(k, v) \<in> set args" for k v
  proof -
    have "prop_of args k = v" using kv assms(2) by (simp add: prop_of_def)
    moreover have "k \<in> set (allowed_arg_keys t)" using keys kv by force
    moreover have "\<exists>s. prop_of args x = JStr s" if "str_prop args x \<noteq> None" for x
      using that by (auto simp: str_prop_def split: json.splits)
    ultimately show ?thesis using ok
      by (cases t) (auto simp: args_shape_ok_def sat_str_def isRelativeSafePath_def split: option.splits)
  qed
  with keys ok len show ?thesis by blast
qed

text \<open>Typed actions are confined: an action that passes under a valid mandate has a type whose mandate
  action is permitted and is none of the always-denied ones (so nothing is ever sent outside), carries
  no argument but those of its type, each of them well-formed, and no text a forbidden pattern
  matches.\<close>

theorem typed_action_confined:
  assumes "validateMandate L m ctx now = None"
    and "evaluateTypedOperatorAction L action (operatorTypesFromMandate m) = Inr (t, args)"
    and "js_value action"
  shows "(\<exists>a. operator_mandate_action t = Some a \<and> actionPermitted m a \<and> a \<notin> set ALWAYS_DENIED_ACTIONS)
    \<and> t \<noteq> NotifySend \<and> fst ` set args \<subseteq> set (allowed_arg_keys t) \<and> args_shape_ok t args
    \<and> (\<forall>(k, v)\<in>set args. case v of JStr s \<Rightarrow> lib_forbidden L s = None | _ \<Rightarrow> v = JUndefined)"
proof -
  obtain es where action: "action = JObj es" "prop_of es ''args'' = JObj args"
    and t: "t \<in> set (operatorTypesFromMandate m)" and args: "validateArgs t args = None"
    and texts: "checkForbidden L args = None"
    using assms(2) by (auto simp: evaluateTypedOperatorAction_def split: json.splits option.splits if_splits)
  have "(''args'', JObj args) \<in> set es"
    using action(2) by (auto simp: prop_of_def nullish_def split: option.splits dest: map_of_SomeD)
  then have js: "distinct (map fst args)" using assms(3) action(1) by (auto simp: js_entries_iff)
  note shape = validateArgs_NoneD[OF args js]
  have denied: "a \<notin> set ALWAYS_DENIED_ACTIONS" if "a \<in> set (md_allowed_actions m)" for a
    using assms(1) that by (auto simp: validateMandate_def list_ex_iff split: if_splits)
  obtain a where a: "operator_mandate_action t = Some a" "a \<in> set (md_allowed_actions m)" "a \<notin> set (md_denied_actions m)"
    using t by (auto simp: operatorTypesFromMandate_def split: option.splits)
  then have ok: "actionPermitted m a" "a \<notin> set ALWAYS_DENIED_ACTIONS" using denied by (auto simp: actionPermitted_def)
  have "t \<noteq> NotifySend" using a(1) ok(2) by (auto simp: ALWAYS_DENIED_ACTIONS_def)
  moreover have "lib_forbidden L s = None" if "(k, JStr s) \<in> set args" for k s
  proof -
    obtain ss where "strings_of_pairs 1 [] args = ss" "set ss = {s. \<exists>k. (k, JStr s) \<in> set args}"
      using strings_of_pairs_flat[of args 1 "[]"] shape by auto
    then have "s \<in> set (stringsOf 0 [] (JObj args))" using that by (auto simp: stringsOf.simps)
    with texts show ?thesis
      by (auto simp: checkForbidden_def Let_def find_None_iff split: if_splits option.splits dest: find_Some_iff[THEN iffD1])
  qed
  ultimately show ?thesis using a(1) ok shape by (fastforce split: json.splits)
qed

theorem typed_action_confined_witness:
  "\<exists>m. validateMandate toy_lib m (opsMandateContext ''h'' ''objective'') 61000 = None
     \<and> operator_mandate_action OpsActuate = Some ActOpsActuate \<and> actionPermitted m ActOpsActuate"
proof -
  let ?m = "unsigned_mandate toy_lib ''r'' 60000 toy_request ()"
  let ?action = "JObj [(''type'', JStr ''ops.actuate''),
     (''args'', JObj [(''device'', JStr ''api''), (''command'', JStr ''restart'')])]"
  have v: "validateMandate toy_lib ?m (opsMandateContext ''h'' ''objective'') 61000 = None"
    by (simp add: validateMandate_def unsigned_mandate_def Let_def toy_request_def opsMandateContext_def
        branchMatchesPolicy_def toy_lib_def tagged_hex_def hex_text_def is_hex_def objectiveHash_def
        ALWAYS_DENIED_ACTIONS_def js_int_def)
  have "evaluateTypedOperatorAction toy_lib ?action (operatorTypesFromMandate ?m)
      = Inr (OpsActuate, [(''device'', JStr ''api''), (''command'', JStr ''restart'')])"
    by (simp add: evaluateTypedOperatorAction_def prop_of_def OPERATOR_ACTION_TYPES_def operatorTypesFromMandate_def
        unsigned_mandate_def Let_def toy_request_def ALWAYS_DENIED_ACTIONS_def DEFAULT_ALLOWED_ACTIONS_def
        validateArgs_def args_shape_ok_def sat_str_def str_prop_def safe_action_id_def id_text_def is_alnum_def
        is_lower_def checkForbidden_def stringsOf.simps utf8_length_def toy_lib_def)
  from typed_action_confined[OF v this] v show ?thesis by (auto simp: js_entries_iff)
qed

end
