(* ===== verification/ExecutorFacts.thy ===== *)
theory ExecutorFacts imports Executor MandateFacts begin

text \<open>
  What the executor guarantees over every interleaving of calls, processes, STOP, revocations,
  crashes and restarts: effects are authorized, at most one per approval, none under STOP; receipts
  attest executions that ran.
\<close>

section \<open>The journal only moves by its own steps\<close>

lemma journal_step_star: "journal_step j j' \<Longrightarrow> journal_step\<^sup>*\<^sup>* j j'"
  by (rule r_into_rtranclp)

lemma revoke_steps: "journal_step\<^sup>*\<^sup>* j (journal_revoke k v j)"
  by (rule journal_step_star) (rule step_revoke)

lemma free_lease_steps [simp, intro]: "journal_step\<^sup>*\<^sup>* j (free_lease ca j)"
  unfolding free_lease_def by (rule journal_step_star) (rule step_release)

lemma free_lease_rows [simp]: "jl_executions (free_lease ca j) = jl_executions j"
  by (auto simp: free_lease_def releaseLease_def split: option.splits)

lemma claimLease_rows [simp]: "jl_executions (snd (claimLease r w d now j)) = jl_executions j"
  by (auto simp: claimLease_def Let_def split: option.splits)

lemma journal_revoke_rows [simp]: "jl_executions (journal_revoke k v j) = jl_executions j"
  by (simp add: journal_revoke_def)

lemma setStop_rows [simp]: "jl_executions (setStop b w j) = jl_executions j"
  by (simp add: setStop_def)

lemma approval_gate_journal:
  "snd (approval_gate c rq h res now j) = j \<or> (\<exists>a. snd (approval_gate c rq h res now j) = journal_revoke ApprovalRevocation a j)"
  by (auto simp: approval_gate_def Let_def split: option.splits sum.splits)

lemma exec_begin_journal:
  assumes "exec_begin c rq now rnd sf j = (out, j')"
  shows "journal_step\<^sup>*\<^sup>* j j' \<and> jl_executions j' = jl_executions j"
proof (cases "action_gate c rq now sf j")
  case (Inl x)
  with assms show ?thesis by (simp add: exec_begin_def)
next
  case (Inr y)
  obtain t args plan hash where y: "y = (t, args, plan, hash)" by (cases y)
  define gj where "gj = (if t = OpsActuate
      then (case approval_gate c rq hash (plan_resource plan) now j of
          (Inl out, j1) \<Rightarrow> (Inl out, j1)
        | (Inr a, j1) \<Rightarrow> (Inr (Some a, ''approval:'' @ a), j1))
      else (case observe_gate c rq hash rnd j of
          Inl out \<Rightarrow> (Inl out, j) | Inr k \<Rightarrow> (Inr (None, k), j)))"
  have j1: "snd gj = j \<or> (\<exists>a. snd gj = journal_revoke ApprovalRevocation a j)"
    using approval_gate_journal[of c rq hash "plan_resource plan" now j]
    by (auto simp: gj_def split: prod.splits sum.splits)
  then have "journal_step\<^sup>*\<^sup>* j (snd gj) \<and> jl_executions (snd gj) = jl_executions j"
    by (auto simp: revoke_steps)
  moreover have "j' = snd gj \<or> (\<exists>r w d. j' = snd (claimLease r w d now (snd gj)))"
    using assms Inr y
    by (auto simp: exec_begin_def Let_def gj_def[symmetric] split: prod.splits sum.splits) (metis snd_conv)+
  ultimately show ?thesis by (auto intro: step_claim rtranclp.rtrancl_into_rtrancl)
qed

lemma exec_admit_journal:
  assumes "exec_admit pid ca st sf i j = (out, j')"
  shows "journal_step\<^sup>*\<^sup>* j j'"
    and "out = Inr i' \<Longrightarrow> i' = i \<and> admit pid (admission_row i ca) j = Inr j'"
  using assms by (auto simp: exec_admit_def Let_def intro: journal_step_star step_admit split: option.splits sum.splits)

lemma close_with_journal:
  assumes "close_with ca i f txt j = (out, j')" "is_final (ff_state f)"
  shows "journal_step\<^sup>*\<^sup>* j j'"
  using assms by (auto simp: close_with_def split: sum.splits)
    (metis free_lease_steps step_finish converse_rtranclp_into_rtranclp)

lemma exec_start_journal:
  assumes "exec_start ca i ab sf now j = (out, j')"
  shows "journal_step\<^sup>*\<^sup>* j j'"
proof (cases "stopReason sf j \<noteq> None \<or> ab")
  case True
  with assms show ?thesis
    by (auto simp: exec_start_def Let_def is_final_def split: prod.splits intro: close_with_journal)
next
  case False
  with assms show ?thesis
    by (auto simp: exec_start_def Let_def split: sum.splits intro: journal_step_star step_start)
qed

lemma exec_start_NoneD:
  assumes "exec_start ca i ab sf now j = (None, j')"
  shows "stopReason sf j = None \<and> \<not> ab \<and> markStarted i now j = Inr j'"
  using assms by (auto simp: exec_start_def Let_def split: if_splits prod.splits sum.splits)

lemma finish_of_final: "is_final (ff_state (finish_of c ca i r ab sf now j))"
  by (simp add: finish_of_def Let_def is_final_def)

lemma exec_finish_journal:
  "exec_finish c ca i r ab sf now j = (out, j') \<Longrightarrow> journal_step\<^sup>*\<^sup>* j j'"
  unfolding exec_finish_def by (rule close_with_journal[OF _ finish_of_final])

lemma abort_threads_simps [simp]:
  "xs_journal (abort_threads p s) = xs_journal s" "xs_effects (abort_threads p s) = xs_effects s"
  "xs_stopFile (abort_threads p s) = xs_stopFile s"
  "xs_threads (abort_threads p s) k = map_option (abort_thread p) (xs_threads s k)"
  by (simp_all add: abort_threads_def)

lemma set_thread_simps [simp]:
  "xs_journal (set_thread k t j s) = j" "xs_effects (set_thread k t j s) = xs_effects s"
  "xs_threads (set_thread k t j s) = (xs_threads s)(k \<mapsto> t)"
  by (simp_all add: set_thread_def)

lemmas executor_event_defs = executor_stop_def executor_clearStop_def revokeMandate_def revokeApproval_def executor_poll_def

lemma exec_step_journal: "exec_step c s s' \<Longrightarrow> journal_step\<^sup>*\<^sup>* (xs_journal s) (xs_journal s')"
  by (induction rule: exec_step.induct)
    (auto simp: executor_event_defs intro: journal_step.intros journal_step_star
      dest: exec_begin_journal exec_admit_journal(1) exec_start_journal exec_finish_journal)

lemma exec_reachable_wf: "exec_reachable c s \<Longrightarrow> journal_wf (xs_journal s)"
proof (induction rule: rtranclp_induct)
  case base
  then show ?case by (simp add: exec_init_def journal_wf_def journal_empty_def approval_ids_def)
next
  case (step s t)
  then show ?case using exec_step_journal journal_steps by blast
qed


section \<open>Threads, effects and rows\<close>

text \<open>What the gates established about a call.\<close>

definition authorized :: "'k executor_config \<Rightarrow> exec_call \<Rightarrow> bool" where
  "authorized c ca \<longleftrightarrow>
     (let L = xc_lib c; m = ca_mandate ca; host = ec_host_id (xc_catalog c)
      in verifyOperationsMandate L m (xc_mandateKeys c)
         \<and> validateMandate L m (opsMandateContext host (ca_objective ca)) (ca_now ca) = None
         \<and> evaluateTypedOperatorAction L (ca_action ca) (operatorTypesFromMandate m) = Inr (ca_type ca, ca_args ca)
         \<and> planAction (xc_catalog c) (ca_type ca) (ca_args ca) = Inr (ca_plan ca)
         \<and> actionHash L \<lparr>ai_host_id = host, ai_mandate_id = md_mandate_id m, ai_type = type_name (ca_type ca),
              ai_args = ca_args ca, ai_resource = plan_resource (ca_plan ca)\<rparr> = Inr (ca_hash ca)
         \<and> (ca_type ca = OpsObserve \<and> ca_approvalId ca = None
            \<or> ca_type ca = OpsActuate
              \<and> (\<exists>a. verifyActuationApproval L (ca_approvalJson ca) (md_mandate_id m) (ca_hash ca) (ca_now ca)
                         (xc_approvalKeys c) = Inr a \<and> ca_approvalId ca = Some (aa_approval_id a))))"

lemma action_gate_InrD:
  assumes "action_gate c rq now sf j = Inr (t, args, plan, hash)"
  shows "verifyOperationsMandate (xc_lib c) (er_mandate rq) (xc_mandateKeys c)
    \<and> validateMandate (xc_lib c) (er_mandate rq) (opsMandateContext (ec_host_id (xc_catalog c)) (er_objective rq)) now = None
    \<and> evaluateTypedOperatorAction (xc_lib c) (er_action rq) (operatorTypesFromMandate (er_mandate rq)) = Inr (t, args)
    \<and> planAction (xc_catalog c) t args = Inr plan
    \<and> actionHash (xc_lib c) \<lparr>ai_host_id = ec_host_id (xc_catalog c), ai_mandate_id = md_mandate_id (er_mandate rq),
         ai_type = type_name t, ai_args = args, ai_resource = plan_resource plan\<rparr> = Inr hash
    \<and> (t = OpsObserve \<or> t = OpsActuate)
    \<and> stopReason sf j = None \<and> \<not> isRevoked MandateRevocation (Some (md_mandate_id (er_mandate rq))) j"
  using assms by (auto simp: action_gate_def Let_def split: option.splits sum.splits if_splits)

lemma approval_gate_InrD:
  assumes "approval_gate c rq h res now j = (Inr i, j')"
  shows "\<exists>a. verifyActuationApproval (xc_lib c) (er_approval rq) (md_mandate_id (er_mandate rq)) h now (xc_approvalKeys c) = Inr a
    \<and> i = aa_approval_id a \<and> \<not> isRevoked ApprovalRevocation (Some i) j \<and> inFlightOn res j = None \<and> j' = j"
  using assms by (auto simp: approval_gate_def Let_def split: option.splits sum.splits if_splits)

lemma exec_begin_ProceedD:
  assumes "exec_begin c rq now rnd sf j = (Proceed ca, j')"
  shows "authorized c ca"
proof -
  obtain t args plan hash where g: "action_gate c rq now sf j = Inr (t, args, plan, hash)"
    using assms by (cases "action_gate c rq now sf j") (auto simp: exec_begin_def)
  note f = action_gate_InrD[OF g]
  show ?thesis
  proof (cases "t = OpsActuate")
    case True
    then obtain i j1 where a: "approval_gate c rq hash (plan_resource plan) now j = (Inr i, j1)"
      using assms g by (auto simp: exec_begin_def Let_def split: prod.splits sum.splits)
    with assms g True f approval_gate_InrD[OF a] show ?thesis
      by (auto simp: exec_begin_def Let_def authorized_def split: prod.splits sum.splits)
  next
    case False
    with assms g f show ?thesis
      by (auto simp: exec_begin_def Let_def authorized_def split: prod.splits sum.splits)
  qed
qed

fun thread_call :: "exec_thread \<Rightarrow> exec_call option" where
  "thread_call (AwaitUnit pid ca) = Some ca"
| "thread_call (AdmittedThread pid ca i ab) = Some ca"
| "thread_call (Running pid ca i ab) = Some ca"
| "thread_call (Returned pid out) = None"

fun thread_exec :: "exec_thread \<Rightarrow> (string \<times> int \<times> exec_call) option" where
  "thread_exec (AdmittedThread pid ca i ab) = Some (i, pid, ca)"
| "thread_exec (Running pid ca i ab) = Some (i, pid, ca)"
| "thread_exec _ = None"

fun is_running :: "exec_thread \<Rightarrow> bool" where
  "is_running (Running pid ca i ab) = True"
| "is_running _ = False"

text \<open>The row that was admitted for a call.\<close>

definition call_row :: "string \<Rightarrow> int \<Rightarrow> exec_call \<Rightarrow> execution_record \<Rightarrow> bool" where
  "call_row i pid ca r \<longleftrightarrow> row_identity r = row_identity ((admission_row i ca)\<lparr>ex_pid := pid\<rparr>)"

definition admitted_in :: "journal \<Rightarrow> string \<Rightarrow> int \<Rightarrow> exec_call \<Rightarrow> bool" where
  "admitted_in j i pid ca \<longleftrightarrow> (\<exists>r\<in>set (jl_executions j). call_row i pid ca r)"

definition thread_ok :: "'k executor_config \<Rightarrow> exec_system \<Rightarrow> exec_thread \<Rightarrow> bool" where
  "thread_ok c s t \<longleftrightarrow>
     (\<forall>ca. thread_call t = Some ca \<longrightarrow> authorized c ca)
     \<and> (\<forall>i pid ca. thread_exec t = Some (i, pid, ca) \<longrightarrow> admitted_in (xs_journal s) i pid ca
          \<and> (if is_running t then (i, ca) \<in> set (xs_effects s) else i \<notin> fst ` set (xs_effects s)))"

definition exec_inv :: "'k executor_config \<Rightarrow> exec_system \<Rightarrow> bool" where
  "exec_inv c s \<longleftrightarrow> journal_wf (xs_journal s)
     \<and> (\<forall>k t. xs_threads s k = Some t \<longrightarrow> thread_ok c s t)
     \<and> (\<forall>k k' t t' x x'. xs_threads s k = Some t \<longrightarrow> xs_threads s k' = Some t' \<longrightarrow> thread_exec t = Some x
          \<longrightarrow> thread_exec t' = Some x' \<longrightarrow> fst x = fst x' \<longrightarrow> k = k')
     \<and> (\<forall>(i, ca)\<in>set (xs_effects s). authorized c ca \<and> (\<exists>pid. admitted_in (xs_journal s) i pid ca))
     \<and> distinct (map fst (xs_effects s))"

lemma exec_invI:
  assumes "journal_wf (xs_journal s)" "\<And>k t. xs_threads s k = Some t \<Longrightarrow> thread_ok c s t"
    and "\<And>k k' t t' x x'. xs_threads s k = Some t \<Longrightarrow> xs_threads s k' = Some t' \<Longrightarrow> thread_exec t = Some x
          \<Longrightarrow> thread_exec t' = Some x' \<Longrightarrow> fst x = fst x' \<Longrightarrow> k = k'"
    and "\<forall>(i, ca)\<in>set (xs_effects s). authorized c ca \<and> (\<exists>pid. admitted_in (xs_journal s) i pid ca)"
    and "distinct (map fst (xs_effects s))"
  shows "exec_inv c s"
  unfolding exec_inv_def
proof (intro conjI allI impI)
  show "k = k'" if "xs_threads s k = Some t" "xs_threads s k' = Some t'" "thread_exec t = Some x"
    "thread_exec t' = Some x'" "fst x = fst x'" for k k' t t' x x' using assms(3)[OF that] .
qed (use assms(1,2,4,5) in simp_all)

lemma exec_inv_unique:
  assumes "exec_inv c s" "xs_threads s k = Some t" "xs_threads s k' = Some t'" "thread_exec t = Some x"
    "thread_exec t' = Some x'" "fst x = fst x'"
  shows "k = k'"
  using assms unfolding exec_inv_def by blast

lemma call_row_id: "call_row i pid ca r \<Longrightarrow> ex_execution_id r = i"
  by (simp add: call_row_def row_identity_def admission_row_def)

lemma admitted_in_keep:
  assumes "admitted_in j i pid ca" "journal_step\<^sup>*\<^sup>* j j'" "journal_wf j"
  shows "admitted_in j' i pid ca"
proof -
  obtain r where r: "r \<in> set (jl_executions j)" "call_row i pid ca r" using assms(1) by (auto simp: admitted_in_def)
  obtain rs ss where "jl_executions j' = rs @ ss" "list_all2 row_forward (jl_executions j) rs"
    using journal_steps[OF assms(2,3)] by (auto simp: journal_extends_def)
  with list_all2_witness[OF _ r(1)] obtain r' where "r' \<in> set (jl_executions j')" "row_forward r r'"
    by (metis Un_iff set_append)
  with r(2) show ?thesis by (auto simp: admitted_in_def call_row_def row_forward_def)
qed

text \<open>A step that starts nothing: threads only lose their abort flag's absence, or return, or vanish.\<close>

definition quieter :: "exec_system \<Rightarrow> exec_system \<Rightarrow> bool" where
  "quieter s s' \<longleftrightarrow> xs_effects s' = xs_effects s
     \<and> (\<forall>k t'. xs_threads s' k = Some t' \<longrightarrow> (\<exists>pid out. t' = Returned pid out)
          \<or> (\<exists>t. xs_threads s k = Some t \<and> thread_call t' = thread_call t \<and> thread_exec t' = thread_exec t
               \<and> is_running t' = is_running t))"

lemma abort_thread_same [simp]:
  "thread_call (abort_thread p t) = thread_call t" "thread_exec (abort_thread p t) = thread_exec t"
  "is_running (abort_thread p t) = is_running t"
  by (cases t; simp)+

lemma quieter_abort: "xs_threads s' = xs_threads s \<Longrightarrow> xs_effects s' = xs_effects s \<Longrightarrow> quieter s (abort_threads p s')"
  by (auto simp: quieter_def)

lemma quieter_return: "quieter s (set_thread k (Returned pid out) j s)"
  by (auto simp: quieter_def)

lemma quieter_inv:
  assumes "quieter s s'" "journal_step\<^sup>*\<^sup>* (xs_journal s) (xs_journal s')" "exec_inv c s"
  shows "exec_inv c s'"
proof -
  have wf: "journal_wf (xs_journal s)" using assms(3) by (simp add: exec_inv_def)
  note keep = admitted_in_keep[OF _ assms(2) wf]
  have wf': "journal_wf (xs_journal s')" using journal_steps[OF assms(2) wf] by simp
  have eff: "xs_effects s' = xs_effects s" using assms(1) by (simp add: quieter_def)
  have old: "\<exists>t. xs_threads s k = Some t \<and> thread_call t' = thread_call t \<and> thread_exec t' = thread_exec t
      \<and> is_running t' = is_running t" if "xs_threads s' k = Some t'" "thread_call t' \<noteq> None" for k t'
  proof -
    have "t' \<noteq> Returned pid out" for pid out using that(2) by auto
    with assms(1) that(1) show ?thesis unfolding quieter_def by blast
  qed
  have live: "thread_call t \<noteq> None" if "thread_exec t = Some x" for t x
    using that by (cases t) auto
  have ok: "thread_ok c s t" if "xs_threads s k = Some t" for k t
    using assms(3) that by (auto simp: exec_inv_def)
  have "thread_ok c s' t'" if t': "xs_threads s' k = Some t'" for k t'
  proof (cases "thread_call t' = None")
    case True
    then show ?thesis by (cases t') (auto simp: thread_ok_def)
  next
    case False
    with old[OF t'] obtain t where "xs_threads s k = Some t" "thread_call t' = thread_call t"
      "thread_exec t' = thread_exec t" "is_running t' = is_running t" by blast
    with ok keep eff show ?thesis unfolding thread_ok_def by (metis (no_types, lifting))
  qed
  moreover have "k = k'" if "xs_threads s' k = Some t" "xs_threads s' k' = Some t'" "thread_exec t = Some x"
    "thread_exec t' = Some x'" "fst x = fst x'" for k k' t t' x x'
    using old[OF that(1)] old[OF that(2)] live that exec_inv_unique[OF assms(3)] by (metis (no_types, lifting))
  moreover have "\<forall>(i, ca)\<in>set (xs_effects s). authorized c ca \<and> (\<exists>pid. admitted_in (xs_journal s') i pid ca)"
    using assms(3) keep by (fastforce simp: exec_inv_def)
  ultimately show ?thesis using wf' eff assms(3) by (intro exec_invI) (simp_all add: exec_inv_def)
qed


text \<open>Admission gives a fresh id; the start moves a thread from admitted to running.\<close>

lemma admit_admitted:
  assumes "admit pid (admission_row i ca) j = Inr j'"
  shows "admitted_in j' i pid ca \<and> i \<notin> ex_execution_id ` set (jl_executions j)"
  using assms by (auto simp: admit_def admitted_in_def call_row_def row_identity_def admission_row_def split: if_splits)

lemma admitted_in_id: "admitted_in j i pid ca \<Longrightarrow> i \<in> ex_execution_id ` set (jl_executions j)"
  unfolding admitted_in_def using call_row_id by blast

lemma exec_inv_threads:
  "exec_inv c s \<Longrightarrow> xs_threads s k = Some t \<Longrightarrow> thread_exec t = Some (i, pid, ca) \<Longrightarrow> admitted_in (xs_journal s) i pid ca"
  by (auto simp: exec_inv_def thread_ok_def)

lemma thread_ok_keep:
  assumes "thread_ok c s t" "\<And>i pid ca. admitted_in (xs_journal s) i pid ca \<Longrightarrow> admitted_in (xs_journal s') i pid ca"
    and "xs_effects s' = xs_effects s"
  shows "thread_ok c s' t"
  using assms unfolding thread_ok_def by metis

lemma inv_await:
  assumes "exec_inv c s" "xs_threads s k = None" "authorized c ca" "journal_step\<^sup>*\<^sup>* (xs_journal s) j"
  shows "exec_inv c (set_thread k (AwaitUnit pid ca) j s)"
proof -
  let ?s = "set_thread k (AwaitUnit pid ca) j s"
  have wf: "journal_wf (xs_journal s)" using assms(1) by (simp add: exec_inv_def)
  note keep = admitted_in_keep[OF _ assms(4) wf]
  have "journal_wf j" using journal_steps[OF assms(4) wf] by simp
  moreover have "thread_ok c ?s t" if t: "xs_threads ?s k' = Some t" for k' t
  proof (cases "k' = k")
    case True
    then show ?thesis using t assms(3) by (auto simp: thread_ok_def)
  next
    case False
    then have "thread_ok c s t" using t assms(1) by (auto simp: exec_inv_def)
    then show ?thesis by (rule thread_ok_keep) (auto intro: keep)
  qed
  moreover have "\<forall>(i, ca)\<in>set (xs_effects s). authorized c ca \<and> (\<exists>pid. admitted_in j i pid ca)"
    using assms(1) keep by (fastforce simp: exec_inv_def)
  moreover have "k1 = k2" if "xs_threads ?s k1 = Some t" "xs_threads ?s k2 = Some t'" "thread_exec t = Some x"
    "thread_exec t' = Some x'" "fst x = fst x'" for k1 k2 t t' x x'
  proof -
    have "xs_threads s k1 = Some t" "xs_threads s k2 = Some t'" using that by (auto split: if_splits)
    from exec_inv_unique[OF assms(1) this that(3-5)] show ?thesis .
  qed
  moreover have "distinct (map fst (xs_effects s))" using assms(1) by (simp add: exec_inv_def)
  ultimately show ?thesis by (intro exec_invI) (simp_all del: set_thread_simps(3))
qed

lemma inv_admit:
  assumes "exec_inv c s" "xs_threads s k = Some (AwaitUnit pid ca)" "admit pid (admission_row i ca) (xs_journal s) = Inr j"
  shows "exec_inv c (set_thread k (AdmittedThread pid ca i False) j s)"
proof -
  let ?s = "set_thread k (AdmittedThread pid ca i False) j s"
  have steps: "journal_step\<^sup>*\<^sup>* (xs_journal s) j" using assms(3) by (intro journal_step_star step_admit)
  have wf: "journal_wf (xs_journal s)" using assms(1) by (simp add: exec_inv_def)
  note keep = admitted_in_keep[OF _ steps wf] and new = admit_admitted[OF assms(3)]
  have auth: "authorized c ca" using assms(1,2) by (fastforce simp: exec_inv_def thread_ok_def)
  have fresh_eff: "i \<notin> fst ` set (xs_effects s)"
    using new assms(1) by (fastforce simp: exec_inv_def dest: admitted_in_id)
  have fresh: "i' \<noteq> i" if "xs_threads s k' = Some t" "thread_exec t = Some (i', y)" for k' t i' y
    using exec_inv_threads[OF assms(1) that(1)] that(2) new by (cases y) (auto dest: admitted_in_id)
  have "journal_wf j" using journal_steps[OF steps wf] by simp
  moreover have "thread_ok c ?s t" if t: "xs_threads ?s k' = Some t" for k' t
  proof (cases "k' = k")
    case True
    then have "t = AdmittedThread pid ca i False" using t by simp
    then show ?thesis using auth new fresh_eff by (simp add: thread_ok_def)
  next
    case False
    then have "thread_ok c s t" using t assms(1) by (auto simp: exec_inv_def)
    then show ?thesis by (rule thread_ok_keep) (auto intro: keep)
  qed
  moreover have "\<forall>(i, ca)\<in>set (xs_effects s). authorized c ca \<and> (\<exists>pid. admitted_in j i pid ca)"
    using assms(1) keep by (fastforce simp: exec_inv_def)
  moreover have "k1 = k2" if th: "xs_threads ?s k1 = Some t" "xs_threads ?s k2 = Some t'" "thread_exec t = Some x"
    "thread_exec t' = Some x'" "fst x = fst x'" for k1 k2 t t' x x'
  proof -
    have old: "xs_threads s q = Some u" if "q \<noteq> k" "xs_threads ?s q = Some u" for q u using that by simp
    consider "k1 = k" "k2 = k" | "k1 = k" "k2 \<noteq> k" | "k1 \<noteq> k" "k2 = k" | "k1 \<noteq> k" "k2 \<noteq> k" by blast
    then show ?thesis
    proof cases
      case 2
      then have "fst x = i" using th by auto
      with fresh[OF old[OF 2(2) th(2)], of "fst x'" "snd x'"] th show ?thesis by auto
    next
      case 3
      then have "fst x' = i" using th by auto
      with fresh[OF old[OF 3(1) th(1)], of "fst x" "snd x"] th show ?thesis by auto
    next
      case 4
      from exec_inv_unique[OF assms(1) old[OF 4(1) th(1)] old[OF 4(2) th(2)] th(3-5)] show ?thesis .
    qed simp
  qed
  moreover have "distinct (map fst (xs_effects s))" using assms(1) by (simp add: exec_inv_def)
  ultimately show ?thesis by (intro exec_invI) (simp_all del: set_thread_simps(3))
qed

lemma inv_start:
  assumes "exec_inv c s" "xs_threads s k = Some (AdmittedThread pid ca i ab)" "journal_step\<^sup>*\<^sup>* (xs_journal s) j"
  shows "exec_inv c (set_thread k (Running pid ca i ab) j (s\<lparr>xs_effects := xs_effects s @ [(i, ca)]\<rparr>))"
proof -
  let ?s = "set_thread k (Running pid ca i ab) j (s\<lparr>xs_effects := xs_effects s @ [(i, ca)]\<rparr>)"
  have wf: "journal_wf (xs_journal s)" using assms(1) by (simp add: exec_inv_def)
  note keep = admitted_in_keep[OF _ assms(3) wf]
  have mine: "thread_ok c s (AdmittedThread pid ca i ab)" using assms(1,2) by (auto simp: exec_inv_def)
  then have self: "authorized c ca" "admitted_in j i pid ca" "i \<notin> fst ` set (xs_effects s)"
    by (auto simp: thread_ok_def intro: keep)
  have other: "fst x \<noteq> i" if "k' \<noteq> k" "xs_threads s k' = Some t" "thread_exec t = Some x" for k' t x
    using exec_inv_unique[OF assms(1) that(2) assms(2) that(3)] that(1) by auto
  have "journal_wf j" using journal_steps[OF assms(3) wf] by simp
  moreover have "thread_ok c ?s t" if t: "xs_threads ?s k' = Some t" for k' t
  proof (cases "k' = k")
    case True
    then show ?thesis using t self by (auto simp: thread_ok_def)
  next
    case False
    then have old: "xs_threads s k' = Some t" using t by simp
    then have ok: "thread_ok c s t" using assms(1) by (auto simp: exec_inv_def)
    show ?thesis unfolding thread_ok_def
    proof (intro conjI allI impI)
      show "authorized c ca" if "thread_call t = Some ca" for ca using ok that by (simp add: thread_ok_def)
      fix i' pid' ca' assume x: "thread_exec t = Some (i', pid', ca')"
      then have "i' \<noteq> i" using other[OF False old] by force
      with ok x show "admitted_in (xs_journal ?s) i' pid' ca'"
        "if is_running t then (i', ca') \<in> set (xs_effects ?s) else i' \<notin> fst ` set (xs_effects ?s)"
        by (auto simp: thread_ok_def intro: keep split: if_splits)
    qed
  qed
  moreover have "\<forall>(i, ca)\<in>set (xs_effects ?s). authorized c ca \<and> (\<exists>pid. admitted_in j i pid ca)"
    using assms(1) keep self by (fastforce simp: exec_inv_def)
  moreover have "distinct (map fst (xs_effects ?s))"
    using assms(1) self(3) by (simp add: exec_inv_def)
  moreover have "k1 = k2" if th: "xs_threads ?s k1 = Some t" "xs_threads ?s k2 = Some t'" "thread_exec t = Some x"
    "thread_exec t' = Some x'" "fst x = fst x'" for k1 k2 t t' x x'
  proof -
    have old: "\<exists>u. xs_threads s q = Some u \<and> thread_exec u = thread_exec v" if "xs_threads ?s q = Some v" for q v
      using that assms(2) by (cases "q = k") auto
    from old[OF th(1)] old[OF th(2)] th(3-5) exec_inv_unique[OF assms(1)] show ?thesis by metis
  qed
  ultimately show ?thesis by (intro exec_invI) (simp_all del: set_thread_simps(3))
qed


lemma exec_step_inv:
  assumes "exec_step c s s'" "exec_inv c s"
  shows "exec_inv c s'"
proof -
  note steps = exec_step_journal[OF assms(1)]
  have quiet: "exec_inv c s'" if "quieter s s'" by (rule quieter_inv[OF that steps assms(2)])
  show ?thesis using assms(1)
  proof (cases rule: exec_step.cases)
    case (x_begin_proceed k rq now rnd ca j pid)
    then show ?thesis using assms(2) steps by (auto intro: inv_await exec_begin_ProceedD)
  next
    case (x_admit k pid ca st i i' j)
    then show ?thesis using assms(2) exec_admit_journal(2) by (metis inv_admit)
  next
    case (x_start k pid ca i ab now j)
    then show ?thesis using assms(2) steps by (auto intro: inv_start)
  qed (rule quiet, (auto simp: quieter_return quieter_abort executor_event_defs; auto simp: quieter_def split: option.splits if_splits)[1])+
qed

lemma exec_reachable_inv: "exec_reachable c s \<Longrightarrow> exec_inv c s"
proof (induction rule: rtranclp_induct)
  case base
  show ?case by (rule exec_invI) (simp_all add: exec_init_def journal_wf_def journal_empty_def approval_ids_def)
next
  case (step s t)
  then show ?case by (blast intro: exec_step_inv)
qed

section \<open>Effects\<close>

definition effect_approvals :: "exec_system \<Rightarrow> string list" where
  "effect_approvals s = concat (map (\<lambda>(_, ca). case ca_approvalId ca of None \<Rightarrow> [] | Some a \<Rightarrow> [a]) (xs_effects s))"

lemma approval_row_unique:
  assumes "distinct (approval_ids rs)" "r \<in> set rs" "q \<in> set rs" "ex_approval_id r = Some a" "ex_approval_id q = Some a"
  shows "r = q"
  using assms
proof (induction rs)
  case (Cons x rs)
  have rest: "distinct (approval_ids rs)" using Cons.prems(1) by (auto simp: approval_ids_def)
  have new: "Some a \<notin> ex_approval_id ` set rs" if "ex_approval_id x = Some a"
    using Cons.prems(1) that unfolding set_approval_ids[symmetric] by (simp add: approval_ids_def)
  show ?case
  proof (cases "r = x \<or> q = x")
    case True
    then have "ex_approval_id x = Some a" using Cons.prems(4,5) by auto
    from new[OF this] have "y \<notin> set rs" if "ex_approval_id y = Some a" for y using that by (metis image_eqI)
    with Cons.prems(2-5) show ?thesis by auto
  next
    case False
    with Cons.IH[OF rest] Cons.prems(2-5) show ?thesis by simp
  qed
qed simp

lemma call_row_approval: "call_row i pid ca r \<Longrightarrow> ex_approval_id r = ca_approvalId ca"
  by (simp add: call_row_def row_identity_def admission_row_def)

lemma exec_inv_effect:
  "exec_inv c s \<Longrightarrow> (i, ca) \<in> set (xs_effects s) \<Longrightarrow> authorized c ca \<and> (\<exists>pid. admitted_in (xs_journal s) i pid ca)"
  by (auto simp: exec_inv_def)

lemma effects_same_approval:
  assumes inv: "exec_inv c s" and e: "(i, ca) \<in> set (xs_effects s)" "(i', ca') \<in> set (xs_effects s)"
    and a: "ca_approvalId ca = Some a" "ca_approvalId ca' = Some a"
  shows "i = i'"
proof -
  obtain r r' pid pid' where "r \<in> set (jl_executions (xs_journal s))" "call_row i pid ca r"
    "r' \<in> set (jl_executions (xs_journal s))" "call_row i' pid' ca' r'"
    using exec_inv_effect[OF inv e(1)] exec_inv_effect[OF inv e(2)] unfolding admitted_in_def by blast
  note rows = this
  have "distinct (approval_ids (jl_executions (xs_journal s)))" using inv by (simp add: exec_inv_def journal_wf_def)
  from approval_row_unique[OF this rows(1,3)] call_row_approval[OF rows(2)] call_row_approval[OF rows(4)] a
  have "r = r'" by simp
  with call_row_id[OF rows(2)] call_row_id[OF rows(4)] show ?thesis by simp
qed

lemma effect_approvals_distinct:
  assumes "distinct (map fst es)"
    and "\<And>i ca i' ca' a. (i, ca) \<in> set es \<Longrightarrow> (i', ca') \<in> set es \<Longrightarrow> ca_approvalId ca = Some a
          \<Longrightarrow> ca_approvalId ca' = Some a \<Longrightarrow> i = i'"
  shows "distinct (concat (map (\<lambda>(_, ca). case ca_approvalId ca of None \<Rightarrow> [] | Some a \<Rightarrow> [a]) es))"
  using assms
proof (induction es)
  case (Cons e es)
  obtain i ca where e: "e = (i, ca)" by (cases e)
  have "distinct (concat (map (\<lambda>(_, ca). case ca_approvalId ca of None \<Rightarrow> [] | Some a \<Rightarrow> [a]) es))"
  proof (rule Cons.IH)
    show "distinct (map fst es)" using Cons.prems(1) by simp
    show "i = i'" if "(i, ca) \<in> set es" "(i', ca') \<in> set es" "ca_approvalId ca = Some a" "ca_approvalId ca' = Some a"
      for i ca i' ca' a using Cons.prems(2)[of i ca i' ca' a] that by simp
  qed
  moreover have "ca_approvalId ca' \<noteq> Some a" if "(i', ca') \<in> set es" "ca_approvalId ca = Some a" for i' ca' a
    using Cons.prems(1) Cons.prems(2)[of i ca i' ca' a] that e by force
  ultimately show ?case using e by (cases "ca_approvalId ca") (fastforce split: option.splits prod.splits)+
qed simp

text \<open>C12. At most one actuation per human approval: in every reachable state of the executor (any number of
  processes on one journal, any interleaving, STOP, revocations, crashes and restarts) no approval
  stands behind two runs, and every actuation that ran was behind one.\<close>

theorem at_most_once_actuation:
  assumes "exec_reachable c s"
  shows "distinct (effect_approvals s)
    \<and> (\<forall>(i, ca)\<in>set (xs_effects s). ca_type ca = OpsActuate \<longrightarrow> (\<exists>a. ca_approvalId ca = Some a \<and> a \<in> set (effect_approvals s)))"
proof -
  note inv = exec_reachable_inv[OF assms]
  have "distinct (effect_approvals s)"
    unfolding effect_approvals_def using inv effects_same_approval[OF inv]
    by (intro effect_approvals_distinct) (auto simp: exec_inv_def)
  moreover have "\<exists>a. ca_approvalId ca = Some a \<and> a \<in> set (effect_approvals s)"
    if e: "(i, ca) \<in> set (xs_effects s)" and t: "ca_type ca = OpsActuate" for i ca
  proof -
    have "authorized c ca" using inv e by (auto simp: exec_inv_def)
    with t obtain a where "ca_approvalId ca = Some a" by (auto simp: authorized_def Let_def)
    with e show ?thesis by (force simp: effect_approvals_def)
  qed
  ultimately show ?thesis by blast
qed

text \<open>C13. Every run was authorized by the operator's configuration: the mandate was signed under a configured
  key and valid for this host and objective when the call was made, the action was of a type the
  mandate delegates, the plan is the catalog's for exactly these arguments, the journal holds the row
  of the call, and for an actuation the approval verified for the hash of exactly this action.\<close>

theorem effects_authorized:
  assumes "exec_reachable c s" "(i, ca) \<in> set (xs_effects s)"
  shows "verifyOperationsMandate (xc_lib c) (ca_mandate ca) (xc_mandateKeys c)
    \<and> validateMandate (xc_lib c) (ca_mandate ca) (opsMandateContext (ec_host_id (xc_catalog c)) (ca_objective ca)) (ca_now ca) = None
    \<and> ca_type ca \<in> set (operatorTypesFromMandate (ca_mandate ca)) \<and> ca_type ca \<in> {OpsObserve, OpsActuate}
    \<and> planAction (xc_catalog c) (ca_type ca) (ca_args ca) = Inr (ca_plan ca)
    \<and> (\<exists>r\<in>set (jl_executions (xs_journal s)). ex_execution_id r = i \<and> ex_target r = plan_resource (ca_plan ca)
         \<and> ex_action_hash r = ca_hash ca)
    \<and> (ca_type ca = OpsActuate \<longrightarrow>
         (\<exists>a. verifyActuationApproval (xc_lib c) (ca_approvalJson ca) (md_mandate_id (ca_mandate ca)) (ca_hash ca)
                (ca_now ca) (xc_approvalKeys c) = Inr a \<and> aa_action_hash a = ca_hash ca))"
proof -
  note inv = exec_reachable_inv[OF assms(1)]
  have auth: "authorized c ca" and "\<exists>pid. admitted_in (xs_journal s) i pid ca"
    using exec_inv_effect[OF inv assms(2)] by auto
  then obtain r pid where "r \<in> set (jl_executions (xs_journal s))" "call_row i pid ca r" by (auto simp: admitted_in_def)
  then have row: "\<exists>r\<in>set (jl_executions (xs_journal s)). ex_execution_id r = i \<and> ex_target r = plan_resource (ca_plan ca)
      \<and> ex_action_hash r = ca_hash ca"
    by (intro bexI[of _ r]) (auto simp: call_row_def row_identity_def admission_row_def)
  have typed: "ca_type ca \<in> set (operatorTypesFromMandate (ca_mandate ca))"
    using auth by (auto simp: authorized_def Let_def evaluateTypedOperatorAction_def split: json.splits option.splits if_splits)
  have "ca_type ca = OpsActuate \<Longrightarrow> \<exists>a. verifyActuationApproval (xc_lib c) (ca_approvalJson ca) (md_mandate_id (ca_mandate ca)) (ca_hash ca)
                (ca_now ca) (xc_approvalKeys c) = Inr a \<and> aa_action_hash a = ca_hash ca"
    using auth verify_approval_InrD by (fastforce simp: authorized_def Let_def)
  with auth row typed show ?thesis by (auto simp: authorized_def Let_def)
qed

section \<open>STOP\<close>

lemma effect_needs_no_stop:
  assumes "exec_step c s s'" "stopReason (xs_stopFile s) (xs_journal s) \<noteq> None"
  shows "xs_effects s' = xs_effects s"
  using assms by (cases rule: exec_step.cases) (auto simp: executor_event_defs dest: exec_start_NoneD)

text \<open>C21. Under STOP, the operator's or the stop file's, nothing starts: along any sequence of steps during
  which STOP stays active the runs stay what they were, and no new call passes the first gate.\<close>

theorem stop_starts_nothing:
  assumes "(\<lambda>s t. exec_step c s t \<and> stopReason (xs_stopFile s) (xs_journal s) \<noteq> None)\<^sup>*\<^sup>* s s'"
  shows "xs_effects s' = xs_effects s
    \<and> (stopReason (xs_stopFile s) (xs_journal s) = Some why \<longrightarrow>
         exec_begin c rq now rnd (xs_stopFile s) (xs_journal s) = (Return (Refused why), xs_journal s))"
proof
  show "xs_effects s' = xs_effects s"
    using assms by (induction rule: rtranclp_induct) (auto dest: effect_needs_no_stop)
  show "stopReason (xs_stopFile s) (xs_journal s) = Some why \<longrightarrow>
         exec_begin c rq now rnd (xs_stopFile s) (xs_journal s) = (Return (Refused why), xs_journal s)"
    by (auto simp: exec_begin_def action_gate_def Let_def)
qed

end
