(* ===== verification/ExecutorDemo.thy ===== *)
theory ExecutorDemo imports ExecutorFacts begin

text \<open>
  A small host for the worked examples: one unit that may be restarted, one mandate, approvals that
  differ in their ids only.
\<close>

definition demo_config :: "unit executor_config" where
  "demo_config = \<lparr>xc_lib = toy_lib, xc_catalog = sample_catalog, xc_mandateKeys = [(''key_000000000000'', ())],
     xc_approvalKeys = [(''key_000000000000'', ())], xc_receiptKey = ()\<rparr>"

definition demo_mandate :: execution_mandate where
  "demo_mandate = (unsigned_mandate toy_lib ''r'' 1 (toy_request\<lparr>ir_hostId := ''h1''\<rparr>) ())
     \<lparr>md_authority_signature := Some (replicate 86 CHR ''s'')\<rparr>"

definition demo_args :: "(string \<times> json) list" where
  "demo_args = [(''device'', JStr ''api''), (''command'', JStr ''restart'')]"

definition demo_action :: json where
  "demo_action = JObj [(''type'', JStr ''ops.actuate''), (''args'', JObj demo_args)]"

definition demo_plan :: execution_plan where
  "demo_plan = SpawnPlan [''/usr/bin/systemctl'', ''restart'', ''--'', ''api.service'']
      5000 ''unit:api.service'' (Some (systemdControl sample_catalog ''api.service''))"

definition demo_hash :: string where
  "demo_hash = replicate 64 CHR ''a''"

definition demo_approval_id :: "char \<Rightarrow> string" where
  "demo_approval_id x = ''appr_'' @ replicate 32 x"

definition demo_approval :: "char \<Rightarrow> json" where
  "demo_approval x = JObj [(''action_hash'', JStr demo_hash), (''approval_id'', JStr (demo_approval_id x)),
     (''approver_key_id'', JStr ''key_000000000000''), (''channel'', JStr ''console''), (''expires_at'', JStr ''xxxxx''),
     (''issued_at'', JStr ''x''), (''mandate_id'', JStr ''mandate_r''), (''origin'', JStr ''operator''),
     (''signature'', JStr (replicate 86 CHR ''s'')), (''version'', JStr APPROVAL_VERSION)]"

definition demo_request :: "char \<Rightarrow> execution_request" where
  "demo_request x = \<lparr>er_mandate = demo_mandate, er_objective = ''objective'', er_action = demo_action,
     er_owner = ''ana'', er_approval = demo_approval x, er_idempotencyKey = None, er_hasOrigin = False\<rparr>"

definition demo_call :: "char \<Rightarrow> exec_call" where
  "demo_call x = \<lparr>ca_mandate = demo_mandate, ca_objective = ''objective'', ca_action = demo_action,
     ca_approvalJson = demo_approval x, ca_type = OpsActuate, ca_args = demo_args, ca_plan = demo_plan,
     ca_hash = demo_hash, ca_approvalId = Some (demo_approval_id x),
     ca_idempotencyKey = ''approval:'' @ demo_approval_id x, ca_owner = ''ana'', ca_now = 2\<rparr>"

lemma toy_signature: "verifyDomain toy_lib d p (Some (replicate 86 CHR ''s'')) k"
  by (simp add: verifyDomain_def signature_text_def toy_lib_def list_all_iff is_alnum_def is_lower_def)

lemma demo_mandate_id [simp]: "md_mandate_id demo_mandate = ''mandate_r''"
  by (simp add: demo_mandate_def unsigned_mandate_def Let_def)

lemma demo_approval_verifies:
  assumes "is_hex x"
  shows "\<exists>a. isApprovalShape (demo_approval x) = Some a \<and> aa_approval_id a = demo_approval_id x
    \<and> verifyActuationApproval toy_lib (demo_approval x) ''mandate_r'' demo_hash 2 [(''key_000000000000'', ())] = Inr a"
proof -
  let ?a = "\<lparr>aa_approval_id = demo_approval_id x, aa_mandate_id = ''mandate_r'',
       aa_action_hash = demo_hash, aa_approver_key_id = ''key_000000000000'',
       aa_channel = ''console'', aa_origin = OperatorOrigin, aa_issued_at = ''x'', aa_expires_at = ''xxxxx'',
       aa_signature = replicate 86 CHR ''s''\<rparr>"
  have keys: "[''action_hash'', ''approval_id'', ''approver_key_id'', ''channel'', ''expires_at'',
     ''issued_at'', ''mandate_id'', ''origin'', ''signature'', ''version''] = approval_keys"
    by (simp add: approval_keys_def)
  have sorted: "sort approval_keys = approval_keys"
    by (simp add: approval_keys_def Cons_le_Cons less_char_def less_eq_char_def)
  have hex: "list_all is_hex (replicate n x)" "list_all is_hex (replicate n CHR ''a'')" "list_all is_hex (replicate n CHR ''0'')" for n
    using assms by (auto simp: list_all_iff is_hex_def)
  have shape: "isApprovalShape (demo_approval x) = Some ?a"
    using assms by (simp add: keys sorted isApprovalShape_def demo_approval_def str_prop_def prop_of_def REQUEST_ORIGINS_def
        tagged_hex_def hex_text_def hex bounded_str_def is_hex_def demo_hash_def demo_approval_id_def)
  have dates: "lib_dateParse toy_lib s = js_int (int (length s))" for s by (simp add: toy_lib_def)
  have "verifyActuationApproval toy_lib (demo_approval x) ''mandate_r'' demo_hash 2 [(''key_000000000000'', ())] = Inr ?a"
    by (simp add: verifyActuationApproval_def shape toy_signature dates Let_def js_int_def MAX_APPROVAL_TTL_MS_def)
  with shape show ?thesis by simp
qed

lemma demo_plan_ok: "planAction sample_catalog OpsActuate demo_args = Inr demo_plan"
  by (simp add: planAction_def sample_catalog_def prop_of_def demo_args_def demo_plan_def)

lemma demo_mandate_ok:
  "verifyOperationsMandate toy_lib demo_mandate [(''key_000000000000'', ())]"
  "validateMandate toy_lib demo_mandate (opsMandateContext ''h1'' ''objective'') 2 = None"
  "operatorTypesFromMandate demo_mandate = [OpsObserve, OpsActuate]"
proof -
  have "\<exists>t. opsMandatePayload toy_lib demo_mandate = Inr t"
    by (simp add: opsMandatePayload_def demo_mandate_def unsigned_mandate_def Let_def toy_request_def canonicalJson.simps bracket_def
        opt_entry_def num_json_def js_int_def entry_text_def ALWAYS_DENIED_ACTIONS_def DEFAULT_ALLOWED_ACTIONS_def
        split: sum.splits)
  moreover have "md_authority_version demo_mandate = Some OPS_MANDATE_VERSION" "md_issued_by_key_id demo_mandate = ''key_000000000000''"
    "md_authority_signature demo_mandate = Some (replicate 86 CHR ''s'')"
    by (simp_all add: demo_mandate_def unsigned_mandate_def Let_def toy_lib_def)
  ultimately show "verifyOperationsMandate toy_lib demo_mandate [(''key_000000000000'', ())]"
    using toy_signature by (auto simp: verifyOperationsMandate_def)
  show "validateMandate toy_lib demo_mandate (opsMandateContext ''h1'' ''objective'') 2 = None"
    by (simp add: demo_mandate_def validateMandate_def unsigned_mandate_def Let_def toy_request_def opsMandateContext_def
        branchMatchesPolicy_def toy_lib_def tagged_hex_def hex_text_def is_hex_def objectiveHash_def
        ALWAYS_DENIED_ACTIONS_def js_int_def)
  show "operatorTypesFromMandate demo_mandate = [OpsObserve, OpsActuate]"
    by (simp add: operatorTypesFromMandate_def OPERATOR_ACTION_TYPES_def demo_mandate_def unsigned_mandate_def Let_def
        toy_request_def ALWAYS_DENIED_ACTIONS_def DEFAULT_ALLOWED_ACTIONS_def)
qed

lemma demo_action_ok: "evaluateTypedOperatorAction toy_lib demo_action [OpsObserve, OpsActuate] = Inr (OpsActuate, demo_args)"
  by (simp add: evaluateTypedOperatorAction_def demo_action_def demo_args_def prop_of_def OPERATOR_ACTION_TYPES_def
      validateArgs_def args_shape_ok_def str_prop_def sat_str_def safe_action_id_def id_text_def is_alnum_def
      is_lower_def checkForbidden_def stringsOf.simps utf8_length_def toy_lib_def)

lemma demo_hash_ok: "actionHash toy_lib \<lparr>ai_host_id = ''h1'', ai_mandate_id = ''mandate_r'', ai_type = type_name OpsActuate,
    ai_args = demo_args, ai_resource = plan_resource demo_plan\<rparr> = Inr demo_hash"
proof -
  let ?i = "\<lparr>ai_host_id = ''h1'', ai_mandate_id = ''mandate_r'', ai_type = type_name OpsActuate,
    ai_args = demo_args, ai_resource = plan_resource demo_plan\<rparr>"
  have "\<exists>s. canonicalJson 0 (action_json ?i) = Inr s"
    by (simp add: action_json_def demo_args_def demo_plan_def canonicalJson.simps bracket_def sequence.simps entry_text_def split: sum.splits)
  then show ?thesis by (auto simp: actionHash_def toy_lib_def demo_hash_def)
qed

lemma demo_owner_ok: "owner_ok ''ana''"
  by (simp add: owner_ok_def id_text_def is_alnum_def is_lower_def)

section \<open>Running the demo\<close>

definition demo_unit :: string where
  "demo_unit = ''unit:api.service''"

definition demo_journal :: "int \<Rightarrow> execution_record list \<Rightarrow> journal" where
  "demo_journal d rows = journal_empty\<lparr>jl_executions := rows,
     jl_leases := (if d = 0 then Map.empty
       else [demo_unit \<mapsto> \<lparr>lr_owner = ''ana'', lr_depth = d, lr_expires_at_ms = 35002\<rparr>])\<rparr>"

definition demo_row :: "char \<Rightarrow> string \<Rightarrow> execution_state \<Rightarrow> execution_record" where
  "demo_row x i st = (admission_row i (demo_call x))\<lparr>ex_pid := 1, ex_state := st,
     ex_started_at := (if st = Admitted then None else Some 3)\<rparr>"

lemma demo_row_fields [simp]:
  "ex_execution_id (demo_row x i st) = i" "ex_state (demo_row x i st) = st"
  "ex_idempotency_key (demo_row x i st) = ''approval:'' @ demo_approval_id x"
  "ex_approval_id (demo_row x i st) = Some (demo_approval_id x)" "ex_target (demo_row x i st) = demo_unit"
  "ex_action_type (demo_row x i st) = OpsActuate"
  by (simp_all add: demo_row_def admission_row_def demo_call_def demo_unit_def demo_plan_def)

lemma demo_approval_id_inj [simp]: "demo_approval_id x = demo_approval_id y \<longleftrightarrow> x = y"
  by (simp add: demo_approval_id_def)

lemma demo_journal_fields [simp]:
  "jl_executions (demo_journal d rows) = rows" "jl_stop (demo_journal d rows) = None"
  "jl_revocations (demo_journal d rows) = []" "demo_journal 0 [] = journal_empty"
  by (simp_all add: demo_journal_def journal_empty_def)

lemma demo_stop [simp]: "stopReason False (demo_journal d rows) = None"
  by (simp add: stopReason_def stopState_def)

lemma demo_action_gate:
  "action_gate demo_config (demo_request x) 2 False (demo_journal d rows) = Inr (OpsActuate, demo_args, demo_plan, demo_hash)"
  by (simp add: action_gate_def Let_def demo_config_def demo_request_def demo_owner_ok demo_mandate_ok demo_action_ok
      demo_plan_ok demo_hash_ok demo_hash_ok[simplified] isRevoked_def sample_catalog_def[THEN arg_cong, of ec_host_id])

lemma demo_claim:
  "claimLease demo_unit ''ana'' 35000 2 (demo_journal 0 rows) = (Inr 1, demo_journal 1 rows)"
  "claimLease demo_unit ''ana'' 35000 2 (demo_journal 1 rows) = (Inr 2, demo_journal 2 rows)"
  by (simp_all add: claimLease_def Let_def demo_journal_def journal_empty_def)

lemma demo_begin:
  assumes "is_hex x" "\<forall>r\<in>set rows. ex_approval_id r \<noteq> Some (demo_approval_id x) \<and> is_final (ex_state r)" "d = 0 \<or> d = 1"
  shows "exec_begin demo_config (demo_request x) 2 rnd False (demo_journal d rows)
      = (Proceed (demo_call x), demo_journal (d + 1) rows)"
proof -
  obtain a where a: "isApprovalShape (demo_approval x) = Some a" "aa_approval_id a = demo_approval_id x"
    "verifyActuationApproval toy_lib (demo_approval x) ''mandate_r'' demo_hash 2 [(''key_000000000000'', ())] = Inr a"
    using demo_approval_verifies[OF assms(1)] by blast
  have cand: "\<exists>es. demo_approval x = JObj es \<and> str_prop es ''approval_id'' = Some (demo_approval_id x)"
    by (simp add: demo_approval_def str_prop_def prop_of_def)
  have none: "findByApproval (demo_approval_id x) (demo_journal d rows) = None" "inFlightOn demo_unit (demo_journal d rows) = None"
    using assms(2) by (auto simp: findByApproval_def inFlightOn_def find_None_iff row_find_def)
  have gate: "approval_gate demo_config (demo_request x) demo_hash demo_unit 2 (demo_journal d rows)
      = (Inr (demo_approval_id x), demo_journal d rows)"
    using cand a none by (auto simp: approval_gate_def Let_def demo_config_def demo_request_def isRevoked_def)
  have unit: "plan_resource demo_plan = demo_unit" "plan_timeout demo_plan = 5000"
    by (simp_all add: demo_plan_def demo_unit_def)
  show ?thesis
    using assms(3) demo_claim[of rows]
    by (auto simp: exec_begin_def demo_action_gate Let_def gate unit) (simp_all add: demo_call_def demo_request_def)
qed

lemma demo_admit:
  assumes "\<forall>r\<in>set rows. ex_approval_id r \<noteq> Some (demo_approval_id x) \<and> ex_execution_id r \<noteq> i
      \<and> ex_idempotency_key r \<noteq> ''approval:'' @ demo_approval_id x"
  shows "exec_admit 1 (demo_call x) (UnitState ''active'' s) False i (demo_journal d rows)
      = (Inr i, demo_journal d (rows @ [demo_row x i Admitted]))"
proof -
  have "admit 1 (admission_row i (demo_call x)) (demo_journal d rows) = Inr (demo_journal d (rows @ [demo_row x i Admitted]))"
    using assms by (auto simp: admit_def admission_row_def demo_call_def demo_row_def demo_journal_def)
  moreover have "unit_gate (demo_call x) (UnitState ''active'' s) False (demo_journal d rows) = None"
    by (simp add: unit_gate_def TRANSITIONAL_STATES_def)
  ultimately show ?thesis by (simp add: exec_admit_def)
qed

lemma demo_start:
  assumes "\<forall>r\<in>set rows. ex_execution_id r \<noteq> i"
  shows "exec_start ca i False False 3 (demo_journal d (rows @ [demo_row x i Admitted]))
      = (None, demo_journal d (rows @ [demo_row x i Started]))"
proof -
  have "row_update (\<lambda>r. ex_execution_id r = i \<and> ex_state r = Admitted) f rows = rows" for f
    using assms by (auto simp: row_update_def intro!: map_idI)
  moreover have "row_changes (\<lambda>r. ex_execution_id r = i \<and> ex_state r = Admitted) rows = 0"
    using assms by (auto simp: row_changes_def filter_empty_conv)
  ultimately have "markStarted i 3 (demo_journal d (rows @ [demo_row x i Admitted])) = Inr (demo_journal d (rows @ [demo_row x i Started]))"
    by (simp add: markStarted_def Let_def row_update_def row_changes_def demo_row_def demo_journal_def admission_row_def)
  then show ?thesis by (simp add: exec_start_def Let_def)
qed


definition demo_awaiting :: exec_system where
  "demo_awaiting = set_thread 0 (AwaitUnit 1 (demo_call CHR ''0'')) (demo_journal 1 []) exec_init"

definition demo_both_awaiting :: exec_system where
  "demo_both_awaiting = set_thread 1 (AwaitUnit 1 (demo_call CHR ''1'')) (demo_journal 2 []) demo_awaiting"

definition demo_first_running :: exec_system where
  "demo_first_running = \<lparr>xs_journal = demo_journal 2 [demo_row CHR ''0'' ''e0'' Started], xs_stopFile = False,
     xs_threads = [0 \<mapsto> Running 1 (demo_call CHR ''0'') ''e0'' False, 1 \<mapsto> AwaitUnit 1 (demo_call CHR ''1'')],
     xs_effects = [(''e0'', demo_call CHR ''0'')]\<rparr>"

definition demo_both_running :: exec_system where
  "demo_both_running = \<lparr>xs_journal = demo_journal 2 [demo_row CHR ''0'' ''e0'' Started, demo_row CHR ''1'' ''e1'' Started],
     xs_stopFile = False,
     xs_threads = [0 \<mapsto> Running 1 (demo_call CHR ''0'') ''e0'' False, 1 \<mapsto> Running 1 (demo_call CHR ''1'') ''e1'' False],
     xs_effects = [(''e0'', demo_call CHR ''0''), (''e1'', demo_call CHR ''1'')]\<rparr>"

lemma demo_hex: "is_hex CHR ''0''" "is_hex CHR ''1''"
  by (simp_all add: is_hex_def)

lemma demo_awaiting_reachable: "exec_reachable demo_config demo_awaiting"
proof -
  have "exec_step demo_config exec_init demo_awaiting"
    unfolding demo_awaiting_def
    by (rule x_begin_proceed[where rq = "demo_request CHR ''0''" and now = 2 and rnd = "''''"])
      (use demo_begin[OF demo_hex(1), of "[]" 0] in \<open>auto simp: exec_init_def\<close>)
  then show ?thesis by (rule r_into_rtranclp)
qed

lemma demo_both_awaiting_reachable: "exec_reachable demo_config demo_both_awaiting"
proof (rule rtranclp.rtrancl_into_rtrancl[OF demo_awaiting_reachable])
  show "exec_step demo_config demo_awaiting demo_both_awaiting"
    unfolding demo_both_awaiting_def
    by (rule x_begin_proceed[where rq = "demo_request CHR ''1''" and now = 2 and rnd = "''''"])
      (use demo_begin[OF demo_hex(2), of "[]" 1] in \<open>auto simp: exec_init_def demo_awaiting_def set_thread_def\<close>)
qed

lemma demo_first_running_reachable: "exec_reachable demo_config demo_first_running"
proof (rule rtranclp.rtrancl_into_rtrancl[OF rtranclp.rtrancl_into_rtrancl[OF demo_both_awaiting_reachable]])
  let ?s = "set_thread 0 (AdmittedThread 1 (demo_call CHR ''0'') ''e0'' False) (demo_journal 2 [demo_row CHR ''0'' ''e0'' Admitted])
      demo_both_awaiting"
  show "exec_step demo_config demo_both_awaiting ?s"
    by (rule x_admit[where st = "UnitState ''active'' ''running''"])
      (use demo_admit[of "[]" "CHR ''0''" "''e0''" "''running''" 2] in
        \<open>auto simp: exec_init_def demo_awaiting_def demo_both_awaiting_def set_thread_def\<close>)
  have "exec_step demo_config ?s (set_thread 0 (Running 1 (demo_call CHR ''0'') ''e0'' False)
      (demo_journal 2 [demo_row CHR ''0'' ''e0'' Started]) (?s\<lparr>xs_effects := xs_effects ?s @ [(''e0'', demo_call CHR ''0'')]\<rparr>))"
    by (rule x_start[where now = 3])
      (use demo_start[of "[]" "''e0''" "demo_call CHR ''0''" 2 "CHR ''0''"] in
        \<open>auto simp: exec_init_def demo_awaiting_def demo_both_awaiting_def set_thread_def\<close>)
  then show "exec_step demo_config ?s demo_first_running"
    by (simp add: demo_first_running_def set_thread_def demo_both_awaiting_def demo_awaiting_def exec_init_def fun_upd_twist)
qed

lemma demo_both_running_reachable: "exec_reachable demo_config demo_both_running"
proof (rule rtranclp.rtrancl_into_rtrancl[OF rtranclp.rtrancl_into_rtrancl[OF demo_first_running_reachable]])
  let ?s = "set_thread 1 (AdmittedThread 1 (demo_call CHR ''1'') ''e1'' False)
      (demo_journal 2 [demo_row CHR ''0'' ''e0'' Started, demo_row CHR ''1'' ''e1'' Admitted]) demo_first_running"
  show "exec_step demo_config demo_first_running ?s"
    by (rule x_admit[where st = "UnitState ''active'' ''running''"])
      (use demo_admit[of "[demo_row CHR ''0'' ''e0'' Started]" "CHR ''1''" "''e1''" "''running''" 2] in
        \<open>auto simp: demo_first_running_def\<close>)
  have "exec_step demo_config ?s (set_thread 1 (Running 1 (demo_call CHR ''1'') ''e1'' False)
      (demo_journal 2 [demo_row CHR ''0'' ''e0'' Started, demo_row CHR ''1'' ''e1'' Started])
      (?s\<lparr>xs_effects := xs_effects ?s @ [(''e1'', demo_call CHR ''1'')]\<rparr>))"
    by (rule x_start[where now = 3])
      (use demo_start[of "[demo_row CHR ''0'' ''e0'' Started]" "''e1''" "demo_call CHR ''1''" 2 "CHR ''1''"] in
        \<open>auto simp: demo_first_running_def set_thread_def\<close>)
  then show "exec_step demo_config ?s demo_both_running"
    by (simp add: demo_both_running_def set_thread_def demo_first_running_def)
qed

text \<open>The refusal of a second actuation on a unit in work does not hold within one owner: the journal is
  asked for actuations in flight before the reading of the unit's state and not again, and the lease
  is reentrant, so two calls of one owner, each with its own approval, both run on one unit at once.\<close>

theorem same_owner_actuations_overlap:
  "\<exists>(c :: unit executor_config) s ca ca'. exec_reachable c s
    \<and> xs_threads s 0 = Some (Running 1 ca ''e0'' False) \<and> xs_threads s 1 = Some (Running 1 ca' ''e1'' False)
    \<and> ca_type ca = OpsActuate \<and> ca_type ca' = OpsActuate \<and> ca_approvalId ca \<noteq> ca_approvalId ca'
    \<and> plan_resource (ca_plan ca) = plan_resource (ca_plan ca')"
  by (intro exI[of _ demo_config] exI[of _ demo_both_running] exI[of _ "demo_call CHR ''0''"] exI[of _ "demo_call CHR ''1''"])
    (use demo_both_running_reachable in \<open>simp add: demo_both_running_def demo_call_def\<close>)

text \<open>A revocation given while a call reads the unit's state does not keep the action from starting: after
  that reading only STOP is asked again, so a revoked approval still starts its action.\<close>

theorem revoked_approval_still_starts:
  "\<exists>(c :: unit executor_config) s s' i ca a. exec_reachable c s \<and> (exec_step c)\<^sup>*\<^sup>* s s'
    \<and> ca_approvalId ca = Some a \<and> isRevoked ApprovalRevocation (Some a) (xs_journal s)
    \<and> (i, ca) \<notin> set (xs_effects s) \<and> (i, ca) \<in> set (xs_effects s')"
proof -
  let ?ca = "demo_call CHR ''0''" and ?a = "demo_approval_id CHR ''0''"
  let ?j = "\<lambda>rows. journal_revoke ApprovalRevocation ?a (demo_journal 1 rows)"
  let ?s = "revokeApproval 1 ?a demo_awaiting"
  let ?s1 = "set_thread 0 (AdmittedThread 1 ?ca ''e0'' False) (?j [demo_row CHR ''0'' ''e0'' Admitted]) ?s"
  let ?s2 = "set_thread 0 (Running 1 ?ca ''e0'' False) (?j [demo_row CHR ''0'' ''e0'' Started]) (?s1\<lparr>xs_effects := xs_effects ?s1 @ [(''e0'', ?ca)]\<rparr>)"
  have s: "exec_reachable demo_config ?s"
    by (rule rtranclp.rtrancl_into_rtrancl[OF demo_awaiting_reachable x_revoke_approval])
  have "xs_threads ?s 0 = Some (AwaitUnit 1 ?ca)" "xs_journal ?s = ?j []" "xs_stopFile ?s = False" "xs_effects ?s = []"
    by (simp_all add: demo_awaiting_def revokeApproval_def exec_init_def set_thread_def)
  note f = this
  have nostop: "stopReason False (?j rows) = None" for rows
    by (simp add: stopReason_def stopState_def journal_revoke_def)
  have "exec_admit 1 ?ca (UnitState ''active'' ''running'') False ''e0'' (?j []) = (Inr ''e0'', ?j [demo_row CHR ''0'' ''e0'' Admitted])"
    by (simp add: exec_admit_def unit_gate_def TRANSITIONAL_STATES_def nostop admit_def)
      (simp add: journal_revoke_def demo_journal_def demo_row_def admission_row_def journal_empty_def)
  then have "exec_step demo_config ?s ?s1" by (intro x_admit[OF f(1)]) (simp add: f(2,3))
  moreover have "exec_start ?ca ''e0'' False False 3 (?j [demo_row CHR ''0'' ''e0'' Admitted]) = (None, ?j [demo_row CHR ''0'' ''e0'' Started])"
    by (simp add: exec_start_def Let_def nostop markStarted_def row_changes_def row_update_def)
      (simp add: journal_revoke_def demo_journal_def demo_row_def admission_row_def journal_empty_def)
  then have "exec_step demo_config ?s1 ?s2"
    by (intro x_start[where now = 3 and ab = False]) (simp_all add: f(3) set_thread_def)
  ultimately have steps: "(exec_step demo_config)\<^sup>*\<^sup>* ?s ?s2" by auto
  have "isRevoked ApprovalRevocation (Some ?a) (xs_journal ?s)"
    using f(2) by (simp add: isRevoked_def journal_revoke_def demo_approval_id_def truthy_str_def)
  moreover have "ca_approvalId ?ca = Some ?a" by (simp add: demo_call_def)
  ultimately show ?thesis using s steps f(4)
    by (intro exI[of _ demo_config] exI[of _ ?s] exI[of _ ?s2] exI[of _ "''e0''"] exI[of _ ?ca] exI[of _ ?a]) simp
qed

section \<open>The guarantees at the demo\<close>

theorem at_most_once_actuation_witness:
  "effect_approvals demo_both_running = [demo_approval_id CHR ''0'', demo_approval_id CHR ''1''] \<and> distinct (effect_approvals demo_both_running)"
  using at_most_once_actuation[OF demo_both_running_reachable]
  by (simp add: effect_approvals_def demo_both_running_def demo_call_def)

theorem effects_authorized_witness:
  "verifyOperationsMandate toy_lib demo_mandate (xc_mandateKeys demo_config)
   \<and> (\<exists>r\<in>set (jl_executions (xs_journal demo_first_running)). ex_execution_id r = ''e0'' \<and> ex_target r = demo_unit)"
proof -
  let ?ca = "demo_call CHR ''0''"
  have e: "(''e0'', ?ca) \<in> set (xs_effects demo_first_running)" by (simp add: demo_first_running_def)
  have f: "ca_mandate ?ca = demo_mandate" "xc_lib demo_config = toy_lib" "plan_resource (ca_plan ?ca) = demo_unit"
    by (simp_all add: demo_call_def demo_config_def demo_plan_def demo_unit_def)
  note t = effects_authorized[OF demo_first_running_reachable e]
  have "verifyOperationsMandate toy_lib demo_mandate (xc_mandateKeys demo_config)" using conjunct1[OF t] unfolding f .
  moreover note t[THEN conjunct2, THEN conjunct2, THEN conjunct2, THEN conjunct2, THEN conjunct2, THEN conjunct1, unfolded f]
  ultimately show ?thesis by blast
qed

theorem stop_starts_nothing_witness:
  "xs_effects (executor_poll 1 (executor_stop 1 ''halt'' demo_first_running)) = [(''e0'', demo_call CHR ''0'')]"
proof -
  let ?s = "executor_stop 1 ''halt'' demo_first_running"
  define step where "step = (\<lambda>s t. exec_step demo_config s t \<and> stopReason (xs_stopFile s) (xs_journal s) \<noteq> None)"
  have "step ?s (executor_poll 1 ?s)"
    by (simp add: step_def x_poll stopReason_def stopState_def executor_stop_def setStop_def)
  then have "step\<^sup>*\<^sup>* ?s (executor_poll 1 ?s)" by (rule r_into_rtranclp)
  note quiet = conjunct1[OF stop_starts_nothing[OF this[unfolded step_def]]]
  show ?thesis unfolding quiet by (simp add: executor_stop_def demo_first_running_def)
qed

end
