(* ===== verification/ReceiptFacts.thy ===== *)
theory ReceiptFacts imports ExecutorDemo begin

text \<open>
  Receipts: in every reachable state an execution is recorded as done or failed only if the runner was
  called for it, and then with a signed receipt of exactly what the row says.
\<close>

definition row_receipt_body :: "'k executor_config \<Rightarrow> execution_record \<Rightarrow> receipt_body" where
  "row_receipt_body c r =
     \<lparr>rb_execution_id = ex_execution_id r, rb_host_id = ec_host_id (xc_catalog c), rb_mandate_id = ex_mandate_id r,
      rb_action_hash = ex_action_hash r, rb_state = ex_state r, rb_exit_code = ex_exit_code r,
      rb_output_sha256 = nullish (ex_output_sha256 r) '''', rb_finished_at = nullish (ex_finished_at r) 0\<rparr>"

definition plan_exit_ok :: "execution_plan \<Rightarrow> int option \<Rightarrow> bool" where
  "plan_exit_ok plan x \<longleftrightarrow>
     (case plan of HttpPlan _ _ _ \<Rightarrow> (\<exists>n. x = Some n \<and> 200 \<le> n \<and> n < 300) | SpawnPlan _ _ _ _ \<Rightarrow> x = Some 0)"

definition attested :: "'k executor_config \<Rightarrow> 'k \<Rightarrow> (string \<times> exec_call) list \<Rightarrow> execution_record \<Rightarrow> bool" where
  "attested c pub es r \<longleftrightarrow>
     (if ex_state r = Done \<or> ex_state r = Failed
      then verifyExecutionReceipt (xc_lib c) (row_receipt_body c r) (ex_receipt r) pub
         \<and> (\<exists>ca. (ex_execution_id r, ca) \<in> set es \<and> (ex_state r = Done \<longrightarrow> plan_exit_ok (ca_plan ca) (ex_exit_code r)))
      else ex_receipt r = None)"

definition receipt_key_ok :: "'k executor_config \<Rightarrow> 'k \<Rightarrow> bool" where
  "receipt_key_ok c pub \<longleftrightarrow>
     (\<forall>d t. signature_text (lib_sign (xc_lib c) d t (xc_receiptKey c))
        \<and> lib_verify (xc_lib c) d t (lib_sign (xc_lib c) d t (xc_receiptKey c)) pub)"

lemma attested_more: "attested c pub es r \<Longrightarrow> attested c pub (es @ fs) r"
  unfolding attested_def by (auto split: if_splits)

lemma attested_running: "ex_state r \<in> {Admitted, Started} \<Longrightarrow> attested c pub es r \<longleftrightarrow> ex_receipt r = None"
  by (auto simp: attested_def)

lemma update_attested:
  assumes "\<forall>r\<in>set rs. attested c pub es r" "\<And>r. r \<in> set rs \<Longrightarrow> p r \<Longrightarrow> attested c pub es r \<Longrightarrow> attested c pub es (f r)"
  shows "\<forall>r\<in>set (row_update p f rs). attested c pub es r"
  using assms by (auto simp: row_update_def)

definition all_attested :: "'k executor_config \<Rightarrow> 'k \<Rightarrow> (string \<times> exec_call) list \<Rightarrow> journal \<Rightarrow> bool" where
  "all_attested c pub es j \<longleftrightarrow> (\<forall>r\<in>set (jl_executions j). attested c pub es r)"

lemma all_attested_rows: "jl_executions j' = jl_executions j \<Longrightarrow> all_attested c pub es j \<Longrightarrow> all_attested c pub es j'"
  by (simp add: all_attested_def)

lemma open_attested: "all_attested c pub es j \<Longrightarrow> all_attested c pub es (journal_open alive now j)"
  unfolding all_attested_def journal_open_def
proof (simp, rule update_attested)
  fix r assume "attested c pub es r" "\<not> is_final (ex_state r) \<and> \<not> alive (ex_pid r)"
  then have "ex_receipt r = None" by (cases "ex_state r") (auto simp: attested_def is_final_def)
  then show "attested c pub es (close_orphan now r)" by (simp add: attested_def close_orphan_def)
qed

lemma admit_attested: "all_attested c pub es j \<Longrightarrow> admit pid r j = Inr j' \<Longrightarrow> all_attested c pub es j'"
  by (auto simp: all_attested_def admit_def attested_def split: if_splits)

lemma updated_rows:
  "(if b then Inl e else Inr (j\<lparr>jl_executions := rs\<rparr>)) = Inr j' \<Longrightarrow> (jl_executions j' = rs \<Longrightarrow> P) \<Longrightarrow> P"
  by (cases b) auto

lemma start_attested: "all_attested c pub es j \<Longrightarrow> markStarted i now j = Inr j' \<Longrightarrow> all_attested c pub es j'"
proof -
  assume a: "all_attested c pub es j" "markStarted i now j = Inr j'"
  from a(2) have rows: "jl_executions j' = row_update (\<lambda>r. ex_execution_id r = i \<and> ex_state r = Admitted)
      (\<lambda>r. r\<lparr>ex_state := Started, ex_started_at := Some now\<rparr>) (jl_executions j)"
    unfolding markStarted_def Let_def by (elim updated_rows)
  show ?thesis
    unfolding all_attested_def rows
    by (rule update_attested) (use a(1) in \<open>auto simp: all_attested_def attested_def\<close>)
qed

lemma finish_attested:
  assumes "all_attested c pub es j" "journal_finish i f j = Inr j'"
    and "\<And>r. r \<in> set (jl_executions j) \<Longrightarrow> ex_execution_id r = i \<Longrightarrow> attested c pub es (close_row f r)"
  shows "all_attested c pub es j'"
proof -
  have "jl_executions j' = row_update (\<lambda>r. ex_execution_id r = i \<and> \<not> is_final (ex_state r)) (close_row f) (jl_executions j)"
    using assms(2) unfolding journal_finish_def Let_def by (elim updated_rows)
  moreover have "\<forall>r\<in>set (row_update (\<lambda>r. ex_execution_id r = i \<and> \<not> is_final (ex_state r)) (close_row f) (jl_executions j)). attested c pub es r"
    by (rule update_attested) (use assms(1,3) in \<open>simp_all add: all_attested_def\<close>)
  ultimately show ?thesis by (simp add: all_attested_def)
qed

lemma close_attested:
  assumes "all_attested c pub es j" "close_with ca i f txt j = (out, j')"
    and "\<And>r. r \<in> set (jl_executions j) \<Longrightarrow> ex_execution_id r = i \<Longrightarrow> attested c pub es (close_row f r)"
  shows "all_attested c pub es j'"
proof (cases "journal_finish i f j")
  case (Inl e)
  with assms(1,2) show ?thesis by (auto simp: close_with_def intro: all_attested_rows)
next
  case (Inr j1)
  have "all_attested c pub es j1" by (rule finish_attested[OF assms(1) Inr assms(3)])
  with assms(2) Inr show ?thesis by (auto simp: close_with_def intro: all_attested_rows)
qed

text \<open>What the executor writes when it closes an execution of its own.\<close>

lemma finish_of_attested:
  assumes key: "receipt_key_ok c pub" and e: "(i, ca) \<in> set es" and row: "call_row i pid ca r"
  shows "attested c pub es (close_row (finish_of c ca i res ab sf now j) r)"
proof -
  let ?f = "finish_of c ca i res ab sf now j"
  have ids: "ex_execution_id r = i" "ex_mandate_id r = md_mandate_id (ca_mandate ca)" "ex_action_hash r = ca_hash ca"
    using row by (auto simp: call_row_def row_identity_def admission_row_def)
  show ?thesis
  proof (cases "ff_state ?f = Done \<or> ff_state ?f = Failed")
    case True
    then have f: "?f = \<lparr>ff_state = (if run_succeeded (ca_plan ca) res then Done else Failed),
            ff_reason = (if run_succeeded (ca_plan ca) res then None else Some (ROutcome (rr_outcome res) (rr_exitCode res))),
            ff_exitCode = rr_exitCode res, ff_outputSha256 = Some (lib_sha256 (xc_lib c) (rr_output res)),
            ff_receipt = Some (lib_sign (xc_lib c) RECEIPT_VERSION
              (receipt_text (xc_lib c) (receipt_of c ca i res now)) (xc_receiptKey c)), ff_at = now\<rparr>"
      by (auto simp: finish_of_def Let_def split: if_splits)
    have "row_receipt_body c (close_row ?f r) = receipt_of c ca i res now"
      unfolding f by (simp add: row_receipt_body_def close_row_def receipt_of_def ids nullish_def)
    then have "verifyExecutionReceipt (xc_lib c) (row_receipt_body c (close_row ?f r)) (ex_receipt (close_row ?f r)) pub"
      using key unfolding f by (simp add: verifyExecutionReceipt_def verifyDomain_def receipt_key_ok_def close_row_def)
    moreover have "ex_state (close_row ?f r) = Done \<longrightarrow> plan_exit_ok (ca_plan ca) (ex_exit_code (close_row ?f r))"
      unfolding f by (auto simp: close_row_def run_succeeded_def plan_exit_ok_def split: execution_plan.splits option.splits if_splits)
    moreover have "ex_execution_id (close_row ?f r) = i" by (simp add: close_row_def ids)
    moreover have "ex_state (close_row ?f r) = Done \<or> ex_state (close_row ?f r) = Failed" using True by (simp add: close_row_def)
    ultimately show ?thesis using e unfolding attested_def by auto
  next
    case False
    then have "ff_receipt ?f = None" by (auto simp: finish_of_def Let_def split: if_splits)
    with False show ?thesis by (simp add: attested_def close_row_def)
  qed
qed

lemma running_row:
  assumes "exec_inv c s" "xs_threads s k = Some (Running pid ca i ab)" "r \<in> set (jl_executions (xs_journal s))"
    "ex_execution_id r = i"
  shows "call_row i pid ca r \<and> (i, ca) \<in> set (xs_effects s)"
proof -
  have "thread_ok c s (Running pid ca i ab)" using assms(1,2) by (auto simp: exec_inv_def)
  then have e: "(i, ca) \<in> set (xs_effects s)" and "admitted_in (xs_journal s) i pid ca" by (auto simp: thread_ok_def)
  then obtain q where q: "q \<in> set (jl_executions (xs_journal s))" "call_row i pid ca q" by (auto simp: admitted_in_def)
  have "distinct (map ex_execution_id (jl_executions (xs_journal s)))"
    using assms(1) by (simp add: exec_inv_def journal_wf_def)
  then have "q = r" using q(1) assms(3) call_row_id[OF q(2)] assms(4) by (auto simp: distinct_map inj_on_def)
  with q(2) e show ?thesis by simp
qed

lemma exec_step_attested:
  assumes "exec_step c s s'" "exec_inv c s" "receipt_key_ok c pub" "all_attested c pub (xs_effects s) (xs_journal s)"
  shows "all_attested c pub (xs_effects s') (xs_journal s')"
  using assms(1)
proof (cases rule: exec_step.cases)
  case (x_begin_return k rq now rnd out j pid)
  from conjunct2[OF exec_begin_journal[OF this(3)]] assms(4) all_attested_rows this(1) show ?thesis by simp
next
  case (x_begin_proceed k rq now rnd ca j pid)
  from conjunct2[OF exec_begin_journal[OF this(3)]] assms(4) all_attested_rows this(1) show ?thesis by simp
next
  case (x_admit_return k pid ca st i out j)
  then have "jl_executions j = jl_executions (xs_journal s)"
    by (auto simp: exec_admit_def Let_def split: option.splits sum.splits)
  with x_admit_return assms(4) show ?thesis by (auto intro: all_attested_rows)
next
  case (x_admit k pid ca st i i' j)
  from admit_attested[OF assms(4) conjunct2[OF exec_admit_journal(2)[OF x_admit(3) refl]]] x_admit(1) show ?thesis by simp
next
  case (x_start_return k pid ca i ab now out j)
  have "all_attested c pub (xs_effects s) j"
  proof (cases "stopReason (xs_stopFile s) (xs_journal s) \<noteq> None \<or> ab")
    case True
    with x_start_return(3) show ?thesis
      by (auto simp: exec_start_def Let_def split: prod.splits intro!: close_attested[OF assms(4)])
        (auto simp: attested_def close_row_def)
  next
    case False
    with x_start_return(3) assms(4) show ?thesis
      by (auto simp: exec_start_def Let_def split: sum.splits intro: all_attested_rows)
  qed
  with x_start_return show ?thesis by simp
next
  case (x_start k pid ca i ab now j)
  have "all_attested c pub (xs_effects s) j"
    using start_attested[OF assms(4)] exec_start_NoneD[OF x_start(3)] by blast
  with x_start show ?thesis by (auto simp: all_attested_def intro: attested_more)
next
  case (x_finish k pid ca i ab r now out j)
  have "all_attested c pub (xs_effects s) j"
    using x_finish(3) unfolding exec_finish_def
    by (rule close_attested[OF assms(4)]) (use running_row[OF assms(2) x_finish(2)] finish_of_attested[OF assms(3)] in blast)
  with x_finish show ?thesis by simp
qed (use assms(4) in \<open>auto simp: executor_event_defs intro: all_attested_rows open_attested\<close>)

text \<open>C23. No fictitious execution: in every reachable state a row says done or failed only if the runner was
  called for it, and then carries a receipt that verifies, under the executor's public key, for exactly
  what the row says (host, mandate, action, exit code, output hash, time); done moreover means exit
  code 0, or an HTTP status of 200 to 299; and every other row has no receipt.\<close>

theorem receipts_attest_executions:
  assumes "exec_reachable c s" "receipt_key_ok c pub" "r \<in> set (jl_executions (xs_journal s))"
  shows "if ex_state r = Done \<or> ex_state r = Failed
    then verifyExecutionReceipt (xc_lib c) (row_receipt_body c r) (ex_receipt r) pub
       \<and> (\<exists>ca. (ex_execution_id r, ca) \<in> set (xs_effects s)
            \<and> (ex_state r = Done \<longrightarrow> plan_exit_ok (ca_plan ca) (ex_exit_code r)))
    else ex_receipt r = None"
proof -
  have "all_attested c pub (xs_effects s) (xs_journal s)"
    using assms(1)
  proof (induction rule: rtranclp_induct)
    case base
    then show ?case by (simp add: all_attested_def exec_init_def journal_empty_def)
  next
    case (step s t)
    then show ?case using exec_step_attested[OF _ exec_reachable_inv assms(2)] by blast
  qed
  with assms(3) show ?thesis by (auto simp: all_attested_def attested_def)
qed

definition demo_done :: exec_system where
  "demo_done = set_thread 0 (Returned 1 (fst (exec_finish demo_config (demo_call CHR ''0'') ''e0''
       \<lparr>rr_outcome = Completed, rr_exitCode = Some 0, rr_output = ''ok'', rr_halt = None\<rparr> False False 9
       (xs_journal demo_first_running))))
     (snd (exec_finish demo_config (demo_call CHR ''0'') ''e0''
       \<lparr>rr_outcome = Completed, rr_exitCode = Some 0, rr_output = ''ok'', rr_halt = None\<rparr> False False 9
       (xs_journal demo_first_running))) demo_first_running"

theorem receipts_attest_executions_witness:
  "\<exists>r. jl_executions (xs_journal demo_done) = [r] \<and> ex_state r = Done
     \<and> verifyExecutionReceipt toy_lib (row_receipt_body demo_config r) (ex_receipt r) ()"
proof -
  have reach: "exec_reachable demo_config demo_done"
    by (rule rtranclp.rtrancl_into_rtrancl[OF demo_first_running_reachable], unfold demo_done_def, rule x_finish)
      (auto simp: demo_first_running_def)
  have key: "receipt_key_ok demo_config ()"
    by (simp add: receipt_key_ok_def demo_config_def toy_lib_def signature_text_def list_all_iff is_alnum_def is_lower_def)
  let ?f = "finish_of demo_config (demo_call CHR ''0'') ''e0''
       \<lparr>rr_outcome = Completed, rr_exitCode = Some 0, rr_output = ''ok'', rr_halt = None\<rparr> False False 9
       (xs_journal demo_first_running)"
  have st: "ff_state ?f = Done"
    by (simp add: finish_of_def Let_def run_succeeded_def demo_call_def demo_plan_def)
  have rows: "jl_executions (xs_journal demo_done) = [close_row ?f (demo_row CHR ''0'' ''e0'' Started)]"
    by (simp add: demo_done_def exec_finish_def close_with_def journal_finish_def Let_def row_changes_def row_update_def
        demo_first_running_def is_final_def)
  have lib: "xc_lib demo_config = toy_lib" by (simp add: demo_config_def)
  from receipts_attest_executions[OF reach key, of "close_row ?f (demo_row CHR ''0'' ''e0'' Started)"] rows st
  show ?thesis unfolding lib by (simp add: close_row_def)
qed

end
