(* ===== verification/MissionStore.thy ===== *)
theory MissionStore imports Mandate HashLink begin

text \<open>
  Missions and their shared fabric, \<open>src/src/runtime/mission/store.ts\<close>.  The table
  \<open>runtime_missions\<close> is a list of rows; the column \<open>state_json\<close> is held as what \<open>JSON.parse\<close> makes of
  it: \<open>None\<close> for a text that does not parse to an object, or the fields that are present.  What
  \<open>JSON.stringify\<close> does to a payload on its way into the column is \<open>json_store\<close>.  SHA-256 is the
  parameter \<open>H\<close>; \<open>collate\<close> gives the sort keys of \<open>localeCompare\<close>.  Costs are exact numbers.
\<close>

section \<open>State\<close>

datatype mission_status = MissionOpen | MissionExecuting | MissionComplete | MissionFailed | MissionAbandoned

record mission_finding =
  mf_at :: string
  mf_source :: string
  mf_statement :: string
  mf_confidence :: json
  mf_citations :: json
  mf_contradicts :: "string option"

record mission_decision =
  de_at :: string
  de_decision :: string
  de_rationale :: string
  de_request_id :: string

record fabric_actor =
  ac_kind :: string
  ac_id :: string

record fabric_event =
  fe_event_id :: string
  fe_sequence :: int
  fe_at :: string
  fe_actor :: fabric_actor
  fe_type :: string
  fe_payload :: "(string \<times> json) list"
  fe_previous_hash :: "string option"
  fe_event_hash :: string

record fabric_state =
  fb_version :: int
  fb_event_head :: "string option"
  fb_events :: "fabric_event list"

record mission_state =
  st_findings :: "mission_finding list"
  st_decisions :: "mission_decision list"
  st_notes :: "(string \<times> string) list"
  st_request_ids :: "string list"
  st_fabric :: fabric_state

text \<open>The parsed column: absent fields, and a fabric of another schema version.\<close>

datatype fabric_blob = SchemaOne fabric_state | OtherSchema

record state_blob =
  sb_findings :: "mission_finding list option"
  sb_decisions :: "mission_decision list option"
  sb_notes :: "(string \<times> string) list option"
  sb_request_ids :: "string list option"
  sb_fabric :: "fabric_blob option"

record mission_row =
  mr_mission_id :: string
  mr_title :: string
  mr_objective :: string
  mr_status :: mission_status
  mr_operator_id :: "string option"
  mr_state_json :: "state_blob option"
  mr_requests_count :: int
  mr_cost_usd :: rat
  mr_created_at :: string
  mr_updated_at :: string

record mission =
  ms_mission_id :: string
  ms_title :: string
  ms_objective :: string
  ms_status :: mission_status
  ms_operator_id :: "string option"
  ms_state :: mission_state
  ms_requests_count :: int
  ms_cost_usd :: rat
  ms_created_at :: string
  ms_updated_at :: string

type_synonym mission_db = "mission_row list"

definition emptyFabric :: fabric_state where
  "emptyFabric = \<lparr>fb_version = 0, fb_event_head = None, fb_events = []\<rparr>"

definition emptyState :: mission_state where
  "emptyState = \<lparr>st_findings = [], st_decisions = [], st_notes = [], st_request_ids = [], st_fabric = emptyFabric\<rparr>"

section \<open>The column\<close>

text \<open>\<open>JSON.parse(JSON.stringify(v))\<close> for a value with a text.\<close>

fun json_store :: "json \<Rightarrow> json" and store_items :: "json list \<Rightarrow> json list"
  and store_entries :: "(string \<times> json) list \<Rightarrow> (string \<times> json) list" where
  "json_store JNonFinite = JNull"
| "json_store (JArr vs) = JArr (store_items vs)"
| "json_store (JObj es) = JObj (store_entries es)"
| "json_store v = v"
| "store_items [] = []"
| "store_items (v # vs) = (if v = JUndefined then JNull else json_store v) # store_items vs"
| "store_entries [] = []"
| "store_entries ((k, v) # es) = (if v = JUndefined then store_entries es else (k, json_store v) # store_entries es)"

definition store_event :: "fabric_event \<Rightarrow> fabric_event" where
  "store_event e = e\<lparr>fe_payload := store_entries (fe_payload e)\<rparr>"

definition store_finding :: "mission_finding \<Rightarrow> mission_finding" where
  "store_finding f = f\<lparr>mf_confidence := json_store (mf_confidence f), mf_citations := json_store (mf_citations f)\<rparr>"

definition stringify_state :: "mission_state \<Rightarrow> state_blob option" where
  "stringify_state s = Some
     \<lparr>sb_findings = Some (map store_finding (st_findings s)), sb_decisions = Some (st_decisions s),
      sb_notes = Some (st_notes s), sb_request_ids = Some (st_request_ids s),
      sb_fabric = Some (SchemaOne ((st_fabric s)\<lparr>fb_events := map store_event (fb_events (st_fabric s))\<rparr>))\<rparr>"

definition parseState :: "state_blob option \<Rightarrow> mission_state" where
  "parseState blob =
     (case blob of
        None \<Rightarrow> emptyState
      | Some b \<Rightarrow>
          \<lparr>st_findings = nullish (sb_findings b) [], st_decisions = nullish (sb_decisions b) [],
           st_notes = nullish (sb_notes b) [], st_request_ids = nullish (sb_request_ids b) [],
           st_fabric = (case sb_fabric b of Some (SchemaOne f) \<Rightarrow> f | _ \<Rightarrow> emptyFabric)\<rparr>)"

section \<open>Missions\<close>

definition mission_of :: "mission_row \<Rightarrow> mission" where
  "mission_of r =
     \<lparr>ms_mission_id = mr_mission_id r, ms_title = mr_title r, ms_objective = mr_objective r, ms_status = mr_status r,
      ms_operator_id = mr_operator_id r, ms_state = parseState (mr_state_json r),
      ms_requests_count = mr_requests_count r, ms_cost_usd = mr_cost_usd r,
      ms_created_at = mr_created_at r, ms_updated_at = mr_updated_at r\<rparr>"

definition getMission :: "string \<Rightarrow> mission_db \<Rightarrow> mission option" where
  "getMission i db = map_option mission_of (row_find mr_mission_id i db)"

text \<open>\<open>createMission\<close>: \<open>fresh\<close> is the id \<open>newMissionId\<close> would make.\<close>

definition createMission ::
  "string \<Rightarrow> string \<Rightarrow> string \<Rightarrow> string \<Rightarrow> string option \<Rightarrow> string option \<Rightarrow> mission_db
     \<Rightarrow> string + mission \<times> mission_db" where
  "createMission fresh now title objective operatorId missionId db =
     (let i = nullish missionId fresh;
          row = \<lparr>mr_mission_id = i, mr_title = title, mr_objective = objective, mr_status = MissionOpen,
                 mr_operator_id = operatorId, mr_state_json = stringify_state emptyState, mr_requests_count = 0,
                 mr_cost_usd = 0, mr_created_at = now, mr_updated_at = now\<rparr>
      in if i \<in> mr_mission_id ` set db then Inl ''UNIQUE constraint failed: runtime_missions.mission_id''
         else Inr (mission_of row, db @ [row]))"

definition listMissions :: "int \<Rightarrow> mission_db \<Rightarrow> mission list" where
  "listMissions cnt db = List.map_filter (\<lambda>r. getMission (mr_mission_id r) db) (take (nat (min 200 (max 1 cnt))) (rev db))"

definition setMissionStatus :: "string \<Rightarrow> string \<Rightarrow> mission_status \<Rightarrow> mission_db \<Rightarrow> bool \<times> mission_db" where
  "setMissionStatus now i st db =
     (row_changes (\<lambda>r. mr_mission_id r = i) db > 0,
      row_update (\<lambda>r. mr_mission_id r = i) (\<lambda>r. r\<lparr>mr_status := st, mr_updated_at := now\<rparr>) db)"

section \<open>Findings and contradictions\<close>

definition to_lower :: "char \<Rightarrow> char" where
  "to_lower c = (if is_upper c then char_of ((of_char c :: nat) + 32) else c)"

definition lower :: "string \<Rightarrow> string" where
  "lower s = map to_lower s"

definition word_char :: "char \<Rightarrow> bool" where
  "word_char c \<longleftrightarrow> is_alnum c \<or> c = CHR ''_''"

text \<open>\<open>\b(?:w1|w2|...)\b\<close>; the flag says whether the previous character is a word character.\<close>

fun has_word :: "string list \<Rightarrow> bool \<Rightarrow> string \<Rightarrow> bool" where
  "has_word ws after [] = False"
| "has_word ws after (c # cs) =
     (\<not> after \<and> list_ex (\<lambda>w. prefix w (c # cs)
          \<and> (case drop (length w) (c # cs) of [] \<Rightarrow> True | d # _ \<Rightarrow> \<not> word_char d)) ws
      \<or> has_word ws (word_char c) cs)"

definition negated :: "string \<Rightarrow> bool" where
  "negated s = has_word [''not'', ''no longer'', ''never'', ''false'', ''incorrect'', ''contrary''] False (lower s)"

definition STOPWORDS :: "string list" where
  "STOPWORDS = [''the'', ''a'', ''an'', ''is'', ''are'', ''was'', ''were'', ''be'', ''been'', ''and'', ''or'', ''of'',
     ''to'', ''in'', ''on'', ''for'', ''with'', ''that'', ''this'', ''it'', ''as'', ''by'', ''at'', ''from'', ''not'',
     ''no'', ''has'', ''have'', ''had'']"


definition significantTokens :: "string \<Rightarrow> string list" where
  "significantTokens s =
     filter (\<lambda>t. 2 < length t \<and> t \<notin> set STOPWORDS)
       (split_space [] (map (\<lambda>c. if is_lower c \<or> is_digit c \<or> is_space c then c else CHR '' '') (lower s)))"

text \<open>The test \<open>overlap / length >= 0.6\<close> is exact on these small numbers.\<close>

definition findContradiction :: "mission_finding list \<Rightarrow> mission_finding \<Rightarrow> string option" where
  "findContradiction existing candidate =
     (let toks = significantTokens (mf_statement candidate)
      in if length toks < 3 then None
         else map_option (\<lambda>p. take 200 (mf_statement p))
           (find (\<lambda>p. negated (mf_statement p) \<noteq> negated (mf_statement candidate)
               \<and> 3 * length toks \<le> 5 * length (filter (\<lambda>t. t \<in> set (significantTokens (mf_statement p))) toks))
             existing))"

fun push_findings :: "mission_finding list \<Rightarrow> mission_finding list \<Rightarrow> mission_finding list" where
  "push_findings existing [] = existing"
| "push_findings existing (f # fs) =
     push_findings (existing @ [case findContradiction existing f of None \<Rightarrow> f | Some c \<Rightarrow> f\<lparr>mf_contradicts := Some c\<rparr>]) fs"

text \<open>\<open>{...a, ...b}\<close> on objects as lists of entries.\<close>

fun obj_set :: "string \<Rightarrow> 'a \<Rightarrow> (string \<times> 'a) list \<Rightarrow> (string \<times> 'a) list" where
  "obj_set k v [] = [(k, v)]"
| "obj_set k v ((k', v') # es) = (if k' = k then (k, v) # es else (k', v') # obj_set k v es)"

definition spread :: "(string \<times> 'a) list \<Rightarrow> (string \<times> 'a) list \<Rightarrow> (string \<times> 'a) list" where
  "spread a b = fold (\<lambda>(k, v). obj_set k v) b a"

record mission_append =
  pa_requestId :: "string option"
  pa_findings :: "mission_finding list"
  pa_decision :: "mission_decision option"
  pa_notes :: "(string \<times> string) list"
  pa_costUsd :: rat

definition appended_state :: "string \<Rightarrow> mission_append \<Rightarrow> mission_state \<Rightarrow> mission_state" where
  "appended_state now p s =
     s\<lparr>st_findings := push_findings (st_findings s) (pa_findings p),
       st_decisions := (case pa_decision p of None \<Rightarrow> st_decisions s
         | Some d \<Rightarrow> st_decisions s @ [d\<lparr>de_at := now\<rparr>]),
       st_notes := spread (st_notes s) (pa_notes p),
       st_request_ids := (if truthy_str (pa_requestId p) \<and> the (pa_requestId p) \<notin> set (st_request_ids s)
         then st_request_ids s @ [the (pa_requestId p)] else st_request_ids s)\<rparr>"

definition appendToMission :: "string \<Rightarrow> string \<Rightarrow> mission_append \<Rightarrow> mission_db \<Rightarrow> mission option \<times> mission_db" where
  "appendToMission now i p db =
     (case row_find mr_mission_id i db of
        None \<Rightarrow> (None, db)
      | Some row \<Rightarrow>
          let state = appended_state now p (parseState (mr_state_json row));
              db' = row_update (\<lambda>r. mr_mission_id r = i)
                (\<lambda>r. r\<lparr>mr_state_json := stringify_state state,
                   mr_requests_count := mr_requests_count r + (if truthy_str (pa_requestId p) then 1 else 0),
                   mr_cost_usd := mr_cost_usd r + pa_costUsd p, mr_updated_at := now\<rparr>) db
          in (getMission i db', db'))"

section \<open>The fabric\<close>

text \<open>\<open>stableJson\<close>; \<open>None\<close> is \<open>undefined\<close>, which a template prints and \<open>join\<close> leaves empty.\<close>

fun stableJson :: "(string \<Rightarrow> string) \<Rightarrow> json \<Rightarrow> string option" and stable_items :: "(string \<Rightarrow> string) \<Rightarrow> json list \<Rightarrow> string list"
  and stable_entries :: "(string \<Rightarrow> string) \<Rightarrow> (string \<times> json) list \<Rightarrow> (string \<times> string) list" where
  "stableJson cl (JArr vs) = Some (''['' @ commas (stable_items cl vs) @ '']'')"
| "stableJson cl (JObj es) = Some (''{'' @ commas (map (\<lambda>(k, t). quote k @ '':'' @ t)
      (sort_key (\<lambda>(k, t). cl k) (stable_entries cl es))) @ ''}'')"
| "stableJson cl JUndefined = None"
| "stableJson cl v = Some (render v)"
| "stable_items cl [] = []"
| "stable_items cl (v # vs) = nullish (stableJson cl v) '''' # stable_items cl vs"
| "stable_entries cl [] = []"
| "stable_entries cl ((k, v) # es) = (k, nullish (stableJson cl v) ''undefined'') # stable_entries cl es"

text \<open>The hashed part of an event; \<open>num\<close> prints the sequence number.\<close>

fun nat_text :: "nat \<Rightarrow> string" where
  "nat_text n = (if n < 10 then [char_of (48 + n)] else nat_text (n div 10) @ [char_of (48 + n mod 10)])"

declare nat_text.simps [simp del]

definition int_text :: "int \<Rightarrow> string" where
  "int_text i = (if i < 0 then CHR ''-'' # nat_text (nat (- i)) else nat_text (nat i))"

definition event_core :: "int \<Rightarrow> string \<Rightarrow> fabric_actor \<Rightarrow> string \<Rightarrow> (string \<times> json) list \<Rightarrow> string option \<Rightarrow> json" where
  "event_core sq stamp actor ty payload prevHash = JObj
     [(''sequence'', JNum (int_text sq)), (''at'', JStr stamp),
      (''actor'', JObj [(''kind'', JStr (ac_kind actor)), (''id'', JStr (ac_id actor))]),
      (''type'', JStr ty), (''payload'', JObj payload),
      (''previous_hash'', case prevHash of None \<Rightarrow> JNull | Some h \<Rightarrow> JStr h)]"

definition core_text :: "(string \<Rightarrow> string) \<Rightarrow> fabric_event \<Rightarrow> string" where
  "core_text cl e = the (stableJson cl (event_core (fe_sequence e) (fe_at e) (fe_actor e) (fe_type e) (fe_payload e) (fe_previous_hash e)))"

record fabric_check =
  fc_valid :: bool
  fc_events :: nat
  fc_broken_at :: "int option"

fun verify_events :: "(string \<Rightarrow> string) \<Rightarrow> (string \<Rightarrow> string) \<Rightarrow> nat \<Rightarrow> string option \<Rightarrow> fabric_event list \<Rightarrow> int + string option" where
  "verify_events H cl index previous [] = Inr previous"
| "verify_events H cl index previous (e # es) =
     (if fe_sequence e \<noteq> int index + 1 \<or> fe_previous_hash e \<noteq> previous \<or> fe_event_hash e \<noteq> H (core_text cl e)
      then Inl (fe_sequence e) else verify_events H cl (Suc index) (Some (fe_event_hash e)) es)"

definition verifyFabricState :: "(string \<Rightarrow> string) \<Rightarrow> (string \<Rightarrow> string) \<Rightarrow> fabric_state \<Rightarrow> fabric_check" where
  "verifyFabricState H cl f =
     (let n = length (fb_events f)
      in if fb_version f \<noteq> int n then \<lparr>fc_valid = False, fc_events = n, fc_broken_at = Some (fb_version f)\<rparr>
         else case verify_events H cl 0 None (fb_events f) of
           Inl sq \<Rightarrow> \<lparr>fc_valid = False, fc_events = n, fc_broken_at = Some sq\<rparr>
         | Inr previous \<Rightarrow> \<lparr>fc_valid = previous = fb_event_head f, fc_events = n,
             fc_broken_at = (if previous = fb_event_head f then None else Some (fb_version f))\<rparr>)"

definition verifyMissionFabric :: "(string \<Rightarrow> string) \<Rightarrow> (string \<Rightarrow> string) \<Rightarrow> string \<Rightarrow> mission_db \<Rightarrow> fabric_check option" where
  "verifyMissionFabric H cl i db = map_option (\<lambda>m. verifyFabricState H cl (st_fabric (ms_state m))) (getMission i db)"

section \<open>What an event may carry\<close>

definition allowed_actors :: "string list" where
  "allowed_actors = [''human'', ''ronor'', ''codex'', ''langgraph'', ''openhands'', ''agent'']"

definition allowed_types :: "string list" where
  "allowed_types = [''task.upserted'', ''task.status_changed'', ''evidence.added'', ''coverage.updated'',
     ''failure.recorded'', ''checkpoint.created'', ''approval.required'', ''approval.resolved'',
     ''run.status_changed'', ''run.cancel_requested'', ''message.recorded'']"

text \<open>A match at some position of a text; \<open>m\<close> gets whether a word character is before it.\<close>

fun matches_in :: "(bool \<Rightarrow> string \<Rightarrow> bool) \<Rightarrow> bool \<Rightarrow> string \<Rightarrow> bool" where
  "matches_in m after [] = m after []"
| "matches_in m after (c # cs) = (m after (c # cs) \<or> matches_in m (word_char c) cs)"

definition secret_names :: "string list" where
  "secret_names = [''token'', ''secret'', ''password'', ''privatekey'', ''private_key'', ''private-key'',
     ''apikey'', ''api_key'', ''api-key'']"

definition secret_field :: "string \<Rightarrow> bool" where
  "secret_field json = matches_in (\<lambda>_ s. list_ex (\<lambda>n.
       let q = CHR 0x22 # n @ [CHR 0x22]; rest = dropWhile is_space (drop (length q) s)
       in prefix q s \<and> prefix '':'' rest) secret_names) False (lower json)"

text \<open>The credential patterns, on the text in lower case.\<close>

definition pem_at :: "string \<Rightarrow> bool" where
  "pem_at s \<longleftrightarrow>
     (let b = ''-----begin ''; r = drop (length b) s; body = takeWhile (\<lambda>c. is_lower c \<or> c = CHR '' '') r
      in prefix b s \<and> suffix ''private key'' body \<and> prefix ''-----'' (drop (length body) r))"

definition bearer_at :: "string \<Rightarrow> bool" where
  "bearer_at s \<longleftrightarrow>
     (let r = drop 6 s; v = dropWhile is_space r
      in prefix ''bearer'' s \<and> r \<noteq> [] \<and> is_space (hd r)
         \<and> 12 \<le> length (takeWhile (\<lambda>c. is_alnum c \<or> c \<in> set ''._~+/=-'') v))"

definition key_at :: "string \<Rightarrow> bool" where
  "key_at s \<longleftrightarrow>
     list_ex (\<lambda>p. prefix p s \<and> 16 \<le> length (takeWhile (\<lambda>c. is_alnum c \<or> c = CHR ''_'' \<or> c = CHR ''-'') (drop (length p) s)))
       [''ghp_'', ''sk-'']"

definition jwt_at :: "string \<Rightarrow> bool" where
  "jwt_at s \<longleftrightarrow>
     (let cls = (\<lambda>c. is_alnum c \<or> c = CHR ''_'' \<or> c = CHR ''-'');
          r1 = drop 3 s; r2 = dropWhile cls r1; r3 = dropWhile cls (drop 1 r2)
      in prefix ''eyj'' s \<and> takeWhile cls r1 \<noteq> [] \<and> prefix ''.'' r2 \<and> takeWhile cls (drop 1 r2) \<noteq> []
         \<and> prefix ''.'' r3 \<and> takeWhile cls (drop 1 r3) \<noteq> [])"

definition credential_content :: "string \<Rightarrow> bool" where
  "credential_content json =
     matches_in (\<lambda>after s. pem_at s \<or> (\<not> after \<and> (bearer_at s \<or> key_at s \<or> jwt_at s))) False (lower json)"

datatype fabric_error = FabricValidation string | FabricIntegrity "int option" | FabricConflict int int

definition validateFabricInput :: "fabric_actor \<Rightarrow> string \<Rightarrow> (string \<times> json) list \<Rightarrow> fabric_error option" where
  "validateFabricInput actor ty payload =
     (if ac_kind actor \<notin> set allowed_actors \<or> ac_id actor = '''' \<or> 120 < length (ac_id actor)
        then Some (FabricValidation ''Invalid mission fabric actor.'')
      else if ty \<notin> set allowed_types then Some (FabricValidation ''Invalid mission fabric event type.'')
      else
        let json = render (JObj (store_entries payload))
        in if 16384 < length json then Some (FabricValidation ''Mission fabric payload exceeds 16 KiB.'')
           else if secret_field json then Some (FabricValidation ''Secret-like fields are forbidden in mission fabric events.'')
           else if credential_content json
             then Some (FabricValidation ''Credential-like content is forbidden in mission fabric events.'')
           else case str_prop payload ''id'' of
             None \<Rightarrow> Some (FabricValidation ''Mission fabric payload requires a bounded string `id`.'')
           | Some i \<Rightarrow>
               if i = '''' \<or> 160 < length i
                 then Some (FabricValidation ''Mission fabric payload requires a bounded string `id`.'')
               else if lower i \<in> {''__proto__'', ''prototype'', ''constructor''}
                 then Some (FabricValidation ''Reserved mission fabric identifier.'')
               else None)"

section \<open>Projection\<close>

type_synonym json_entries = "(string \<times> json) list"

record fabric_projection =
  pj_version :: int
  pj_event_head :: "string option"
  pj_tasks :: "(string \<times> json_entries) list"
  pj_evidence :: "(string \<times> json_entries) list"
  pj_coverage :: "(string \<times> json_entries) list"
  pj_failures :: "fabric_event list"
  pj_checkpoints :: "fabric_event list"
  pj_approvals :: "(string \<times> json_entries) list"
  pj_runs :: "(string \<times> json_entries) list"
  pj_messages :: "fabric_event list"

definition prior_entries :: "(string \<times> json_entries) list \<Rightarrow> string \<Rightarrow> json_entries" where
  "prior_entries m i = nullish (map_of m i) []"

definition merge_at :: "string \<Rightarrow> json_entries \<Rightarrow> (string \<times> json_entries) list \<Rightarrow> (string \<times> json_entries) list" where
  "merge_at i payload m = obj_set i (spread (prior_entries m i) payload) m"

definition run_entries :: "json_entries \<Rightarrow> json_entries \<Rightarrow> json_entries" where
  "run_entries previous payload =
     (let priorStages = (case prop_of previous ''stage_statuses'' of JObj es \<Rightarrow> es | _ \<Rightarrow> []);
          stages = (case str_prop payload ''stage'' of
              Some st \<Rightarrow> if st \<noteq> '''' then obj_set st (prop_of payload ''status'') priorStages else priorStages
            | None \<Rightarrow> priorStages)
      in obj_set ''stage_statuses'' (JObj stages) (spread previous payload))"

definition project_event :: "fabric_event \<Rightarrow> fabric_projection \<Rightarrow> fabric_projection" where
  "project_event e p =
     (let i = nullish (str_prop (fe_payload e) ''id'') (fe_event_id e); t = fe_type e; pay = fe_payload e
      in if t = ''task.upserted'' \<or> t = ''task.status_changed'' then p\<lparr>pj_tasks := merge_at i pay (pj_tasks p)\<rparr>
         else if t = ''evidence.added'' then p\<lparr>pj_evidence := obj_set i pay (pj_evidence p)\<rparr>
         else if t = ''coverage.updated'' then p\<lparr>pj_coverage := merge_at i pay (pj_coverage p)\<rparr>
         else if t = ''failure.recorded'' then p\<lparr>pj_failures := pj_failures p @ [e]\<rparr>
         else if t = ''checkpoint.created'' then p\<lparr>pj_checkpoints := pj_checkpoints p @ [e]\<rparr>
         else if t = ''approval.required'' \<or> t = ''approval.resolved'' then p\<lparr>pj_approvals := merge_at i pay (pj_approvals p)\<rparr>
         else if t = ''run.status_changed'' \<or> t = ''run.cancel_requested''
           then p\<lparr>pj_runs := obj_set i (run_entries (prior_entries (pj_runs p) i) pay) (pj_runs p)\<rparr>
         else if t = ''message.recorded'' then p\<lparr>pj_messages := pj_messages p @ [e]\<rparr>
         else p)"

definition projectMissionFabric :: "fabric_state \<Rightarrow> fabric_projection" where
  "projectMissionFabric f =
     fold project_event (fb_events f)
       \<lparr>pj_version = fb_version f, pj_event_head = fb_event_head f, pj_tasks = [], pj_evidence = [], pj_coverage = [],
        pj_failures = [], pj_checkpoints = [], pj_approvals = [], pj_runs = [], pj_messages = []\<rparr>"

definition getMissionFabric :: "string \<Rightarrow> mission_db \<Rightarrow> fabric_projection option" where
  "getMissionFabric i db = map_option (\<lambda>m. projectMissionFabric (st_fabric (ms_state m))) (getMission i db)"

section \<open>Appending an event\<close>

definition new_event ::
  "(string \<Rightarrow> string) \<Rightarrow> (string \<Rightarrow> string) \<Rightarrow> fabric_state \<Rightarrow> string \<Rightarrow> fabric_actor \<Rightarrow> string \<Rightarrow> (string \<times> json) list \<Rightarrow> fabric_event" where
  "new_event H cl f stamp actor ty payload =
     (let core = event_core (fb_version f + 1) stamp actor ty payload (fb_event_head f);
          eventHash = H (the (stableJson cl core))
      in \<lparr>fe_event_id = ''mfe_'' @ take 24 eventHash, fe_sequence = fb_version f + 1, fe_at = stamp, fe_actor = actor,
          fe_type = ty, fe_payload = payload, fe_previous_hash = fb_event_head f, fe_event_hash = eventHash\<rparr>)"

definition push_event :: "fabric_event \<Rightarrow> fabric_state \<Rightarrow> fabric_state" where
  "push_event e f = \<lparr>fb_version = fe_sequence e, fb_event_head = Some (fe_event_hash e), fb_events = fb_events f @ [e]\<rparr>"

definition appendMissionFabricEvent ::
  "(string \<Rightarrow> string) \<Rightarrow> (string \<Rightarrow> string) \<Rightarrow> string \<Rightarrow> string \<Rightarrow> int \<Rightarrow> fabric_actor \<Rightarrow> string \<Rightarrow> (string \<times> json) list \<Rightarrow> mission_db
     \<Rightarrow> fabric_error + fabric_projection option \<times> mission_db" where
  "appendMissionFabricEvent H cl now i expectedVersion actor ty payload db =
     (case validateFabricInput actor ty payload of
        Some e \<Rightarrow> Inl e
      | None \<Rightarrow> (case row_find mr_mission_id i db of
          None \<Rightarrow> Inr (None, db)
        | Some row \<Rightarrow>
            let state = parseState (mr_state_json row); f = st_fabric state; integrity = verifyFabricState H cl f
            in if \<not> fc_valid integrity then Inl (FabricIntegrity (fc_broken_at integrity))
               else if fb_version f \<noteq> expectedVersion then Inl (FabricConflict expectedVersion (fb_version f))
               else
                 let f' = push_event (new_event H cl f now actor ty payload) f
                 in Inr (Some (projectMissionFabric f'),
                      row_update (\<lambda>r. mr_mission_id r = i)
                        (\<lambda>r. r\<lparr>mr_state_json := stringify_state (state\<lparr>st_fabric := f'\<rparr>), mr_updated_at := now\<rparr>) db)))"

end
