(* ===== verification/MissionFacts.thy ===== *)
theory MissionFacts imports MissionStore begin

text \<open>
  What the mission fabric promises: it is a hash-linked log with optimistic concurrency, and what its
  storage as one JSON column costs: an undefined member of a payload or an unreadable column.
\<close>

section \<open>The fabric as a hash-linked log\<close>

definition event_ok :: "(string \<Rightarrow> string) \<Rightarrow> (string \<Rightarrow> string) \<Rightarrow> nat \<Rightarrow> string option \<Rightarrow> fabric_event \<Rightarrow> bool" where
  "event_ok H cl i p e \<longleftrightarrow>
     fe_sequence e = int i + 1 \<and> fe_previous_hash e = p \<and> fe_event_hash e = H (core_text cl e)"

abbreviation event_head :: "fabric_event \<Rightarrow> string option" where
  "event_head e \<equiv> Some (fe_event_hash e)"

interpretation fabric_log: hash_linked "event_ok H cl" event_head fe_previous_hash "core_text cl" "\<lambda>t p. Some (H t)"
  for H cl
  by unfold_locales (auto simp: event_ok_def)

lemma verify_events_Inr:
  "verify_events H cl i p es = Inr q \<longleftrightarrow> linked (event_ok H cl) event_head i p es \<and> q = head_of event_head p es"
  by (induction es arbitrary: i p) (auto simp: event_ok_def)

definition fabric_ok :: "(string \<Rightarrow> string) \<Rightarrow> (string \<Rightarrow> string) \<Rightarrow> fabric_state \<Rightarrow> bool" where
  "fabric_ok H cl f \<longleftrightarrow> fb_version f = int (length (fb_events f)) \<and> linked (event_ok H cl) event_head 0 None (fb_events f)
     \<and> fb_event_head f = head_of event_head None (fb_events f)"

lemma verifyFabricState_valid: "fc_valid (verifyFabricState H cl f) \<longleftrightarrow> fabric_ok H cl f"
proof (cases "verify_events H cl 0 None (fb_events f)")
  case (Inl sq)
  then have "\<not> linked (event_ok H cl) event_head 0 None (fb_events f)"
    by (metis verify_events_Inr Inl_Inr_False)
  with Inl show ?thesis by (simp add: verifyFabricState_def fabric_ok_def Let_def)
next
  case (Inr q)
  then have "linked (event_ok H cl) event_head 0 None (fb_events f)" "q = head_of event_head None (fb_events f)"
    by (simp_all add: verify_events_Inr)
  with Inr show ?thesis by (auto simp: verifyFabricState_def fabric_ok_def Let_def)
qed

lemma push_ok: "fabric_ok H cl f \<Longrightarrow> fabric_ok H cl (push_event (new_event H cl f now a t pl) f)"
  by (simp add: fabric_ok_def push_event_def new_event_def Let_def event_ok_def core_text_def)

lemma emptyFabric_ok [simp]: "fabric_ok H cl emptyFabric"
  by (simp add: fabric_ok_def emptyFabric_def)

section \<open>Storing a payload\<close>

fun json_defined :: "json \<Rightarrow> bool" and defined_items :: "json list \<Rightarrow> bool"
  and defined_entries :: "(string \<times> json) list \<Rightarrow> bool" where
  "json_defined JUndefined = False"
| "json_defined (JArr vs) = defined_items vs"
| "json_defined (JObj es) = defined_entries es"
| "json_defined v = True"
| "defined_items [] = True"
| "defined_items (v # vs) = (json_defined v \<and> defined_items vs)"
| "defined_entries [] = True"
| "defined_entries ((k, v) # es) = (json_defined v \<and> defined_entries es)"

lemma stable_store:
  "json_defined v \<Longrightarrow> stableJson cl (json_store v) = stableJson cl v"
  "defined_items vs \<Longrightarrow> stable_items cl (store_items vs) = stable_items cl vs"
  "defined_entries es \<Longrightarrow> stable_entries cl (store_entries es) = stable_entries cl es"
proof (induction v and vs and es rule: json_defined_defined_items_defined_entries.induct)
  case (2 vs)
  then show ?case by simp
next
  case (6 v vs)
  then show ?case by (cases v) auto
next
  case (8 k v es)
  then show ?case by (cases v) auto
qed auto

lemma defined_store:
  "json_defined v \<Longrightarrow> json_defined (json_store v)"
  "defined_items vs \<Longrightarrow> defined_items (store_items vs)"
  "defined_entries es \<Longrightarrow> defined_entries (store_entries es)"
  by (induction v and vs and es rule: json_defined_defined_items_defined_entries.induct) auto

definition event_defined :: "fabric_event \<Rightarrow> bool" where
  "event_defined e = defined_entries (fe_payload e)"

lemma store_event_same [simp]:
  "fe_event_hash (store_event e) = fe_event_hash e" "fe_previous_hash (store_event e) = fe_previous_hash e"
  "fe_sequence (store_event e) = fe_sequence e"
  by (simp_all add: store_event_def)

lemma core_text_store: "event_defined e \<Longrightarrow> core_text cl (store_event e) = core_text cl e"
  using stable_store(1)[of "JObj (fe_payload e)" cl]
  by (simp add: core_text_def event_core_def store_event_def event_defined_def del: stableJson.simps(2))
    (simp add: event_core_def)

lemma event_ok_store: "event_defined e \<Longrightarrow> event_ok H cl i p (store_event e) = event_ok H cl i p e"
  by (simp add: event_ok_def core_text_store)

lemma linked_store:
  "\<forall>e\<in>set es. event_defined e \<Longrightarrow>
     linked (event_ok H cl) event_head i p (map store_event es) = linked (event_ok H cl) event_head i p es"
  by (induction es arbitrary: i p) (auto simp: event_ok_store)

lemma head_store [simp]: "head_of event_head p (map store_event es) = head_of event_head p es"
  by (cases es rule: rev_cases) (auto simp: head_of_def)

definition store_fabric :: "fabric_state \<Rightarrow> fabric_state" where
  "store_fabric f = f\<lparr>fb_events := map store_event (fb_events f)\<rparr>"

definition fabric_good :: "(string \<Rightarrow> string) \<Rightarrow> (string \<Rightarrow> string) \<Rightarrow> fabric_state \<Rightarrow> bool" where
  "fabric_good H cl f \<longleftrightarrow> fabric_ok H cl f \<and> (\<forall>e\<in>set (fb_events f). event_defined e)"

lemma store_fabric_good: "fabric_good H cl f \<Longrightarrow> fabric_good H cl (store_fabric f)"
  by (auto simp: fabric_good_def fabric_ok_def store_fabric_def linked_store event_defined_def store_event_def
      intro: defined_store)

lemma push_good:
  "fabric_good H cl f \<Longrightarrow> defined_entries pl \<Longrightarrow> fabric_good H cl (push_event (new_event H cl f now a t pl) f)"
  using push_ok[of H cl f now a t pl]
  by (auto simp: fabric_good_def push_event_def new_event_def Let_def event_defined_def)

lemma parse_stringify [simp]: "st_fabric (parseState (stringify_state s)) = store_fabric (st_fabric s)"
  by (simp add: parseState_def stringify_state_def store_fabric_def)

text \<open>What the column has stored once it stores again without a change, and it has no undefined member.\<close>

lemma stored_idem:
  "json_store (json_store v) = json_store v" "store_items (store_items vs) = store_items vs"
  "store_entries (store_entries es) = store_entries es"
proof (induction v and vs and es rule: json_store_store_items_store_entries.induct)
  case (6 v vs)
  then show ?case by (cases v) auto
next
  case (8 k v es)
  then show ?case by (cases v) auto
qed auto

lemma stored_defined: "v \<noteq> JUndefined \<Longrightarrow> json_defined (json_store v)" "defined_items (store_items vs)" "defined_entries (store_entries es)"
  by (induction v and vs and es rule: json_store_store_items_store_entries.induct) auto

lemma store_event_stored [simp]: "store_event (store_event e) = store_event e" "event_defined (store_event e)"
  by (simp_all add: store_event_def stored_idem event_defined_def stored_defined)

section \<open>Histories\<close>

definition row_fabric :: "mission_row \<Rightarrow> fabric_state" where
  "row_fabric r = st_fabric (parseState (mr_state_json r))"

text \<open>
  The operations that write.  A step that accepts an event says for which mission, and with what payload; the
  payload is any, undefined members included.
\<close>

inductive mission_step ::
  "(string \<Rightarrow> string) \<Rightarrow> (string \<Rightarrow> string) \<Rightarrow> mission_db \<Rightarrow> (string \<times> (string \<times> json) list) list \<Rightarrow> mission_db \<Rightarrow> bool" for H cl where
  ms_create: "createMission fresh now t ob op i db = Inr (m, db') \<Longrightarrow> mission_step H cl db [] db'"
| ms_status: "mission_step H cl db [] (snd (setMissionStatus now i st db))"
| ms_append: "mission_step H cl db [] (snd (appendToMission now i p db))"
| ms_event: "appendMissionFabricEvent H cl now i v a t pl db = Inr (Some pj, db') \<Longrightarrow> mission_step H cl db [(i, pl)] db'"
| ms_missing: "appendMissionFabricEvent H cl now i v a t pl db = Inr (None, db') \<Longrightarrow> mission_step H cl db [] db'"

inductive mission_history ::
  "(string \<Rightarrow> string) \<Rightarrow> (string \<Rightarrow> string) \<Rightarrow> (string \<times> (string \<times> json) list) list \<Rightarrow> mission_db \<Rightarrow> bool" for H cl where
  mh_start: "mission_history H cl [] []"
| mh_step: "mission_history H cl tr db \<Longrightarrow> mission_step H cl db ev db' \<Longrightarrow> mission_history H cl (tr @ ev) db'"

definition payloads_for :: "string \<Rightarrow> (string \<times> (string \<times> json) list) list \<Rightarrow> (string \<times> json) list list" where
  "payloads_for i tr = map snd (filter (\<lambda>(j, _). j = i) tr)"

lemma payloads_for_simps [simp]:
  "payloads_for i [] = []" "payloads_for i (tr @ tr') = payloads_for i tr @ payloads_for i tr'"
  "payloads_for i [(j, pl)] = (if j = i then [pl] else [])"
  by (simp_all add: payloads_for_def)

lemma payloads_for_none: "i \<notin> fst ` set tr \<Longrightarrow> payloads_for i tr = []"
  by (induction tr) (auto simp: payloads_for_def)

text \<open>A fabric whose events all hold but the last, which is not sealed with the hash of what it says.\<close>

definition breaks_at_last :: "(string \<Rightarrow> string) \<Rightarrow> (string \<Rightarrow> string) \<Rightarrow> fabric_state \<Rightarrow> bool" where
  "breaks_at_last H cl f \<longleftrightarrow> fb_events f \<noteq> [] \<and> linked (event_ok H cl) event_head 0 None (butlast (fb_events f))
     \<and> fe_sequence (last (fb_events f)) = fb_version f
     \<and> \<not> event_ok H cl (length (fb_events f) - 1) (head_of event_head None (butlast (fb_events f))) (last (fb_events f))"

text \<open>The fabric of a mission for which the events \<open>pls\<close> were accepted.\<close>

definition fabric_of_events :: "(string \<Rightarrow> string) \<Rightarrow> (string \<Rightarrow> string) \<Rightarrow> (string \<times> json) list list \<Rightarrow> fabric_state \<Rightarrow> bool" where
  "fabric_of_events H cl pls f \<longleftrightarrow> map fe_payload (fb_events f) = map store_entries pls \<and> fb_version f = int (length pls)
     \<and> (fabric_ok H cl f \<or> pls \<noteq> [] \<and> \<not> defined_entries (last pls) \<and> breaks_at_last H cl f)"

definition missions_good :: "(string \<Rightarrow> string) \<Rightarrow> (string \<Rightarrow> string) \<Rightarrow> (string \<times> (string \<times> json) list) list \<Rightarrow> mission_db \<Rightarrow> bool" where
  "missions_good H cl tr db \<longleftrightarrow> distinct (map mr_mission_id db) \<and> fst ` set tr \<subseteq> mr_mission_id ` set db
     \<and> (\<forall>r\<in>set db. fabric_of_events H cl (payloads_for (mr_mission_id r) tr) (row_fabric r))"

text \<open>What a store leaves of such a fabric: all of it, since it has been stored before.\<close>

lemma stored_payload: "fe_payload e = store_entries pl \<Longrightarrow> store_event e = e"
  by (simp add: store_event_def stored_idem)

lemma store_of_stored: "map fe_payload (fb_events f) = map store_entries pls \<Longrightarrow> store_fabric f = f"
proof -
  assume *: "map fe_payload (fb_events f) = map store_entries pls"
  have "store_event e = e" if e: "e \<in> set (fb_events f)" for e
  proof -
    have "fe_payload e \<in> store_entries ` set pls" using e * by (metis image_eqI list.set_map)
    then show ?thesis using stored_payload by blast
  qed
  then have "map store_event (fb_events f) = fb_events f" by (simp add: map_idI)
  then show ?thesis by (simp add: store_fabric_def)
qed

text \<open>Accepting one more event and storing: the fabric still holds, or breaks at this event, whose payload then
  had an undefined member.\<close>

lemma head_of_snoc: "head_of event_head p (es @ [e]) = event_head e"
  by (simp add: head_of_def)

lemma fabric_of_accepted:
  assumes "fabric_of_events H cl pls f" "fabric_ok H cl f"
  shows "fabric_of_events H cl (pls @ [pl]) (store_fabric (push_event (new_event H cl f now a t pl) f))"
proof -
  let ?e = "new_event H cl f now a t pl"
  let ?g = "store_fabric (push_event ?e f)"
  have pls: "map fe_payload (fb_events f) = map store_entries pls" "fb_version f = int (length pls)"
    using assms(1) by (simp_all add: fabric_of_events_def)
  then have len: "length (fb_events f) = length pls" by (metis length_map)
  have same: "map store_event (fb_events f) = fb_events f"
    using store_of_stored[OF pls(1)] by (metis fabric_state.select_convs(3) fabric_state.surjective fabric_state.update_convs(3) store_fabric_def)
  have ev: "fb_events ?g = fb_events f @ [store_event ?e]" by (simp add: store_fabric_def push_event_def same)
  have e: "fe_payload (store_event ?e) = store_entries pl" "fe_sequence ?e = fb_version f + 1" "fe_previous_hash ?e = fb_event_head f"
    by (simp_all add: store_event_def new_event_def Let_def)
  have v: "fb_version ?g = int (length (pls @ [pl]))" by (simp add: store_fabric_def push_event_def e(2) pls(2))
  have head: "fb_event_head ?g = event_head ?e" by (simp add: store_fabric_def push_event_def)
  have ok: "linked (event_ok H cl) event_head 0 None (fb_events f)" "fb_event_head f = head_of event_head None (fb_events f)"
    using assms(2) by (simp_all add: fabric_ok_def)
  have whole: "fabric_ok H cl ?g \<longleftrightarrow> event_ok H cl (length (fb_events f)) (head_of event_head None (fb_events f)) (store_event ?e)"
    using ok v len by (simp add: fabric_ok_def ev head head_of_snoc)
  have "event_ok H cl (length (fb_events f)) (head_of event_head None (fb_events f)) ?e"
    using push_ok[OF assms(2), of now a t pl] ok by (simp add: fabric_ok_def push_event_def)
  then have "fabric_ok H cl ?g" if "defined_entries pl"
    using whole event_ok_store[of ?e] that by (simp add: event_defined_def new_event_def Let_def)
  moreover have "breaks_at_last H cl ?g" if "\<not> fabric_ok H cl ?g"
    using that whole ok v by (simp add: breaks_at_last_def ev e(2) pls(2))
  ultimately show ?thesis
    using pls v by (auto simp: fabric_of_events_def ev e(1))
qed

lemma event_appended:
  assumes "appendMissionFabricEvent H cl now i v a t pl db = Inr (Some pj, db')"
  obtains row f where "row_find mr_mission_id i db = Some row" "f = row_fabric row" "fabric_ok H cl f" "fb_version f = v"
    "pj = projectMissionFabric (push_event (new_event H cl f now a t pl) f)"
    "db' = row_update (\<lambda>r. mr_mission_id r = i) (\<lambda>r. r\<lparr>mr_state_json := stringify_state
        (parseState (mr_state_json row)\<lparr>st_fabric := push_event (new_event H cl f now a t pl) f\<rparr>), mr_updated_at := now\<rparr>) db"
proof -
  obtain row where row: "row_find mr_mission_id i db = Some row"
    using assms by (auto simp: appendMissionFabricEvent_def split: option.splits)
  show thesis
  proof (rule that[OF row refl])
    show "fabric_ok H cl (row_fabric row)" "fb_version (row_fabric row) = v"
      using assms row
      by (auto simp: appendMissionFabricEvent_def row_fabric_def Let_def verifyFabricState_valid split: option.splits if_splits)
    then show "pj = projectMissionFabric (push_event (new_event H cl (row_fabric row) now a t pl) (row_fabric row))"
      "db' = row_update (\<lambda>r. mr_mission_id r = i) (\<lambda>r. r\<lparr>mr_state_json := stringify_state
        (parseState (mr_state_json row)\<lparr>st_fabric := push_event (new_event H cl (row_fabric row) now a t pl) (row_fabric row)\<rparr>),
          mr_updated_at := now\<rparr>) db"
      using assms row
      by (auto simp: appendMissionFabricEvent_def row_fabric_def Let_def verifyFabricState_valid split: option.splits if_splits)
  qed
qed

lemma missions_good_update:
  assumes "missions_good H cl tr db" "\<And>r. mr_mission_id (g r) = mr_mission_id r"
    and "\<And>r. r \<in> set db \<Longrightarrow> P r \<Longrightarrow> row_fabric (g r) = row_fabric r"
  shows "missions_good H cl tr (row_update P g db)"
proof -
  have ids: "map mr_mission_id (row_update P g db) = map mr_mission_id db" using assms(2) by (rule row_update_keys)
  then have "mr_mission_id ` set (row_update P g db) = mr_mission_id ` set db" by (metis list.set_map)
  with ids show ?thesis using assms by (auto simp: missions_good_def set_row_update)
qed

lemma mission_row_of:
  assumes "missions_good H cl tr db" "row_find mr_mission_id i db = Some row"
  shows "mr_mission_id row = i" "row \<in> set db" "fabric_of_events H cl (payloads_for i tr) (row_fabric row)"
  using row_find_SomeD[OF assms(2)] assms(1) by (auto simp: missions_good_def)

lemma missions_good_event:
  assumes "missions_good H cl tr db" "appendMissionFabricEvent H cl now i v a t pl db = Inr (Some pj, db')"
  shows "missions_good H cl (tr @ [(i, pl)]) db'"
proof -
  from assms(2) obtain row where row: "row_find mr_mission_id i db = Some row" and ok: "fabric_ok H cl (row_fabric row)"
      and db': "db' = row_update (\<lambda>r. mr_mission_id r = i) (\<lambda>r. r\<lparr>mr_state_json := stringify_state
        (parseState (mr_state_json row)\<lparr>st_fabric := push_event (new_event H cl (row_fabric row) now a t pl) (row_fabric row)\<rparr>),
          mr_updated_at := now\<rparr>) db" (is "_ = row_update _ ?g db")
    using event_appended by metis
  note row' = mission_row_of[OF assms(1) row]
  have ids: "map mr_mission_id db' = map mr_mission_id db" unfolding db' by (rule row_update_keys) simp
  then have set_ids: "mr_mission_id ` set db' = mr_mission_id ` set db" by (metis list.set_map)
  have new: "fabric_of_events H cl (payloads_for i tr @ [pl]) (row_fabric (?g r))" for r
    using fabric_of_accepted[OF row'(3) ok] by (simp add: row_fabric_def)
  have "fabric_of_events H cl (payloads_for (mr_mission_id r) (tr @ [(i, pl)])) (row_fabric r)" if "r \<in> set db'" for r
    using that new assms(1) by (auto simp: db' set_row_update missions_good_def)
  with assms(1) ids set_ids row'(1,2) show ?thesis by (auto simp: missions_good_def)
qed

lemma store_emptyFabric [simp]: "store_fabric emptyFabric = emptyFabric"
  by (simp add: store_fabric_def emptyFabric_def)

lemma created_row:
  assumes "createMission fresh now t ob op i db = Inr (m, db')"
  shows "\<exists>row. db' = db @ [row] \<and> mr_mission_id row \<notin> mr_mission_id ` set db \<and> row_fabric row = emptyFabric"
proof -
  let ?row = "\<lparr>mr_mission_id = nullish i fresh, mr_title = t, mr_objective = ob, mr_status = MissionOpen,
      mr_operator_id = op, mr_state_json = stringify_state emptyState, mr_requests_count = 0, mr_cost_usd = 0,
      mr_created_at = now, mr_updated_at = now\<rparr>"
  have "row_fabric ?row = emptyFabric" by (simp add: row_fabric_def) (simp add: emptyState_def)
  with assms show ?thesis by (intro exI[of _ ?row]) (simp add: createMission_def Let_def split: if_splits)
qed

lemma mission_step_good: "mission_step H cl db ev db' \<Longrightarrow> missions_good H cl tr db \<Longrightarrow> missions_good H cl (tr @ ev) db'"
proof (induction rule: mission_step.induct)
  case (ms_create fresh now t ob op i db m db')
  then obtain row where db': "db' = db @ [row]" "mr_mission_id row \<notin> mr_mission_id ` set db" "row_fabric row = emptyFabric"
    using created_row by blast
  then have "payloads_for (mr_mission_id row) tr = []"
    using ms_create(2) by (intro payloads_for_none) (auto simp: missions_good_def)
  then have "fabric_of_events H cl (payloads_for (mr_mission_id row) tr) (row_fabric row)"
    unfolding db' by (simp add: fabric_of_events_def) (simp add: emptyFabric_def)
  with db' ms_create(2) show ?case by (auto simp: missions_good_def)
next
  case (ms_status db now i st)
  then show ?case unfolding setMissionStatus_def by simp (rule missions_good_update, auto simp: row_fabric_def)
next
  case (ms_append db now i p)
  show ?case
  proof (cases "row_find mr_mission_id i db")
    case None
    with ms_append show ?thesis by (simp add: appendToMission_def)
  next
    case (Some row)
    note row = mission_row_of[OF ms_append Some]
    have "row_fabric r = row_fabric row" if "r \<in> set db" "mr_mission_id r = i" for r
      using that row(1,2) ms_append by (auto simp: missions_good_def distinct_map inj_on_def)
    moreover have "store_fabric (row_fabric row) = row_fabric row"
      using row(3) store_of_stored by (auto simp: fabric_of_events_def)
    ultimately show ?thesis
      using ms_append
      by (simp add: appendToMission_def Some Let_def)
        (intro conjI impI; rule missions_good_update, auto simp: row_fabric_def appended_state_def)
  qed
next
  case (ms_event now i v a t pl db pj db')
  then show ?case by (simp add: missions_good_event)
next
  case (ms_missing now i v a t pl db db')
  then show ?case by (auto simp: appendMissionFabricEvent_def Let_def split: option.splits if_splits)
qed

lemma mission_history_good: "mission_history H cl tr db \<Longrightarrow> missions_good H cl tr db"
proof (induction rule: mission_history.induct)
  case mh_start
  show ?case by (simp add: missions_good_def)
next
  case (mh_step tr db ev db')
  then show ?case by (blast intro: mission_step_good)
qed

text \<open>What the check reports of such a fabric.\<close>

lemma verify_events_breaks:
  assumes "linked (event_ok H cl) event_head i p es" "\<not> event_ok H cl (i + length es) (head_of event_head p es) e"
  shows "verify_events H cl i p (es @ [e]) = Inl (fe_sequence e)"
  using assms
proof (induction es arbitrary: i p)
  case Nil
  then show ?case by (auto simp: event_ok_def head_of_def)
next
  case (Cons x es)
  then have "\<not> event_ok H cl (Suc i + length es) (head_of event_head (event_head x) es) e"
    by (cases es rule: rev_cases) (auto simp: head_of_def)
  with Cons show ?case by (auto simp: event_ok_def)
qed

lemma verify_breaks_at_last:
  assumes "breaks_at_last H cl f" "fb_version f = int (length (fb_events f))"
  shows "verifyFabricState H cl f = \<lparr>fc_valid = False, fc_events = length (fb_events f), fc_broken_at = Some (fb_version f)\<rparr>"
proof -
  obtain es e where es: "fb_events f = es @ [e]" using assms(1) by (cases "fb_events f" rule: rev_cases) (auto simp: breaks_at_last_def)
  then have "verify_events H cl 0 None (fb_events f) = Inl (fb_version f)"
    using verify_events_breaks[of H cl 0 None es e] assms(1) by (simp add: breaks_at_last_def)
  with assms(2) show ?thesis by (simp add: verifyFabricState_def Let_def)
qed

text \<open>C37. In every history of the mission store (creations, status changes, findings and events of any actors, with
  any payloads) a mission's fabric holds the accepted events of that mission, each once and in order, with
  their payloads as JSON keeps them, and the version is their number.  It verifies (the events numbered from
  1, each linked to the hash of the one before and sealed with the hash of its own content) unless the last
  accepted event had an undefined member in its payload; then the break is reported exactly at that event,
  and everything before it verifies.\<close>

theorem mission_fabric_verifies:
  assumes "mission_history H cl tr db" "getMission i db = Some m"
  shows "map fe_payload (fb_events (st_fabric (ms_state m))) = map store_entries (payloads_for i tr)
    \<and> fb_version (st_fabric (ms_state m)) = int (length (payloads_for i tr))
    \<and> (verifyMissionFabric H cl i db = Some \<lparr>fc_valid = True, fc_events = length (payloads_for i tr), fc_broken_at = None\<rparr>
       \<or> payloads_for i tr \<noteq> [] \<and> \<not> defined_entries (last (payloads_for i tr))
         \<and> verifyMissionFabric H cl i db = Some \<lparr>fc_valid = False, fc_events = length (payloads_for i tr),
               fc_broken_at = Some (int (length (payloads_for i tr)))\<rparr>
         \<and> linked (event_ok H cl) event_head 0 None (butlast (fb_events (st_fabric (ms_state m)))))"
proof -
  obtain r where r: "row_find mr_mission_id i db = Some r" "m = mission_of r"
    using assms(2) by (auto simp: getMission_def)
  let ?f = "st_fabric (ms_state m)"
  have "fabric_of_events H cl (payloads_for i tr) ?f"
    using mission_row_of(3)[OF mission_history_good[OF assms(1)] r(1)] by (simp add: r(2) row_fabric_def mission_of_def)
  then have pay: "map fe_payload (fb_events ?f) = map store_entries (payloads_for i tr)" and v: "fb_version ?f = int (length (payloads_for i tr))"
    and cases: "fabric_ok H cl ?f \<or> payloads_for i tr \<noteq> [] \<and> \<not> defined_entries (last (payloads_for i tr)) \<and> breaks_at_last H cl ?f"
    by (simp_all add: fabric_of_events_def)
  have len: "length (fb_events ?f) = length (payloads_for i tr)" using pay by (metis length_map)
  have check: "verifyMissionFabric H cl i db = Some (verifyFabricState H cl ?f)" by (simp add: verifyMissionFabric_def assms(2))
  from cases show ?thesis
  proof
    assume "fabric_ok H cl ?f"
    then have "fc_valid (verifyFabricState H cl ?f)" by (simp add: verifyFabricState_valid)
    then have "verifyFabricState H cl ?f = \<lparr>fc_valid = True, fc_events = length (fb_events ?f), fc_broken_at = None\<rparr>"
      by (auto simp: verifyFabricState_def Let_def split: sum.splits if_splits)
    with pay v check len show ?thesis by (intro conjI disjI1) simp_all
  next
    assume *: "payloads_for i tr \<noteq> [] \<and> \<not> defined_entries (last (payloads_for i tr)) \<and> breaks_at_last H cl ?f"
    with verify_breaks_at_last[of H cl ?f] v len
    have "verifyFabricState H cl ?f = \<lparr>fc_valid = False, fc_events = length (fb_events ?f), fc_broken_at = Some (fb_version ?f)\<rparr>"
      by simp
    with pay v check len * show ?thesis by (intro conjI disjI2) (simp_all add: breaks_at_last_def)
  qed
qed

section \<open>Tampering\<close>

text \<open>A fabric cannot be rewritten behind its head: two fabrics that verify and have the same head hold, one
  by one, events of the same content (as hashed) and the same hashes, unless two of the contents
  occurring in them collide under SHA-256.\<close>

theorem mission_fabric_tamper_evident:
  assumes "fc_valid (verifyFabricState H cl f)" "fc_valid (verifyFabricState H cl g)"
    and "fb_event_head f = fb_event_head g"
    and "inj_on (\<lambda>(t, p). H t) ((\<lambda>e. (core_text cl e, fe_previous_hash e)) ` (set (fb_events f) \<union> set (fb_events g)))"
  shows "map (core_text cl) (fb_events f) = map (core_text cl) (fb_events g)
    \<and> map fe_event_hash (fb_events f) = map fe_event_hash (fb_events g) \<and> fb_version f = fb_version g"
proof -
  let ?inj = "inj_on (\<lambda>(t, p). Some (H t)) ((\<lambda>e. (core_text cl e, fe_previous_hash e)) ` (set (fb_events f) \<union> set (fb_events g)))"
  have "(\<lambda>(t, p). Some (H t)) = Some \<circ> (\<lambda>(t, p :: string option). H t)" by (simp add: fun_eq_iff)
  then have inj: ?inj using comp_inj_on[OF assms(4), of Some] by simp
  have ok: "fabric_ok H cl f" "fabric_ok H cl g" using assms(1,2) by (simp_all add: verifyFabricState_valid)
  then have lf: "linked (event_ok H cl) event_head 0 None (fb_events f)" "linked (event_ok H cl) event_head 0 None (fb_events g)"
    "head_of event_head None (fb_events f) = head_of event_head None (fb_events g)"
    using assms(3) by (simp_all add: fabric_ok_def)
  have "\<forall>e\<in>set (fb_events f) \<union> set (fb_events g). event_head e \<noteq> None" by simp
  from fabric_log.same_head_same_log[OF lf inj this]
  have same: "map (core_text cl) (fb_events f) = map (core_text cl) (fb_events g)"
    "map event_head (fb_events f) = map event_head (fb_events g)" by auto
  then have "map the (map event_head (fb_events f)) = map the (map event_head (fb_events g))" by metis
  then have "map fe_event_hash (fb_events f) = map fe_event_hash (fb_events g)" by (simp add: o_def)
  moreover from same(1) have "length (fb_events f) = length (fb_events g)" by (metis length_map)
  ultimately show ?thesis using ok same(1) by (simp add: fabric_ok_def)
qed

section \<open>Concurrency\<close>

text \<open>Of two writers that read the same version at most one succeeds: an accepted event is stored as the
  next one after exactly the events that were there, and any further event sent with the version it
  was accepted for, whoever sends it, is refused as a conflict with the new version.\<close>

theorem fabric_append_serialises:
  assumes "appendMissionFabricEvent H cl now i v a t pl db = Inr (Some pj, db')" "defined_entries pl"
    and "getMission i db = Some m" "\<forall>e\<in>set (fb_events (st_fabric (ms_state m))). event_defined e"
    and "validateFabricInput a' t' pl' = None"
  shows "(\<exists>m' e. getMission i db' = Some m' \<and> pj_version pj = v + 1
      \<and> fb_events (st_fabric (ms_state m')) = map store_event (fb_events (st_fabric (ms_state m)) @ [e])
      \<and> fe_actor e = a \<and> fe_type e = t \<and> fe_payload e = pl \<and> fe_sequence e = v + 1)
    \<and> appendMissionFabricEvent H cl now' i v a' t' pl' db' = Inl (FabricConflict v (v + 1))"
proof -
  obtain row where row: "row_find mr_mission_id i db = Some row" and ok: "fabric_ok H cl (row_fabric row)"
    and v: "fb_version (row_fabric row) = v"
    and pj: "pj = projectMissionFabric (push_event (new_event H cl (row_fabric row) now a t pl) (row_fabric row))"
    and db': "db' = row_update (\<lambda>r. mr_mission_id r = i) (\<lambda>r. r\<lparr>mr_state_json := stringify_state
        (parseState (mr_state_json row)\<lparr>st_fabric := push_event (new_event H cl (row_fabric row) now a t pl) (row_fabric row)\<rparr>),
          mr_updated_at := now\<rparr>) db"
    using event_appended[OF assms(1)] by metis
  let ?f = "row_fabric row" and ?e = "new_event H cl (row_fabric row) now a t pl"
  have m: "st_fabric (ms_state m) = ?f" using assms(3) row by (auto simp: getMission_def mission_of_def row_fabric_def)
  have "mr_mission_id row = i" using row_find_SomeD[OF row] by simp
  then obtain row' where row': "row_find mr_mission_id i db' = Some row'" "row_fabric row' = store_fabric (push_event ?e ?f)"
    unfolding db' by (simp add: row_find_update row row_fabric_def)
  have "fabric_good H cl ?f" using ok assms(4) by (simp add: fabric_good_def m)
  then have good: "fabric_ok H cl (row_fabric row')"
    using store_fabric_good[OF push_good[OF _ assms(2)]] row'(2) by (simp add: fabric_good_def)
  have version: "fb_version (row_fabric row') = v + 1"
    by (simp add: row'(2) store_fabric_def push_event_def new_event_def Let_def v)
  have conflict: "appendMissionFabricEvent H cl now' i v a' t' pl' db' = Inl (FabricConflict v (v + 1))"
    using good version row'(1) assms(5)
    by (simp add: appendMissionFabricEvent_def Let_def verifyFabricState_valid row_fabric_def)
  have pv: "pj_version (projectMissionFabric f) = fb_version f" for f
  proof -
    have "pj_version (fold project_event es p) = pj_version p" for es p
      by (induction es arbitrary: p) (simp_all add: project_event_def Let_def)
    then show ?thesis by (simp add: projectMissionFabric_def)
  qed
  have "getMission i db' = Some (mission_of row')" using row'(1) by (simp add: getMission_def)
  moreover have "fb_events (st_fabric (ms_state (mission_of row'))) = map store_event (fb_events ?f @ [?e])"
    using row'(2) by (simp add: mission_of_def row_fabric_def store_fabric_def push_event_def)
  moreover have "pj_version pj = v + 1" by (simp add: pj pv push_event_def new_event_def Let_def v)
  ultimately show ?thesis using conflict unfolding m by (auto simp: new_event_def Let_def v)
qed


section \<open>A mission for the worked examples\<close>

definition demo_actor :: fabric_actor where
  "demo_actor = \<lparr>ac_kind = ''human'', ac_id = ''ana''\<rparr>"

definition demo_payload :: "(string \<times> json) list" where
  "demo_payload = [(''id'', JStr ''t'')]"

definition undef_payload :: "(string \<times> json) list" where
  "undef_payload = [(''id'', JStr ''t''), (''note'', JUndefined)]"

definition demo_mission_row :: mission_row where
  "demo_mission_row = \<lparr>mr_mission_id = ''m'', mr_title = ''t'', mr_objective = ''o'', mr_status = MissionOpen,
     mr_operator_id = None, mr_state_json = stringify_state emptyState, mr_requests_count = 0, mr_cost_usd = 0,
     mr_created_at = ''now'', mr_updated_at = ''now''\<rparr>"

lemma demo_payloads_valid:
  "validateFabricInput demo_actor ''task.upserted'' demo_payload = None"
  "validateFabricInput demo_actor ''task.upserted'' undef_payload = None"
  by code_simp+

lemma demo_create: "createMission ''m'' ''now'' ''t'' ''o'' None None [] = Inr (mission_of demo_mission_row, [demo_mission_row])"
  by (simp add: createMission_def Let_def demo_mission_row_def)

lemma demo_fabric: "row_fabric demo_mission_row = emptyFabric"
  by (simp add: row_fabric_def demo_mission_row_def) (simp add: store_fabric_def emptyState_def emptyFabric_def)

definition demo_event_row :: "(string \<times> json) list \<Rightarrow> mission_row" where
  "demo_event_row pl = demo_mission_row\<lparr>mr_state_json := stringify_state
     (parseState (mr_state_json demo_mission_row)\<lparr>st_fabric :=
        push_event (new_event (\<lambda>s. s) (\<lambda>k. k) emptyFabric ''now'' demo_actor ''task.upserted'' pl) emptyFabric\<rparr>)\<rparr>"

lemma demo_append:
  assumes "validateFabricInput demo_actor ''task.upserted'' pl = None"
  shows "\<exists>pj. appendMissionFabricEvent (\<lambda>s. s) (\<lambda>k. k) ''now'' ''m'' 0 demo_actor ''task.upserted'' pl [demo_mission_row]
    = Inr (Some pj, [demo_event_row pl])"
proof -
  have f: "st_fabric (parseState (mr_state_json demo_mission_row)) = emptyFabric"
    using demo_fabric by (simp add: row_fabric_def)
  have i: "mr_mission_id demo_mission_row = ''m''" "mr_updated_at demo_mission_row = ''now''" by (simp_all add: demo_mission_row_def)
  have v: "fb_version emptyFabric = 0" by (simp add: emptyFabric_def)
  show ?thesis
    by (simp add: appendMissionFabricEvent_def assms Let_def f i v verifyFabricState_valid row_update_def demo_event_row_def)
qed

lemma demo_event_fabric: "row_fabric (demo_event_row pl) =
    store_fabric (push_event (new_event (\<lambda>s. s) (\<lambda>k. k) emptyFabric ''now'' demo_actor ''task.upserted'' pl) emptyFabric)"
  by (simp add: row_fabric_def demo_event_row_def)

lemma demo_event_mission: "getMission ''m'' [demo_event_row pl] = Some (mission_of (demo_event_row pl))"
  by (simp add: getMission_def demo_event_row_def demo_mission_row_def)

lemma demo_history:
  assumes "validateFabricInput demo_actor ''task.upserted'' pl = None"
  shows "mission_history (\<lambda>s. s) (\<lambda>k. k) [(''m'', pl)] [demo_event_row pl]"
proof -
  have "mission_history (\<lambda>s. s) (\<lambda>k. k) ([] @ []) [demo_mission_row]"
    by (rule mh_step[OF mh_start ms_create[OF demo_create]])
  moreover have "mission_step (\<lambda>s. s) (\<lambda>k. k) [demo_mission_row] [(''m'', pl)] [demo_event_row pl]"
    using demo_append[OF assms] ms_event by blast
  ultimately have "mission_history (\<lambda>s. s) (\<lambda>k. k) (([] @ []) @ [(''m'', pl)]) [demo_event_row pl]" by (rule mh_step)
  then show ?thesis by simp
qed

theorem mission_fabric_verifies_witness:
  "verifyMissionFabric (\<lambda>s. s) (\<lambda>k. k) ''m'' [demo_event_row demo_payload] = Some \<lparr>fc_valid = True, fc_events = 1, fc_broken_at = None\<rparr>"
proof -
  have "payloads_for ''m'' [(''m'', demo_payload)] = [demo_payload]" "defined_entries demo_payload"
    by (simp_all add: demo_payload_def)
  with mission_fabric_verifies[OF demo_history[OF demo_payloads_valid(1)] demo_event_mission] show ?thesis
    by (auto split: if_splits)
qed

theorem mission_fabric_tamper_evident_witness:
  "\<exists>f :: fabric_state. length (fb_events f) = 1 \<and> map (core_text (\<lambda>k. k)) (fb_events f) = map (core_text (\<lambda>k. k)) (fb_events (f\<lparr>fb_version := 1\<rparr>))"
proof -
  define e where "e = new_event (\<lambda>s. s) (\<lambda>k. k) emptyFabric ''now'' demo_actor ''task.upserted'' demo_payload"
  define f where "f = push_event e emptyFabric"
  have v: "fc_valid (verifyFabricState (\<lambda>s. s) (\<lambda>k. k) f)" by (simp add: f_def e_def verifyFabricState_valid push_ok)
  have same: "f\<lparr>fb_version := 1\<rparr> = f" by (simp add: f_def e_def push_event_def new_event_def Let_def emptyFabric_def)
  have ev: "fb_events f = [e]" by (simp add: f_def push_event_def emptyFabric_def)
  have "map (core_text (\<lambda>k. k)) (fb_events f) = map (core_text (\<lambda>k. k)) (fb_events (f\<lparr>fb_version := 1\<rparr>))"
    by (rule conjunct1[OF mission_fabric_tamper_evident[of "\<lambda>s. s"]]) (simp_all add: v[simplified] same ev)
  with ev show ?thesis by (intro exI[of _ f]) simp
qed

theorem fabric_append_serialises_witness:
  "appendMissionFabricEvent (\<lambda>s. s) (\<lambda>k. k) ''later'' ''m'' 0 demo_actor ''task.upserted'' demo_payload [demo_event_row demo_payload]
    = Inl (FabricConflict 0 1)"
proof -
  obtain pj where a: "appendMissionFabricEvent (\<lambda>s. s) (\<lambda>k. k) ''now'' ''m'' 0 demo_actor ''task.upserted'' demo_payload
      [demo_mission_row] = Inr (Some pj, [demo_event_row demo_payload])"
    using demo_append[OF demo_payloads_valid(1)] by blast
  have "getMission ''m'' [demo_mission_row] = Some (mission_of demo_mission_row)"
    by (simp add: getMission_def demo_mission_row_def)
  moreover have "fb_events (st_fabric (ms_state (mission_of demo_mission_row))) = []"
    using demo_fabric by (simp add: mission_of_def row_fabric_def emptyFabric_def)
  ultimately show ?thesis
    using fabric_append_serialises[OF a, of "mission_of demo_mission_row" demo_actor "''task.upserted''" demo_payload] demo_payloads_valid
    by (simp add: demo_payload_def)
qed

section \<open>What the column costs\<close>

text \<open>An event whose payload has a member with the value undefined is accepted and breaks its mission's fabric
  for good: its hash covers the member, the stored text does not, so the fabric no longer verifies and
  every later event is refused.  Here the hash is the identity, so no collision is involved.\<close>

theorem undefined_member_breaks_fabric:
  "\<exists>pj db'. appendMissionFabricEvent (\<lambda>s. s) (\<lambda>k. k) ''now'' ''m'' 0 demo_actor ''task.upserted'' undef_payload [demo_mission_row]
      = Inr (Some pj, db')
    \<and> map_option fc_valid (verifyMissionFabric (\<lambda>s. s) (\<lambda>k. k) ''m'' db') = Some False
    \<and> (\<exists>at_seq. appendMissionFabricEvent (\<lambda>s. s) (\<lambda>k. k) ''later'' ''m'' 1 demo_actor ''task.upserted'' demo_payload db'
         = Inl (FabricIntegrity at_seq))"
proof -
  let ?e = "new_event (\<lambda>s. s) (\<lambda>k. k) emptyFabric ''now'' demo_actor ''task.upserted'' undef_payload"
  have "core_text (\<lambda>k. k) (store_event ?e) \<noteq> core_text (\<lambda>k. k) ?e" by code_simp
  moreover have "fe_event_hash ?e = core_text (\<lambda>k. k) ?e" by (simp add: new_event_def core_text_def Let_def)
  ultimately have bad: "\<not> fc_valid (verifyFabricState (\<lambda>s. s) (\<lambda>k. k) (row_fabric (demo_event_row undef_payload)))"
    by (simp add: verifyFabricState_valid demo_event_fabric fabric_ok_def store_fabric_def push_event_def event_ok_def emptyFabric_def)
  have "mr_mission_id (demo_event_row undef_payload) = ''m''" by (simp add: demo_event_row_def demo_mission_row_def)
  with bad demo_payloads_valid(1)
  have "\<exists>at_seq. appendMissionFabricEvent (\<lambda>s. s) (\<lambda>k. k) ''later'' ''m'' 1 demo_actor ''task.upserted'' demo_payload [demo_event_row undef_payload]
         = Inl (FabricIntegrity at_seq)"
    by (simp add: appendMissionFabricEvent_def Let_def row_fabric_def)
  moreover have "map_option fc_valid (verifyMissionFabric (\<lambda>s. s) (\<lambda>k. k) ''m'' [demo_event_row undef_payload]) = Some False"
    using bad by (simp add: verifyMissionFabric_def demo_event_mission mission_of_def row_fabric_def)
  ultimately show ?thesis using demo_append[OF demo_payloads_valid(2)] by blast
qed

text \<open>A mission whose stored state cannot be parsed (or whose fabric has another schema version) reports a
  valid, empty fabric, and the next append replaces its state: nothing of the old state is left and the
  column is readable again.\<close>

theorem unreadable_state_reports_valid_and_is_replaced:
  assumes "row_find mr_mission_id i db = Some row" "mr_state_json row = None"
  shows "verifyMissionFabric H cl i db = Some \<lparr>fc_valid = True, fc_events = 0, fc_broken_at = None\<rparr>
    \<and> (\<exists>m. getMission i (snd (appendToMission now i p db)) = Some m
        \<and> st_findings (ms_state m) = map store_finding (push_findings [] (pa_findings p))
        \<and> fb_events (st_fabric (ms_state m)) = [])"
proof -
  have "mr_mission_id row = i" using row_find_SomeD[OF assms(1)] by simp
  then show ?thesis
    using assms
    by (simp add: verifyMissionFabric_def getMission_def mission_of_def parseState_def emptyState_def emptyFabric_def
        verifyFabricState_def Let_def appendToMission_def row_find_update appended_state_def stringify_state_def)
qed

theorem unreadable_state_reports_valid_and_is_replaced_witness:
  "verifyMissionFabric (\<lambda>s. s) (\<lambda>k. k) ''m'' [demo_mission_row\<lparr>mr_state_json := None\<rparr>]
    = Some \<lparr>fc_valid = True, fc_events = 0, fc_broken_at = None\<rparr>"
  by (rule conjunct1[OF unreadable_state_reports_valid_and_is_replaced[of "''m''" _ "demo_mission_row\<lparr>mr_state_json := None\<rparr>"]])
    (simp_all add: demo_mission_row_def)

end
