(* ===== verification/OperatorLoop.thy ===== *)
theory OperatorLoop imports ExecutorDemo begin

text \<open>
  The operator's gate, \<open>src/src/runtime/operator/loop.ts\<close>: one tick validates the mandate and the
  budget, claims the resource, evaluates the typed action and, for an actuation, its approval.  An
  exception of a callee is \<open>TickThrew\<close>; the lease manager is the state.
\<close>

datatype tick_outcome = TickReady | TickBlocked string | TickThrew string

record 'k tick_params =
  tp_mandate :: execution_mandate
  tp_objective :: string
  tp_workspaceRoot :: string
  tp_branch :: string
  tp_resource :: string
  tp_owner :: string
  tp_action :: json
  tp_approval :: "json option"
  tp_approvalKeys :: "'k keyring option"
  tp_hostId :: "string option"
  tp_costSoFarUsd :: jsnum
  tp_leaseMs :: "jsnum option"

definition tick_release :: "'k tick_params \<Rightarrow> string \<Rightarrow> lease_manager \<Rightarrow> tick_outcome \<times> lease_manager" where
  "tick_release p why held =
     (case rlm_release (tp_resource p) (tp_owner p) held of
        Inl e \<Rightarrow> (TickThrew e, held) | Inr (_, held') \<Rightarrow> (TickBlocked why, held'))"

definition tick_actuation ::
  "'k lib \<Rightarrow> int \<Rightarrow> 'k tick_params \<Rightarrow> (string \<times> json) list \<Rightarrow> lease_manager \<Rightarrow> tick_outcome \<times> lease_manager" where
  "tick_actuation L now p args held =
     (case tp_approval p of
        None \<Rightarrow> tick_release p ''approval_required'' held
      | Some approval \<Rightarrow>
     (case (tp_approvalKeys p, tp_hostId p) of
        (Some keys, Some host) \<Rightarrow>
          if keys = [] \<or> host = '''' then tick_release p ''approval_verifier_unavailable'' held
          else (case actionHash L \<lparr>ai_host_id = host, ai_mandate_id = md_mandate_id (tp_mandate p), ai_type = type_name OpsActuate,
                      ai_args = args, ai_resource = tp_resource p\<rparr> of
             Inl e \<Rightarrow> (TickThrew e, held)
           | Inr hash \<Rightarrow> (case verifyActuationApproval L approval (md_mandate_id (tp_mandate p)) hash now keys of
               Inl why \<Rightarrow> tick_release p why held
             | Inr _ \<Rightarrow> (TickReady, held)))
      | _ \<Rightarrow> tick_release p ''approval_verifier_unavailable'' held))"

definition runOperatorTick :: "'k lib \<Rightarrow> int \<Rightarrow> 'k tick_params \<Rightarrow> lease_manager \<Rightarrow> tick_outcome \<times> lease_manager" where
  "runOperatorTick L now p held =
     (case validateMandate L (tp_mandate p) \<lparr>mc_objective = tp_objective p, mc_workspaceRoot = tp_workspaceRoot p,
          mc_branch = tp_branch p\<rparr> now of
        Some why \<Rightarrow> (TickBlocked (''mandate_invalid:'' @ why), held)
      | None \<Rightarrow>
      if \<not> js_finite (tp_costSoFarUsd p) \<or> js_less (tp_costSoFarUsd p) (js_int 0) then (TickBlocked ''cost_invalid'', held)
      else if js_le (md_max_cost_usd (tp_mandate p)) (tp_costSoFarUsd p)
        then (TickBlocked ''cost_budget_exhausted_before_execution'', held)
      else if js_le (lib_dateParse L (md_expires_at (tp_mandate p))) (js_int now) then (TickBlocked ''mandate_expired'', held)
      else (case rlm_claim (tp_resource p) (tp_owner p) (nullish (tp_leaseMs p) (js_int 120000)) now held of
         Inl e \<Rightarrow> (TickThrew e, held)
       | Inr (Busy holder, held') \<Rightarrow> (TickBlocked (''resource_busy:'' @ holder), held')
       | Inr (Acquired, held') \<Rightarrow>
           (case evaluateTypedOperatorAction L (tp_action p) (operatorTypesFromMandate (tp_mandate p)) of
              Inl why \<Rightarrow> tick_release p why held'
            | Inr (t, args) \<Rightarrow> if t = OpsActuate then tick_actuation L now p args held' else (TickReady, held'))))"

section \<open>What a tick guarantees\<close>

lemma claim_acquiredD:
  "rlm_claim r w d now s = Inr (Acquired, s') \<Longrightarrow>
     \<exists>c. canonicalResource r = Inr c \<and> s' = s(c \<mapsto> \<lparr>rl_owner = w, rl_expiresAtMs = now + js_floor d\<rparr>)
       \<and> 1000 \<le> js_floor d"
proof -
  assume a: "rlm_claim r w d now s = Inr (Acquired, s')"
  then obtain c where c: "canonicalResource r = Inr c" "s' = s(c \<mapsto> \<lparr>rl_owner = w, rl_expiresAtMs = now + js_floor d\<rparr>)"
    by (auto simp: rlm_claim_def Let_def split: if_splits sum.splits option.splits)
  have "js_finite d" "\<not> js_less d (js_int 1000)"
    using a by (auto simp: rlm_claim_def split: if_splits)
  then have "1000 \<le> js_floor d" by (cases d) (auto simp: js_int_def le_floor_iff)
  with c show ?thesis by blast
qed

lemma release_own:
  "canonicalResource (tp_resource p) = Inr c \<Longrightarrow> s c = Some l \<Longrightarrow> rl_owner l = tp_owner p
     \<Longrightarrow> tick_release p why s = (TickBlocked why, s(c := None))"
  by (simp add: tick_release_def rlm_release_def)

lemma tick_actuationD:
  assumes "canonicalResource (tp_resource p) = Inr c" "s c = Some l" "rl_owner l = tp_owner p"
    and "tick_actuation L now p args s = (out, s')"
  shows "(case out of
      TickReady \<Rightarrow> s' = s \<and> (\<exists>approval keys host hash a. tp_approval p = Some approval \<and> tp_approvalKeys p = Some keys
          \<and> tp_hostId p = Some host
          \<and> actionHash L \<lparr>ai_host_id = host, ai_mandate_id = md_mandate_id (tp_mandate p), ai_type = type_name OpsActuate,
                      ai_args = args, ai_resource = tp_resource p\<rparr> = Inr hash
          \<and> verifyActuationApproval L approval (md_mandate_id (tp_mandate p)) hash now keys = Inr a)
    | TickBlocked why \<Rightarrow> s' = s(c := None)
    | TickThrew e \<Rightarrow> s' = s)"
  using assms(4) release_own[where p = p and s = s, OF assms(1-3)]
  by (auto simp: tick_actuation_def split: option.splits if_splits sum.splits)

text \<open>A tick that says ready has checked everything it promises: the mandate is valid now, some of its budget
  is left, the action is of a type it delegates, an actuation carries an approval that verifies for
  the hash of exactly this action, and the resource is leased to the owner for at least a second from
  now; a tick that blocks leaves the resource free or as it found it.\<close>

theorem operator_tick_gate:
  assumes "runOperatorTick L now p held = (out, held')"
  shows "(out = TickReady \<longrightarrow>
      validateMandate L (tp_mandate p) \<lparr>mc_objective = tp_objective p, mc_workspaceRoot = tp_workspaceRoot p,
          mc_branch = tp_branch p\<rparr> now = None
      \<and> \<not> js_le (md_max_cost_usd (tp_mandate p)) (tp_costSoFarUsd p)
      \<and> (\<exists>t args. evaluateTypedOperatorAction L (tp_action p) (operatorTypesFromMandate (tp_mandate p)) = Inr (t, args)
          \<and> (t = OpsActuate \<longrightarrow> (\<exists>approval keys host hash a. tp_approval p = Some approval
              \<and> actionHash L \<lparr>ai_host_id = host, ai_mandate_id = md_mandate_id (tp_mandate p), ai_type = type_name t,
                      ai_args = args, ai_resource = tp_resource p\<rparr> = Inr hash
              \<and> verifyActuationApproval L approval (md_mandate_id (tp_mandate p)) hash now keys = Inr a)))
      \<and> rlm_holder (tp_resource p) (now + 999) held' = Inr (Some (tp_owner p)))
    \<and> (\<forall>why. out = TickBlocked why \<longrightarrow>
        held' = held \<or> (\<exists>c. canonicalResource (tp_resource p) = Inr c \<and> held' = held(c := None)))"
proof -
  let ?v = "validateMandate L (tp_mandate p) \<lparr>mc_objective = tp_objective p, mc_workspaceRoot = tp_workspaceRoot p,
          mc_branch = tp_branch p\<rparr> now"
  let ?claim = "rlm_claim (tp_resource p) (tp_owner p) (nullish (tp_leaseMs p) (js_int 120000)) now held"
  let ?early = "?v \<noteq> None \<or> \<not> js_finite (tp_costSoFarUsd p) \<or> js_less (tp_costSoFarUsd p) (js_int 0)
      \<or> js_le (md_max_cost_usd (tp_mandate p)) (tp_costSoFarUsd p)
      \<or> js_le (lib_dateParse L (md_expires_at (tp_mandate p))) (js_int now)"
  consider (early) "?early" | (threw) e where "\<not> ?early" "?claim = Inl e"
    | (busy) h s where "\<not> ?early" "?claim = Inr (Busy h, s)" | (got) s where "\<not> ?early" "?claim = Inr (Acquired, s)"
    by (metis Inl_Inr_False claim_outcome.exhaust old.prod.exhaust obj_sumE)
  then show ?thesis
  proof cases
    case early
    then show ?thesis using assms by (auto simp: runOperatorTick_def split: option.splits if_splits)
  next
    case (threw e)
    then show ?thesis using assms by (auto simp: runOperatorTick_def)
  next
    case (busy h s)
    then have "s = held" by (auto simp: rlm_claim_def Let_def split: if_splits sum.splits option.splits)
    then show ?thesis using busy assms by (auto simp: runOperatorTick_def)
  next
    case (got s)
    obtain c where c: "canonicalResource (tp_resource p) = Inr c" "1000 \<le> js_floor (nullish (tp_leaseMs p) (js_int 120000))"
      "s = held(c \<mapsto> \<lparr>rl_owner = tp_owner p, rl_expiresAtMs = now + js_floor (nullish (tp_leaseMs p) (js_int 120000))\<rparr>)"
      using claim_acquiredD[OF got(2)] by blast
    let ?l = "\<lparr>rl_owner = tp_owner p, rl_expiresAtMs = now + js_floor (nullish (tp_leaseMs p) (js_int 120000))\<rparr>"
    have sc: "s c = Some ?l" by (simp add: c(3))
    have holder: "rlm_holder (tp_resource p) (now + 999) s = Inr (Some (tp_owner p))"
      using c(2) by (simp add: rlm_holder_def c(1) sc)
    have own: "rl_owner ?l = tp_owner p" by simp
    have freed: "s(c := None) = held(c := None)" by (simp add: c(3))
    let ?ev = "evaluateTypedOperatorAction L (tp_action p) (operatorTypesFromMandate (tp_mandate p))"
    have run: "runOperatorTick L now p held = (case ?ev of Inl why \<Rightarrow> tick_release p why s
        | Inr (t, args) \<Rightarrow> if t = OpsActuate then tick_actuation L now p args s else (TickReady, s))"
      using got by (simp add: runOperatorTick_def)
    show ?thesis
    proof (cases ?ev)
      case (Inl why)
      then have "out = TickBlocked why" "held' = held(c := None)"
        using assms run release_own[where p = p and s = s and why = why, OF c(1) sc own] freed by auto
      then show ?thesis using c(1) by auto
    next
      case (Inr ta)
      obtain t args where ta: "ta = (t, args)" by (cases ta)
      show ?thesis
      proof (cases "t = OpsActuate")
        case True
        then have "tick_actuation L now p args s = (out, held')" using assms run Inr ta by simp
        note act = tick_actuationD[where p = p and s = s, OF c(1) sc own this]
        show ?thesis
        proof (cases out)
          case TickReady
          with act have "held' = s" by simp
          moreover obtain approval keys host hash a where "tp_approval p = Some approval"
            "actionHash L \<lparr>ai_host_id = host, ai_mandate_id = md_mandate_id (tp_mandate p), ai_type = type_name t,
                      ai_args = args, ai_resource = tp_resource p\<rparr> = Inr hash"
            "verifyActuationApproval L approval (md_mandate_id (tp_mandate p)) hash now keys = Inr a"
            using act TickReady True by auto
          ultimately show ?thesis using TickReady got(1) Inr ta holder by (simp del: type_name.simps) blast
        next
          case (TickBlocked why)
          with act freed c(1) show ?thesis by auto
        qed simp
      next
        case False
        then have "out = TickReady" "held' = s" using assms run Inr ta by simp_all
        then show ?thesis using got(1) Inr ta False holder by auto
      qed
    qed
  qed
qed

text \<open>The gate is closed to every operations mandate: \<open>issueOperationsMandate\<close> gives a cost limit of zero, and
  the gate refuses a spending that is not below the limit, so no tick under such a mandate is ever
  ready, whatever its action and approval.\<close>

theorem operations_mandate_never_ready:
  assumes "issueOperationsMandate L rnd t0 rq key = Inr m" "tp_mandate p = m"
  shows "fst (runOperatorTick L now p held) \<noteq> TickReady"
proof -
  have "md_max_cost_usd m = js_int 0"
    using assms(1) by (auto simp: issueOperationsMandate_def Let_def unsigned_mandate_def signDomain_def split: if_splits sum.splits)
  with assms(2) show ?thesis
    by (cases "tp_costSoFarUsd p") (auto simp: runOperatorTick_def js_int_def js_le_def js_eq_def split: option.splits)
qed


definition demo_tick :: "unit tick_params" where
  "demo_tick = \<lparr>tp_mandate = demo_mandate\<lparr>md_max_cost_usd := js_int 5\<rparr>, tp_objective = ''objective'',
     tp_workspaceRoot = ''ops://h1'', tp_branch = ''ops/h1'', tp_resource = ''unit:a'', tp_owner = ''ana'',
     tp_action = JObj [(''type'', JStr ''ops.observe''), (''args'', JObj [(''target'', JStr ''api'')])],
     tp_approval = None, tp_approvalKeys = None, tp_hostId = None, tp_costSoFarUsd = js_int 1, tp_leaseMs = None\<rparr>"

lemma demo_tick_ready: "\<exists>held. runOperatorTick toy_lib 2 demo_tick Map.empty = (TickReady, held)"
proof -
  have v: "validateMandate toy_lib (demo_mandate\<lparr>md_max_cost_usd := js_int 5\<rparr>) \<lparr>mc_objective = ''objective'',
      mc_workspaceRoot = ''ops://h1'', mc_branch = ''ops/h1''\<rparr> 2 = None"
    by (simp add: demo_mandate_def validateMandate_def unsigned_mandate_def Let_def toy_request_def opsMandateContext_def
        branchMatchesPolicy_def toy_lib_def tagged_hex_def hex_text_def is_hex_def objectiveHash_def
        ALWAYS_DENIED_ACTIONS_def js_int_def)
  have t: "operatorTypesFromMandate (demo_mandate\<lparr>md_max_cost_usd := js_int 5\<rparr>) = [OpsObserve, OpsActuate]"
    by (simp add: operatorTypesFromMandate_def OPERATOR_ACTION_TYPES_def demo_mandate_def unsigned_mandate_def Let_def
        toy_request_def ALWAYS_DENIED_ACTIONS_def DEFAULT_ALLOWED_ACTIONS_def)
  have e: "evaluateTypedOperatorAction toy_lib (JObj [(''type'', JStr ''ops.observe''), (''args'', JObj [(''target'', JStr ''api'')])])
      [OpsObserve, OpsActuate] = Inr (OpsObserve, [(''target'', JStr ''api'')])"
    by (simp add: evaluateTypedOperatorAction_def prop_of_def OPERATOR_ACTION_TYPES_def
        validateArgs_def args_shape_ok_def str_prop_def sat_str_def safe_action_id_def id_text_def is_alnum_def
        is_lower_def checkForbidden_def stringsOf.simps utf8_length_def toy_lib_def)
  have d: "\<not> js_le (lib_dateParse toy_lib (md_expires_at demo_mandate)) (js_int 2)"
    by (simp add: demo_mandate_def unsigned_mandate_def Let_def toy_request_def toy_lib_def)
  have c: "\<exists>held. rlm_claim ''unit:a'' ''ana'' (js_int 120000) 2 Map.empty = Inr (Acquired, held)"
    by (simp add: rlm_claim_def canonicalResource_def js_trim_def is_space_def Let_def js_int_def)
  then show ?thesis
    using v t e d by (auto simp: runOperatorTick_def demo_tick_def js_int_def)
qed

theorem operator_tick_gate_witness:
  "\<exists>held. runOperatorTick toy_lib 2 demo_tick Map.empty = (TickReady, held) \<and> rlm_holder ''unit:a'' 1001 held = Inr (Some ''ana'')"
proof -
  obtain held where "runOperatorTick toy_lib 2 demo_tick Map.empty = (TickReady, held)" using demo_tick_ready by blast
  with operator_tick_gate[OF this] show ?thesis by (auto simp: demo_tick_def)
qed

theorem operations_mandate_never_ready_witness:
  "\<exists>m. issueOperationsMandate toy_lib ''r'' 60000 toy_request () = Inr m
     \<and> fst (runOperatorTick toy_lib 61000 (demo_tick\<lparr>tp_mandate := m\<rparr>) Map.empty) \<noteq> TickReady"
  using toy_issue operations_mandate_never_ready[of toy_lib "''r''" 60000 toy_request "()" _ "demo_tick\<lparr>tp_mandate := _\<rparr>"] by fastforce

end
