(* ===== verification/ExchangePolicy.thy ===== *)
theory ExchangePolicy imports Json begin

text \<open>
  The first two stages of the model exchange: the registry of engines
  (\<open>src/src/model-exchange/registry.ts\<close>), the policy rules that filter it (\<open>policy.ts\<close>) and the
  router that scores and ranks what is left (\<open>router.ts\<close>).  Costs, scores and weights are exact
  rationals where the code has doubles; \<open>to_fixed\<close> rounds them where the code does.  The text of
  a rule's description is the constructor \<open>rule_text\<close> with the values it interpolates.
\<close>

section \<open>Registry\<close>

datatype engine_type = EOpenai | EAnthropic | EMistral | EQwen | EDeterministic

datatype model_status = Live | Simulated | Offline

record registry_entry =
  me_id :: string
  me_provider :: string
  me_display_name :: string
  me_engine :: engine_type
  me_capabilities :: "string list"
  me_cost_in :: rat
  me_cost_out :: rat
  me_latency_avg_ms :: rat
  me_jurisdictions :: "string list"
  me_quality_score :: rat
  me_sovereignty_level :: nat
  me_evidence_reliability :: rat
  me_operational_risk :: rat
  me_status :: model_status

definition generative :: "string list" where
  "generative = [''reasoning'', ''generation'', ''analysis'', ''summarization'', ''extraction'']"

definition gpt_entry :: registry_entry where
  "gpt_entry =
    \<lparr>me_id = ''openai/gpt-4.1'', me_provider = ''OpenAI'', me_display_name = ''GPT-4.1'',
     me_engine = EOpenai, me_capabilities = generative, me_cost_in = 2 / 1000, me_cost_out = 8 / 1000,
     me_latency_avg_ms = 2600, me_jurisdictions = [''US''], me_quality_score = 92,
     me_sovereignty_level = 1, me_evidence_reliability = 74, me_operational_risk = 18, me_status = Live\<rparr>"

definition claude_entry :: registry_entry where
  "claude_entry =
    \<lparr>me_id = ''anthropic/claude-sonnet-4'', me_provider = ''Anthropic'',
     me_display_name = ''Claude Sonnet 4'', me_engine = EAnthropic, me_capabilities = generative,
     me_cost_in = 3 / 1000, me_cost_out = 15 / 1000, me_latency_avg_ms = 3100,
     me_jurisdictions = [''US''], me_quality_score = 91, me_sovereignty_level = 1,
     me_evidence_reliability = 76, me_operational_risk = 20, me_status = Simulated\<rparr>"

definition mistral_entry :: registry_entry where
  "mistral_entry =
    \<lparr>me_id = ''mistral/mistral-large-2'', me_provider = ''Mistral AI'',
     me_display_name = ''Mistral Large 2'', me_engine = EMistral, me_capabilities = generative,
     me_cost_in = 2 / 1000, me_cost_out = 6 / 1000, me_latency_avg_ms = 2400,
     me_jurisdictions = [''EU'', ''FR''], me_quality_score = 87, me_sovereignty_level = 2,
     me_evidence_reliability = 78, me_operational_risk = 14, me_status = Simulated\<rparr>"

definition qwen_entry :: registry_entry where
  "qwen_entry =
    \<lparr>me_id = ''qwen/qwen3-72b'', me_provider = ''Alibaba (open-weight)'',
     me_display_name = ''Qwen 3 72B'', me_engine = EQwen,
     me_capabilities = [''reasoning'', ''generation'', ''analysis'', ''extraction''],
     me_cost_in = 5 / 10000, me_cost_out = 2 / 1000, me_latency_avg_ms = 2900,
     me_jurisdictions = [''sovereign'', ''self-hosted''], me_quality_score = 84,
     me_sovereignty_level = 3, me_evidence_reliability = 70, me_operational_risk = 22,
     me_status = Simulated\<rparr>"

definition core_entry :: registry_entry where
  "core_entry =
    \<lparr>me_id = ''ronor/deterministic-core'', me_provider = ''RONOR (on-prem)'',
     me_display_name = ''Deterministic Core'', me_engine = EDeterministic,
     me_capabilities = [''calculation'', ''validation'', ''lookup''], me_cost_in = 0, me_cost_out = 0,
     me_latency_avg_ms = 12, me_jurisdictions = [''sovereign''], me_quality_score = 100,
     me_sovereignty_level = 3, me_evidence_reliability = 100, me_operational_risk = 2,
     me_status = Live\<rparr>"

definition MODEL_REGISTRY :: "registry_entry list" where
  "MODEL_REGISTRY = [gpt_entry, claude_entry, mistral_entry, qwen_entry, core_entry]"

definition getModel :: "string \<Rightarrow> registry_entry option" where
  "getModel i = find (\<lambda>m. me_id m = i) MODEL_REGISTRY"

definition listModels :: "registry_entry list" where
  "listModels = MODEL_REGISTRY"

lemmas registry_defs =
  MODEL_REGISTRY_def gpt_entry_def claude_entry_def mistral_entry_def qwen_entry_def core_entry_def
  generative_def

lemma registry_ids_distinct: "distinct (map me_id MODEL_REGISTRY)"
  by (simp add: registry_defs)

lemma getModel_SomeD: "getModel i = Some m \<Longrightarrow> m \<in> set MODEL_REGISTRY \<and> me_id m = i"
  by (auto simp: getModel_def find_Some_iff)

lemma getModel_member: "m \<in> set MODEL_REGISTRY \<Longrightarrow> getModel (me_id m) = Some m"
  using registry_ids_distinct row_find_distinct[of me_id MODEL_REGISTRY m] by (simp add: getModel_def row_find_def)

section \<open>Requests\<close>

text \<open>
  A request as the HTTP route builds it: the task type and the confidentiality level are any strings
  and the jurisdiction pin any value, since the route checks none of the three against its type; an
  entry of \<open>allowed_providers\<close> is any value too.
\<close>

record unified_request =
  ur_query :: string
  ur_task_type :: string
  ur_confidentiality :: string
  ur_allowed_providers :: "json list option"
  ur_max_latency :: "jsnum option"
  ur_max_cost :: "jsnum option"
  ur_required_evidence :: "jsnum option"
  ur_jurisdiction_pin :: json
  ur_operator_id :: "string option"
  ur_mission_id :: "string option"

section \<open>Policy rules\<close>

datatype rule_text =
    SovereignOnly
  | CapabilityMatch string
  | DeterministicFirst
  | ProviderAllowlist "json list"
  | LatencyCeiling jsnum
  | CostCeiling jsnum
  | EvidenceFloor jsnum
  | JurisdictionEU
  | JurisdictionSovereign

fun rule_name :: "rule_text \<Rightarrow> string" where
  "rule_name SovereignOnly = ''P1_SOVEREIGN_ONLY''"
| "rule_name (CapabilityMatch t) = ''P2_CAPABILITY_MATCH''"
| "rule_name DeterministicFirst = ''P3_DETERMINISTIC_FIRST''"
| "rule_name (ProviderAllowlist ps) = ''P4_PROVIDER_ALLOWLIST''"
| "rule_name (LatencyCeiling x) = ''P5_LATENCY_CEILING''"
| "rule_name (CostCeiling x) = ''P6_COST_CEILING''"
| "rule_name (EvidenceFloor x) = ''P7_EVIDENCE_FLOOR''"
| "rule_name JurisdictionEU = ''P8_JURISDICTION_EU''"
| "rule_name JurisdictionSovereign = ''P8_JURISDICTION_SOVEREIGN''"

record policy_evaluation =
  pv_rule :: rule_text
  pv_excluded :: "string list"
  pv_passed :: "string list"

record policy_result =
  pr_eligible :: "registry_entry list"
  pr_evaluations :: "policy_evaluation list"
  pr_deterministicFirst :: bool
  pr_rejected :: bool
  pr_rejectionReason :: "string option"

definition EXACT_TASKS :: "string list" where
  "EXACT_TASKS = [''calculation'', ''validation'', ''lookup'']"

text \<open>\<open>toLowerCase\<close> on the code units of the model.\<close>

definition lower_char :: "char \<Rightarrow> char" where
  "lower_char c =
     (let n = of_char c :: nat
      in if 65 \<le> n \<and> n \<le> 90 \<or> 192 \<le> n \<and> n \<le> 222 \<and> n \<noteq> 215 then char_of (n + 32) else c)"

definition toLowerCase :: "string \<Rightarrow> string" where
  "toLowerCase s = map lower_char s"

fun engine_name :: "engine_type \<Rightarrow> string" where
  "engine_name EOpenai = ''openai''"
| "engine_name EAnthropic = ''anthropic''"
| "engine_name EMistral = ''mistral''"
| "engine_name EQwen = ''qwen''"
| "engine_name EDeterministic = ''deterministic''"

definition estimateCost :: "registry_entry \<Rightarrow> unified_request \<Rightarrow> rat" where
  "estimateCost m rq =
     (let estInputTokens = of_int (math_ceil (of_nat (length (ur_query rq)) / 4)) + 400;
          estOutputTokens = 700
      in (estInputTokens / 1000) * me_cost_in m + (estOutputTokens / 1000) * me_cost_out m)"

text \<open>A rule: what it says of a candidate, and whether the request asks for it.\<close>

definition positive_limit :: "jsnum option \<Rightarrow> bool" where
  "positive_limit x = (case x of None \<Rightarrow> False | Some v \<Rightarrow> js_finite v \<and> js_less (js_int 0) v)"

definition eu_codes :: "string list" where
  "eu_codes = [''FR'', ''DE'', ''IT'', ''ES'', ''RO'', ''NL'', ''BE'']"

definition capability_ok :: "unified_request \<Rightarrow> registry_entry \<Rightarrow> bool" where
  "capability_ok rq m \<longleftrightarrow> ur_task_type rq \<in> set (me_capabilities m)
     \<or> ur_task_type rq \<in> set EXACT_TASKS \<and> ''reasoning'' \<in> set (me_capabilities m)"

definition provider_ok :: "string list \<Rightarrow> registry_entry \<Rightarrow> bool" where
  "provider_ok allow m \<longleftrightarrow>
     toLowerCase (me_provider m) \<in> set allow \<or> toLowerCase (engine_name (me_engine m)) \<in> set allow"

text \<open>\<open>allowed_providers.map((p) => p.toLowerCase())\<close>: an entry that is no string throws.\<close>

fun lower_all :: "json list \<Rightarrow> string list option" where
  "lower_all [] = Some []"
| "lower_all (JStr p # ps) = map_option ((#) (toLowerCase p)) (lower_all ps)"
| "lower_all (_ # ps) = None"

definition eu_ok :: "registry_entry \<Rightarrow> bool" where
  "eu_ok m \<longleftrightarrow> ''EU'' \<in> set (me_jurisdictions m) \<or> ''sovereign'' \<in> set (me_jurisdictions m)
     \<or> list_ex (\<lambda>j. j \<in> set eu_codes) (me_jurisdictions m)"

text \<open>The block each rule repeats: filter, and record who was excluded and who passed.\<close>

type_synonym filter_state = "registry_entry list \<times> policy_evaluation list"

definition apply_rule :: "rule_text \<Rightarrow> (registry_entry \<Rightarrow> bool) \<Rightarrow> filter_state \<Rightarrow> filter_state" where
  "apply_rule rule keep fs =
     (let candidates = filter keep (fst fs);
          before = map me_id (fst fs)
      in (candidates,
          snd fs @ [\<lparr>pv_rule = rule,
             pv_excluded = filter (\<lambda>i. \<not> list_ex (\<lambda>m. me_id m = i) candidates) before,
             pv_passed = map me_id candidates\<rparr>]))"

definition rule_P1 :: "unified_request \<Rightarrow> filter_state \<Rightarrow> filter_state" where
  "rule_P1 rq fs =
     (if ur_confidentiality rq = ''sovereign'' then apply_rule SovereignOnly (\<lambda>m. 3 \<le> me_sovereignty_level m) fs
      else fs)"

definition rule_P2 :: "unified_request \<Rightarrow> filter_state \<Rightarrow> filter_state" where
  "rule_P2 rq fs = apply_rule (CapabilityMatch (ur_task_type rq)) (capability_ok rq) fs"

definition rule_P3 :: "unified_request \<Rightarrow> filter_state \<Rightarrow> filter_state" where
  "rule_P3 rq fs =
     (if ur_task_type rq = ''calculation''
      then (fst fs, snd fs @ [\<lparr>pv_rule = DeterministicFirst, pv_excluded = [], pv_passed = map me_id (fst fs)\<rparr>])
      else fs)"

definition rule_P4 :: "unified_request \<Rightarrow> filter_state \<Rightarrow> string + filter_state" where
  "rule_P4 rq fs =
     (case ur_allowed_providers rq of
        None \<Rightarrow> Inr fs
      | Some ps \<Rightarrow>
          if ps \<noteq> []
          then (case lower_all ps of
                  None \<Rightarrow> Inl ''p.toLowerCase is not a function''
                | Some allow \<Rightarrow> Inr (apply_rule (ProviderAllowlist ps) (provider_ok allow) fs))
          else Inr fs)"

definition rule_P5 :: "unified_request \<Rightarrow> filter_state \<Rightarrow> filter_state" where
  "rule_P5 rq fs =
     (if positive_limit (ur_max_latency rq)
      then apply_rule (LatencyCeiling (the (ur_max_latency rq)))
             (\<lambda>m. js_le (Num (me_latency_avg_ms m)) (nullish (ur_max_latency rq) PosInf)) fs
      else fs)"

definition rule_P6 :: "unified_request \<Rightarrow> filter_state \<Rightarrow> filter_state" where
  "rule_P6 rq fs =
     (if positive_limit (ur_max_cost rq)
      then apply_rule (CostCeiling (the (ur_max_cost rq)))
             (\<lambda>m. js_le (Num (estimateCost m rq)) (nullish (ur_max_cost rq) PosInf)) fs
      else fs)"

definition rule_P7 :: "unified_request \<Rightarrow> filter_state \<Rightarrow> filter_state" where
  "rule_P7 rq fs =
     (if positive_limit (ur_required_evidence rq)
      then apply_rule (EvidenceFloor (the (ur_required_evidence rq)))
             (\<lambda>m. js_le (nullish (ur_required_evidence rq) (js_int 0)) (Num (me_evidence_reliability m))) fs
      else fs)"

definition rule_P8 :: "unified_request \<Rightarrow> filter_state \<Rightarrow> filter_state" where
  "rule_P8 rq fs =
     (if ur_jurisdiction_pin rq = JStr ''EU'' then apply_rule JurisdictionEU eu_ok fs
      else if ur_jurisdiction_pin rq = JStr ''sovereign''
        then apply_rule JurisdictionSovereign (\<lambda>m. ''sovereign'' \<in> set (me_jurisdictions m)) fs
      else fs)"

definition no_engine_reason :: string where
  "no_engine_reason =
     ''No engine in the registry satisfies all policy constraints. Relax confidentiality_level, max_cost, max_latency, required_evidence_level, allowed_providers or jurisdiction_pin.''"

definition applyPolicies :: "unified_request \<Rightarrow> registry_entry list \<Rightarrow> string + policy_result" where
  "applyPolicies rq registry =
     (case rule_P4 rq (rule_P3 rq (rule_P2 rq (rule_P1 rq
             (filter (\<lambda>m. me_status m \<noteq> Offline) registry, [])))) of
        Inl e \<Rightarrow> Inl e
      | Inr fs4 \<Rightarrow>
          let (candidates, evaluations) = rule_P8 rq (rule_P7 rq (rule_P6 rq (rule_P5 rq fs4)));
              rejected = (candidates = [])
          in Inr \<lparr>pr_eligible = candidates, pr_evaluations = evaluations,
                  pr_deterministicFirst = (ur_task_type rq = ''calculation''),
                  pr_rejected = rejected,
                  pr_rejectionReason = (if rejected then Some no_engine_reason else None)\<rparr>)"

section \<open>Router\<close>

record score_terms =
  sc_quality :: rat
  sc_cost :: rat
  sc_latency :: rat
  sc_operational_risk :: rat
  sc_sovereignty :: rat
  sc_evidence :: rat

definition WEIGHTS :: score_terms where
  "WEIGHTS = \<lparr>sc_quality = 1, sc_cost = 8 / 10, sc_latency = 5 / 10, sc_operational_risk = 6 / 10,
     sc_sovereignty = 7 / 10, sc_evidence = 6 / 10\<rparr>"

definition MAX_REASONABLE_COST :: rat where
  "MAX_REASONABLE_COST = 5 / 100"

definition MAX_REASONABLE_LATENCY :: rat where
  "MAX_REASONABLE_LATENCY = 8000"

record scored_model =
  sm_model_id :: string
  sm_display_name :: string
  sm_provider :: string
  sm_status :: model_status
  sm_estimated_cost_usd :: rat
  sm_terms :: score_terms
  sm_weighted :: score_terms
  sm_total :: rat
  sm_pinned_by_policy :: "string option"

definition score_terms_of :: "registry_entry \<Rightarrow> rat \<Rightarrow> score_terms" where
  "score_terms_of m estCost =
    \<lparr>sc_quality = me_quality_score m,
     sc_cost = min 100 ((estCost / MAX_REASONABLE_COST) * 100),
     sc_latency = min 100 ((me_latency_avg_ms m / MAX_REASONABLE_LATENCY) * 100),
     sc_operational_risk = me_operational_risk m,
     sc_sovereignty = (of_nat (me_sovereignty_level m) / 3) * 100,
     sc_evidence = me_evidence_reliability m\<rparr>"

definition weighted_terms :: "score_terms \<Rightarrow> score_terms" where
  "weighted_terms t =
    \<lparr>sc_quality = to_fixed 2 (sc_quality WEIGHTS * sc_quality t),
     sc_cost = to_fixed 2 (- sc_cost WEIGHTS * sc_cost t),
     sc_latency = to_fixed 2 (- sc_latency WEIGHTS * sc_latency t),
     sc_operational_risk = to_fixed 2 (- sc_operational_risk WEIGHTS * sc_operational_risk t),
     sc_sovereignty = to_fixed 2 (sc_sovereignty WEIGHTS * sc_sovereignty t),
     sc_evidence = to_fixed 2 (sc_evidence WEIGHTS * sc_evidence t)\<rparr>"

definition sum_terms :: "score_terms \<Rightarrow> rat" where
  "sum_terms t = 0 + sc_quality t + sc_cost t + sc_latency t + sc_operational_risk t + sc_sovereignty t
     + sc_evidence t"

definition scoreModel :: "registry_entry \<Rightarrow> unified_request \<Rightarrow> scored_model" where
  "scoreModel m rq =
     (let estCost = estimateCost m rq;
          terms = score_terms_of m estCost;
          weighted = weighted_terms terms
      in \<lparr>sm_model_id = me_id m, sm_display_name = me_display_name m, sm_provider = me_provider m,
          sm_status = me_status m, sm_estimated_cost_usd = to_fixed 6 estCost,
          sm_terms = terms, sm_weighted = weighted, sm_total = to_fixed 2 (sum_terms weighted),
          sm_pinned_by_policy = None\<rparr>)"

text \<open>\<open>Array.sort\<close> is stable; the comparison puts higher totals first.\<close>

definition sort_scored :: "scored_model list \<Rightarrow> scored_model list" where
  "sort_scored xs = sort_key (\<lambda>s. - sm_total s) xs"

definition CORE_ID :: string where
  "CORE_ID = ''ronor/deterministic-core''"

definition pin_core :: "scored_model \<Rightarrow> scored_model" where
  "pin_core s = s\<lparr>sm_pinned_by_policy := Some ''P3_DETERMINISTIC_FIRST''\<rparr>"

text \<open>\<open>findIndex\<close>, then \<open>splice\<close> and \<open>unshift\<close>; at index 0 both are the identity.\<close>

fun pin_first :: "scored_model list \<Rightarrow> scored_model list \<Rightarrow> scored_model list" where
  "pin_first before [] = rev before"
| "pin_first before (s # ss) =
     (if sm_model_id s = CORE_ID then pin_core s # rev before @ ss else pin_first (s # before) ss)"

definition rankModels :: "registry_entry list \<Rightarrow> unified_request \<Rightarrow> bool \<Rightarrow> scored_model list" where
  "rankModels eligible rq deterministicFirst =
     (let scored = sort_scored (map (\<lambda>m. scoreModel m rq) eligible)
      in if deterministicFirst then pin_first [] scored else scored)"

section \<open>The policy stage against its declaration\<close>

text \<open>What the rules ask of one engine, all together and in no order.\<close>

definition admissible :: "unified_request \<Rightarrow> registry_entry \<Rightarrow> bool" where
  "admissible rq m \<longleftrightarrow>
     me_status m \<noteq> Offline
     \<and> (ur_confidentiality rq = ''sovereign'' \<longrightarrow> 3 \<le> me_sovereignty_level m)
     \<and> capability_ok rq m
     \<and> (\<forall>ps. ur_allowed_providers rq = Some (map JStr ps) \<and> ps \<noteq> [] \<longrightarrow> provider_ok (map toLowerCase ps) m)
     \<and> (\<forall>l. ur_max_latency rq = Some (Num l) \<and> 0 < l \<longrightarrow> me_latency_avg_ms m \<le> l)
     \<and> (\<forall>c. ur_max_cost rq = Some (Num c) \<and> 0 < c \<longrightarrow> estimateCost m rq \<le> c)
     \<and> (\<forall>e. ur_required_evidence rq = Some (Num e) \<and> 0 < e \<longrightarrow> e \<le> me_evidence_reliability m)
     \<and> (ur_jurisdiction_pin rq = JStr ''EU'' \<longrightarrow> eu_ok m)
     \<and> (ur_jurisdiction_pin rq = JStr ''sovereign'' \<longrightarrow> ''sovereign'' \<in> set (me_jurisdictions m))"

lemma lower_all_Some: "lower_all js = Some qs \<longleftrightarrow> (\<exists>ps. js = map JStr ps \<and> qs = map toLowerCase ps)"
proof (induction js arbitrary: qs)
  case (Cons j js)
  show ?case
  proof (cases j)
    case (JStr p)
    with Cons show ?thesis by (auto simp: Cons_eq_map_conv)
  qed auto
qed auto

lemma positive_limit_iff: "positive_limit x \<longleftrightarrow> (\<exists>v. x = Some (Num v) \<and> 0 < v)"
  by (cases x; cases "the x") (auto simp: positive_limit_def js_int_def)

lemma fst_apply_rule [simp]: "fst (apply_rule r k fs) = filter k (fst fs)"
  by (simp add: apply_rule_def Let_def)

lemma map_JStr_eq [simp]: "map JStr ps = map JStr qs \<longleftrightarrow> ps = qs"
  by (rule inj_map_eq_map) (auto intro: injI)

lemma fst_rule_P1: "fst (rule_P1 rq fs) =
    filter (\<lambda>m. ur_confidentiality rq = ''sovereign'' \<longrightarrow> 3 \<le> me_sovereignty_level m) (fst fs)"
  by (simp add: rule_P1_def)

lemma fst_rule_P3: "fst (rule_P3 rq fs) = fst fs"
  by (simp add: rule_P3_def)

lemma fst_rule_P4: "rule_P4 rq fs = Inr fs' \<Longrightarrow> fst fs' =
    filter (\<lambda>m. \<forall>ps. ur_allowed_providers rq = Some (map JStr ps) \<and> ps \<noteq> [] \<longrightarrow> provider_ok (map toLowerCase ps) m) (fst fs)"
  by (auto simp: rule_P4_def lower_all_Some intro!: filter_cong split: option.splits if_splits)

lemma fst_rule_P5: "fst (rule_P5 rq fs) =
    filter (\<lambda>m. \<forall>l. ur_max_latency rq = Some (Num l) \<and> 0 < l \<longrightarrow> me_latency_avg_ms m \<le> l) (fst fs)"
  by (auto simp: rule_P5_def positive_limit_iff intro!: filter_cong filter_True[symmetric])

lemma fst_rule_P6: "fst (rule_P6 rq fs) =
    filter (\<lambda>m. \<forall>c. ur_max_cost rq = Some (Num c) \<and> 0 < c \<longrightarrow> estimateCost m rq \<le> c) (fst fs)"
  by (auto simp: rule_P6_def positive_limit_iff intro!: filter_cong filter_True[symmetric])

lemma fst_rule_P7: "fst (rule_P7 rq fs) =
    filter (\<lambda>m. \<forall>e. ur_required_evidence rq = Some (Num e) \<and> 0 < e \<longrightarrow> e \<le> me_evidence_reliability m) (fst fs)"
  by (auto simp: rule_P7_def positive_limit_iff intro!: filter_cong filter_True[symmetric])

lemma fst_rule_P8: "fst (rule_P8 rq fs) =
    filter (\<lambda>m. (ur_jurisdiction_pin rq = JStr ''EU'' \<longrightarrow> eu_ok m)
      \<and> (ur_jurisdiction_pin rq = JStr ''sovereign'' \<longrightarrow> ''sovereign'' \<in> set (me_jurisdictions m))) (fst fs)"
  by (auto simp: rule_P8_def intro!: filter_cong)

lemmas rule_survivors = fst_rule_P1 fst_rule_P3 fst_rule_P5 fst_rule_P6 fst_rule_P7 fst_rule_P8

lemma applyPolicies_eligible:
  assumes "applyPolicies rq registry = Inr r"
  shows "pr_eligible r = filter (admissible rq) registry"
proof -
  let ?fs3 = "rule_P3 rq (rule_P2 rq (rule_P1 rq (filter (\<lambda>m. me_status m \<noteq> Offline) registry, [])))"
  obtain fs4 where p4: "rule_P4 rq ?fs3 = Inr fs4"
    and r: "pr_eligible r = fst (rule_P8 rq (rule_P7 rq (rule_P6 rq (rule_P5 rq fs4))))"
    using assms by (auto simp: applyPolicies_def Let_def split: sum.splits prod.splits)
  show ?thesis
    unfolding r
    by (simp add: rule_survivors fst_rule_P4[OF p4] rule_P2_def)
      (rule filter_cong, simp, auto simp: admissible_def)
qed

lemma applyPolicies_throws:
  "(\<exists>e. applyPolicies rq registry = Inl e) \<longleftrightarrow>
     (\<exists>js. ur_allowed_providers rq = Some js \<and> js \<noteq> [] \<and> lower_all js = None)"
  by (auto simp: applyPolicies_def rule_P4_def Let_def split: option.splits sum.splits prod.splits if_splits)

text \<open>Every engine that was not offline is still a candidate or listed by a rule that excluded it.\<close>

definition accounted :: "registry_entry list \<Rightarrow> filter_state \<Rightarrow> bool" where
  "accounted ms fs \<longleftrightarrow> set (fst fs) \<subseteq> set ms
     \<and> (\<forall>m\<in>set ms. m \<in> set (fst fs) \<or> (\<exists>v\<in>set (snd fs). me_id m \<in> set (pv_excluded v)))"

lemma accounted_apply_rule:
  assumes "distinct (map me_id ms)" "accounted ms fs"
  shows "accounted ms (apply_rule rule keep fs)"
proof -
  have same: "m = n" if "m \<in> set ms" "n \<in> set (fst fs)" "me_id n = me_id m" for m n
    using that assms by (metis accounted_def distinct_map inj_on_eq_iff subsetD)
  show ?thesis
    using assms(2) same
    by (fastforce simp: accounted_def apply_rule_def Let_def list_ex_iff)
qed

lemma accounted_rules:
  assumes "distinct (map me_id ms)" "accounted ms fs"
  shows "accounted ms (rule_P1 rq fs)" "accounted ms (rule_P2 rq fs)" "accounted ms (rule_P3 rq fs)"
    "accounted ms (rule_P5 rq fs)" "accounted ms (rule_P6 rq fs)" "accounted ms (rule_P7 rq fs)"
    "accounted ms (rule_P8 rq fs)" "rule_P4 rq fs = Inr fs' \<Longrightarrow> accounted ms fs'"
  using assms accounted_apply_rule[OF assms]
  by (auto simp: rule_P1_def rule_P2_def rule_P3_def rule_P4_def rule_P5_def rule_P6_def rule_P7_def
      rule_P8_def split: option.splits if_splits) (simp_all add: accounted_def)

lemma applyPolicies_accounted:
  assumes "applyPolicies rq registry = Inr r" "distinct (map me_id registry)"
  shows "accounted (filter (\<lambda>m. me_status m \<noteq> Offline) registry) (pr_eligible r, pr_evaluations r)"
proof -
  let ?ms = "filter (\<lambda>m. me_status m \<noteq> Offline) registry"
  have d: "distinct (map me_id ?ms)" using assms(2) by (simp add: distinct_map_filter)
  obtain fs4 where p4: "rule_P4 rq (rule_P3 rq (rule_P2 rq (rule_P1 rq (?ms, [])))) = Inr fs4"
    and r: "(pr_eligible r, pr_evaluations r) = rule_P8 rq (rule_P7 rq (rule_P6 rq (rule_P5 rq fs4)))"
    using assms(1) by (auto simp: applyPolicies_def Let_def split: sum.splits prod.splits)
  have "accounted ?ms (?ms, [])" by (simp add: accounted_def)
  then have "accounted ?ms (rule_P3 rq (rule_P2 rq (rule_P1 rq (?ms, []))))"
    by (intro accounted_rules(1-3) d)
  then have "accounted ?ms fs4" by (rule accounted_rules(8)[OF d _ p4])
  then show ?thesis unfolding r by (intro accounted_rules(4-7) d)
qed

section \<open>Ranking\<close>


lemma sm_model_id_pin_core [simp]: "sm_model_id (pin_core s) = sm_model_id s" "sm_total (pin_core s) = sm_total s"
  by (simp_all add: pin_core_def)

lemma sm_model_id_scoreModel [simp]: "sm_model_id (scoreModel m rq) = me_id m"
  by (simp add: scoreModel_def Let_def)

lemma pin_first_ids: "mset (map sm_model_id (pin_first before ss)) = mset (map sm_model_id before) + mset (map sm_model_id ss)"
  by (induction before ss rule: pin_first.induct) auto

lemma mset_map_sort_scored [simp]: "mset (map f (sort_scored xs)) = mset (map f xs)"
  by (simp add: sort_scored_def)

lemma rankModels_ids: "mset (map sm_model_id (rankModels ms rq d)) = mset (map me_id ms)"
  by (simp add: rankModels_def Let_def pin_first_ids mset_map_sort_scored del: mset_map) (simp add: o_def)

lemma rankModels_set: "set (map sm_model_id (rankModels ms rq d)) = me_id ` set ms"
  using rankModels_ids[of ms rq d] by (metis list.set_map set_mset_mset)

lemma pin_first_sorted:
  "sorted_wrt (\<lambda>a b. sm_total b \<le> sm_total a) (rev before @ ss) \<Longrightarrow>
     sorted_wrt (\<lambda>a b. sm_total b \<le> sm_total a) (filter (\<lambda>s. sm_model_id s \<noteq> CORE_ID) (pin_first before ss))"
  by (induction before ss rule: pin_first.induct) (auto simp: sorted_wrt_append intro: sorted_wrt_filter)

lemma sort_scored_sorted: "sorted_wrt (\<lambda>a b. sm_total b \<le> sm_total a) (sort_scored xs)"
proof -
  have "sorted (map (\<lambda>s. - sm_total s) (sort_scored xs))" by (simp add: sort_scored_def)
  then show ?thesis by (simp add: sorted_wrt_map)
qed

lemma pin_first_head:
  "CORE_ID \<in> sm_model_id ` set ss \<Longrightarrow> \<exists>c rest. pin_first before ss = c # rest \<and> sm_model_id c = CORE_ID
     \<and> sm_pinned_by_policy c = Some ''P3_DETERMINISTIC_FIRST''"
  by (induction before ss rule: pin_first.induct) (auto simp: pin_core_def)

end
