(* ===== verification/ExchangeEngines.thy ===== *)
theory ExchangeEngines imports ExchangePolicy begin

text \<open>
  The engine adapters, \<open>src/src/model-exchange/engines.ts\<close>.  What they ask of the outside is the
  record \<open>engine_env\<close>: the environment variables, \<open>fetch\<close> with the reading of the reply's body,
  \<open>JSON.parse\<close> of a model's content with the \<open>String\<close> and \<open>Number\<close> coercions of its members, the
  evaluation of an arithmetic expression, and the time an adapter takes.  An error message is the
  constructor of \<open>engine_error\<close> with the values it interpolates.  The system prompt and the headers
  of a call, which are constants, are left out of \<open>api_call\<close>.
\<close>

section \<open>Types\<close>

record engine_source =
  es_title :: string
  es_type :: string

datatype engine_error =
    KeyNotConfigured
  | ApiStatus string int string
  | NonJsonContent string
  | NetworkError string string
  | NoExpression

record execution_result =
  er_ok :: bool
  er_answer :: "string option"
  er_confidence :: "int option"
  er_sources :: "engine_source list option"
  er_input_tokens :: "int option"
  er_output_tokens :: "int option"
  er_latency_ms :: "int option"
  er_simulated :: bool
  er_error :: "engine_error option"

record api_call =
  ac_url :: string
  ac_key :: string
  ac_model :: string
  ac_max_tokens :: nat
  ac_query :: string

text \<open>
  A reply: \<open>fetch\<close> throws, a status outside 200-299 with its text, a body \<open>res.json()\<close> throws on,
  or a body with the content and the token counts its optional chains reach.
\<close>

datatype http_reply =
    FetchThrows string
  | ApiError int string
  | BodyThrows string
  | ApiBody "string option" "int option" "int option"

text \<open>
  One entry of a reply's \<open>sources\<close>: \<open>None\<close> when it is no object with a truthy \<open>title\<close>, else the
  title and the type as \<open>String\<close> prints them.
\<close>

type_synonym source_view = "(string \<times> string option) option"

record reply_view =
  rv_answer :: "string option"
  rv_confidence :: jsnum
  rv_sources :: "source_view list option"

text \<open>The parsed content: a syntax error, the value \<open>null\<close>, whose members throw, or a value.\<close>

datatype parsed_reply = SyntaxError string | NullReply string | Reply reply_view

record engine_env =
  en_OPENAI_API_KEY :: "string option"
  en_OPENAI_API_BASE :: "string option"
  en_RONOR_OPENAI_MODEL :: "string option"
  en_ANTHROPIC_API_KEY :: "string option"
  en_fetch :: "api_call \<Rightarrow> http_reply"
  en_parse :: "string \<Rightarrow> parsed_reply"
  en_eval :: "string \<Rightarrow> string option"
  en_elapsed :: "registry_entry \<Rightarrow> int"

section \<open>Helpers\<close>

definition clampInt :: "jsnum \<Rightarrow> int \<Rightarrow> int \<Rightarrow> int" where
  "clampInt v lo hi = (case v of Num x \<Rightarrow> max lo (min hi (math_round x)) | _ \<Rightarrow> lo)"

definition normalizeSources :: "source_view list option \<Rightarrow> engine_source list" where
  "normalizeSources v =
     (case v of
        None \<Rightarrow> []
      | Some ss \<Rightarrow> map (\<lambda>s. \<lparr>es_title = fst (the s), es_type = nullish (snd (the s)) ''Report''\<rparr>)
                     (take 4 (filter (\<lambda>s. s \<noteq> None) ss)))"

definition or_default :: "string option \<Rightarrow> string \<Rightarrow> string" where
  "or_default s d = (if truthy_str s then the s else d)"

definition em_dash :: string where
  "em_dash = [CHR 0xE2, CHR 0x80, CHR 0x94]"

section \<open>Adapters\<close>

definition engine_failed :: "engine_error \<Rightarrow> int option \<Rightarrow> execution_result" where
  "engine_failed e t =
     \<lparr>er_ok = False, er_answer = None, er_confidence = None, er_sources = None,
      er_input_tokens = None, er_output_tokens = None, er_latency_ms = t, er_simulated = False,
      er_error = Some e\<rparr>"

definition engine_answered ::
  "reply_view \<Rightarrow> int option \<Rightarrow> int option \<Rightarrow> int \<Rightarrow> execution_result" where
  "engine_answered v tin tout t =
     \<lparr>er_ok = True, er_answer = Some (nullish (rv_answer v) ''''),
      er_confidence = Some (clampInt (rv_confidence v) 0 100),
      er_sources = Some (normalizeSources (rv_sources v)),
      er_input_tokens = Some (nullish tin 0), er_output_tokens = Some (nullish tout 0),
      er_latency_ms = Some t, er_simulated = False, er_error = None\<rparr>"

definition executeOpenAI :: "engine_env \<Rightarrow> registry_entry \<Rightarrow> unified_request \<Rightarrow> execution_result" where
  "executeOpenAI en m rq =
     (if \<not> truthy_str (en_OPENAI_API_KEY en) then engine_failed KeyNotConfigured None
      else
        let t = en_elapsed en m;
            call = \<lparr>ac_url = or_default (en_OPENAI_API_BASE en) ''https://api.openai.com/v1'' @ ''/chat/completions'',
                    ac_key = the (en_OPENAI_API_KEY en),
                    ac_model = or_default (en_RONOR_OPENAI_MODEL en) ''gpt-4.1'',
                    ac_max_tokens = 4000, ac_query = ur_query rq\<rparr>
        in case en_fetch en call of
             FetchThrows msg \<Rightarrow> engine_failed (NetworkError ''OpenAI'' msg) (Some t)
           | ApiError st txt \<Rightarrow> engine_failed (ApiStatus ''OpenAI'' st (take 200 txt)) (Some t)
           | BodyThrows msg \<Rightarrow> engine_failed (NetworkError ''OpenAI'' msg) (Some t)
           | ApiBody content tin tout \<Rightarrow>
               (case en_parse en (nullish content '''') of
                  SyntaxError _ \<Rightarrow> engine_failed (NonJsonContent ''OpenAI'') (Some t)
                | NullReply msg \<Rightarrow> engine_failed (NetworkError ''OpenAI'' msg) (Some t)
                | Reply v \<Rightarrow> engine_answered v tin tout t))"

definition executeSimulatedProvider ::
  "engine_env \<Rightarrow> registry_entry \<Rightarrow> unified_request \<Rightarrow> string \<Rightarrow> execution_result" where
  "executeSimulatedProvider en m rq label =
    \<lparr>er_ok = True,
     er_answer = Some (''[SIMULATED '' @ em_dash @ '' '' @ label @ '' adapter not configured in this deployment] '' @
       ''RONOR routed this request to '' @ me_display_name m @ '' based on its eligibility score. '' @
       ''In production, this adapter executes a real '' @ label @ '' API call with the same '' @
       ''unified request contract, and the response flows through identical verification, '' @
       ''trace and cost accounting as every other engine.''),
     er_confidence = Some 50,
     er_sources = Some [\<lparr>es_title = ''RONOR Engine Adapter Contract'', es_type = ''Standard''\<rparr>,
       \<lparr>es_title = label @ '' API Reference'', es_type = ''Report''\<rparr>],
     er_input_tokens = Some (math_ceil (of_nat (length (ur_query rq)) / 4) + 90),
     er_output_tokens = Some 220, er_latency_ms = Some (en_elapsed en m), er_simulated = True,
     er_error = None\<rparr>"

text \<open>The match of \<open>/\{[\s\S]*\}/\<close>: from the first opening brace to the last closing one.\<close>

definition brace_span :: "string \<Rightarrow> string option" where
  "brace_span s =
     (let tl = dropWhile (\<lambda>c. c \<noteq> CHR ''{'') s; sp = rev (dropWhile (\<lambda>c. c \<noteq> CHR ''}'') (rev tl))
      in if sp = [] then None else Some sp)"

definition executeAnthropic :: "engine_env \<Rightarrow> registry_entry \<Rightarrow> unified_request \<Rightarrow> execution_result" where
  "executeAnthropic en m rq =
     (if \<not> truthy_str (en_ANTHROPIC_API_KEY en) then executeSimulatedProvider en m rq ''Anthropic''
      else
        let t = en_elapsed en m;
            call = \<lparr>ac_url = ''https://api.anthropic.com/v1/messages'',
                    ac_key = the (en_ANTHROPIC_API_KEY en), ac_model = ''claude-sonnet-4-20250514'',
                    ac_max_tokens = 1500, ac_query = ur_query rq\<rparr>;
            network = (\<lambda>msg. engine_failed (NetworkError ''Anthropic'' msg) (Some t))
        in case en_fetch en call of
             FetchThrows msg \<Rightarrow> network msg
           | ApiError st txt \<Rightarrow> engine_failed (ApiStatus ''Anthropic'' st (take 200 txt)) (Some t)
           | BodyThrows msg \<Rightarrow> network msg
           | ApiBody content tin tout \<Rightarrow>
               (case en_parse en (nullish content '''') of
                  SyntaxError _ \<Rightarrow>
                    (case brace_span (nullish content '''') of
                       None \<Rightarrow> engine_failed (NonJsonContent ''Anthropic'') (Some t)
                     | Some sp \<Rightarrow>
                         (case en_parse en sp of
                            SyntaxError msg \<Rightarrow> network msg
                          | NullReply msg \<Rightarrow> network msg
                          | Reply v \<Rightarrow> engine_answered v tin tout t))
                | NullReply msg \<Rightarrow> network msg
                | Reply v \<Rightarrow> engine_answered v tin tout t))"

definition executeMistral :: "engine_env \<Rightarrow> registry_entry \<Rightarrow> unified_request \<Rightarrow> execution_result" where
  "executeMistral en m rq = executeSimulatedProvider en m rq ''Mistral''"

definition executeQwen :: "engine_env \<Rightarrow> registry_entry \<Rightarrow> unified_request \<Rightarrow> execution_result" where
  "executeQwen en m rq = executeSimulatedProvider en m rq ''Qwen''"

section \<open>The deterministic core\<close>

definition expr_char :: "char \<Rightarrow> bool" where
  "expr_char c \<longleftrightarrow> c \<in> set ''-+0123456789().*/%^ eE''"

text \<open>The matches of the global pattern: the maximal runs of expression characters.\<close>

fun runs :: "string \<Rightarrow> string \<Rightarrow> string list" where
  "runs cur [] = (if cur = [] then [] else [rev cur])"
| "runs cur (c # cs) =
     (if expr_char c then runs (c # cur) cs else if cur = [] then runs [] cs else rev cur # runs [] cs)"

definition trim_spaces :: "string \<Rightarrow> string" where
  "trim_spaces s = rev (dropWhile (\<lambda>c. c = CHR '' '') (rev (dropWhile (\<lambda>c. c = CHR '' '') s)))"

definition caret_to_stars :: "string \<Rightarrow> string" where
  "caret_to_stars s = concat (map (\<lambda>c. if c = CHR ''^'' then ''**'' else [c]) s)"

fun stars_to_caret :: "string \<Rightarrow> string" where
  "stars_to_caret [] = []"
| "stars_to_caret [c] = [c]"
| "stars_to_caret (c # d # cs) =
     (if c = CHR ''*'' \<and> d = CHR ''*'' then CHR ''^'' # stars_to_caret cs else c # stars_to_caret (d # cs))"

definition longest :: "string list \<Rightarrow> string" where
  "longest ss = hd (sort_key (\<lambda>s. - int (length s)) ss)"

text \<open>\<open>/^[-+0-9().*/%* eE]+$/\<close>.\<close>

definition evaluable :: "string \<Rightarrow> bool" where
  "evaluable e \<longleftrightarrow> e \<noteq> [] \<and> list_all (\<lambda>c. c \<noteq> CHR ''^'' \<and> expr_char c) e"

definition safeEvaluateExpression :: "(string \<Rightarrow> string option) \<Rightarrow> string \<Rightarrow> (string \<times> string) option" where
  "safeEvaluateExpression ev raw =
     (let ms = runs [] raw
      in if ms = [] then None
         else
           let expr = caret_to_stars (trim_spaces (longest ms))
           in if \<not> list_ex (\<lambda>c. c \<in> set ''0123456789'') expr then None
              else if \<not> evaluable expr then None
              else case ev expr of None \<Rightarrow> None | Some v \<Rightarrow> Some (stars_to_caret expr, v))"

definition executeDeterministic :: "engine_env \<Rightarrow> registry_entry \<Rightarrow> unified_request \<Rightarrow> execution_result" where
  "executeDeterministic en m rq =
     (case safeEvaluateExpression (en_eval en) (ur_query rq) of
        None \<Rightarrow> engine_failed NoExpression (Some (en_elapsed en m))
      | Some (expr, v) \<Rightarrow>
          \<lparr>er_ok = True,
           er_answer = Some (''Deterministic evaluation: '' @ expr @ '' = '' @ v @
             ''. Computed locally by RONOR Deterministic Core '' @ em_dash @
             '' exact, reproducible, zero marginal cost, no data left the sovereign boundary.''),
           er_confidence = Some 100,
           er_sources = Some [\<lparr>es_title = ''IEEE 754 double-precision arithmetic'', es_type = ''Standard''\<rparr>,
             \<lparr>es_title = ''RONOR Deterministic Core execution record'', es_type = ''Dataset''\<rparr>],
           er_input_tokens = Some 0, er_output_tokens = Some 0,
           er_latency_ms = Some (en_elapsed en m), er_simulated = False, er_error = None\<rparr>)"

definition executeEngine :: "engine_env \<Rightarrow> registry_entry \<Rightarrow> unified_request \<Rightarrow> execution_result" where
  "executeEngine en m rq =
     (case me_engine m of
        EOpenai \<Rightarrow> executeOpenAI en m rq
      | EAnthropic \<Rightarrow> executeAnthropic en m rq
      | EMistral \<Rightarrow> executeMistral en m rq
      | EQwen \<Rightarrow> executeQwen en m rq
      | EDeterministic \<Rightarrow> executeDeterministic en m rq)"

section \<open>The contract of the adapters\<close>

text \<open>What every result keeps: an answer comes complete, a failure with its error.\<close>

definition result_ok :: "execution_result \<Rightarrow> bool" where
  "result_ok x \<longleftrightarrow>
     (er_ok x \<longrightarrow> er_answer x \<noteq> None \<and> er_error x = None
        \<and> (\<exists>c. er_confidence x = Some c \<and> 0 \<le> c \<and> c \<le> 100)
        \<and> (\<exists>ss. er_sources x = Some ss \<and> length ss \<le> 4))
     \<and> (\<not> er_ok x \<longrightarrow> er_answer x = None \<and> er_error x \<noteq> None \<and> \<not> er_simulated x)"

lemma clampInt_bounds: "lo \<le> hi \<Longrightarrow> lo \<le> clampInt v lo hi \<and> clampInt v lo hi \<le> hi"
  by (cases v) (auto simp: clampInt_def)

lemma normalizeSources_le: "length (normalizeSources v) \<le> 4"
  by (cases v) (auto simp: normalizeSources_def)

lemma result_ok_failed [simp]: "result_ok (engine_failed e t)"
  by (simp add: result_ok_def engine_failed_def)

lemma result_ok_answered [simp]: "result_ok (engine_answered v i j t)"
  using clampInt_bounds[of 0 100] normalizeSources_le by (simp add: result_ok_def engine_answered_def)

lemma result_ok_simulated [simp]: "result_ok (executeSimulatedProvider en m rq l)"
  by (simp add: result_ok_def executeSimulatedProvider_def)

lemma executeOpenAI_ok: "result_ok (executeOpenAI en m rq)"
  by (auto simp: executeOpenAI_def Let_def split: http_reply.splits parsed_reply.splits)

lemma executeAnthropic_ok: "result_ok (executeAnthropic en m rq)"
  by (auto simp: executeAnthropic_def Let_def split: http_reply.splits parsed_reply.splits option.splits)

lemma executeDeterministic_ok: "result_ok (executeDeterministic en m rq)"
  by (simp add: executeDeterministic_def split: option.splits) (simp add: result_ok_def)

lemma executeEngine_ok: "result_ok (executeEngine en m rq)"
  by (simp add: executeEngine_def executeOpenAI_ok executeAnthropic_ok executeDeterministic_ok executeMistral_def
      executeQwen_def
      split: engine_type.split)

text \<open>Only the hosted engines leave the machine: the others give the same result under every \<open>fetch\<close>.\<close>

lemma local_engines_do_not_fetch:
  assumes "me_engine m \<notin> {EOpenai, EAnthropic}"
  shows "executeEngine (en\<lparr>en_fetch := f\<rparr>) m rq = executeEngine en m rq"
  using assms by (cases "me_engine m")
    (simp_all add: executeEngine_def executeMistral_def executeQwen_def executeSimulatedProvider_def executeDeterministic_def
      split: option.split)

text \<open>
  What the deterministic core hands to the evaluator: digits, operators, parentheses, the exponent
  letters and blanks (the texts \<open>evaluable\<close> accepts), nothing else, whatever the query.
\<close>

lemma safeEvaluateExpression_confined:
  assumes "\<And>e. evaluable e \<Longrightarrow> ev e = ev' e"
  shows "safeEvaluateExpression ev raw = safeEvaluateExpression ev' raw"
  using assms by (simp add: safeEvaluateExpression_def Let_def)

end
