(* ===== verification/WorkLedger.thy ===== *)
theory WorkLedger imports ExchangeEngines begin

text \<open>
  The work ledger, the cost ledger and the assurance step, \<open>src/src/model-exchange/work-ledger.ts\<close>.
  The table \<open>work_ledger\<close> is the list of its rows with the high-water mark of its key; \<open>None\<close> is a
  database in which \<open>ensureWorkLedgerSchema\<close> has not run.  The objects \<open>by_model\<close> and
  \<open>by_task_type\<close> are maps.
\<close>

section \<open>Rows\<close>

datatype work_status = WAttempted | WCompleted | WRejected | WEscalated

record work_entry =
  we_mission_id :: "string option"
  we_operator_id :: "string option"
  we_task_type :: string
  we_chosen_model_id :: string
  we_status :: work_status
  we_input_tokens :: int
  we_output_tokens :: int
  we_cost_usd :: rat
  we_latency_ms :: int
  we_simulated :: bool
  we_verified_confidence :: "int option"
  we_trace_hash :: "string option"

record work_row =
  wr_id :: int
  wr_entry :: work_entry
  wr_created_at :: string

record work_table =
  wt_rows :: "work_row list"
  wt_sqlite_sequence :: int

definition ensureWorkLedgerSchema :: "work_table option \<Rightarrow> work_table option" where
  "ensureWorkLedgerSchema t =
     (case t of None \<Rightarrow> Some \<lparr>wt_rows = [], wt_sqlite_sequence = 0\<rparr> | Some w \<Rightarrow> Some w)"

definition next_work_id :: "work_table \<Rightarrow> int" where
  "next_work_id w = fold max (map wr_id (wt_rows w)) (wt_sqlite_sequence w) + 1"

definition recordWork :: "string \<Rightarrow> work_entry \<Rightarrow> work_table option \<Rightarrow> string + (int \<times> work_table option)" where
  "recordWork now e t =
     (case t of
        None \<Rightarrow> Inl ''no such table: work_ledger''
      | Some w \<Rightarrow>
          let i = next_work_id w
          in Inr (i, Some \<lparr>wt_rows = wt_rows w @ [\<lparr>wr_id = i, wr_entry = e, wr_created_at = now\<rparr>],
                          wt_sqlite_sequence = i\<rparr>))"

definition computeCost :: "registry_entry \<Rightarrow> int \<Rightarrow> int \<Rightarrow> rat" where
  "computeCost m inputTokens outputTokens =
     (let cost = (of_int inputTokens / 1000) * me_cost_in m + (of_int outputTokens / 1000) * me_cost_out m
      in to_fixed 6 cost)"

section \<open>Cost ledger\<close>

record model_costs =
  mc_requests :: nat
  mc_input_tokens :: int
  mc_output_tokens :: int
  mc_cost_usd :: rat

record task_costs =
  tc_requests :: nat
  tc_cost_usd :: rat

record cost_summary =
  cs_total_requests :: nat
  cs_total_cost_usd :: rat
  cs_by_model :: "string \<rightharpoonup> model_costs"
  cs_by_task_type :: "string \<rightharpoonup> task_costs"

definition costs_of_model :: "work_entry list \<Rightarrow> string \<Rightarrow> model_costs" where
  "costs_of_model es k =
     (let g = filter (\<lambda>e. we_chosen_model_id e = k) es
      in \<lparr>mc_requests = length g, mc_input_tokens = sum_list (map we_input_tokens g),
          mc_output_tokens = sum_list (map we_output_tokens g),
          mc_cost_usd = to_fixed 6 (sum_list (map we_cost_usd g))\<rparr>)"

definition costs_of_task :: "work_entry list \<Rightarrow> string \<Rightarrow> task_costs" where
  "costs_of_task es k =
     (let g = filter (\<lambda>e. we_task_type e = k) es
      in \<lparr>tc_requests = length g, tc_cost_usd = to_fixed 6 (sum_list (map we_cost_usd g))\<rparr>)"

definition getCostLedger :: "work_table option \<Rightarrow> string + cost_summary" where
  "getCostLedger t =
     (case t of
        None \<Rightarrow> Inl ''no such table: work_ledger''
      | Some w \<Rightarrow>
          let es = map wr_entry (wt_rows w)
          in Inr \<lparr>cs_total_requests = length es,
                  cs_total_cost_usd = to_fixed 6 (sum_list (map we_cost_usd es)),
                  cs_by_model = (\<lambda>k. if k \<in> set (map we_chosen_model_id es) then Some (costs_of_model es k) else None),
                  cs_by_task_type = (\<lambda>k. if k \<in> set (map we_task_type es) then Some (costs_of_task es k) else None)\<rparr>)"

section \<open>Assurance\<close>

datatype check_text =
    SelfReported int
  | SourcesAttached nat
  | NoSourcesAttached
  | CharCount nat
  | BitExact
  | Probabilistic
  | SimulatedFlagged
  | LiveExecution

record assurance_check =
  ck_check :: string
  ck_result :: check_text
  ck_passed :: bool

record assurance_report =
  ax_verified_confidence :: int
  ax_evidence_reliability :: rat
  ax_checks :: "assurance_check list"
  ax_sources :: "engine_source list"

definition adjusted_confidence :: "execution_result \<Rightarrow> bool \<Rightarrow> bool \<Rightarrow> bool \<Rightarrow> int \<Rightarrow> int" where
  "adjusted_confidence x hasSources substantive deterministic baseConfidence =
     (let v1 = baseConfidence;
          v2 = (if \<not> hasSources then v1 - 15 else v1);
          v3 = (if \<not> substantive then v2 - 20 else v2);
          v4 = (if deterministic then 100 else v3)
      in if er_simulated x then min v4 50 else v4)"

definition assure :: "registry_entry \<Rightarrow> execution_result \<Rightarrow> assurance_report" where
  "assure m x =
     (let baseConfidence = nullish (er_confidence x) 0;
          nsources = length (nullish (er_sources x) []);
          hasSources = (0 < nsources);
          chars = length (nullish (er_answer x) []);
          substantive = (40 \<le> chars);
          deterministic = (me_engine m = EDeterministic);
          adjusted = adjusted_confidence x hasSources substantive deterministic baseConfidence;
          verified = max 0 (min 100 (math_round (of_int adjusted)))
      in \<lparr>ax_verified_confidence = verified,
          ax_evidence_reliability = me_evidence_reliability m,
          ax_checks =
            [\<lparr>ck_check = ''A1_SELF_REPORTED_CONFIDENCE'', ck_result = SelfReported baseConfidence,
              ck_passed = (30 \<le> baseConfidence)\<rparr>,
             \<lparr>ck_check = ''A2_SOURCE_ATTRIBUTION'',
              ck_result = (if hasSources then SourcesAttached nsources else NoSourcesAttached),
              ck_passed = hasSources\<rparr>,
             \<lparr>ck_check = ''A3_SUBSTANTIVE_ANSWER'', ck_result = CharCount chars, ck_passed = substantive\<rparr>,
             \<lparr>ck_check = ''A4_REPRODUCIBILITY'', ck_result = (if deterministic then BitExact else Probabilistic),
              ck_passed = deterministic\<rparr>,
             \<lparr>ck_check = ''A5_SIMULATION_DISCLOSURE'',
              ck_result = (if er_simulated x then SimulatedFlagged else LiveExecution), ck_passed = True\<rparr>],
          ax_sources = nullish (er_sources x) []\<rparr>)"

section \<open>What the ledgers and the assurance step keep\<close>

text \<open>The key of a new row is above every other.\<close>

definition work_wf :: "work_table \<Rightarrow> bool" where
  "work_wf w \<longleftrightarrow> sorted_wrt (<) (map wr_id (wt_rows w))
     \<and> (\<forall>r\<in>set (wt_rows w). wr_id r \<le> wt_sqlite_sequence w)"

lemma next_work_id_greater: "r \<in> set (wt_rows w) \<Longrightarrow> wr_id r < next_work_id w"
  using fold_max_upper[of "wr_id r" "map wr_id (wt_rows w)"] by (simp add: next_work_id_def zless_add1_eq)

lemma recordWork_InrD:
  assumes "recordWork now e t = Inr (i, t')"
  shows "\<exists>w w'. t = Some w \<and> t' = Some w' \<and> map wr_entry (wt_rows w') = map wr_entry (wt_rows w) @ [e]
    \<and> (work_wf w \<longrightarrow> work_wf w')"
  using assms
  by (auto simp: recordWork_def Let_def work_wf_def sorted_wrt_append next_work_id_greater
      dest: next_work_id_greater[THEN less_imp_le] split: option.splits)

lemma assure_bounds:
  "0 \<le> ax_verified_confidence (assure m x) \<and> ax_verified_confidence (assure m x) \<le> 100"
  "er_simulated x \<Longrightarrow> ax_verified_confidence (assure m x) \<le> 50"
  by (simp_all add: assure_def Let_def max_def min_def) (simp add: adjusted_confidence_def Let_def)

text \<open>Counting and adding up group by group gives the whole.\<close>

lemma sum_list_groups:
  fixes f :: "'a \<Rightarrow> 'b :: comm_monoid_add"
  assumes "finite K" "set (map key xs) \<subseteq> K"
  shows "(\<Sum>k\<in>K. sum_list (map f (filter (\<lambda>x. key x = k) xs))) = sum_list (map f xs)"
  using assms
proof (induction xs)
  case (Cons x xs)
  have "(\<Sum>k\<in>K. sum_list (map f (filter (\<lambda>y. key y = k) (x # xs))))
      = (\<Sum>k\<in>K. (if key x = k then f x else 0) + sum_list (map f (filter (\<lambda>y. key y = k) xs)))"
    by (rule sum.cong) auto
  also have "\<dots> = f x + sum_list (map f xs)"
    using Cons by (simp add: sum.distrib sum.delta)
  finally show ?case by simp
qed simp

lemma length_groups:
  assumes "finite K" "set (map key xs) \<subseteq> K"
  shows "(\<Sum>k\<in>K. length (filter (\<lambda>x. key x = k) xs)) = length xs"
  using sum_list_groups[OF assms, of "\<lambda>_. 1 :: nat"] by (simp add: sum_list_replicate map_replicate_const)

end
