(* ===== verification/ModelExchange.thy ===== *)
theory ModelExchange imports WorkLedger AuditChain Mi9Shipped PlanesRuntime begin

text \<open>
  The unified query, \<open>src/src/model-exchange/orchestrator.ts\<close>: policy, router, MI9 gate, engine with
  fallback, assurance, audit record, work row; and its HTTP route,
  \<open>src/src/api/model-exchange-router.ts\<close>.  The state is what the stages share: the gate's window, the
  audit table, the work ledger, and the engines called so far, in order, which stands for the
  requests that have left.  A throw leaves the state as the statements before it left it.
\<close>

section \<open>State and results\<close>

record exchange_state =
  xs_mi9 :: mi9_state
  xs_audit :: audit_db
  xs_work :: "work_table option"
  xs_calls :: "string list"

datatype exchange_rationale =
    GateBlocked string rat
  | ExecutedVia string "rat option" engine_type

text \<open>The audit payload of a query; the metadata are the members the two callers fill in.\<close>

record exchange_entry =
  xa_decisionId :: string
  xa_decisionType :: string
  xa_timestamp :: string
  xa_context :: decision_context
  xa_mi9Result :: mi9_result
  xa_model :: string
  xa_rationale :: exchange_rationale
  xa_tokensUsed :: "int option"
  xa_latencyMs :: "int option"
  xa_outcome :: outcome_action
  xa_routing_head :: "(string \<times> rat) list"
  xa_block_reason :: "gate_reason option"
  xa_executed :: "(rat \<times> int \<times> bool) option"

text \<open>\<open>xe_clock k\<close> is the k-th reading of the clock; \<open>xe_lay\<close> how the payload lies in memory.\<close>

record exchange_env =
  xe_policy :: policy_env
  xe_hash :: "string \<Rightarrow> string"
  xe_engines :: engine_env
  xe_lay :: "exchange_entry \<Rightarrow> jref"
  xe_request_id :: string
  xe_uuid :: string
  xe_clock :: "nat \<Rightarrow> int"
  xe_nowIso :: string
  xe_nowSql :: string

record query_options =
  qo_dryRun :: bool
  qo_mi9Context :: "decision_context \<Rightarrow> decision_context"

definition no_options :: query_options where
  "no_options = \<lparr>qo_dryRun = False, qo_mi9Context = id\<rparr>"

datatype query_status = QCompleted | QRejectedPolicy | QRejectedGovernance | QEscalated | QFailed

datatype rejection =
    PolicyRejection "string option"
  | NoRankedCandidate
  | NotInRegistry string
  | GateRejection "gate_reason option"
  | AllEnginesFailed "engine_error option"

record query_result =
  qr_request_id :: string
  qr_eligible_models :: "string list"
  qr_policy_evaluations :: "policy_evaluation list"
  qr_routing_table :: "scored_model list"
  qr_chosen_model_id :: "string option"
  qr_rejected :: bool
  qr_rejection_reason :: "rejection option"
  qr_mi9 :: "mi9_result option"
  qr_execution :: "execution_result option"
  qr_assurance :: "assurance_report option"
  qr_audit_record :: "audit_payload audit_record option"
  qr_cost_usd :: rat
  qr_latency_ms :: int
  qr_status :: query_status

section \<open>Decision context\<close>

definition data_residency :: "unified_request \<Rightarrow> registry_entry \<Rightarrow> string" where
  "data_residency rq m =
     (let isSovereign = (ur_confidentiality rq = ''sovereign''); jur = set (me_jurisdictions m)
      in if isSovereign then ''eu''
         else if ''EU'' \<in> jur \<or> ''UK'' \<in> jur \<or> ''RO'' \<in> jur \<or> ''FR'' \<in> jur then ''eu''
         else if ''sovereign'' \<in> jur \<or> ''self-hosted'' \<in> jur then ''eu''
         else if ''US'' \<in> jur then ''us'' else ''eu'')"

definition exchange_domain :: "unified_request \<Rightarrow> string" where
  "exchange_domain rq = ''model-exchange.'' @ ur_task_type rq"

definition buildDecisionContext ::
  "unified_request \<Rightarrow> registry_entry \<Rightarrow> scored_model \<Rightarrow> string
     \<Rightarrow> (decision_context \<Rightarrow> decision_context) \<Rightarrow> decision_context" where
  "buildDecisionContext rq m scored request_id overrides =
     overrides
      \<lparr>dc_decisionId = request_id,
       dc_domain = exchange_domain rq,
       dc_action = ''Route '' @ ur_task_type rq @ '' query to '' @ me_display_name m,
       dc_proposedBy = me_id m,
       dc_confidence = Num (max 0 (min 1 (sm_total scored / 200 + 1 / 2))),
       dc_reversible = True,
       dc_impactMagnitude = \<lparr>im_unit = ''EUR'', im_value = Num (sm_estimated_cost_usd scored)\<rparr>,
       dc_sovereignty = \<lparr>sv_dataResidency = data_residency rq m, sv_subjectJurisdiction = ''RO''\<rparr>,
       dc_evidence = \<lparr>ev_sourceCount = Num 1, ev_lastRefreshMs = Num 0, ev_consensusReached = False\<rparr>,
       dc_operator = \<lparr>op_userId = ur_operator_id rq, op_role = ''operator''\<rparr>,
       dc_taskClass = None, dc_priorApproval = None, dc_fallbackAvailable = False\<rparr>"

section \<open>Recording\<close>

definition exchange_payload :: "exchange_env \<Rightarrow> exchange_entry \<Rightarrow> audit_payload" where
  "exchange_payload env e =
     \<lparr>ap_decisionId = xa_decisionId e, ap_decisionType = xa_decisionType e,
      ap_timestamp = xa_timestamp e, ap_object = xe_lay env e\<rparr>"

definition routing_head :: "scored_model list \<Rightarrow> (string \<times> rat) list" where
  "routing_head rs = map (\<lambda>r. (sm_model_id r, sm_total r)) (take 3 rs)"

text \<open>\<open>appendAudit\<close>, then \<open>recordWork\<close> with the record's chain hash.\<close>

definition record_both ::
  "exchange_env \<Rightarrow> exchange_entry \<Rightarrow> work_entry \<Rightarrow> exchange_state
     \<Rightarrow> (string + audit_payload audit_record) \<times> exchange_state" where
  "record_both env e w s =
     (case audit_append (xe_hash env) (xe_uuid env) (xe_nowIso env) (exchange_payload env e) (xs_audit s) of
        Inl err \<Rightarrow> (Inl err, s)
      | Inr (r, db) \<Rightarrow>
          let s1 = s\<lparr>xs_audit := db\<rparr>
          in case recordWork (xe_nowSql env) (w\<lparr>we_trace_hash := Some (rec_chainHash r)\<rparr>) (xs_work s1) of
               Inl err \<Rightarrow> (Inl err, s1)
             | Inr (_, t) \<Rightarrow> (Inr r, s1\<lparr>xs_work := t\<rparr>))"

definition rejected_work :: "unified_request \<Rightarrow> registry_entry \<Rightarrow> work_entry" where
  "rejected_work rq m =
     \<lparr>we_mission_id = ur_mission_id rq, we_operator_id = ur_operator_id rq,
      we_task_type = ur_task_type rq, we_chosen_model_id = me_id m, we_status = WRejected,
      we_input_tokens = 0, we_output_tokens = 0, we_cost_usd = 0, we_latency_ms = 0,
      we_simulated = False, we_verified_confidence = None, we_trace_hash = None\<rparr>"

definition executed_work ::
  "unified_request \<Rightarrow> registry_entry \<Rightarrow> execution_result \<Rightarrow> bool \<Rightarrow> rat \<Rightarrow> int \<Rightarrow> work_entry" where
  "executed_work rq m x esc cost verified =
     \<lparr>we_mission_id = ur_mission_id rq, we_operator_id = ur_operator_id rq,
      we_task_type = ur_task_type rq, we_chosen_model_id = me_id m,
      we_status = (if esc then WEscalated else WCompleted),
      we_input_tokens = nullish (er_input_tokens x) 0, we_output_tokens = nullish (er_output_tokens x) 0,
      we_cost_usd = cost, we_latency_ms = nullish (er_latency_ms x) 0, we_simulated = er_simulated x,
      we_verified_confidence = Some verified, we_trace_hash = None\<rparr>"

definition elapsed :: "exchange_env \<Rightarrow> int" where
  "elapsed env = xe_clock env 2 - xe_clock env 0"

definition executed_entry ::
  "exchange_env \<Rightarrow> unified_request \<Rightarrow> scored_model list \<Rightarrow> registry_entry \<Rightarrow> execution_result
     \<Rightarrow> mi9_result \<Rightarrow> decision_context \<Rightarrow> rat \<Rightarrow> int \<Rightarrow> exchange_entry" where
  "executed_entry env rq routing m x mi9 ctx cost verified =
    \<lparr>xa_decisionId = xe_request_id env, xa_decisionType = exchange_domain rq,
     xa_timestamp = xe_nowIso env, xa_context = ctx, xa_mi9Result = mi9, xa_model = me_id m,
     xa_rationale = ExecutedVia (me_display_name m)
       (case routing of [] \<Rightarrow> None | r # _ \<Rightarrow> Some (sm_total r)) (me_engine m),
     xa_tokensUsed = Some (nullish (er_input_tokens x) 0 + nullish (er_output_tokens x) 0),
     xa_latencyMs = er_latency_ms x,
     xa_outcome = (if mr_humanCoSignRequired mi9 then HeldForCosign else Executed),
     xa_routing_head = routing_head routing, xa_block_reason = None,
     xa_executed = Some (cost, verified, er_simulated x)\<rparr>"

definition finaliseQuery ::
  "exchange_env \<Rightarrow> unified_request \<Rightarrow> policy_evaluation list \<Rightarrow> scored_model list \<Rightarrow> registry_entry
     \<Rightarrow> execution_result \<Rightarrow> mi9_result \<Rightarrow> decision_context \<Rightarrow> query_status \<Rightarrow> exchange_state
     \<Rightarrow> (string + query_result) \<times> exchange_state" where
  "finaliseQuery env rq evaluations routing m x mi9 ctx status s =
     (let assurance = assure m x;
          cost = computeCost m (nullish (er_input_tokens x) 0) (nullish (er_output_tokens x) 0);
          entry = executed_entry env rq routing m x mi9 ctx cost (ax_verified_confidence assurance)
      in case record_both env entry
               (executed_work rq m x (status = QEscalated) cost (ax_verified_confidence assurance)) s of
           (Inl err, s1) \<Rightarrow> (Inl err, s1)
         | (Inr r, s1) \<Rightarrow>
             (Inr \<lparr>qr_request_id = xe_request_id env, qr_eligible_models = map sm_model_id routing,
                   qr_policy_evaluations = evaluations, qr_routing_table = routing,
                   qr_chosen_model_id = Some (me_id m), qr_rejected = False, qr_rejection_reason = None,
                   qr_mi9 = Some mi9, qr_execution = Some x, qr_assurance = Some assurance,
                   qr_audit_record = Some r, qr_cost_usd = cost, qr_latency_ms = elapsed env,
                   qr_status = status\<rparr>, s1))"

section \<open>Stages\<close>

definition call_engine ::
  "exchange_env \<Rightarrow> unified_request \<Rightarrow> registry_entry \<Rightarrow> exchange_state \<Rightarrow> execution_result \<times> exchange_state" where
  "call_engine env rq m s =
     (executeEngine (xe_engines env) m rq, s\<lparr>xs_calls := xs_calls s @ [me_id m]\<rparr>)"

text \<open>The fallback loop over the rest of the routing table.\<close>

fun fallback ::
  "exchange_env \<Rightarrow> unified_request \<Rightarrow> scored_model list \<Rightarrow> exchange_state
     \<Rightarrow> (registry_entry \<times> execution_result) option \<times> exchange_state" where
  "fallback env rq [] s = (None, s)"
| "fallback env rq (r # rs) s =
     (case getModel (sm_model_id r) of
        None \<Rightarrow> fallback env rq rs s
      | Some m \<Rightarrow>
          let (retry, s1) = call_engine env rq m s
          in if er_ok retry then (Some (m, retry), s1) else fallback env rq rs s1)"

text \<open>A result without execution: the fields the early returns share.\<close>

definition early_result ::
  "exchange_env \<Rightarrow> policy_evaluation list \<Rightarrow> string list \<Rightarrow> scored_model list \<Rightarrow> string option
     \<Rightarrow> rejection option \<Rightarrow> query_status \<Rightarrow> query_result" where
  "early_result env evaluations eligible routing chosen reason status =
     \<lparr>qr_request_id = xe_request_id env, qr_eligible_models = eligible,
      qr_policy_evaluations = evaluations, qr_routing_table = routing, qr_chosen_model_id = chosen,
      qr_rejected = (reason \<noteq> None), qr_rejection_reason = reason, qr_mi9 = None, qr_execution = None,
      qr_assurance = None, qr_audit_record = None, qr_cost_usd = 0, qr_latency_ms = elapsed env,
      qr_status = status\<rparr>"

text \<open>Stage 3, a block: the refusal is audited and recorded.\<close>

definition refuse_query ::
  "exchange_env \<Rightarrow> unified_request \<Rightarrow> policy_result \<Rightarrow> scored_model list \<Rightarrow> scored_model \<Rightarrow> registry_entry
     \<Rightarrow> decision_context \<Rightarrow> mi9_result \<Rightarrow> exchange_state \<Rightarrow> (string + query_result) \<times> exchange_state" where
  "refuse_query env rq policy routing winner m ctx mi9 s =
     (let entry = \<lparr>xa_decisionId = xe_request_id env, xa_decisionType = exchange_domain rq,
                   xa_timestamp = xe_nowIso env, xa_context = ctx, xa_mi9Result = mi9, xa_model = me_id m,
                   xa_rationale = GateBlocked (me_display_name m) (sm_total winner),
                   xa_tokensUsed = None, xa_latencyMs = None, xa_outcome = Blocked,
                   xa_routing_head = routing_head routing, xa_block_reason = mr_blockReason mi9,
                   xa_executed = None\<rparr>
      in case record_both env entry (rejected_work rq m) s of
           (Inl err, s1) \<Rightarrow> (Inl err, s1)
         | (Inr r, s1) \<Rightarrow>
             (Inr ((early_result env (pr_evaluations policy) (map me_id (pr_eligible policy)) routing
                      (Some (me_id m)) (Some (GateRejection (mr_blockReason mi9))) QRejectedGovernance)
                   \<lparr>qr_mi9 := Some mi9, qr_audit_record := Some r\<rparr>), s1))"

text \<open>Stage 4: the chosen engine, then the others.\<close>

definition execute_query ::
  "exchange_env \<Rightarrow> unified_request \<Rightarrow> policy_result \<Rightarrow> scored_model list \<Rightarrow> registry_entry
     \<Rightarrow> decision_context \<Rightarrow> mi9_result \<Rightarrow> exchange_state \<Rightarrow> (string + query_result) \<times> exchange_state" where
  "execute_query env rq policy routing m ctx mi9 s =
     (let (execution, s1) = call_engine env rq m s
      in if \<not> er_ok execution then
           (case fallback env rq (tl routing) s1 of
              (Some (n, retry), s2) \<Rightarrow>
                finaliseQuery env rq (pr_evaluations policy) routing n retry mi9 ctx QEscalated s2
            | (None, s2) \<Rightarrow>
                (Inr ((early_result env (pr_evaluations policy) (map me_id (pr_eligible policy)) routing
                         (Some (me_id m)) (Some (AllEnginesFailed (er_error execution))) QFailed)
                      \<lparr>qr_mi9 := Some mi9, qr_execution := Some execution\<rparr>), s2))
         else finaliseQuery env rq (pr_evaluations policy) routing m execution mi9 ctx QCompleted s1)"

definition govern_query ::
  "exchange_env \<Rightarrow> unified_request \<Rightarrow> query_options \<Rightarrow> policy_result \<Rightarrow> scored_model list \<Rightarrow> scored_model
     \<Rightarrow> registry_entry \<Rightarrow> exchange_state \<Rightarrow> (string + query_result) \<times> exchange_state" where
  "govern_query env rq options policy routing winner m s =
     (let ctx = buildDecisionContext rq m winner (xe_request_id env) (qo_mi9Context options)
      in case mi9_evaluate (xe_policy env) (xe_clock env 1) ctx (xs_mi9 s) of
           Inl err \<Rightarrow> (Inl err, s)
         | Inr (mi9, g) \<Rightarrow>
             let s1 = s\<lparr>xs_mi9 := g\<rparr>
             in if mr_verdict mi9 = Block then refuse_query env rq policy routing winner m ctx mi9 s1
                else execute_query env rq policy routing m ctx mi9 s1)"

definition runUnifiedQuery ::
  "exchange_env \<Rightarrow> unified_request \<Rightarrow> query_options \<Rightarrow> exchange_state
     \<Rightarrow> (string + query_result) \<times> exchange_state" where
  "runUnifiedQuery env rq options s =
     (case applyPolicies rq MODEL_REGISTRY of
        Inl err \<Rightarrow> (Inl err, s)
      | Inr policy \<Rightarrow>
          if pr_rejected policy then
            (Inr (early_result env (pr_evaluations policy) [] [] None
               (Some (PolicyRejection (pr_rejectionReason policy))) QRejectedPolicy), s)
          else
            let routing = rankModels (pr_eligible policy) rq (pr_deterministicFirst policy);
                eligible = map me_id (pr_eligible policy)
            in if qo_dryRun options then
                 (Inr (early_result env (pr_evaluations policy) eligible routing
                    (case routing of [] \<Rightarrow> None | w # _ \<Rightarrow> Some (sm_model_id w)) None QCompleted), s)
               else case routing of
                 [] \<Rightarrow> (Inr (early_result env (pr_evaluations policy) [] [] None (Some NoRankedCandidate)
                          QRejectedPolicy), s)
               | winner # _ \<Rightarrow>
                   (case getModel (sm_model_id winner) of
                      None \<Rightarrow> (Inr (early_result env (pr_evaluations policy) eligible routing
                                 (Some (sm_model_id winner)) (Some (NotInRegistry (sm_model_id winner))) QFailed), s)
                    | Some m \<Rightarrow> govern_query env rq options policy routing winner m s))"

definition initModelExchange :: "exchange_state \<Rightarrow> exchange_state" where
  "initModelExchange s = s\<lparr>xs_work := ensureWorkLedgerSchema (xs_work s)\<rparr>"

section \<open>The HTTP route\<close>

definition member :: "(string \<times> json) list \<Rightarrow> string \<Rightarrow> json" where
  "member es k = nullish (map_of es k) JUndefined"

fun as_string :: "json \<Rightarrow> string option" where
  "as_string (JStr s) = Some s"
| "as_string _ = None"

text \<open>A number member: \<open>num\<close> reads its text; a value without a text is not finite.\<close>

fun as_number :: "(string \<Rightarrow> jsnum) \<Rightarrow> json \<Rightarrow> jsnum option" where
  "as_number num (JNum t) = Some (num t)"
| "as_number num JNonFinite = Some NaN"
| "as_number num _ = None"

fun as_array :: "json \<Rightarrow> json list option" where
  "as_array (JArr vs) = Some vs"
| "as_array _ = None"

definition coerceRequest :: "(string \<Rightarrow> jsnum) \<Rightarrow> json \<Rightarrow> unified_request option" where
  "coerceRequest num body =
     (case body of
        JObj b \<Rightarrow>
          (case member b ''query'' of
             JStr q \<Rightarrow>
               if list_all is_space q then None
               else Some
                 \<lparr>ur_query = q,
                  ur_task_type = nullish (as_string (member b ''task_type'')) ''reasoning'',
                  ur_confidentiality = nullish (as_string (member b ''confidentiality_level'')) ''internal'',
                  ur_allowed_providers = as_array (member b ''allowed_providers''),
                  ur_max_latency = as_number num (member b ''max_latency''),
                  ur_max_cost = as_number num (member b ''max_cost''),
                  ur_required_evidence = as_number num (member b ''required_evidence_level''),
                  ur_jurisdiction_pin = member b ''jurisdiction_pin'',
                  ur_operator_id = as_string (member b ''operator_id''),
                  ur_mission_id = as_string (member b ''mission_id'')\<rparr>
           | _ \<Rightarrow> None)
      | _ \<Rightarrow> None)"

definition query_http_status :: "query_result \<Rightarrow> nat" where
  "query_http_status q =
     (if qr_status q = QCompleted \<or> qr_status q = QEscalated then 200
      else if qr_status q = QRejectedPolicy then 400
      else if qr_status q = QRejectedGovernance then 403
      else 500)"

datatype exchange_response =
    InvalidRequest
  | RouteReply query_result
  | QueryReply nat bool query_result
  | ServerError string

definition post_route ::
  "(string \<Rightarrow> jsnum) \<Rightarrow> exchange_env \<Rightarrow> json \<Rightarrow> exchange_state \<Rightarrow> exchange_response \<times> exchange_state" where
  "post_route num env body s =
     (case coerceRequest num body of
        None \<Rightarrow> (InvalidRequest, s)
      | Some rq \<Rightarrow>
          (case runUnifiedQuery env rq (no_options\<lparr>qo_dryRun := True\<rparr>) s of
             (Inl _, s1) \<Rightarrow> (ServerError ''route_failed'', s1)
           | (Inr q, s1) \<Rightarrow> (RouteReply q, s1)))"

definition post_query ::
  "(string \<Rightarrow> jsnum) \<Rightarrow> exchange_env \<Rightarrow> json \<Rightarrow> exchange_state \<Rightarrow> exchange_response \<times> exchange_state" where
  "post_query num env body s =
     (case coerceRequest num body of
        None \<Rightarrow> (InvalidRequest, s)
      | Some rq \<Rightarrow>
          (case runUnifiedQuery env rq no_options s of
             (Inl _, s1) \<Rightarrow> (ServerError ''query_failed'', s1)
           | (Inr q, s1) \<Rightarrow> (QueryReply (query_http_status q) (\<not> qr_rejected q) q, s1)))"

end
