(* ===== verification/ExchangeFacts.thy ===== *)
theory ExchangeFacts imports ModelExchange AuditFacts Mi9Facts begin

text \<open>
  What the model exchange guarantees: the policy stage is the conjunction of its rules, the router
  ranks exactly the admissible engines, no engine is called before the gate and none twice, an
  engine that would answer is reached, and the work ledger and the audit chain stay in step; and
  what the shipped policy and the route's unchecked members make of it.
\<close>

section \<open>Policy and router\<close>

lemma policy_stage:
  "case applyPolicies rq MODEL_REGISTRY of
     Inl e \<Rightarrow> \<exists>js. ur_allowed_providers rq = Some js \<and> js \<noteq> [] \<and> lower_all js = None
   | Inr r \<Rightarrow> (\<forall>js. ur_allowed_providers rq = Some js \<longrightarrow> js = [] \<or> lower_all js \<noteq> None)
       \<and> pr_eligible r = filter (admissible rq) MODEL_REGISTRY
       \<and> (\<forall>m\<in>set MODEL_REGISTRY. admissible rq m \<or> me_status m = Offline
            \<or> (\<exists>v\<in>set (pr_evaluations r). me_id m \<in> set (pv_excluded v)))
       \<and> (pr_rejected r \<longleftrightarrow> (\<forall>m\<in>set MODEL_REGISTRY. \<not> admissible rq m))"
proof (cases "applyPolicies rq MODEL_REGISTRY")
  case (Inl e)
  then show ?thesis using applyPolicies_throws[of rq MODEL_REGISTRY] by auto
next
  case (Inr r)
  have "pr_eligible r = filter (admissible rq) MODEL_REGISTRY"
    by (rule applyPolicies_eligible[OF Inr])
  moreover have "pr_rejected r \<longleftrightarrow> pr_eligible r = []"
    using Inr by (auto simp: applyPolicies_def Let_def split: sum.splits prod.splits)
  moreover have "accounted (filter (\<lambda>m. me_status m \<noteq> Offline) MODEL_REGISTRY) (pr_eligible r, pr_evaluations r)"
    by (rule applyPolicies_accounted[OF Inr registry_ids_distinct])
  moreover have "\<forall>js. ur_allowed_providers rq = Some js \<longrightarrow> js = [] \<or> lower_all js \<noteq> None"
    using applyPolicies_throws[of rq MODEL_REGISTRY] Inr by auto
  ultimately show ?thesis using Inr by (auto simp: accounted_def filter_empty_conv)
qed

text \<open>The policy stage throws exactly on a non-string entry of a non-empty allow-list.  Otherwise it
  keeps exactly the admissible engines, in registry order, whatever the order of its rules; every
  engine it drops, unless it was offline, is named by a recorded rule; and it rejects exactly when
  nothing is left.\<close>

theorem policy_stage_is_admissibility:
  "case applyPolicies rq MODEL_REGISTRY of
     Inl e \<Rightarrow> \<exists>js. ur_allowed_providers rq = Some js \<and> js \<noteq> [] \<and> lower_all js = None
   | Inr r \<Rightarrow> (\<forall>js. ur_allowed_providers rq = Some js \<longrightarrow> js = [] \<or> lower_all js \<noteq> None)
       \<and> pr_eligible r = filter (admissible rq) MODEL_REGISTRY
       \<and> (\<forall>m\<in>set MODEL_REGISTRY. admissible rq m \<or> me_status m = Offline
            \<or> (\<exists>v\<in>set (pr_evaluations r). me_id m \<in> set (pv_excluded v)))
       \<and> (pr_rejected r \<longleftrightarrow> (\<forall>m\<in>set MODEL_REGISTRY. \<not> admissible rq m))"
  by (rule policy_stage)

text \<open>A request for worked examples, and its variants.\<close>

definition sample_request :: unified_request where
  "sample_request =
    \<lparr>ur_query = ''1+1'', ur_task_type = ''calculation'', ur_confidentiality = ''internal'',
     ur_allowed_providers = None, ur_max_latency = None, ur_max_cost = None, ur_required_evidence = None,
     ur_jurisdiction_pin = JUndefined, ur_operator_id = None, ur_mission_id = None\<rparr>"

lemmas policy_eval_defs =
  applyPolicies_def rule_P1_def rule_P2_def rule_P3_def rule_P4_def rule_P5_def rule_P6_def rule_P7_def
  rule_P8_def apply_rule_def capability_ok_def EXACT_TASKS_def positive_limit_def

lemma sample_policy:
  "\<exists>r. applyPolicies (sample_request\<lparr>ur_confidentiality := ''sovereign''\<rparr>) MODEL_REGISTRY = Inr r
     \<and> pr_eligible r = [qwen_entry, core_entry]"
  by (simp add: policy_eval_defs sample_request_def registry_defs)

theorem policy_stage_is_admissibility_witness:
  "\<exists>r. applyPolicies (sample_request\<lparr>ur_confidentiality := ''sovereign''\<rparr>) MODEL_REGISTRY = Inr r
     \<and> (\<forall>m\<in>set MODEL_REGISTRY. m \<in> {qwen_entry, core_entry}
          \<or> (\<exists>v\<in>set (pr_evaluations r). me_id m \<in> set (pv_excluded v)))"
proof -
  let ?rq = "sample_request\<lparr>ur_confidentiality := ''sovereign''\<rparr>"
  obtain r where r: "applyPolicies ?rq MODEL_REGISTRY = Inr r" "pr_eligible r = [qwen_entry, core_entry]"
    using sample_policy by blast
  have live: "me_status m \<noteq> Offline" if "m \<in> set MODEL_REGISTRY" for m
    using that by (auto simp: registry_defs)
  have stage: "pr_eligible r = filter (admissible ?rq) MODEL_REGISTRY"
    "\<forall>m\<in>set MODEL_REGISTRY. admissible ?rq m \<or> me_status m = Offline
       \<or> (\<exists>v\<in>set (pr_evaluations r). me_id m \<in> set (pv_excluded v))"
    using policy_stage_is_admissibility[of ?rq] r(1) by simp_all
  have "{m \<in> set MODEL_REGISTRY. admissible ?rq m} = {qwen_entry, core_entry}"
    using stage(1) r(2) by (metis list.simps(15) set_filter empty_set)
  with stage(2) r(1) live show ?thesis by blast
qed

text \<open>The routing table holds every eligible engine once and nothing else.  Apart from the
  deterministic core it is sorted by falling score; for a calculation that the core is eligible for,
  the core comes first and is marked as pinned.\<close>

theorem routing_ranks_eligible:
  "mset (map sm_model_id (rankModels ms rq d)) = mset (map me_id ms)
   \<and> sorted_wrt (\<lambda>a b. sm_total b \<le> sm_total a) (filter (\<lambda>s. sm_model_id s \<noteq> CORE_ID) (rankModels ms rq d))
   \<and> (\<not> d \<longrightarrow> sorted_wrt (\<lambda>a b. sm_total b \<le> sm_total a) (rankModels ms rq d))
   \<and> (d \<and> CORE_ID \<in> me_id ` set ms \<longrightarrow> (\<exists>c rest. rankModels ms rq d = c # rest \<and> sm_model_id c = CORE_ID
        \<and> sm_pinned_by_policy c = Some ''P3_DETERMINISTIC_FIRST''))"
proof -
  let ?ss = "sort_scored (map (\<lambda>m. scoreModel m rq) ms)"
  have s: "sorted_wrt (\<lambda>a b. sm_total b \<le> sm_total a) ?ss" by (rule sort_scored_sorted)
  have "sm_model_id ` set ?ss = me_id ` set ms"
    by (simp add: sort_scored_def image_image)
  with s pin_first_sorted[of "[]" ?ss] pin_first_head[of ?ss "[]"] rankModels_ids[of ms rq d] show ?thesis
    by (auto simp: rankModels_def Let_def intro: sorted_wrt_filter)
qed

theorem routing_ranks_eligible_witness:
  "\<exists>c rest. rankModels [gpt_entry, core_entry] sample_request True = c # rest \<and> sm_model_id c = CORE_ID"
  using routing_ranks_eligible[of "[gpt_entry, core_entry]" sample_request True]
  by (auto simp: core_entry_def CORE_ID_def)

section \<open>The fallback loop\<close>


definition registered :: "scored_model list \<Rightarrow> bool" where
  "registered rs \<longleftrightarrow> (\<forall>r\<in>set rs. getModel (sm_model_id r) \<noteq> None)"

text \<open>
  What the loop does on a table of registered engines: it calls them in order up to the first that
  answers, and fails only when it has called them all.
\<close>

lemma fallback_spec:
  assumes "registered rs" "fallback env rq rs s = (res, s')"
  shows "\<exists>cs. s' = s\<lparr>xs_calls := xs_calls s @ cs\<rparr> \<and> prefix cs (map sm_model_id rs)
    \<and> (case res of
         None \<Rightarrow> cs = map sm_model_id rs
           \<and> (\<forall>r\<in>set rs. \<forall>m. getModel (sm_model_id r) = Some m \<longrightarrow> \<not> er_ok (executeEngine (xe_engines env) m rq))
       | Some (m, x) \<Rightarrow> cs \<noteq> [] \<and> last cs = me_id m \<and> getModel (me_id m) = Some m
           \<and> x = executeEngine (xe_engines env) m rq \<and> er_ok x)"
  using assms
proof (induction rs arbitrary: s)
  case Nil
  then show ?case by (intro exI[of _ "[]"]) auto
next
  case (Cons r rs)
  from Cons.prems(1) obtain m where m: "getModel (sm_model_id r) = Some m" and reg: "registered rs"
    by (auto simp: registered_def)
  then have id: "me_id m = sm_model_id r" by (auto dest: getModel_SomeD)
  let ?x = "executeEngine (xe_engines env) m rq"
  let ?s1 = "s\<lparr>xs_calls := xs_calls s @ [me_id m]\<rparr>"
  show ?case
  proof (cases "er_ok ?x")
    case True
    then have "res = Some (m, ?x)" "s' = ?s1"
      using Cons.prems(2) m by (auto simp: call_engine_def)
    then show ?thesis using m id True by (intro exI[of _ "[me_id m]"]) auto
  next
    case False
    then have "fallback env rq rs ?s1 = (res, s')"
      using Cons.prems(2) m by (simp add: call_engine_def)
    from Cons.IH[OF reg this] obtain cs where cs: "s' = ?s1\<lparr>xs_calls := xs_calls ?s1 @ cs\<rparr>"
      "prefix cs (map sm_model_id rs)"
      "case res of
         None \<Rightarrow> cs = map sm_model_id rs
           \<and> (\<forall>r\<in>set rs. \<forall>m. getModel (sm_model_id r) = Some m \<longrightarrow> \<not> er_ok (executeEngine (xe_engines env) m rq))
       | Some (m, x) \<Rightarrow> cs \<noteq> [] \<and> last cs = me_id m \<and> getModel (me_id m) = Some m
           \<and> x = executeEngine (xe_engines env) m rq \<and> er_ok x" by blast
    then show ?thesis using m id False
      by (intro exI[of _ "me_id m # cs"]) (auto split: option.splits)
  qed
qed

section \<open>A query step by step\<close>

lemma record_both_InrD:
  assumes "record_both env e w s = (Inr r, s')"
  shows "\<exists>t. audit_append (xe_hash env) (xe_uuid env) (xe_nowIso env) (exchange_payload env e) (xs_audit s)
      = Inr (r, xs_audit s') \<and> xs_mi9 s' = xs_mi9 s \<and> xs_calls s' = xs_calls s
    \<and> recordWork (xe_nowSql env) (w\<lparr>we_trace_hash := Some (rec_chainHash r)\<rparr>) (xs_work s) = Inr (t, xs_work s')"
  using assms by (auto simp: record_both_def Let_def split: sum.splits prod.splits)

lemma audit_append_payload: "audit_append H u now p db = Inr (r, db') \<Longrightarrow> rec_payload r = p"
  by (auto simp: audit_append_def Let_def split: if_splits)

lemma record_both_calls: "xs_calls (snd (record_both env e w s)) = xs_calls s"
  by (auto simp: record_both_def Let_def split: sum.splits prod.splits)

lemma snd_pass: "snd (case y of (Inl e, s1) \<Rightarrow> (Inl e, s1) | (Inr r, s1) \<Rightarrow> (Inr (f r), s1)) = snd y"
  by (auto split: prod.split sum.split)

lemma finaliseQuery_calls: "xs_calls (snd (finaliseQuery env rq ev rt m x g ctx st s)) = xs_calls s"
  by (simp add: finaliseQuery_def Let_def snd_pass record_both_calls)

lemma refuse_query_calls: "xs_calls (snd (refuse_query env rq p rt w m ctx g s)) = xs_calls s"
  by (simp add: refuse_query_def Let_def snd_pass record_both_calls)

lemma finaliseQuery_InrD:
  assumes "finaliseQuery env rq ev rt m x g ctx st s = (Inr q, s')"
  shows "qr_routing_table q = rt \<and> qr_chosen_model_id q = Some (me_id m) \<and> \<not> qr_rejected q
    \<and> qr_mi9 q = Some g \<and> qr_execution q = Some x \<and> qr_status q = st \<and> xs_calls s' = xs_calls s
    \<and> qr_cost_usd q = computeCost m (nullish (er_input_tokens x) 0) (nullish (er_output_tokens x) 0)
    \<and> qr_assurance q = Some (assure m x)
    \<and> (\<exists>e r. qr_audit_record q = Some r \<and> rec_payload r = exchange_payload env e
         \<and> xa_outcome e = (if mr_humanCoSignRequired g then HeldForCosign else Executed))"
proof -
  define e where "e = executed_entry env rq rt m x g ctx
    (computeCost m (nullish (er_input_tokens x) 0) (nullish (er_output_tokens x) 0))
    (ax_verified_confidence (assure m x))"
  have "xa_outcome e = (if mr_humanCoSignRequired g then HeldForCosign else Executed)"
    by (simp add: e_def executed_entry_def)
  then show ?thesis
    using assms finaliseQuery_calls[of env rq ev rt m x g ctx st s]
    by (auto simp: finaliseQuery_def Let_def e_def[symmetric] split: sum.splits prod.splits
        dest!: record_both_InrD audit_append_payload)
qed

lemma refuse_query_InrD:
  assumes "refuse_query env rq p rt w m ctx g s = (Inr q, s')"
  shows "qr_routing_table q = rt \<and> qr_rejected q \<and> qr_mi9 q = Some g \<and> qr_status q = QRejectedGovernance
    \<and> qr_execution q = None \<and> xs_calls s' = xs_calls s"
  using assms refuse_query_calls[of env rq p rt w m ctx g s]
  by (auto simp: refuse_query_def early_result_def Let_def split: sum.splits prod.splits)

text \<open>What the engines called during a query say about its result.\<close>

definition answered_by ::
  "exchange_env \<Rightarrow> unified_request \<Rightarrow> string list \<Rightarrow> query_result \<Rightarrow> bool" where
  "answered_by env rq cs q \<longleftrightarrow>
     (\<exists>n. cs \<noteq> [] \<and> getModel (last cs) = Some n \<and> qr_chosen_model_id q = Some (me_id n)
        \<and> qr_execution q = Some (executeEngine (xe_engines env) n rq)
        \<and> er_ok (executeEngine (xe_engines env) n rq)
        \<and> qr_status q = (if length cs = 1 then QCompleted else QEscalated)
        \<and> qr_assurance q = Some (assure n (executeEngine (xe_engines env) n rq))
        \<and> (\<exists>e r. qr_audit_record q = Some r \<and> rec_payload r = exchange_payload env e
             \<and> xa_outcome e = (if mr_humanCoSignRequired (the (qr_mi9 q)) then HeldForCosign else Executed)))"

definition all_failed :: "exchange_env \<Rightarrow> unified_request \<Rightarrow> scored_model list \<Rightarrow> bool" where
  "all_failed env rq rt \<longleftrightarrow>
     (\<forall>r\<in>set rt. \<forall>m. getModel (sm_model_id r) = Some m \<longrightarrow> \<not> er_ok (executeEngine (xe_engines env) m rq))"

lemma execute_query_spec:
  assumes reg: "registered rt" and rt: "rt = w # rest" and m: "getModel (sm_model_id w) = Some m"
    and run: "execute_query env rq p rt m ctx g s = (Inr q, s')"
  shows "\<exists>cs. xs_calls s' = xs_calls s @ cs \<and> prefix cs (map sm_model_id rt) \<and> qr_routing_table q = rt
    \<and> qr_mi9 q = Some g
    \<and> (if qr_rejected q then qr_status q = QFailed \<and> cs = map sm_model_id rt \<and> all_failed env rq rt
       else answered_by env rq cs q)"
proof -
  let ?x = "executeEngine (xe_engines env) m rq"
  let ?s1 = "s\<lparr>xs_calls := xs_calls s @ [me_id m]\<rparr>"
  have id: "me_id m = sm_model_id w" "getModel (me_id m) = Some m" using m getModel_SomeD[OF m] by simp_all
  show ?thesis
  proof (cases "er_ok ?x")
    case True
    then have "finaliseQuery env rq (pr_evaluations p) rt m ?x g ctx QCompleted ?s1 = (Inr q, s')"
      using run by (simp add: execute_query_def call_engine_def)
    note fin = finaliseQuery_InrD[OF this]
    then show ?thesis using True id rt
      by (intro exI[of _ "[me_id m]"]) (auto simp: answered_by_def)
  next
    case False
    obtain res s2 where fb: "fallback env rq rest ?s1 = (res, s2)" by fastforce
    have "registered rest" using reg rt by (simp add: registered_def)
    from fallback_spec[OF this fb] obtain cs where cs: "xs_calls s2 = xs_calls s @ me_id m # cs"
      "prefix cs (map sm_model_id rest)" and res: "case res of
         None \<Rightarrow> cs = map sm_model_id rest
           \<and> (\<forall>r\<in>set rest. \<forall>m. getModel (sm_model_id r) = Some m \<longrightarrow> \<not> er_ok (executeEngine (xe_engines env) m rq))
       | Some (m, x) \<Rightarrow> cs \<noteq> [] \<and> last cs = me_id m \<and> getModel (me_id m) = Some m
           \<and> x = executeEngine (xe_engines env) m rq \<and> er_ok x" by auto
    show ?thesis
    proof (cases res)
      case None
      with run fb False rt have "s' = s2" and q: "q = (early_result env (pr_evaluations p) (map me_id (pr_eligible p)) rt
            (Some (me_id m)) (Some (AllEnginesFailed (er_error ?x))) QFailed)\<lparr>qr_mi9 := Some g, qr_execution := Some ?x\<rparr>"
        by (auto simp: execute_query_def call_engine_def)
      then show ?thesis using cs res None rt id False m
        by (intro exI[of _ "me_id m # cs"]) (auto simp: early_result_def all_failed_def)
    next
      case (Some nx)
      obtain n x where nx: "nx = (n, x)" by fastforce
      with Some run fb False rt have "finaliseQuery env rq (pr_evaluations p) rt n x g ctx QEscalated s2 = (Inr q, s')"
        by (auto simp: execute_query_def call_engine_def)
      note fin = finaliseQuery_InrD[OF this]
      then show ?thesis using cs res Some nx rt id
        by (intro exI[of _ "me_id m # cs"]) (auto simp: answered_by_def)
    qed
  qed
qed

lemma routing_facts:
  assumes "applyPolicies rq MODEL_REGISTRY = Inr p"
  shows "registered (rankModels (pr_eligible p) rq d)"
    and "distinct (map sm_model_id (rankModels (pr_eligible p) rq d))"
    and "set (map sm_model_id (rankModels (pr_eligible p) rq d)) = me_id ` {m \<in> set MODEL_REGISTRY. admissible rq m}"
proof -
  have el: "pr_eligible p = filter (admissible rq) MODEL_REGISTRY" by (rule applyPolicies_eligible[OF assms])
  show ids: "set (map sm_model_id (rankModels (pr_eligible p) rq d)) = me_id ` {m \<in> set MODEL_REGISTRY. admissible rq m}"
    unfolding rankModels_set by (simp add: el)
  show "registered (rankModels (pr_eligible p) rq d)"
    unfolding registered_def
  proof
    fix r assume "r \<in> set (rankModels (pr_eligible p) rq d)"
    then have "sm_model_id r \<in> me_id ` {m \<in> set MODEL_REGISTRY. admissible rq m}"
      unfolding ids[symmetric] by simp
    then show "getModel (sm_model_id r) \<noteq> None" by (auto simp: getModel_member)
  qed
  have "distinct (map me_id (pr_eligible p))"
    unfolding el using registry_ids_distinct by (rule distinct_map_filter)
  then show "distinct (map sm_model_id (rankModels (pr_eligible p) rq d))"
    using rankModels_ids by (metis mset_eq_imp_distinct_iff)
qed

text \<open>A query returns early, is refused by the gate, or executes.\<close>

lemma runUnifiedQuery_cases:
  assumes "runUnifiedQuery env rq opt s = (Inr q, s')"
  obtains (early) "s' = s" "qr_mi9 q = None" "qr_execution q = None" "qr_audit_record q = None"
      "qr_status q = QRejectedPolicy \<or> qo_dryRun opt"
  | (governed) p w rest m ctx g gs where "applyPolicies rq MODEL_REGISTRY = Inr p" "\<not> pr_rejected p"
      "\<not> qo_dryRun opt" "rankModels (pr_eligible p) rq (pr_deterministicFirst p) = w # rest"
      "getModel (sm_model_id w) = Some m"
      "ctx = buildDecisionContext rq m w (xe_request_id env) (qo_mi9Context opt)"
      "mi9_evaluate (xe_policy env) (xe_clock env 1) ctx (xs_mi9 s) = Inr (g, gs)"
      "(if mr_verdict g = Block then refuse_query env rq p (w # rest) w m ctx g (s\<lparr>xs_mi9 := gs\<rparr>)
        else execute_query env rq p (w # rest) m ctx g (s\<lparr>xs_mi9 := gs\<rparr>)) = (Inr q, s')"
proof (cases "applyPolicies rq MODEL_REGISTRY")
  case (Inl e)
  with assms show thesis by (simp add: runUnifiedQuery_def)
next
  case (Inr p)
  let ?rt = "rankModels (pr_eligible p) rq (pr_deterministicFirst p)"
  show thesis
  proof (cases "pr_rejected p \<or> qo_dryRun opt \<or> ?rt = []")
    case True
    with assms Inr show thesis
      by (intro early) (auto simp: runUnifiedQuery_def early_result_def Let_def split: if_splits list.splits)
  next
    case False
    then obtain w rest where w: "?rt = w # rest" by (cases ?rt) auto
    have "registered ?rt" by (rule routing_facts(1)[OF Inr])
    then obtain m where m: "getModel (sm_model_id w) = Some m" by (auto simp: registered_def w)
    have "govern_query env rq opt p (w # rest) w m s = (Inr q, s')"
      using assms Inr False w m by (simp add: runUnifiedQuery_def)
    then obtain g gs where "mi9_evaluate (xe_policy env) (xe_clock env 1)
        (buildDecisionContext rq m w (xe_request_id env) (qo_mi9Context opt)) (xs_mi9 s) = Inr (g, gs)"
      "(if mr_verdict g = Block
        then refuse_query env rq p (w # rest) w m (buildDecisionContext rq m w (xe_request_id env) (qo_mi9Context opt)) g (s\<lparr>xs_mi9 := gs\<rparr>)
        else execute_query env rq p (w # rest) m (buildDecisionContext rq m w (xe_request_id env) (qo_mi9Context opt)) g (s\<lparr>xs_mi9 := gs\<rparr>)) = (Inr q, s')"
      by (auto simp: govern_query_def Let_def split: sum.splits prod.splits)
    with Inr False w m show thesis by (intro governed[OF Inr _ _ w m refl]) auto
  qed
qed

section \<open>No engine before the gate, none twice\<close>

text \<open>C24. The engines a query calls are, in order and without repetition, a prefix of its routing table,
  so each of them is admissible; and when one is called at all the query was no dry run and the MI9
  gate had evaluated it with another verdict than block.\<close>

theorem engines_called_only_past_gate:
  assumes "runUnifiedQuery env rq opt s = (Inr q, s')"
  shows "\<exists>cs. xs_calls s' = xs_calls s @ cs \<and> distinct cs
    \<and> prefix cs (map sm_model_id (qr_routing_table q))
    \<and> set cs \<subseteq> me_id ` {m \<in> set MODEL_REGISTRY. admissible rq m}
    \<and> (cs = [] \<or> \<not> qo_dryRun opt \<and> (\<exists>g. qr_mi9 q = Some g \<and> mr_verdict g \<noteq> Block))"
  using assms
proof (cases rule: runUnifiedQuery_cases)
  case early
  then show ?thesis by (intro exI[of _ "[]"]) simp
next
  case (governed p w rest m ctx g gs)
  note routing = routing_facts[OF governed(1), of "pr_deterministicFirst p", unfolded governed(4)]
  show ?thesis
  proof (cases "mr_verdict g = Block")
    case True
    with governed(8) have "xs_calls s' = xs_calls s" by (auto dest!: refuse_query_InrD)
    then show ?thesis by (intro exI[of _ "[]"]) simp
  next
    case False
    with governed(8) have ex: "execute_query env rq p (w # rest) m ctx g (s\<lparr>xs_mi9 := gs\<rparr>) = (Inr q, s')" by simp
    obtain cs where cs: "xs_calls s' = xs_calls s @ cs" "prefix cs (map sm_model_id (w # rest))"
      "qr_routing_table q = w # rest" "qr_mi9 q = Some g"
      using execute_query_spec[OF routing(1) refl governed(5) ex] by auto
    have "distinct cs" using cs(2) routing(2) by (metis distinct_append prefix_def)
    moreover have "set cs \<subseteq> me_id ` {m \<in> set MODEL_REGISTRY. admissible rq m}"
      using set_mono_prefix[OF cs(2)] routing(3) by simp
    ultimately show ?thesis using cs False governed(3) by (intro exI[of _ cs]) simp
  qed
qed

section \<open>A query returns\<close>

lemma record_both_returns:
  assumes "xs_work s \<noteq> None" "xe_uuid env \<notin> ar_record_id ` set (ad_rows (xs_audit s))"
  shows "record_both env e w s \<noteq> (Inl err, s')"
  using assms by (auto simp: record_both_def audit_append_def recordWork_def Let_def)

lemma finaliseQuery_returns:
  assumes "xs_work s \<noteq> None" "xe_uuid env \<notin> ar_record_id ` set (ad_rows (xs_audit s))"
  shows "\<exists>q s'. finaliseQuery env rq ev rt m x g ctx st s = (Inr q, s')"
  by (auto simp: finaliseQuery_def Let_def record_both_returns[OF assms] split: sum.splits prod.splits)

lemma refuse_query_returns:
  assumes "xs_work s \<noteq> None" "xe_uuid env \<notin> ar_record_id ` set (ad_rows (xs_audit s))"
  shows "\<exists>q s'. refuse_query env rq p rt w m ctx g s = (Inr q, s')"
  by (auto simp: refuse_query_def Let_def record_both_returns[OF assms] split: sum.splits prod.splits)

lemma fallback_state: "\<exists>cs. snd (fallback env rq rs s) = s\<lparr>xs_calls := cs\<rparr>"
proof (induction rs arbitrary: s)
  case Nil
  then show ?case by (intro exI[of _ "xs_calls s"]) simp
next
  case (Cons r rs)
  show ?case
  proof (cases "getModel (sm_model_id r)")
    case None
    with Cons show ?thesis by simp
  next
    case (Some m)
    let ?s1 = "s\<lparr>xs_calls := xs_calls s @ [me_id m]\<rparr>"
    obtain cs where "snd (fallback env rq rs ?s1) = ?s1\<lparr>xs_calls := cs\<rparr>" using Cons by blast
    with Some show ?thesis by (auto simp: call_engine_def intro: exI[of _ cs])
  qed
qed

lemma execute_query_returns:
  assumes "xs_work s \<noteq> None" "xe_uuid env \<notin> ar_record_id ` set (ad_rows (xs_audit s))"
  shows "\<exists>q s'. execute_query env rq p rt m ctx g s = (Inr q, s')"
proof -
  have fin: "\<exists>q s'. finaliseQuery env rq ev rt n x g ctx st (s\<lparr>xs_calls := cs\<rparr>) = (Inr q, s')" for ev n x st cs
    by (rule finaliseQuery_returns) (use assms in simp_all)
  let ?s1 = "s\<lparr>xs_calls := xs_calls s @ [me_id m]\<rparr>"
  obtain cs where cs: "snd (fallback env rq (tl rt) ?s1) = s\<lparr>xs_calls := cs\<rparr>"
    using fallback_state[of env rq "tl rt" ?s1] by auto
  obtain o1 where fb: "fallback env rq (tl rt) ?s1 = (o1, s\<lparr>xs_calls := cs\<rparr>)"
    using cs by (metis surjective_pairing)
  show ?thesis using fin
    by (cases o1) (auto simp: execute_query_def call_engine_def fb)
qed

text \<open>C25. Take a query that is no dry run, a policy file that can be read, the ledger's table in place, a record id
  that is new and an allow-list, if any, of strings, and let some admissible engine be one that would answer.
  Then the query returns, with the gate's verdict, and the result is the gate's block or an engine's answer:
  the fallback reaches an engine that answers whichever ones before it fail.\<close>

theorem query_answered_or_blocked:
  assumes table: "xs_work s \<noteq> None" and new: "xe_uuid env \<notin> ar_record_id ` set (ad_rows (xs_audit s))"
    and pol: "policy_of (xe_policy env) (xs_mi9 s) = Inr (pol, g0)"
    and strings: "\<forall>js. ur_allowed_providers rq = Some js \<longrightarrow> js = [] \<or> lower_all js \<noteq> None"
    and real: "\<not> qo_dryRun opt"
    and some: "m \<in> set MODEL_REGISTRY" "admissible rq m" "er_ok (executeEngine (xe_engines env) m rq)"
  shows "\<exists>q s' g. runUnifiedQuery env rq opt s = (Inr q, s') \<and> qr_mi9 q = Some g
    \<and> (if mr_verdict g = Block then qr_status q = QRejectedGovernance
       else \<not> qr_rejected q \<and> (\<exists>x. qr_execution q = Some x \<and> er_ok x \<and> er_answer x \<noteq> None))"
proof -
  obtain p where p: "applyPolicies rq MODEL_REGISTRY = Inr p"
    using strings applyPolicies_throws[of rq MODEL_REGISTRY] by (cases "applyPolicies rq MODEL_REGISTRY") auto
  let ?rt = "rankModels (pr_eligible p) rq (pr_deterministicFirst p)"
  note routing = routing_facts[OF p, of "pr_deterministicFirst p"]
  from some have "me_id m \<in> set (map sm_model_id ?rt)" by (simp only: routing(3)) blast
  then obtain w rest where w: "?rt = w # rest" by (cases ?rt) auto
  from some have "\<not> pr_rejected p"
    using policy_stage[of rq] p by auto
  obtain n where n: "getModel (sm_model_id w) = Some n"
    using routing(1) by (auto simp: registered_def w)
  let ?ctx = "buildDecisionContext rq n w (xe_request_id env) (qo_mi9Context opt)"
  obtain g gs where g: "mi9_evaluate (xe_policy env) (xe_clock env 1) ?ctx (xs_mi9 s) = Inr (g, gs)"
    by (rule mi9_evaluate_total[OF pol])
  let ?s1 = "s\<lparr>xs_mi9 := gs\<rparr>"
  have run: "runUnifiedQuery env rq opt s =
      (if mr_verdict g = Block then refuse_query env rq p ?rt w n ?ctx g ?s1
       else execute_query env rq p ?rt n ?ctx g ?s1)"
    using p w n g real \<open>\<not> pr_rejected p\<close> by (simp add: runUnifiedQuery_def govern_query_def Let_def)
  have s1: "xs_work ?s1 \<noteq> None" "xe_uuid env \<notin> ar_record_id ` set (ad_rows (xs_audit ?s1))"
    using table new by simp_all
  show ?thesis
  proof (cases "mr_verdict g = Block")
    case True
    obtain q s' where q: "refuse_query env rq p ?rt w n ?ctx g ?s1 = (Inr q, s')"
      using refuse_query_returns[OF s1] by blast
    with run True refuse_query_InrD[OF q] show ?thesis by auto
  next
    case False
    obtain q s' where q: "execute_query env rq p ?rt n ?ctx g ?s1 = (Inr q, s')"
      using execute_query_returns[OF s1] by blast
    have "\<not> all_failed env rq ?rt"
    proof -
      obtain r where "r \<in> set ?rt" "sm_model_id r = me_id m"
        using \<open>me_id m \<in> set (map sm_model_id ?rt)\<close> by auto
      with some show ?thesis by (auto simp: all_failed_def getModel_member intro!: bexI[of _ r])
    qed
    with execute_query_spec[OF routing(1) w n q] have "qr_mi9 q = Some g" "\<not> qr_rejected q"
      "\<exists>k. qr_execution q = Some (executeEngine (xe_engines env) k rq) \<and> er_ok (executeEngine (xe_engines env) k rq)"
      by (auto simp: answered_by_def split: if_splits)
    moreover from this(3) executeEngine_ok
    have "\<exists>x. qr_execution q = Some x \<and> er_ok x \<and> er_answer x \<noteq> None"
      by (metis result_ok_def)
    ultimately show ?thesis using run False q by auto
  qed
qed

section \<open>Worked example\<close>

text \<open>A machine without API keys that can add one and one, and two policies: the shipped one and one
  that classifies the exchange's domain.\<close>

definition demo_engines :: engine_env where
  "demo_engines =
    \<lparr>en_OPENAI_API_KEY = None, en_OPENAI_API_BASE = None, en_RONOR_OPENAI_MODEL = None,
     en_ANTHROPIC_API_KEY = None, en_fetch = (\<lambda>_. FetchThrows ''offline''),
     en_parse = (\<lambda>_. SyntaxError ''no''), en_eval = (\<lambda>e. if e = ''1+1'' then Some ''2'' else None),
     en_elapsed = (\<lambda>_. 1)\<rparr>"

definition demo_exchange :: "policy_env \<Rightarrow> exchange_env" where
  "demo_exchange pe =
    \<lparr>xe_policy = pe, xe_hash = (\<lambda>t. t), xe_engines = demo_engines, xe_lay = (\<lambda>_. RPrim JNull),
     xe_request_id = ''req-1'', xe_uuid = ''u1'', xe_clock = int, xe_nowIso = ''2026'', xe_nowSql = ''2026''\<rparr>"

definition tier_env :: "risk_tier \<Rightarrow> policy_env" where
  "tier_env t =
    \<lparr>pe_MI9_POLICY_PATH = None, pe_defaultPath = ''p'',
     pe_files = (\<lambda>_. Inr (shipped_policy\<lparr>po_domain_tiers := [(''model-exchange'', t)], po_min_source_count := Num 1\<rparr>))\<rparr>"

definition exchange_init :: exchange_state where
  "exchange_init = initModelExchange \<lparr>xs_mi9 = mi9_init, xs_audit = audit_empty, xs_work = None, xs_calls = []\<rparr>"

lemma exchange_init_simps [simp]:
  "xs_mi9 exchange_init = mi9_init" "xs_audit exchange_init = audit_empty" "xs_calls exchange_init = []"
  "xs_work exchange_init = Some \<lparr>wt_rows = [], wt_sqlite_sequence = 0\<rparr>"
  by (simp_all add: exchange_init_def initModelExchange_def ensureWorkLedgerSchema_def)

lemma tier_policy [simp]: "policy_of (tier_env t) mi9_init =
    Inr (shipped_policy\<lparr>po_domain_tiers := [(''model-exchange'', t)], po_min_source_count := Num 1\<rparr>,
      \<lparr>ms_cachedPolicy = Some (shipped_policy\<lparr>po_domain_tiers := [(''model-exchange'', t)], po_min_source_count := Num 1\<rparr>),
       ms_cachedPolicyVersion = po_version shipped_policy, ms_decisionsThisHour = []\<rparr>)"
  by (simp add: policy_of_def loadPolicy_def tier_env_def mi9_init_def policy_path_def truthy_str_def)

lemma core_answers: "er_ok (executeEngine demo_engines core_entry sample_request)"
  by (simp add: executeEngine_def executeDeterministic_def safeEvaluateExpression_def evaluable_def expr_char_def
      longest_def trim_spaces_def caret_to_stars_def demo_engines_def sample_request_def core_entry_def)

lemma core_admissible: "core_entry \<in> set MODEL_REGISTRY" "admissible sample_request core_entry"
  by (simp_all add: registry_defs admissible_def capability_ok_def sample_request_def)

theorem query_answered_or_blocked_witness:
  "\<exists>q s' g. runUnifiedQuery (demo_exchange (tier_env Minimal)) sample_request no_options exchange_init = (Inr q, s')
     \<and> qr_mi9 q = Some g \<and> (mr_verdict g = Block \<or> \<not> qr_rejected q)"
proof -
  let ?env = "demo_exchange (tier_env Minimal)"
  have "\<exists>q s' g. runUnifiedQuery ?env sample_request no_options exchange_init = (Inr q, s') \<and> qr_mi9 q = Some g
    \<and> (if mr_verdict g = Block then qr_status q = QRejectedGovernance
       else \<not> qr_rejected q \<and> (\<exists>x. qr_execution q = Some x \<and> er_ok x \<and> er_answer x \<noteq> None))"
    by (rule query_answered_or_blocked[where m = core_entry])
      (simp_all add: demo_exchange_def audit_empty_def core_answers core_admissible no_options_def,
        simp add: sample_request_def)
  then show ?thesis by (auto split: if_splits)
qed

text \<open>A request only the core is eligible for, followed through the stages.\<close>

definition core_request :: unified_request where
  "core_request = sample_request\<lparr>ur_allowed_providers := Some [JStr ''deterministic'']\<rparr>"

definition core_score :: scored_model where
  "core_score = pin_core (scoreModel core_entry core_request)"

lemma core_policy: "\<exists>p. applyPolicies core_request MODEL_REGISTRY = Inr p \<and> pr_eligible p = [core_entry]
    \<and> pr_deterministicFirst p \<and> \<not> pr_rejected p"
  by (simp add: policy_eval_defs core_request_def sample_request_def registry_defs provider_ok_def toLowerCase_def
      lower_char_def)

lemma core_routing: "rankModels [core_entry] core_request True = [core_score]"
  by (simp add: rankModels_def sort_scored_def core_score_def CORE_ID_def core_entry_def)

lemma core_total: "sm_total core_score = 22872 / 100" "sm_estimated_cost_usd core_score = 0"
  by code_simp+

abbreviation core_ctx :: decision_context where
  "core_ctx \<equiv> buildDecisionContext core_request core_entry core_score ''req-1'' id"

lemma core_domain: "dc_domain core_ctx = ''model-exchange.calculation''"
  by (simp add: buildDecisionContext_def exchange_domain_def core_request_def sample_request_def)

lemma core_resolve:
  "resolveDomainTier ''model-exchange.calculation'' [(''model-exchange'', t)] = Some (t, ''model-exchange'')"
  by (simp add: resolveDomainTier_def)

lemma core_gate:
  assumes "t \<in> {Minimal, High}"
  shows "\<exists>g gs. mi9_evaluate (tier_env t) 1 core_ctx mi9_init = Inr (g, gs)
    \<and> mr_verdict g = (if t = High then AllowWithCosign else Allow)
    \<and> mr_humanCoSignRequired g = (t = High)"
proof -
  define P where "P = shipped_policy\<lparr>po_domain_tiers := [(''model-exchange'', t)], po_min_source_count := Num 1\<rparr>"
  have tier: "gf_verdict (gateRiskTier core_ctx P) = (if t = High then AllowWithCosign else Allow)"
    using assms by (auto simp: gateRiskTier_def core_domain P_def core_resolve shipped_policy_def finding_def)
  have others: "gf_verdict (gateSovereignty core_ctx P) = Allow" "gf_verdict (gateReversibility core_ctx P) = Allow"
    "gf_verdict (gateImpact core_ctx P) = Allow" "gf_verdict (gateConfidence core_ctx P) = Allow"
    "gf_verdict (gateEvidence core_ctx P) = Allow" "gf_verdict (gatePolicyCompliance core_ctx P) = Allow"
    "gf_verdict (gateFallback core_ctx P) = Allow"
    by (simp_all add: mi9_eval_defs P_def shipped_defs buildDecisionContext_def core_total data_residency_def
        core_request_def sample_request_def core_entry_def exchange_domain_def)
  have rate: "gf_verdict (fst (gateRateLimits 1 core_ctx P [])) = Allow"
    by (simp add: mi9_eval_defs P_def shipped_policy_def buildDecisionContext_def js_int_def)
  obtain g8 w where g8: "gateRateLimits 1 core_ctx P [] = (g8, w)" "gf_verdict g8 = Allow"
    using rate by (cases "gateRateLimits 1 core_ctx P []") auto
  show ?thesis
    using tier others g8
    by (simp add: mi9_evaluate_def P_def[symmetric] gate_findings_def mi9_result_of_def aggregate_def strictest_def Let_def)
qed

lemma core_engine_answers: "er_ok (executeEngine demo_engines core_entry core_request)"
  using core_answers by (simp add: core_request_def executeEngine_def executeDeterministic_def core_entry_def)

lemma core_run:
  assumes "t \<in> {Minimal, High}"
  shows "\<exists>q s' g. runUnifiedQuery (demo_exchange (tier_env t)) core_request no_options exchange_init = (Inr q, s')
    \<and> qr_mi9 q = Some g \<and> mr_verdict g = (if t = High then AllowWithCosign else Allow)
    \<and> mr_humanCoSignRequired g = (t = High) \<and> xs_calls s' = [CORE_ID]"
proof -
  let ?env = "demo_exchange (tier_env t)"
  obtain p where p: "applyPolicies core_request MODEL_REGISTRY = Inr p" "pr_eligible p = [core_entry]"
    "pr_deterministicFirst p" "\<not> pr_rejected p" using core_policy by blast
  obtain g gs where g: "mi9_evaluate (tier_env t) 1 core_ctx mi9_init = Inr (g, gs)"
    "mr_verdict g = (if t = High then AllowWithCosign else Allow)" "mr_humanCoSignRequired g = (t = High)"
    using core_gate[OF assms] by blast
  let ?s1 = "exchange_init\<lparr>xs_mi9 := gs\<rparr>"
  have ids: "sm_model_id core_score = CORE_ID" "getModel CORE_ID = Some core_entry" "me_id core_entry = CORE_ID"
    by (simp_all add: core_score_def core_entry_def CORE_ID_def getModel_def registry_defs)
  have run: "runUnifiedQuery ?env core_request no_options exchange_init =
      execute_query ?env core_request p [core_score] core_entry core_ctx g ?s1"
    using p g core_routing ids
    by (simp add: runUnifiedQuery_def govern_query_def no_options_def demo_exchange_def Let_def)
  have "\<exists>q s'. execute_query ?env core_request p [core_score] core_entry core_ctx g ?s1 = (Inr q, s')"
    by (rule execute_query_returns) (simp_all add: audit_empty_def)
  then obtain q s' where q: "execute_query ?env core_request p [core_score] core_entry core_ctx g ?s1 = (Inr q, s')"
    by blast
  have "registered [core_score]" by (simp add: registered_def ids)
  from execute_query_spec[OF this refl _ q] ids obtain cs where
    cs: "xs_calls s' = cs" "prefix cs [CORE_ID]" "qr_mi9 q = Some g"
    "if qr_rejected q then cs = [CORE_ID] else answered_by ?env core_request cs q" by (auto split: if_splits)
  then have "cs \<noteq> []" by (auto simp: answered_by_def split: if_splits)
  with cs(2) have "cs = [CORE_ID]" by (cases cs) auto
  with run q g cs show ?thesis by auto
qed

theorem engines_called_only_past_gate_witness:
  "\<exists>q s'. runUnifiedQuery (demo_exchange (tier_env High)) core_request no_options exchange_init = (Inr q, s')
     \<and> xs_calls s' = [CORE_ID] \<and> CORE_ID \<in> me_id ` {m \<in> set MODEL_REGISTRY. admissible core_request m}"
proof -
  obtain q s' where q: "runUnifiedQuery (demo_exchange (tier_env High)) core_request no_options exchange_init = (Inr q, s')"
    "xs_calls s' = [CORE_ID]" using core_run[of High] by auto
  from engines_called_only_past_gate[OF q(1)] q show ?thesis by auto
qed

section \<open>Work ledger and audit chain\<close>

text \<open>In step: both tables are well formed, the chain is linked, and the trace hashes of the work rows
  are the chain hashes of the audit rows, row by row.\<close>

definition exchange_inv :: "(string \<Rightarrow> string) \<Rightarrow> exchange_state \<Rightarrow> bool" where
  "exchange_inv H s \<longleftrightarrow> audit_wf (xs_audit s) \<and> audit_linked H (rows_asc (xs_audit s))
     \<and> (\<exists>w. xs_work s = Some w \<and> work_wf w
          \<and> map (\<lambda>r. we_trace_hash (wr_entry r)) (wt_rows w)
            = map (\<lambda>r. Some (ar_chain_hash r)) (rows_asc (xs_audit s)))"

lemma record_both_inv:
  assumes "exchange_inv (xe_hash env) s"
  shows "exchange_inv (xe_hash env) (snd (record_both env e w s))"
proof (cases "audit_append (xe_hash env) (xe_uuid env) (xe_nowIso env) (exchange_payload env e) (xs_audit s)")
  case (Inl err)
  with assms show ?thesis by (simp add: record_both_def)
next
  case (Inr rd)
  obtain r db where rd: "rd = (r, db)" by fastforce
  note app = Inr[unfolded rd]
  from assms obtain t where t: "xs_work s = Some t" "work_wf t"
    "map (\<lambda>r. we_trace_hash (wr_entry r)) (wt_rows t) = map (\<lambda>r. Some (ar_chain_hash r)) (rows_asc (xs_audit s))"
    and ok: "audit_wf (xs_audit s)" "audit_linked (xe_hash env) (rows_asc (xs_audit s))"
    by (auto simp: exchange_inv_def)
  let ?w = "w\<lparr>we_trace_hash := Some (rec_chainHash r)\<rparr>"
  obtain i t' where rec: "recordWork (xe_nowSql env) ?w (xs_work s) = Inr (i, t')"
    by (simp add: recordWork_def t Let_def)
  obtain w' where w': "t' = Some w'" "map wr_entry (wt_rows w') = map wr_entry (wt_rows t) @ [?w]" "work_wf w'"
    using recordWork_InrD[OF rec] t by auto
  obtain row where row: "rows_asc db = rows_asc (xs_audit s) @ [row]" "ar_chain_hash row = rec_chainHash r"
    using audit_append_InrD[OF app] by blast
  have "map (\<lambda>r. we_trace_hash (wr_entry r)) (wt_rows w') = map we_trace_hash (map wr_entry (wt_rows w'))" by simp
  also have "\<dots> = map (\<lambda>r. Some (ar_chain_hash r)) (rows_asc db)"
    using t(3) by (simp add: w'(2) row o_def)
  finally show ?thesis
    using app rec w' audit_append_wf[OF ok(1) app] audit_append_linked[OF ok(2) app]
    by (simp add: record_both_def exchange_inv_def)
qed

text \<open>Whatever a query does to the two tables it does through one pair of writes, or it does nothing.\<close>

definition same_tables :: "exchange_state \<Rightarrow> exchange_state \<Rightarrow> bool" where
  "same_tables s t \<longleftrightarrow> xs_audit t = xs_audit s \<and> xs_work t = xs_work s"

definition writes_once :: "exchange_env \<Rightarrow> exchange_state \<Rightarrow> exchange_state \<Rightarrow> bool" where
  "writes_once env s s' \<longleftrightarrow> same_tables s s'
     \<or> (\<exists>e w t. same_tables s t \<and> s' = snd (record_both env e w t))"

lemma exchange_inv_same: "same_tables s t \<Longrightarrow> exchange_inv H t = exchange_inv H s"
  by (simp add: exchange_inv_def same_tables_def)

lemma writes_once_from: "same_tables s t \<Longrightarrow> writes_once env t s' \<Longrightarrow> writes_once env s s'"
  by (auto simp: writes_once_def same_tables_def)

lemma same_writes: "same_tables s t \<Longrightarrow> writes_once env s t"
  by (simp add: writes_once_def)

lemma record_both_writes: "writes_once env s (snd (record_both env e w s))"
  by (auto simp: writes_once_def same_tables_def)

lemma finaliseQuery_writes: "writes_once env s (snd (finaliseQuery env rq ev rt m x g ctx st s))"
  by (simp add: finaliseQuery_def Let_def snd_pass record_both_writes)

lemma refuse_query_writes: "writes_once env s (snd (refuse_query env rq p rt w m ctx g s))"
  by (simp add: refuse_query_def Let_def snd_pass record_both_writes)

lemma execute_query_writes: "writes_once env s (snd (execute_query env rq p rt m ctx g s))"
proof -
  let ?s1 = "s\<lparr>xs_calls := xs_calls s @ [me_id m]\<rparr>"
  have same: "same_tables s (s\<lparr>xs_calls := cs\<rparr>)" for cs by (simp add: same_tables_def)
  obtain cs where "snd (fallback env rq (tl rt) ?s1) = s\<lparr>xs_calls := cs\<rparr>"
    using fallback_state[of env rq "tl rt" ?s1] by auto
  then obtain o1 where fb: "fallback env rq (tl rt) ?s1 = (o1, s\<lparr>xs_calls := cs\<rparr>)"
    by (metis surjective_pairing)
  note fin = writes_once_from[OF same finaliseQuery_writes] same_writes[OF same]
  show ?thesis
    by (cases o1) (simp_all add: execute_query_def call_engine_def fb fin split: prod.split)
qed

lemma runUnifiedQuery_writes: "writes_once env s (snd (runUnifiedQuery env rq opt s))"
proof -
  have same: "same_tables s (s\<lparr>xs_mi9 := gs\<rparr>)" "same_tables s s" for gs by (simp_all add: same_tables_def)
  note from_gate = writes_once_from[OF same(1) refuse_query_writes] writes_once_from[OF same(1) execute_query_writes]
  have "writes_once env s (snd (govern_query env rq opt p rt w m s))" for p rt w m
    by (simp add: govern_query_def Let_def from_gate same_writes[OF same(2)] split: sum.split prod.split)
  then show ?thesis
    by (simp add: runUnifiedQuery_def Let_def same_writes[OF same(2)] split: sum.split list.split option.split)
qed

text \<open>A history of queries, each with its environment; a throw is answered and the next one runs.\<close>

fun exchange_run :: "(exchange_env \<times> unified_request \<times> query_options) list \<Rightarrow> exchange_state \<Rightarrow> exchange_state" where
  "exchange_run [] s = s"
| "exchange_run ((env, rq, opt) # qs) s = exchange_run qs (snd (runUnifiedQuery env rq opt s))"

lemma exchange_run_inv:
  "\<forall>(env, rq, opt)\<in>set qs. xe_hash env = H \<Longrightarrow> exchange_inv H s \<Longrightarrow> exchange_inv H (exchange_run qs s)"
proof (induction qs arbitrary: s)
  case (Cons qe qs)
  obtain env rq opt where qe: "qe = (env, rq, opt)" by (cases qe) auto
  have "exchange_inv H (snd (runUnifiedQuery env rq opt s))"
    using runUnifiedQuery_writes[of env s rq opt] Cons.prems record_both_inv[of env]
    by (auto simp: writes_once_def exchange_inv_same qe)
  with Cons qe show ?case by simp
qed simp

text \<open>C27. After any history of queries on a fresh database, whatever each of them answered or threw, the
  audit chain verifies, and the work ledger has exactly one row per audit record, in the same order,
  carrying that record's chain hash.\<close>

theorem ledger_in_step_with_chain:
  assumes "\<forall>(env, rq, opt)\<in>set qs. xe_hash env = H"
  shows "\<exists>w. xs_work (exchange_run qs exchange_init) = Some w
    \<and> cv_ok (verifyChain H now (xs_audit (exchange_run qs exchange_init)))
    \<and> map (\<lambda>r. we_trace_hash (wr_entry r)) (wt_rows w)
      = map (\<lambda>r. Some (ar_chain_hash r)) (rows_asc (xs_audit (exchange_run qs exchange_init)))
    \<and> sorted_wrt (<) (map wr_id (wt_rows w))"
proof -
  have "exchange_inv H exchange_init"
    by (simp add: exchange_inv_def audit_empty_def rows_asc_def audit_wf_def work_wf_def)
  from exchange_run_inv[OF assms this] show ?thesis
    by (auto simp: exchange_inv_def verifyChain_ok_iff work_wf_def)
qed

theorem ledger_in_step_with_chain_witness:
  "\<exists>w. xs_work (exchange_run [(demo_exchange (tier_env High), core_request, no_options)] exchange_init) = Some w
     \<and> cv_ok (verifyChain (\<lambda>t. t) ''now'' (xs_audit (exchange_run
          [(demo_exchange (tier_env High), core_request, no_options)] exchange_init)))"
  using ledger_in_step_with_chain[of "[(demo_exchange (tier_env High), core_request, no_options)]" "\<lambda>t. t" "''now''"]
  by (auto simp: demo_exchange_def)

section \<open>What the pipeline lets through and what it stops\<close>

lemma shipped_has_no_exchange_tier:
  "\<forall>a. dotted_ancestor a (''model-exchange.'' @ t) \<longrightarrow> map_of (po_domain_tiers shipped_policy) a = None"
proof (intro allI impI)
  fix a assume a: "dotted_ancestor a (''model-exchange.'' @ t)"
  then have "a = [] \<or> hd a = CHR ''m''" by (cases a) (auto simp: dotted_ancestor_def)
  moreover have "k \<noteq> [] \<and> hd k \<noteq> CHR ''m''" if "k \<in> fst ` set shipped_tiers" for k
    using that by (auto simp: shipped_tiers_def)
  ultimately have "a \<notin> fst ` set shipped_tiers" by blast
  then show "map_of (po_domain_tiers shipped_policy) a = None"
    by (simp add: shipped_policy_def map_of_eq_None_iff)
qed

text \<open>Under the policy the repository ships, no query ever reaches an engine: the domain
  \<open>model-exchange.<task>\<close> has no risk tier and unknown domains are unacceptable, so every query that
  passes the policy stage is refused by the gate.\<close>

theorem shipped_policy_refuses_every_query:
  assumes "runUnifiedQuery env rq no_options s = (Inr q, s')"
    and "policy_of (xe_policy env) (xs_mi9 s) = Inr (shipped_policy, g0)"
  shows "qr_status q \<in> {QRejectedPolicy, QRejectedGovernance} \<and> qr_execution q = None
    \<and> xs_calls s' = xs_calls s"
  using assms(1)
proof (cases rule: runUnifiedQuery_cases)
  case early
  then show ?thesis by (simp add: no_options_def)
next
  case (governed p w rest m ctx g gs)
  have "dc_domain ctx = ''model-exchange.'' @ ur_task_type rq"
    by (simp add: governed(6) buildDecisionContext_def exchange_domain_def no_options_def)
  then have "mr_verdict g = Block"
    using shipped_has_no_exchange_tier[of "ur_task_type rq"]
    by (intro unclassified_blocks[OF governed(7) assms(2)]) (auto simp: shipped_policy_def)
  with governed(8) show ?thesis by (auto dest!: refuse_query_InrD)
qed

theorem shipped_policy_refuses_every_query_witness:
  "\<exists>q s'. runUnifiedQuery (demo_exchange shipped_env) core_request no_options exchange_init = (Inr q, s')
     \<and> qr_execution q = None \<and> xs_calls s' = []"
proof -
  let ?env = "demo_exchange shipped_env"
  obtain p where p: "applyPolicies core_request MODEL_REGISTRY = Inr p" "pr_eligible p = [core_entry]"
    "pr_deterministicFirst p" "\<not> pr_rejected p" using core_policy by blast
  obtain g gs where g: "mi9_evaluate shipped_env 1 core_ctx mi9_init = Inr (g, gs)"
    by (rule mi9_evaluate_total[OF policy_of_shipped])
  let ?s1 = "exchange_init\<lparr>xs_mi9 := gs\<rparr>"
  have ids: "sm_model_id core_score = CORE_ID" "getModel CORE_ID = Some core_entry"
    by (simp_all add: core_score_def core_entry_def CORE_ID_def getModel_def registry_defs)
  have s1: "xs_work ?s1 \<noteq> None" "xe_uuid ?env \<notin> ar_record_id ` set (ad_rows (xs_audit ?s1))"
    by (simp_all add: audit_empty_def)
  have "runUnifiedQuery ?env core_request no_options exchange_init =
      (if mr_verdict g = Block then refuse_query ?env core_request p [core_score] core_score core_entry core_ctx g ?s1
       else execute_query ?env core_request p [core_score] core_entry core_ctx g ?s1)"
    using p g core_routing ids
    by (simp add: runUnifiedQuery_def govern_query_def no_options_def demo_exchange_def Let_def)
  then obtain q s' where q: "runUnifiedQuery ?env core_request no_options exchange_init = (Inr q, s')"
    using refuse_query_returns[OF s1, of core_request p "[core_score]" core_score core_entry core_ctx g]
      execute_query_returns[OF s1, of core_request p "[core_score]" core_entry core_ctx g] by presburger
  have "policy_of (xe_policy ?env) (xs_mi9 exchange_init) = Inr (shipped_policy, snd (projr (policy_of shipped_env mi9_init)))"
    by (simp add: demo_exchange_def)
  from shipped_policy_refuses_every_query[OF q this] q show ?thesis by auto
qed

text \<open>A verdict that asks for a human co-signature holds nothing back: if an admissible engine answers,
  the caller gets the answer at once, with status 200 and not rejected, while the audit record of
  the same query says the action is held for co-signature.\<close>

theorem cosign_verdict_still_delivers:
  assumes "runUnifiedQuery env rq opt s = (Inr q, s')" "qr_mi9 q = Some g"
    and "mr_verdict g \<in> {AllowWithCosign, Escalate}" "\<not> qr_rejected q"
  shows "\<exists>x e r. qr_execution q = Some x \<and> er_answer x \<noteq> None \<and> query_http_status q = 200
    \<and> qr_audit_record q = Some r \<and> rec_payload r = exchange_payload env e \<and> xa_outcome e = HeldForCosign"
  using assms(1)
proof (cases rule: runUnifiedQuery_cases)
  case early
  with assms(2) show ?thesis by simp
next
  case (governed p w rest m ctx g' gs)
  note routing = routing_facts[OF governed(1), of "pr_deterministicFirst p", unfolded governed(4)]
  have "mr_verdict g' \<noteq> Block"
    using governed(8) assms(2,3) by (auto dest!: refuse_query_InrD)
  with governed(8) have ex: "execute_query env rq p (w # rest) m ctx g' (s\<lparr>xs_mi9 := gs\<rparr>) = (Inr q, s')" by simp
  obtain cs where "qr_mi9 q = Some g'" "answered_by env rq cs q"
    using execute_query_spec[OF routing(1) refl governed(5) ex] assms(4) by auto
  moreover have "mr_humanCoSignRequired g"
    using governed(7) assms(2,3) \<open>qr_mi9 q = Some g'\<close> by (auto elim!: mi9_evaluate_InrE)
  moreover have "er_answer (executeEngine (xe_engines env) n rq) \<noteq> None"
    if "er_ok (executeEngine (xe_engines env) n rq)" for n
    using executeEngine_ok that by (auto simp: result_ok_def)
  ultimately show ?thesis using assms(2)
    by (auto simp: answered_by_def query_http_status_def split: if_splits)
qed

lemma engine_reached:
  assumes "runUnifiedQuery env rq opt s = (Inr q, s')" "qr_mi9 q = Some g" "mr_verdict g \<noteq> Block"
    and some: "n \<in> set MODEL_REGISTRY" "admissible rq n" "er_ok (executeEngine (xe_engines env) n rq)"
  shows "\<not> qr_rejected q"
  using assms(1)
proof (cases rule: runUnifiedQuery_cases)
  case early
  with assms(2) show ?thesis by simp
next
  case (governed p w rest m ctx g' gs)
  note routing = routing_facts[OF governed(1), of "pr_deterministicFirst p", unfolded governed(4)]
  have "mr_verdict g' \<noteq> Block"
    using governed(8) assms(2,3) by (auto dest!: refuse_query_InrD)
  with governed(8) have ex: "execute_query env rq p (w # rest) m ctx g' (s\<lparr>xs_mi9 := gs\<rparr>) = (Inr q, s')" by simp
  have "me_id n \<in> set (map sm_model_id (w # rest))" using some unfolding routing(3) by blast
  then obtain r where "r \<in> set (w # rest)" "sm_model_id r = me_id n" by (metis imageE list.set_map)
  with some have "\<not> all_failed env rq (w # rest)"
    unfolding all_failed_def using getModel_member by metis
  with execute_query_spec[OF routing(1) refl governed(5) ex] show ?thesis by (auto split: if_splits)
qed

lemma execute_query_failed:
  assumes "execute_query env rq p rt m ctx g s = (Inr q, s')" "qr_status q \<in> {QRejectedPolicy, QFailed}"
  shows "same_tables s s'"
proof -
  let ?s1 = "s\<lparr>xs_calls := xs_calls s @ [me_id m]\<rparr>"
  obtain cs where "snd (fallback env rq (tl rt) ?s1) = s\<lparr>xs_calls := cs\<rparr>"
    using fallback_state[of env rq "tl rt" ?s1] by auto
  then obtain o1 where fb: "fallback env rq (tl rt) ?s1 = (o1, s\<lparr>xs_calls := cs\<rparr>)"
    by (metis surjective_pairing)
  show ?thesis
    using assms by (cases o1) (auto simp: execute_query_def call_engine_def fb same_tables_def
        dest!: finaliseQuery_InrD split: if_splits prod.splits)
qed

theorem cosign_verdict_still_delivers_witness:
  "\<exists>q s' x. runUnifiedQuery (demo_exchange (tier_env High)) core_request no_options exchange_init = (Inr q, s')
     \<and> qr_execution q = Some x \<and> er_answer x \<noteq> None \<and> query_http_status q = 200"
proof -
  let ?env = "demo_exchange (tier_env High)"
  obtain q s' g where run: "runUnifiedQuery ?env core_request no_options exchange_init = (Inr q, s')"
    "qr_mi9 q = Some g" "mr_verdict g = AllowWithCosign"
    using core_run[of High] by auto
  obtain p where "applyPolicies core_request MODEL_REGISTRY = Inr p" "pr_eligible p = [core_entry]"
    using core_policy by blast
  then have "core_entry \<in> set (filter (admissible core_request) MODEL_REGISTRY)"
    using applyPolicies_eligible by (metis list.set_intros(1))
  moreover have "er_ok (executeEngine (xe_engines ?env) core_entry core_request)"
    using core_engine_answers by (simp add: demo_exchange_def)
  ultimately have "\<not> qr_rejected q"
    using run by (intro engine_reached[OF run(1,2)]) auto
  with cosign_verdict_still_delivers[OF run(1,2)] run show ?thesis by auto
qed

text \<open>A query rejected by the policy stage, or for which every engine failed, leaves no trace in the
  work ledger and none in the audit chain, even when engines were called for it.\<close>

theorem failed_queries_unrecorded:
  assumes "runUnifiedQuery env rq opt s = (Inr q, s')" "qr_status q \<in> {QRejectedPolicy, QFailed}"
  shows "xs_work s' = xs_work s \<and> xs_audit s' = xs_audit s"
  using assms(1)
proof (cases rule: runUnifiedQuery_cases)
  case early
  then show ?thesis by simp
next
  case (governed p w rest m ctx g gs)
  have "mr_verdict g \<noteq> Block"
    using governed(8) assms(2) by (auto dest!: refuse_query_InrD)
  with governed(8) have ex: "execute_query env rq p (w # rest) m ctx g (s\<lparr>xs_mi9 := gs\<rparr>) = (Inr q, s')" by simp
  show ?thesis using execute_query_failed[OF ex] assms(2) by (auto simp: same_tables_def)
qed

theorem failed_queries_unrecorded_witness:
  "\<exists>q s'. runUnifiedQuery (demo_exchange (tier_env Minimal))
       (core_request\<lparr>ur_allowed_providers := Some [JStr ''nobody'']\<rparr>) no_options exchange_init = (Inr q, s')
     \<and> qr_status q = QRejectedPolicy \<and> xs_audit s' = audit_empty"
proof -
  let ?rq = "core_request\<lparr>ur_allowed_providers := Some [JStr ''nobody'']\<rparr>"
  have "\<exists>q. runUnifiedQuery (demo_exchange (tier_env Minimal)) ?rq no_options exchange_init = (Inr q, exchange_init)
      \<and> qr_status q = QRejectedPolicy"
    by (simp add: runUnifiedQuery_def policy_eval_defs core_request_def sample_request_def registry_defs
        provider_ok_def toLowerCase_def lower_char_def early_result_def)
  then obtain q where q: "runUnifiedQuery (demo_exchange (tier_env Minimal)) ?rq no_options exchange_init
      = (Inr q, exchange_init)" "qr_status q = QRejectedPolicy" by blast
  then have "xs_audit exchange_init = audit_empty" by simp
  with failed_queries_unrecorded[OF q(1)] q show ?thesis by auto
qed

text \<open>The policy stage reads a confidentiality level other than the exact word \<open>sovereign\<close> as no
  restriction, and a jurisdiction pin other than the exact words \<open>EU\<close> and \<open>sovereign\<close> as no pin; the
  route passes any value through, so a misspelt restriction opens the query to every engine.\<close>

theorem unrecognised_restriction_is_none:
  assumes "c \<noteq> ''sovereign''" "j \<notin> {JStr ''EU'', JStr ''sovereign''}"
  shows "applyPolicies (rq\<lparr>ur_confidentiality := c, ur_jurisdiction_pin := j\<rparr>) registry
       = applyPolicies (rq\<lparr>ur_confidentiality := ''public'', ur_jurisdiction_pin := JStr ''any''\<rparr>) registry"
proof -
  let ?a = "rq\<lparr>ur_confidentiality := c, ur_jurisdiction_pin := j\<rparr>"
  let ?b = "rq\<lparr>ur_confidentiality := ''public'', ur_jurisdiction_pin := JStr ''any''\<rparr>"
  have "capability_ok ?a = capability_ok ?b" by (simp add: capability_ok_def fun_eq_iff)
  moreover have "estimateCost m ?a = estimateCost m ?b" for m by (simp add: estimateCost_def)
  moreover have task: "ur_task_type ?a = ur_task_type ?b" by simp
  ultimately have same: "rule_P1 ?a = rule_P1 ?b" "rule_P2 ?a = rule_P2 ?b" "rule_P3 ?a = rule_P3 ?b"
    "rule_P4 ?a = rule_P4 ?b" "rule_P5 ?a = rule_P5 ?b" "rule_P6 ?a = rule_P6 ?b" "rule_P7 ?a = rule_P7 ?b"
    "rule_P8 ?a = rule_P8 ?b"
    using assms by (intro ext, simp add: rule_P1_def rule_P2_def rule_P3_def rule_P4_def rule_P5_def
        rule_P6_def rule_P7_def rule_P8_def)+
  show ?thesis unfolding applyPolicies_def same task ..
qed

theorem unrecognised_restriction_is_none_witness:
  "applyPolicies (sample_request\<lparr>ur_confidentiality := ''Sovereign'', ur_jurisdiction_pin := JStr ''eu''\<rparr>) MODEL_REGISTRY
   = applyPolicies (sample_request\<lparr>ur_confidentiality := ''public'', ur_jurisdiction_pin := JStr ''any''\<rparr>) MODEL_REGISTRY"
  by (rule unrecognised_restriction_is_none) simp_all

section \<open>Cost ledger\<close>

text \<open>The cost ledger reconciles: the requests counted by model add up to the total, as do those by
  task type, the token counts by model add up to those of the rows, and a model appears exactly when
  some row chose it.\<close>

theorem cost_ledger_reconciles:
  assumes "getCostLedger t = Inr c"
  shows "\<exists>w. t = Some w \<and> finite (dom (cs_by_model c)) \<and> finite (dom (cs_by_task_type c))
    \<and> dom (cs_by_model c) = (\<lambda>r. we_chosen_model_id (wr_entry r)) ` set (wt_rows w)
    \<and> (\<Sum>k\<in>dom (cs_by_model c). mc_requests (the (cs_by_model c k))) = cs_total_requests c
    \<and> (\<Sum>k\<in>dom (cs_by_task_type c). tc_requests (the (cs_by_task_type c k))) = cs_total_requests c
    \<and> (\<Sum>k\<in>dom (cs_by_model c). mc_input_tokens (the (cs_by_model c k)))
        = sum_list (map (\<lambda>r. we_input_tokens (wr_entry r)) (wt_rows w))
    \<and> (\<Sum>k\<in>dom (cs_by_model c). mc_output_tokens (the (cs_by_model c k)))
        = sum_list (map (\<lambda>r. we_output_tokens (wr_entry r)) (wt_rows w))"
proof -
  obtain w where w: "t = Some w" using assms by (auto simp: getCostLedger_def split: option.splits)
  define es where "es = map wr_entry (wt_rows w)"
  have c: "cs_total_requests c = length es"
    "cs_by_model c = (\<lambda>k. if k \<in> set (map we_chosen_model_id es) then Some (costs_of_model es k) else None)"
    "cs_by_task_type c = (\<lambda>k. if k \<in> set (map we_task_type es) then Some (costs_of_task es k) else None)"
    using assms unfolding getCostLedger_def w option.case es_def[symmetric] Let_def by auto
  have dom: "dom (cs_by_model c) = set (map we_chosen_model_id es)"
    "dom (cs_by_task_type c) = set (map we_task_type es)"
    by (auto simp: c dom_def)
  have at: "the (cs_by_model c k) = costs_of_model es k" if "k \<in> set (map we_chosen_model_id es)" for k
    using that by (simp add: c)
  have tat: "the (cs_by_task_type c k) = costs_of_task es k" if "k \<in> set (map we_task_type es)" for k
    using that by (simp add: c)
  have rows: "sum_list (map f es) = sum_list (map (\<lambda>r. f (wr_entry r)) (wt_rows w))" for f :: "work_entry \<Rightarrow> int"
    by (simp add: es_def o_def)
  have "(\<Sum>k\<in>dom (cs_by_model c). mc_requests (the (cs_by_model c k))) = length es"
    unfolding dom using length_groups[of "set (map we_chosen_model_id es)" we_chosen_model_id es]
    by (simp add: at costs_of_model_def Let_def)
  moreover have "(\<Sum>k\<in>dom (cs_by_task_type c). tc_requests (the (cs_by_task_type c k))) = length es"
    unfolding dom using length_groups[of "set (map we_task_type es)" we_task_type es]
    by (simp add: tat costs_of_task_def Let_def)
  moreover have "(\<Sum>k\<in>dom (cs_by_model c). mc_input_tokens (the (cs_by_model c k))) = sum_list (map we_input_tokens es)"
    unfolding dom using sum_list_groups[where K = "set (map we_chosen_model_id es)" and key = we_chosen_model_id and xs = es and f = we_input_tokens]
    by (simp add: at costs_of_model_def Let_def)
  moreover have "(\<Sum>k\<in>dom (cs_by_model c). mc_output_tokens (the (cs_by_model c k))) = sum_list (map we_output_tokens es)"
    unfolding dom using sum_list_groups[where K = "set (map we_chosen_model_id es)" and key = we_chosen_model_id and xs = es and f = we_output_tokens]
    by (simp add: at costs_of_model_def Let_def)
  moreover have "dom (cs_by_model c) = (\<lambda>r. we_chosen_model_id (wr_entry r)) ` set (wt_rows w)"
    unfolding dom by (auto simp: es_def)
  moreover have "finite (dom (cs_by_model c))" "finite (dom (cs_by_task_type c))"
    unfolding dom by simp_all
  ultimately show ?thesis using w rows by (simp add: c(1))
qed

theorem cost_ledger_reconciles_witness:
  "\<exists>c. getCostLedger (xs_work exchange_init) = Inr c \<and> dom (cs_by_model c) = {}"
proof -
  obtain c where c: "getCostLedger (xs_work exchange_init) = Inr c" by (simp add: getCostLedger_def Let_def)
  from cost_ledger_reconciles[OF c] c show ?thesis by auto
qed

text \<open>A verified confidence is a percentage, and a simulated answer is never verified above one half,
  whatever engine gave it and whatever it reported.\<close>

theorem verified_confidence_bounds:
  "0 \<le> ax_verified_confidence (assure m x) \<and> ax_verified_confidence (assure m x) \<le> (if er_simulated x then 50 else 100)"
  using assure_bounds[where m = m and x = x] by simp

end
