(* ===== verification/ModelBudget.thy ===== *)
theory ModelBudget imports Mandate begin

text \<open>
  The model budget, \<open>src/src/runtime/automation/model-budget.ts\<close>: the signed budget token, the durable
  integer ledger of reservations and settlements, the bounds of an admitted request and the charge of
  a response.  The two SQLite tables are lists of rows; a transaction that throws leaves them as they
  were.  HMAC, base64url, \<open>JSON.parse\<close> and the reading of a number are the record \<open>blib\<close>, beside the
  dates and number texts of \<open>lib\<close>.  Amounts are micro-dollars.
\<close>

section \<open>Platform\<close>

record blib =
  bl_hmac :: "string \<Rightarrow> string \<Rightarrow> string"
  bl_b64 :: "string \<Rightarrow> string"
  bl_unb64 :: "string \<Rightarrow> string"
  bl_parse :: "string \<Rightarrow> json option"
  bl_number :: "string \<Rightarrow> jsnum"

text \<open>\<open>Number.isSafeInteger(v) && v >= 0\<close>, as the integer.\<close>

definition safe_integer :: "jsnum \<Rightarrow> int option" where
  "safe_integer x =
     (case x of Num q \<Rightarrow> if of_int \<lfloor>q\<rfloor> = q \<and> 0 \<le> q \<and> q \<le> 2 ^ 53 - 1 then Some \<lfloor>q\<rfloor> else None | _ \<Rightarrow> None)"

fun json_number :: "blib \<Rightarrow> json \<Rightarrow> jsnum option" where
  "json_number B (JNum t) = Some (bl_number B t)"
| "json_number B _ = None"

definition json_integer :: "blib \<Rightarrow> json \<Rightarrow> int option" where
  "json_integer B v = Option.bind (json_number B v) safe_integer"

definition id_first :: "char \<Rightarrow> bool" where
  "id_first c \<longleftrightarrow> is_alnum c"

definition id_rest :: "char \<Rightarrow> bool" where
  "id_rest c \<longleftrightarrow> is_alnum c \<or> c \<in> set ''._-''"

definition safeId :: "string \<Rightarrow> bool" where
  "safeId = id_text id_first id_rest 119"

section \<open>Tokens\<close>

definition RATE_CARD_ID :: string where
  "RATE_CARD_ID = ''dashscope-intl-qwen3.8-max-20260902''"

definition RATE_MODEL :: string where
  "RATE_MODEL = ''qwen3.8-max''"

definition inputMicroUsd :: int where "inputMicroUsd = 2"

definition outputMicroUsd :: int where "outputMicroUsd = 6"

datatype budget_role = Author | Verifier

fun role_name :: "budget_role \<Rightarrow> string" where
  "role_name Author = ''author''"
| "role_name Verifier = ''verifier''"

record budget_claims =
  bc_budget_id :: string
  bc_mission_id :: string
  bc_role :: budget_role
  bc_ceiling :: int
  bc_prior :: int
  bc_expires_at :: string

definition AUDIENCE :: string where
  "AUDIENCE = ''ronor-model-egress/v1''"

definition claims_json :: "'k lib \<Rightarrow> budget_claims \<Rightarrow> json" where
  "claims_json L c =
     JObj [(''audience'', JStr AUDIENCE), (''budget_id'', JStr (bc_budget_id c)),
           (''mission_id'', JStr (bc_mission_id c)), (''role'', JStr (role_name (bc_role c))),
           (''ceiling_micro_usd'', JNum (lib_numText L (js_int (bc_ceiling c)))),
           (''prior_micro_usd'', JNum (lib_numText L (js_int (bc_prior c)))),
           (''expires_at'', JStr (bc_expires_at c)), (''rate_card'', JStr RATE_CARD_ID)]"

definition micro :: "(rat \<Rightarrow> int) \<Rightarrow> jsnum \<Rightarrow> int" where
  "micro rnd x = (case x of Num q \<Rightarrow> rnd (q * 1000000) | _ \<Rightarrow> 0)"

text \<open>\<open>Math.floor\<close> of the ceiling, \<open>Math.ceil\<close> of what was spent before.\<close>

definition claims_of :: "execution_mandate \<Rightarrow> string \<Rightarrow> jsnum \<Rightarrow> budget_role \<Rightarrow> budget_claims" where
  "claims_of m run_id accounted role =
     \<lparr>bc_budget_id = run_id, bc_mission_id = md_mission_id m, bc_role = role,
      bc_ceiling = micro floor (md_max_cost_usd m), bc_prior = micro math_ceil accounted,
      bc_expires_at = md_expires_at m\<rparr>"

definition signModelBudget ::
  "'k lib \<Rightarrow> blib \<Rightarrow> execution_mandate \<Rightarrow> string \<Rightarrow> jsnum \<Rightarrow> budget_role \<Rightarrow> string \<Rightarrow> string + string" where
  "signModelBudget L B m run_id accounted role key =
     (if utf8_length key < 32 \<or> \<not> safeId run_id \<or> \<not> safeId (md_mission_id m)
         \<or> \<not> js_finite accounted \<or> js_less accounted (js_int 0)
         \<or> \<not> js_finite (md_max_cost_usd m) \<or> js_le (md_max_cost_usd m) (js_int 0)
      then Inl ''budget_claims_invalid''
      else
        let payload = bl_b64 B (render (claims_json L (claims_of m run_id accounted role)))
        in Inr (payload @ ''.'' @ bl_b64 B (bl_hmac B key payload)))"

text \<open>\<open>token.split('.')\<close> with at most one dot.\<close>

definition split_token :: "string \<Rightarrow> (string \<times> string) option" where
  "split_token token =
     (let payload = takeWhile (\<lambda>c. c \<noteq> CHR ''.'') token;
          rest = drop (length payload) token
      in case rest of [] \<Rightarrow> None
         | _ # signature \<Rightarrow>
             let extra = drop (length (takeWhile (\<lambda>c. c \<noteq> CHR ''.'') signature)) signature
             in if payload = [] \<or> takeWhile (\<lambda>c. c \<noteq> CHR ''.'') signature = [] \<or> takeWhile (\<lambda>c. c \<noteq> CHR ''.'') (tl extra) \<noteq> [] then None
                else Some (payload, takeWhile (\<lambda>c. c \<noteq> CHR ''.'') signature))"

fun member_of :: "json \<Rightarrow> string \<Rightarrow> json" where
  "member_of (JObj es) k = nullish (map_of es k) JUndefined"
| "member_of _ k = JUndefined"

fun role_of :: "json \<Rightarrow> budget_role option" where
  "role_of (JStr r) = (if r = ''author'' then Some Author else if r = ''verifier'' then Some Verifier else None)"
| "role_of _ = None"

text \<open>\<open>expires_at\<close> is taken as the text that \<open>signModelBudget\<close> writes; \<open>Date.parse\<close> would coerce another
  value that somebody holding the key had signed.\<close>

fun string_of :: "json \<Rightarrow> string option" where
  "string_of (JStr s) = Some s"
| "string_of _ = None"

definition read_claims :: "'k lib \<Rightarrow> blib \<Rightarrow> int \<Rightarrow> json \<Rightarrow> budget_claims option" where
  "read_claims L B now v =
     (case (string_of (member_of v ''budget_id''), string_of (member_of v ''mission_id''),
            role_of (member_of v ''role''), json_integer B (member_of v ''ceiling_micro_usd''),
            json_integer B (member_of v ''prior_micro_usd''), string_of (member_of v ''expires_at'')) of
        (Some budget, Some mission, Some role, Some ceil, Some prior, Some expires) \<Rightarrow>
          if member_of v ''audience'' \<noteq> JStr AUDIENCE \<or> \<not> safeId budget \<or> \<not> safeId mission
             \<or> member_of v ''rate_card'' \<noteq> JStr RATE_CARD_ID \<or> ceil = 0 \<or> prior \<ge> ceil
             \<or> \<not> js_finite (lib_dateParse L expires) \<or> js_le (lib_dateParse L expires) (js_int now)
          then None
          else Some \<lparr>bc_budget_id = budget, bc_mission_id = mission, bc_role = role, bc_ceiling = ceil,
                     bc_prior = prior, bc_expires_at = expires\<rparr>
      | _ \<Rightarrow> None)"

definition verifyModelBudget :: "'k lib \<Rightarrow> blib \<Rightarrow> string \<Rightarrow> string \<Rightarrow> int \<Rightarrow> budget_claims option" where
  "verifyModelBudget L B token key now =
     (if utf8_length key < 32 \<or> length token > 4096 then None
      else case split_token token of
        None \<Rightarrow> None
      | Some (payload, signature) \<Rightarrow>
          if bl_unb64 B signature \<noteq> bl_hmac B key payload then None
          else case bl_parse B (bl_unb64 B payload) of None \<Rightarrow> None | Some v \<Rightarrow> read_claims L B now v)"

definition BUDGET_QUERY_DOMAIN :: string where
  "BUDGET_QUERY_DOMAIN = ''ronor-budget-query/v1:''"

definition signBudgetQuery :: "blib \<Rightarrow> string \<Rightarrow> string \<Rightarrow> string + string" where
  "signBudgetQuery B budgetId key =
     (if utf8_length key < 32 \<or> \<not> safeId budgetId then Inl ''budget_query_invalid''
      else Inr (bl_b64 B (bl_hmac B key (BUDGET_QUERY_DOMAIN @ budgetId))))"

definition verifyBudgetQuery :: "blib \<Rightarrow> string \<Rightarrow> string \<Rightarrow> string \<Rightarrow> bool" where
  "verifyBudgetQuery B token budgetId key =
     (if length token > 256 then False
      else case signBudgetQuery B budgetId key of
        Inl _ \<Rightarrow> False
      | Inr expected \<Rightarrow> bl_unb64 B token = bl_unb64 B expected)"

section \<open>Ledger\<close>

record budget_row =
  bg_id :: string
  bg_mission :: string
  bg_ceiling :: int
  bg_spent :: int
  bg_frozen :: bool

datatype reservation_state = Pending | Settled

record reservation_row =
  rv_id :: string
  rv_budget :: string
  rv_amount :: int
  rv_state :: reservation_state
  rv_actual :: "int option"

record budget_ledger =
  lg_budgets :: "budget_row list"
  lg_reservations :: "reservation_row list"

record budget_snapshot =
  sn_mission :: string
  sn_ceiling :: int
  sn_spent :: int
  sn_frozen :: bool
  sn_pending :: nat
  sn_outstanding :: int

definition MAX_CONCURRENT_DISPATCH :: nat where
  "MAX_CONCURRENT_DISPATCH = 16"

definition ledger_empty :: budget_ledger where
  "ledger_empty = \<lparr>lg_budgets = [], lg_reservations = []\<rparr>"

definition pending_of :: "string \<Rightarrow> budget_ledger \<Rightarrow> reservation_row list" where
  "pending_of b l = filter (\<lambda>r. rv_budget r = b \<and> rv_state r = Pending) (lg_reservations l)"

definition outstanding :: "string \<Rightarrow> budget_ledger \<Rightarrow> int" where
  "outstanding b l = sum_list (map rv_amount (pending_of b l))"

definition snapshot :: "string \<Rightarrow> budget_ledger \<Rightarrow> budget_snapshot option" where
  "snapshot i l =
     (case row_find bg_id i (lg_budgets l) of
        None \<Rightarrow> None
      | Some b \<Rightarrow> Some \<lparr>sn_mission = bg_mission b, sn_ceiling = bg_ceiling b, sn_spent = bg_spent b,
                        sn_frozen = bg_frozen b, sn_pending = length (pending_of i l),
                        sn_outstanding = outstanding i l\<rparr>)"

text \<open>\<open>INSERT OR IGNORE\<close> of the budget the claims name.\<close>

definition open_budget :: "budget_claims \<Rightarrow> budget_ledger \<Rightarrow> budget_ledger" where
  "open_budget c l =
     (if bc_budget_id c \<in> bg_id ` set (lg_budgets l) then l
      else l\<lparr>lg_budgets := lg_budgets l @
        [\<lparr>bg_id = bc_budget_id c, bg_mission = bc_mission_id c, bg_ceiling = bc_ceiling c,
          bg_spent = bc_prior c, bg_frozen = False\<rparr>]\<rparr>)"

text \<open>\<open>reserve\<close>; \<open>uuid\<close> is the value of \<open>crypto.randomUUID()\<close>.  A throw rolls the transaction back.\<close>

definition reserve ::
  "'k lib \<Rightarrow> int \<Rightarrow> string \<Rightarrow> budget_claims \<Rightarrow> jsnum \<Rightarrow> budget_ledger \<Rightarrow> string + (string \<times> budget_ledger)" where
  "reserve L now uuid c amount l =
     (case safe_integer amount of
        None \<Rightarrow> Inl ''budget_reservation_invalid''
      | Some n \<Rightarrow>
          if n < 1 \<or> js_le (lib_dateParse L (bc_expires_at c)) (js_int now) then Inl ''budget_reservation_invalid''
          else
            let l1 = open_budget c l
            in case snapshot (bc_budget_id c) l1 of
                 None \<Rightarrow> Inl ''unreachable''
               | Some row \<Rightarrow>
                   if sn_mission row \<noteq> bc_mission_id c \<or> sn_ceiling row \<noteq> bc_ceiling c
                     then Inl ''budget_identity_mismatch''
                   else if sn_frozen row then Inl ''budget_unresolved_dispatch''
                   else if MAX_CONCURRENT_DISPATCH \<le> sn_pending row then Inl ''budget_dispatch_concurrency_exceeded''
                   else
                     let spent = max (sn_spent row) (bc_prior c)
                     in if spent + sn_outstanding row + n > sn_ceiling row
                          then Inl ''budget_insufficient_before_dispatch''
                        else if uuid \<in> rv_id ` set (lg_reservations l1)
                          then Inl ''UNIQUE constraint failed: model_reservations.id''
                        else Inr (uuid,
                          \<lparr>lg_budgets = row_update (\<lambda>b. bg_id b = bc_budget_id c) (\<lambda>b. b\<lparr>bg_spent := spent\<rparr>) (lg_budgets l1),
                           lg_reservations = lg_reservations l1 @
                             [\<lparr>rv_id = uuid, rv_budget = bc_budget_id c, rv_amount = n, rv_state = Pending,
                               rv_actual = None\<rparr>]\<rparr>))"

definition settle_ledger :: "string \<Rightarrow> jsnum option \<Rightarrow> budget_ledger \<Rightarrow> string + budget_ledger" where
  "settle_ledger i actual l =
     (if actual \<noteq> None \<and> safe_integer (the actual) = None then Inl ''budget_usage_invalid''
      else case row_find rv_id i (lg_reservations l) of
        None \<Rightarrow> Inl ''budget_settlement_invalid''
      | Some r \<Rightarrow>
          if rv_state r \<noteq> Pending then Inl ''budget_settlement_invalid''
          else case actual of
            None \<Rightarrow> Inr (l\<lparr>lg_budgets := row_update (\<lambda>b. bg_id b = rv_budget r) (\<lambda>b. b\<lparr>bg_frozen := True\<rparr>) (lg_budgets l)\<rparr>)
          | Some x \<Rightarrow>
              let n = the (safe_integer x)
              in Inr \<lparr>lg_budgets = row_update (\<lambda>b. bg_id b = rv_budget r)
                        (\<lambda>b. b\<lparr>bg_spent := bg_spent b + n, bg_frozen := bg_frozen b \<or> n > rv_amount r\<rparr>) (lg_budgets l),
                      lg_reservations = row_update (\<lambda>q. rv_id q = i)
                        (\<lambda>q. q\<lparr>rv_state := Settled, rv_actual := Some n\<rparr>) (lg_reservations l)\<rparr>)"

record budget_settlement =
  bs_budget_id :: string
  bs_settled :: int
  bs_settled_reservations :: nat
  bs_pending_reservations :: nat
  bs_outstanding :: int
  bs_frozen :: bool

definition settled_of :: "string \<Rightarrow> budget_ledger \<Rightarrow> reservation_row list" where
  "settled_of b l = filter (\<lambda>r. rv_budget r = b \<and> rv_state r = Settled) (lg_reservations l)"

definition settled_total :: "string \<Rightarrow> budget_ledger \<Rightarrow> int" where
  "settled_total b l = sum_list (map (\<lambda>r. nullish (rv_actual r) 0) (settled_of b l))"

definition settlement :: "string \<Rightarrow> budget_ledger \<Rightarrow> budget_settlement option" where
  "settlement i l =
     (if \<not> safeId i then None
      else case row_find bg_id i (lg_budgets l) of
        None \<Rightarrow> None
      | Some b \<Rightarrow> Some \<lparr>bs_budget_id = i, bs_settled = settled_total i l,
                        bs_settled_reservations = length (settled_of i l),
                        bs_pending_reservations = length (pending_of i l), bs_outstanding = outstanding i l,
                        bs_frozen = bg_frozen b\<rparr>)"

section \<open>Admitted requests\<close>

text \<open>\<open>Object.keys\<close>; the keys of an array are its indices, none of which is the name of a member.\<close>

fun object_keys :: "json \<Rightarrow> string list" where
  "object_keys (JObj es) = map fst es"
| "object_keys (JArr vs) = map (\<lambda>_. ''0'') vs"
| "object_keys _ = []"

fun is_object :: "json \<Rightarrow> bool" where
  "is_object (JObj es) = True"
| "is_object _ = False"

fun array_items :: "json \<Rightarrow> json list option" where
  "array_items (JArr vs) = Some vs"
| "array_items _ = None"

text \<open>\<open>typeof v === 'object'\<close> and truthy: an object or an array.\<close>

fun is_objectlike :: "json \<Rightarrow> bool" where
  "is_objectlike (JObj es) = True"
| "is_objectlike (JArr vs) = True"
| "is_objectlike _ = False"

text \<open>Truthiness; a number is truthy unless it reads as zero or NaN.\<close>

fun truthy :: "blib \<Rightarrow> json \<Rightarrow> bool" where
  "truthy B JNull = False"
| "truthy B JUndefined = False"
| "truthy B (JBool b) = b"
| "truthy B (JStr s) = (s \<noteq> [])"
| "truthy B (JNum t) = (bl_number B t \<noteq> NaN \<and> bl_number B t \<noteq> Num 0)"
| "truthy B _ = True"

definition has_member :: "json \<Rightarrow> string \<Rightarrow> bool" where
  "has_member v k \<longleftrightarrow> k \<in> set (object_keys v)"

definition keys_within :: "string list \<Rightarrow> json \<Rightarrow> bool" where
  "keys_within ks v \<longleftrightarrow> set (object_keys v) \<subseteq> set ks"

definition ephemeralCacheControl :: "json \<Rightarrow> bool" where
  "ephemeralCacheControl v \<longleftrightarrow>
     is_object v \<and> length (object_keys v) = 1 \<and> member_of v ''type'' = JStr ''ephemeral''"

fun is_string :: "json \<Rightarrow> bool" where
  "is_string (JStr s) = True"
| "is_string _ = False"

definition thinking_block :: "json \<Rightarrow> bool" where
  "thinking_block b \<longleftrightarrow>
     is_object b \<and>
     (if member_of b ''type'' = JStr ''thinking''
      then is_string (member_of b ''thinking'')
         \<and> (member_of b ''signature'' \<in> {JUndefined, JNull} \<or> is_string (member_of b ''signature''))
         \<and> keys_within [''type'', ''thinking'', ''signature''] b
      else if member_of b ''type'' = JStr ''redacted_thinking''
      then is_string (member_of b ''data'') \<and> keys_within [''type'', ''data''] b
      else False)"

definition thinkingBlocksOnly :: "json \<Rightarrow> bool" where
  "thinkingBlocksOnly v \<longleftrightarrow>
     (case array_items v of None \<Rightarrow> False | Some bs \<Rightarrow> bs \<noteq> [] \<and> list_all thinking_block bs)"

definition textContentBlock :: "json \<Rightarrow> bool" where
  "textContentBlock c \<longleftrightarrow>
     is_object c \<and> member_of c ''type'' = JStr ''text'' \<and> is_string (member_of c ''text'')
     \<and> keys_within [''type'', ''text'', ''cache_control''] c
     \<and> (has_member c ''cache_control'' \<longrightarrow> ephemeralCacheControl (member_of c ''cache_control''))"

definition CHAT_PATH :: string where
  "CHAT_PATH = ''/v1/chat/completions''"

definition allowed_members :: "string \<Rightarrow> string list" where
  "allowed_members path =
     (if path = CHAT_PATH
      then [''model'', ''messages'', ''tools'', ''tool_choice'', ''parallel_tool_calls'', ''max_tokens'',
            ''max_completion_tokens'', ''stream'', ''temperature'', ''top_p'', ''stop'', ''presence_penalty'',
            ''frequency_penalty'', ''seed'', ''n'', ''enable_thinking'', ''reasoning_effort'', ''response_format'']
      else [''model'', ''input'', ''instructions'', ''tools'', ''store'', ''text'', ''max_output_tokens'',
            ''stream'', ''temperature'', ''top_p'', ''reasoning'', ''enable_thinking''])"

definition tool_ok :: "string \<Rightarrow> json \<Rightarrow> bool" where
  "tool_ok path t \<longleftrightarrow> is_objectlike t \<and> member_of t ''type'' = JStr ''function''
     \<and> keys_within (if path = CHAT_PATH then [''type'', ''function'']
                    else [''type'', ''name'', ''description'', ''parameters'', ''strict'']) t"

definition content_ok :: "json \<Rightarrow> json \<Rightarrow> bool" where
  "content_ok msg content \<longleftrightarrow>
     (if content = JUndefined
      then (case array_items (member_of msg ''tool_calls'') of None \<Rightarrow> False | Some cs \<Rightarrow> cs \<noteq> [])
      else content = JNull \<or> is_string content
         \<or> (case array_items content of None \<Rightarrow> False | Some bs \<Rightarrow> list_all textContentBlock bs))"

definition message_error :: "json \<Rightarrow> string option" where
  "message_error msg =
     (if \<not> is_objectlike msg then Some ''budget_payload_invalid''
      else if \<not> keys_within [''role'', ''content'', ''tool_calls'', ''tool_call_id'', ''name'', ''reasoning_content'',
                ''function_call'', ''cache_control'', ''thinking_blocks''] msg then Some ''budget_message_unsupported''
      else if has_member msg ''cache_control'' \<and> \<not> ephemeralCacheControl (member_of msg ''cache_control'')
        then Some ''budget_message_unsupported''
      else if has_member msg ''thinking_blocks'' \<and> \<not> thinkingBlocksOnly (member_of msg ''thinking_blocks'')
        then Some ''budget_message_unsupported''
      else if \<not> content_ok msg (member_of msg ''content'') then Some ''budget_nontext_refused''
      else None)"

fun messages_error :: "json list \<Rightarrow> string option" where
  "messages_error [] = None"
| "messages_error (m # ms) = (case message_error m of Some e \<Rightarrow> Some e | None \<Rightarrow> messages_error ms)"

record reserved_request =
  rq_payload :: json
  rq_inputBound :: int
  rq_outputBound :: int
  rq_reserveMicroUsd :: int

text \<open>The rest of the payload once the output limit is fixed: one member removed, one overwritten.\<close>

fun set_member :: "string \<Rightarrow> json \<Rightarrow> (string \<times> json) list \<Rightarrow> (string \<times> json) list" where
  "set_member k v [] = [(k, v)]"
| "set_member k v ((k', w) # es) = (if k = k' then (k, v) # es else (k', w) # set_member k v es)"

definition with_limit :: "'k lib \<Rightarrow> string \<Rightarrow> int \<Rightarrow> json \<Rightarrow> json" where
  "with_limit L field bound v =
     (case v of
        JObj es \<Rightarrow> JObj (set_member field (JNum (lib_numText L (js_int bound)))
                          (filter (\<lambda>e. fst e \<noteq> ''max_completion_tokens'') es))
      | _ \<Rightarrow> v)"

definition payload_error :: "blib \<Rightarrow> string \<Rightarrow> json \<Rightarrow> string option" where
  "payload_error B path v =
     (if \<not> is_object v \<or> member_of v ''model'' \<noteq> JStr RATE_MODEL \<or> member_of v ''stream'' = JBool True
         \<or> truthy B (member_of v ''previous_response_id'') \<or> truthy B (member_of v ''conversation'')
         \<or> member_of v ''background'' = JBool True
         \<or> (member_of v ''n'' \<noteq> JUndefined \<and> json_number B (member_of v ''n'') \<noteq> Some (Num 1))
       then Some ''budget_payload_unsupported''
      else if \<not> keys_within (allowed_members path) v then Some ''budget_payload_unsupported''
      else if \<not> list_all (tool_ok path) (nullish (array_items (member_of v ''tools'')) [])
        then Some ''budget_remote_tool_refused''
      else if path = CHAT_PATH then
        (case array_items (member_of v ''messages'') of
           None \<Rightarrow> Some ''budget_payload_invalid''
         | Some ms \<Rightarrow> if ms = [] then Some ''budget_payload_invalid'' else messages_error ms)
      else if \<not> is_string (member_of v ''input'') then Some ''budget_nontext_refused''
      else None)"

fun nullish_json :: "json \<Rightarrow> json \<Rightarrow> json" where
  "nullish_json JNull b = b"
| "nullish_json JUndefined b = b"
| "nullish_json a b = a"

definition requested_output :: "blib \<Rightarrow> string \<Rightarrow> json \<Rightarrow> int option" where
  "requested_output B field v =
     (let r = nullish_json (member_of v field) (member_of v ''max_completion_tokens'')
      in if r \<in> {JNull, JUndefined} then Some 4096 else json_integer B r)"

definition reserveModelRequest ::
  "'k lib \<Rightarrow> blib \<Rightarrow> string \<Rightarrow> string \<Rightarrow> string + reserved_request" where
  "reserveModelRequest L B path body =
     (case bl_parse B body of
        None \<Rightarrow> Inl ''budget_payload_invalid''
      | Some v \<Rightarrow>
          (case payload_error B path v of
             Some e \<Rightarrow> Inl e
           | None \<Rightarrow>
               let ntools = length (nullish (array_items (member_of v ''tools'')) []);
                   nmessages = (if path = CHAT_PATH then length (nullish (array_items (member_of v ''messages'')) []) else 1);
                   field = (if path = CHAT_PATH then ''max_tokens'' else ''max_output_tokens'')
               in case requested_output B field v of
                    None \<Rightarrow> Inl ''budget_output_limit_invalid''
                  | Some n \<Rightarrow>
                      if n < 1 then Inl ''budget_output_limit_invalid''
                      else
                        let outputBound = min n 4096;
                            inputBound = int (utf8_length body) + 8192 + (int nmessages + int ntools) * 1024
                        in if inputBound > 250000 then Inl ''budget_context_too_large''
                           else Inr \<lparr>rq_payload = with_limit L field outputBound v, rq_inputBound = inputBound,
                                     rq_outputBound = outputBound,
                                     rq_reserveMicroUsd = inputBound * inputMicroUsd + outputBound * outputMicroUsd\<rparr>))"

definition modelResponseCharge :: "blib \<Rightarrow> string \<Rightarrow> int option" where
  "modelResponseCharge B body =
     (case bl_parse B body of
        None \<Rightarrow> None
      | Some v \<Rightarrow>
          let u = member_of v ''usage'';
              input = nullish_json (member_of u ''input_tokens'') (member_of u ''prompt_tokens'');
              output = nullish_json (member_of u ''output_tokens'') (member_of u ''completion_tokens'')
          in case (json_integer B input, json_integer B output) of
               (Some i, Some p) \<Rightarrow> safe_integer (js_int (i * inputMicroUsd + p * outputMicroUsd))
             | _ \<Rightarrow> None)"

end
