(* ===== verification/BudgetFacts.thy ===== *)
theory BudgetFacts imports ModelBudget begin

text \<open>
  What the model budget guarantees: in every history of reservations and settlements the charged and
  the held amounts of a budget stay within its ceiling unless the budget is frozen, at most sixteen
  dispatches are open, a frozen budget admits nothing any more; a signed token comes back as the
  claims that were signed; and an admitted request is bounded.
\<close>

section \<open>Histories\<close>

text \<open>An operation on the ledger; one that throws changes nothing.\<close>

datatype budget_op =
    OpReserve int string budget_claims jsnum
  | OpSettle string "jsnum option"

fun budget_step :: "'k lib \<Rightarrow> budget_op \<Rightarrow> budget_ledger \<Rightarrow> budget_ledger" where
  "budget_step L (OpReserve now uuid c amount) l =
     (case reserve L now uuid c amount l of Inl _ \<Rightarrow> l | Inr (_, l') \<Rightarrow> l')"
| "budget_step L (OpSettle i actual) l = (case settle_ledger i actual l of Inl _ \<Rightarrow> l | Inr l' \<Rightarrow> l')"

definition budget_run :: "'k lib \<Rightarrow> budget_op list \<Rightarrow> budget_ledger \<Rightarrow> budget_ledger" where
  "budget_run L ops l = fold (budget_step L) ops l"

section \<open>The invariant\<close>

definition budget_ok :: "budget_ledger \<Rightarrow> budget_row \<Rightarrow> bool" where
  "budget_ok l b \<longleftrightarrow>
     (bg_frozen b \<or> bg_spent b + outstanding (bg_id b) l \<le> bg_ceiling b)
     \<and> settled_total (bg_id b) l \<le> bg_spent b
     \<and> length (pending_of (bg_id b) l) \<le> MAX_CONCURRENT_DISPATCH"

definition reservation_ok :: "reservation_row \<Rightarrow> bool" where
  "reservation_ok r \<longleftrightarrow> 0 < rv_amount r
     \<and> (case rv_state r of Pending \<Rightarrow> rv_actual r = None | Settled \<Rightarrow> (\<exists>n. rv_actual r = Some n \<and> 0 \<le> n))"

definition ledger_ok :: "budget_ledger \<Rightarrow> bool" where
  "ledger_ok l \<longleftrightarrow> distinct (map bg_id (lg_budgets l)) \<and> distinct (map rv_id (lg_reservations l))
     \<and> (\<forall>b\<in>set (lg_budgets l). budget_ok l b) \<and> (\<forall>r\<in>set (lg_reservations l). reservation_ok r)
     \<and> rv_budget ` set (lg_reservations l) \<subseteq> bg_id ` set (lg_budgets l)"

lemma ledger_ok_empty: "ledger_ok ledger_empty"
  by (simp add: ledger_ok_def ledger_empty_def)

lemma safe_integer_nonneg: "safe_integer x = Some n \<Longrightarrow> 0 \<le> n"
  by (cases x) (auto simp: safe_integer_def split: if_splits)

section \<open>Reserving\<close>

lemma open_budget_rows:
  "lg_reservations (open_budget c l) = lg_reservations l" "pending_of b (open_budget c l) = pending_of b l"
  "outstanding b (open_budget c l) = outstanding b l" "settled_total b (open_budget c l) = settled_total b l"
  by (simp_all add: open_budget_def pending_of_def outstanding_def settled_total_def settled_of_def)

lemma pending_snoc:
  "lg_reservations l' = lg_reservations l @ [r] \<Longrightarrow>
     pending_of b l' = pending_of b l @ (if rv_budget r = b \<and> rv_state r = Pending then [r] else [])"
  by (simp add: pending_of_def)

lemma settled_snoc:
  "lg_reservations l' = lg_reservations l @ [r] \<Longrightarrow> rv_state r = Pending \<Longrightarrow> settled_total b l' = settled_total b l"
  by (simp add: settled_total_def settled_of_def)

text \<open>What an accepted reservation did.\<close>

lemma reserve_InrD:
  assumes "reserve L now uuid c amount l = Inr (i, l')"
  obtains n row spent where "safe_integer amount = Some n" "1 \<le> n" "i = uuid"
    "snapshot (bc_budget_id c) (open_budget c l) = Some row" "\<not> sn_frozen row"
    "sn_ceiling row = bc_ceiling c" "sn_pending row < MAX_CONCURRENT_DISPATCH"
    "spent = max (sn_spent row) (bc_prior c)" "spent + sn_outstanding row + n \<le> sn_ceiling row"
    "uuid \<notin> rv_id ` set (lg_reservations l)"
    "lg_budgets l' = row_update (\<lambda>b. bg_id b = bc_budget_id c) (\<lambda>b. b\<lparr>bg_spent := spent\<rparr>) (lg_budgets (open_budget c l))"
    "lg_reservations l' = lg_reservations l @
       [\<lparr>rv_id = uuid, rv_budget = bc_budget_id c, rv_amount = n, rv_state = Pending, rv_actual = None\<rparr>]"
proof -
  obtain n where n: "safe_integer amount = Some n" "1 \<le> n"
    using assms by (auto simp: reserve_def split: option.splits if_splits)
  obtain row where row: "snapshot (bc_budget_id c) (open_budget c l) = Some row"
    using assms n by (auto simp: reserve_def Let_def split: option.splits if_splits)
  show thesis
    by (rule that[OF n _ row, of "max (sn_spent row) (bc_prior c)"])
      (use assms n row in \<open>auto simp: reserve_def Let_def open_budget_rows split: if_splits\<close>)
qed

lemma open_budget_ids:
  "distinct (map bg_id (lg_budgets l)) \<Longrightarrow> distinct (map bg_id (lg_budgets (open_budget c l)))"
  "bc_budget_id c \<in> bg_id ` set (lg_budgets (open_budget c l))"
  "bg_id ` set (lg_budgets l) \<subseteq> bg_id ` set (lg_budgets (open_budget c l))"
  by (auto simp: open_budget_def)

lemma open_budget_other:
  "b \<in> set (lg_budgets (open_budget c l)) \<Longrightarrow> bg_id b \<noteq> bc_budget_id c \<Longrightarrow> b \<in> set (lg_budgets l)"
  by (auto simp: open_budget_def split: if_splits)

lemma snapshot_row:
  assumes "distinct (map bg_id (lg_budgets l))" "b \<in> set (lg_budgets l)"
  shows "snapshot (bg_id b) l = Some \<lparr>sn_mission = bg_mission b, sn_ceiling = bg_ceiling b, sn_spent = bg_spent b,
     sn_frozen = bg_frozen b, sn_pending = length (pending_of (bg_id b) l), sn_outstanding = outstanding (bg_id b) l\<rparr>"
  by (simp add: snapshot_def row_find_distinct[OF assms])

lemma settled_before_open:
  assumes "ledger_ok l" "b \<in> set (lg_budgets (open_budget c l))" "bg_id b = bc_budget_id c" "0 \<le> bc_prior c"
  shows "settled_total (bg_id b) l \<le> bg_spent b"
proof (cases "bc_budget_id c \<in> bg_id ` set (lg_budgets l)")
  case True
  with assms(2) have "b \<in> set (lg_budgets l)" by (simp add: open_budget_def)
  with assms(1) show ?thesis by (simp add: ledger_ok_def budget_ok_def)
next
  case False
  have "rv_budget r \<in> bg_id ` set (lg_budgets l)" if "r \<in> set (lg_reservations l)" for r
    using assms(1) that by (auto simp: ledger_ok_def)
  with False have "rv_budget r \<noteq> bc_budget_id c" if "r \<in> set (lg_reservations l)" for r
    using that by metis
  then have "settled_of (bg_id b) l = []"
    using assms(3) by (simp add: settled_of_def filter_empty_conv)
  moreover have "bg_spent b = bc_prior c"
    using assms(2,3) False by (auto simp: open_budget_def) (metis image_eqI)
  ultimately show ?thesis using assms(4) by (simp add: settled_total_def)
qed

lemma reserve_ok:
  assumes ok: "ledger_ok l" and res: "reserve L now uuid c amount l = Inr (i, l')" and prior: "0 \<le> bc_prior c"
  shows "ledger_ok l'"
proof -
  obtain n row spent where f: "safe_integer amount = Some n" "1 \<le> n"
    "snapshot (bc_budget_id c) (open_budget c l) = Some row" "\<not> sn_frozen row"
    "sn_ceiling row = bc_ceiling c" "sn_pending row < MAX_CONCURRENT_DISPATCH"
    "spent = max (sn_spent row) (bc_prior c)" "spent + sn_outstanding row + n \<le> sn_ceiling row"
    "uuid \<notin> rv_id ` set (lg_reservations l)"
    "lg_budgets l' = row_update (\<lambda>b. bg_id b = bc_budget_id c) (\<lambda>b. b\<lparr>bg_spent := spent\<rparr>) (lg_budgets (open_budget c l))"
    "lg_reservations l' = lg_reservations l @
       [\<lparr>rv_id = uuid, rv_budget = bc_budget_id c, rv_amount = n, rv_state = Pending, rv_actual = None\<rparr>]"
    by (rule reserve_InrD[OF res])
  have dist: "distinct (map bg_id (lg_budgets (open_budget c l)))"
    using ok by (intro open_budget_ids) (simp add: ledger_ok_def)
  have rows: "budget_ok l' b'" if b': "b' \<in> set (lg_budgets l')" for b'
  proof -
    from b' f(10) obtain b where b: "b \<in> set (lg_budgets (open_budget c l))"
      "b' = (if bg_id b = bc_budget_id c then b\<lparr>bg_spent := spent\<rparr> else b)" by (auto simp: set_row_update)
    note pend = pending_snoc[OF f(11)] and sett = settled_snoc[OF f(11)]
    show ?thesis
    proof (cases "bg_id b = bc_budget_id c")
      case True
      have row: "row = \<lparr>sn_mission = bg_mission b, sn_ceiling = bg_ceiling b, sn_spent = bg_spent b,
          sn_frozen = bg_frozen b, sn_pending = length (pending_of (bg_id b) l), sn_outstanding = outstanding (bg_id b) l\<rparr>"
        using snapshot_row[OF dist b(1)] f(3) True by (simp add: open_budget_rows)
      have "settled_total (bg_id b) l \<le> bg_spent b" by (rule settled_before_open[OF ok b(1) True prior])
      then show ?thesis
        using f(6,7,8) True b(2) by (simp add: budget_ok_def row pend sett outstanding_def)
    next
      case False
      with b open_budget_other have "b' = b" "b \<in> set (lg_budgets l)" by auto
      then have "budget_ok l b'" using ok by (simp add: ledger_ok_def)
      with False \<open>b' = b\<close> show ?thesis by (simp add: budget_ok_def pend sett outstanding_def)
    qed
  qed
  have ids: "map bg_id (lg_budgets l') = map bg_id (lg_budgets (open_budget c l))"
    unfolding f(10) by (rule row_update_keys) simp
  then have "bg_id ` set (lg_budgets l') = bg_id ` set (lg_budgets (open_budget c l))" by (metis list.set_map)
  moreover have "rv_budget ` set (lg_reservations l') = insert (bc_budget_id c) (rv_budget ` set (lg_reservations l))"
    unfolding f(11) by simp
  moreover have "rv_budget ` set (lg_reservations l) \<subseteq> bg_id ` set (lg_budgets l)"
    using ok by (simp add: ledger_ok_def)
  ultimately have "rv_budget ` set (lg_reservations l') \<subseteq> bg_id ` set (lg_budgets l')"
    using open_budget_ids(2,3)[where c = c and l = l] by simp
  then show ?thesis
    using rows f(2,9,11) dist ids ok by (simp add: ledger_ok_def reservation_ok_def)
qed

section \<open>Settling\<close>

text \<open>Updating the one row of a key changes a sum over the rows by that row's difference.\<close>

lemma sum_row_update:
  fixes f :: "'r \<Rightarrow> int"
  assumes "distinct (map key rs)" "r \<in> set rs"
  shows "sum_list (map f (row_update (\<lambda>q. key q = key r) g rs)) = sum_list (map f rs) + f (g r) - f r"
  using assms
proof (induction rs)
  case (Cons q rs)
  show ?case
  proof (cases "key q = key r")
    case True
    with Cons.prems have "q = r" by (auto simp: rev_image_eqI)
    moreover have "row_update (\<lambda>q. key q = key r) g rs = rs"
      using Cons.prems(1) True by (auto simp: row_update_def rev_image_eqI intro!: map_idI)
    ultimately show ?thesis by (simp add: row_update_def)
  next
    case False
    with Cons show ?thesis by (auto simp: row_update_def)
  qed
qed simp

lemma outstanding_sum: "outstanding b l =
    sum_list (map (\<lambda>r. if rv_budget r = b \<and> rv_state r = Pending then rv_amount r else 0) (lg_reservations l))"
  by (simp add: outstanding_def pending_of_def sum_list_map_filter')

lemma settled_sum: "settled_total b l =
    sum_list (map (\<lambda>r. if rv_budget r = b \<and> rv_state r = Settled then nullish (rv_actual r) 0 else 0) (lg_reservations l))"
  by (simp add: settled_total_def settled_of_def sum_list_map_filter')

lemma pending_sum: "int (length (pending_of b l)) =
    sum_list (map (\<lambda>r. if rv_budget r = b \<and> rv_state r = Pending then 1 else 0) (lg_reservations l))"
  by (simp add: pending_of_def sum_list_map_filter'[symmetric] sum_list_replicate map_replicate_const)

lemma settle_InrD:
  assumes "settle_ledger i actual l = Inr l'"
  obtains (freeze) r where "actual = None" "row_find rv_id i (lg_reservations l) = Some r" "rv_state r = Pending"
      "l' = l\<lparr>lg_budgets := row_update (\<lambda>b. bg_id b = rv_budget r) (\<lambda>b. b\<lparr>bg_frozen := True\<rparr>) (lg_budgets l)\<rparr>"
  | (charge) r x n where "actual = Some x" "safe_integer x = Some n" "row_find rv_id i (lg_reservations l) = Some r"
      "rv_state r = Pending"
      "lg_budgets l' = row_update (\<lambda>b. bg_id b = rv_budget r)
         (\<lambda>b. b\<lparr>bg_spent := bg_spent b + n, bg_frozen := bg_frozen b \<or> n > rv_amount r\<rparr>) (lg_budgets l)"
      "lg_reservations l' = row_update (\<lambda>q. rv_id q = i) (\<lambda>q. q\<lparr>rv_state := Settled, rv_actual := Some n\<rparr>) (lg_reservations l)"
  using assms by (auto simp: settle_ledger_def Let_def split: option.splits if_splits)

lemma settle_ok:
  assumes ok: "ledger_ok l" and st: "settle_ledger i actual l = Inr l'"
  shows "ledger_ok l'"
  using st
proof (cases rule: settle_InrD)
  case (freeze r)
  have "budget_ok l' b'" if "b' \<in> set (lg_budgets l')" for b'
  proof -
    from that freeze(4) obtain b where "b \<in> set (lg_budgets l)"
      "b' = (if bg_id b = rv_budget r then b\<lparr>bg_frozen := True\<rparr> else b)" by (auto simp: set_row_update)
    with ok show ?thesis
      by (auto simp: freeze(4) ledger_ok_def budget_ok_def pending_of_def outstanding_def settled_total_def settled_of_def)
  qed
  moreover have ids: "map bg_id (lg_budgets l') = map bg_id (lg_budgets l)"
    unfolding freeze(4) by (simp add: row_update_keys)
  moreover from ids have "bg_id ` set (lg_budgets l') = bg_id ` set (lg_budgets l)" by (metis list.set_map)
  ultimately show ?thesis using ok freeze(4) by (simp add: ledger_ok_def)
next
  case (charge r x n)
  have r: "r \<in> set (lg_reservations l)" "rv_id r = i" using row_find_SomeD[OF charge(3)] by auto
  have d: "distinct (map rv_id (lg_reservations l))" using ok by (simp add: ledger_ok_def)
  note upd = sum_row_update[OF d r(1), of _ "\<lambda>q. q\<lparr>rv_state := Settled, rv_actual := Some n\<rparr>", unfolded r(2), folded charge(6)]
  have sums: "outstanding b l' = outstanding b l - (if rv_budget r = b then rv_amount r else 0)"
    "settled_total b l' = settled_total b l + (if rv_budget r = b then n else 0)"
    "int (length (pending_of b l')) = int (length (pending_of b l)) - (if rv_budget r = b then 1 else 0)" for b
    using charge(4) unfolding outstanding_sum settled_sum pending_sum upd by simp_all
  have "budget_ok l' b'" if "b' \<in> set (lg_budgets l')" for b'
  proof -
    from that charge(5) obtain b where b: "b \<in> set (lg_budgets l)"
      "b' = (if bg_id b = rv_budget r
             then b\<lparr>bg_spent := bg_spent b + n, bg_frozen := bg_frozen b \<or> n > rv_amount r\<rparr> else b)"
      by (auto simp: set_row_update)
    then have old: "budget_ok l b" using ok by (simp add: ledger_ok_def)
    show ?thesis
    proof (cases "bg_id b = rv_budget r")
      case True
      with old b(2) sums[of "bg_id b"] show ?thesis by (auto simp: budget_ok_def)
    next
      case False
      with old b(2) sums[of "bg_id b"] show ?thesis by (auto simp: budget_ok_def)
    qed
  qed
  moreover have "reservation_ok q'" if "q' \<in> set (lg_reservations l')" for q'
  proof -
    from that charge(6) obtain q where q: "q \<in> set (lg_reservations l)"
      "q' = (if rv_id q = i then q\<lparr>rv_state := Settled, rv_actual := Some n\<rparr> else q)" by (auto simp: set_row_update)
    then have "reservation_ok q" using ok by (simp add: ledger_ok_def)
    with q(2) safe_integer_nonneg[OF charge(2)] show ?thesis by (auto simp: reservation_ok_def)
  qed
  moreover have ids: "map bg_id (lg_budgets l') = map bg_id (lg_budgets l)"
    "map rv_id (lg_reservations l') = map rv_id (lg_reservations l)"
    "map rv_budget (lg_reservations l') = map rv_budget (lg_reservations l)"
    unfolding charge(5,6) by (simp_all add: row_update_keys)
  moreover from ids have "bg_id ` set (lg_budgets l') = bg_id ` set (lg_budgets l)"
    "rv_budget ` set (lg_reservations l') = rv_budget ` set (lg_reservations l)" by (metis list.set_map)+
  ultimately show ?thesis using ok by (simp add: ledger_ok_def)
qed

fun op_prior :: "budget_op \<Rightarrow> int" where
  "op_prior (OpReserve now uuid c amount) = bc_prior c"
| "op_prior (OpSettle i actual) = 0"

lemma budget_step_ok: "ledger_ok l \<Longrightarrow> 0 \<le> op_prior p \<Longrightarrow> ledger_ok (budget_step L p l)"
  by (cases p) (auto split: sum.splits intro: reserve_ok settle_ok)

lemma budget_run_ok: "ledger_ok l \<Longrightarrow> \<forall>p\<in>set ops. 0 \<le> op_prior p \<Longrightarrow> ledger_ok (budget_run L ops l)"
  unfolding budget_run_def by (induction ops arbitrary: l) (auto intro: budget_step_ok)

text \<open>C11. In every history of reservations and settlements, in any order, refused ones included: what a
  budget has spent and what its open dispatches may still cost stay together within its ceiling
  unless it is frozen; what the provider charged for it is never more than what is booked as spent;
  and at most sixteen of its dispatches are open.\<close>

theorem budget_never_overspent:
  assumes "\<forall>p\<in>set ops. 0 \<le> op_prior p" "snapshot i (budget_run L ops ledger_empty) = Some s"
  shows "(sn_frozen s \<or> sn_spent s + sn_outstanding s \<le> sn_ceiling s)
    \<and> settled_total i (budget_run L ops ledger_empty) \<le> sn_spent s \<and> 0 \<le> sn_outstanding s
    \<and> sn_pending s \<le> MAX_CONCURRENT_DISPATCH"
proof -
  let ?l = "budget_run L ops ledger_empty"
  have ok: "ledger_ok ?l" by (rule budget_run_ok[OF ledger_ok_empty assms(1)])
  obtain b where b: "b \<in> set (lg_budgets ?l)" "bg_id b = i"
    "s = \<lparr>sn_mission = bg_mission b, sn_ceiling = bg_ceiling b, sn_spent = bg_spent b, sn_frozen = bg_frozen b,
          sn_pending = length (pending_of i ?l), sn_outstanding = outstanding i ?l\<rparr>"
    using assms(2) by (auto simp: snapshot_def dest!: row_find_SomeD split: option.splits)
  have "budget_ok ?l b" using ok b(1) by (simp add: ledger_ok_def)
  moreover have "0 < rv_amount r" if "r \<in> set (lg_reservations ?l)" for r
    using ok that by (simp add: ledger_ok_def reservation_ok_def)
  then have "0 \<le> outstanding i ?l"
    unfolding outstanding_sum by (intro sum_list_nonneg) (auto intro: less_imp_le)
  ultimately show ?thesis using b(2,3) by (simp add: budget_ok_def)
qed

section \<open>Worked example\<close>


definition toy_dates :: "unit lib" where
  "toy_dates =
    \<lparr>lib_sha256 = id, lib_verify = (\<lambda>_ _ _ _. True), lib_sign = (\<lambda>_ _ _. ''''), lib_keyId = (\<lambda>_. ''''),
     lib_isPrivate = (\<lambda>_. True), lib_dateParse = (\<lambda>_. Num 1000), lib_iso = (\<lambda>_. ''''),
     lib_numText = (\<lambda>_. ''1''), lib_forbidden = (\<lambda>_. None)\<rparr>"

definition toy_claims :: budget_claims where
  "toy_claims = \<lparr>bc_budget_id = ''b'', bc_mission_id = ''m'', bc_role = Author, bc_ceiling = 100, bc_prior = 10,
     bc_expires_at = ''later''\<rparr>"

definition toy_ops :: "budget_op list" where
  "toy_ops = [OpReserve 0 ''r1'' toy_claims (Num 60), OpReserve 0 ''r2'' toy_claims (Num 40),
     OpSettle ''r1'' (Some (Num 20)), OpReserve 0 ''r3'' toy_claims (Num 70)]"

lemma toy_run: "budget_run toy_dates toy_ops ledger_empty =
    \<lparr>lg_budgets = [\<lparr>bg_id = ''b'', bg_mission = ''m'', bg_ceiling = 100, bg_spent = 30, bg_frozen = False\<rparr>],
     lg_reservations = [\<lparr>rv_id = ''r1'', rv_budget = ''b'', rv_amount = 60, rv_state = Settled, rv_actual = Some 20\<rparr>,
       \<lparr>rv_id = ''r3'', rv_budget = ''b'', rv_amount = 70, rv_state = Pending, rv_actual = None\<rparr>]\<rparr>"
  by (simp add: budget_run_def toy_ops_def toy_claims_def toy_dates_def ledger_empty_def reserve_def settle_ledger_def
      safe_integer_def open_budget_def snapshot_def pending_of_def outstanding_def MAX_CONCURRENT_DISPATCH_def
      row_update_def js_int_def)

theorem budget_never_overspent_witness:
  "\<exists>s. snapshot ''b'' (budget_run toy_dates toy_ops ledger_empty) = Some s \<and> sn_spent s = 30
     \<and> sn_outstanding s = 70 \<and> sn_spent s + sn_outstanding s \<le> sn_ceiling s"
proof -
  obtain s where s: "snapshot ''b'' (budget_run toy_dates toy_ops ledger_empty) = Some s"
    by (simp add: toy_run snapshot_def)
  have "\<forall>p\<in>set toy_ops. 0 \<le> op_prior p" by (simp add: toy_ops_def toy_claims_def)
  from budget_never_overspent[OF this s] s show ?thesis
    by (auto simp: toy_run snapshot_def pending_of_def outstanding_def)
qed

section \<open>Frozen budgets\<close>

definition frozen_in :: "string \<Rightarrow> budget_ledger \<Rightarrow> bool" where
  "frozen_in i l \<longleftrightarrow> (\<exists>b. row_find bg_id i (lg_budgets l) = Some b \<and> bg_frozen b)"

lemma frozen_update:
  assumes "frozen_in i l" "lg_budgets l' = row_update p f (lg_budgets l)" "\<And>b. bg_id (f b) = bg_id b"
    "\<And>b. bg_frozen b \<Longrightarrow> bg_frozen (f b)"
  shows "frozen_in i l'"
proof -
  obtain b where b: "row_find bg_id i (lg_budgets l) = Some b" "bg_frozen b"
    using assms(1) by (auto simp: frozen_in_def)
  then have "row_find bg_id i (lg_budgets l') = Some (if p b then f b else b)"
    unfolding assms(2) by (simp add: row_find_update assms(3))
  with b(2) assms(4) show ?thesis by (simp add: frozen_in_def)
qed

lemma frozen_open: "frozen_in i l \<Longrightarrow> frozen_in i (open_budget c l)"
  by (auto simp: frozen_in_def open_budget_def row_find_append)

lemma frozen_step: "frozen_in i l \<Longrightarrow> frozen_in i (budget_step L p l)"
proof (cases p)
  case (OpReserve now uuid c amount)
  assume fr: "frozen_in i l"
  show ?thesis
  proof (cases "reserve L now uuid c amount l")
    case (Inr x)
    obtain j l' where x: "x = (j, l')" by fastforce
    with Inr OpReserve have st: "budget_step L p l = l'" "reserve L now uuid c amount l = Inr (j, l')" by simp_all
    obtain spent where "lg_budgets l' =
        row_update (\<lambda>b. bg_id b = bc_budget_id c) (\<lambda>b. b\<lparr>bg_spent := spent\<rparr>) (lg_budgets (open_budget c l))"
      by (rule reserve_InrD[OF st(2)])
    then show ?thesis
      unfolding st(1) by (rule frozen_update[OF frozen_open[OF fr]]) simp_all
  qed (use fr OpReserve in simp)
next
  case (OpSettle j actual)
  assume fr: "frozen_in i l"
  show ?thesis
  proof (cases "settle_ledger j actual l")
    case (Inr l')
    from Inr have "frozen_in i l'"
    proof (cases rule: settle_InrD)
      case (freeze r)
      then have "lg_budgets l' = row_update (\<lambda>b. bg_id b = rv_budget r) (\<lambda>b. b\<lparr>bg_frozen := True\<rparr>) (lg_budgets l)" by simp
      then show ?thesis by (rule frozen_update[OF fr]) auto
    next
      case (charge r x n)
      show ?thesis by (rule frozen_update[OF fr charge(5)]) auto
    qed
    with Inr OpSettle show ?thesis by simp
  qed (use fr OpSettle in simp)
qed

lemma frozen_run: "frozen_in i l \<Longrightarrow> frozen_in i (budget_run L ops l)"
  unfolding budget_run_def by (induction ops arbitrary: l) (auto intro: frozen_step)

lemma frozen_refuses:
  assumes "frozen_in (bc_budget_id c) l"
  shows "\<exists>e. reserve L now uuid c amount l = Inl e"
proof (cases "reserve L now uuid c amount l")
  case (Inr x)
  obtain j l' where "x = (j, l')" by fastforce
  with Inr have "reserve L now uuid c amount l = Inr (j, l')" by simp
  then show ?thesis
  proof (rule reserve_InrD)
    fix n row spent
    assume "snapshot (bc_budget_id c) (open_budget c l) = Some row" "\<not> sn_frozen row"
    with frozen_open[OF assms, of c] show ?thesis by (auto simp: frozen_in_def snapshot_def)
  qed
qed simp

text \<open>A dispatch whose cost stays unknown, or whose provider charged more than was reserved, freezes its
  budget for good: after the settlement, whatever operations follow, restarts and older signed tokens
  included, every further reservation on that budget is refused.\<close>

theorem unresolved_dispatch_freezes:
  assumes "ledger_ok l" "settle_ledger i actual l = Inr l'" "row_find rv_id i (lg_reservations l) = Some r"
    and "\<forall>x n. actual = Some x \<and> safe_integer x = Some n \<longrightarrow> rv_amount r < n"
    and "bc_budget_id c = rv_budget r"
  shows "\<exists>e. reserve L now uuid c amount (budget_run L ops l') = Inl e"
proof (rule frozen_refuses, unfold assms(5), rule frozen_run)
  have "rv_budget r \<in> bg_id ` set (lg_budgets l)"
    using assms(1) row_find_SomeD[OF assms(3)] by (auto simp: ledger_ok_def)
  then obtain b where b: "row_find bg_id (rv_budget r) (lg_budgets l) = Some b"
    by (cases "row_find bg_id (rv_budget r) (lg_budgets l)") (auto simp: row_find_None_iff)
  then have "bg_id b = rv_budget r" using row_find_SomeD by fastforce
  with assms(2) b show "frozen_in (rv_budget r) l'"
  proof (cases rule: settle_InrD)
    case (freeze r')
    with assms(3) b \<open>bg_id b = rv_budget r\<close> show ?thesis by (auto simp: frozen_in_def row_find_update)
  next
    case (charge r' x n)
    then have "r' = r" "rv_amount r < n" using assms(3,4) by auto
    with charge(5) b \<open>bg_id b = rv_budget r\<close> show ?thesis by (auto simp: frozen_in_def row_find_update)
  qed
qed

theorem unresolved_dispatch_freezes_witness:
  "\<exists>l' e. settle_ledger ''r3'' None (budget_run toy_dates toy_ops ledger_empty) = Inr l'
     \<and> reserve toy_dates 0 ''r4'' toy_claims (Num 1) l' = Inl e"
proof -
  let ?l = "budget_run toy_dates toy_ops ledger_empty"
  have ok: "ledger_ok ?l"
    by (rule budget_run_ok[OF ledger_ok_empty]) (simp add: toy_ops_def toy_claims_def)
  obtain l' where s: "settle_ledger ''r3'' None ?l = Inr l'"
    by (simp add: toy_run settle_ledger_def)
  have "row_find rv_id ''r3'' (lg_reservations ?l) =
      Some \<lparr>rv_id = ''r3'', rv_budget = ''b'', rv_amount = 70, rv_state = Pending, rv_actual = None\<rparr>"
    by (simp add: toy_run)
  from unresolved_dispatch_freezes[OF ok s this, of toy_claims toy_dates 0 "''r4''" "Num 1" "[]"] s show ?thesis
    by (simp add: budget_run_def toy_claims_def)
qed

section \<open>Tokens\<close>

text \<open>What the signing of one token takes from the platform: base64url is undone and writes no dot, JSON
  and the two numbers are read back.\<close>

definition platform_reads_back :: "'k lib \<Rightarrow> blib \<Rightarrow> budget_claims \<Rightarrow> string \<Rightarrow> bool" where
  "platform_reads_back L B c key \<longleftrightarrow>
     (let p = render (claims_json L c); t = bl_b64 B p; s = bl_hmac B key t
      in bl_unb64 B t = p \<and> bl_unb64 B (bl_b64 B s) = s
         \<and> CHR ''.'' \<notin> set t \<and> CHR ''.'' \<notin> set (bl_b64 B s) \<and> t \<noteq> [] \<and> bl_b64 B s \<noteq> []
         \<and> bl_parse B p = Some (claims_json L c)
         \<and> bl_number B (lib_numText L (js_int (bc_ceiling c))) = js_int (bc_ceiling c)
         \<and> bl_number B (lib_numText L (js_int (bc_prior c))) = js_int (bc_prior c))"

lemma split_token_two:
  assumes "CHR ''.'' \<notin> set p" "CHR ''.'' \<notin> set s" "p \<noteq> []" "s \<noteq> []"
  shows "split_token (p @ ''.'' @ s) = Some (p, s)"
proof -
  have s: "takeWhile (\<lambda>c. c \<noteq> CHR ''.'') s = s"
    using assms(2) by (auto simp: takeWhile_eq_all_conv)
  have p: "takeWhile (\<lambda>c. c \<noteq> CHR ''.'') (p @ CHR ''.'' # s) = p"
    using assms(1) by (subst takeWhile_append2) auto
  show ?thesis using assms(3,4) by (simp add: split_token_def Let_def p s)
qed

lemma safe_integer_js_int: "safe_integer (js_int n) = (if 0 \<le> n \<and> n \<le> 2 ^ 53 - 1 then Some n else None)"
proof -
  have "(rat_of_int n \<le> 2 ^ 53 - 1) = (n \<le> 2 ^ 53 - 1)"
    using of_int_le_iff[of n "2 ^ 53 - 1", where 'a = rat] by simp
  then show ?thesis by (simp add: safe_integer_def js_int_def)
qed

lemma json_integer_nonneg: "json_integer B v = Some n \<Longrightarrow> 0 \<le> n"
  by (auto simp: json_integer_def safe_integer_def split: bind_splits jsnum.splits if_splits)

lemma role_of_name [simp]: "role_of (JStr (role_name r)) = Some r"
  by (cases r) auto

lemma read_claims_of_claims:
  assumes "json_integer B (JNum (lib_numText L (js_int (bc_ceiling c)))) = Some (bc_ceiling c)"
    "json_integer B (JNum (lib_numText L (js_int (bc_prior c)))) = Some (bc_prior c)"
    "safeId (bc_budget_id c)" "safeId (bc_mission_id c)" "0 \<le> bc_prior c" "0 \<le> bc_ceiling c"
    "js_finite (lib_dateParse L (bc_expires_at c))" "\<not> js_le (lib_dateParse L (bc_expires_at c)) (js_int now)"
  shows "read_claims L B now (claims_json L c) = (if bc_prior c < bc_ceiling c then Some c else None)"
proof -
  let ?v = "claims_json L c"
  have m: "member_of ?v ''audience'' = JStr AUDIENCE" "member_of ?v ''budget_id'' = JStr (bc_budget_id c)"
    "member_of ?v ''mission_id'' = JStr (bc_mission_id c)" "member_of ?v ''rate_card'' = JStr RATE_CARD_ID"
    "member_of ?v ''expires_at'' = JStr (bc_expires_at c)"
    "member_of ?v ''ceiling_micro_usd'' = JNum (lib_numText L (js_int (bc_ceiling c)))"
    "member_of ?v ''prior_micro_usd'' = JNum (lib_numText L (js_int (bc_prior c)))"
    "member_of ?v ''role'' = JStr (role_name (bc_role c))"
    by (simp_all add: claims_json_def)
  have role: "role_of (JStr (role_name (bc_role c))) = Some (bc_role c)" by (rule role_of_name)
  show ?thesis
    unfolding read_claims_def m role assms(1,2) string_of.simps using assms(3-) by auto
qed

text \<open>A signed budget token verifies, under the same key and before its date, to exactly the claims of the
  mandate and the context it was signed for (the ceiling rounded down and the earlier cost up to
  whole micro-dollars), unless nothing of the budget is left, when it verifies to nothing.\<close>

theorem budget_token_roundtrip:
  assumes "signModelBudget L B m run_id accounted role key = Inr token" "length token \<le> 4096"
    and "c = claims_of m run_id accounted role" "platform_reads_back L B c key"
    and "bc_ceiling c \<le> 2 ^ 53 - 1" "bc_prior c \<le> 2 ^ 53 - 1"
    and "js_less (js_int now) (lib_dateParse L (bc_expires_at c))" "js_finite (lib_dateParse L (bc_expires_at c))"
  shows "verifyModelBudget L B token key now = (if bc_prior c < bc_ceiling c then Some c else None)"
proof -
  let ?t = "bl_b64 B (render (claims_json L c))"
  let ?s = "bl_b64 B (bl_hmac B key ?t)"
  have signed: "token = ?t @ ''.'' @ ?s" "\<not> utf8_length key < 32" "safeId (bc_budget_id c)" "safeId (bc_mission_id c)"
    and pos: "js_finite accounted" "\<not> js_less accounted (js_int 0)" "js_finite (md_max_cost_usd m)" "\<not> js_le (md_max_cost_usd m) (js_int 0)"
    using assms(1) by (auto simp: signModelBudget_def assms(3) claims_of_def Let_def split: if_splits)
  have split: "split_token token = Some (?t, ?s)"
    using assms(4) unfolding signed(1) by (intro split_token_two) (auto simp: platform_reads_back_def Let_def)
  obtain x y where xy: "accounted = Num x" "0 \<le> x" "md_max_cost_usd m = Num y" "0 < y"
    using pos by (cases accounted; cases "md_max_cost_usd m") (auto simp: js_int_def)
  then have nonneg: "0 \<le> bc_prior c" "0 \<le> bc_ceiling c"
    by (auto simp: assms(3) claims_of_def micro_def math_ceil_def)
  have late: "\<not> js_le (lib_dateParse L (bc_expires_at c)) (js_int now)"
    using assms(7,8) by (cases "lib_dateParse L (bc_expires_at c)") (auto simp: js_int_def)
  have "read_claims L B now (claims_json L c) = (if bc_prior c < bc_ceiling c then Some c else None)"
  proof (rule read_claims_of_claims)
    show "json_integer B (JNum (lib_numText L (js_int (bc_ceiling c)))) = Some (bc_ceiling c)"
      "json_integer B (JNum (lib_numText L (js_int (bc_prior c)))) = Some (bc_prior c)"
      using assms(4,5,6) nonneg by (simp_all add: json_integer_def platform_reads_back_def Let_def safe_integer_js_int)
  qed (use signed(3,4) nonneg assms(8) late in auto)
  then show ?thesis
    using assms(2,4) signed(2) split by (simp add: verifyModelBudget_def platform_reads_back_def Let_def)
qed

section \<open>Admitted requests\<close>

lemma set_member_keys: "fst ` set (set_member k v es) = insert k (fst ` set es)"
  by (induction k v es rule: set_member.induct) auto

lemma map_of_set_member: "map_of (set_member k v es) k = Some v"
  by (induction k v es rule: set_member.induct) auto

definition usage_of :: "string \<Rightarrow> string \<Rightarrow> json \<Rightarrow> json" where
  "usage_of k k' v = nullish_json (member_of (member_of v ''usage'') k) (member_of (member_of v ''usage'') k')"

text \<open>An admitted request is bounded: at most 4096 output and 250000 accounted input units, which cover
  the bytes of its body, so at most 524576 micro-dollars are held for it; the forwarded payload
  carries that output limit and no other; and a response whose reported usage stays within the two
  bounds is charged, and never more than was held.\<close>

theorem admitted_request_bounded:
  assumes "reserveModelRequest L B path body = Inr r"
  shows "1 \<le> rq_outputBound r \<and> rq_outputBound r \<le> 4096
    \<and> int (utf8_length body) + 8192 \<le> rq_inputBound r \<and> rq_inputBound r \<le> 250000
    \<and> rq_reserveMicroUsd r = 2 * rq_inputBound r + 6 * rq_outputBound r \<and> rq_reserveMicroUsd r \<le> 524576
    \<and> member_of (rq_payload r) (if path = CHAT_PATH then ''max_tokens'' else ''max_output_tokens'')
        = JNum (lib_numText L (js_int (rq_outputBound r)))
    \<and> \<not> has_member (rq_payload r) ''max_completion_tokens''
    \<and> (\<forall>reply u i p. bl_parse B reply = Some u
          \<and> json_integer B (usage_of ''input_tokens'' ''prompt_tokens'' u) = Some i \<and> i \<le> rq_inputBound r
          \<and> json_integer B (usage_of ''output_tokens'' ''completion_tokens'' u) = Some p \<and> p \<le> rq_outputBound r
          \<longrightarrow> (\<exists>n. modelResponseCharge B reply = Some n \<and> n \<le> rq_reserveMicroUsd r))"
proof -
  obtain v n where "bl_parse B body = Some v" "payload_error B path v = None"
    "requested_output B (if path = CHAT_PATH then ''max_tokens'' else ''max_output_tokens'') v = Some n"
    using assms by (auto simp: reserveModelRequest_def Let_def split: option.splits if_splits)
  then have v: "payload_error B path v = None" "1 \<le> n" "rq_outputBound r = min n 4096"
    and i: "rq_inputBound r \<le> 250000" "int (utf8_length body) + 8192 \<le> rq_inputBound r"
    and rest: "rq_payload r = with_limit L (if path = CHAT_PATH then ''max_tokens'' else ''max_output_tokens'') (min n 4096) v"
      "rq_reserveMicroUsd r = rq_inputBound r * inputMicroUsd + rq_outputBound r * outputMicroUsd"
    using assms unfolding reserveModelRequest_def Let_def by (auto split: if_splits)
  obtain es where es: "v = JObj es" using v(1) by (cases v) (auto simp: payload_error_def)
  let ?f = "if path = CHAT_PATH then ''max_tokens'' else ''max_output_tokens''"
  have payload: "rq_payload r = JObj (set_member ?f (JNum (lib_numText L (js_int (rq_outputBound r))))
      (filter (\<lambda>e. fst e \<noteq> ''max_completion_tokens'') es))"
    by (simp add: rest(1) es with_limit_def v(3))
  have "member_of (rq_payload r) ?f = JNum (lib_numText L (js_int (rq_outputBound r)))"
    unfolding payload by (simp add: map_of_set_member)
  moreover have "\<not> has_member (rq_payload r) ''max_completion_tokens''"
    unfolding payload has_member_def by (auto simp: set_member_keys)
  moreover have cost: "rq_reserveMicroUsd r = 2 * rq_inputBound r + 6 * rq_outputBound r"
    by (simp add: rest(2) inputMicroUsd_def outputMicroUsd_def)
  moreover have "1 \<le> rq_outputBound r" "rq_outputBound r \<le> 4096" using v(2,3) by auto
  moreover have "\<exists>m. modelResponseCharge B reply = Some m \<and> m \<le> rq_reserveMicroUsd r"
    if "bl_parse B reply = Some u" "json_integer B (usage_of ''input_tokens'' ''prompt_tokens'' u) = Some a" "a \<le> rq_inputBound r"
      "json_integer B (usage_of ''output_tokens'' ''completion_tokens'' u) = Some p" "p \<le> rq_outputBound r" for reply u a p
  proof -
    have "0 \<le> a" "0 \<le> p" using that(2,4) by (auto dest: json_integer_nonneg)
    moreover from this that(3,5) i have "2 * a + 6 * p \<le> rq_reserveMicroUsd r" unfolding cost by linarith
    moreover have "rq_reserveMicroUsd r \<le> 2 ^ 53 - 1" using i v unfolding cost by simp
    ultimately have "0 \<le> 2 * a + 6 * p" "2 * a + 6 * p \<le> 2 ^ 53 - 1" "2 * a + 6 * p \<le> rq_reserveMicroUsd r" by linarith+
    with that show ?thesis
      by (simp add: modelResponseCharge_def usage_of_def Let_def safe_integer_js_int inputMicroUsd_def outputMicroUsd_def mult.commute)
  qed
  ultimately show ?thesis using i by auto
qed


section \<open>A token and a request\<close>

definition desk_dates :: "unit lib" where
  "desk_dates = toy_dates\<lparr>lib_numText := (\<lambda>x. if x = Num 0 then ''0'' else ''1000000'')\<rparr>"

definition desk_mandate :: execution_mandate where
  "desk_mandate =
    \<lparr>md_authority_version = None, md_authority_signature = None, md_mandate_id = ''mandate_1'',
     md_mission_id = ''mission-1'', md_issued_by = ''ana'', md_issued_by_key_id = ''key'', md_objective_hash = '''',
     md_workspace_root = ''/w'', md_branch_prefix = ''ronor/'', md_allowed_actions = [], md_denied_actions = [],
     md_max_cost_usd = Num 1, md_max_runtime_minutes = Num 10, md_max_fix_cycles = Num 1, md_issued_at = '''',
     md_expires_at = ''later'', md_recovery = None\<rparr>"

definition desk_claims :: budget_claims where
  "desk_claims = \<lparr>bc_budget_id = ''run-1'', bc_mission_id = ''mission-1'', bc_role = Author, bc_ceiling = 1000000,
     bc_prior = 0, bc_expires_at = ''later''\<rparr>"

definition desk_request :: json where
  "desk_request = JObj [(''model'', JStr RATE_MODEL),
     (''messages'', JArr [JObj [(''role'', JStr ''user''), (''content'', JStr ''hi'')]])]"

definition desk :: "json \<Rightarrow> blib" where
  "desk v =
    \<lparr>bl_hmac = (\<lambda>_ _. ''mac''), bl_b64 = map (\<lambda>c. if c = CHR ''.'' then CHR ''!'' else c),
     bl_unb64 = map (\<lambda>c. if c = CHR ''!'' then CHR ''.'' else c), bl_parse = (\<lambda>_. Some v),
     bl_number = (\<lambda>t. if t = ''0'' then Num 0 else Num 1000000)\<rparr>"

lemma desk_claims_of: "claims_of desk_mandate ''run-1'' (Num 0) Author = desk_claims"
  by (simp add: claims_of_def desk_mandate_def desk_claims_def micro_def math_ceil_def)

lemma desk_reads_back: "platform_reads_back desk_dates (desk (claims_json desk_dates desk_claims)) desk_claims k"
  by code_simp

lemma desk_signs: "case signModelBudget desk_dates (desk (claims_json desk_dates desk_claims)) desk_mandate ''run-1'' (Num 0)
      Author (replicate 32 CHR ''k'') of Inl _ \<Rightarrow> False | Inr token \<Rightarrow> length token \<le> 4096"
  by code_simp

lemma desk_admits: "case reserveModelRequest desk_dates (desk desk_request) CHAT_PATH ''body'' of Inl _ \<Rightarrow> False | Inr _ \<Rightarrow> True"
  by code_simp

theorem budget_token_roundtrip_witness:
  "\<exists>token. signModelBudget desk_dates (desk (claims_json desk_dates desk_claims)) desk_mandate ''run-1'' (Num 0) Author
       (replicate 32 CHR ''k'') = Inr token
     \<and> verifyModelBudget desk_dates (desk (claims_json desk_dates desk_claims)) token (replicate 32 CHR ''k'') 0
       = Some desk_claims"
proof -
  obtain token where t: "signModelBudget desk_dates (desk (claims_json desk_dates desk_claims)) desk_mandate ''run-1'' (Num 0)
      Author (replicate 32 CHR ''k'') = Inr token" "length token \<le> 4096"
    using desk_signs by (auto split: sum.splits)
  show ?thesis
    using budget_token_roundtrip[OF t desk_claims_of[symmetric] desk_reads_back, of 0] t(1)
    by (simp add: desk_claims_def desk_dates_def toy_dates_def js_int_def)
qed

theorem admitted_request_bounded_witness:
  "\<exists>r. reserveModelRequest desk_dates (desk desk_request) CHAT_PATH ''body'' = Inr r \<and> rq_reserveMicroUsd r \<le> 524576"
proof -
  obtain r where r: "reserveModelRequest desk_dates (desk desk_request) CHAT_PATH ''body'' = Inr r"
    using desk_admits by (auto split: sum.splits)
  then show ?thesis using admitted_request_bounded[OF r] by blast
qed

end
