(* ===== verification/Sentinel.thy ===== *)
theory Sentinel imports RonorPrelude "HOL-Library.AList" begin

text \<open>
  The R-Sentinel building blocks: the types of \<open>src/src/planes/r-sentinel/types.ts\<close>, the ring buffers of
  \<open>src/src/sentinel/ring-buffer.ts\<close>, the alert engine of \<open>src/src/sentinel/alert-engine.ts\<close> and the
  degradation ladder of \<open>src/src/sentinel/response-controller.ts\<close>.  A \<open>Map\<close> is an association list in
  insertion order, which \<open>AList.update\<close> keeps as \<open>Map.set\<close> does; a \<open>Date\<close> is its milliseconds.  Number
  texts, the ISO form of a date and SHA-256 are the record \<open>slib\<close>; log lines and the free-form
  metadata of a metric, which nothing reads, are left out.
\<close>

section \<open>Types\<close>

record slib =
  sl_toFixed :: "nat \<Rightarrow> jsnum \<Rightarrow> string"
  sl_numText :: "jsnum \<Rightarrow> string"
  sl_iso :: "int \<Rightarrow> string"
  sl_sha256 :: "string \<Rightarrow> string"

datatype alert_severity = GREEN | YELLOW | ORANGE | RED | BLACK

fun severity_rank :: "alert_severity \<Rightarrow> nat" where
  "severity_rank GREEN = 0"
| "severity_rank YELLOW = 1"
| "severity_rank ORANGE = 2"
| "severity_rank RED = 3"
| "severity_rank BLACK = 4"

fun severity_threshold :: "alert_severity \<Rightarrow> int" where
  "severity_threshold GREEN = 0"
| "severity_threshold YELLOW = 70"
| "severity_threshold ORANGE = 85"
| "severity_threshold RED = 95"
| "severity_threshold BLACK = 99"

fun severity_name :: "alert_severity \<Rightarrow> string" where
  "severity_name GREEN = ''GREEN''"
| "severity_name YELLOW = ''YELLOW''"
| "severity_name ORANGE = ''ORANGE''"
| "severity_name RED = ''RED''"
| "severity_name BLACK = ''BLACK''"

datatype resource_kind =
  Ram | Cpu | Storage | Gpu | GpuMemory | ContextSessions | TokenThroughput | InferenceLatency

fun resource_name :: "resource_kind \<Rightarrow> string" where
  "resource_name Ram = ''ram''"
| "resource_name Cpu = ''cpu''"
| "resource_name Storage = ''storage''"
| "resource_name Gpu = ''gpu''"
| "resource_name GpuMemory = ''gpu-memory''"
| "resource_name ContextSessions = ''context-sessions''"
| "resource_name TokenThroughput = ''token-throughput''"
| "resource_name InferenceLatency = ''inference-latency''"

datatype collector_id = SystemCollector | GpuCollector | RuntimeCollector

record resource_metric =
  mt_name :: string
  mt_value :: jsnum
  mt_unit :: string
  mt_timestamp :: int
  mt_resource :: "resource_kind option"
  mt_utilisation :: "jsnum option"
  mt_capacity :: "jsnum option"
  mt_collector :: "collector_id option"
  mt_available :: "bool option"

text \<open>\<open>metric.utilisationPercent ?? (metric.unit === 'percent' ? metric.value : 0)\<close>\<close>

definition utilisationOf :: "resource_metric \<Rightarrow> jsnum" where
  "utilisationOf m = nullish (mt_utilisation m) (if mt_unit m = ''percent'' then mt_value m else js_int 0)"

section \<open>Ring buffers\<close>

text \<open>Slots that hold nothing yet, or were cleared, are \<open>None\<close>.  Capacities are whole numbers.\<close>

record 'a ring =
  rb_capacity :: nat
  rb_slots :: "'a option list"
  rb_writeIndex :: nat
  rb_size :: nat

definition ring_new :: "int \<Rightarrow> string + 'a ring" where
  "ring_new capacity =
     (if capacity < 1 then Inl ''RingBuffer capacity must be a positive integer''
      else Inr \<lparr>rb_capacity = nat capacity, rb_slots = replicate (nat capacity) None, rb_writeIndex = 0, rb_size = 0\<rparr>)"

definition ring_push :: "'a \<Rightarrow> 'a ring \<Rightarrow> 'a ring" where
  "ring_push x r = r\<lparr>rb_slots := (rb_slots r)[rb_writeIndex r := Some x],
     rb_writeIndex := (rb_writeIndex r + 1) mod rb_capacity r,
     rb_size := (if rb_size r < rb_capacity r then rb_size r + 1 else rb_size r)\<rparr>"

definition ring_items :: "'a ring \<Rightarrow> 'a list" where
  "ring_items r =
     (if rb_size r = 0 then []
      else
        let start = (if rb_size r < rb_capacity r then 0 else rb_writeIndex r)
        in List.map_filter (\<lambda>i. rb_slots r ! ((start + i) mod rb_capacity r)) [0 ..< rb_size r])"

definition ring_last :: "int \<Rightarrow> 'a ring \<Rightarrow> 'a list" where
  "ring_last n r = (if n \<le> 0 then [] else let items = ring_items r in drop (length items - nat n) items)"

definition ring_isFull :: "'a ring \<Rightarrow> bool" where
  "ring_isFull r \<longleftrightarrow> rb_size r = rb_capacity r"

definition ring_clear :: "'a ring \<Rightarrow> 'a ring" where
  "ring_clear r = r\<lparr>rb_slots := map (\<lambda>_. None) (rb_slots r), rb_writeIndex := 0, rb_size := 0\<rparr>"

definition DEFAULT_WINDOW_MS :: int where "DEFAULT_WINDOW_MS = 5 * 60 * 1000"
definition DEFAULT_INTERVAL_MS :: int where "DEFAULT_INTERVAL_MS = 5000"

record metric_buffer =
  mb_capacity :: int
  mb_series :: "(string \<times> resource_metric ring) list"

definition metric_buffer_new :: "int \<Rightarrow> int \<Rightarrow> metric_buffer" where
  "metric_buffer_new windowMs intervalMs =
     (let safe = (if intervalMs > 0 then intervalMs else DEFAULT_INTERVAL_MS)
      in \<lparr>mb_capacity = max 2 (math_ceil (of_int windowMs / of_int safe)), mb_series = []\<rparr>)"

text \<open>A series is made on its first sample; its capacity is at least two, so its constructor succeeds.\<close>

definition record_metric :: "resource_metric \<Rightarrow> metric_buffer \<Rightarrow> string + metric_buffer" where
  "record_metric m b =
     (case map_of (mb_series b) (mt_name m) of
        Some r \<Rightarrow> Inr (b\<lparr>mb_series := AList.update (mt_name m) (ring_push m r) (mb_series b)\<rparr>)
      | None \<Rightarrow>
          (case ring_new (mb_capacity b) of
             Inl e \<Rightarrow> Inl e
           | Inr r \<Rightarrow> Inr (b\<lparr>mb_series := AList.update (mt_name m) (ring_push m r) (mb_series b)\<rparr>)))"

fun recordAll :: "resource_metric list \<Rightarrow> metric_buffer \<Rightarrow> string + metric_buffer" where
  "recordAll [] b = Inr b"
| "recordAll (m # ms) b = (case record_metric m b of Inl e \<Rightarrow> Inl e | Inr b' \<Rightarrow> recordAll ms b')"

definition buffer_get :: "string \<Rightarrow> metric_buffer \<Rightarrow> resource_metric list" where
  "buffer_get name b = (case map_of (mb_series b) name of None \<Rightarrow> [] | Some r \<Rightarrow> ring_items r)"

definition buffer_recent :: "string \<Rightarrow> int \<Rightarrow> metric_buffer \<Rightarrow> resource_metric list" where
  "buffer_recent name n b = (case map_of (mb_series b) name of None \<Rightarrow> [] | Some r \<Rightarrow> ring_last n r)"

definition buffer_latest :: "string \<Rightarrow> metric_buffer \<Rightarrow> resource_metric option" where
  "buffer_latest name b = (case buffer_recent name 1 b of [] \<Rightarrow> None | m # _ \<Rightarrow> Some m)"

definition buffer_names :: "metric_buffer \<Rightarrow> string list" where
  "buffer_names b = map fst (mb_series b)"

definition buffer_latestAll :: "metric_buffer \<Rightarrow> resource_metric list" where
  "buffer_latestAll b = List.map_filter (\<lambda>name. buffer_latest name b) (buffer_names b)"

definition totalSamples :: "metric_buffer \<Rightarrow> nat" where
  "totalSamples b = sum_list (map (\<lambda>p. rb_size (snd p)) (mb_series b))"

section \<open>Alert engine\<close>

definition evaluateSeverity :: "jsnum \<Rightarrow> alert_severity" where
  "evaluateSeverity u =
     (let v = (if js_finite u then u else js_int 0)
      in if js_le (js_int (severity_threshold BLACK)) v then BLACK
         else if js_le (js_int (severity_threshold RED)) v then RED
         else if js_le (js_int (severity_threshold ORANGE)) v then ORANGE
         else if js_le (js_int (severity_threshold YELLOW)) v then YELLOW
         else GREEN)"

fun recommendedActionFor :: "alert_severity \<Rightarrow> string \<Rightarrow> string" where
  "recommendedActionFor GREEN r = ''No action required -- resource within nominal envelope.''"
| "recommendedActionFor YELLOW r = ''Watch '' @ r @ '': increase poll cadence and pre-warm capacity headroom.''"
| "recommendedActionFor ORANGE r =
     ''Shed optional load on '' @ r @ '': trim caches, defer batch work, cap new sessions.''"
| "recommendedActionFor RED r =
     ''Engage graceful degradation for '' @ r @ '': reduce concurrency and route to lighter models.''"
| "recommendedActionFor BLACK r =
     ''Exhaustion imminent on '' @ r @ '': freeze admissions, drain queues, escalate to operator (all steps reversible).''"

definition causeFor :: "slib \<Rightarrow> resource_metric \<Rightarrow> alert_severity \<Rightarrow> jsnum \<Rightarrow> string" where
  "causeFor S m severity u =
     resource_name (nullish (mt_resource m) Ram) @ '' utilisation at '' @ sl_toFixed S 2 u @ ''% ('' @ mt_name m
       @ '') crossed the '' @ severity_name severity @ '' threshold of ''
       @ sl_numText S (js_int (severity_threshold severity)) @ ''%.''"

definition computeAuditRecordId :: "slib \<Rightarrow> resource_kind \<Rightarrow> alert_severity \<Rightarrow> jsnum \<Rightarrow> int \<Rightarrow> string" where
  "computeAuditRecordId S resource severity u timestamp =
     ''sentinel-'' @ take 32 (sl_sha256 S
       (resource_name resource @ ''|'' @ severity_name severity @ ''|'' @ sl_toFixed S 4 u @ ''|'' @ sl_iso S timestamp))"

record series_state =
  ss_current :: alert_severity
  ss_candidate :: alert_severity
  ss_consecutive :: nat

record resource_alert =
  al_severity :: alert_severity
  al_resource :: resource_kind
  al_cause :: string
  al_currentUtilisation :: jsnum
  al_remainingCapacity :: jsnum
  al_estimatedExhaustion :: "int option"
  al_recommendedAction :: string
  al_timestamp :: int
  al_auditRecordId :: string
  al_consecutiveBreaches :: nat
  al_previousSeverity :: alert_severity

record alert_engine =
  ae_breaches :: rat
  ae_series :: "(string \<times> series_state) list"
  ae_active :: "(string \<times> resource_alert) list"
  ae_emitted :: nat

text \<open>The configured number of breaches: an option, else what \<open>parseInt\<close> reads from the environment.\<close>

definition alert_engine_new :: "jsnum \<Rightarrow> alert_engine" where
  "alert_engine_new configured =
     \<lparr>ae_breaches = (case configured of Num q \<Rightarrow> if 0 < q then q else 3 | _ \<Rightarrow> 3),
      ae_series = [], ae_active = [], ae_emitted = 0\<rparr>"

text \<open>\<open>Number(u.toFixed(2))\<close>, and the same of \<open>Math.max(0, 100 - u)\<close>.\<close>

fun fixed2 :: "jsnum \<Rightarrow> jsnum" where
  "fixed2 (Num q) = Num (to_fixed 2 q)"
| "fixed2 x = x"

fun headroom :: "jsnum \<Rightarrow> jsnum" where
  "headroom (Num q) = Num (to_fixed 2 (max 0 (100 - q)))"
| "headroom PosInf = Num 0"
| "headroom NegInf = PosInf"
| "headroom NaN = NaN"

definition observe_series :: "alert_severity \<Rightarrow> series_state option \<Rightarrow> series_state" where
  "observe_series observed st =
     (case st of
        None \<Rightarrow> \<lparr>ss_current = GREEN, ss_candidate = observed, ss_consecutive = 1\<rparr>
      | Some s \<Rightarrow>
          if observed = ss_candidate s then s\<lparr>ss_consecutive := ss_consecutive s + 1\<rparr>
          else s\<lparr>ss_candidate := observed, ss_consecutive := 1\<rparr>)"

definition alert_of ::
  "slib \<Rightarrow> (resource_metric \<Rightarrow> int option) \<Rightarrow> resource_metric \<Rightarrow> alert_severity \<Rightarrow> series_state \<Rightarrow> resource_alert" where
  "alert_of S est m observed s =
     (let u = utilisationOf m; resource = nullish (mt_resource m) Ram
      in \<lparr>al_severity = observed, al_resource = resource, al_cause = causeFor S m observed u,
          al_currentUtilisation = fixed2 u, al_remainingCapacity = headroom u,
          al_estimatedExhaustion = est m, al_recommendedAction = recommendedActionFor observed (resource_name resource),
          al_timestamp = mt_timestamp m,
          al_auditRecordId = computeAuditRecordId S resource observed u (mt_timestamp m),
          al_consecutiveBreaches = ss_consecutive s, al_previousSeverity = ss_current s\<rparr>)"

text \<open>\<open>est\<close> is the exhaustion estimator; an engine without one is the estimator that returns nothing.\<close>

definition alert_evaluate ::
  "slib \<Rightarrow> (resource_metric \<Rightarrow> int option) \<Rightarrow> resource_metric \<Rightarrow> alert_engine \<Rightarrow> resource_alert option \<times> alert_engine" where
  "alert_evaluate S est m e =
     (if mt_available m = Some False then (None, e)
      else
        let observed = evaluateSeverity (utilisationOf m); key = mt_name m;
            s = observe_series observed (map_of (ae_series e) key);
            e1 = e\<lparr>ae_series := AList.update key s (ae_series e)\<rparr>
        in if observed = ss_current s
             then (None, if observed = GREEN then e1\<lparr>ae_active := AList.delete key (ae_active e1)\<rparr> else e1)
           else if of_nat (ss_consecutive s) < ae_breaches e then (None, e1)
           else
             let e2 = e1\<lparr>ae_series := AList.update key (s\<lparr>ss_current := observed\<rparr>) (ae_series e1)\<rparr>
             in if observed = GREEN then (None, e2\<lparr>ae_active := AList.delete key (ae_active e2)\<rparr>)
                else
                  let a = alert_of S est m observed s
                  in (Some a, e2\<lparr>ae_active := AList.update key a (ae_active e2), ae_emitted := ae_emitted e2 + 1\<rparr>))"

definition worse :: "alert_severity \<Rightarrow> alert_severity \<Rightarrow> alert_severity" where
  "worse a b = (if severity_rank b > severity_rank a then b else a)"

definition aggregateSeverity :: "alert_engine \<Rightarrow> alert_severity" where
  "aggregateSeverity e = fold (\<lambda>s worst. worse worst s) (map (\<lambda>p. ss_current (snd p)) (ae_series e)) GREEN"

fun evaluate_all ::
  "slib \<Rightarrow> (resource_metric \<Rightarrow> int option) \<Rightarrow> resource_metric list \<Rightarrow> alert_engine \<Rightarrow> resource_alert list \<times> alert_engine" where
  "evaluate_all S est [] e = ([], e)"
| "evaluate_all S est (m # ms) e =
     (let (a, e1) = alert_evaluate S est m e; (as, e2) = evaluate_all S est ms e1
      in ((case a of None \<Rightarrow> as | Some x \<Rightarrow> x # as), e2))"

definition evaluateBatch ::
  "slib \<Rightarrow> (resource_metric \<Rightarrow> int option) \<Rightarrow> resource_metric list \<Rightarrow> alert_engine
     \<Rightarrow> (resource_alert list \<times> alert_severity) \<times> alert_engine" where
  "evaluateBatch S est ms e = (let (as, e') = evaluate_all S est ms e in ((as, aggregateSeverity e'), e'))"

text \<open>The sort is stable, as in the language: the most severe first, each band in insertion order.\<close>

definition getActiveAlerts :: "alert_engine \<Rightarrow> resource_alert list" where
  "getActiveAlerts e = sort_key (\<lambda>a. - int (severity_rank (al_severity a))) (map snd (ae_active e))"

definition severityFor :: "string \<Rightarrow> alert_engine \<Rightarrow> alert_severity" where
  "severityFor name e = (case map_of (ae_series e) name of None \<Rightarrow> GREEN | Some s \<Rightarrow> ss_current s)"

definition alert_reset :: "alert_engine \<Rightarrow> alert_engine" where
  "alert_reset e = e\<lparr>ae_series := [], ae_active := [], ae_emitted := 0\<rparr>"

section \<open>Degradation ladder\<close>

record degradation_step =
  ds_level :: nat
  ds_id :: string
  ds_description :: string
  ds_trigger :: alert_severity
  ds_requiresAuthorisation :: bool

definition DEGRADATION_LADDER :: "degradation_step list" where
  "DEGRADATION_LADDER =
    [\<lparr>ds_level = 1, ds_id = ''trim-metric-retention'',
      ds_description = ''Trim Sentinel metric retention to the minimum viable window.'',
      ds_trigger = YELLOW, ds_requiresAuthorisation = False\<rparr>,
     \<lparr>ds_level = 2, ds_id = ''flush-context-caches'',
      ds_description = ''Flush warm context caches and compressed-context scratch space.'',
      ds_trigger = YELLOW, ds_requiresAuthorisation = False\<rparr>,
     \<lparr>ds_level = 3, ds_id = ''defer-batch-work'',
      ds_description = ''Defer non-interactive batch and background evaluation work.'',
      ds_trigger = ORANGE, ds_requiresAuthorisation = True\<rparr>,
     \<lparr>ds_level = 4, ds_id = ''reduce-context-window'',
      ds_description = ''Reduce the effective context window and raise the compression threshold.'',
      ds_trigger = ORANGE, ds_requiresAuthorisation = True\<rparr>,
     \<lparr>ds_level = 5, ds_id = ''route-to-lighter-models'',
      ds_description = ''Bias R-Model Fabric routing towards lower-cost, lower-footprint models.'',
      ds_trigger = ORANGE, ds_requiresAuthorisation = True\<rparr>,
     \<lparr>ds_level = 6, ds_id = ''reduce-agent-concurrency'',
      ds_description = ''Reduce R-Agent Runtime concurrency and maximum iteration budget.'',
      ds_trigger = RED, ds_requiresAuthorisation = True\<rparr>,
     \<lparr>ds_level = 7, ds_id = ''throttle-admissions'',
      ds_description = ''Throttle R-Gateway admissions -- queue new sessions instead of accepting them.'',
      ds_trigger = RED, ds_requiresAuthorisation = True\<rparr>,
     \<lparr>ds_level = 8, ds_id = ''freeze-admissions-drain'',
      ds_description = ''Freeze admissions entirely, drain in-flight work, and escalate to the operator.'',
      ds_trigger = BLACK, ds_requiresAuthorisation = True\<rparr>]"

definition targetLevelFor :: "alert_severity \<Rightarrow> nat" where
  "targetLevelFor severity =
     fold (\<lambda>step target. if severity_rank severity \<ge> severity_rank (ds_trigger step) then ds_level step else target)
       DEGRADATION_LADDER 0"

record degradation_action =
  da_step :: degradation_step
  da_applied :: bool
  da_reason :: string
  da_timestamp :: int

record response_controller =
  rc_enabled :: bool
  rc_maxLevel :: rat
  rc_level :: nat
  rc_history :: "degradation_action list"

text \<open>The configured ceiling: an option, else what \<open>parseInt\<close> reads from the environment.\<close>

definition response_controller_new :: "bool \<Rightarrow> jsnum \<Rightarrow> response_controller" where
  "response_controller_new enabled configuredMax =
     \<lparr>rc_enabled = enabled,
      rc_maxLevel = (case configuredMax of
          Num q \<Rightarrow> max 0 (min (of_nat (length DEGRADATION_LADDER)) q) | _ \<Rightarrow> of_nat (length DEGRADATION_LADDER)),
      rc_level = 0, rc_history = []\<rparr>"

definition getActiveSteps :: "response_controller \<Rightarrow> degradation_step list" where
  "getActiveSteps c = filter (\<lambda>s. ds_level s \<le> rc_level c) DEGRADATION_LADDER"

definition ladder_step :: "nat \<Rightarrow> degradation_step" where
  "ladder_step level = DEGRADATION_LADDER ! (level - 1)"

definition withheld_action :: "alert_severity \<Rightarrow> int \<Rightarrow> degradation_step \<Rightarrow> degradation_action" where
  "withheld_action severity now step =
     \<lparr>da_step = step, da_applied = False,
      da_reason = ''Withheld: step requires authorisation but SENTINEL_DEGRADATION_ENABLED is not set (severity ''
        @ severity_name severity @ '').'', da_timestamp = now\<rparr>"

definition applied_action :: "alert_severity \<Rightarrow> int \<Rightarrow> degradation_step \<Rightarrow> degradation_action" where
  "applied_action severity now step =
     \<lparr>da_step = step, da_applied = True,
      da_reason = ''Applied at severity '' @ severity_name severity @ '': '' @ ds_description step,
      da_timestamp = now\<rparr>"

definition reversed_action :: "alert_severity \<Rightarrow> int \<Rightarrow> degradation_step \<Rightarrow> degradation_action" where
  "reversed_action severity now step =
     \<lparr>da_step = step, da_applied = False,
      da_reason = ''Reversed at severity '' @ severity_name severity @ '': '' @ ds_id step @ '' restored to nominal.'',
      da_timestamp = now\<rparr>"

text \<open>The two loops, over the levels they count through; the first component is the level they leave.\<close>

fun climb :: "bool \<Rightarrow> alert_severity \<Rightarrow> int \<Rightarrow> nat list \<Rightarrow> nat \<Rightarrow> nat \<times> degradation_action list" where
  "climb enabled severity now [] current = (current, [])"
| "climb enabled severity now (level # levels) current =
     (let step = ladder_step level
      in if ds_requiresAuthorisation step \<and> \<not> enabled then (current, [withheld_action severity now step])
         else let (final, actions) = climb enabled severity now levels level
              in (final, applied_action severity now step # actions))"

fun unwind :: "alert_severity \<Rightarrow> int \<Rightarrow> nat list \<Rightarrow> nat \<Rightarrow> nat \<times> degradation_action list" where
  "unwind severity now [] current = (current, [])"
| "unwind severity now (level # levels) current =
     (let (final, actions) = unwind severity now levels (level - 1)
      in (final, reversed_action severity now (ladder_step level) # actions))"

definition desired_level :: "alert_severity \<Rightarrow> response_controller \<Rightarrow> rat" where
  "desired_level severity c = min (of_nat (targetLevelFor severity)) (rc_maxLevel c)"

definition reconcile ::
  "alert_severity \<Rightarrow> int \<Rightarrow> response_controller \<Rightarrow> degradation_action list \<times> response_controller" where
  "reconcile severity now c =
     (let desired = desired_level severity c;
          (final, actions) =
            (if desired > of_nat (rc_level c)
               then climb (rc_enabled c) severity now [Suc (rc_level c) ..< Suc (nat \<lfloor>desired\<rfloor>)] (rc_level c)
             else if desired < of_nat (rc_level c)
               then unwind severity now (rev [Suc (nat \<lfloor>desired\<rfloor>) ..< Suc (rc_level c)]) (rc_level c)
             else (rc_level c, []))
      in (actions, c\<lparr>rc_level := final, rc_history := rc_history c @ actions\<rparr>))"

definition restoreAll :: "int \<Rightarrow> response_controller \<Rightarrow> degradation_action list \<times> response_controller" where
  "restoreAll now c = reconcile GREEN now c"

definition controller_reset :: "response_controller \<Rightarrow> response_controller" where
  "controller_reset c = c\<lparr>rc_level := 0, rc_history := []\<rparr>"

end
