(* ===== verification/Forecaster.thy ===== *)
theory Forecaster imports Sentinel begin

text \<open>
  The forecaster, \<open>src/src/sentinel/forecaster.ts\<close>: the least-squares line through the last samples of a
  series, and what is projected from it.  The arithmetic is that of \<open>jsnum\<close>: exact on finite values,
  and propagating the infinities and \<open>NaN\<close> as the language does.
\<close>

section \<open>Arithmetic\<close>

definition js_signed :: "rat \<Rightarrow> jsnum \<Rightarrow> jsnum" where
  "js_signed q x = (if x = NaN \<or> q = 0 then NaN else if 0 < q \<longleftrightarrow> x = PosInf then PosInf else NegInf)"

fun js_mul :: "jsnum \<Rightarrow> jsnum \<Rightarrow> jsnum" where
  "js_mul (Num a) (Num b) = Num (a * b)"
| "js_mul (Num a) y = js_signed a y"
| "js_mul x (Num b) = js_signed b x"
| "js_mul NaN y = NaN"
| "js_mul x NaN = NaN"
| "js_mul PosInf y = y"
| "js_mul NegInf y = (if y = PosInf then NegInf else PosInf)"

text \<open>A zero divisor counts as the positive zero; no division of the forecaster has one.\<close>

fun js_div :: "jsnum \<Rightarrow> jsnum \<Rightarrow> jsnum" where
  "js_div (Num a) (Num b) =
     (if b \<noteq> 0 then Num (a / b) else if a = 0 then NaN else if 0 < a then PosInf else NegInf)"
| "js_div (Num a) NaN = NaN"
| "js_div (Num a) y = Num 0"
| "js_div x (Num b) = (if x = NaN then NaN else js_signed (if b < 0 then - 1 else 1) x)"
| "js_div _ _ = NaN"

fun js_max :: "jsnum \<Rightarrow> jsnum \<Rightarrow> jsnum" where
  "js_max x y = (if x = NaN \<or> y = NaN then NaN else if js_less x y then y else x)"

text \<open>\<open>Math.round(value * 10 ** dp) / 10 ** dp\<close>\<close>

fun js_round :: "nat \<Rightarrow> jsnum \<Rightarrow> jsnum" where
  "js_round dp (Num q) = Num (of_int (math_round (q * 10 ^ dp)) / 10 ^ dp)"
| "js_round dp x = x"

definition js_sum :: "jsnum list \<Rightarrow> jsnum" where
  "js_sum xs = foldl js_add (Num 0) xs"

section \<open>Regression\<close>

definition FORECAST_WINDOW :: nat where "FORECAST_WINDOW = 60"
definition MIN_SAMPLES :: nat where "MIN_SAMPLES = 3"
definition FLAT_SLOPE_EPSILON :: rat where "FLAT_SLOPE_EPSILON = 1 / 100"

record regression_result =
  rr_slope :: jsnum
  rr_intercept :: jsnum
  rr_r2 :: jsnum
  rr_sampleCount :: nat
  rr_spanMinutes :: jsnum

definition window_of :: "'a list \<Rightarrow> 'a list" where
  "window_of ms = drop (length ms - FORECAST_WINDOW) ms"

text \<open>The minutes since the first sample.\<close>

definition minutes_of :: "resource_metric list \<Rightarrow> jsnum list" where
  "minutes_of points = map (\<lambda>m. js_div (js_int (mt_timestamp m - mt_timestamp (hd points))) (js_int 60000)) points"

definition mean_of :: "jsnum list \<Rightarrow> jsnum" where
  "mean_of xs = js_div (js_sum xs) (js_int (int (length xs)))"

definition sxx_of :: "jsnum list \<Rightarrow> jsnum" where
  "sxx_of xs = js_sum (map (\<lambda>x. let dx = js_minus x (mean_of xs) in js_mul dx dx) xs)"

definition sxy_of :: "jsnum list \<Rightarrow> jsnum list \<Rightarrow> jsnum" where
  "sxy_of xs ys = js_sum (map (\<lambda>(x, y). js_mul (js_minus x (mean_of xs)) (js_minus y (mean_of ys))) (zip xs ys))"

definition square :: "jsnum \<Rightarrow> jsnum" where
  "square x = js_mul x x"

definition ssTot_of :: "jsnum list \<Rightarrow> jsnum" where
  "ssTot_of ys = js_sum (map (\<lambda>y. square (js_minus y (mean_of ys))) ys)"

definition ssRes_of :: "jsnum \<Rightarrow> jsnum \<Rightarrow> jsnum list \<Rightarrow> jsnum list \<Rightarrow> jsnum" where
  "ssRes_of slope intercept xs ys =
     js_sum (map (\<lambda>(x, y). square (js_minus y (js_add intercept (js_mul slope x)))) (zip xs ys))"

definition slope_of :: "jsnum list \<Rightarrow> jsnum list \<Rightarrow> jsnum" where
  "slope_of xs ys = js_div (sxy_of xs ys) (sxx_of xs)"

definition intercept_of :: "jsnum list \<Rightarrow> jsnum list \<Rightarrow> jsnum" where
  "intercept_of xs ys = js_minus (mean_of ys) (js_mul (slope_of xs ys) (mean_of xs))"

definition r2_of :: "jsnum list \<Rightarrow> jsnum list \<Rightarrow> jsnum" where
  "r2_of xs ys =
     (let ssTot = ssTot_of ys; ssRes = ssRes_of (slope_of xs ys) (intercept_of xs ys) xs ys
      in if ssTot = Num 0 then Num 1
         else js_max (Num 0) (js_min (Num 1) (js_minus (Num 1) (js_div ssRes ssTot))))"

definition linearRegression :: "resource_metric list \<Rightarrow> regression_result option" where
  "linearRegression ms =
     (let points = window_of ms; n = length points
      in if n < MIN_SAMPLES then None
         else
           let xs = minutes_of points; ys = map utilisationOf points
           in if sxx_of xs = Num 0 then None
              else Some \<lparr>rr_slope = js_round 4 (slope_of xs ys), rr_intercept = js_round 4 (intercept_of xs ys),
                         rr_r2 = js_round 4 (r2_of xs ys), rr_sampleCount = n,
                         rr_spanMinutes = js_round 4 (js_minus (xs ! (n - 1)) (xs ! 0))\<rparr>)"

section \<open>Projection\<close>

datatype metric_trend = Rising | Falling | Flat

definition classifyTrend :: "jsnum \<Rightarrow> metric_trend" where
  "classifyTrend slope =
     (if js_less (Num FLAT_SLOPE_EPSILON) slope then Rising
      else if js_less slope (Num (- FLAT_SLOPE_EPSILON)) then Falling else Flat)"

definition minutesTo :: "jsnum \<Rightarrow> jsnum \<Rightarrow> jsnum \<Rightarrow> jsnum option" where
  "minutesTo current slope target =
     (if js_le target current then Some (js_int 0)
      else if js_le slope (Num FLAT_SLOPE_EPSILON) then None
      else
        let minutes = js_div (js_minus target current) slope
        in if js_finite minutes \<and> js_le (js_int 0) minutes then Some (js_round 2 minutes) else None)"

definition confidenceFor :: "jsnum \<Rightarrow> nat \<Rightarrow> jsnum" where
  "confidenceFor r2 sampleCount =
     (let sampleFactor = min 1 (of_nat sampleCount / of_nat FORECAST_WINDOW)
      in js_round 3 (js_max (js_int 0) (js_min (js_int 1) (js_mul r2 (Num (1 / 2 + 1 / 2 * sampleFactor))))))"

definition recommendationFor ::
  "slib \<Rightarrow> string \<Rightarrow> metric_trend \<Rightarrow> jsnum option \<Rightarrow> jsnum option \<Rightarrow> string" where
  "recommendationFor S resource trend timeToRed timeToYellow =
     (case trend of
        Falling \<Rightarrow> resource @ '' is recovering -- hold current posture and reverse any active degradation steps.''
      | Flat \<Rightarrow> resource @ '' is stable -- no capacity action required.''
      | Rising \<Rightarrow>
          if timeToRed \<noteq> None \<and> js_le (the timeToRed) (js_int 15)
            then resource @ '' projected to reach RED in ~'' @ sl_numText S (the timeToRed)
              @ '' min -- pre-authorise graceful degradation now.''
          else if timeToYellow \<noteq> None \<and> js_le (the timeToYellow) (js_int 30)
            then resource @ '' projected to reach YELLOW in ~'' @ sl_numText S (the timeToYellow)
              @ '' min -- schedule capacity headroom or shed optional load.''
          else resource @ '' rising slowly -- continue monitoring at current cadence.'')"

record resource_forecast =
  fc_resource :: resource_kind
  fc_currentUtilisation :: jsnum
  fc_trend :: metric_trend
  fc_timeToYellow :: "jsnum option"
  fc_timeToRed :: "jsnum option"
  fc_recommendation :: string
  fc_confidence :: jsnum
  fc_slope :: jsnum
  fc_sampleCount :: nat

definition forecast :: "slib \<Rightarrow> resource_metric list \<Rightarrow> resource_forecast option" where
  "forecast S ms =
     (let points = window_of ms
      in if points = [] then None
         else
           let latest = last points; resource = nullish (mt_resource latest) Ram;
               current = js_round 2 (utilisationOf latest)
           in case linearRegression points of
                None \<Rightarrow> Some \<lparr>fc_resource = resource, fc_currentUtilisation = current, fc_trend = Flat,
                    fc_timeToYellow = None, fc_timeToRed = None,
                    fc_recommendation = ''Insufficient history for '' @ resource_name resource
                      @ '' -- collecting baseline ('' @ sl_numText S (js_int (int (length points))) @ ''/''
                      @ sl_numText S (js_int (int MIN_SAMPLES)) @ '' samples minimum).'',
                    fc_confidence = js_int 0, fc_slope = js_int 0, fc_sampleCount = length points\<rparr>
              | Some fit \<Rightarrow>
                  let trend = classifyTrend (rr_slope fit);
                      timeToYellow = minutesTo current (rr_slope fit) (js_int (severity_threshold YELLOW));
                      timeToRed = minutesTo current (rr_slope fit) (js_int (severity_threshold RED))
                  in Some \<lparr>fc_resource = resource, fc_currentUtilisation = current, fc_trend = trend,
                       fc_timeToYellow = timeToYellow, fc_timeToRed = timeToRed,
                       fc_recommendation = recommendationFor S (resource_name resource) trend timeToRed timeToYellow,
                       fc_confidence = confidenceFor (rr_r2 fit) (rr_sampleCount fit), fc_slope = rr_slope fit,
                       fc_sampleCount = rr_sampleCount fit\<rparr>)"

text \<open>\<open>new Date(ms)\<close> keeps the whole milliseconds, towards zero.\<close>

definition date_ms :: "jsnum \<Rightarrow> int option" where
  "date_ms x = (case x of Num q \<Rightarrow> Some (if 0 \<le> q then \<lfloor>q\<rfloor> else \<lceil>q\<rceil>) | _ \<Rightarrow> None)"

definition estimateExhaustion :: "resource_metric list \<Rightarrow> int option" where
  "estimateExhaustion ms =
     (let points = window_of ms
      in if points = [] then None
         else case linearRegression points of
           None \<Rightarrow> None
         | Some fit \<Rightarrow>
             if js_le (rr_slope fit) (Num FLAT_SLOPE_EPSILON) then None
             else
               let latest = last points
               in case minutesTo (utilisationOf latest) (rr_slope fit) (js_int 100) of
                    None \<Rightarrow> None
                  | Some minutes \<Rightarrow> date_ms (js_add (js_int (mt_timestamp latest)) (js_mul minutes (js_int 60000))))"

definition forecastAll :: "slib \<Rightarrow> (string \<times> resource_metric list) list \<Rightarrow> resource_forecast list" where
  "forecastAll S series = List.map_filter (\<lambda>p. forecast S (snd p)) series"

end
