(* ===== verification/SentinelPlane.thy ===== *)
theory SentinelPlane imports Forecaster begin

text \<open>
  The R-Sentinel plane: the collectors of \<open>src/src/sentinel/collectors/\<close> over what the host reports, the
  plane of \<open>src/src/planes/r-sentinel/index.ts\<close> and its routes, \<open>src/src/api/sentinel-router.ts\<close>.
  What a poll reads of the host is the record \<open>poll\<close>: memory, processor ticks, the load average, the
  output of \<open>df\<close> and \<open>nvidia-smi\<close> (\<open>None\<close> when the process fails) and the answer of the session
  counter.  Limits read from the environment are the record \<open>sentinel_env\<close>.
\<close>

section \<open>Collectors\<close>

record sentinel_env =
  se_maxSessions :: jsnum
  se_maxTokensPerSecond :: jsnum
  se_latencyBudgetMs :: jsnum
  se_parseFloat :: "string \<Rightarrow> jsnum"

record cpu_times =
  ct_user :: int
  ct_nice :: int
  ct_sys :: int
  ct_idle :: int
  ct_irq :: int

record poll =
  po_now :: int
  po_totalmem :: int
  po_freemem :: int
  po_cpus :: "cpu_times list"
  po_oneMinute :: jsnum
  po_df :: "string option"
  po_smi_probe :: "string option"
  po_smi :: "string option"
  po_sessions :: "jsnum option"

definition clampPercent :: "jsnum \<Rightarrow> jsnum" where
  "clampPercent v = (if js_finite v then js_min (js_int 100) (js_max (js_int 0) v) else js_int 0)"

definition percent_of :: "jsnum \<Rightarrow> jsnum \<Rightarrow> jsnum" where
  "percent_of part whole = clampPercent (js_mul (js_div part whole) (js_int 100))"

definition system_metric :: "string \<Rightarrow> resource_kind \<Rightarrow> int \<Rightarrow> jsnum \<Rightarrow> jsnum option \<Rightarrow> bool \<Rightarrow> resource_metric" where
  "system_metric name kind now u capacity available =
     \<lparr>mt_name = name, mt_value = js_round 2 u, mt_unit = ''percent'', mt_timestamp = now, mt_resource = Some kind,
      mt_utilisation = Some (js_round 2 u), mt_capacity = capacity, mt_collector = Some SystemCollector,
      mt_available = Some available\<rparr>"

definition collectRam :: "poll \<Rightarrow> resource_metric" where
  "collectRam p =
     (let used = max 0 (po_totalmem p - po_freemem p);
          u = (if po_totalmem p > 0 then percent_of (js_int used) (js_int (po_totalmem p)) else js_int 0)
      in system_metric ''ram.utilisation'' Ram (po_now p) u (Some (js_int (po_totalmem p))) True)"

record cpu_snapshot =
  cs_idle :: int
  cs_total :: int

definition cpuSnapshot :: "cpu_times list \<Rightarrow> cpu_snapshot" where
  "cpuSnapshot cpus =
     \<lparr>cs_idle = sum_list (map ct_idle cpus),
      cs_total = sum_list (map (\<lambda>c. ct_user c + ct_nice c + ct_sys c + ct_idle c + ct_irq c) cpus)\<rparr>"

text \<open>The result carries the snapshot kept for the next poll.\<close>

definition collectCpu :: "poll \<Rightarrow> cpu_snapshot option \<Rightarrow> resource_metric \<times> cpu_snapshot option" where
  "collectCpu p previous =
     (let snapshot = cpuSnapshot (po_cpus p); cores = max 1 (int (length (po_cpus p)));
          u = (case previous of
                 Some q \<Rightarrow>
                   if cs_total snapshot > cs_total q
                   then clampPercent (js_mul (js_minus (js_int 1)
                          (js_div (js_int (cs_idle snapshot - cs_idle q)) (js_int (cs_total snapshot - cs_total q)))) (js_int 100))
                   else percent_of (po_oneMinute p) (js_int cores)
               | None \<Rightarrow> percent_of (po_oneMinute p) (js_int cores))
      in (system_metric ''cpu.utilisation'' Cpu (po_now p) u (Some (js_int 100)) True, Some snapshot))"

record df_reading =
  df_total :: int
  df_used :: int
  df_available :: int
  df_utilisation :: jsnum

fun digits_value :: "int \<Rightarrow> string \<Rightarrow> int" where
  "digits_value n [] = n"
| "digits_value n (c # cs) = digits_value (n * 10 + (int (of_char c) - 48)) cs"

text \<open>The lines after the first, joined and split at white space; the columns of digits alone count.\<close>

definition parseDfOutput :: "string \<Rightarrow> df_reading option" where
  "parseDfOutput stdout =
     (let rows = filter (\<lambda>l. js_trim l \<noteq> []) (split_on (CHR 0x0A) (js_trim stdout))
      in if length rows < 2 then None
         else
           let columns = split_space [] (concat (map (\<lambda>l. l @ '' '') (tl rows)));
               numeric = map (digits_value 0) (filter (list_all is_digit) columns)
           in (case numeric of
                 all # used # available # _ \<Rightarrow>
                   let usedBytes = used * 1024; availableBytes = available * 1024;
                       denominator = usedBytes + availableBytes
                   in Some \<lparr>df_total = all * 1024, df_used = usedBytes, df_available = availableBytes,
                            df_utilisation = (if denominator > 0 then percent_of (js_int usedBytes) (js_int denominator)
                                              else js_int 0)\<rparr>
               | _ \<Rightarrow> None))"

definition collectStorage :: "poll \<Rightarrow> resource_metric" where
  "collectStorage p =
     (case Option.bind (po_df p) parseDfOutput of
        Some d \<Rightarrow> system_metric ''storage.utilisation'' Storage (po_now p) (df_utilisation d) (Some (js_int (df_total d))) True
      | None \<Rightarrow> (system_metric ''storage.utilisation'' Storage (po_now p) (js_int 0) None False))"

definition collectSystemMetrics :: "poll \<Rightarrow> cpu_snapshot option \<Rightarrow> resource_metric list \<times> cpu_snapshot option" where
  "collectSystemMetrics p previous =
     (let (cpu, kept) = collectCpu p previous in ([collectRam p, cpu, collectStorage p], kept))"

record gpu_reading =
  gp_name :: string
  gp_utilisation :: jsnum
  gp_memoryTotal :: jsnum
  gp_memoryUsed :: jsnum
  gp_memoryUtilisation :: jsnum

definition gpu_line :: "(string \<Rightarrow> jsnum) \<Rightarrow> string \<Rightarrow> gpu_reading option" where
  "gpu_line pf line =
     (case map js_trim (split_on (CHR '','') line) of
        index # name # util # memTotal # memUsed # _ \<Rightarrow>
          if \<not> js_finite (pf memTotal) \<or> \<not> js_finite (pf memUsed) then None
          else Some \<lparr>gp_name = (if name = [] then ''unknown-gpu'' else name), gp_utilisation = clampPercent (pf util),
                     gp_memoryTotal = pf memTotal, gp_memoryUsed = pf memUsed,
                     gp_memoryUtilisation = (if js_less (js_int 0) (pf memTotal) then percent_of (pf memUsed) (pf memTotal)
                                             else js_int 0)\<rparr>
      | _ \<Rightarrow> None)"

definition parseNvidiaSmiOutput :: "(string \<Rightarrow> jsnum) \<Rightarrow> string \<Rightarrow> gpu_reading list" where
  "parseNvidiaSmiOutput pf stdout =
     List.map_filter (gpu_line pf) (filter (\<lambda>l. l \<noteq> []) (map js_trim (split_on (CHR 0x0A) (js_trim stdout))))"

definition gpu_metric :: "string \<Rightarrow> resource_kind \<Rightarrow> int \<Rightarrow> jsnum \<Rightarrow> jsnum option \<Rightarrow> bool \<Rightarrow> resource_metric" where
  "gpu_metric name kind now u capacity available =
     (system_metric name kind now u capacity available)\<lparr>mt_collector := Some GpuCollector\<rparr>"

definition unavailableMetrics :: "int \<Rightarrow> resource_metric list" where
  "unavailableMetrics now =
     [gpu_metric ''gpu.utilisation'' Gpu now (js_int 0) None False,
      gpu_metric ''gpu.memory.utilisation'' GpuMemory now (js_int 0) None False]"

text \<open>Whether the tool answers is asked once and then kept.\<close>

definition isGpuAvailable :: "poll \<Rightarrow> bool option \<Rightarrow> bool" where
  "isGpuAvailable p cached = nullish cached (po_smi_probe p \<noteq> None)"

definition collectGpuMetrics :: "sentinel_env \<Rightarrow> poll \<Rightarrow> bool option \<Rightarrow> resource_metric list \<times> bool option" where
  "collectGpuMetrics env p cached =
     (let available = isGpuAvailable p cached
      in (if \<not> available then unavailableMetrics (po_now p)
          else case map_option (parseNvidiaSmiOutput (se_parseFloat env)) (po_smi p) of
            None \<Rightarrow> unavailableMetrics (po_now p)
          | Some [] \<Rightarrow> unavailableMetrics (po_now p)
          | Some readings \<Rightarrow>
              [gpu_metric ''gpu.utilisation'' Gpu (po_now p) (foldl js_max NegInf (map gp_utilisation readings))
                 (Some (js_int 100)) True,
               gpu_metric ''gpu.memory.utilisation'' GpuMemory (po_now p)
                 (foldl js_max NegInf (map gp_memoryUtilisation readings)) (Some (js_sum (map gp_memoryTotal readings))) True],
          Some available))"

definition LATENCY_WINDOW :: nat where "LATENCY_WINDOW = 50"

record runtime_state =
  rt_counter :: bool
  rt_tokensObserved :: jsnum
  rt_windowStartedAt :: int
  rt_latencies :: "jsnum list"
  rt_observations :: nat

definition registerSessionCounter :: "runtime_state \<Rightarrow> runtime_state" where
  "registerSessionCounter s = s\<lparr>rt_counter := True\<rparr>"

definition recordInference :: "jsnum \<Rightarrow> jsnum \<Rightarrow> runtime_state \<Rightarrow> runtime_state" where
  "recordInference tokens latencyMs s =
     (let s1 = (if js_finite tokens \<and> js_less (js_int 0) tokens
                then s\<lparr>rt_tokensObserved := js_add (rt_tokensObserved s) tokens\<rparr> else s);
          s2 = (if js_finite latencyMs \<and> js_le (js_int 0) latencyMs
                then let ls = rt_latencies s1 @ [latencyMs]
                     in s1\<lparr>rt_latencies := (if length ls > LATENCY_WINDOW then tl ls else ls)\<rparr>
                else s1)
      in s2\<lparr>rt_observations := rt_observations s2 + 1\<rparr>)"

definition resetRuntimeCounters :: "int \<Rightarrow> runtime_state" where
  "resetRuntimeCounters now =
     \<lparr>rt_counter = False, rt_tokensObserved = js_int 0, rt_windowStartedAt = now, rt_latencies = [], rt_observations = 0\<rparr>"

record runtime_snapshot =
  rn_activeSessions :: jsnum
  rn_tokensPerSecond :: jsnum
  rn_meanLatencyMs :: jsnum
  rn_observations :: nat

fun js_floor :: "jsnum \<Rightarrow> jsnum" where
  "js_floor (Num q) = js_int \<lfloor>q\<rfloor>"
| "js_floor x = x"

definition snapshotRuntime :: "poll \<Rightarrow> runtime_state \<Rightarrow> runtime_snapshot \<times> runtime_state" where
  "snapshotRuntime p s =
     (let elapsed = max 1 (po_now p - rt_windowStartedAt s);
          sessions = (case po_sessions p of
              Some v \<Rightarrow> if rt_counter s \<and> js_finite v then js_max (js_int 0) (js_floor v) else js_int 0
            | None \<Rightarrow> js_int 0)
      in (\<lparr>rn_activeSessions = sessions,
           rn_tokensPerSecond = js_round 2 (js_mul (js_div (rt_tokensObserved s) (js_int elapsed)) (js_int 1000)),
           rn_meanLatencyMs = js_round 2 (if rt_latencies s = [] then js_int 0 else mean_of (rt_latencies s)),
           rn_observations = rt_observations s\<rparr>,
          s\<lparr>rt_tokensObserved := js_int 0, rt_windowStartedAt := po_now p\<rparr>))"

definition runtime_metric ::
  "string \<Rightarrow> resource_kind \<Rightarrow> string \<Rightarrow> int \<Rightarrow> jsnum \<Rightarrow> jsnum \<Rightarrow> bool \<Rightarrow> resource_metric" where
  "runtime_metric name kind unit now v capacity available =
     \<lparr>mt_name = name, mt_value = v, mt_unit = unit, mt_timestamp = now, mt_resource = Some kind,
      mt_utilisation = Some (js_round 2 (percent_of v (js_max (js_int 1) capacity))), mt_capacity = Some capacity,
      mt_collector = Some RuntimeCollector, mt_available = Some available\<rparr>"

definition collectRuntimeMetrics :: "sentinel_env \<Rightarrow> poll \<Rightarrow> runtime_state \<Rightarrow> resource_metric list \<times> runtime_state" where
  "collectRuntimeMetrics env p s =
     (let (n, s') = snapshotRuntime p s; published = (rt_counter s \<or> rn_observations n > 0)
      in ([runtime_metric ''context.sessions'' ContextSessions ''count'' (po_now p) (rn_activeSessions n)
             (se_maxSessions env) published,
           runtime_metric ''runtime.token.throughput'' TokenThroughput ''tokens/s'' (po_now p) (rn_tokensPerSecond n)
             (se_maxTokensPerSecond env) published,
           runtime_metric ''runtime.inference.latency'' InferenceLatency ''ms'' (po_now p) (rn_meanLatencyMs n)
             (se_latencyBudgetMs env) published], s'))"

section \<open>The plane\<close>

record sentinel_config =
  sc_enabled :: bool
  sc_intervalMs :: int
  sc_hysteresisBreaches :: jsnum
  sc_bufferWindowMs :: int
  sc_degradationEnabled :: bool
  sc_maxDegradationLevel :: jsnum

record sentinel_plane =
  sp_config :: sentinel_config
  sp_buffer :: metric_buffer
  sp_engine :: alert_engine
  sp_controller :: response_controller
  sp_cpu :: "cpu_snapshot option"
  sp_gpu :: "bool option"
  sp_runtime :: runtime_state
  sp_polling :: bool
  sp_requestsTotal :: nat
  sp_errorsTotal :: nat
  sp_pollsTotal :: nat
  sp_lastCollectionAt :: "int option"
  sp_lastSeverity :: alert_severity

text \<open>The constructor; the module state of the collectors is part of the plane.\<close>

definition plane_new :: "sentinel_config \<Rightarrow> runtime_state \<Rightarrow> sentinel_plane" where
  "plane_new cf rt =
     \<lparr>sp_config = cf, sp_buffer = metric_buffer_new (sc_bufferWindowMs cf) (sc_intervalMs cf),
      sp_engine = alert_engine_new (sc_hysteresisBreaches cf),
      sp_controller = response_controller_new (sc_degradationEnabled cf) (sc_maxDegradationLevel cf),
      sp_cpu = None, sp_gpu = None, sp_runtime = rt, sp_polling = False, sp_requestsTotal = 0, sp_errorsTotal = 0,
      sp_pollsTotal = 0, sp_lastCollectionAt = None, sp_lastSeverity = GREEN\<rparr>"

definition collect_metrics :: "sentinel_env \<Rightarrow> poll \<Rightarrow> sentinel_plane \<Rightarrow> resource_metric list \<times> sentinel_plane" where
  "collect_metrics env p s =
     (let (system, cpu) = collectSystemMetrics p (sp_cpu s); (gpu, cached) = collectGpuMetrics env p (sp_gpu s);
          (runtime, rt) = collectRuntimeMetrics env p (sp_runtime s)
      in (system @ gpu @ runtime, s\<lparr>sp_cpu := cpu, sp_gpu := cached, sp_runtime := rt\<rparr>))"

definition digest_metrics :: "slib \<Rightarrow> resource_metric list \<Rightarrow> int \<Rightarrow> sentinel_plane \<Rightarrow> string + sentinel_plane" where
  "digest_metrics S metrics now s =
     (case recordAll metrics (sp_buffer s) of
        Inl e \<Rightarrow> Inl e
      | Inr buffer \<Rightarrow>
          let ((alerts, severity), engine) =
                evaluateBatch S (\<lambda>m. estimateExhaustion (buffer_get (mt_name m) buffer)) metrics (sp_engine s);
              (actions, controller) = reconcile severity now (sp_controller s)
          in Inr (s\<lparr>sp_buffer := buffer, sp_pollsTotal := sp_pollsTotal s + 1, sp_lastCollectionAt := Some now,
                    sp_engine := engine, sp_lastSeverity := severity, sp_controller := controller\<rparr>))"

definition collect :: "slib \<Rightarrow> sentinel_env \<Rightarrow> poll \<Rightarrow> sentinel_plane \<Rightarrow> string + (resource_metric list \<times> sentinel_plane)" where
  "collect S env p s =
     (let (metrics, s1) = collect_metrics env p s
      in case digest_metrics S metrics (po_now p) s1 of Inl e \<Rightarrow> Inl e | Inr s2 \<Rightarrow> Inr (metrics, s2))"

text \<open>One firing of the timer.\<close>

definition sentinel_tick :: "slib \<Rightarrow> sentinel_env \<Rightarrow> poll \<Rightarrow> sentinel_plane \<Rightarrow> sentinel_plane" where
  "sentinel_tick S env p s =
     (if \<not> sp_polling s then s
      else case collect S env p s of Inl _ \<Rightarrow> s\<lparr>sp_errorsTotal := sp_errorsTotal s + 1\<rparr> | Inr (_, s') \<Rightarrow> s')"

definition sentinel_start :: "sentinel_plane \<Rightarrow> sentinel_plane" where
  "sentinel_start s = (if sp_polling s \<or> \<not> sc_enabled (sp_config s) then s else s\<lparr>sp_polling := True\<rparr>)"

definition sentinel_stop :: "sentinel_plane \<Rightarrow> sentinel_plane" where
  "sentinel_stop s = s\<lparr>sp_polling := False\<rparr>"

definition sentinel_init :: "slib \<Rightarrow> sentinel_env \<Rightarrow> poll \<Rightarrow> sentinel_plane \<Rightarrow> string + sentinel_plane" where
  "sentinel_init S env p s =
     (let s0 = s\<lparr>sp_cpu := None\<rparr>
      in if \<not> sc_enabled (sp_config s) then Inr s0
         else case collect S env p s0 of Inl e \<Rightarrow> Inl e | Inr (_, s1) \<Rightarrow> Inr (sentinel_start s1))"

text \<open>What \<open>process\<close> adds to the metadata of a request; the rest of the request passes through.\<close>

record sentinel_annotation =
  sa_severity :: alert_severity
  sa_degradationLevel :: nat
  sa_observedAt :: string

definition sentinel_process :: "slib \<Rightarrow> int \<Rightarrow> sentinel_plane \<Rightarrow> sentinel_annotation \<times> sentinel_plane" where
  "sentinel_process S now s =
     (\<lparr>sa_severity = sp_lastSeverity s, sa_degradationLevel = rc_level (sp_controller s),
       sa_observedAt = sl_iso S (nullish (sp_lastCollectionAt s) now)\<rparr>,
      s\<lparr>sp_requestsTotal := sp_requestsTotal s + 1\<rparr>)"

definition getForecasts :: "slib \<Rightarrow> sentinel_plane \<Rightarrow> resource_forecast list" where
  "getForecasts S s =
     List.map_filter
       (\<lambda>name. let series = buffer_recent name (int FORECAST_WINDOW) (sp_buffer s)
               in if series = [] \<or> mt_available (last series) = Some False then None else forecast S series)
       (buffer_names (sp_buffer s))"

record resource_status =
  rs_severity :: alert_severity
  rs_metrics :: "resource_metric list"
  rs_alerts :: "resource_alert list"
  rs_forecasts :: "resource_forecast list"
  rs_degradationLevel :: nat
  rs_collectedAt :: int

definition getStatus :: "slib \<Rightarrow> int \<Rightarrow> sentinel_plane \<Rightarrow> resource_status" where
  "getStatus S now s =
     \<lparr>rs_severity = sp_lastSeverity s, rs_metrics = buffer_latestAll (sp_buffer s),
      rs_alerts = getActiveAlerts (sp_engine s), rs_forecasts = getForecasts S s,
      rs_degradationLevel = rc_level (sp_controller s), rs_collectedAt = nullish (sp_lastCollectionAt s) now\<rparr>"

datatype sentinel_health = Healthy | Degraded | Offline

definition plane_health :: "sentinel_plane \<Rightarrow> sentinel_health" where
  "plane_health s =
     (if \<not> sc_enabled (sp_config s) then Offline
      else if sp_lastSeverity s = RED \<or> sp_lastSeverity s = BLACK then Degraded else Healthy)"

section \<open>Routes\<close>

record sentinel_query =
  sq_resource :: "string option"
  sq_severity :: "alert_severity option"
  sq_limit :: "nat option"

fun severity_of_name :: "string \<Rightarrow> alert_severity option" where
  "severity_of_name t =
     (if t = ''GREEN'' then Some GREEN else if t = ''YELLOW'' then Some YELLOW else if t = ''ORANGE'' then Some ORANGE
      else if t = ''RED'' then Some RED else if t = ''BLACK'' then Some BLACK else None)"

text \<open>The schema of a query; \<open>num\<close> is the coercion \<open>Number(text)\<close>.\<close>

definition query_limit :: "(string \<Rightarrow> jsnum) \<Rightarrow> string \<Rightarrow> nat option" where
  "query_limit num t =
     (case num t of Num q \<Rightarrow> if of_int \<lfloor>q\<rfloor> = q \<and> 0 < q \<and> q \<le> 500 then Some (nat \<lfloor>q\<rfloor>) else None | _ \<Rightarrow> None)"

definition parse_query ::
  "(string \<Rightarrow> jsnum) \<Rightarrow> string option \<Rightarrow> string option \<Rightarrow> string option \<Rightarrow> sentinel_query option" where
  "parse_query num resource severity lmt =
     (if resource = Some '''' \<or> Option.bind severity severity_of_name = None \<and> severity \<noteq> None
         \<or> Option.bind lmt (query_limit num) = None \<and> lmt \<noteq> None
      then None
      else Some \<lparr>sq_resource = resource, sq_severity = Option.bind severity severity_of_name,
                 sq_limit = Option.bind lmt (query_limit num)\<rparr>)"

definition limited :: "nat option \<Rightarrow> 'a list \<Rightarrow> 'a list" where
  "limited n xs = (case n of None \<Rightarrow> xs | Some k \<Rightarrow> take k xs)"

text \<open>\<open>None\<close> of a route is the answer 400.\<close>

definition status_metrics :: "sentinel_query \<Rightarrow> resource_metric list \<Rightarrow> resource_metric list" where
  "status_metrics q ms =
     limited (sq_limit q)
       (case sq_resource q of
          None \<Rightarrow> ms
        | Some r \<Rightarrow> filter (\<lambda>m. map_option resource_name (mt_resource m) = Some r \<or> mt_name m = r) ms)"

definition route_status :: "slib \<Rightarrow> int \<Rightarrow> sentinel_query option \<Rightarrow> sentinel_plane \<Rightarrow> resource_status option" where
  "route_status S now q s =
     map_option (\<lambda>q. let st = getStatus S now s in st\<lparr>rs_metrics := status_metrics q (rs_metrics st)\<rparr>) q"

definition route_alerts :: "sentinel_query option \<Rightarrow> sentinel_plane \<Rightarrow> (alert_severity \<times> resource_alert list) option" where
  "route_alerts q s =
     map_option (\<lambda>q.
       let by_resource = (case sq_resource q of
             None \<Rightarrow> getActiveAlerts (sp_engine s)
           | Some r \<Rightarrow> filter (\<lambda>a. resource_name (al_resource a) = r) (getActiveAlerts (sp_engine s)));
           by_severity = (case sq_severity q of
             None \<Rightarrow> by_resource
           | Some v \<Rightarrow> filter (\<lambda>a. severity_rank v \<le> severity_rank (al_severity a)) by_resource)
       in (sp_lastSeverity s, limited (sq_limit q) by_severity)) q"

definition route_forecast :: "slib \<Rightarrow> sentinel_query option \<Rightarrow> sentinel_plane \<Rightarrow> resource_forecast list option" where
  "route_forecast S q s =
     map_option (\<lambda>q. limited (sq_limit q)
       (case sq_resource q of
          None \<Rightarrow> getForecasts S s
        | Some r \<Rightarrow> filter (\<lambda>f. resource_name (fc_resource f) = r) (getForecasts S s))) q"

definition route_health :: "sentinel_plane \<Rightarrow> bool \<times> sentinel_health \<times> alert_severity" where
  "route_health s = (plane_health s \<noteq> Offline, plane_health s, sp_lastSeverity s)"

end
