(* ===== verification/SentinelFacts.thy ===== *)
theory SentinelFacts imports SentinelPlane begin

text \<open>
  What the building blocks of R-Sentinel guarantee: a ring buffer holds the newest samples of its
  series; the confirmed band of a series is the one of its last run that was long enough, and an alert
  is raised exactly when it changes to a band that is not GREEN; the level of the degradation ladder is
  a function of the last severity, and its history is a stack.
\<close>

section \<open>Ring buffers\<close>

definition newest :: "nat \<Rightarrow> 'a list \<Rightarrow> 'a list" where
  "newest n xs = drop (length xs - n) xs"

text \<open>The ring after the samples \<open>xs\<close>.\<close>

definition ring_holds :: "'a ring \<Rightarrow> 'a list \<Rightarrow> bool" where
  "ring_holds r xs \<longleftrightarrow> 0 < rb_capacity r \<and> length (rb_slots r) = rb_capacity r
     \<and> rb_size r = min (length xs) (rb_capacity r) \<and> rb_writeIndex r = length xs mod rb_capacity r
     \<and> (\<forall>j. length xs - rb_size r \<le> j \<and> j < length xs \<longrightarrow> rb_slots r ! (j mod rb_capacity r) = Some (xs ! j))"

lemma ring_new_holds: "ring_new c = Inr r \<Longrightarrow> ring_holds r [] \<and> rb_capacity r = nat c"
  by (auto simp: ring_new_def ring_holds_def split: if_splits)

lemma mod_eq_near:
  assumes "(i :: nat) mod c = j mod c" "i \<le> j" "j < i + c"
  shows "i = j"
proof -
  have "c dvd j - i" using assms(1,2) by (metis mod_eq_dvd_iff_nat)
  moreover have "j - i < c" using assms(2,3) by arith
  ultimately have "j - i = 0" using nat_dvd_not_less by blast
  with assms(2) show ?thesis by simp
qed

lemma ring_push_holds:
  assumes "ring_holds r xs"
  shows "ring_holds (ring_push x r) (xs @ [x]) \<and> rb_capacity (ring_push x r) = rb_capacity r"
proof -
  let ?c = "rb_capacity r" and ?L = "length xs"
  have r: "0 < ?c" "length (rb_slots r) = ?c" "rb_size r = min ?L ?c" "rb_writeIndex r = ?L mod ?c"
    "\<And>j. ?L - rb_size r \<le> j \<Longrightarrow> j < ?L \<Longrightarrow> rb_slots r ! (j mod ?c) = Some (xs ! j)"
    using assms by (auto simp: ring_holds_def)
  have size: "rb_size (ring_push x r) = min (Suc ?L) ?c" by (simp add: ring_push_def r(3))
  have "rb_slots (ring_push x r) ! (j mod ?c) = Some ((xs @ [x]) ! j)"
    if "Suc ?L - min (Suc ?L) ?c \<le> j" "j < Suc ?L" for j
  proof (cases "j = ?L")
    case True
    then show ?thesis using r by (simp add: ring_push_def nth_append)
  next
    case False
    then have j: "j < ?L" "?L < j + ?c" using that r(1) by auto
    then have "j mod ?c \<noteq> ?L mod ?c" using mod_eq_near[of j ?c ?L] by auto
    moreover have "rb_slots r ! (j mod ?c) = Some (xs ! j)" using j by (intro r(5)) (auto simp: r(3))
    ultimately show ?thesis using j by (simp add: ring_push_def r(4) nth_append)
  qed
  then show ?thesis
    using r(1,2,4) size by (simp add: ring_holds_def) (simp add: ring_push_def mod_Suc_eq)
qed

lemma map_filter_Some: "(\<And>i. i \<in> set is \<Longrightarrow> f i = Some (g i)) \<Longrightarrow> List.map_filter f is = map g is"
  by (induction "is") auto

lemma ring_items_holds:
  assumes "ring_holds r xs"
  shows "ring_items r = newest (rb_capacity r) xs"
proof (cases "length xs < rb_capacity r")
  case True
  have "ring_items r = map (\<lambda>i. xs ! i) [0 ..< length xs]"
    using assms True unfolding ring_items_def ring_holds_def Let_def
    by (cases "xs = []") (auto intro!: map_filter_Some simp: min_def)
  then show ?thesis using True by (simp add: map_nth newest_def)
next
  case False
  let ?c = "rb_capacity r" and ?L = "length xs"
  have r: "0 < ?c" "rb_size r = ?c" "rb_writeIndex r = ?L mod ?c"
    "\<And>j. ?L - ?c \<le> j \<Longrightarrow> j < ?L \<Longrightarrow> rb_slots r ! (j mod ?c) = Some (xs ! j)"
    using assms False by (auto simp: ring_holds_def min_def)
  have "rb_slots r ! ((?L mod ?c + i) mod ?c) = Some (xs ! (?L - ?c + i))" if "i < ?c" for i
  proof -
    have "(?L mod ?c + i) mod ?c = (?L + i) mod ?c" by (simp add: mod_add_left_eq)
    also have "?L + i = (?L - ?c + i) + ?c" using False by simp
    also have "\<dots> mod ?c = (?L - ?c + i) mod ?c" by simp
    finally show ?thesis using r(4)[of "?L - ?c + i"] that False by simp
  qed
  then have "ring_items r = map (\<lambda>i. xs ! (?L - ?c + i)) [0 ..< ?c]"
    using r by (auto simp: ring_items_def Let_def intro!: map_filter_Some)
  also have "\<dots> = newest ?c xs"
    using False by (intro nth_equalityI) (auto simp: newest_def)
  finally show ?thesis .
qed

lemma ring_last_items: "ring_last n r = (if n \<le> 0 then [] else newest (nat n) (ring_items r))"
  by (simp add: ring_last_def newest_def Let_def)

section \<open>Metric buffers\<close>

definition named :: "string \<Rightarrow> resource_metric list \<Rightarrow> resource_metric list" where
  "named name ms = filter (\<lambda>m. mt_name m = name) ms"

lemma named_snoc: "named name (ms @ [m]) = named name ms @ (if name = mt_name m then [m] else [])"
  by (auto simp: named_def)

definition ring_tracks :: "nat \<Rightarrow> 'a ring option \<Rightarrow> 'a list \<Rightarrow> bool" where
  "ring_tracks c ro xs \<longleftrightarrow> (case ro of None \<Rightarrow> xs = [] | Some r \<Rightarrow> ring_holds r xs \<and> rb_capacity r = c)"

definition buffer_holds :: "metric_buffer \<Rightarrow> resource_metric list \<Rightarrow> bool" where
  "buffer_holds b ms \<longleftrightarrow> 1 \<le> mb_capacity b \<and>
     (\<forall>name. ring_tracks (nat (mb_capacity b)) (map_of (mb_series b) name) (named name ms))"

lemma record_metric_holds:
  assumes "buffer_holds b ms"
  shows "\<exists>b'. record_metric m b = Inr b' \<and> buffer_holds b' (ms @ [m]) \<and> mb_capacity b' = mb_capacity b"
proof -
  have series: "ring_tracks (nat (mb_capacity b)) (map_of (mb_series b) name) (named name ms)" for name
    using assms by (simp add: buffer_holds_def)
  obtain r where r: "record_metric m b = Inr (b\<lparr>mb_series := AList.update (mt_name m) (ring_push m r) (mb_series b)\<rparr>)"
    "ring_holds r (named (mt_name m) ms)" "rb_capacity r = nat (mb_capacity b)"
  proof (cases "map_of (mb_series b) (mt_name m)")
    case None
    obtain q :: "resource_metric ring" where new: "ring_new (mb_capacity b) = Inr q"
      using assms by (auto simp: buffer_holds_def ring_new_def)
    with None series[of "mt_name m"] ring_new_holds[OF new] that[of q] show ?thesis
      by (simp add: record_metric_def ring_tracks_def)
  next
    case (Some q)
    with series[of "mt_name m"] that[of q] show ?thesis by (simp add: record_metric_def ring_tracks_def)
  qed
  have "ring_tracks (nat (mb_capacity b)) (map_of (AList.update (mt_name m) (ring_push m r) (mb_series b)) name)
      (named name (ms @ [m]))" for name
    using series[of name] ring_push_holds[OF r(2), of m] r(3)
    by (cases "name = mt_name m") (simp_all add: update_conv' named_snoc ring_tracks_def[of _ "Some _"])
  then have "buffer_holds (b\<lparr>mb_series := AList.update (mt_name m) (ring_push m r) (mb_series b)\<rparr>) (ms @ [m])"
    using assms by (simp add: buffer_holds_def)
  with r(1) show ?thesis by simp
qed

lemma recordAll_holds:
  "buffer_holds b ms \<Longrightarrow> \<exists>b'. recordAll ns b = Inr b' \<and> buffer_holds b' (ms @ ns) \<and> mb_capacity b' = mb_capacity b"
proof (induction ns arbitrary: b ms)
  case (Cons n ns)
  from record_metric_holds[OF Cons.prems, of n] obtain b1 where
    b1: "record_metric n b = Inr b1" "buffer_holds b1 (ms @ [n])" "mb_capacity b1 = mb_capacity b" by blast
  from Cons.IH[OF b1(2)] b1(1,3) show ?case by auto
qed simp

lemma buffer_new_holds: "buffer_holds (metric_buffer_new w i) []"
  by (simp add: buffer_holds_def metric_buffer_new_def Let_def named_def ring_tracks_def)

lemma buffer_get_holds:
  assumes "buffer_holds b ms"
  shows "buffer_get name b = newest (nat (mb_capacity b)) (named name ms)"
  using assms unfolding buffer_holds_def ring_tracks_def buffer_get_def
  by (auto simp: ring_items_holds newest_def dest!: spec[of _ name] split: option.splits)

text \<open>The metric buffer never refuses a sample, and what it returns for a name is exactly the newest
  samples recorded under that name, in order, as many as the window holds at its interval (at least
  two): the ring buffers implement the last samples of the history.\<close>

theorem buffer_refines_history:
  "\<exists>b. recordAll ms (metric_buffer_new windowMs intervalMs) = Inr b
     \<and> (\<forall>name. buffer_get name b = newest (nat (mb_capacity b)) (filter (\<lambda>m. mt_name m = name) ms))
     \<and> mb_capacity b = max 2 \<lceil>rat_of_int windowMs / of_int (if intervalMs > 0 then intervalMs else 5000)\<rceil>"
proof -
  obtain b where b: "recordAll ms (metric_buffer_new windowMs intervalMs) = Inr b" "buffer_holds b ms"
    "mb_capacity b = mb_capacity (metric_buffer_new windowMs intervalMs)"
    using recordAll_holds[OF buffer_new_holds, of ms windowMs intervalMs] by auto
  show ?thesis
    using b buffer_get_holds[OF b(2)]
    by (auto simp: metric_buffer_new_def named_def math_ceil_def DEFAULT_INTERVAL_MS_def Let_def)
qed

section \<open>Hysteresis\<close>

text \<open>How often the last band was observed in a row, and the band of the latest run of at least \<open>n\<close>
  equal observations, GREEN when there was none.\<close>

definition run_len :: "alert_severity list \<Rightarrow> nat" where
  "run_len os = (case rev os of [] \<Rightarrow> 0 | b # bs \<Rightarrow> Suc (length (takeWhile (\<lambda>x. x = b) bs)))"

definition confirmed :: "nat \<Rightarrow> alert_severity list \<Rightarrow> alert_severity" where
  "confirmed n os =
     (case find (\<lambda>k. n \<le> run_len (take k os)) (rev [1 ..< Suc (length os)]) of None \<Rightarrow> GREEN | Some k \<Rightarrow> os ! (k - 1))"

lemma run_len_snoc: "run_len (os @ [b]) = (if os \<noteq> [] \<and> last os = b then Suc (run_len os) else 1)"
  by (cases os rule: rev_cases) (auto simp: run_len_def)

lemma confirmed_Nil [simp]: "confirmed n [] = GREEN"
  by (simp add: confirmed_def)

lemma confirmed_snoc: "confirmed n (os @ [b]) = (if n \<le> run_len (os @ [b]) then b else confirmed n os)"
proof -
  have nth: "(os @ [b]) ! (k - 1) = os ! (k - 1)"
    if "find (\<lambda>k. n \<le> run_len (take k os)) (rev [1 ..< Suc (length os)]) = Some k" for k
  proof -
    have "k \<in> set (rev [1 ..< Suc (length os)])" using that by (metis find_Some_iff nth_mem)
    then show ?thesis by (auto simp: nth_append)
  qed
  have "find (\<lambda>k. n \<le> run_len (take k (os @ [b]))) (rev [1 ..< Suc (length os)])
      = find (\<lambda>k. n \<le> run_len (take k os)) (rev [1 ..< Suc (length os)])"
    by (rule find_cong) auto
  with nth show ?thesis by (auto simp: confirmed_def split: option.splits)
qed

text \<open>The bands observed for a series; an unavailable reading is no observation.\<close>

definition observed_bands :: "string \<Rightarrow> resource_metric list \<Rightarrow> alert_severity list" where
  "observed_bands name ms =
     map (\<lambda>m. evaluateSeverity (utilisationOf m)) (filter (\<lambda>m. mt_name m = name \<and> mt_available m \<noteq> Some False) ms)"

lemma observed_bands_snoc:
  "observed_bands name (ms @ [m]) = observed_bands name ms
     @ (if mt_name m = name \<and> mt_available m \<noteq> Some False then [evaluateSeverity (utilisationOf m)] else [])"
  by (simp add: observed_bands_def)

definition required :: "alert_engine \<Rightarrow> nat" where
  "required e = nat \<lceil>ae_breaches e\<rceil>"

lemma required_simps [simp]:
  "required (e\<lparr>ae_series := x\<rparr>) = required e" "required (e\<lparr>ae_active := y\<rparr>) = required e"
  "required (e\<lparr>ae_emitted := z\<rparr>) = required e"
  by (simp_all add: required_def)

lemma required_less: "of_nat c < ae_breaches e \<longleftrightarrow> c < required e"
proof -
  have "ae_breaches e \<le> of_nat c \<longleftrightarrow> \<lceil>ae_breaches e\<rceil> \<le> int c"
    by (metis ceiling_le_iff of_int_of_nat_eq)
  then show ?thesis unfolding required_def by linarith
qed

definition series_tracks :: "nat \<Rightarrow> series_state option \<Rightarrow> alert_severity list \<Rightarrow> bool" where
  "series_tracks n st os \<longleftrightarrow>
     (case st of
        None \<Rightarrow> os = []
      | Some s \<Rightarrow> os \<noteq> [] \<and> ss_candidate s = last os \<and> ss_consecutive s = run_len os \<and> ss_current s = confirmed n os)"

definition alert_tracks :: "resource_alert option \<Rightarrow> alert_severity \<Rightarrow> bool" where
  "alert_tracks a v \<longleftrightarrow> (case a of None \<Rightarrow> v = GREEN | Some x \<Rightarrow> v \<noteq> GREEN \<and> al_severity x = v)"

definition engine_tracks :: "alert_engine \<Rightarrow> resource_metric list \<Rightarrow> bool" where
  "engine_tracks e ms \<longleftrightarrow> 1 \<le> required e \<and> distinct (map fst (ae_series e)) \<and>
     (\<forall>name. series_tracks (required e) (map_of (ae_series e) name) (observed_bands name ms)
        \<and> alert_tracks (map_of (ae_active e) name) (confirmed (required e) (observed_bands name ms)))"

lemma engine_new_tracks: "engine_tracks (alert_engine_new cfg) []"
proof -
  have "0 < ae_breaches (alert_engine_new cfg)" by (simp add: alert_engine_new_def split: jsnum.split)
  then have "1 \<le> required (alert_engine_new cfg)"
    using required_less[of 0 "alert_engine_new cfg"] by simp
  then show ?thesis
    by (simp add: engine_tracks_def series_tracks_def alert_tracks_def observed_bands_def) (simp add: alert_engine_new_def)
qed

lemma observe_series_tracks:
  assumes "series_tracks n st os"
  shows "ss_candidate (observe_series b st) = b" "ss_consecutive (observe_series b st) = run_len (os @ [b])"
    "ss_current (observe_series b st) = confirmed n os"
  using assms by (auto simp: series_tracks_def observe_series_def run_len_snoc split: option.splits)

lemma confirmed_run: "n \<le> run_len os \<Longrightarrow> os \<noteq> [] \<Longrightarrow> confirmed n os = last os"
  by (cases os rule: rev_cases) (auto simp: confirmed_snoc)

lemma observed_bands_other:
  "name \<noteq> mt_name m \<Longrightarrow> observed_bands name (ms @ [m]) = observed_bands name ms"
  by (simp add: observed_bands_snoc)

text \<open>One evaluation: the alert raised, and the engine after it.\<close>

lemma alert_evaluate_step:
  fixes m :: resource_metric
  assumes "engine_tracks e ms"
  defines "old \<equiv> confirmed (required e) (observed_bands (mt_name m) ms)"
    and "new \<equiv> confirmed (required e) (observed_bands (mt_name m) (ms @ [m]))"
  shows "engine_tracks (snd (alert_evaluate S est m e)) (ms @ [m])
     \<and> required (snd (alert_evaluate S est m e)) = required e
     \<and> (fst (alert_evaluate S est m e) \<noteq> None \<longleftrightarrow> new \<noteq> old \<and> new \<noteq> GREEN)
     \<and> (\<forall>a. fst (alert_evaluate S est m e) = Some a \<longrightarrow>
          al_severity a = new \<and> al_previousSeverity a = old \<and> required e \<le> al_consecutiveBreaches a)"
proof (cases "mt_available m = Some False")
  case True
  then have "observed_bands k (ms @ [m]) = observed_bands k ms" for k by (simp add: observed_bands_snoc)
  with True assms(1) show ?thesis by (simp add: alert_evaluate_def engine_tracks_def new_def old_def)
next
  case False
  let ?k = "mt_name m" and ?b = "evaluateSeverity (utilisationOf m)" and ?n = "required e"
  let ?os = "observed_bands ?k ms"
  define s where "s = observe_series ?b (map_of (ae_series e) ?k)"
  have tr: "series_tracks ?n (map_of (ae_series e) k) (observed_bands k ms)"
    "alert_tracks (map_of (ae_active e) k) (confirmed ?n (observed_bands k ms))" for k
    using assms(1) by (simp_all add: engine_tracks_def)
  have dist: "distinct (map fst (ae_series e))" using assms(1) by (simp add: engine_tracks_def)
  have bands: "observed_bands ?k (ms @ [m]) = ?os @ [?b]" using False by (simp add: observed_bands_snoc)
  have s: "ss_candidate s = ?b" "ss_consecutive s = run_len (?os @ [?b])" "ss_current s = old"
    using observe_series_tracks[OF tr(1)[of ?k], of ?b] by (simp_all add: old_def s_def)
  have new: "new = (if ?n \<le> run_len (?os @ [?b]) then ?b else old)"
    by (simp add: new_def old_def bands confirmed_snoc)
  have mine: "engine_tracks e' (ms @ [m])"
    if "required e' = ?n" "distinct (map fst (ae_series e'))" "series_tracks ?n (map_of (ae_series e') ?k) (?os @ [?b])"
      "alert_tracks (map_of (ae_active e') ?k) new"
      "\<And>k. k \<noteq> ?k \<Longrightarrow> map_of (ae_series e') k = map_of (ae_series e) k \<and> map_of (ae_active e') k = map_of (ae_active e) k"
    for e'
    unfolding engine_tracks_def
  proof (intro conjI allI)
    show "1 \<le> required e'" using that(1) assms(1) by (simp add: engine_tracks_def)
    show "distinct (map fst (ae_series e'))" by (rule that(2))
    show "series_tracks (required e') (map_of (ae_series e') k) (observed_bands k (ms @ [m]))" for k
      using that tr(1)[of k] by (cases "k = ?k") (simp_all add: bands observed_bands_other)
    show "alert_tracks (map_of (ae_active e') k) (confirmed (required e') (observed_bands k (ms @ [m])))" for k
      using that tr(2)[of k] by (cases "k = ?k") (simp_all add: observed_bands_other new_def)
  qed
  have kept: "series_tracks ?n (Some s) (?os @ [?b])" if "new = old"
    using s that by (simp add: series_tracks_def new_def bands)
  have moved: "series_tracks ?n (Some (s\<lparr>ss_current := ?b\<rparr>)) (?os @ [?b])" if "new = ?b"
    using s that by (simp add: series_tracks_def new_def bands)
  consider (same) "?b = old" | (short) "?b \<noteq> old" "run_len (?os @ [?b]) < ?n"
    | (changed) "?b \<noteq> old" "\<not> run_len (?os @ [?b]) < ?n" by blast
  then show ?thesis
  proof cases
    case same
    then have "new = old" using new by simp
    have r: "alert_evaluate S est m e = (None, if ?b = GREEN
        then e\<lparr>ae_series := AList.update ?k s (ae_series e), ae_active := AList.delete ?k (ae_active e)\<rparr>
        else e\<lparr>ae_series := AList.update ?k s (ae_series e)\<rparr>)"
      using False same s(3) unfolding alert_evaluate_def Let_def s_def[symmetric] by simp
    have "engine_tracks (snd (alert_evaluate S est m e)) (ms @ [m])"
      by (rule mine) (use dist kept[OF \<open>new = old\<close>] tr(2)[of ?k] same \<open>new = old\<close> in
        \<open>auto simp: r distinct_update update_conv' delete_conv' alert_tracks_def[of None] old_def\<close>)
    then show ?thesis using \<open>new = old\<close> by (simp add: r)
  next
    case short
    then have "new = old" using new by simp
    have r: "alert_evaluate S est m e = (None, e\<lparr>ae_series := AList.update ?k s (ae_series e)\<rparr>)"
      using False short s(2,3) unfolding alert_evaluate_def Let_def s_def[symmetric] by (simp add: required_less)
    have "engine_tracks (snd (alert_evaluate S est m e)) (ms @ [m])"
      by (rule mine) (use dist kept[OF \<open>new = old\<close>] tr(2)[of ?k] \<open>new = old\<close> in
        \<open>simp_all add: r distinct_update update_conv' flip: old_def\<close>)
    then show ?thesis using \<open>new = old\<close> by (simp add: r)
  next
    case changed
    then have "new = ?b" using new by simp
    let ?e2 = "e\<lparr>ae_series := AList.update ?k (s\<lparr>ss_current := ?b\<rparr>) (AList.update ?k s (ae_series e))\<rparr>"
    have r: "alert_evaluate S est m e = (if ?b = GREEN then (None, ?e2\<lparr>ae_active := AList.delete ?k (ae_active e)\<rparr>)
        else (Some (alert_of S est m ?b s), ?e2\<lparr>ae_active := AList.update ?k (alert_of S est m ?b s) (ae_active e),
          ae_emitted := ae_emitted e + 1\<rparr>))"
      using False changed s(2,3) unfolding alert_evaluate_def Let_def s_def[symmetric] by (simp add: required_less)
    have a: "al_severity (alert_of S est m ?b s) = ?b" "al_previousSeverity (alert_of S est m ?b s) = old"
      "al_consecutiveBreaches (alert_of S est m ?b s) = run_len (?os @ [?b])"
      using s by (simp_all add: alert_of_def Let_def)
    have "engine_tracks (snd (alert_evaluate S est m e)) (ms @ [m])"
      by (rule mine) (use dist moved[OF \<open>new = ?b\<close>] a \<open>new = ?b\<close> in
        \<open>auto simp: r distinct_update update_conv' delete_conv' alert_tracks_def[of None] alert_tracks_def[of "Some _"]\<close>)
    then show ?thesis using \<open>new = ?b\<close> changed a by (simp add: r)
  qed
qed

lemma evaluate_all_tracks:
  "engine_tracks e ms \<Longrightarrow>
     engine_tracks (snd (evaluate_all S est ns e)) (ms @ ns) \<and> required (snd (evaluate_all S est ns e)) = required e"
proof (induction ns arbitrary: e ms)
  case (Cons n ns)
  have "engine_tracks (snd (alert_evaluate S est n e)) (ms @ [n])" "required (snd (alert_evaluate S est n e)) = required e"
    using alert_evaluate_step[OF Cons.prems, where m = n and S = S and est = est] by blast+
  with Cons.IH[of "snd (alert_evaluate S est n e)" "ms @ [n]"] show ?case
    by (simp add: Let_def case_prod_beta)
qed simp

lemma severityFor_tracks: "engine_tracks e ms \<Longrightarrow> severityFor name e = confirmed (required e) (observed_bands name ms)"
  unfolding engine_tracks_def series_tracks_def severityFor_def
  by (auto dest!: spec[of _ name] split: option.splits)

lemma active_tracks:
  "engine_tracks e ms \<Longrightarrow> (case map_of (ae_active e) name of
      None \<Rightarrow> severityFor name e = GREEN | Some a \<Rightarrow> severityFor name e \<noteq> GREEN \<and> al_severity a = severityFor name e)"
proof -
  assume "engine_tracks e ms"
  then have "alert_tracks (map_of (ae_active e) name) (severityFor name e)"
    by (simp add: severityFor_tracks) (simp add: engine_tracks_def)
  then show ?thesis by (simp add: alert_tracks_def)
qed

interpretation alert_scale: severity_scale severity_rank worse GREEN
proof
  show "severity_rank a = severity_rank b \<Longrightarrow> a = b" for a b by (cases a; cases b) auto
  show "worse a b = (if severity_rank b \<le> severity_rank a then a else b)" for a b by (auto simp: worse_def)
  show "severity_rank GREEN \<le> severity_rank a" for a by simp
qed

text \<open>After any history of readings: the confirmed band of a series is the band of its latest run of as
  many equal observations in a row as the hysteresis asks for (GREEN before there was one), unavailable
  readings being no observation; a series has an active alert exactly when that band is not GREEN, of
  that band; and the next reading raises an alert exactly when it confirms another band that is not
  GREEN, which the alert names beside the band it replaces.\<close>

theorem alert_hysteresis:
  "let n = required (alert_engine_new cfg); e = snd (evaluate_all S est ms (alert_engine_new cfg));
       old = confirmed n (observed_bands (mt_name m) ms); new = confirmed n (observed_bands (mt_name m) (ms @ [m]))
   in 1 \<le> n \<and> severityFor name e = confirmed n (observed_bands name ms)
    \<and> (case map_of (ae_active e) name of
         None \<Rightarrow> severityFor name e = GREEN
       | Some a \<Rightarrow> severityFor name e \<noteq> GREEN \<and> al_severity a = severityFor name e)
    \<and> (case fst (alert_evaluate S est m e) of
         None \<Rightarrow> new = old \<or> new = GREEN
       | Some a \<Rightarrow> new \<noteq> old \<and> new \<noteq> GREEN \<and> al_severity a = new \<and> al_previousSeverity a = old
           \<and> n \<le> al_consecutiveBreaches a)"
proof -
  define n where "n = required (alert_engine_new cfg)"
  define e where "e = snd (evaluate_all S est ms (alert_engine_new cfg))"
  let ?old = "confirmed n (observed_bands (mt_name m) ms)" and ?new = "confirmed n (observed_bands (mt_name m) (ms @ [m]))"
  have e: "engine_tracks e ms" "required e = n"
    using evaluate_all_tracks[OF engine_new_tracks, of S est ms cfg] by (simp_all add: e_def n_def)
  have "1 \<le> n" using e by (simp add: engine_tracks_def)
  moreover have "case fst (alert_evaluate S est m e) of
         None \<Rightarrow> ?new = ?old \<or> ?new = GREEN
       | Some a \<Rightarrow> ?new \<noteq> ?old \<and> ?new \<noteq> GREEN \<and> al_severity a = ?new \<and> al_previousSeverity a = ?old
           \<and> n \<le> al_consecutiveBreaches a"
    using alert_evaluate_step[OF e(1), where m = m and S = S and est = est] e(2)
    by (cases "fst (alert_evaluate S est m e)") auto
  ultimately show ?thesis
    using severityFor_tracks[OF e(1), of name] active_tracks[OF e(1), of name] e(2)
    unfolding Let_def e_def n_def by simp
qed

text \<open>A resource that swings between two bands, however critical both are, is never confirmed.\<close>

lemma oscillation_never_confirms:
  assumes "\<forall>i. Suc i < length os \<longrightarrow> os ! Suc i \<noteq> os ! i" "2 \<le> n"
  shows "confirmed n os = GREEN"
  using assms(1)
proof (induction os rule: rev_induct)
  case (snoc b os)
  have "os ! Suc i \<noteq> os ! i" if "Suc i < length os" for i
    using snoc.prems[rule_format, of i] that by (simp add: nth_append)
  then have IH: "confirmed n os = GREEN" by (intro snoc.IH) blast
  have "run_len (os @ [b]) = 1"
  proof (cases "os = []")
    case False
    then have "Suc (length os - 1) = length os" by simp
    then have "b \<noteq> last os" using snoc.prems[rule_format, of "length os - 1"] False
      by (simp add: nth_append last_conv_nth)
    then show ?thesis by (simp add: run_len_snoc)
  qed (simp add: run_len_def)
  with IH assms(2) show ?case by (simp add: confirmed_snoc)
qed simp

text \<open>A series whose probe stops answering keeps its last confirmed band, whatever happens to the resource.\<close>

lemma dark_probe_keeps_band:
  assumes "\<forall>m\<in>set ns. mt_name m = name \<longrightarrow> mt_available m = Some False"
  shows "confirmed n (observed_bands name (ms @ ns)) = confirmed n (observed_bands name ms)"
proof -
  have "observed_bands name (ms @ ns) = observed_bands name ms"
    using assms by (auto simp: observed_bands_def filter_empty_conv)
  then show ?thesis by simp
qed

section \<open>Degradation ladder\<close>

text \<open>What the recorded actions do to the stack of steps in force, innermost last: a step is applied on
  top of the one below it, reversed only from the top, withheld without effect.\<close>

definition replay_action :: "degradation_action \<Rightarrow> nat list option \<Rightarrow> nat list option" where
  "replay_action a st =
     (case st of
        None \<Rightarrow> None
      | Some ls \<Rightarrow>
          if da_applied a then (if ds_level (da_step a) = Suc (length ls) then Some (ls @ [ds_level (da_step a)]) else None)
          else if prefix ''Reversed'' (da_reason a)
            then (if ls \<noteq> [] \<and> last ls = ds_level (da_step a) then Some (butlast ls) else None)
          else if ds_requiresAuthorisation (da_step a) then Some ls else None)"

lemma ladder_step_level: "1 \<le> l \<Longrightarrow> l \<le> 8 \<Longrightarrow> ds_level (ladder_step l) = l \<and> (ds_requiresAuthorisation (ladder_step l) \<longleftrightarrow> 3 \<le> l)"
proof -
  assume "1 \<le> l" "l \<le> 8"
  then have "l \<in> {1, 2, 3, 4, 5, 6, 7, 8}" by auto
  then show ?thesis by (auto simp: ladder_step_def DEGRADATION_LADDER_def)
qed

lemma targetLevelFor_simps [simp]:
  "targetLevelFor GREEN = 0" "targetLevelFor YELLOW = 2" "targetLevelFor ORANGE = 5" "targetLevelFor RED = 7"
  "targetLevelFor BLACK = 8"
  by (simp_all add: targetLevelFor_def DEGRADATION_LADDER_def)

lemma targetLevelFor_le: "targetLevelFor v \<le> 8"
  by (cases v) simp_all

text \<open>The level a controller settles on: up to the ceiling, and past level 2 only with authorisation.\<close>

definition settled_level :: "bool \<Rightarrow> rat \<Rightarrow> alert_severity \<Rightarrow> nat" where
  "settled_level enabled ceil v =
     (let d = nat \<lfloor>min (of_nat (targetLevelFor v)) ceil\<rfloor> in if enabled then d else min 2 d)"

definition controller_ok :: "response_controller \<Rightarrow> bool" where
  "controller_ok c \<longleftrightarrow> 0 \<le> rc_maxLevel c \<and> rc_level c \<le> 8 \<and> (\<not> rc_enabled c \<longrightarrow> rc_level c \<le> 2)
     \<and> fold replay_action (rc_history c) (Some []) = Some [1 ..< Suc (rc_level c)]"

lemma climb_levels:
  assumes "c \<le> d" "d \<le> 8" "en \<or> c \<le> 2"
  shows "fst (climb en v now [Suc c ..< Suc d] c) = (if en then d else min 2 d)
     \<and> fold replay_action (snd (climb en v now [Suc c ..< Suc d] c)) (Some [1 ..< Suc c])
       = Some [1 ..< Suc (fst (climb en v now [Suc c ..< Suc d] c))]"
  using assms
proof (induction "d - c" arbitrary: c)
  case 0
  then show ?case by auto
next
  case (Suc k)
  then have c: "c < d" by simp
  then have cons: "[Suc c ..< Suc d] = Suc c # [Suc (Suc c) ..< Suc d]" by (simp add: upt_conv_Cons)
  have step: "ds_level (ladder_step (Suc c)) = Suc c" "ds_requiresAuthorisation (ladder_step (Suc c)) \<longleftrightarrow> 2 \<le> c"
    using ladder_step_level[of "Suc c"] c Suc.prems(2) by auto
  show ?case
  proof (cases "2 \<le> c \<and> \<not> en")
    case True
    then have "c = 2" using Suc.prems(3) by auto
    with True step show ?thesis
      unfolding cons using c by (simp add: replay_action_def withheld_action_def)
  next
    case False
    have IH: "fst (climb en v now [Suc (Suc c) ..< Suc d] (Suc c)) = (if en then d else min 2 d)
       \<and> fold replay_action (snd (climb en v now [Suc (Suc c) ..< Suc d] (Suc c))) (Some [1 ..< Suc (Suc c)])
         = Some [1 ..< Suc (fst (climb en v now [Suc (Suc c) ..< Suc d] (Suc c)))]"
      by (rule Suc.hyps(1)) (use Suc.hyps(2) Suc.prems c False in auto)
    have top: "replay_action (applied_action v now (ladder_step (Suc c))) (Some [1 ..< Suc c]) = Some [1 ..< Suc (Suc c)]"
      by (simp add: replay_action_def applied_action_def step(1))
    show ?thesis
      unfolding cons using False step(2) IH top by (cases en) (simp_all add: Let_def case_prod_beta del: upt_Suc)
  qed
qed

lemma unwind_levels:
  assumes "d \<le> c" "c \<le> 8"
  shows "fst (unwind v now (rev [Suc d ..< Suc c]) c) = d
     \<and> fold replay_action (snd (unwind v now (rev [Suc d ..< Suc c]) c)) (Some [1 ..< Suc c]) = Some [1 ..< Suc d]"
  using assms
proof (induction "c - d" arbitrary: c)
  case 0
  then show ?case by simp
next
  case (Suc k)
  then obtain c' where c: "c = Suc c'" "d \<le> c'" by (cases c) auto
  then have cons: "rev [Suc d ..< Suc c] = c # rev [Suc d ..< Suc c']" by simp
  have stack: "[1 ..< Suc c] = [1 ..< Suc c'] @ [c]" using c(1) by simp
  have step: "ds_level (ladder_step c) = c" using ladder_step_level[of c] c Suc.prems by simp
  have IH: "fst (unwind v now (rev [Suc d ..< Suc c']) c') = d
     \<and> fold replay_action (snd (unwind v now (rev [Suc d ..< Suc c']) c')) (Some [1 ..< Suc c']) = Some [1 ..< Suc d]"
    by (rule Suc.hyps(1)) (use Suc.hyps(2) Suc.prems c in auto)
  have top: "replay_action (reversed_action v now (ladder_step c)) (Some [1 ..< Suc c]) = Some [1 ..< Suc c']"
    unfolding stack by (simp add: replay_action_def reversed_action_def step prefix_def)
  show ?case unfolding cons using IH top c(1) by (simp add: Let_def case_prod_beta del: upt_Suc)
qed

lemma of_nat_floor:
  assumes "0 \<le> (d :: rat)"
  shows "of_nat n < d \<Longrightarrow> n \<le> nat \<lfloor>d\<rfloor>" "d < of_nat n \<Longrightarrow> nat \<lfloor>d\<rfloor> \<le> n" "d = of_nat n \<Longrightarrow> nat \<lfloor>d\<rfloor> = n"
proof -
  show "n \<le> nat \<lfloor>d\<rfloor>" if "of_nat n < d" using that by (simp add: le_nat_iff le_floor_iff)
  show "nat \<lfloor>d\<rfloor> \<le> n" if "d < of_nat n"
  proof -
    have "\<lfloor>d\<rfloor> \<le> \<lfloor>of_nat n :: rat\<rfloor>" using that by (intro floor_mono) simp
    then show ?thesis by simp
  qed
  show "nat \<lfloor>d\<rfloor> = n" if "d = of_nat n" using that by simp
qed

lemma reconcile_ok:
  assumes "controller_ok c"
  shows "controller_ok (snd (reconcile v now c))
     \<and> rc_level (snd (reconcile v now c)) = settled_level (rc_enabled c) (rc_maxLevel c) v
     \<and> rc_enabled (snd (reconcile v now c)) = rc_enabled c \<and> rc_maxLevel (snd (reconcile v now c)) = rc_maxLevel c"
proof -
  let ?d = "desired_level v c" and ?l = "rc_level c" and ?en = "rc_enabled c"
  let ?D = "nat \<lfloor>?d\<rfloor>"
  have c: "0 \<le> rc_maxLevel c" "?l \<le> 8" "?en \<or> ?l \<le> 2" "fold replay_action (rc_history c) (Some []) = Some [1 ..< Suc ?l]"
    using assms by (auto simp: controller_ok_def)
  have d: "0 \<le> ?d" using c(1) by (simp add: desired_level_def)
  have "\<lfloor>?d\<rfloor> \<le> \<lfloor>of_nat (targetLevelFor v) :: rat\<rfloor>" by (intro floor_mono) (simp add: desired_level_def)
  then have D: "?D \<le> 8" using targetLevelFor_le[of v] by simp
  have settled: "settled_level ?en (rc_maxLevel c) v = (if ?en then ?D else min 2 ?D)"
    by (simp add: settled_level_def desired_level_def Let_def)
  obtain final actions where r: "reconcile v now c = (actions, c\<lparr>rc_level := final, rc_history := rc_history c @ actions\<rparr>)"
    and f: "final = (if ?en then ?D else min 2 ?D)" "final \<le> 8"
      "fold replay_action actions (Some [1 ..< Suc ?l]) = Some [1 ..< Suc final]"
  proof -
    consider "of_nat ?l < ?d" | "?d < of_nat ?l" | "?d = of_nat ?l" by linarith
    then show ?thesis
    proof cases
      case 1
      let ?r = "climb ?en v now [Suc ?l ..< Suc ?D] ?l"
      have "reconcile v now c = (snd ?r, c\<lparr>rc_level := fst ?r, rc_history := rc_history c @ snd ?r\<rparr>)"
        using 1 by (simp add: reconcile_def Let_def case_prod_beta)
      moreover note climb_levels[OF of_nat_floor(1)[OF d 1] D c(3), of v now]
      ultimately show ?thesis using D by (intro that[of "snd ?r" "fst ?r"]) auto
    next
      case 2
      let ?r = "unwind v now (rev [Suc ?D ..< Suc ?l]) ?l"
      have "reconcile v now c = (snd ?r, c\<lparr>rc_level := fst ?r, rc_history := rc_history c @ snd ?r\<rparr>)"
        using 2 by (simp add: reconcile_def Let_def case_prod_beta)
      moreover note unwind_levels[OF of_nat_floor(2)[OF d 2] c(2), of v now]
      ultimately show ?thesis using D c(3) of_nat_floor(2)[OF d 2] by (intro that[of "snd ?r" "fst ?r"]) auto
    next
      case 3
      have "reconcile v now c = ([], c\<lparr>rc_level := ?l, rc_history := rc_history c @ []\<rparr>)"
        using 3 by (simp add: reconcile_def Let_def)
      then show ?thesis using D c(2,3) of_nat_floor(3)[OF d 3] by (intro that[of "[]" ?l]) auto
    qed
  qed
  have "fold replay_action (rc_history c @ actions) (Some []) = Some [1 ..< Suc final]"
    using c(4) f(3) by simp
  moreover have "\<not> ?en \<longrightarrow> final \<le> 2" using f(1) by simp
  ultimately show ?thesis using f(1,2) c(1) settled by (simp add: r controller_ok_def)
qed

lemma controller_new_ok: "controller_ok (response_controller_new en mx)"
  by (simp add: controller_ok_def response_controller_new_def DEGRADATION_LADDER_def split: jsnum.split)

definition ladder_run :: "(alert_severity \<times> int) list \<Rightarrow> response_controller \<Rightarrow> response_controller" where
  "ladder_run vs c = fold (\<lambda>(v, now) c. snd (reconcile v now c)) vs c"

lemma ladder_run_snoc: "ladder_run (vs @ [p]) c = snd (reconcile (fst p) (snd p) (ladder_run vs c))"
  by (simp add: ladder_run_def case_prod_beta)

lemma ladder_run_ok:
  assumes "controller_ok c"
  shows "controller_ok (ladder_run vs c) \<and> rc_enabled (ladder_run vs c) = rc_enabled c
     \<and> rc_maxLevel (ladder_run vs c) = rc_maxLevel c"
proof (induction vs rule: rev_induct)
  case Nil
  with assms show ?case by (simp add: ladder_run_def)
next
  case (snoc p vs)
  with reconcile_ok[of "ladder_run vs c" "fst p" "snd p"] show ?case by (simp add: ladder_run_snoc)
qed

text \<open>Whatever severities the controller has been reconciled with, its level depends on the last one
  alone: the target of that severity, cut at the configured ceiling and, without authorisation, at
  level 2.  The recorded actions form a stack: every step was applied on top of the step below it,
  reversed in exact reverse order, and what is left is the steps now in force.\<close>

theorem ladder_follows_severity:
  "let start = response_controller_new en mx; c = ladder_run vs start
   in rc_level c = (if vs = [] then 0 else settled_level en (rc_maxLevel start) (fst (last vs)))
     \<and> rc_level c \<le> (if en then 8 else 2)
     \<and> fold replay_action (rc_history c) (Some []) = Some [1 ..< Suc (rc_level c)]
     \<and> map ds_level (getActiveSteps c) = [1 ..< Suc (rc_level c)]"
proof -
  let ?start = "response_controller_new en mx"
  let ?c = "ladder_run vs ?start"
  have en: "rc_enabled ?start = en" "rc_level ?start = 0" by (simp_all add: response_controller_new_def)
  have ok: "controller_ok ?c" "rc_enabled ?c = en"
    using ladder_run_ok[OF controller_new_ok, of vs en mx] en(1) by simp_all
  have "rc_level ?c = (if vs = [] then 0 else settled_level en (rc_maxLevel ?start) (fst (last vs)))"
  proof (cases vs rule: rev_cases)
    case Nil
    then show ?thesis by (simp add: ladder_run_def en(2))
  next
    case (snoc ws p)
    with ladder_run_ok[OF controller_new_ok, of ws en mx] reconcile_ok[of "ladder_run ws ?start" "fst p" "snd p"] en(1)
    show ?thesis by (simp add: ladder_run_snoc)
  qed
  moreover have "map ds_level (getActiveSteps ?c) = [1 ..< Suc (rc_level ?c)]"
  proof -
    have "rc_level ?c \<in> {0, 1, 2, 3, 4, 5, 6, 7, 8}" using ok(1) by (auto simp: controller_ok_def)
    then show ?thesis by (elim insertE emptyE) (simp_all add: getActiveSteps_def DEGRADATION_LADDER_def upt_rec)
  qed
  moreover have "rc_level ?c \<le> (if en then 8 else 2)" "fold replay_action (rc_history ?c) (Some []) = Some [1 ..< Suc (rc_level ?c)]"
    using ok by (auto simp: controller_ok_def)
  ultimately show ?thesis unfolding Let_def by blast
qed

text \<open>Without authorisation every reconciliation at ORANGE or worse records one more withheld step.\<close>

lemma withheld_history_grows:
  assumes "controller_ok c" "\<not> rc_enabled c" "3 \<le> rc_maxLevel c" "\<forall>p\<in>set vs. severity_rank (fst p) \<ge> 2"
  shows "length (rc_history c) + length vs \<le> length (rc_history (ladder_run vs c))"
  using assms(4)
proof (induction vs rule: rev_induct)
  case (snoc p vs)
  let ?c = "ladder_run vs c"
  have ok: "controller_ok ?c" "\<not> rc_enabled ?c" "3 \<le> rc_maxLevel ?c"
    using ladder_run_ok[OF assms(1), of vs] assms(2,3) by simp_all
  have "5 \<le> targetLevelFor (fst p)" using snoc.prems by (cases "fst p") auto
  then have "3 \<le> desired_level (fst p) ?c"
    using ok(3) of_nat_mono[of 5 "targetLevelFor (fst p)", where 'a = rat] unfolding desired_level_def by simp
  moreover from this have D: "3 \<le> nat \<lfloor>desired_level (fst p) ?c\<rfloor>" by (simp add: le_nat_iff le_floor_iff)
  moreover have l: "rc_level ?c \<le> 2" using ok by (simp add: controller_ok_def)
  ultimately have "fst (reconcile (fst p) (snd p) ?c) \<noteq> []"
  proof -
    have lt: "of_nat (rc_level ?c) < desired_level (fst p) ?c"
    proof -
      have "of_nat (rc_level ?c) \<le> (2 :: rat)" using l by (metis of_nat_le_iff of_nat_numeral)
      with \<open>3 \<le> desired_level (fst p) ?c\<close> show ?thesis by linarith
    qed
    have cons: "[Suc (rc_level ?c) ..< Suc (nat \<lfloor>desired_level (fst p) ?c\<rfloor>)]
        = Suc (rc_level ?c) # [Suc (Suc (rc_level ?c)) ..< Suc (nat \<lfloor>desired_level (fst p) ?c\<rfloor>)]"
      using D l by (intro upt_conv_Cons) linarith
    show ?thesis using lt unfolding reconcile_def Let_def cons by (simp add: case_prod_beta Let_def del: upt_Suc)
  qed
  moreover have "rc_history (snd (reconcile (fst p) (snd p) ?c)) = rc_history ?c @ fst (reconcile (fst p) (snd p) ?c)"
    by (simp add: reconcile_def Let_def case_prod_beta)
  moreover have "length (rc_history c) + length vs \<le> length (rc_history ?c)" using snoc by simp
  ultimately show ?case by (cases "fst (reconcile (fst p) (snd p) ?c)") (simp_all add: ladder_run_snoc)
qed (simp add: ladder_run_def)


end
