(* ===== verification/ForecastFacts.thy ===== *)
theory ForecastFacts imports Forecaster begin

text \<open>
  What the forecaster guarantees on finite readings: its line is the least-squares line, its coefficient
  of determination and its confidence lie between 0 and 1, and the red band is never projected before
  the yellow one.
\<close>

section \<open>Finite arithmetic\<close>

lemma foldl_js_add_Num: "foldl js_add (Num a) (map Num xs) = Num (a + sum_list xs)"
  by (induction xs arbitrary: a) (auto simp: add.assoc)

lemma js_sum_Num: "js_sum (map Num xs) = Num (sum_list xs)"
  by (simp add: js_sum_def foldl_js_add_Num)

lemma js_sum_map_Num: "(\<And>x. x \<in> set zs \<Longrightarrow> f x = Num (g x)) \<Longrightarrow> js_sum (map f zs) = Num (sum_list (map g zs))"
  using js_sum_Num[of "map g zs"] by (metis (no_types, lifting) comp_apply map_cong map_map)

definition mean :: "rat list \<Rightarrow> rat" where
  "mean xs = sum_list xs / of_nat (length xs)"

lemma mean_of_Num: "xs \<noteq> [] \<Longrightarrow> mean_of (map Num xs) = Num (mean xs)"
  by (simp add: mean_of_def js_sum_Num js_int_def mean_def)

definition sxx :: "rat list \<Rightarrow> rat" where
  "sxx xs = sum_list (map (\<lambda>x. (x - mean xs) ^ 2) xs)"

definition sxy :: "(rat \<times> rat) list \<Rightarrow> rat" where
  "sxy ps = sum_list (map (\<lambda>(x, y). (x - mean (map fst ps)) * (y - mean (map snd ps))) ps)"

text \<open>The squared error of the line with slope \<open>b\<close> and intercept \<open>a\<close>.\<close>

definition sse :: "rat \<Rightarrow> rat \<Rightarrow> (rat \<times> rat) list \<Rightarrow> rat" where
  "sse b a ps = sum_list (map (\<lambda>(x, y). (y - (a + b * x)) ^ 2) ps)"

lemma sxx_of_Num: "xs \<noteq> [] \<Longrightarrow> sxx_of (map Num xs) = Num (sxx xs)"
  unfolding sxx_of_def sxx_def map_map o_def
  by (rule js_sum_map_Num) (simp add: mean_of_Num Let_def power2_eq_square)

lemma ssTot_of_Num: "xs \<noteq> [] \<Longrightarrow> ssTot_of (map Num xs) = Num (sxx xs)"
  unfolding ssTot_of_def sxx_def map_map o_def
  by (rule js_sum_map_Num) (simp add: mean_of_Num square_def power2_eq_square)

lemma zip_map_Num: "zip (map (\<lambda>p. Num (fst p)) ps) (map (\<lambda>p. Num (snd p)) ps) = map (\<lambda>p. (Num (fst p), Num (snd p))) ps"
  by (induction ps) auto

abbreviation xs_of :: "(rat \<times> rat) list \<Rightarrow> jsnum list" where
  "xs_of ps \<equiv> map (\<lambda>p. Num (fst p)) ps"

abbreviation ys_of :: "(rat \<times> rat) list \<Rightarrow> jsnum list" where
  "ys_of ps \<equiv> map (\<lambda>p. Num (snd p)) ps"

lemma means_Num:
  assumes "ps \<noteq> []"
  shows "mean_of (xs_of ps) = Num (mean (map fst ps))" "mean_of (ys_of ps) = Num (mean (map snd ps))"
  using mean_of_Num[of "map fst ps"] mean_of_Num[of "map snd ps"] assms by (simp_all add: comp_def)

lemma sums_Num:
  assumes "ps \<noteq> []"
  shows "sxx_of (xs_of ps) = Num (sxx (map fst ps))" "ssTot_of (ys_of ps) = Num (sxx (map snd ps))"
    "sxy_of (xs_of ps) (ys_of ps) = Num (sxy ps)" "ssRes_of (Num b) (Num a) (xs_of ps) (ys_of ps) = Num (sse b a ps)"
proof -
  show "sxx_of (xs_of ps) = Num (sxx (map fst ps))" using sxx_of_Num[of "map fst ps"] assms by (simp add: comp_def)
  show "ssTot_of (ys_of ps) = Num (sxx (map snd ps))" using ssTot_of_Num[of "map snd ps"] assms by (simp add: comp_def)
  show "sxy_of (xs_of ps) (ys_of ps) = Num (sxy ps)"
    unfolding sxy_of_def sxy_def zip_map_Num map_map o_def
    by (rule js_sum_map_Num) (simp add: means_Num[OF assms] case_prod_beta)
  show "ssRes_of (Num b) (Num a) (xs_of ps) (ys_of ps) = Num (sse b a ps)"
    unfolding ssRes_of_def sse_def zip_map_Num map_map o_def
    by (rule js_sum_map_Num) (simp add: square_def case_prod_beta power2_eq_square)
qed

section \<open>Least squares\<close>

lemma sum_list_centered: "xs \<noteq> [] \<Longrightarrow> sum_list (map (\<lambda>x. x - mean xs) xs) = 0"
  by (simp add: sum_list_subtractf sum_list_triv mean_def)

lemma sse_expand:
  assumes "ps \<noteq> []"
  defines "mx \<equiv> mean (map fst ps)" and "my \<equiv> mean (map snd ps)"
  shows "sse b a ps = sxx (map snd ps) - 2 * b * sxy ps + b ^ 2 * sxx (map fst ps)
     + of_nat (length ps) * (my - a - b * mx) ^ 2"
proof -
  let ?k = "my - a - b * mx"
  have "sse b a ps = sum_list (map (\<lambda>p. (snd p - my) ^ 2 - 2 * b * ((fst p - mx) * (snd p - my)) + b ^ 2 * (fst p - mx) ^ 2
      + ?k ^ 2 + 2 * ?k * (snd p - my) - 2 * ?k * b * (fst p - mx)) ps)"
    unfolding sse_def by (rule arg_cong[where f = sum_list], rule map_cong[OF refl])
      (simp add: case_prod_beta power2_eq_square algebra_simps)
  also have "\<dots> = sum_list (map (\<lambda>p. (snd p - my) ^ 2) ps) - 2 * b * sum_list (map (\<lambda>p. (fst p - mx) * (snd p - my)) ps)
      + b ^ 2 * sum_list (map (\<lambda>p. (fst p - mx) ^ 2) ps) + of_nat (length ps) * ?k ^ 2
      + 2 * ?k * sum_list (map (\<lambda>p. snd p - my) ps) - 2 * ?k * b * sum_list (map (\<lambda>p. fst p - mx) ps)"
    by (induction ps) (simp_all add: algebra_simps)
  finally have e: "sse b a ps = \<dots>" .
  have "sum_list (map (\<lambda>p. snd p - my) ps) = 0" "sum_list (map (\<lambda>p. fst p - mx) ps) = 0"
    using sum_list_centered[of "map snd ps"] sum_list_centered[of "map fst ps"] assms by (simp_all add: comp_def)
  with e show ?thesis
    by (simp add: sxx_def sxy_def mx_def my_def comp_def case_prod_unfold)
qed

lemma sum_list_squares_nonneg: "0 \<le> sum_list (map (\<lambda>p. (f p :: rat) ^ 2) ps)"
  by (rule sum_list_nonneg) auto

lemma sxx_nonneg: "0 \<le> sxx xs" and sse_nonneg: "0 \<le> sse b a ps"
  using sum_list_squares_nonneg[of "\<lambda>x. x - mean xs" xs] sum_list_squares_nonneg[of "\<lambda>p. snd p - (a + b * fst p)" ps]
  by (simp_all add: sxx_def sse_def case_prod_unfold)

text \<open>The fitted line, before rounding.\<close>

definition fit_slope :: "(rat \<times> rat) list \<Rightarrow> rat" where
  "fit_slope ps = sxy ps / sxx (map fst ps)"

definition fit_intercept :: "(rat \<times> rat) list \<Rightarrow> rat" where
  "fit_intercept ps = mean (map snd ps) - fit_slope ps * mean (map fst ps)"

lemma sse_fit:
  assumes "ps \<noteq> []" "sxx (map fst ps) \<noteq> 0"
  shows "sse (fit_slope ps) (fit_intercept ps) ps = sxx (map snd ps) - sxy ps ^ 2 / sxx (map fst ps)"
    and "sse (fit_slope ps) (fit_intercept ps) ps \<le> sse b a ps"
proof -
  let ?X = "sxx (map fst ps)" and ?Y = "sxx (map snd ps)" and ?Z = "sxy ps"
  have X: "0 < ?X" using assms(2) sxx_nonneg[of "map fst ps"] by linarith
  show eq: "sse (fit_slope ps) (fit_intercept ps) ps = ?Y - ?Z ^ 2 / ?X"
    using X unfolding sse_expand[OF assms(1)]
    by (simp add: fit_intercept_def fit_slope_def power2_eq_square field_simps)
  have "?Y - 2 * b * ?Z + b ^ 2 * ?X = ?Y - ?Z ^ 2 / ?X + ?X * (b - ?Z / ?X) ^ 2"
    using X by (simp add: power2_eq_square field_simps)
  moreover have "0 \<le> ?X * (b - ?Z / ?X) ^ 2" using X by (intro mult_nonneg_nonneg) auto
  moreover have "0 \<le> of_nat (length ps) * (mean (map snd ps) - a - b * mean (map fst ps)) ^ 2"
    by (intro mult_nonneg_nonneg) auto
  ultimately show "sse (fit_slope ps) (fit_intercept ps) ps \<le> sse b a ps"
    unfolding eq sse_expand[OF assms(1), of b a] by linarith
qed

lemma fit_Num:
  assumes "ps \<noteq> []" "sxx (map fst ps) \<noteq> 0"
  shows "slope_of (xs_of ps) (ys_of ps) = Num (fit_slope ps)" "intercept_of (xs_of ps) (ys_of ps) = Num (fit_intercept ps)"
proof -
  show s: "slope_of (xs_of ps) (ys_of ps) = Num (fit_slope ps)"
    by (simp add: slope_of_def sums_Num[OF assms(1)] fit_slope_def assms(2))
  show "intercept_of (xs_of ps) (ys_of ps) = Num (fit_intercept ps)"
    by (simp add: intercept_of_def s means_Num[OF assms(1)] fit_intercept_def)
qed

text \<open>The clamp of the coefficient of determination is never needed.\<close>

definition fit_r2 :: "(rat \<times> rat) list \<Rightarrow> rat" where
  "fit_r2 ps = (if sxx (map snd ps) = 0 then 1 else 1 - sse (fit_slope ps) (fit_intercept ps) ps / sxx (map snd ps))"

lemma fit_r2_bounds:
  assumes "ps \<noteq> []" "sxx (map fst ps) \<noteq> 0"
  shows "0 \<le> fit_r2 ps" "fit_r2 ps \<le> 1" "r2_of (xs_of ps) (ys_of ps) = Num (fit_r2 ps)"
proof -
  let ?Y = "sxx (map snd ps)" and ?E = "sse (fit_slope ps) (fit_intercept ps) ps"
  have "0 \<le> sxy ps ^ 2 / sxx (map fst ps)" using sxx_nonneg[of "map fst ps"] by simp
  then have "?E \<le> ?Y" using sse_fit(1)[OF assms] by linarith
  moreover have "0 \<le> ?E" by (rule sse_nonneg)
  moreover have "0 \<le> ?Y" by (rule sxx_nonneg)
  ultimately have b: "0 \<le> fit_r2 ps \<and> fit_r2 ps \<le> 1" by (auto simp: fit_r2_def divide_le_eq)
  then show "0 \<le> fit_r2 ps" "fit_r2 ps \<le> 1" by simp_all
  show "r2_of (xs_of ps) (ys_of ps) = Num (fit_r2 ps)"
    using b by (auto simp: r2_of_def Let_def fit_Num[OF assms] sums_Num[OF assms(1)] fit_r2_def)
qed

section \<open>Forecasts\<close>

fun rat_of :: "jsnum \<Rightarrow> rat" where
  "rat_of (Num q) = q"
| "rat_of _ = 0"

text \<open>The samples of the window: minutes since the first, and utilisation.\<close>

definition sample_points :: "resource_metric list \<Rightarrow> (rat \<times> rat) list" where
  "sample_points ms =
     (let w = window_of ms
      in map (\<lambda>m. (of_int (mt_timestamp m - mt_timestamp (hd w)) / 60000, rat_of (utilisationOf m))) w)"

definition finite_readings :: "resource_metric list \<Rightarrow> bool" where
  "finite_readings ms \<longleftrightarrow> (\<forall>m\<in>set (window_of ms). js_finite (utilisationOf m))"

lemma js_finite_rat: "js_finite x \<Longrightarrow> x = Num (rat_of x)"
  by (cases x) auto

lemma sample_points_Num:
  assumes "finite_readings ms"
  shows "minutes_of (window_of ms) = xs_of (sample_points ms)" "map utilisationOf (window_of ms) = ys_of (sample_points ms)"
  using assms
  by (auto simp: minutes_of_def sample_points_def finite_readings_def js_int_def Let_def intro!: js_finite_rat)

lemma sxx_zero_iff:
  assumes "xs \<noteq> []"
  shows "sxx xs = 0 \<longleftrightarrow> (\<forall>x\<in>set xs. x = hd xs)"
proof
  assume "sxx xs = 0"
  then have "\<forall>q\<in>set (map (\<lambda>x. (x - mean xs) ^ 2) xs). q = 0"
    unfolding sxx_def by (subst (asm) sum_list_nonneg_eq_0_iff) auto
  then have "\<forall>x\<in>set xs. x = mean xs" by auto
  then show "\<forall>x\<in>set xs. x = hd xs" using assms by (metis list.set_sel(1))
next
  assume eq: "\<forall>x\<in>set xs. x = hd xs"
  then have "sum_list xs = of_nat (length xs) * hd xs" by (metis map_ident map_cong sum_list_triv)
  then have "mean xs = hd xs" using assms by (simp add: mean_def)
  then have "map (\<lambda>x. (x - mean xs) ^ 2) xs = map (\<lambda>_. 0) xs" using eq by (intro map_cong) auto
  then show "sxx xs = 0" unfolding sxx_def by (simp only: sum_list_0)
qed

lemma window_of_length: "length (window_of ms) = min (length ms) 60"
  by (simp add: window_of_def FORECAST_WINDOW_def)

lemma linearRegression_cases:
  assumes "finite_readings ms"
  defines "ps \<equiv> sample_points ms"
  shows "linearRegression ms =
    (if length ms < 3 \<or> sxx (map fst ps) = 0 then None
     else Some \<lparr>rr_slope = js_round 4 (Num (fit_slope ps)), rr_intercept = js_round 4 (Num (fit_intercept ps)),
                rr_r2 = js_round 4 (Num (fit_r2 ps)), rr_sampleCount = min (length ms) 60,
                rr_spanMinutes = js_round 4 (Num (fst (last ps) - fst (hd ps)))\<rparr>)"
proof (cases "length ms < 3")
  case True
  then show ?thesis by (simp add: linearRegression_def Let_def window_of_length MIN_SAMPLES_def)
next
  case False
  have len: "length ps = length (window_of ms)" by (simp add: ps_def sample_points_def Let_def)
  then have ps: "ps \<noteq> []" "2 < length ps" using False by (auto simp: window_of_length)
  have span: "js_minus (xs_of ps ! (length ps - 1)) (xs_of ps ! 0) = Num (fst (last ps) - fst (hd ps))"
    using ps by (simp add: last_conv_nth hd_conv_nth)
  show ?thesis
    using False ps span
    unfolding linearRegression_def Let_def sample_points_Num[OF assms(1)] ps_def[symmetric] sums_Num(1)[OF ps(1)]
      window_of_length len[symmetric]
    by (simp add: fit_Num[OF ps(1)] fit_r2_bounds(3)[OF ps(1)] MIN_SAMPLES_def len window_of_length min_less_iff_disj)
qed

lemma math_round_mono: "x \<le> y \<Longrightarrow> math_round x \<le> math_round y"
  unfolding math_round_def by (intro floor_mono) simp

lemma round_unit:
  assumes "0 \<le> q" "q \<le> (1 :: rat)"
  shows "\<exists>r. js_round d (Num q) = Num r \<and> 0 \<le> r \<and> r \<le> 1"
proof -
  have "math_round (of_int 0) \<le> math_round (q * 10 ^ d)" "math_round (q * 10 ^ d) \<le> math_round (of_int (10 ^ d))"
    by (rule math_round_mono; use assms in \<open>simp add: mult_left_le_one_le\<close>)+
  then have "0 \<le> math_round (q * 10 ^ d)" "math_round (q * 10 ^ d) \<le> 10 ^ d" unfolding math_round_of_int by simp_all
  then have "0 \<le> rat_of_int (math_round (q * 10 ^ d))" "rat_of_int (math_round (q * 10 ^ d)) \<le> of_int (10 ^ d)"
    by (simp, intro iffD2[OF of_int_le_iff])
  then show ?thesis by (simp add: divide_le_eq)
qed

text \<open>C36. On finite readings the regression is none exactly when there are fewer than three samples or all
  those of the window share one time; otherwise it rounds, to four places, the slope and the intercept
  of a line whose squared error no other line undercuts, and its coefficient of determination lies
  between 0 and 1 before any clamp.\<close>

theorem regression_is_least_squares:
  assumes "finite_readings ms"
  shows "case linearRegression ms of
      None \<Rightarrow> length ms < 3 \<or> (\<forall>m\<in>set (window_of ms). mt_timestamp m = mt_timestamp (hd (window_of ms)))
    | Some fit \<Rightarrow> 3 \<le> length ms \<and> rr_sampleCount fit = min (length ms) 60
        \<and> (\<exists>b a r. rr_slope fit = js_round 4 (Num b) \<and> rr_intercept fit = js_round 4 (Num a)
             \<and> (\<forall>b' a'. sse b a (sample_points ms) \<le> sse b' a' (sample_points ms))
             \<and> rr_r2 fit = js_round 4 (Num r) \<and> 0 \<le> r \<and> r \<le> 1)"
proof (cases "linearRegression ms")
  case None
  let ?ps = "sample_points ms" and ?w = "window_of ms"
  show ?thesis
  proof (cases "length ms < 3")
    case False
    then have w: "?w \<noteq> []" using window_of_length[of ms] by auto
    have fsts: "map fst ?ps = map (\<lambda>m. of_int (mt_timestamp m - mt_timestamp (hd ?w)) / 60000) ?w"
      by (simp add: sample_points_def Let_def)
    have "sxx (map fst ?ps) = 0" using None False linearRegression_cases[OF assms] by (simp split: if_splits)
    moreover have "map fst ?ps \<noteq> []" using w by (simp add: sample_points_def Let_def)
    ultimately have "\<forall>x\<in>set (map fst ?ps). x = hd (map fst ?ps)" using sxx_zero_iff by blast
    moreover have "hd (map fst ?ps) = 0" using w unfolding fsts by (simp add: list.map_sel(1))
    ultimately have zero: "\<forall>x\<in>set (map fst ?ps). x = 0" by simp
    have "mt_timestamp m = mt_timestamp (hd ?w)" if "m \<in> set ?w" for m
    proof -
      have "rat_of_int (mt_timestamp m - mt_timestamp (hd ?w)) / 60000 = 0" using zero that unfolding fsts by auto
      then show ?thesis by simp
    qed
    then show ?thesis using None by simp
  qed (simp add: None)
next
  case (Some fit)
  let ?ps = "sample_points ms"
  have fit: "\<not> length ms < 3" "sxx (map fst ?ps) \<noteq> 0"
    "fit = \<lparr>rr_slope = js_round 4 (Num (fit_slope ?ps)), rr_intercept = js_round 4 (Num (fit_intercept ?ps)),
            rr_r2 = js_round 4 (Num (fit_r2 ?ps)), rr_sampleCount = min (length ms) 60,
            rr_spanMinutes = js_round 4 (Num (fst (last ?ps) - fst (hd ?ps)))\<rparr>"
    using Some linearRegression_cases[OF assms] by (auto split: if_splits)
  have "length ?ps = min (length ms) 60" by (simp add: sample_points_def Let_def window_of_length)
  then have ps: "?ps \<noteq> []" using fit(1) by auto
  have "rr_slope fit = js_round 4 (Num (fit_slope ?ps)) \<and> rr_intercept fit = js_round 4 (Num (fit_intercept ?ps))
      \<and> (\<forall>b' a'. sse (fit_slope ?ps) (fit_intercept ?ps) ?ps \<le> sse b' a' ?ps)
      \<and> rr_r2 fit = js_round 4 (Num (fit_r2 ?ps)) \<and> 0 \<le> fit_r2 ?ps \<and> fit_r2 ?ps \<le> 1"
    using sse_fit(2)[OF ps fit(2)] fit_r2_bounds(1,2)[OF ps fit(2)] by (simp add: fit(3))
  moreover have "3 \<le> length ms" "rr_sampleCount fit = min (length ms) 60" using fit(1) by (simp_all add: fit(3))
  ultimately show ?thesis unfolding Some option.case by blast
qed

lemma js_clamp: "0 \<le> q \<Longrightarrow> q \<le> 1 \<Longrightarrow> js_max (Num 0) (js_min (Num 1) (Num q)) = Num q"
  by auto

lemma js_round_mono:
  assumes "p \<le> q"
  shows "\<exists>r s. js_round d (Num p) = Num r \<and> js_round d (Num q) = Num s \<and> r \<le> s"
proof -
  have "math_round (p * 10 ^ d) \<le> math_round (q * 10 ^ d)" using assms by (intro math_round_mono mult_right_mono) auto
  then show ?thesis by (simp add: divide_right_mono)
qed

lemma js_round_nonneg: "0 \<le> p \<Longrightarrow> \<exists>r. js_round d (Num p) = Num r \<and> 0 \<le> r"
  using js_round_mono[of 0 p d] by (auto simp: math_round_def)

text \<open>A further target of a finite projection is not reached earlier.\<close>

lemma minutesTo_mono:
  assumes "t \<le> u" "minutesTo (Num c) (Num b) (Num u) = Some y"
  shows "\<exists>p q. y = Num q \<and> minutesTo (Num c) (Num b) (Num t) = Some (Num p) \<and> 0 \<le> p \<and> p \<le> q"
proof (cases "u \<le> c")
  case True
  then show ?thesis using assms by (auto simp: minutesTo_def js_int_def)
next
  case False
  then have e: "FLAT_SLOPE_EPSILON < b" using assms(2) by (auto simp: minutesTo_def split: if_splits)
  then have b: "0 < b" by (simp add: FLAT_SLOPE_EPSILON_def)
  have y: "y = js_round 2 (Num ((u - c) / b))"
    using assms(2) False b e by (auto simp: minutesTo_def Let_def split: if_splits)
  obtain q where q: "y = Num q" "0 \<le> q" using js_round_nonneg[of "(u - c) / b" 2] False b unfolding y by auto
  show ?thesis
  proof (cases "t \<le> c")
    case True
    then show ?thesis using q by (auto simp: minutesTo_def js_int_def)
  next
    case False
    have le: "(t - c) / b \<le> (u - c) / b" using assms(1) b by (simp add: divide_right_mono)
    obtain p q' where p: "js_round 2 (Num ((t - c) / b)) = Num p" "y = Num q'" "p \<le> q'"
      using js_round_mono[OF le, of 2] unfolding y by blast
    have "0 \<le> p" using js_round_nonneg[of "(t - c) / b" 2] p(1) False b by auto
    moreover have "minutesTo (Num c) (Num b) (Num t) = Some (Num p)"
      using False b e p(1) by (simp add: minutesTo_def Let_def js_int_def)
    ultimately show ?thesis using p(2,3) by blast
  qed
qed

lemma regression_fit:
  assumes "finite_readings ms" "linearRegression ms = Some fit"
  shows "rr_sampleCount fit = min (length ms) 60 \<and> (\<exists>b. rr_slope fit = Num b)
     \<and> (\<exists>r. rr_r2 fit = js_round 4 (Num r) \<and> 0 \<le> r \<and> r \<le> 1)"
proof -
  let ?ps = "sample_points ms"
  have fit: "\<not> length ms < 3" "sxx (map fst ?ps) \<noteq> 0" "rr_slope fit = js_round 4 (Num (fit_slope ?ps))"
    "rr_r2 fit = js_round 4 (Num (fit_r2 ?ps))" "rr_sampleCount fit = min (length ms) 60"
    using assms(2) linearRegression_cases[OF assms(1)] by (auto split: if_splits)
  have "length ?ps = min (length ms) 60" by (simp add: sample_points_def Let_def window_of_length)
  then have ps: "?ps \<noteq> []" using fit(1) by auto
  have "rr_slope fit = Num (rat_of (rr_slope fit))" unfolding fit(3) by simp
  then show ?thesis using fit(4,5) fit_r2_bounds(1,2)[OF ps fit(2)] by blast
qed

text \<open>Every series of finite readings that is not empty has a forecast; its confidence lies between 0 and
  1; and when the red band is projected to be reached, so is the yellow one, no later, neither in the
  past.\<close>

theorem forecast_bounds:
  assumes "finite_readings ms" "ms \<noteq> []"
  shows "\<exists>f c. forecast S ms = Some f \<and> fc_confidence f = Num c \<and> 0 \<le> c \<and> c \<le> 1
    \<and> fc_sampleCount f = min (length ms) 60
    \<and> (case fc_timeToRed f of
         None \<Rightarrow> True
       | Some red \<Rightarrow> \<exists>p q. red = Num q \<and> fc_timeToYellow f = Some (Num p) \<and> 0 \<le> p \<and> p \<le> q)"
proof -
  let ?w = "window_of ms"
  have "length ?w \<noteq> 0" using assms(2) by (simp add: window_of_length)
  then have w: "?w \<noteq> []" by auto
  obtain cur where cur: "js_round 2 (utilisationOf (last ?w)) = Num cur"
    using assms(1) w by (metis finite_readings_def js_finite_rat js_round.simps(1) last_in_set)
  have again: "window_of ?w = ?w" "finite_readings ?w"
    using assms(1) by (simp_all add: window_of_def FORECAST_WINDOW_def finite_readings_def)
  show ?thesis
  proof (cases "linearRegression ?w")
    case None
    then show ?thesis using w cur by (simp add: forecast_def Let_def js_int_def window_of_length)
  next
    case (Some fit)
    obtain b where fit: "rr_sampleCount fit = min (length ms) 60" "\<exists>r. rr_r2 fit = js_round 4 (Num r) \<and> 0 \<le> r \<and> r \<le> 1"
      "rr_slope fit = Num b"
      using regression_fit[OF again(2) Some] by (auto simp: window_of_length)
    then obtain r where r: "rr_r2 fit = Num r" "0 \<le> r" "r \<le> 1" using round_unit by metis
    let ?f = "1 / 2 + 1 / 2 * min 1 (of_nat (rr_sampleCount fit) / of_nat FORECAST_WINDOW) :: rat"
    have "min 1 (of_nat (rr_sampleCount fit) / of_nat FORECAST_WINDOW) \<le> (1 :: rat)"
      "0 \<le> min 1 (of_nat (rr_sampleCount fit) / of_nat FORECAST_WINDOW :: rat)" by auto
    then have "0 \<le> ?f" "?f \<le> 1" by linarith+
    then have "0 \<le> r * ?f" "r * ?f \<le> 1" using r(2,3) by (simp_all add: mult_le_one)
    moreover have "confidenceFor (rr_r2 fit) (rr_sampleCount fit) = js_round 3 (Num (r * ?f))"
      unfolding confidenceFor_def Let_def r(1) js_mul.simps using js_clamp calculation by (simp only: js_int_def of_int_0 of_int_1)
    ultimately obtain c where c: "confidenceFor (rr_r2 fit) (rr_sampleCount fit) = Num c" "0 \<le> c" "c \<le> 1"
      using round_unit[of "r * ?f" 3] by auto
    show ?thesis
      using w cur Some fit(1,3) c minutesTo_mono[of 70 95 cur b]
      by (auto simp: forecast_def Let_def js_int_def split: option.split)
  qed
qed

section \<open>A rising series\<close>

definition rising_series :: "resource_metric list" where
  "rising_series = map (\<lambda>i. \<lparr>mt_name = ''ram.utilisation'', mt_value = js_int 0, mt_unit = ''percent'', mt_timestamp = 60000 * i,
     mt_resource = Some Ram, mt_utilisation = Some (js_int (10 + 10 * i)), mt_capacity = None,
     mt_collector = Some SystemCollector, mt_available = Some True\<rparr>) [0, 1, 2]"

definition plain_slib :: slib where
  "plain_slib = \<lparr>sl_toFixed = (\<lambda>_ _. ''''), sl_numText = (\<lambda>_. ''''), sl_iso = (\<lambda>_. ''''), sl_sha256 = id\<rparr>"

lemma rising_finite: "finite_readings rising_series"
  by (simp add: finite_readings_def window_of_def FORECAST_WINDOW_def rising_series_def utilisationOf_def js_int_def)

lemma rising_fit: "map_option rr_slope (linearRegression rising_series) = Some (js_int 10)"
  by code_simp

theorem regression_is_least_squares_witness:
  "\<exists>b a. js_round 4 (Num b) = js_int 10 \<and> (\<forall>b' a'. sse b a (sample_points rising_series) \<le> sse b' a' (sample_points rising_series))"
proof -
  obtain fit where fit: "linearRegression rising_series = Some fit" "rr_slope fit = js_int 10" using rising_fit by auto
  show ?thesis using regression_is_least_squares[OF rising_finite] fit(2) unfolding fit(1) option.case by metis
qed

theorem forecast_bounds_witness:
  "\<exists>f c. forecast plain_slib rising_series = Some f \<and> fc_confidence f = Num c \<and> 0 \<le> c \<and> c \<le> 1"
proof -
  have "rising_series \<noteq> []" by (simp add: rising_series_def)
  from forecast_bounds[OF rising_finite this, of plain_slib] show ?thesis by blast
qed


end
