(* ===== verification/SentinelPlaneFacts.thy ===== *)
theory SentinelPlaneFacts imports SentinelFacts ForecastFacts begin

text \<open>
  What the R-Sentinel plane guarantees over a history of polls: no poll fails, the plane's severity is
  the worst confirmed band, the ladder's level is the one of that severity, and once every reading is
  back in the GREEN band for as many polls as the hysteresis asks, every step has been reversed.
\<close>

section \<open>Histories of polls\<close>

text \<open>The metrics each poll collected, and the plane after them.\<close>

fun plane_run :: "slib \<Rightarrow> sentinel_env \<Rightarrow> poll list \<Rightarrow> sentinel_plane \<Rightarrow> resource_metric list list \<times> sentinel_plane" where
  "plane_run S env [] s = ([], s)"
| "plane_run S env (p # ps) s =
     (case collect S env p s of
        Inl e \<Rightarrow> plane_run S env ps s
      | Inr (ms, s1) \<Rightarrow> let (h, s2) = plane_run S env ps s1 in (ms # h, s2))"

definition plane_ok :: "sentinel_plane \<Rightarrow> resource_metric list \<Rightarrow> bool" where
  "plane_ok s ms \<longleftrightarrow> buffer_holds (sp_buffer s) ms \<and> engine_tracks (sp_engine s) ms \<and> controller_ok (sp_controller s)
     \<and> sp_lastSeverity s = aggregateSeverity (sp_engine s)
     \<and> rc_level (sp_controller s) =
         settled_level (rc_enabled (sp_controller s)) (rc_maxLevel (sp_controller s)) (sp_lastSeverity s)"

definition same_settings :: "sentinel_plane \<Rightarrow> sentinel_plane \<Rightarrow> bool" where
  "same_settings s t \<longleftrightarrow> required (sp_engine t) = required (sp_engine s)
     \<and> rc_enabled (sp_controller t) = rc_enabled (sp_controller s) \<and> rc_maxLevel (sp_controller t) = rc_maxLevel (sp_controller s)
     \<and> mb_capacity (sp_buffer t) = mb_capacity (sp_buffer s) \<and> sp_config t = sp_config s"

definition metric_names :: "string list" where
  "metric_names = [''ram.utilisation'', ''cpu.utilisation'', ''storage.utilisation'', ''gpu.utilisation'',
     ''gpu.memory.utilisation'', ''context.sessions'', ''runtime.token.throughput'', ''runtime.inference.latency'']"

lemma collect_metrics_names: "map mt_name (fst (collect_metrics env p s)) = metric_names"
proof -
  have "map mt_name (fst (collectGpuMetrics env p c)) = [''gpu.utilisation'', ''gpu.memory.utilisation'']" for c
    by (auto simp: collectGpuMetrics_def Let_def unavailableMetrics_def gpu_metric_def system_metric_def
        split: option.splits list.splits)
  moreover have "map mt_name (fst (collectSystemMetrics p c)) = [''ram.utilisation'', ''cpu.utilisation'', ''storage.utilisation'']" for c
    by (auto simp: collectSystemMetrics_def collectCpu_def collectRam_def collectStorage_def system_metric_def Let_def
        split: option.splits)
  moreover have "map mt_name (fst (collectRuntimeMetrics env p c))
      = [''context.sessions'', ''runtime.token.throughput'', ''runtime.inference.latency'']" for c
    by (simp add: collectRuntimeMetrics_def snapshotRuntime_def runtime_metric_def Let_def)
  ultimately show ?thesis
    by (simp add: collect_metrics_def metric_names_def case_prod_beta Let_def)
qed

lemma collect_metrics_keeps:
  "sp_buffer (snd (collect_metrics env p s)) = sp_buffer s" "sp_engine (snd (collect_metrics env p s)) = sp_engine s"
  "sp_controller (snd (collect_metrics env p s)) = sp_controller s" "sp_config (snd (collect_metrics env p s)) = sp_config s"
  by (simp_all add: collect_metrics_def case_prod_beta Let_def)

lemma collect_ok:
  assumes "buffer_holds (sp_buffer s) ms" "engine_tracks (sp_engine s) ms" "controller_ok (sp_controller s)"
  shows "\<exists>ns t. collect S env p s = Inr (ns, t) \<and> plane_ok t (ms @ ns) \<and> same_settings s t \<and> map mt_name ns = metric_names"
proof -
  let ?c = "collect_metrics env p s"
  let ?ns = "fst ?c"
  obtain b where b: "recordAll ?ns (sp_buffer s) = Inr b" "buffer_holds b (ms @ ?ns)" "mb_capacity b = mb_capacity (sp_buffer s)"
    using recordAll_holds[OF assms(1)] by blast
  let ?est = "\<lambda>m. estimateExhaustion (buffer_get (mt_name m) b)"
  let ?e = "snd (evaluate_all S ?est ?ns (sp_engine s))"
  let ?k = "snd (reconcile (aggregateSeverity ?e) (po_now p) (sp_controller s))"
  have e: "engine_tracks ?e (ms @ ?ns)" "required ?e = required (sp_engine s)"
    using evaluate_all_tracks[OF assms(2), of S ?est ?ns] by simp_all
  note k = reconcile_ok[OF assms(3), of "aggregateSeverity ?e" "po_now p"]
  obtain t where t: "collect S env p s = Inr (?ns, t)" "sp_buffer t = b" "sp_engine t = ?e" "sp_controller t = ?k"
    "sp_lastSeverity t = aggregateSeverity ?e" "sp_config t = sp_config s"
    by (simp add: collect_def digest_metrics_def evaluateBatch_def case_prod_beta Let_def collect_metrics_keeps b(1))
  have "plane_ok t (ms @ ?ns)" using b(2) e(1) k by (simp add: plane_ok_def t(2-5))
  moreover have "same_settings s t" using b(3) e(2) k by (simp add: same_settings_def t(2-4,6))
  ultimately show ?thesis using t(1) collect_metrics_names by blast
qed

lemma same_settings_trans: "same_settings s t \<Longrightarrow> same_settings t u \<Longrightarrow> same_settings s u"
  by (simp add: same_settings_def)

lemma plane_run_ok:
  assumes "buffer_holds (sp_buffer s) ms" "engine_tracks (sp_engine s) ms" "controller_ok (sp_controller s)"
  shows "length (fst (plane_run S env ps s)) = length ps \<and> same_settings s (snd (plane_run S env ps s))
     \<and> (\<forall>b\<in>set (fst (plane_run S env ps s)). map mt_name b = metric_names)
     \<and> (ps \<noteq> [] \<longrightarrow> plane_ok (snd (plane_run S env ps s)) (ms @ concat (fst (plane_run S env ps s))))"
  using assms
proof (induction ps arbitrary: s ms)
  case Nil
  then show ?case by (simp add: same_settings_def)
next
  case (Cons p ps)
  obtain ns t where t: "collect S env p s = Inr (ns, t)" "plane_ok t (ms @ ns)" "same_settings s t" "map mt_name ns = metric_names"
    using collect_ok[OF Cons.prems] by blast
  have ok: "buffer_holds (sp_buffer t) (ms @ ns)" "engine_tracks (sp_engine t) (ms @ ns)" "controller_ok (sp_controller t)"
    using t(2) by (simp_all add: plane_ok_def)
  from Cons.IH[OF ok] t show ?case
    by (cases ps) (auto simp: Let_def case_prod_beta intro: same_settings_trans)
qed

lemma plane_new_parts:
  "buffer_holds (sp_buffer (plane_new cf rt)) []" "engine_tracks (sp_engine (plane_new cf rt)) []"
  "controller_ok (sp_controller (plane_new cf rt))"
  by (simp_all add: plane_new_def buffer_new_holds engine_new_tracks controller_new_ok)

section \<open>Severity and level\<close>

lemma aggregate_worst:
  assumes "engine_tracks e ms"
  shows "severity_rank (confirmed (required e) (observed_bands name ms)) \<le> severity_rank (aggregateSeverity e)"
    and "aggregateSeverity e \<noteq> GREEN \<Longrightarrow> \<exists>name. aggregateSeverity e = confirmed (required e) (observed_bands name ms)"
proof -
  have name: "severityFor k e = confirmed (required e) (observed_bands k ms)" for k
    by (rule severityFor_tracks[OF assms])
  show "severity_rank (confirmed (required e) (observed_bands name ms)) \<le> severity_rank (aggregateSeverity e)"
  proof (cases "map_of (ae_series e) name")
    case None
    then have "severityFor name e = GREEN" by (simp add: severityFor_def)
    then show ?thesis by (simp add: flip: name)
  next
    case (Some st)
    then have "ss_current st \<in> set (map (\<lambda>p. ss_current (snd p)) (ae_series e))"
      using map_of_SomeD[OF Some] by force
    then have "severity_rank (ss_current st) \<le> severity_rank (aggregateSeverity e)"
      unfolding aggregateSeverity_def by (rule alert_scale.fold_upper)
    with Some show ?thesis by (simp add: severityFor_def flip: name)
  qed
  show "\<exists>name. aggregateSeverity e = confirmed (required e) (observed_bands name ms)" if "aggregateSeverity e \<noteq> GREEN"
  proof -
    have "aggregateSeverity e \<in> insert GREEN (set (map (\<lambda>p. ss_current (snd p)) (ae_series e)))"
      unfolding aggregateSeverity_def by (rule alert_scale.fold_attained)
    with that obtain p where p: "p \<in> set (ae_series e)" "aggregateSeverity e = ss_current (snd p)" by auto
    have "map_of (ae_series e) (fst p) = Some (snd p)"
      using p(1) assms by (intro map_of_is_SomeI) (simp_all add: engine_tracks_def)
    then have "severityFor (fst p) e = aggregateSeverity e" by (simp add: severityFor_def p(2))
    then show ?thesis using name[of "fst p"] by metis
  qed
qed

text \<open>C30. However long the plane has polled, whatever the host reported: no poll failed; the buffer returns the
  newest readings of every series; the plane's severity is the worst band any series has confirmed
  under the hysteresis; and the degradation level is exactly the one that severity settles on under
  the configured ceiling and authorisation.\<close>

theorem sentinel_follows_readings:
  "let start = plane_new cf rt; (h, s) = plane_run S env ps start; n = required (sp_engine start);
       band = (\<lambda>name. confirmed n (observed_bands name (concat h)))
   in length h = length ps
      \<and> (\<forall>name. buffer_get name (sp_buffer s)
            = newest (nat (mb_capacity (sp_buffer start))) (filter (\<lambda>m. mt_name m = name) (concat h)))
      \<and> (\<forall>name. severity_rank (band name) \<le> severity_rank (sp_lastSeverity s))
      \<and> sp_lastSeverity s \<in> insert GREEN (range band)
      \<and> rc_level (sp_controller s) =
          (if ps = [] then 0
           else settled_level (sc_degradationEnabled cf) (rc_maxLevel (sp_controller start)) (sp_lastSeverity s))
      \<and> sp_config s = cf"
proof (cases "ps = []")
  case True
  then show ?thesis
    using buffer_get_holds[OF plane_new_parts(1)]
    by (simp add: plane_new_def observed_bands_def newest_def named_def Let_def response_controller_new_def)
next
  case False
  let ?start = "plane_new cf rt"
  let ?r = "plane_run S env ps ?start"
  have run: "length (fst ?r) = length ps" "same_settings ?start (snd ?r)" "plane_ok (snd ?r) (concat (fst ?r))"
    using plane_run_ok[OF plane_new_parts, of S env ps] False by simp_all
  then have ok: "buffer_holds (sp_buffer (snd ?r)) (concat (fst ?r))" "engine_tracks (sp_engine (snd ?r)) (concat (fst ?r))"
    "sp_lastSeverity (snd ?r) = aggregateSeverity (sp_engine (snd ?r))"
    by (simp_all add: plane_ok_def)
  have same: "required (sp_engine (snd ?r)) = required (sp_engine ?start)"
    "mb_capacity (sp_buffer (snd ?r)) = mb_capacity (sp_buffer ?start)" "sp_config (snd ?r) = cf"
    "rc_enabled (sp_controller (snd ?r)) = sc_degradationEnabled cf"
    "rc_maxLevel (sp_controller (snd ?r)) = rc_maxLevel (sp_controller ?start)"
    using run(2) by (simp_all add: same_settings_def) (simp_all add: plane_new_def response_controller_new_def)
  have "aggregateSeverity (sp_engine (snd ?r))
      \<in> insert GREEN (range (\<lambda>name. confirmed (required (sp_engine (snd ?r))) (observed_bands name (concat (fst ?r)))))"
    using aggregate_worst(2)[OF ok(2)] by blast
  then show ?thesis
    using run(1,3) same buffer_get_holds[OF ok(1)] aggregate_worst(1)[OF ok(2)] ok(3) False
    unfolding Let_def case_prod_beta plane_ok_def named_def by simp
qed

section \<open>Recovery\<close>

lemma confirmed_after_run:
  assumes "n \<le> k" "1 \<le> k"
  shows "confirmed n (os @ replicate k b) = b"
proof -
  have "k \<le> run_len (os @ replicate k b)"
  proof (induction k)
    case (Suc k)
    have snoc: "os @ replicate (Suc k) b = (os @ replicate k b) @ [b]" by (simp add: replicate_append_same)
    show ?case unfolding snoc run_len_snoc using Suc by (cases k) auto
  qed simp
  with assms show ?thesis by (subst confirmed_run) auto
qed

definition nominal :: "resource_metric \<Rightarrow> bool" where
  "nominal m \<longleftrightarrow> mt_available m \<noteq> Some False \<and> evaluateSeverity (utilisationOf m) = GREEN"

lemma observed_nominal_batch:
  assumes "map mt_name b = metric_names" "\<forall>m\<in>set b. nominal m"
  shows "observed_bands name b = (if name \<in> set metric_names then [GREEN] else [])"
proof -
  have one: "length (filter (\<lambda>k. k = name) (map mt_name b)) = (if name \<in> set metric_names then 1 else 0)"
    unfolding assms(1) by (auto simp: metric_names_def)
  have "observed_bands name b = map (\<lambda>_. GREEN) (filter (\<lambda>m. mt_name m = name) b)"
    unfolding observed_bands_def using assms(2) by (auto simp: nominal_def intro!: map_cong filter_cong)
  also have "\<dots> = replicate (length (filter (\<lambda>k. k = name) (map mt_name b))) GREEN"
    by (simp add: map_replicate_const filter_map comp_def)
  finally show ?thesis unfolding one by simp
qed

lemma observed_nominal:
  assumes "\<forall>b\<in>set h. map mt_name b = metric_names \<and> (\<forall>m\<in>set b. nominal m)"
  shows "observed_bands name (ms @ concat h) =
    observed_bands name ms @ (if name \<in> set metric_names then replicate (length h) GREEN else [])"
  using assms
proof (induction h arbitrary: ms)
  case (Cons b h)
  then have "observed_bands name b = (if name \<in> set metric_names then [GREEN] else [])"
    by (intro observed_nominal_batch) auto
  moreover have "observed_bands name ((ms @ b) @ concat h) =
      observed_bands name (ms @ b) @ (if name \<in> set metric_names then replicate (length h) GREEN else [])"
    using Cons by (intro Cons.IH) auto
  moreover have "observed_bands name (ms @ b) = observed_bands name ms @ observed_bands name b"
    by (simp add: observed_bands_def)
  ultimately show ?case by simp
qed simp

lemma plane_run_append:
  "plane_run S env (ps @ qs) s =
     (let (h, t) = plane_run S env ps s; (k, u) = plane_run S env qs t in (h @ k, u))"
  by (induction ps arbitrary: s) (auto simp: Let_def case_prod_beta split: sum.split)

lemma observed_other_names:
  assumes "\<forall>b\<in>set h. map mt_name b = metric_names" "name \<notin> set metric_names"
  shows "observed_bands name (concat h) = []"
proof -
  have "mt_name m \<noteq> name" if "m \<in> set (concat h)" for m
  proof -
    from that obtain b where "b \<in> set h" "m \<in> set b" by auto
    then have "map mt_name b = metric_names" using assms(1) by blast
    then have "mt_name m \<in> set metric_names" using \<open>m \<in> set b\<close> by (metis image_eqI list.set_map)
    then show ?thesis using assms(2) by auto
  qed
  then show ?thesis by (auto simp: observed_bands_def filter_empty_conv)
qed

text \<open>The plane recovers: after any history of polls \<open>ps\<close>, once every reading of as many further polls as
  the hysteresis asks for is available and in the GREEN band, the plane's severity is GREEN, no alert
  is active and every degradation step has been reversed.\<close>

theorem sentinel_recovers:
  assumes "(h, s) = plane_run S env ps (plane_new cf rt)" "(k, t) = plane_run S env qs s"
    and "\<forall>b\<in>set k. \<forall>m\<in>set b. nominal m" "required (sp_engine s) \<le> length qs"
  shows "sp_lastSeverity t = GREEN \<and> ae_active (sp_engine t) = [] \<and> rc_level (sp_controller t) = 0
    \<and> fold replay_action (rc_history (sp_controller t)) (Some []) = Some []"
proof -
  let ?start = "plane_new cf rt" and ?n = "required (sp_engine s)"
  have both: "plane_run S env (ps @ qs) ?start = (h @ k, t)"
    using assms(1,2) by (simp add: plane_run_append flip: assms(1) assms(2))
  have first: "same_settings ?start s" "\<forall>b\<in>set h. map mt_name b = metric_names"
    using plane_run_ok[OF plane_new_parts, of S env ps cf rt] by (simp_all flip: assms(1))
  have "1 \<le> required (sp_engine ?start)" using plane_new_parts(2) by (simp add: engine_tracks_def)
  then have n: "1 \<le> ?n" using first(1) by (simp add: same_settings_def)
  then have qs: "qs \<noteq> []" using assms(4) by auto
  have run: "length (h @ k) = length (ps @ qs)" "same_settings ?start t" "\<forall>b\<in>set (h @ k). map mt_name b = metric_names"
    "plane_ok t (concat (h @ k))"
    using plane_run_ok[OF plane_new_parts, of S env "ps @ qs" cf rt] qs both by simp_all
  have "length h = length ps" using plane_run_ok[OF plane_new_parts, of S env ps cf rt] by (simp flip: assms(1))
  then have len: "length k = length qs" using run(1) by simp
  have req: "required (sp_engine t) = ?n" using run(2) first(1) by (simp add: same_settings_def)
  have ok: "engine_tracks (sp_engine t) (concat (h @ k))" "controller_ok (sp_controller t)"
    "sp_lastSeverity t = aggregateSeverity (sp_engine t)"
    "rc_level (sp_controller t) = settled_level (rc_enabled (sp_controller t)) (rc_maxLevel (sp_controller t)) (sp_lastSeverity t)"
    using run(4) by (simp_all add: plane_ok_def)
  have band: "confirmed ?n (observed_bands name (concat (h @ k))) = GREEN" for name
  proof (cases "name \<in> set metric_names")
    case True
    have "observed_bands name (concat (h @ k)) = observed_bands name (concat h) @ replicate (length k) GREEN"
      using observed_nominal[of k name "concat h"] run(3) assms(3) True by simp
    then show ?thesis using confirmed_after_run[of ?n "length k"] assms(4) n len by simp
  next
    case False
    with observed_other_names[OF run(3)] show ?thesis by simp
  qed
  then have green: "sp_lastSeverity t = GREEN"
    using aggregate_worst(2)[OF ok(1)] by (auto simp: ok(3) req)
  have "map_of (ae_active (sp_engine t)) name = None" for name
    using active_tracks[OF ok(1), of name] severityFor_tracks[OF ok(1), of name] band[of name]
    by (auto simp: req split: option.splits)
  then have "ae_active (sp_engine t) = []" by (metis list.set_intros(1) map_of_eq_None_iff image_eqI neq_Nil_conv)
  moreover have "rc_level (sp_controller t) = 0"
    using ok(2) by (simp add: ok(4) green settled_level_def controller_ok_def)
  ultimately show ?thesis using green ok(2) by (simp add: controller_ok_def)
qed

section \<open>A worked history\<close>

definition demo_slib :: slib where
  "demo_slib = \<lparr>sl_toFixed = (\<lambda>_ _. ''0''), sl_numText = (\<lambda>_. ''0''), sl_iso = (\<lambda>_. ''''), sl_sha256 = id\<rparr>"

definition demo_env :: sentinel_env where
  "demo_env = \<lparr>se_maxSessions = js_int 1000, se_maxTokensPerSecond = js_int 20000, se_latencyBudgetMs = js_int 30000,
     se_parseFloat = (\<lambda>t. if t = ''100'' then js_int 100 else js_int 10)\<rparr>"

text \<open>A host whose memory is used up to \<open>used\<close> of 1000, all else idle.\<close>

definition demo_poll :: "int \<Rightarrow> int \<Rightarrow> poll" where
  "demo_poll now used =
    \<lparr>po_now = now, po_totalmem = 1000, po_freemem = 1000 - used, po_cpus = [], po_oneMinute = js_int 0,
     po_df = Some (''Filesystem'' @ [CHR 0x0A] @ ''/dev/a 100 10 90''), po_smi_probe = Some '''',
     po_smi = Some ''0, gpu, 10, 100, 10'', po_sessions = Some (js_int 3)\<rparr>"

definition demo_settings :: sentinel_config where
  "demo_settings = \<lparr>sc_enabled = True, sc_intervalMs = 5000, sc_hysteresisBreaches = js_int 2, sc_bufferWindowMs = 300000,
     sc_degradationEnabled = True, sc_maxDegradationLevel = js_int 8\<rparr>"

definition demo_plane :: sentinel_plane where
  "demo_plane = plane_new demo_settings (registerSessionCounter (resetRuntimeCounters 0))"

definition hot :: "poll list" where
  "hot = [demo_poll 5000 995, demo_poll 10000 995]"

definition cool :: "poll list" where
  "cool = [demo_poll 15000 300, demo_poll 20000 300]"

definition after_hot :: "resource_metric list list \<times> sentinel_plane" where
  "after_hot = plane_run demo_slib demo_env hot demo_plane"

lemma hot_degrades: "sp_lastSeverity (snd after_hot) = BLACK \<and> rc_level (sp_controller (snd after_hot)) = 8"
  by code_simp

lemma cool_is_nominal: "list_all (list_all nominal) (fst (plane_run demo_slib demo_env cool (snd after_hot)))"
  by code_simp

theorem sentinel_recovers_witness:
  "rc_level (sp_controller (snd after_hot)) = 8
   \<and> rc_level (sp_controller (snd (plane_run demo_slib demo_env cool (snd after_hot)))) = 0"
proof -
  let ?r = "plane_run demo_slib demo_env cool (snd after_hot)"
  have "(fst after_hot, snd after_hot) = plane_run demo_slib demo_env hot
      (plane_new demo_settings (registerSessionCounter (resetRuntimeCounters 0)))"
    by (simp add: after_hot_def demo_plane_def)
  moreover have "(fst ?r, snd ?r) = ?r" by simp
  moreover have "\<forall>b\<in>set (fst ?r). \<forall>m\<in>set b. nominal m" using cool_is_nominal by (simp add: list_all_iff)
  moreover have "required (sp_engine (snd after_hot)) \<le> length cool" by code_simp
  ultimately show ?thesis using sentinel_recovers hot_degrades by metis
qed

end
