(* ===== verification/RunLease.thy ===== *)
theory RunLease imports ModelBudget MissionStore begin

text \<open>
  Development mandates and the runs made under them (files under \<open>src/src/runtime/automation\<close>): issuing and
  verifying a mandate with the runtime's key, \<open>mandate-issuer.ts\<close>; the lease of a run over the table
  \<open>runtime_automation_runs\<close>, \<open>run-lease.ts\<close>; the runs of this process, \<open>run-control.ts\<close>; and the sweep that
  takes interrupted runs up again, \<open>recovery-supervisor.ts\<close>.

  \<open>L\<close> and \<open>B\<close> are the platform records of mandates and budgets, \<open>cl\<close> the key \<open>localeCompare\<close> sorts by.  A
  column holding a mandate as JSON is the mandate it parses to, \<open>None\<close> when it does not parse.
\<close>

section \<open>Issuing a mandate\<close>

definition AUTHORITY_VERSION :: string where
  "AUTHORITY_VERSION = ''ronor-mandate/v1''"

definition authorityPayload :: "'k lib \<Rightarrow> (string \<Rightarrow> string) \<Rightarrow> execution_mandate \<Rightarrow> string" where
  "authorityPayload L cl m = nullish (stableJson cl (JObj (mandate_entries L m))) ''''"

definition authority_signature_text :: "string \<Rightarrow> bool" where
  "authority_signature_text s \<longleftrightarrow> length s = 43 \<and> list_all (\<lambda>c. is_alnum c \<or> c = CHR ''_'' \<or> c = CHR ''-'') s"

definition verifyMandateAuthority ::
  "'k lib \<Rightarrow> blib \<Rightarrow> (string \<Rightarrow> string) \<Rightarrow> execution_mandate \<Rightarrow> string \<Rightarrow> bool" where
  "verifyMandateAuthority L B cl m secret =
     (if md_authority_version m \<noteq> Some AUTHORITY_VERSION then False
      else case md_authority_signature m of
        None \<Rightarrow> False
      | Some s \<Rightarrow>
          if \<not> authority_signature_text s \<or> utf8_length secret < 32 then False
          else bl_unb64 B s = bl_hmac B secret (authorityPayload L cl m))"

definition signMandateAuthority ::
  "'k lib \<Rightarrow> blib \<Rightarrow> (string \<Rightarrow> string) \<Rightarrow> execution_mandate \<Rightarrow> string \<Rightarrow> string + execution_mandate" where
  "signMandateAuthority L B cl m secret =
     (if utf8_length secret < 32 then Inl ''mandate_signing_key_invalid''
      else
        let signed = m\<lparr>md_authority_version := Some AUTHORITY_VERSION, md_authority_signature := None\<rparr>
        in Inr (signed\<lparr>md_authority_signature := Some (bl_b64 B (bl_hmac B secret (authorityPayload L cl signed)))\<rparr>))"

record mandate_request =
  rq_missionId :: string
  rq_objective :: string
  rq_workspaceRoot :: string
  rq_branch :: string
  rq_architectKeyId :: string
  rq_idempotencyKey :: "string option"
  rq_maxCostUsd :: "jsnum option"
  rq_maxRuntimeMinutes :: "jsnum option"
  rq_maxFixCycles :: "jsnum option"

record mandate_ceilings =
  ceil_maxCostUsd :: jsnum
  ceil_maxRuntimeMinutes :: jsnum
  ceil_maxFixCycles :: jsnum

definition bounded :: "jsnum option \<Rightarrow> jsnum \<Rightarrow> int \<Rightarrow> jsnum option" where
  "bounded value ceil minimum =
     (let selected = nullish value ceil
      in if \<not> js_finite selected \<or> js_less selected (js_int minimum) \<or> js_less ceil selected then None
         else Some selected)"

fun minutes_ms :: "jsnum \<Rightarrow> jsnum" where
  "minutes_ms (Num q) = Num (q * 60000)"
| "minutes_ms x = x"

text \<open>\<open>rnd\<close> is the random part of an id without an idempotency key; \<open>ms\<close> of a finite number of minutes.\<close>

definition architect_mandate ::
  "'k lib \<Rightarrow> string \<Rightarrow> int \<Rightarrow> mandate_request \<Rightarrow> jsnum \<Rightarrow> jsnum \<Rightarrow> jsnum \<Rightarrow> execution_mandate" where
  "architect_mandate L rnd now rq cost runtime cycles =
     \<lparr>md_authority_version = Some AUTHORITY_VERSION, md_authority_signature = None,
      md_mandate_id = ''mandate_'' @ (case rq_idempotencyKey rq of
          Some k \<Rightarrow> if k \<noteq> '''' then take 32 (lib_sha256 L (rq_architectKeyId rq @ CHR 0x00 # rq_missionId rq @ CHR 0x00 # k)) else rnd
        | None \<Rightarrow> rnd),
      md_mission_id = rq_missionId rq, md_issued_by = ''merlin'', md_issued_by_key_id = rq_architectKeyId rq,
      md_objective_hash = objectiveHash L (rq_objective rq), md_workspace_root = rq_workspaceRoot rq,
      md_branch_prefix = rq_branch rq, md_allowed_actions = DEFAULT_ALLOWED_ACTIONS,
      md_denied_actions = ALWAYS_DENIED_ACTIONS, md_max_cost_usd = cost, md_max_runtime_minutes = runtime,
      md_max_fix_cycles = cycles, md_issued_at = lib_iso L now,
      md_expires_at = lib_iso L (now + (case minutes_ms runtime of Num q \<Rightarrow> \<lfloor>q\<rfloor> | _ \<Rightarrow> 0)), md_recovery = None\<rparr>"

definition issueArchitectMandate ::
  "'k lib \<Rightarrow> blib \<Rightarrow> (string \<Rightarrow> string) \<Rightarrow> string \<Rightarrow> int \<Rightarrow> mandate_request \<Rightarrow> mandate_ceilings \<Rightarrow> string
     \<Rightarrow> string + execution_mandate" where
  "issueArchitectMandate L B cl rnd now rq ce secret =
     (if \<not> tagged_hex ''key_'' 12 (rq_architectKeyId rq) then Inl ''architect_identity_invalid''
      else if rq_missionId rq = '''' \<or> js_trim (rq_objective rq) = '''' \<or> rq_workspaceRoot rq = '''' \<or> rq_branch rq = ''''
        then Inl ''mandate_subject_invalid''
      else if rq_branch rq = ''main'' \<or> rq_branch rq = ''master'' then Inl ''protected_branch_refused''
      else case bounded (rq_maxRuntimeMinutes rq) (ceil_maxRuntimeMinutes ce) 1 of
        None \<Rightarrow> Inl ''mandate_limit_outside_policy''
      | Some runtime \<Rightarrow> (case bounded (rq_maxCostUsd rq) (ceil_maxCostUsd ce) 0 of
          None \<Rightarrow> Inl ''mandate_limit_outside_policy''
        | Some cost \<Rightarrow> (case bounded (rq_maxFixCycles rq) (ceil_maxFixCycles ce) 0 of
            None \<Rightarrow> Inl ''mandate_limit_outside_policy''
          | Some cycles \<Rightarrow> signMandateAuthority L B cl (architect_mandate L rnd now rq cost runtime cycles) secret)))"

section \<open>Fingerprints and reauthorizations\<close>

definition mandate_core :: "'k lib \<Rightarrow> execution_mandate \<Rightarrow> json" where
  "mandate_core L m = JObj
     [(''mandate_id'', JStr (md_mandate_id m)), (''mission_id'', JStr (md_mission_id m)),
      (''issued_by'', JStr (md_issued_by m)), (''issued_by_key_id'', JStr (md_issued_by_key_id m)),
      (''objective_hash'', JStr (md_objective_hash m)), (''workspace_root'', JStr (md_workspace_root m)),
      (''branch_prefix'', JStr (md_branch_prefix m)),
      (''allowed_actions'', JArr (map JStr (sort (map action_name (md_allowed_actions m))))),
      (''denied_actions'', JArr (map JStr (sort (map action_name (md_denied_actions m))))),
      (''max_cost_usd'', num_json L (md_max_cost_usd m)), (''max_runtime_minutes'', num_json L (md_max_runtime_minutes m)),
      (''max_fix_cycles'', num_json L (md_max_fix_cycles m)),
      (''issued_at'', JStr (md_issued_at m)), (''expires_at'', JStr (md_expires_at m))]"

definition mandateFingerprint :: "'k lib \<Rightarrow> execution_mandate \<Rightarrow> string" where
  "mandateFingerprint L m = lib_sha256 L (render (mandate_core L m))"

datatype run_status = Running | Complete | RunFailed | Cancelled

record automation_row =
  ar_run_id :: string
  ar_mandate_id :: string
  ar_mission_id :: string
  ar_fingerprint :: string
  ar_mandate :: "execution_mandate option"
  ar_status :: run_status
  ar_token :: "string option"
  ar_owner :: "string option"
  ar_expires :: "string option"
  ar_attempts :: nat
  ar_created_at :: string
  ar_updated_at :: string
  ar_completed_at :: "string option"
  ar_cancel_requested_at :: "string option"

record reauthorization_row =
  ra_run_id :: string
  ra_original_fingerprint :: string
  ra_mandate :: "execution_mandate option"
  ra_proof :: string

record automation_db =
  ad_runs :: "automation_row list"
  ad_reauth :: "reauthorization_row list"

definition recovery_member :: "execution_mandate \<Rightarrow> string \<Rightarrow> json" where
  "recovery_member m k = (case md_recovery m of None \<Rightarrow> JUndefined | Some r \<Rightarrow> member_of r k)"

definition reauthorization_holds ::
  "'k lib \<Rightarrow> blib \<Rightarrow> (string \<Rightarrow> string) \<Rightarrow> string \<Rightarrow> execution_mandate \<Rightarrow> reauthorization_row \<Rightarrow> execution_mandate \<Rightarrow> bool" where
  "reauthorization_holds L B cl key original row renewed \<longleftrightarrow>
     (let fp = mandateFingerprint L original;
          issued = lib_dateParse L (md_issued_at renewed); expires = lib_dateParse L (md_expires_at renewed)
      in verifyMandateAuthority L B cl renewed key \<and> ra_original_fingerprint row = fp
         \<and> recovery_member renewed ''original_fingerprint'' = JStr fp
         \<and> mandateFingerprint L (renewed\<lparr>md_issued_at := md_issued_at original, md_expires_at := md_expires_at original\<rparr>) = fp
         \<and> recovery_member renewed ''evidence_sha256'' = JStr (lib_sha256 L (ra_proof row))
         \<and> (case recovery_member renewed ''workspace_digest'' of JStr d \<Rightarrow> hex_text 64 d | _ \<Rightarrow> False)
         \<and> js_finite issued \<and> js_finite expires
         \<and> \<not> js_le issued (lib_dateParse L (md_expires_at original))
         \<and> js_eq (js_minus expires issued) (minutes_ms (md_max_runtime_minutes original)))"

definition effectiveMandate ::
  "'k lib \<Rightarrow> blib \<Rightarrow> (string \<Rightarrow> string) \<Rightarrow> string \<Rightarrow> string \<Rightarrow> execution_mandate \<Rightarrow> automation_db \<Rightarrow> string + execution_mandate" where
  "effectiveMandate L B cl key runId original db =
     (case row_find ra_run_id runId (ad_reauth db) of
        None \<Rightarrow> Inr original
      | Some row \<Rightarrow> (case ra_mandate row of
          None \<Rightarrow> Inl ''SyntaxError''
        | Some renewed \<Rightarrow>
            if reauthorization_holds L B cl key original row renewed then Inr renewed
            else Inl ''reauthorization_integrity_failed''))"

text \<open>\<open>Inr None\<close> is the answer for a run that is not there.\<close>

definition getEffectiveAutomationMandate ::
  "'k lib \<Rightarrow> blib \<Rightarrow> (string \<Rightarrow> string) \<Rightarrow> string \<Rightarrow> string \<Rightarrow> automation_db \<Rightarrow> string + execution_mandate option" where
  "getEffectiveAutomationMandate L B cl key runId db =
     (case row_find ar_run_id runId (ad_runs db) of
        None \<Rightarrow> Inr None
      | Some row \<Rightarrow> (case ar_mandate row of
          None \<Rightarrow> Inl ''SyntaxError''
        | Some original \<Rightarrow>
            if \<not> verifyMandateAuthority L B cl original key \<or> mandateFingerprint L original \<noteq> ar_fingerprint row
              then Inl ''reauthorization_integrity_failed''
            else map_sum id Some (effectiveMandate L B cl key runId original db)))"

section \<open>The lease\<close>

record automation_lease =
  le_runId :: string
  le_token :: string
  le_ms :: int

definition holds_lease :: "automation_lease \<Rightarrow> automation_row \<Rightarrow> bool" where
  "holds_lease l r \<longleftrightarrow> ar_run_id r = le_runId l \<and> ar_token r = Some (le_token l) \<and> ar_status r = Running"

text \<open>Each \<open>UPDATE\<close> answers whether it changed exactly one row; \<open>stamp\<close> is \<open>datetime('now')\<close>.\<close>

definition lease_renew :: "'k lib \<Rightarrow> int \<Rightarrow> string \<Rightarrow> automation_lease \<Rightarrow> automation_db \<Rightarrow> bool \<times> automation_db" where
  "lease_renew L now stamp l db =
     (let hit = (\<lambda>r. holds_lease l r \<and> ar_cancel_requested_at r = None)
      in (row_changes hit (ad_runs db) = 1,
          db\<lparr>ad_runs := row_update hit
               (\<lambda>r. r\<lparr>ar_expires := Some (lib_iso L (now + le_ms l)), ar_updated_at := stamp\<rparr>) (ad_runs db)\<rparr>))"

definition lease_finish :: "string \<Rightarrow> bool \<Rightarrow> automation_lease \<Rightarrow> automation_db \<Rightarrow> bool \<times> automation_db" where
  "lease_finish stamp ok l db =
     (row_changes (holds_lease l) (ad_runs db) = 1,
      db\<lparr>ad_runs := row_update (holds_lease l)
           (\<lambda>r. r\<lparr>ar_status := (if ok then Complete else RunFailed), ar_token := None, ar_owner := None,
                  ar_expires := None, ar_completed_at := (if ok then Some stamp else ar_completed_at r),
                  ar_updated_at := stamp\<rparr>) (ad_runs db)\<rparr>)"

record run_record =
  rr_row :: automation_row
  rr_cancellation_requested :: bool
  rr_lease_active :: bool

definition live_lease :: "'k lib \<Rightarrow> int \<Rightarrow> automation_row \<Rightarrow> bool" where
  "live_lease L now r \<longleftrightarrow> ar_status r = Running
     \<and> (case ar_expires r of None \<Rightarrow> False | Some t \<Rightarrow> js_less (js_int now) (lib_dateParse L t))"

definition getAutomationRunRecord :: "'k lib \<Rightarrow> int \<Rightarrow> string \<Rightarrow> string \<Rightarrow> automation_db \<Rightarrow> run_record option" where
  "getAutomationRunRecord L now runId missionId db =
     map_option (\<lambda>r. \<lparr>rr_row = r, rr_cancellation_requested = (ar_cancel_requested_at r \<noteq> None), rr_lease_active = live_lease L now r\<rparr>)
       (find (\<lambda>r. ar_run_id r = runId \<and> ar_mission_id r = missionId) (ad_runs db))"

datatype cancel_result = CancelledNow | NotFound | MissionMismatch | NotActive

definition requestAutomationRunCancellation ::
  "string \<Rightarrow> string \<Rightarrow> string \<Rightarrow> automation_db \<Rightarrow> cancel_result \<times> automation_db" where
  "requestAutomationRunCancellation stamp runId missionId db =
     (case row_find ar_run_id runId (ad_runs db) of
        None \<Rightarrow> (NotFound, db)
      | Some row \<Rightarrow>
          if ar_mission_id row \<noteq> missionId then (MissionMismatch, db)
          else if ar_status row \<noteq> Running then (NotActive, db)
          else
            let hit = (\<lambda>r. ar_run_id r = runId \<and> ar_mission_id r = missionId \<and> ar_status r = Running)
            in (if row_changes hit (ad_runs db) = 1 then CancelledNow else NotActive,
                db\<lparr>ad_runs := row_update hit
                     (\<lambda>r. r\<lparr>ar_status := Cancelled, ar_cancel_requested_at := Some stamp, ar_token := None, ar_owner := None,
                            ar_expires := None, ar_updated_at := stamp\<rparr>) (ad_runs db)\<rparr>))"

section \<open>Claiming\<close>

datatype run_claim_result =
    Acquired automation_lease nat execution_mandate
  | Resumed automation_lease nat execution_mandate
  | AlreadyCompleted execution_mandate
  | AlreadyCancelled execution_mandate
  | ClaimBusy | ClaimConflict | AuthorityInvalid | MandateExpired | FixCycleLimitExceeded

definition new_row ::
  "'k lib \<Rightarrow> string \<Rightarrow> string \<Rightarrow> execution_mandate \<Rightarrow> string \<Rightarrow> string \<Rightarrow> string \<Rightarrow> automation_row" where
  "new_row L stamp runId m token owner expires =
     \<lparr>ar_run_id = runId, ar_mandate_id = md_mandate_id m, ar_mission_id = md_mission_id m,
      ar_fingerprint = mandateFingerprint L m, ar_mandate = Some m, ar_status = Running, ar_token = Some token,
      ar_owner = Some owner, ar_expires = Some expires, ar_attempts = 1, ar_created_at = stamp, ar_updated_at = stamp,
      ar_completed_at = None, ar_cancel_requested_at = None\<rparr>"

text \<open>The mandate a stored row runs under, or the refusal its checks end in.\<close>

definition stored_mandate ::
  "'k lib \<Rightarrow> blib \<Rightarrow> (string \<Rightarrow> string) \<Rightarrow> string \<Rightarrow> automation_row \<Rightarrow> automation_db \<Rightarrow> run_claim_result + execution_mandate" where
  "stored_mandate L B cl key row db =
     (case ar_mandate row of
        None \<Rightarrow> Inl ClaimConflict
      | Some m \<Rightarrow>
          if mandateFingerprint L m \<noteq> ar_fingerprint row \<or> \<not> verifyMandateAuthority L B cl m key then Inl AuthorityInvalid
          else case effectiveMandate L B cl key (ar_run_id row) m db of Inl _ \<Rightarrow> Inl ClaimConflict | Inr e \<Rightarrow> Inr e)"

definition cycles_spent :: "nat \<Rightarrow> execution_mandate \<Rightarrow> bool" where
  "cycles_spent attempts m \<longleftrightarrow>
     (case md_max_fix_cycles m of Num q \<Rightarrow> of_nat attempts \<ge> q + 1 | PosInf \<Rightarrow> False | NegInf \<Rightarrow> True | NaN \<Rightarrow> False)"

definition claimAutomationRun ::
  "'k lib \<Rightarrow> blib \<Rightarrow> (string \<Rightarrow> string) \<Rightarrow> string \<Rightarrow> string \<Rightarrow> int \<Rightarrow> jsnum \<Rightarrow> string \<Rightarrow> execution_mandate \<Rightarrow> string \<Rightarrow> string
     \<Rightarrow> automation_db \<Rightarrow> string + run_claim_result \<times> automation_db" where
  "claimAutomationRun L B cl uuid stamp now leaseMs runId m owner key db =
     (if \<not> js_finite leaseMs \<or> js_less leaseMs (js_int 3000) then Inl ''automation_lease_duration_invalid''
      else if \<not> verifyMandateAuthority L B cl m key then Inr (AuthorityInvalid, db)
      else
        let ms = (case leaseMs of Num q \<Rightarrow> \<lfloor>q\<rfloor> | _ \<Rightarrow> 0); expires = lib_iso L (now + ms);
            lease = \<lparr>le_runId = runId, le_token = uuid, le_ms = ms\<rparr>
        in Inr (case find (\<lambda>r. ar_run_id r = runId \<or> ar_mandate_id r = md_mandate_id m) (ad_runs db) of
             None \<Rightarrow> (Acquired lease 1 m, db\<lparr>ad_runs := ad_runs db @ [new_row L stamp runId m uuid owner expires]\<rparr>)
           | Some row \<Rightarrow>
               if ar_run_id row \<noteq> runId \<or> ar_mandate_id row \<noteq> md_mandate_id m then (ClaimConflict, db)
               else case stored_mandate L B cl key row db of
                 Inl refusal \<Rightarrow> (refusal, db)
               | Inr stored \<Rightarrow>
                   if ar_status row = Complete then (AlreadyCompleted stored, db)
                   else if ar_status row = Cancelled then (AlreadyCancelled stored, db)
                   else if live_lease L now row then (ClaimBusy, db)
                   else if \<not> js_finite (lib_dateParse L (md_expires_at stored))
                        \<or> js_le (lib_dateParse L (md_expires_at stored)) (js_int now) then (MandateExpired, db)
                   else if cycles_spent (ar_attempts row) stored then (FixCycleLimitExceeded, db)
                   else (Resumed lease (ar_attempts row + 1) stored,
                         db\<lparr>ad_runs := row_update (\<lambda>r. ar_run_id r = runId)
                              (\<lambda>r. r\<lparr>ar_status := Running, ar_token := Some uuid, ar_owner := Some owner,
                                     ar_expires := Some expires, ar_attempts := ar_attempts row + 1,
                                     ar_updated_at := stamp\<rparr>) (ad_runs db)\<rparr>)))"

section \<open>Interrupted runs\<close>

record interrupted_run =
  iu_run_id :: string
  iu_mission_id :: string
  iu_mandate :: execution_mandate
  iu_attempts :: nat

definition recoverable ::
  "'k lib \<Rightarrow> blib \<Rightarrow> (string \<Rightarrow> string) \<Rightarrow> string \<Rightarrow> int \<Rightarrow> automation_db \<Rightarrow> automation_row \<Rightarrow> interrupted_run option" where
  "recoverable L B cl key now db row =
     (case stored_mandate L B cl key row db of
        Inl _ \<Rightarrow> None
      | Inr m \<Rightarrow>
          if md_mission_id m \<noteq> ar_mission_id row \<or> \<not> js_finite (lib_dateParse L (md_expires_at m))
             \<or> js_le (lib_dateParse L (md_expires_at m)) (js_int now) \<or> cycles_spent (ar_attempts row) m then None
          else Some \<lparr>iu_run_id = ar_run_id row, iu_mission_id = ar_mission_id row, iu_mandate = m, iu_attempts = ar_attempts row\<rparr>)"

text \<open>The ordering of SQL is by \<open>updated_at\<close>, then by \<open>run_id\<close>; the texts of times are compared as texts.\<close>

definition interruptedAutomationRuns ::
  "'k lib \<Rightarrow> blib \<Rightarrow> (string \<Rightarrow> string) \<Rightarrow> string \<Rightarrow> int \<Rightarrow> int \<Rightarrow> automation_db \<Rightarrow> string + interrupted_run list" where
  "interruptedAutomationRuns L B cl key now cnt db =
     (if cnt < 1 \<or> cnt > 100 then Inl ''automation_recovery_limit_invalid''
      else Inr (List.map_filter (recoverable L B cl key now db)
        (take (nat cnt) (sort_key ar_updated_at (sort_key ar_run_id
          (filter (\<lambda>r. ar_status r = Running \<and> ar_cancel_requested_at r = None
             \<and> (case ar_expires r of None \<Rightarrow> False | Some t \<Rightarrow> t \<le> lib_iso L now)) (ad_runs db)))))))"

section \<open>The runs of this process\<close>

record active_run =
  av_missionId :: string
  av_aborted :: bool

type_synonym active_runs = "(string \<times> active_run) list"

definition registerAutomationRun :: "string \<Rightarrow> string \<Rightarrow> active_runs \<Rightarrow> bool \<times> active_runs" where
  "registerAutomationRun runId missionId a =
     (if runId \<in> fst ` set a then (False, a) else (True, a @ [(runId, \<lparr>av_missionId = missionId, av_aborted = False\<rparr>)]))"

definition finish_active :: "string \<Rightarrow> active_runs \<Rightarrow> active_runs" where
  "finish_active runId a = filter (\<lambda>p. fst p \<noteq> runId) a"

definition cancelAutomationRun :: "string \<Rightarrow> string \<Rightarrow> active_runs \<Rightarrow> cancel_result \<times> active_runs" where
  "cancelAutomationRun runId missionId a =
     (case map_of a runId of
        None \<Rightarrow> (NotFound, a)
      | Some r \<Rightarrow>
          if av_missionId r \<noteq> missionId then (MissionMismatch, a)
          else (CancelledNow, map (\<lambda>(k, v). (k, if k = runId then v\<lparr>av_aborted := True\<rparr> else v)) a))"

definition interruptActiveAutomationRuns :: "active_runs \<Rightarrow> nat \<times> active_runs" where
  "interruptActiveAutomationRuns a = (length a, map (\<lambda>(k, v). (k, v\<lparr>av_aborted := True\<rparr>)) a)"

section \<open>The recovery supervisor\<close>

datatype automation_run_status = RsQueued | RsPlanned | RsExecuting | RsVerifying | RsAssuring | RsComplete | RsBlocked | RsFailed

record supervisor =
  su_stopped :: bool
  su_lastSweepAt :: "string option"
  su_lastCandidateCount :: nat
  su_leasesReclaimed :: nat
  su_completions :: nat
  su_failures :: nat
  su_preflightRefusals :: nat

text \<open>
  What the environment contributes to one candidate: whether \<open>stop\<close> has been called by then, the answer of
  \<open>preflight\<close> (\<open>None\<close> when it throws; a supervisor without a preflight behaves as \<open>Some True\<close>), the clock,
  the texts of the claim, what \<open>execute\<close> returns (\<open>None\<close> when it throws), and the table as the other
  processes leave it while the run executes.
\<close>

record recovery_turn =
  rt_stopped :: bool
  rt_preflight :: "bool option"
  rt_uuid :: string
  rt_stamp :: string
  rt_now :: int
  rt_execute :: "string \<Rightarrow> execution_mandate \<Rightarrow> nat \<Rightarrow> automation_run_status option"
  rt_others :: "automation_db \<Rightarrow> automation_db"

definition recover ::
  "'k lib \<Rightarrow> blib \<Rightarrow> (string \<Rightarrow> string) \<Rightarrow> string \<Rightarrow> string \<Rightarrow> jsnum \<Rightarrow> recovery_turn \<Rightarrow> interrupted_run
     \<Rightarrow> supervisor \<times> automation_db \<Rightarrow> string + bool \<times> supervisor \<times> automation_db" where
  "recover L B cl owner key leaseMs t candidate sdb =
     (let (s, db) = sdb in
      if rt_preflight t \<noteq> Some True
        then Inr (False, s\<lparr>su_preflightRefusals := su_preflightRefusals s + 1\<rparr>, db)
      else case claimAutomationRun L B cl (rt_uuid t) (rt_stamp t) (rt_now t) leaseMs (iu_run_id candidate) (iu_mandate candidate)
                  owner key db of
        Inl e \<Rightarrow> Inl e
      | Inr (Resumed lease attempt m, db1) \<Rightarrow>
          let status = nullish (rt_execute t (iu_run_id candidate) m attempt) RsFailed;
              (_, db2) = lease_finish (rt_stamp t) (status = RsComplete) lease (rt_others t db1);
              s1 = s\<lparr>su_leasesReclaimed := su_leasesReclaimed s + 1\<rparr>
          in Inr (True, if status = RsComplete then s1\<lparr>su_completions := su_completions s + 1\<rparr>
                        else s1\<lparr>su_failures := su_failures s + 1\<rparr>, db2)
      | Inr (_, db1) \<Rightarrow> Inr (False, s, db1))"

text \<open>The loop of a sweep; an exception of a claim ends it, with what the turns before it did.\<close>

fun recover_all ::
  "'k lib \<Rightarrow> blib \<Rightarrow> (string \<Rightarrow> string) \<Rightarrow> string \<Rightarrow> string \<Rightarrow> jsnum \<Rightarrow> (recovery_turn \<times> interrupted_run) list \<Rightarrow> nat
     \<Rightarrow> supervisor \<times> automation_db \<Rightarrow> (string + nat) \<times> supervisor \<times> automation_db" where
  "recover_all L B cl owner key leaseMs [] n sdb = (Inr n, sdb)"
| "recover_all L B cl owner key leaseMs ((t, c) # rest) n sdb =
     (if rt_stopped t then (Inr n, (fst sdb)\<lparr>su_stopped := True\<rparr>, snd sdb)
      else case recover L B cl owner key leaseMs t c sdb of
        Inl e \<Rightarrow> (Inl e, sdb)
      | Inr (hit, sdb') \<Rightarrow> recover_all L B cl owner key leaseMs rest (if hit then n + 1 else n) sdb')"

text \<open>
  \<open>now\<close> and \<open>now'\<close> are the two readings of the clock; \<open>turns\<close> gives the turns of the candidates, at least
  as many as the batch.
\<close>

definition sweepNow ::
  "'k lib \<Rightarrow> blib \<Rightarrow> (string \<Rightarrow> string) \<Rightarrow> bool \<Rightarrow> string \<Rightarrow> string \<Rightarrow> jsnum \<Rightarrow> int \<Rightarrow> int \<Rightarrow> int \<Rightarrow> recovery_turn list
     \<Rightarrow> supervisor \<times> automation_db \<Rightarrow> (string + nat) \<times> supervisor \<times> automation_db" where
  "sweepNow L B cl enabled owner key leaseMs batchSize now now' turns sdb =
     (let (s, db) = sdb in
      if \<not> enabled \<or> su_stopped s then (Inr 0, s, db)
      else case interruptedAutomationRuns L B cl key now batchSize db of
        Inl e \<Rightarrow> (Inl e, s, db)
      | Inr candidates \<Rightarrow>
          recover_all L B cl owner key leaseMs (zip turns candidates) 0
            (s\<lparr>su_lastSweepAt := Some (lib_iso L now'), su_lastCandidateCount := length candidates\<rparr>, db))"

text \<open>The checks of \<open>startAutomationRecoverySupervisor\<close>, and the state it starts in.\<close>

definition startAutomationRecoverySupervisor :: "jsnum \<Rightarrow> jsnum \<Rightarrow> string + supervisor" where
  "startAutomationRecoverySupervisor intervalMs batchSize =
     (if \<not> js_finite intervalMs \<or> js_less intervalMs (js_int 1000) then Inl ''automation_recovery_interval_invalid''
      else if (case batchSize of Num q \<Rightarrow> of_int \<lfloor>q\<rfloor> \<noteq> q \<or> q < 1 \<or> q > 100 | _ \<Rightarrow> True)
        then Inl ''automation_recovery_batch_invalid''
      else Inr \<lparr>su_stopped = False, su_lastSweepAt = None, su_lastCandidateCount = 0, su_leasesReclaimed = 0,
                su_completions = 0, su_failures = 0, su_preflightRefusals = 0\<rparr>)"

datatype supervisor_state = SvDisabled | SvIdle | SvSweeping | SvStopped

definition snapshot_state :: "bool \<Rightarrow> bool \<Rightarrow> supervisor \<Rightarrow> supervisor_state" where
  "snapshot_state enabled sweeping s =
     (if su_stopped s then SvStopped else if \<not> enabled then SvDisabled else if sweeping then SvSweeping else SvIdle)"

end
