(* ===== verification/RunLeaseFacts.thy ===== *)
theory RunLeaseFacts imports RunLease begin

text \<open>
  Facts on runs and their leases.  Every operation of \<open>run-lease.ts\<close> moves the row of a run by one of the
  five moves of \<open>row_move\<close> (\<open>run_step_moves\<close>); along histories of operations this gives that a finished or
  cancelled run stays as it is, that a lease taken over by a later claim is refused for ever, and that a
  run is attempted at most once later than its mandate allows fix cycles.
\<close>

section \<open>Histories\<close>

datatype run_op =
    OpClaim string string int jsnum string execution_mandate string
  | OpRenew automation_lease int string
  | OpFinish automation_lease bool string
  | OpCancelRun string string string

fun run_step :: "'k lib \<Rightarrow> blib \<Rightarrow> (string \<Rightarrow> string) \<Rightarrow> string \<Rightarrow> run_op \<Rightarrow> automation_db \<Rightarrow> automation_db" where
  "run_step L B cl key (OpClaim uuid stamp now leaseMs i m owner) db =
     (case claimAutomationRun L B cl uuid stamp now leaseMs i m owner key db of Inl _ \<Rightarrow> db | Inr (_, db') \<Rightarrow> db')"
| "run_step L B cl key (OpRenew l now stamp) db = snd (lease_renew L now stamp l db)"
| "run_step L B cl key (OpFinish l ok stamp) db = snd (lease_finish stamp ok l db)"
| "run_step L B cl key (OpCancelRun i mission stamp) db = snd (requestAutomationRunCancellation stamp i mission db)"

definition run_history ::
  "'k lib \<Rightarrow> blib \<Rightarrow> (string \<Rightarrow> string) \<Rightarrow> string \<Rightarrow> run_op list \<Rightarrow> automation_db \<Rightarrow> automation_db" where
  "run_history L B cl key ops db = fold (run_step L B cl key) ops db"

text \<open>Reauthorizations are written by an operator's tool; the histories start from any table of them.\<close>

definition no_runs :: "reauthorization_row list \<Rightarrow> automation_db" where
  "no_runs ra = \<lparr>ad_runs = [], ad_reauth = ra\<rparr>"

section \<open>Moves of a run\<close>

inductive row_move ::
  "'k lib \<Rightarrow> blib \<Rightarrow> (string \<Rightarrow> string) \<Rightarrow> string \<Rightarrow> automation_db \<Rightarrow> run_op \<Rightarrow> automation_row \<Rightarrow> automation_row \<Rightarrow> bool"
  for L B cl key db where
  stay: "row_move L B cl key db p r r"
| renew: "holds_lease l r \<Longrightarrow> row_move L B cl key db (OpRenew l now stamp) r
    (r\<lparr>ar_expires := Some (lib_iso L (now + le_ms l)), ar_updated_at := stamp\<rparr>)"
| finish: "holds_lease l r \<Longrightarrow> row_move L B cl key db (OpFinish l ok stamp) r
    (r\<lparr>ar_status := (if ok then Complete else RunFailed), ar_token := None, ar_owner := None, ar_expires := None,
       ar_completed_at := (if ok then Some stamp else ar_completed_at r), ar_updated_at := stamp\<rparr>)"
| cancel: "ar_status r = Running \<Longrightarrow> ar_run_id r = i \<Longrightarrow> ar_mission_id r = mission \<Longrightarrow>
    row_move L B cl key db (OpCancelRun i mission stamp) r
    (r\<lparr>ar_status := Cancelled, ar_cancel_requested_at := Some stamp, ar_token := None, ar_owner := None,
       ar_expires := None, ar_updated_at := stamp\<rparr>)"
| resume: "ar_run_id r = i \<Longrightarrow> ar_status r \<noteq> Complete \<Longrightarrow> ar_status r \<noteq> Cancelled \<Longrightarrow> \<not> live_lease L now r \<Longrightarrow>
    stored_mandate L B cl key r db = Inr e \<Longrightarrow> \<not> cycles_spent (ar_attempts r) e \<Longrightarrow>
    row_move L B cl key db (OpClaim uuid stamp now leaseMs i m owner) r
    (r\<lparr>ar_status := Running, ar_token := Some uuid, ar_owner := Some owner, ar_expires := Some x,
       ar_attempts := ar_attempts r + 1, ar_updated_at := stamp\<rparr>)"

definition runs_ok :: "automation_db \<Rightarrow> bool" where
  "runs_ok db \<longleftrightarrow> distinct (map ar_run_id (ad_runs db)) \<and> distinct (map ar_mandate_id (ad_runs db))
     \<and> (\<forall>r\<in>set (ad_runs db). (ar_status r = Running \<longleftrightarrow> ar_token r \<noteq> None) \<and> 1 \<le> ar_attempts r)"

lemma runs_ok_empty: "runs_ok (no_runs ra)"
  by (simp add: runs_ok_def no_runs_def)

fun granted :: "run_claim_result \<Rightarrow> automation_lease option" where
  "granted (Acquired l _ _) = Some l"
| "granted (Resumed l _ _) = Some l"
| "granted _ = None"

lemma claim_InrD:
  assumes "claimAutomationRun L B cl uuid stamp now leaseMs i m owner key db = Inr (out, db')"
  obtains (refused) "db' = db" "granted out = None"
  | (acquired) l x where "out = Acquired l 1 m" "le_runId l = i" "le_token l = uuid"
      "i \<notin> ar_run_id ` set (ad_runs db)" "md_mandate_id m \<notin> ar_mandate_id ` set (ad_runs db)"
      "db' = db\<lparr>ad_runs := ad_runs db @ [new_row L stamp i m uuid owner x]\<rparr>"
      "verifyMandateAuthority L B cl m key"
  | (resumed) row l e x where "out = Resumed l (ar_attempts row + 1) e" "le_runId l = i" "le_token l = uuid"
      "row \<in> set (ad_runs db)" "ar_run_id row = i" "ar_mandate_id row = md_mandate_id m"
      "stored_mandate L B cl key row db = Inr e"
      "ar_status row \<noteq> Complete" "ar_status row \<noteq> Cancelled" "\<not> live_lease L now row"
      "\<not> cycles_spent (ar_attempts row) e"
      "db' = db\<lparr>ad_runs := row_update (\<lambda>r. ar_run_id r = i)
         (\<lambda>r. r\<lparr>ar_status := Running, ar_token := Some uuid, ar_owner := Some owner, ar_expires := Some x,
                ar_attempts := ar_attempts row + 1, ar_updated_at := stamp\<rparr>) (ad_runs db)\<rparr>"
proof (cases "find (\<lambda>r. ar_run_id r = i \<or> ar_mandate_id r = md_mandate_id m) (ad_runs db)")
  case None
  then have "i \<notin> ar_run_id ` set (ad_runs db)" "md_mandate_id m \<notin> ar_mandate_id ` set (ad_runs db)"
    by (auto simp: find_None_iff)
  with assms None show thesis
    by (auto simp: claimAutomationRun_def Let_def split: if_splits intro: refused acquired)
next
  case (Some row)
  then have row: "row \<in> set (ad_runs db)" by (auto simp: find_Some_iff)
  show thesis
  proof (cases "stored_mandate L B cl key row db")
    case (Inl c)
    then have "granted c = None"
      by (auto simp: stored_mandate_def split: option.splits if_splits sum.splits)
    with assms Some Inl show thesis
      by (auto simp: claimAutomationRun_def Let_def split: if_splits intro: refused)
  next
    case (Inr e)
    with assms Some row show thesis
      by (auto simp: claimAutomationRun_def Let_def split: if_splits intro: refused resumed)
  qed
qed

lemma move_stay: "r \<in> set rs \<Longrightarrow> \<exists>r'\<in>set rs. row_move L B cl key db p r r'"
  by (auto intro: row_move.stay)

lemma row_update_moves:
  assumes "r \<in> set rs" "p r \<Longrightarrow> row_move L B cl key db q r (f r)"
  shows "\<exists>r'\<in>set (row_update p f rs). row_move L B cl key db q r r'"
proof (cases "p r")
  case True
  with assms show ?thesis by (intro bexI[OF _ row_update_hit]) auto
next
  case False
  with assms(1) show ?thesis by (intro move_stay row_update_miss)
qed

lemma claim_step_moves:
  assumes "runs_ok db" "r \<in> set (ad_runs db)"
    "claimAutomationRun L B cl uuid stamp now leaseMs i m owner key db = Inr (out, db')"
  shows "\<exists>r'\<in>set (ad_runs db'). row_move L B cl key db (OpClaim uuid stamp now leaseMs i m owner) r r'"
  using assms(3)
proof (cases rule: claim_InrD)
  case (resumed row l e x)
  have eq: "r = row" if "ar_run_id r = i"
    using assms that resumed(4,5) by (auto simp: runs_ok_def distinct_map inj_on_def)
  have "\<exists>r'\<in>set (row_update (\<lambda>r. ar_run_id r = i)
      (\<lambda>r. r\<lparr>ar_status := Running, ar_token := Some uuid, ar_owner := Some owner, ar_expires := Some x,
         ar_attempts := ar_attempts row + 1, ar_updated_at := stamp\<rparr>) (ad_runs db)).
    row_move L B cl key db (OpClaim uuid stamp now leaseMs i m owner) r r'"
  proof (rule row_update_moves[OF assms(2)])
    assume i: "ar_run_id r = i"
    show "row_move L B cl key db (OpClaim uuid stamp now leaseMs i m owner) r
      (r\<lparr>ar_status := Running, ar_token := Some uuid, ar_owner := Some owner, ar_expires := Some x,
         ar_attempts := ar_attempts row + 1, ar_updated_at := stamp\<rparr>)"
      unfolding eq[OF i] by (rule row_move.resume) (use resumed in auto)
  qed
  then show ?thesis by (simp add: resumed(12))
qed (use assms(2) in \<open>auto intro!: move_stay\<close>)

lemma run_step_moves:
  assumes "runs_ok db" "r \<in> set (ad_runs db)"
  shows "\<exists>r'\<in>set (ad_runs (run_step L B cl key p db)). row_move L B cl key db p r r'"
proof (cases p)
  case (OpClaim uuid stamp now leaseMs i m owner)
  with claim_step_moves[OF assms] move_stay[OF assms(2)] show ?thesis by (auto split: sum.splits)
next
  case (OpCancelRun i mission stamp)
  show ?thesis
  proof (cases "row_find ar_run_id i (ad_runs db)")
    case (Some row)
    then have "row \<in> set (ad_runs db)" "ar_run_id row = i" by (auto dest: row_find_SomeD)
    with assms(2) show ?thesis
      by (auto simp: OpCancelRun requestAutomationRunCancellation_def Let_def Some
          intro!: row_update_moves[OF assms(2)] row_move.cancel intro: move_stay)
  qed (use assms(2) OpCancelRun in \<open>auto simp: requestAutomationRunCancellation_def intro!: move_stay\<close>)
next
  case (OpFinish l ok stamp)
  have "\<exists>r'\<in>set (row_update (holds_lease l)
      (\<lambda>r. r\<lparr>ar_status := (if ok then Complete else RunFailed), ar_token := None, ar_owner := None, ar_expires := None,
              ar_completed_at := (if ok then Some stamp else ar_completed_at r), ar_updated_at := stamp\<rparr>) (ad_runs db)).
      row_move L B cl key db (OpFinish l ok stamp) r r'"
    by (rule row_update_moves[OF assms(2)], rule row_move.finish)
  then show ?thesis by (simp add: OpFinish lease_finish_def)
qed (use assms(2) in \<open>auto simp: lease_renew_def Let_def intro!: row_update_moves row_move.renew\<close>)

lemma moves_keep:
  "row_move L B cl key db p r r' \<Longrightarrow> ar_run_id r' = ar_run_id r \<and> ar_mandate_id r' = ar_mandate_id r
     \<and> ar_mandate r' = ar_mandate r \<and> ar_fingerprint r' = ar_fingerprint r \<and> ar_attempts r \<le> ar_attempts r'"
  by (induction rule: row_move.induct) auto

text \<open>Every row of the table after a step is a moved row or the row a claim inserted.\<close>

lemma run_step_rows:
  assumes "runs_ok db"
  shows "runs_ok (run_step L B cl key p db) \<and> ad_reauth (run_step L B cl key p db) = ad_reauth db"
proof (cases p)
  case (OpClaim uuid stamp now leaseMs i m owner)
  show ?thesis
  proof (cases "claimAutomationRun L B cl uuid stamp now leaseMs i m owner key db")
    case (Inr x)
    obtain out db' where x: "x = (out, db')" by fastforce
    from Inr[unfolded x] have "runs_ok db' \<and> ad_reauth db' = ad_reauth db"
    proof (cases rule: claim_InrD)
      case (acquired l x)
      with assms show ?thesis by (auto simp: runs_ok_def new_row_def)
    next
      case (resumed row l e x)
      with assms show ?thesis by (auto simp: runs_ok_def row_update_keys set_row_update)
    qed (use assms in simp)
    with Inr x OpClaim show ?thesis by simp
  qed (use assms OpClaim in simp)
qed (use assms in \<open>auto simp: runs_ok_def lease_renew_def lease_finish_def requestAutomationRunCancellation_def
       holds_lease_def Let_def row_update_keys set_row_update split: option.splits if_splits\<close>)

lemma run_history_ok:
  "runs_ok db \<Longrightarrow> runs_ok (run_history L B cl key ops db) \<and> ad_reauth (run_history L B cl key ops db) = ad_reauth db"
  unfolding run_history_def
proof (induction ops arbitrary: db)
  case (Cons p ops)
  from run_step_rows[OF Cons.prems] Cons.IH show ?case by fastforce
qed simp

lemmas run_history_runs_ok = run_history_ok[THEN conjunct1]

text \<open>A property of rows that no move gives up survives every history.\<close>

lemma run_history_keeps:
  assumes "runs_ok db" "r \<in> set (ad_runs db)" "P r"
    "\<And>d p q q'. p \<in> set ops \<Longrightarrow> P q \<Longrightarrow> row_move L B cl key d p q q' \<Longrightarrow> P q'"
  shows "\<exists>r'\<in>set (ad_runs (run_history L B cl key ops db)). P r' \<and> ar_run_id r' = ar_run_id r"
  using assms unfolding run_history_def
proof (induction ops arbitrary: db r)
  case (Cons p ops)
  from run_step_moves[OF Cons.prems(1,2)] obtain r' where r': "r' \<in> set (ad_runs (run_step L B cl key p db))"
    "row_move L B cl key db p r r'" by blast
  have "P r'" using Cons.prems(4)[OF _ Cons.prems(3) r'(2)] by simp
  have "\<exists>q\<in>set (ad_runs (fold (run_step L B cl key) ops (run_step L B cl key p db))). P q \<and> ar_run_id q = ar_run_id r'"
    by (rule Cons.IH[OF run_step_rows[OF Cons.prems(1), THEN conjunct1] r'(1) \<open>P r'\<close>]) (use Cons.prems(4) in auto)
  with moves_keep[OF r'(2)] show ?case by simp
qed auto

section \<open>Ended runs\<close>

definition run_at :: "string \<Rightarrow> automation_db \<Rightarrow> automation_row option" where
  "run_at i db = row_find ar_run_id i (ad_runs db)"

lemma run_at_iff:
  "runs_ok db \<Longrightarrow> run_at i db = Some r \<longleftrightarrow> r \<in> set (ad_runs db) \<and> ar_run_id r = i"
  using row_find_distinct[of ar_run_id "ad_runs db" r]
  by (auto simp: run_at_def runs_ok_def dest: row_find_SomeD)

definition run_ended :: "automation_row \<Rightarrow> bool" where
  "run_ended r \<longleftrightarrow> ar_status r = Complete \<or> ar_status r = Cancelled"

lemma ended_move: "row_move L B cl key db p r r' \<Longrightarrow> run_ended r \<Longrightarrow> r' = r"
  by (induction rule: row_move.induct) (auto simp: run_ended_def holds_lease_def)

text \<open>C28. A run that is complete or cancelled stays exactly as it is: no claim, renewal, finish or
  cancellation, in any number and order, changes its row again.\<close>

theorem ended_runs_final:
  assumes "run_at i (run_history L B cl key ops (no_runs ra)) = Some r" "run_ended r"
  shows "run_at i (run_history L B cl key (ops @ later) (no_runs ra)) = Some r"
proof -
  let ?d = "run_history L B cl key ops (no_runs ra)"
  have ok: "runs_ok ?d" by (rule run_history_runs_ok[OF runs_ok_empty])
  have split: "run_history L B cl key (ops @ later) (no_runs ra) = run_history L B cl key later ?d"
    by (simp add: run_history_def)
  have "\<exists>q\<in>set (ad_runs (run_history L B cl key later ?d)). q = r \<and> ar_run_id q = ar_run_id r"
    by (rule run_history_keeps[OF ok]) (use assms ok ended_move in \<open>auto simp: run_at_iff\<close>)
  with assms(1) ok show ?thesis
    unfolding split by (simp add: run_at_iff run_history_runs_ok)
qed

section \<open>Fencing\<close>

definition op_uuid :: "run_op \<Rightarrow> string option" where
  "op_uuid p = (case p of OpClaim uuid _ _ _ _ _ _ \<Rightarrow> Some uuid | _ \<Rightarrow> None)"

lemma fenced_move:
  "row_move L B cl key db p r r' \<Longrightarrow> ar_token r \<noteq> Some t \<Longrightarrow> op_uuid p \<noteq> Some t \<Longrightarrow> ar_token r' \<noteq> Some t"
  by (induction rule: row_move.induct) (auto simp: op_uuid_def)

lemma lease_dead:
  assumes "runs_ok db" "r \<in> set (ad_runs db)" "ar_run_id r = le_runId l" "ar_token r \<noteq> Some (le_token l)"
  shows "lease_renew L now stamp l db = (False, db)" "lease_finish stamp ok l db = (False, db)"
proof -
  have h: "\<not> holds_lease l q" if "q \<in> set (ad_runs db)" for q
    using assms that by (auto simp: runs_ok_def holds_lease_def distinct_map inj_on_def)
  then have n: "\<not> (\<lambda>q. holds_lease l q \<and> ar_cancel_requested_at q = None) q" if "q \<in> set (ad_runs db)" for q
    using that by blast
  from row_update_none[of "ad_runs db" "\<lambda>q. holds_lease l q \<and> ar_cancel_requested_at q = None", OF n]
  show "lease_renew L now stamp l db = (False, db)"
    by (simp add: lease_renew_def Let_def)
  from row_update_none[of "ad_runs db" "holds_lease l", OF h] show "lease_finish stamp ok l db = (False, db)"
    by (simp add: lease_finish_def)
qed

lemma claim_token:
  assumes "runs_ok db" "claimAutomationRun L B cl uuid stamp now leaseMs i m owner key db = Inr (out, db')"
    "granted out = Some l"
  shows "le_runId l = i \<and> le_token l = uuid \<and> (\<exists>r\<in>set (ad_runs db'). ar_run_id r = i \<and> ar_token r = Some uuid
    \<and> ar_status r = Running \<and> ar_mandate_id r = md_mandate_id m)"
  using assms(2)
proof (cases rule: claim_InrD)
  case refused
  with assms(3) show ?thesis by simp
next
  case (acquired l' x)
  with assms(3) show ?thesis by (auto simp: new_row_def)
next
  case (resumed row l' e x)
  have "\<exists>r\<in>set (ad_runs db'). ar_run_id r = i \<and> ar_token r = Some uuid \<and> ar_status r = Running
      \<and> ar_mandate_id r = md_mandate_id m"
    unfolding resumed(12) using resumed(4,5,6)
    by (intro bexI[of _ "row\<lparr>ar_status := Running, ar_token := Some uuid, ar_owner := Some owner, ar_expires := Some x,
                ar_attempts := ar_attempts row + 1, ar_updated_at := stamp\<rparr>"])
      (auto simp: set_row_update intro!: bexI[of _ row])
  with resumed assms(3) show ?thesis by simp
qed

text \<open>C26. Once a later claim has taken a run over, the lease it superseded is refused for ever: after
  any further operations its heartbeat and its report of the outcome answer that ownership was lost and change
  nothing in the table, provided no later claim draws the old random token again.\<close>

theorem stale_lease_fenced:
  assumes "claimAutomationRun L B cl uuid stamp now leaseMs (le_runId l) m owner key (run_history L B cl key ops (no_runs ra))
      = Inr (out, db)"
    "granted out \<noteq> None" "uuid \<noteq> le_token l" "\<forall>p\<in>set later. op_uuid p \<noteq> Some (le_token l)"
  shows "lease_renew L now' stamp' l (run_history L B cl key later db) = (False, run_history L B cl key later db)
    \<and> lease_finish stamp' ok l (run_history L B cl key later db) = (False, run_history L B cl key later db)"
proof -
  have ok0: "runs_ok (run_history L B cl key ops (no_runs ra))" by (rule run_history_runs_ok[OF runs_ok_empty])
  have ok: "runs_ok db"
    using run_step_rows[OF ok0, of L B cl key "OpClaim uuid stamp now leaseMs (le_runId l) m owner"] assms(1) by simp
  obtain r where r: "r \<in> set (ad_runs db)" "ar_run_id r = le_runId l" "ar_token r = Some uuid"
    using claim_token[OF ok0 assms(1)] assms(2) by auto
  have "\<exists>r'\<in>set (ad_runs (run_history L B cl key later db)). ar_token r' \<noteq> Some (le_token l) \<and> ar_run_id r' = ar_run_id r"
    by (rule run_history_keeps[OF ok r(1)]) (use r(3) assms(3,4) fenced_move in fastforce)+
  with r(2) lease_dead[OF run_history_runs_ok[OF ok]] show ?thesis by metis
qed

section \<open>Exclusion\<close>

text \<open>While the lease of a running run has not expired no claim on it is granted, whoever makes it
  and under whatever mandate, and the table stays as it was.\<close>

theorem live_lease_excludes:
  assumes "run_at i (run_history L B cl key ops (no_runs ra)) = Some r" "live_lease L now r"
    "claimAutomationRun L B cl uuid stamp now leaseMs i m owner key (run_history L B cl key ops (no_runs ra)) = Inr (out, db)"
  shows "granted out = None \<and> db = run_history L B cl key ops (no_runs ra)"
proof -
  have ok: "runs_ok (run_history L B cl key ops (no_runs ra))" by (rule run_history_runs_ok[OF runs_ok_empty])
  from assms(3) show ?thesis
  proof (cases rule: claim_InrD)
    case (acquired l x)
    with assms(1) ok show ?thesis by (auto simp: run_at_iff rev_image_eqI)
  next
    case (resumed row l e x)
    with ok have "run_at i (run_history L B cl key ops (no_runs ra)) = Some row" by (simp add: run_at_iff)
    with assms(1,2) resumed show ?thesis by simp
  qed simp
qed

section \<open>Attempts\<close>

definition attempts_ok ::
  "'k lib \<Rightarrow> blib \<Rightarrow> (string \<Rightarrow> string) \<Rightarrow> string \<Rightarrow> reauthorization_row list \<Rightarrow> automation_row \<Rightarrow> bool" where
  "attempts_ok L B cl key ra r \<longleftrightarrow> ar_attempts r = 1 \<or>
     (\<exists>e. stored_mandate L B cl key r \<lparr>ad_runs = [], ad_reauth = ra\<rparr> = Inr e \<and> \<not> cycles_spent (ar_attempts r - 1) e)"

lemma stored_mandate_cong:
  assumes "ar_mandate r' = ar_mandate r" "ar_fingerprint r' = ar_fingerprint r" "ar_run_id r' = ar_run_id r"
    "ad_reauth d' = ad_reauth d"
  shows "stored_mandate L B cl key r' d' = stored_mandate L B cl key r d"
  unfolding stored_mandate_def effectiveMandate_def by (simp only: assms)

lemma attempts_ok_keep:
  assumes "attempts_ok L B cl key ra r" "ar_mandate r' = ar_mandate r" "ar_fingerprint r' = ar_fingerprint r"
    "ar_run_id r' = ar_run_id r" "ar_attempts r' = ar_attempts r"
  shows "attempts_ok L B cl key ra r'"
  using assms(1) stored_mandate_cong[OF assms(2-4) refl, of L B cl key] by (simp add: attempts_ok_def assms(5))

lemma attempts_move:
  assumes "row_move L B cl key db p r r'" "attempts_ok L B cl key (ad_reauth db) r"
  shows "attempts_ok L B cl key (ad_reauth db) r'"
  using assms
proof (induction rule: row_move.induct)
  case (resume r i now e uuid stamp leaseMs m owner x)
  let ?r' = "r\<lparr>ar_status := Running, ar_token := Some uuid, ar_owner := Some owner, ar_expires := Some x,
       ar_attempts := ar_attempts r + 1, ar_updated_at := stamp\<rparr>"
  have "stored_mandate L B cl key ?r' \<lparr>ad_runs = [], ad_reauth = ad_reauth db\<rparr> = stored_mandate L B cl key r db"
    by (rule stored_mandate_cong) simp_all
  with resume show ?case by (simp add: attempts_ok_def)
qed (erule attempts_ok_keep; simp)+

lemma run_step_new:
  assumes "r \<in> set (ad_runs (run_step L B cl key p db))" "ar_run_id r \<notin> ar_run_id ` set (ad_runs db)"
  shows "ar_attempts r = 1"
proof (cases p)
  case (OpClaim uuid stamp now leaseMs i m owner)
  show ?thesis
  proof (cases "claimAutomationRun L B cl uuid stamp now leaseMs i m owner key db")
    case (Inr x)
    obtain out db' where x: "x = (out, db')" by fastforce
    with assms OpClaim Inr have r: "r \<in> set (ad_runs db')" by simp
    from Inr[unfolded x] show ?thesis
      by (cases rule: claim_InrD) (use r assms(2) in \<open>auto simp: new_row_def set_row_update rev_image_eqI\<close>)
  qed (use assms OpClaim in auto)
qed (use assms in \<open>auto simp: lease_renew_def lease_finish_def requestAutomationRunCancellation_def Let_def set_row_update
       rev_image_eqI split: option.splits if_splits\<close>)

lemma run_step_from:
  assumes "runs_ok db" "r' \<in> set (ad_runs (run_step L B cl key p db))"
  shows "ar_attempts r' = 1 \<or> (\<exists>r\<in>set (ad_runs db). row_move L B cl key db p r r')"
proof (cases "ar_run_id r' \<in> ar_run_id ` set (ad_runs db)")
  case True
  then obtain r where r: "r \<in> set (ad_runs db)" "ar_run_id r = ar_run_id r'" by auto
  obtain q where q: "q \<in> set (ad_runs (run_step L B cl key p db))" "row_move L B cl key db p r q"
    using run_step_moves[OF assms(1) r(1)] by blast
  then have "ar_run_id q = ar_run_id r'" using moves_keep r(2) by metis
  then have "q = r'" using run_step_rows[OF assms(1), of L B cl key p] q(1) assms(2)
    by (auto simp: runs_ok_def distinct_map inj_on_def)
  with q r show ?thesis by blast
next
  case False
  with run_step_new[OF assms(2)] show ?thesis by simp
qed

lemma run_history_attempts:
  assumes "runs_ok db" "\<forall>r\<in>set (ad_runs db). attempts_ok L B cl key (ad_reauth db) r"
  shows "\<forall>r\<in>set (ad_runs (run_history L B cl key ops db)). attempts_ok L B cl key (ad_reauth db) r"
  using assms unfolding run_history_def
proof (induction ops arbitrary: db)
  case (Cons p ops)
  have "\<forall>r\<in>set (ad_runs (run_step L B cl key p db)). attempts_ok L B cl key (ad_reauth db) r"
  proof
    fix r' assume "r' \<in> set (ad_runs (run_step L B cl key p db))"
    from run_step_from[OF Cons.prems(1) this] show "attempts_ok L B cl key (ad_reauth db) r'"
    proof
      assume "ar_attempts r' = 1"
      then show ?thesis by (simp add: attempts_ok_def)
    next
      assume "\<exists>r\<in>set (ad_runs db). row_move L B cl key db p r r'"
      with Cons.prems(2) show ?thesis by (blast intro: attempts_move)
    qed
  qed
  with Cons.IH[OF run_step_rows[OF Cons.prems(1), THEN conjunct1], of L B cl key p]
    run_step_rows[OF Cons.prems(1), of L B cl key p]
  show ?case by simp
qed simp

text \<open>C31. In every history a run is attempted at most once more than the fix cycles of the mandate it
  runs under, takeovers of interrupted attempts included.\<close>

theorem attempts_within_fix_cycles:
  assumes "run_at i (run_history L B cl key ops (no_runs ra)) = Some r"
    "stored_mandate L B cl key r (run_history L B cl key ops (no_runs ra)) = Inr e"
    "md_max_fix_cycles e = Num (of_nat n)"
  shows "ar_attempts r \<le> n + 1"
proof -
  have ok: "runs_ok (run_history L B cl key ops (no_runs ra))"
    and ra: "ad_reauth (run_history L B cl key ops (no_runs ra)) = ra"
    using run_history_ok[OF runs_ok_empty, of L B cl key ops ra] by (simp_all add: no_runs_def)
  have "attempts_ok L B cl key (ad_reauth (no_runs ra)) r"
    using run_history_attempts[OF runs_ok_empty, of ra L B cl key ops] assms(1) ok
    by (simp add: run_at_iff no_runs_def)
  moreover have "stored_mandate L B cl key r \<lparr>ad_runs = [], ad_reauth = ra\<rparr> = Inr e"
    using assms(2) stored_mandate_cong[of r r "\<lparr>ad_runs = [], ad_reauth = ra\<rparr>" "run_history L B cl key ops (no_runs ra)" L B cl key] ra
    by simp
  ultimately show ?thesis
    using assms(3) by (auto simp: attempts_ok_def no_runs_def cycles_spent_def)
qed

section \<open>Signatures and issuing\<close>

text \<open>A mandate signed by the runtime verifies with the same key, and signing changes only its
  version and its signature. The base64url text of a MAC is taken to have its 43 characters and to decode to
  the MAC.\<close>

theorem mandate_signature_roundtrip:
  assumes "signMandateAuthority L B cl m secret = Inr signed"
    "\<And>x. authority_signature_text (bl_b64 B (bl_hmac B secret x))"
    "\<And>x. bl_unb64 B (bl_b64 B (bl_hmac B secret x)) = bl_hmac B secret x"
  shows "verifyMandateAuthority L B cl signed secret
     \<and> signed = m\<lparr>md_authority_version := Some AUTHORITY_VERSION, md_authority_signature := md_authority_signature signed\<rparr>"
proof -
  have payload: "authorityPayload L cl (r\<lparr>md_authority_signature := s\<rparr>) = authorityPayload L cl r" for r s
    by (simp add: authorityPayload_def)
  show ?thesis
    using assms by (auto simp: signMandateAuthority_def verifyMandateAuthority_def Let_def payload split: if_splits)
qed

lemma bounded_SomeD: "bounded v c n = Some x \<Longrightarrow> js_finite x \<and> \<not> js_less x (js_int n) \<and> \<not> js_less c x"
  by (auto simp: bounded_def Let_def split: if_splits)

text \<open>An issued mandate never exceeds the runtime's ceilings on cost, minutes and fix cycles, is
  bounded in all three, never names a protected branch, always denies the actions that are never allowed, and
  is bound to the objective and mission that were asked for.\<close>

theorem issued_mandate_within_policy:
  assumes "issueArchitectMandate L B cl rnd now rq ce secret = Inr m"
  shows "\<not> js_less (ceil_maxCostUsd ce) (md_max_cost_usd m) \<and> \<not> js_less (ceil_maxRuntimeMinutes ce) (md_max_runtime_minutes m)
    \<and> \<not> js_less (ceil_maxFixCycles ce) (md_max_fix_cycles m)
    \<and> js_finite (md_max_cost_usd m) \<and> js_finite (md_max_runtime_minutes m) \<and> js_finite (md_max_fix_cycles m)
    \<and> md_denied_actions m = ALWAYS_DENIED_ACTIONS \<and> md_branch_prefix m \<notin> {''main'', ''master'', ''''}
    \<and> md_objective_hash m = objectiveHash L (rq_objective rq) \<and> md_mission_id m = rq_missionId rq"
  using assms
  by (auto simp: issueArchitectMandate_def signMandateAuthority_def architect_mandate_def Let_def
      split: if_splits option.splits dest!: bounded_SomeD)

section \<open>Recovery\<close>

text \<open>The counters of a supervisor move together: what it reclaims it also completes or fails.\<close>

lemma recover_counts:
  assumes "recover L B cl owner key leaseMs t c (s, db) = Inr (hit, s', db')"
  shows "su_leasesReclaimed s' = su_leasesReclaimed s + of_bool hit
    \<and> su_completions s' + su_failures s' = su_completions s + su_failures s + of_bool hit"
  using assms by (auto simp: recover_def Let_def split: sum.splits run_claim_result.splits if_splits prod.splits)

lemma recover_all_counts:
  assumes "recover_all L B cl owner key leaseMs tcs n (s, db) = (res, s', db')"
  shows "(\<exists>k. su_leasesReclaimed s' = su_leasesReclaimed s + k \<and> k \<le> length tcs
    \<and> su_completions s' + su_failures s' = su_completions s + su_failures s + k
    \<and> (case res of Inl _ \<Rightarrow> True | Inr m \<Rightarrow> m = n + k))"
  using assms
proof (induction tcs arbitrary: n s db)
  case (Cons tc rest)
  obtain t c where tc: "tc = (t, c)" by fastforce
  show ?case
  proof (cases "rt_stopped t")
    case True
    with Cons.prems tc show ?thesis by auto
  next
    case False
    show ?thesis
    proof (cases "recover L B cl owner key leaseMs t c (s, db)")
      case (Inl e)
      with Cons.prems tc False show ?thesis by auto
    next
      case (Inr x)
      obtain hit s1 db1 where x: "x = (hit, s1, db1)" by (cases x) auto
      from Cons.prems tc False Inr x
      have "recover_all L B cl owner key leaseMs rest (if hit then n + 1 else n) (s1, db1) = (res, s', db')" by simp
      from Cons.IH[OF this] recover_counts[OF Inr[unfolded x]] show ?thesis
        by (cases hit) (auto split: sum.splits)
    qed
  qed
qed auto

text \<open>A sweep counts every lease it reclaims once, as a completion or as a failure, answers with
  that number, reclaims at most a batch, and does nothing when the supervisor is disabled or stopped.\<close>

theorem sweep_accounts:
  assumes "sweepNow L B cl enabled owner key leaseMs batchSize now now' turns (s, db) = (Inr n, s', db')"
  shows "su_leasesReclaimed s' = su_leasesReclaimed s + n
    \<and> su_completions s' + su_failures s' = su_completions s + su_failures s + n
    \<and> int n \<le> max 0 batchSize \<and> (\<not> enabled \<or> su_stopped s \<longrightarrow> n = 0 \<and> db' = db)"
proof (cases "\<not> enabled \<or> su_stopped s")
  case True
  with assms show ?thesis by (auto simp: sweepNow_def)
next
  case False
  with assms obtain cs where cs: "interruptedAutomationRuns L B cl key now batchSize db = Inr cs"
    by (auto simp: sweepNow_def split: sum.splits)
  with False assms have r: "recover_all L B cl owner key leaseMs (zip turns cs) 0
      (s\<lparr>su_lastSweepAt := Some (lib_iso L now'), su_lastCandidateCount := length cs\<rparr>, db) = (Inr n, s', db')"
    by (simp add: sweepNow_def)
  have "length (List.map_filter f (take k xs)) \<le> k" for f :: "automation_row \<Rightarrow> interrupted_run option" and k xs
    unfolding List.map_filter_def by (simp, rule order_trans[OF length_filter_le]) simp
  then have "length cs \<le> nat batchSize"
    using cs by (auto simp: interruptedAutomationRuns_def split: if_splits)
  with recover_all_counts[OF r] False show ?thesis by auto
qed

section \<open>Worked example\<close>

definition toy_time :: "unit lib" where
  "toy_time =
    \<lparr>lib_sha256 = (\<lambda>_. ''h''), lib_verify = (\<lambda>_ _ _ _. True), lib_sign = (\<lambda>_ _ _. ''''), lib_keyId = (\<lambda>_. ''''),
     lib_isPrivate = (\<lambda>_. True), lib_dateParse = (\<lambda>s. if s = ''far'' then Num 99000 else Num 3500),
     lib_iso = (\<lambda>t. if t \<le> 5000 then ''near'' else ''far''),
     lib_numText = (\<lambda>_. ''1''), lib_forbidden = (\<lambda>_. None)\<rparr>"

definition toy_mac :: blib where
  "toy_mac = \<lparr>bl_hmac = (\<lambda>_ _. replicate 43 CHR ''A''), bl_b64 = id, bl_unb64 = id, bl_parse = (\<lambda>_. None), bl_number = (\<lambda>_. NaN)\<rparr>"

definition toy_secret :: string where
  "toy_secret = replicate 32 CHR ''k''"

definition toy_mandate :: execution_mandate where
  "toy_mandate =
     \<lparr>md_authority_version = Some AUTHORITY_VERSION, md_authority_signature = Some (replicate 43 CHR ''A''),
      md_mandate_id = ''mandate_1'', md_mission_id = ''m1'', md_issued_by = ''merlin'', md_issued_by_key_id = ''key'',
      md_objective_hash = ''h'', md_workspace_root = ''/w'', md_branch_prefix = ''b'', md_allowed_actions = DEFAULT_ALLOWED_ACTIONS,
      md_denied_actions = ALWAYS_DENIED_ACTIONS, md_max_cost_usd = Num 5, md_max_runtime_minutes = Num 1,
      md_max_fix_cycles = Num 1, md_issued_at = ''near'', md_expires_at = ''far'', md_recovery = None\<rparr>"

lemma toy_verifies: "verifyMandateAuthority toy_time toy_mac id toy_mandate toy_secret"
  by (simp add: verifyMandateAuthority_def toy_mandate_def toy_mac_def toy_secret_def authority_signature_text_def
      AUTHORITY_VERSION_def utf8_length_def is_alnum_def is_upper_def list_all_iff sum_list_replicate)

definition toy_first :: "run_op list" where
  "toy_first = [OpClaim ''t1'' ''s'' 0 (Num 3000) ''r'' toy_mandate ''o'']"

definition toy_taken :: "automation_row" where
  "toy_taken = \<lparr>ar_run_id = ''r'', ar_mandate_id = ''mandate_1'', ar_mission_id = ''m1'', ar_fingerprint = ''h'',
     ar_mandate = Some toy_mandate, ar_status = Running, ar_token = Some ''t1'', ar_owner = Some ''o'',
     ar_expires = Some ''near'', ar_attempts = 1, ar_created_at = ''s'', ar_updated_at = ''s'', ar_completed_at = None,
     ar_cancel_requested_at = None\<rparr>"

lemma toy_fields: "md_mandate_id toy_mandate = ''mandate_1''" "md_mission_id toy_mandate = ''m1''"
  "md_max_fix_cycles toy_mandate = Num 1" "md_expires_at toy_mandate = ''far''"
  "mandateFingerprint toy_time m = ''h''" "lib_iso toy_time t = (if t \<le> 5000 then ''near'' else ''far'')"
  "lib_dateParse toy_time s = (if s = ''far'' then Num 99000 else Num 3500)"
  by (simp_all add: toy_mandate_def toy_time_def mandateFingerprint_def)

lemmas toy_runs = no_runs_def run_history_def claimAutomationRun_def new_row_def toy_verifies toy_fields stored_mandate_def
  effectiveMandate_def live_lease_def cycles_spent_def row_update_def js_int_def toy_taken_def Let_def

lemma toy_acquired: "run_history toy_time toy_mac id toy_secret toy_first (no_runs []) = \<lparr>ad_runs = [toy_taken], ad_reauth = []\<rparr>"
  by (simp add: toy_first_def toy_runs)

text \<open>At 4000 the first lease, good until 3500, has run out and another process takes the run up.\<close>

lemma toy_resumed:
  "claimAutomationRun toy_time toy_mac id ''t2'' ''s2'' 4000 (Num 3000) ''r'' toy_mandate ''o2'' toy_secret
     \<lparr>ad_runs = [toy_taken], ad_reauth = []\<rparr>
   = Inr (Resumed \<lparr>le_runId = ''r'', le_token = ''t2'', le_ms = 3000\<rparr> 2 toy_mandate,
       \<lparr>ad_runs = [toy_taken\<lparr>ar_token := Some ''t2'', ar_owner := Some ''o2'', ar_expires := Some ''far'',
          ar_attempts := 2, ar_updated_at := ''s2''\<rparr>], ad_reauth = []\<rparr>)"
  by (simp add: toy_runs)

theorem stale_lease_fenced_witness:
  "\<exists>db. lease_finish ''s3'' True \<lparr>le_runId = ''r'', le_token = ''t1'', le_ms = 3000\<rparr> db = (False, db)
     \<and> (\<exists>r\<in>set (ad_runs db). ar_token r = Some ''t2'')"
  using stale_lease_fenced[where L = toy_time and B = toy_mac and cl = id and key = toy_secret and l = "\<lparr>le_runId = ''r'', le_token = ''t1'', le_ms = 3000\<rparr>" and later = "[]" and ops = toy_first
      and ok = True and stamp' = "''s3''" and ra = "[]", unfolded toy_acquired automation_lease.simps, OF toy_resumed]
  by (intro exI[of _ "\<lparr>ad_runs = [toy_taken\<lparr>ar_token := Some ''t2'', ar_owner := Some ''o2'', ar_expires := Some ''far'',
          ar_attempts := 2, ar_updated_at := ''s2''\<rparr>], ad_reauth = []\<rparr>"]) (simp add: run_history_def)

theorem live_lease_excludes_witness:
  "\<exists>out. claimAutomationRun toy_time toy_mac id ''t2'' ''s2'' 2000 (Num 3000) ''r'' toy_mandate ''o2'' toy_secret
      \<lparr>ad_runs = [toy_taken], ad_reauth = []\<rparr> = Inr (out, \<lparr>ad_runs = [toy_taken], ad_reauth = []\<rparr>) \<and> granted out = None"
proof -
  obtain out db where c: "claimAutomationRun toy_time toy_mac id ''t2'' ''s2'' 2000 (Num 3000) ''r'' toy_mandate ''o2''
      toy_secret \<lparr>ad_runs = [toy_taken], ad_reauth = []\<rparr> = Inr (out, db)"
    by (simp add: toy_runs)
  from live_lease_excludes[of "''r''" toy_time toy_mac id toy_secret toy_first "[]" toy_taken 2000, unfolded toy_acquired, OF _ _ c]
  show ?thesis using c by (simp add: run_at_def toy_runs)
qed

theorem ended_runs_final_witness:
  "\<exists>r. run_at ''r'' (run_history toy_time toy_mac id toy_secret
      ((toy_first @ [OpFinish \<lparr>le_runId = ''r'', le_token = ''t1'', le_ms = 3000\<rparr> True ''s4'']) @ [OpCancelRun ''r'' ''m1'' ''s5''])
      (no_runs [])) = Some r \<and> ar_status r = Complete"
proof -
  let ?ops = "toy_first @ [OpFinish \<lparr>le_runId = ''r'', le_token = ''t1'', le_ms = 3000\<rparr> True ''s4'']"
  obtain r where r: "run_at ''r'' (run_history toy_time toy_mac id toy_secret ?ops (no_runs [])) = Some r" "ar_status r = Complete"
    by (simp add: toy_first_def toy_runs run_at_def lease_finish_def holds_lease_def)
  from ended_runs_final[OF r(1), of "[OpCancelRun ''r'' ''m1'' ''s5'']"] r(2) show ?thesis by (simp add: run_ended_def)
qed

theorem attempts_within_fix_cycles_witness:
  "ar_attempts toy_taken \<le> 1 + 1"
  using attempts_within_fix_cycles[of "''r''" toy_time toy_mac id toy_secret toy_first "[]" toy_taken toy_mandate 1, unfolded toy_acquired]
  by (simp add: run_at_def toy_runs)

theorem mandate_signature_roundtrip_witness:
  "\<exists>signed. signMandateAuthority toy_time toy_mac id toy_mandate toy_secret = Inr signed
     \<and> verifyMandateAuthority toy_time toy_mac id signed toy_secret"
proof -
  obtain signed where s: "signMandateAuthority toy_time toy_mac id toy_mandate toy_secret = Inr signed"
    by (simp add: signMandateAuthority_def Let_def toy_secret_def utf8_length_def sum_list_replicate)
  have "verifyMandateAuthority toy_time toy_mac id signed toy_secret"
    using mandate_signature_roundtrip[OF s]
    by (simp add: toy_mac_def authority_signature_text_def is_alnum_def is_upper_def list_all_iff)
  with s show ?thesis by blast
qed

definition toy_ceilings :: mandate_ceilings where
  "toy_ceilings = \<lparr>ceil_maxCostUsd = Num 5, ceil_maxRuntimeMinutes = Num 60, ceil_maxFixCycles = Num 3\<rparr>"

definition toy_request :: mandate_request where
  "toy_request = \<lparr>rq_missionId = ''m1'', rq_objective = ''o'', rq_workspaceRoot = ''/w'', rq_branch = ''feature'',
     rq_architectKeyId = ''key_0123456789ab'', rq_idempotencyKey = None, rq_maxCostUsd = Some (Num 2),
     rq_maxRuntimeMinutes = None, rq_maxFixCycles = None\<rparr>"

theorem issued_mandate_within_policy_witness:
  "\<exists>m. issueArchitectMandate toy_time toy_mac id ''rnd'' 0 toy_request toy_ceilings toy_secret = Inr m
     \<and> md_denied_actions m = ALWAYS_DENIED_ACTIONS \<and> \<not> js_less (Num 5) (md_max_cost_usd m)"
proof -
  obtain m where m: "issueArchitectMandate toy_time toy_mac id ''rnd'' 0 toy_request toy_ceilings toy_secret = Inr m"
    by (simp add: issueArchitectMandate_def toy_request_def toy_ceilings_def bounded_def nullish_def js_int_def Let_def
        tagged_hex_def hex_text_def is_hex_def js_trim_def is_space_def signMandateAuthority_def toy_secret_def utf8_length_def
        sum_list_replicate)
  from issued_mandate_within_policy[OF this] m show ?thesis by (simp add: toy_ceilings_def)
qed

definition toy_turn :: recovery_turn where
  "toy_turn = \<lparr>rt_stopped = False, rt_preflight = Some True, rt_uuid = ''t2'', rt_stamp = ''s2'', rt_now = 4000,
     rt_execute = (\<lambda>_ _ _. Some RsComplete), rt_others = id\<rparr>"

definition toy_supervisor :: supervisor where
  "toy_supervisor = \<lparr>su_stopped = False, su_lastSweepAt = None, su_lastCandidateCount = 0, su_leasesReclaimed = 0,
     su_completions = 0, su_failures = 0, su_preflightRefusals = 0\<rparr>"

theorem sweep_accounts_witness:
  "\<exists>s' db'. sweepNow toy_time toy_mac id True ''o2'' toy_secret (Num 3000) 5 4000 4000 [toy_turn]
       (toy_supervisor, \<lparr>ad_runs = [toy_taken], ad_reauth = []\<rparr>) = (Inr 1, s', db')
     \<and> su_completions s' + su_failures s' = 1 \<and> map ar_status (ad_runs db') = [Complete]"
proof -
  obtain s' db' where s: "sweepNow toy_time toy_mac id True ''o2'' toy_secret (Num 3000) 5 4000 4000 [toy_turn]
       (toy_supervisor, \<lparr>ad_runs = [toy_taken], ad_reauth = []\<rparr>) = (Inr 1, s', db')" "map ar_status (ad_runs db') = [Complete]"
    by (simp add: sweepNow_def interruptedAutomationRuns_def recoverable_def recover_def toy_runs toy_turn_def
        toy_supervisor_def List.map_filter_def lease_finish_def holds_lease_def row_changes_def nullish_def)
  from sweep_accounts[OF s(1)] s show ?thesis by (auto simp: toy_supervisor_def)
qed

end
