(* ===== verification/Diagnostics.thy ===== *)
theory Diagnostics imports ModelBudget MissionStore begin

text \<open>
  What may leave a failed run: the screen of adapter output, \<open>output-safety.ts\<close>; the closed schemas of effect
  diagnostics, \<open>effect-diagnostics.ts\<close>, and of verification diagnostics, \<open>verification-diagnostics.ts\<close> (all under
  \<open>src/src/runtime/automation\<close>).  Untyped values are \<open>json\<close>; getters, prototypes and exotic objects, which the
  code also refuses, have no counterpart there.  \<open>L\<close> and \<open>B\<close> print and read numbers.
\<close>

section \<open>Credential patterns\<close>

definition run_of :: "(char \<Rightarrow> bool) \<Rightarrow> string \<Rightarrow> nat" where
  "run_of cls s = length (takeWhile cls s)"

definition prefix_ci :: "string \<Rightarrow> string \<Rightarrow> bool" where
  "prefix_ci p s \<longleftrightarrow> prefix p (lower s)"

text \<open>A word boundary after the first \<open>n\<close> characters, \<open>0 < n\<close>.\<close>

definition boundary_after :: "nat \<Rightarrow> string \<Rightarrow> bool" where
  "boundary_after n s \<longleftrightarrow> word_char (s ! (n - 1)) \<noteq> (n < length s \<and> word_char (s ! n))"

definition pem_key_at :: "string \<Rightarrow> bool" where
  "pem_key_at s \<longleftrightarrow>
     list_ex (\<lambda>kind. prefix_ci (''-----begin '' @ kind @ ''private key-----'') s) ['''', ''rsa '', ''ec '', ''openssh '']"

definition token_char :: "char \<Rightarrow> bool" where
  "token_char c \<longleftrightarrow> is_alnum c \<or> c \<in> set ''._~+/-''"

definition bearer_token_at :: "string \<Rightarrow> bool" where
  "bearer_token_at s \<longleftrightarrow>
     prefix_ci ''bearer'' s \<and> 0 < run_of is_space (drop 6 s) \<and> 20 \<le> run_of token_char (dropWhile is_space (drop 6 s))"

definition assigned_names :: "string list" where
  "assigned_names = concat (map (\<lambda>(a, b). map (\<lambda>j. a @ j @ b) ['''', ''_'', ''-''])
     [(''api'', ''key''), (''access'', ''token''), (''client'', ''secret'')]) @ [''password'']"

definition assigned_value_at :: "string \<Rightarrow> bool" where
  "assigned_value_at s \<longleftrightarrow>
     list_ex (\<lambda>n. prefix_ci n s
       \<and> (case dropWhile is_space (drop (length n) s) of
            [] \<Rightarrow> False
          | c # r \<Rightarrow> (c = CHR '':'' \<or> c = CHR ''='')
              \<and> (let v = dropWhile is_space r; w = (if v \<noteq> [] \<and> (hd v = CHR 0x27 \<or> hd v = CHR 0x22) then tl v else v)
                 in 16 \<le> run_of token_char w))) assigned_names"

definition akia_at :: "string \<Rightarrow> bool" where
  "akia_at s \<longleftrightarrow> prefix ''AKIA'' s \<and> 20 \<le> length s \<and> list_all (\<lambda>c. is_digit c \<or> is_upper c) (take 16 (drop 4 s))
     \<and> boundary_after 20 s"

definition github_at :: "string \<Rightarrow> bool" where
  "github_at s \<longleftrightarrow>
     prefix ''gh'' s \<and> 4 \<le> length s \<and> s ! 2 \<in> set ''opusr'' \<and> s ! 3 = CHR ''_'' \<and> 30 \<le> run_of is_alnum (drop 4 s)
     \<and> boundary_after (4 + run_of is_alnum (drop 4 s)) s"

definition key_char :: "char \<Rightarrow> bool" where
  "key_char c \<longleftrightarrow> is_alnum c \<or> c = CHR ''_'' \<or> c = CHR ''-''"

text \<open>A match may end at any boundary that leaves enough characters.\<close>

definition long_key :: "nat \<Rightarrow> nat \<Rightarrow> string \<Rightarrow> bool" where
  "long_key off least s \<longleftrightarrow>
     list_ex (\<lambda>n. boundary_after n s) [off + least ..< off + run_of key_char (drop off s) + 1]"

definition sensitive_at :: "bool \<Rightarrow> string \<Rightarrow> bool" where
  "sensitive_at after s \<longleftrightarrow>
     pem_key_at s \<or> \<not> after \<and> (bearer_token_at s \<or> assigned_value_at s \<or> akia_at s \<or> github_at s
       \<or> prefix_ci ''sk-'' s \<and> long_key 3 20 s \<or> prefix ''AIza'' s \<and> long_key 4 30 s)"

definition sensitive_text :: "string \<Rightarrow> bool" where
  "sensitive_text s = matches_in sensitive_at False s"

section \<open>Adapter output\<close>

text \<open>The number of strings seen, or the exception.\<close>

fun visit_output :: "nat \<Rightarrow> json \<Rightarrow> nat \<Rightarrow> string + nat"
  and visit_items :: "nat \<Rightarrow> json list \<Rightarrow> nat \<Rightarrow> string + nat"
  and visit_members :: "nat \<Rightarrow> (string \<times> json) list \<Rightarrow> nat \<Rightarrow> string + nat" where
  "visit_output d v n =
     (if d > 8 \<or> n > 500 then Inl ''automation_output_structure_refused''
      else case v of
        JStr s \<Rightarrow> if length s > 262144 \<or> sensitive_text s then Inl ''automation_output_sensitive'' else Inr (n + 1)
      | JArr vs \<Rightarrow> visit_items (Suc d) vs n
      | JObj es \<Rightarrow> visit_members (Suc d) es n
      | _ \<Rightarrow> Inr n)"
| "visit_items d [] n = Inr n"
| "visit_items d (v # vs) n = (case visit_output d v n of Inl e \<Rightarrow> Inl e | Inr m \<Rightarrow> visit_items d vs m)"
| "visit_members d [] n = Inr n"
| "visit_members d ((k, v) # es) n = (case visit_output d v n of Inl e \<Rightarrow> Inl e | Inr m \<Rightarrow> visit_members d es m)"

declare visit_output.simps [simp del]

text \<open>\<open>None\<close> when the value passes.\<close>

definition assertAutomationOutputSafe :: "json \<Rightarrow> string option" where
  "assertAutomationOutputSafe v = (case visit_output 0 v 0 of Inl e \<Rightarrow> Some e | Inr _ \<Rightarrow> None)"

section \<open>Effect diagnostics\<close>

datatype effect_rule =
    GitPush | GitRemote | CloudMetadata | PrivateNetwork | WorkspaceEscape | NetworkClient | PrivilegeEscalation | Destructive

fun effect_rule_name :: "effect_rule \<Rightarrow> string" where
  "effect_rule_name GitPush = ''git_push_forbidden''"
| "effect_rule_name GitRemote = ''git_remote_mutation_forbidden''"
| "effect_rule_name CloudMetadata = ''cloud_metadata_forbidden''"
| "effect_rule_name PrivateNetwork = ''private_network_forbidden''"
| "effect_rule_name WorkspaceEscape = ''workspace_escape_forbidden''"
| "effect_rule_name NetworkClient = ''network_client_forbidden''"
| "effect_rule_name PrivilegeEscalation = ''privilege_escalation_forbidden''"
| "effect_rule_name Destructive = ''destructive_command_forbidden''"

definition EFFECT_RULES :: "effect_rule list" where
  "EFFECT_RULES = [GitPush, GitRemote, CloudMetadata, PrivateNetwork, WorkspaceEscape, NetworkClient,
     PrivilegeEscalation, Destructive]"

datatype match_locus = CommandLocus | ContentLocus | OtherLocus

fun locus_name :: "match_locus \<Rightarrow> string" where
  "locus_name CommandLocus = ''command''" | "locus_name ContentLocus = ''content''" | "locus_name OtherLocus = ''other''"

record effect_diagnostics =
  ed_rule :: "effect_rule option"
  ed_scanned_actions :: int
  ed_scanned_chars :: int
  ed_match_index :: "int option"
  ed_match_locus :: "match_locus option"

definition DIAGNOSTIC_FIELDS :: "string list" where
  "DIAGNOSTIC_FIELDS = [''rule'', ''scanned_actions'', ''scanned_chars'', ''match_index'', ''match_locus'']"

definition readEffectDiagnostics :: "blib \<Rightarrow> json \<Rightarrow> effect_diagnostics option" where
  "readEffectDiagnostics B v =
     (case v of
        JObj es \<Rightarrow>
          if length es \<noteq> length DIAGNOSTIC_FIELDS \<or> \<not> list_all (\<lambda>(k, _). k \<in> set DIAGNOSTIC_FIELDS) es
             \<or> \<not> list_all (\<lambda>k. k \<in> fst ` set es) DIAGNOSTIC_FIELDS then None
          else (case (json_integer B (prop_of es ''scanned_actions''), json_integer B (prop_of es ''scanned_chars'')) of
            (Some actions, Some chars) \<Rightarrow>
              if actions = 0 \<and> chars \<noteq> 0 then None
              else if prop_of es ''rule'' = JNull then
                if prop_of es ''match_index'' = JNull \<and> prop_of es ''match_locus'' = JNull
                  then Some \<lparr>ed_rule = None, ed_scanned_actions = actions, ed_scanned_chars = chars, ed_match_index = None, ed_match_locus = None\<rparr>
                else None
              else (case (find (\<lambda>r. prop_of es ''rule'' = JStr (effect_rule_name r)) EFFECT_RULES, json_integer B (prop_of es ''match_index''),
                        find (\<lambda>l. prop_of es ''match_locus'' = JStr (locus_name l)) [CommandLocus, ContentLocus, OtherLocus]) of
                (Some r, Some i, Some l) \<Rightarrow>
                  if actions = 0 \<or> chars > 128000 \<or> i \<ge> chars then None
                  else Some \<lparr>ed_rule = Some r, ed_scanned_actions = actions, ed_scanned_chars = chars, ed_match_index = Some i,
                             ed_match_locus = Some l\<rparr>
              | _ \<Rightarrow> None)
          | _ \<Rightarrow> None)
      | _ \<Rightarrow> None)"

definition int_json :: "int \<Rightarrow> json" where
  "int_json i = JNum (int_text i)"

definition diagnostics_json :: "effect_diagnostics \<Rightarrow> json" where
  "diagnostics_json d = JObj
     [(''rule'', case ed_rule d of None \<Rightarrow> JNull | Some r \<Rightarrow> JStr (effect_rule_name r)),
      (''scanned_actions'', int_json (ed_scanned_actions d)), (''scanned_chars'', int_json (ed_scanned_chars d)),
      (''match_index'', case ed_match_index d of None \<Rightarrow> JNull | Some i \<Rightarrow> int_json i),
      (''match_locus'', case ed_match_locus d of None \<Rightarrow> JNull | Some l \<Rightarrow> JStr (locus_name l))]"

text \<open>Only a result whose \<open>ok\<close> is \<open>false\<close> carries diagnostics.\<close>

definition readResultEffectDiagnostics :: "blib \<Rightarrow> bool \<Rightarrow> json \<Rightarrow> effect_diagnostics option" where
  "readResultEffectDiagnostics B ok v = (if ok then None else readEffectDiagnostics B v)"

section \<open>Verification diagnostics\<close>

datatype failure_category = Rejection | Service | HttpFailure | Transport | Protocol | UnknownFailure

fun category_name :: "failure_category \<Rightarrow> string" where
  "category_name Rejection = ''rejection''" | "category_name Service = ''service''" | "category_name HttpFailure = ''http''"
| "category_name Transport = ''transport''" | "category_name Protocol = ''protocol''" | "category_name UnknownFailure = ''unknown''"

definition CODE_CATEGORIES :: "(string \<times> failure_category) list" where
  "CODE_CATEGORIES =
     map (\<lambda>c. (c, Rejection)) [''codex_evidence_missing'', ''codex_test_evidence_invalid'', ''codex_verdict_rejected''] @
     [(''codex_request_invalid'', Protocol)] @
     map (\<lambda>c. (c, Service)) [''codex_artifact_read_failed'', ''codex_evaluator_failed'', ''codex_evaluator_result_invalid'',
       ''codex_receipt_signing_failed'', ''codex_verification_failed_closed'', ''codex_api_response_too_large'',
       ''codex_api_usage_missing'', ''codex_api_usage_invalid'', ''codex_api_output_missing'', ''codex_api_output_not_json'',
       ''codex_api_output_truncated'', ''codex_api_output_invalid'', ''codex_api_timeout'', ''codex_api_unavailable''] @
     map (\<lambda>c. (c, Transport)) [''adapter_timeout'', ''adapter_cancelled'', ''adapter_unreachable''] @
     map (\<lambda>c. (c, Protocol)) [''adapter_invalid_json'', ''adapter_result_invalid'', ''adapter_artifacts_invalid'',
       ''adapter_sensitive_output_refused'', ''adapter_response_too_large'', ''adapter_redirect_refused'', ''adapter_url_invalid'',
       ''adapter_url_requires_https_or_loopback'', ''adapter_auth_required'', ''codex_verdict_invalid'', ''codex_receipt_invalid'',
       ''budget_authority_required'', ''codex_failure_response_invalid''] @
     map (\<lambda>c. (c, UnknownFailure)) [''codex_failure_unclassified'', ''codex_adapter_failed'']"

definition http_code :: "string \<Rightarrow> string \<Rightarrow> bool" where
  "http_code tag s \<longleftrightarrow> prefix tag s
     \<and> (case drop (length tag) s of [a, b, c] \<Rightarrow> a \<in> set ''12345'' \<and> is_digit b \<and> is_digit c | _ \<Rightarrow> False)"

definition verificationFailureCategory :: "string \<Rightarrow> failure_category option" where
  "verificationFailureCategory code =
     (case map_of CODE_CATEGORIES code of
        Some c \<Rightarrow> Some c
      | None \<Rightarrow> if http_code ''codex_api_http_'' code then Some Service
                else if http_code ''adapter_http_'' code then Some HttpFailure else None)"

definition any_bearer_at :: "string \<Rightarrow> bool" where
  "any_bearer_at s \<longleftrightarrow>
     prefix ''bearer'' s \<and> 0 < run_of is_space (drop 6 s)
     \<and> (case dropWhile is_space (drop 6 s) of [] \<Rightarrow> False | c # _ \<Rightarrow> is_alnum c \<or> c \<in> set ''._~+/=-'')"

text \<open>The second screen, on the text in lower case.\<close>

definition diagnostic_sensitive :: "string \<Rightarrow> bool" where
  "diagnostic_sensitive s =
     matches_in (\<lambda>after t. pem_at t \<or> \<not> after \<and> (any_bearer_at t \<or> key_at t \<or> jwt_at t)) False (lower s)"

record failure_diagnostic =
  fd_category :: failure_category
  fd_code :: string
  fd_http_status :: "string option"
  fd_verdict_fail :: bool
  fd_summary :: "string option"
  fd_evidence :: "string list option"
  fd_details_omitted :: bool

text \<open>\<open>fd_http_status\<close> is the text of the number.\<close>

definition failure_json :: "failure_diagnostic \<Rightarrow> json" where
  "failure_json d = JObj
     ([(''category'', JStr (category_name (fd_category d))), (''code'', JStr (fd_code d))]
      @ opt_entry ''http_status'' (map_option JNum (fd_http_status d))
      @ (if fd_verdict_fail d then [(''verdict'', JStr ''fail'')] else [])
      @ opt_entry ''summary'' (map_option JStr (fd_summary d))
      @ opt_entry ''evidence'' (map_option (\<lambda>es. JArr (map JStr es)) (fd_evidence d))
      @ (if fd_details_omitted d then [(''details_omitted'', JBool True)] else []))"

fun strings_within :: "nat \<Rightarrow> json list \<Rightarrow> string list option" where
  "strings_within cap [] = Some []"
| "strings_within cap (JStr s # vs) = (if length s > cap then None else map_option (Cons s) (strings_within cap vs))"
| "strings_within cap (v # vs) = None"

definition read_optional :: "json \<Rightarrow> (json \<Rightarrow> 'a option) \<Rightarrow> 'a option option" where
  "read_optional v rd = (if v = JUndefined then Some None else map_option Some (rd v))"

definition http_status_of :: "blib \<Rightarrow> json \<Rightarrow> string option" where
  "http_status_of B v =
     (case v of JNum t \<Rightarrow> (case bl_number B t of Num q \<Rightarrow> if of_int \<lfloor>q\<rfloor> = q \<and> 100 \<le> q \<and> q \<le> 599 then Some t else None | _ \<Rightarrow> None)
      | _ \<Rightarrow> None)"

text \<open>The fields as read, before the screens.\<close>

definition read_fields :: "blib \<Rightarrow> json \<Rightarrow> failure_diagnostic option" where
  "read_fields B v =
     (case v of
        JObj es \<Rightarrow>
          (case str_prop es ''code'' of None \<Rightarrow> None | Some code \<Rightarrow>
          (case verificationFailureCategory code of None \<Rightarrow> None | Some cat \<Rightarrow>
           if prop_of es ''category'' \<noteq> JStr (category_name cat) then None
           else
          (case read_optional (prop_of es ''http_status'') (http_status_of B) of None \<Rightarrow> None | Some status \<Rightarrow>
           if prop_of es ''verdict'' \<notin> {JUndefined, JStr ''fail''} then None
           else if prop_of es ''details_omitted'' \<notin> {JUndefined, JBool True} then None
           else
          (case read_optional (prop_of es ''summary'') (\<lambda>j. case j of JStr s \<Rightarrow> if length s > 4000 then None else Some s | _ \<Rightarrow> None) of
             None \<Rightarrow> None | Some summary \<Rightarrow>
          (case read_optional (prop_of es ''evidence'')
              (\<lambda>j. case j of JArr vs \<Rightarrow> if length vs > 50 then None else strings_within 2000 vs | _ \<Rightarrow> None) of
             None \<Rightarrow> None | Some evidence \<Rightarrow>
          Some \<lparr>fd_category = cat, fd_code = code, fd_http_status = status, fd_verdict_fail = (prop_of es ''verdict'' = JStr ''fail''),
                fd_summary = summary, fd_evidence = evidence, fd_details_omitted = (prop_of es ''details_omitted'' = JBool True)\<rparr>)))))
      | _ \<Rightarrow> None)"

definition bounded_details :: "failure_diagnostic \<Rightarrow> failure_diagnostic" where
  "bounded_details d =
     (if utf8_length (render (failure_json d)) > 12000
      then d\<lparr>fd_summary := None, fd_evidence := None, fd_details_omitted := True\<rparr> else d)"

definition diagnostic_texts :: "failure_diagnostic \<Rightarrow> string list" where
  "diagnostic_texts d = nullish (fd_summary d) '''' # nullish (fd_evidence d) []"

definition readVerificationFailureDiagnostic :: "blib \<Rightarrow> json \<Rightarrow> failure_diagnostic option" where
  "readVerificationFailureDiagnostic B v =
     (case read_fields B v of
        None \<Rightarrow> None
      | Some d \<Rightarrow>
          if assertAutomationOutputSafe (failure_json d) \<noteq> None then None
          else if list_ex diagnostic_sensitive (diagnostic_texts d) then None
          else if diagnostic_sensitive (render (failure_json d)) then None
          else Some (bounded_details d))"

text \<open>\<open>describeCodexFailure\<close> of \<open>adapters/http.ts\<close>; an error that is not an adapter's own is \<open>None\<close>.\<close>

definition describeCodexFailure :: "blib \<Rightarrow> (string \<times> json) option \<Rightarrow> failure_diagnostic" where
  "describeCodexFailure B error =
     (let bare = (\<lambda>cat code. \<lparr>fd_category = cat, fd_code = code, fd_http_status = None, fd_verdict_fail = False,
                    fd_summary = None, fd_evidence = None, fd_details_omitted = False\<rparr>)
      in case error of
        None \<Rightarrow> bare UnknownFailure ''codex_adapter_failed''
      | Some (msg, diagnostic) \<Rightarrow>
          (case readVerificationFailureDiagnostic B diagnostic of
             Some d \<Rightarrow> d
           | None \<Rightarrow> (case verificationFailureCategory msg of
               Some cat \<Rightarrow> bare cat msg
             | None \<Rightarrow> bare UnknownFailure ''codex_adapter_failed'')))"

end
