(* ===== verification/AutoRunner.thy ===== *)
theory AutoRunner imports RunLease Diagnostics begin

text \<open>
  The executive runner, \<open>src/src/runtime/automation/runner.ts\<close>: one development run under a mandate, from the plan
  through the worker's assignments to verification and assurance, every step recorded in the mission fabric.

  A run is an action on the world: the mission table, a counter that tells the readings of the environment
  apart, and the log of the adapter calls made.  An action goes on with a value, ends the run with its
  result, or throws.  The adapters, the clock, the abort signals, the collector, test executor and verifier,
  and what other processes do to the table while an adapter is awaited are the record \<open>auto_env\<close>.
\<close>

section \<open>Data\<close>

record planned_assignment =
  pl_id :: string
  pl_instruction :: string
  pl_actions :: "automation_action list"

text \<open>Artifacts are objects read back from storage, so they stay untyped.\<close>

record adapter_result =
  re_ok :: bool
  re_summary :: string
  re_evidence :: "string list"
  re_artifacts :: "json list option"
  re_cost_usd :: "jsnum option"
  re_effect_diagnostics :: json

record verdict_result =
  vr_result :: adapter_result
  vr_verdict_pass :: bool

record verification_evidence =
  ve_claims :: "string list"
  ve_artifacts :: "json list"

text \<open>An \<open>AutomationAdapterError\<close> with its message, cost and diagnostic, or any other exception.\<close>

datatype adapter_exn = AdapterError string "jsnum option" json | OtherError

record automation_run =
  rn_run_id :: string
  rn_mission_id :: string
  rn_status :: automation_run_status
  rn_cost_usd :: "jsnum option"
  rn_completed_assignments :: nat
  rn_total_assignments :: nat
  rn_reason :: "string option"

datatype adapter_call =
    PlanCall "planned_assignment list option"
  | ExecuteCall planned_assignment jsnum "adapter_exn + adapter_result"
  | VerifyCall verification_evidence jsnum "adapter_exn + verdict_result"
  | AcceptCall verdict_result verification_evidence "adapter_exn + verdict_result"

record artifact_collector =
  ac_collect :: "nat \<Rightarrow> string \<Rightarrow> string \<Rightarrow> string \<Rightarrow> json list option"
  ac_verify :: "nat \<Rightarrow> json list \<Rightarrow> json list option"

record check_outcome =
  ck_passed :: bool
  ck_claims :: "string list"
  ck_artifacts :: "json list"

text \<open>A collector or test executor throws with \<open>None\<close>, the verifier with the message of its error.\<close>

record auto_env =
  en_now :: "nat \<Rightarrow> int"
  en_stamp :: "nat \<Rightarrow> string"
  en_timed_out :: "nat \<Rightarrow> bool"
  en_aborted :: "nat \<Rightarrow> bool"
  en_others :: "nat \<Rightarrow> mission_db \<Rightarrow> mission_db"
  en_plan :: "nat \<Rightarrow> string \<Rightarrow> planned_assignment list option"
  en_execute :: "nat \<Rightarrow> planned_assignment \<Rightarrow> jsnum \<Rightarrow> adapter_exn + adapter_result"
  en_verify :: "nat \<Rightarrow> verification_evidence \<Rightarrow> jsnum \<Rightarrow> adapter_exn + verdict_result"
  en_accept :: "nat \<Rightarrow> verdict_result \<Rightarrow> verification_evidence \<Rightarrow> adapter_exn + verdict_result"
  en_collector :: "artifact_collector option"
  en_tests :: "(nat \<Rightarrow> string \<Rightarrow> string \<Rightarrow> string \<Rightarrow> check_outcome option) option"
  en_verifier :: "(nat \<Rightarrow> string \<Rightarrow> string \<Rightarrow> bool \<Rightarrow> string + check_outcome) option"

record 'k auto_ctx =
  cx_L :: "'k lib"
  cx_B :: blib
  cx_cl :: "string \<Rightarrow> string"
  cx_env :: auto_env
  cx_objective :: string
  cx_workspaceRoot :: string
  cx_branch :: string
  cx_mandate :: execution_mandate
  cx_key :: string

record auto_world =
  aw_tick :: nat
  aw_db :: mission_db
  aw_calls :: "adapter_call list"

section \<open>Actions\<close>

datatype 'a flow = Go 'a | Done automation_run | Throws string

type_synonym 'a act = "auto_world \<Rightarrow> 'a flow \<times> auto_world"

definition seq :: "'a act \<Rightarrow> ('a \<Rightarrow> 'b act) \<Rightarrow> 'b act" where
  "seq m f w = (case m w of (Go a, w') \<Rightarrow> f a w' | (Done r, w') \<Rightarrow> (Done r, w') | (Throws e, w') \<Rightarrow> (Throws e, w'))"

definition go :: "'a \<Rightarrow> 'a act" where "go a w = (Go a, w)"
definition done_with :: "automation_run \<Rightarrow> 'a act" where "done_with r w = (Done r, w)"
definition throws :: "string \<Rightarrow> 'a act" where "throws e w = (Throws e, w)"

definition read_db :: "(mission_db \<Rightarrow> 'a) \<Rightarrow> 'a act" where
  "read_db f w = (Go (f (aw_db w)), w)"

text \<open>A reading of the environment, which differs from one to the next.\<close>

definition ask :: "(nat \<Rightarrow> 'a) \<Rightarrow> 'a act" where
  "ask f w = (Go (f (aw_tick w)), w\<lparr>aw_tick := aw_tick w + 1\<rparr>)"

text \<open>An awaited adapter call: it is logged, and others may change the table meanwhile.\<close>

definition await_call :: "auto_env \<Rightarrow> (nat \<Rightarrow> 'a) \<Rightarrow> ('a \<Rightarrow> adapter_call) \<Rightarrow> 'a act" where
  "await_call env f entry w =
     (let a = f (aw_tick w)
      in (Go a, w\<lparr>aw_tick := aw_tick w + 1, aw_db := en_others env (aw_tick w) (aw_db w), aw_calls := aw_calls w @ [entry a]\<rparr>))"

definition await_other :: "auto_env \<Rightarrow> (nat \<Rightarrow> 'a) \<Rightarrow> 'a act" where
  "await_other env f w =
     (Go (f (aw_tick w)), w\<lparr>aw_tick := aw_tick w + 1, aw_db := en_others env (aw_tick w) (aw_db w)\<rparr>)"

section \<open>Small parts\<close>

definition addCost :: "jsnum option \<Rightarrow> jsnum option \<Rightarrow> jsnum option" where
  "addCost current additional =
     (case (current, additional) of
        (Some c, Some a) \<Rightarrow> if \<not> js_finite a \<or> js_less a (js_int 0) then None else Some (js_add c a)
      | _ \<Rightarrow> None)"

definition executionRunId :: "'k lib \<Rightarrow> string \<Rightarrow> string" where
  "executionRunId L mandateId = ''run_'' @ take 20 (lib_sha256 L mandateId)"

text \<open>A stored cost: a number that is finite, as \<open>typeof === 'number' && Number.isFinite\<close> tests.\<close>

definition stored_number :: "blib \<Rightarrow> json \<Rightarrow> jsnum option" where
  "stored_number B v = Option.bind (json_number B v) (\<lambda>x. if js_finite x then Some x else None)"

definition run_cost :: "blib \<Rightarrow> string \<Rightarrow> fabric_projection \<Rightarrow> jsnum option" where
  "run_cost B runId f = stored_number B (prop_of (prior_entries (pj_runs f) runId) ''cost_usd'')"

definition completedExecutionRun :: "'k lib \<Rightarrow> blib \<Rightarrow> execution_mandate \<Rightarrow> mission_db \<Rightarrow> automation_run option" where
  "completedExecutionRun L B m db =
     (case getMissionFabric (md_mission_id m) db of
        None \<Rightarrow> None
      | Some f \<Rightarrow>
          let runId = executionRunId L (md_mandate_id m);
              assured = list_ex (\<lambda>e. prop_of (fe_payload e) ''run_id'' = JStr runId
                  \<and> prop_of (fe_payload e) ''id'' = JStr (runId @ ''-victoria'')
                  \<and> prop_of (fe_payload e) ''verdict'' = JStr ''pass'') (pj_checkpoints f);
              tasks = filter (\<lambda>(_, t). prop_of t ''run_id'' = JStr runId) (pj_tasks f)
          in if \<not> assured then None
             else (case run_cost B runId f of
                 None \<Rightarrow> None
               | Some cost \<Rightarrow>
                   if js_less cost (js_int 0) \<or> js_less (md_max_cost_usd m) cost then None
                   else Some \<lparr>rn_run_id = runId, rn_mission_id = md_mission_id m, rn_status = RsComplete, rn_cost_usd = Some cost,
                              rn_completed_assignments = length tasks, rn_total_assignments = length tasks, rn_reason = None\<rparr>))"

definition AUTOMATION_ACTIONS :: "automation_action list" where
  "AUTOMATION_ACTIONS = [ReadRepo, CreateBranch, EditWorktree, RunTests, CommitLocal, PrepareDraftPr, ExternalSend, SecretsRead,
     MainWrite, Push, Merge, Release, Deploy, FinancialAction, DestructiveAction, ActOpsObserve, ActOpsActuate]"

definition action_of :: "json \<Rightarrow> automation_action option" where
  "action_of v = find (\<lambda>a. v = JStr (action_name a)) AUTOMATION_ACTIONS"

fun actions_of :: "json list \<Rightarrow> automation_action list option" where
  "actions_of [] = Some []"
| "actions_of (v # vs) = (case (action_of v, actions_of vs) of (Some a, Some as) \<Rightarrow> Some (a # as) | _ \<Rightarrow> None)"

fun plan_items :: "string list \<Rightarrow> json list \<Rightarrow> planned_assignment list option" where
  "plan_items ids [] = Some []"
| "plan_items ids (v # vs) =
     (case (member_of v ''id'', member_of v ''instruction'', member_of v ''actions'') of
        (JStr i, JStr instr, JArr as) \<Rightarrow>
          if i \<in> set ids then None
          else (case (actions_of as, plan_items (i # ids) vs) of
              (Some acts, Some rest) \<Rightarrow> Some (\<lparr>pl_id = i, pl_instruction = instr, pl_actions = acts\<rparr> # rest)
            | _ \<Rightarrow> None)
      | _ \<Rightarrow> None)"

definition storedPlan :: "json list \<Rightarrow> planned_assignment list option" where
  "storedPlan items = (if length items < 1 \<or> length items > 25 then None else plan_items [] items)"

fun is_text :: "json \<Rightarrow> bool" where
  "is_text (JStr _) = True"
| "is_text _ = False"

definition storedArtifacts :: "json \<Rightarrow> json list" where
  "storedArtifacts v =
     (case v of JArr items \<Rightarrow> filter (\<lambda>i. is_text (member_of i ''sha256'') \<and> is_text (member_of i ''reference'')) items | _ \<Rightarrow> [])"

fun status_name :: "automation_run_status \<Rightarrow> string" where
  "status_name RsQueued = ''queued''" | "status_name RsPlanned = ''planned''" | "status_name RsExecuting = ''executing''"
| "status_name RsVerifying = ''verifying''" | "status_name RsAssuring = ''assuring''" | "status_name RsComplete = ''complete''"
| "status_name RsBlocked = ''blocked''" | "status_name RsFailed = ''failed''"

text \<open>\<open>Number(x.toFixed(9))\<close> of a cost.\<close>

fun nine_decimals :: "jsnum \<Rightarrow> jsnum" where
  "nine_decimals (Num q) = (if q < 10 ^ 21 then Num (of_int \<lfloor>q * 10 ^ 9 + 1 / 2\<rfloor> / 10 ^ 9) else Num q)"
| "nine_decimals x = x"

definition assignment_json :: "planned_assignment \<Rightarrow> json" where
  "assignment_json a = JObj [(''id'', JStr (pl_id a)), (''instruction'', JStr (pl_instruction a)),
     (''actions'', JArr (map (\<lambda>x. JStr (action_name x)) (pl_actions a)))]"

datatype fabric_kind = KindLanggraph | KindOpenhands | KindCodex | KindAgent

fun fabric_actor_of :: "fabric_kind \<Rightarrow> fabric_actor" where
  "fabric_actor_of KindLanggraph = \<lparr>ac_kind = ''langgraph'', ac_id = ''langgraph''\<rparr>"
| "fabric_actor_of KindOpenhands = \<lparr>ac_kind = ''openhands'', ac_id = ''openhands''\<rparr>"
| "fabric_actor_of KindCodex = \<lparr>ac_kind = ''codex'', ac_id = ''codex''\<rparr>"
| "fabric_actor_of KindAgent = \<lparr>ac_kind = ''agent'', ac_id = ''victoria''\<rparr>"

text \<open>The texts of exceptions of the store, which end the run unhandled.\<close>

fun fabric_error_name :: "fabric_error \<Rightarrow> string" where
  "fabric_error_name (FabricValidation m) = m"
| "fabric_error_name (FabricIntegrity _) = ''mission_fabric_integrity''"
| "fabric_error_name (FabricConflict _ _) = ''mission_fabric_conflict''"

definition run_id_of :: "'k auto_ctx \<Rightarrow> string" where
  "run_id_of C = executionRunId (cx_L C) (md_mandate_id (cx_mandate C))"

definition fabric_append :: "'k auto_ctx \<Rightarrow> string \<Rightarrow> (string \<times> json) list \<Rightarrow> fabric_kind \<Rightarrow> unit act" where
  "fabric_append C ty payload actor w =
     (let mission = md_mission_id (cx_mandate C); w' = w\<lparr>aw_tick := aw_tick w + 1\<rparr>
      in case getMissionFabric mission (aw_db w) of
           None \<Rightarrow> (Throws ''TypeError'', w')
         | Some f \<Rightarrow>
             (case appendMissionFabricEvent (lib_sha256 (cx_L C)) (cx_cl C) (en_stamp (cx_env C) (aw_tick w)) mission (pj_version f)
                     (fabric_actor_of actor) ty payload (aw_db w) of
                Inl e \<Rightarrow> (Throws (fabric_error_name e), w')
              | Inr (_, db) \<Rightarrow> (Go (), w'\<lparr>aw_db := db\<rparr>)))"

definition record_failure :: "'k auto_ctx \<Rightarrow> string \<Rightarrow> (string \<times> json) list \<Rightarrow> fabric_kind \<Rightarrow> unit act" where
  "record_failure C part members =
     fabric_append C ''failure.recorded'' ([(''id'', JStr (run_id_of C @ part)), (''run_id'', JStr (run_id_of C))] @ members)"

definition emitStatus :: "'k auto_ctx \<Rightarrow> automation_run \<Rightarrow> string \<Rightarrow> fabric_kind \<Rightarrow> bool \<Rightarrow> unit act" where
  "emitStatus C run stage actor pending =
     seq (ask (en_now (cx_env C))) (\<lambda>now.
     fabric_append C ''run.status_changed''
       [(''id'', JStr (run_id_of C)), (''run_id'', JStr (run_id_of C)), (''mission_id'', JStr (md_mission_id (cx_mandate C))),
        (''stage'', JStr stage), (''status'', JStr (status_name (rn_status run))),
        (''completed_assignments'', int_json (int (rn_completed_assignments run))),
        (''total_assignments'', int_json (int (rn_total_assignments run))),
        (''cost_usd'', case rn_cost_usd run of None \<Rightarrow> JNull | Some c \<Rightarrow> num_json (cx_L C) (nine_decimals c)),
        (''cost_basis'', JStr (if rn_cost_usd run \<noteq> None then ''runner_subtotal''
           else if pending then ''unknown_pending_dispatch'' else ''unknown_reconciliation_required'')),
        (''reason_code'', case rn_reason run of None \<Rightarrow> JNull | Some r \<Rightarrow> JStr r),
        (''updated_at'', JStr (lib_iso (cx_L C) now))] actor)"

definition terminal :: "'k auto_ctx \<Rightarrow> automation_run \<Rightarrow> automation_run_status \<Rightarrow> string option \<Rightarrow> string \<Rightarrow> fabric_kind \<Rightarrow> 'a act" where
  "terminal C run status reason stage actor =
     (let result = run\<lparr>rn_status := status, rn_reason := reason\<rparr>
      in seq (emitStatus C result stage actor False) (\<lambda>_. done_with result))"

definition fail_with :: "'k auto_ctx \<Rightarrow> automation_run \<Rightarrow> string \<Rightarrow> string \<Rightarrow> fabric_kind \<Rightarrow> 'a act" where
  "fail_with C run reason stage actor = terminal C run RsFailed (Some reason) stage actor"

definition cost_unknown :: "'k auto_ctx \<Rightarrow> automation_run \<Rightarrow> fabric_kind \<Rightarrow> 'a act" where
  "cost_unknown C run actor = terminal C run RsBlocked (Some ''cost_accounting_unknown'') ''budget'' actor"

definition expired :: "'k auto_ctx \<Rightarrow> jsnum \<Rightarrow> bool act" where
  "expired C deadline =
     seq (ask (en_now (cx_env C))) (\<lambda>now.
       if js_le deadline (js_int now) then go True else ask (en_timed_out (cx_env C)))"

definition cancelled :: "'k auto_ctx \<Rightarrow> bool act" where
  "cancelled C = ask (en_aborted (cx_env C))"

text \<open>The reason of a failed step: cancellation, the deadline, or the step's own.\<close>

definition step_reason :: "'k auto_ctx \<Rightarrow> jsnum \<Rightarrow> string \<Rightarrow> string act" where
  "step_reason C deadline own =
     seq (cancelled C) (\<lambda>c. if c then go ''cancelled''
       else seq (expired C deadline) (\<lambda>x. go (if x then ''runtime_limit_exceeded'' else own)))"

definition guard :: "bool \<Rightarrow> unit act \<Rightarrow> unit act" where
  "guard b stop = (if b then stop else go ())"

fun exn_cost :: "adapter_exn \<Rightarrow> jsnum option" where
  "exn_cost (AdapterError _ c _) = c"
| "exn_cost OtherError = None"

text \<open>\<open>/^(?:openhands|adapter|capability|nonce)_[a-z0-9_]{1,80}$/\<close>\<close>

definition safe_code :: "string \<Rightarrow> bool" where
  "safe_code s \<longleftrightarrow> list_ex (\<lambda>p. prefix p s \<and> (let r = drop (length p) s in
       1 \<le> length r \<and> length r \<le> 80 \<and> list_all (\<lambda>c. is_lower c \<or> is_digit c \<or> c = CHR ''_'') r))
     [''openhands_'', ''adapter_'', ''capability_'', ''nonce_'']"

fun worker_reason :: "adapter_exn \<Rightarrow> string" where
  "worker_reason (AdapterError msg _ _) = (if safe_code msg then msg else ''openhands_failed'')"
| "worker_reason OtherError = ''openhands_failed''"

fun codex_reason :: "failure_category \<Rightarrow> string" where
  "codex_reason Rejection = ''codex_verification_rejected''" | "codex_reason Service = ''codex_service_failed''"
| "codex_reason HttpFailure = ''codex_http_failed''" | "codex_reason Transport = ''codex_transport_failed''"
| "codex_reason Protocol = ''codex_protocol_failed''" | "codex_reason UnknownFailure = ''codex_adapter_failed''"

fun exn_error :: "adapter_exn \<Rightarrow> (string \<times> json) option" where
  "exn_error (AdapterError msg _ d) = Some (msg, d)"
| "exn_error OtherError = None"

text \<open>\<open>/^[a-z][a-z0-9_]{2,63}$/\<close>\<close>

definition verifier_code :: "string \<Rightarrow> string" where
  "verifier_code s =
     (if 3 \<le> length s \<and> length s \<le> 64 \<and> is_lower (hd s) \<and> list_all (\<lambda>c. is_lower c \<or> is_digit c \<or> c = CHR ''_'') s
      then s else ''unclassified'')"

definition hex_any :: "char \<Rightarrow> bool" where
  "hex_any c \<longleftrightarrow> c \<in> set ''0123456789abcdefABCDEF''"

definition conversation_ref :: "string \<Rightarrow> bool" where
  "conversation_ref s \<longleftrightarrow>
     length s = 49 \<and> prefix ''conversation:'' s
     \<and> (let u = drop 13 s in list_all (\<lambda>i. if i \<in> {8, 13, 18, 23} then u ! i = CHR ''-'' else hex_any (u ! i)) [0..<36])"

fun for_each :: "'a list \<Rightarrow> ('a \<Rightarrow> unit act) \<Rightarrow> unit act" where
  "for_each [] f = go ()"
| "for_each (x # xs) f = seq (f x) (\<lambda>_. for_each xs f)"

section \<open>Planning\<close>

definition fabric_now :: "'k auto_ctx \<Rightarrow> fabric_projection act" where
  "fabric_now C = seq (read_db (getMissionFabric (md_mission_id (cx_mandate C))))
     (\<lambda>f. case f of None \<Rightarrow> throws ''TypeError'' | Some p \<Rightarrow> go p)"

definition payload_is :: "fabric_event \<Rightarrow> string \<Rightarrow> string \<Rightarrow> bool" where
  "payload_is e k v \<longleftrightarrow> prop_of (fe_payload e) k = JStr v"

text \<open>The numbers of a stored text are finite.\<close>

definition index_key :: "blib \<Rightarrow> fabric_event \<Rightarrow> rat" where
  "index_key B e = (case json_number B (prop_of (fe_payload e) ''index'') of Some (Num q) \<Rightarrow> q | _ \<Rightarrow> 0)"

definition planned_items :: "blib \<Rightarrow> string \<Rightarrow> fabric_projection \<Rightarrow> json list" where
  "planned_items B runId f =
     (if list_ex (\<lambda>e. payload_is e ''id'' (runId @ ''-plan'')) (pj_checkpoints f)
      then map (\<lambda>e. prop_of (fe_payload e) ''assignment'')
        (sort_key (index_key B) (filter (\<lambda>e. payload_is e ''plan_id'' (runId @ ''-plan'')
            \<and> json_number B (prop_of (fe_payload e) ''index'') \<noteq> None) (pj_checkpoints f)))
      else [])"

definition record_plan :: "'k auto_ctx \<Rightarrow> planned_assignment list \<Rightarrow> unit act" where
  "record_plan C assignments =
     (let runId = run_id_of C
      in seq (for_each (zip [0..<length assignments] assignments) (\<lambda>(i, a). fabric_append C ''checkpoint.created''
           [(''id'', JStr (runId @ ''-plan-'' @ nat_text i)), (''run_id'', JStr runId), (''plan_id'', JStr (runId @ ''-plan'')),
            (''index'', int_json (int i)), (''assignment'', assignment_json a)] KindLanggraph)) (\<lambda>_.
         fabric_append C ''checkpoint.created''
           [(''id'', JStr (runId @ ''-plan'')), (''run_id'', JStr runId), (''assignment_count'', int_json (int (length assignments))),
            (''status'', JStr ''complete'')] KindLanggraph))"

definition planning :: "'k auto_ctx \<Rightarrow> jsnum \<Rightarrow> automation_run \<Rightarrow> nat \<Rightarrow> planned_assignment list act" where
  "planning C deadline base priorFailures =
     seq (fabric_now C) (\<lambda>f.
     case storedPlan (planned_items (cx_B C) (run_id_of C) f) of
       Some assignments \<Rightarrow> go assignments
     | None \<Rightarrow>
         seq (await_call (cx_env C) (\<lambda>t. en_plan (cx_env C) t (cx_objective C)) PlanCall) (\<lambda>answer.
         case answer of
           None \<Rightarrow> seq (step_reason C deadline ''langgraph_failed'') (\<lambda>reason.
             seq (record_failure C (''-planning-failed-'' @ nat_text (priorFailures + 1)) [(''reason'', JStr reason)] KindLanggraph) (\<lambda>_.
             fail_with C base reason ''planning'' KindLanggraph))
         | Some assignments \<Rightarrow> seq (record_plan C assignments) (\<lambda>_. go assignments)))"

section \<open>One assignment\<close>

record run_state =
  rs_run :: automation_run
  rs_claims :: "string list"
  rs_artifacts :: "json list"

definition texts_in :: "json \<Rightarrow> string list" where
  "texts_in v = (case v of JArr vs \<Rightarrow> List.map_filter (\<lambda>i. case i of JStr s \<Rightarrow> Some s | _ \<Rightarrow> None) vs | _ \<Rightarrow> [])"

text \<open>A failure of the collector here is not caught.\<close>

definition take_over :: "'k auto_ctx \<Rightarrow> run_state \<Rightarrow> (string \<times> json) list \<Rightarrow> run_state act" where
  "take_over C st task =
     (let stored = storedArtifacts (prop_of task ''artifacts'')
      in seq (case en_collector (cx_env C) of
           None \<Rightarrow> go stored
         | Some co \<Rightarrow> seq (ask (\<lambda>t. ac_verify co t stored))
             (\<lambda>r. case r of None \<Rightarrow> throws ''artifact_verification'' | Some as \<Rightarrow> go as)) (\<lambda>artifacts.
         go (st\<lparr>rs_run := (rs_run st)\<lparr>rn_completed_assignments := rn_completed_assignments (rs_run st) + 1\<rparr>,
                rs_claims := rs_claims st @ texts_in (prop_of task ''evidence''), rs_artifacts := rs_artifacts st @ artifacts\<rparr>)))"

text \<open>What is checked before the worker may start; the answer is the cost accounted so far.\<close>

definition before_worker :: "'k auto_ctx \<Rightarrow> jsnum \<Rightarrow> automation_run \<Rightarrow> planned_assignment \<Rightarrow> jsnum act" where
  "before_worker C deadline run a =
     seq (cancelled C) (\<lambda>c.
     if c then fail_with C run ''cancelled'' ''openhands'' KindOpenhands
     else seq (expired C deadline) (\<lambda>x.
     if x then seq (record_failure C ''-deadline'' [(''reason'', JStr ''runtime_limit_exceeded'')] KindLanggraph) (\<lambda>_.
       fail_with C run ''runtime_limit_exceeded'' ''openhands'' KindOpenhands)
     else case rn_cost_usd run of
       None \<Rightarrow> cost_unknown C run KindLanggraph
     | Some cost \<Rightarrow>
         if js_le (md_max_cost_usd (cx_mandate C)) cost
           then seq (record_failure C (''-'' @ pl_id a @ ''-budget-empty'')
                  [(''reason'', JStr ''cost_budget_exhausted_before_execution'')] KindLanggraph) (\<lambda>_.
             fail_with C run ''cost_budget_exhausted_before_execution'' ''budget'' KindLanggraph)
         else case find (\<lambda>x. \<not> actionPermitted (cx_mandate C) x) (pl_actions a) of
           Some denied \<Rightarrow> seq (record_failure C (''-'' @ pl_id a @ ''-denied'')
                  [(''action'', JStr (action_name denied)), (''reason'', JStr ''outside_mandate'')] KindLanggraph) (\<lambda>_.
             terminal C run RsBlocked (Some (''action_outside_mandate:'' @ action_name denied)) ''policy'' KindLanggraph)
         | None \<Rightarrow> go cost))"

definition first_occurrences :: "'a list \<Rightarrow> 'a list" where
  "first_occurrences xs = rev (remdups (rev xs))"

definition call_worker :: "'k auto_ctx \<Rightarrow> jsnum \<Rightarrow> automation_run \<Rightarrow> planned_assignment \<Rightarrow> jsnum \<Rightarrow> (automation_run \<times> adapter_result) act" where
  "call_worker C deadline run a cost =
     seq (fabric_append C ''task.upserted'' [(''id'', JStr (pl_id a)), (''run_id'', JStr (run_id_of C)), (''assignee'', JStr ''openhands''),
            (''status'', JStr ''executing''), (''actions'', JArr (map (\<lambda>x. JStr (action_name x)) (pl_actions a)))] KindLanggraph) (\<lambda>_.
     seq (emitStatus C (run\<lparr>rn_cost_usd := None\<rparr>) ''openhands'' KindOpenhands True) (\<lambda>_.
     seq (await_call (cx_env C) (\<lambda>t. en_execute (cx_env C) t a cost) (ExecuteCall a cost)) (\<lambda>answer.
     case answer of
       Inl e \<Rightarrow>
         let run' = run\<lparr>rn_cost_usd := addCost (rn_cost_usd run) (exn_cost e)\<rparr>
         in seq (step_reason C deadline (worker_reason e)) (\<lambda>reason.
            seq (record_failure C (''-'' @ pl_id a @ ''-failed'') [(''reason'', JStr reason)] KindOpenhands) (\<lambda>_.
            fail_with C run' reason ''openhands'' KindOpenhands))
     | Inr result \<Rightarrow> go (run\<lparr>rn_cost_usd := addCost (rn_cost_usd run) (re_cost_usd result)\<rparr>, result))))"

definition after_worker :: "'k auto_ctx \<Rightarrow> automation_run \<Rightarrow> planned_assignment \<Rightarrow> adapter_result \<Rightarrow> unit act" where
  "after_worker C run a result =
     seq (for_each (first_occurrences (filter conversation_ref (re_evidence result))) (\<lambda>ref. fabric_append C ''checkpoint.created''
       [(''id'', JStr (run_id_of C @ ''-conversation-'' @ drop 13 ref)), (''run_id'', JStr (run_id_of C)),
        (''assignment_id'', JStr (pl_id a)), (''kind'', JStr ''openhands_conversation''), (''reference'', JStr ref)] KindOpenhands)) (\<lambda>_.
     seq (if re_ok result then go ()
       else record_failure C (''-'' @ pl_id a @ ''-failed'') ((''reason'', JStr (re_summary result))
         # opt_entry ''effect_diagnostics'' (map_option diagnostics_json
             (readResultEffectDiagnostics (cx_B C) (re_ok result) (re_effect_diagnostics result)))) KindOpenhands) (\<lambda>_.
     case rn_cost_usd run of
       None \<Rightarrow> cost_unknown C run KindOpenhands
     | Some cost \<Rightarrow>
         if \<not> re_ok result then fail_with C run (re_summary result) ''openhands'' KindOpenhands
         else if js_less (md_max_cost_usd (cx_mandate C)) cost
           then seq (record_failure C (''-'' @ pl_id a @ ''-failed'') [(''reason'', JStr ''cost_limit_exceeded'')] KindOpenhands) (\<lambda>_.
             fail_with C run ''cost_limit_exceeded'' ''openhands'' KindOpenhands)
         else go ()))"

definition tests_failed :: "'k auto_ctx \<Rightarrow> automation_run \<Rightarrow> planned_assignment \<Rightarrow> string \<Rightarrow> string \<Rightarrow> 'a act" where
  "tests_failed C run a part reason =
     seq (record_failure C (''-'' @ pl_id a @ part) [(''reason'', JStr reason)] KindOpenhands) (\<lambda>_.
     fail_with C run reason ''tests'' KindOpenhands)"

text \<open>Evidence of the assignment: of the isolated verifier, or of the collector and the test executor.\<close>

definition isolated_evidence ::
  "'k auto_ctx \<Rightarrow> jsnum \<Rightarrow> automation_run \<Rightarrow> planned_assignment \<Rightarrow> (nat \<Rightarrow> string \<Rightarrow> string \<Rightarrow> bool \<Rightarrow> string + check_outcome)
     \<Rightarrow> (string list \<times> json list) act" where
  "isolated_evidence C deadline run a verify =
     seq (await_other (cx_env C) (\<lambda>t. verify t (run_id_of C) (pl_id a) (RunTests \<in> set (pl_actions a)))) (\<lambda>answer.
     case answer of
       Inl msg \<Rightarrow>
         seq (step_reason C deadline ''isolated_verification_failed'') (\<lambda>reason.
         seq (record_failure C (''-'' @ pl_id a @ ''-isolated-verification-failed'')
                [(''reason'', JStr reason), (''verifier_code'', JStr (verifier_code msg))] KindOpenhands) (\<lambda>_.
         fail_with C run reason ''evidence'' KindOpenhands))
     | Inr out \<Rightarrow> if ck_passed out then go (ck_claims out, ck_artifacts out)
                 else tests_failed C run a ''-tests-nonzero'' ''tests_failed'')"

definition local_evidence ::
  "'k auto_ctx \<Rightarrow> jsnum \<Rightarrow> automation_run \<Rightarrow> planned_assignment \<Rightarrow> adapter_result \<Rightarrow> (string list \<times> json list) act" where
  "local_evidence C deadline run a result =
     seq (case en_collector (cx_env C) of
         None \<Rightarrow> go (nullish (re_artifacts result) [])
       | Some co \<Rightarrow> seq (ask (\<lambda>t. ac_collect co t (cx_workspaceRoot C) (run_id_of C) (pl_id a))) (\<lambda>r. case r of
           Some as \<Rightarrow> go as
         | None \<Rightarrow> seq (record_failure C (''-'' @ pl_id a @ ''-evidence-failed'') [(''reason'', JStr ''artifact_collection_failed'')]
               KindOpenhands) (\<lambda>_. fail_with C run ''artifact_collection_failed'' ''evidence'' KindOpenhands))) (\<lambda>artifacts.
     if RunTests \<notin> set (pl_actions a) then go ([], artifacts)
     else case en_tests (cx_env C) of
       None \<Rightarrow> tests_failed C run a ''-tests-unavailable'' ''test_executor_not_configured''
     | Some tests \<Rightarrow> seq (ask (\<lambda>t. tests t (cx_workspaceRoot C) (run_id_of C) (pl_id a))) (\<lambda>r. case r of
         None \<Rightarrow> seq (step_reason C deadline ''test_execution_failed'') (\<lambda>reason. tests_failed C run a ''-tests-failed'' reason)
       | Some out \<Rightarrow> if ck_passed out then go (ck_claims out, artifacts @ ck_artifacts out)
                    else tests_failed C run a ''-tests-nonzero'' ''tests_failed''))"

fun text_of :: "json \<Rightarrow> string" where
  "text_of (JStr s) = s"
| "text_of _ = ''undefined''"

definition record_completion :: "'k auto_ctx \<Rightarrow> automation_run \<Rightarrow> planned_assignment \<Rightarrow> adapter_result \<Rightarrow> json list \<Rightarrow> unit act" where
  "record_completion C run a result artifacts =
     seq (fabric_append C ''task.status_changed'' [(''id'', JStr (pl_id a)), (''run_id'', JStr (run_id_of C)), (''status'', JStr ''complete''),
            (''evidence'', JArr (map JStr (re_evidence result))), (''artifacts'', JArr artifacts)] KindOpenhands) (\<lambda>_.
     seq (for_each artifacts (\<lambda>x. fabric_append C ''evidence.added''
       [(''id'', JStr (run_id_of C @ ''-'' @ pl_id a @ ''-'' @ text_of (member_of x ''kind''))), (''run_id'', JStr (run_id_of C)),
        (''producer'', JStr ''openhands''), (''kind'', member_of x ''kind''), (''reference'', member_of x ''reference''),
        (''digest'', member_of x ''sha256''), (''bytes'', member_of x ''bytes'')] KindOpenhands)) (\<lambda>_.
     emitStatus C run ''openhands'' KindOpenhands False))"

definition run_assignment :: "'k auto_ctx \<Rightarrow> jsnum \<Rightarrow> planned_assignment \<Rightarrow> run_state \<Rightarrow> run_state act" where
  "run_assignment C deadline a st =
     seq (fabric_now C) (\<lambda>f.
     let task = map_of (pj_tasks f) (pl_id a)
     in if (case task of None \<Rightarrow> False | Some t \<Rightarrow> prop_of t ''run_id'' = JStr (run_id_of C) \<and> prop_of t ''status'' = JStr ''complete'')
          then take_over C st (the task)
        else
          seq (before_worker C deadline (rs_run st) a) (\<lambda>cost.
          seq (call_worker C deadline ((rs_run st)\<lparr>rn_status := RsExecuting\<rparr>) a cost) (\<lambda>(run, result).
          seq (after_worker C run a result) (\<lambda>_.
          seq (case en_verifier (cx_env C) of
              Some verify \<Rightarrow> isolated_evidence C deadline run a verify
            | None \<Rightarrow> local_evidence C deadline run a result) (\<lambda>(claims, artifacts).
          let run' = run\<lparr>rn_completed_assignments := rn_completed_assignments run + 1\<rparr>
          in seq (record_completion C run' a result artifacts) (\<lambda>_.
             go \<lparr>rs_run = run', rs_claims = rs_claims st @ claims @ re_evidence result,
                 rs_artifacts = rs_artifacts st @ artifacts\<rparr>))))))"

fun run_assignments :: "'k auto_ctx \<Rightarrow> jsnum \<Rightarrow> planned_assignment list \<Rightarrow> run_state \<Rightarrow> run_state act" where
  "run_assignments C deadline [] st = go st"
| "run_assignments C deadline (a # as) st = seq (run_assignment C deadline a st) (run_assignments C deadline as)"

section \<open>Verification and assurance\<close>

definition verify_run :: "'k auto_ctx \<Rightarrow> jsnum \<Rightarrow> run_state \<Rightarrow> (automation_run \<times> verdict_result \<times> verification_evidence) act" where
  "verify_run C deadline st =
     (let run = (rs_run st)\<lparr>rn_status := RsVerifying\<rparr>
      in seq (emitStatus C run ''codex'' KindCodex False) (\<lambda>_.
         seq (cancelled C) (\<lambda>c. if c then fail_with C run ''cancelled'' ''codex'' KindCodex
         else seq (expired C deadline) (\<lambda>x. if x then fail_with C run ''runtime_limit_exceeded'' ''codex'' KindCodex
         else case rn_cost_usd run of
           None \<Rightarrow> cost_unknown C run KindCodex
         | Some cost \<Rightarrow>
             if js_le (md_max_cost_usd (cx_mandate C)) cost then fail_with C run ''cost_budget_exhausted_before_verification'' ''budget'' KindCodex
             else
             seq (case en_collector (cx_env C) of
                 None \<Rightarrow> go (rs_artifacts st)
               | Some co \<Rightarrow> seq (ask (\<lambda>t. ac_verify co t (rs_artifacts st))) (\<lambda>r. case r of
                   Some as \<Rightarrow> go as
                 | None \<Rightarrow> seq (record_failure C ''-artifact-integrity-failed'' [(''reason'', JStr ''artifact_integrity_failed'')] KindCodex)
                     (\<lambda>_. fail_with C run ''artifact_integrity_failed'' ''codex'' KindCodex))) (\<lambda>artifacts.
             let evidence = \<lparr>ve_claims = rs_claims st, ve_artifacts = artifacts\<rparr>
             in seq (emitStatus C (run\<lparr>rn_cost_usd := None\<rparr>) ''codex'' KindCodex True) (\<lambda>_.
                seq (await_call (cx_env C) (\<lambda>t. en_verify (cx_env C) t evidence cost) (VerifyCall evidence cost)) (\<lambda>answer.
                case answer of
                  Inl e \<Rightarrow>
                    let run' = run\<lparr>rn_cost_usd := addCost (rn_cost_usd run) (exn_cost e)\<rparr>;
                        diagnostic = describeCodexFailure (cx_B C) (exn_error e)
                    in seq (step_reason C deadline (codex_reason (fd_category diagnostic))) (\<lambda>reason.
                       seq (record_failure C ''-codex-failed'' [(''reason'', JStr reason), (''diagnostic'', failure_json diagnostic)] KindCodex)
                         (\<lambda>_. fail_with C run' reason ''codex'' KindCodex))
                | Inr codex \<Rightarrow> go (run\<lparr>rn_cost_usd := addCost (rn_cost_usd run) (re_cost_usd (vr_result codex))\<rparr>, codex, evidence))))))))"

definition verdict_entries :: "'k auto_ctx \<Rightarrow> string \<Rightarrow> verdict_result \<Rightarrow> (string \<times> json) list" where
  "verdict_entries C part v =
     [(''id'', JStr (run_id_of C @ part)), (''run_id'', JStr (run_id_of C)),
      (''verdict'', JStr (if vr_verdict_pass v then ''pass'' else ''fail'')),
      (''evidence'', JArr (map JStr (re_evidence (vr_result v))))]"

definition passed_verdict :: "verdict_result \<Rightarrow> bool" where
  "passed_verdict v \<longleftrightarrow> re_ok (vr_result v) \<and> vr_verdict_pass v"

definition judge ::
  "'k auto_ctx \<Rightarrow> automation_run \<Rightarrow> verdict_result \<Rightarrow> string \<Rightarrow> string \<Rightarrow> string \<Rightarrow> fabric_kind \<Rightarrow> unit act" where
  "judge C run verdict part reason stage actor =
     (case rn_cost_usd run of
        None \<Rightarrow> cost_unknown C run actor
      | Some cost \<Rightarrow>
          seq (fabric_append C ''checkpoint.created'' (verdict_entries C part verdict) actor) (\<lambda>_.
          if \<not> passed_verdict verdict then fail_with C run reason stage actor
          else if js_less (md_max_cost_usd (cx_mandate C)) cost then fail_with C run ''cost_limit_exceeded'' stage actor
          else go ()))"

definition assure_run ::
  "'k auto_ctx \<Rightarrow> jsnum \<Rightarrow> automation_run \<Rightarrow> verdict_result \<Rightarrow> verification_evidence \<Rightarrow> (automation_run \<times> verdict_result) act" where
  "assure_run C deadline run codex evidence =
     seq (emitStatus C run ''assurance'' KindAgent False) (\<lambda>_.
     seq (expired C deadline) (\<lambda>x. if x then fail_with C run ''runtime_limit_exceeded'' ''assurance'' KindAgent
     else seq (emitStatus C (run\<lparr>rn_cost_usd := None\<rparr>) ''assurance'' KindAgent True) (\<lambda>_.
     seq (await_call (cx_env C) (\<lambda>t. en_accept (cx_env C) t codex evidence) (AcceptCall codex evidence)) (\<lambda>answer.
     case answer of
       Inl e \<Rightarrow> seq (step_reason C deadline ''assurance_adapter_failed'') (\<lambda>reason.
         fail_with C (run\<lparr>rn_cost_usd := addCost (rn_cost_usd run) (exn_cost e)\<rparr>) reason ''assurance'' KindAgent)
     | Inr assurance \<Rightarrow>
         go (run\<lparr>rn_cost_usd := addCost (rn_cost_usd run) (re_cost_usd (vr_result assurance))\<rparr>, assurance)))))"

section \<open>The run\<close>

definition base_run :: "'k auto_ctx \<Rightarrow> automation_run" where
  "base_run C = \<lparr>rn_run_id = run_id_of C, rn_mission_id = md_mission_id (cx_mandate C), rn_status = RsBlocked, rn_cost_usd = Some (js_int 0),
     rn_completed_assignments = 0, rn_total_assignments = 0, rn_reason = None\<rparr>"

text \<open>A cost that was recorded as unknown, or not as a cost at all, stays unknown.\<close>

definition carried_cost :: "'k auto_ctx \<Rightarrow> fabric_projection \<Rightarrow> jsnum option" where
  "carried_cost C f =
     (case run_cost (cx_B C) (run_id_of C) f of
        Some c \<Rightarrow> if js_less c (js_int 0) then None else Some c
      | None \<Rightarrow> if map_of (pj_runs f) (run_id_of C) = None then Some (js_int 0) else None)"

text \<open>\<open>AbortSignal.timeout\<close> takes whole milliseconds below \<open>2 ^ 32\<close>.\<close>

definition timeout_accepted :: "jsnum \<Rightarrow> bool" where
  "timeout_accepted delay =
     (case delay of NaN \<Rightarrow> False | PosInf \<Rightarrow> False | NegInf \<Rightarrow> True
      | Num q \<Rightarrow> (let d = max 1 q in of_int \<lfloor>d\<rfloor> = d \<and> d < 2 ^ 32))"

definition vet_run :: "'k auto_ctx \<Rightarrow> jsnum \<Rightarrow> run_state \<Rightarrow> unit act" where
  "vet_run C deadline st =
     seq (verify_run C deadline st) (\<lambda>(run1, codex, evidence).
     seq (judge C run1 codex ''-codex'' ''codex_verification_failed'' ''codex'' KindCodex) (\<lambda>_.
     seq (assure_run C deadline (run1\<lparr>rn_status := RsAssuring\<rparr>) codex evidence) (\<lambda>(run2, assurance).
     seq (judge C run2 assurance ''-victoria'' ''independent_assurance_failed'' ''assurance'' KindAgent) (\<lambda>_.
     terminal C run2 RsComplete None ''complete'' KindAgent))))"

definition execute_plan :: "'k auto_ctx \<Rightarrow> jsnum \<Rightarrow> automation_run \<Rightarrow> planned_assignment list \<Rightarrow> unit act" where
  "execute_plan C deadline base assignments =
     (let run = base\<lparr>rn_status := RsPlanned, rn_total_assignments := length assignments\<rparr>
      in seq (emitStatus C run ''langgraph'' KindLanggraph False) (\<lambda>_.
         seq (run_assignments C deadline assignments \<lparr>rs_run = run, rs_claims = [], rs_artifacts = []\<rparr>) (vet_run C deadline)))"

definition executed_run :: "'k auto_ctx \<Rightarrow> jsnum \<Rightarrow> automation_run \<Rightarrow> nat \<Rightarrow> unit act" where
  "executed_run C deadline base priorFailures =
     seq (planning C deadline base priorFailures) (execute_plan C deadline base)"

definition claim_mandate :: "'k auto_ctx \<Rightarrow> fabric_projection \<Rightarrow> unit act" where
  "claim_mandate C f =
     (if list_ex (\<lambda>e. payload_is e ''mandate_id'' (md_mandate_id (cx_mandate C))) (pj_checkpoints f) then go ()
      else fabric_append C ''checkpoint.created''
        [(''id'', JStr (run_id_of C @ ''-mandate'')), (''run_id'', JStr (run_id_of C)), (''mandate_id'', JStr (md_mandate_id (cx_mandate C))),
         (''issued_by_key_id'', JStr (md_issued_by_key_id (cx_mandate C))), (''status'', JStr ''granted'')] KindLanggraph)"

definition refused :: "'k auto_ctx \<Rightarrow> string \<Rightarrow> unit act" where
  "refused C reason = done_with ((base_run C)\<lparr>rn_reason := Some reason\<rparr>)"

definition admitted_run :: "'k auto_ctx \<Rightarrow> jsnum \<Rightarrow> fabric_projection \<Rightarrow> unit act" where
  "admitted_run C deadline f =
     (let base = (base_run C)\<lparr>rn_cost_usd := carried_cost C f\<rparr>;
          priorFailures = length (filter (\<lambda>e. payload_is e ''run_id'' (run_id_of C)) (pj_failures f))
      in seq (ask (en_now (cx_env C))) (\<lambda>now.
         case validateMandate (cx_L C) (cx_mandate C)
             \<lparr>mc_objective = cx_objective C, mc_workspaceRoot = cx_workspaceRoot C, mc_branch = cx_branch C\<rparr> now of
           Some why \<Rightarrow> done_with (base\<lparr>rn_reason := Some why\<rparr>)
         | None \<Rightarrow>
             seq (read_db (completedExecutionRun (cx_L C) (cx_B C) (cx_mandate C))) (\<lambda>completed.
             case completed of
               Some r \<Rightarrow> done_with r
             | None \<Rightarrow>
                 seq (claim_mandate C f) (\<lambda>_.
                 if rn_cost_usd base = None then cost_unknown C base KindLanggraph
                 else seq (cancelled C) (\<lambda>c. if c then fail_with C base ''cancelled'' ''planning'' KindLanggraph
                 else executed_run C deadline base priorFailures)))))"

definition runExecutiveMission :: "'k auto_ctx \<Rightarrow> unit act" where
  "runExecutiveMission C =
     (let m = cx_mandate C
      in seq (ask (en_now (cx_env C))) (\<lambda>startedAt.
         let deadline = js_min (lib_dateParse (cx_L C) (md_expires_at m)) (js_add (js_int startedAt) (minutes_ms (md_max_runtime_minutes m)))
         in if \<not> timeout_accepted (js_minus deadline (js_int startedAt)) then throws ''RangeError''
            else if \<not> verifyMandateAuthority (cx_L C) (cx_B C) (cx_cl C) m (cx_key C) then refused C ''mandate_authority_invalid''
            else seq (read_db (getMissionFabric (md_mission_id m))) (\<lambda>fabric.
              case fabric of
                None \<Rightarrow> refused C ''mission_not_found''
              | Some f \<Rightarrow>
                  seq (read_db (verifyMissionFabric (lib_sha256 (cx_L C)) (cx_cl C) (md_mission_id m))) (\<lambda>check.
                  if (case check of Some c \<Rightarrow> fc_valid c | None \<Rightarrow> False) then admitted_run C deadline f
                  else refused C ''mission_fabric_integrity_failed''))))"

end
