(* ===== verification/AutoRunnerFacts.thy ===== *)
theory AutoRunnerFacts imports AutoRunner begin

text \<open>
  Facts on executive runs, by a Hoare logic for actions whose assertions speak of the log of adapter calls: the
  cost of a run is what its calls charged, no call is made outside the budget and the mandate, and a run is
  complete only when verification and assurance passed.
\<close>

named_theorems act_rules \<open>Triples of the parts of a run\<close>

section \<open>Triples\<close>

type_synonym calls = "adapter_call list"

definition triple ::
  "(calls \<Rightarrow> bool) \<Rightarrow> (automation_run \<Rightarrow> calls \<Rightarrow> bool) \<Rightarrow> (calls \<Rightarrow> bool) \<Rightarrow> 'a act \<Rightarrow> ('a \<Rightarrow> calls \<Rightarrow> bool) \<Rightarrow> bool" where
  "triple E D P m Q \<longleftrightarrow>
     (\<forall>w. P (aw_calls w) \<longrightarrow>
        (case m w of (Go a, w') \<Rightarrow> Q a (aw_calls w') | (Done r, w') \<Rightarrow> D r (aw_calls w') | (Throws e, w') \<Rightarrow> E (aw_calls w')))"

lemma triple_seq:
  assumes "triple E D P m R" "\<And>a. triple E D (R a) (f a) Q"
  shows "triple E D P (seq m f) Q"
  unfolding triple_def
proof (intro allI impI)
  fix w :: auto_world assume p: "P (aw_calls w)"
  show "case seq m f w of (Go a, w') \<Rightarrow> Q a (aw_calls w') | (Done r, w') \<Rightarrow> D r (aw_calls w')
    | (Throws e, w') \<Rightarrow> E (aw_calls w')"
  proof (cases "m w")
    case (Pair x w')
    with assms(1) p have m: "case x of Go a \<Rightarrow> R a (aw_calls w') | Done r \<Rightarrow> D r (aw_calls w') | Throws e \<Rightarrow> E (aw_calls w')"
      by (auto simp: triple_def dest: spec[of _ w])
    with assms(2) Pair show ?thesis
      by (cases x) (auto simp: triple_def seq_def)
  qed
qed

lemma triple_conseq:
  "triple E D P m Q \<Longrightarrow> (\<And>cs. P' cs \<Longrightarrow> P cs) \<Longrightarrow> (\<And>a cs. Q a cs \<Longrightarrow> Q' a cs) \<Longrightarrow> triple E D P' m Q'"
  unfolding triple_def by (force split: flow.splits prod.splits)

lemma triple_pure: "(R \<Longrightarrow> triple E D P m Q) \<Longrightarrow> triple E D (\<lambda>cs. P cs \<and> R) m Q"
  by (auto simp: triple_def)

lemma triple_go: "(\<And>cs. P cs \<Longrightarrow> Q a cs) \<Longrightarrow> triple E D P (go a) Q"
  by (simp add: triple_def go_def)

lemma triple_if: "(b \<Longrightarrow> triple E D P m Q) \<Longrightarrow> (\<not> b \<Longrightarrow> triple E D P n Q) \<Longrightarrow> triple E D P (if b then m else n) Q"
  by simp

lemma triple_option:
  "(x = None \<Longrightarrow> triple E D P m Q) \<Longrightarrow> (\<And>a. x = Some a \<Longrightarrow> triple E D P (f a) Q) \<Longrightarrow>
     triple E D P (case x of None \<Rightarrow> m | Some a \<Rightarrow> f a) Q"
  by (cases x) auto

lemma triple_done: "(\<And>cs. P cs \<Longrightarrow> D r cs) \<Longrightarrow> triple E D P (done_with r) Q"
  by (simp add: triple_def done_with_def)

lemma triple_throws: "(\<And>cs. P cs \<Longrightarrow> E cs) \<Longrightarrow> triple E D P (throws e) Q"
  by (simp add: triple_def throws_def)

lemma triple_await:
  "(\<And>cs a. P cs \<Longrightarrow> Q a (cs @ [entry a])) \<Longrightarrow> triple E D P (await_call env f entry) Q"
  by (simp add: triple_def await_call_def Let_def)

section \<open>Actions that call no adapter and do not end the run\<close>

definition quiet :: "'a act \<Rightarrow> bool" where
  "quiet m \<longleftrightarrow> (\<forall>w. aw_calls (snd (m w)) = aw_calls w \<and> (\<forall>r. fst (m w) \<noteq> Done r))"

lemma triple_quiet: "quiet m \<Longrightarrow> (\<And>cs. P cs \<Longrightarrow> E cs) \<Longrightarrow> triple E D P m (\<lambda>_. P)"
  unfolding triple_def quiet_def by (metis (mono_tags, lifting) case_prod_beta' flow.exhaust flow.simps(10,11,12))

named_theorems quiet_rules \<open>Quiet actions\<close>

lemma quiet_seq [quiet_rules]:
  assumes "quiet m" "\<And>a. quiet (f a)"
  shows "quiet (seq m f)"
  unfolding quiet_def
proof (intro allI)
  fix w
  obtain x w' where mw: "m w = (x, w')" by fastforce
  with assms(1) have "aw_calls w' = aw_calls w" "\<forall>r. x \<noteq> Done r" by (auto simp: quiet_def dest: spec[of _ w])
  with assms(2) mw show "aw_calls (snd (seq m f w)) = aw_calls w \<and> (\<forall>r. fst (seq m f w) \<noteq> Done r)"
    by (cases x) (auto simp: seq_def quiet_def)
qed

lemma quiet_basic [quiet_rules]:
  "quiet (go a)" "quiet (throws e)" "quiet (ask f)" "quiet (read_db g)" "quiet (await_other env h)"
  by (simp_all add: quiet_def go_def throws_def ask_def read_db_def await_other_def)

lemma quiet_append [quiet_rules]: "quiet (fabric_append C ty payload actor)"
  by (auto simp: quiet_def fabric_append_def Let_def split: option.splits sum.splits)

lemma quiet_if [quiet_rules]: "(b \<Longrightarrow> quiet m) \<Longrightarrow> (\<not> b \<Longrightarrow> quiet n) \<Longrightarrow> quiet (if b then m else n)"
  by simp

lemma quiet_option [quiet_rules]: "(x = None \<Longrightarrow> quiet m) \<Longrightarrow> (\<And>a. x = Some a \<Longrightarrow> quiet (f a)) \<Longrightarrow> quiet (case x of None \<Rightarrow> m | Some a \<Rightarrow> f a)"
  by (cases x) auto

lemma quiet_for_each [quiet_rules]: "(\<And>x. quiet (f x)) \<Longrightarrow> quiet (for_each xs f)"
  by (induction xs) (auto intro: quiet_rules)

lemma quiet_parts [quiet_rules]:
  "quiet (record_failure C s ms k)" "quiet (emitStatus C run stage k b)" "quiet (expired C deadline)" "quiet (cancelled C)"
  "quiet (step_reason C deadline own)" "quiet (fabric_now C)" "quiet (record_plan C as)"
  "quiet (record_completion C run a result arts)" "quiet (claim_mandate C f)" "quiet (take_over C st task)"
  unfolding record_failure_def emitStatus_def expired_def cancelled_def step_reason_def fabric_now_def record_plan_def
    record_completion_def claim_mandate_def take_over_def Let_def case_prod_beta'
  by (intro quiet_rules)+

section \<open>Accounting\<close>

fun charge :: "adapter_call \<Rightarrow> jsnum option" where
  "charge (PlanCall _) = Some (js_int 0)"
| "charge (ExecuteCall _ _ (Inr r)) = re_cost_usd r"
| "charge (ExecuteCall _ _ (Inl e)) = exn_cost e"
| "charge (VerifyCall _ _ (Inr v)) = re_cost_usd (vr_result v)"
| "charge (VerifyCall _ _ (Inl e)) = exn_cost e"
| "charge (AcceptCall _ _ (Inr v)) = re_cost_usd (vr_result v)"
| "charge (AcceptCall _ _ (Inl e)) = exn_cost e"

definition spent :: "jsnum option \<Rightarrow> calls \<Rightarrow> jsnum option" where
  "spent carried cs = foldl addCost carried (map charge cs)"

fun call_within :: "execution_mandate \<Rightarrow> jsnum option \<Rightarrow> adapter_call \<Rightarrow> bool" where
  "call_within m so_far (PlanCall _) = (so_far \<noteq> None)"
| "call_within m so_far (ExecuteCall a cost _) =
     (so_far = Some cost \<and> \<not> js_le (md_max_cost_usd m) cost \<and> list_all (actionPermitted m) (pl_actions a))"
| "call_within m so_far (VerifyCall _ cost _) = (so_far = Some cost \<and> \<not> js_le (md_max_cost_usd m) cost)"
| "call_within m so_far (AcceptCall v _ _) = (\<exists>cost. so_far = Some cost \<and> \<not> js_less (md_max_cost_usd m) cost \<and> passed_verdict v)"

definition calls_within :: "execution_mandate \<Rightarrow> jsnum option \<Rightarrow> calls \<Rightarrow> bool" where
  "calls_within m carried cs \<longleftrightarrow> (\<forall>i<length cs. call_within m (spent carried (take i cs)) (cs ! i))"

lemma spent_simps [simp]: "spent c [] = c" "spent c (cs @ [x]) = addCost (spent c cs) (charge x)"
  by (simp_all add: spent_def)

lemma calls_within_simps [simp]:
  "calls_within m c []"
  "calls_within m c (cs @ [x]) \<longleftrightarrow> calls_within m c cs \<and> call_within m (spent c cs) x"
  by (auto simp: calls_within_def nth_append less_Suc_eq)

definition worked :: "adapter_call \<Rightarrow> bool" where
  "worked x = (case x of ExecuteCall _ _ (Inl _) \<Rightarrow> False | ExecuteCall _ _ (Inr r) \<Rightarrow> re_ok r | _ \<Rightarrow> True)"

definition vetted :: "execution_mandate \<Rightarrow> jsnum option \<Rightarrow> calls \<Rightarrow> bool" where
  "vetted m carried cs \<longleftrightarrow>
     (\<exists>cs0 evidence c codex assurance.
        cs = cs0 @ [VerifyCall evidence c (Inr codex), AcceptCall codex evidence (Inr assurance)]
        \<and> list_all worked cs0 \<and> passed_verdict codex \<and> passed_verdict assurance
        \<and> (\<exists>cost. spent carried cs = Some cost \<and> \<not> js_less (md_max_cost_usd m) cost))"

text \<open>What holds of the log when a run is at rest at \<open>run\<close>, and when it ends with \<open>r\<close>.\<close>

definition in_step :: "execution_mandate \<Rightarrow> jsnum option \<Rightarrow> automation_run \<Rightarrow> calls \<Rightarrow> bool" where
  "in_step m carried run cs \<longleftrightarrow> calls_within m carried cs \<and> rn_cost_usd run = spent carried cs"

definition ends_well :: "execution_mandate \<Rightarrow> jsnum option \<Rightarrow> automation_run \<Rightarrow> calls \<Rightarrow> bool" where
  "ends_well m carried r cs \<longleftrightarrow> in_step m carried r cs \<and> (rn_status r = RsComplete \<longrightarrow> vetted m carried cs)"

abbreviation holds ::
  "execution_mandate \<Rightarrow> jsnum option \<Rightarrow> (calls \<Rightarrow> bool) \<Rightarrow> 'a act \<Rightarrow> ('a \<Rightarrow> calls \<Rightarrow> bool) \<Rightarrow> bool" where
  "holds m carried \<equiv> triple (calls_within m carried) (ends_well m carried)"

lemma in_step_calls: "in_step m c run cs \<Longrightarrow> calls_within m c cs"
  by (simp add: in_step_def)

lemma in_step_status [simp]:
  "in_step m c (run\<lparr>rn_status := s\<rparr>) = in_step m c run" "in_step m c (run\<lparr>rn_reason := x\<rparr>) = in_step m c run"
  "in_step m c (run\<lparr>rn_completed_assignments := n\<rparr>) = in_step m c run"
  "in_step m c (run\<lparr>rn_total_assignments := n\<rparr>) = in_step m c run"
  by (auto simp: in_step_def)

lemma holds_quiet: "quiet n \<Longrightarrow> (\<And>cs. P cs \<Longrightarrow> calls_within m c cs) \<Longrightarrow> holds m c P n (\<lambda>_. P)"
  by (rule triple_quiet)

lemma holds_terminal:
  assumes "\<And>cs. P cs \<Longrightarrow> in_step m c run cs" "\<And>cs. P cs \<Longrightarrow> s = RsComplete \<Longrightarrow> vetted m c cs"
  shows "holds m c P (terminal C run s reason stage k) Q"
  unfolding terminal_def Let_def
proof (rule triple_seq[OF holds_quiet])
  show "holds m c P (done_with (run\<lparr>rn_status := s, rn_reason := reason\<rparr>)) Q" for a :: unit
    by (rule triple_done) (use assms in \<open>auto simp: ends_well_def in_step_def\<close>)
  show "quiet (emitStatus C (run\<lparr>rn_status := s, rn_reason := reason\<rparr>) stage k False)" by (rule quiet_rules)
  show "calls_within m c cs" if "P cs" for cs using assms(1)[OF that] by (simp add: in_step_def)
qed

lemma holds_fail:
  "(\<And>cs. P cs \<Longrightarrow> in_step m c run cs) \<Longrightarrow> holds m c P (fail_with C run r stage k) Q"
  "(\<And>cs. P cs \<Longrightarrow> in_step m c run cs) \<Longrightarrow> holds m c P (cost_unknown C run k) Q"
  unfolding fail_with_def cost_unknown_def by (rule holds_terminal; simp)+

text \<open>A quiet action before the rest.\<close>

lemma holds_then:
  assumes "quiet n" "\<And>a. holds m c P (f a) Q" "\<And>cs. P cs \<Longrightarrow> calls_within m c cs"
  shows "holds m c P (seq n f) Q"
  by (rule triple_seq[OF holds_quiet[OF assms(1,3)] assms(2)])

section \<open>The parts of a run\<close>

lemma js_add_0 [simp]: "js_add x (js_int 0) = x"
  by (cases x) (simp_all add: js_int_def)

lemma addCost_0 [simp]: "addCost x (Some (js_int 0)) = x"
  by (cases x) (simp_all add: addCost_def, simp add: js_int_def)

lemma in_step_plan: "in_step m c run cs \<Longrightarrow> rn_cost_usd run \<noteq> None \<Longrightarrow> in_step m c run (cs @ [PlanCall a])"
  by (auto simp: in_step_def)

definition ready :: "execution_mandate \<Rightarrow> jsnum option \<Rightarrow> automation_run \<Rightarrow> calls \<Rightarrow> bool" where
  "ready m c run cs \<longleftrightarrow> in_step m c run cs \<and> list_all worked cs"

lemma readyD: "ready m c run cs \<Longrightarrow> in_step m c run cs" "ready m c run cs \<Longrightarrow> calls_within m c cs"
  by (simp_all add: ready_def in_step_def)

lemma ready_status [simp]:
  "ready m c (run\<lparr>rn_status := s\<rparr>) = ready m c run"
  "ready m c (run\<lparr>rn_completed_assignments := n\<rparr>) = ready m c run"
  "ready m c (run\<lparr>rn_total_assignments := n\<rparr>) = ready m c run"
  by (auto simp: ready_def)

lemma holds_planning:
  assumes "rn_cost_usd run \<noteq> None"
  shows "holds (cx_mandate C) c (ready (cx_mandate C) c run) (planning C deadline run n) (\<lambda>_. ready (cx_mandate C) c run)"
  unfolding planning_def
proof (rule holds_then)
  fix f
  let ?m = "cx_mandate C"
  have after: "ready ?m c run (cs @ [PlanCall a])" if "ready ?m c run cs" for cs a
    using that in_step_plan[OF _ assms] by (auto simp: ready_def worked_def)
  show "holds ?m c (ready ?m c run) (case storedPlan (planned_items (cx_B C) (run_id_of C) f) of
       Some assignments \<Rightarrow> go assignments
     | None \<Rightarrow>
         seq (await_call (cx_env C) (\<lambda>t. en_plan (cx_env C) t (cx_objective C)) PlanCall) (\<lambda>answer.
         case answer of
           None \<Rightarrow> seq (step_reason C deadline ''langgraph_failed'') (\<lambda>reason.
             seq (record_failure C (''-planning-failed-'' @ nat_text (n + 1)) [(''reason'', JStr reason)] KindLanggraph) (\<lambda>_.
             fail_with C run reason ''planning'' KindLanggraph))
         | Some assignments \<Rightarrow> seq (record_plan C assignments) (\<lambda>_. go assignments))) (\<lambda>_. ready ?m c run)"
  proof (cases "storedPlan (planned_items (cx_B C) (run_id_of C) f)")
    case None
    show ?thesis unfolding None option.case
    proof (rule triple_seq[OF triple_await[where Q = "\<lambda>_. ready ?m c run"]])
      show "holds ?m c (ready ?m c run) (case answer of
           None \<Rightarrow> seq (step_reason C deadline ''langgraph_failed'') (\<lambda>reason.
             seq (record_failure C (''-planning-failed-'' @ nat_text (n + 1)) [(''reason'', JStr reason)] KindLanggraph) (\<lambda>_.
             fail_with C run reason ''planning'' KindLanggraph))
         | Some assignments \<Rightarrow> seq (record_plan C assignments) (\<lambda>_. go assignments)) (\<lambda>_. ready ?m c run)" for answer
        by (cases answer) (auto intro!: holds_then quiet_rules holds_fail triple_go readyD)
    qed (rule after)
  qed (auto intro: triple_go)
qed (auto intro: quiet_rules readyD)

lemma holds_before_worker:
  "holds (cx_mandate C) c (ready (cx_mandate C) c run) (before_worker C deadline run a)
     (\<lambda>cost cs. ready (cx_mandate C) c run cs \<and> rn_cost_usd run = Some cost \<and> \<not> js_le (md_max_cost_usd (cx_mandate C)) cost
        \<and> list_all (actionPermitted (cx_mandate C)) (pl_actions a))"
  unfolding before_worker_def
  by (auto intro!: holds_then quiet_rules holds_fail holds_terminal triple_go readyD
      simp: find_None_iff list_all_iff split: option.split)

text \<open>After a worker call the log ends with it, and everything before has worked.\<close>

definition after_call :: "execution_mandate \<Rightarrow> jsnum option \<Rightarrow> automation_run \<Rightarrow> adapter_result \<Rightarrow> calls \<Rightarrow> bool" where
  "after_call m c run result cs \<longleftrightarrow> in_step m c run cs \<and> (re_ok result \<longrightarrow> list_all worked cs)"

lemma after_callD: "after_call m c run result cs \<Longrightarrow> in_step m c run cs" "after_call m c run result cs \<Longrightarrow> calls_within m c cs"
  by (simp_all add: after_call_def in_step_def)

lemma holds_call_worker:
  assumes "rn_cost_usd run = Some cost" "\<not> js_le (md_max_cost_usd (cx_mandate C)) cost"
    "list_all (actionPermitted (cx_mandate C)) (pl_actions a)"
  shows "holds (cx_mandate C) c (ready (cx_mandate C) c run) (call_worker C deadline run a cost)
     (\<lambda>(run', result). after_call (cx_mandate C) c run' result)"
proof -
  let ?m = "cx_mandate C"
  let ?cost = "\<lambda>answer. addCost (rn_cost_usd run) (case answer of Inl e \<Rightarrow> exn_cost e | Inr r \<Rightarrow> re_cost_usd r)"
  let ?Q = "\<lambda>answer cs. in_step ?m c (run\<lparr>rn_cost_usd := ?cost answer\<rparr>) cs
      \<and> (case answer of Inl _ \<Rightarrow> True | Inr r \<Rightarrow> re_ok r \<longrightarrow> list_all worked cs)"
  have log: "?Q answer (cs @ [ExecuteCall a cost answer])" if "ready ?m c run cs" for cs answer
    using that assms by (auto simp: ready_def in_step_def worked_def split: sum.splits)
  have rest: "holds ?m c (?Q answer) (case answer of
       Inl e \<Rightarrow>
         let run' = run\<lparr>rn_cost_usd := addCost (rn_cost_usd run) (exn_cost e)\<rparr>
         in seq (step_reason C deadline (worker_reason e)) (\<lambda>reason.
            seq (record_failure C (''-'' @ pl_id a @ ''-failed'') [(''reason'', JStr reason)] KindOpenhands) (\<lambda>_.
            fail_with C run' reason ''openhands'' KindOpenhands))
     | Inr result \<Rightarrow> go (run\<lparr>rn_cost_usd := addCost (rn_cost_usd run) (re_cost_usd result)\<rparr>, result))
     (\<lambda>(run', result). after_call ?m c run' result)" for answer
    by (cases answer) (auto simp: Let_def after_call_def in_step_def intro!: holds_then quiet_rules holds_fail triple_go)
  show ?thesis
    unfolding call_worker_def
    by (intro holds_then quiet_rules triple_seq[OF triple_await[where Q = ?Q, OF log] rest] readyD)
qed

lemma holds_after_worker:
  "holds (cx_mandate C) c (after_call (cx_mandate C) c run result) (after_worker C run a result)
     (\<lambda>_. ready (cx_mandate C) c run)"
  unfolding after_worker_def
  by (auto intro!: holds_then quiet_rules holds_fail triple_go after_callD
      simp: ready_def after_call_def split: option.split)

lemma holds_tests_failed:
  "(\<And>cs. P cs \<Longrightarrow> in_step m c run cs) \<Longrightarrow> holds m c P (tests_failed C run a s r) Q"
  unfolding tests_failed_def by (intro holds_then quiet_rules holds_fail) (auto dest: in_step_calls)

lemma holds_isolated:
  "holds m c (ready m c run) (isolated_evidence C deadline run a verify) (\<lambda>_. ready m c run)"
  unfolding isolated_evidence_def
  by (auto intro!: holds_then quiet_rules holds_fail holds_tests_failed triple_go readyD split: sum.split)

lemma holds_local:
  "holds m c (ready m c run) (local_evidence C deadline run a result) (\<lambda>_. ready m c run)"
  unfolding local_evidence_def
  by (rule triple_seq[where R = "\<lambda>_. ready m c run"])
    (auto intro!: holds_then quiet_rules holds_fail holds_tests_failed triple_go readyD split: option.split)

lemma quiet_holds:
  "quiet n \<Longrightarrow> holds m c (ready m c run) n (\<lambda>_. ready m c run)"
  by (rule holds_quiet) (auto dest: readyD)

lemma holds_take_over:
  "holds m c (ready m c (rs_run st)) (take_over C st task) (\<lambda>st'. ready m c (rs_run st'))"
proof -
  have "holds m c (ready m c (rs_run st)) (go (st\<lparr>rs_run := (rs_run st)\<lparr>rn_completed_assignments := n\<rparr>, rs_claims := x, rs_artifacts := y\<rparr>))
      (\<lambda>st'. ready m c (rs_run st'))" for n x y
    by (rule triple_go) simp
  then show ?thesis
    unfolding take_over_def Let_def
    by (intro triple_seq[OF quiet_holds]) (auto intro!: quiet_rules)
qed

lemma holds_assignment:
  "holds (cx_mandate C) c (ready (cx_mandate C) c (rs_run st)) (run_assignment C deadline a st)
     (\<lambda>st'. ready (cx_mandate C) c (rs_run st'))"
proof -
  let ?m = "cx_mandate C"
  have fin: "holds ?m c (ready ?m c run) (seq (record_completion C run' a result arts) (\<lambda>_.
      go \<lparr>rs_run = run', rs_claims = x, rs_artifacts = y\<rparr>)) (\<lambda>st'. ready ?m c (rs_run st'))"
    if "run' = run\<lparr>rn_completed_assignments := n\<rparr>" for run run' n result arts x y
    using that by (auto intro!: holds_then quiet_rules triple_go readyD)
  have evid: "holds ?m c (ready ?m c run) (case en_verifier (cx_env C) of
              Some verify \<Rightarrow> isolated_evidence C deadline run a verify
            | None \<Rightarrow> local_evidence C deadline run a result) (\<lambda>_. ready ?m c run)" for run result
    by (auto intro: holds_isolated holds_local split: option.split)
  show ?thesis
    unfolding run_assignment_def Let_def
  proof (rule holds_then)
    fix f
    show "holds ?m c (ready ?m c (rs_run st))
       (if (case map_of (pj_tasks f) (pl_id a) of None \<Rightarrow> False
            | Some t \<Rightarrow> prop_of t ''run_id'' = JStr (run_id_of C) \<and> prop_of t ''status'' = JStr ''complete'')
          then take_over C st (the (map_of (pj_tasks f) (pl_id a)))
        else
          seq (before_worker C deadline (rs_run st) a) (\<lambda>cost.
          seq (call_worker C deadline ((rs_run st)\<lparr>rn_status := RsExecuting\<rparr>) a cost) (\<lambda>(run, result).
          seq (after_worker C run a result) (\<lambda>_.
          seq (case en_verifier (cx_env C) of
              Some verify \<Rightarrow> isolated_evidence C deadline run a verify
            | None \<Rightarrow> local_evidence C deadline run a result) (\<lambda>(claims, artifacts).
          seq (record_completion C (run\<lparr>rn_completed_assignments := rn_completed_assignments run + 1\<rparr>) a result artifacts) (\<lambda>_.
             go \<lparr>rs_run = run\<lparr>rn_completed_assignments := rn_completed_assignments run + 1\<rparr>,
                 rs_claims = rs_claims st @ claims @ re_evidence result,
                 rs_artifacts = rs_artifacts st @ artifacts\<rparr>))))))
       (\<lambda>st'. ready ?m c (rs_run st'))" (is "holds _ _ _ (if ?b then ?t else ?e) _")
    proof (cases ?b)
      case False
      have "holds ?m c (ready ?m c (rs_run st)) ?e (\<lambda>st'. ready ?m c (rs_run st'))"
      proof (rule triple_seq[OF holds_before_worker triple_pure], elim conjE)
        fix cost
        assume pre: "rn_cost_usd (rs_run st) = Some cost" "\<not> js_le (md_max_cost_usd ?m) cost"
          "list_all (actionPermitted ?m) (pl_actions a)"
        let ?run = "(rs_run st)\<lparr>rn_status := RsExecuting\<rparr>"
        have call: "holds ?m c (ready ?m c (rs_run st)) (call_worker C deadline ?run a cost)
            (\<lambda>(run', result). after_call ?m c run' result)"
          using holds_call_worker[of ?run cost C a c deadline] pre by simp
        show "holds ?m c (ready ?m c (rs_run st)) (seq (call_worker C deadline ?run a cost) (\<lambda>(run, result).
          seq (after_worker C run a result) (\<lambda>_.
          seq (case en_verifier (cx_env C) of
              Some verify \<Rightarrow> isolated_evidence C deadline run a verify
            | None \<Rightarrow> local_evidence C deadline run a result) (\<lambda>(claims, artifacts).
          seq (record_completion C (run\<lparr>rn_completed_assignments := rn_completed_assignments run + 1\<rparr>) a result artifacts) (\<lambda>_.
             go \<lparr>rs_run = run\<lparr>rn_completed_assignments := rn_completed_assignments run + 1\<rparr>,
                 rs_claims = rs_claims st @ claims @ re_evidence result,
                 rs_artifacts = rs_artifacts st @ artifacts\<rparr>))))) (\<lambda>st'. ready ?m c (rs_run st'))"
          by (rule triple_seq[OF call])
            (auto split: prod.split intro!: triple_seq[OF holds_after_worker] triple_seq[OF evid] fin)
      qed
      with False show ?thesis by simp
    qed (auto intro: holds_take_over)
  qed (auto intro: quiet_rules readyD)
qed

lemma holds_assignments:
  "holds (cx_mandate C) c (ready (cx_mandate C) c (rs_run st)) (run_assignments C deadline as st)
     (\<lambda>st'. ready (cx_mandate C) c (rs_run st'))"
  by (induction as arbitrary: st) (auto intro!: triple_go triple_seq[OF holds_assignment])

section \<open>Verification and assurance\<close>

text \<open>The log up to the verdict of the verifier, and what \<open>judge\<close> adds.\<close>

definition verified ::
  "execution_mandate \<Rightarrow> jsnum option \<Rightarrow> automation_run \<Rightarrow> verdict_result \<Rightarrow> verification_evidence \<Rightarrow> calls \<Rightarrow> bool" where
  "verified m c run codex evidence cs \<longleftrightarrow>
     in_step m c run cs \<and> (\<exists>cs0 cost. cs = cs0 @ [VerifyCall evidence cost (Inr codex)] \<and> list_all worked cs0)"

definition assured ::
  "execution_mandate \<Rightarrow> jsnum option \<Rightarrow> automation_run \<Rightarrow> verdict_result \<Rightarrow> verdict_result \<Rightarrow> calls \<Rightarrow> bool" where
  "assured m c run codex assurance cs \<longleftrightarrow>
     in_step m c run cs \<and> (\<exists>cs0 evidence cost. cs = cs0 @ [VerifyCall evidence cost (Inr codex), AcceptCall codex evidence (Inr assurance)]
       \<and> list_all worked cs0)"

lemma verifiedD: "verified m c run codex ev cs \<Longrightarrow> in_step m c run cs" "verified m c run codex ev cs \<Longrightarrow> calls_within m c cs"
  by (simp_all add: verified_def in_step_def)

lemma assuredD: "assured m c run codex as cs \<Longrightarrow> in_step m c run cs" "assured m c run codex as cs \<Longrightarrow> calls_within m c cs"
  by (simp_all add: assured_def in_step_def)

lemma verified_status [simp]: "verified m c (run\<lparr>rn_status := s\<rparr>) codex ev cs = verified m c run codex ev cs"
  by (simp add: verified_def)

lemma holds_verify_call:
  assumes "rn_cost_usd run = Some cost" "\<not> js_le (md_max_cost_usd (cx_mandate C)) cost"
  shows "holds (cx_mandate C) c (ready (cx_mandate C) c run)
    (seq (await_call (cx_env C) (\<lambda>t. en_verify (cx_env C) t evidence cost) (VerifyCall evidence cost)) (\<lambda>answer.
       case answer of
         Inl e \<Rightarrow>
           let run' = run\<lparr>rn_cost_usd := addCost (rn_cost_usd run) (exn_cost e)\<rparr>;
               diagnostic = describeCodexFailure (cx_B C) (exn_error e)
           in seq (step_reason C deadline (codex_reason (fd_category diagnostic))) (\<lambda>reason.
              seq (record_failure C ''-codex-failed'' [(''reason'', JStr reason), (''diagnostic'', failure_json diagnostic)] KindCodex)
                (\<lambda>_. fail_with C run' reason ''codex'' KindCodex))
       | Inr codex \<Rightarrow> go (run\<lparr>rn_cost_usd := addCost (rn_cost_usd run) (re_cost_usd (vr_result codex))\<rparr>, codex, evidence)))
    (\<lambda>(run', codex, ev). verified (cx_mandate C) c run' codex ev)"
proof -
  let ?m = "cx_mandate C"
  let ?run = "\<lambda>answer. run\<lparr>rn_cost_usd := addCost (rn_cost_usd run)
      (case answer of Inl e \<Rightarrow> exn_cost e | Inr v \<Rightarrow> re_cost_usd (vr_result v))\<rparr>"
  let ?Q = "\<lambda>answer cs. in_step ?m c (?run answer) cs
      \<and> (\<exists>cs0. cs = cs0 @ [VerifyCall evidence cost answer] \<and> list_all worked cs0)"
  have log: "?Q answer (cs @ [VerifyCall evidence cost answer])" if "ready ?m c run cs" for cs answer
    using that assms by (auto simp: ready_def in_step_def split: sum.splits)
  show ?thesis
  proof (rule triple_seq[OF triple_await[where Q = ?Q, OF log]])
    fix answer
    show "holds ?m c (?Q answer) (case answer of
         Inl e \<Rightarrow>
           let run' = run\<lparr>rn_cost_usd := addCost (rn_cost_usd run) (exn_cost e)\<rparr>;
               diagnostic = describeCodexFailure (cx_B C) (exn_error e)
           in seq (step_reason C deadline (codex_reason (fd_category diagnostic))) (\<lambda>reason.
              seq (record_failure C ''-codex-failed'' [(''reason'', JStr reason), (''diagnostic'', failure_json diagnostic)] KindCodex)
                (\<lambda>_. fail_with C run' reason ''codex'' KindCodex))
       | Inr codex \<Rightarrow> go (run\<lparr>rn_cost_usd := addCost (rn_cost_usd run) (re_cost_usd (vr_result codex))\<rparr>, codex, evidence))
       (\<lambda>(run', codex, ev). verified ?m c run' codex ev)"
      by (cases answer)
        (auto simp: Let_def verified_def in_step_def intro!: holds_then quiet_rules holds_fail triple_go)
  qed
qed

lemma holds_verify_run:
  "holds (cx_mandate C) c (ready (cx_mandate C) c (rs_run st)) (verify_run C deadline st)
     (\<lambda>(run', codex, ev). verified (cx_mandate C) c run' codex ev)"
proof -
  let ?m = "cx_mandate C" and ?run = "(rs_run st)\<lparr>rn_status := RsVerifying\<rparr>"
  have q: "quiet (emitStatus C (?run\<lparr>rn_cost_usd := None\<rparr>) ''codex'' KindCodex True)" by (rule quiet_rules)
  have arts: "holds ?m c (ready ?m c ?run) (case en_collector (cx_env C) of
                 None \<Rightarrow> go (rs_artifacts st)
               | Some co \<Rightarrow> seq (ask (\<lambda>t. ac_verify co t (rs_artifacts st))) (\<lambda>r. case r of
                   Some as \<Rightarrow> go as
                 | None \<Rightarrow> seq (record_failure C ''-artifact-integrity-failed'' [(''reason'', JStr ''artifact_integrity_failed'')] KindCodex)
                     (\<lambda>_. fail_with C ?run ''artifact_integrity_failed'' ''codex'' KindCodex))) (\<lambda>_. ready ?m c ?run)"
    by (auto intro!: holds_then quiet_rules holds_fail triple_go readyD split: option.split)
  have "holds ?m c (ready ?m c ?run) (verify_run C deadline st) (\<lambda>(run', codex, ev). verified ?m c run' codex ev)"
    unfolding verify_run_def Let_def
    by (intro holds_then triple_if triple_option holds_fail readyD quiet_rules triple_seq[OF arts] holds_verify_call[unfolded Let_def])
  then show ?thesis by simp
qed

lemma holds_judge:
  assumes "\<And>cs. P cs \<Longrightarrow> in_step (cx_mandate C) c run cs"
  shows "holds (cx_mandate C) c P (judge C run v part reason stage k)
    (\<lambda>_ cs. P cs \<and> (\<exists>cost. rn_cost_usd run = Some cost \<and> \<not> js_less (md_max_cost_usd (cx_mandate C)) cost) \<and> passed_verdict v)"
proof -
  have cw: "calls_within (cx_mandate C) c cs" if "P cs" for cs using assms[OF that] by (rule in_step_calls)
  show ?thesis
  proof (cases "rn_cost_usd run")
    case None
    then show ?thesis by (simp add: judge_def holds_fail(2)[OF assms])
  next
    case (Some cost)
    have "holds (cx_mandate C) c P (go ()) (\<lambda>_ cs. P cs \<and> (\<exists>cost. rn_cost_usd run = Some cost
        \<and> \<not> js_less (md_max_cost_usd (cx_mandate C)) cost) \<and> passed_verdict v)"
      if "\<not> \<not> passed_verdict v" "\<not> js_less (md_max_cost_usd (cx_mandate C)) cost"
      by (rule triple_go) (use that Some in auto)
    then show ?thesis
      unfolding judge_def Some option.case
      by (intro holds_then triple_if holds_fail assms cw quiet_rules) simp_all
  qed
qed

lemma holds_assure_run:
  "holds (cx_mandate C) c (\<lambda>cs. verified (cx_mandate C) c run codex ev cs
        \<and> (\<exists>cost. rn_cost_usd run = Some cost \<and> \<not> js_less (md_max_cost_usd (cx_mandate C)) cost) \<and> passed_verdict codex)
     (assure_run C deadline run codex ev) (\<lambda>(run', assurance). \<lambda>cs. assured (cx_mandate C) c run' codex assurance cs \<and> passed_verdict codex)"
proof -
  let ?m = "cx_mandate C"
  let ?P = "\<lambda>cs. verified ?m c run codex ev cs
        \<and> (\<exists>cost. rn_cost_usd run = Some cost \<and> \<not> js_less (md_max_cost_usd ?m) cost) \<and> passed_verdict codex"
  let ?run = "\<lambda>answer. run\<lparr>rn_cost_usd := addCost (rn_cost_usd run)
      (case answer of Inl e \<Rightarrow> exn_cost e | Inr v \<Rightarrow> re_cost_usd (vr_result v))\<rparr>"
  let ?Q = "\<lambda>answer cs. in_step ?m c (?run answer) cs \<and> passed_verdict codex
      \<and> (\<exists>cs0 cost. cs = cs0 @ [VerifyCall ev cost (Inr codex), AcceptCall codex ev answer] \<and> list_all worked cs0)"
  have log: "?Q answer (cs @ [AcceptCall codex ev answer])" if "?P cs" for cs answer
    using that by (auto simp: verified_def in_step_def split: sum.splits) (metis)+
  have inP: "in_step ?m c run cs" "calls_within ?m c cs" if "?P cs" for cs
    using that by (auto dest: verifiedD)
  have rest: "holds ?m c (?Q answer) (case answer of
       Inl e \<Rightarrow> seq (step_reason C deadline ''assurance_adapter_failed'') (\<lambda>reason.
         fail_with C (run\<lparr>rn_cost_usd := addCost (rn_cost_usd run) (exn_cost e)\<rparr>) reason ''assurance'' KindAgent)
     | Inr assurance \<Rightarrow>
         go (run\<lparr>rn_cost_usd := addCost (rn_cost_usd run) (re_cost_usd (vr_result assurance))\<rparr>, assurance))
     (\<lambda>(run', assurance). \<lambda>cs. assured ?m c run' codex assurance cs \<and> passed_verdict codex)" for answer
    by (cases answer) (auto simp: assured_def in_step_def intro!: holds_then quiet_rules holds_fail triple_go)
  show ?thesis
    unfolding assure_run_def
    by (intro holds_then triple_if holds_fail inP quiet_rules triple_seq[OF triple_await[where Q = ?Q, OF log] rest])
qed

section \<open>The run\<close>

lemma holds_executed_run:
  assumes "rn_cost_usd base \<noteq> None"
  shows "holds (cx_mandate C) c (ready (cx_mandate C) c base) (executed_run C deadline base n) Q"
proof -
  let ?m = "cx_mandate C"
  have final: "holds ?m c (\<lambda>cs. (assured ?m c run2 codex assurance cs \<and> passed_verdict codex)
      \<and> (\<exists>cost. rn_cost_usd run2 = Some cost \<and> \<not> js_less (md_max_cost_usd ?m) cost) \<and> passed_verdict assurance)
      (terminal C run2 RsComplete None ''complete'' KindAgent) Q" for run2 codex assurance
    by (rule holds_terminal) (auto simp: assured_def vetted_def in_step_def, metis)
  have assure: "holds ?m c (\<lambda>cs. verified ?m c run1 codex ev cs
      \<and> (\<exists>cost. rn_cost_usd run1 = Some cost \<and> \<not> js_less (md_max_cost_usd ?m) cost) \<and> passed_verdict codex)
      (seq (assure_run C deadline (run1\<lparr>rn_status := RsAssuring\<rparr>) codex ev) (\<lambda>(run2, assurance).
        seq (judge C run2 assurance ''-victoria'' ''independent_assurance_failed'' ''assurance'' KindAgent) (\<lambda>_.
        terminal C run2 RsComplete None ''complete'' KindAgent))) Q" for run1 codex ev
  proof (rule triple_seq[OF holds_assure_run[of C c "run1\<lparr>rn_status := RsAssuring\<rparr>", simplified]])
    fix x :: "automation_run \<times> verdict_result"
    obtain run2 assurance where x: "x = (run2, assurance)" by fastforce
    show "holds ?m c (case x of (run', assurance) \<Rightarrow> \<lambda>cs. assured ?m c run' codex assurance cs \<and> passed_verdict codex)
        (case x of (run2, assurance) \<Rightarrow> seq (judge C run2 assurance ''-victoria'' ''independent_assurance_failed'' ''assurance'' KindAgent) (\<lambda>_.
        terminal C run2 RsComplete None ''complete'' KindAgent)) Q"
      unfolding x prod.case by (rule triple_seq[OF holds_judge final]) (auto dest: assuredD)
  qed
  have verify: "holds ?m c (ready ?m c (rs_run st)) (vet_run C deadline st) Q" for st
    unfolding vet_run_def by (rule triple_seq[OF holds_verify_run])
      (auto split: prod.split intro!: triple_seq[OF holds_judge] assure dest: verifiedD)
  have run: "holds ?m c (ready ?m c base) (seq (run_assignments C deadline as
      \<lparr>rs_run = base\<lparr>rn_status := RsPlanned, rn_total_assignments := k\<rparr>, rs_claims = [], rs_artifacts = []\<rparr>) g) Q"
    if "\<And>st. holds ?m c (ready ?m c (rs_run st)) (g st) Q" for as k g
    by (rule triple_seq[OF _ that])
      (use holds_assignments[of C c "\<lparr>rs_run = base\<lparr>rn_status := RsPlanned, rn_total_assignments := k\<rparr>, rs_claims = [], rs_artifacts = []\<rparr>"]
       in simp)
  show ?thesis
    unfolding executed_run_def execute_plan_def Let_def
    by (rule triple_seq[OF holds_planning[OF assms]]) (intro holds_then quiet_rules run verify readyD)
qed

text \<open>What follows the checks at the start of a run.\<close>

definition checked_run :: "'k auto_ctx \<Rightarrow> jsnum \<Rightarrow> fabric_projection \<Rightarrow> unit act" where
  "checked_run C deadline f =
     (let base = (base_run C)\<lparr>rn_cost_usd := carried_cost C f\<rparr>;
          priorFailures = length (filter (\<lambda>e. payload_is e ''run_id'' (run_id_of C)) (pj_failures f))
      in seq (claim_mandate C f) (\<lambda>_.
         if rn_cost_usd base = None then cost_unknown C base KindLanggraph
         else seq (cancelled C) (\<lambda>c. if c then fail_with C base ''cancelled'' ''planning'' KindLanggraph
         else executed_run C deadline base priorFailures)))"

lemma holds_checked_run:
  "holds (cx_mandate C) (carried_cost C f) (\<lambda>cs. cs = []) (checked_run C deadline f) Q"
proof -
  let ?m = "cx_mandate C" and ?c = "carried_cost C f" and ?base = "(base_run C)\<lparr>rn_cost_usd := carried_cost C f\<rparr>"
  have "holds ?m ?c (ready ?m ?c ?base) (checked_run C deadline f) Q"
    unfolding checked_run_def Let_def
    by (intro holds_then triple_if holds_fail holds_executed_run readyD quiet_rules) auto
  then show ?thesis
    by (rule triple_conseq) (auto simp: ready_def in_step_def)
qed

definition at_rest :: "'k auto_ctx \<Rightarrow> auto_world \<Rightarrow> auto_world \<Rightarrow> bool" where
  "at_rest C w w' \<longleftrightarrow> aw_calls w' = aw_calls w \<and> aw_db w' = aw_db w"

definition may_start :: "'k auto_ctx \<Rightarrow> fabric_projection \<Rightarrow> mission_db \<Rightarrow> bool" where
  "may_start C f db \<longleftrightarrow>
     (let m = cx_mandate C in verifyMandateAuthority (cx_L C) (cx_B C) (cx_cl C) m (cx_key C)
        \<and> getMissionFabric (md_mission_id m) db = Some f
        \<and> (\<exists>check. verifyMissionFabric (lib_sha256 (cx_L C)) (cx_cl C) (md_mission_id m) db = Some check \<and> fc_valid check)
        \<and> (\<exists>now. validateMandate (cx_L C) m \<lparr>mc_objective = cx_objective C, mc_workspaceRoot = cx_workspaceRoot C,
             mc_branch = cx_branch C\<rparr> now = None)
        \<and> completedExecutionRun (cx_L C) (cx_B C) m db = None)"

lemma seq_reads [simp]:
  "seq (ask f) g w = g (f (aw_tick w)) (w\<lparr>aw_tick := aw_tick w + 1\<rparr>)"
  "seq (read_db h) k w = k (h (aw_db w)) w"
  by (simp_all add: seq_def ask_def read_db_def)

lemma admitted_cases:
  assumes "admitted_run C deadline f w = (fl, w')"
  obtains (refused) r where "fl = Done r" "rn_status r = RsBlocked" "at_rest C w w'" "rn_cost_usd r = carried_cost C f"
  | (reported) r where "fl = Done r" "completedExecutionRun (cx_L C) (cx_B C) (cx_mandate C) (aw_db w) = Some r" "at_rest C w w'"
  | (checked) w1 where "at_rest C w w1" "checked_run C deadline f w1 = (fl, w')"
      "completedExecutionRun (cx_L C) (cx_B C) (cx_mandate C) (aw_db w) = None"
      "\<exists>now. validateMandate (cx_L C) (cx_mandate C) \<lparr>mc_objective = cx_objective C, mc_workspaceRoot = cx_workspaceRoot C,
         mc_branch = cx_branch C\<rparr> now = None"
proof -
  let ?v = "\<lambda>now. validateMandate (cx_L C) (cx_mandate C) \<lparr>mc_objective = cx_objective C, mc_workspaceRoot = cx_workspaceRoot C,
         mc_branch = cx_branch C\<rparr> now"
  let ?now = "en_now (cx_env C) (aw_tick w)" and ?w = "w\<lparr>aw_tick := aw_tick w + 1\<rparr>"
  have rest: "at_rest C w ?w" by (simp add: at_rest_def)
  show thesis
  proof (cases "?v ?now")
    case (Some why)
    with assms show thesis
      by (intro refused[of "(base_run C)\<lparr>rn_cost_usd := carried_cost C f, rn_reason := Some why\<rparr>"])
        (auto simp: admitted_run_def Let_def done_with_def base_run_def at_rest_def)
  next
    case v: None
    show thesis
    proof (cases "completedExecutionRun (cx_L C) (cx_B C) (cx_mandate C) (aw_db w)")
      case (Some r)
      with v assms show thesis
        by (intro reported[of r]) (auto simp: admitted_run_def Let_def done_with_def at_rest_def)
    next
      case None
      with v assms have "checked_run C deadline f ?w = (fl, w')"
        by (simp add: admitted_run_def checked_run_def Let_def)
      with rest None v show thesis by (intro checked) auto
    qed
  qed
qed

lemma run_cases:
  assumes "runExecutiveMission C w = (fl, w')"
  obtains (refused) r where "fl = Done r" "rn_status r = RsBlocked" "at_rest C w w'"
  | (failed) e where "fl = Throws e" "at_rest C w w'"
  | (reported) r where "fl = Done r" "completedExecutionRun (cx_L C) (cx_B C) (cx_mandate C) (aw_db w) = Some r" "at_rest C w w'"
  | (checked) deadline f w1 where "at_rest C w w1" "checked_run C deadline f w1 = (fl, w')" "may_start C f (aw_db w)"
proof -
  let ?m = "cx_mandate C" and ?now = "en_now (cx_env C) (aw_tick w)"
  let ?w = "w\<lparr>aw_tick := aw_tick w + 1\<rparr>"
  let ?d = "js_min (lib_dateParse (cx_L C) (md_expires_at ?m)) (js_add (js_int ?now) (minutes_ms (md_max_runtime_minutes ?m)))"
  have rest: "at_rest C w ?w" by (simp add: at_rest_def)
  note run = assms[unfolded runExecutiveMission_def Let_def seq_reads]
  show thesis
  proof (cases "timeout_accepted (js_minus ?d (js_int ?now))")
    case False
    with run rest show thesis by (intro failed) (auto simp: throws_def)
  next
    case t: True
    show thesis
    proof (cases "verifyMandateAuthority (cx_L C) (cx_B C) (cx_cl C) ?m (cx_key C)")
      case False
      with run t rest show thesis by (intro refused) (auto simp: refused_def done_with_def base_run_def)
    next
      case v: True
      show thesis
      proof (cases "getMissionFabric (md_mission_id ?m) (aw_db w)")
        case None
        with run t v rest show thesis
          by (intro refused) (auto simp: refused_def done_with_def base_run_def)
      next
        case f: (Some f)
        show thesis
        proof (cases "verifyMissionFabric (lib_sha256 (cx_L C)) (cx_cl C) (md_mission_id ?m) (aw_db w)")
          case None
          with run t v f rest show thesis
            by (intro refused) (auto simp: refused_def done_with_def base_run_def)
        next
          case (Some check)
          show thesis
          proof (cases "fc_valid check")
            case False
            with run t v f Some rest show thesis
              by (intro refused) (auto simp: refused_def done_with_def base_run_def)
          next
            case True
            with run t v f Some have "admitted_run C ?d f ?w = (fl, w')"
              by simp
            then show thesis
            proof (cases rule: admitted_cases)
              case (checked w1)
              with rest v f Some True show thesis
                by (intro that(4)) (auto simp: at_rest_def may_start_def Let_def)
            qed (use rest refused reported in \<open>auto simp: at_rest_def\<close>)
          qed
        qed
      qed
    qed
  qed
qed

section \<open>Properties\<close>

lemma checked_ends:
  assumes "checked_run C deadline f w1 = (fl, w')" "aw_calls w1 = []"
  shows "calls_within (cx_mandate C) (carried_cost C f) (aw_calls w')
    \<and> (\<forall>r. fl = Done r \<longrightarrow> ends_well (cx_mandate C) (carried_cost C f) r (aw_calls w'))"
proof -
  have "holds (cx_mandate C) (carried_cost C f) (\<lambda>cs. cs = []) (checked_run C deadline f)
      (\<lambda>_. calls_within (cx_mandate C) (carried_cost C f))"
    by (rule holds_checked_run)
  then have "case fl of Go a \<Rightarrow> calls_within (cx_mandate C) (carried_cost C f) (aw_calls w')
      | Done r \<Rightarrow> ends_well (cx_mandate C) (carried_cost C f) r (aw_calls w')
      | Throws e \<Rightarrow> calls_within (cx_mandate C) (carried_cost C f) (aw_calls w')"
    using assms unfolding triple_def by (auto dest!: spec[of _ w1])
  then show ?thesis by (cases fl) (simp_all add: ends_well_def in_step_def)
qed

lemma spent_None [simp]: "spent None cs = None"
  by (induction cs rule: rev_induct) (simp_all add: addCost_def)

lemma spent_append: "spent c (xs @ ys) = spent (spent c xs) ys"
  by (simp add: spent_def)

lemma charge_None_spent: "i < length cs \<Longrightarrow> charge (cs ! i) = None \<Longrightarrow> spent c cs = None"
  using spent_append[of c "take (Suc i) cs" "drop (Suc i) cs"]
  by (simp del: append_assoc add: take_Suc_conv_app_nth[symmetric] addCost_def)
    (simp add: take_Suc_conv_app_nth addCost_def split: option.splits)

lemma call_within_known: "call_within m s x \<Longrightarrow> s \<noteq> None"
  by (cases x) auto

lemma calls_carried: "calls_within m c cs \<Longrightarrow> cs \<noteq> [] \<Longrightarrow> c \<noteq> None"
  using call_within_known[of m "spent c (take 0 cs)"] by (auto simp: calls_within_def)

lemma spent_SomeD:
  assumes "spent (Some (Num q)) cs = Some t"
  shows "\<exists>qs. map charge cs = map (\<lambda>x. Some (Num x)) qs \<and> (\<forall>x\<in>set qs. 0 \<le> x) \<and> t = Num (q + sum_list qs)"
  using assms
proof (induction cs arbitrary: t rule: rev_induct)
  case (snoc x cs)
  then obtain c a where c: "spent (Some (Num q)) cs = Some c" "charge x = Some a" "js_finite a" "\<not> js_less a (js_int 0)"
    "t = js_add c a"
    by (auto simp: addCost_def split: option.splits if_splits)
  obtain b where b: "a = Num b" using c(3) by (cases a) auto
  from snoc.IH[OF c(1)] obtain qs where qs: "map charge cs = map (\<lambda>x. Some (Num x)) qs" "\<forall>x\<in>set qs. 0 \<le> x"
    "c = Num (q + sum_list qs)" by auto
  have "map charge (cs @ [x]) = map (\<lambda>x. Some (Num x)) (qs @ [b])" "\<forall>y\<in>set (qs @ [b]). 0 \<le> y"
    "t = Num (q + sum_list (qs @ [b]))"
    using qs c(2,4,5) b by (auto simp: js_int_def)
  then show ?case by blast
qed auto

lemma carried_finite: "carried_cost C f = Some x \<Longrightarrow> \<exists>q. x = Num q"
  by (cases x) (auto simp: carried_cost_def run_cost_def stored_number_def js_int_def split: option.splits if_splits bind_splits)

text \<open>A run of the runner touches nothing, neither the mission store nor an adapter, unless the
  mandate's authority signature verifies under the authority key, the mission is in the store, its fabric's
  hash chain verifies and the signed limits (objective, workspace, branch, validity window) admit the run as
  it was called.\<close>

theorem run_needs_authority:
  assumes "runExecutiveMission C w = (fl, w')" "aw_calls w' \<noteq> aw_calls w \<or> aw_db w' \<noteq> aw_db w"
  shows "\<exists>f. may_start C f (aw_db w)"
  using assms(1) by (cases rule: run_cases) (use assms(2) in \<open>auto simp: at_rest_def\<close>)

text \<open>C14. Every call the runner makes to an adapter, in the order it makes them, stays within the
  signed mandate given what the calls before it have cost: the worker is only called for permitted actions
  while the accounted cost is known and below the limit, and the verifier and the acceptor are only called
  with the budget known.\<close>

theorem run_calls_within_mandate:
  assumes "runExecutiveMission C w = (fl, w')" "aw_calls w = []" "i < length (aw_calls w')"
  shows "\<exists>f. getMissionFabric (md_mission_id (cx_mandate C)) (aw_db w) = Some f
    \<and> call_within (cx_mandate C) (spent (carried_cost C f) (take i (aw_calls w'))) (aw_calls w' ! i)"
  using assms(1)
proof (cases rule: run_cases)
  case (checked deadline f w1)
  with assms(2) checked_ends[OF checked(2)] have "calls_within (cx_mandate C) (carried_cost C f) (aw_calls w')"
    by (simp add: at_rest_def)
  with assms(3) checked(3) show ?thesis
    by (auto simp: calls_within_def may_start_def Let_def)
qed (use assms in \<open>auto simp: at_rest_def\<close>)

text \<open>C32. The cost a finished run reports is the cost it carried over plus the sum of what its adapter
  calls charged, every charge finite and not negative; when one charge is unknown the reported cost is
  unknown.\<close>

theorem run_cost_is_sum_of_charges:
  assumes "runExecutiveMission C w = (Done r, w')" "aw_calls w = []" "aw_calls w' \<noteq> []"
  shows "\<exists>f q. getMissionFabric (md_mission_id (cx_mandate C)) (aw_db w) = Some f \<and> carried_cost C f = Some (Num q)
    \<and> (case rn_cost_usd r of
        None \<Rightarrow> spent (Some (Num q)) (aw_calls w') = None
      | Some t \<Rightarrow> \<exists>qs. map charge (aw_calls w') = map (\<lambda>x. Some (Num x)) qs \<and> (\<forall>x\<in>set qs. 0 \<le> x) \<and> t = Num (q + sum_list qs))"
  using assms(1)
proof (cases rule: run_cases)
  case (checked deadline f w1)
  with assms(2) checked_ends[OF checked(2)]
  have e: "calls_within (cx_mandate C) (carried_cost C f) (aw_calls w')" "rn_cost_usd r = spent (carried_cost C f) (aw_calls w')"
    by (simp_all add: at_rest_def ends_well_def in_step_def)
  with assms(3) obtain x where "carried_cost C f = Some x" using calls_carried by blast
  with carried_finite obtain q where q: "carried_cost C f = Some (Num q)" by blast
  show ?thesis
  proof (intro exI conjI)
    show "getMissionFabric (md_mission_id (cx_mandate C)) (aw_db w) = Some f"
      using checked(3) by (simp add: may_start_def Let_def)
    show "case rn_cost_usd r of
        None \<Rightarrow> spent (Some (Num q)) (aw_calls w') = None
      | Some t \<Rightarrow> \<exists>qs. map charge (aw_calls w') = map (\<lambda>x. Some (Num x)) qs \<and> (\<forall>x\<in>set qs. 0 \<le> x) \<and> t = Num (q + sum_list qs)"
      using e(2) spent_SomeD[of q "aw_calls w'"] by (auto simp: q split: option.split)
  qed (rule q)
qed (use assms in \<open>auto simp: at_rest_def\<close>)

text \<open>C33. The first adapter call whose cost is unknown is the last call of the run: the run stops
  there, reports no cost and is not complete.\<close>

theorem unknown_cost_stops_run:
  assumes "runExecutiveMission C w = (fl, w')" "aw_calls w = []" "i < length (aw_calls w')" "charge (aw_calls w' ! i) = None"
  shows "i = length (aw_calls w') - 1
    \<and> (case fl of Done r \<Rightarrow> rn_cost_usd r = None \<and> rn_status r \<noteq> RsComplete | _ \<Rightarrow> True)"
  using assms(1)
proof (cases rule: run_cases)
  case (checked deadline f w1)
  with assms(2) checked_ends[OF checked(2)]
  have e: "calls_within (cx_mandate C) (carried_cost C f) (aw_calls w')"
    "\<forall>r. fl = Done r \<longrightarrow> ends_well (cx_mandate C) (carried_cost C f) r (aw_calls w')" by (simp_all add: at_rest_def)
  have "\<not> Suc i < length (aw_calls w')"
  proof
    assume "Suc i < length (aw_calls w')"
    with e(1) have "call_within (cx_mandate C) (spent (carried_cost C f) (take (Suc i) (aw_calls w'))) (aw_calls w' ! Suc i)"
      by (simp add: calls_within_def)
    with call_within_known charge_None_spent[of i "take (Suc i) (aw_calls w')"] assms(3,4) show False by simp blast
  qed
  with e(2) charge_None_spent[OF assms(3,4)] assms(3) show ?thesis
    by (auto simp: ends_well_def in_step_def vetted_def split: flow.split)
qed (use assms in \<open>auto simp: at_rest_def\<close>)

text \<open>C15. A run only ends complete in two ways: it had already been completed and the recorded result
  is returned unchanged with no call made, or its last two calls are the verifier's and the acceptor's, both
  passed, on the same evidence, all the work before them succeeded and the total cost is known and within the
  mandate.\<close>

theorem complete_run_vetted:
  assumes "runExecutiveMission C w = (Done r, w')" "aw_calls w = []" "rn_status r = RsComplete"
  shows "aw_calls w' = [] \<and> aw_db w' = aw_db w \<and> completedExecutionRun (cx_L C) (cx_B C) (cx_mandate C) (aw_db w) = Some r
    \<or> (\<exists>cs evidence c codex assurance cost.
        aw_calls w' = cs @ [VerifyCall evidence c (Inr codex), AcceptCall codex evidence (Inr assurance)]
        \<and> list_all worked cs \<and> passed_verdict codex \<and> passed_verdict assurance
        \<and> rn_cost_usd r = Some cost \<and> \<not> js_less (md_max_cost_usd (cx_mandate C)) cost)"
  using assms(1)
proof (cases rule: run_cases)
  case (checked deadline f w1)
  with assms(2) checked_ends[OF checked(2)]
  have "ends_well (cx_mandate C) (carried_cost C f) r (aw_calls w')" by (simp add: at_rest_def)
  with assms(3) show ?thesis by (auto simp: ends_well_def in_step_def vetted_def)
qed (use assms in \<open>auto simp: at_rest_def\<close>)

end
