(* ===== verification/AutoRunnerDemo.thy ===== *)
theory AutoRunnerDemo imports AutoRunnerFacts begin

text \<open>
  Executive runs on a small development mandate: instances of the theorems of \<open>AutoRunnerFacts\<close>.
\<close>

definition demo_lib :: "unit lib" where
  "demo_lib =
    \<lparr>lib_sha256 = (\<lambda>_. ''h''), lib_verify = (\<lambda>_ _ _ _. True), lib_sign = (\<lambda>_ _ _. ''''), lib_keyId = (\<lambda>_. ''''),
     lib_isPrivate = (\<lambda>_. True), lib_dateParse = (\<lambda>s. if s = ''far'' then Num 90000 else Num 0),
     lib_iso = (\<lambda>_. ''t''), lib_numText = (\<lambda>_. ''1''), lib_forbidden = (\<lambda>_. None)\<rparr>"

definition demo_mac :: blib where
  "demo_mac = \<lparr>bl_hmac = (\<lambda>_ _. replicate 43 CHR ''A''), bl_b64 = id, bl_unb64 = id, bl_parse = (\<lambda>_. None), bl_number = (\<lambda>_. NaN)\<rparr>"

definition demo_mandate :: execution_mandate where
  "demo_mandate =
     \<lparr>md_authority_version = Some AUTHORITY_VERSION, md_authority_signature = Some (replicate 43 CHR ''A''),
      md_mandate_id = ''m1'', md_mission_id = ''m'', md_issued_by = ''merlin'', md_issued_by_key_id = ''key_0123456789ab'',
      md_objective_hash = ''h'', md_workspace_root = ''/w'', md_branch_prefix = ''b'', md_allowed_actions = [EditWorktree],
      md_denied_actions = [], md_max_cost_usd = Num 5, md_max_runtime_minutes = Num 1,
      md_max_fix_cycles = Num 1, md_issued_at = ''near'', md_expires_at = ''far'', md_recovery = None\<rparr>"

definition demo_task :: planned_assignment where
  "demo_task = \<lparr>pl_id = ''a1'', pl_instruction = ''do'', pl_actions = [EditWorktree]\<rparr>"

definition demo_answer :: "jsnum option \<Rightarrow> adapter_result" where
  "demo_answer cost = \<lparr>re_ok = True, re_summary = ''s'', re_evidence = [], re_artifacts = None, re_cost_usd = cost, re_effect_diagnostics = JUndefined\<rparr>"

definition demo_verdict :: verdict_result where
  "demo_verdict = \<lparr>vr_result = demo_answer (Some (Num 1)), vr_verdict_pass = True\<rparr>"

definition demo_env :: "jsnum option \<Rightarrow> auto_env" where
  "demo_env cost =
     \<lparr>en_now = (\<lambda>_. 0), en_stamp = (\<lambda>_. ''t''), en_timed_out = (\<lambda>_. False), en_aborted = (\<lambda>_. False), en_others = (\<lambda>_ db. db),
      en_plan = (\<lambda>_ _. Some [demo_task]), en_execute = (\<lambda>_ _ _. Inr (demo_answer cost)),
      en_verify = (\<lambda>_ _ _. Inr demo_verdict), en_accept = (\<lambda>_ _ _. Inr demo_verdict),
      en_collector = None, en_tests = None, en_verifier = None\<rparr>"

definition demo_ctx :: "jsnum option \<Rightarrow> unit auto_ctx" where
  "demo_ctx cost =
     \<lparr>cx_L = demo_lib, cx_B = demo_mac, cx_cl = id, cx_env = demo_env cost, cx_objective = ''o'', cx_workspaceRoot = ''/w'',
      cx_branch = ''b'', cx_mandate = demo_mandate, cx_key = replicate 32 CHR ''k''\<rparr>"

section \<open>Validation by tables\<close>

text \<open>An alarm can only start where its first letters are.\<close>

fun starts_alarm :: "string \<Rightarrow> bool" where
  "starts_alarm [] = False"
| "starts_alarm (c # cs) =
     (if c = CHR 0x22 then list_ex (\<lambda>n. prefix (n @ [CHR 0x22]) cs) secret_names
      else if c = CHR ''-'' then prefix ''----begin '' cs
      else if c = CHR ''b'' then prefix ''earer'' cs
      else if c = CHR ''g'' then prefix ''hp_'' cs
      else if c = CHR ''s'' then prefix ''k-'' cs
      else if c = CHR ''e'' then prefix ''yj'' cs
      else False)"

fun no_alarm :: "string \<Rightarrow> bool" where
  "no_alarm [] = True"
| "no_alarm (c # cs) = (if starts_alarm (c # cs) then False else no_alarm cs)"

lemma no_alarm_matches:
  assumes "no_alarm s" "\<And>after t. m after t \<Longrightarrow> starts_alarm t"
  shows "\<not> matches_in m after s"
  using assms(1)
proof (induction s arbitrary: after)
  case Nil
  then show ?case using assms(2)[of after "[]"] by auto
next
  case (Cons c cs)
  then have "\<not> starts_alarm (c # cs)" "no_alarm cs" by (metis no_alarm.simps(2))+
  with Cons.IH assms(2)[of after "c # cs"] show ?case by auto
qed

lemma starts_alarm_words:
  "prefix ''-----begin '' t \<or> prefix ''bearer'' t \<or> prefix ''ghp_'' t \<or> prefix ''sk-'' t \<or> prefix ''eyj'' t \<Longrightarrow> starts_alarm t"
  by (cases t) auto

lemma starts_alarm_names: "n \<in> set secret_names \<Longrightarrow> prefix (CHR 0x22 # n @ [CHR 0x22]) t \<Longrightarrow> starts_alarm t"
  by (cases t) (auto simp: list_ex_iff)

lemma no_alarm_clean: "no_alarm (lower s) \<Longrightarrow> \<not> credential_content s \<and> \<not> secret_field s"
  unfolding credential_content_def secret_field_def
  by (intro conjI no_alarm_matches)
    (auto simp: pem_at_def bearer_at_def key_at_def jwt_at_def Let_def list_ex_iff intro: starts_alarm_words starts_alarm_names)

definition quick_valid :: "fabric_actor \<Rightarrow> string \<Rightarrow> (string \<times> json) list \<Rightarrow> bool" where
  "quick_valid actor ty payload \<longleftrightarrow>
     ac_kind actor \<in> set allowed_actors \<and> ac_id actor \<noteq> [] \<and> length (ac_id actor) \<le> 120 \<and> ty \<in> set allowed_types
     \<and> (let t = render (JObj (store_entries payload)) in length t \<le> 16384 \<and> no_alarm (lower t))
     \<and> (case str_prop payload ''id'' of None \<Rightarrow> False | Some i \<Rightarrow> i \<noteq> [] \<and> length i \<le> 160 \<and> take 1 (lower i) \<notin> {''_'', ''p'', ''c''})"

lemma quick_validate: "quick_valid actor ty payload \<Longrightarrow> validateFabricInput actor ty payload = None"
  using no_alarm_clean[of "render (JObj (store_entries payload))"]
  by (auto simp: quick_valid_def validateFabricInput_def Let_def split: option.splits)

lemma to_lower_table:
  "to_lower (CHR ''a'') = CHR ''a''" "to_lower (CHR ''b'') = CHR ''b''" "to_lower (CHR ''c'') = CHR ''c''"
  "to_lower (CHR ''d'') = CHR ''d''" "to_lower (CHR ''e'') = CHR ''e''" "to_lower (CHR ''f'') = CHR ''f''"
  "to_lower (CHR ''g'') = CHR ''g''" "to_lower (CHR ''h'') = CHR ''h''" "to_lower (CHR ''i'') = CHR ''i''"
  "to_lower (CHR ''j'') = CHR ''j''" "to_lower (CHR ''k'') = CHR ''k''" "to_lower (CHR ''l'') = CHR ''l''"
  "to_lower (CHR ''m'') = CHR ''m''" "to_lower (CHR ''n'') = CHR ''n''" "to_lower (CHR ''o'') = CHR ''o''"
  "to_lower (CHR ''p'') = CHR ''p''" "to_lower (CHR ''q'') = CHR ''q''" "to_lower (CHR ''r'') = CHR ''r''"
  "to_lower (CHR ''s'') = CHR ''s''" "to_lower (CHR ''t'') = CHR ''t''" "to_lower (CHR ''u'') = CHR ''u''"
  "to_lower (CHR ''v'') = CHR ''v''" "to_lower (CHR ''w'') = CHR ''w''" "to_lower (CHR ''x'') = CHR ''x''"
  "to_lower (CHR ''y'') = CHR ''y''" "to_lower (CHR ''z'') = CHR ''z''" "to_lower (CHR ''0'') = CHR ''0''"
  "to_lower (CHR ''1'') = CHR ''1''" "to_lower (CHR ''2'') = CHR ''2''" "to_lower (CHR ''3'') = CHR ''3''"
  "to_lower (CHR ''4'') = CHR ''4''" "to_lower (CHR ''5'') = CHR ''5''" "to_lower (CHR ''6'') = CHR ''6''"
  "to_lower (CHR ''7'') = CHR ''7''" "to_lower (CHR ''8'') = CHR ''8''" "to_lower (CHR ''9'') = CHR ''9''"
  "to_lower (CHR ''_'') = CHR ''_''" "to_lower (CHR ''-'') = CHR ''-''" "to_lower (CHR '':'') = CHR '':''"
  "to_lower (CHR '','') = CHR '',''" "to_lower (CHR ''{'') = CHR ''{''" "to_lower (CHR ''}'') = CHR ''}''"
  "to_lower (CHR ''['') = CHR ''[''" "to_lower (CHR '']'') = CHR '']''" "to_lower (CHR ''.'') = CHR ''.''"
  "to_lower (CHR '' '') = CHR '' ''" "to_lower (CHR ''/'') = CHR ''/''"
  by (simp_all add: to_lower_def is_upper_def)

lemma esc_char_table:
  "esc_char (CHR ''a'') = [CHR ''a'']" "esc_char (CHR ''b'') = [CHR ''b'']" "esc_char (CHR ''c'') = [CHR ''c'']"
  "esc_char (CHR ''d'') = [CHR ''d'']" "esc_char (CHR ''e'') = [CHR ''e'']" "esc_char (CHR ''f'') = [CHR ''f'']"
  "esc_char (CHR ''g'') = [CHR ''g'']" "esc_char (CHR ''h'') = [CHR ''h'']" "esc_char (CHR ''i'') = [CHR ''i'']"
  "esc_char (CHR ''j'') = [CHR ''j'']" "esc_char (CHR ''k'') = [CHR ''k'']" "esc_char (CHR ''l'') = [CHR ''l'']"
  "esc_char (CHR ''m'') = [CHR ''m'']" "esc_char (CHR ''n'') = [CHR ''n'']" "esc_char (CHR ''o'') = [CHR ''o'']"
  "esc_char (CHR ''p'') = [CHR ''p'']" "esc_char (CHR ''q'') = [CHR ''q'']" "esc_char (CHR ''r'') = [CHR ''r'']"
  "esc_char (CHR ''s'') = [CHR ''s'']" "esc_char (CHR ''t'') = [CHR ''t'']" "esc_char (CHR ''u'') = [CHR ''u'']"
  "esc_char (CHR ''v'') = [CHR ''v'']" "esc_char (CHR ''w'') = [CHR ''w'']" "esc_char (CHR ''x'') = [CHR ''x'']"
  "esc_char (CHR ''y'') = [CHR ''y'']" "esc_char (CHR ''z'') = [CHR ''z'']" "esc_char (CHR ''0'') = [CHR ''0'']"
  "esc_char (CHR ''1'') = [CHR ''1'']" "esc_char (CHR ''2'') = [CHR ''2'']" "esc_char (CHR ''3'') = [CHR ''3'']"
  "esc_char (CHR ''4'') = [CHR ''4'']" "esc_char (CHR ''5'') = [CHR ''5'']" "esc_char (CHR ''6'') = [CHR ''6'']"
  "esc_char (CHR ''7'') = [CHR ''7'']" "esc_char (CHR ''8'') = [CHR ''8'']" "esc_char (CHR ''9'') = [CHR ''9'']"
  "esc_char (CHR ''_'') = [CHR ''_'']" "esc_char (CHR ''-'') = [CHR ''-'']" "esc_char (CHR '':'') = [CHR '':'']"
  "esc_char (CHR '','') = [CHR '','']" "esc_char (CHR ''{'') = [CHR ''{'']" "esc_char (CHR ''}'') = [CHR ''}'']"
  "esc_char (CHR ''['') = [CHR ''['']" "esc_char (CHR '']'') = [CHR '']'']" "esc_char (CHR ''.'') = [CHR ''.'']"
  "esc_char (CHR '' '') = [CHR '' '']" "esc_char (CHR ''/'') = [CHR ''/'']"
  by (simp_all add: esc_char_def)

lemma quote_lower: "to_lower (CHR 0x22) = CHR 0x22"
  by (simp add: to_lower_def is_upper_def)


lemmas text_tables = to_lower_table esc_char_table quote_lower

lemma store_undefined: "json_store v = JUndefined \<longleftrightarrow> v = JUndefined"
  by (cases v) auto

lemma store_idem:
  "json_store (json_store v) = json_store v"
  "store_items (store_items vs) = store_items vs"
  "store_entries (store_entries es) = store_entries es"
  by (induction v and vs and es rule: json_store_store_items_store_entries.induct) (auto simp: store_undefined)

section \<open>A world under a constant hash\<close>

type_synonym recorded = "fabric_actor \<times> string \<times> (string \<times> json) list"

definition demo_event :: "nat \<Rightarrow> recorded \<Rightarrow> fabric_event" where
  "demo_event i x = \<lparr>fe_event_id = ''mfe_h'', fe_sequence = int i + 1, fe_at = ''t'', fe_actor = fst x, fe_type = fst (snd x),
     fe_payload = store_entries (snd (snd x)), fe_previous_hash = (if i = 0 then None else Some ''h''), fe_event_hash = ''h''\<rparr>"

definition demo_fabric :: "recorded list \<Rightarrow> fabric_state" where
  "demo_fabric ts = \<lparr>fb_version = int (length ts), fb_event_head = (if ts = [] then None else Some ''h''),
     fb_events = map (\<lambda>(i, x). demo_event i x) (enumerate 0 ts)\<rparr>"

definition demo_row :: "recorded list \<Rightarrow> mission_row" where
  "demo_row ts = \<lparr>mr_mission_id = ''m'', mr_title = ''t'', mr_objective = ''o'', mr_status = MissionOpen,
     mr_operator_id = None, mr_state_json = stringify_state (emptyState\<lparr>st_fabric := demo_fabric ts\<rparr>), mr_requests_count = 0,
     mr_cost_usd = 0, mr_created_at = ''t'', mr_updated_at = ''t''\<rparr>"

definition demo_world :: "nat \<Rightarrow> recorded list \<Rightarrow> adapter_call list \<Rightarrow> auto_world" where
  "demo_world n ts cs = \<lparr>aw_tick = n, aw_db = [demo_row ts], aw_calls = cs\<rparr>"

lemma store_demo_event [simp]: "store_event (demo_event i x) = demo_event i x"
  by (simp add: store_event_def demo_event_def store_idem)

lemma store_demo_fabric [simp]: "map store_event (fb_events (demo_fabric ts)) = fb_events (demo_fabric ts)"
  by (auto simp: demo_fabric_def)

lemma parse_demo: "parseState (mr_state_json (demo_row ts)) = emptyState\<lparr>st_fabric := demo_fabric ts\<rparr>"
  by (simp add: demo_row_def parseState_def stringify_state_def emptyState_def)

lemma demo_fabric_valid: "verifyFabricState (\<lambda>_. ''h'') cl (demo_fabric ts) = \<lparr>fc_valid = True, fc_events = length ts, fc_broken_at = None\<rparr>"
proof -
  have "verify_events (\<lambda>_. ''h'') cl n (if n = 0 then None else Some ''h'') (map (\<lambda>(i, x). demo_event i x) (enumerate n ts))
      = Inr (if n + length ts = 0 then None else Some ''h'')" for n
  proof (induction ts arbitrary: n)
    case (Cons x ts)
    then show ?case using Cons.IH[of "Suc n"] by (simp add: demo_event_def)
  qed simp
  from this[of 0] show ?thesis
    by (cases "ts = []") (simp_all add: verifyFabricState_def demo_fabric_def Let_def)
qed

lemma demo_push:
  "row_update (\<lambda>r. mr_mission_id r = ''m'') (\<lambda>r. r\<lparr>mr_state_json := stringify_state
       (emptyState\<lparr>st_fabric := push_event (new_event (\<lambda>_. ''h'') cl (demo_fabric ts) ''t'' actor ty payload) (demo_fabric ts)\<rparr>),
       mr_updated_at := ''t''\<rparr>) [demo_row ts] = [demo_row (ts @ [(actor, ty, payload)])]"
proof -
  have "store_event (new_event (\<lambda>_. ''h'') cl (demo_fabric ts) ''t'' actor ty payload) = demo_event (length ts) (actor, ty, payload)"
    by (cases ts) (simp_all add: new_event_def demo_event_def store_event_def demo_fabric_def Let_def)
  then have "stringify_state (emptyState\<lparr>st_fabric := push_event (new_event (\<lambda>_. ''h'') cl (demo_fabric ts) ''t'' actor ty payload)
       (demo_fabric ts)\<rparr>) = stringify_state (emptyState\<lparr>st_fabric := demo_fabric (ts @ [(actor, ty, payload)])\<rparr>)"
    by (simp add: stringify_state_def push_event_def)
      (simp add: demo_fabric_def new_event_def enumerate_append_eq Let_def)
  then show ?thesis by (simp add: row_update_def demo_row_def)
qed

lemma demo_reads:
  "getMissionFabric ''m'' (aw_db (demo_world n ts cs)) = Some (projectMissionFabric (demo_fabric ts))"
  "verifyMissionFabric (\<lambda>_. ''h'') cl ''m'' (aw_db (demo_world n ts cs)) = Some \<lparr>fc_valid = True, fc_events = length ts, fc_broken_at = None\<rparr>"
  "aw_tick (demo_world n ts cs) = n" "aw_calls (demo_world n ts cs) = cs"
proof -
  have m: "getMission ''m'' [demo_row ts] = Some (mission_of (demo_row ts))"
    by (simp add: getMission_def) (simp add: demo_row_def)
  then show "getMissionFabric ''m'' (aw_db (demo_world n ts cs)) = Some (projectMissionFabric (demo_fabric ts))"
    "verifyMissionFabric (\<lambda>_. ''h'') cl ''m'' (aw_db (demo_world n ts cs)) = Some \<lparr>fc_valid = True, fc_events = length ts, fc_broken_at = None\<rparr>"
    by (simp_all add: getMissionFabric_def verifyMissionFabric_def demo_world_def mission_of_def parse_demo demo_fabric_valid)
qed (simp_all add: demo_world_def)

lemma demo_extends:
  assumes "quick_valid (fabric_actor_of actor) ty payload"
  shows "fabric_append (demo_ctx cost) ty payload actor (demo_world n ts cs) =
     (Go (), demo_world (n + 1) (ts @ [(fabric_actor_of actor, ty, payload)]) cs)"
proof -
  have "row_find mr_mission_id ''m'' [demo_row ts] = Some (demo_row ts)" by (simp add: demo_row_def)
  moreover have "pj_version (projectMissionFabric (demo_fabric ts)) = fb_version (demo_fabric ts)"
  proof -
    have "pj_version (fold project_event es p) = pj_version p" for es p
      by (induction es arbitrary: p) (simp_all add: project_event_def Let_def)
    then show ?thesis by (simp add: projectMissionFabric_def)
  qed
  ultimately show ?thesis
    using quick_validate[OF assms] demo_push[of id ts]
    by (simp add: fabric_append_def demo_ctx_def demo_mandate_def demo_lib_def demo_env_def demo_reads appendMissionFabricEvent_def
        parse_demo demo_fabric_valid)
      (simp add: demo_world_def parse_demo demo_fabric_valid Let_def)
qed

section \<open>A complete run\<close>

lemmas quick_eval = quick_valid_def lower_def to_lower_table esc_char_table quote_lower quote_def secret_names_def allowed_types_def
  allowed_actors_def str_prop_def prop_of_def nullish_def int_json_def int_text_def nat_text.simps num_json_def

lemma demo_fields:
  "cx_L (demo_ctx cost) = demo_lib" "cx_B (demo_ctx cost) = demo_mac" "cx_cl (demo_ctx cost) = id" "cx_env (demo_ctx cost) = demo_env cost"
  "cx_objective (demo_ctx cost) = ''o''" "cx_workspaceRoot (demo_ctx cost) = ''/w''" "cx_branch (demo_ctx cost) = ''b''"
  "cx_mandate (demo_ctx cost) = demo_mandate" "cx_key (demo_ctx cost) = replicate 32 CHR ''k''"
  "run_id_of (demo_ctx cost) = ''run_h''" "executionRunId demo_lib x = ''run_h''"
  by (simp_all add: demo_ctx_def run_id_of_def executionRunId_def demo_lib_def)

lemma demo_mandate_fields:
  "md_mission_id demo_mandate = ''m''" "md_mandate_id demo_mandate = ''m1''" "md_max_cost_usd demo_mandate = Num 5"
  "md_expires_at demo_mandate = ''far''" "md_max_runtime_minutes demo_mandate = Num 1" "md_issued_by_key_id demo_mandate = ''key_0123456789ab''"
  "actionPermitted demo_mandate a = (a = EditWorktree)"
  by (simp_all add: demo_mandate_def actionPermitted_def ALWAYS_DENIED_ACTIONS_def)

lemma demo_lib_fields:
  "lib_sha256 demo_lib = (\<lambda>_. ''h'')" "lib_dateParse demo_lib s = (if s = ''far'' then Num 90000 else Num 0)" "lib_iso demo_lib i = ''t''"
  "lib_numText demo_lib x = ''1''"
  by (simp_all add: demo_lib_def)

lemma demo_env_fields:
  "en_now (demo_env cost) = (\<lambda>_. 0)" "en_timed_out (demo_env cost) = (\<lambda>_. False)" "en_aborted (demo_env cost) = (\<lambda>_. False)"
  "en_others (demo_env cost) = (\<lambda>_ db. db)" "en_plan (demo_env cost) = (\<lambda>_ _. Some [demo_task])"
  "en_execute (demo_env cost) = (\<lambda>_ _ _. Inr (demo_answer cost))" "en_verify (demo_env cost) = (\<lambda>_ _ _. Inr demo_verdict)"
  "en_accept (demo_env cost) = (\<lambda>_ _ _. Inr demo_verdict)" "en_collector (demo_env cost) = None" "en_tests (demo_env cost) = None"
  "en_verifier (demo_env cost) = None"
  by (simp_all add: demo_env_def)

lemma demo_ask [simp]: "ask f (demo_world n ts cs) = (Go (f n), demo_world (n + 1) ts cs)"
  by (simp add: ask_def demo_world_def)

lemma demo_tick [simp]: "demo_world n ts cs\<lparr>aw_tick := k\<rparr> = demo_world k ts cs"
  by (simp add: demo_world_def)

lemma demo_await [simp]:
  "await_call (demo_env cost) f entry (demo_world n ts cs) = (Go (f n), demo_world (n + 1) ts (cs @ [entry (f n)]))"
  by (simp add: await_call_def demo_world_def demo_env_def Let_def)

lemma seq_Go: "m w = (Go a, w') \<Longrightarrow> seq m f w = f a w'"
  by (simp add: seq_def)

definition status_entries :: "automation_run \<Rightarrow> string \<Rightarrow> bool \<Rightarrow> (string \<times> json) list" where
  "status_entries run stage pending =
       [(''id'', JStr ''run_h''), (''run_id'', JStr ''run_h''), (''mission_id'', JStr ''m''),
        (''stage'', JStr stage), (''status'', JStr (status_name (rn_status run))),
        (''completed_assignments'', int_json (int (rn_completed_assignments run))),
        (''total_assignments'', int_json (int (rn_total_assignments run))),
        (''cost_usd'', case rn_cost_usd run of None \<Rightarrow> JNull | Some c \<Rightarrow> num_json demo_lib (nine_decimals c)),
        (''cost_basis'', JStr (if rn_cost_usd run \<noteq> None then ''runner_subtotal''
           else if pending then ''unknown_pending_dispatch'' else ''unknown_reconciliation_required'')),
        (''reason_code'', case rn_reason run of None \<Rightarrow> JNull | Some r \<Rightarrow> JStr r),
        (''updated_at'', JStr ''t'')]"

lemma demo_emit:
  assumes "quick_valid (fabric_actor_of actor) ''run.status_changed'' (status_entries run stage pending)"
  shows "emitStatus (demo_ctx cost) run stage actor pending (demo_world n ts cs) =
    (Go (), demo_world (Suc (Suc n)) (ts @ [(fabric_actor_of actor, ''run.status_changed'', status_entries run stage pending)]) cs)"
  unfolding emitStatus_def seq_reads demo_reads demo_tick demo_fields demo_env_fields demo_mandate_fields demo_lib_fields
  using demo_extends[OF assms, unfolded status_entries_def] unfolding status_entries_def by simp

lemma demo_checked:
  "runExecutiveMission (demo_ctx cost) (demo_world 0 [] []) =
     checked_run (demo_ctx cost) (Num 60000) (projectMissionFabric (demo_fabric [])) (demo_world 2 [] [])"
proof -
  have auth: "verifyMandateAuthority demo_lib demo_mac id demo_mandate (replicate 32 CHR ''k'')"
    by (simp add: verifyMandateAuthority_def demo_mandate_def demo_mac_def authority_signature_text_def
      AUTHORITY_VERSION_def utf8_length_def is_alnum_def is_upper_def list_all_iff sum_list_replicate)
  have valid: "validateMandate demo_lib demo_mandate \<lparr>mc_objective = ''o'', mc_workspaceRoot = ''/w'', mc_branch = ''b''\<rparr> 0 = None"
    by code_simp
  have none: "completedExecutionRun demo_lib demo_mac demo_mandate (aw_db (demo_world n [] cs)) = None" for n cs
    by (simp add: completedExecutionRun_def demo_mandate_fields demo_reads projectMissionFabric_def demo_fabric_def)
  show ?thesis
    using auth valid none
    by (simp add: runExecutiveMission_def admitted_run_def checked_run_def demo_fields demo_mandate_fields demo_lib_fields demo_env_fields
        demo_reads js_int_def timeout_accepted_def Let_def)
      (simp add: demo_world_def numeral_2_eq_2)
qed

lemma seq_seq: "seq (seq m f) g = seq m (\<lambda>a. seq (f a) g)"
  by (rule ext) (auto simp: seq_def split: flow.splits prod.splits)

lemma seq_go: "seq (go a) f = f a"
  by (rule ext) (simp add: seq_def go_def)

lemma seq_steps:
  "seq (go a) f w = f a w" "seq (done_with r) g w = (Done r, w)"
  by (simp_all add: seq_def go_def done_with_def)

lemma seq_demo_await: "seq (await_call (demo_env cost) h entry) f (demo_world n ts cs) = f (h n) (demo_world (Suc n) ts (cs @ [entry (h n)]))"
  by (simp add: seq_def)

lemma seq_demo_extends:
  "quick_valid (fabric_actor_of actor) ty payload \<Longrightarrow>
   seq (fabric_append (demo_ctx cost) ty payload actor) f (demo_world n ts cs) =
     f () (demo_world (Suc n) (ts @ [(fabric_actor_of actor, ty, payload)]) cs)"
  by (simp add: seq_def demo_extends)

lemma seq_demo_emit:
  "quick_valid (fabric_actor_of actor) ''run.status_changed'' (status_entries run stage pending) \<Longrightarrow>
   seq (emitStatus (demo_ctx cost) run stage actor pending) f (demo_world n ts cs) =
     f () (demo_world (Suc (Suc n)) (ts @ [(fabric_actor_of actor, ''run.status_changed'', status_entries run stage pending)]) cs)"
  by (simp add: seq_def demo_emit)

lemma seq_demo_fabric:
  "seq (fabric_now (demo_ctx cost)) f (demo_world n ts cs) = f (projectMissionFabric (demo_fabric ts)) (demo_world n ts cs)"
  by (simp add: fabric_now_def seq_seq demo_fields demo_mandate_fields demo_reads seq_steps)

lemma seq_demo_signals:
  "seq (cancelled (demo_ctx cost)) f (demo_world n ts cs) = f False (demo_world (Suc n) ts cs)"
  "seq (expired (demo_ctx cost) (Num 60000)) f (demo_world n ts cs) = f False (demo_world (Suc (Suc n)) ts cs)"
  by (simp_all add: cancelled_def expired_def demo_fields demo_env_fields seq_seq js_int_def seq_steps demo_reads)

definition demo_base :: automation_run where
  "demo_base = \<lparr>rn_run_id = ''run_h'', rn_mission_id = ''m'', rn_status = RsBlocked, rn_cost_usd = Some (Num 0),
     rn_completed_assignments = 0, rn_total_assignments = 0, rn_reason = None\<rparr>"

definition mandate_entry :: recorded where
  "mandate_entry = (fabric_actor_of KindLanggraph, ''checkpoint.created'',
     [(''id'', JStr ''run_h-mandate''), (''run_id'', JStr ''run_h''), (''mandate_id'', JStr ''m1''),
      (''issued_by_key_id'', JStr ''key_0123456789ab''), (''status'', JStr ''granted'')])"

lemma demo_claimed:
  "checked_run (demo_ctx cost) (Num 60000) (projectMissionFabric (demo_fabric [])) (demo_world 2 [] []) =
     executed_run (demo_ctx cost) (Num 60000) demo_base 0 (demo_world 4 [mandate_entry] [])"
proof -
  have empty: "pj_runs (projectMissionFabric (demo_fabric [])) = []" "pj_checkpoints (projectMissionFabric (demo_fabric [])) = []"
    "pj_failures (projectMissionFabric (demo_fabric [])) = []"
    by (simp_all add: projectMissionFabric_def demo_fabric_def)
  have cost: "carried_cost (demo_ctx cost) (projectMissionFabric (demo_fabric [])) = Some (Num 0)"
    by (simp add: carried_cost_def run_cost_def empty prior_entries_def stored_number_def prop_of_def demo_fields js_int_def)
  have base: "(base_run (demo_ctx cost))\<lparr>rn_cost_usd := Some (Num 0)\<rparr> = demo_base"
    by (simp add: base_run_def demo_base_def demo_fields demo_mandate_fields)
  have ok: "quick_valid (fabric_actor_of KindLanggraph) ''checkpoint.created'' (snd (snd mandate_entry))"
    by (simp add: mandate_entry_def quick_eval)
  show ?thesis
    using ok
    by (simp add: checked_run_def cost base claim_mandate_def empty demo_fields demo_mandate_fields mandate_entry_def seq_demo_extends
        seq_demo_signals eval_nat_numeral) (simp add: demo_base_def)
qed

definition plan_entries :: "recorded list" where
  "plan_entries =
     [(fabric_actor_of KindLanggraph, ''checkpoint.created'',
       [(''id'', JStr ''run_h-plan-0''), (''run_id'', JStr ''run_h''), (''plan_id'', JStr ''run_h-plan''), (''index'', JNum ''0''),
        (''assignment'', assignment_json demo_task)]),
      (fabric_actor_of KindLanggraph, ''checkpoint.created'',
       [(''id'', JStr ''run_h-plan''), (''run_id'', JStr ''run_h''), (''assignment_count'', JNum ''1''), (''status'', JStr ''complete'')])]"

definition running :: "automation_run_status \<Rightarrow> jsnum option \<Rightarrow> nat \<Rightarrow> string option \<Rightarrow> automation_run" where
  "running s c k why = \<lparr>rn_run_id = ''run_h'', rn_mission_id = ''m'', rn_status = s, rn_cost_usd = c, rn_completed_assignments = k,
     rn_total_assignments = 1, rn_reason = why\<rparr>"

lemma running_upd [simp]:
  "running s c k why\<lparr>rn_status := t\<rparr> = running t c k why" "running s c k why\<lparr>rn_cost_usd := d\<rparr> = running s d k why"
  "running s c k why\<lparr>rn_completed_assignments := j\<rparr> = running s c j why" "running s c k why\<lparr>rn_reason := y\<rparr> = running s c k y"
  "rn_cost_usd (running s c k why) = c" "rn_completed_assignments (running s c k why) = k" "rn_status (running s c k why) = s"
  by (simp_all add: running_def)

definition status_entry :: "fabric_kind \<Rightarrow> automation_run \<Rightarrow> string \<Rightarrow> bool \<Rightarrow> recorded" where
  "status_entry actor run stage pending = (fabric_actor_of actor, ''run.status_changed'', status_entries run stage pending)"

abbreviation planned_log :: "recorded list" where
  "planned_log \<equiv> mandate_entry # plan_entries"

lemma nat_text_01: "nat_text 0 = ''0''" "nat_text (Suc 0) = ''1''"
  by (simp_all add: nat_text.simps) code_simp+

lemma demo_planned:
  "executed_run (demo_ctx cost) (Num 60000) demo_base 0 (demo_world 4 [mandate_entry] []) =
     execute_plan (demo_ctx cost) (Num 60000) demo_base [demo_task] (demo_world 7 planned_log [PlanCall (Some [demo_task])])"
proof -
  have none: "storedPlan (planned_items demo_mac ''run_h'' (projectMissionFabric (demo_fabric [mandate_entry]))) = None"
    by (simp add: storedPlan_def planned_items_def projectMissionFabric_def demo_fabric_def project_event_def demo_event_def Let_def
        payload_is_def prop_of_def nullish_def mandate_entry_def)
  have ok: "quick_valid (fabric_actor_of KindLanggraph) ''checkpoint.created'' (snd (snd (plan_entries ! 0)))"
    "quick_valid (fabric_actor_of KindLanggraph) ''checkpoint.created'' (snd (snd (plan_entries ! 1)))"
    by (simp_all add: plan_entries_def quick_eval assignment_json_def demo_task_def)
  show ?thesis
    using ok
    by (simp add: executed_run_def planning_def seq_seq seq_demo_fabric none demo_fields demo_env_fields seq_demo_await
        record_plan_def plan_entries_def seq_demo_extends seq_steps int_json_def int_text_def nat_text_01 Let_def numeral_eq_Suc)
qed

definition started_log :: "recorded list" where
  "started_log = planned_log @ [status_entry KindLanggraph (running RsPlanned (Some (Num 0)) 0 None) ''langgraph'' False]"

lemma demo_started:
  "execute_plan (demo_ctx cost) (Num 60000) demo_base [demo_task] (demo_world n planned_log cs) =
     seq (run_assignment (demo_ctx cost) (Num 60000) demo_task \<lparr>rs_run = running RsPlanned (Some (Num 0)) 0 None, rs_claims = [], rs_artifacts = []\<rparr>)
       (vet_run (demo_ctx cost) (Num 60000))
       (demo_world (Suc (Suc n)) started_log cs)"
proof -
  have run: "demo_base\<lparr>rn_status := RsPlanned, rn_total_assignments := 1\<rparr> = running RsPlanned (Some (Num 0)) 0 None"
    by (simp add: demo_base_def running_def)
  have ok: "quick_valid (fabric_actor_of KindLanggraph) ''run.status_changed''
      (status_entries (running RsPlanned (Some (Num 0)) 0 None) ''langgraph'' False)"
    by (simp add: quick_eval status_entries_def running_def demo_lib_fields)
  show ?thesis
    using ok run by (simp add: execute_plan_def Let_def seq_demo_emit status_entry_def seq_seq seq_go started_log_def)
qed

lemma demo_task_fields: "pl_id demo_task = ''a1''" "pl_actions demo_task = [EditWorktree]" "pl_instruction demo_task = ''do''"
  by (simp_all add: demo_task_def)

definition upsert_entry :: recorded where
  "upsert_entry = (fabric_actor_of KindLanggraph, ''task.upserted'',
     [(''id'', JStr ''a1''), (''run_id'', JStr ''run_h''), (''assignee'', JStr ''openhands''), (''status'', JStr ''executing''),
      (''actions'', JArr [JStr ''edit_worktree''])])"

lemma demo_before:
  "seq (before_worker (demo_ctx cost) (Num 60000) (running s (Some (Num 0)) k why) demo_task) f (demo_world n ts cs) =
     f (Num 0) (demo_world (n + 3) ts cs)"
  by (simp add: before_worker_def seq_demo_signals demo_fields demo_mandate_fields demo_task_fields seq_seq seq_steps numeral_eq_Suc)

lemma seq_demo_status:
  assumes "quick_valid (fabric_actor_of actor) ''run.status_changed'' (status_entries run stage pending)"
  shows "seq (emitStatus (demo_ctx cost) run stage actor pending) f (demo_world n ts cs) =
     f () (demo_world (Suc (Suc n)) (ts @ [status_entry actor run stage pending]) cs)"
  using assms by (simp add: seq_demo_emit status_entry_def)

abbreviation called_tail :: "recorded list" where
  "called_tail \<equiv> [upsert_entry, status_entry KindOpenhands (running RsExecuting None 0 None) ''openhands'' True]"

lemma demo_called:
  "seq (call_worker (demo_ctx cost) (Num 60000) (running RsExecuting (Some (Num 0)) 0 None) demo_task (Num 0)) f (demo_world n ts cs) =
     f (running RsExecuting (addCost (Some (Num 0)) cost) 0 None, demo_answer cost)
       (demo_world (n + 4) (ts @ called_tail) (cs @ [ExecuteCall demo_task (Num 0) (Inr (demo_answer cost))]))"
proof -
  have ok: "quick_valid (fabric_actor_of KindLanggraph) ''task.upserted'' (snd (snd upsert_entry))"
    "quick_valid (fabric_actor_of KindOpenhands) ''run.status_changed'' (status_entries (running RsExecuting None 0 None) ''openhands'' True)"
    by (simp_all add: upsert_entry_def quick_eval status_entries_def running_def demo_lib_fields)
  show ?thesis
    using ok by (simp add: call_worker_def seq_seq seq_demo_extends seq_demo_status demo_fields demo_env_fields seq_demo_await seq_steps
        upsert_entry_def demo_task_fields numeral_eq_Suc demo_answer_def)
qed

abbreviation vetting :: automation_run where
  "vetting \<equiv> running RsExecuting (Some (Num 2)) (Suc 0) None"

definition done_entry :: recorded where
  "done_entry = (fabric_actor_of KindOpenhands, ''task.status_changed'',
     [(''id'', JStr ''a1''), (''run_id'', JStr ''run_h''), (''status'', JStr ''complete''), (''evidence'', JArr []), (''artifacts'', JArr [])])"

abbreviation worked_tail :: "recorded list" where
  "worked_tail \<equiv> called_tail @ [done_entry, status_entry KindOpenhands vetting ''openhands'' False]"

lemma demo_no_task: "map_of (pj_tasks (projectMissionFabric (demo_fabric started_log))) ''a1'' = None"
  by (simp add: projectMissionFabric_def demo_fabric_def project_event_def demo_event_def Let_def
        payload_is_def prop_of_def nullish_def started_log_def mandate_entry_def plan_entries_def status_entry_def status_entries_def)

lemma demo_completion:
  "seq (record_completion (demo_ctx cost) vetting demo_task (demo_answer c) []) f (demo_world n ts cs) =
     f () (demo_world (n + 3) (ts @ [done_entry, status_entry KindOpenhands vetting ''openhands'' False]) cs)"
proof -
  have "quick_valid (fabric_actor_of KindOpenhands) ''task.status_changed'' (snd (snd done_entry))"
    "quick_valid (fabric_actor_of KindOpenhands) ''run.status_changed'' (status_entries vetting ''openhands'' False)"
    by (simp_all add: done_entry_def quick_eval status_entries_def running_def demo_lib_fields)
  then show ?thesis
    by (simp add: record_completion_def seq_seq seq_steps seq_demo_extends seq_demo_status done_entry_def demo_answer_def demo_task_fields
        demo_fields numeral_eq_Suc)
qed

lemma demo_worked:
  assumes "map_of (pj_tasks (projectMissionFabric (demo_fabric ts))) ''a1'' = None"
  shows "seq (run_assignment (demo_ctx (Some (Num 2))) (Num 60000) demo_task
        \<lparr>rs_run = running RsPlanned (Some (Num 0)) 0 None, rs_claims = [], rs_artifacts = []\<rparr>) f (demo_world n ts cs) =
     (f :: run_state \<Rightarrow> 'a act) \<lparr>rs_run = vetting, rs_claims = [], rs_artifacts = []\<rparr>
       (demo_world (n + 10) (ts @ worked_tail) (cs @ [ExecuteCall demo_task (Num 0) (Inr (demo_answer (Some (Num 2))))]))"
proof -
  let ?C = "demo_ctx (Some (Num 2))" and ?ran = "running RsExecuting (Some (Num 2)) 0 None"
  have after: "seq (after_worker ?C ?ran demo_task (demo_answer (Some (Num 2)))) g w = g () w" for g :: "unit \<Rightarrow> 'a act" and w
    by (simp add: after_worker_def demo_answer_def seq_seq seq_steps first_occurrences_def demo_fields demo_mandate_fields)
  have evidence: "seq (local_evidence ?C (Num 60000) ?ran demo_task (demo_answer (Some (Num 2)))) g w = g ([], []) w"
    for g :: "string list \<times> json list \<Rightarrow> 'a act" and w
    by (simp add: local_evidence_def demo_fields demo_env_fields seq_seq seq_steps demo_task_fields demo_answer_def nullish_def)
  have claims: "re_evidence (demo_answer (Some (Num 2))) = []" by (simp add: demo_answer_def)
  show ?thesis
    by (simp add: run_assignment_def seq_seq seq_demo_fabric demo_task_fields assms demo_before demo_called seq_steps
        addCost_def js_int_def after evidence demo_completion claims Let_def demo_fields demo_env_fields numeral_eq_Suc)
qed


lemma demo_worker_lost:
  assumes "map_of (pj_tasks (projectMissionFabric (demo_fabric ts))) ''a1'' = None"
  shows "seq (run_assignment (demo_ctx None) (Num 60000) demo_task
        \<lparr>rs_run = running RsPlanned (Some (Num 0)) 0 None, rs_claims = [], rs_artifacts = []\<rparr>) f (demo_world n ts cs) =
     (Done (running RsBlocked None 0 (Some ''cost_accounting_unknown'')), demo_world (n + 9)
       (ts @ called_tail @ [status_entry KindOpenhands (running RsBlocked None 0 (Some ''cost_accounting_unknown'')) ''budget'' False])
       (cs @ [ExecuteCall demo_task (Num 0) (Inr (demo_answer None))]))"
proof -
  let ?C = "demo_ctx None" and ?ran = "running RsExecuting None 0 None"
    and ?lost = "running RsBlocked None 0 (Some ''cost_accounting_unknown'')"
  have ok: "quick_valid (fabric_actor_of KindOpenhands) ''run.status_changed'' (status_entries ?lost ''budget'' False)"
    by (simp add: quick_eval status_entries_def running_def demo_lib_fields)
  have after: "seq (after_worker ?C ?ran demo_task (demo_answer None)) g (demo_world i us ds)
      = (Done ?lost, demo_world (Suc (Suc i)) (us @ [status_entry KindOpenhands ?lost ''budget'' False]) ds)"
    for g :: "unit \<Rightarrow> 'a act" and i us ds
    using ok by (simp add: after_worker_def demo_answer_def seq_seq seq_steps first_occurrences_def demo_fields demo_mandate_fields
        cost_unknown_def terminal_def Let_def seq_demo_status)
  show ?thesis
    by (simp add: run_assignment_def seq_seq seq_demo_fabric demo_task_fields assms demo_before demo_called seq_steps
        addCost_def after Let_def demo_fields demo_env_fields numeral_eq_Suc)
qed

definition verdict_entry :: "fabric_kind \<Rightarrow> string \<Rightarrow> recorded" where
  "verdict_entry actor part = (fabric_actor_of actor, ''checkpoint.created'', verdict_entries (demo_ctx None) part demo_verdict)"

lemma verdict_entries_ctx: "verdict_entries (demo_ctx cost) part v = verdict_entries (demo_ctx None) part v"
  by (simp add: verdict_entries_def demo_fields)

lemma demo_verdict_fields:
  "vr_result demo_verdict = demo_answer (Some (Num 1))" "passed_verdict demo_verdict"
  "re_cost_usd (demo_answer c) = c" "re_evidence (demo_answer c) = []"
  by (simp_all add: demo_verdict_def passed_verdict_def demo_answer_def)

lemma demo_judge:
  assumes "part = ''-codex'' \<and> actor = KindCodex \<or> part = ''-victoria'' \<and> actor = KindAgent" "c \<le> 5"
  shows "seq (judge (demo_ctx cost) (running s (Some (Num c)) k why) demo_verdict part reason stage actor) f (demo_world n ts cs) =
     f () (demo_world (Suc n) (ts @ [verdict_entry actor part]) cs)"
proof -
  have "quick_valid (fabric_actor_of actor) ''checkpoint.created'' (verdict_entries (demo_ctx cost) part demo_verdict)"
    using assms(1) by (elim disjE; elim conjE)
      (simp_all add: verdict_entries_def quick_eval demo_fields demo_verdict_def demo_answer_def)
  then show ?thesis
    using assms(2) by (simp add: judge_def seq_seq seq_demo_extends seq_steps demo_fields demo_mandate_fields demo_verdict_fields
        verdict_entry_def verdict_entries_ctx[of cost])
qed


abbreviation demo_evidence :: verification_evidence where
  "demo_evidence \<equiv> \<lparr>ve_claims = [], ve_artifacts = []\<rparr>"

abbreviation vet_run_at :: "automation_run_status \<Rightarrow> rat \<Rightarrow> automation_run" where
  "vet_run_at s c \<equiv> running s (Some (Num c)) (Suc 0) None"

definition complete_run :: automation_run where
  "complete_run = vet_run_at RsComplete 4"

lemma demo_status_valid:
  "quick_valid (fabric_actor_of KindCodex) ''run.status_changed'' (status_entries (vet_run_at RsVerifying 2) ''codex'' False)"
  "quick_valid (fabric_actor_of KindCodex) ''run.status_changed'' (status_entries (running RsVerifying None (Suc 0) None) ''codex'' True)"
  "quick_valid (fabric_actor_of KindAgent) ''run.status_changed'' (status_entries (vet_run_at RsAssuring 3) ''assurance'' False)"
  "quick_valid (fabric_actor_of KindAgent) ''run.status_changed'' (status_entries (running RsAssuring None (Suc 0) None) ''assurance'' True)"
  "quick_valid (fabric_actor_of KindAgent) ''run.status_changed'' (status_entries complete_run ''complete'' False)"
  subgoal by (simp add: quick_eval status_entries_def running_def demo_lib_fields)
  subgoal by (simp add: quick_eval status_entries_def running_def demo_lib_fields)
  subgoal by (simp add: quick_eval status_entries_def running_def demo_lib_fields)
  subgoal by (simp add: quick_eval status_entries_def running_def demo_lib_fields)
  subgoal by (simp add: quick_eval status_entries_def running_def demo_lib_fields complete_run_def)
  done

lemma demo_verified:
  "seq (verify_run (demo_ctx cost) (Num 60000) \<lparr>rs_run = vetting, rs_claims = [], rs_artifacts = []\<rparr>) f (demo_world n ts cs) =
     f (vet_run_at RsVerifying 3, demo_verdict, demo_evidence) (demo_world (n + 8)
       (ts @ [status_entry KindCodex (vet_run_at RsVerifying 2) ''codex'' False,
              status_entry KindCodex (running RsVerifying None (Suc 0) None) ''codex'' True])
       (cs @ [VerifyCall demo_evidence (Num 2) (Inr demo_verdict)]))"
  using demo_status_valid(1,2)
  by (simp add: verify_run_def Let_def seq_seq seq_steps seq_demo_status seq_demo_signals demo_fields demo_mandate_fields demo_env_fields
      seq_demo_await addCost_def js_int_def demo_verdict_fields numeral_eq_Suc)

lemma demo_assured:
  "seq (assure_run (demo_ctx cost) (Num 60000) (vet_run_at RsAssuring 3) demo_verdict demo_evidence) f (demo_world n ts cs) =
     f (vet_run_at RsAssuring 4, demo_verdict) (demo_world (n + 7)
       (ts @ [status_entry KindAgent (vet_run_at RsAssuring 3) ''assurance'' False,
              status_entry KindAgent (running RsAssuring None (Suc 0) None) ''assurance'' True])
       (cs @ [AcceptCall demo_verdict demo_evidence (Inr demo_verdict)]))"
  using demo_status_valid(3,4)
  by (simp add: assure_run_def Let_def seq_seq seq_steps seq_demo_status seq_demo_signals demo_fields demo_mandate_fields demo_env_fields
      seq_demo_await addCost_def js_int_def demo_verdict_fields numeral_eq_Suc)


definition vetted_tail :: "recorded list" where
  "vetted_tail =
     [status_entry KindCodex (vet_run_at RsVerifying 2) ''codex'' False,
      status_entry KindCodex (running RsVerifying None (Suc 0) None) ''codex'' True,
      verdict_entry KindCodex ''-codex'',
      status_entry KindAgent (vet_run_at RsAssuring 3) ''assurance'' False,
      status_entry KindAgent (running RsAssuring None (Suc 0) None) ''assurance'' True,
      verdict_entry KindAgent ''-victoria'',
      status_entry KindAgent complete_run ''complete'' False]"

lemma demo_vetted:
  "vet_run (demo_ctx cost) (Num 60000) \<lparr>rs_run = vetting, rs_claims = [], rs_artifacts = []\<rparr> (demo_world n ts cs) =
     (Done complete_run, demo_world (n + 19) (ts @ vetted_tail)
       (cs @ [VerifyCall demo_evidence (Num 2) (Inr demo_verdict), AcceptCall demo_verdict demo_evidence (Inr demo_verdict)]))"
proof -
  have done_run: "vet_run_at RsAssuring 4\<lparr>rn_status := RsComplete, rn_reason := None\<rparr> = complete_run"
    by (simp add: complete_run_def)
  have ends: "terminal (demo_ctx cost) (vet_run_at RsAssuring 4) RsComplete None ''complete'' KindAgent (demo_world i us ds) =
      (Done complete_run, demo_world (Suc (Suc i)) (us @ [status_entry KindAgent complete_run ''complete'' False]) ds)" for i us ds
    using demo_status_valid(5) by (simp only: terminal_def done_run Let_def seq_demo_status seq_steps done_with_def)
  show ?thesis
    by (simp only: vet_run_def demo_verified prod.case demo_judge[of "''-codex''" KindCodex 3] running_upd demo_assured
        demo_judge[of "''-victoria''" KindAgent 4] ends vetted_tail_def append_assoc append.simps)
      (simp add: demo_judge demo_assured ends numeral_eq_Suc vetted_tail_def)
qed

definition complete_calls :: "adapter_call list" where
  "complete_calls =
     [PlanCall (Some [demo_task]), ExecuteCall demo_task (Num 0) (Inr (demo_answer (Some (Num 2)))),
      VerifyCall demo_evidence (Num 2) (Inr demo_verdict), AcceptCall demo_verdict demo_evidence (Inr demo_verdict)]"

text \<open>With every cost known the run is completed; with the worker's cost unknown it is blocked at once.\<close>

lemma demo_complete:
  "\<exists>n ts. runExecutiveMission (demo_ctx (Some (Num 2))) (demo_world 0 [] []) = (Done complete_run, demo_world n ts complete_calls)"
  unfolding demo_checked demo_claimed demo_planned demo_started demo_worked[OF demo_no_task] demo_vetted complete_calls_def append.simps
  by blast

definition blocked_run :: automation_run where
  "blocked_run = running RsBlocked None 0 (Some ''cost_accounting_unknown'')"

definition blocked_calls :: "adapter_call list" where
  "blocked_calls = [PlanCall (Some [demo_task]), ExecuteCall demo_task (Num 0) (Inr (demo_answer None))]"

lemma demo_blocked:
  "\<exists>n ts. runExecutiveMission (demo_ctx None) (demo_world 0 [] []) = (Done blocked_run, demo_world n ts blocked_calls)"
  unfolding demo_checked demo_claimed demo_planned demo_started demo_worker_lost[OF demo_no_task] blocked_run_def blocked_calls_def append.simps
  by blast


section \<open>Instances of the theorems of the run\<close>

lemma demo_start_calls: "aw_calls (demo_world 0 [] []) = []"
  by (simp add: demo_world_def)

lemma demo_carried: "carried_cost (demo_ctx cost) f = Some (Num q) \<Longrightarrow>
    getMissionFabric (md_mission_id (cx_mandate (demo_ctx cost))) (aw_db (demo_world 0 [] [])) = Some f \<Longrightarrow> q = 0"
  by (auto simp: demo_fields demo_mandate_fields demo_reads carried_cost_def run_cost_def projectMissionFabric_def demo_fabric_def
      prior_entries_def stored_number_def prop_of_def js_int_def)

theorem run_needs_authority_witness:
  "\<exists>f. may_start (demo_ctx (Some (Num 2))) f (aw_db (demo_world 0 [] []))"
  using demo_complete by (auto dest!: run_needs_authority simp: demo_reads complete_calls_def)

theorem run_calls_within_mandate_witness:
  "\<exists>f. call_within demo_mandate (spent (carried_cost (demo_ctx (Some (Num 2))) f) (take 2 complete_calls)) (complete_calls ! 2)"
proof -
  obtain n ts where r: "runExecutiveMission (demo_ctx (Some (Num 2))) (demo_world 0 [] []) = (Done complete_run, demo_world n ts complete_calls)"
    using demo_complete by blast
  show ?thesis
    using run_calls_within_mandate[OF r demo_start_calls, of 2] by (auto simp: demo_reads demo_fields complete_calls_def)
qed

theorem run_cost_is_sum_of_charges_witness:
  "\<exists>q qs. map charge complete_calls = map (\<lambda>x. Some (Num x)) qs \<and> (\<forall>x\<in>set qs. 0 \<le> x) \<and> 4 = q + sum_list qs"
proof -
  obtain n ts where r: "runExecutiveMission (demo_ctx (Some (Num 2))) (demo_world 0 [] []) = (Done complete_run, demo_world n ts complete_calls)"
    using demo_complete by blast
  have calls: "complete_calls \<noteq> []" by (simp add: complete_calls_def)
  show ?thesis
    using run_cost_is_sum_of_charges[OF r demo_start_calls] calls by (simp add: demo_reads(4) complete_run_def) blast
qed

theorem unknown_cost_stops_run_witness:
  "charge (blocked_calls ! 1) = None \<and> length blocked_calls = 2 \<and> rn_status blocked_run \<noteq> RsComplete"
proof -
  obtain n ts where r: "runExecutiveMission (demo_ctx None) (demo_world 0 [] []) = (Done blocked_run, demo_world n ts blocked_calls)"
    using demo_blocked by blast
  have c: "charge (blocked_calls ! 1) = None" by (simp add: blocked_calls_def demo_answer_def)
  show ?thesis
    using unknown_cost_stops_run[OF r demo_start_calls, of 1] c by (simp add: demo_reads blocked_calls_def)
qed

theorem complete_run_vetted_witness:
  "passed_verdict demo_verdict \<and> \<not> js_less (Num 5) (Num 4)"
proof -
  obtain n ts where r: "runExecutiveMission (demo_ctx (Some (Num 2))) (demo_world 0 [] []) = (Done complete_run, demo_world n ts complete_calls)"
    using demo_complete by blast
  show ?thesis
    using complete_run_vetted[OF r demo_start_calls]
    by (auto simp: demo_reads complete_run_def complete_calls_def demo_fields demo_mandate_fields Cons_eq_append_conv)
qed


end
