(* ===== verification/Regex.thy ===== *)
theory Regex imports MissionStore begin

text \<open>
  Regular expressions as ECMAScript matches them: ordered alternatives and greedy repetition with backtracking.
  \<open>ends r s i\<close> lists where a match of \<open>r\<close> that starts at \<open>i\<close> may end, in the order in which the matcher tries
  them, so that its head is the match that \<open>exec\<close> reports.  There are no captures and no lookaround.
\<close>

datatype regex =
    Cls "char \<Rightarrow> bool"
  | Nothing
  | Sq regex regex
  | Alt regex regex
  | Rep regex nat "nat option"
  | Boundary
  | LineStart
  | TextStart
  | TextEnd

text \<open>
  Greedy repetition from \<open>i\<close>, at least \<open>lo\<close> and at most \<open>hi\<close> times; beyond \<open>lo\<close> a repetition must consume.  The
  first argument bounds the number of repetitions.
\<close>

fun rep_ends :: "nat \<Rightarrow> nat \<Rightarrow> nat option \<Rightarrow> (nat \<Rightarrow> nat list) \<Rightarrow> nat \<Rightarrow> nat list" where
  "rep_ends 0 lo hi f i = (if lo = 0 then [i] else [])"
| "rep_ends (Suc n) lo hi f i =
     (if hi = Some 0 then [i]
      else if lo = 0
        then concat (map (rep_ends n 0 (map_option (\<lambda>h. h - 1) hi) f) (filter (\<lambda>j. j \<noteq> i) (f i))) @ [i]
      else concat (map (rep_ends n (lo - 1) (map_option (\<lambda>h. h - 1) hi) f) (f i)))"

definition word_at :: "string \<Rightarrow> nat \<Rightarrow> bool" where
  "word_at s i \<longleftrightarrow> i < length s \<and> word_char (s ! i)"

definition line_end :: "char \<Rightarrow> bool" where
  "line_end c \<longleftrightarrow> c = CHR 0x0A \<or> c = CHR 0x0D"

fun ends :: "regex \<Rightarrow> string \<Rightarrow> nat \<Rightarrow> nat list" where
  "ends (Cls p) s i = (if i < length s \<and> p (s ! i) then [i + 1] else [])"
| "ends Nothing s i = [i]"
| "ends (Sq a b) s i = concat (map (ends b s) (ends a s i))"
| "ends (Alt a b) s i = ends a s i @ ends b s i"
| "ends (Rep a lo hi) s i = rep_ends (lo + (length s - i)) lo hi (ends a s) i"
| "ends Boundary s i = (if (0 < i \<and> word_at s (i - 1)) \<noteq> word_at s i then [i] else [])"
| "ends LineStart s i = (if i = 0 \<or> line_end (s ! (i - 1)) then [i] else [])"
| "ends TextStart s i = (if i = 0 then [i] else [])"
| "ends TextEnd s i = (if i = length s then [i] else [])"

text \<open>The first match at or after \<open>k\<close>: where it starts and where it ends.\<close>

definition exec_from :: "regex \<Rightarrow> string \<Rightarrow> nat \<Rightarrow> (nat \<times> nat) option" where
  "exec_from r s k = map_option (\<lambda>i. (i, hd (ends r s i))) (find (\<lambda>i. ends r s i \<noteq> []) [k..<Suc (length s)])"

definition occurs :: "regex \<Rightarrow> string \<Rightarrow> bool" where
  "occurs r s \<longleftrightarrow> exec_from r s 0 \<noteq> None"

section \<open>Building patterns\<close>

definition lit :: "string \<Rightarrow> regex" where
  "lit t = foldr (\<lambda>c r. Sq (Cls (\<lambda>x. x = c)) r) t Nothing"

text \<open>A literal in lower case under the flag \<open>i\<close>.\<close>

definition lit_ci :: "string \<Rightarrow> regex" where
  "lit_ci t = foldr (\<lambda>c r. Sq (Cls (\<lambda>x. to_lower x = c)) r) t Nothing"

fun alts :: "regex list \<Rightarrow> regex" where
  "alts [] = Cls (\<lambda>_. False)"
| "alts [r] = r"
| "alts (r # rs) = Alt r (alts rs)"

fun sqs :: "regex list \<Rightarrow> regex" where
  "sqs [] = Nothing"
| "sqs [r] = r"
| "sqs (r # rs) = Sq r (sqs rs)"

abbreviation star :: "regex \<Rightarrow> regex" where "star r \<equiv> Rep r 0 None"
abbreviation plus1 :: "regex \<Rightarrow> regex" where "plus1 r \<equiv> Rep r 1 None"
abbreviation opt :: "regex \<Rightarrow> regex" where "opt r \<equiv> Rep r 0 (Some 1)"

definition spaces0 :: regex where "spaces0 = star (Cls is_space)"
definition spaces1 :: regex where "spaces1 = plus1 (Cls is_space)"

section \<open>Facts\<close>

text \<open>The ends of a repetition are reached by repeated matches of its body.\<close>

lemma rep_ends_bounds:
  assumes "\<And>k l. l \<in> set (f k) \<Longrightarrow> k \<le> n \<Longrightarrow> k \<le> l \<and> l \<le> n"
  shows "j \<in> set (rep_ends m lo hi f i) \<Longrightarrow> i \<le> n \<Longrightarrow> i \<le> j \<and> j \<le> n"
proof (induction m arbitrary: lo hi i)
  case (Suc m)
  then consider "j = i" | l lo' hi' where "l \<in> set (f i)" "j \<in> set (rep_ends m lo' hi' f l)"
    by (auto split: if_splits)
  then show ?case using Suc.prems(2) Suc.IH assms by cases (auto, meson order_trans)
qed (auto split: if_splits)

lemma ends_bounds: "j \<in> set (ends r s i) \<Longrightarrow> i \<le> length s \<Longrightarrow> i \<le> j \<and> j \<le> length s"
proof (induction r s i arbitrary: j rule: ends.induct)
  case (3 a b s i)
  then show ?case by (auto, meson order_trans)
next
  case (5 a lo hi s i)
  then show ?case using rep_ends_bounds[of "ends a s" "length s" j] by simp
qed (auto split: if_splits)

lemma exec_from_SomeD:
  assumes "exec_from r s k = Some (i, e)"
  shows "k \<le> i" "i \<le> e" "e \<le> length s" "e \<in> set (ends r s i)"
    "\<And>j. k \<le> j \<Longrightarrow> j < i \<Longrightarrow> ends r s j = []"
proof -
  from assms have f: "find (\<lambda>i. ends r s i \<noteq> []) [k..<Suc (length s)] = Some i" and e: "e = hd (ends r s i)"
    by (auto simp: exec_from_def simp del: upt_Suc)
  then obtain n where n: "n < length [k..<Suc (length s)]" "[k..<Suc (length s)] ! n = i" "ends r s i \<noteq> []"
    "\<forall>m<n. ends r s ([k..<Suc (length s)] ! m) = []"
    by (auto simp: find_Some_iff simp del: upt_Suc)
  then have i: "i = k + n" "i \<le> length s" by (auto simp del: upt_Suc)
  with n e show "k \<le> i" "e \<in> set (ends r s i)" by (auto simp del: upt_Suc)
  with ends_bounds[of e r s i] i show "i \<le> e" "e \<le> length s" by auto
  fix j assume "k \<le> j" "j < i"
  then obtain m where "j = k + m" "m < n" using i(1) by (auto simp: le_iff_add)
  with n(1,4) show "ends r s j = []" by (auto simp del: upt_Suc)
qed

lemma exec_from_None_iff: "exec_from r s k = None \<longleftrightarrow> (\<forall>i. k \<le> i \<and> i \<le> length s \<longrightarrow> ends r s i = [])"
  by (simp add: exec_from_def find_None_iff Suc_le_eq less_Suc_eq_le Ball_def del: upt_Suc) blast

section \<open>Every match of a global pattern\<close>

text \<open>The loop over \<open>exec\<close> with the flag \<open>g\<close>, which steps over an empty match.\<close>

function exec_all :: "regex \<Rightarrow> string \<Rightarrow> nat \<Rightarrow> (nat \<times> nat) list" where
  "exec_all r s k = (case exec_from r s k of None \<Rightarrow> [] | Some (i, e) \<Rightarrow> (i, e) # exec_all r s (if e \<le> i then i + 1 else e))"
  by pat_completeness auto

termination
proof (relation "measure (\<lambda>(r, s, k). Suc (length s) - k)")
  fix r s k p i e assume "exec_from r s k = Some p" "(i, e) = p"
  then have "exec_from r s k = Some (i, e)" by simp
  note exec_from_SomeD(1-3)[OF this]
  then show "((r, s, if e \<le> i then i + 1 else e), r, s, k) \<in> measure (\<lambda>(r, s, k). Suc (length s) - k)" by auto
qed simp

declare exec_all.simps [simp del]

text \<open>The loop passes over no position at which the pattern matches.\<close>

lemma exec_all_covers:
  assumes "i \<le> length s" "ends r s i \<noteq> []"
  shows "k \<le> i \<Longrightarrow> \<exists>(j, e) \<in> set (exec_all r s k). j \<le> i \<and> (i < e \<or> i = j) \<and> e \<in> set (ends r s j)"
proof (induction "Suc (length s) - k" arbitrary: k rule: less_induct)
  case less
  with assms have "exec_from r s k \<noteq> None" by (auto simp: exec_from_None_iff)
  then obtain j e where j: "exec_from r s k = Some (j, e)" by auto
  note J = exec_from_SomeD[OF j]
  let ?k = "if e \<le> j then j + 1 else e"
  have le: "j \<le> i" using J(5)[of i] less.prems assms(2) by (meson not_le)
  have step: "exec_all r s k = (j, e) # exec_all r s ?k" using j by (subst exec_all.simps) simp
  show ?case
  proof (cases "i < e \<or> i = j")
    case True
    with le J(4) step show ?thesis by auto
  next
    case False
    with le have "?k \<le> i" by auto
    moreover have "Suc (length s) - ?k < Suc (length s) - k" using J(1-3) by auto
    ultimately show ?thesis using less.hyps[of ?k] step by auto
  qed
qed

end
