(* ===== verification/WorkspaceEscape.thy ===== *)
theory WorkspaceEscape imports Regex ModelBudget begin

text \<open>
  The two allowances of the effect policy for a relative traversal, \<open>workspace-escape.ts\<close> and
  \<open>module-specifier-escape.ts\<close> under \<open>src/src/runtime/automation\<close>: the pattern operand of a search command, and a
  module specifier that stays inside the workspace.  Offsets are naturals; the code's tests for offsets that are
  no safe integers have no counterpart.
\<close>

section \<open>Search commands\<close>

definition GREP_VALUE_OPTIONS :: "string list" where
  "GREP_VALUE_OPTIONS =
     [''-e'', ''--regexp'', ''-f'', ''--file'', ''-m'', ''--max-count'', ''-A'', ''--after-context'',
      ''-B'', ''--before-context'', ''-C'', ''--context'', ''-D'', ''--devices'', ''-d'', ''--directories'',
      ''--exclude'', ''--exclude-dir'', ''--exclude-from'', ''--include'', ''--label'', ''--binary-files'',
      ''--color'', ''--colour'', ''--group-separator'', ''--ignore-dir'', ''--pager'']"

definition RIPGREP_VALUE_OPTIONS :: "string list" where
  "RIPGREP_VALUE_OPTIONS =
     [''-e'', ''--regexp'', ''-f'', ''--file'', ''-m'', ''--max-count'', ''-A'', ''--after-context'',
      ''-B'', ''--before-context'', ''-C'', ''--context'', ''-g'', ''--glob'', ''--iglob'',
      ''-t'', ''--type'', ''-T'', ''--type-not'', ''-r'', ''--replace'', ''--pre'', ''--sort'',
      ''-j'', ''--threads'', ''--ignore-file'', ''--path-separator'', ''-M'', ''--max-columns'',
      ''--max-filesize'', ''--context-separator'', ''--color'', ''--colors'', ''--engine'',
      ''--dfa-size-limit'', ''--regex-size-limit'', ''--field-match-separator'', ''--max-depth'']"

definition SEARCH_COMMANDS :: "(string \<times> string list) list" where
  "SEARCH_COMMANDS =
     [(''grep'', GREP_VALUE_OPTIONS), (''egrep'', GREP_VALUE_OPTIONS), (''fgrep'', GREP_VALUE_OPTIONS),
      (''zgrep'', GREP_VALUE_OPTIONS), (''ack'', GREP_VALUE_OPTIONS), (''ag'', GREP_VALUE_OPTIONS),
      (''rg'', RIPGREP_VALUE_OPTIONS), (''ripgrep'', RIPGREP_VALUE_OPTIONS)]"

definition PATTERN_OPTIONS :: "string list" where
  "PATTERN_OPTIONS = [''-e'', ''--regexp'']"

section \<open>Tokens\<close>

record token =
  tk_text :: string
  tk_start :: nat
  tk_end :: nat

text \<open>The state of the scan: commands so far, tokens of the current command, current token, its start, open quote.\<close>

record scan =
  sc_commands :: "token list list"
  sc_tokens :: "token list"
  sc_current :: string
  sc_start :: nat
  sc_quote :: "char option"

definition end_token :: "nat \<Rightarrow> scan \<Rightarrow> scan" where
  "end_token i s =
     (if sc_current s \<noteq> []
        then s\<lparr>sc_tokens := sc_tokens s @ [\<lparr>tk_text = sc_current s, tk_start = sc_start s, tk_end = i\<rparr>], sc_current := []\<rparr>
      else s)"

definition end_command :: "nat \<Rightarrow> scan \<Rightarrow> scan" where
  "end_command i s =
     (let s' = end_token i s
      in s'\<lparr>sc_commands := (if sc_tokens s' \<noteq> [] then sc_commands s' @ [sc_tokens s'] else sc_commands s'), sc_tokens := []\<rparr>)"

definition take_chars :: "nat \<Rightarrow> string \<Rightarrow> scan \<Rightarrow> scan" where
  "take_chars i cs s =
     s\<lparr>sc_current := sc_current s @ cs, sc_start := (if sc_current s = [] then i else sc_start s)\<rparr>"

text \<open>The scan of the rest of the text, which begins at \<open>i\<close>.\<close>

fun scan_from :: "nat \<Rightarrow> string \<Rightarrow> scan \<Rightarrow> scan" where
  "scan_from i [] s = end_command i s"
| "scan_from i (c # cs) s =
     (case sc_quote s of
        Some q \<Rightarrow> scan_from (i + 1) cs (s\<lparr>sc_current := sc_current s @ [c], sc_quote := (if c = q then None else Some q)\<rparr>)
      | None \<Rightarrow>
          if c = CHR 0x22 \<or> c = CHR 0x27 then scan_from (i + 1) cs ((take_chars i [c] s)\<lparr>sc_quote := Some c\<rparr>)
          else if c = CHR 0x5C \<and> cs \<noteq> [] then scan_from (i + 2) (tl cs) (take_chars i [c, hd cs] s)
          else if c \<in> {CHR '' '', CHR 0x09, CHR 0x0D} then scan_from (i + 1) cs (end_token i s)
          else if c = CHR 0x0A \<or> c = CHR '';'' then scan_from (i + 1) cs (end_command i s)
          else if c = CHR ''|'' \<or> c = CHR ''&'' then
            if cs \<noteq> [] \<and> hd cs = c then scan_from (i + 2) (tl cs) (end_command i s) else scan_from (i + 1) cs (end_command i s)
          else scan_from (i + 1) cs (take_chars i [c] s))"

definition tokenise :: "string \<Rightarrow> token list list" where
  "tokenise t = sc_commands (scan_from 0 t \<lparr>sc_commands = [], sc_tokens = [], sc_current = [], sc_start = 0, sc_quote = None\<rparr>)"

section \<open>The pattern operand\<close>

definition letter :: "char \<Rightarrow> bool" where
  "letter c \<longleftrightarrow> is_lower c \<or> is_upper c"

definition assignment_word :: regex where
  "assignment_word = sqs [TextStart, Cls (\<lambda>c. letter c \<or> c = CHR ''_''), star (Cls word_char), lit ''='']"

definition executable_tokens :: "token list \<Rightarrow> token list" where
  "executable_tokens ts = dropWhile (\<lambda>t. occurs assignment_word (tk_text t)) ts"

definition is_quote :: "char \<Rightarrow> bool" where
  "is_quote c \<longleftrightarrow> c = CHR 0x22 \<or> c = CHR 0x27"

definition unquote_ends :: "string \<Rightarrow> string" where
  "unquote_ends s =
     (let s' = (if s \<noteq> [] \<and> is_quote (hd s) then tl s else s)
      in if s' \<noteq> [] \<and> is_quote (last s') then butlast s' else s')"

definition baseName :: "string \<Rightarrow> string" where
  "baseName t = last (split_on (CHR ''/'') (unquote_ends t))"

definition inline_value :: regex where
  "inline_value = sqs [TextStart, lit ''-'', opt (lit ''-''), plus1 (Cls (\<lambda>c. is_alnum c \<or> c = CHR ''-'')), lit ''='']"

text \<open>The option name of \<open>--name=value\<close>.\<close>

definition inline_option :: "string \<Rightarrow> string option" where
  "inline_option t = map_option (\<lambda>(_, e). take (e - 1) t) (exec_from inline_value t 0)"

definition option_cluster :: regex where
  "option_cluster = sqs [TextStart, lit ''-'', Rep (Cls letter) 2 None, TextEnd]"

text \<open>The first operand or pattern value among the tokens after the command.\<close>

fun operand_from :: "string list \<Rightarrow> token list \<Rightarrow> token option" where
  "operand_from V [] = None"
| "operand_from V (t # ts) =
     (if tk_text t = ''--'' then (case ts of [] \<Rightarrow> None | u # _ \<Rightarrow> Some u)
      else if prefix ''-'' (tk_text t) \<and> 1 < length (tk_text t) then
        (case inline_option (tk_text t) of
           Some name \<Rightarrow> if name \<in> set PATTERN_OPTIONS then Some t else operand_from V ts
         | None \<Rightarrow>
             if tk_text t \<in> set V then
               (case ts of [] \<Rightarrow> None | u # us \<Rightarrow> if tk_text t \<in> set PATTERN_OPTIONS then Some u else operand_from V us)
             else if occurs option_cluster (tk_text t) \<and> list_ex (\<lambda>c. [CHR ''-'', c] \<in> set V) (tl (tk_text t)) then None
             else operand_from V ts)
      else Some t)"

definition patternOperand :: "token list \<Rightarrow> token option" where
  "patternOperand ts =
     (case executable_tokens ts of
        [] \<Rightarrow> None
      | x # xs \<Rightarrow>
          if baseName (tk_text x) = ''git'' then
            (case dropWhile (\<lambda>t. prefix ''-'' (tk_text t)) xs of
               [] \<Rightarrow> None
             | y # ys \<Rightarrow> if tk_text y \<noteq> ''grep'' then None else operand_from GREP_VALUE_OPTIONS ys)
          else (case map_of SEARCH_COMMANDS (baseName (tk_text x)) of None \<Rightarrow> None | Some V \<Rightarrow> operand_from V xs))"

definition spans :: "nat \<Rightarrow> token \<Rightarrow> bool" where
  "spans i t \<longleftrightarrow> tk_start t \<le> i \<and> i < tk_end t"

definition relativeEscapeIsSearchPattern :: "string \<Rightarrow> nat \<Rightarrow> bool" where
  "relativeEscapeIsSearchPattern s i =
     (if length s \<le> i then False
      else case find (\<lambda>ts. tk_start (hd ts) \<le> i \<and> i < tk_end (last ts)) (tokenise s) of
        None \<Rightarrow> False
      | Some ts \<Rightarrow> (case patternOperand ts of None \<Rightarrow> False | Some t \<Rightarrow> spans i t))"

section \<open>Module specifiers\<close>

definition AGENT_WORKSPACE_ROOT :: string where
  "AGENT_WORKSPACE_ROOT = ''/workspace/project''"

definition segment_first :: "char \<Rightarrow> bool" where
  "segment_first c \<longleftrightarrow> is_alnum c \<or> c = CHR ''_'' \<or> c = CHR ''@''"

definition segment_char :: "char \<Rightarrow> bool" where
  "segment_char c \<longleftrightarrow> segment_first c \<or> c = CHR ''.'' \<or> c = CHR ''-''"

definition path_segment :: "string \<Rightarrow> bool" where
  "path_segment s \<longleftrightarrow> s \<noteq> [] \<and> segment_first (hd s) \<and> list_all segment_char (tl s)"

text \<open>The path below the workspace root that a target names, or nothing when it is not under the root.\<close>

definition below_root :: "string \<Rightarrow> string option" where
  "below_root target =
     (if prefix ''/'' target then
        if prefix (AGENT_WORKSPACE_ROOT @ ''/'') target then Some (drop (length AGENT_WORKSPACE_ROOT + 1) target) else None
      else Some target)"

definition workspaceFileDepth :: "json \<Rightarrow> nat option" where
  "workspaceFileDepth v =
     (case v of
        JStr target \<Rightarrow>
          if target = [] \<or> 500 < length target then None
          else (case below_root target of
            None \<Rightarrow> None
          | Some r \<Rightarrow> let parts = split_on (CHR ''/'') r
                    in if \<not> list_all path_segment parts then None else Some (length parts - 1))
      | _ \<Rightarrow> None)"

definition IMPORT_PREFIX :: regex where
  "IMPORT_PREFIX =
     Sq (alts
       [sqs [Boundary, lit ''from'', spaces0],
        sqs [Boundary, lit ''require'', spaces0, lit ''('', spaces0],
        sqs [Boundary, lit ''import'', spaces0, lit ''('', spaces0],
        sqs [TextStart, spaces0, lit ''import'', spaces1],
        sqs [Boundary, lit ''export'', spaces1, lit ''*'', spaces1, lit ''from'', spaces0],
        sqs [Boundary, lit ''jest.'', alts (map lit [''mock'', ''doMock'', ''unmock'', ''requireActual'', ''requireMock'']),
             spaces0, lit ''('', spaces0]])
     TextEnd"

definition import_suffix :: regex where
  "import_suffix = sqs [TextStart, spaces0, alts [lit '')'', lit '';'', lit '','', TextEnd]]"

text \<open>The leading steps \<open>../\<close> of a specifier.  As a segment cannot begin with a dot they are group 1 of \<open>SPECIFIER\<close>.\<close>

fun leading_steps :: "string \<Rightarrow> nat" where
  "leading_steps (a # b # c # cs) = (if [a, b, c] = ''../'' then Suc (leading_steps cs) else 0)"
| "leading_steps _ = 0"

definition specifier_steps :: "string \<Rightarrow> nat option" where
  "specifier_steps s =
     (let n = leading_steps s
      in if 0 < n \<and> list_all path_segment (split_on (CHR ''/'') (drop (3 * n) s)) then Some n else None)"

definition not_newline :: "char \<Rightarrow> bool" where
  "not_newline c \<longleftrightarrow> c \<noteq> CHR 0x0A"

definition line_before :: "string \<Rightarrow> nat \<Rightarrow> string" where
  "line_before s i = rev (takeWhile not_newline (rev (take i s)))"

definition relativeEscapeIsContainedImport :: "string \<Rightarrow> nat \<Rightarrow> nat option \<Rightarrow> bool" where
  "relativeEscapeIsContainedImport s i depth =
     (case depth of
        None \<Rightarrow> False
      | Some d \<Rightarrow>
          if i < 1 \<or> length s \<le> i then False
          else let q = s ! (i - 1); rest = drop i s; line = takeWhile not_newline rest; spec = takeWhile (\<lambda>c. c \<noteq> q) rest
            in if \<not> is_quote q then False
               else if q \<notin> set rest \<or> length line < length spec then False
               else if \<not> occurs IMPORT_PREFIX (line_before s (i - 1)) then False
               else if \<not> occurs import_suffix (drop (length spec + 1) line) then False
               else (case specifier_steps spec of None \<Rightarrow> False | Some n \<Rightarrow> n \<le> d))"


end
