(* ===== verification/EffectPolicy.thy ===== *)
theory EffectPolicy imports WorkspaceEscape Diagnostics begin

text \<open>
  The scan of pending agent actions, \<open>evaluateOpenHandsEffects\<close> of
  \<open>src/src/runtime/automation/effect-policy.ts\<close>: which events are actions, the flattening of their strings, the
  rules in order with the two allowances for relative traversals, and the check of the allowed capabilities.
  Events are \<open>json\<close> values whose members are listed in enumeration order.
\<close>

section \<open>Pending actions\<close>

text \<open>\<open>String(v)\<close>.\<close>

fun js_text :: "json \<Rightarrow> string" and js_text_items :: "json list \<Rightarrow> string list" where
  "js_text JNull = ''null''"
| "js_text (JBool b) = (if b then ''true'' else ''false'')"
| "js_text (JNum t) = t"
| "js_text JNonFinite = ''NaN''"
| "js_text JUndefined = ''undefined''"
| "js_text (JStr s) = s"
| "js_text (JArr vs) = commas (js_text_items vs)"
| "js_text (JObj es) = ''[object Object]''"
| "js_text_items [] = []"
| "js_text_items (v # vs) = (if v = JNull \<or> v = JUndefined then [] else js_text v) # js_text_items vs"

definition event_items :: "json \<Rightarrow> json list" where
  "event_items v =
     (case v of
        JArr vs \<Rightarrow> vs
      | JObj _ \<Rightarrow> (case member_of v ''items'' of JArr vs \<Rightarrow> vs | _ \<Rightarrow> [])
      | _ \<Rightarrow> [])"

definition event_kind :: "json \<Rightarrow> string" where
  "event_kind v = lower (js_text (nullish_json (nullish_json (member_of v ''kind'') (member_of v ''type'')) (JStr '''')))"

definition has_text :: "string \<Rightarrow> string \<Rightarrow> bool" where
  "has_text s t = occurs (lit t) s"

definition is_action :: "json \<Rightarrow> bool" where
  "is_action v \<longleftrightarrow>
     (case v of JObj _ \<Rightarrow> True | JArr _ \<Rightarrow> True | _ \<Rightarrow> False)
     \<and> has_text (event_kind v) ''action'' \<and> \<not> has_text (event_kind v) ''observation''"

definition pending_actions :: "json \<Rightarrow> json list" where
  "pending_actions events = filter is_action (event_items events)"

section \<open>Segments\<close>

definition COMMAND_KEYS :: "string list" where
  "COMMAND_KEYS = [''command'', ''cmd'', ''code'', ''args'', ''argv'', ''script'', ''shell'', ''keystrokes'', ''entrypoint'']"

definition CONTENT_KEYS :: "string list" where
  "CONTENT_KEYS = [''content'', ''file_text'', ''new_str'', ''old_str'', ''text'', ''diff'', ''patch'', ''body'',
     ''thought'', ''message'', ''summary'']"

type_synonym segment = "string \<times> match_locus"

definition key_locus :: "string \<Rightarrow> match_locus \<Rightarrow> match_locus" where
  "key_locus k inherited =
     (if lower k \<in> set COMMAND_KEYS then CommandLocus else if lower k \<in> set CONTENT_KEYS then ContentLocus else inherited)"

definition scan_full :: "nat \<Rightarrow> segment list \<Rightarrow> bool" where
  "scan_full depth out \<longleftrightarrow> 8 < depth \<or> 500 < length out"

fun segments :: "json \<Rightarrow> match_locus \<Rightarrow> segment list \<Rightarrow> nat \<Rightarrow> segment list"
  and segments_items :: "json list \<Rightarrow> match_locus \<Rightarrow> segment list \<Rightarrow> nat \<Rightarrow> segment list"
  and segments_entries :: "(string \<times> json) list \<Rightarrow> match_locus \<Rightarrow> segment list \<Rightarrow> nat \<Rightarrow> segment list" where
  "segments (JStr s) l out d = (if scan_full d out then out else out @ [(s, l)])"
| "segments (JArr vs) l out d = (if scan_full d out then out else segments_items vs l out (d + 1))"
| "segments (JObj es) l out d = (if scan_full d out then out else segments_entries es l out (d + 1))"
| "segments v l out d = out"
| "segments_items [] l out d = out"
| "segments_items (v # vs) l out d = segments_items vs l (segments v l out d) d"
| "segments_entries [] l out d = out"
| "segments_entries ((k, v) # es) l out d = segments_entries es l (segments v (key_locus k l) out d) d"

fun scan_text :: "string list \<Rightarrow> string" where
  "scan_text [] = []"
| "scan_text [t] = t"
| "scan_text (t # u # ts) = t @ CHR 0x0A # scan_text (u # ts)"

text \<open>The segment that holds an index of the joined text, and the offset inside it; \<open>start\<close> is where \<open>parts\<close> begins.\<close>

fun segment_from :: "nat \<Rightarrow> segment list \<Rightarrow> nat \<Rightarrow> (segment \<times> nat) option" where
  "segment_from start [] i = None"
| "segment_from start (p # ps) i =
     (if start \<le> i \<and> i < start + length (fst p) then Some (p, i - start) else segment_from (start + length (fst p) + 1) ps i)"

definition segmentAt :: "segment list \<Rightarrow> nat \<Rightarrow> (segment \<times> nat) option" where
  "segmentAt parts i = segment_from 0 parts i"

fun locus_from :: "nat \<Rightarrow> match_locus option \<Rightarrow> segment list \<Rightarrow> nat \<Rightarrow> nat \<Rightarrow> match_locus option" where
  "locus_from start acc [] i stop = acc"
| "locus_from start acc (p # ps) i stop =
     (let fin = start + length (fst p); touched = (start < stop \<and> i < fin \<and> fst p \<noteq> [])
      in if touched \<and> acc \<noteq> None \<and> acc \<noteq> Some (snd p) then Some OtherLocus
         else let acc' = (if touched then Some (snd p) else acc)
              in if stop \<le> fin then acc' else locus_from (fin + 1) acc' ps i stop)"

text \<open>The locus of the span from \<open>i\<close> to \<open>stop\<close>.\<close>

definition locusAt :: "segment list \<Rightarrow> nat \<Rightarrow> nat \<Rightarrow> match_locus option" where
  "locusAt parts i stop = locus_from 0 None parts i stop"

section \<open>Rules\<close>

definition digits :: "nat \<Rightarrow> nat \<Rightarrow> regex" where
  "digits lo hi = Rep (Cls is_digit) lo (Some hi)"

definition octets :: "nat \<Rightarrow> regex" where
  "octets n = Rep (Sq (lit ''.'') (digits 1 3)) n (Some n)"

definition push_rule :: regex where
  "push_rule = sqs [Boundary, lit_ci ''git'', spaces1,
     star (sqs [lit ''-'', plus1 (Cls (\<lambda>c. \<not> is_space c)), spaces1]), lit_ci ''push'', Boundary]"

definition remote_rule :: regex where
  "remote_rule = sqs [Boundary, lit_ci ''git'', spaces1, lit_ci ''remote'', spaces1,
     alts (map lit_ci [''add'', ''set-url'', ''rename'', ''remove'']), Boundary]"

definition metadata_rule :: regex where
  "metadata_rule = alts (map lit_ci [''169.254.169.254'', ''metadata.google.internal'', ''100.100.100.200''])"

definition private_rule :: regex where
  "private_rule = sqs [opt (sqs [lit_ci ''http'', opt (lit_ci ''s''), lit ''://'']),
     alts [Sq (lit ''10'') (octets 3), Sq (lit ''127'') (octets 3), Sq (lit ''192.168'') (octets 2),
       sqs [lit ''172.'', alts [Sq (lit ''1'') (Cls (\<lambda>c. c \<in> set ''6789'')), Sq (lit ''2'') (Cls is_digit),
         Sq (lit ''3'') (Cls (\<lambda>c. c \<in> set ''01''))], octets 2]],
     Boundary]"

definition delimiter :: "char \<Rightarrow> bool" where
  "delimiter c \<longleftrightarrow> is_space c \<or> is_quote c \<or> c = CHR ''='' \<or> c = CHR '':''"

definition delimited_start :: regex where
  "delimited_start = Alt LineStart (Cls delimiter)"

definition absolute_rule :: regex where
  "absolute_rule = Sq delimited_start (alts
     ([lit ''~/''] @ map (\<lambda>d. Sq (lit_ci d) (Alt (lit ''/'') Boundary)) [''/etc'', ''/root'', ''/home'', ''/var/run'']
      @ [sqs [Cls letter, lit [CHR '':'', CHR 0x5C]]]))"

definition traversal_rule :: regex where
  "traversal_rule = Sq delimited_start (Alt (lit ''../'') (lit (''..'' @ [CHR 0x5C])))"

definition client_rule :: regex where
  "client_rule = sqs [Boundary, alts (map lit_ci [''curl'', ''wget'', ''ftp'', ''sftp'', ''scp'', ''ssh'', ''nc'', ''ncat'', ''telnet'',
     ''invoke-webrequest'', ''invoke-restmethod'']), Boundary]"

definition privilege_rule :: regex where
  "privilege_rule = sqs [Boundary, alts (map lit_ci [''sudo'', ''su'']), Boundary]"

definition destructive_rule :: regex where
  "destructive_rule = sqs [Boundary,
     alts (sqs [lit_ci ''rm'', spaces1, lit_ci ''-rf''] # map lit_ci [''mkfs'', ''shutdown'', ''reboot'', ''poweroff'']), Boundary]"

text \<open>The flag says whether every match is judged on its own.\<close>

definition effect_checks :: "(regex \<times> bool \<times> effect_rule) list" where
  "effect_checks =
     [(push_rule, False, GitPush), (remote_rule, False, GitRemote), (metadata_rule, False, CloudMetadata),
      (private_rule, False, PrivateNetwork), (absolute_rule, False, WorkspaceEscape), (traversal_rule, True, WorkspaceEscape),
      (client_rule, False, NetworkClient), (privilege_rule, False, PrivilegeEscalation), (destructive_rule, False, Destructive)]"

section \<open>The decision\<close>

record effect_decision =
  ef_allowed :: bool
  ef_reason :: string
  ef_diagnostics :: effect_diagnostics

definition diagnose :: "nat \<Rightarrow> effect_rule option \<Rightarrow> nat \<Rightarrow> nat option \<Rightarrow> match_locus option \<Rightarrow> effect_diagnostics" where
  "diagnose n rule chars index locus =
     \<lparr>ed_rule = rule, ed_scanned_actions = int n, ed_scanned_chars = int chars, ed_match_index = map_option int index,
      ed_match_locus = locus\<rparr>"

text \<open>The file a single pending write targets.\<close>

definition target_depth :: "json list \<Rightarrow> nat option" where
  "target_depth actions =
     (case actions of
        [only] \<Rightarrow>
          (let nested = member_of only ''action'';
               inner = (case nested of JObj _ \<Rightarrow> nested | JArr _ \<Rightarrow> nested | _ \<Rightarrow> only)
           in workspaceFileDepth (member_of inner ''path''))
      | _ \<Rightarrow> None)"

definition traversal_offset :: "string \<Rightarrow> nat \<Rightarrow> nat" where
  "traversal_offset t i = (if prefix ''..'' (drop i t) then i else i + 1)"

definition exempt :: "segment list \<Rightarrow> nat option \<Rightarrow> string \<Rightarrow> nat \<times> nat \<Rightarrow> bool" where
  "exempt parts depth t m =
     (case segmentAt parts (traversal_offset t (fst m)) of
        None \<Rightarrow> False
      | Some ((s, _), i) \<Rightarrow>
          locusAt parts (fst m) (snd m) = Some CommandLocus \<and> relativeEscapeIsSearchPattern s i
          \<or> locusAt parts (fst m) (snd m) = Some ContentLocus \<and> relativeEscapeIsContainedImport s i depth)"

text \<open>The match for which a rule refuses the text.\<close>

definition refused_match :: "segment list \<Rightarrow> nat option \<Rightarrow> string \<Rightarrow> regex \<Rightarrow> bool \<Rightarrow> (nat \<times> nat) option" where
  "refused_match parts depth t r every =
     (if every then find (\<lambda>m. \<not> exempt parts depth t m) (exec_all r t 0) else exec_from r t 0)"

fun first_refusal ::
  "segment list \<Rightarrow> nat option \<Rightarrow> string \<Rightarrow> (regex \<times> bool \<times> effect_rule) list \<Rightarrow> (effect_rule \<times> nat \<times> nat) option" where
  "first_refusal parts depth t [] = None"
| "first_refusal parts depth t ((r, every, rule) # cs) =
     (case refused_match parts depth t r every of Some m \<Rightarrow> Some (rule, m) | None \<Rightarrow> first_refusal parts depth t cs)"

definition CONSEQUENTIAL_ACTIONS :: "automation_action list" where
  "CONSEQUENTIAL_ACTIONS = [ExternalSend, SecretsRead, MainWrite, Push, Merge, Release, Deploy, FinancialAction, DestructiveAction]"

definition EFFECT_ACTIONS :: "automation_action list" where
  "EFFECT_ACTIONS = [ReadRepo, CreateBranch, EditWorktree, RunTests, CommitLocal, PrepareDraftPr]"

definition evaluateOpenHandsEffects :: "json \<Rightarrow> automation_action list \<Rightarrow> effect_decision" where
  "evaluateOpenHandsEffects events allowed =
     (let actions = pending_actions events; n = length actions; parts = segments (JArr actions) OtherLocus [] 0;
          t = scan_text (map fst parts);
          says = (\<lambda>ok why d. \<lparr>ef_allowed = ok, ef_reason = why, ef_diagnostics = d\<rparr>);
          plain = diagnose n None (length t) None None
      in if n < 1 then says False ''pending_action_missing'' (diagnose n None 0 None None)
         else if 128000 < length t then says False ''pending_action_oversized'' plain
         else case first_refusal parts (target_depth actions) t effect_checks of
           Some (rule, i, e) \<Rightarrow> says False (effect_rule_name rule) (diagnose n (Some rule) (length t) (Some i) (locusAt parts i e))
         | None \<Rightarrow>
             if list_ex (\<lambda>a. a \<in> set CONSEQUENTIAL_ACTIONS) allowed then says False ''consequential_capability_forbidden'' plain
             else if \<not> list_ex (\<lambda>a. a \<in> set EFFECT_ACTIONS) allowed then says False ''no_effect_capability'' plain
             else says True ''within_isolated_mandate'' plain)"

end
