(* ===== verification/EffectFacts.thy ===== *)
theory EffectFacts imports EffectPolicy begin

text \<open>
  Facts on the effect policy: what an allowed batch of actions cannot contain, where an exempted traversal sits, why
  an exempted import stays in the workspace, and that the diagnostics it emits satisfy their closed schema.
\<close>

section \<open>Segments of the scanned text\<close>

lemma length_scan_text: "length (scan_text ts) = sum_list (map length ts) + (length ts - 1)"
  by (induction ts rule: scan_text.induct) auto

lemma segment_fromD:
  "segment_from start ps k = Some (p, i) \<Longrightarrow> p \<in> set ps \<and> i < length (fst p) \<and> start \<le> k
     \<and> (\<exists>s. start \<le> s \<and> k = s + i \<and> i = k - s)"
  by (induction start ps k rule: segment_from.induct) (auto split: if_splits)

text \<open>Only the separators of the scanned text belong to no segment.\<close>

lemma segment_from_covers:
  assumes "k < length (scan_text (map fst ps))" "scan_text (map fst ps) ! k \<noteq> CHR 0x0A"
  shows "\<exists>p i. segment_from start ps (start + k) = Some (p, i) \<and> fst p ! i = scan_text (map fst ps) ! k"
  using assms
proof (induction ps arbitrary: start k)
  case (Cons p ps)
  show ?case
  proof (cases "k < length (fst p)")
    case True
    then show ?thesis by (cases ps) (auto simp: nth_append)
  next
    case False
    with Cons.prems obtain q qs where ps: "ps = q # qs" by (cases ps) auto
    have k: "scan_text (map fst (p # ps)) ! k = (CHR 0x0A # scan_text (map fst ps)) ! (k - length (fst p))"
      using False ps by (simp add: nth_append)
    with Cons.prems(2) False have ne: "length (fst p) < k"
      by (metis diff_is_0_eq le_neq_implies_less linorder_not_less nat_le_linear nth_Cons_0)
    define j where "j = k - Suc (length (fst p))"
    have j: "k = Suc (length (fst p)) + j" using ne by (simp add: j_def)
    with k have "scan_text (map fst (p # ps)) ! k = scan_text (map fst ps) ! j" by simp
    moreover have "j < length (scan_text (map fst ps))" using Cons.prems(1) j ps by simp
    ultimately show ?thesis using Cons.IH[of j "start + length (fst p) + 1"] Cons.prems(2) j by (auto simp: ac_simps)
  qed
qed simp

text \<open>A locus other than \<open>other\<close> is that of every segment the span touches.\<close>

lemma locus_from_acc: "locus_from start (Some a) ps i stop = Some l \<Longrightarrow> l \<noteq> OtherLocus \<Longrightarrow> l = a"
  by (induction start "Some a" ps i stop rule: locus_from.induct) (auto simp: Let_def split: if_splits)

lemma locus_from_segment:
  assumes "locus_from start acc ps i stop = Some l" "l \<noteq> OtherLocus" "segment_from start ps k = Some (p, off)" "i \<le> k" "k < stop"
  shows "snd p = l"
  using assms
proof (induction start acc ps i stop rule: locus_from.induct)
  case (2 start acc q ps i stop)
  show ?case
  proof (cases "start \<le> k \<and> k < start + length (fst q)")
    case True
    then have touched: "start < stop" "i < start + length (fst q)" "fst q \<noteq> []" "p = q" using 2(2-) by auto
    then show ?thesis using 2(2,3) by (auto simp: Let_def split: if_splits dest: locus_from_acc)
  next
    case False
    with 2(4) have rest: "segment_from (start + length (fst q) + 1) ps k = Some (p, off)" by (auto split: if_splits)
    with segment_fromD[OF this] 2(6) have "\<not> stop \<le> start + length (fst q)" by auto
    with 2 rest show ?thesis by (simp add: Let_def split: if_splits)
  qed
qed simp

lemma locus_from_covered:
  assumes "segment_from start ps k = Some (p, off)" "i \<le> k" "k < stop"
  shows "locus_from start acc ps i stop \<noteq> None"
  using assms
proof (induction start acc ps i stop rule: locus_from.induct)
  case (2 start acc q ps i stop)
  show ?case
  proof (cases "start \<le> k \<and> k < start + length (fst q)")
    case True
    then have "start < stop" "i < start + length (fst q)" "fst q \<noteq> []" using 2(2-) by auto
    moreover have "locus_from s (Some a) qs i stop \<noteq> None" for s a qs
      by (induction s "Some a" qs i stop rule: locus_from.induct) (auto simp: Let_def)
    ultimately show ?thesis by (auto simp: Let_def)
  next
    case False
    with 2(2) have rest: "segment_from (start + length (fst q) + 1) ps k = Some (p, off)" by (auto split: if_splits)
    with segment_fromD[OF this] 2(4) have "\<not> stop \<le> start + length (fst q)" by auto
    with 2 rest show ?thesis by (simp add: Let_def)
  qed
qed simp

section \<open>What an allowed batch cannot contain\<close>

definition scanned :: "json \<Rightarrow> segment list" where
  "scanned events = segments (JArr (pending_actions events)) OtherLocus [] 0"

lemma first_refusal_None_iff:
  "first_refusal parts depth t cs = None \<longleftrightarrow> (\<forall>(r, every, rule) \<in> set cs. refused_match parts depth t r every = None)"
  by (induction parts depth t cs rule: first_refusal.induct) (auto split: option.splits)

lemma allowed_cases:
  assumes "ef_allowed (evaluateOpenHandsEffects events allowed)"
  shows "pending_actions events \<noteq> []" "length (scan_text (map fst (scanned events))) \<le> 128000"
    "first_refusal (scanned events) (target_depth (pending_actions events)) (scan_text (map fst (scanned events))) effect_checks = None"
    "set allowed \<inter> set CONSEQUENTIAL_ACTIONS = {}" "set allowed \<inter> set EFFECT_ACTIONS \<noteq> {}"
  using assms unfolding evaluateOpenHandsEffects_def scanned_def[symmetric] Let_def
  by (auto simp: list_ex_iff split: if_splits option.splits prod.splits)

lemma ends_lit: "e \<in> set (ends (lit p) s i) \<longleftrightarrow> e = i + length p \<and> prefix p (drop i s)"
proof (induction p arbitrary: i)
  case Nil
  then show ?case by (simp add: lit_def)
next
  case (Cons c p)
  have "ends (lit (c # p)) s i = concat (map (ends (lit p) s) (ends (Cls (\<lambda>x. x = c)) s i))"
    by (simp add: lit_def)
  then show ?case using Cons.IH[of "Suc i"] by (cases "i < length s") (auto simp: Cons_nth_drop_Suc[symmetric] intro!: exI)
qed

definition traversal_text :: "string \<Rightarrow> bool" where
  "traversal_text s \<longleftrightarrow> prefix ''../'' s \<or> prefix (''..'' @ [CHR 0x5C]) s"

lemma not_delimiter: "c = CHR ''.'' \<or> c = CHR ''/'' \<or> c = CHR 0x5C \<Longrightarrow> \<not> delimiter c"
  by (auto simp: delimiter_def is_space_def is_quote_def)

lemma traversal_ends:
  "e \<in> set (ends traversal_rule t i) \<longleftrightarrow>
     ((i = 0 \<or> line_end (t ! (i - 1))) \<and> traversal_text (drop i t) \<and> e = i + 3)
     \<or> (i < length t \<and> delimiter (t ! i) \<and> traversal_text (drop (i + 1) t) \<and> e = i + 4)"
  unfolding traversal_rule_def delimited_start_def traversal_text_def by (auto simp: ends_lit split: if_splits)


text \<open>A match of the rule that reaches the character before a traversal is the match of that traversal.\<close>

lemma traversal_match:
  assumes "traversal_text (drop k t)" "k = 0 \<or> delimiter (t ! (k - 1))"
    "j \<le> k - 1" "k - 1 < e \<or> k - 1 = j" "e \<in> set (ends traversal_rule t j)"
  shows "traversal_offset t j = k \<and> k < e"
proof -
  have dots: "t ! l \<in> {CHR ''.'', CHR ''/'', CHR 0x5C}" if "traversal_text (drop m t)" "m \<le> l" "l < m + 3" for l m
  proof -
    have "\<exists>c u. drop m t = CHR ''.'' # CHR ''.'' # c # u \<and> (c = CHR ''/'' \<or> c = CHR 0x5C)"
      using that(1) by (auto simp: traversal_text_def prefix_def)
    then obtain c u where "drop m t = CHR ''.'' # CHR ''.'' # c # u" "c = CHR ''/'' \<or> c = CHR 0x5C" by blast
    moreover have "t ! l = drop m t ! (l - m)" using that(2) calculation(1) nth_drop[of m t "l - m"] by (cases "m \<le> length t") auto
    ultimately show ?thesis using that(2,3) by (auto simp: nth_Cons split: nat.splits)
  qed
  have delim: "k = 0 \<or> t ! (k - 1) \<notin> {CHR ''.'', CHR ''/'', CHR 0x5C}" using assms(2) not_delimiter by blast
  have at: "prefix ''..'' (drop m t)" if "traversal_text (drop m t)" for m
    using that by (auto simp: traversal_text_def prefix_def)
  from assms(5)[unfolded traversal_ends]
  consider "traversal_text (drop j t)" "e = j + 3"
    | "delimiter (t ! j)" "j < length t" "traversal_text (drop (j + 1) t)" "e = j + 4" by blast
  then show ?thesis
  proof cases
    case j: 1
    with dots[of j "k - 1"] delim assms(3,4) have "k = 0" by auto
    with assms(3) j at[of j] show ?thesis by (simp add: traversal_offset_def)
  next
    case j: 2
    have pos: "k \<noteq> 0"
    proof
      assume "k = 0"
      with dots[of 0 0] assms(1,3) not_delimiter[of "t ! 0"] j(1) show False by auto
    qed
    have "k - 1 = j"
    proof (rule ccontr)
      assume "k - 1 \<noteq> j"
      with assms(3,4) j(4) have "j + 1 \<le> k - 1" "k - 1 < j + 1 + 3" by auto
      from dots[OF j(3) this] delim pos show False by (simp only:) simp
    qed
    moreover have "\<not> prefix ''..'' (drop j t)"
      using j(2) not_delimiter[of "t ! j"] j(1) by (auto simp: Cons_nth_drop_Suc[symmetric] dest: sym)
    ultimately show ?thesis using pos j(4) by (auto simp: traversal_offset_def)
  qed
qed

text \<open>C16. When the effect policy admits a batch of pending actions, the batch is not empty and not
  oversized, no consequential capability is granted, the scanned text matches none of the rules on pushes,
  remotes, metadata services, private networks, absolute escapes, network clients, privilege escalation and
  destructive commands, and every relative traversal that begins a word of it, wherever it stands, is either
  in the pattern operand of a search command inside a command field or a contained import inside a content
  field: no exempt occurrence hides a later one.\<close>

theorem allowed_effects_clean:
  assumes "ef_allowed (evaluateOpenHandsEffects events allowed)"
  defines "parts \<equiv> scanned events" and "t \<equiv> scan_text (map fst (scanned events))"
  shows "pending_actions events \<noteq> [] \<and> length t \<le> 128000 \<and> set allowed \<inter> set CONSEQUENTIAL_ACTIONS = {}
    \<and> (\<forall>r \<in> {push_rule, remote_rule, metadata_rule, private_rule, absolute_rule, client_rule, privilege_rule, destructive_rule}.
         \<not> occurs r t)
    \<and> (\<forall>k. traversal_text (drop k t) \<and> (k = 0 \<or> delimiter (t ! (k - 1))) \<longrightarrow>
         (\<exists>s l i. segmentAt parts k = Some ((s, l), i)
            \<and> (l = CommandLocus \<and> relativeEscapeIsSearchPattern s i
               \<or> l = ContentLocus \<and> relativeEscapeIsContainedImport s i (target_depth (pending_actions events)))))"
proof -
  note A = allowed_cases[OF assms(1), folded t_def parts_def]
  note none = A(3)[unfolded first_refusal_None_iff]
  have once: "\<not> occurs r t"
    if "r \<in> {push_rule, remote_rule, metadata_rule, private_rule, absolute_rule, client_rule, privilege_rule, destructive_rule}" for r
    using none that by (auto simp: effect_checks_def refused_match_def occurs_def)
  have every: "exempt parts (target_depth (pending_actions events)) t m" if "m \<in> set (exec_all traversal_rule t 0)" for m
    using none that by (cases m) (auto simp: effect_checks_def refused_match_def find_None_iff)
  have "\<exists>s l i. segmentAt parts k = Some ((s, l), i)
            \<and> (l = CommandLocus \<and> relativeEscapeIsSearchPattern s i
               \<or> l = ContentLocus \<and> relativeEscapeIsContainedImport s i (target_depth (pending_actions events)))"
    if k: "traversal_text (drop k t)" "k = 0 \<or> delimiter (t ! (k - 1))" for k
  proof -
    have len: "k < length t" using k(1) by (auto simp: traversal_text_def prefix_def intro: ccontr)
    have "ends traversal_rule t (k - 1) \<noteq> []"
    proof -
      have "k + 3 \<in> set (ends traversal_rule t (k - 1))"
        using k len unfolding traversal_ends by (cases k) auto
      then show ?thesis by (metis empty_iff empty_set)
    qed
    then obtain j e where m: "(j, e) \<in> set (exec_all traversal_rule t 0)" "j \<le> k - 1" "k - 1 < e \<or> k - 1 = j"
      "e \<in> set (ends traversal_rule t j)"
      using exec_all_covers[of "k - 1" t traversal_rule 0] len by fastforce
    with traversal_match[OF k m(2-4)] every[OF m(1)] obtain s l i where
      seg: "segmentAt parts k = Some ((s, l), i)" and
      ex: "locusAt parts j e = Some CommandLocus \<and> relativeEscapeIsSearchPattern s i
         \<or> locusAt parts j e = Some ContentLocus \<and> relativeEscapeIsContainedImport s i (target_depth (pending_actions events))"
      and "j \<le> k" "k < e"
      by (auto simp: exempt_def split: option.splits)
    then have "l = L" if "locusAt parts j e = Some L" "L \<noteq> OtherLocus" for L
      using locus_from_segment[of 0 None parts j e L k "(s, l)" i] that by (simp add: locusAt_def segmentAt_def)
    with ex seg show ?thesis by auto
  qed
  with A once show ?thesis by blast
qed


section \<open>Imports stay in the workspace\<close>

text \<open>Resolving a path from a directory below the root, given as its reversed segments; above the root there is nothing.\<close>

fun walk_path :: "string list \<Rightarrow> string list \<Rightarrow> string list option" where
  "walk_path dir [] = Some (rev dir)"
| "walk_path dir (p # ps) =
     (if p = ''..'' then (case dir of [] \<Rightarrow> None | _ # up \<Rightarrow> walk_path up ps)
      else if p = ''.'' \<or> p = '''' then walk_path dir ps
      else walk_path (p # dir) ps)"

definition module_target :: "string \<Rightarrow> string \<Rightarrow> string list option" where
  "module_target target spec =
     (case below_root target of
        None \<Rightarrow> None
      | Some r \<Rightarrow> walk_path (rev (butlast (split_on (CHR ''/'') r))) (split_on (CHR ''/'') spec))"

lemma split_on_steps: "split_on (CHR ''/'') (''../'' @ s) = ''..'' # split_on (CHR ''/'') s"
  by simp

lemma path_segment_plain: "path_segment p \<Longrightarrow> p \<notin> {''..'', ''.'', ''''}"
  by (auto simp: path_segment_def segment_first_def is_alnum_def is_digit_def is_lower_def is_upper_def)

lemma walk_segments: "list_all path_segment ps \<Longrightarrow> walk_path dir ps = Some (rev dir @ ps)"
  by (induction dir ps rule: walk_path.induct) (auto dest: path_segment_plain)

lemma walk_steps:
  "leading_steps s \<le> length dir \<Longrightarrow>
   walk_path dir (split_on (CHR ''/'') s) = walk_path (drop (leading_steps s) dir) (split_on (CHR ''/'') (drop (3 * leading_steps s) s))"
proof (induction s arbitrary: dir rule: leading_steps.induct)
  case (1 a b c cs)
  show ?case
  proof (cases "[a, b, c] = ''../''")
    case True
    with 1(2) obtain d ds where dir: "dir = d # ds" by (cases dir) auto
    have "split_on (CHR ''/'') (a # b # c # cs) = ''..'' # split_on (CHR ''/'') cs"
      using True split_on_steps[of cs] by simp
    then show ?thesis using 1(1)[OF True, of ds] 1(2) True dir by (simp add: numeral_3_eq_3)
  next
    case False
    then have "leading_steps (a # b # c # cs) = 0" by simp
    then show ?thesis by (simp only: drop_0 mult_0_right)
  qed
qed simp_all

text \<open>C17. An import that the policy exempts inside the content written to a target file is a quoted
  specifier which, resolved step by step from the directory of that file, names a path below the workspace
  root and never climbs above it.\<close>

theorem contained_import_stays_inside:
  assumes "relativeEscapeIsContainedImport s i (workspaceFileDepth (JStr target))"
  shows "\<exists>q spec path. is_quote q \<and> prefix (q # spec @ [q]) (drop (i - 1) s) \<and> module_target target spec = Some path
    \<and> path \<noteq> [] \<and> list_all path_segment path"
proof -
  define q where "q = s ! (i - 1)"
  define spec where "spec = takeWhile (\<lambda>c. c \<noteq> q) (drop i s)"
  from assms obtain d n where d: "workspaceFileDepth (JStr target) = Some d" and i: "1 \<le> i" "i < length s" and q: "is_quote q" "q \<in> set (drop i s)"
    and n: "specifier_steps spec = Some n" "n \<le> d"
    by (auto simp: relativeEscapeIsContainedImport_def q_def spec_def Let_def split: option.splits if_splits)
  have quoted: "prefix (q # spec @ [q]) (drop (i - 1) s)"
  proof -
    have "drop (i - 1) s = q # drop i s"
      using i Cons_nth_drop_Suc[of "i - 1" s] by (simp add: q_def)
    moreover have "drop i s = spec @ q # tl (dropWhile (\<lambda>c. c \<noteq> q) (drop i s))"
      using q(2) takeWhile_dropWhile_id[of "\<lambda>c. c \<noteq> q" "drop i s"]
      by (metis (mono_tags, lifting) dropWhile_eq_Nil_conv hd_dropWhile list.collapse spec_def)
    ultimately show ?thesis by (metis append.assoc append_Cons append_Nil prefixI)
  qed
  from d obtain r where r: "below_root target = Some r" and segs: "list_all path_segment (split_on (CHR ''/'') r)"
    and dl: "d = length (split_on (CHR ''/'') r) - 1"
    by (auto simp: workspaceFileDepth_def Let_def split: option.splits if_splits)
  let ?dir = "rev (butlast (split_on (CHR ''/'') r))" and ?rest = "split_on (CHR ''/'') (drop (3 * n) spec)"
  from n have steps: "n = leading_steps spec" "list_all path_segment ?rest"
    by (auto simp: specifier_steps_def Let_def split: if_splits)
  have "walk_path ?dir (split_on (CHR ''/'') spec) = Some (rev (drop n ?dir) @ ?rest)"
    using walk_steps[of spec ?dir] steps n(2) dl walk_segments[OF steps(2)] by simp
  then have "module_target target spec = Some (rev (drop n ?dir) @ ?rest)"
    using r by (simp add: module_target_def)
  moreover have "?rest \<noteq> []" by (cases "drop (3 * n) spec") (auto split: list.splits)
  moreover have "list_all path_segment (rev (drop n ?dir))"
    using segs by (auto simp: list_all_iff dest!: in_set_dropD in_set_butlastD)
  ultimately show ?thesis using q(1) quoted steps(2) by (intro exI[of _ q] exI[of _ spec] exI[of _ "rev (drop n ?dir) @ ?rest"]) simp
qed


section \<open>Tokens are pieces of the text\<close>

definition token_ok :: "string \<Rightarrow> token \<Rightarrow> bool" where
  "token_ok t k \<longleftrightarrow> tk_start k < tk_end k \<and> tk_end k \<le> length t \<and> tk_text k = take (tk_end k - tk_start k) (drop (tk_start k) t)"

text \<open>Pieces of the text in order, apart from each other, all before \<open>b\<close>.\<close>

definition tiles :: "string \<Rightarrow> nat \<Rightarrow> token list \<Rightarrow> bool" where
  "tiles t b ks \<longleftrightarrow> list_all (token_ok t) ks \<and> sorted_wrt (\<lambda>x y. tk_end x \<le> tk_start y) ks \<and> (\<forall>k\<in>set ks. tk_end k \<le> b)"

lemma tiles_mono: "tiles t b ks \<Longrightarrow> b \<le> c \<Longrightarrow> tiles t c ks"
  by (auto simp: tiles_def intro: le_trans)

lemma tiles_snoc: "tiles t (tk_start k) ks \<Longrightarrow> token_ok t k \<Longrightarrow> tiles t (tk_end k) (ks @ [k])"
  by (auto simp: tiles_def sorted_wrt_append token_ok_def intro: le_trans less_imp_le)

definition scanned_tokens :: "scan \<Rightarrow> token list" where
  "scanned_tokens s = concat (sc_commands s) @ sc_tokens s"

definition scan_ok :: "string \<Rightarrow> nat \<Rightarrow> scan \<Rightarrow> bool" where
  "scan_ok t i s \<longleftrightarrow>
     i \<le> length t \<and> [] \<notin> set (sc_commands s)
     \<and> (if sc_current s = [] then tiles t i (scanned_tokens s)
        else tiles t (sc_start s) (scanned_tokens s) \<and> sc_start s < i
          \<and> sc_current s = take (i - sc_start s) (drop (sc_start s) t))"

lemma scan_ok_later: "scan_ok t i s \<Longrightarrow> sc_current s = [] \<Longrightarrow> i \<le> j \<Longrightarrow> j \<le> length t \<Longrightarrow> scan_ok t j s"
  by (auto simp: scan_ok_def intro: tiles_mono)

lemma scan_ok_quote [simp]: "scan_ok t i (s\<lparr>sc_quote := q\<rparr>) = scan_ok t i s"
  by (simp add: scan_ok_def scanned_tokens_def)

lemma end_token_ok: "scan_ok t i s \<Longrightarrow> scan_ok t i (end_token i s) \<and> sc_current (end_token i s) = []"
proof (cases "sc_current s = []")
  case False
  let ?k = "\<lparr>tk_text = sc_current s, tk_start = sc_start s, tk_end = i\<rparr>"
  assume ok: "scan_ok t i s"
  with False have "tiles t (tk_end ?k) (scanned_tokens s @ [?k])"
    by (intro tiles_snoc) (auto simp: scan_ok_def token_ok_def)
  with ok False show ?thesis by (simp add: scan_ok_def end_token_def scanned_tokens_def)
qed (simp add: end_token_def)

lemma end_command_ok:
  "scan_ok t i s \<Longrightarrow> scan_ok t i (end_command i s) \<and> sc_current (end_command i s) = [] \<and> sc_tokens (end_command i s) = []"
  using end_token_ok[of t i s] by (auto simp: scan_ok_def end_command_def scanned_tokens_def Let_def)

lemma take_chars_ok:
  assumes "scan_ok t i s" "drop i t = cs @ r" "cs \<noteq> []"
  shows "scan_ok t (i + length cs) (take_chars i cs s) \<and> sc_current (take_chars i cs s) \<noteq> []"
proof -
  have "length (drop i t) = length cs + length r" using assms(2) by simp
  then have len: "i + length cs \<le> length t" using assms(3) by (cases cs) auto
  have piece: "take (i + length cs - b) (drop b t) = take (i - b) (drop b t) @ cs" if "b \<le> i" for b
  proof -
    have "i + length cs - b = (i - b) + length cs" using that by simp
    then show ?thesis using assms(2) that by (simp only: take_add drop_drop) simp
  qed
  show ?thesis
    using assms(1,3) len piece[of "sc_start s"] piece[of i]
    by (auto simp: scan_ok_def take_chars_def scanned_tokens_def)
qed

definition scan_done :: "string \<Rightarrow> scan \<Rightarrow> bool" where
  "scan_done t s \<longleftrightarrow> scan_ok t (length t) s \<and> sc_current s = [] \<and> sc_tokens s = []"

lemma scan_done_if:
  "(b \<Longrightarrow> scan_done t u) \<Longrightarrow> (\<not> b \<Longrightarrow> scan_done t v) \<Longrightarrow> scan_done t (if b then u else v)"
  by simp

lemma scan_from_ok:
  "drop i t = cs \<Longrightarrow> scan_ok t i s \<Longrightarrow> (sc_quote s \<noteq> None \<Longrightarrow> sc_current s \<noteq> []) \<Longrightarrow> scan_done t (scan_from i cs s)"
proof (induction cs arbitrary: i s rule: length_induct)
  case (1 cs)
  have IH: "scan_done t (scan_from j r u)"
    if "length r < length cs" "drop j t = r" "scan_ok t j u" "sc_quote u = None \<or> sc_current u \<noteq> []" for j r u
    using "1.IH" that by blast
  show ?case
  proof (cases cs)
    case Nil
    with "1.prems" have "i = length t" by (simp add: scan_ok_def)
    with "1.prems" Nil end_command_ok show ?thesis by (simp add: scan_done_def)
  next
    case (Cons c r)
    have "length (drop i t) = Suc (length r)" using "1.prems"(1) Cons by (metis length_Cons)
    then have le: "i < length t" by simp
    have next1: "drop (i + 1) t = r" using "1.prems"(1) Cons by (simp add: drop_Suc flip: tl_drop)
    have next2: "drop (i + 2) t = tl r" using next1 by (simp add: drop_Suc flip: tl_drop)
    have pair: "r \<noteq> [] \<Longrightarrow> i + 2 \<le> length t \<and> drop i t = [c, hd r] @ tl r"
      using "1.prems"(1) Cons next1 by (cases r) (auto dest: arg_cong[where f = length])
    note one = take_chars_ok[OF "1.prems"(2), of "[c]" r] and two = take_chars_ok[OF "1.prems"(2), of "[c, hd r]" "tl r"]
    note ended = end_token_ok[OF "1.prems"(2)] end_command_ok[OF "1.prems"(2)]
    show ?thesis
    proof (cases "sc_quote s")
      case (Some q)
      with "1.prems" have "sc_current s \<noteq> []" by simp
      with one "1.prems"(1) Cons have "scan_ok t (i + 1) (s\<lparr>sc_current := sc_current s @ [c]\<rparr>)"
        by (simp add: take_chars_def)
      then show ?thesis using Some Cons IH[of r "i + 1"] next1 by simp
    next
      case None
      have quotes: "sc_quote (end_token i s) = None" "sc_quote (end_command i s) = None" "sc_quote (take_chars i x s) = None" for x
        using None by (simp_all add: end_token_def end_command_def take_chars_def Let_def)
      have steps: "scan_done t (scan_from (i + 1) r ((take_chars i [c] s)\<lparr>sc_quote := Some c\<rparr>))"
        "scan_done t (scan_from (i + 1) r (take_chars i [c] s))"
        "scan_done t (scan_from (i + 1) r (end_token i s))" "scan_done t (scan_from (i + 1) r (end_command i s))"
        using one ended "1.prems"(1) Cons next1 le quotes scan_ok_later[of t i _ "i + 1"] by (auto intro!: IH)
      have jumps: "scan_done t (scan_from (i + 2) (tl r) (take_chars i [c, hd r] s))"
        "scan_done t (scan_from (i + 2) (tl r) (end_command i s))" if "r \<noteq> []"
        using two ended Cons next2 pair[OF that] quotes scan_ok_later[of t i _ "i + 2"] that by (auto intro!: IH)
      show ?thesis
        unfolding Cons scan_from.simps None option.case by (intro scan_done_if; (rule steps | (rule jumps, blast)))
    qed
  qed
qed

lemma scan_doneD: "scan_done t s \<Longrightarrow> tiles t (length t) (concat (sc_commands s)) \<and> [] \<notin> set (sc_commands s)"
  by (auto simp: scan_done_def scan_ok_def scanned_tokens_def)

text \<open>The tokens that the workspace analysis cuts a command line into are, in order, nonempty
  pieces of the text at the spans they report and do not overlap, and every command it finds has a
  token.\<close>

theorem tokens_tile_text:
  "tiles t (length t) (concat (tokenise t)) \<and> [] \<notin> set (tokenise t)"
proof -
  have "scan_done t (scan_from 0 t \<lparr>sc_commands = [], sc_tokens = [], sc_current = [], sc_start = 0, sc_quote = None\<rparr>)"
    by (rule scan_from_ok) (simp_all add: scan_ok_def scanned_tokens_def tiles_def)
  then show ?thesis unfolding tokenise_def by (rule scan_doneD)
qed

lemma operand_from_in: "operand_from V ts = Some k \<Longrightarrow> k \<in> set ts"
  by (induction V ts rule: operand_from.induct) (auto split: if_splits option.splits list.splits)

lemma find_SomeD: "find P xs = Some x \<Longrightarrow> x \<in> set xs \<and> P x"
  by (auto simp: find_Some_iff)

text \<open>A traversal is exempted as a search pattern only when it lies inside one operand, a piece of
  the text, of a command whose executable is one of the known search tools or git grep.\<close>

theorem search_exemption_is_operand:
  assumes "relativeEscapeIsSearchPattern t i"
  shows "\<exists>ts \<in> set (tokenise t). \<exists>x xs k. executable_tokens ts = x # xs
    \<and> (baseName (tk_text x) \<in> fst ` set SEARCH_COMMANDS \<or> baseName (tk_text x) = ''git'' \<and> ''grep'' \<in> tk_text ` set xs)
    \<and> k \<in> set xs \<and> token_ok t k \<and> spans i k"
proof -
  from assms obtain ts k where ts: "ts \<in> set (tokenise t)" "patternOperand ts = Some k" "spans i k"
    by (auto simp: relativeEscapeIsSearchPattern_def split: if_splits option.splits dest: find_SomeD)
  then obtain x xs where x: "executable_tokens ts = x # xs"
    by (auto simp: patternOperand_def split: list.splits)
  have "k \<in> set xs \<and> (baseName (tk_text x) \<in> fst ` set SEARCH_COMMANDS \<or> baseName (tk_text x) = ''git'' \<and> ''grep'' \<in> tk_text ` set xs)"
  proof (cases "baseName (tk_text x) = ''git''")
    case True
    with ts(2) x obtain y ys where y: "dropWhile (\<lambda>t. prefix ''-'' (tk_text t)) xs = y # ys" "tk_text y = ''grep''"
      "operand_from GREP_VALUE_OPTIONS ys = Some k"
      by (auto simp: patternOperand_def split: list.splits if_splits)
    then have "set (y # ys) \<subseteq> set xs" by (metis set_dropWhileD subsetI)
    with y operand_from_in[OF y(3)] True show ?thesis by (auto intro: rev_image_eqI)
  next
    case False
    with ts(2) x show ?thesis
      by (auto simp: patternOperand_def dest!: operand_from_in map_of_SomeD split: option.splits intro: rev_image_eqI)
  qed
  moreover have "set xs \<subseteq> set ts"
    using x by (metis executable_tokens_def set_dropWhileD set_subset_Cons subsetI subset_trans)
  then have "k \<in> set (concat (tokenise t))" using calculation ts(1) by auto
  then have "token_ok t k" using tokens_tile_text[of t] by (auto simp: tiles_def list_all_iff)
  ultimately show ?thesis using ts x by blast
qed

section \<open>Diagnostics satisfy their schema\<close>

text \<open>A solid pattern matches at least one character that is not a line feed.\<close>

fun solid :: "regex \<Rightarrow> bool" where
  "solid (Cls p) = (\<not> p (CHR 0x0A))"
| "solid (Sq a b) = (solid a \<or> solid b)"
| "solid (Alt a b) = (solid a \<and> solid b)"
| "solid (Rep a lo hi) = (0 < lo \<and> hi \<noteq> Some 0 \<and> solid a)"
| "solid _ = False"

definition has_solid :: "string \<Rightarrow> nat \<Rightarrow> nat \<Rightarrow> bool" where
  "has_solid s i e \<longleftrightarrow> (\<exists>k. i \<le> k \<and> k < e \<and> s ! k \<noteq> CHR 0x0A)"

lemma has_solid_widen: "has_solid s a b \<Longrightarrow> i \<le> a \<Longrightarrow> b \<le> e \<Longrightarrow> has_solid s i e"
  by (auto simp: has_solid_def intro: order_trans less_le_trans)

lemma solid_matches: "solid r \<Longrightarrow> e \<in> set (ends r s i) \<Longrightarrow> i \<le> length s \<Longrightarrow> has_solid s i e"
proof (induction r arbitrary: e i)
  case (Cls p)
  then show ?case by (auto simp: has_solid_def split: if_splits)
next
  case (Sq a b)
  from Sq.prems(2) obtain m where m: "m \<in> set (ends a s i)" "e \<in> set (ends b s m)" by auto
  with ends_bounds[of m a s i] ends_bounds[of e b s m] Sq.prems(3) have le: "i \<le> m" "m \<le> e" "m \<le> length s" by auto
  with Sq.prems(1,3) Sq.IH(1)[OF _ m(1)] Sq.IH(2)[OF _ m(2)] show ?case by (auto intro: has_solid_widen)
next
  case (Alt a b)
  then show ?case by auto
next
  case (Rep a lo hi)
  then obtain n where n: "lo + (length s - i) = Suc n" by (cases "lo + (length s - i)") auto
  with Rep.prems obtain m where m: "m \<in> set (ends a s i)" "e \<in> set (rep_ends n (lo - 1) (map_option (\<lambda>h. h - 1) hi) (ends a s) m)"
    by (auto split: if_splits)
  have "m \<le> length s" using ends_bounds[OF m(1)] Rep.prems(3) by simp
  then have "m \<le> e" using rep_ends_bounds[OF ends_bounds m(2)] by simp
  with Rep.IH[OF _ m(1)] Rep.prems show ?case by (auto intro: has_solid_widen)
qed simp_all

lemma effect_rules_solid: "(r, every, rule) \<in> set effect_checks \<Longrightarrow> solid r"
  by (auto simp: effect_checks_def push_rule_def remote_rule_def metadata_rule_def private_rule_def absolute_rule_def
      traversal_rule_def client_rule_def privilege_rule_def destructive_rule_def lit_def lit_ci_def to_lower_def is_upper_def octets_def digits_def)

lemma exec_all_matches: "(i, e) \<in> set (exec_all r s k) \<Longrightarrow> i \<le> e \<and> e \<le> length s \<and> e \<in> set (ends r s i)"
proof (induction r s k rule: exec_all.induct)
  case (1 r s k)
  show ?case
  proof (cases "exec_from r s k")
    case None
    with "1.prems" show ?thesis by (subst (asm) exec_all.simps) simp
  next
    case (Some p)
    obtain j f where p: "p = (j, f)" by fastforce
    have "exec_all r s k = (j, f) # exec_all r s (if f \<le> j then j + 1 else f)"
      using Some p by (subst exec_all.simps) simp
    with "1.prems" "1.IH"[OF Some p[symmetric]] exec_from_SomeD[of r s k j f] Some p show ?thesis by auto
  qed
qed

lemma refused_matchD:
  assumes "first_refusal parts depth t cs = Some (rule, i, e)"
  shows "\<exists>r every. (r, every, rule) \<in> set cs \<and> i \<le> e \<and> e \<le> length t \<and> e \<in> set (ends r t i)"
  using assms
proof (induction parts depth t cs rule: first_refusal.induct)
  case (2 parts depth t r every ru cs)
  show ?case
  proof (cases "refused_match parts depth t r every")
    case None
    with 2 show ?thesis by auto
  next
    case (Some m)
    with "2.prems" have "ru = rule" "refused_match parts depth t r every = Some (i, e)" by auto
    then show ?thesis
      using exec_from_SomeD[of r t 0 i e] exec_all_matches[of i e r t 0]
      by (auto simp: refused_match_def dest!: find_SomeD split: if_splits)
  qed
qed simp

definition diagnostics_ok :: "effect_diagnostics \<Rightarrow> bool" where
  "diagnostics_ok d \<longleftrightarrow>
     0 \<le> ed_scanned_actions d \<and> 0 \<le> ed_scanned_chars d \<and> (ed_scanned_actions d = 0 \<longrightarrow> ed_scanned_chars d = 0)
     \<and> (case ed_rule d of
          None \<Rightarrow> ed_match_index d = None \<and> ed_match_locus d = None
        | Some _ \<Rightarrow> ed_scanned_actions d \<noteq> 0 \<and> ed_scanned_chars d \<le> 128000 \<and> ed_match_locus d \<noteq> None
            \<and> (\<exists>i. ed_match_index d = Some i \<and> 0 \<le> i \<and> i < ed_scanned_chars d))"

lemma emitted_diagnostics_ok: "diagnostics_ok (ef_diagnostics (evaluateOpenHandsEffects events allowed))"
proof -
  define parts t where "parts = segments (JArr (pending_actions events)) OtherLocus [] 0" and "t = scan_text (map fst parts)"
  have refused: "locusAt parts i e \<noteq> None \<and> i < length t"
    if r: "first_refusal parts depth t effect_checks = Some (rule, i, e)" for depth rule i e
  proof -
    from refused_matchD[OF r] obtain p every where p: "(p, every, rule) \<in> set effect_checks" "i \<le> e" "e \<le> length t" "e \<in> set (ends p t i)"
      by blast
    with solid_matches[OF effect_rules_solid[OF p(1)] p(4)] obtain k where k: "i \<le> k" "k < e" "t ! k \<noteq> CHR 0x0A"
      by (auto simp: has_solid_def)
    with segment_from_covers[of k parts 0] p(3) t_def obtain q j where "segment_from 0 parts k = Some (q, j)" by auto
    with locus_from_covered[of 0 parts k q j i e None] k p(3) show ?thesis by (simp add: locusAt_def)
  qed
  show ?thesis
    unfolding evaluateOpenHandsEffects_def Let_def parts_def[symmetric] t_def[symmetric]
    using refused by (auto simp: diagnostics_ok_def diagnose_def split: option.splits)
qed

text \<open>C39. The diagnostics of every decision of the policy satisfy their schema: a rule comes with a
  locus and a match index inside the scanned characters of at least one action, and without a rule there is
  neither.\<close>

theorem effect_diagnostics_typed: "diagnostics_ok (ef_diagnostics (evaluateOpenHandsEffects events allowed))"
  by (rule emitted_diagnostics_ok)

text \<open>The reader gives back what the policy emitted, where \<open>B\<close> reads the decimal texts of its counts.\<close>

lemma diagnostics_read_back:
  assumes "diagnostics_ok d" "ed_scanned_actions d < 2 ^ 53" "ed_scanned_chars d < 2 ^ 53"
    "\<forall>n \<in> {ed_scanned_actions d, ed_scanned_chars d} \<union> set_option (ed_match_index d). bl_number B (int_text n) = Num (of_int n)"
  shows "readEffectDiagnostics B (diagnostics_json d) = Some d"
proof -
  have reads: "json_integer B (int_json n) = Some n"
    if "n \<in> {ed_scanned_actions d, ed_scanned_chars d} \<union> set_option (ed_match_index d)" "0 \<le> n" "n < 2 ^ 53" for n
  proof -
    have "of_int n \<le> (of_int (2 ^ 53 - 1) :: rat)" using that(3) unfolding of_int_le_iff by simp
    then have "of_int n \<le> (2 ^ 53 - 1 :: rat)" by simp
    moreover have "bl_number B (int_text n) = Num (of_int n)" using that(1) assms(4) by blast
    ultimately show ?thesis using that(2) by (simp add: json_integer_def int_json_def safe_integer_def)
  qed
  have rule: "find (\<lambda>r'. effect_rule_name r = effect_rule_name r') EFFECT_RULES = Some r" for r
    by (cases r) (simp_all add: EFFECT_RULES_def)
  have locus: "find (\<lambda>l'. locus_name l = locus_name l') [CommandLocus, ContentLocus, OtherLocus] = Some l" for l
    by (cases l) simp_all
  show ?thesis
  proof (cases "ed_rule d")
    case None
    with assms(1) have "ed_match_index d = None" "ed_match_locus d = None" by (simp_all add: diagnostics_ok_def)
    with None assms(1-3) show ?thesis
      by (simp add: readEffectDiagnostics_def diagnostics_json_def DIAGNOSTIC_FIELDS_def prop_of_def reads diagnostics_ok_def)
  next
    case (Some r)
    with assms(1) obtain i l where il: "ed_match_index d = Some i" "ed_match_locus d = Some l" "0 \<le> i" "i < ed_scanned_chars d"
      "ed_scanned_actions d \<noteq> 0" "ed_scanned_chars d \<le> 128000"
      by (auto simp: diagnostics_ok_def)
    with Some assms(1-3) show ?thesis
      by (simp add: readEffectDiagnostics_def diagnostics_json_def DIAGNOSTIC_FIELDS_def prop_of_def reads rule locus diagnostics_ok_def
          del: find.simps)
  qed
qed

text \<open>C40. The closed-schema reader of failure diagnostics gives back exactly what the policy emitted,
  for any events, where the numbers in question are safe integers whose decimal text reads back.\<close>

theorem effect_diagnostics_accepted:
  assumes "d = ef_diagnostics (evaluateOpenHandsEffects events allowed)"
    "ed_scanned_actions d < 2 ^ 53" "ed_scanned_chars d < 2 ^ 53"
    "\<forall>n \<in> {ed_scanned_actions d, ed_scanned_chars d} \<union> set_option (ed_match_index d). bl_number B (int_text n) = Num (of_int n)"
  shows "readResultEffectDiagnostics B False (diagnostics_json d) = Some d"
  using diagnostics_read_back[OF emitted_diagnostics_ok[of events allowed]] assms by (simp add: readResultEffectDiagnostics_def)


end
