(* ===== verification/EffectDemo.thy ===== *)
theory EffectDemo imports EffectFacts begin

text \<open>
  The effect policy on concrete actions: instances of the theorems of \<open>EffectFacts\<close>, and actions that the policy
  admits although they push, leave the workspace or destroy.
\<close>

definition command_event :: "string \<Rightarrow> json" where
  "command_event s = JObj [(''kind'', JStr ''action''), (''command'', JStr s)]"

definition command_text :: "string \<Rightarrow> string" where
  "command_text s = ''action'' @ [CHR 0x0A] @ s"

definition command_parts :: "string \<Rightarrow> segment list" where
  "command_parts s = [(''action'', OtherLocus), (s, CommandLocus)]"

lemma command_event_is_action: "is_action (command_event s)"
proof -
  have "event_kind (command_event s) = ''action''"
    by (simp add: command_event_def event_kind_def lower_def to_lower_def is_upper_def)
  moreover have "has_text ''action'' ''action''" "\<not> has_text ''action'' ''observation''" by code_simp+
  ultimately show ?thesis by (simp add: is_action_def) (simp add: command_event_def)
qed

lemma command_scan:
  "pending_actions (JArr [command_event s]) = [command_event s]" "scanned (JArr [command_event s]) = command_parts s"
  "segments (JArr [command_event s]) OtherLocus [] 0 = command_parts s" "scan_text (map fst (command_parts s)) = command_text s"
  "target_depth [command_event s] = None"
proof -
  show p: "pending_actions (JArr [command_event s]) = [command_event s]"
    by (simp add: pending_actions_def event_items_def command_event_is_action)
  have k: "key_locus ''kind'' OtherLocus = OtherLocus" "key_locus ''command'' OtherLocus = CommandLocus" by code_simp+
  show g: "segments (JArr [command_event s]) OtherLocus [] 0 = command_parts s"
    by (simp add: command_event_def command_parts_def scan_full_def k)
  then show "scanned (JArr [command_event s]) = command_parts s" by (simp add: scanned_def p)
  show "scan_text (map fst (command_parts s)) = command_text s" by (simp add: command_parts_def command_text_def)
  show "target_depth [command_event s] = None"
    by (simp add: target_depth_def command_event_def workspaceFileDepth_def)
qed

lemma command_allowed:
  assumes "first_refusal (command_parts s) None (command_text s) effect_checks = None" "length s \<le> 100000" "a \<in> set EFFECT_ACTIONS"
  shows "ef_allowed (evaluateOpenHandsEffects (JArr [command_event s]) [a])"
  using assms unfolding evaluateOpenHandsEffects_def Let_def command_scan
  by (auto simp: command_text_def EFFECT_ACTIONS_def CONSEQUENTIAL_ACTIONS_def)

definition quoted :: "string \<Rightarrow> string" where
  "quoted s = CHR 0x22 # s @ [CHR 0x22]"

definition grep_import :: string where
  "grep_import = ''grep '' @ quoted ''../'' @ '' f''"

lemma grep_allowed: "ef_allowed (evaluateOpenHandsEffects (JArr [command_event grep_import]) [ReadRepo])"
proof (rule command_allowed)
  show "first_refusal (command_parts grep_import) None (command_text grep_import) effect_checks = None" by code_simp
qed (simp_all add: grep_import_def quoted_def EFFECT_ACTIONS_def)

lemma relative_path_refused:
  "first_refusal (command_parts ''cat ../x'') None (command_text ''cat ../x'') effect_checks = Some (WorkspaceEscape, 10, 14)"
  by code_simp

section \<open>Instances\<close>

theorem allowed_effects_clean_witness:
  "\<not> occurs push_rule (command_text grep_import)
   \<and> (\<exists>s l i. segmentAt (command_parts grep_import) 13 = Some ((s, l), i) \<and> relativeEscapeIsSearchPattern s i)"
proof -
  note clean = allowed_effects_clean[OF grep_allowed, unfolded command_scan]
  have "traversal_text (drop 13 (command_text grep_import)) \<and> delimiter (command_text grep_import ! 12)" by code_simp
  then have at: "traversal_text (drop 13 (command_text grep_import)) \<and> (13 = (0::nat) \<or> delimiter (command_text grep_import ! (13 - 1)))"
    by simp
  from clean at have "\<exists>s l i. segmentAt (command_parts grep_import) 13 = Some ((s, l), i) \<and>
      (l = CommandLocus \<and> relativeEscapeIsSearchPattern s i \<or> l = ContentLocus \<and> relativeEscapeIsContainedImport s i None)"
    by blast
  moreover have "\<not> relativeEscapeIsContainedImport s i None" for s i by (simp add: relativeEscapeIsContainedImport_def)
  ultimately show ?thesis using clean by blast
qed

theorem search_exemption_is_operand_witness: "\<exists>k. token_ok grep_import k \<and> spans 6 k"
proof -
  have "relativeEscapeIsSearchPattern grep_import 6" by code_simp
  from search_exemption_is_operand[OF this] show ?thesis by blast
qed

definition import_line :: string where
  "import_line = ''import x from '' @ quoted ''../src/x'' @ '';''"

theorem contained_import_stays_inside_witness:
  "\<exists>spec path. prefix (quoted spec) (drop 14 import_line) \<and> module_target ''test/a.ts'' spec = Some path"
proof -
  have "relativeEscapeIsContainedImport import_line 15 (workspaceFileDepth (JStr ''test/a.ts''))" by code_simp
  from contained_import_stays_inside[OF this] obtain q spec path where r: "prefix (q # spec @ [q]) (drop 14 import_line)"
    "module_target ''test/a.ts'' spec = Some path" by auto
  have "drop 14 import_line = CHR 0x22 # drop 15 import_line" by code_simp
  with r(1) have "q = CHR 0x22" by simp
  with r show ?thesis unfolding quoted_def by blast
qed

definition toy_reader :: blib where
  "toy_reader = \<lparr>bl_hmac = (\<lambda>_ _. ''''), bl_b64 = id, bl_unb64 = id, bl_parse = (\<lambda>_. None),
     bl_number = (\<lambda>s. if s = ''1'' then Num 1 else if s = ''10'' then Num 10 else if s = ''15'' then Num 15 else NaN)\<rparr>"

theorem effect_diagnostics_accepted_witness:
  "\<exists>d. ed_rule d = Some WorkspaceEscape \<and> readResultEffectDiagnostics toy_reader False (diagnostics_json d) = Some d"
proof -
  let ?d = "ef_diagnostics (evaluateOpenHandsEffects (JArr [command_event ''cat ../x'']) [ReadRepo])"
  have len: "length (command_text ''cat ../x'') = 15" by (simp add: command_text_def)
  have d: "ed_rule ?d = Some WorkspaceEscape" "ed_scanned_actions ?d = 1" "ed_scanned_chars ?d = 15" "ed_match_index ?d = Some 10"
    unfolding evaluateOpenHandsEffects_def Let_def command_scan len
    by (simp_all add: relative_path_refused diagnose_def)
  have texts: "int_text 1 = ''1''" "int_text 10 = ''10''" "int_text 15 = ''15''" by code_simp+
  have "readResultEffectDiagnostics toy_reader False (diagnostics_json ?d) = Some ?d"
    by (rule effect_diagnostics_accepted[OF refl]) (simp_all add: d toy_reader_def texts)
  with d(1) show ?thesis by blast
qed

section \<open>Actions the policy admits\<close>

text \<open>Only words that begin with a dash may stand between \<open>git\<close> and \<open>push\<close>, but an option of git may take a value.\<close>

lemma push_with_option_value_admitted:
  "ef_allowed (evaluateOpenHandsEffects (JArr [command_event ''git -C . push'']) [EditWorktree])"
  by (rule command_allowed, code_simp) (simp_all add: EFFECT_ACTIONS_def)

text \<open>A traversal is only found at the start of a word.\<close>

lemma inner_traversal_admitted:
  "ef_allowed (evaluateOpenHandsEffects (JArr [command_event ''cat a/../../x'']) [ReadRepo])"
  by (rule command_allowed, code_simp) (simp_all add: EFFECT_ACTIONS_def)

text \<open>A command substituted inside the pattern operand is executed by the shell, yet the operand is exempt.\<close>

lemma substituted_traversal_admitted:
  "ef_allowed (evaluateOpenHandsEffects (JArr [command_event (''grep '' @ quoted ''$(cat ../x)'' @ '' f'')]) [ReadRepo])"
  by (rule command_allowed, code_simp) (simp_all add: EFFECT_ACTIONS_def quoted_def)

lemma recursive_removal_admitted:
  "ef_allowed (evaluateOpenHandsEffects (JArr [command_event ''rm -fr x'']) [EditWorktree])"
  by (rule command_allowed, code_simp) (simp_all add: EFFECT_ACTIONS_def)

end
