(* ===== verification/PendingActions.thy ===== *)
theory PendingActions imports EffectFacts begin

text \<open>
  The pending actions of an agent conversation, \<open>evaluatePendingOpenHandsActions\<close> of
  \<open>src/src/runtime/automation/pending-openhands-actions.ts\<close>: the active branch from the leaf event to the root, the
  actions on it that no observation answers, and the judgement of each by the effect policy.  The main results are
  that the walk ends with a branch exactly when the parents lead to a root, and that nothing of an admitted action
  is hidden from the policy by the limits of its scan.
\<close>

section \<open>The active branch\<close>

record pending_decision =
  pd_allowed :: bool
  pd_reason :: string
  pd_diagnostics :: "effect_diagnostics option"

definition pending_refusal :: "string \<Rightarrow> pending_decision" where
  "pending_refusal why = \<lparr>pd_allowed = False, pd_reason = why, pd_diagnostics = None\<rparr>"

type_synonym events_by_id = "(string \<times> json) list"

definition nonempty_text :: "json \<Rightarrow> string option" where
  "nonempty_text v = (case v of JStr s \<Rightarrow> if s = [] then None else Some s | _ \<Rightarrow> None)"

fun index_events :: "json list \<Rightarrow> events_by_id \<Rightarrow> events_by_id option" where
  "index_events [] M = Some M"
| "index_events (JObj es # vs) M =
     (case nonempty_text (member_of (JObj es) ''id'') of
        None \<Rightarrow> None
      | Some i \<Rightarrow> if i \<in> fst ` set M then None else index_events vs (M @ [(i, JObj es)]))"
| "index_events (v # vs) M = None"

definition parent_broken :: "json \<Rightarrow> bool" where
  "parent_broken e \<longleftrightarrow> member_of e ''parent_id'' \<notin> {JUndefined, JNull} \<and> nonempty_text (member_of e ''parent_id'') = None"

definition event_invalid :: "json \<Rightarrow> bool" where
  "event_invalid e \<longleftrightarrow> member_of e ''kind'' = JStr ''ConversationStateUpdateEvent'' \<or> parent_broken e"

definition parent_of :: "json \<Rightarrow> string option" where
  "parent_of e = (case member_of e ''parent_id'' of JStr p \<Rightarrow> Some p | _ \<Rightarrow> None)"

text \<open>The walk towards the root: the events visited so far, the next one, and the branch from the leaf.\<close>

function walk_branch :: "events_by_id \<Rightarrow> string list \<Rightarrow> string option \<Rightarrow> json list \<Rightarrow> string + json list" where
  "walk_branch M visited None branch = Inr branch"
| "walk_branch M visited (Some i) branch =
     (if i \<in> set visited then Inl ''pending_branch_invalid''
      else case map_of M i of
        None \<Rightarrow> Inl ''pending_branch_incomplete''
      | Some e \<Rightarrow>
          if event_invalid e then Inl ''pending_branch_invalid''
          else walk_branch M (i # visited) (parent_of e) (branch @ [e]))"
  by pat_completeness auto

termination
proof (relation "measure (\<lambda>(M, visited, _, _). card (fst ` set M - set visited))", goal_cases)
  case (2 M visited i branch e)
  have "i \<in> fst ` set M" using 2(2) by (auto dest: map_of_SomeD intro: rev_image_eqI)
  with 2(1) have "fst ` set M - set (i # visited) \<subset> fst ` set M - set visited" by auto
  then show ?case by (simp add: psubset_card_mono)
qed simp

section \<open>Unanswered actions\<close>

fun unanswered :: "json list \<Rightarrow> string list \<Rightarrow> string list \<Rightarrow> json list \<Rightarrow> string + json list" where
  "unanswered [] ids calls actions = Inr actions"
| "unanswered (e # es) ids calls actions =
     (if member_of e ''kind'' \<in> {JStr ''ObservationEvent'', JStr ''UserRejectObservation''} then
        (case nonempty_text (member_of e ''action_id'') of
           None \<Rightarrow> Inl ''pending_observation_invalid''
         | Some a \<Rightarrow> unanswered es (a # ids) calls actions)
      else if member_of e ''kind'' = JStr ''AgentErrorEvent'' then
        (case nonempty_text (member_of e ''tool_call_id'') of
           None \<Rightarrow> Inl ''pending_observation_invalid''
         | Some c \<Rightarrow> unanswered es ids (c # calls) actions)
      else if member_of e ''kind'' = JStr ''ActionEvent'' then
        (case member_of e ''action'' of
           JNull \<Rightarrow> unanswered es ids calls actions
         | JUndefined \<Rightarrow> unanswered es ids calls actions
         | JObj a \<Rightarrow>
             if js_text (member_of e ''id'') \<notin> set ids \<and> js_text (member_of e ''tool_call_id'') \<notin> set calls
               then unanswered es ids calls (actions @ [JObj a])
             else unanswered es ids calls actions
         | _ \<Rightarrow> Inl ''pending_action_invalid'')
      else unanswered es ids calls actions)"

section \<open>The judgement\<close>

text \<open>The counter of visited nodes is threaded through the traversal, which stops at the first value beyond the budget.\<close>

fun bounded_value :: "json \<Rightarrow> nat \<Rightarrow> nat \<Rightarrow> bool \<times> nat"
  and bounded_items :: "json list \<Rightarrow> nat \<Rightarrow> nat \<Rightarrow> bool \<times> nat"
  and bounded_entries :: "(string \<times> json) list \<Rightarrow> nat \<Rightarrow> nat \<Rightarrow> bool \<times> nat" where
  "bounded_value (JArr vs) d n = (if 256 < n + 1 \<or> 5 < d then (False, n + 1) else bounded_items vs (d + 1) (n + 1))"
| "bounded_value (JObj es) d n = (if 256 < n + 1 \<or> 5 < d then (False, n + 1) else bounded_entries es (d + 1) (n + 1))"
| "bounded_value v d n = (\<not> (256 < n + 1 \<or> 5 < d), n + 1)"
| "bounded_items [] d n = (True, n)"
| "bounded_items (v # vs) d n = (case bounded_value v d n of (ok, m) \<Rightarrow> if ok then bounded_items vs d m else (False, m))"
| "bounded_entries [] d n = (True, n)"
| "bounded_entries ((k, v) # es) d n = (case bounded_value v d n of (ok, m) \<Rightarrow> if ok then bounded_entries es d m else (False, m))"

definition action_batch :: "json \<Rightarrow> json" where
  "action_batch a = JObj [(''items'', JArr [JObj [(''kind'', JStr ''ActionEvent''), (''action'', a)]])]"

fun judge_actions :: "automation_action list \<Rightarrow> json list \<Rightarrow> pending_decision option" where
  "judge_actions allowed [] = None"
| "judge_actions allowed (a # as) =
     (if \<not> fst (bounded_value a 0 0) then Some (pending_refusal ''pending_action_oversized'')
      else let d = evaluateOpenHandsEffects (action_batch a) allowed
           in if ef_allowed d then judge_actions allowed as
              else Some \<lparr>pd_allowed = False, pd_reason = ef_reason d, pd_diagnostics = Some (ef_diagnostics d)\<rparr>)"

definition evaluatePendingOpenHandsActions :: "json \<Rightarrow> json \<Rightarrow> automation_action list \<Rightarrow> pending_decision" where
  "evaluatePendingOpenHandsActions state page allowed =
     (case (member_of state ''execution_status'' = JStr ''waiting_for_confirmation'', nonempty_text (member_of state ''leaf_event_id'')) of
        (True, Some leaf) \<Rightarrow>
          (case member_of page ''items'' of
             JArr items \<Rightarrow>
               if 3200 < length items then pending_refusal ''pending_page_invalid''
               else (case index_events items [] of
                 None \<Rightarrow> pending_refusal ''pending_page_invalid''
               | Some M \<Rightarrow>
                   if leaf \<notin> fst ` set M then pending_refusal ''pending_state_anchor_mismatch''
                   else (case walk_branch M [] (Some leaf) [] of
                     Inl why \<Rightarrow> pending_refusal why
                   | Inr branch \<Rightarrow>
                       (case unanswered branch [] [] [] of
                          Inl why \<Rightarrow> pending_refusal why
                        | Inr actions \<Rightarrow>
                            (case judge_actions allowed actions of
                               Some refusal \<Rightarrow> refusal
                             | None \<Rightarrow>
                                 if actions \<noteq> []
                                   then \<lparr>pd_allowed = True, pd_reason = ''within_isolated_mandate'', pd_diagnostics = None\<rparr>
                                 else pending_refusal ''pending_action_missing''))))
           | _ \<Rightarrow> pending_refusal ''pending_page_invalid'')
      | _ \<Rightarrow> pending_refusal ''pending_state_anchor_missing'')"

section \<open>The walk ends, with a branch or a refusal\<close>

text \<open>The chain of parents from an event to a root.\<close>

inductive parent_chain :: "events_by_id \<Rightarrow> string \<Rightarrow> json list \<Rightarrow> bool" where
  root: "map_of M i = Some e \<Longrightarrow> \<not> event_invalid e \<Longrightarrow> parent_of e = None \<Longrightarrow> parent_chain M i [e]"
| child: "map_of M i = Some e \<Longrightarrow> \<not> event_invalid e \<Longrightarrow> parent_of e = Some p \<Longrightarrow> parent_chain M p es \<Longrightarrow> parent_chain M i (e # es)"

inductive_cases parent_chainE: "parent_chain M i es"

lemma parent_chain_unique: "parent_chain M i es \<Longrightarrow> parent_chain M i fs \<Longrightarrow> fs = es"
proof (induction arbitrary: fs rule: parent_chain.induct)
  case (root M i e)
  from root(4,1-3) show ?case by (auto elim: parent_chainE)
next
  case (child M i e p es)
  from child(6,1-3,5) show ?case by (auto elim: parent_chainE)
qed

lemma walk_branch_chain:
  "walk_branch M visited next branch = Inr r \<Longrightarrow>
   (case next of None \<Rightarrow> r = branch | Some i \<Rightarrow> \<exists>es. r = branch @ es \<and> parent_chain M i es)"
proof (induction M visited "next" branch rule: walk_branch.induct)
  case (2 M visited i branch)
  then obtain e where e: "i \<notin> set visited" "map_of M i = Some e" "\<not> event_invalid e"
    "walk_branch M (i # visited) (parent_of e) (branch @ [e]) = Inr r"
    by (auto split: if_splits option.splits)
  with "2.IH"[OF e(1-3)] show ?case
    by (cases "parent_of e") (auto intro: parent_chain.intros)
qed simp

lemma chain_walk_branch:
  "parent_chain M i es \<Longrightarrow> (\<And>v fs. v \<in> set visited \<Longrightarrow> parent_chain M v fs \<Longrightarrow> length es < length fs) \<Longrightarrow>
   walk_branch M visited (Some i) branch = Inr (branch @ es)"
proof (induction arbitrary: visited branch rule: parent_chain.induct)
  case (root M i e)
  from root(1-3) have "parent_chain M i [e]" by (rule parent_chain.root)
  with root(4)[of i] have "i \<notin> set visited" by fastforce
  with root(1-3) show ?case by simp
next
  case (child M i e p es)
  have this_chain: "parent_chain M i (e # es)" using child(1-4) by (rule parent_chain.child)
  with child(6)[of i] have "i \<notin> set visited" by fastforce
  moreover have "walk_branch M (i # visited) (Some p) (branch @ [e]) = Inr ((branch @ [e]) @ es)"
  proof (rule child.IH)
    fix v fs assume "v \<in> set (i # visited)" "parent_chain M v fs"
    then show "length es < length fs"
      using child(6)[of v fs] parent_chain_unique[OF this_chain, of fs] by auto
  qed
  ultimately show ?case
    using child(1-3) by (simp add: walk_branch.simps(2)[of M visited i branch] del: walk_branch.simps)
qed

text \<open>C19. The walk from the leaf event towards the root ends for every page of events, cyclic ones
  included, and it returns a branch exactly when the chain of parents reaches a root through valid events of
  the page; the branch is that chain.\<close>

theorem branch_leads_to_root: "walk_branch M [] (Some leaf) [] = Inr branch \<longleftrightarrow> parent_chain M leaf branch"
  using walk_branch_chain[of M "[]" "Some leaf" "[]" branch] chain_walk_branch[of M leaf branch "[]" "[]"] by auto

section \<open>Nothing is hidden from the scan\<close>

text \<open>The strings of a value with their loci, without limits.\<close>

fun all_segments :: "json \<Rightarrow> match_locus \<Rightarrow> segment list"
  and all_segments_items :: "json list \<Rightarrow> match_locus \<Rightarrow> segment list"
  and all_segments_entries :: "(string \<times> json) list \<Rightarrow> match_locus \<Rightarrow> segment list" where
  "all_segments (JStr s) l = [(s, l)]"
| "all_segments (JArr vs) l = all_segments_items vs l"
| "all_segments (JObj es) l = all_segments_entries es l"
| "all_segments v l = []"
| "all_segments_items [] l = []"
| "all_segments_items (v # vs) l = all_segments v l @ all_segments_items vs l"
| "all_segments_entries [] l = []"
| "all_segments_entries ((k, v) # es) l = all_segments v (key_locus k l) @ all_segments_entries es l"

lemma bounded_segments:
  "bounded_value v d n = (True, m) \<Longrightarrow> length out \<le> n + 1 \<Longrightarrow>
     segments v l out (d + 2) = out @ all_segments v l \<and> length out + length (all_segments v l) \<le> m + 1"
  "bounded_items vs d n = (True, m) \<Longrightarrow> length out \<le> n + 1 \<Longrightarrow>
     segments_items vs l out (d + 2) = out @ all_segments_items vs l \<and> length out + length (all_segments_items vs l) \<le> m + 1"
  "bounded_entries es d n = (True, m) \<Longrightarrow> length out \<le> n + 1 \<Longrightarrow>
     segments_entries es l out (d + 2) = out @ all_segments_entries es l \<and> length out + length (all_segments_entries es l) \<le> m + 1"
proof (induction v d n and vs d n and es d n arbitrary: m out l and m out l and m out l
    rule: bounded_value_bounded_items_bounded_entries.induct)
  case (5 v vs d n)
  obtain ok k where "bounded_value v d n = (ok, k)" by fastforce
  with "5.prems"(1) have v: "bounded_value v d n = (True, k)" and vs: "bounded_items vs d k = (True, m)"
    by (auto split: if_splits)
  note "5.IH"(1)[OF v "5.prems"(2), of l] "5.IH"(2)[OF v[symmetric] TrueI vs, of "out @ all_segments v l" l]
  then show ?case by simp
next
  case (7 k v es d n)
  obtain ok j where "bounded_value v d n = (ok, j)" by fastforce
  with "7.prems"(1) have v: "bounded_value v d n = (True, j)" and es: "bounded_entries es d j = (True, m)"
    by (auto split: if_splits)
  note "7.IH"(1)[OF v "7.prems"(2), of "key_locus k l"] "7.IH"(2)[OF v[symmetric] TrueI es, of "out @ all_segments v (key_locus k l)" l]
  then show ?case by simp
qed (auto simp: scan_full_def split: if_splits)


lemma batch_actions: "pending_actions (action_batch a) = [JObj [(''kind'', JStr ''ActionEvent''), (''action'', a)]]"
proof -
  let ?e = "JObj [(''kind'', JStr ''ActionEvent''), (''action'', a)]"
  have "lower ''ActionEvent'' = ''actionevent''" by code_simp
  then have "event_kind ?e = ''actionevent''" by (simp add: event_kind_def)
  moreover have "has_text ''actionevent'' ''action''" "\<not> has_text ''actionevent'' ''observation''" by code_simp+
  ultimately have "is_action ?e" by (simp add: is_action_def)
  then show ?thesis by (simp add: pending_actions_def event_items_def action_batch_def)
qed

lemma within_budget_scanned:
  assumes "fst (bounded_value a 0 0)"
  shows "scanned (action_batch a) = (''ActionEvent'', OtherLocus) # all_segments a OtherLocus"
proof -
  from assms obtain m where m: "bounded_value a 0 0 = (True, m)" by (cases "bounded_value a 0 0") auto
  have k: "key_locus ''kind'' OtherLocus = OtherLocus" "key_locus ''action'' OtherLocus = OtherLocus" by code_simp+
  have "segments a OtherLocus [(''ActionEvent'', OtherLocus)] 2 = (''ActionEvent'', OtherLocus) # all_segments a OtherLocus"
    using bounded_segments(1)[OF m, of "[(''ActionEvent'', OtherLocus)]" OtherLocus] by (simp add: numeral_2_eq_2)
  then show ?thesis by (simp add: scanned_def batch_actions scan_full_def k numeral_2_eq_2)
qed

text \<open>C34. The node and depth budget suffices for the policy's own limits: of an action within the
  budget every string, with its locus, reaches the scan, exactly as in a flattening without limits.\<close>

theorem bounded_action_scanned_whole:
  assumes "fst (bounded_value a 0 0)"
  shows "scanned (action_batch a) = (''ActionEvent'', OtherLocus) # all_segments a OtherLocus"
  by (rule within_budget_scanned[OF assms])

section \<open>Every unanswered action is judged\<close>

text \<open>What answers an action: an observation or rejection of its event, or an error of its tool call.\<close>

definition answers :: "json \<Rightarrow> json \<Rightarrow> bool" where
  "answers ob e \<longleftrightarrow>
     member_of ob ''kind'' \<in> {JStr ''ObservationEvent'', JStr ''UserRejectObservation''}
       \<and> nonempty_text (member_of ob ''action_id'') = Some (js_text (member_of e ''id''))
     \<or> member_of ob ''kind'' = JStr ''AgentErrorEvent''
       \<and> nonempty_text (member_of ob ''tool_call_id'') = Some (js_text (member_of e ''tool_call_id''))"

text \<open>The action \<open>a\<close> of the event at \<open>k\<close> of a branch that nothing between the leaf and the event answers.\<close>

definition open_action :: "json list \<Rightarrow> nat \<Rightarrow> json \<Rightarrow> bool" where
  "open_action branch k a \<longleftrightarrow>
     k < length branch \<and> member_of (branch ! k) ''kind'' = JStr ''ActionEvent'' \<and> member_of (branch ! k) ''action'' = a
     \<and> (\<exists>es. a = JObj es) \<and> (\<forall>j<k. \<not> answers (branch ! j) (branch ! k))"

definition action_of_event :: "json \<Rightarrow> json \<Rightarrow> bool" where
  "action_of_event e a \<longleftrightarrow> member_of e ''kind'' = JStr ''ActionEvent'' \<and> member_of e ''action'' = a \<and> (\<exists>es. a = JObj es)"

lemma open_action_Cons:
  "open_action (e # es) 0 a = action_of_event e a"
  "open_action (e # es) (Suc j) a \<longleftrightarrow> open_action es j a \<and> \<not> answers e (es ! j)"
  by (auto simp: open_action_def action_of_event_def All_less_Suc2)

definition unseen :: "string list \<Rightarrow> string list \<Rightarrow> json \<Rightarrow> bool" where
  "unseen ids calls e \<longleftrightarrow> js_text (member_of e ''id'') \<notin> set ids \<and> js_text (member_of e ''tool_call_id'') \<notin> set calls"

definition open_beyond :: "string list \<Rightarrow> string list \<Rightarrow> json list \<Rightarrow> json set" where
  "open_beyond ids calls branch = {a. \<exists>k. open_action branch k a \<and> unseen ids calls (branch ! k)}"

lemma open_beyond_Cons:
  "open_beyond ids calls (e # es) =
     {a. action_of_event e a \<and> unseen ids calls e}
     \<union> {a. \<exists>k. open_action es k a \<and> \<not> answers e (es ! k) \<and> unseen ids calls (es ! k)}" (is "?l = ?r")
proof (rule set_eqI)
  fix a
  have "a \<in> ?l \<longleftrightarrow> (open_action (e # es) 0 a \<and> unseen ids calls e) \<or> (\<exists>k. open_action (e # es) (Suc k) a \<and> unseen ids calls (es ! k))"
    unfolding open_beyond_def mem_Collect_eq by (metis nat.exhaust nth_Cons_0 nth_Cons_Suc)
  then show "a \<in> ?l \<longleftrightarrow> a \<in> ?r" by (auto simp: open_action_Cons)
qed

lemma answers_kinds:
  "member_of ob ''kind'' = JStr ''ObservationEvent'' \<or> member_of ob ''kind'' = JStr ''UserRejectObservation'' \<Longrightarrow>
     answers ob e \<longleftrightarrow> nonempty_text (member_of ob ''action_id'') = Some (js_text (member_of e ''id''))"
  "member_of ob ''kind'' = JStr ''AgentErrorEvent'' \<Longrightarrow>
     answers ob e \<longleftrightarrow> nonempty_text (member_of ob ''tool_call_id'') = Some (js_text (member_of e ''tool_call_id''))"
  "member_of ob ''kind'' \<notin> {JStr ''ObservationEvent'', JStr ''UserRejectObservation'', JStr ''AgentErrorEvent''} \<Longrightarrow> \<not> answers ob e"
  by (auto simp: answers_def)

lemma unanswered_set: "unanswered branch ids calls actions = Inr r \<Longrightarrow> set r = set actions \<union> open_beyond ids calls branch"
proof (induction branch ids calls actions rule: unanswered.induct)
  case (1 ids calls actions)
  then show ?case by (simp add: open_beyond_def open_action_def)
next
  case (2 e es ids calls actions)
  let ?k = "member_of e ''kind''"
  consider "?k = JStr ''ObservationEvent'' \<or> ?k = JStr ''UserRejectObservation''" | "?k = JStr ''AgentErrorEvent''"
    | "?k = JStr ''ActionEvent''"
    | "?k \<notin> {JStr ''ObservationEvent'', JStr ''UserRejectObservation'', JStr ''AgentErrorEvent'', JStr ''ActionEvent''}" by auto
  then show ?case
  proof cases
    case 1
    then have head: "\<not> action_of_event e a" for a by (auto simp: action_of_event_def)
    from 1 "2.prems" obtain i where i: "nonempty_text (member_of e ''action_id'') = Some i" "unanswered es (i # ids) calls actions = Inr r"
      by (auto split: option.splits)
    with 1 "2.IH"(1)[of i] have "set r = set actions \<union> open_beyond (i # ids) calls es" by auto
    then show ?thesis
      using head i(1) answers_kinds(1)[OF 1] unfolding open_beyond_Cons by (auto simp: open_beyond_def unseen_def)
  next
    case err: 2
    then have head: "\<not> action_of_event e a" for a by (auto simp: action_of_event_def)
    from err "2.prems" obtain i where i: "nonempty_text (member_of e ''tool_call_id'') = Some i" "unanswered es ids (i # calls) actions = Inr r"
      by (auto split: option.splits)
    with err "2.IH"(2)[of i] have "set r = set actions \<union> open_beyond ids (i # calls) es" by auto
    then show ?thesis
      using head i(1) answers_kinds(2)[OF err] unfolding open_beyond_Cons by (auto simp: open_beyond_def unseen_def)
  next
    case act: 3
    then have quiet: "\<not> answers e x" for x by (auto simp: answers_def)
    from act "2.prems" consider (none) "member_of e ''action'' \<in> {JNull, JUndefined}" "unanswered es ids calls actions = Inr r"
      | (some) a where "member_of e ''action'' = JObj a" "unseen ids calls e" "unanswered es ids calls (actions @ [JObj a]) = Inr r"
      | (seen) a where "member_of e ''action'' = JObj a" "\<not> unseen ids calls e" "unanswered es ids calls actions = Inr r"
      by (auto simp: unseen_def split: json.splits if_splits)
    then show ?thesis
    proof cases
      case none
      with act "2.IH" have "set r = set actions \<union> open_beyond ids calls es" by auto
      then show ?thesis using none quiet unfolding open_beyond_Cons by (auto simp: open_beyond_def action_of_event_def)
    next
      case some
      with act "2.IH"(5)[of a] have "set r = insert (JObj a) (set actions) \<union> open_beyond ids calls es" by (auto simp: unseen_def)
      then show ?thesis using some act quiet unfolding open_beyond_Cons by (auto simp: open_beyond_def action_of_event_def)
    next
      case seen
      with act "2.IH"(6)[of a] have "set r = set actions \<union> open_beyond ids calls es" by (auto simp: unseen_def)
      then show ?thesis using seen quiet unfolding open_beyond_Cons by (auto simp: open_beyond_def action_of_event_def)
    qed
  next
    case other: 4
    then have "\<not> action_of_event e a" "\<not> answers e x" for a x using answers_kinds(3) by (auto simp: action_of_event_def)
    moreover have "set r = set actions \<union> open_beyond ids calls es" using other "2.prems" "2.IH"(7) by auto
    ultimately show ?thesis unfolding open_beyond_Cons by (auto simp: open_beyond_def)
  qed
qed

lemma judge_actions_None:
  "judge_actions allowed as = None \<longleftrightarrow>
     (\<forall>a\<in>set as. fst (bounded_value a 0 0) \<and> ef_allowed (evaluateOpenHandsEffects (action_batch a) allowed))"
  by (induction allowed as rule: judge_actions.induct) (auto simp: Let_def)

lemma judge_actions_refuses: "judge_actions allowed as = Some d \<Longrightarrow> \<not> pd_allowed d"
  by (induction allowed as rule: judge_actions.induct) (auto simp: Let_def pending_refusal_def split: if_splits)

lemma pending_allowed_cases:
  assumes "pd_allowed (evaluatePendingOpenHandsActions state page allowed)"
  obtains items leaf M branch actions where
    "member_of state ''execution_status'' = JStr ''waiting_for_confirmation''" "member_of state ''leaf_event_id'' = JStr leaf"
    "member_of page ''items'' = JArr items" "index_events items [] = Some M" "walk_branch M [] (Some leaf) [] = Inr branch"
    "unanswered branch [] [] [] = Inr actions" "judge_actions allowed actions = None" "actions \<noteq> []"
  using assms unfolding evaluatePendingOpenHandsActions_def
  by (auto simp: pending_refusal_def nonempty_text_def dest: judge_actions_refuses
      split: json.splits option.splits sum.splits if_splits bool.splits)

text \<open>C18. A pending state is only admitted when the conversation waits for confirmation at a leaf whose
  parents lead to a root inside the page, at least one action on that branch is unanswered, and each
  unanswered action was by itself admitted by the effect policy on all of its strings.\<close>

theorem pending_actions_judged:
  assumes "pd_allowed (evaluatePendingOpenHandsActions state page allowed)"
  shows "\<exists>items leaf M branch. member_of state ''execution_status'' = JStr ''waiting_for_confirmation''
    \<and> member_of state ''leaf_event_id'' = JStr leaf \<and> member_of page ''items'' = JArr items \<and> index_events items [] = Some M
    \<and> parent_chain M leaf branch \<and> (\<exists>k a. open_action branch k a)
    \<and> (\<forall>k a. open_action branch k a \<longrightarrow> ef_allowed (evaluateOpenHandsEffects (action_batch a) allowed)
         \<and> scanned (action_batch a) = (''ActionEvent'', OtherLocus) # all_segments a OtherLocus)"
proof -
  from pending_allowed_cases[OF assms] obtain items leaf M branch actions where p:
    "member_of state ''execution_status'' = JStr ''waiting_for_confirmation''" "member_of state ''leaf_event_id'' = JStr leaf"
    "member_of page ''items'' = JArr items" "index_events items [] = Some M" "walk_branch M [] (Some leaf) [] = Inr branch"
    "unanswered branch [] [] [] = Inr actions" "judge_actions allowed actions = None" "actions \<noteq> []" by metis
  have acts: "set actions = {a. \<exists>k. open_action branch k a}"
    using unanswered_set[OF p(6)] by (simp add: open_beyond_def unseen_def)
  have judged: "ef_allowed (evaluateOpenHandsEffects (action_batch a) allowed)
      \<and> scanned (action_batch a) = (''ActionEvent'', OtherLocus) # all_segments a OtherLocus" if "open_action branch k a" for k a
  proof -
    have "a \<in> set actions" using that acts by blast
    then show ?thesis using p(7) within_budget_scanned by (simp add: judge_actions_None)
  qed
  have chain: "parent_chain M leaf branch" using p(5) walk_branch_chain[of M "[]" "Some leaf" "[]" branch] by simp
  have some: "\<exists>k a. open_action branch k a"
  proof -
    obtain a where "a \<in> set actions" using p(8) by (cases actions) auto
    then show ?thesis using acts by blast
  qed
  show ?thesis
    using p(1-4) chain some judged
    by (intro exI[of _ items] exI[of _ leaf] exI[of _ M] exI[of _ branch] conjI allI impI) blast+
qed

section \<open>Instances\<close>

definition demo_action :: json where
  "demo_action = JObj [(''id'', JStr ''e2''), (''kind'', JStr ''ActionEvent''), (''parent_id'', JStr ''e1''), (''action'', JObj [(''command'', JStr ''ls'')])]"

definition demo_root :: json where
  "demo_root = JObj [(''id'', JStr ''e1''), (''kind'', JStr ''MessageEvent'')]"

definition demo_page :: json where
  "demo_page = JObj [(''items'', JArr [demo_action, demo_root])]"

definition demo_state :: json where
  "demo_state = JObj [(''execution_status'', JStr ''waiting_for_confirmation''), (''leaf_event_id'', JStr ''e2'')]"

lemma demo_scan: "scanned (action_batch (JObj [(''command'', JStr ''ls'')])) = [(''ActionEvent'', OtherLocus), (''ls'', CommandLocus)]"
proof -
  have "fst (bounded_value (JObj [(''command'', JStr ''ls'')]) 0 0)" by code_simp
  moreover have "key_locus ''command'' OtherLocus = CommandLocus" by code_simp
  ultimately show ?thesis using within_budget_scanned by simp
qed

lemma demo_pending: "pd_allowed (evaluatePendingOpenHandsActions demo_state demo_page [ReadRepo])"
proof -
  let ?a = "JObj [(''command'', JStr ''ls'')]"
  have "target_depth (pending_actions (action_batch ?a)) = None"
    by (simp add: batch_actions target_depth_def workspaceFileDepth_def)
  moreover have "first_refusal [(''ActionEvent'', OtherLocus), (''ls'', CommandLocus)] None
      (scan_text (map fst [(''ActionEvent'', OtherLocus), (''ls'', CommandLocus)])) effect_checks = None" by code_simp
  ultimately have "ef_allowed (evaluateOpenHandsEffects (action_batch ?a) [ReadRepo])"
    using demo_scan unfolding evaluateOpenHandsEffects_def Let_def scanned_def
    by (simp add: batch_actions EFFECT_ACTIONS_def CONSEQUENTIAL_ACTIONS_def)
  moreover have "fst (bounded_value ?a 0 0)" by code_simp
  ultimately have "judge_actions [ReadRepo] [?a] = None" by (simp add: judge_actions_None)
  moreover have "walk_branch [(''e2'', demo_action), (''e1'', demo_root)] [] (Some ''e2'') [] = Inr [demo_action, demo_root]" by code_simp
  moreover have "unanswered [demo_action, demo_root] [] [] [] = Inr [?a]" by code_simp
  moreover have "index_events [demo_action, demo_root] [] = Some [(''e2'', demo_action), (''e1'', demo_root)]" by code_simp
  ultimately show ?thesis
    unfolding evaluatePendingOpenHandsActions_def
    by (simp add: demo_state_def demo_page_def nonempty_text_def del: walk_branch.simps unanswered.simps judge_actions.simps index_events.simps)
qed

theorem pending_actions_judged_witness:
  "\<exists>branch k a. open_action branch k a \<and> ef_allowed (evaluateOpenHandsEffects (action_batch a) [ReadRepo])"
  using pending_actions_judged[OF demo_pending] by blast

theorem bounded_action_scanned_whole_witness:
  "scanned (action_batch (JObj [(''code'', JStr ''x'')])) = (''ActionEvent'', OtherLocus) # all_segments (JObj [(''code'', JStr ''x'')]) OtherLocus"
proof (rule bounded_action_scanned_whole)
  show "fst (bounded_value (JObj [(''code'', JStr ''x'')]) 0 0)" by code_simp
qed


end
