(* ===== verification/RequestInput.thy ===== *)
theory RequestInput imports Regex begin

text \<open>
  What the runtime does to a query before anything else: the sanitiser
  (\<open>src/src/runtime/api/sanitize.ts\<close>) and the local classifier (\<open>classify.ts\<close>), with every pattern as an
  ECMAScript regular expression.  Text is UTF-16 code units below 256, so the two replacements of
  bidirectional and zero-width characters, all of them above, remove nothing.
\<close>

section \<open>Removing dangerous characters\<close>

text \<open>\<open>text.replace(r, '')\<close> with the flag \<open>g\<close>: what lies between the matches.\<close>

fun between_matches :: "string \<Rightarrow> nat \<Rightarrow> (nat \<times> nat) list \<Rightarrow> string" where
  "between_matches s k [] = drop k s"
| "between_matches s k ((i, e) # ms) = take (i - k) (drop k s) @ between_matches s e ms"

definition remove_matches :: "regex \<Rightarrow> string \<Rightarrow> string" where
  "remove_matches r s = between_matches s 0 (exec_all r s 0)"

definition in_range :: "nat \<Rightarrow> nat \<Rightarrow> char \<Rightarrow> bool" where
  "in_range a b c \<longleftrightarrow> a \<le> of_char c \<and> of_char c \<le> b"

definition ESC :: regex where
  "ESC = Cls (\<lambda>c. c = CHR 0x1B)"

definition csi_sequence :: regex where
  "csi_sequence = sqs [ESC, lit ''['', star (Cls (\<lambda>c. is_digit c \<or> c = CHR '';'' \<or> c = CHR ''?'')), star (Cls (in_range 0x20 0x2F)),
     Cls (in_range 0x40 0x7E)]"

definition osc_sequence :: regex where
  "osc_sequence = sqs [ESC, lit '']'', star (Cls (\<lambda>c. c \<noteq> CHR 0x07 \<and> c \<noteq> CHR 0x1B)),
     Alt (Cls (\<lambda>c. c = CHR 0x07)) (Sq ESC (lit [CHR 0x5C]))]"

definition short_escape :: regex where
  "short_escape = Sq ESC (Cls (\<lambda>c. in_range 0x40 0x5A c \<or> in_range 0x5C 0x5F c))"

definition control_char :: "char \<Rightarrow> bool" where
  "control_char c \<longleftrightarrow> in_range 0x00 0x08 c \<or> c = CHR 0x0B \<or> c = CHR 0x0C \<or> in_range 0x0E 0x1F c \<or> c = CHR 0x7F"

definition stripDangerousChars :: "string \<Rightarrow> string \<times> nat" where
  "stripDangerousChars s =
     (let t = remove_matches (Cls control_char)
                (remove_matches short_escape (remove_matches osc_sequence (remove_matches csi_sequence s)))
      in (t, length s - length t))"

section \<open>Injection rules\<close>

definition up_to :: "nat \<Rightarrow> regex" where
  "up_to n = Rep (Cls (\<lambda>c. c \<noteq> CHR ''.'')) 0 (Some n)"

definition word_of :: "string list \<Rightarrow> regex" where
  "word_of ws = sqs [Boundary, alts (map lit_ci ws), Boundary]"

definition exfiltration_rule :: regex where
  "exfiltration_rule = sqs [word_of [''reveal'', ''print'', ''repeat'', ''output'', ''show'', ''disclose''], up_to 40,
     word_of [''your'', ''the''], up_to 20, word_of [''system prompt'', ''initial instructions'', ''system message'']]"

definition impersonation_rule :: regex where
  "impersonation_rule = Alt
     (sqs [word_of [''mi9'', ''mi-9''], up_to 30, word_of [''approved'', ''bypass'', ''disabled'', ''override'']])
     (sqs [word_of [''governance''], up_to 20, word_of [''disabled'', ''bypassed'', ''off'']])"

definition payload_rule :: regex where
  "payload_rule = sqs [Boundary, alts (map lit_ci [''base64'', ''rot13'', ''hex'']), spaces0,
     alts (map lit_ci [''decode'', ''decoded'']), Boundary, up_to 30, word_of [''and'', ''then''], up_to 20,
     word_of [''execute'', ''run'', ''follow'']]"

definition HOSTILE_RULES :: "(string \<times> regex) list" where
  "HOSTILE_RULES =
     [(''H1_SYSTEM_PROMPT_EXFILTRATION'', exfiltration_rule), (''H2_GOVERNANCE_IMPERSONATION'', impersonation_rule),
      (''H3_ENCODED_PAYLOAD'', payload_rule)]"

definition override_rule :: regex where
  "override_rule = sqs [word_of [''ignore''], up_to 30, word_of [''previous'', ''prior'', ''above'', ''all''], up_to 20,
     Boundary, alts [Sq (lit_ci ''instruction'') (opt (lit_ci ''s'')), Sq (lit_ci ''prompt'') (opt (lit_ci ''s'')), Sq (lit_ci ''rule'') (opt (lit_ci ''s''))],
     Boundary]"

definition role_rule :: regex where
  "role_rule = alts [word_of [''you are now''], sqs [Boundary, lit_ci ''from now on'', opt (lit '',''), lit_ci '' you'', Boundary],
     sqs [Boundary, lit_ci ''act as if you '', alts (map lit_ci [''are'', ''were'']), Boundary]]"

definition release_rule :: regex where
  "release_rule = sqs [word_of [''disregard'', ''forget'', ''drop''], up_to 25, Boundary,
     alts [Sq (lit_ci ''constraint'') (opt (lit_ci ''s'')), Sq (lit_ci ''restriction'') (opt (lit_ci ''s'')),
       Sq (lit_ci ''guideline'') (opt (lit_ci ''s'')), lit_ci ''safety''], Boundary]"

definition forgery_rule :: regex where
  "forgery_rule = Alt
     (sqs [lit ''<'', opt (lit ''/''), alts [lit_ci ''system'', Sq (lit_ci ''instruction'') (opt (lit_ci ''s'')),
        sqs [lit_ci ''ronor'', opt (Cls (\<lambda>c. c = CHR ''-'' \<or> c = CHR ''_'')), lit_ci ''evidence'']], lit ''>''])
     (sqs [lit ''['', opt (lit ''/''), alts (map lit_ci [''system'', ''inst'']), lit '']''])"

definition coercion_rule :: regex where
  "coercion_rule = sqs [word_of [''call'', ''invoke'', ''execute''], up_to 25, word_of [''tool'', ''function'', ''api''], up_to 30,
     word_of [''without''], up_to 20, word_of [''approval'', ''confirmation'', ''permission'']]"

definition SUSPICIOUS_RULES :: "(string \<times> regex) list" where
  "SUSPICIOUS_RULES =
     [(''S1_INSTRUCTION_OVERRIDE'', override_rule), (''S2_ROLE_REASSIGNMENT'', role_rule), (''S3_CONSTRAINT_RELEASE'', release_rule),
      (''S4_DELIMITER_FORGERY'', forgery_rule), (''S5_TOOL_COERCION'', coercion_rule)]"

section \<open>The sanitiser\<close>

datatype injection_verdict = Clean | Suspicious | Hostile

datatype input_refusal = NotAString | EmptyQuery | QueryTooLong nat nat | HostileInput "string list"

record sanitisation =
  sa_ok :: bool
  sa_text :: string
  sa_verdict :: injection_verdict
  sa_findings :: "string list"
  sa_refusal :: "input_refusal option"
  sa_removedChars :: nat
  sa_originalLength :: nat

definition MAX_QUERY_CHARS :: nat where
  "MAX_QUERY_CHARS = 100000"

definition refused_input :: "nat \<Rightarrow> input_refusal \<Rightarrow> sanitisation" where
  "refused_input n why =
     \<lparr>sa_ok = False, sa_text = [], sa_verdict = Clean, sa_findings = [], sa_refusal = Some why, sa_removedChars = 0,
      sa_originalLength = n\<rparr>"

definition matched_rules :: "(string \<times> regex) list \<Rightarrow> string \<Rightarrow> string list" where
  "matched_rules rules t = map fst (filter (\<lambda>(_, r). occurs r t) rules)"

definition sanitiseQuery :: "json \<Rightarrow> nat \<Rightarrow> sanitisation" where
  "sanitiseQuery raw maxChars =
     (case raw of
        JStr s \<Rightarrow>
          if js_trim s = [] then refused_input (length s) EmptyQuery
          else if maxChars < length s then refused_input (length s) (QueryTooLong maxChars (length s))
          else
            let (t, removed) = stripDangerousChars s;
                hostile = matched_rules HOSTILE_RULES t;
                findings = hostile @ matched_rules SUSPICIOUS_RULES t
                  @ (if 0 < removed \<and> (of_nat removed :: rat) / of_nat (max 1 (length s)) > 5 / 100
                     then [''S6_HIGH_INVISIBLE_CHARACTER_RATIO''] else []);
                verdict = (if hostile \<noteq> [] then Hostile else if findings \<noteq> [] then Suspicious else Clean)
            in \<lparr>sa_ok = (verdict \<noteq> Hostile), sa_text = js_trim t, sa_verdict = verdict, sa_findings = findings,
                sa_refusal = (if hostile \<noteq> [] then Some (HostileInput (filter (prefix ''H'') findings)) else None),
                sa_removedChars = removed, sa_originalLength = length s\<rparr>
      | _ \<Rightarrow> refused_input 0 NotAString)"

definition identifier_char :: "char \<Rightarrow> bool" where
  "identifier_char c \<longleftrightarrow> is_alnum c \<or> c \<in> set ''._:-/''"

definition sanitiseIdentifier :: "json \<Rightarrow> nat \<Rightarrow> string option" where
  "sanitiseIdentifier raw maxChars =
     (case raw of
        JStr s \<Rightarrow>
          let cleaned = js_trim (fst (stripDangerousChars s))
          in if cleaned = [] \<or> maxChars < length cleaned then None
             else if \<not> list_all identifier_char cleaned then None
             else Some cleaned
      | _ \<Rightarrow> None)"

definition sanitiseFreeText :: "json \<Rightarrow> nat \<Rightarrow> string option" where
  "sanitiseFreeText raw maxChars =
     (case raw of
        JStr s \<Rightarrow>
          let cleaned = js_trim (fst (stripDangerousChars s))
          in if cleaned = [] \<or> maxChars < length cleaned then None else Some cleaned
      | _ \<Rightarrow> None)"

section \<open>The classifier\<close>

definition phrase :: "regex list \<Rightarrow> regex" where
  "phrase rs = sqs [Boundary, alts rs, Boundary]"

definition anychar :: "char \<Rightarrow> bool" where
  "anychar c \<longleftrightarrow> \<not> line_end c"

definition CALCULATION :: regex where
  "CALCULATION = Alt (word_of [''calculate'', ''compute'', ''what is'', ''how much is'', ''sum of'', ''product of''])
     (sqs [Cls is_digit, spaces0, Cls (\<lambda>c. c \<in> set ''+-*/^%''), spaces0, Cls is_digit])"

definition SEARCH :: regex where
  "SEARCH = Alt (word_of [''latest'', ''current'', ''today'', ''yesterday'', ''this week'', ''recent'', ''news'', ''as of'', ''price of'',
       ''who is currently'', ''what happened''])
     (sqs [Boundary, lit ''20'', Cls (\<lambda>c. c \<in> set ''23456789''), Cls is_digit, Boundary])"

definition SUMMARY :: regex where
  "SUMMARY = phrase [Sq (lit_ci ''summar'') (alts (map lit_ci [''ise'', ''ize'', ''y''])), sqs [lit_ci ''tl'', opt (lit '';''), lit_ci ''dr''],
     lit_ci ''condense'', lit_ci ''abstract'', lit_ci ''key points'']"

definition EXTRACTION :: regex where
  "EXTRACTION = word_of [''extract'', ''list all'', ''pull out'', ''identify all'', ''enumerate'', ''tabulate'']"

definition VERIFICATION :: regex where
  "VERIFICATION = phrase [lit_ci ''verify'', sqs [lit_ci ''fact'', opt (Cls anychar), lit_ci ''check''], lit_ci ''confirm whether'',
     lit_ci ''is it true'', lit_ci ''corroborate'', lit_ci ''substantiate'']"

definition ANALYSIS :: regex where
  "ANALYSIS = phrase (map lit_ci [''analyse'', ''analyze'', ''assess'', ''evaluate'', ''compare'', ''implications'', ''why does'', ''explain how'']
     @ [sqs [lit_ci ''trade'', opt (Cls anychar), lit_ci ''off'', opt (lit_ci ''s'')]])"

definition SYNTHESIS :: regex where
  "SYNTHESIS = word_of [''synthesis'', ''synthesise'', ''synthesize'', ''write a report'', ''draft a'', ''memo'', ''brief'', ''recommendation'']"

definition VALIDATION :: regex where
  "VALIDATION = phrase [lit_ci ''validate'', lit_ci ''check whether'', lit_ci ''does this comply'',
     sqs [lit_ci ''conform'', opt (lit_ci ''s''), lit_ci '' to''], lit_ci ''is this correct'']"

definition LOOKUP :: regex where
  "LOOKUP = word_of [''who is'', ''what is the capital'', ''when was'', ''where is'', ''define'', ''definition of'']"

definition DECOMPOSE :: regex where
  "DECOMPOSE = phrase [lit_ci ''and then'', sqs [lit_ci ''first'', star (Cls anychar), lit_ci ''then''], lit_ci ''step by step'',
     sqs [lit_ci ''multi'', opt (Cls anychar), lit_ci ''step''], lit_ci ''for each'',
     Sq (lit_ci ''across '') (alts (map lit_ci [''all'', ''several''])),
     sqs [lit_ci ''end'', Cls anychar, lit_ci ''to'', Cls anychar, lit_ci ''end'']]"

definition CONJUNCTIONS :: regex where
  "CONJUNCTIONS = word_of [''and'', ''also'', ''additionally'', ''furthermore'', ''as well as'']"

datatype complexity = CxTrivial | CxSimple | CxModerate | CxComplex

datatype effort = EffortNone | EffortLow | EffortMedium | EffortHigh

record classification =
  cl_task_type :: string
  cl_complexity :: complexity
  cl_requires_search :: bool
  cl_requires_decomposition :: bool
  cl_reasoning_effort :: effort
  cl_max_output_tokens :: rat
  cl_signals :: "string list"
  cl_explicit :: bool

definition CAPABILITIES :: "string list" where
  "CAPABILITIES = [''reasoning'', ''generation'', ''analysis'', ''summarization'', ''extraction'', ''calculation'', ''validation'',
     ''lookup'', ''search'', ''synthesis'', ''verification'', ''decomposition'']"

definition isCapability :: "string \<Rightarrow> bool" where
  "isCapability v \<longleftrightarrow> v \<in> set CAPABILITIES"

fun effortFor :: "complexity \<Rightarrow> effort" where
  "effortFor CxTrivial = EffortNone"
| "effortFor CxSimple = EffortLow"
| "effortFor CxModerate = EffortMedium"
| "effortFor CxComplex = EffortHigh"

fun tokensFor :: "complexity \<Rightarrow> rat" where
  "tokensFor CxTrivial = 1024"
| "tokensFor CxSimple = 2048"
| "tokensFor CxModerate = 4096"
| "tokensFor CxComplex = 8192"

text \<open>\<open>q.trim().split(/\s+/).length\<close>: one more than the runs of white space inside.\<close>

definition word_count :: "string \<Rightarrow> nat" where
  "word_count q = Suc (length (exec_all spaces1 (js_trim q) 0))"

definition assessComplexity :: "string \<Rightarrow> complexity \<times> string list" where
  "assessComplexity q =
     (let words = word_count q; questionMarks = length (filter (\<lambda>c. c = CHR ''?'') q); conjunctions = length (exec_all CONJUNCTIONS q 0);
          score = of_nat words / 30 + of_nat questionMarks + of_nat conjunctions * (1 / 2) + (if occurs DECOMPOSE q then 2 else 0 :: rat)
      in if words \<le> 8 \<and> occurs CALCULATION q then (CxTrivial, [''X0_TRIVIAL_ARITHMETIC''])
         else if score \<ge> 4 then (CxComplex, [''X3_COMPLEX''])
         else if score \<ge> 2 then (CxModerate, [''X2_MODERATE''])
         else if words \<le> 12 then (CxSimple, [''X1_SIMPLE''])
         else (CxModerate, [''X2_MODERATE'']))"

definition task_rules :: "(regex \<times> string \<times> string) list" where
  "task_rules =
     [(CALCULATION, ''calculation'', ''C1_ARITHMETIC_SIGNAL''), (VERIFICATION, ''verification'', ''C2_VERIFICATION_SIGNAL''),
      (EXTRACTION, ''extraction'', ''C3_EXTRACTION_SIGNAL''), (SUMMARY, ''summarization'', ''C4_SUMMARY_SIGNAL''),
      (SYNTHESIS, ''synthesis'', ''C5_SYNTHESIS_SIGNAL''), (VALIDATION, ''validation'', ''C6_VALIDATION_SIGNAL''),
      (ANALYSIS, ''analysis'', ''C7_ANALYSIS_SIGNAL''), (SEARCH, ''search'', ''C8_RECENCY_SIGNAL'')]"

definition task_of :: "string \<Rightarrow> string \<times> string" where
  "task_of q =
     (case find (\<lambda>(r, _, _). occurs r q) task_rules of
        Some (_, task, signal) \<Rightarrow> (task, signal)
      | None \<Rightarrow>
          if occurs LOOKUP q \<and> length q < 160 then (''lookup'', ''C9_LOOKUP_SIGNAL'')
          else (''reasoning'', ''C10_DEFAULT_REASONING''))"

definition classifyRequest :: "string \<Rightarrow> string option \<Rightarrow> classification" where
  "classifyRequest q declared =
     (case assessComplexity q of (cx, signals) \<Rightarrow>
       (if truthy_str declared \<and> isCapability (the declared)
        then \<lparr>cl_task_type = the declared, cl_complexity = cx, cl_requires_search = occurs SEARCH q,
              cl_requires_decomposition = (occurs DECOMPOSE q \<or> cx = CxComplex), cl_reasoning_effort = effortFor cx,
              cl_max_output_tokens = tokensFor cx, cl_signals = ''C0_CALLER_DECLARED'' # signals, cl_explicit = True\<rparr>
        else
          (case task_of q of (task, signal) \<Rightarrow>
            let search = occurs SEARCH q; decompose = occurs DECOMPOSE q \<or> cx = CxComplex
            in \<lparr>cl_task_type = task, cl_complexity = cx, cl_requires_search = search, cl_requires_decomposition = decompose,
                cl_reasoning_effort = effortFor cx, cl_max_output_tokens = tokensFor cx,
                cl_signals = [signal] @ (if search \<and> task \<noteq> ''search'' then [''C8_RECENCY_SIGNAL''] else []) @ signals
                  @ (if decompose then [''C11_DECOMPOSITION_SIGNAL''] else []),
                cl_explicit = False\<rparr>)))"

section \<open>Removing the matches of a class is filtering\<close>










section \<open>What passes\<close>




text \<open>The classification is within its types, and a declared capability is kept.\<close>

lemma task_of_capability: "isCapability (fst (task_of q))"
proof -
  have "list_all (\<lambda>(r, task, signal). isCapability task) task_rules"
    by (simp add: task_rules_def isCapability_def CAPABILITIES_def)
  then have ok: "isCapability task" if "(r, task, signal) \<in> set task_rules" for r task signal
    using that by (auto simp: list_all_iff)
  show ?thesis
  proof (cases "find (\<lambda>(r, _, _). occurs r q) task_rules")
    case None
    then show ?thesis by (simp add: task_of_def isCapability_def CAPABILITIES_def)
  next
    case (Some t)
    then have "t \<in> set task_rules" by (metis (no_types, lifting) find_Some_iff nth_mem)
    with Some ok show ?thesis by (cases t) (simp add: task_of_def)
  qed
qed

text \<open>Whatever the text, the classifier returns one of the twelve capabilities, the caller's own when it declares
  one, and asks for decomposition exactly when the text matches that pattern or is complex; effort and
  output budget are those of the complexity.\<close>

theorem classification_typed:
  "let c = classifyRequest q declared in
     isCapability (cl_task_type c)
     \<and> cl_explicit c = (truthy_str declared \<and> isCapability (the declared))
     \<and> (if cl_explicit c then declared = Some (cl_task_type c) else True)
     \<and> cl_requires_decomposition c = (occurs DECOMPOSE q \<or> cl_complexity c = CxComplex)
     \<and> cl_reasoning_effort c = effortFor (cl_complexity c) \<and> cl_max_output_tokens c = tokensFor (cl_complexity c)
     \<and> 1024 \<le> cl_max_output_tokens c \<and> cl_max_output_tokens c \<le> 8192"
proof -
  have "1024 \<le> tokensFor cx \<and> tokensFor cx \<le> 8192" for cx by (cases cx) simp_all
  then show ?thesis
    using task_of_capability[of q]
    by (auto simp: classifyRequest_def Let_def truthy_str_def case_prod_beta split: option.splits)
qed

section \<open>Particular inputs\<close>

text \<open>A query of control characters alone passes, although an empty query does not.\<close>

lemma invisible_query_accepted:
  "sa_ok (sanitiseQuery (JStr [CHR 0x01]) 100) \<and> sa_text (sanitiseQuery (JStr [CHR 0x01]) 100) = []
   \<and> \<not> sa_ok (sanitiseQuery (JStr []) 100)"
  by code_simp

text \<open>A sequence wrapped around another leaves its visible remainder behind.\<close>

lemma nested_escape_leaves_remainder:
  "fst (stripDangerousChars ([CHR 0x1B, CHR 0x1B] @ ''[31m[31mx'')) = ''[31mx''"
  by code_simp

end
