(* ===== verification/RuntimeCatalogue.thy ===== *)
theory RuntimeCatalogue imports ExchangePolicy begin

text \<open>
  What the runtime's model exchange routes over: the catalogue of engines
  (\<open>src/src/runtime/router/catalogue.ts\<close>) and the providers behind them, their credentials, the
  gateway and the refusals an adapter makes before any request leaves
  (\<open>src/src/runtime/providers/\<close>).  Prices, scores and latencies are exact rationals.  The process
  environment is a map; the platform's URL parser and what a vendor answers are parameters.
\<close>

section \<open>Catalogue\<close>

datatype provider_id =
    POpenai | PAnthropic | PGoogle | PDeepseek | PPerplexity | PKimi | PXai | POllama | PDeterministic

fun provider_name :: "provider_id \<Rightarrow> string" where
  "provider_name POpenai = ''openai''"
| "provider_name PAnthropic = ''anthropic''"
| "provider_name PGoogle = ''google''"
| "provider_name PDeepseek = ''deepseek''"
| "provider_name PPerplexity = ''perplexity''"
| "provider_name PKimi = ''kimi''"
| "provider_name PXai = ''xai''"
| "provider_name POllama = ''ollama''"
| "provider_name PDeterministic = ''deterministic''"

record catalogue_entry =
  ce_id :: string
  ce_provider :: provider_id
  ce_vendorModel :: string
  ce_displayName :: string
  ce_capabilities :: "string list"
  ce_input_cost :: rat
  ce_output_cost :: rat
  ce_latency_seed_ms :: rat
  ce_jurisdictions :: "string list"
  ce_sovereignty_level :: nat
  ce_quality_score :: rat
  ce_evidence_reliability :: rat
  ce_operational_risk :: rat
  ce_context_window :: rat
  ce_max_output_tokens :: rat
  ce_search_augmented :: bool

definition cat_qwen3_5_4b :: catalogue_entry where
  "cat_qwen3_5_4b =
    \<lparr>ce_id = ''ollama/qwen3.5-4b'', ce_provider = POllama, ce_vendorModel = ''qwen3.5:4b'', ce_displayName = ''Qwen 3.5 4B Local'',
     ce_capabilities = [''reasoning'', ''generation'', ''analysis'', ''summarization'', ''extraction''],
     ce_input_cost = 0, ce_output_cost = 0, ce_latency_seed_ms = 7000, ce_jurisdictions = [''LOCAL'', ''RO''],
     ce_sovereignty_level = 3, ce_quality_score = 73, ce_evidence_reliability = 57, ce_operational_risk = 12,
     ce_context_window = 256000, ce_max_output_tokens = 8192, ce_search_augmented = False\<rparr>"

definition cat_qwen3_4b_instruct :: catalogue_entry where
  "cat_qwen3_4b_instruct =
    \<lparr>ce_id = ''ollama/qwen3-4b-instruct'', ce_provider = POllama, ce_vendorModel = ''qwen3:4b-instruct'', ce_displayName = ''Qwen3 4B Local'',
     ce_capabilities = [''generation'', ''analysis'', ''summarization'', ''extraction'', ''decomposition''],
     ce_input_cost = 0, ce_output_cost = 0, ce_latency_seed_ms = 6500, ce_jurisdictions = [''LOCAL'', ''RO''],
     ce_sovereignty_level = 3, ce_quality_score = 68, ce_evidence_reliability = 55, ce_operational_risk = 12,
     ce_context_window = 40000, ce_max_output_tokens = 8192, ce_search_augmented = False\<rparr>"

definition cat_qwen2_5_coder_3b :: catalogue_entry where
  "cat_qwen2_5_coder_3b =
    \<lparr>ce_id = ''ollama/qwen2.5-coder-3b'', ce_provider = POllama, ce_vendorModel = ''qwen2.5-coder:3b'', ce_displayName = ''Qwen2.5 Coder 3B Local'',
     ce_capabilities = [''generation'', ''analysis'', ''validation'', ''verification''],
     ce_input_cost = 0, ce_output_cost = 0, ce_latency_seed_ms = 5200, ce_jurisdictions = [''LOCAL'', ''RO''],
     ce_sovereignty_level = 3, ce_quality_score = 66, ce_evidence_reliability = 58, ce_operational_risk = 12,
     ce_context_window = 32000, ce_max_output_tokens = 8192, ce_search_augmented = False\<rparr>"

definition cat_deepseek_r1_1_5b :: catalogue_entry where
  "cat_deepseek_r1_1_5b =
    \<lparr>ce_id = ''ollama/deepseek-r1-1.5b'', ce_provider = POllama, ce_vendorModel = ''deepseek-r1:1.5b'', ce_displayName = ''DeepSeek R1 1.5B Local'',
     ce_capabilities = [''reasoning'', ''analysis'', ''calculation''],
     ce_input_cost = 0, ce_output_cost = 0, ce_latency_seed_ms = 4200, ce_jurisdictions = [''LOCAL'', ''RO''],
     ce_sovereignty_level = 3, ce_quality_score = 59, ce_evidence_reliability = 48, ce_operational_risk = 14,
     ce_context_window = 128000, ce_max_output_tokens = 8192, ce_search_augmented = False\<rparr>"

definition cat_qwen2_5_72b_contabo :: catalogue_entry where
  "cat_qwen2_5_72b_contabo =
    \<lparr>ce_id = ''ollama/qwen2.5-72b-contabo'', ce_provider = POllama, ce_vendorModel = ''qwen2.5:72b-instruct-q4_K_M'', ce_displayName = ''Qwen2.5 72B Sovereign'',
     ce_capabilities = [''reasoning'', ''generation'', ''analysis'', ''summarization'', ''synthesis'', ''decomposition''],
     ce_input_cost = 0, ce_output_cost = 0, ce_latency_seed_ms = 102000, ce_jurisdictions = [''LOCAL'', ''RO''],
     ce_sovereignty_level = 3, ce_quality_score = 85, ce_evidence_reliability = 68, ce_operational_risk = 16,
     ce_context_window = 32000, ce_max_output_tokens = 8192, ce_search_augmented = False\<rparr>"

definition cat_qwen3_5_35b_a3b_contabo :: catalogue_entry where
  "cat_qwen3_5_35b_a3b_contabo =
    \<lparr>ce_id = ''ollama/qwen3.5-35b-a3b-contabo'', ce_provider = POllama, ce_vendorModel = ''qwen3.5:35b-a3b'', ce_displayName = ''Qwen 3.5 35B-A3B Sovereign'',
     ce_capabilities = [''reasoning'', ''generation'', ''analysis'', ''summarization'', ''synthesis'', ''decomposition'', ''verification''],
     ce_input_cost = 0, ce_output_cost = 0, ce_latency_seed_ms = 80000, ce_jurisdictions = [''LOCAL'', ''RO''],
     ce_sovereignty_level = 3, ce_quality_score = 89, ce_evidence_reliability = 70, ce_operational_risk = 14,
     ce_context_window = 256000, ce_max_output_tokens = 65536, ce_search_augmented = False\<rparr>"

definition cat_qwen3_coder_30b_contabo :: catalogue_entry where
  "cat_qwen3_coder_30b_contabo =
    \<lparr>ce_id = ''ollama/qwen3-coder-30b-contabo'', ce_provider = POllama, ce_vendorModel = ''qwen3-coder:30b'', ce_displayName = ''Qwen 3 Coder 30B Sovereign'',
     ce_capabilities = [''generation'', ''analysis'', ''validation'', ''verification'', ''decomposition''],
     ce_input_cost = 0, ce_output_cost = 0, ce_latency_seed_ms = 75000, ce_jurisdictions = [''LOCAL'', ''RO''],
     ce_sovereignty_level = 3, ce_quality_score = 87, ce_evidence_reliability = 68, ce_operational_risk = 14,
     ce_context_window = 256000, ce_max_output_tokens = 32768, ce_search_augmented = False\<rparr>"

definition cat_llama3_1_70b_contabo :: catalogue_entry where
  "cat_llama3_1_70b_contabo =
    \<lparr>ce_id = ''ollama/llama3.1-70b-contabo'', ce_provider = POllama, ce_vendorModel = ''llama3.1:70b-instruct-q4_K_M'', ce_displayName = ''Llama 3.1 70B Sovereign Verifier'',
     ce_capabilities = [''reasoning'', ''analysis'', ''verification'', ''synthesis''],
     ce_input_cost = 0, ce_output_cost = 0, ce_latency_seed_ms = 116000, ce_jurisdictions = [''LOCAL'', ''RO''],
     ce_sovereignty_level = 3, ce_quality_score = 84, ce_evidence_reliability = 72, ce_operational_risk = 15,
     ce_context_window = 128000, ce_max_output_tokens = 8192, ce_search_augmented = False\<rparr>"

definition cat_deepseek_r1_70b_contabo :: catalogue_entry where
  "cat_deepseek_r1_70b_contabo =
    \<lparr>ce_id = ''ollama/deepseek-r1-70b-contabo'', ce_provider = POllama, ce_vendorModel = ''deepseek-r1:70b-llama-distill-q4_K_M'', ce_displayName = ''DeepSeek R1 70B Sovereign'',
     ce_capabilities = [''reasoning'', ''analysis'', ''calculation'', ''synthesis''],
     ce_input_cost = 0, ce_output_cost = 0, ce_latency_seed_ms = 125000, ce_jurisdictions = [''LOCAL'', ''RO''],
     ce_sovereignty_level = 3, ce_quality_score = 86, ce_evidence_reliability = 65, ce_operational_risk = 18,
     ce_context_window = 128000, ce_max_output_tokens = 8192, ce_search_augmented = False\<rparr>"

definition cat_gpt_5_5 :: catalogue_entry where
  "cat_gpt_5_5 =
    \<lparr>ce_id = ''openai/gpt-5.5'', ce_provider = POpenai, ce_vendorModel = ''gpt-5.5'', ce_displayName = ''GPT-5.5'',
     ce_capabilities = [''reasoning'', ''generation'', ''analysis'', ''synthesis'', ''decomposition'', ''extraction''],
     ce_input_cost = 5, ce_output_cost = 30, ce_latency_seed_ms = 9000, ce_jurisdictions = [''US''],
     ce_sovereignty_level = 1, ce_quality_score = 96, ce_evidence_reliability = 78, ce_operational_risk = 16,
     ce_context_window = 400000, ce_max_output_tokens = 128000, ce_search_augmented = False\<rparr>"

definition cat_gpt_5 :: catalogue_entry where
  "cat_gpt_5 =
    \<lparr>ce_id = ''openai/gpt-5'', ce_provider = POpenai, ce_vendorModel = ''gpt-5'', ce_displayName = ''GPT-5'',
     ce_capabilities = [''reasoning'', ''generation'', ''analysis'', ''synthesis'', ''decomposition'', ''extraction''],
     ce_input_cost = 125 / 100, ce_output_cost = 10, ce_latency_seed_ms = 6500, ce_jurisdictions = [''US''],
     ce_sovereignty_level = 1, ce_quality_score = 93, ce_evidence_reliability = 76, ce_operational_risk = 17,
     ce_context_window = 400000, ce_max_output_tokens = 128000, ce_search_augmented = False\<rparr>"

definition cat_gpt_5_mini :: catalogue_entry where
  "cat_gpt_5_mini =
    \<lparr>ce_id = ''openai/gpt-5-mini'', ce_provider = POpenai, ce_vendorModel = ''gpt-5-mini'', ce_displayName = ''GPT-5 mini'',
     ce_capabilities = [''reasoning'', ''generation'', ''analysis'', ''summarization'', ''extraction'', ''validation''],
     ce_input_cost = 25 / 100, ce_output_cost = 2, ce_latency_seed_ms = 3800, ce_jurisdictions = [''US''],
     ce_sovereignty_level = 1, ce_quality_score = 86, ce_evidence_reliability = 70, ce_operational_risk = 19,
     ce_context_window = 400000, ce_max_output_tokens = 128000, ce_search_augmented = False\<rparr>"

definition cat_gpt_5_nano :: catalogue_entry where
  "cat_gpt_5_nano =
    \<lparr>ce_id = ''openai/gpt-5-nano'', ce_provider = POpenai, ce_vendorModel = ''gpt-5-nano'', ce_displayName = ''GPT-5 nano'',
     ce_capabilities = [''summarization'', ''extraction'', ''validation'', ''lookup''],
     ce_input_cost = 5 / 100, ce_output_cost = 4 / 10, ce_latency_seed_ms = 2200, ce_jurisdictions = [''US''],
     ce_sovereignty_level = 1, ce_quality_score = 76, ce_evidence_reliability = 62, ce_operational_risk = 22,
     ce_context_window = 400000, ce_max_output_tokens = 128000, ce_search_augmented = False\<rparr>"

definition cat_claude_opus_4_7 :: catalogue_entry where
  "cat_claude_opus_4_7 =
    \<lparr>ce_id = ''anthropic/claude-opus-4-7'', ce_provider = PAnthropic, ce_vendorModel = ''claude-opus-4-7'', ce_displayName = ''Claude Opus 4.7'',
     ce_capabilities = [''reasoning'', ''generation'', ''analysis'', ''synthesis'', ''verification'', ''decomposition''],
     ce_input_cost = 5, ce_output_cost = 25, ce_latency_seed_ms = 8500, ce_jurisdictions = [''US''],
     ce_sovereignty_level = 1, ce_quality_score = 95, ce_evidence_reliability = 82, ce_operational_risk = 15,
     ce_context_window = 200000, ce_max_output_tokens = 64000, ce_search_augmented = False\<rparr>"

definition cat_claude_sonnet_4_6 :: catalogue_entry where
  "cat_claude_sonnet_4_6 =
    \<lparr>ce_id = ''anthropic/claude-sonnet-4-6'', ce_provider = PAnthropic, ce_vendorModel = ''claude-sonnet-4-6'', ce_displayName = ''Claude Sonnet 4.6'',
     ce_capabilities = [''reasoning'', ''generation'', ''analysis'', ''synthesis'', ''verification'', ''extraction''],
     ce_input_cost = 3, ce_output_cost = 15, ce_latency_seed_ms = 5200, ce_jurisdictions = [''US''],
     ce_sovereignty_level = 1, ce_quality_score = 92, ce_evidence_reliability = 80, ce_operational_risk = 16,
     ce_context_window = 200000, ce_max_output_tokens = 64000, ce_search_augmented = False\<rparr>"

definition cat_claude_haiku_4_5 :: catalogue_entry where
  "cat_claude_haiku_4_5 =
    \<lparr>ce_id = ''anthropic/claude-haiku-4-5'', ce_provider = PAnthropic, ce_vendorModel = ''claude-haiku-4-5'', ce_displayName = ''Claude Haiku 4.5'',
     ce_capabilities = [''summarization'', ''extraction'', ''validation'', ''analysis'', ''verification''],
     ce_input_cost = 1, ce_output_cost = 5, ce_latency_seed_ms = 2600, ce_jurisdictions = [''US''],
     ce_sovereignty_level = 1, ce_quality_score = 82, ce_evidence_reliability = 72, ce_operational_risk = 18,
     ce_context_window = 200000, ce_max_output_tokens = 64000, ce_search_augmented = False\<rparr>"

definition cat_gemini_3_1_pro_preview :: catalogue_entry where
  "cat_gemini_3_1_pro_preview =
    \<lparr>ce_id = ''google/gemini-3.1-pro-preview'', ce_provider = PGoogle, ce_vendorModel = ''gemini-3.1-pro-preview'', ce_displayName = ''Gemini 3.1 Pro'',
     ce_capabilities = [''reasoning'', ''generation'', ''analysis'', ''synthesis'', ''summarization'', ''extraction''],
     ce_input_cost = 2, ce_output_cost = 12, ce_latency_seed_ms = 6000, ce_jurisdictions = [''US''],
     ce_sovereignty_level = 1, ce_quality_score = 91, ce_evidence_reliability = 74, ce_operational_risk = 18,
     ce_context_window = 1000000, ce_max_output_tokens = 65536, ce_search_augmented = False\<rparr>"

definition cat_gemini_3_6_flash :: catalogue_entry where
  "cat_gemini_3_6_flash =
    \<lparr>ce_id = ''google/gemini-3.6-flash'', ce_provider = PGoogle, ce_vendorModel = ''gemini-3.6-flash'', ce_displayName = ''Gemini 3.6 Flash'',
     ce_capabilities = [''summarization'', ''extraction'', ''analysis'', ''validation'', ''lookup''],
     ce_input_cost = 5 / 10, ce_output_cost = 3, ce_latency_seed_ms = 2400, ce_jurisdictions = [''US''],
     ce_sovereignty_level = 1, ce_quality_score = 83, ce_evidence_reliability = 68, ce_operational_risk = 20,
     ce_context_window = 1000000, ce_max_output_tokens = 65536, ce_search_augmented = False\<rparr>"

definition cat_deepseek_reasoner :: catalogue_entry where
  "cat_deepseek_reasoner =
    \<lparr>ce_id = ''deepseek/deepseek-reasoner'', ce_provider = PDeepseek, ce_vendorModel = ''deepseek-reasoner'', ce_displayName = ''DeepSeek Reasoner'',
     ce_capabilities = [''reasoning'', ''analysis'', ''calculation'', ''synthesis''],
     ce_input_cost = 55 / 100, ce_output_cost = 219 / 100, ce_latency_seed_ms = 11000, ce_jurisdictions = [''CN''],
     ce_sovereignty_level = 0, ce_quality_score = 88, ce_evidence_reliability = 64, ce_operational_risk = 42,
     ce_context_window = 128000, ce_max_output_tokens = 32768, ce_search_augmented = False\<rparr>"

definition cat_deepseek_chat :: catalogue_entry where
  "cat_deepseek_chat =
    \<lparr>ce_id = ''deepseek/deepseek-chat'', ce_provider = PDeepseek, ce_vendorModel = ''deepseek-chat'', ce_displayName = ''DeepSeek Chat'',
     ce_capabilities = [''generation'', ''summarization'', ''extraction'', ''analysis''],
     ce_input_cost = 27 / 100, ce_output_cost = 11 / 10, ce_latency_seed_ms = 4200, ce_jurisdictions = [''CN''],
     ce_sovereignty_level = 0, ce_quality_score = 80, ce_evidence_reliability = 60, ce_operational_risk = 44,
     ce_context_window = 128000, ce_max_output_tokens = 8192, ce_search_augmented = False\<rparr>"

definition cat_sonar_pro :: catalogue_entry where
  "cat_sonar_pro =
    \<lparr>ce_id = ''perplexity/sonar-pro'', ce_provider = PPerplexity, ce_vendorModel = ''sonar-pro'', ce_displayName = ''Perplexity Sonar Pro'',
     ce_capabilities = [''search'', ''lookup'', ''summarization'', ''analysis''],
     ce_input_cost = 3, ce_output_cost = 15, ce_latency_seed_ms = 7000, ce_jurisdictions = [''US''],
     ce_sovereignty_level = 1, ce_quality_score = 84, ce_evidence_reliability = 90, ce_operational_risk = 20,
     ce_context_window = 200000, ce_max_output_tokens = 8192, ce_search_augmented = True\<rparr>"

definition cat_sonar :: catalogue_entry where
  "cat_sonar =
    \<lparr>ce_id = ''perplexity/sonar'', ce_provider = PPerplexity, ce_vendorModel = ''sonar'', ce_displayName = ''Perplexity Sonar'',
     ce_capabilities = [''search'', ''lookup'', ''summarization''],
     ce_input_cost = 1, ce_output_cost = 1, ce_latency_seed_ms = 4000, ce_jurisdictions = [''US''],
     ce_sovereignty_level = 1, ce_quality_score = 76, ce_evidence_reliability = 86, ce_operational_risk = 22,
     ce_context_window = 128000, ce_max_output_tokens = 4096, ce_search_augmented = True\<rparr>"

definition cat_kimi_k2_6 :: catalogue_entry where
  "cat_kimi_k2_6 =
    \<lparr>ce_id = ''kimi/kimi-k2.6'', ce_provider = PKimi, ce_vendorModel = ''kimi-k2.6'', ce_displayName = ''Kimi K2.6'',
     ce_capabilities = [''reasoning'', ''generation'', ''analysis'', ''synthesis'', ''decomposition''],
     ce_input_cost = 95 / 100, ce_output_cost = 4, ce_latency_seed_ms = 7000, ce_jurisdictions = [''CN''],
     ce_sovereignty_level = 0, ce_quality_score = 91, ce_evidence_reliability = 68, ce_operational_risk = 42,
     ce_context_window = 256000, ce_max_output_tokens = 64000, ce_search_augmented = False\<rparr>"

definition cat_grok_4_5 :: catalogue_entry where
  "cat_grok_4_5 =
    \<lparr>ce_id = ''xai/grok-4.5'', ce_provider = PXai, ce_vendorModel = ''grok-4.5'', ce_displayName = ''Grok 4.5'',
     ce_capabilities = [''reasoning'', ''generation'', ''analysis'', ''synthesis'', ''decomposition'', ''verification''],
     ce_input_cost = 2, ce_output_cost = 6, ce_latency_seed_ms = 7000, ce_jurisdictions = [''US''],
     ce_sovereignty_level = 1, ce_quality_score = 94, ce_evidence_reliability = 76, ce_operational_risk = 18,
     ce_context_window = 500000, ce_max_output_tokens = 64000, ce_search_augmented = False\<rparr>"

definition cat_gemini_3_7_flash :: catalogue_entry where
  "cat_gemini_3_7_flash =
    \<lparr>ce_id = ''google/gemini-3.7-flash'', ce_provider = PGoogle, ce_vendorModel = ''gemini-3.7-flash'', ce_displayName = ''Gemini 3.7 Flash'',
     ce_capabilities = [''reasoning'', ''generation'', ''analysis'', ''synthesis'', ''summarization'', ''extraction'', ''verification''],
     ce_input_cost = 5 / 10, ce_output_cost = 3, ce_latency_seed_ms = 2400, ce_jurisdictions = [''US''],
     ce_sovereignty_level = 1, ce_quality_score = 89, ce_evidence_reliability = 72, ce_operational_risk = 18,
     ce_context_window = 1000000, ce_max_output_tokens = 65536, ce_search_augmented = False\<rparr>"

definition cat_deterministic_core :: catalogue_entry where
  "cat_deterministic_core =
    \<lparr>ce_id = ''ronor/deterministic-core'', ce_provider = PDeterministic, ce_vendorModel = ''ronor/deterministic-core'', ce_displayName = ''RONOR Deterministic Core'',
     ce_capabilities = [''calculation'', ''validation'', ''lookup''],
     ce_input_cost = 0, ce_output_cost = 0, ce_latency_seed_ms = 5, ce_jurisdictions = [''sovereign''],
     ce_sovereignty_level = 3, ce_quality_score = 100, ce_evidence_reliability = 100, ce_operational_risk = 2,
     ce_context_window = 8192, ce_max_output_tokens = 1024, ce_search_augmented = False\<rparr>"

definition RUNTIME_CATALOGUE :: "catalogue_entry list" where
  "RUNTIME_CATALOGUE =
    [cat_qwen3_5_4b, cat_qwen3_4b_instruct, cat_qwen2_5_coder_3b, cat_deepseek_r1_1_5b,
     cat_qwen2_5_72b_contabo, cat_qwen3_5_35b_a3b_contabo, cat_qwen3_coder_30b_contabo, cat_llama3_1_70b_contabo,
     cat_deepseek_r1_70b_contabo, cat_gpt_5_5, cat_gpt_5, cat_gpt_5_mini,
     cat_gpt_5_nano, cat_claude_opus_4_7, cat_claude_sonnet_4_6, cat_claude_haiku_4_5,
     cat_gemini_3_1_pro_preview, cat_gemini_3_6_flash, cat_deepseek_reasoner, cat_deepseek_chat,
     cat_sonar_pro, cat_sonar, cat_kimi_k2_6, cat_grok_4_5,
     cat_gemini_3_7_flash, cat_deterministic_core]"

definition getCatalogueEntry :: "string \<Rightarrow> catalogue_entry option" where
  "getCatalogueEntry i = find (\<lambda>e. ce_id e = i) RUNTIME_CATALOGUE"

definition listCatalogue :: "catalogue_entry list" where
  "listCatalogue = RUNTIME_CATALOGUE"

definition entriesForProvider :: "provider_id \<Rightarrow> catalogue_entry list" where
  "entriesForProvider p = filter (\<lambda>e. ce_provider e = p) RUNTIME_CATALOGUE"

section \<open>Gateway and credentials\<close>

type_synonym process_env = "string \<rightharpoonup> string"

text \<open>\<open>env[k] || ''\<close>.\<close>

definition env_text :: "process_env \<Rightarrow> string \<Rightarrow> string" where
  "env_text env k = nullish (env k) []"

definition first_text :: "string \<Rightarrow> string \<Rightarrow> string" where
  "first_text a b = (if a = [] then b else a)"

record gateway_config =
  gw_baseUrl :: string
  gw_apiKey :: string
  gw_allowedModels :: "string list"

definition DEFAULT_GATEWAY_MODELS :: "string list" where
  "DEFAULT_GATEWAY_MODELS =
    [''gpt-5-nano'', ''gpt-5-mini'', ''gpt-5'', ''gpt-5.5'', ''claude-haiku-4-5'', ''claude-sonnet-4-6'',
     ''claude-opus-4-6'', ''claude-opus-4-7'', ''gemini-3-flash-preview'', ''gemini-3.1-pro-preview'']"

definition resolveGateway :: "process_env \<Rightarrow> gateway_config option" where
  "resolveGateway env =
     (let baseUrl = first_text (env_text env ''RONOR_GATEWAY_BASE_URL'') (env_text env ''OPENAI_API_BASE'');
          apiKey = first_text (env_text env ''RONOR_GATEWAY_API_KEY'') (env_text env ''OPENAI_API_KEY'');
          declared = env_text env ''RONOR_GATEWAY_MODELS''
      in if baseUrl = [] \<or> apiKey = [] then None
         else Some \<lparr>gw_baseUrl = baseUrl, gw_apiKey = apiKey,
           gw_allowedModels =
             (if declared \<noteq> [] then filter (\<lambda>s. s \<noteq> []) (map js_trim (split_on (CHR '','') declared))
              else DEFAULT_GATEWAY_MODELS)\<rparr>)"

definition gatewayServes :: "string \<Rightarrow> process_env \<Rightarrow> bool" where
  "gatewayServes model env = (case resolveGateway env of None \<Rightarrow> False | Some gw \<Rightarrow> model \<in> set (gw_allowedModels gw))"

text \<open>\<open>NATIVE_KEY_VARS\<close>, which has no entry for the deterministic core and for Ollama.\<close>

fun native_key_var :: "provider_id \<Rightarrow> string option" where
  "native_key_var POpenai = Some ''OPENAI_NATIVE_API_KEY''"
| "native_key_var PAnthropic = Some ''ANTHROPIC_API_KEY''"
| "native_key_var PGoogle = Some ''GEMINI_API_KEY''"
| "native_key_var PDeepseek = Some ''DEEPSEEK_API_KEY''"
| "native_key_var PPerplexity = Some ''PERPLEXITY_API_KEY''"
| "native_key_var PKimi = Some ''KIMI_API_KEY''"
| "native_key_var PXai = Some ''XAI_API_KEY''"
| "native_key_var POllama = None"
| "native_key_var PDeterministic = None"

definition nativeKey :: "provider_id \<Rightarrow> process_env \<Rightarrow> string option" where
  "nativeKey p env =
     (case native_key_var p of
        None \<Rightarrow> None
      | Some k \<Rightarrow> let v = js_trim (env_text env k) in if v = [] then None else Some v)"

section \<open>Adapters\<close>

definition OLLAMA_MODELS :: "string list" where
  "OLLAMA_MODELS =
    [''qwen3:4b-instruct'', ''qwen3.5:4b'', ''qwen2.5-coder:3b'', ''deepseek-r1:1.5b'', ''qwen3-embedding:0.6b'',
     ''qwen2.5:72b-instruct-q4_K_M'', ''qwen3.5:35b-a3b'', ''qwen3-coder:30b'', ''deepseek-r1:70b-llama-distill-q4_K_M'',
     ''llama3.1:70b-instruct-q4_K_M'', ''bge-m3:latest'']"

definition CONTABO_MODELS :: "string list" where
  "CONTABO_MODELS =
    [''qwen2.5:72b-instruct-q4_K_M'', ''qwen3.5:35b-a3b'', ''qwen3-coder:30b'', ''deepseek-r1:70b-llama-distill-q4_K_M'',
     ''llama3.1:70b-instruct-q4_K_M'', ''bge-m3:latest'']"

definition EMBEDDING_ONLY_MODELS :: "string list" where
  "EMBEDDING_ONLY_MODELS = [''qwen3-embedding:0.6b'', ''bge-m3:latest'']"

fun adapter_models :: "provider_id \<Rightarrow> string list" where
  "adapter_models POpenai = [''gpt-5.5'', ''gpt-5'', ''gpt-5-mini'', ''gpt-5-nano'']"
| "adapter_models PAnthropic = [''claude-opus-4-7'', ''claude-opus-4-6'', ''claude-sonnet-4-6'', ''claude-haiku-4-5'']"
| "adapter_models PGoogle = [''gemini-3.1-pro-preview'', ''gemini-3.7-flash'', ''gemini-3.6-flash'']"
| "adapter_models PDeepseek = [''deepseek-chat'', ''deepseek-reasoner'']"
| "adapter_models PPerplexity = [''sonar-pro'', ''sonar'', ''sonar-reasoning-pro'']"
| "adapter_models PKimi = [''kimi-k2.6'', ''kimi-k2.5'', ''moonshot-v1-8k'', ''moonshot-v1-32k'', ''moonshot-v1-128k'']"
| "adapter_models PXai = [''grok-4.5'']"
| "adapter_models POllama = OLLAMA_MODELS"
| "adapter_models PDeterministic = [''ronor/deterministic-core'']"

datatype transport_mode = TNative | TGateway | TLocal

datatype credential_state = LiveNative | LiveGateway | LiveLocal | KeyAbsent

text \<open>\<open>credentialState\<close> of each adapter: Kimi has no gateway route, the others share one form.\<close>

definition keyed_state :: "provider_id \<Rightarrow> process_env \<Rightarrow> credential_state" where
  "keyed_state p env =
     (if nativeKey p env \<noteq> None then LiveNative
      else case resolveGateway env of
        None \<Rightarrow> KeyAbsent
      | Some gw \<Rightarrow> if list_ex (\<lambda>m. m \<in> set (gw_allowedModels gw)) (adapter_models p) then LiveGateway else KeyAbsent)"

fun credentialState :: "provider_id \<Rightarrow> process_env \<Rightarrow> credential_state" where
  "credentialState PKimi env = (if nativeKey PKimi env \<noteq> None then LiveNative else KeyAbsent)"
| "credentialState POllama env = (if env ''OLLAMA_ENABLED'' = Some ''true'' then LiveLocal else KeyAbsent)"
| "credentialState PDeterministic env = LiveLocal"
| "credentialState p env = keyed_state p env"

definition ADAPTERS :: "provider_id list" where
  "ADAPTERS = [POpenai, PAnthropic, PGoogle, PDeepseek, PPerplexity, PKimi, PXai, POllama, PDeterministic]"

definition invocableProviders :: "process_env \<Rightarrow> provider_id list" where
  "invocableProviders env = filter (\<lambda>p. credentialState p env \<noteq> KeyAbsent) ADAPTERS"

text \<open>\<open>new URL(value)\<close>: the protocol and the host name, or nothing when it throws.\<close>

type_synonym url_parser = "string \<Rightarrow> (string \<times> string) option"

definition strip_slash :: "string \<Rightarrow> string" where
  "strip_slash s = (if s \<noteq> [] \<and> last s = CHR ''/'' then butlast s else s)"

definition ollamaBaseForModel :: "url_parser \<Rightarrow> string \<Rightarrow> process_env \<Rightarrow> string option" where
  "ollamaBaseForModel parse_url model env =
     (let v = (if model \<in> set CONTABO_MODELS then env_text env ''OLLAMA_CONTABO_BASE_URL''
               else first_text (env_text env ''OLLAMA_LOCAL_BASE_URL'')
                 (first_text (env_text env ''OLLAMA_BASE_URL'') ''http://127.0.0.1:11434''))
      in if v = [] then None
         else case parse_url v of
           None \<Rightarrow> None
         | Some (protocol, hostname) \<Rightarrow>
             let privateHost = hostname = ''localhost'' \<or> hostname = ''127.0.0.1'' \<or> prefix ''100.'' hostname
             in if protocol = ''http:'' \<and> privateHost \<or> protocol = ''https:'' then Some (strip_slash v) else None)"

datatype failure_kind =
    CredentialAbsent | AuthRejected | RateLimited | ModelUnsupported | Timeout | Network | BadResponse | ContentRefused
  | ServerError | NotComputable

record provider_failure =
  fl_kind :: failure_kind
  fl_message :: string
  fl_httpStatus :: "int option"
  fl_retryable :: bool

record provider_response =
  rs_ok :: bool
  rs_provider :: provider_id
  rs_model :: string
  rs_transport :: transport_mode
  rs_content :: string
  rs_input_tokens :: rat
  rs_output_tokens :: rat
  rs_estimated :: bool
  rs_latency_ms :: rat
  rs_citations :: "json list"
  rs_failure :: "provider_failure option"

definition providerFailure :: "provider_id \<Rightarrow> string \<Rightarrow> transport_mode \<Rightarrow> provider_failure \<Rightarrow> rat \<Rightarrow> provider_response" where
  "providerFailure p model transport failure latency =
     \<lparr>rs_ok = False, rs_provider = p, rs_model = model, rs_transport = transport, rs_content = [], rs_input_tokens = 0,
      rs_output_tokens = 0, rs_estimated = True, rs_latency_ms = latency, rs_citations = [], rs_failure = Some failure\<rparr>"

fun no_route_message :: "provider_id \<Rightarrow> string" where
  "no_route_message POpenai = ''no OpenAI route: set OPENAI_NATIVE_API_KEY for the direct API, or configure a gateway whose allow-list covers this model''"
| "no_route_message PAnthropic = ''no Anthropic route: set ANTHROPIC_API_KEY for the native Messages API, or configure a gateway whose allow-list covers this model''"
| "no_route_message PGoogle = ''no Google route: set GEMINI_API_KEY for the native Generative Language API, or configure a gateway whose allow-list covers this model''"
| "no_route_message PDeepseek = ''no DeepSeek route: set DEEPSEEK_API_KEY to activate this provider. The adapter is complete and requires no code change.''"
| "no_route_message PPerplexity = ''no Perplexity route: set PERPLEXITY_API_KEY to activate search-augmented generation. The Researcher worker degrades to the web.search tool until then.''"
| "no_route_message PKimi = ''no Kimi route: set KIMI_API_KEY to activate this provider. The adapter is complete and requires no code change.''"
| "no_route_message PXai = ''no xAI route: set XAI_API_KEY to activate Grok; no credential is stored by the adapter''"
| "no_route_message POllama = ''local Ollama is disabled; set OLLAMA_ENABLED=true after health verification''"
| "no_route_message PDeterministic = []"

definition absent_failure :: "string \<Rightarrow> provider_failure" where
  "absent_failure why = \<lparr>fl_kind = CredentialAbsent, fl_message = why, fl_httpStatus = None, fl_retryable = False\<rparr>"

text \<open>
  The beginning of \<open>invoke\<close>: the wire the request will take, or the refusal made without any request.
\<close>

definition keyed_route :: "provider_id \<Rightarrow> string \<Rightarrow> process_env \<Rightarrow> provider_response + transport_mode" where
  "keyed_route p model env =
     (if nativeKey p env \<noteq> None then Inr TNative
      else if gatewayServes model env then Inr TGateway
      else Inl (providerFailure p model TNative (absent_failure (no_route_message p)) 0))"

fun adapter_route :: "url_parser \<Rightarrow> provider_id \<Rightarrow> string \<Rightarrow> process_env \<Rightarrow> provider_response + transport_mode" where
  "adapter_route parse_url PKimi model env =
     (if nativeKey PKimi env \<noteq> None then Inr TNative
      else Inl (providerFailure PKimi model TNative (absent_failure (no_route_message PKimi)) 0))"
| "adapter_route parse_url POllama model env =
     (if credentialState POllama env \<noteq> LiveLocal
        then Inl (providerFailure POllama model TLocal (absent_failure (no_route_message POllama)) 0)
      else if model \<notin> set OLLAMA_MODELS \<or> model \<in> set EMBEDDING_ONLY_MODELS
        then Inl (providerFailure POllama model TLocal
          \<lparr>fl_kind = ModelUnsupported, fl_message = ''model is not available for chat generation'', fl_httpStatus = None,
           fl_retryable = False\<rparr> 0)
      else if ollamaBaseForModel parse_url model env = None
        then Inl (providerFailure POllama model TLocal (absent_failure ''no approved local or Tailscale Ollama route for model'') 0)
      else Inr TLocal)"
| "adapter_route parse_url PDeterministic model env = Inr TLocal"
| "adapter_route parse_url p model env = keyed_route p model env"

lemma catalogue_ids_distinct: "distinct (map ce_id RUNTIME_CATALOGUE)"
  by code_simp

lemma getCatalogueEntry_SomeD: "getCatalogueEntry i = Some e \<Longrightarrow> e \<in> set RUNTIME_CATALOGUE \<and> ce_id e = i"
  by (auto simp: getCatalogueEntry_def find_Some_iff)

lemma getCatalogueEntry_member: "e \<in> set RUNTIME_CATALOGUE \<Longrightarrow> getCatalogueEntry (ce_id e) = Some e"
  using catalogue_ids_distinct row_find_distinct[of ce_id RUNTIME_CATALOGUE e]
  by (simp add: getCatalogueEntry_def row_find_def)

end
