(* ===== verification/RuntimeRouter.thy ===== *)
theory RuntimeRouter imports RuntimeCatalogue "HOL-Library.Product_Lexorder" begin

text \<open>
  The routing stage of the runtime: the telemetry window of each engine
  (\<open>src/src/runtime/router/calibrator.ts\<close>), the policy filter P0 to P9 (\<open>policy.ts\<close>) and the
  six-term score with the ranking (\<open>scoring.ts\<close>).  \<open>collate\<close> gives the sort keys of \<open>localeCompare\<close>.
  A rule's description is the constructor \<open>runtime_rule\<close> with the values it interpolates.
\<close>

section \<open>Calibrator\<close>

definition WINDOW_SIZE :: nat where
  "WINDOW_SIZE = 50"

definition CALIBRATOR_MIN_SAMPLES :: nat where
  "CALIBRATOR_MIN_SAMPLES = 3"

record latency_sample =
  ls_latencyMs :: rat
  ls_ok :: bool
  ls_at :: int

text \<open>The map of windows in the order in which its keys were inserted.\<close>

type_synonym calibrator = "(string \<times> latency_sample list) list"

definition ring_of :: "calibrator \<Rightarrow> string \<Rightarrow> latency_sample list" where
  "ring_of W i = nullish (map_of W i) []"

definition set_ring :: "calibrator \<Rightarrow> string \<Rightarrow> latency_sample list \<Rightarrow> calibrator" where
  "set_ring W i r =
     (if i \<in> fst ` set W then map (\<lambda>(k, s). (k, if k = i then r else s)) W else W @ [(i, r)])"

definition recordSample :: "int \<Rightarrow> string \<Rightarrow> rat \<Rightarrow> bool \<Rightarrow> calibrator \<Rightarrow> calibrator" where
  "recordSample now modelId latency good W =
     (let ring = ring_of W modelId @ [\<lparr>ls_latencyMs = max 0 (of_int (math_round latency)), ls_ok = good, ls_at = now\<rparr>]
      in set_ring W modelId (if WINDOW_SIZE < length ring then tl ring else ring))"

record model_telemetry =
  mt_modelId :: string
  mt_samples :: nat
  mt_latencyMs :: rat
  mt_latencyObserved :: bool
  mt_successRate :: rat
  mt_lastSampleAt :: "int option"

definition successes :: "latency_sample list \<Rightarrow> rat list" where
  "successes ring = sort (map ls_latencyMs (filter ls_ok ring))"

definition p50 :: "rat \<Rightarrow> rat list \<Rightarrow> rat" where
  "p50 seed xs = (if xs = [] then seed else xs ! ((length xs - 1) div 2))"

definition success_share :: "latency_sample list \<Rightarrow> rat" where
  "success_share ring = of_nat (length (filter ls_ok ring)) / of_nat (length ring)"

definition latency_seed :: "string \<Rightarrow> rat" where
  "latency_seed i = (case getCatalogueEntry i of None \<Rightarrow> 5000 | Some e \<Rightarrow> ce_latency_seed_ms e)"

definition telemetryFor :: "calibrator \<Rightarrow> string \<Rightarrow> model_telemetry" where
  "telemetryFor W i =
     (let ring = ring_of W i; seed = latency_seed i; last_at = (if ring = [] then None else Some (ls_at (last ring)))
      in if length ring < CALIBRATOR_MIN_SAMPLES
         then \<lparr>mt_modelId = i, mt_samples = length ring, mt_latencyMs = seed, mt_latencyObserved = False,
               mt_successRate = (if ring \<noteq> [] then success_share ring else 1), mt_lastSampleAt = last_at\<rparr>
         else \<lparr>mt_modelId = i, mt_samples = length ring, mt_latencyMs = p50 seed (successes ring),
               mt_latencyObserved = (CALIBRATOR_MIN_SAMPLES \<le> length (successes ring)), mt_successRate = success_share ring,
               mt_lastSampleAt = last_at\<rparr>)"

definition allTelemetry :: "calibrator \<Rightarrow> model_telemetry list" where
  "allTelemetry W = map (telemetryFor W \<circ> fst) W"

text \<open>Seeding at boot: a row without a model or with a latency that is no number is skipped.\<close>

fun seedFromLedger :: "int \<Rightarrow> (string \<times> rat option \<times> bool) list \<Rightarrow> calibrator \<Rightarrow> calibrator \<times> nat" where
  "seedFromLedger now [] W = (W, 0)"
| "seedFromLedger now ((i, latency, good) # rows) W =
     (if i = [] then seedFromLedger now rows W
      else case latency of
        None \<Rightarrow> seedFromLedger now rows W
      | Some l \<Rightarrow> (case seedFromLedger now rows (recordSample now i l good W) of (W', n) \<Rightarrow> (W', Suc n)))"

section \<open>Policy\<close>

record runtime_constraints =
  cn_task_type :: string
  cn_confidentiality :: string
  cn_allowed_providers :: "string list option"
  cn_denied_providers :: "string list option"
  cn_max_latency_ms :: "jsnum option"
  cn_max_cost_usd :: "jsnum option"
  cn_required_evidence :: "jsnum option"
  cn_jurisdiction_pin :: "string option"
  cn_require_search :: bool
  cn_pin_model :: "string option"

datatype runtime_rule =
    CredentialPresent
  | RtSovereignOnly
  | RestrictedAttestable
  | RtCapabilityMatch string
  | RtDeterministicFirst
  | RtAllowlist "string list"
  | RtDenylist "string list"
  | RtLatencyCeiling jsnum
  | RtCostCeiling jsnum
  | RtEvidenceFloor jsnum
  | RtJurisdictionEU
  | RtJurisdictionSovereign
  | RtJurisdictionUS
  | SearchRequired
  | OperatorPin string

record runtime_evaluation =
  re_rule :: runtime_rule
  re_excluded :: "string list"
  re_passed :: "string list"

text \<open>\<open>buildRejectionReason\<close>: the evaluation it names, or the general text.\<close>

datatype rejection_reason = EmptiedBy runtime_evaluation | NothingSatisfies

record runtime_policy_result =
  rp_eligible :: "catalogue_entry list"
  rp_evaluations :: "runtime_evaluation list"
  rp_deterministicFirst :: bool
  rp_rejected :: bool
  rp_rejectionReason :: "rejection_reason option"

definition RUNTIME_EXACT_TASKS :: "string list" where
  "RUNTIME_EXACT_TASKS = [''calculation'', ''validation'', ''lookup'']"

definition EU_JURISDICTIONS :: "string list" where
  "EU_JURISDICTIONS =
    [''EU'', ''AT'', ''BE'', ''BG'', ''HR'', ''CY'', ''CZ'', ''DK'', ''EE'', ''FI'', ''FR'', ''DE'', ''GR'',
     ''HU'', ''IE'', ''IT'', ''LV'', ''LT'', ''LU'', ''MT'', ''NL'', ''PL'', ''PT'', ''RO'', ''SK'', ''SI'',
     ''ES'', ''SE'']"

definition estimateRequestCost :: "catalogue_entry \<Rightarrow> nat \<Rightarrow> rat" where
  "estimateRequestCost e promptChars =
     (let inputTokens = of_int (math_ceil (of_nat promptChars / 4)) + 600;
          cost = (inputTokens / 1000000) * ce_input_cost e + (900 / 1000000) * ce_output_cost e
      in to_fixed 8 cost)"

type_synonym runtime_filter = "catalogue_entry list \<times> runtime_evaluation list"

definition record_rule :: "runtime_rule \<Rightarrow> (catalogue_entry \<Rightarrow> bool) \<Rightarrow> runtime_filter \<Rightarrow> runtime_filter" where
  "record_rule rule keep fs =
     (let candidates = filter keep (fst fs); passed = map ce_id (fst fs)
      in (candidates,
          snd fs @ [\<lparr>re_rule = rule, re_excluded = filter (\<lambda>i. \<not> list_ex (\<lambda>c. ce_id c = i) candidates) passed,
                     re_passed = map ce_id candidates\<rparr>]))"

definition runtime_P0 :: "process_env \<Rightarrow> runtime_filter \<Rightarrow> runtime_filter" where
  "runtime_P0 env = record_rule CredentialPresent (\<lambda>c. ce_provider c \<in> set (invocableProviders env))"

definition runtime_P1 :: "runtime_constraints \<Rightarrow> runtime_filter \<Rightarrow> runtime_filter" where
  "runtime_P1 cn fs =
     (if cn_confidentiality cn = ''sovereign'' then record_rule RtSovereignOnly (\<lambda>c. 3 \<le> ce_sovereignty_level c) fs
      else if cn_confidentiality cn = ''restricted'' then record_rule RestrictedAttestable (\<lambda>c. 1 \<le> ce_sovereignty_level c) fs
      else fs)"

definition declares_capability :: "string \<Rightarrow> catalogue_entry \<Rightarrow> bool" where
  "declares_capability task c \<longleftrightarrow>
     task \<in> set (ce_capabilities c) \<or> task \<in> set RUNTIME_EXACT_TASKS \<and> ''reasoning'' \<in> set (ce_capabilities c)"

definition runtime_P2 :: "runtime_constraints \<Rightarrow> runtime_filter \<Rightarrow> runtime_filter" where
  "runtime_P2 cn = record_rule (RtCapabilityMatch (cn_task_type cn)) (declares_capability (cn_task_type cn))"

definition runtime_P3 :: "runtime_constraints \<Rightarrow> runtime_filter \<Rightarrow> runtime_filter" where
  "runtime_P3 cn fs =
     (if cn_task_type cn = ''calculation''
      then (fst fs, snd fs @ [\<lparr>re_rule = RtDeterministicFirst, re_excluded = [], re_passed = map ce_id (fst fs)\<rparr>])
      else fs)"

definition named_in :: "string list \<Rightarrow> catalogue_entry \<Rightarrow> bool" where
  "named_in names c \<longleftrightarrow>
     provider_name (ce_provider c) \<in> set names \<or> toLowerCase (ce_displayName c) \<in> set names \<or> ce_id c \<in> set names"

definition runtime_P4_allow :: "runtime_constraints \<Rightarrow> runtime_filter \<Rightarrow> runtime_filter" where
  "runtime_P4_allow cn fs =
     (case cn_allowed_providers cn of
        Some (p # ps) \<Rightarrow> record_rule (RtAllowlist (p # ps)) (named_in (map toLowerCase (p # ps))) fs
      | _ \<Rightarrow> fs)"

definition runtime_P4_deny :: "runtime_constraints \<Rightarrow> runtime_filter \<Rightarrow> runtime_filter" where
  "runtime_P4_deny cn fs =
     (case cn_denied_providers cn of
        Some (p # ps) \<Rightarrow> record_rule (RtDenylist (p # ps)) (\<lambda>c. \<not> named_in (map toLowerCase (p # ps)) c) fs
      | _ \<Rightarrow> fs)"

text \<open>\<open>typeof x === 'number' && x > 0\<close>.\<close>

definition above_zero :: "jsnum option \<Rightarrow> jsnum option" where
  "above_zero x = (case x of None \<Rightarrow> None | Some v \<Rightarrow> if js_less (js_int 0) v then Some v else None)"

definition runtime_P5 :: "calibrator \<Rightarrow> runtime_constraints \<Rightarrow> runtime_filter \<Rightarrow> runtime_filter" where
  "runtime_P5 W cn fs =
     (case above_zero (cn_max_latency_ms cn) of
        None \<Rightarrow> fs
      | Some v \<Rightarrow> record_rule (RtLatencyCeiling v) (\<lambda>c. js_le (Num (mt_latencyMs (telemetryFor W (ce_id c)))) v) fs)"

definition runtime_P6 :: "nat \<Rightarrow> runtime_constraints \<Rightarrow> runtime_filter \<Rightarrow> runtime_filter" where
  "runtime_P6 promptChars cn fs =
     (case above_zero (cn_max_cost_usd cn) of
        None \<Rightarrow> fs
      | Some v \<Rightarrow> record_rule (RtCostCeiling v) (\<lambda>c. js_le (Num (estimateRequestCost c promptChars)) v) fs)"

definition runtime_P7 :: "runtime_constraints \<Rightarrow> runtime_filter \<Rightarrow> runtime_filter" where
  "runtime_P7 cn fs =
     (case above_zero (cn_required_evidence cn) of
        None \<Rightarrow> fs
      | Some v \<Rightarrow> record_rule (RtEvidenceFloor v) (\<lambda>c. js_le v (Num (ce_evidence_reliability c))) fs)"

definition runtime_P8 :: "runtime_constraints \<Rightarrow> runtime_filter \<Rightarrow> runtime_filter" where
  "runtime_P8 cn fs =
     (if cn_jurisdiction_pin cn = Some ''EU''
        then record_rule RtJurisdictionEU
          (\<lambda>c. ''sovereign'' \<in> set (ce_jurisdictions c) \<or> list_ex (\<lambda>j. j \<in> set EU_JURISDICTIONS) (ce_jurisdictions c)) fs
      else if cn_jurisdiction_pin cn = Some ''sovereign''
        then record_rule RtJurisdictionSovereign (\<lambda>c. ''sovereign'' \<in> set (ce_jurisdictions c)) fs
      else if cn_jurisdiction_pin cn = Some ''US''
        then record_rule RtJurisdictionUS (\<lambda>c. ''US'' \<in> set (ce_jurisdictions c) \<or> ''sovereign'' \<in> set (ce_jurisdictions c)) fs
      else fs)"

definition runtime_search :: "runtime_constraints \<Rightarrow> runtime_filter \<Rightarrow> runtime_filter" where
  "runtime_search cn fs = (if cn_require_search cn then record_rule SearchRequired ce_search_augmented fs else fs)"

definition runtime_pin :: "runtime_constraints \<Rightarrow> runtime_filter \<Rightarrow> runtime_filter" where
  "runtime_pin cn fs =
     (case cn_pin_model cn of
        Some (x # xs) \<Rightarrow> record_rule (OperatorPin (x # xs)) (\<lambda>c. ce_id c = x # xs) fs
      | _ \<Rightarrow> fs)"

definition buildRejectionReason :: "runtime_evaluation list \<Rightarrow> rejection_reason" where
  "buildRejectionReason evs =
     (case find (\<lambda>e. re_passed e = [] \<and> re_excluded e \<noteq> []) (rev evs) of
        Some e \<Rightarrow> EmptiedBy e
      | None \<Rightarrow> NothingSatisfies)"

definition applyRuntimePolicies ::
  "calibrator \<Rightarrow> runtime_constraints \<Rightarrow> nat \<Rightarrow> catalogue_entry list \<Rightarrow> process_env \<Rightarrow> runtime_policy_result" where
  "applyRuntimePolicies W cn promptChars catalogue env =
     (let (candidates, evaluations) =
            (runtime_pin cn \<circ> runtime_search cn \<circ> runtime_P8 cn \<circ> runtime_P7 cn \<circ> runtime_P6 promptChars cn \<circ> runtime_P5 W cn
             \<circ> runtime_P4_deny cn \<circ> runtime_P4_allow cn \<circ> runtime_P3 cn \<circ> runtime_P2 cn \<circ> runtime_P1 cn \<circ> runtime_P0 env)
              (catalogue, []);
          rejected = (candidates = [])
      in \<lparr>rp_eligible = candidates, rp_evaluations = evaluations, rp_deterministicFirst = (cn_task_type cn = ''calculation''),
          rp_rejected = rejected,
          rp_rejectionReason = (if rejected then Some (buildRejectionReason evaluations) else None)\<rparr>)"

section \<open>Score and ranking\<close>

definition RUNTIME_WEIGHTS :: score_terms where
  "RUNTIME_WEIGHTS = \<lparr>sc_quality = 1, sc_cost = 8 / 10, sc_latency = 5 / 10, sc_operational_risk = 6 / 10,
     sc_sovereignty = 7 / 10, sc_evidence = 6 / 10\<rparr>"

definition MAX_REASONABLE_COST_USD :: rat where
  "MAX_REASONABLE_COST_USD = 5 / 100"

definition MAX_REASONABLE_LATENCY_MS :: rat where
  "MAX_REASONABLE_LATENCY_MS = 15000"

record scored_candidate =
  sd_model_id :: string
  sd_provider :: provider_id
  sd_display_name :: string
  sd_vendor_model :: string
  sd_estimated_cost_usd :: rat
  sd_observed_latency_ms :: rat
  sd_latency_observed :: bool
  sd_success_rate :: rat
  sd_samples :: nat
  sd_terms :: score_terms
  sd_weighted :: score_terms
  sd_total :: rat
  sd_pinned_by_policy :: "string option"

definition candidate_terms :: "catalogue_entry \<Rightarrow> rat \<Rightarrow> model_telemetry \<Rightarrow> score_terms" where
  "candidate_terms e estCost tm =
    \<lparr>sc_quality = to_fixed 2 (ce_quality_score e * mt_successRate tm),
     sc_cost = to_fixed 2 (min 100 ((estCost / MAX_REASONABLE_COST_USD) * 100)),
     sc_latency = to_fixed 2 (min 100 ((mt_latencyMs tm / MAX_REASONABLE_LATENCY_MS) * 100)),
     sc_operational_risk = ce_operational_risk e,
     sc_sovereignty = to_fixed 2 ((of_nat (ce_sovereignty_level e) / 3) * 100),
     sc_evidence = ce_evidence_reliability e\<rparr>"

definition candidate_weighted :: "score_terms \<Rightarrow> score_terms" where
  "candidate_weighted t =
    \<lparr>sc_quality = to_fixed 2 (sc_quality RUNTIME_WEIGHTS * sc_quality t),
     sc_cost = to_fixed 2 (- sc_cost RUNTIME_WEIGHTS * sc_cost t),
     sc_latency = to_fixed 2 (- sc_latency RUNTIME_WEIGHTS * sc_latency t),
     sc_operational_risk = to_fixed 2 (- sc_operational_risk RUNTIME_WEIGHTS * sc_operational_risk t),
     sc_sovereignty = to_fixed 2 (sc_sovereignty RUNTIME_WEIGHTS * sc_sovereignty t),
     sc_evidence = to_fixed 2 (sc_evidence RUNTIME_WEIGHTS * sc_evidence t)\<rparr>"

definition scoreCandidate :: "catalogue_entry \<Rightarrow> nat \<Rightarrow> model_telemetry \<Rightarrow> scored_candidate" where
  "scoreCandidate e promptChars tm =
     (let estCost = estimateRequestCost e promptChars; terms = candidate_terms e estCost tm; weighted = candidate_weighted terms
      in \<lparr>sd_model_id = ce_id e, sd_provider = ce_provider e, sd_display_name = ce_displayName e,
          sd_vendor_model = ce_vendorModel e, sd_estimated_cost_usd = estCost, sd_observed_latency_ms = mt_latencyMs tm,
          sd_latency_observed = mt_latencyObserved tm, sd_success_rate = to_fixed 4 (mt_successRate tm),
          sd_samples = mt_samples tm, sd_terms = terms, sd_weighted = weighted,
          sd_total = to_fixed 2 (sum_terms weighted), sd_pinned_by_policy = None\<rparr>)"

text \<open>The order of the comparison: total first, then cost, latency and the identifier's sort key.\<close>

definition rank_key :: "(string \<Rightarrow> nat list) \<Rightarrow> scored_candidate \<Rightarrow> rat \<times> rat \<times> rat \<times> nat list" where
  "rank_key collate s = (- sd_total s, sd_estimated_cost_usd s, sd_observed_latency_ms s, collate (sd_model_id s))"

definition pin_deterministic :: "scored_candidate \<Rightarrow> scored_candidate" where
  "pin_deterministic s = s\<lparr>sd_pinned_by_policy := Some ''P3_DETERMINISTIC_FIRST''\<rparr>"

text \<open>\<open>findIndex\<close>, then \<open>splice\<close> and \<open>unshift\<close>; at index 0 both leave the order alone.\<close>

fun deterministic_to_front :: "scored_candidate list \<Rightarrow> scored_candidate list \<Rightarrow> scored_candidate list" where
  "deterministic_to_front passed [] = rev passed"
| "deterministic_to_front passed (s # ss) =
     (if sd_provider s = PDeterministic then pin_deterministic s # rev passed @ ss
      else deterministic_to_front (s # passed) ss)"

definition rankCandidates ::
  "(string \<Rightarrow> nat list) \<Rightarrow> calibrator \<Rightarrow> catalogue_entry list \<Rightarrow> nat \<Rightarrow> bool \<Rightarrow> scored_candidate list" where
  "rankCandidates collate W eligible promptChars deterministicFirst =
     (let scored = sort_key (rank_key collate) (map (\<lambda>e. scoreCandidate e promptChars (telemetryFor W (ce_id e))) eligible)
      in if deterministicFirst then deterministic_to_front [] scored else scored)"

end
