(* ===== verification/RuntimeExchange.thy ===== *)
theory RuntimeExchange imports RuntimeRouter begin

text \<open>
  The executor of the runtime's model exchange, \<open>src/src/runtime/router/exchange.ts\<close>: route, try the
  ranked engines in order with a bounded number of attempts, account every attempt.  What a vendor
  answers to the call with a given number, and the clock, are the environment's.  The texts that name a
  failed engine are constructors with the values they interpolate.
\<close>

section \<open>Requests and results\<close>

record provider_invocation =
  iv_model :: string
  iv_system :: "string option"
  iv_prompt :: string
  iv_jsonSchema :: "json option"
  iv_reasoningEffort :: "string option"
  iv_maxOutputTokens :: rat
  iv_temperature :: "rat option"
  iv_timeoutMs :: "rat option"

record exchange_options =
  xo_constraints :: runtime_constraints
  xo_system :: "string option"
  xo_prompt :: string
  xo_jsonSchema :: "json option"
  xo_reasoningEffort :: "string option"
  xo_maxOutputTokens :: "rat option"
  xo_temperature :: "rat option"
  xo_timeoutMs :: "rat option"
  xo_maxAttempts :: "rat option"
  xo_dryRun :: bool
  xo_catalogue :: "catalogue_entry list option"
  xo_env :: process_env

text \<open>\<open>`${entry.id} failed: ${kind} -- ${message}`\<close>.\<close>

datatype fallback_note = EngineFailed string "failure_kind option" string

record exchange_attempt =
  xa_attempt :: nat
  xa_model_id :: string
  xa_provider :: provider_id
  xa_vendor_model :: string
  xa_transport :: transport_mode
  xa_ok :: bool
  xa_latency_ms :: rat
  xa_input_tokens :: rat
  xa_output_tokens :: rat
  xa_cost_usd :: rat
  xa_failure_kind :: "failure_kind option"
  xa_failure_message :: "string option"
  xa_fallback_reason :: "fallback_note option"

datatype exchange_status = XCompleted | XAfterFallback | XRejectedPolicy | XAllFailed | XContentRefused

datatype exchange_rejection =
    PolicyRejects rejection_reason
  | NoEligibleEngine
  | RefusedContent string "string option"
  | EveryEngineFailed nat "string option"

record exchange_result =
  xr_ok :: bool
  xr_status :: exchange_status
  xr_chosen_model_id :: "string option"
  xr_chosen_provider :: "provider_id option"
  xr_transport :: "transport_mode option"
  xr_content :: string
  xr_citations :: "json list"
  xr_total_cost_usd :: rat
  xr_total_latency_ms :: int
  xr_input_tokens :: rat
  xr_output_tokens :: rat
  xr_usage_estimated :: bool
  xr_routing_table :: "scored_candidate list"
  xr_policy_evaluations :: "runtime_evaluation list"
  xr_eligible_models :: "string list"
  xr_attempts :: "exchange_attempt list"
  xr_fallback_used :: bool
  xr_rejection_reason :: "exchange_rejection option"

text \<open>
  The environment: the URL parser, the sort keys of \<open>localeCompare\<close>, the answer of a vendor to the call
  made as attempt number \<open>n\<close>, the clock at the start and after \<open>n\<close> attempts.
\<close>

record exchange_world =
  xw_parse_url :: url_parser
  xw_collate :: "string \<Rightarrow> nat list"
  xw_vendor :: "nat \<Rightarrow> provider_id \<Rightarrow> transport_mode \<Rightarrow> provider_invocation \<Rightarrow> provider_response"
  xw_started :: int
  xw_clock :: "nat \<Rightarrow> int"

definition computeActualCost :: "catalogue_entry \<Rightarrow> rat \<Rightarrow> rat \<Rightarrow> rat" where
  "computeActualCost e inputTokens outputTokens =
     to_fixed 8 ((inputTokens / 1000000) * ce_input_cost e + (outputTokens / 1000000) * ce_output_cost e)"

section \<open>Routing and execution\<close>

definition routeOnly ::
  "exchange_world \<Rightarrow> calibrator \<Rightarrow> exchange_options \<Rightarrow> runtime_policy_result \<times> scored_candidate list" where
  "routeOnly X W opts =
     (let policy = applyRuntimePolicies W (xo_constraints opts) (length (xo_prompt opts))
                     (nullish (xo_catalogue opts) listCatalogue) (xo_env opts)
      in (policy,
          if rp_rejected policy then []
          else rankCandidates (xw_collate X) W (rp_eligible policy) (length (xo_prompt opts)) (rp_deterministicFirst policy)))"

definition base_result :: "runtime_policy_result \<Rightarrow> scored_candidate list \<Rightarrow> exchange_result" where
  "base_result policy routing =
     \<lparr>xr_ok = False, xr_status = XAllFailed, xr_chosen_model_id = None, xr_chosen_provider = None, xr_transport = None,
      xr_content = [], xr_citations = [], xr_total_cost_usd = 0, xr_total_latency_ms = 0, xr_input_tokens = 0,
      xr_output_tokens = 0, xr_usage_estimated = False, xr_routing_table = routing,
      xr_policy_evaluations = rp_evaluations policy, xr_eligible_models = map ce_id (rp_eligible policy), xr_attempts = [],
      xr_fallback_used = False, xr_rejection_reason = None\<rparr>"

definition invocation_for :: "exchange_options \<Rightarrow> catalogue_entry \<Rightarrow> provider_invocation" where
  "invocation_for opts e =
     \<lparr>iv_model = ce_vendorModel e, iv_system = xo_system opts, iv_prompt = xo_prompt opts, iv_jsonSchema = xo_jsonSchema opts,
      iv_reasoningEffort = xo_reasoningEffort opts,
      iv_maxOutputTokens = min (nullish (xo_maxOutputTokens opts) 8192) (ce_max_output_tokens e),
      iv_temperature = xo_temperature opts, iv_timeoutMs = xo_timeoutMs opts\<rparr>"

text \<open>\<open>adapter.invoke\<close>: refused before any request, or sent to the vendor.\<close>

definition invoke_adapter :: "exchange_world \<Rightarrow> exchange_options \<Rightarrow> nat \<Rightarrow> catalogue_entry \<Rightarrow> provider_response" where
  "invoke_adapter X opts n e =
     (case adapter_route (xw_parse_url X) (ce_provider e) (ce_vendorModel e) (xo_env opts) of
        Inl refusal \<Rightarrow> refusal
      | Inr wire \<Rightarrow> xw_vendor X n (ce_provider e) wire (invocation_for opts e))"

definition attempt_of :: "nat \<Rightarrow> catalogue_entry \<Rightarrow> provider_response \<Rightarrow> fallback_note option \<Rightarrow> exchange_attempt" where
  "attempt_of n e r prev =
     \<lparr>xa_attempt = n, xa_model_id = ce_id e, xa_provider = ce_provider e, xa_vendor_model = ce_vendorModel e,
      xa_transport = rs_transport r, xa_ok = rs_ok r, xa_latency_ms = rs_latency_ms r, xa_input_tokens = rs_input_tokens r,
      xa_output_tokens = rs_output_tokens r, xa_cost_usd = computeActualCost e (rs_input_tokens r) (rs_output_tokens r),
      xa_failure_kind = map_option fl_kind (rs_failure r), xa_failure_message = map_option fl_message (rs_failure r),
      xa_fallback_reason = prev\<rparr>"

definition failure_text :: "provider_response \<Rightarrow> string" where
  "failure_text r = (case rs_failure r of None \<Rightarrow> ''unknown failure'' | Some f \<Rightarrow> fl_message f)"

definition answered :: "exchange_world \<Rightarrow> exchange_result \<Rightarrow> catalogue_entry \<Rightarrow> provider_response \<Rightarrow> rat \<Rightarrow> exchange_attempt list \<Rightarrow> exchange_result" where
  "answered X base e r cost attempts =
     base\<lparr>xr_ok := True, xr_status := (if 1 < length attempts then XAfterFallback else XCompleted),
       xr_chosen_model_id := Some (ce_id e), xr_chosen_provider := Some (ce_provider e), xr_transport := Some (rs_transport r),
       xr_content := rs_content r, xr_citations := rs_citations r, xr_total_cost_usd := to_fixed 8 cost,
       xr_total_latency_ms := xw_clock X (length attempts) - xw_started X, xr_input_tokens := rs_input_tokens r,
       xr_output_tokens := rs_output_tokens r, xr_usage_estimated := rs_estimated r, xr_attempts := attempts,
       xr_fallback_used := 1 < length attempts\<rparr>"

definition refused_content :: "exchange_world \<Rightarrow> exchange_result \<Rightarrow> catalogue_entry \<Rightarrow> provider_response \<Rightarrow> rat \<Rightarrow> exchange_attempt list \<Rightarrow> exchange_result" where
  "refused_content X base e r cost attempts =
     base\<lparr>xr_ok := False, xr_status := XContentRefused, xr_chosen_model_id := Some (ce_id e),
       xr_chosen_provider := Some (ce_provider e), xr_transport := Some (rs_transport r), xr_total_cost_usd := to_fixed 8 cost,
       xr_total_latency_ms := xw_clock X (length attempts) - xw_started X, xr_attempts := attempts,
       xr_fallback_used := 1 < length attempts,
       xr_rejection_reason := Some (RefusedContent (ce_displayName e) (Some (failure_text r)))\<rparr>"

definition all_failed :: "exchange_world \<Rightarrow> exchange_result \<Rightarrow> rat \<Rightarrow> exchange_attempt list \<Rightarrow> string option \<Rightarrow> exchange_result" where
  "all_failed X base cost attempts last_message =
     base\<lparr>xr_ok := False, xr_status := XAllFailed, xr_total_cost_usd := to_fixed 8 cost,
       xr_total_latency_ms := xw_clock X (length attempts) - xw_started X, xr_attempts := attempts,
       xr_fallback_used := 1 < length attempts,
       xr_rejection_reason := Some (EveryEngineFailed (length attempts) last_message)\<rparr>"

text \<open>The loop over the routing table, with the attempts made, their cost and the last failure so far.\<close>

fun try_candidates ::
  "exchange_world \<Rightarrow> exchange_options \<Rightarrow> exchange_result \<Rightarrow> scored_candidate list \<Rightarrow> calibrator \<Rightarrow> exchange_attempt list \<Rightarrow> rat
   \<Rightarrow> string option \<Rightarrow> fallback_note option \<Rightarrow> exchange_result \<times> calibrator" where
  "try_candidates X opts base [] W attempts cost last_message prev = (all_failed X base cost attempts last_message, W)"
| "try_candidates X opts base (c # cs) W attempts cost last_message prev =
     (if \<not> of_nat (length attempts) < max 1 (nullish (xo_maxAttempts opts) 3)
        then (all_failed X base cost attempts last_message, W)
      else case getCatalogueEntry (sd_model_id c) of
        None \<Rightarrow> try_candidates X opts base cs W attempts cost last_message prev
      | Some e \<Rightarrow>
          let n = length attempts; r = invoke_adapter X opts n e;
              W' = recordSample (xw_clock X (Suc n)) (ce_id e) (rs_latency_ms r) (rs_ok r) W;
              attempt = attempt_of (n + 1) e r prev;
              attempts' = attempts @ [attempt]; cost' = cost + xa_cost_usd attempt
          in if rs_ok r then (answered X base e r cost' attempts', W')
             else if map_option fl_kind (rs_failure r) = Some ContentRefused
               then (refused_content X base e r cost' attempts', W')
             else try_candidates X opts base cs W' attempts' cost' (Some (failure_text r))
                    (Some (EngineFailed (ce_id e) (map_option fl_kind (rs_failure r)) (failure_text r))))"

definition executeExchange :: "exchange_world \<Rightarrow> calibrator \<Rightarrow> exchange_options \<Rightarrow> exchange_result \<times> calibrator" where
  "executeExchange X W opts =
     (let (policy, routing) = routeOnly X W opts; base = base_result policy routing
      in case routing of
        [] \<Rightarrow> (base\<lparr>xr_status := XRejectedPolicy, xr_total_latency_ms := xw_clock X 0 - xw_started X,
                 xr_rejection_reason :=
                   Some (case rp_rejectionReason policy of None \<Rightarrow> NoEligibleEngine | Some why \<Rightarrow> PolicyRejects why)\<rparr>, W)
      | c # cs \<Rightarrow>
          if xo_dryRun opts
          then (base\<lparr>xr_ok := True, xr_status := XCompleted, xr_chosen_model_id := Some (sd_model_id c),
                  xr_chosen_provider := Some (sd_provider c), xr_total_latency_ms := xw_clock X 0 - xw_started X\<rparr>, W)
          else try_candidates X opts base (c # cs) W [] 0 None None)"

end
