(* ===== verification/RuntimeLedger.thy ===== *)
theory RuntimeLedger imports RuntimeExchange begin

text \<open>
  The runtime's ledgers of work, provider attempts and value, \<open>src/src/runtime/ledgers/\<close>.  A table is the
  list of its rows in the order of their keys, from which nothing is ever deleted.  The digest of the prompt
  is the parameter \<open>H\<close>; the time SQLite writes is an argument.
\<close>

section \<open>Tables\<close>

datatype request_status =
    WCompleted | WAfterFallback | WRejectedPolicy | WRejectedGovernance | WAllFailed | WContentRefused | WError

record work_record =
  wr_request_id :: string
  wr_mission_id :: "string option"
  wr_operator_id :: "string option"
  wr_api_key_id :: "string option"
  wr_task_type :: string
  wr_confidentiality :: string
  wr_surface :: string
  wr_agent_id :: "string option"
  wr_status :: request_status
  wr_chosen_model_id :: "string option"
  wr_chosen_provider :: "string option"
  wr_transport :: "transport_mode option"
  wr_input_tokens :: rat
  wr_output_tokens :: rat
  wr_usage_estimated :: bool
  wr_cost_usd :: rat
  wr_latency_ms :: rat
  wr_attempts :: nat
  wr_fallback_used :: bool
  wr_verified_confidence :: "rat option"
  wr_citations_count :: nat
  wr_mi9_verdict :: "string option"
  wr_trace_hash :: "string option"
  wr_prompt :: "string option"

text \<open>A row: the record with its counters rounded, the digest in place of the prompt, and the time.\<close>

record request_row =
  rw_record :: work_record
  rw_prompt_digest :: "string option"
  rw_created_at :: string

record attempt_row =
  aw_request_id :: string
  aw_attempt :: exchange_attempt
  aw_created_at :: string

record value_record =
  vr_request_id :: string
  vr_mission_id :: "string option"
  vr_cost_usd :: rat
  vr_premium_cost_usd :: rat
  vr_quality_delta :: rat
  vr_verified_confidence :: "rat option"
  vr_declared_value_usd :: "rat option"

record value_row =
  vw_record :: value_record
  vw_cost_avoided_usd :: rat

record runtime_ledger =
  lg_work :: "request_row list"
  lg_attempts :: "attempt_row list"
  lg_value :: "value_row list"

definition empty_ledger :: runtime_ledger where
  "empty_ledger = \<lparr>lg_work = [], lg_attempts = [], lg_value = []\<rparr>"

section \<open>Writing\<close>

definition counter :: "rat \<Rightarrow> rat" where
  "counter x = max 0 (of_int (math_round x))"

definition digestPrompt :: "(string \<Rightarrow> string) \<Rightarrow> string option \<Rightarrow> string option" where
  "digestPrompt H p = (case p of Some (c # cs) \<Rightarrow> Some (H (c # cs)) | _ \<Rightarrow> None)"

definition stored_work :: "work_record \<Rightarrow> work_record" where
  "stored_work r =
     r\<lparr>wr_input_tokens := counter (wr_input_tokens r), wr_output_tokens := counter (wr_output_tokens r),
       wr_latency_ms := counter (wr_latency_ms r), wr_prompt := None\<rparr>"

text \<open>The columns that \<open>ON CONFLICT(request_id) DO UPDATE\<close> overwrites.\<close>

definition overwrite_work :: "work_record \<Rightarrow> work_record \<Rightarrow> work_record" where
  "overwrite_work r old =
     old\<lparr>wr_status := wr_status r, wr_chosen_model_id := wr_chosen_model_id r, wr_chosen_provider := wr_chosen_provider r,
       wr_transport := wr_transport r, wr_input_tokens := wr_input_tokens r, wr_output_tokens := wr_output_tokens r,
       wr_usage_estimated := wr_usage_estimated r, wr_cost_usd := wr_cost_usd r, wr_latency_ms := wr_latency_ms r,
       wr_attempts := wr_attempts r, wr_fallback_used := wr_fallback_used r,
       wr_verified_confidence := wr_verified_confidence r, wr_citations_count := wr_citations_count r,
       wr_mi9_verdict := wr_mi9_verdict r, wr_trace_hash := wr_trace_hash r\<rparr>"

definition row_request :: "request_row \<Rightarrow> string" where
  "row_request w = wr_request_id (rw_record w)"

definition ledger_work :: "(string \<Rightarrow> string) \<Rightarrow> string \<Rightarrow> work_record \<Rightarrow> runtime_ledger \<Rightarrow> runtime_ledger" where
  "ledger_work H now r lg =
     (if wr_request_id r \<in> row_request ` set (lg_work lg)
      then lg\<lparr>lg_work := row_update (\<lambda>w. row_request w = wr_request_id r)
             (\<lambda>w. w\<lparr>rw_record := overwrite_work (stored_work r) (rw_record w)\<rparr>) (lg_work lg)\<rparr>
      else lg\<lparr>lg_work := lg_work lg @ [\<lparr>rw_record = stored_work r, rw_prompt_digest = digestPrompt H (wr_prompt r), rw_created_at = now\<rparr>]\<rparr>)"

definition stored_attempt :: "exchange_attempt \<Rightarrow> exchange_attempt" where
  "stored_attempt a =
     a\<lparr>xa_latency_ms := counter (xa_latency_ms a), xa_input_tokens := counter (xa_input_tokens a),
       xa_output_tokens := counter (xa_output_tokens a)\<rparr>"

definition recordAttempts :: "string \<Rightarrow> string \<Rightarrow> exchange_attempt list \<Rightarrow> runtime_ledger \<Rightarrow> runtime_ledger" where
  "recordAttempts now request_id attempts lg =
     lg\<lparr>lg_attempts := lg_attempts lg
        @ map (\<lambda>a. \<lparr>aw_request_id = request_id, aw_attempt = stored_attempt a, aw_created_at = now\<rparr>) attempts\<rparr>"

definition recordValue :: "value_record \<Rightarrow> runtime_ledger \<Rightarrow> runtime_ledger" where
  "recordValue r lg =
     lg\<lparr>lg_value := lg_value lg @ [\<lparr>vw_record = r, vw_cost_avoided_usd = to_fixed 8 (vr_premium_cost_usd r - vr_cost_usd r)\<rparr>]\<rparr>"

section \<open>Reading\<close>

definition countWork :: "runtime_ledger \<Rightarrow> nat" where
  "countWork lg = length (lg_work lg)"

definition listWork :: "int \<Rightarrow> int \<Rightarrow> runtime_ledger \<Rightarrow> request_row list" where
  "listWork cnt off lg = take (nat (min 500 (max 1 cnt))) (drop (nat (max 0 off)) (rev (lg_work lg)))"

definition getWork :: "string \<Rightarrow> runtime_ledger \<Rightarrow> request_row option" where
  "getWork request_id lg = row_find row_request request_id (lg_work lg)"

definition attemptsFor :: "string \<Rightarrow> runtime_ledger \<Rightarrow> attempt_row list" where
  "attemptsFor request_id lg = sort_key (xa_attempt \<circ> aw_attempt) (filter (\<lambda>w. aw_request_id w = request_id) (lg_attempts lg))"

text \<open>The samples the calibrator is seeded with, oldest first.\<close>

definition recentAttemptSamples :: "nat \<Rightarrow> runtime_ledger \<Rightarrow> (string \<times> rat option \<times> bool) list" where
  "recentAttemptSamples perModel lg =
     map (\<lambda>w. (xa_model_id (aw_attempt w), Some (xa_latency_ms (aw_attempt w)), xa_ok (aw_attempt w)))
       (rev (take (perModel * 20) (rev (lg_attempts lg))))"

record cost_totals =
  ct_total_requests :: nat
  ct_total_cost_usd :: rat
  ct_wasted_cost_usd :: rat
  ct_measured_cost_usd :: rat
  ct_estimated_cost_usd :: rat
  ct_avg_cost_per_request_usd :: rat
  ct_fallback_rate :: rat

definition since :: "string option \<Rightarrow> string \<Rightarrow> bool" where
  "since bound created = (case bound of Some (c # cs) \<Rightarrow> c # cs \<le> created | _ \<Rightarrow> True)"

definition work_cost :: "request_row list \<Rightarrow> rat" where
  "work_cost ws = sum_list (map (wr_cost_usd \<circ> rw_record) ws)"

text \<open>The head of \<open>getCostSummary\<close>: the totals, without the groups.\<close>

definition cost_totals_of :: "string option \<Rightarrow> runtime_ledger \<Rightarrow> cost_totals" where
  "cost_totals_of bound lg =
     (let ws = filter (\<lambda>w. since bound (rw_created_at w)) (lg_work lg);
          n = length ws; cost = work_cost ws; est = work_cost (filter (wr_usage_estimated \<circ> rw_record) ws);
          fallbacks = length (filter (wr_fallback_used \<circ> rw_record) ws);
          failed = filter (\<lambda>w. since bound (aw_created_at w) \<and> \<not> xa_ok (aw_attempt w)) (lg_attempts lg)
      in \<lparr>ct_total_requests = n, ct_total_cost_usd = to_fixed 8 cost,
          ct_wasted_cost_usd = to_fixed 8 (sum_list (map (xa_cost_usd \<circ> aw_attempt) failed)),
          ct_measured_cost_usd = to_fixed 8 (cost - est), ct_estimated_cost_usd = to_fixed 8 est,
          ct_avg_cost_per_request_usd = (if n \<noteq> 0 then to_fixed 8 (cost / of_nat n) else 0),
          ct_fallback_rate = (if n \<noteq> 0 then to_fixed 4 (of_nat fallbacks / of_nat n) else 0)\<rparr>)"

record value_summary =
  vs_requests_valued :: nat
  vs_total_cost_usd :: rat
  vs_total_premium_cost_usd :: rat
  vs_total_cost_avoided_usd :: rat
  vs_avg_quality_delta :: rat
  vs_avg_verified_confidence :: "int option"
  vs_declared_value_usd :: rat
  vs_value_multiple :: "rat option"

text \<open>SQL's \<open>AVG\<close>, which skips nulls and is null on nothing.\<close>

definition sql_avg :: "rat list \<Rightarrow> rat option" where
  "sql_avg xs = (if xs = [] then None else Some (sum_list xs / of_nat (length xs)))"

definition present :: "'a option list \<Rightarrow> 'a list" where
  "present xs = List.map_filter id xs"

definition getValueSummary :: "runtime_ledger \<Rightarrow> value_summary" where
  "getValueSummary lg =
     (let vs = lg_value lg; rs = map vw_record vs; cost = sum_list (map vr_cost_usd rs); premium = sum_list (map vr_premium_cost_usd rs);
          avoided = sum_list (map vw_cost_avoided_usd vs); declared = sum_list (present (map vr_declared_value_usd rs))
      in \<lparr>vs_requests_valued = length vs, vs_total_cost_usd = to_fixed 8 cost, vs_total_premium_cost_usd = to_fixed 8 premium,
          vs_total_cost_avoided_usd = to_fixed 8 avoided,
          vs_avg_quality_delta = (case sql_avg (map vr_quality_delta rs) of None \<Rightarrow> 0 | Some q \<Rightarrow> to_fixed 2 q),
          vs_avg_verified_confidence = map_option math_round (sql_avg (present (map vr_verified_confidence rs))),
          vs_declared_value_usd = to_fixed 2 declared,
          vs_value_multiple = (if 0 < cost \<and> 0 < declared then Some (to_fixed 2 (declared / cost)) else None)\<rparr>)"

section \<open>Facts\<close>

definition ledger_ok :: "runtime_ledger \<Rightarrow> bool" where
  "ledger_ok lg \<longleftrightarrow> distinct (map row_request (lg_work lg)) \<and> (\<forall>w\<in>set (lg_work lg). wr_prompt (rw_record w) = None)"

lemma overwrite_request [simp]: "wr_request_id (overwrite_work r old) = wr_request_id old" "wr_prompt (overwrite_work r old) = wr_prompt old"
  by (simp_all add: overwrite_work_def)

lemma stored_work_sel [simp]: "wr_request_id (stored_work r) = wr_request_id r" "wr_prompt (stored_work r) = None"
    "wr_status (stored_work r) = wr_status r" "wr_cost_usd (stored_work r) = wr_cost_usd r" "wr_attempts (stored_work r) = wr_attempts r"
    "wr_chosen_model_id (stored_work r) = wr_chosen_model_id r"
  by (simp_all add: stored_work_def)

lemma ledger_work_requests:
  "map row_request (lg_work (ledger_work H now r lg)) =
     (if wr_request_id r \<in> row_request ` set (lg_work lg) then map row_request (lg_work lg)
      else map row_request (lg_work lg) @ [wr_request_id r])"
  by (auto simp: ledger_work_def row_update_def row_request_def)

lemma ledger_work_ok: "ledger_ok lg \<Longrightarrow> ledger_ok (ledger_work H now r lg)"
  using ledger_work_requests[of H now r lg]
  by (auto simp: ledger_ok_def) (auto simp: ledger_work_def row_update_def split: if_splits)

lemma ledger_attempts_ok: "ledger_ok lg \<Longrightarrow> ledger_ok (recordAttempts now i as lg)"
  by (simp add: ledger_ok_def recordAttempts_def)

lemma ledger_value_ok: "ledger_ok lg \<Longrightarrow> ledger_ok (recordValue r lg)"
  by (simp add: ledger_ok_def recordValue_def)

text \<open>The row of the request after a write.\<close>

lemma getWork_ledger_work:
  assumes "ledger_ok lg"
  shows "\<exists>w. getWork (wr_request_id r) (ledger_work H now r lg) = Some w \<and> wr_status (rw_record w) = wr_status r
    \<and> wr_cost_usd (rw_record w) = wr_cost_usd r \<and> wr_attempts (rw_record w) = wr_attempts r
    \<and> wr_chosen_model_id (rw_record w) = wr_chosen_model_id r"
proof -
  have dist: "distinct (map row_request (lg_work (ledger_work H now r lg)))"
    using ledger_work_ok[OF assms] by (simp add: ledger_ok_def)
  have "\<exists>w\<in>set (lg_work (ledger_work H now r lg)). row_request w = wr_request_id r \<and> wr_status (rw_record w) = wr_status r
    \<and> wr_cost_usd (rw_record w) = wr_cost_usd r \<and> wr_attempts (rw_record w) = wr_attempts r
    \<and> wr_chosen_model_id (rw_record w) = wr_chosen_model_id r"
  proof (cases "wr_request_id r \<in> row_request ` set (lg_work lg)")
    case True
    then obtain x where x: "x \<in> set (lg_work lg)" "row_request x = wr_request_id r" by auto
    have "x\<lparr>rw_record := overwrite_work (stored_work r) (rw_record x)\<rparr> \<in> set (lg_work (ledger_work H now r lg))"
      using x True by (auto simp: ledger_work_def row_update_def)
    then show ?thesis by (rule rev_bexI) (use x(2) in \<open>auto simp: row_request_def overwrite_work_def\<close>)
  qed (auto simp: ledger_work_def row_request_def)
  then show ?thesis using row_find_distinct[OF dist] by (force simp: getWork_def)
qed

end
