(* ===== verification/RuntimeExchangeFacts.thy ===== *)
theory RuntimeExchangeFacts imports RuntimeExchange "HOL-Library.Multiset" begin

text \<open>
  The runtime's exchange against its declarations: the policy filter is one predicate, the ranking does
  not depend on the order of the catalogue, the loop is a bounded walk that stops at the first answer or
  refusal of content, and every attempt is paid for and feeds the telemetry.
\<close>

section \<open>The policy stage\<close>

text \<open>What the rules ask of one engine, all together.\<close>

definition runtime_admissible :: "calibrator \<Rightarrow> runtime_constraints \<Rightarrow> nat \<Rightarrow> process_env \<Rightarrow> catalogue_entry \<Rightarrow> bool" where
  "runtime_admissible W cn n env c \<longleftrightarrow>
     credentialState (ce_provider c) env \<noteq> KeyAbsent
     \<and> (cn_confidentiality cn = ''sovereign'' \<longrightarrow> 3 \<le> ce_sovereignty_level c)
     \<and> (cn_confidentiality cn = ''restricted'' \<longrightarrow> 1 \<le> ce_sovereignty_level c)
     \<and> declares_capability (cn_task_type cn) c
     \<and> (\<forall>ps. cn_allowed_providers cn = Some ps \<and> ps \<noteq> [] \<longrightarrow> named_in (map toLowerCase ps) c)
     \<and> (\<forall>ps. cn_denied_providers cn = Some ps \<and> ps \<noteq> [] \<longrightarrow> \<not> named_in (map toLowerCase ps) c)
     \<and> (\<forall>v. above_zero (cn_max_latency_ms cn) = Some v \<longrightarrow> js_le (Num (mt_latencyMs (telemetryFor W (ce_id c)))) v)
     \<and> (\<forall>v. above_zero (cn_max_cost_usd cn) = Some v \<longrightarrow> js_le (Num (estimateRequestCost c n)) v)
     \<and> (\<forall>v. above_zero (cn_required_evidence cn) = Some v \<longrightarrow> js_le v (Num (ce_evidence_reliability c)))
     \<and> (cn_jurisdiction_pin cn = Some ''EU'' \<longrightarrow>
          ''sovereign'' \<in> set (ce_jurisdictions c) \<or> set (ce_jurisdictions c) \<inter> set EU_JURISDICTIONS \<noteq> {})
     \<and> (cn_jurisdiction_pin cn = Some ''sovereign'' \<longrightarrow> ''sovereign'' \<in> set (ce_jurisdictions c))
     \<and> (cn_jurisdiction_pin cn = Some ''US'' \<longrightarrow> ''US'' \<in> set (ce_jurisdictions c) \<or> ''sovereign'' \<in> set (ce_jurisdictions c))
     \<and> (cn_require_search cn \<longrightarrow> ce_search_augmented c)
     \<and> (\<forall>i. cn_pin_model cn = Some i \<and> i \<noteq> [] \<longrightarrow> ce_id c = i)"

lemma all_adapters: "p \<in> set ADAPTERS"
  by (cases p) (simp_all add: ADAPTERS_def)

lemma invocable_iff: "p \<in> set (invocableProviders env) \<longleftrightarrow> credentialState p env \<noteq> KeyAbsent"
  by (simp add: invocableProviders_def all_adapters)

lemma fst_record_rule [simp]: "fst (record_rule r k fs) = filter k (fst fs)"
  by (simp add: record_rule_def Let_def)

lemma fst_runtime_P1: "fst (runtime_P1 cn fs) = filter (\<lambda>c. (cn_confidentiality cn = ''sovereign'' \<longrightarrow> 3 \<le> ce_sovereignty_level c)
    \<and> (cn_confidentiality cn = ''restricted'' \<longrightarrow> 1 \<le> ce_sovereignty_level c)) (fst fs)"
  by (auto simp: runtime_P1_def intro!: filter_cong)

lemma fst_runtime_P3: "fst (runtime_P3 cn fs) = fst fs"
  by (simp add: runtime_P3_def)

lemma fst_runtime_P4_allow: "fst (runtime_P4_allow cn fs) =
    filter (\<lambda>c. \<forall>ps. cn_allowed_providers cn = Some ps \<and> ps \<noteq> [] \<longrightarrow> named_in (map toLowerCase ps) c) (fst fs)"
  by (auto simp: runtime_P4_allow_def intro!: filter_cong split: option.splits list.splits)

lemma fst_runtime_P4_deny: "fst (runtime_P4_deny cn fs) =
    filter (\<lambda>c. \<forall>ps. cn_denied_providers cn = Some ps \<and> ps \<noteq> [] \<longrightarrow> \<not> named_in (map toLowerCase ps) c) (fst fs)"
  by (auto simp: runtime_P4_deny_def intro!: filter_cong split: option.splits list.splits)

lemma fst_runtime_P5: "fst (runtime_P5 W cn fs) = filter (\<lambda>c. \<forall>v. above_zero (cn_max_latency_ms cn) = Some v \<longrightarrow>
    js_le (Num (mt_latencyMs (telemetryFor W (ce_id c)))) v) (fst fs)"
  by (auto simp: runtime_P5_def intro!: filter_cong split: option.splits)

lemma fst_runtime_P6: "fst (runtime_P6 n cn fs) = filter (\<lambda>c. \<forall>v. above_zero (cn_max_cost_usd cn) = Some v \<longrightarrow>
    js_le (Num (estimateRequestCost c n)) v) (fst fs)"
  by (auto simp: runtime_P6_def intro!: filter_cong split: option.splits)

lemma fst_runtime_P7: "fst (runtime_P7 cn fs) = filter (\<lambda>c. \<forall>v. above_zero (cn_required_evidence cn) = Some v \<longrightarrow>
    js_le v (Num (ce_evidence_reliability c))) (fst fs)"
  by (auto simp: runtime_P7_def intro!: filter_cong split: option.splits)

lemma fst_runtime_P8: "fst (runtime_P8 cn fs) = filter (\<lambda>c.
    (cn_jurisdiction_pin cn = Some ''EU'' \<longrightarrow>
       ''sovereign'' \<in> set (ce_jurisdictions c) \<or> set (ce_jurisdictions c) \<inter> set EU_JURISDICTIONS \<noteq> {})
    \<and> (cn_jurisdiction_pin cn = Some ''sovereign'' \<longrightarrow> ''sovereign'' \<in> set (ce_jurisdictions c))
    \<and> (cn_jurisdiction_pin cn = Some ''US'' \<longrightarrow> ''US'' \<in> set (ce_jurisdictions c) \<or> ''sovereign'' \<in> set (ce_jurisdictions c))) (fst fs)"
  by (auto simp: runtime_P8_def list_ex_iff intro!: filter_cong)

lemma fst_runtime_search: "fst (runtime_search cn fs) = filter (\<lambda>c. cn_require_search cn \<longrightarrow> ce_search_augmented c) (fst fs)"
  by (auto simp: runtime_search_def)

lemma fst_runtime_pin: "fst (runtime_pin cn fs) = filter (\<lambda>c. \<forall>i. cn_pin_model cn = Some i \<and> i \<noteq> [] \<longrightarrow> ce_id c = i) (fst fs)"
  by (auto simp: runtime_pin_def intro!: filter_cong split: option.splits list.splits)

lemmas runtime_survivors =
  fst_runtime_P1 fst_runtime_P3 fst_runtime_P4_allow fst_runtime_P4_deny fst_runtime_P5 fst_runtime_P6 fst_runtime_P7
  fst_runtime_P8 fst_runtime_search fst_runtime_pin

lemma eligible_iff_admissible:
  "rp_eligible (applyRuntimePolicies W cn n catalogue env) = filter (runtime_admissible W cn n env) catalogue"
  unfolding applyRuntimePolicies_def Let_def
  by (simp add: case_prod_beta runtime_survivors runtime_P2_def runtime_P0_def invocable_iff del: filter.simps)
    (rule filter_cong, simp, auto simp: runtime_admissible_def)

lemma rejected_iff: "rp_rejected (applyRuntimePolicies W cn n catalogue env) \<longleftrightarrow> rp_eligible (applyRuntimePolicies W cn n catalogue env) = []"
  by (simp add: applyRuntimePolicies_def Let_def case_prod_beta)

section \<open>The ranking\<close>

lemma mset_to_front: "mset (map sd_model_id (deterministic_to_front passed cs)) = mset (map sd_model_id passed) + mset (map sd_model_id cs)"
  by (induction passed cs rule: deterministic_to_front.induct) (simp_all add: pin_deterministic_def)

lemma score_id [simp]: "sd_model_id (scoreCandidate e n tm) = ce_id e"
  by (simp add: scoreCandidate_def Let_def)

lemma ranked_ids: "mset (map sd_model_id (rankCandidates collate W eligible n first)) = mset (map ce_id eligible)"
proof -
  define scored where "scored = sort_key (rank_key collate) (map (\<lambda>e. scoreCandidate e n (telemetryFor W (ce_id e))) eligible)"
  have "mset (map sd_model_id scored) = mset (map ce_id eligible)"
    by (simp add: scored_def multiset.map_comp comp_def)
  then show ?thesis
    using mset_to_front[of "[]" scored] unfolding rankCandidates_def Let_def scored_def[symmetric] by auto
qed

text \<open>Sorting by a key that tells the elements apart does not see the order of the input.\<close>

lemma sort_key_order_independent:
  assumes "mset xs = mset ys" "inj_on f (set xs)"
  shows "sort_key f xs = sort_key f ys"
proof (rule sort_key_inj_key_eq[OF _ assms(2)])
  show "mset xs = mset (sort_key f ys)" using assms(1) by simp
  show "sorted (map f (sort_key f ys))" by simp
qed

section \<open>The walk\<close>

definition chain_entries :: "scored_candidate list \<Rightarrow> catalogue_entry list" where
  "chain_entries cs = List.map_filter (getCatalogueEntry \<circ> sd_model_id) cs"

lemma chain_entries_simps [simp]:
  "chain_entries [] = []"
  "chain_entries (c # cs) = (case getCatalogueEntry (sd_model_id c) of None \<Rightarrow> chain_entries cs | Some e \<Rightarrow> e # chain_entries cs)"
  by (simp_all add: chain_entries_def split: option.splits)

definition more_attempts :: "exchange_options \<Rightarrow> nat \<Rightarrow> bool" where
  "more_attempts opts n \<longleftrightarrow> of_nat n < max 1 (nullish (xo_maxAttempts opts) 3)"

definition ends_walk :: "provider_response \<Rightarrow> bool" where
  "ends_walk r \<longleftrightarrow> rs_ok r \<or> map_option fl_kind (rs_failure r) = Some ContentRefused"

definition note_of :: "catalogue_entry \<Rightarrow> provider_response \<Rightarrow> fallback_note" where
  "note_of e r = EngineFailed (ce_id e) (map_option fl_kind (rs_failure r)) (failure_text r)"

text \<open>The attempts of the loop, as a function of the engines in order.\<close>

fun walk :: "exchange_world \<Rightarrow> exchange_options \<Rightarrow> catalogue_entry list \<Rightarrow> nat \<Rightarrow> fallback_note option \<Rightarrow> exchange_attempt list" where
  "walk X opts [] n prev = []"
| "walk X opts (e # es) n prev =
     (if more_attempts opts n
      then let r = invoke_adapter X opts n e
           in attempt_of (n + 1) e r prev # (if ends_walk r then [] else walk X opts es (Suc n) (Some (note_of e r)))
      else [])"

definition sample_attempt :: "exchange_world \<Rightarrow> exchange_attempt \<Rightarrow> calibrator \<Rightarrow> calibrator" where
  "sample_attempt X a = recordSample (xw_clock X (xa_attempt a)) (xa_model_id a) (xa_latency_ms a) (xa_ok a)"

lemma answered_sel [simp]:
  "xr_attempts (answered X base e r cost as) = as" "xr_total_cost_usd (answered X base e r cost as) = to_fixed 8 cost"
  "xr_ok (answered X base e r cost as)" "xr_chosen_model_id (answered X base e r cost as) = Some (ce_id e)"
  "xr_content (answered X base e r cost as) = rs_content r"
  by (simp_all add: answered_def)

lemma refused_sel [simp]:
  "xr_attempts (refused_content X base e r cost as) = as" "xr_total_cost_usd (refused_content X base e r cost as) = to_fixed 8 cost"
  "\<not> xr_ok (refused_content X base e r cost as)" "xr_content (refused_content X base e r cost as) = xr_content base"
  "xr_chosen_model_id (refused_content X base e r cost as) = Some (ce_id e)"
  "xr_status (refused_content X base e r cost as) = XContentRefused"
  by (simp_all add: refused_content_def)

lemma failed_sel [simp]:
  "xr_attempts (all_failed X base cost as m) = as" "xr_total_cost_usd (all_failed X base cost as m) = to_fixed 8 cost"
  "\<not> xr_ok (all_failed X base cost as m)" "xr_content (all_failed X base cost as m) = xr_content base"
  "xr_status (all_failed X base cost as m) = XAllFailed" "xr_chosen_model_id (all_failed X base cost as m) = xr_chosen_model_id base"
  by (simp_all add: all_failed_def)

lemma attempt_sel [simp]:
  "xa_attempt (attempt_of n e r p) = n" "xa_model_id (attempt_of n e r p) = ce_id e" "xa_ok (attempt_of n e r p) = rs_ok r"
  "xa_latency_ms (attempt_of n e r p) = rs_latency_ms r" "xa_provider (attempt_of n e r p) = ce_provider e"
  "xa_failure_kind (attempt_of n e r p) = map_option fl_kind (rs_failure r)" "xa_fallback_reason (attempt_of n e r p) = p"
  by (simp_all add: attempt_of_def)

text \<open>What the loop returns, given the walk that was left to it.\<close>

definition accounts ::
  "exchange_world \<Rightarrow> exchange_attempt list \<Rightarrow> rat \<Rightarrow> calibrator \<Rightarrow> exchange_attempt list \<Rightarrow> exchange_result \<times> calibrator \<Rightarrow> bool" where
  "accounts X as cost W ws out \<longleftrightarrow>
     xr_attempts (fst out) = as @ ws \<and> xr_total_cost_usd (fst out) = to_fixed 8 (cost + sum_list (map xa_cost_usd ws))
     \<and> snd out = fold (sample_attempt X) ws W"

lemma accounts_step:
  assumes "accounts X (as @ [a]) (cost + xa_cost_usd a) (sample_attempt X a W) ws out"
  shows "accounts X as cost W (a # ws) out"
  using assms by (simp add: accounts_def add.assoc)

lemma try_candidates_walk:
  "accounts X as cost W (walk X opts (chain_entries cs) (length as) prev) (try_candidates X opts base cs W as cost m prev)"
proof (induction X opts base cs W as cost m prev rule: try_candidates.induct)
  case (2 X opts base c cs W as cost m prev)
  show ?case
  proof (cases "getCatalogueEntry (sd_model_id c)")
    case None
    show ?thesis
    proof (cases "more_attempts opts (length as)")
      case True
      then show ?thesis using "2.IH"(1) None by (simp add: more_attempts_def)
    next
      case False
      then show ?thesis using None
        by (cases "chain_entries cs") (simp_all add: more_attempts_def accounts_def)
    qed
  next
    case (Some e)
    define r where "r = invoke_adapter X opts (length as) e"
    define a where "a = attempt_of (length as + 1) e r prev"
    have W': "recordSample (xw_clock X (Suc (length as))) (ce_id e) (rs_latency_ms r) (rs_ok r) W = sample_attempt X a W"
      by (simp add: sample_attempt_def a_def)
    show ?thesis
    proof (cases "more_attempts opts (length as)")
      case False
      then show ?thesis using Some by (simp add: more_attempts_def accounts_def)
    next
      case True
      then have go: "of_nat (length as) < max 1 (nullish (xo_maxAttempts opts) 3)" by (simp add: more_attempts_def)
      have step: "try_candidates X opts base (c # cs) W as cost m prev =
         (if rs_ok r then (answered X base e r (cost + xa_cost_usd a) (as @ [a]), sample_attempt X a W)
          else if map_option fl_kind (rs_failure r) = Some ContentRefused
            then (refused_content X base e r (cost + xa_cost_usd a) (as @ [a]), sample_attempt X a W)
          else try_candidates X opts base cs (sample_attempt X a W) (as @ [a]) (cost + xa_cost_usd a) (Some (failure_text r))
                 (Some (note_of e r)))"
        by (simp only: try_candidates.simps Some go option.case Let_def r_def[symmetric] a_def[symmetric] W' note_of_def
            not_True_eq_False if_False)
      have ws: "walk X opts (chain_entries (c # cs)) (length as) prev =
          a # (if ends_walk r then [] else walk X opts (chain_entries cs) (Suc (length as)) (Some (note_of e r)))"
        by (simp only: chain_entries_simps Some option.case walk.simps True if_True Let_def r_def[symmetric] a_def[symmetric])
      show ?thesis
      proof (cases "ends_walk r")
        case True
        then show ?thesis unfolding ws step by (auto simp: ends_walk_def accounts_def)
      next
        case False
        have "accounts X (as @ [a]) (cost + xa_cost_usd a) (sample_attempt X a W)
            (walk X opts (chain_entries cs) (length (as @ [a])) (Some (note_of e r)))
            (try_candidates X opts base cs (sample_attempt X a W) (as @ [a]) (cost + xa_cost_usd a) (Some (failure_text r)) (Some (note_of e r)))"
          using "2.IH"(2)[OF _ Some refl r_def W'[symmetric] a_def refl refl] False go
          by (simp add: ends_walk_def note_of_def)
        then show ?thesis unfolding ws step using False by (auto simp: ends_walk_def intro: accounts_step)
      qed
    qed
  qed
qed (simp add: accounts_def)

section \<open>What the walk is\<close>

lemma walk_nth:
  "i < length (walk X opts es n prev) \<Longrightarrow> i < length es \<and>
     walk X opts es n prev ! i = attempt_of (n + i + 1) (es ! i) (invoke_adapter X opts (n + i) (es ! i))
       (case i of 0 \<Rightarrow> prev | Suc j \<Rightarrow> Some (note_of (es ! j) (invoke_adapter X opts (n + j) (es ! j))))"
proof (induction X opts es n prev arbitrary: i rule: walk.induct)
  case (2 X opts e es n prev)
  then show ?case
    by (cases i) (auto simp: Let_def split: if_splits nat.splits)
qed simp

lemma walk_goes_on:
  "Suc i < length (walk X opts es n prev) \<Longrightarrow> \<not> ends_walk (invoke_adapter X opts (n + i) (es ! i))"
proof (induction X opts es n prev arbitrary: i rule: walk.induct)
  case (2 X opts e es n prev)
  then show ?case by (cases i) (auto simp: Let_def split: if_splits)
qed simp

lemma walk_bounded: "i < length (walk X opts es n prev) \<Longrightarrow> more_attempts opts (n + i)"
proof (induction X opts es n prev arbitrary: i rule: walk.induct)
  case (2 X opts e es n prev)
  then show ?case by (cases i) (auto simp: Let_def split: if_splits)
qed simp

lemma walk_length: "length (walk X opts es n prev) \<le> length es"
  by (induction X opts es n prev rule: walk.induct) (simp_all add: Let_def)

lemma walk_ids: "map xa_model_id (walk X opts es n prev) = map ce_id (take (length (walk X opts es n prev)) es)"
  using walk_length[of X opts es n prev] by (intro nth_equalityI) (auto simp: walk_nth)

lemma more_attempts_antimono: "more_attempts opts n \<Longrightarrow> m \<le> n \<Longrightarrow> more_attempts opts m"
  unfolding more_attempts_def by (meson le_less_trans of_nat_le_iff)

text \<open>The loop ends with the first answer, when nothing before it ends the walk.\<close>

lemma try_candidates_answers:
  assumes "i < length (chain_entries cs)" "more_attempts opts (length as + i)"
    "rs_ok (invoke_adapter X opts (length as + i) (chain_entries cs ! i))"
    "\<And>j. j < i \<Longrightarrow> \<not> ends_walk (invoke_adapter X opts (length as + j) (chain_entries cs ! j))"
  shows "xr_ok (fst (try_candidates X opts base cs W as cost m prev))
     \<and> xr_content (fst (try_candidates X opts base cs W as cost m prev))
         = rs_content (invoke_adapter X opts (length as + i) (chain_entries cs ! i))
     \<and> xr_chosen_model_id (fst (try_candidates X opts base cs W as cost m prev)) = Some (ce_id (chain_entries cs ! i))"
  using assms
proof (induction X opts base cs W as cost m prev arbitrary: i rule: try_candidates.induct)
  case (2 X opts base c cs W as cost m prev)
  have here: "more_attempts opts (length as)" using "2.prems"(2) by (rule more_attempts_antimono) simp
  then have go: "of_nat (length as) < max 1 (nullish (xo_maxAttempts opts) 3)" by (simp add: more_attempts_def)
  show ?case
  proof (cases "getCatalogueEntry (sd_model_id c)")
    case None
    then show ?thesis using "2.IH"(1)[OF _ None, of i] "2.prems" go by simp
  next
    case (Some e)
    show ?thesis
    proof (cases i)
      case 0
      then show ?thesis using "2.prems"(3) Some go by (simp add: Let_def)
    next
      case (Suc k)
      define r where "r = invoke_adapter X opts (length as) e"
      have quiet: "\<not> ends_walk r" using "2.prems"(4)[of 0] Suc Some by (simp add: r_def)
      have later: "\<And>j. j < k \<Longrightarrow> \<not> ends_walk (invoke_adapter X opts (length (as @ [attempt_of (length as + 1) e r prev]) + j) (chain_entries cs ! j))"
        using "2.prems"(4)[of "Suc _"] Suc Some by simp
      show ?thesis
        using "2.IH"(2)[OF _ Some refl r_def refl refl refl refl _ _ _ _ _ later] "2.prems"(1-3) Suc Some quiet go
        by (simp add: ends_walk_def Let_def r_def)
    qed
  qed
qed simp

section \<open>The exchange\<close>

lemma executeExchange_attempts:
  "accounts X [] 0 W
     (if xo_dryRun opts then [] else walk X opts (chain_entries (snd (routeOnly X W opts))) 0 None) (executeExchange X W opts)"
proof -
  obtain policy routing where r: "routeOnly X W opts = (policy, routing)" by fastforce
  show ?thesis
  proof (cases routing)
    case Nil
    then show ?thesis by (simp add: executeExchange_def r accounts_def base_result_def)
  next
    case (Cons c cs)
    then have "executeExchange X W opts =
       (if xo_dryRun opts
        then ((base_result policy routing)\<lparr>xr_ok := True, xr_status := XCompleted, xr_chosen_model_id := Some (sd_model_id c),
                 xr_chosen_provider := Some (sd_provider c), xr_total_latency_ms := xw_clock X 0 - xw_started X\<rparr>, W)
        else try_candidates X opts (base_result policy routing) routing W [] 0 None None)"
      by (simp add: executeExchange_def r del: try_candidates.simps)
    then show ?thesis
      using try_candidates_walk[of X "[]" 0 W opts routing None "base_result policy routing" None] r
      by (simp add: accounts_def base_result_def del: try_candidates.simps)
  qed
qed

lemma routed_admissible:
  assumes "xo_catalogue opts = None"
  shows "distinct (map sd_model_id (snd (routeOnly X W opts)))"
    and "c \<in> set (snd (routeOnly X W opts)) \<Longrightarrow> \<exists>e\<in>set RUNTIME_CATALOGUE. ce_id e = sd_model_id c
           \<and> runtime_admissible W (xo_constraints opts) (length (xo_prompt opts)) (xo_env opts) e"
proof -
  let ?ok = "runtime_admissible W (xo_constraints opts) (length (xo_prompt opts)) (xo_env opts)"
  define ids where "ids = map sd_model_id (snd (routeOnly X W opts))"
  have ids: "ids = [] \<or> mset ids = mset (map ce_id (filter ?ok RUNTIME_CATALOGUE))"
    using ranked_ids by (auto simp: ids_def routeOnly_def Let_def eligible_iff_admissible assms listCatalogue_def nullish_def)
  have "distinct (map ce_id (filter ?ok RUNTIME_CATALOGUE))" using catalogue_ids_distinct by (rule distinct_map_filter)
  with ids show "distinct (map sd_model_id (snd (routeOnly X W opts)))"
    unfolding ids_def[symmetric] by (metis distinct.simps(1) mset_eq_imp_distinct_iff)
  assume "c \<in> set (snd (routeOnly X W opts))"
  then have c: "sd_model_id c \<in> set ids" by (simp add: ids_def)
  with ids have "mset ids = mset (map ce_id (filter ?ok RUNTIME_CATALOGUE))" by (metis empty_iff list.set(1))
  then have "set ids = set (map ce_id (filter ?ok RUNTIME_CATALOGUE))" by (rule mset_eq_setD)
  with c show "\<exists>e\<in>set RUNTIME_CATALOGUE. ce_id e = sd_model_id c \<and> ?ok e" by auto
qed

lemma chain_ids: "map ce_id (chain_entries cs) = filter (\<lambda>i. getCatalogueEntry i \<noteq> None) (map sd_model_id cs)"
  by (induction cs) (auto dest: getCatalogueEntry_SomeD split: option.splits)

lemma chain_member: "e \<in> set (chain_entries cs) \<Longrightarrow> \<exists>c\<in>set cs. getCatalogueEntry (sd_model_id c) = Some e"
  by (induction cs) (auto split: option.splits)

text \<open>C9. Every engine a request calls is in the catalogue, satisfies every policy rule the request sets and has a
  usable credential; no engine is called twice, the number of calls is within the cap, and a call is
  followed by another only when it failed for another reason than a refusal of the content.\<close>

theorem exchange_calls_admissible_engines:
  assumes "xo_catalogue opts = None"
  shows "let calls = xr_attempts (fst (executeExchange X W opts)) in
     distinct (map xa_model_id calls)
     \<and> (\<forall>a\<in>set calls. \<exists>e\<in>set RUNTIME_CATALOGUE. ce_id e = xa_model_id a
          \<and> runtime_admissible W (xo_constraints opts) (length (xo_prompt opts)) (xo_env opts) e)
     \<and> (\<forall>i<length calls. of_nat i < max 1 (nullish (xo_maxAttempts opts) 3))
     \<and> (\<forall>a\<in>set (butlast calls). \<not> xa_ok a \<and> xa_failure_kind a \<noteq> Some ContentRefused)"
proof -
  define es where "es = chain_entries (snd (routeOnly X W opts))"
  define ws where "ws = (if xo_dryRun opts then [] else walk X opts es 0 None)"
  have calls: "xr_attempts (fst (executeExchange X W opts)) = ws"
    using executeExchange_attempts[of X W opts] by (simp add: accounts_def ws_def es_def)
  have "distinct (map sd_model_id (snd (routeOnly X W opts)))" by (rule routed_admissible(1)[OF assms])
  then have dist: "distinct (map ce_id es)" by (simp add: es_def chain_ids)
  have ids: "map xa_model_id ws = map ce_id (take (length ws) es)"
    using walk_ids[of X opts es 0 None] by (simp add: ws_def)
  have a: "distinct (map xa_model_id ws)" unfolding ids using dist by (simp add: take_map[symmetric])
  have b: "\<exists>e\<in>set RUNTIME_CATALOGUE. ce_id e = xa_model_id a
      \<and> runtime_admissible W (xo_constraints opts) (length (xo_prompt opts)) (xo_env opts) e" if "a \<in> set ws" for a
  proof -
    have "xa_model_id a \<in> set (map ce_id (take (length ws) es))" using that ids by (metis imageI list.set_map)
    then obtain e where e: "e \<in> set es" "ce_id e = xa_model_id a" by (auto dest: in_set_takeD)
    then obtain c where c: "c \<in> set (snd (routeOnly X W opts))" "getCatalogueEntry (sd_model_id c) = Some e"
      using chain_member[of e "snd (routeOnly X W opts)"] by (auto simp: es_def)
    then have "sd_model_id c = xa_model_id a" using e(2) getCatalogueEntry_SomeD by metis
    with routed_admissible(2)[OF assms c(1)] show ?thesis by simp
  qed
  have c: "of_nat i < max 1 (nullish (xo_maxAttempts opts) 3)" if "i < length ws" for i
    using walk_bounded[of i X opts es 0 None] that by (simp add: ws_def more_attempts_def split: if_splits)
  have d: "\<not> xa_ok a \<and> xa_failure_kind a \<noteq> Some ContentRefused" if mem: "a \<in> set (butlast ws)" for a
  proof -
    obtain i where "i < length (butlast ws)" "butlast ws ! i = a" using mem by (meson in_set_conv_nth)
    then have i: "Suc i < length ws" "a = ws ! i" by (simp_all add: nth_butlast less_diff_conv)
    then show ?thesis
      using walk_goes_on[of i X opts es 0 None] walk_nth[of i X opts es 0 None] by (auto simp: ws_def ends_walk_def split: if_splits)
  qed
  show ?thesis unfolding Let_def calls using a b c d by blast
qed

text \<open>The reported cost is the sum over all attempts, failed ones included, and every attempt, in order, is a
  sample of its engine's telemetry; a dry run or a rejected request costs nothing and samples nothing.\<close>

theorem exchange_charges_every_attempt:
  "let (res, W') = executeExchange X W opts in
     xr_total_cost_usd res = to_fixed 8 (sum_list (map xa_cost_usd (xr_attempts res)))
     \<and> W' = fold (sample_attempt X) (xr_attempts res) W
     \<and> (if xo_dryRun opts then xr_attempts res = [] \<and> W' = W else True)"
  using executeExchange_attempts[of X W opts] by (auto simp: accounts_def split: prod.splits)

text \<open>C29. When one of the engines within the cap would answer and nothing before it in the ranking refuses the
  content or answers, the request ends with exactly that engine's answer.\<close>

theorem exchange_finds_the_answer:
  assumes "\<not> xo_dryRun opts" "es = chain_entries (snd (routeOnly X W opts))" "i < length es"
    "of_nat i < max 1 (nullish (xo_maxAttempts opts) 3)" "rs_ok (invoke_adapter X opts i (es ! i))"
    "\<And>j. j < i \<Longrightarrow> \<not> ends_walk (invoke_adapter X opts j (es ! j))"
  shows "let res = fst (executeExchange X W opts) in xr_ok res \<and> xr_content res = rs_content (invoke_adapter X opts i (es ! i))
     \<and> xr_chosen_model_id res = Some (ce_id (es ! i))"
proof -
  obtain policy routing where r: "routeOnly X W opts = (policy, routing)" by fastforce
  then obtain c cs where cs: "routing = c # cs" using assms(2,3) by (cases routing) auto
  have "executeExchange X W opts = try_candidates X opts (base_result policy routing) routing W [] 0 None None"
    using assms(1) r cs by (simp add: executeExchange_def del: try_candidates.simps)
  then show ?thesis
    using try_candidates_answers[of i routing opts "[]" X "base_result policy routing" W 0 None None] assms r
    by (simp add: more_attempts_def del: try_candidates.simps)
qed

text \<open>C38. The ranking does not depend on the order in which the engines are listed, as long as the platform's
  comparison tells their identifiers apart: a recorded decision can be reproduced.\<close>

theorem ranking_reproducible:
  assumes "mset eligible = mset eligible'" "inj_on (collate \<circ> ce_id) (set eligible)"
  shows "rankCandidates collate W eligible n first = rankCandidates collate W eligible' n first"
proof -
  define f where "f = (\<lambda>e. scoreCandidate e n (telemetryFor W (ce_id e)))"
  have "inj_on (rank_key collate) (set (map f eligible))"
    using assms(2) by (auto simp: inj_on_def rank_key_def f_def)
  moreover have "mset (map f eligible) = mset (map f eligible')" using assms(1) by simp
  ultimately have "sort_key (rank_key collate) (map f eligible) = sort_key (rank_key collate) (map f eligible')"
    by (intro sort_key_order_independent) auto
  then show ?thesis by (simp add: rankCandidates_def f_def)
qed

section \<open>Telemetry\<close>

definition calibrator_ok :: "calibrator \<Rightarrow> bool" where
  "calibrator_ok W \<longleftrightarrow> distinct (map fst W)
     \<and> (\<forall>(i, ring)\<in>set W. length ring \<le> WINDOW_SIZE \<and> (\<forall>s\<in>set ring. 0 \<le> ls_latencyMs s))"

lemma set_ring_keys: "map fst (set_ring W i r) = (if i \<in> fst ` set W then map fst W else map fst W @ [i])"
  by (simp add: set_ring_def comp_def case_prod_beta)

lemma ring_of_ok: "calibrator_ok W \<Longrightarrow> length (ring_of W i) \<le> WINDOW_SIZE \<and> (\<forall>s\<in>set (ring_of W i). 0 \<le> ls_latencyMs s)"
  by (auto simp: ring_of_def calibrator_ok_def nullish_def dest!: map_of_SomeD split: option.splits)

lemma set_ring_ok:
  assumes "calibrator_ok W" "length r \<le> WINDOW_SIZE" "\<forall>s\<in>set r. 0 \<le> ls_latencyMs s"
  shows "calibrator_ok (set_ring W i r)"
proof -
  have "distinct (map fst (set_ring W i r))" using assms(1) by (auto simp: set_ring_keys calibrator_ok_def)
  moreover have "length ring \<le> WINDOW_SIZE \<and> (\<forall>s\<in>set ring. 0 \<le> ls_latencyMs s)" if "(k, ring) \<in> set (set_ring W i r)" for k ring
    using that assms by (auto simp: set_ring_def calibrator_ok_def split: if_splits)
  ultimately show ?thesis by (auto simp: calibrator_ok_def)
qed

lemma set_tl_subset: "set (tl xs) \<subseteq> set xs"
  by (cases xs) auto

lemma recordSample_ok: "calibrator_ok W \<Longrightarrow> calibrator_ok (recordSample now i l good W)"
  using ring_of_ok[of W i] unfolding recordSample_def Let_def
  by (intro set_ring_ok) (auto dest!: set_mp[OF set_tl_subset])

lemma samples_ok: "calibrator_ok W \<Longrightarrow> calibrator_ok (fold (sample_attempt X) as W)"
  by (induction as arbitrary: W) (simp_all add: sample_attempt_def recordSample_ok)

lemma seed_ok: "calibrator_ok W \<Longrightarrow> calibrator_ok (fst (seedFromLedger now rows W))"
  by (induction now rows W rule: seedFromLedger.induct) (auto simp: recordSample_ok case_prod_beta split: option.splits)

lemma p50_member: "xs \<noteq> [] \<Longrightarrow> p50 seed xs \<in> set xs"
  unfolding p50_def by (simp, rule nth_mem) (cases xs; simp)

lemma success_share_range: "0 \<le> success_share r \<and> success_share r \<le> 1"
  by (auto simp: success_share_def divide_le_eq_1 intro: length_filter_le)

text \<open>The telemetry of any history of exchanges stays in its window: at most fifty samples per engine, a
  success rate between 0 and 1, and a latency called observed is that of a recorded success.\<close>

theorem telemetry_bounded:
  assumes "calibrator_ok W"
  shows "calibrator_ok (snd (executeExchange X W opts))
     \<and> (let t = telemetryFor (snd (executeExchange X W opts)) i in
          mt_samples t \<le> WINDOW_SIZE \<and> 0 \<le> mt_successRate t \<and> mt_successRate t \<le> 1
          \<and> (mt_latencyObserved t \<longrightarrow> (\<exists>s\<in>set (ring_of (snd (executeExchange X W opts)) i). ls_ok s \<and> ls_latencyMs s = mt_latencyMs t)))"
proof -
  let ?W = "snd (executeExchange X W opts)"
  have ok: "calibrator_ok ?W"
    using executeExchange_attempts[of X W opts] assms by (auto simp: accounts_def samples_ok)
  have "\<exists>s\<in>set r. ls_ok s \<and> ls_latencyMs s = p50 seed (successes r)" if "CALIBRATOR_MIN_SAMPLES \<le> length (successes r)" for seed r
  proof -
    have "successes r \<noteq> []" using that by (auto simp: CALIBRATOR_MIN_SAMPLES_def)
    then have "p50 seed (successes r) \<in> set (successes r)" by (rule p50_member)
    then show ?thesis by (auto simp: successes_def)
  qed
  then show ?thesis using ok ring_of_ok[OF ok, of i] success_share_range
    by (auto simp: telemetryFor_def Let_def)
qed

text \<open>Telemetry moves the score the right way: fewer successes or a higher latency never raise an engine's total.\<close>

theorem degraded_engine_never_gains:
  assumes "0 \<le> ce_quality_score e" "mt_successRate t \<le> mt_successRate t'" "mt_latencyMs t' \<le> mt_latencyMs t"
  shows "sd_total (scoreCandidate e n t) \<le> sd_total (scoreCandidate e n t')"
proof -
  have q: "to_fixed 2 (ce_quality_score e * mt_successRate t) \<le> to_fixed 2 (ce_quality_score e * mt_successRate t')"
    using assms(1,2) by (intro to_fixed_mono mult_left_mono)
  have "to_fixed 2 (min 100 (mt_latencyMs t' / MAX_REASONABLE_LATENCY_MS * 100))
      \<le> to_fixed 2 (min 100 (mt_latencyMs t / MAX_REASONABLE_LATENCY_MS * 100))"
    using assms(3) by (intro to_fixed_mono min.mono) (simp_all add: MAX_REASONABLE_LATENCY_MS_def)
  then have l: "to_fixed 2 (- sc_latency RUNTIME_WEIGHTS * to_fixed 2 (min 100 (mt_latencyMs t / MAX_REASONABLE_LATENCY_MS * 100)))
      \<le> to_fixed 2 (- sc_latency RUNTIME_WEIGHTS * to_fixed 2 (min 100 (mt_latencyMs t' / MAX_REASONABLE_LATENCY_MS * 100)))"
    by (intro to_fixed_mono) (simp add: RUNTIME_WEIGHTS_def)
  have "to_fixed 2 (sc_quality RUNTIME_WEIGHTS * to_fixed 2 (ce_quality_score e * mt_successRate t))
      \<le> to_fixed 2 (sc_quality RUNTIME_WEIGHTS * to_fixed 2 (ce_quality_score e * mt_successRate t'))"
    using q by (intro to_fixed_mono) (simp add: RUNTIME_WEIGHTS_def)
  with l show ?thesis
    unfolding scoreCandidate_def Let_def
    by (simp add: sum_terms_def candidate_weighted_def candidate_terms_def) (intro to_fixed_mono, simp)
qed

end
