(* ===== verification/RuntimePipelineFacts.thy ===== *)
theory RuntimePipelineFacts imports RuntimePipeline RuntimeExchangeFacts AuditFacts begin

text \<open>
  What the query pipeline guarantees: no engine before the sanitiser, the policy and the gate; every response
  in the work ledger with what it cost; one audit record per governed outcome; and the tables in step after
  any history of requests.
\<close>

section \<open>The exit\<close>

definition settled_gate :: "pipeline_env \<Rightarrow> termination_params \<Rightarrow> mi9_state \<Rightarrow> mi9_state" where
  "settled_gate E p m =
     (case tp_governance p of
        Some g \<Rightarrow> if succeeded (tp_status p) \<and> \<not> tp_dryRun p then recordGovernedExecution (pn_now E) g m else m
      | None \<Rightarrow> m)"

text \<open>\<open>fine\<close>: the ledger writes went through.\<close>

definition audited ::
  "pipeline_env \<Rightarrow> classification \<Rightarrow> termination_params \<Rightarrow> bool \<Rightarrow> audit_db \<Rightarrow> (string \<times> string) option \<times> audit_db" where
  "audited E c p fine db =
     (case tp_governance p of
        None \<Rightarrow> (None, db)
      | Some g \<Rightarrow>
          if \<not> fine \<or> pn_fault E WriteAudit then (None, db)
          else (case writeAuditRecord E (entry_of E c p g) db of
             Inl e \<Rightarrow> (None, db)
           | Inr (r, db') \<Rightarrow> (Some (rec_recordId r, rec_chainHash r), db')))"

lemma write_records_sel:
  "ps_calibrator (snd (write_records E q pv c conf p s)) = ps_calibrator s"
  "ps_mi9 (snd (write_records E q pv c conf p s)) = ps_mi9 s"
  "ps_ledger (snd (write_records E q pv c conf p s)) = snd (ledgered E q pv c conf p (ps_ledger s))"
  "ps_audit (snd (write_records E q pv c conf p s)) = snd (audited E c p (fst (ledgered E q pv c conf p (ps_ledger s))) (ps_audit s))"
  "fst (write_records E q pv c conf p s) = fst (audited E c p (fst (ledgered E q pv c conf p (ps_ledger s))) (ps_audit s))"
  by (auto simp: write_records_def audited_def Let_def split: option.split sum.split list.split prod.split)

lemma terminate_split:
  "terminate E q pv c conf p s =
     (let (au, s2) = write_records E q pv c conf p (s\<lparr>ps_mi9 := settled_gate E p (ps_mi9 s)\<rparr>); premium = premiumCostFor (tp_exchange p)
      in (\<lparr>qs_ok = succeeded (tp_status p), qs_request_id = pv_request_id pv, qs_status = tp_status p, qs_answer = tp_answer p,
           qs_citations = citations_of p, qs_classification = c, qs_exchange = tp_exchange p, qs_governance = tp_governance p,
           qs_approval_id = None, qs_retrieval = tp_retrieval p, qs_cost_usd = cost_of p, qs_premium_cost_usd = fst premium,
           qs_cost_avoided_usd = to_fixed 8 (fst premium - cost_of p), qs_audit = au, qs_rejection = tp_rejection p\<rparr>, s2))"
proof -
  have *: "(case tp_governance p of
             Some g \<Rightarrow> if succeeded (tp_status p) \<and> \<not> tp_dryRun p then s\<lparr>ps_mi9 := recordGovernedExecution (pn_now E) g (ps_mi9 s)\<rparr> else s
           | None \<Rightarrow> s) = s\<lparr>ps_mi9 := settled_gate E p (ps_mi9 s)\<rparr>"
    by (auto simp: settled_gate_def split: option.split)
  show ?thesis unfolding terminate_def Let_def * by (rule refl)
qed

lemma terminate_sel:
  assumes "terminate E q pv c conf p s = (resp, s')"
  shows "qs_ok resp = succeeded (tp_status p)" "qs_status resp = tp_status p" "qs_answer resp = tp_answer p"
    "qs_exchange resp = tp_exchange p" "qs_governance resp = tp_governance p" "qs_cost_usd resp = cost_of p"
    "qs_rejection resp = tp_rejection p" "qs_request_id resp = pv_request_id pv" "qs_classification resp = c"
    "qs_approval_id resp = None"
    "ps_calibrator s' = ps_calibrator s" "ps_ledger s' = snd (ledgered E q pv c conf p (ps_ledger s))"
    "ps_mi9 s' = settled_gate E p (ps_mi9 s)"
    "ps_audit s' = snd (audited E c p (fst (ledgered E q pv c conf p (ps_ledger s))) (ps_audit s))"
    "qs_audit resp = fst (audited E c p (fst (ledgered E q pv c conf p (ps_ledger s))) (ps_audit s))"
  using assms write_records_sel[of E q pv c conf p "s\<lparr>ps_mi9 := settled_gate E p (ps_mi9 s)\<rparr>"]
  by (auto simp: terminate_split Let_def case_prod_beta)

section \<open>The outcomes of a request\<close>

text \<open>
  Every response comes from one exit, in one of five ways: refused by the sanitiser, without a candidate,
  blocked by the gate, a dry run, or executed.
\<close>

datatype pipeline_outcome = Unsanitised | NoCandidate | Blocked | DryRun | Executed

definition outcome_params ::
  "pipeline_env \<Rightarrow> query_request \<Rightarrow> provenance \<Rightarrow> prior_approval option \<Rightarrow> classification \<Rightarrow> string \<Rightarrow> pipeline_state
     \<Rightarrow> pipeline_outcome \<Rightarrow> termination_params \<Rightarrow> pipeline_state \<Rightarrow> bool" where
  "outcome_params E q pv prior c conf s oc p t =
     (let sanitised = sanitiseQuery (JStr (rq_query q)) MAX_QUERY_CHARS in
      case oc of
        Unsanitised \<Rightarrow> \<not> sa_ok sanitised \<and> t = s \<and> tp_exchange p = None \<and> tp_governance p = None
          \<and> tp_status p = WRejectedGovernance \<and> tp_answer p = [] \<and> \<not> tp_dryRun p
      | NoCandidate \<Rightarrow> sa_ok sanitised \<and> t = s \<and> tp_governance p = None \<and> tp_status p = WRejectedPolicy \<and> tp_answer p = []
          \<and> \<not> tp_dryRun p \<and> (\<exists>dry. tp_exchange p = Some dry \<and> xr_attempts dry = [] \<and> xr_total_cost_usd dry = 0)
      | Blocked \<Rightarrow> sa_ok sanitised \<and> ps_calibrator t = ps_calibrator s \<and> ps_audit t = ps_audit s \<and> ps_ledger t = ps_ledger s
          \<and> ps_missions t = ps_missions s \<and> tp_status p = WRejectedGovernance \<and> tp_answer p = [] \<and> \<not> tp_dryRun p
          \<and> (\<exists>g. tp_governance p = Some g \<and> mr_verdict (gv_mi9 g) = Block \<and> dc_decisionId (gv_context g) = pv_request_id pv)
          \<and> (\<exists>dry. tp_exchange p = Some dry \<and> xr_attempts dry = [] \<and> xr_total_cost_usd dry = 0)
      | DryRun \<Rightarrow> sa_ok sanitised \<and> ps_calibrator t = ps_calibrator s \<and> ps_audit t = ps_audit s \<and> ps_ledger t = ps_ledger s
          \<and> ps_missions t = ps_missions s \<and> tp_status p = WCompleted \<and> tp_answer p = [] \<and> tp_dryRun p \<and> rq_dry_run q
          \<and> (\<exists>g. tp_governance p = Some g \<and> mr_verdict (gv_mi9 g) \<noteq> Block \<and> dc_decisionId (gv_context g) = pv_request_id pv)
          \<and> (\<exists>dry. tp_exchange p = Some dry \<and> xr_attempts dry = [] \<and> xr_total_cost_usd dry = 0)
      | Executed \<Rightarrow> sa_ok sanitised \<and> ps_audit t = ps_audit s \<and> ps_ledger t = ps_ledger s \<and> ps_missions t = ps_missions s
          \<and> \<not> tp_dryRun p \<and> \<not> rq_dry_run q
          \<and> (\<exists>g candidate. tp_governance p = Some g \<and> mr_verdict (gv_mi9 g) \<noteq> Block \<and> dc_decisionId (gv_context g) = pv_request_id pv
               \<and> dc_proposedBy (gv_context g) = candidate)
          \<and> (\<exists>r cn prompt x. executeExchange (pn_world E) (ps_calibrator s) (live_options E q c r cn prompt) = (x, ps_calibrator t)
               \<and> cn = buildConstraints q c conf \<and> tp_exchange p = Some x \<and> tp_status p = status_of (xr_status x)
               \<and> tp_answer p = xr_content x))"

lemma dry_run_free:
  assumes "executeExchange X W opts = (x, W')" "xo_dryRun opts"
  shows "W' = W" "xr_attempts x = []" "xr_total_cost_usd x = 0"
  using executeExchange_attempts[of X W opts] assms by (simp_all add: accounts_def)

lemma evaluateGovernance_sel:
  assumes "evaluateGovernance env now i s = Inr (g, s')"
  shows "gv_allowed g = (mr_verdict (gv_mi9 g) \<noteq> Block)" "gv_context g = runtime_context i"
  using assms by (auto simp: evaluateGovernance_def split: sum.splits prod.splits)

lemma governed_query_outcome:
  assumes "governed_query E q pv prior c conf r prompt s = (Inr resp, s')"
    and ok: "sa_ok (sanitiseQuery (JStr (rq_query q)) MAX_QUERY_CHARS)"
  shows "\<exists>oc p t. outcome_params E q pv prior c conf s oc p t \<and> terminate E q pv c conf p t = (resp, s')"
proof -
  define cn where "cn = buildConstraints q c conf"
  obtain dry W1 where dry: "executeExchange (pn_world E) (ps_calibrator s) (dry_options E cn prompt) = (dry, W1)" by fastforce
  have free: "W1 = ps_calibrator s" "xr_attempts dry = []" "xr_total_cost_usd dry = 0"
    using dry_run_free[OF dry] by (simp_all add: dry_options_def)
  then have same: "s\<lparr>ps_calibrator := W1\<rparr> = s" by simp
  show ?thesis
  proof (cases "xr_chosen_model_id dry")
    case None
    define p where "p = (refusal_params WRejectedPolicy (RoutingRejected (xr_rejection_reason dry)))\<lparr>tp_exchange := Some dry, tp_retrieval := r\<rparr>"
    have "terminate E q pv c conf p s = (resp, s')"
      using assms(1) None same
      by (simp add: governed_query_def Let_def cn_def[symmetric] dry p_def case_prod_beta prod_eq_iff)
    moreover have "outcome_params E q pv prior c conf s NoCandidate p s"
      using free ok by (simp add: outcome_params_def Let_def p_def refusal_params_def)
    ultimately show ?thesis by blast
  next
    case (Some candidate)
    obtain g m where g: "evaluateGovernance (pn_policy E) (pn_now E) (query_governance q pv c conf candidate r prior) (ps_mi9 s) = Inr (g, m)"
      using assms(1) Some same by (auto simp: governed_query_def Let_def cn_def[symmetric] dry split: sum.splits)
    note G = evaluateGovernance_sel[OF g]
    have ctx: "dc_decisionId (gv_context g) = pv_request_id pv" "dc_proposedBy (gv_context g) = candidate"
      by (simp_all add: G(2) runtime_context_def query_governance_def)
    define t where "t = s\<lparr>ps_mi9 := m\<rparr>"
    consider (blocked) "\<not> gv_allowed g" | (dry) "gv_allowed g" "rq_dry_run q" | (live) "gv_allowed g" "\<not> rq_dry_run q" by blast
    then show ?thesis
    proof cases
      case blocked
      define p where "p = (refusal_params WRejectedGovernance (GovernanceRejected (gv_blockReason g)))
        \<lparr>tp_exchange := Some dry, tp_retrieval := r, tp_governance := Some g\<rparr>"
      have "terminate E q pv c conf p t = (resp, s')"
        using assms(1) Some same blocked g
        by (simp add: governed_query_def Let_def cn_def[symmetric] dry p_def t_def case_prod_beta prod_eq_iff)
      moreover have "outcome_params E q pv prior c conf s Blocked p t"
        using free ok blocked G(1) ctx by (simp add: outcome_params_def Let_def p_def t_def refusal_params_def)
      ultimately show ?thesis by blast
    next
      case dry': dry
      define p where "p = \<lparr>tp_status = WCompleted, tp_answer = [], tp_rejection = None, tp_exchange = Some dry, tp_retrieval = r,
        tp_governance = Some g, tp_dryRun = True\<rparr>"
      have "terminate E q pv c conf p t = (resp, s')"
        using assms(1) Some same dry' g
        by (simp add: governed_query_def Let_def cn_def[symmetric] dry p_def t_def case_prod_beta prod_eq_iff)
      moreover have "outcome_params E q pv prior c conf s DryRun p t"
        using free ok dry' G(1) ctx by (simp add: outcome_params_def Let_def p_def t_def)
      ultimately show ?thesis by blast
    next
      case live
      obtain x W2 where x: "executeExchange (pn_world E) (ps_calibrator s) (live_options E q c r cn prompt) = (x, W2)" by fastforce
      define p where "p = \<lparr>tp_status = status_of (xr_status x), tp_answer = xr_content x,
        tp_rejection = map_option (\<lambda>why. RoutingRejected (Some why)) (xr_rejection_reason x), tp_exchange = Some x,
        tp_retrieval = r, tp_governance = Some g, tp_dryRun = False\<rparr>"
      have "terminate E q pv c conf p (t\<lparr>ps_calibrator := W2\<rparr>) = (resp, s')"
        using assms(1) Some same live g x
        by (simp add: governed_query_def Let_def cn_def[symmetric] dry p_def t_def case_prod_beta prod_eq_iff)
      moreover have "outcome_params E q pv prior c conf s Executed p (t\<lparr>ps_calibrator := W2\<rparr>)"
        using ok live G(1) ctx x by (auto simp: outcome_params_def Let_def p_def t_def cn_def)
      ultimately show ?thesis by blast
    qed
  qed
qed

lemma pipeline_outcome:
  assumes "runQueryPipeline E q pv prior s = (Inr resp, s')"
  shows "\<exists>c conf oc p t. conf = nullish (rq_confidentiality q) ''internal'' \<and> outcome_params E q pv prior c conf s oc p t
    \<and> terminate E q pv c conf p t = (resp, s')"
proof -
  define sa where "sa = sanitiseQuery (JStr (rq_query q)) MAX_QUERY_CHARS"
  define conf where "conf = nullish (rq_confidentiality q) ''internal''"
  define c where "c = classifyRequest (if sa_ok sa then sa_text sa else take 500 (rq_query q)) (rq_task_type q)"
  show ?thesis
  proof (cases "sa_ok sa")
    case False
    define p where "p = refusal_params WRejectedGovernance (InputRejected (nullish (sa_refusal sa) NotAString))"
    have "terminate E q pv c conf p s = (resp, s')"
      using assms False
      by (simp add: runQueryPipeline_def Let_def sa_def[symmetric] conf_def[symmetric] c_def p_def case_prod_beta prod_eq_iff)
    moreover have "outcome_params E q pv prior c conf s Unsanitised p s"
      using False by (simp add: outcome_params_def Let_def p_def refusal_params_def sa_def)
    ultimately show ?thesis unfolding conf_def by blast
  next
    case True
    then obtain r prompt where "governed_query E q pv prior c conf r prompt s = (Inr resp, s')"
      using assms by (auto simp: runQueryPipeline_def Let_def sa_def[symmetric] conf_def[symmetric] c_def)
    from governed_query_outcome[OF this] True show ?thesis unfolding conf_def sa_def by blast
  qed
qed


section \<open>No engine before its gates\<close>

lemma called_admissible:
  assumes "xo_catalogue opts = None" "a \<in> set (xr_attempts (fst (executeExchange X W opts)))"
  shows "\<exists>e\<in>set RUNTIME_CATALOGUE. ce_id e = xa_model_id a
           \<and> runtime_admissible W (xo_constraints opts) (length (xo_prompt opts)) (xo_env opts) e"
proof -
  let ?es = "chain_entries (snd (routeOnly X W opts))"
  have a: "a \<in> set (walk X opts ?es 0 None)"
    using assms(2) executeExchange_attempts[of X W opts] by (auto simp: accounts_def split: if_splits)
  then have "xa_model_id a \<in> set (map ce_id (take (length (walk X opts ?es 0 None)) ?es))"
    by (metis walk_ids imageI list.set_map)
  then obtain e where e: "e \<in> set ?es" "ce_id e = xa_model_id a" by (auto dest: in_set_takeD)
  then obtain c where c: "c \<in> set (snd (routeOnly X W opts))" "getCatalogueEntry (sd_model_id c) = Some e"
    using chain_member by blast
  then have "sd_model_id c = xa_model_id a" using e(2) getCatalogueEntry_SomeD by metis
  with routed_admissible(2)[OF assms(1) c(1)] show ?thesis by simp
qed

lemma live_options_sel:
  "xo_catalogue (live_options E q c r cn prompt) = None" "xo_constraints (live_options E q c r cn prompt) = cn"
  "xo_prompt (live_options E q c r cn prompt) = prompt" "xo_env (live_options E q c r cn prompt) = pn_env E"
  "\<not> xo_dryRun (live_options E q c r cn prompt)"
  by (simp_all add: live_options_def dry_options_def)

text \<open>The attempts a response reports, none when it never reached the exchange.\<close>

definition calls_of :: "query_response \<Rightarrow> exchange_attempt list" where
  "calls_of resp = (case qs_exchange resp of None \<Rightarrow> [] | Some x \<Rightarrow> xr_attempts x)"

text \<open>C2. An engine is called only for a query the sanitiser accepted, that is no dry run, and that the MI9 gate
  decided under this request's own identifier and did not block; and every engine called is in the
  catalogue and admissible under the request's constraints.  A response without a call costs nothing and
  leaves the telemetry alone.\<close>

theorem engines_only_behind_the_gate:
  assumes "runQueryPipeline E q pv prior s = (Inr resp, s')"
  shows "(if calls_of resp = [] then True
      else sa_ok (sanitiseQuery (JStr (rq_query q)) MAX_QUERY_CHARS) \<and> \<not> rq_dry_run q
        \<and> (\<exists>g. qs_governance resp = Some g \<and> mr_verdict (gv_mi9 g) \<noteq> Block \<and> dc_decisionId (gv_context g) = pv_request_id pv))
    \<and> (\<forall>a\<in>set (calls_of resp). \<exists>e\<in>set RUNTIME_CATALOGUE. ce_id e = xa_model_id a
         \<and> (\<exists>n. runtime_admissible (ps_calibrator s)
              (buildConstraints q (qs_classification resp) (nullish (rq_confidentiality q) ''internal'')) n (pn_env E) e))
    \<and> ps_calibrator s' = fold (sample_attempt (pn_world E)) (calls_of resp) (ps_calibrator s)
    \<and> (if calls_of resp = [] then qs_cost_usd resp = 0 else True)"
proof -
  define conf where "conf = nullish (rq_confidentiality q) ''internal''"
  obtain c oc p t where oc: "outcome_params E q pv prior c conf s oc p t" and te: "terminate E q pv c conf p t = (resp, s')"
    using pipeline_outcome[OF assms] unfolding conf_def by blast
  note sel = terminate_sel[OF te]
  show ?thesis
  proof (cases oc)
    case Executed
    then obtain g r prompt x where g: "sa_ok (sanitiseQuery (JStr (rq_query q)) MAX_QUERY_CHARS)" "\<not> rq_dry_run q" "\<not> tp_dryRun p"
        "tp_governance p = Some g" "mr_verdict (gv_mi9 g) \<noteq> Block" "dc_decisionId (gv_context g) = pv_request_id pv"
      and x: "executeExchange (pn_world E) (ps_calibrator s) (live_options E q c r (buildConstraints q c conf) prompt) = (x, ps_calibrator t)"
        "tp_exchange p = Some x"
      using oc by (auto simp: outcome_params_def Let_def)
    have calls: "calls_of resp = xr_attempts x" by (simp add: calls_of_def sel x(2))
    have acc: "ps_calibrator t = fold (sample_attempt (pn_world E)) (xr_attempts x) (ps_calibrator s)"
        "xr_total_cost_usd x = to_fixed 8 (sum_list (map xa_cost_usd (xr_attempts x)))"
      using executeExchange_attempts[of "pn_world E" "ps_calibrator s" "live_options E q c r (buildConstraints q c conf) prompt"] x(1)
      by (auto simp: accounts_def)
    have adm: "\<exists>e\<in>set RUNTIME_CATALOGUE. ce_id e = xa_model_id a
        \<and> (\<exists>n. runtime_admissible (ps_calibrator s) (buildConstraints q c conf) n (pn_env E) e)" if "a \<in> set (xr_attempts x)" for a
      using called_admissible[of "live_options E q c r (buildConstraints q c conf) prompt" a "pn_world E" "ps_calibrator s"] that x(1)
      by (auto simp: live_options_sel)
    show ?thesis
      using g adm acc by (auto simp: calls sel conf_def[symmetric] cost_of_def x(2))
  qed (use oc in \<open>auto simp: outcome_params_def Let_def calls_of_def sel cost_of_def\<close>)
qed

section \<open>The ledgers\<close>

lemma guarded_write_sel:
  "fst (guarded_write E k wanted f st) \<longleftrightarrow> fst st \<and> (wanted \<longrightarrow> \<not> pn_fault E k)"
  "snd (guarded_write E k wanted f st) = (if fst st \<and> wanted \<and> \<not> pn_fault E k then f (snd st) else snd st)"
  by (auto simp: guarded_write_def)

lemma ledger_write_sel:
  "lg_attempts (ledger_work H now w lg) = lg_attempts lg" "lg_value (ledger_work H now w lg) = lg_value lg"
  "lg_work (recordAttempts now i as lg) = lg_work lg" "lg_value (recordAttempts now i as lg) = lg_value lg"
  "lg_work (recordValue v lg) = lg_work lg" "lg_attempts (recordValue v lg) = lg_attempts lg"
  by (simp_all add: ledger_work_def recordAttempts_def recordValue_def)

text \<open>Exactly when the ledger writes of an exit all go through.\<close>

lemma ledgered_fine:
  "fst (ledgered E q pv c conf p lg) \<longleftrightarrow> \<not> pn_fault E WriteWork
     \<and> (\<not> tp_dryRun p \<and> (case tp_exchange p of None \<Rightarrow> [] | Some x \<Rightarrow> xr_attempts x) \<noteq> [] \<longrightarrow> \<not> pn_fault E WriteAttempts)
     \<and> (\<not> tp_dryRun p \<and> succeeded (tp_status p) \<longrightarrow> \<not> pn_fault E WriteValue)"
  by (simp add: ledgered_def Let_def guarded_write_sel)

lemma ledgered_unwritten: "pn_fault E WriteWork \<Longrightarrow> ledgered E q pv c conf p lg = (False, lg)"
  by (simp add: ledgered_def Let_def guarded_write_def)

lemma ledgered_work:
  "lg_work (snd (ledgered E q pv c conf p lg)) =
     (if pn_fault E WriteWork then lg_work lg
      else lg_work (ledger_work (pn_hash E) (pn_nowSql E) (work_of E q pv c conf p) lg))"
  by (simp add: ledgered_def Let_def guarded_write_sel ledger_write_sel)

lemma ledgered_ok: "ledger_ok lg \<Longrightarrow> ledger_ok (snd (ledgered E q pv c conf p lg))"
  using ledger_work_ok[of lg "pn_hash E" "pn_nowSql E" "work_of E q pv c conf p"] by (simp add: ledger_ok_def ledgered_work)

lemma work_of_sel:
  "wr_request_id (work_of E q pv c conf p) = pv_request_id pv" "wr_status (work_of E q pv c conf p) = tp_status p"
  "wr_cost_usd (work_of E q pv c conf p) = cost_of p"
  "wr_attempts (work_of E q pv c conf p) = (if tp_dryRun p then 0 else case tp_exchange p of None \<Rightarrow> 0 | Some x \<Rightarrow> length (xr_attempts x))"
  by (simp_all add: work_of_def Let_def)

lemma ledgered_row:
  assumes "ledger_ok lg" "\<not> pn_fault E WriteWork"
  shows "\<exists>w. getWork (pv_request_id pv) (snd (ledgered E q pv c conf p lg)) = Some w \<and> wr_status (rw_record w) = tp_status p
      \<and> wr_cost_usd (rw_record w) = cost_of p
      \<and> wr_attempts (rw_record w) = (if tp_dryRun p then 0 else case tp_exchange p of None \<Rightarrow> 0 | Some x \<Rightarrow> length (xr_attempts x))"
  using getWork_ledger_work[OF assms(1), of "work_of E q pv c conf p" "pn_hash E" "pn_nowSql E"]
  by (auto simp: getWork_def ledgered_work assms(2) work_of_sel)

lemma ledgered_attempts:
  "lg_attempts (snd (ledgered E q pv c conf p lg)) = lg_attempts lg
      @ (if tp_dryRun p \<or> pn_fault E WriteWork \<or> pn_fault E WriteAttempts then []
         else map (\<lambda>a. \<lparr>aw_request_id = pv_request_id pv, aw_attempt = stored_attempt a, aw_created_at = pn_nowSql E\<rparr>)
           (case tp_exchange p of None \<Rightarrow> [] | Some x \<Rightarrow> xr_attempts x))"
  by (auto simp: ledgered_def Let_def guarded_write_sel ledger_write_sel recordAttempts_def split: option.split)

lemma ledgered_value:
  "map (vr_request_id \<circ> vw_record) (lg_value (snd (ledgered E q pv c conf p lg))) = map (vr_request_id \<circ> vw_record) (lg_value lg)
      @ (if \<not> tp_dryRun p \<and> succeeded (tp_status p) \<and> fst (ledgered E q pv c conf p lg) then [pv_request_id pv] else [])"
  by (auto simp: ledgered_def Let_def guarded_write_sel ledger_write_sel recordValue_def)

text \<open>Only a governed request, never blocked, can be a dry run.\<close>

lemma outcome_dry:
  "outcome_params E q pv prior c conf s oc p t \<Longrightarrow>
     (tp_dryRun p \<longrightarrow> rq_dry_run q \<and> (case tp_exchange p of None \<Rightarrow> True | Some x \<Rightarrow> xr_attempts x = []))
     \<and> (rq_dry_run q \<longrightarrow> tp_dryRun p \<or> \<not> succeeded (tp_status p))
     \<and> ps_ledger t = ps_ledger s \<and> ps_audit t = ps_audit s"
  by (cases oc) (auto simp: outcome_params_def Let_def succeeded_def)

text \<open>Which ledger writes a response asks for, and whether one of them throws.\<close>

definition ledger_write_throws :: "pipeline_env \<Rightarrow> query_request \<Rightarrow> query_response \<Rightarrow> bool" where
  "ledger_write_throws E q resp \<longleftrightarrow> pn_fault E WriteWork
     \<or> (calls_of resp \<noteq> [] \<and> pn_fault E WriteAttempts)
     \<or> (qs_ok resp \<and> \<not> rq_dry_run q \<and> pn_fault E WriteValue)"

lemma outcome_calls:
  assumes "outcome_params E q pv prior c conf s oc p t" "terminate E q pv c conf p t = (resp, s')"
  shows "calls_of resp = (if tp_dryRun p then [] else case tp_exchange p of None \<Rightarrow> [] | Some x \<Rightarrow> xr_attempts x)"
    and "(\<not> tp_dryRun p \<and> succeeded (tp_status p)) = (qs_ok resp \<and> \<not> rq_dry_run q)"
    and "fst (ledgered E q pv c conf p lg) = (\<not> ledger_write_throws E q resp)"
proof -
  note sel = terminate_sel[OF assms(2)]
  note dry = outcome_dry[OF assms(1)]
  show calls: "calls_of resp = (if tp_dryRun p then [] else case tp_exchange p of None \<Rightarrow> [] | Some x \<Rightarrow> xr_attempts x)"
    using dry by (auto simp: calls_of_def sel split: option.splits)
  show ok: "(\<not> tp_dryRun p \<and> succeeded (tp_status p)) = (qs_ok resp \<and> \<not> rq_dry_run q)"
    using dry sel(1) by auto
  show "fst (ledgered E q pv c conf p lg) = (\<not> ledger_write_throws E q resp)"
    using ok by (auto simp: ledgered_fine ledger_write_throws_def calls)
qed

text \<open>C6. What a response, refused and failed ones included, leaves in the ledgers, whichever writes throw.  Unless the
  write of the work row throws there is one work row for the request, with the response's status, cost and
  number of attempts; unless that write or the next one throws there is one attempt row per call, in the order
  of the calls; and a value row exactly when the query was answered, was no dry run and no write up to it
  threw.  When the work row cannot be written the ledger stays as it was.  The ledger stays well formed.  A
  throw ends the writing: only a response whose ledger writes all went through carries the identifier of an
  audit record.\<close>

theorem response_is_ledgered:
  assumes "runQueryPipeline E q pv prior s = (Inr resp, s')" "ledger_ok (ps_ledger s)"
  shows "ledger_ok (ps_ledger s')
    \<and> (if pn_fault E WriteWork then ps_ledger s' = ps_ledger s
       else \<exists>w. getWork (pv_request_id pv) (ps_ledger s') = Some w \<and> wr_status (rw_record w) = qs_status resp
         \<and> wr_cost_usd (rw_record w) = qs_cost_usd resp \<and> wr_attempts (rw_record w) = length (calls_of resp))
    \<and> lg_attempts (ps_ledger s') = lg_attempts (ps_ledger s)
        @ (if pn_fault E WriteWork \<or> pn_fault E WriteAttempts then []
           else map (\<lambda>a. \<lparr>aw_request_id = pv_request_id pv, aw_attempt = stored_attempt a, aw_created_at = pn_nowSql E\<rparr>) (calls_of resp))
    \<and> map (vr_request_id \<circ> vw_record) (lg_value (ps_ledger s')) = map (vr_request_id \<circ> vw_record) (lg_value (ps_ledger s))
        @ (if qs_ok resp \<and> \<not> rq_dry_run q \<and> \<not> ledger_write_throws E q resp then [pv_request_id pv] else [])
    \<and> (qs_audit resp \<noteq> None \<longrightarrow> \<not> ledger_write_throws E q resp)"
proof -
  define conf where "conf = nullish (rq_confidentiality q) ''internal''"
  obtain c oc p t where oc: "outcome_params E q pv prior c conf s oc p t" and te: "terminate E q pv c conf p t = (resp, s')"
    using pipeline_outcome[OF assms(1)] unfolding conf_def by blast
  note sel = terminate_sel[OF te]
  note calls = outcome_calls(1)[OF oc te] and valued = outcome_calls(2)[OF oc te] and fine = outcome_calls(3)[OF oc te]
  have same: "ps_ledger t = ps_ledger s" using outcome_dry[OF oc] by simp
  have len: "(if tp_dryRun p then 0 else case tp_exchange p of None \<Rightarrow> 0 | Some x \<Rightarrow> length (xr_attempts x)) = length (calls_of resp)"
    by (auto simp: calls split: option.splits)
  have "if pn_fault E WriteWork then ps_ledger s' = ps_ledger s
       else \<exists>w. getWork (pv_request_id pv) (ps_ledger s') = Some w \<and> wr_status (rw_record w) = qs_status resp
         \<and> wr_cost_usd (rw_record w) = qs_cost_usd resp \<and> wr_attempts (rw_record w) = length (calls_of resp)"
    using ledgered_row[OF assms(2), of E pv q c conf p] by (simp add: sel same ledgered_unwritten len)
  moreover have "qs_audit resp \<noteq> None \<longrightarrow> \<not> ledger_write_throws E q resp"
    by (auto simp: sel audited_def fine split: option.split)
  ultimately show ?thesis
    using ledgered_ok[OF assms(2)] ledgered_attempts[of E q pv c conf p "ps_ledger s"]
      ledgered_value[of E q pv c conf p "ps_ledger s"] valued
    by (auto simp: sel same fine calls)
qed

text \<open>A write that throws costs the response nothing but its record.\<close>

lemma unrecorded_answer_returned:
  assumes "terminate E q pv c conf p s = (resp, s')" "pn_fault E WriteWork"
  shows "qs_ok resp = succeeded (tp_status p) \<and> qs_answer resp = tp_answer p \<and> qs_audit resp = None
    \<and> ps_ledger s' = ps_ledger s \<and> ps_audit s' = ps_audit s"
  by (auto simp: terminate_sel[OF assms(1)] ledgered_unwritten[OF assms(2)] audited_def split: option.split)

section \<open>The audit chain\<close>

text \<open>C3. A governed response, whether blocked, dry, failed or answered, adds exactly one record to the audit chain,
  filed under the request's own identifier and holding the gate's verdict, the status and the cost of the
  response; the response carries the chain's new head.  Only a ledger write that throws, or the audit write
  itself, leaves the chain without the record, and then the response carries no identifier.  A response that
  never reached the gate adds none.  The chain stays linked.\<close>

theorem governed_response_is_audited:
  assumes "runQueryPipeline E q pv prior s = (Inr resp, s')" "audit_linked (pn_hash E) (rows_asc (ps_audit s))"
    "pn_uuid E \<notin> ar_record_id ` set (ad_rows (ps_audit s))"
  shows "audit_linked (pn_hash E) (rows_asc (ps_audit s'))
    \<and> (case qs_governance resp of
         None \<Rightarrow> ps_audit s' = ps_audit s \<and> qs_audit resp = None
       | Some g \<Rightarrow>
           if ledger_write_throws E q resp \<or> pn_fault E WriteAudit then ps_audit s' = ps_audit s \<and> qs_audit resp = None
           else (\<exists>row e. rows_asc (ps_audit s') = rows_asc (ps_audit s) @ [row] \<and> ar_decision_id row = pv_request_id pv
           \<and> ar_payload_json row = canonicalStringify (pn_lay E e) \<and> ge_verdict e = g \<and> ge_status e = qs_status resp
           \<and> ge_cost_usd e = qs_cost_usd resp \<and> ge_attempts e = map (\<lambda>a. (xa_model_id a, xa_ok a)) (calls_of resp)
           \<and> qs_audit resp = Some (pn_uuid E, getHeadHash (ps_audit s'))))"
proof -
  define conf where "conf = nullish (rq_confidentiality q) ''internal''"
  obtain c oc p t where oc: "outcome_params E q pv prior c conf s oc p t" and te: "terminate E q pv c conf p t = (resp, s')"
    using pipeline_outcome[OF assms(1)] unfolding conf_def by blast
  note sel = terminate_sel[OF te]
  note fine = outcome_calls(3)[OF oc te]
  have same: "ps_audit t = ps_audit s" using outcome_dry[OF oc] by simp
  consider (none) "tp_governance p = None"
    | (lost) g where "tp_governance p = Some g" "ledger_write_throws E q resp \<or> pn_fault E WriteAudit"
    | (kept) g where "tp_governance p = Some g" "\<not> ledger_write_throws E q resp" "\<not> pn_fault E WriteAudit" by blast
  then show ?thesis
  proof cases
    case none
    then show ?thesis using assms(2) same by (simp add: sel audited_def)
  next
    case lost
    then show ?thesis using assms(2) same by (simp add: sel audited_def fine)
  next
    case (kept g)
    note Some = kept(1)
    have id: "dc_decisionId (gv_context g) = pv_request_id pv"
      using oc Some by (cases oc) (auto simp: outcome_params_def Let_def)
    let ?e = "entry_of E c p g"
    have e: "ge_verdict ?e = g" "ge_status ?e = tp_status p" "ge_cost_usd ?e = cost_of p"
        "ge_attempts ?e = map (\<lambda>a. (xa_model_id a, xa_ok a)) (calls_of resp)"
      by (auto simp: entry_of_def Let_def calls_of_def sel split: option.split)
    obtain r db where w: "writeAuditRecord E ?e (ps_audit s) = Inr (r, db)" "rec_recordId r = pn_uuid E"
      using assms(3) by (auto simp: writeAuditRecord_def audit_append_def Let_def)
    note app = w(1)[unfolded writeAuditRecord_def]
    from audit_append_InrD[OF app] obtain row where row: "rows_asc db = rows_asc (ps_audit s) @ [row]"
        "ar_decision_id row = pv_request_id pv" "ar_payload_json row = canonicalStringify (pn_lay E ?e)"
      by (auto simp: e id)
    from audit_append_linked[OF assms(2) app] have "audit_linked (pn_hash E) (rows_asc db)" "getHeadHash db = rec_chainHash r" by auto
    moreover have "ps_audit s' = db" "qs_audit resp = Some (rec_recordId r, rec_chainHash r)"
      using w(1) kept(2,3) by (simp_all add: sel audited_def fine Some same)
    ultimately show ?thesis using row e w(2) kept(2,3) by (auto simp: sel Some)
  qed
qed


section \<open>Histories of requests\<close>

type_synonym pipeline_call = "pipeline_env \<times> query_request \<times> provenance \<times> prior_approval option"

text \<open>One call after the other, each in its own environment; an exception of the gate ends a call, not the history.\<close>

fun serve_all :: "pipeline_call list \<Rightarrow> pipeline_state \<Rightarrow> pipeline_state" where
  "serve_all [] s = s"
| "serve_all ((E, q, pv, prior) # cs) s = serve_all cs (snd (runQueryPipeline E q pv prior s))"

definition pipeline_ok :: "(string \<Rightarrow> string) \<Rightarrow> pipeline_state \<Rightarrow> bool" where
  "pipeline_ok H s \<longleftrightarrow> audit_linked H (rows_asc (ps_audit s)) \<and> audit_wf (ps_audit s) \<and> ledger_ok (ps_ledger s)
     \<and> calibrator_ok (ps_calibrator s)"

lemma throwing_query_changes_nothing:
  assumes "runQueryPipeline E q pv prior s = (Inl e, s')"
  shows "s' = s"
proof -
  define conf where "conf = nullish (rq_confidentiality q) ''internal''"
  obtain c r prompt where g: "governed_query E q pv prior c conf r prompt s = (Inl e, s')"
    using assms by (auto simp: runQueryPipeline_def Let_def conf_def[symmetric] case_prod_beta split: if_splits)
  obtain dry W1 where dry: "executeExchange (pn_world E) (ps_calibrator s) (dry_options E (buildConstraints q c conf) prompt) = (dry, W1)"
    by fastforce
  have "W1 = ps_calibrator s" using dry_run_free[OF dry] by (simp add: dry_options_def)
  then show ?thesis
    using g by (auto simp: governed_query_def Let_def dry case_prod_beta split: option.splits sum.splits if_splits)
qed

lemma audited_ok:
  assumes "audit_linked (pn_hash E) (rows_asc db)" "audit_wf db"
  shows "audit_linked (pn_hash E) (rows_asc (snd (audited E c p fine db))) \<and> audit_wf (snd (audited E c p fine db))"
  using assms audit_append_linked[OF assms(1)] audit_append_wf[OF assms(2)]
  by (auto simp: audited_def writeAuditRecord_def split: option.split sum.split)

lemma outcome_calibrator:
  assumes "outcome_params E q pv prior c conf s oc p t" "calibrator_ok (ps_calibrator s)"
  shows "calibrator_ok (ps_calibrator t)"
proof (cases oc)
  case Executed
  then obtain x opts where "executeExchange (pn_world E) (ps_calibrator s) opts = (x, ps_calibrator t)"
    using assms(1) by (auto simp: outcome_params_def Let_def)
  then show ?thesis
    using executeExchange_attempts[of "pn_world E" "ps_calibrator s" opts] samples_ok[OF assms(2)] by (simp add: accounts_def)
qed (use assms in \<open>auto simp: outcome_params_def Let_def\<close>)

lemma query_keeps_ok:
  assumes "pipeline_ok (pn_hash E) s"
  shows "pipeline_ok (pn_hash E) (snd (runQueryPipeline E q pv prior s))"
proof -
  obtain out s' where run: "runQueryPipeline E q pv prior s = (out, s')" by fastforce
  show ?thesis
  proof (cases out)
    case (Inl e)
    then have "s' = s" using throwing_query_changes_nothing run by blast
    with run assms show ?thesis by simp
  next
    case (Inr resp)
    define conf where "conf = nullish (rq_confidentiality q) ''internal''"
    obtain c oc p t where oc: "outcome_params E q pv prior c conf s oc p t" and te: "terminate E q pv c conf p t = (resp, s')"
      using pipeline_outcome run Inr unfolding conf_def by blast
    have "pipeline_ok (pn_hash E) t"
      using assms outcome_dry[OF oc] outcome_calibrator[OF oc] by (simp add: pipeline_ok_def)
    then show ?thesis
      using audited_ok[of E "ps_audit t" c p] ledgered_ok[of "ps_ledger t" E q pv c conf p] run
      by (simp add: pipeline_ok_def terminate_sel[OF te])
  qed
qed

text \<open>C7. After any history of queries on one runtime, whatever the vendors, the knowledge plane and the callers did,
  the audit chain verifies from its first record, the ledger holds one row per request and no prompt, and the
  telemetry is within its window.\<close>

theorem query_history_consistent:
  assumes "\<forall>(E, q, pv, prior)\<in>set calls. pn_hash E = H" "pipeline_ok H s"
  shows "pipeline_ok H (serve_all calls s) \<and> cv_ok (verifyChain H now (ps_audit (serve_all calls s)))"
proof -
  have "pipeline_ok H (serve_all calls s)"
    using assms
  proof (induction calls s rule: serve_all.induct)
    case (2 E q pv prior cs s)
    then show ?case using query_keeps_ok[of E s q pv prior] by simp
  qed simp
  then show ?thesis by (simp add: verifyChain_ok_iff pipeline_ok_def)
qed

end
