(* ===== verification/RuntimeDemo.thy ===== *)
theory RuntimeDemo imports RuntimeExchangeFacts begin

text \<open>
  Concrete requests through the runtime's exchange, at which its properties apply, and what the model
  shows about the policy and the telemetry at particular inputs.
\<close>

section \<open>A request that falls back\<close>

definition rt_env :: process_env where
  "rt_env = [''XAI_API_KEY'' \<mapsto> ''k'', ''KIMI_API_KEY'' \<mapsto> ''k'']"

definition rt_constraints :: runtime_constraints where
  "rt_constraints =
     \<lparr>cn_task_type = ''synthesis'', cn_confidentiality = ''internal'', cn_allowed_providers = None, cn_denied_providers = None,
      cn_max_latency_ms = None, cn_max_cost_usd = None, cn_required_evidence = None, cn_jurisdiction_pin = None,
      cn_require_search = False, cn_pin_model = None\<rparr>"

definition rt_options :: exchange_options where
  "rt_options =
     \<lparr>xo_constraints = rt_constraints, xo_system = None, xo_prompt = ''hello'', xo_jsonSchema = None, xo_reasoningEffort = None,
      xo_maxOutputTokens = None, xo_temperature = None, xo_timeoutMs = None, xo_maxAttempts = None, xo_dryRun = False,
      xo_catalogue = None, xo_env = rt_env\<rparr>"

definition rt_vendor :: "nat \<Rightarrow> provider_id \<Rightarrow> transport_mode \<Rightarrow> provider_invocation \<Rightarrow> provider_response" where
  "rt_vendor n p wire iv =
     (if n = 0
      then \<lparr>rs_ok = False, rs_provider = p, rs_model = iv_model iv, rs_transport = wire, rs_content = [], rs_input_tokens = 100,
            rs_output_tokens = 0, rs_estimated = False, rs_latency_ms = 900, rs_citations = [],
            rs_failure = Some \<lparr>fl_kind = ServerError, fl_message = ''down'', fl_httpStatus = Some 500, fl_retryable = True\<rparr>\<rparr>
      else \<lparr>rs_ok = True, rs_provider = p, rs_model = iv_model iv, rs_transport = wire, rs_content = ''answer'', rs_input_tokens = 100,
            rs_output_tokens = 50, rs_estimated = False, rs_latency_ms = 1200, rs_citations = [], rs_failure = None\<rparr>)"

definition rt_world :: exchange_world where
  "rt_world =
     \<lparr>xw_parse_url = (\<lambda>_. None), xw_collate = map of_char, xw_vendor = rt_vendor, xw_started = 0, xw_clock = (\<lambda>n. int n * 1000)\<rparr>"

lemma rt_survivors:
  "rp_eligible (applyRuntimePolicies [] rt_constraints 5 RUNTIME_CATALOGUE rt_env) = [cat_kimi_k2_6, cat_grok_4_5]"
  by code_simp


lemma rt_totals:
  "sd_total (scoreCandidate cat_kimi_k2_6 5 (telemetryFor [] (ce_id cat_kimi_k2_6))) = 7659 / 100"
  "sd_total (scoreCandidate cat_grok_4_5 5 (telemetryFor [] (ce_id cat_grok_4_5))) = 5911 / 50"
  by code_simp+

lemma rt_listed: "getCatalogueEntry (ce_id cat_grok_4_5) = Some cat_grok_4_5" "getCatalogueEntry (ce_id cat_kimi_k2_6) = Some cat_kimi_k2_6"
  by (simp_all add: getCatalogueEntry_member RUNTIME_CATALOGUE_def)

lemma rt_rejected: "\<not> rp_rejected (applyRuntimePolicies [] rt_constraints 5 RUNTIME_CATALOGUE rt_env)"
  by (simp add: rejected_iff rt_survivors)

lemma rt_ranked: "\<exists>a b. rankCandidates collate [] [cat_kimi_k2_6, cat_grok_4_5] 5 False = [a, b]
    \<and> sd_model_id a = ce_id cat_grok_4_5 \<and> sd_model_id b = ce_id cat_kimi_k2_6"
  by (simp add: rankCandidates_def Let_def rank_key_def rt_totals insort_key.simps)

lemma rt_first: "\<not> rp_deterministicFirst (applyRuntimePolicies [] rt_constraints 5 RUNTIME_CATALOGUE rt_env)"
  by (simp add: applyRuntimePolicies_def Let_def case_prod_beta rt_constraints_def)

lemma rt_fields:
  "\<not> xo_dryRun rt_options" "xo_catalogue rt_options = None" "length (xo_prompt rt_options) = 5"
  "xo_constraints rt_options = rt_constraints" "xo_env rt_options = rt_env" "xw_collate rt_world = map of_char"
  by (simp_all add: rt_options_def rt_world_def)

lemma rt_chain: "chain_entries (snd (routeOnly rt_world [] rt_options)) = [cat_grok_4_5, cat_kimi_k2_6]"
proof -
  have "snd (routeOnly rt_world [] rt_options) = rankCandidates (map of_char) [] [cat_kimi_k2_6, cat_grok_4_5] 5 False"
    using rt_rejected rt_first
    by (simp add: routeOnly_def Let_def rt_fields listCatalogue_def nullish_def rt_survivors)
  then show ?thesis using rt_ranked[of "map of_char"] rt_listed by auto
qed

lemma rt_wires:
  "adapter_route u (ce_provider cat_grok_4_5) (ce_vendorModel cat_grok_4_5) rt_env = Inr TNative"
  "adapter_route u (ce_provider cat_kimi_k2_6) (ce_vendorModel cat_kimi_k2_6) rt_env = Inr TNative"
  by code_simp+

lemma rt_answers:
  "\<not> ends_walk (invoke_adapter rt_world rt_options 0 cat_grok_4_5)" "rs_ok (invoke_adapter rt_world rt_options (Suc 0) cat_kimi_k2_6)"
  "rs_content (invoke_adapter rt_world rt_options (Suc 0) cat_kimi_k2_6) = ''answer''"
  by (simp_all add: invoke_adapter_def rt_world_def rt_options_def rt_wires rt_vendor_def ends_walk_def)

theorem exchange_finds_the_answer_witness:
  "xr_content (fst (executeExchange rt_world [] rt_options)) = ''answer''"
proof -
  have "let res = fst (executeExchange rt_world [] rt_options) in xr_ok res
     \<and> xr_content res = rs_content (invoke_adapter rt_world rt_options 1 ([cat_grok_4_5, cat_kimi_k2_6] ! 1))
     \<and> xr_chosen_model_id res = Some (ce_id ([cat_grok_4_5, cat_kimi_k2_6] ! 1))"
  proof (rule exchange_finds_the_answer)
    show "[cat_grok_4_5, cat_kimi_k2_6] = chain_entries (snd (routeOnly rt_world [] rt_options))" by (simp add: rt_chain)
    show "rat_of_nat 1 < max 1 (nullish (xo_maxAttempts rt_options) 3)" by (simp add: rt_options_def nullish_def)
    show "rs_ok (invoke_adapter rt_world rt_options 1 ([cat_grok_4_5, cat_kimi_k2_6] ! 1))" using rt_answers by simp
  qed (use rt_answers in \<open>auto simp: rt_options_def\<close>)
  then show ?thesis using rt_answers by (simp add: Let_def)
qed

lemma rt_attempts: "map xa_model_id (xr_attempts (fst (executeExchange rt_world [] rt_options))) = [ce_id cat_grok_4_5, ce_id cat_kimi_k2_6]"
proof -
  have "xr_attempts (fst (executeExchange rt_world [] rt_options)) = walk rt_world rt_options [cat_grok_4_5, cat_kimi_k2_6] 0 None"
    using executeExchange_attempts[of rt_world "[]" rt_options] by (simp add: accounts_def rt_chain rt_fields)
  moreover have "more_attempts rt_options 0" "more_attempts rt_options (Suc 0)" by (simp_all add: more_attempts_def rt_options_def nullish_def)
  ultimately show ?thesis using rt_answers by (simp add: Let_def)
qed

theorem exchange_calls_admissible_engines_witness:
  "map xa_model_id (xr_attempts (fst (executeExchange rt_world [] rt_options))) = [''xai/grok-4.5'', ''kimi/kimi-k2.6'']
   \<and> \<not> xa_ok (xr_attempts (fst (executeExchange rt_world [] rt_options)) ! 0)"
proof -
  let ?calls = "xr_attempts (fst (executeExchange rt_world [] rt_options))"
  have "xo_catalogue rt_options = None" by (simp add: rt_options_def)
  note this_calls = exchange_calls_admissible_engines[OF this, of rt_world "[]", unfolded Let_def]
  have ids: "map xa_model_id ?calls = [''xai/grok-4.5'', ''kimi/kimi-k2.6'']"
    using rt_attempts by (simp add: cat_grok_4_5_def cat_kimi_k2_6_def)
  then obtain a b where ab: "?calls = [a, b]" by (auto simp: Cons_eq_map_conv map_eq_Cons_conv)
  then have "\<not> xa_ok a" using this_calls by simp
  with ids ab show ?thesis by simp
qed

theorem ranking_reproducible_witness:
  "rankCandidates (map of_char) [] [cat_grok_4_5, cat_kimi_k2_6] 5 False = rankCandidates (map of_char) [] [cat_kimi_k2_6, cat_grok_4_5] 5 False"
proof (rule ranking_reproducible)
  show "inj_on (map of_char \<circ> ce_id) (set [cat_grok_4_5, cat_kimi_k2_6] :: catalogue_entry set)"
    by (simp add: inj_on_def cat_grok_4_5_def cat_kimi_k2_6_def)
qed simp

theorem telemetry_bounded_witness:
  "mt_successRate (telemetryFor (snd (executeExchange rt_world [] rt_options)) ''xai/grok-4.5'') \<le> 1"
  using telemetry_bounded[of "[]" rt_world rt_options "''xai/grok-4.5''"] by (simp add: calibrator_ok_def Let_def)

theorem degraded_engine_never_gains_witness:
  "sd_total (scoreCandidate cat_grok_4_5 5 \<lparr>mt_modelId = [], mt_samples = 4, mt_latencyMs = 9000, mt_latencyObserved = True, mt_successRate = 1 / 2, mt_lastSampleAt = None\<rparr>)
     \<le> 5911 / 50"
proof -
  have "0 \<le> ce_quality_score cat_grok_4_5" by (simp add: cat_grok_4_5_def)
  moreover have "mt_successRate (telemetryFor [] (ce_id cat_grok_4_5)) = 1" "mt_latencyMs (telemetryFor [] (ce_id cat_grok_4_5)) = 7000" by code_simp+
  ultimately show ?thesis
    using degraded_engine_never_gains[of cat_grok_4_5 "\<lparr>mt_modelId = [], mt_samples = 4, mt_latencyMs = 9000, mt_latencyObserved = True, mt_successRate = 1 / 2, mt_lastSampleAt = None\<rparr>"
        "telemetryFor [] (ce_id cat_grok_4_5)" 5] rt_totals by simp
qed

section \<open>What the policy and the telemetry do at particular inputs\<close>

text \<open>
  A request pinned to sovereign infrastructure is rejected for every task but the exact ones, whatever
  the environment: the local engines of sovereignty level 3 carry no jurisdiction \<open>sovereign\<close>.
\<close>

lemma sovereign_pin_rejects_local_engines:
  assumes "cn_jurisdiction_pin cn = Some ''sovereign''" "cn_task_type cn \<notin> set RUNTIME_EXACT_TASKS"
  shows "rp_rejected (applyRuntimePolicies W cn n RUNTIME_CATALOGUE env)"
proof -
  have "list_all (\<lambda>c. ''sovereign'' \<in> set (ce_jurisdictions c) \<longrightarrow> ce_capabilities c = RUNTIME_EXACT_TASKS) RUNTIME_CATALOGUE" by code_simp
  then have "\<not> runtime_admissible W cn n env c" if "c \<in> set RUNTIME_CATALOGUE" for c
    using that assms by (auto simp: list_all_iff runtime_admissible_def declares_capability_def)
  then show ?thesis by (simp add: rejected_iff eligible_iff_admissible)
qed

text \<open>
  With only a gateway configured an engine passes P0 because the gateway serves another model of its
  provider; called, it is refused for want of a credential.
\<close>

definition gateway_env :: process_env where
  "gateway_env = [''RONOR_GATEWAY_BASE_URL'' \<mapsto> ''https://gw'', ''RONOR_GATEWAY_API_KEY'' \<mapsto> ''k'']"

lemma eligible_engine_without_route:
  "credentialState (ce_provider cat_gemini_3_7_flash) gateway_env \<noteq> KeyAbsent
   \<and> adapter_route u (ce_provider cat_gemini_3_7_flash) (ce_vendorModel cat_gemini_3_7_flash) gateway_env
     = Inl (providerFailure PGoogle ''gemini-3.7-flash'' TNative (absent_failure (no_route_message PGoogle)) 0)"
proof -
  have gw: "resolveGateway gateway_env = Some \<lparr>gw_baseUrl = ''https://gw'', gw_apiKey = ''k'', gw_allowedModels = DEFAULT_GATEWAY_MODELS\<rparr>"
    by (simp add: resolveGateway_def gateway_env_def env_text_def first_text_def nullish_def Let_def)
  have key: "nativeKey PGoogle gateway_env = None"
    by (simp add: nativeKey_def gateway_env_def env_text_def nullish_def js_trim_def)
  have e: "ce_provider cat_gemini_3_7_flash = PGoogle" "ce_vendorModel cat_gemini_3_7_flash = ''gemini-3.7-flash''"
    by (simp_all add: cat_gemini_3_7_flash_def)
  show ?thesis by (simp add: e keyed_state_def keyed_route_def key gw gatewayServes_def DEFAULT_GATEWAY_MODELS_def)
qed

text \<open>After one success among three samples the latency is that sample's, and is reported as not observed.\<close>

lemma measured_latency_called_seeded:
  "let W = recordSample 3 ''xai/grok-4.5'' 10 False (recordSample 2 ''xai/grok-4.5'' 10 False (recordSample 1 ''xai/grok-4.5'' 1234 True [])) in
     mt_latencyMs (telemetryFor W ''xai/grok-4.5'') = 1234 \<and> \<not> mt_latencyObserved (telemetryFor W ''xai/grok-4.5'')"
  by code_simp

end
