(* ===== verification/RuntimePipelineDemo.thy ===== *)
theory RuntimePipelineDemo imports RuntimePipelineFacts RuntimeDemo Mi9Shipped Mi9Facts begin

text \<open>
  A query through the whole pipeline under the shipped policy, and what the pipeline does at its edges.
\<close>

section \<open>A query that falls back\<close>

definition qd_env :: pipeline_env where
  "qd_env =
     \<lparr>pn_policy = shipped_env, pn_world = rt_world, pn_env = rt_env, pn_hash = (\<lambda>x. x), pn_lay = (\<lambda>_. RObj 0 []),
      pn_uuid = ''u1'', pn_now = 1000, pn_nowIso = ''now'', pn_nowSql = ''now'', pn_latency = 2100, pn_plane = None,
      pn_plane_reason = None, pn_fault = (\<lambda>_. False)\<rparr>"

definition qd_request :: query_request where
  "qd_request =
     \<lparr>rq_query = ''hello'', rq_task_type = Some ''synthesis'', rq_confidentiality = None, rq_jurisdiction_pin = None,
      rq_allowed_providers = None, rq_denied_providers = None, rq_max_latency_ms = None, rq_max_cost_usd = None,
      rq_required_evidence = None, rq_pin_model = None, rq_require_search = False, rq_use_knowledge = False,
      rq_mission_id = None, rq_operator_id = None, rq_system = None, rq_max_output_tokens = None, rq_dry_run = False\<rparr>"

definition qd_provenance :: provenance where
  "qd_provenance = \<lparr>pv_request_id = ''r1'', pv_api_key_id = None, pv_api_key_label = None\<rparr>"

definition qd_state :: pipeline_state where
  "qd_state = \<lparr>ps_calibrator = [], ps_mi9 = mi9_init, ps_audit = audit_empty, ps_ledger = empty_ledger, ps_missions = []\<rparr>"

lemma qd_trim: "js_trim ''hello'' = ''hello''" by code_simp
lemma qd_strip: "stripDangerousChars ''hello'' = (''hello'', 0)" by code_simp
lemma qd_rules: "matched_rules HOSTILE_RULES ''hello'' = []" "matched_rules SUSPICIOUS_RULES ''hello'' = []" by code_simp+
lemma qd_class: "cl_task_type (classifyRequest ''hello'' (Some ''synthesis'')) = ''synthesis''" by code_simp
lemma qd_sane: "sa_ok (sanitiseQuery (JStr ''hello'') MAX_QUERY_CHARS) \<and> sa_text (sanitiseQuery (JStr ''hello'') MAX_QUERY_CHARS) = ''hello''"
  by (simp add: sanitiseQuery_def qd_trim qd_strip qd_rules MAX_QUERY_CHARS_def)

lemma qd_constraints: "buildConstraints qd_request (classifyRequest ''hello'' (Some ''synthesis'')) ''internal'' = rt_constraints"
  by (simp add: buildConstraints_def qd_request_def rt_constraints_def qd_class)

lemma qd_route: "\<exists>a b. snd (routeOnly rt_world [] opts) = [a, b] \<and> sd_model_id a = ce_id cat_grok_4_5 \<and> sd_model_id b = ce_id cat_kimi_k2_6"
  if "xo_constraints opts = rt_constraints" "xo_env opts = rt_env" "length (xo_prompt opts) = 5" "xo_catalogue opts = None" for opts
  using rt_ranked[of "map of_char"] rt_rejected rt_first
  by (simp add: routeOnly_def Let_def that listCatalogue_def nullish_def rt_survivors rt_fields)

lemma qd_calls:
  assumes "xo_env opts = rt_env"
  shows "\<not> rs_ok (invoke_adapter rt_world opts 0 cat_grok_4_5)"
    "\<forall>z. rs_failure (invoke_adapter rt_world opts 0 cat_grok_4_5) = Some z \<longrightarrow> fl_kind z \<noteq> ContentRefused"
    "rs_ok (invoke_adapter rt_world opts (Suc 0) cat_kimi_k2_6)"
    "rs_content (invoke_adapter rt_world opts (Suc 0) cat_kimi_k2_6) = ''answer''"
  by (simp_all add: invoke_adapter_def rt_world_def assms rt_wires rt_vendor_def)

lemma length_hello: "length ''hello'' = 5" by simp

lemma qd_exchange:
  assumes "xo_constraints opts = rt_constraints" "xo_env opts = rt_env" "xo_prompt opts = ''hello''" "xo_catalogue opts = None"
    "xo_maxAttempts opts = None"
  shows "xo_dryRun opts \<Longrightarrow> xr_chosen_model_id (fst (executeExchange rt_world [] opts)) = Some ''xai/grok-4.5''"
    and "\<not> xo_dryRun opts \<Longrightarrow> xr_status (fst (executeExchange rt_world [] opts)) = XAfterFallback
      \<and> xr_content (fst (executeExchange rt_world [] opts)) = ''answer''
      \<and> map xa_model_id (xr_attempts (fst (executeExchange rt_world [] opts))) = [''xai/grok-4.5'', ''kimi/kimi-k2.6'']"
proof -
  obtain policy a b where r: "routeOnly rt_world [] opts = (policy, [a, b])"
    and ab: "sd_model_id a = ce_id cat_grok_4_5" "sd_model_id b = ce_id cat_kimi_k2_6"
    using qd_route[of opts] assms(1-4) by (metis length_hello prod.collapse)
  have ids: "ce_id cat_grok_4_5 = ''xai/grok-4.5''" "ce_id cat_kimi_k2_6 = ''kimi/kimi-k2.6''"
    by (simp_all add: cat_grok_4_5_def cat_kimi_k2_6_def)
  show "xo_dryRun opts \<Longrightarrow> xr_chosen_model_id (fst (executeExchange rt_world [] opts)) = Some ''xai/grok-4.5''"
    by (simp add: executeExchange_def r ab ids)
  show "\<not> xo_dryRun opts \<Longrightarrow> xr_status (fst (executeExchange rt_world [] opts)) = XAfterFallback
      \<and> xr_content (fst (executeExchange rt_world [] opts)) = ''answer''
      \<and> map xa_model_id (xr_attempts (fst (executeExchange rt_world [] opts))) = [''xai/grok-4.5'', ''kimi/kimi-k2.6'']"
    using qd_calls[OF assms(2)]
    by (simp add: executeExchange_def r Let_def ab rt_listed assms(5) nullish_def answered_def attempt_of_def ids[symmetric])
qed

definition qd_ctx :: decision_context where
  "qd_ctx =
     \<lparr>dc_decisionId = ''r1'', dc_domain = ''runtime.query.synthesis'', dc_action = ''answer a synthesis query using xai/grok-4.5'',
      dc_proposedBy = ''xai/grok-4.5'', dc_confidence = Num (9 / 10), dc_reversible = True,
      dc_impactMagnitude = \<lparr>im_unit = ''other'', im_value = Num 1\<rparr>,
      dc_sovereignty = \<lparr>sv_dataResidency = ''eu'', sv_subjectJurisdiction = ''EU''\<rparr>,
      dc_evidence = \<lparr>ev_sourceCount = Num 0, ev_lastRefreshMs = Num 2592000000, ev_consensusReached = False\<rparr>,
      dc_operator = \<lparr>op_userId = None, op_role = ''operator''\<rparr>, dc_taskClass = Some Conversational, dc_priorApproval = None,
      dc_fallbackAvailable = False\<rparr>"

lemma qd_context:
  "runtime_context (query_governance qd_request qd_provenance (classifyRequest ''hello'' (Some ''synthesis'')) ''internal'' ''xai/grok-4.5'' None None)
     = qd_ctx"
proof -
  have q: "getCatalogueEntry ''xai/grok-4.5'' = Some cat_grok_4_5" using rt_listed(1) by (simp add: cat_grok_4_5_def)
  have s: "ce_quality_score cat_grok_4_5 = 94" by (simp add: cat_grok_4_5_def)
  show ?thesis
    by (simp add: runtime_context_def query_governance_def qd_class q s qd_request_def qd_provenance_def js_int_def qd_ctx_def
        deriveConfidenceFromQuality_def residencyFor_def PARAMETRIC_EVIDENCE_AGE_MS_def nullish_def)
qed

lemma qd_tier: "resolveDomainTier ''runtime.query.synthesis'' (po_domain_tiers shipped_policy) = Some (Limited, ''runtime.query'')"
  by (simp add: resolveDomainTier_def shipped_policy_def shipped_tiers_def)

lemmas qd_gate = shipped_policy_def th_def qd_ctx_def Let_def finding_def nullish_def

lemma qd_risk: "gf_verdict (gateRiskTier qd_ctx shipped_policy) = Allow"
proof -
  have d: "dc_domain qd_ctx = ''runtime.query.synthesis''" by (simp add: qd_ctx_def)
  have p: "Limited \<notin> set (po_escalation_required_at_tier shipped_policy)" "Limited \<notin> set (po_cosign_required_at_tier shipped_policy)"
    by (simp_all add: shipped_policy_def)
  show ?thesis by (simp add: gateRiskTier_def d qd_tier p Let_def finding_def nullish_def)
qed

lemma qd_gates:
  "gf_verdict (gateSovereignty qd_ctx shipped_policy) = Allow"
  "gf_verdict (gateReversibility qd_ctx shipped_policy) = Allow"
  "gf_verdict (gateImpact qd_ctx shipped_policy) = Allow"
  "gf_verdict (gateConfidence qd_ctx shipped_policy) = Allow"
  "gf_verdict (gateEvidence qd_ctx shipped_policy) = Escalate"
  "gf_verdict (gatePolicyCompliance qd_ctx shipped_policy) = Allow"
  "gf_verdict (fst (gateRateLimits 1000 qd_ctx shipped_policy [])) = Allow"
  "gf_verdict (gateFallback qd_ctx shipped_policy) = Allow"
         apply (simp add: gateSovereignty_def qd_gate)
        apply (simp add: gateReversibility_def qd_gate)
       apply (simp add: gateImpact_def reached_def qd_gate)
      apply (simp add: gateConfidence_def qd_gate)
     apply (simp add: gateEvidence_def qd_gate)
    apply (simp add: gatePolicyCompliance_def qd_gate)
   apply (simp add: gateRateLimits_def hasValidPriorApproval_def rate_limit_exempt_def qd_ctx_def finding_def nullish_def)
  apply (simp add: gateFallback_def qd_gate)
  done

lemma qd_governed:
  "\<exists>g m. evaluateGovernance shipped_env 1000
       (query_governance qd_request qd_provenance (classifyRequest ''hello'' (Some ''synthesis'')) ''internal'' ''xai/grok-4.5'' None None) mi9_init
     = Inr (g, m) \<and> mr_verdict (gv_mi9 g) = Escalate"
proof -
  obtain r m where r: "mi9_evaluate shipped_env 1000 qd_ctx mi9_init = Inr (r, m)"
    by (rule mi9_evaluate_total[OF policy_of_shipped])
  then obtain w where "mr_verdict r = aggregate (fst (gate_findings 1000 qd_ctx shipped_policy []))"
    by (auto elim!: mi9_evaluate_InrE)
  then have "mr_verdict r = Escalate"
    by (simp add: gate_findings_eq aggregate_def qd_gates qd_risk strictest_def)
  with r show ?thesis by (simp add: evaluateGovernance_def qd_context)
qed

lemma qd_run:
  "\<exists>resp s'. runQueryPipeline qd_env qd_request qd_provenance None qd_state = (Inr resp, s')
     \<and> qs_status resp = WAfterFallback \<and> qs_answer resp = ''answer''
     \<and> (\<exists>g. qs_governance resp = Some g \<and> dc_proposedBy (gv_context g) = ''xai/grok-4.5'')
     \<and> map xa_model_id (calls_of resp) = [''xai/grok-4.5'', ''kimi/kimi-k2.6'']"
proof -
  let ?c = "classifyRequest ''hello'' (Some ''synthesis'')"
  let ?dry = "dry_options qd_env rt_constraints ''hello''"
  let ?live = "live_options qd_env qd_request ?c None rt_constraints ''hello''"
  obtain dry W1 where dry: "executeExchange rt_world [] ?dry = (dry, W1)" by fastforce
  obtain x W2 where x: "executeExchange rt_world [] ?live = (x, W2)" by fastforce
  have e: "pn_env qd_env = rt_env" "pn_world qd_env = rt_world" "pn_policy qd_env = shipped_env" "pn_now qd_env = 1000"
    "ps_calibrator qd_state = []" "ps_mi9 qd_state = mi9_init" by (simp_all add: qd_env_def qd_state_def)
  have "xr_chosen_model_id dry = Some ''xai/grok-4.5''" "W1 = []"
    using qd_exchange(1)[of ?dry] dry dry_run_free[OF dry] by (simp_all add: dry_options_def e)
  moreover have "xr_status x = XAfterFallback \<and> xr_content x = ''answer'' \<and> map xa_model_id (xr_attempts x) = [''xai/grok-4.5'', ''kimi/kimi-k2.6'']"
    using qd_exchange(2)[of ?live] x by (simp add: dry_options_def live_options_def e)
  moreover obtain g m where g: "evaluateGovernance shipped_env 1000 (query_governance qd_request qd_provenance ?c ''internal'' ''xai/grok-4.5'' None None) mi9_init
      = Inr (g, m)" "mr_verdict (gv_mi9 g) = Escalate" using qd_governed by blast
  moreover have "gv_allowed g" using evaluateGovernance_sel(1)[OF g(1)] g(2) by simp
  moreover have q: "rq_query qd_request = ''hello''" "rq_task_type qd_request = Some ''synthesis''" "\<not> rq_use_knowledge qd_request"
    "\<not> rq_dry_run qd_request" "rq_confidentiality qd_request = None" by (simp_all add: qd_request_def)
  moreover obtain p t resp s' where te: "terminate qd_env qd_request qd_provenance ?c ''internal'' p t = (resp, s')"
    "p = \<lparr>tp_status = status_of (xr_status x), tp_answer = xr_content x,
        tp_rejection = map_option (\<lambda>why. RoutingRejected (Some why)) (xr_rejection_reason x), tp_exchange = Some x,
        tp_retrieval = None, tp_governance = Some g, tp_dryRun = False\<rparr>" "t = qd_state\<lparr>ps_mi9 := m, ps_calibrator := W2\<rparr>"
    by (metis surj_pair)
  ultimately have "runQueryPipeline qd_env qd_request qd_provenance None qd_state = (Inr resp, s')"
    using qd_sane dry x
    by (simp add: runQueryPipeline_def governed_query_def Let_def nullish_def e qd_constraints)
  moreover have "dc_proposedBy (gv_context g) = ''xai/grok-4.5''"
    using evaluateGovernance_sel(2)[OF g(1)] by (simp add: qd_context) (simp add: qd_ctx_def)
  moreover have "qs_status resp = WAfterFallback \<and> qs_answer resp = ''answer'' \<and> calls_of resp = xr_attempts x \<and> qs_governance resp = Some g"
    using terminate_sel[OF te(1)] te(2) \<open>xr_status x = _ \<and> _\<close> by (simp add: calls_of_def)
  ultimately show ?thesis using \<open>xr_status x = _ \<and> _\<close> by auto
qed

lemma qd_runE:
  obtains resp s' g a b where "runQueryPipeline qd_env qd_request qd_provenance None qd_state = (Inr resp, s')"
    "qs_status resp = WAfterFallback" "qs_governance resp = Some g" "dc_proposedBy (gv_context g) = ''xai/grok-4.5''"
    "calls_of resp = [a, b]" "xa_model_id b = ''kimi/kimi-k2.6''"
proof -
  obtain resp s' where r: "runQueryPipeline qd_env qd_request qd_provenance None qd_state = (Inr resp, s')"
     "qs_status resp = WAfterFallback" "\<exists>g. qs_governance resp = Some g \<and> dc_proposedBy (gv_context g) = ''xai/grok-4.5''"
     "map xa_model_id (calls_of resp) = [''xai/grok-4.5'', ''kimi/kimi-k2.6'']"
    using qd_run by auto
  from r(4) obtain a b where "calls_of resp = [a, b]" "xa_model_id b = ''kimi/kimi-k2.6''"
    by (auto simp: map_eq_Cons_conv)
  with r that show thesis by auto
qed

theorem engines_only_behind_the_gate_witness:
  "\<exists>resp s' g. runQueryPipeline qd_env qd_request qd_provenance None qd_state = (Inr resp, s') \<and> length (calls_of resp) = 2
     \<and> qs_governance resp = Some g \<and> mr_verdict (gv_mi9 g) \<noteq> Block \<and> dc_decisionId (gv_context g) = ''r1''"
proof -
  obtain resp s' where run: "runQueryPipeline qd_env qd_request qd_provenance None qd_state = (Inr resp, s')" and len: "length (calls_of resp) = 2" by (rule qd_runE) simp
  then have "calls_of resp \<noteq> []" by auto
  then obtain g where "qs_governance resp = Some g" "mr_verdict (gv_mi9 g) \<noteq> Block" "dc_decisionId (gv_context g) = pv_request_id qd_provenance"
    using engines_only_behind_the_gate[OF run] by auto
  with run len show ?thesis by (auto simp: qd_provenance_def)
qed

lemma qd_state_ok: "pipeline_ok H qd_state"
  by (simp add: pipeline_ok_def qd_state_def audit_empty_def rows_asc_def audit_wf_def ledger_ok_def empty_ledger_def calibrator_ok_def)

theorem response_is_ledgered_witness:
  "\<exists>resp s' w. runQueryPipeline qd_env qd_request qd_provenance None qd_state = (Inr resp, s')
     \<and> getWork ''r1'' (ps_ledger s') = Some w \<and> wr_status (rw_record w) = WAfterFallback \<and> wr_attempts (rw_record w) = 2
     \<and> map (vr_request_id \<circ> vw_record) (lg_value (ps_ledger s')) = [''r1'']"
proof -
  obtain resp s' where run: "runQueryPipeline qd_env qd_request qd_provenance None qd_state = (Inr resp, s')"
      "qs_status resp = WAfterFallback"
      and len: "length (calls_of resp) = 2" by (rule qd_runE) simp
  obtain c conf p t where "terminate qd_env qd_request qd_provenance c conf p t = (resp, s')" using pipeline_outcome[OF run(1)] by blast
  then have ok: "qs_ok resp" using terminate_sel(1,2) run(2) by (metis succeeded_def)
  have "ledger_ok (ps_ledger qd_state)" using qd_state_ok by (simp add: pipeline_ok_def)
  note L = response_is_ledgered[OF run(1) this]
  have "\<not> rq_dry_run qd_request" "lg_value (ps_ledger qd_state) = []" "pv_request_id qd_provenance = ''r1''" "\<not> pn_fault qd_env WriteWork"
      "\<not> ledger_write_throws qd_env qd_request resp"
    by (simp_all add: qd_request_def qd_state_def empty_ledger_def qd_provenance_def qd_env_def ledger_write_throws_def)
  with L run len ok show ?thesis by auto
qed

theorem governed_response_is_audited_witness:
  "\<exists>resp s' row. runQueryPipeline qd_env qd_request qd_provenance None qd_state = (Inr resp, s')
     \<and> rows_asc (ps_audit s') = [row] \<and> ar_decision_id row = ''r1'' \<and> qs_audit resp = Some (''u1'', getHeadHash (ps_audit s'))"
proof -
  obtain resp s' g where run: "runQueryPipeline qd_env qd_request qd_provenance None qd_state = (Inr resp, s')"
      "qs_governance resp = Some g" by (rule qd_runE)
  have "audit_linked (pn_hash qd_env) (rows_asc (ps_audit qd_state))" "pn_uuid qd_env \<notin> ar_record_id ` set (ad_rows (ps_audit qd_state))"
    by (simp_all add: qd_state_def audit_empty_def rows_asc_def)
  note A = governed_response_is_audited[OF run(1) this]
  have "rows_asc (ps_audit qd_state) = []" "pv_request_id qd_provenance = ''r1''" "pn_uuid qd_env = ''u1''" "\<not> pn_fault qd_env WriteAudit"
      "\<not> ledger_write_throws qd_env qd_request resp"
    by (simp_all add: qd_state_def audit_empty_def rows_asc_def qd_provenance_def qd_env_def ledger_write_throws_def)
  with A run show ?thesis by auto
qed

theorem query_history_consistent_witness:
  "cv_ok (verifyChain (\<lambda>x. x) ''now'' (ps_audit (serve_all
     [(qd_env, qd_request, qd_provenance, None), (qd_env\<lparr>pn_uuid := ''u2''\<rparr>, qd_request\<lparr>rq_query := []\<rparr>, qd_provenance, None)] qd_state)))"
proof -
  have "\<forall>(E, q, pv, prior)\<in>set [(qd_env, qd_request, qd_provenance, None :: prior_approval option),
      (qd_env\<lparr>pn_uuid := ''u2''\<rparr>, qd_request\<lparr>rq_query := []\<rparr>, qd_provenance, None)]. pn_hash E = (\<lambda>x. x)"
    by (simp add: qd_env_def)
  from query_history_consistent[OF this qd_state_ok] show ?thesis by blast
qed

section \<open>What the pipeline does at its edges\<close>

text \<open>A query the sanitiser refuses is ledgered but leaves no record in the audit chain.\<close>

lemma refused_input_not_audited:
  assumes "runQueryPipeline E q pv prior s = (Inr resp, s')" "\<not> sa_ok (sanitiseQuery (JStr (rq_query q)) MAX_QUERY_CHARS)"
  shows "qs_status resp = WRejectedGovernance \<and> ps_audit s' = ps_audit s \<and> qs_audit resp = None"
proof -
  obtain c conf oc p t where oc: "outcome_params E q pv prior c conf s oc p t" and te: "terminate E q pv c conf p t = (resp, s')"
    using pipeline_outcome[OF assms(1)] by blast
  have "oc = Unsanitised" using oc assms(2) by (cases oc) (auto simp: outcome_params_def Let_def)
  with oc show ?thesis by (auto simp: terminate_sel[OF te] outcome_params_def Let_def audited_def)
qed

text \<open>An allowed dry run, which executes nothing, is audited with the action of an executed decision.\<close>

lemma dry_run_audited_as_executed:
  assumes "tp_dryRun p" "tp_status p = WCompleted" "mr_verdict (gv_mi9 g) = Allow"
  shows "ge_action (entry_of E c p g) = ActExecuted \<and> ge_dry_run (entry_of E c p g)"
  using assms by (simp add: entry_of_def Let_def outcomeActionFor_def succeeded_def)

text \<open>After a fallback the gate's decision names another engine than the one that answered.\<close>

lemma governed_engine_is_not_the_answering_one:
  "\<exists>resp s' g. runQueryPipeline qd_env qd_request qd_provenance None qd_state = (Inr resp, s') \<and> qs_governance resp = Some g
     \<and> dc_proposedBy (gv_context g) = ''xai/grok-4.5'' \<and> xa_model_id (last (calls_of resp)) = ''kimi/kimi-k2.6''"
  by (rule qd_runE) auto

end
