(* ===== verification/Spec2Isabelle.thy ===== *)
theory Spec2Isabelle imports RonorPrelude Mi9Facts Canonical AuditFacts PlanesFacts ReceiptFacts ExecutorSpec MissionFacts OperatorLoop ExchangeFacts BudgetFacts SentinelPlaneFacts RunLeaseFacts AutoRunnerDemo EffectDemo PendingActions RequestInput RuntimePipelineDemo begin

text \<open>
  \<^bold>\<open>A verification library for the governance core of RONOR.\<close>

  RONOR is a TypeScript runtime (\<open>src/src/\<close>) that answers queries and operates systems through language
  models under a governance gate.  This development models its decision logic and its state as executable
  definitions and proves what each part promises.  It holds no axiom; what the program takes from elsewhere
  (SHA-256, HMAC, Ed25519, base64, \<open>JSON.parse\<close>, \<open>Date.parse\<close>, \<open>new URL\<close>, \<open>localeCompare\<close>, vendors, the operating
  system, the clock) is an argument of the definitions that use it, and what is assumed of it is a premise of
  the theorem that needs it.

  \<^bold>\<open>The program and how its parts interact.\<close>  A request enters through the HTTP interface.  The planes
  orchestrator (\<open>orchestrator.ts\<close>) walks seven planes, asks the MI9 gate (\<open>governance/mi9-gate.ts\<close>) for a
  verdict, appends to the hash-chained audit log (\<open>audit/hash-chain.ts\<close>) and holds answers that need a
  co-signature in the co-sign store.  The model exchange (\<open>model-exchange/\<close>) and its successor in the runtime
  (\<open>runtime/router/\<close>, \<open>runtime/api/pipeline.ts\<close>) filter a catalogue of engines by policy, rank them, pass the same
  gate, try them in order and write ledgers and audit records.  The mandated executor (\<open>runtime/executor/\<close>)
  actuates on a host: signed mandates and one-shot approvals, a journal, leases, STOP and receipts.  The
  automation pipeline (\<open>runtime/automation/\<close>) runs development missions under leases, budgets and an effect
  policy over the actions of an agent.  The mission store keeps findings and a hash-linked fabric of events.
  R-Sentinel polls metrics, raises alerts and steps down capabilities.

  \<^bold>\<open>Foundations.\<close>
  \<^item> \<open>RonorPrelude\<close>: JavaScript numbers as rationals with infinities and NaN, SQL rows, option values, the
    collections of hints, and the locale \<open>severity_scale\<close>.  \<open>Json\<close>, \<open>Canonical\<close>: JSON values, their text, and the
    canonical forms that are hashed or signed (\<open>executor/canonical.ts\<close>, \<open>canonicalStringify\<close>).
  \<^item> \<open>HashLink\<close>: the locale \<open>hash_linked\<close> of logs whose entries repeat the previous digest; it is interpreted
    on the audit chain and on the mission fabric.  \<open>Leases\<close>: the locale \<open>exclusive_lease\<close>, interpreted on the
    in-memory lease manager and on the executor's journal.  \<open>severity_scale\<close> is interpreted on verdicts and on
    alert bands.
  \<^item> \<open>Regex\<close>: ECMAScript matching with ordered alternatives, greedy repetition and backtracking.

  \<^bold>\<open>Governance.\<close>
  \<^item> \<open>Mi9Gate\<close>, \<open>Mi9Shipped\<close>, \<open>Mi9Facts\<close>: the nine gates, the shipped policy, and that the verdict is the
    strictest finding.
  \<^item> \<open>AuditChain\<close>, \<open>AuditFacts\<close>: the table \<open>audit_chain\<close> as rows; histories verify, a changed past is found.
  \<^item> \<open>CosignStore\<close>, \<open>PlanesRuntime\<close>, \<open>PlanesFacts\<close>: an answer leaves as the recorded verdict
    decides, or in full when a step of governance throws or enforcement is off; a held one leaves once and
    after a co-signature.

  \<^bold>\<open>Actuation.\<close>
  \<^item> \<open>Mandate\<close>, \<open>MandateFacts\<close>: mandates, approvals and typed actions.  \<open>ExecCatalog\<close>, \<open>ExecJournal\<close>,
    \<open>JournalFacts\<close>: the allowlist and the journal's tables.
  \<^item> \<open>Runner\<close>, \<open>Executor\<close>: plans run on the host; \<open>execute\<close> split where it awaits, as the step relation
    \<open>exec_step\<close> over any number of interleaved calls and processes.
  \<^item> \<open>ExecutorFacts\<close>, \<open>ReceiptFacts\<close>, \<open>ExecutorSpec\<close>, \<open>ExecutorDemo\<close>: effects are authorized and at most one per
    approval, STOP starts nothing, receipts attest what ran, a run settles its row once with its
    result, and every step refines an abstract authority that
    knows neither journal nor processes; witnesses.

  \<^bold>\<open>Exchanges.\<close>
  \<^item> \<open>ExchangePolicy\<close>, \<open>ExchangeEngines\<close>, \<open>WorkLedger\<close>, \<open>ModelExchange\<close>, \<open>ExchangeFacts\<close>: the directory
    \<open>model-exchange/\<close> from policy to ledger.
  \<^item> \<open>RuntimeCatalogue\<close>, \<open>RuntimeRouter\<close>, \<open>RuntimeExchange\<close>: the runtime's catalogue entry by entry, credential
    rules, telemetry windows, policy rules P0 to P9, scores, ranking and the bounded fallback loop.
    \<open>RuntimeExchangeFacts\<close>: the filter is one predicate, the loop is a bounded walk; \<open>RuntimeDemo\<close>: witnesses.
  \<^item> \<open>RequestInput\<close>: the sanitiser and the classifier of queries.  \<open>RuntimeLedger\<close>: work, attempt and value rows.
  \<^item> \<open>RuntimePipeline\<close>: the governed path of a query with its single exit.  \<open>RuntimePipelineFacts\<close>: no engine
    before sanitiser, policy and gate; what a response leaves in ledger and audit
    chain, whichever writes throw; histories of queries.

  \<^bold>\<open>Missions and automation.\<close>
  \<^item> \<open>MissionStore\<close>, \<open>MissionFacts\<close>, \<open>OperatorLoop\<close>: missions, their fabric with optimistic concurrency and
    what an undefined member does to it, the operator's tick.
  \<^item> \<open>ModelBudget\<close>, \<open>BudgetFacts\<close>: signed budgets and reservations; the ceiling holds in every history.
  \<^item> \<open>RunLease\<close>, \<open>RunLeaseFacts\<close>: runs, fenced leases, reauthorization, recovery.
  \<^item> \<open>AutoRunner\<close>, \<open>AutoRunnerFacts\<close>, \<open>AutoRunnerDemo\<close>: the whole of \<open>runExecutiveMission\<close> as actions over a
    log of adapter calls, with a Hoare logic for them.
  \<^item> \<open>Diagnostics\<close>, \<open>WorkspaceEscape\<close>, \<open>EffectPolicy\<close>, \<open>EffectFacts\<close>, \<open>EffectDemo\<close>, \<open>PendingActions\<close>: what may leave
    a failed run, and which pending actions of an agent are admitted.

  \<^bold>\<open>Monitoring.\<close>
  \<^item> \<open>Sentinel\<close>, \<open>Forecaster\<close>, \<open>SentinelPlane\<close> with \<open>SentinelFacts\<close>, \<open>ForecastFacts\<close>, \<open>SentinelPlaneFacts\<close>: ring
    buffers, hysteresis, the degradation ladder, the regression, and histories of polls.

  \<^bold>\<open>How the model corresponds to the code.\<close>  A definition carries the name of the function it translates;
  a record or datatype has the fields or alternatives of the interface or union, with a short prefix.  An
  SQLite table is the list of its rows in insertion order, an \<open>AUTOINCREMENT\<close> key its high-water mark.  A throw
  is the left side of a sum, an early return a branch.  Of the awaiting code the mandated executor is split where it
  awaits, and the mission runner where it calls an adapter: what others do meanwhile is a step of the relation
  or an argument.  The request paths (\<open>process\<close>, \<open>runUnifiedQuery\<close>, \<open>executeExchange\<close>, \<open>runQueryPipeline\<close>) are
  one step each: requests follow one another and do not interleave at their awaits.  A write that may throw
  inside a \<open>try\<close> is a write with a fault chosen by the environment: the writes of the pipeline's exit, the
  audit insert and the hold of the planes orchestrator.  A message that interpolates values is a
  constructor with those values where the message is not itself compared.  Costs, scores and latencies are
  exact rationals that are rounded where the code rounds (\<open>toFixed\<close>, \<open>Math.round\<close>); the rounding of binary
  floating point is not modelled.  Text is a list of characters, that is of UTF-16 code units below 256; what the
  sanitiser does to characters above (bidirectional and zero-width ones) does not arise.  Signed JSON enters as
  typed records, so extra or ill-typed members are outside the model.  The table of reauthorizations is fixed
  during a history of runs; the legacy reconciliation that writes it is not modelled.

  \<^bold>\<open>Bounds and termination.\<close>  No operation is modelled with fuel that could run out.  The repetition of a
  regular expression is bounded by its minimum plus the characters left, which is exact because a repetition
  beyond the minimum consumes one.  Loops over ids that might form a cycle (the active branch of a
  conversation, shared references in a canonical text) terminate because a visited id stops them, as in the
  code.

  \<^bold>\<open>Findings.\<close>  Where the model shows that the code does something else than it says, a lemma states it next
  to the component it concerns (for the runtime, in the theories whose names end in \<open>Demo\<close>).

  \<^bold>\<open>Not modelled.\<close>  HTTP routing, authentication middleware and rendering of responses; the wire formats of
  vendors, of Qdrant, Supabase and R2; processes, files and worktrees around the automation pipeline beyond
  what its runner receives from them; Telegram and web clients; logging, start-up and deployment; the Python
  services and archived programs.  They are input and output around the modelled logic, or other programs.
\<close>

end
